(* ===== verification/Prelude.thy ===== *)
theory Prelude
  imports Main "HOL-Library.Finite_Map" "HOL-Library.List_Lexorder" "HOL-Library.Char_ord"
begin

text \<open>
  Shared ground of the development: the Go values that travel in Vault payloads, Go's
  \<open>(value, error)\<close> results and panics, and the effect type of the operator's code.

  \<^item> A payload \<open>map[string]interface{}\<close> is a finite map \<open>gmap\<close> into \<open>gval\<close>, one
    constructor per dynamic Go type that the sources store in an interface value, so that
    \<open>reflect.DeepEqual\<close> (which compares dynamic types first) is equality of the model.
  \<^item> A Go function returning an error is a value of \<open>'a res\<close>; a failed type assertion or
    a nil dereference is \<open>Panic\<close>, which no error branch of the sources catches.
  \<^item> Code with effects is a function on a \<open>world\<close>: the object being reconciled and the
    sequence of calls made so far to Vault, to the Kubernetes API and to the clock.
\<close>

named_theorems go_simps \<open>equations that unfold the effect combinators\<close>
named_theorems emits_intros \<open>rules that bound the calls an effect may make\<close>

section \<open>Go values\<close>

datatype gval =
    VNil
  | VStr string
  | VBool bool
  | VInt int
  | VNum string
  | VList "gval list"
  | VMap "(string, gval) fmap"
  | VStrs "string list option"
  | VStrMap "(string, string) fmap option"
  | VStrPtr "string option"
  | VDur int
  | VTyped string gval

type_synonym gmap = "(string, gval) fmap"

text \<open>
  \<open>VNum\<close> is \<open>json.Number\<close> (the Vault client decodes numbers so), \<open>VInt\<close> a Go \<open>int\<close>,
  \<open>VList\<close> a \<open>[]interface{}\<close>, \<open>VMap\<close> a \<open>map[string]interface{}\<close>, \<open>VStrs\<close> a
  \<open>[]string\<close> (\<open>None\<close> is the nil slice, which \<open>DeepEqual\<close> tells from the empty one),
  \<open>VStrMap\<close> a \<open>map[string]string\<close>, \<open>VStrPtr\<close> a \<open>*string\<close>, \<open>VDur\<close> a
  \<open>metav1.Duration\<close> in nanoseconds, \<open>VTyped t v\<close> a value of any other Go type \<open>t\<close> (a named
  string type, an \<open>int64\<close>, a pointer), \<open>v\<close> its contents.

  \<open>json_value\<close> holds of the values that decoding a JSON response can produce: no Go
  \<open>int\<close>, no typed slice, no typed map, no pointer.
\<close>

primrec json_value :: "gval \<Rightarrow> bool" where
  "json_value VNil = True"
| "json_value (VStr s) = True"
| "json_value (VBool b) = True"
| "json_value (VInt i) = False"
| "json_value (VNum s) = True"
| "json_value (VList xs) = list_all id (map json_value xs)"
| "json_value (VMap m) = fmpred (\<lambda>_ b. b) (fmmap json_value m)"
| "json_value (VStrs xs) = False"
| "json_value (VStrMap m) = False"
| "json_value (VStrPtr p) = False"
| "json_value (VDur d) = False"
| "json_value (VTyped t v) = False"

text \<open>An \<open>int64\<close>, a string of a named type, and a pointer (nil or to a value).\<close>

abbreviation VInt64 :: "int \<Rightarrow> gval" where
  "VInt64 i \<equiv> VTyped ''int64'' (VInt i)"

abbreviation VNamed :: "string \<Rightarrow> string \<Rightarrow> gval" where
  "VNamed t s \<equiv> VTyped t (VStr s)"

abbreviation VPtr :: "string \<Rightarrow> gval option \<Rightarrow> gval" where
  "VPtr t v \<equiv> VTyped (CHR ''*'' # t) (case v of None \<Rightarrow> VNil | Some x \<Rightarrow> x)"

definition json_object :: "gmap \<Rightarrow> bool" where
  "json_object m \<longleftrightarrow> json_value (VMap m)"

lemma json_object_lookup: "json_object m \<Longrightarrow> fmlookup m k = Some v \<Longrightarrow> json_value v"
  by (auto simp: json_object_def fmpred_iff)

lemma json_objectI: "(\<And>k v. fmlookup m k = Some v \<Longrightarrow> json_value v) \<Longrightarrow> json_object m"
  by (auto simp: json_object_def fmpred_iff)

text \<open>A map that stores a value no JSON response can hold differs from every response.\<close>

lemma not_json_object:
  "fmlookup m k = Some v \<Longrightarrow> \<not> json_value v \<Longrightarrow> json_object p \<Longrightarrow> m \<noteq> p"
  using json_object_lookup by blast

section \<open>Errors and panics\<close>

datatype error =
    ErrMsg string
  | VaultResponseError int string
  | KubeNotFound string
  | OtherErr string

fun error_text :: "error \<Rightarrow> string" where
  "error_text (ErrMsg m) = m"
| "error_text (VaultResponseError c m) = m"
| "error_text (KubeNotFound m) = m"
| "error_text (OtherErr m) = m"

fun IsNotFound :: "error \<Rightarrow> bool" where
  "IsNotFound (KubeNotFound m) = True"
| "IsNotFound _ = False"

fun status_code :: "error \<Rightarrow> int option" where
  "status_code (VaultResponseError c m) = Some c"
| "status_code _ = None"

datatype 'a res = Ok 'a | Err error | Panic string

fun is_ok :: "'a res \<Rightarrow> bool" where
  "is_ok (Ok x) = True"
| "is_ok _ = False"

fun of_sum :: "error + 'a \<Rightarrow> 'a res" where
  "of_sum (Inl e) = Err e"
| "of_sum (Inr x) = Ok x"

text \<open>The errors that a sequence of checks returned (\<open>multierror.Append\<close> skips nil).\<close>

primrec somes :: "'a option list \<Rightarrow> 'a list" where
  "somes [] = []"
| "somes (x # xs) = (case x of None \<Rightarrow> somes xs | Some e \<Rightarrow> e # somes xs)"

lemma somes_Nil_iff [simp]: "somes xs = [] \<longleftrightarrow> (\<forall>x \<in> set xs. x = None)"
  by (induction xs) (auto split: option.split)

declare somes.simps [simp del]

end
