(* ===== verification/GoStrings.thy ===== *)
theory GoStrings
  imports Prelude
begin

text \<open>
  The functions of Go's \<open>strings\<close> and \<open>time\<close> packages that the operator uses, on byte
  strings, and the operator's \<open>CleansePath\<close> on top of them. Every caller passes a
  non-empty pattern to \<open>ReplaceAll\<close> and \<open>ReplaceFirst\<close>, so the case of the empty pattern
  (where Go inserts between characters) is not modelled: they return the input there.
\<close>

section \<open>strings\<close>

fun strip_prefix :: "string \<Rightarrow> string \<Rightarrow> string option" where
  "strip_prefix [] s = Some s"
| "strip_prefix (p # ps) [] = None"
| "strip_prefix (p # ps) (c # cs) = (if p = c then strip_prefix ps cs else None)"

lemma strip_prefix_Some_iff: "strip_prefix p s = Some r \<longleftrightarrow> s = p @ r"
  by (induction p s rule: strip_prefix.induct) auto

lemma strip_prefix_None_iff: "strip_prefix p s = None \<longleftrightarrow> (\<forall>r. s \<noteq> p @ r)"
  by (metis not_Some_eq strip_prefix_Some_iff)

lemma strip_prefix_append [simp]: "strip_prefix p (p @ r) = Some r"
  by (simp add: strip_prefix_Some_iff)

lemma strip_prefix_length:
  "strip_prefix p s = Some r \<Longrightarrow> length s = length p + length r"
  by (simp add: strip_prefix_Some_iff)

function ReplaceAll :: "string \<Rightarrow> string \<Rightarrow> string \<Rightarrow> string" where
  "ReplaceAll [] old new = []"
| "ReplaceAll (c # cs) old new =
     (case strip_prefix old (c # cs) of
        Some rest \<Rightarrow> if old = [] then c # cs else new @ ReplaceAll rest old new
      | None \<Rightarrow> c # ReplaceAll cs old new)"
  by pat_completeness auto
termination
  by (relation "measure (\<lambda>(s, old, new). length s)")
    (auto dest!: strip_prefix_length simp: neq_Nil_conv)

fun ReplaceFirst :: "string \<Rightarrow> string \<Rightarrow> string \<Rightarrow> string" where
  "ReplaceFirst [] old new = []"
| "ReplaceFirst (c # cs) old new =
     (case strip_prefix old (c # cs) of
        Some rest \<Rightarrow> if old = [] then c # cs else new @ rest
      | None \<Rightarrow> c # ReplaceFirst cs old new)"

fun Contains :: "string \<Rightarrow> string \<Rightarrow> bool" where
  "Contains s [] = True"
| "Contains [] (p # ps) = False"
| "Contains (c # cs) p = (strip_prefix p (c # cs) \<noteq> None \<or> Contains cs p)"

definition HasSuffix :: "string \<Rightarrow> string \<Rightarrow> bool" where
  "HasSuffix s suf \<longleftrightarrow> strip_prefix (rev suf) (rev s) \<noteq> None"

definition TrimPrefix :: "string \<Rightarrow> string \<Rightarrow> string" where
  "TrimPrefix s p = (case strip_prefix p s of Some r \<Rightarrow> r | None \<Rightarrow> s)"

text \<open>\<open>strings.Trim(s, cutset)\<close> for a cutset of one character.\<close>

definition Trim :: "string \<Rightarrow> char \<Rightarrow> string" where
  "Trim s c = rev (dropWhile (\<lambda>x. x = c) (rev (dropWhile (\<lambda>x. x = c) s)))"

text \<open>\<open>strings.ToLower\<close> on ASCII strings (the kinds of the operator's API).\<close>

definition lower_char :: "char \<Rightarrow> char" where
  "lower_char c = (let n = of_char c :: nat in
     if 65 \<le> n \<and> n \<le> 90 then char_of (n + 32) else c)"

definition ToLower :: "string \<Rightarrow> string" where
  "ToLower s = map lower_char s"

lemma Contains_iff: "Contains s p \<longleftrightarrow> (\<exists>a b. s = a @ p @ b)"
proof (induction s p rule: Contains.induct)
  case (3 c cs p ps)
  show ?case
  proof
    assume "Contains (c # cs) (p # ps)"
    then consider r where "c # cs = (p # ps) @ r" | "Contains cs (p # ps)"
      by (auto simp: strip_prefix_Some_iff split: if_splits)
    then show "\<exists>a b. c # cs = a @ (p # ps) @ b"
    proof cases
      case 1
      then show ?thesis by (metis append_Nil)
    next
      case 2
      then obtain a b where "cs = a @ (p # ps) @ b" using "3.IH" by blast
      then show ?thesis by (metis append_Cons)
    qed
  next
    assume "\<exists>a b. c # cs = a @ (p # ps) @ b"
    then obtain a b where eq: "c # cs = a @ (p # ps) @ b" by blast
    show "Contains (c # cs) (p # ps)"
    proof (cases a)
      case Nil
      then show ?thesis using eq by simp
    next
      case (Cons x xs)
      then have "Contains cs (p # ps)" using eq "3.IH" by auto
      then show ?thesis by simp
    qed
  qed
qed auto

lemma ReplaceAll_id: "\<not> Contains s old \<Longrightarrow> ReplaceAll s old new = s"
proof (induction s old new rule: ReplaceAll.induct)
  case (2 c cs old new)
  then have "strip_prefix old (c # cs) = None" and "\<not> Contains cs old"
    by (cases old; simp)+
  then show ?case using "2.IH"(1) by simp
qed simp

text \<open>The first match is at the end of \<open>a @ old\<close> when no earlier match exists.\<close>

lemma no_early_match:
  assumes "old \<noteq> []" and "\<not> Contains (butlast ((x # xs) @ old)) old"
  shows "strip_prefix old (x # xs @ old @ b) = None"
proof (rule ccontr)
  assume "strip_prefix old (x # xs @ old @ b) \<noteq> None"
  then obtain r where r: "x # xs @ old @ b = old @ r"
    by (auto simp: strip_prefix_Some_iff)
  have split: "x # xs @ old @ b = butlast ((x # xs) @ old) @ last old # b"
    using assms(1) by (simp add: butlast_append)
  have "length old \<le> length (butlast ((x # xs) @ old))" by simp
  then have "take (length old) (x # xs @ old @ b) = take (length old) (butlast ((x # xs) @ old))"
    unfolding split by simp
  with r have "butlast ((x # xs) @ old) = old @ drop (length old) (butlast ((x # xs) @ old))"
    by (metis append_eq_conv_conj append_take_drop_id)
  then show False using assms(2) by (metis Contains_iff append_Nil)
qed

lemma Contains_Cons: "p \<noteq> [] \<Longrightarrow> Contains (c # cs) p \<longleftrightarrow> strip_prefix p (c # cs) \<noteq> None \<or> Contains cs p"
  by (cases p) auto

lemma no_early_match_tl:
  "old \<noteq> [] \<Longrightarrow> \<not> Contains (butlast ((x # xs) @ old)) old \<Longrightarrow> \<not> Contains (butlast (xs @ old)) old"
  by (simp add: Contains_Cons)

lemma ReplaceFirst_at:
  "old \<noteq> [] \<Longrightarrow> \<not> Contains (butlast (a @ old)) old \<Longrightarrow> ReplaceFirst (a @ old @ b) old new = a @ new @ b"
proof (induction a)
  case Nil
  then show ?case by (cases old) auto
next
  case (Cons x xs)
  then show ?case using no_early_match no_early_match_tl by simp
qed

lemma ReplaceAll_at:
  "old \<noteq> [] \<Longrightarrow> \<not> Contains (butlast (a @ old)) old \<Longrightarrow>
     ReplaceAll (a @ old @ b) old new = a @ new @ ReplaceAll b old new"
proof (induction a)
  case Nil
  then show ?case by (cases old) auto
next
  case (Cons x xs)
  then show ?case using no_early_match no_early_match_tl by simp
qed

section \<open>CleansePath\<close>

definition CleansePath :: "string \<Rightarrow> string" where
  "CleansePath path = Trim (ReplaceAll path ''//'' ''/'') (CHR ''/'')"

lemma Trim_decomp0:
  "dropWhile (\<lambda>x. x = c) s = Trim s c @ rev (takeWhile (\<lambda>x. x = c) (rev (dropWhile (\<lambda>x. x = c) s)))"
proof -
  have "rev t = takeWhile P (rev t) @ dropWhile P (rev t)" for t :: string and P
    by simp
  then have "rev (rev t) = rev (dropWhile P (rev t)) @ rev (takeWhile P (rev t))" for t :: string and P
    by (simp flip: rev_append)
  then show ?thesis by (simp add: Trim_def)
qed

lemma Trim_hd: "Trim s c \<noteq> [] \<Longrightarrow> hd (Trim s c) \<noteq> c"
proof -
  assume ne: "Trim s c \<noteq> []"
  obtain t v where t: "t = dropWhile (\<lambda>x. x = c) s" and split: "t = Trim s c @ v"
    using Trim_decomp0 [of c s] by blast
  have "t \<noteq> []" using ne split by simp
  then have "hd t \<noteq> c" unfolding t by (rule hd_dropWhile [of "\<lambda>x. x = c"])
  then show ?thesis using split ne by simp
qed

lemma Trim_last: "Trim s c \<noteq> [] \<Longrightarrow> last (Trim s c) \<noteq> c"
proof -
  define t where "t = rev (dropWhile (\<lambda>x. x = c) s)"
  assume "Trim s c \<noteq> []"
  then have "dropWhile (\<lambda>x. x = c) t \<noteq> []" by (simp add: Trim_def t_def)
  then have "hd (dropWhile (\<lambda>x. x = c) t) \<noteq> c" by (rule hd_dropWhile [of "\<lambda>x. x = c"])
  then show ?thesis by (simp add: Trim_def t_def last_rev)
qed

lemma Trim_id: "s = [] \<or> hd s \<noteq> c \<and> last s \<noteq> c \<Longrightarrow> Trim s c = s"
proof (cases s)
  case (Cons x xs)
  assume "s = [] \<or> hd s \<noteq> c \<and> last s \<noteq> c"
  with Cons have h: "x \<noteq> c" and l: "hd (rev s) \<noteq> c" by (simp_all add: hd_rev del: rev.simps)
  have "dropWhile (\<lambda>y. y = c) (rev s) = rev s"
    using l Cons by (cases "rev s") auto
  then show ?thesis using h Cons by (simp add: Trim_def)
qed (simp add: Trim_def)

lemma Trim_idem [simp]: "Trim (Trim s c) c = Trim s c"
  by (rule Trim_id) (use Trim_hd Trim_last in blast)

text \<open>The decomposition of a string around its trimmed part.\<close>

lemma Trim_decomp: "\<exists>a b. s = a @ Trim s c @ b"
  using takeWhile_dropWhile_id [of "\<lambda>x. x = c" s] Trim_decomp0 [of c s] by metis

lemma Contains_Trim: "Contains (Trim s c) p \<Longrightarrow> Contains s p"
proof -
  obtain a b where s: "s = a @ Trim s c @ b" using Trim_decomp by blast
  assume "Contains (Trim s c) p"
  then obtain u v where "Trim s c = u @ p @ v" by (auto simp: Contains_iff)
  then have "s = (a @ u) @ p @ (v @ b)" using s by simp
  then show ?thesis by (metis Contains_iff)
qed

text \<open>
  One pass of \<open>ReplaceAll\<close> halves a run of slashes; it leaves no double slash exactly when
  no run was longer than two.
\<close>

lemma ReplaceAll_slash_hd:
  "ReplaceAll s ''//'' ''/'' = CHR ''/'' # r \<Longrightarrow> \<exists>r'. s = CHR ''/'' # r'"
  by (cases s) (auto split: option.splits if_splits simp: strip_prefix_Some_iff)

lemma ReplaceAll_no_double:
  "\<not> Contains s ''///'' \<Longrightarrow> \<not> Contains (ReplaceAll s ''//'' ''/'') ''//''"
proof (induction s "''//''" "''/''" rule: ReplaceAll.induct)
  case (2 c cs)
  show ?case
  proof (cases "strip_prefix ''//'' (c # cs)")
    case None
    let ?r = "ReplaceAll cs ''//'' ''/''"
    have eq: "ReplaceAll (c # cs) ''//'' ''/'' = c # ?r" using None by simp
    have "\<not> Contains cs ''///''" using "2.prems" by (simp add: Contains_Cons)
    then have ih: "\<not> Contains ?r ''//''" using "2.hyps"(1) [OF None] by simp
    have "strip_prefix ''//'' (c # ?r) = None"
    proof (rule ccontr)
      assume "strip_prefix ''//'' (c # ?r) \<noteq> None"
      then obtain r where "c # ?r = ''//'' @ r" by (auto simp only: strip_prefix_Some_iff not_None_eq)
      then have "c = CHR ''/''" "?r = CHR ''/'' # r" by simp_all
      then have "\<exists>r'. cs = CHR ''/'' # r'" using ReplaceAll_slash_hd by blast
      then show False using None \<open>c = CHR ''/''\<close> by auto
    qed
    then show ?thesis using ih eq by (simp add: Contains_Cons)
  next
    case (Some rest)
    let ?r = "ReplaceAll rest ''//'' ''/''"
    have s: "c # cs = ''//'' @ rest" using Some by (simp only: strip_prefix_Some_iff)
    have eq: "ReplaceAll (c # cs) ''//'' ''/'' = CHR ''/'' # ?r" using Some by simp
    have nc: "\<not> Contains rest ''///''" using "2.prems" s by (auto simp: Contains_Cons)
    then have ih: "\<not> Contains ?r ''//''" using "2.hyps"(2) [OF Some] by simp
    have "strip_prefix ''//'' (CHR ''/'' # ?r) = None"
    proof (rule ccontr)
      assume "strip_prefix ''//'' (CHR ''/'' # ?r) \<noteq> None"
      then obtain r where "CHR ''/'' # ?r = ''//'' @ r" by (auto simp only: strip_prefix_Some_iff not_None_eq)
      then have "?r = CHR ''/'' # r" by simp
      then obtain r' where "rest = CHR ''/'' # r'" using ReplaceAll_slash_hd by blast
      then have "c # cs = [] @ ''///'' @ r'" using s by simp
      then show False using "2.prems" by (metis Contains_iff)
    qed
    then show ?thesis using ih eq by (simp add: Contains_Cons)
  qed
qed simp

text \<open>
  A path without a run of three slashes is normalised by \<open>CleansePath\<close>: the result
  neither starts nor ends with a slash, holds no double slash, and cleansing it again
  changes nothing, so a path read back from the API is stable.
\<close>

theorem CleansePath_normal_form:
  assumes "\<not> Contains p ''///''"
  shows "strip_prefix ''/'' (CleansePath p) = None \<and> \<not> HasSuffix (CleansePath p) ''/'' \<and>
    \<not> Contains (CleansePath p) ''//'' \<and> CleansePath (CleansePath p) = CleansePath p"
proof -
  let ?q = "CleansePath p"
  have hd: "?q \<noteq> [] \<Longrightarrow> hd ?q \<noteq> CHR ''/''" and last: "?q \<noteq> [] \<Longrightarrow> last ?q \<noteq> CHR ''/''"
    unfolding CleansePath_def by (rule Trim_hd, assumption) (rule Trim_last, assumption)
  have nd: "\<not> Contains ?q ''//''"
    unfolding CleansePath_def using ReplaceAll_no_double [OF assms] Contains_Trim by blast
  have "CleansePath ?q = ?q"
    unfolding CleansePath_def [of ?q] ReplaceAll_id [OF nd] by (rule Trim_id) (use hd last in blast)
  moreover have "strip_prefix ''/'' ?q = None" using hd by (cases ?q) auto
  moreover have "\<not> HasSuffix ?q ''/''"
    using last by (cases ?q rule: rev_cases) (auto simp: HasSuffix_def)
  ultimately show ?thesis using nd by blast
qed

theorem CleansePath_normal_form_witness:
  "\<not> Contains ''/kv//team/'' ''///'' \<and> CleansePath ''/kv//team/'' = ''kv/team'' \<and>
   CleansePath (CleansePath ''/kv//team/'') = CleansePath ''/kv//team/''"
  using CleansePath_normal_form [of "''/kv//team/''"] by (simp add: CleansePath_def Trim_def)

text \<open>
  Whether the user writes the mount path with or without a trailing slash, the object
  ends up at the same Vault path.
\<close>

theorem CleansePath_trailing_slash:
  assumes "\<not> Contains (m @ ''/'') ''//''" and "\<not> Contains (''/'' @ n) ''//''"
  shows "CleansePath ((m @ ''/'') @ ''/'' @ n) = CleansePath (m @ ''/'' @ n)"
proof -
  have n: "\<not> Contains n ''//''" using assms(2) by (simp add: Contains_Cons)
  have "ReplaceAll (m @ ''//'' @ n) ''//'' ''/'' = m @ ''/'' @ ReplaceAll n ''//'' ''/''"
    by (rule ReplaceAll_at) (use assms(1) in \<open>simp_all add: butlast_append\<close>)
  moreover have "ReplaceAll (m @ ''/'' @ n) ''//'' ''/'' = m @ ''/'' @ n"
  proof (rule ReplaceAll_id)
    show "\<not> Contains (m @ ''/'' @ n) ''//''"
      using assms
    proof (induction m)
      case (Cons x xs)
      then show ?case by (cases xs) (auto simp: Contains_Cons)
    qed simp
  qed
  ultimately show ?thesis using ReplaceAll_id [OF n] by (simp add: CleansePath_def)
qed

theorem CleansePath_trailing_slash_witness:
  "CleansePath ((''kv/team'' @ ''/'') @ ''/'' @ ''pw'') = ''kv/team/pw''"
  using CleansePath_trailing_slash [of "''kv/team''" "''pw''"] by (simp add: CleansePath_def Trim_def)

text \<open>A run of three slashes survives as a double slash: one pass is not enough there.\<close>

lemma CleansePath_triple: "CleansePath ''a///b'' = ''a//b''"
  by (simp add: CleansePath_def Trim_def)

section \<open>time\<close>

text \<open>Durations and times are in nanoseconds; a difference saturates at 64 bits.\<close>

definition maxDuration :: int where
  "maxDuration = 2 ^ 63 - 1"

definition minDuration :: int where
  "minDuration = - (2 ^ 63)"

definition time_Sub :: "int \<Rightarrow> int \<Rightarrow> int" where
  "time_Sub t u = max minDuration (min maxDuration (t - u))"

definition Second :: int where
  "Second = 1000000000"

definition digit_char :: "nat \<Rightarrow> char" where
  "digit_char d = char_of (48 + d)"

text \<open>\<open>strconv.Itoa\<close> and \<open>Duration.String\<close>.\<close>

fun nat_string :: "nat \<Rightarrow> string" where
  "nat_string n = (if n < 10 then [digit_char n] else nat_string (n div 10) @ [digit_char (n mod 10)])"

declare nat_string.simps [simp del]

definition int_string :: "int \<Rightarrow> string" where
  "int_string i = (if i < 0 then CHR ''-'' # nat_string (nat (- i)) else nat_string (nat i))"

primrec fixed_digits :: "nat \<Rightarrow> nat \<Rightarrow> string" where
  "fixed_digits 0 n = []"
| "fixed_digits (Suc k) n = fixed_digits k (n div 10) @ [digit_char (n mod 10)]"

text \<open>The fraction after the point, without trailing zeros, nothing if it is zero.\<close>

definition fmtFrac :: "nat \<Rightarrow> nat \<Rightarrow> string" where
  "fmtFrac v prec =
     (let digits = rev (dropWhile (\<lambda>c. c = CHR ''0'') (rev (fixed_digits prec (v mod 10 ^ prec))))
      in if digits = [] then [] else CHR ''.'' # digits)"

definition Duration_String :: "int \<Rightarrow> string" where
  "Duration_String d =
     (let u = nat \<bar>d\<bar>; s = u div 1000000000; m = s div 60; h = m div 60 in
      (if d < 0 then ''-'' else []) @
      (if u = 0 then ''0s''
       else if u < 1000 then nat_string u @ ''ns''
       else if u < 1000000 then nat_string (u div 1000) @ fmtFrac u 3 @ [char_of (0xC2::nat), char_of (0xB5::nat)] @ ''s''
       else if u < 1000000000 then nat_string (u div 1000000) @ fmtFrac u 6 @ ''ms''
       else (if m > 0 then (if h > 0 then nat_string h @ ''h'' else []) @ nat_string (m mod 60) @ ''m'' else []) @
            nat_string (s mod 60) @ fmtFrac u 9 @ ''s''))"

lemma fixed_digits_numeral [simp]:
  "fixed_digits (numeral k) n = fixed_digits (pred_numeral k) (n div 10) @ [digit_char (n mod 10)]"
  by (simp only: numeral_eq_Suc [of k] fixed_digits.simps)

lemma Duration_String_examples:
  "Duration_String 180000000000 = ''3m0s''" "Duration_String 1500000 = ''1.5ms''"
  "Duration_String 3661000000000 = ''1h1m1s''" "Duration_String 0 = ''0s''"
  by (simp_all add: Duration_String_def fmtFrac_def nat_string.simps digit_char_def char_of_def bit_0)

definition hex_digit :: "nat \<Rightarrow> char" where
  "hex_digit d = (if d < 10 then char_of (48 + d) else char_of (87 + d))"

end
