(* ===== verification/ApiTypes.thy ===== *)
theory ApiTypes
  imports GoStrings
begin

text \<open>
  The data the operator passes around: Kubernetes metadata and conditions, a Kubernetes
  secret, a Vault secret as the Vault client returns it, the authentication and connection
  sections shared by all custom resources (\<open>api/v1alpha1/utils/commons.go\<close>), the shape of
  a custom resource, and the \<open>RandomSecret\<close> resource, which other controllers read.

  A pointer field is an option. A \<open>LocalObjectReference\<close> is its name. Bytes are a
  \<open>string\<close> of 8-bit characters. Times and durations are integers in nanoseconds.
\<close>

section \<open>Kubernetes data\<close>

record OwnerReference =
  owner_Kind :: string
  owner_Name :: string
  owner_UID :: string

record ObjectMeta =
  meta_Name :: string
  meta_Namespace :: string
  meta_UID :: string
  meta_Generation :: int
  meta_DeletionTimestamp :: "int option"
  meta_Finalizers :: "string list"
  meta_OwnerReferences :: "OwnerReference list"
  meta_Annotations :: "(string, string) fmap option"
  meta_Labels :: "(string, string) fmap option"
  meta_ResourceVersion :: string

datatype condition_status = ConditionTrue | ConditionFalse | ConditionUnknown

record condition =
  cond_Type :: string
  cond_Status :: condition_status
  cond_ObservedGeneration :: int
  cond_LastTransitionTime :: int
  cond_Reason :: string
  cond_Message :: string

record k8s_secret =
  sec_Meta :: ObjectMeta
  sec_Type :: string
  sec_Data :: "(string, string) fmap"

text \<open>
  Reading a key of a possibly nil \<open>map[string]string\<close>, and the comma-ok form.
\<close>

definition str_at :: "(string, string) fmap \<Rightarrow> string \<Rightarrow> string" where
  "str_at m k = (case fmlookup m k of Some v \<Rightarrow> v | None \<Rightarrow> [])"

definition opt_lookup :: "(string, 'v) fmap option \<Rightarrow> string \<Rightarrow> 'v option" where
  "opt_lookup m k = (case m of Some m' \<Rightarrow> fmlookup m' k | None \<Rightarrow> None)"

section \<open>Vault data\<close>

record vault_secret =
  vs_LeaseID :: string
  vs_LeaseDuration :: int
  vs_Renewable :: bool
  vs_Data :: "gmap option"
  vs_Auth :: "string option" \<comment> \<open>the client token of the Auth section\<close>

type_synonym LocalObjectReference = string

record TLSConfig =
  Cacert :: "string option"
  TLSSecret :: "LocalObjectReference option"
  SkipVerify :: bool
  TLSServerName :: "string option"

record VaultConnection =
  vc_TLSConfig :: "TLSConfig option"
  vc_Address :: string
  vc_TimeOut :: "int option"
  vc_MaxRetries :: "int option"

record KubeAuthConfiguration =
  ServiceAccount :: "LocalObjectReference option"
  ka_Path :: string
  ka_Role :: string
  ka_Namespace :: string

record RootCredentialConfig =
  rc_VaultSecret :: "string option"
  rc_Secret :: "LocalObjectReference option"
  rc_RandomSecret :: "LocalObjectReference option"
  rc_PasswordKey :: string
  rc_UsernameKey :: string

section \<open>Custom resources\<close>

text \<open>
  Every resource is a kind, metadata, a spec and a status; every status has conditions.
  The sections that most specs share come first in the spec record.
\<close>

record ('s, 't) crd =
  TypeKind :: string
  Meta :: ObjectMeta
  Spec :: 's
  Status :: 't

record BaseStatus =
  Conditions :: "condition list"

type_synonym ('s, 'x) object = "('s, 'x BaseStatus_scheme) crd"

record BaseSpec =
  Connection :: "VaultConnection option"
  Authentication :: KubeAuthConfiguration

record NamedSpec = BaseSpec +
  Name :: string

record PathSpec = NamedSpec +
  Path :: string

definition GetName :: "('s, 't) crd \<Rightarrow> string" where
  "GetName d = meta_Name (Meta d)"

definition GetNamespace :: "('s, 't) crd \<Rightarrow> string" where
  "GetNamespace d = meta_Namespace (Meta d)"

definition GetConditions :: "('s, 'x) object \<Rightarrow> condition list" where
  "GetConditions m = Conditions (Status m)"

definition SetConditions :: "condition list \<Rightarrow> ('s, 'x) object \<Rightarrow> ('s, 'x) object" where
  "SetConditions cs m = m\<lparr>Status := (Status m)\<lparr>Conditions := cs\<rparr>\<rparr>"

definition GetVaultConnection :: "('y BaseSpec_scheme, 't) crd \<Rightarrow> VaultConnection option" where
  "GetVaultConnection d = Connection (Spec d)"

definition GetKubeAuthConfiguration :: "('y BaseSpec_scheme, 't) crd \<Rightarrow> KubeAuthConfiguration" where
  "GetKubeAuthConfiguration d = Authentication (Spec d)"

text \<open>\<open>instance.GetDeletionTimestamp().IsZero()\<close>\<close>

definition is_deleted :: "('s, 't) crd \<Rightarrow> bool" where
  "is_deleted d \<longleftrightarrow> meta_DeletionTimestamp (Meta d) \<noteq> None"

definition GetFinalizer :: "('s, 't) crd \<Rightarrow> string" where
  "GetFinalizer d = ''controller-'' @ ToLower (TypeKind d)"

text \<open>The name in Vault: \<open>spec.name\<close> when given, else \<open>metadata.name\<close>.\<close>

definition object_name :: "('y NamedSpec_scheme, 't) crd \<Rightarrow> string" where
  "object_name d = (if Name (Spec d) \<noteq> [] then Name (Spec d) else GetName d)"

section \<open>RandomSecret data\<close>

record VaultPasswordPolicy =
  PasswordPolicyName :: string
  InlinePasswordPolicy :: string

record RandomSecretSpec = PathSpec +
  SecretFormat :: VaultPasswordPolicy
  rs_RefreshPeriod :: "int option"
  SecretKey :: string
  calculatedSecret :: string
  spec_IsKVSecretsEngineV2 :: bool
  KvSecretRetainPolicy :: string

record RandomSecretStatus = BaseStatus +
  rs_LastVaultSecretUpdate :: "int option"

type_synonym RandomSecret = "(RandomSecretSpec, RandomSecretStatus) crd"

definition RandomSecret_GetPath :: "RandomSecret \<Rightarrow> string" where
  "RandomSecret_GetPath d =
     (if Name (Spec d) \<noteq> [] then CleansePath (Path (Spec d) @ ''/'' @ Name (Spec d))
      else CleansePath (Path (Spec d) @ ''/'' @ GetName d))"

text \<open>Frame facts of the accessors.\<close>

lemma conditions_get_set [simp]: "GetConditions (SetConditions cs m) = cs"
  by (simp add: GetConditions_def SetConditions_def)

lemma SetConditions_frame [simp]:
  "TypeKind (SetConditions cs m) = TypeKind m"
  "Meta (SetConditions cs m) = Meta m"
  "Spec (SetConditions cs m) = Spec m"
  "GetFinalizer (SetConditions cs m) = GetFinalizer m"
  by (simp_all add: SetConditions_def GetFinalizer_def)

lemma conditions_set_set [simp]: "SetConditions cs (SetConditions cs' m) = SetConditions cs m"
  by (simp add: SetConditions_def)

lemma conditions_set_get [simp]: "SetConditions (GetConditions m) m = m"
  by (simp add: SetConditions_def GetConditions_def)

end
