(* ===== verification/World.thy ===== *)
theory World
  imports ApiTypes
begin

text \<open>
  The effects of the operator. What it does to the outside is the list of calls it makes;
  what the outside answers is the record \<open>env\<close>, one function per service, each given the
  calls made before. The Vault server, the Kubernetes API server, the clock, the random
  source and the helper libraries that are not part of the repository are fields of
  \<open>env\<close>, so a statement proved for every \<open>env\<close> holds for every behaviour of them.

  The state of a reconcile is a \<open>world\<close>: the object in memory (which the code mutates, and
  which a successful update overwrites with the server's answer), the calls made so far,
  and the package-level cache of Vault clients.
\<close>

section \<open>Calls and answers\<close>

text \<open>
  The Vault client library's configuration and TLS options; \<open>cfg_Transport\<close> stands for the
  HTTP transport that the library builds from the options.
\<close>

record vault_tls =
  tls_CACert :: string
  tls_CACertBytes :: string
  tls_ClientCert :: string
  tls_ClientKey :: string
  tls_TLSServerName :: string
  tls_Insecure :: bool

record vault_config =
  cfg_Address :: string
  cfg_Timeout :: int
  cfg_MaxRetries :: int
  cfg_Transport :: string

record vault_client =
  client_Config :: vault_config
  client_Namespace :: string
  client_Token :: string

datatype 'o call =
    VaultRead vault_client string
  | VaultWrite vault_client string "gmap option"
  | VaultDelete vault_client string
  | VaultLookupSelf vault_client
  | VaultNewClient vault_config
  | KubeGetInstance string string
  | KubeUpdate 'o
  | KubeStatusUpdate 'o
  | KubeGetSecret string string
  | KubeCreateSecret k8s_secret
  | KubeUpdateSecret k8s_secret
  | KubeDeleteSecret string string
  | KubeGetRandomSecret string string
  | KubeListNamespaces string
  | KubeCreateToken string string int
  | RecordEvent string
  | TimeNow
  | RandIntn nat
  | WatchLifetime vault_client

record 'o env =
  vault_read :: "'o call list \<Rightarrow> vault_client \<Rightarrow> string \<Rightarrow> error + vault_secret option"
  vault_write :: "'o call list \<Rightarrow> vault_client \<Rightarrow> string \<Rightarrow> gmap option \<Rightarrow> error + vault_secret option"
  vault_delete :: "'o call list \<Rightarrow> vault_client \<Rightarrow> string \<Rightarrow> error + vault_secret option"
  vault_lookup_self :: "'o call list \<Rightarrow> vault_client \<Rightarrow> error option"
  vault_default_config :: vault_config
  vault_configure_tls :: "vault_config \<Rightarrow> vault_tls \<Rightarrow> vault_config"
  vault_new_client :: "'o call list \<Rightarrow> vault_config \<Rightarrow> error + vault_client"
  kube_new_clientset :: "error option"
  kube_get_instance :: "'o call list \<Rightarrow> string \<Rightarrow> string \<Rightarrow> error + 'o"
  kube_update :: "'o call list \<Rightarrow> 'o \<Rightarrow> error + 'o"
  kube_status_update :: "'o call list \<Rightarrow> 'o \<Rightarrow> error + 'o"
  kube_get_secret :: "'o call list \<Rightarrow> string \<Rightarrow> string \<Rightarrow> error + k8s_secret"
  kube_create_secret :: "'o call list \<Rightarrow> k8s_secret \<Rightarrow> error + k8s_secret"
  kube_update_secret :: "'o call list \<Rightarrow> k8s_secret \<Rightarrow> error + k8s_secret"
  kube_delete_secret :: "'o call list \<Rightarrow> string \<Rightarrow> string \<Rightarrow> error option"
  kube_get_randomsecret :: "'o call list \<Rightarrow> string \<Rightarrow> string \<Rightarrow> error + RandomSecret"
  label_selector :: "string \<Rightarrow> error + string"
  kube_list_namespaces :: "'o call list \<Rightarrow> string \<Rightarrow> error + string list"
  kube_create_token :: "'o call list \<Rightarrow> string \<Rightarrow> string \<Rightarrow> int \<Rightarrow> error + string"
  time_now :: "'o call list \<Rightarrow> int"
  rand_intn :: "'o call list \<Rightarrow> nat \<Rightarrow> nat"
  range_rank :: "'o call list \<Rightarrow> string \<Rightarrow> nat"
  os_env :: "string \<Rightarrow> string option"
  contains_finalizer :: "'o \<Rightarrow> string \<Rightarrow> bool"
  add_finalizer :: "'o \<Rightarrow> string \<Rightarrow> 'o"
  remove_finalizer :: "'o \<Rightarrow> string \<Rightarrow> 'o"

record 'o world =
  inst :: 'o
  calls :: "'o call list"
  client_cache :: "(string, vault_client) fmap"

type_synonym ('o, 'a) go = "'o world \<Rightarrow> 'a res \<times> 'o world"

section \<open>Sequencing\<close>

text \<open>
  \<open>bindG\<close> is the \<open>if err != nil \{ return err \}\<close> of the sources; \<open>handleG\<close> runs a handler
  on an error; a panic passes through both.
\<close>

definition retG :: "'a \<Rightarrow> ('o, 'a) go" where
  "retG x = (\<lambda>w. (Ok x, w))"

definition errG :: "error \<Rightarrow> ('o, 'a) go" where
  "errG e = (\<lambda>w. (Err e, w))"

definition panicG :: "string \<Rightarrow> ('o, 'a) go" where
  "panicG p = (\<lambda>w. (Panic p, w))"

definition bindG :: "('o, 'a) go \<Rightarrow> ('a \<Rightarrow> ('o, 'b) go) \<Rightarrow> ('o, 'b) go" where
  "bindG m f = (\<lambda>w. case m w of
      (Ok x, w') \<Rightarrow> f x w' | (Err e, w') \<Rightarrow> (Err e, w') | (Panic p, w') \<Rightarrow> (Panic p, w'))"

definition handleG :: "('o, 'a) go \<Rightarrow> (error \<Rightarrow> ('o, 'a) go) \<Rightarrow> ('o, 'a) go" where
  "handleG m h = (\<lambda>w. case m w of
      (Ok x, w') \<Rightarrow> (Ok x, w') | (Err e, w') \<Rightarrow> h e w' | (Panic p, w') \<Rightarrow> (Panic p, w'))"

text \<open>\<open>tryG m\<close> turns the error of \<open>m\<close> into a value, for \<open>x, err := m\<close> without a return.\<close>

definition tryG :: "('o, 'a) go \<Rightarrow> ('o, error + 'a) go" where
  "tryG m = handleG (bindG m (\<lambda>x. retG (Inr x))) (\<lambda>e. retG (Inl e))"

definition getG :: "('o, 'o) go" where
  "getG = (\<lambda>w. (Ok (inst w), w))"

definition modifyG :: "('o \<Rightarrow> 'o) \<Rightarrow> ('o, unit) go" where
  "modifyG f = (\<lambda>w. (Ok (), w\<lparr>inst := f (inst w)\<rparr>))"

text \<open>
  A call: ask the environment, with the calls so far, and record the call. The answer of a
  fallible service is a sum, which the caller inspects as the code inspects \<open>err\<close>.
\<close>

definition askG :: "'o call \<Rightarrow> ('o call list \<Rightarrow> 'a) \<Rightarrow> ('o, 'a) go" where
  "askG c answer = (\<lambda>w. (Ok (answer (calls w)), w\<lparr>calls := calls w @ [c]\<rparr>))"

text \<open>
  A Kubernetes write: the object in memory becomes the server's answer on success.
\<close>

definition kube_putG :: "'o call \<Rightarrow> ('o call list \<Rightarrow> error + 'o) \<Rightarrow> ('o, unit) go" where
  "kube_putG c answer = (\<lambda>w. case answer (calls w) of
      Inl e \<Rightarrow> (Err e, w\<lparr>calls := calls w @ [c]\<rparr>)
    | Inr o' \<Rightarrow> (Ok (), w\<lparr>inst := o', calls := calls w @ [c]\<rparr>))"

lemmas go_defs [go_simps] =
  retG_def errG_def panicG_def getG_def modifyG_def askG_def kube_putG_def

lemma go_runs:
  "retG x w = (Ok x, w)" "errG e w = (Err e, w)" "panicG p w = (Panic p, w)" "getG w = (Ok (inst w), w)"
  "modifyG f w = (Ok (), w\<lparr>inst := f (inst w)\<rparr>)"
  "askG c a w = (Ok (a (calls w)), w\<lparr>calls := calls w @ [c]\<rparr>)"
  by (simp_all add: go_defs)

lemma bindG_ret [simp]: "bindG (retG x) f = f x"
  by (simp add: bindG_def retG_def)

lemma bindG_err [simp]: "bindG (errG e) f = errG e"
  by (simp add: bindG_def errG_def)

lemma bindG_panic [simp]: "bindG (panicG p) f = panicG p"
  by (simp add: bindG_def panicG_def)

lemma handleG_err [simp]: "handleG (errG e) h = h e"
  by (simp add: handleG_def errG_def)

lemma handleG_ret [simp]: "handleG (retG x) h = retG x"
  by (simp add: handleG_def retG_def)

lemma bindG_assoc: "bindG (bindG m f) g = bindG m (\<lambda>x. bindG (f x) g)"
  by (rule ext) (simp add: bindG_def split: prod.split res.split)

text \<open>Running a bind once the first step is known.\<close>

lemma bindG_Ok [go_simps]: "m w = (Ok x, w') \<Longrightarrow> bindG m f w = f x w'"
  by (simp add: bindG_def)

lemma bindG_Err [go_simps]: "m w = (Err e, w') \<Longrightarrow> bindG m f w = (Err e, w')"
  by (simp add: bindG_def)

lemma bindG_Panic [go_simps]: "m w = (Panic p, w') \<Longrightarrow> bindG m f w = (Panic p, w')"
  by (simp add: bindG_def)

lemma bindG_cases:
  assumes "bindG m f w = (r, w'')"
  obtains (ok) x w' where "m w = (Ok x, w')" "f x w' = (r, w'')"
  | (err) e where "m w = (Err e, w'')" "r = Err e"
  | (panic) p where "m w = (Panic p, w'')" "r = Panic p"
  using assms by (cases "m w"; cases "fst (m w)") (auto simp: bindG_def)

lemma bindG_fst_OkE:
  assumes "fst (bindG m f w) = Ok r"
  obtains x w' where "fst (f x w') = Ok r"
  using assms that by (auto simp: bindG_def split: prod.splits res.splits)

text \<open>Steps with a known first effect, for symbolic evaluation from a given world.\<close>

lemma bindG_get [go_simps]: "bindG getG f w = f (inst w) w"
  by (simp add: bindG_def getG_def)

lemma bindG_ask [go_simps]:
  "bindG (askG c a) f w = f (a (calls w)) (w\<lparr>calls := calls w @ [c]\<rparr>)"
  by (simp add: bindG_def askG_def)

lemma bindG_modify [go_simps]: "bindG (modifyG g) f w = f () (w\<lparr>inst := g (inst w)\<rparr>)"
  by (simp add: bindG_def modifyG_def)

section \<open>Type assertions\<close>

text \<open>
  The assertions \<open>v.(map[string]interface\{\})\<close> and \<open>v.(string)\<close> without the comma-ok form:
  they panic on another dynamic type, and on the nil that a missing key reads as.
\<close>

definition as_map :: "gval option \<Rightarrow> gmap option" where
  "as_map v = (case v of Some (VMap m) \<Rightarrow> Some m | _ \<Rightarrow> None)"

definition as_string :: "gval option \<Rightarrow> string option" where
  "as_string v = (case v of Some (VStr s) \<Rightarrow> Some s | _ \<Rightarrow> None)"

definition assert_map :: "gval option \<Rightarrow> ('o, gmap) go" where
  "assert_map v = (case as_map v of Some m \<Rightarrow> retG m | None \<Rightarrow> panicG ''interface conversion'')"

definition assert_string :: "gval option \<Rightarrow> ('o, string) go" where
  "assert_string v = (case as_string v of Some s \<Rightarrow> retG s | None \<Rightarrow> panicG ''interface conversion'')"

lemma as_map_simps [simp]: "as_map (Some (VMap m)) = Some m" "as_map None = None"
  by (simp_all add: as_map_def)

lemma as_string_simps [simp]: "as_string (Some (VStr s)) = Some s" "as_string None = None"
  by (simp_all add: as_string_def)

lemma as_string_Some_iff: "as_string v = Some s \<longleftrightarrow> v = Some (VStr s)"
  by (simp add: as_string_def split: option.split gval.split)

lemma as_map_Some_iff: "as_map v = Some m \<longleftrightarrow> v = Some (VMap m)"
  by (simp add: as_map_def split: option.split gval.split)

section \<open>Ranging over a map\<close>

text \<open>
  Go leaves the order of \<open>range\<close> over a map open. The environment ranks the keys: every
  order is the order of some ranking, and every ranking gives each key exactly once.
\<close>

definition range_keys :: "(string \<Rightarrow> nat) \<Rightarrow> (string, 'v) fmap \<Rightarrow> string list" where
  "range_keys rank m = sort_key rank (sorted_list_of_fset (fmdom m))"

lemma range_keys [simp]:
  "set (range_keys rank m) = fset (fmdom m)" "distinct (range_keys rank m)"
  by (simp_all add: range_keys_def sorted_list_of_fset.rep_eq)

definition rangeG :: "'o env \<Rightarrow> (string, 'v) fmap \<Rightarrow> ('o, string list) go" where
  "rangeG E m = (\<lambda>w. (Ok (range_keys (range_rank E (calls w)) m), w))"

lemma bindG_range [go_simps]:
  "bindG (rangeG E m) f w = f (range_keys (range_rank E (calls w)) m) w"
  by (simp add: bindG_def rangeG_def)

section \<open>Bounding the calls\<close>

text \<open>
  \<open>keeps I P m\<close>: from an object in memory that satisfies \<open>I\<close>, whatever the environment
  answers, \<open>m\<close> only appends calls that satisfy \<open>P\<close> and leaves an object that satisfies
  \<open>I\<close>. Proved by rules that follow the syntax of the effect.
\<close>

definition keeps :: "('o \<Rightarrow> bool) \<Rightarrow> ('o call \<Rightarrow> bool) \<Rightarrow> ('o, 'a) go \<Rightarrow> bool" where
  "keeps I P m \<longleftrightarrow> (\<forall>w. I (inst w) \<longrightarrow>
     I (inst (snd (m w))) \<and> (\<exists>cs. calls (snd (m w)) = calls w @ cs \<and> list_all P cs))"

abbreviation emits :: "('o call \<Rightarrow> bool) \<Rightarrow> ('o, 'a) go \<Rightarrow> bool" where
  "emits P m \<equiv> keeps (\<lambda>_. True) P m"

lemma keepsE:
  assumes "keeps I P m" and "I (inst w)"
  obtains cs where "calls (snd (m w)) = calls w @ cs" "list_all P cs" "I (inst (snd (m w)))"
  using assms by (auto simp: keeps_def)

lemma emits_noneD: "emits (\<lambda>_. False) m \<Longrightarrow> calls (snd (m w)) = calls w"
  by (erule keepsE [where w = w]) (auto simp: list_all_iff)

lemma keeps_mono: "keeps I P m \<Longrightarrow> (\<And>c. P c \<Longrightarrow> Q c) \<Longrightarrow> keeps I Q m"
  unfolding keeps_def by (meson list.pred_mono_strong)

lemma keeps_ret [emits_intros]: "keeps I P (retG x)"
  by (simp add: keeps_def retG_def)

lemma keeps_err [emits_intros]: "keeps I P (errG e)"
  by (simp add: keeps_def errG_def)

lemma keeps_panic [emits_intros]: "keeps I P (panicG e)"
  by (simp add: keeps_def panicG_def)

lemma keeps_get [emits_intros]: "keeps I P getG"
  by (simp add: keeps_def getG_def)

lemma keeps_modify [emits_intros]: "(\<And>x. I x \<Longrightarrow> I (f x)) \<Longrightarrow> keeps I P (modifyG f)"
  by (simp add: keeps_def modifyG_def)

lemma keeps_ask [emits_intros]: "P c \<Longrightarrow> keeps I P (askG c answer)"
  by (simp add: keeps_def askG_def)

lemma keeps_put [emits_intros]:
  "P c \<Longrightarrow> (\<And>tr x. answer tr = Inr x \<Longrightarrow> I x) \<Longrightarrow> keeps I P (kube_putG c answer)"
  by (auto simp: keeps_def kube_putG_def split: sum.split)

lemma keeps_handler:
  assumes m: "keeps I P m" and f: "\<And>r. keeps I P (f r)"
  shows "keeps I P (\<lambda>w. case m w of (r, w') \<Rightarrow> f r w')"
  unfolding keeps_def
proof (intro allI impI)
  fix w :: "'a world"
  assume "I (inst w)"
  then obtain cs where cs: "calls (snd (m w)) = calls w @ cs" "list_all P cs" "I (inst (snd (m w)))"
    using m keepsE by blast
  then obtain ds where "calls (snd (f (fst (m w)) (snd (m w)))) = calls (snd (m w)) @ ds"
      "list_all P ds" "I (inst (snd (f (fst (m w)) (snd (m w)))))"
    using f keepsE by blast
  with cs show "I (inst (snd (case m w of (r, w') \<Rightarrow> f r w'))) \<and>
      (\<exists>cs. calls (snd (case m w of (r, w') \<Rightarrow> f r w')) = calls w @ cs \<and> list_all P cs)"
    by (auto simp: case_prod_beta)
qed

lemma bindG_alt: "bindG m f = (\<lambda>w. case m w of (r, w') \<Rightarrow>
    (case r of Ok x \<Rightarrow> f x | Err e \<Rightarrow> errG e | Panic p \<Rightarrow> panicG p) w')"
  by (rule ext) (simp add: bindG_def errG_def panicG_def split: prod.split res.split)

lemma handleG_alt: "handleG m h = (\<lambda>w. case m w of (r, w') \<Rightarrow>
    (case r of Ok x \<Rightarrow> retG x | Err e \<Rightarrow> h e | Panic p \<Rightarrow> panicG p) w')"
  by (rule ext) (simp add: handleG_def retG_def panicG_def split: prod.split res.split)

lemma keeps_bind [emits_intros]:
  "keeps I P m \<Longrightarrow> (\<And>x. keeps I P (f x)) \<Longrightarrow> keeps I P (bindG m f)"
  unfolding bindG_alt
  by (rule keeps_handler) (auto intro: keeps_err keeps_panic split: res.split)

lemma keeps_handle [emits_intros]:
  "keeps I P m \<Longrightarrow> (\<And>e. keeps I P (h e)) \<Longrightarrow> keeps I P (handleG m h)"
  unfolding handleG_alt
  by (rule keeps_handler) (auto intro: keeps_ret keeps_panic split: res.split)

lemma keeps_try [emits_intros]: "keeps I P m \<Longrightarrow> keeps I P (tryG m)"
  unfolding tryG_def by (intro emits_intros)

text \<open>What the object in memory satisfies is known after reading it.\<close>

lemma keeps_bind_get:
  "(\<And>x. I x \<Longrightarrow> keeps I P (f x)) \<Longrightarrow> keeps I P (bindG getG f)"
  by (simp add: keeps_def bindG_def getG_def)

lemma keeps_if [emits_intros]:
  "(b \<Longrightarrow> keeps I P m) \<Longrightarrow> (\<not> b \<Longrightarrow> keeps I P m') \<Longrightarrow> keeps I P (if b then m else m')"
  by simp

lemma keeps_option [emits_intros]:
  "(x = None \<Longrightarrow> keeps I P m) \<Longrightarrow> (\<And>y. x = Some y \<Longrightarrow> keeps I P (f y)) \<Longrightarrow>
     keeps I P (case x of None \<Rightarrow> m | Some y \<Rightarrow> f y)"
  by (cases x) simp_all

lemma keeps_sum [emits_intros]:
  "(\<And>e. x = Inl e \<Longrightarrow> keeps I P (f e)) \<Longrightarrow> (\<And>y. x = Inr y \<Longrightarrow> keeps I P (g y)) \<Longrightarrow>
     keeps I P (case x of Inl e \<Rightarrow> f e | Inr y \<Rightarrow> g y)"
  by (cases x) simp_all

lemma keeps_range [emits_intros]: "keeps I P (rangeG E m)"
  by (simp add: keeps_def rangeG_def)

lemma keeps_assert_map [emits_intros]: "keeps I P (assert_map v)"
  by (simp add: assert_map_def keeps_ret keeps_panic split: option.split)

lemma keeps_assert_string [emits_intros]: "keeps I P (assert_string v)"
  by (simp add: assert_string_def keeps_ret keeps_panic split: option.split)

lemma keeps_prod [emits_intros]:
  "(\<And>a b. x = (a, b) \<Longrightarrow> keeps I P (f a b)) \<Longrightarrow> keeps I P (case x of (a, b) \<Rightarrow> f a b)"
  by (cases x) simp


text \<open>
  \<open>allows I P m\<close>: the same bound on the calls, with nothing promised of the object left in
  memory. The last steps of a reconcile replace it by the server's answer.
\<close>

definition allows :: "('o \<Rightarrow> bool) \<Rightarrow> ('o call \<Rightarrow> bool) \<Rightarrow> ('o, 'a) go \<Rightarrow> bool" where
  "allows I P m \<longleftrightarrow> (\<forall>w. I (inst w) \<longrightarrow>
     (\<exists>cs. calls (snd (m w)) = calls w @ cs \<and> list_all P cs))"

lemma allows_keeps: "keeps J P m \<Longrightarrow> (\<And>x. I x \<Longrightarrow> J x) \<Longrightarrow> allows I P m"
  by (auto simp: allows_def keeps_def)

lemma allows_emits: "emits P m \<Longrightarrow> allows I P m"
  by (rule allows_keeps) simp_all

lemma allows_mono: "allows I P m \<Longrightarrow> (\<And>c. P c \<Longrightarrow> Q c) \<Longrightarrow> allows I Q m"
  unfolding allows_def by (meson list.pred_mono_strong)

lemma allowsD:
  assumes "allows I P m" and "I (inst w)"
  shows "\<exists>cs. calls (snd (m w)) = calls w @ cs \<and> list_all P cs"
  using assms by (simp add: allows_def)

lemma allows_bind:
  assumes m: "keeps I P m" and f: "\<And>x. allows I P (f x)"
  shows "allows I P (bindG m f)"
  unfolding allows_def
proof (intro allI impI)
  fix w :: "'a world"
  assume "I (inst w)"
  then obtain cs where cs: "calls (snd (m w)) = calls w @ cs" "list_all P cs" "I (inst (snd (m w)))"
    using m keepsE by blast
  show "\<exists>cs. calls (snd (bindG m f w)) = calls w @ cs \<and> list_all P cs"
  proof (cases "fst (m w)")
    case (Ok x)
    obtain ds where "calls (snd (f x (snd (m w)))) = calls (snd (m w)) @ ds" "list_all P ds"
      using allowsD [OF f cs(3)] by blast
    then show ?thesis using cs Ok by (cases "m w") (auto simp: bindG_def)
  qed (use cs in \<open>cases "m w", auto simp: bindG_def\<close>)+
qed

lemma allows_bind_get:
  "(\<And>x. I x \<Longrightarrow> allows I P (f x)) \<Longrightarrow> allows I P (bindG getG f)"
  by (simp add: allows_def bindG_get)

lemma allows_if:
  "(b \<Longrightarrow> allows I P m) \<Longrightarrow> (\<not> b \<Longrightarrow> allows I P m') \<Longrightarrow> allows I P (if b then m else m')"
  by simp

lemma allows_sum:
  "(\<And>e. x = Inl e \<Longrightarrow> allows I P (f e)) \<Longrightarrow> (\<And>y. x = Inr y \<Longrightarrow> allows I P (g y)) \<Longrightarrow>
     allows I P (case x of Inl e \<Rightarrow> f e | Inr y \<Rightarrow> g y)"
  by (cases x) simp_all

lemma allows_ret: "allows I P (retG x)"
  by (rule allows_emits) (rule keeps_ret)

text \<open>Calls that ask without changing anything in Vault or in the cluster.\<close>

fun is_query :: "'o call \<Rightarrow> bool" where
  "is_query (VaultRead cl p) = True"
| "is_query (VaultLookupSelf cl) = True"
| "is_query (KubeGetInstance ns n) = True"
| "is_query (KubeGetSecret ns n) = True"
| "is_query (KubeGetRandomSecret ns n) = True"
| "is_query (KubeListNamespaces sel) = True"
| "is_query (KubeCreateToken ns sa d) = True"
| "is_query TimeNow = True"
| "is_query (RandIntn n) = True"
| "is_query _ = False"

text \<open>A call that may change the Vault server: a write or a delete, with its path.\<close>

fun vault_mutation :: "'o call \<Rightarrow> string option" where
  "vault_mutation (VaultWrite cl p pl) = Some p"
| "vault_mutation (VaultDelete cl p) = Some p"
| "vault_mutation _ = None"

lemma is_query_no_mutation: "is_query c \<Longrightarrow> vault_mutation c = None"
  by (cases c) auto

end
