(* ===== verification/VaultUtils.thy ===== *)
theory VaultUtils
  imports World
begin

text \<open>
  Reading and writing Vault: \<open>api/v1alpha1/utils/vaultutils.go\<close> and
  \<open>vaultsecretobject.go\<close>. The argument \<open>cl\<close> is the client stored in the context under
  \<open>"vaultClient"\<close>. A result \<open>(None, False)\<close> is Go's \<open>nil, false, nil\<close>.
\<close>

definition writeWithResponse ::
  "'o env \<Rightarrow> vault_client \<Rightarrow> string \<Rightarrow> gmap option \<Rightarrow> ('o, vault_secret option) go" where
  "writeWithResponse E cl path payload =
     bindG (askG (VaultWrite cl path payload) (\<lambda>tr. vault_write E tr cl path payload))
       (\<lambda>r. case r of Inl err \<Rightarrow> errG err | Inr secret \<Rightarrow> retG secret)"

definition writePayload :: "'o env \<Rightarrow> vault_client \<Rightarrow> string \<Rightarrow> gmap option \<Rightarrow> ('o, unit) go" where
  "writePayload E cl path payload = bindG (writeWithResponse E cl path payload) (\<lambda>_. retG ())"

definition read :: "'o env \<Rightarrow> vault_client \<Rightarrow> string \<Rightarrow> ('o, gmap option \<times> bool) go" where
  "read E cl path =
     bindG (askG (VaultRead cl path) (\<lambda>tr. vault_read E tr cl path))
       (\<lambda>r. case r of
          Inl err \<Rightarrow> if status_code err = Some 404 \<or> status_code err = Some 204
                    then retG (None, False) else errG err
        | Inr None \<Rightarrow> retG (None, False)
        | Inr (Some secret) \<Rightarrow> retG (vs_Data secret, True))"

definition ReadSecret ::
  "'o env \<Rightarrow> vault_client \<Rightarrow> string \<Rightarrow> ('o, vault_secret option \<times> bool) go" where
  "ReadSecret E cl path =
     bindG (askG (VaultRead cl path) (\<lambda>tr. vault_read E tr cl path))
       (\<lambda>r. case r of
          Inl err \<Rightarrow> if status_code err = Some 404 then retG (None, False) else errG err
        | Inr None \<Rightarrow> retG (None, False)
        | Inr (Some secret) \<Rightarrow> if vs_Data secret = None then retG (None, False)
                             else retG (Some secret, True))"

definition ReadSecretWithPayload ::
  "'o env \<Rightarrow> vault_client \<Rightarrow> string \<Rightarrow> (string, string) fmap \<Rightarrow> ('o, vault_secret option \<times> bool) go" where
  "ReadSecretWithPayload E cl path payload =
     (let payloadi = Some (fmmap VStr payload) in
      bindG (askG (VaultWrite cl path payloadi) (\<lambda>tr. vault_write E tr cl path payloadi))
       (\<lambda>r. case r of
          Inl err \<Rightarrow> if status_code err = Some 404 then retG (None, False) else errG err
        | Inr None \<Rightarrow> retG (None, False)
        | Inr (Some secret) \<Rightarrow> if vs_Data secret = None then retG (None, False)
                             else retG (Some secret, True)))"

text \<open>\<open>VaultSecretEndpoint.GetSecret\<close>, given the object's request method, path and payload.\<close>

definition GetSecret ::
  "'o env \<Rightarrow> vault_client \<Rightarrow> string \<Rightarrow> string \<Rightarrow> (string, string) fmap \<Rightarrow>
     ('o, vault_secret option \<times> bool) go" where
  "GetSecret E cl requestMethod path payload =
     (if requestMethod = ''GET'' then ReadSecret E cl path
      else if requestMethod = ''POST'' then ReadSecretWithPayload E cl path payload
      else errG (ErrMsg (''unknown request method:'' @ requestMethod)))"

text \<open>The calls each of them may make.\<close>

lemma keeps_writeWithResponse [emits_intros]:
  "P (VaultWrite cl path payload) \<Longrightarrow> keeps I P (writeWithResponse E cl path payload)"
  unfolding writeWithResponse_def by (intro emits_intros)

lemma keeps_writePayload [emits_intros]:
  "P (VaultWrite cl path payload) \<Longrightarrow> keeps I P (writePayload E cl path payload)"
  unfolding writePayload_def by (intro emits_intros)

lemma keeps_read [emits_intros]: "P (VaultRead cl path) \<Longrightarrow> keeps I P (read E cl path)"
  unfolding read_def by (intro emits_intros)

lemma keeps_ReadSecret [emits_intros]: "P (VaultRead cl path) \<Longrightarrow> keeps I P (ReadSecret E cl path)"
  unfolding ReadSecret_def by (intro emits_intros)

lemma keeps_ReadSecretWithPayload [emits_intros]:
  "P (VaultWrite cl path (Some (fmmap VStr payload))) \<Longrightarrow>
     keeps I P (ReadSecretWithPayload E cl path payload)"
  unfolding ReadSecretWithPayload_def Let_def by (intro emits_intros)

text \<open>Running them from a world: the four outcomes of a read, the two of a write.\<close>

lemma writePayload_run:
  "writePayload E cl path payload w =
     (case vault_write E (calls w) cl path payload of
        Inl e \<Rightarrow> (Err e, w\<lparr>calls := calls w @ [VaultWrite cl path payload]\<rparr>)
      | Inr _ \<Rightarrow> (Ok (), w\<lparr>calls := calls w @ [VaultWrite cl path payload]\<rparr>))"
  by (simp add: writePayload_def writeWithResponse_def bindG_assoc go_simps split: sum.split)

lemma bindG_writePayload [go_simps]:
  "bindG (writePayload E cl path payload) f w =
     (let w' = w\<lparr>calls := calls w @ [VaultWrite cl path payload]\<rparr>
      in case vault_write E (calls w) cl path payload of
           Inl e \<Rightarrow> (Err e, w') | Inr _ \<Rightarrow> f () w')"
  by (simp add: bindG_def writePayload_run split: sum.split)

definition read_answer :: "error + vault_secret option \<Rightarrow> (gmap option \<times> bool) res" where
  "read_answer a = (case a of
      Inl err \<Rightarrow> if status_code err = Some 404 \<or> status_code err = Some 204
                then Ok (None, False) else Err err
    | Inr None \<Rightarrow> Ok (None, False)
    | Inr (Some secret) \<Rightarrow> Ok (vs_Data secret, True))"

lemma read_run:
  "read E cl path w =
     (read_answer (vault_read E (calls w) cl path), w\<lparr>calls := calls w @ [VaultRead cl path]\<rparr>)"
  by (simp add: read_def read_answer_def go_simps split: sum.split option.split)

lemma bindG_read [go_simps]:
  "bindG (read E cl path) f w =
     (let w' = w\<lparr>calls := calls w @ [VaultRead cl path]\<rparr>
      in case read_answer (vault_read E (calls w) cl path) of
           Ok x \<Rightarrow> f x w' | Err e \<Rightarrow> (Err e, w') | Panic p \<Rightarrow> (Panic p, w'))"
  by (simp add: bindG_def read_run Let_def)

end
