(* ===== verification/Endpoints.thy ===== *)
theory Endpoints
  imports VaultUtils
begin

text \<open>
  The Go interface \<open>VaultObject\<close> as a record of functions (the method table of a custom
  resource) and the endpoint operations written against it: \<open>vaultobject.go\<close>,
  \<open>vaultengineobject.go\<close>, \<open>vautlpkiengineobject.go\<close>. An operation reads the object in
  memory at the moment the code calls the method. \<open>IsValid\<close> returns the errors collected,
  none for a valid object.
\<close>

section \<open>VaultObject\<close>

record 'o VaultObject =
  GetPath :: "'o \<Rightarrow> string"
  GetPayload :: "'o \<Rightarrow> gmap"
  IsEquivalentToDesiredState :: "'o \<Rightarrow> gmap option \<Rightarrow> bool"
  IsInitialized :: "'o \<Rightarrow> bool"
  IsValid :: "'o \<Rightarrow> error list"
  IsDeletable :: "'o \<Rightarrow> bool"
  PrepareInternalValues :: "'o env \<Rightarrow> vault_client \<Rightarrow> ('o, unit) go"
  PrepareTLSConfig :: "'o env \<Rightarrow> vault_client \<Rightarrow> ('o, unit) go"

text \<open>Deleting a path, where a 404 answer counts as deleted.\<close>

definition delete_path :: "'o env \<Rightarrow> vault_client \<Rightarrow> string \<Rightarrow> ('o, unit) go" where
  "delete_path E cl path =
     bindG (askG (VaultDelete cl path) (\<lambda>tr. vault_delete E tr cl path))
       (\<lambda>r. case r of
          Inl err \<Rightarrow> if status_code err = Some 404 then retG () else errG err
        | Inr _ \<Rightarrow> retG ())"

definition DeleteIfExists ::
  "('o, 'z) VaultObject_scheme \<Rightarrow> 'o env \<Rightarrow> vault_client \<Rightarrow> ('o, unit) go" where
  "DeleteIfExists V E cl = bindG getG (\<lambda>d. delete_path E cl (GetPath V d))"

definition DeleteKVv2IfExists ::
  "('o, 'z) VaultObject_scheme \<Rightarrow> 'o env \<Rightarrow> vault_client \<Rightarrow> ('o, unit) go" where
  "DeleteKVv2IfExists V E cl =
     bindG getG (\<lambda>d. delete_path E cl (ReplaceFirst (GetPath V d) ''/data/'' ''/metadata/''))"

definition Exists ::
  "('o, 'z) VaultObject_scheme \<Rightarrow> 'o env \<Rightarrow> vault_client \<Rightarrow> ('o, bool) go" where
  "Exists V E cl = bindG getG (\<lambda>d. bindG (read E cl (GetPath V d)) (\<lambda>r. retG (snd r)))"

definition Create ::
  "('o, 'z) VaultObject_scheme \<Rightarrow> 'o env \<Rightarrow> vault_client \<Rightarrow> ('o, unit) go" where
  "Create V E cl = bindG getG (\<lambda>d. writePayload E cl (GetPath V d) (Some (GetPayload V d)))"

definition CreateOrUpdate ::
  "('o, 'z) VaultObject_scheme \<Rightarrow> 'o env \<Rightarrow> vault_client \<Rightarrow> ('o, unit) go" where
  "CreateOrUpdate V E cl =
     bindG getG (\<lambda>d. bindG (read E cl (GetPath V d)) (\<lambda>r. case r of (currentPayload, found) \<Rightarrow>
       if \<not> found then writePayload E cl (GetPath V d) (Some (GetPayload V d))
       else if \<not> IsEquivalentToDesiredState V d currentPayload
            then writePayload E cl (GetPath V d) (Some (GetPayload V d))
            else retG ()))"

section \<open>RabbitMQ engine configuration\<close>

record 'o RabbitMQEngineConfigVaultObject = "'o VaultObject" +
  GetLeasePath :: "'o \<Rightarrow> string"
  GetLeasePayload :: "'o \<Rightarrow> gmap"
  CheckTTLValuesProvided :: "'o \<Rightarrow> bool"

definition CreateOrUpdateLease ::
  "('o, 'z) RabbitMQEngineConfigVaultObject_scheme \<Rightarrow> 'o env \<Rightarrow> vault_client \<Rightarrow> ('o, unit) go" where
  "CreateOrUpdateLease V E cl =
     bindG getG (\<lambda>d.
       if CheckTTLValuesProvided V d then retG ()
       else bindG (read E cl (GetLeasePath V d)) (\<lambda>r. case r of (currentPayload, found) \<Rightarrow>
         if \<not> found then writePayload E cl (GetLeasePath V d) (Some (GetLeasePayload V d))
         else if \<not> IsEquivalentToDesiredState V d currentPayload
              then writePayload E cl (GetLeasePath V d) (Some (GetLeasePayload V d))
              else retG ()))"

section \<open>Secret engines and authentication engines\<close>

record 'o VaultEngineObject = "'o VaultObject" +
  GetEngineListPath :: "'o \<Rightarrow> string"
  GetEngineTunePath :: "'o \<Rightarrow> string"
  GetTunePayload :: "'o \<Rightarrow> gmap"
  SetAccessor :: "string \<Rightarrow> 'o \<Rightarrow> 'o"

text \<open>The key of the engine list that names the object's mount.\<close>

definition is_mount_key :: "('o, 'z) VaultEngineObject_scheme \<Rightarrow> 'o \<Rightarrow> string \<Rightarrow> bool" where
  "is_mount_key V d key \<longleftrightarrow>
     Trim key (CHR ''/'') = Trim (TrimPrefix (GetPath V d) (GetEngineListPath V d)) (CHR ''/'')"

text \<open>
  The loop over the list: the first matching key in range order; the type assertions on its
  entry panic when the entry is not a map, or has no string accessor.
\<close>

definition find_accessor :: "(string \<Rightarrow> bool) \<Rightarrow> gmap \<Rightarrow> string list \<Rightarrow> ('o, string \<times> bool) go" where
  "find_accessor is_key m keys = (case find is_key keys of
      None \<Rightarrow> retG ([], False)
    | Some key \<Rightarrow>
        bindG (assert_map (fmlookup m key)) (\<lambda>foundData.
        bindG (assert_string (fmlookup foundData ''accessor'')) (\<lambda>accessor.
        retG (accessor, True))))"

definition retrieveAccessor ::
  "('o, 'z) VaultEngineObject_scheme \<Rightarrow> 'o env \<Rightarrow> vault_client \<Rightarrow> ('o, string \<times> bool) go" where
  "retrieveAccessor V E cl =
     bindG getG (\<lambda>d.
     bindG (askG (VaultRead cl (GetEngineListPath V d)) (\<lambda>tr. vault_read E tr cl (GetEngineListPath V d)))
       (\<lambda>r. case r of
          Inl err \<Rightarrow> errG err
        | Inr None \<Rightarrow> errG (ErrMsg ''read returned null secret'')
        | Inr (Some secret) \<Rightarrow> (case vs_Data secret of
            None \<Rightarrow> retG ([], False)
          | Some m \<Rightarrow> bindG (rangeG E m) (find_accessor (is_mount_key V d) m))))"

definition GetAccessor ::
  "('o, 'z) VaultEngineObject_scheme \<Rightarrow> 'o env \<Rightarrow> vault_client \<Rightarrow> ('o, string) go" where
  "GetAccessor V E cl = bindG (retrieveAccessor V E cl) (\<lambda>r. retG (fst r))"

definition VaultEngineEndpoint_Exists ::
  "('o, 'z) VaultEngineObject_scheme \<Rightarrow> 'o env \<Rightarrow> vault_client \<Rightarrow> ('o, bool) go" where
  "VaultEngineEndpoint_Exists V E cl = bindG (retrieveAccessor V E cl) (\<lambda>r. retG (snd r))"

definition readTuneConfig ::
  "('o, 'z) VaultEngineObject_scheme \<Rightarrow> 'o env \<Rightarrow> vault_client \<Rightarrow> ('o, gmap) go" where
  "readTuneConfig V E cl =
     bindG getG (\<lambda>d. bindG (read E cl (GetEngineTunePath V d)) (\<lambda>r. case fst r of
        None \<Rightarrow> errG (ErrMsg (''nul tune config found at path '' @ GetEngineTunePath V d))
      | Some secret \<Rightarrow> retG secret))"

definition CreateOrUpdateTuneConfig ::
  "('o, 'z) VaultEngineObject_scheme \<Rightarrow> 'o env \<Rightarrow> vault_client \<Rightarrow> ('o, unit) go" where
  "CreateOrUpdateTuneConfig V E cl =
     bindG (readTuneConfig V E cl) (\<lambda>currentTunePayload.
     bindG getG (\<lambda>d.
       if \<not> IsEquivalentToDesiredState V d (Some currentTunePayload)
       then writePayload E cl (GetEngineTunePath V d) (Some (GetTunePayload V d))
       else retG ()))"

section \<open>PKI engines\<close>

record 'o VaultPKIEngineObject = "'o VaultObject" +
  GetGeneratePath :: "'o \<Rightarrow> string"
  GetDeletePath :: "'o \<Rightarrow> string"
  GetGeneratedStatus :: "'o \<Rightarrow> bool"
  SetGeneratedStatus :: "bool \<Rightarrow> 'o \<Rightarrow> 'o"
  GetConfigUrlsPath :: "'o \<Rightarrow> string"
  GetConfigCrlPath :: "'o \<Rightarrow> string"
  GetConfigUrlsPayload :: "'o \<Rightarrow> gmap"
  GetConfigCrlPayload :: "'o \<Rightarrow> gmap"
  CreateExported :: "'o env \<Rightarrow> vault_client \<Rightarrow> vault_secret option \<Rightarrow> ('o, bool) go"
  SetExportedStatus :: "bool \<Rightarrow> 'o \<Rightarrow> 'o"
  SetIntermediate :: "'o env \<Rightarrow> vault_client \<Rightarrow> ('o, unit) go"
  GetSignedStatus :: "'o \<Rightarrow> bool"
  SetSignedStatus :: "bool \<Rightarrow> 'o \<Rightarrow> 'o"

definition VaultPKIEngineEndpoint_Exists ::
  "('o, 'z) VaultPKIEngineObject_scheme \<Rightarrow> 'o env \<Rightarrow> vault_client \<Rightarrow> ('o, bool) go" where
  "VaultPKIEngineEndpoint_Exists V E cl = bindG getG (\<lambda>d. retG (GetGeneratedStatus V d))"

definition Generate ::
  "('o, 'z) VaultPKIEngineObject_scheme \<Rightarrow> 'o env \<Rightarrow> vault_client \<Rightarrow> ('o, vault_secret option) go" where
  "Generate V E cl =
     bindG getG (\<lambda>d. writeWithResponse E cl (GetGeneratePath V d) (Some (GetPayload V d)))"

definition VaultPKIEngineEndpoint_DeleteIfExists ::
  "('o, 'z) VaultPKIEngineObject_scheme \<Rightarrow> 'o env \<Rightarrow> vault_client \<Rightarrow> ('o, unit) go" where
  "VaultPKIEngineEndpoint_DeleteIfExists V E cl = bindG getG (\<lambda>d. delete_path E cl (GetDeletePath V d))"

definition readConfig :: "'o env \<Rightarrow> vault_client \<Rightarrow> string \<Rightarrow> ('o, gmap option) go" where
  "readConfig E cl configPath = bindG (read E cl configPath) (\<lambda>r. retG (fst r))"

definition CreateOrUpdateConfig ::
  "('o, 'z) VaultPKIEngineObject_scheme \<Rightarrow> 'o env \<Rightarrow> vault_client \<Rightarrow> string \<Rightarrow> gmap \<Rightarrow> ('o, unit) go" where
  "CreateOrUpdateConfig V E cl configPath payload =
     bindG (readConfig E cl configPath) (\<lambda>currentConfigPayload.
     bindG getG (\<lambda>d.
       if \<not> IsEquivalentToDesiredState V d currentConfigPayload
       then writePayload E cl (GetConfigCrlPath V d) (Some payload)
       else retG ()))"

definition CreateOrUpdateConfigUrls ::
  "('o, 'z) VaultPKIEngineObject_scheme \<Rightarrow> 'o env \<Rightarrow> vault_client \<Rightarrow> ('o, unit) go" where
  "CreateOrUpdateConfigUrls V E cl =
     bindG getG (\<lambda>d. CreateOrUpdateConfig V E cl (GetConfigUrlsPath V d) (GetConfigUrlsPayload V d))"

definition CreateOrUpdateConfigCrl ::
  "('o, 'z) VaultPKIEngineObject_scheme \<Rightarrow> 'o env \<Rightarrow> vault_client \<Rightarrow> ('o, unit) go" where
  "CreateOrUpdateConfigCrl V E cl =
     bindG getG (\<lambda>d. CreateOrUpdateConfig V E cl (GetConfigCrlPath V d) (GetConfigCrlPayload V d))"

end
