(* ===== verification/Outcome.thy ===== *)
theory Outcome
  imports Endpoints
begin

text \<open>
  The end of every reconcile: the conditions of the status
  (\<open>AddOrReplaceCondition\<close> of \<open>commons.go\<close>) and \<open>ManageOutcome\<close> of
  \<open>controllers/vaultresourcecontroller/utils.go\<close>, which records the outcome, updates the
  status and adds the finalizer.
\<close>

section \<open>Conditions\<close>

fun AddOrReplaceCondition :: "condition \<Rightarrow> condition list \<Rightarrow> condition list" where
  "AddOrReplaceCondition c [] = [c]"
| "AddOrReplaceCondition c (condition # conditions) =
     (if cond_Type c = cond_Type condition then c # conditions
      else condition # AddOrReplaceCondition c conditions)"

definition find_condition :: "string \<Rightarrow> condition list \<Rightarrow> condition option" where
  "find_condition t cs = find (\<lambda>c. cond_Type c = t) cs"

lemma types_AddOrReplaceCondition:
  "map cond_Type (AddOrReplaceCondition c cs) =
     (if cond_Type c \<in> set (map cond_Type cs) then map cond_Type cs else map cond_Type cs @ [cond_Type c])"
  by (induction c cs rule: AddOrReplaceCondition.induct) auto

lemma distinct_AddOrReplaceCondition:
  "distinct (map cond_Type cs) \<Longrightarrow> distinct (map cond_Type (AddOrReplaceCondition c cs))"
  by (simp add: types_AddOrReplaceCondition)

lemma find_AddOrReplaceCondition:
  "find_condition t (AddOrReplaceCondition c cs) =
     (if t = cond_Type c then Some c else find_condition t cs)"
  unfolding find_condition_def
  by (induction c cs rule: AddOrReplaceCondition.induct) auto

lemma set_AddOrReplaceCondition:
  "d \<in> set (AddOrReplaceCondition c cs) \<Longrightarrow> d = c \<or> d \<in> set cs"
  by (induction c cs rule: AddOrReplaceCondition.induct) (auto split: if_splits)

lemma AddOrReplaceCondition_keeps:
  "d \<in> set cs \<Longrightarrow> cond_Type d \<noteq> cond_Type c \<Longrightarrow> d \<in> set (AddOrReplaceCondition c cs)"
  by (induction c cs rule: AddOrReplaceCondition.induct) auto

lemma AddOrReplaceCondition_mem: "c \<in> set (AddOrReplaceCondition c cs)"
  by (induction c cs rule: AddOrReplaceCondition.induct) auto

text \<open>
  Recording a condition keeps the types of a status pairwise distinct (the list-map key
  of the API), makes the recorded condition the one found under its type, and leaves the
  condition found under every other type alone.
\<close>

theorem AddOrReplaceCondition_correct:
  assumes "distinct (map cond_Type cs)"
  shows "distinct (map cond_Type (AddOrReplaceCondition c cs)) \<and>
    (\<forall>t. find_condition t (AddOrReplaceCondition c cs) =
       (if t = cond_Type c then Some c else find_condition t cs))"
  using assms by (simp add: distinct_AddOrReplaceCondition find_AddOrReplaceCondition)

section \<open>ManageOutcome\<close>

definition ReconcileSuccessful :: string where
  "ReconcileSuccessful = ''ReconcileSuccessful''"

definition ReconcileSuccessfulReason :: string where
  "ReconcileSuccessfulReason = ''LastReconcileCycleSucceded''"

definition ReconcileFailed :: string where
  "ReconcileFailed = ''ReconcileFailed''"

definition ReconcileFailedReason :: string where
  "ReconcileFailedReason = ''LastReconcileCycleFailed''"

record Result =
  RequeueAfter :: int

definition successful :: "condition \<Rightarrow> bool" where
  "successful condition \<longleftrightarrow>
     cond_Status condition = ConditionTrue \<and> cond_Type condition = ReconcileSuccessful"

definition outcome_condition :: "error option \<Rightarrow> int \<Rightarrow> int \<Rightarrow> condition" where
  "outcome_condition issue now generation = (case issue of
      None \<Rightarrow> \<lparr>cond_Type = ReconcileSuccessful, cond_Status = ConditionTrue,
               cond_ObservedGeneration = generation, cond_LastTransitionTime = now,
               cond_Reason = ReconcileSuccessfulReason, cond_Message = []\<rparr>
    | Some e \<Rightarrow> \<lparr>cond_Type = ReconcileFailed, cond_Status = ConditionFalse,
               cond_ObservedGeneration = generation, cond_LastTransitionTime = now,
               cond_Reason = ReconcileFailedReason, cond_Message = error_text e\<rparr>)"

definition StatusUpdate :: "'o env \<Rightarrow> ('o, unit) go" where
  "StatusUpdate E = bindG getG (\<lambda>obj. kube_putG (KubeStatusUpdate obj) (\<lambda>tr. kube_status_update E tr obj))"

definition Update :: "'o env \<Rightarrow> ('o, unit) go" where
  "Update E = bindG getG (\<lambda>obj. kube_putG (KubeUpdate obj) (\<lambda>tr. kube_update E tr obj))"

text \<open>
  \<open>vo\<close> is the object's \<open>VaultObject\<close> interface, if it has one (the type test of the code).
\<close>

definition wants_finalizer ::
  "(('s, 'x) object, 'z) VaultObject_scheme option \<Rightarrow> ('s, 'x) object env \<Rightarrow> error option \<Rightarrow>
     ('s, 'x) object \<Rightarrow> bool" where
  "wants_finalizer vo E issue obj \<longleftrightarrow>
     (case vo of Some V \<Rightarrow> IsDeletable V obj | None \<Rightarrow> True) \<and>
     issue = None \<and> \<not> contains_finalizer E obj (GetFinalizer obj)"

definition ManageOutcomeWithRequeue ::
  "(('s, 'x) object, 'z) VaultObject_scheme option \<Rightarrow> ('s, 'x) object env \<Rightarrow> error option \<Rightarrow> int \<Rightarrow>
     (('s, 'x) object, Result) go" where
  "ManageOutcomeWithRequeue vo E issue requeueAfter =
     bindG (case issue of None \<Rightarrow> retG () | Some e \<Rightarrow> askG (RecordEvent (error_text e)) (\<lambda>_. ())) (\<lambda>_.
     bindG (askG TimeNow (time_now E)) (\<lambda>now.
     bindG (modifyG (\<lambda>obj. SetConditions (AddOrReplaceCondition
              (outcome_condition issue now (meta_Generation (Meta obj))) (GetConditions obj)) obj)) (\<lambda>_.
     bindG (StatusUpdate E) (\<lambda>_.
     bindG getG (\<lambda>obj.
     bindG (if wants_finalizer vo E issue obj
            then bindG (modifyG (\<lambda>obj. add_finalizer E obj (GetFinalizer obj))) (\<lambda>_. Update E)
            else retG ()) (\<lambda>_.
     case issue of None \<Rightarrow> retG \<lparr>RequeueAfter = requeueAfter\<rparr> | Some e \<Rightarrow> errG e))))))"

definition ManageOutcome ::
  "(('s, 'x) object, 'z) VaultObject_scheme option \<Rightarrow> ('s, 'x) object env \<Rightarrow> error option \<Rightarrow>
     (('s, 'x) object, Result) go" where
  "ManageOutcome vo E issue = ManageOutcomeWithRequeue vo E issue 0"

text \<open>What it may call: never Vault; an update of the object only after a success.\<close>

fun outcome_call :: "bool \<Rightarrow> 'o call \<Rightarrow> bool" where
  "outcome_call ok (RecordEvent m) = True"
| "outcome_call ok TimeNow = True"
| "outcome_call ok (KubeStatusUpdate d) = True"
| "outcome_call ok (KubeUpdate d) = ok"
| "outcome_call ok _ = False"

lemma keeps_StatusUpdate [emits_intros]: "(\<And>d. P (KubeStatusUpdate d)) \<Longrightarrow> emits P (StatusUpdate E)"
  unfolding StatusUpdate_def by (intro emits_intros) simp_all

lemma keeps_Update [emits_intros]: "(\<And>d. P (KubeUpdate d)) \<Longrightarrow> emits P (Update E)"
  unfolding Update_def by (intro emits_intros) simp_all

lemma emits_ManageOutcomeWithRequeue:
  "emits (outcome_call (issue = None)) (ManageOutcomeWithRequeue vo E issue requeueAfter)"
  unfolding ManageOutcomeWithRequeue_def
  by (intro emits_intros) (auto simp: wants_finalizer_def)

lemma emits_ManageOutcome: "emits (outcome_call (issue = None)) (ManageOutcome vo E issue)"
  unfolding ManageOutcome_def by (rule emits_ManageOutcomeWithRequeue)

lemma outcome_call_no_mutation: "outcome_call ok c \<Longrightarrow> vault_mutation c = None"
  by (cases c) auto

lemma StatusUpdate_run:
  "StatusUpdate E w = (case kube_status_update E (calls w) (inst w) of
      Inl e \<Rightarrow> (Err e, w\<lparr>calls := calls w @ [KubeStatusUpdate (inst w)]\<rparr>)
    | Inr o' \<Rightarrow> (Ok (), w\<lparr>inst := o', calls := calls w @ [KubeStatusUpdate (inst w)]\<rparr>))"
  by (simp add: StatusUpdate_def go_simps)

lemma Update_run:
  "Update E w = (case kube_update E (calls w) (inst w) of
      Inl e \<Rightarrow> (Err e, w\<lparr>calls := calls w @ [KubeUpdate (inst w)]\<rparr>)
    | Inr o' \<Rightarrow> (Ok (), w\<lparr>inst := o', calls := calls w @ [KubeUpdate (inst w)]\<rparr>))"
  by (simp add: Update_def go_simps)

lemma bindG_StatusUpdate [go_simps]:
  "bindG (StatusUpdate E) f w = (case kube_status_update E (calls w) (inst w) of
      Inl e \<Rightarrow> (Err e, w\<lparr>calls := calls w @ [KubeStatusUpdate (inst w)]\<rparr>)
    | Inr o' \<Rightarrow> f () (w\<lparr>inst := o', calls := calls w @ [KubeStatusUpdate (inst w)]\<rparr>))"
  by (simp add: bindG_def StatusUpdate_run split: sum.split)

lemma bindG_Update [go_simps]:
  "bindG (Update E) f w = (case kube_update E (calls w) (inst w) of
      Inl e \<Rightarrow> (Err e, w\<lparr>calls := calls w @ [KubeUpdate (inst w)]\<rparr>)
    | Inr o' \<Rightarrow> f () (w\<lparr>inst := o', calls := calls w @ [KubeUpdate (inst w)]\<rparr>))"
  by (simp add: bindG_def Update_run split: sum.split)

lemma ManageOutcome_Err: "fst (ManageOutcomeWithRequeue vo E (Some e) t w) \<noteq> Ok r"
  by (simp add: ManageOutcomeWithRequeue_def bindG_assoc go_simps bindG_def StatusUpdate_run wants_finalizer_def
      split: sum.split prod.split)

lemma ManageOutcomeWithRequeue_result:
  "fst (ManageOutcomeWithRequeue vo E None t w) = Ok r \<Longrightarrow> r = \<lparr>RequeueAfter = t\<rparr>"
  unfolding ManageOutcomeWithRequeue_def option.case
  by (elim bindG_fst_OkE) (simp add: retG_def)

end
