(* ===== verification/Reconcilers.thy ===== *)
theory Reconcilers
  imports Outcome
begin

text \<open>
  The reconcile cycles shared by the controllers:
  \<open>controllers/vaultresourcecontroller/vaultresourcereconciler.go\<close>,
  \<open>vaultengineresourcereconciler.go\<close> and \<open>vaultpkiengineresourcereconciler.go\<close>. The three
  \<open>Reconcile\<close> functions have the same body, \<open>reconcile_cycle\<close>, around their own clean-up
  and reconcile logic.
\<close>

section \<open>The cycles\<close>

primrec delete_if_successful :: "('o, unit) go \<Rightarrow> condition list \<Rightarrow> ('o, unit) go" where
  "delete_if_successful del [] = retG ()"
| "delete_if_successful del (condition # conditions) =
     (if cond_Status condition = ConditionTrue \<and> cond_Type condition = ReconcileSuccessful
      then bindG del (\<lambda>_. delete_if_successful del conditions)
      else delete_if_successful del conditions)"

definition manageCleanUpLogic ::
  "(('s, 'x) object, 'z) VaultObject_scheme \<Rightarrow> (('s, 'x) object, unit) go \<Rightarrow> (('s, 'x) object, unit) go" where
  "manageCleanUpLogic V del =
     bindG getG (\<lambda>instance.
       if \<not> IsDeletable V instance then retG ()
       else delete_if_successful del (GetConditions instance))"

definition reconcile_cycle ::
  "(('s, 'x) object, 'z) VaultObject_scheme \<Rightarrow> ('s, 'x) object env \<Rightarrow> (('s, 'x) object, unit) go \<Rightarrow>
     (('s, 'x) object, unit) go \<Rightarrow> (('s, 'x) object, Result) go" where
  "reconcile_cycle V E cleanUp logic =
     bindG getG (\<lambda>instance.
       if is_deleted instance then
         if \<not> contains_finalizer E instance (GetFinalizer instance) then retG \<lparr>RequeueAfter = 0\<rparr>
         else bindG (tryG cleanUp) (\<lambda>r. case r of
             Inl err \<Rightarrow> ManageOutcome (Some V) E (Some err)
           | Inr _ \<Rightarrow>
               bindG (modifyG (\<lambda>instance. remove_finalizer E instance (GetFinalizer instance))) (\<lambda>_.
               bindG (tryG (Update E)) (\<lambda>r. case r of
                   Inl err \<Rightarrow> ManageOutcome (Some V) E (Some err)
                 | Inr _ \<Rightarrow> retG \<lparr>RequeueAfter = 0\<rparr>)))
       else bindG (tryG logic) (\<lambda>r. case r of
           Inl err \<Rightarrow> ManageOutcome (Some V) E (Some err)
         | Inr _ \<Rightarrow> ManageOutcome (Some V) E None))"

definition VaultResource_manageReconcileLogic ::
  "(('s, 'x) object, 'z) VaultObject_scheme \<Rightarrow> ('s, 'x) object env \<Rightarrow> vault_client \<Rightarrow>
     (('s, 'x) object, unit) go" where
  "VaultResource_manageReconcileLogic V E cl =
     bindG (PrepareInternalValues V E cl) (\<lambda>_.
     bindG (PrepareTLSConfig V E cl) (\<lambda>_.
     CreateOrUpdate V E cl))"

definition VaultResource_Reconcile ::
  "(('s, 'x) object, 'z) VaultObject_scheme \<Rightarrow> ('s, 'x) object env \<Rightarrow> vault_client \<Rightarrow>
     (('s, 'x) object, Result) go" where
  "VaultResource_Reconcile V E cl =
     reconcile_cycle V E (manageCleanUpLogic V (DeleteIfExists V E cl))
       (VaultResource_manageReconcileLogic V E cl)"

definition VaultEngineResource_manageReconcileLogic ::
  "(('s, 'x) object, 'z) VaultEngineObject_scheme \<Rightarrow> ('s, 'x) object env \<Rightarrow> vault_client \<Rightarrow>
     (('s, 'x) object, unit) go" where
  "VaultEngineResource_manageReconcileLogic V E cl =
     bindG (PrepareInternalValues V E cl) (\<lambda>_.
     bindG (PrepareTLSConfig V E cl) (\<lambda>_.
     bindG (VaultEngineEndpoint_Exists V E cl) (\<lambda>found.
     bindG (if \<not> found then Create V E cl else CreateOrUpdateTuneConfig V E cl) (\<lambda>_.
     bindG (GetAccessor V E cl) (\<lambda>accessor.
     modifyG (SetAccessor V accessor))))))"

definition VaultEngineResource_Reconcile ::
  "(('s, 'x) object, 'z) VaultEngineObject_scheme \<Rightarrow> ('s, 'x) object env \<Rightarrow> vault_client \<Rightarrow>
     (('s, 'x) object, Result) go" where
  "VaultEngineResource_Reconcile V E cl =
     reconcile_cycle V E (manageCleanUpLogic V (DeleteIfExists V E cl))
       (VaultEngineResource_manageReconcileLogic V E cl)"

definition VaultPKIEngineResource_manageReconcileLogic ::
  "(('s, 'x) object, 'z) VaultPKIEngineObject_scheme \<Rightarrow> ('s, 'x) object env \<Rightarrow> vault_client \<Rightarrow>
     (('s, 'x) object, unit) go" where
  "VaultPKIEngineResource_manageReconcileLogic V E cl =
     bindG (PrepareInternalValues V E cl) (\<lambda>_.
     bindG getG (\<lambda>instance.
     bindG (if \<not> GetGeneratedStatus V instance
            then bindG (Generate V E cl) (\<lambda>vaultSecret.
                 bindG (modifyG (SetGeneratedStatus V True)) (\<lambda>_.
                 bindG (CreateExported V E cl vaultSecret) (\<lambda>exported.
                 modifyG (SetExportedStatus V exported))))
            else retG ()) (\<lambda>_.
     bindG getG (\<lambda>instance.
     bindG (if \<not> GetSignedStatus V instance
            then bindG (SetIntermediate V E cl) (\<lambda>_. modifyG (SetSignedStatus V True))
            else retG ()) (\<lambda>_.
     bindG (CreateOrUpdateConfigUrls V E cl) (\<lambda>_.
     CreateOrUpdateConfigCrl V E cl))))))"

definition VaultPKIEngineResource_Reconcile ::
  "(('s, 'x) object, 'z) VaultPKIEngineObject_scheme \<Rightarrow> ('s, 'x) object env \<Rightarrow> vault_client \<Rightarrow>
     (('s, 'x) object, Result) go" where
  "VaultPKIEngineResource_Reconcile V E cl =
     reconcile_cycle V E (manageCleanUpLogic V (VaultPKIEngineEndpoint_DeleteIfExists V E cl))
       (VaultPKIEngineResource_manageReconcileLogic V E cl)"

section \<open>Bounds on the calls\<close>

lemma keeps_delete_if_successful: "keeps I P del \<Longrightarrow> keeps I P (delete_if_successful del cs)"
  by (induction cs) (auto intro: emits_intros)

lemma keeps_manageCleanUpLogic: "keeps I P del \<Longrightarrow> keeps I P (manageCleanUpLogic V del)"
  unfolding manageCleanUpLogic_def
  by (intro emits_intros keeps_delete_if_successful)

lemma keeps_delete_path [emits_intros]:
  "P (VaultDelete cl p) \<Longrightarrow> keeps I P (delete_path E cl p)"
  unfolding delete_path_def by (intro emits_intros)

text \<open>
  The whole cycle is bounded by what its clean-up and its logic may call, and by the
  calls of \<open>ManageOutcome\<close> and of the update that removes the finalizer.
\<close>

fun kube_bookkeeping :: "'o call \<Rightarrow> bool" where
  "kube_bookkeeping (RecordEvent m) = True"
| "kube_bookkeeping TimeNow = True"
| "kube_bookkeeping (KubeStatusUpdate d) = True"
| "kube_bookkeeping (KubeUpdate d) = True"
| "kube_bookkeeping _ = False"

lemma outcome_call_bookkeeping: "outcome_call b c \<Longrightarrow> kube_bookkeeping c"
  by (cases c) auto

lemma bookkeeping_no_mutation: "kube_bookkeeping c \<Longrightarrow> vault_mutation c = None"
  by (cases c) auto

lemma emits_Update_bookkeeping: "(\<And>c. kube_bookkeeping c \<Longrightarrow> P c) \<Longrightarrow> emits P (Update E)"
  by (rule keeps_Update) simp

lemma emits_ManageOutcome_bookkeeping:
  "(\<And>c. kube_bookkeeping c \<Longrightarrow> P c) \<Longrightarrow> emits P (ManageOutcome vo E issue)"
  by (rule keeps_mono [OF emits_ManageOutcome]) (blast dest: outcome_call_bookkeeping)

lemma allows_try: "keeps I P m \<Longrightarrow> keeps I P (tryG m)"
  by (rule keeps_try)

lemma allows_reconcile_cycle:
  assumes cleanUp: "keeps I P cleanUp" and logic: "keeps I P logic"
    and book: "\<And>c. kube_bookkeeping c \<Longrightarrow> P c"
  shows "allows I P (reconcile_cycle V E cleanUp logic)"
proof -
  have out: "allows J P (ManageOutcome (Some V) E issue)" for J issue
    by (rule allows_emits [OF emits_ManageOutcome_bookkeeping [OF book]])
  have tail: "allows I P (bindG (modifyG f) (\<lambda>_. bindG (tryG (Update E)) (\<lambda>r. case r of
      Inl err \<Rightarrow> ManageOutcome (Some V) E (Some err) | Inr _ \<Rightarrow> retG \<lparr>RequeueAfter = 0\<rparr>)))" for f
    by (rule allows_emits) (intro emits_intros emits_Update_bookkeeping emits_ManageOutcome_bookkeeping book; simp)
  have ret: "allows I P (retG \<lparr>RequeueAfter = 0\<rparr>)"
    by (rule allows_emits) (rule emits_intros)
  have del: "allows I P (bindG (tryG cleanUp) (\<lambda>r. case r of
      Inl err \<Rightarrow> ManageOutcome (Some V) E (Some err)
    | Inr _ \<Rightarrow> bindG (modifyG f) (\<lambda>_. bindG (tryG (Update E)) (\<lambda>r. case r of
          Inl err \<Rightarrow> ManageOutcome (Some V) E (Some err) | Inr _ \<Rightarrow> retG \<lparr>RequeueAfter = 0\<rparr>))))" for f
    by (rule allows_bind [OF keeps_try [OF cleanUp]]) (auto simp: out tail split: sum.split)
  have upd: "allows I P (bindG (tryG logic) (\<lambda>r. case r of
      Inl err \<Rightarrow> ManageOutcome (Some V) E (Some err) | Inr _ \<Rightarrow> ManageOutcome (Some V) E None))"
    by (rule allows_bind [OF keeps_try [OF logic]]) (auto simp: out split: sum.split)
  show ?thesis
    unfolding reconcile_cycle_def by (rule allows_bind_get) (simp add: del upd ret)
qed

section \<open>What every resource promises: the interface as a locale\<close>

text \<open>
  What a reconcile must find unchanged after the object prepared its internal values: its
  path, whether it is deletable, its metadata and its conditions.
\<close>

definition object_view ::
  "(('s, 'x) object, 'z) VaultObject_scheme \<Rightarrow> ('s, 'x) object \<Rightarrow>
     string \<times> bool \<times> ObjectMeta \<times> string \<times> condition list" where
  "object_view V d = (GetPath V d, IsDeletable V d, Meta d, TypeKind d, GetConditions d)"

text \<open>A call that changes nothing in Vault, or only what is at path \<open>p\<close>.\<close>

definition own_call :: "string \<Rightarrow> 'o call \<Rightarrow> bool" where
  "own_call p c \<longleftrightarrow> (case vault_mutation c of None \<Rightarrow> True | Some q \<Rightarrow> q = p)"

locale vault_object =
  fixes V :: "(('s, 'x) object, 'z) VaultObject_scheme"
  assumes prepare_view:
      "keeps (\<lambda>d. object_view V d = v) is_query (PrepareInternalValues V E cl)"
    and prepare_tls_view:
      "keeps (\<lambda>d. object_view V d = v) is_query (PrepareTLSConfig V E cl)"
begin

lemma own_query: "is_query c \<Longrightarrow> own_call p c"
  by (simp add: own_call_def is_query_no_mutation)

lemma own_bookkeeping: "kube_bookkeeping c \<Longrightarrow> own_call p c"
  by (simp add: own_call_def bookkeeping_no_mutation)

lemma CreateOrUpdate_frame:
  "keeps (\<lambda>d. object_view V d = (p, v)) (own_call p) (CreateOrUpdate V E cl)"
  unfolding CreateOrUpdate_def
  by (rule keeps_bind_get) (intro emits_intros; simp add: own_call_def object_view_def)

lemma DeleteIfExists_frame:
  "keeps (\<lambda>d. object_view V d = (p, v)) (own_call p) (DeleteIfExists V E cl)"
  unfolding DeleteIfExists_def
  by (rule keeps_bind_get) (intro emits_intros; simp add: own_call_def object_view_def)

lemma prepare_own:
  "keeps (\<lambda>d. object_view V d = (p, v)) (own_call p) (PrepareInternalValues V E cl)"
  "keeps (\<lambda>d. object_view V d = (p, v)) (own_call p) (PrepareTLSConfig V E cl)"
  by (rule keeps_mono [OF prepare_view], erule own_query)
    (rule keeps_mono [OF prepare_tls_view], erule own_query)

lemma logic_frame:
  "keeps (\<lambda>d. object_view V d = (p, v)) (own_call p) (VaultResource_manageReconcileLogic V E cl)"
  unfolding VaultResource_manageReconcileLogic_def
  by (intro emits_intros prepare_own CreateOrUpdate_frame)

theorem reconcile_frame:
  "allows (\<lambda>d. object_view V d = (p, v)) (own_call p) (VaultResource_Reconcile V E cl)"
  unfolding VaultResource_Reconcile_def
  by (intro allows_reconcile_cycle keeps_manageCleanUpLogic DeleteIfExists_frame logic_frame own_bookkeeping)

text \<open>The same, over a run from a given world.\<close>

lemma reconcile_writes_own_path:
  assumes "c \<in> set (drop (length (calls w)) (calls (snd (VaultResource_Reconcile V E cl w))))"
    and "vault_mutation c = Some q"
  shows "q = GetPath V (inst w)"
proof -
  obtain v where v: "object_view V (inst w) = (GetPath V (inst w), v)"
    by (simp add: object_view_def)
  obtain cs where "calls (snd (VaultResource_Reconcile V E cl w)) = calls w @ cs"
      "list_all (own_call (GetPath V (inst w))) cs"
    using allowsD [OF reconcile_frame v] by blast
  with assms show ?thesis by (auto simp: list_all_iff own_call_def)
qed

end

end
