(* ===== verification/Lifecycle.thy ===== *)
theory Lifecycle
  imports Reconcilers
begin

text \<open>
  Properties of the reconcile cycle of \<open>VaultResource\<close>, for every resource, every Vault
  server and every API server: the order of the calls of a deletion, what a failure leaves
  behind, when \<open>CreateOrUpdate\<close> writes and when repeated reconciles settle.
\<close>

section \<open>Evaluating the cycle\<close>

lemma delete_if_successful_none:
  "\<forall>c \<in> set cs. \<not> successful c \<Longrightarrow> delete_if_successful del cs = retG ()"
  by (induction cs) (auto simp: successful_def)

lemma delete_if_successful_fail:
  "\<exists>c \<in> set cs. successful c \<Longrightarrow> del w = (Err e, w') \<Longrightarrow> delete_if_successful del cs w = (Err e, w')"
  by (induction cs) (auto simp: successful_def bindG_Err)

text \<open>With pairwise distinct condition types at most one condition is a success.\<close>

lemma delete_if_successful_once:
  "distinct (map cond_Type cs) \<Longrightarrow> \<exists>c \<in> set cs. successful c \<Longrightarrow>
     delete_if_successful del cs = bindG del (\<lambda>_. retG ())"
proof (induction cs)
  case (Cons c cs)
  show ?case
  proof (cases "successful c")
    case True
    then have "\<forall>d \<in> set cs. \<not> successful d"
      using Cons.prems(1) by (auto simp: successful_def) (metis imageI)
    then show ?thesis using True by (simp add: successful_def [symmetric] delete_if_successful_none)
  next
    case False
    then show ?thesis using Cons by (auto simp: successful_def)
  qed
qed simp

lemma delete_path_run:
  "delete_path E cl p w =
     (case vault_delete E (calls w) cl p of
        Inl err \<Rightarrow> if status_code err = Some 404 then Ok () else Err err
      | Inr _ \<Rightarrow> Ok (), w\<lparr>calls := calls w @ [VaultDelete cl p]\<rparr>)"
  by (simp add: delete_path_def go_simps split: sum.split)

lemma DeleteIfExists_run: "DeleteIfExists V E cl w = delete_path E cl (GetPath V (inst w)) w"
  by (simp add: DeleteIfExists_def go_simps)

lemma manageCleanUpLogic_run:
  "manageCleanUpLogic V del w =
     (if IsDeletable V (inst w) then delete_if_successful del (GetConditions (inst w)) w else (Ok (), w))"
  by (simp add: manageCleanUpLogic_def go_simps)

lemma tryG_run:
  "tryG m w = (case m w of (Ok x, w') \<Rightarrow> (Ok (Inr x), w') | (Err e, w') \<Rightarrow> (Ok (Inl e), w')
     | (Panic p, w') \<Rightarrow> (Panic p, w'))"
  by (simp add: tryG_def handleG_def bindG_def retG_def split: prod.split res.split)

text \<open>The three ways a deletion cycle goes.\<close>

lemma cycle_deleted_fail:
  assumes "is_deleted (inst w)" and "contains_finalizer E (inst w) (GetFinalizer (inst w))"
    and "cleanUp w = (Err e, w')"
  shows "reconcile_cycle V E cleanUp logic w = ManageOutcome (Some V) E (Some e) w'"
  using assms by (simp add: reconcile_cycle_def bindG_get tryG_run bindG_def [of "tryG cleanUp"])

lemma cycle_deleted_ok:
  assumes "is_deleted (inst w)" and "contains_finalizer E (inst w) (GetFinalizer (inst w))"
    and "cleanUp w = (Ok (), w')"
    and "kube_update E (calls w') (remove_finalizer E (inst w') (GetFinalizer (inst w'))) = Inr d"
  shows "reconcile_cycle V E cleanUp logic w =
    (Ok \<lparr>RequeueAfter = 0\<rparr>, w'\<lparr>inst := d, calls := calls w' @
       [KubeUpdate (remove_finalizer E (inst w') (GetFinalizer (inst w')))]\<rparr>)"
  using assms
  by (simp add: reconcile_cycle_def bindG_get tryG_run bindG_def [of "tryG cleanUp"] bindG_modify
      bindG_def [of "tryG (Update E)"] Update_run retG_def)

section \<open>Deletion\<close>

fun is_update :: "'o call \<Rightarrow> bool" where
  "is_update (KubeUpdate d) = True"
| "is_update _ = False"

lemma outcome_call_not_update: "outcome_call False c \<Longrightarrow> \<not> is_update c"
  by (cases c) auto

text \<open>
  C8. While Vault refuses the deletion (any error other than 404) the finalizer stays: the
  cycle deletes, records the failure, makes no update of the object, and returns an error,
  so Kubernetes keeps the resource and retries.
\<close>

theorem failed_delete_keeps_finalizer:
  assumes "is_deleted (inst w)" and "contains_finalizer E (inst w) (GetFinalizer (inst w))"
    and "IsDeletable V (inst w)" and "\<exists>c \<in> set (GetConditions (inst w)). successful c"
    and "vault_delete E (calls w) cl (GetPath V (inst w)) = Inl err" and "status_code err \<noteq> Some 404"
  shows "\<exists>cs. calls (snd (VaultResource_Reconcile V E cl w)) =
      calls w @ VaultDelete cl (GetPath V (inst w)) # cs \<and> list_all (\<lambda>c. \<not> is_update c) cs \<and>
      \<not> is_ok (fst (VaultResource_Reconcile V E cl w))"
proof -
  let ?w = "w\<lparr>calls := calls w @ [VaultDelete cl (GetPath V (inst w))]\<rparr>"
  have "DeleteIfExists V E cl w = (Err err, ?w)"
    using assms(5,6) by (simp add: DeleteIfExists_run delete_path_run)
  then have "manageCleanUpLogic V (DeleteIfExists V E cl) w = (Err err, ?w)"
    using assms(3,4) by (simp add: manageCleanUpLogic_run delete_if_successful_fail)
  then have run: "VaultResource_Reconcile V E cl w = ManageOutcome (Some V) E (Some err) ?w"
    unfolding VaultResource_Reconcile_def using assms(1,2) by (intro cycle_deleted_fail)
  have "emits (outcome_call False) (ManageOutcome (Some V) E (Some err))"
    using emits_ManageOutcome [of "Some err" "Some V" E] by simp
  then obtain cs where cs: "calls (snd (ManageOutcome (Some V) E (Some err) ?w)) = calls ?w @ cs"
      "list_all (outcome_call False) cs"
    by (rule keepsE [where w = ?w]) simp
  moreover have "\<not> is_ok (fst (ManageOutcome (Some V) E (Some err) ?w))"
    using ManageOutcome_Err [of "Some V" E err 0 ?w] unfolding ManageOutcome_def
    by (cases "fst (ManageOutcomeWithRequeue (Some V) E (Some err) 0 ?w)") auto
  ultimately show ?thesis
    unfolding run by (auto simp: list_all_iff dest: outcome_call_not_update)
qed

lemma accepted_delete_run:
  assumes "is_deleted (inst w)" and "contains_finalizer E (inst w) (GetFinalizer (inst w))"
    and "IsDeletable V (inst w)" and "\<exists>c \<in> set (GetConditions (inst w)). successful c"
    and "distinct (map cond_Type (GetConditions (inst w)))"
    and "case vault_delete E (calls w) cl (GetPath V (inst w)) of
           Inl err \<Rightarrow> status_code err = Some 404 | Inr _ \<Rightarrow> True"
    and "kube_update E (calls w @ [VaultDelete cl (GetPath V (inst w))])
           (remove_finalizer E (inst w) (GetFinalizer (inst w))) = Inr d"
  shows "VaultResource_Reconcile V E cl w =
    (Ok \<lparr>RequeueAfter = 0\<rparr>, w\<lparr>inst := d, calls := calls w @
       [VaultDelete cl (GetPath V (inst w)),
        KubeUpdate (remove_finalizer E (inst w) (GetFinalizer (inst w)))]\<rparr>)"
proof -
  let ?w = "w\<lparr>calls := calls w @ [VaultDelete cl (GetPath V (inst w))]\<rparr>"
  have "DeleteIfExists V E cl w = (Ok (), ?w)"
    using assms(6) by (auto simp: DeleteIfExists_run delete_path_run split: sum.splits)
  then have "manageCleanUpLogic V (DeleteIfExists V E cl) w = (Ok (), ?w)"
    using assms(3-5)
    by (simp add: manageCleanUpLogic_run delete_if_successful_once bindG_Ok retG_def)
  then show ?thesis
    unfolding VaultResource_Reconcile_def
    using cycle_deleted_ok [OF assms(1,2), of "manageCleanUpLogic V (DeleteIfExists V E cl)" ?w d] assms(7)
    by simp
qed

text \<open>
  C9. A deletion that Vault accepts (or answers with 404) makes exactly two calls, the
  delete at the object's path and then the update that removes the finalizer, and asks for
  no further reconcile.
\<close>

theorem accepted_delete_releases:
  assumes "is_deleted (inst w)" and "contains_finalizer E (inst w) (GetFinalizer (inst w))"
    and "IsDeletable V (inst w)" and "\<exists>c \<in> set (GetConditions (inst w)). successful c"
    and "distinct (map cond_Type (GetConditions (inst w)))"
    and "case vault_delete E (calls w) cl (GetPath V (inst w)) of
           Inl err \<Rightarrow> status_code err = Some 404 | Inr _ \<Rightarrow> True"
    and "kube_update E (calls w @ [VaultDelete cl (GetPath V (inst w))])
           (remove_finalizer E (inst w) (GetFinalizer (inst w))) = Inr d"
  shows "VaultResource_Reconcile V E cl w =
    (Ok \<lparr>RequeueAfter = 0\<rparr>, w\<lparr>inst := d, calls := calls w @
       [VaultDelete cl (GetPath V (inst w)),
        KubeUpdate (remove_finalizer E (inst w) (GetFinalizer (inst w)))]\<rparr>)"
  using assms by (rule accepted_delete_run)

text \<open>
  C10. A resource that never reconciled successfully, or is not deletable, is released
  without any call to Vault.
\<close>

theorem unreconciled_delete_leaves_vault:
  assumes "is_deleted (inst w)" and "contains_finalizer E (inst w) (GetFinalizer (inst w))"
    and "IsDeletable V (inst w) \<Longrightarrow> \<forall>c \<in> set (GetConditions (inst w)). \<not> successful c"
    and "kube_update E (calls w) (remove_finalizer E (inst w) (GetFinalizer (inst w))) = Inr d"
  shows "VaultResource_Reconcile V E cl w =
    (Ok \<lparr>RequeueAfter = 0\<rparr>, w\<lparr>inst := d, calls := calls w @
       [KubeUpdate (remove_finalizer E (inst w) (GetFinalizer (inst w)))]\<rparr>)"
proof -
  have "manageCleanUpLogic V (DeleteIfExists V E cl) w = (Ok (), w)"
    using assms(3) by (simp add: manageCleanUpLogic_run delete_if_successful_none retG_def)
  then show ?thesis
    unfolding VaultResource_Reconcile_def
    using cycle_deleted_ok [OF assms(1,2), of "manageCleanUpLogic V (DeleteIfExists V E cl)" w d] assms(4)
    by simp
qed

text \<open>
  A failed reconcile of a resource that once succeeded records the failure beside the
  success, so a later deletion still removes the Vault object: a success is never forgotten.
\<close>

theorem failure_keeps_success:
  assumes "c \<in> set (GetConditions d)" and "successful c"
  shows "c \<in> set (GetConditions (SetConditions (AddOrReplaceCondition
      (outcome_condition (Some e) now gen) (GetConditions d)) d))"
  using assms
  by (auto simp: successful_def outcome_condition_def ReconcileSuccessful_def ReconcileFailed_def
      intro!: AddOrReplaceCondition_keeps)

section \<open>Create or update\<close>

lemma CreateOrUpdate_run:
  "CreateOrUpdate V E cl w =
     (let p = GetPath V (inst w); w' = w\<lparr>calls := calls w @ [VaultRead cl p]\<rparr> in
      case read_answer (vault_read E (calls w) cl p) of
        Ok (cur, found) \<Rightarrow>
          if found \<and> IsEquivalentToDesiredState V (inst w) cur then (Ok (), w')
          else writePayload E cl p (Some (GetPayload V (inst w))) w'
      | Err e \<Rightarrow> (Err e, w') | Panic p \<Rightarrow> (Panic p, w'))"
  by (simp add: CreateOrUpdate_def bindG_get bindG_read Let_def retG_def split: res.split)

text \<open>
  A key-value server, as the operator assumes one at a path: a read returns the last payload
  written there, through the server's own normalisation \<open>f\<close>, and writes are accepted.
\<close>

fun stored :: "string \<Rightarrow> 'o call list \<Rightarrow> gmap option" where
  "stored p [] = None"
| "stored p (VaultWrite cl q pl # tr) = (if q = p then pl else stored p tr)"
| "stored p (VaultDelete cl q # tr) = (if q = p then None else stored p tr)"
| "stored p (_ # tr) = stored p tr"

definition kv_server :: "(gmap \<Rightarrow> gmap) \<Rightarrow> 'o env \<Rightarrow> vault_client \<Rightarrow> string \<Rightarrow> bool" where
  "kv_server f E cl p \<longleftrightarrow>
     (\<forall>tr. read_answer (vault_read E tr cl p) = (case stored p (rev tr) of
         None \<Rightarrow> Ok (None, False) | Some m \<Rightarrow> Ok (Some (f m), True))) \<and>
     (\<forall>tr m. \<exists>s. vault_write E tr cl p (Some m) = Inr s)"

text \<open>
  On a key-value server \<open>CreateOrUpdate\<close> always succeeds and leaves at the object's path
  either what was there and counts as equivalent, or exactly the desired payload.
\<close>

theorem CreateOrUpdate_establishes:
  assumes "kv_server f E cl (GetPath V (inst w))"
  shows "fst (CreateOrUpdate V E cl w) = Ok () \<and>
    (\<exists>m. stored (GetPath V (inst w)) (rev (calls (snd (CreateOrUpdate V E cl w)))) = Some m \<and>
       (if m = GetPayload V (inst w) then True
        else IsEquivalentToDesiredState V (inst w) (Some (f m))))"
proof -
  let ?p = "GetPath V (inst w)"
  have wr: "\<exists>s. vault_write E tr cl ?p (Some (GetPayload V (inst w))) = Inr s" for tr
    using assms by (simp add: kv_server_def)
  have rd: "read_answer (vault_read E (calls w) cl ?p) = (case stored ?p (rev (calls w)) of
         None \<Rightarrow> Ok (None, False) | Some m \<Rightarrow> Ok (Some (f m), True))"
    using assms by (simp add: kv_server_def)
  obtain s where "vault_write E (calls w @ [VaultRead cl ?p]) cl ?p (Some (GetPayload V (inst w))) = Inr s"
    using wr by blast
  then show ?thesis
    using rd by (cases "stored ?p (rev (calls w))")
      (auto simp: CreateOrUpdate_run Let_def writePayload_run)
qed

text \<open>
  C11. The cycle settles exactly when the resource recognises its own payload as the server
  gives it back: after one \<open>CreateOrUpdate\<close> that wrote, the next one makes no write if and
  only if the read-back counts as equivalent.
\<close>

theorem CreateOrUpdate_settles_iff:
  assumes "kv_server f E cl (GetPath V (inst w))"
    and "stored (GetPath V (inst w)) (rev (calls w)) = Some (GetPayload V (inst w))"
  shows "calls (snd (CreateOrUpdate V E cl w)) = calls w @ [VaultRead cl (GetPath V (inst w))] \<longleftrightarrow>
    IsEquivalentToDesiredState V (inst w) (Some (f (GetPayload V (inst w))))"
proof -
  let ?p = "GetPath V (inst w)"
  obtain s where "vault_write E (calls w @ [VaultRead cl ?p]) cl ?p (Some (GetPayload V (inst w))) = Inr s"
    using assms(1) unfolding kv_server_def by blast
  then show ?thesis
    using assms by (simp add: kv_server_def CreateOrUpdate_run Let_def writePayload_run)
qed

end
