(* ===== verification/Auth.thy ===== *)
theory Auth
  imports VaultUtils
begin

text \<open>
  How the operator gets a Vault client (\<open>api/v1alpha1/utils/commons.go\<close> and
  \<open>controllers/commons.go\<close>): the connection configuration, the service account token, the
  login, the package-level cache of clients and the watcher that evicts from it.
\<close>

section \<open>Accessors\<close>

definition GetRole :: "KubeAuthConfiguration \<Rightarrow> string" where
  "GetRole kc = ka_Role kc"

definition GetKubeAuthPath :: "KubeAuthConfiguration \<Rightarrow> string" where
  "GetKubeAuthPath kc = CleansePath (''auth/'' @ ka_Path kc @ ''/login'')"

definition GetServiceAccountName :: "KubeAuthConfiguration \<Rightarrow> string" where
  "GetServiceAccountName kc = (case ServiceAccount kc of Some n \<Rightarrow> n | None \<Rightarrow> ''default'')"

section \<open>The cache\<close>

text \<open>
  \<open>getCacheKey\<close> dereferences the service account pointer, which the API's default keeps
  from being nil.
\<close>

definition cache_key :: "string \<Rightarrow> string \<Rightarrow> KubeAuthConfiguration \<Rightarrow> string" where
  "cache_key kubeNamespace sa kc =
     kubeNamespace @ '':'' @ sa @ '':'' @ ka_Path kc @ '':'' @ ka_Role kc @ '':'' @ ka_Namespace kc"

definition getCacheKey :: "KubeAuthConfiguration \<Rightarrow> string \<Rightarrow> ('o, string) go" where
  "getCacheKey kc kubeNamespace = (case ServiceAccount kc of
      None \<Rightarrow> panicG ''nil pointer dereference''
    | Some sa \<Rightarrow> retG (cache_key kubeNamespace sa kc))"

definition cache_Get :: "KubeAuthConfiguration \<Rightarrow> string \<Rightarrow> ('o, vault_client option) go" where
  "cache_Get kc kubeNamespace =
     bindG (getCacheKey kc kubeNamespace) (\<lambda>key w. (Ok (fmlookup (client_cache w) key), w))"

definition cache_Put :: "KubeAuthConfiguration \<Rightarrow> string \<Rightarrow> vault_client \<Rightarrow> ('o, unit) go" where
  "cache_Put kc kubeNamespace cl =
     bindG (getCacheKey kc kubeNamespace)
       (\<lambda>key w. (Ok (), w\<lparr>client_cache := fmupd key cl (client_cache w)\<rparr>))"

definition cache_Delete :: "KubeAuthConfiguration \<Rightarrow> string \<Rightarrow> ('o, unit) go" where
  "cache_Delete kc kubeNamespace =
     bindG (getCacheKey kc kubeNamespace)
       (\<lambda>key w. (Ok (), w\<lparr>client_cache := fmdrop key (client_cache w)\<rparr>))"

text \<open>
  The watcher goroutine: it serves the events of the library's lifetime watcher for ever
  (the loop has no exit), so it is a fold over the events delivered so far. A watcher that
  could not be created is a nil pointer when it is started.
\<close>

datatype watcher_event = WatcherDone "error option" | WatcherRenewed

primrec serve_watcher :: "KubeAuthConfiguration \<Rightarrow> string \<Rightarrow> watcher_event list \<Rightarrow> ('o, unit) go" where
  "serve_watcher kc kubeNamespace [] = retG ()"
| "serve_watcher kc kubeNamespace (ev # evs) =
     bindG (case ev of WatcherDone err \<Rightarrow> cache_Delete kc kubeNamespace | WatcherRenewed \<Rightarrow> retG ())
       (\<lambda>_. serve_watcher kc kubeNamespace evs)"

definition startLifetimeWatcher ::
  "KubeAuthConfiguration \<Rightarrow> string \<Rightarrow> error option \<Rightarrow> watcher_event list \<Rightarrow> ('o, unit) go" where
  "startLifetimeWatcher kc kubeNamespace newWatcherErr evs =
     (if newWatcherErr \<noteq> None then panicG ''nil pointer dereference''
      else serve_watcher kc kubeNamespace evs)"

section \<open>Connection, token, login\<close>

definition getConnectionConfig :: "'o env \<Rightarrow> VaultConnection \<Rightarrow> string \<Rightarrow> ('o, vault_config) go" where
  "getConnectionConfig E vc kubeNamespace =
     (case kube_new_clientset E of
        Some err \<Rightarrow> errG err
      | None \<Rightarrow>
          let config = (vault_default_config E)\<lparr>cfg_Address := vc_Address vc\<rparr>;
              config = (case vc_TimeOut vc of Some t \<Rightarrow> config\<lparr>cfg_Timeout := t\<rparr> | None \<Rightarrow> config);
              config = (case vc_MaxRetries vc of Some n \<Rightarrow> config\<lparr>cfg_MaxRetries := n\<rparr> | None \<Rightarrow> config)
          in case vc_TLSConfig vc of
               None \<Rightarrow> retG config
             | Some tc \<Rightarrow>
                 bindG (case TLSSecret tc of
                          None \<Rightarrow> retG \<lparr>tls_CACert = [], tls_CACertBytes = [], tls_ClientCert = [],
                                        tls_ClientKey = [], tls_TLSServerName = [], tls_Insecure = False\<rparr>
                        | Some name \<Rightarrow>
                            bindG (askG (KubeGetSecret kubeNamespace name)
                                     (\<lambda>tr. kube_get_secret E tr kubeNamespace name))
                              (\<lambda>r. case r of
                                 Inl err \<Rightarrow> errG err
                               | Inr tlsSecret \<Rightarrow> retG
                                   \<lparr>tls_CACert = [], tls_CACertBytes = str_at (sec_Data tlsSecret) ''ca.crt'',
                                    tls_ClientCert = str_at (sec_Data tlsSecret) ''tls.crt'',
                                    tls_ClientKey = str_at (sec_Data tlsSecret) ''tls.key'',
                                    tls_TLSServerName = [], tls_Insecure = False\<rparr>))
                   (\<lambda>tlsConfig.
                      let tlsConfig = (case Cacert tc of
                            Some c \<Rightarrow> tlsConfig\<lparr>tls_CACert := c\<rparr> | None \<Rightarrow> tlsConfig);
                          tlsConfig = (case TLSServerName tc of
                            Some n \<Rightarrow> tlsConfig\<lparr>tls_TLSServerName := n\<rparr> | None \<Rightarrow> tlsConfig);
                          tlsConfig = tlsConfig\<lparr>tls_Insecure := SkipVerify tc\<rparr>
                      in retG (vault_configure_tls E config tlsConfig)))"

definition GetJWTTokenWithDuration :: "'o env \<Rightarrow> string \<Rightarrow> string \<Rightarrow> int \<Rightarrow> ('o, string) go" where
  "GetJWTTokenWithDuration E serviceAccountName kubeNamespace duration =
     (case kube_new_clientset E of
        Some err \<Rightarrow> errG err
      | None \<Rightarrow>
          bindG (askG (KubeCreateToken kubeNamespace serviceAccountName duration)
                   (\<lambda>tr. kube_create_token E tr kubeNamespace serviceAccountName duration))
            (\<lambda>r. case r of Inl err \<Rightarrow> errG err | Inr tok \<Rightarrow> retG tok))"

definition GetJWTToken :: "'o env \<Rightarrow> string \<Rightarrow> string \<Rightarrow> ('o, string) go" where
  "GetJWTToken E serviceAccountName kubeNamespace =
     GetJWTTokenWithDuration E serviceAccountName kubeNamespace 600"

definition getJWTToken :: "'o env \<Rightarrow> KubeAuthConfiguration \<Rightarrow> string \<Rightarrow> ('o, string) go" where
  "getJWTToken E kc kubeNamespace = GetJWTToken E (GetServiceAccountName kc) kubeNamespace"

definition login_payload :: "KubeAuthConfiguration \<Rightarrow> string \<Rightarrow> gmap" where
  "login_payload kc jwt = fmap_of_list [(''jwt'', VStr jwt), (''role'', VStr (GetRole kc))]"

definition createVaultClient ::
  "'o env \<Rightarrow> VaultConnection option \<Rightarrow> KubeAuthConfiguration \<Rightarrow> string \<Rightarrow> string \<Rightarrow> ('o, vault_client) go" where
  "createVaultClient E vaultConnection kc jwt namespace =
     bindG (case vaultConnection of
              Some vc \<Rightarrow> getConnectionConfig E vc namespace
            | None \<Rightarrow> retG (vault_default_config E)) (\<lambda>config.
     bindG (askG (VaultNewClient config) (\<lambda>tr. vault_new_client E tr config)) (\<lambda>r. case r of
         Inl err \<Rightarrow> errG err
       | Inr client0 \<Rightarrow>
           let client = (if ka_Namespace kc \<noteq> [] then client0\<lparr>client_Namespace := ka_Namespace kc\<rparr> else client0)
           in bindG (askG (VaultWrite client (GetKubeAuthPath kc) (Some (login_payload kc jwt)))
                       (\<lambda>tr. vault_write E tr client (GetKubeAuthPath kc) (Some (login_payload kc jwt))))
                (\<lambda>r. case r of
                   Inl err \<Rightarrow> errG err
                 | Inr secret \<Rightarrow>
                     (case Option.bind secret vs_Auth of
                        None \<Rightarrow> panicG ''nil pointer dereference''
                      | Some token \<Rightarrow>
                          let client = client\<lparr>client_Token := token\<rparr> in
                          bindG (if os_env E ''CACHE_VAULT_TOKEN'' = Some ''true''
                                 then askG (WatchLifetime client) (\<lambda>_. ()) else retG ())
                            (\<lambda>_. retG client)))))"

definition fresh_client ::
  "'o env \<Rightarrow> VaultConnection option \<Rightarrow> KubeAuthConfiguration \<Rightarrow> string \<Rightarrow> ('o, vault_client) go" where
  "fresh_client E vaultConnection kc kubeNamespace =
     bindG (getJWTToken E kc kubeNamespace) (\<lambda>jwt.
     bindG (createVaultClient E vaultConnection kc jwt kubeNamespace) (\<lambda>cl.
     bindG (if os_env E ''CACHE_VAULT_TOKEN'' = None \<or> os_env E ''CACHE_VAULT_TOKEN'' = Some ''true''
            then cache_Put kc kubeNamespace cl else retG ()) (\<lambda>_.
     retG cl)))"

definition GetVaultClient ::
  "'o env \<Rightarrow> VaultConnection option \<Rightarrow> KubeAuthConfiguration \<Rightarrow> string \<Rightarrow> ('o, vault_client) go" where
  "GetVaultClient E vaultConnection kc kubeNamespace =
     (if os_env E ''CACHE_VAULT_TOKEN'' = Some ''true''
      then bindG (cache_Get kc kubeNamespace) (\<lambda>c. case c of
             None \<Rightarrow> fresh_client E vaultConnection kc kubeNamespace
           | Some cl \<Rightarrow>
               bindG (askG (VaultLookupSelf cl) (\<lambda>tr. vault_lookup_self E tr cl)) (\<lambda>err.
                 if err = None then retG cl else fresh_client E vaultConnection kc kubeNamespace))
      else fresh_client E vaultConnection kc kubeNamespace)"

text \<open>
  \<open>prepareContext\<close> returns the client it puts into the context; the rest of the context
  (the clients of the API server) is part of the environment.
\<close>

definition prepareContext ::
  "('y BaseSpec_scheme, 't) crd env \<Rightarrow> (('y BaseSpec_scheme, 't) crd, vault_client) go" where
  "prepareContext E =
     bindG getG (\<lambda>d. GetVaultClient E (GetVaultConnection d) (GetKubeAuthConfiguration d) (GetNamespace d))"

section \<open>The cache keys\<close>

lemma colon_split:
  "a @ CHR '':'' # b = a' @ CHR '':'' # b' \<Longrightarrow> CHR '':'' \<notin> set a \<Longrightarrow> CHR '':'' \<notin> set a' \<Longrightarrow> a = a' \<and> b = b'"
proof (induction a arbitrary: a')
  case Nil
  then show ?case by (cases a') auto
next
  case (Cons x xs)
  then show ?case by (cases a') auto
qed

text \<open>
  Where no namespace, service account, path or role holds a colon, the cache key tells
  all five parts apart: two resources share a cached client only if they authenticate with
  the same service account of the same namespace, at the same path, for the same role and
  in the same Vault namespace.
\<close>

theorem cache_key_injective:
  assumes "CHR '':'' \<notin> set ns" and "CHR '':'' \<notin> set ns'" and "CHR '':'' \<notin> set sa" and "CHR '':'' \<notin> set sa'"
    and "CHR '':'' \<notin> set (ka_Path kc)" and "CHR '':'' \<notin> set (ka_Path kc')"
    and "CHR '':'' \<notin> set (ka_Role kc)" and "CHR '':'' \<notin> set (ka_Role kc')"
    and "cache_key ns sa kc = cache_key ns' sa' kc'"
  shows "ns = ns' \<and> sa = sa' \<and> ka_Path kc = ka_Path kc' \<and> ka_Role kc = ka_Role kc' \<and>
    ka_Namespace kc = ka_Namespace kc'"
  using assms colon_split unfolding cache_key_def
  by (metis append_Cons append_Nil)

definition key_auth :: "string \<Rightarrow> string \<Rightarrow> KubeAuthConfiguration" where
  "key_auth path role = \<lparr>ServiceAccount = Some ''sa'', ka_Path = path, ka_Role = role, ka_Namespace = []\<rparr>"

theorem cache_key_injective_witness:
  "cache_key ''team'' ''sa'' (key_auth ''kubernetes'' ''admin'') =
     cache_key ''team'' ''sa'' (key_auth ''kubernetes'' ''admin'') \<and>
   cache_key ''team'' ''sa'' (key_auth ''kubernetes'' ''admin'') \<noteq>
     cache_key ''team'' ''sa'' (key_auth ''kubernetes'' ''reader'')"
  using cache_key_injective [of "''team''" "''team''" "''sa''" "''sa''" "key_auth ''kubernetes'' ''admin''"
      "key_auth ''kubernetes'' ''reader''"]
  by (auto simp: key_auth_def)

text \<open>A colon in a path or a role makes two configurations share a key.\<close>

lemma cache_key_collision:
  "cache_key ''team'' ''sa'' (key_auth ''a:b'' ''c'') = cache_key ''team'' ''sa'' (key_auth ''a'' ''b:c'')"
  by (simp add: cache_key_def key_auth_def)

section \<open>Properties of the client\<close>

lemma getCacheKey_run: "ServiceAccount kc = Some sa \<Longrightarrow> getCacheKey kc ns = retG (cache_key ns sa kc)"
  by (simp add: getCacheKey_def)

lemma bindG_cache_Get:
  "ServiceAccount kc = Some sa \<Longrightarrow>
     bindG (cache_Get kc ns) f w = f (fmlookup (client_cache w) (cache_key ns sa kc)) w"
  by (simp add: cache_Get_def getCacheKey_run) (simp add: bindG_def)

text \<open>
  With caching switched on, a cached client whose token Vault still accepts is handed
  out again: one lookup of the token, no new token and no login.
\<close>

theorem cached_client_reused:
  assumes "os_env E ''CACHE_VAULT_TOKEN'' = Some ''true''" and "ServiceAccount kc = Some sa"
    and "fmlookup (client_cache w) (cache_key ns sa kc) = Some cl"
    and "vault_lookup_self E (calls w) cl = None"
  shows "GetVaultClient E conn kc ns w = (Ok cl, w\<lparr>calls := calls w @ [VaultLookupSelf cl]\<rparr>)"
  using assms
  by (simp add: GetVaultClient_def bindG_cache_Get bindG_ask go_runs)

text \<open>What an effect does to the cache: nothing.\<close>

definition cache_stable :: "('o, 'a) go \<Rightarrow> bool" where
  "cache_stable m \<longleftrightarrow> (\<forall>w. client_cache (snd (m w)) = client_cache w)"

lemma cache_stable_bind: "cache_stable m \<Longrightarrow> (\<And>x. cache_stable (f x)) \<Longrightarrow> cache_stable (bindG m f)"
  by (auto simp: cache_stable_def bindG_def split: prod.split res.split) (metis snd_conv)+

lemma cache_stable_cases:
  "(b \<Longrightarrow> cache_stable m) \<Longrightarrow> (\<not> b \<Longrightarrow> cache_stable m') \<Longrightarrow> cache_stable (if b then m else m')"
  "(\<And>e. cache_stable (f e)) \<Longrightarrow> (\<And>y. cache_stable (g y)) \<Longrightarrow> cache_stable (case x of Inl e \<Rightarrow> f e | Inr y \<Rightarrow> g y)"
  "cache_stable m \<Longrightarrow> (\<And>y. cache_stable (h y)) \<Longrightarrow> cache_stable (case z of None \<Rightarrow> m | Some y \<Rightarrow> h y)"
  by (simp_all split: sum.split option.split)

lemma cache_stable_runs:
  "cache_stable (retG x)" "cache_stable (errG e)" "cache_stable (panicG p)" "cache_stable (askG c a)"
  by (simp_all add: cache_stable_def go_runs)

lemmas cache_stable_intros = cache_stable_bind cache_stable_cases cache_stable_runs

lemma cache_stable_createVaultClient: "cache_stable (createVaultClient E conn kc jwt ns)"
  unfolding createVaultClient_def getConnectionConfig_def Let_def by (intro cache_stable_intros)

lemma cache_stable_getJWTToken: "cache_stable (getJWTToken E kc ns)"
  unfolding getJWTToken_def GetJWTToken_def GetJWTTokenWithDuration_def by (intro cache_stable_intros)

lemma cache_stable_cache_Get: "cache_stable (cache_Get kc ns)"
  by (auto simp: cache_stable_def cache_Get_def getCacheKey_def bindG_def go_runs split: option.split)

lemma bindG_not_ok_cache:
  assumes m: "cache_stable m"
    and f: "\<And>x w. \<not> is_ok (fst (f x w)) \<Longrightarrow> client_cache (snd (f x w)) = client_cache w"
    and no: "\<not> is_ok (fst (bindG m f w))"
  shows "client_cache (snd (bindG m f w)) = client_cache w"
proof -
  obtain r w' where run: "m w = (r, w')" by (cases "m w")
  have w': "client_cache w' = client_cache w" using m run unfolding cache_stable_def by (metis snd_conv)
  show ?thesis using run w' no f by (cases r) (auto simp: bindG_def)
qed

text \<open>
  A client enters the cache only on success: if the token request, the connection, the
  login or anything else fails, the cache is as it was.
\<close>

theorem failed_login_caches_nothing:
  "if is_ok (fst (GetVaultClient E conn kc ns w)) then True
   else client_cache (snd (GetVaultClient E conn kc ns w)) = client_cache w"
proof -
  have put: "\<not> is_ok (fst (bindG (if b then cache_Put kc ns cl else retG ()) (\<lambda>_. retG cl) w)) \<Longrightarrow>
      client_cache (snd (bindG (if b then cache_Put kc ns cl else retG ()) (\<lambda>_. retG cl) w)) = client_cache w"
    for b cl and w :: "'a world"
    by (auto simp: cache_Put_def getCacheKey_def bindG_def go_runs split: option.splits if_splits)
  have fresh: "\<not> is_ok (fst (fresh_client E conn kc ns w)) \<Longrightarrow>
      client_cache (snd (fresh_client E conn kc ns w)) = client_cache w" for w
    unfolding fresh_client_def
    by (rule bindG_not_ok_cache [OF cache_stable_getJWTToken], rule bindG_not_ok_cache
        [OF cache_stable_createVaultClient], rule put)
  have "\<not> is_ok (fst (GetVaultClient E conn kc ns w)) \<Longrightarrow>
      client_cache (snd (GetVaultClient E conn kc ns w)) = client_cache w"
  proof (cases "os_env E ''CACHE_VAULT_TOKEN'' = Some ''true''")
    case True
    let ?look = "\<lambda>cl. bindG (askG (VaultLookupSelf cl) (\<lambda>tr. vault_lookup_self E tr cl)) (\<lambda>err.
                 if err = None then retG cl else fresh_client E conn kc ns)"
    have "\<not> is_ok (fst (?look cl w)) \<Longrightarrow> client_cache (snd (?look cl w)) = client_cache w" for cl w
      by (rule bindG_not_ok_cache [OF cache_stable_runs(4)]) (auto simp: go_runs fresh split: if_splits)
    then have "\<not> is_ok (fst ((case c of None \<Rightarrow> fresh_client E conn kc ns | Some cl \<Rightarrow> ?look cl) w)) \<Longrightarrow>
        client_cache (snd ((case c of None \<Rightarrow> fresh_client E conn kc ns | Some cl \<Rightarrow> ?look cl) w)) =
        client_cache w" for c w
      using fresh by (cases c) simp_all
    moreover assume "\<not> is_ok (fst (GetVaultClient E conn kc ns w))"
    ultimately show ?thesis
      unfolding GetVaultClient_def if_P [OF True] by (rule bindG_not_ok_cache [OF cache_stable_cache_Get])
  qed (simp add: GetVaultClient_def fresh)
  then show ?thesis by simp
qed

text \<open>
  The login without caching: a service account token valid for ten minutes, a client
  from the default configuration, one write of the token and the role at the login path in
  the Vault namespace of the resource, and the client carries the token Vault returned.
\<close>

theorem login_protocol:
  assumes "os_env E ''CACHE_VAULT_TOKEN'' = Some ''false''" and "kube_new_clientset E = None"
    and "kube_create_token E (calls w) ns (GetServiceAccountName kc) 600 = Inr jwt"
    and "vault_new_client E (calls w @ [KubeCreateToken ns (GetServiceAccountName kc) 600])
           (vault_default_config E) = Inr c0"
    and "c = (if ka_Namespace kc \<noteq> [] then c0\<lparr>client_Namespace := ka_Namespace kc\<rparr> else c0)"
    and "vault_write E (calls w @ [KubeCreateToken ns (GetServiceAccountName kc) 600,
           VaultNewClient (vault_default_config E)]) c (GetKubeAuthPath kc) (Some (login_payload kc jwt)) =
         Inr (Some secret)"
    and "vs_Auth secret = Some tok"
  shows "GetVaultClient E None kc ns w = (Ok (c\<lparr>client_Token := tok\<rparr>), w\<lparr>calls := calls w @
    [KubeCreateToken ns (GetServiceAccountName kc) 600, VaultNewClient (vault_default_config E),
     VaultWrite c (GetKubeAuthPath kc) (Some (login_payload kc jwt))]\<rparr>)"
proof -
  let ?w1 = "w\<lparr>calls := calls w @ [KubeCreateToken ns (GetServiceAccountName kc) 600]\<rparr>"
  let ?w2 = "w\<lparr>calls := calls w @ [KubeCreateToken ns (GetServiceAccountName kc) 600,
      VaultNewClient (vault_default_config E), VaultWrite c (GetKubeAuthPath kc) (Some (login_payload kc jwt))]\<rparr>"
  have tok: "getJWTToken E kc ns w = (Ok jwt, ?w1)"
    using assms(2,3) by (simp add: getJWTToken_def GetJWTToken_def GetJWTTokenWithDuration_def bindG_ask go_runs)
  have "createVaultClient E None kc jwt ns ?w1 = (Ok (c\<lparr>client_Token := tok\<rparr>), ?w2)"
    using assms by (simp add: createVaultClient_def bindG_ask Let_def go_runs cong: if_cong)
  then show ?thesis
    using tok assms(1) by (simp add: GetVaultClient_def fresh_client_def bindG_Ok go_runs)
qed

text \<open>
  With the switch unset a client is stored after every login but never handed out:
  what \<open>GetVaultClient\<close> returns and does does not depend on the cache.
\<close>

lemma cache_unused_without_switch:
  "os_env E ''CACHE_VAULT_TOKEN'' = None \<Longrightarrow> GetVaultClient E conn kc ns = fresh_client E conn kc ns"
  by (simp add: GetVaultClient_def)

end
