(* ===== verification/Controllers.thy ===== *)
theory Controllers
  imports Reconcilers Auth
begin

text \<open>
  What the controllers of \<open>controllers/\<close> share: the prologue of their \<open>Reconcile\<close> (fetch the
  instance, prepare the context), and the event predicates and ownership test of
  \<open>controllers/vaultresourcecontroller/utils.go\<close>.
\<close>

section \<open>The prologue of a controller\<close>

definition fetch_instance :: "'o env \<Rightarrow> string \<Rightarrow> string \<Rightarrow> ('o, unit) go" where
  "fetch_instance E ns n = kube_putG (KubeGetInstance ns n) (\<lambda>tr. kube_get_instance E tr ns n)"

definition controller_Reconcile ::
  "(('y BaseSpec_scheme, 'x) object, 'z) VaultObject_scheme \<Rightarrow> ('y BaseSpec_scheme, 'x) object env \<Rightarrow>
     (vault_client \<Rightarrow> (('y BaseSpec_scheme, 'x) object, Result) go) \<Rightarrow> string \<Rightarrow> string \<Rightarrow>
     (('y BaseSpec_scheme, 'x) object, Result) go" where
  "controller_Reconcile V E body ns n =
     bindG (tryG (fetch_instance E ns n)) (\<lambda>r. case r of
         Inl err \<Rightarrow> if IsNotFound err then retG \<lparr>RequeueAfter = 0\<rparr> else errG err
       | Inr _ \<Rightarrow> bindG (tryG (prepareContext E)) (\<lambda>r. case r of
             Inl err \<Rightarrow> ManageOutcome (Some V) E (Some err)
           | Inr cl \<Rightarrow> body cl))"

section \<open>Event predicates\<close>

definition IsDriftDetectionEnabled :: "(string \<Rightarrow> string option) \<Rightarrow> bool" where
  "IsDriftDetectionEnabled lookupEnv =
     (case lookupEnv ''ENABLE_DRIFT_DETECTION'' of Some v \<Rightarrow> v = ''true'' | None \<Rightarrow> False)"

definition DefaultSyncPeriod :: int where
  "DefaultSyncPeriod = 36000 * Second"

record PeriodicReconcilePredicate =
  ReconcileInterval :: int

definition NewPeriodicReconcilePredicate :: "int \<Rightarrow> PeriodicReconcilePredicate" where
  "NewPeriodicReconcilePredicate reconcileInterval = \<lparr>ReconcileInterval = reconcileInterval\<rparr>"

text \<open>The first successful condition decides; the loop breaks there.\<close>

primrec interval_elapsed :: "int \<Rightarrow> int \<Rightarrow> condition list \<Rightarrow> bool" where
  "interval_elapsed interval now [] = False"
| "interval_elapsed interval now (condition # conditions) =
     (if cond_Type condition = ReconcileSuccessful \<and> cond_Status condition = ConditionTrue
      then time_Sub now (cond_LastTransitionTime condition) \<ge> interval
      else interval_elapsed interval now conditions)"

definition PeriodicReconcilePredicate_Update ::
  "PeriodicReconcilePredicate \<Rightarrow> (string \<Rightarrow> string option) \<Rightarrow> int \<Rightarrow> ('s, 'x) object option \<Rightarrow>
     ('s, 'x) object option \<Rightarrow> bool" where
  "PeriodicReconcilePredicate_Update p lookupEnv now objectOld objectNew =
     (case (objectOld, objectNew) of
        (Some old, Some new) \<Rightarrow>
          if meta_Generation (Meta new) \<noteq> meta_Generation (Meta old) then True
          else if \<not> IsDriftDetectionEnabled lookupEnv then False
          else interval_elapsed (ReconcileInterval p) now (GetConditions new)
      | _ \<Rightarrow> False)"

lemma interval_elapsed_iff:
  "distinct (map cond_Type cs) \<Longrightarrow> interval_elapsed i now cs \<longleftrightarrow>
     (\<exists>c \<in> set cs. successful c \<and> time_Sub now (cond_LastTransitionTime c) \<ge> i)"
proof (induction cs)
  case (Cons c cs)
  show ?case
  proof (cases "successful c")
    case True
    then have "\<not> successful d" if "d \<in> set cs" for d
      using Cons.prems that by (metis distinct.simps(2) image_eqI list.set_map list.simps(9) successful_def)
    then show ?thesis using True by (auto simp: successful_def)
  next
    case False
    then show ?thesis using Cons by (auto simp: successful_def)
  qed
qed simp

lemma time_Sub_ge_iff:
  "minDuration < i \<Longrightarrow> i \<le> maxDuration \<Longrightarrow> time_Sub t u \<ge> i \<longleftrightarrow> t - u \<ge> i"
  by (auto simp: time_Sub_def)

text \<open>
  An update event passes the predicate exactly when the generation changed, or drift
  detection is switched on and the last successful reconcile is at least one interval ago.
  A status update alone (the operator's own) never passes while drift detection is off.
\<close>

theorem PeriodicReconcilePredicate_Update_iff:
  assumes "distinct (map cond_Type (GetConditions new))"
    and "minDuration < ReconcileInterval p" and "ReconcileInterval p \<le> maxDuration"
  shows "PeriodicReconcilePredicate_Update p lookupEnv now (Some old) (Some new) \<longleftrightarrow>
    meta_Generation (Meta new) \<noteq> meta_Generation (Meta old) \<or>
    lookupEnv ''ENABLE_DRIFT_DETECTION'' = Some ''true'' \<and>
      (\<exists>c \<in> set (GetConditions new). successful c \<and>
         now - cond_LastTransitionTime c \<ge> ReconcileInterval p)"
  using assms
  by (auto simp: PeriodicReconcilePredicate_Update_def IsDriftDetectionEnabled_def interval_elapsed_iff
      time_Sub_ge_iff split: option.splits)

section \<open>Ownership\<close>

definition IsOwner :: "('s, 't) crd \<Rightarrow> ObjectMeta \<Rightarrow> bool" where
  "IsOwner owner owned =
     list_ex (\<lambda>ownerRef. owner_Name ownerRef = GetName owner \<and> owner_UID ownerRef = meta_UID (Meta owner) \<and>
       owner_Kind ownerRef = TypeKind owner) (meta_OwnerReferences owned)"

section \<open>Objects of the cluster\<close>

text \<open>
  Creating or overwriting, and deleting, a Kubernetes secret on behalf of an owner.
  \<open>SetControllerReference\<close> is library code: \<open>set_controller\<close> is what it makes of the secret.
\<close>

definition CreateOrUpdateResource ::
  "'o env \<Rightarrow> (k8s_secret \<Rightarrow> k8s_secret) \<Rightarrow> string \<Rightarrow> k8s_secret \<Rightarrow> ('o, unit) go" where
  "CreateOrUpdateResource E set_controller namespace obj0 =
     (let obj1 = set_controller obj0;
          obj = (if namespace \<noteq> [] then obj1\<lparr>sec_Meta := (sec_Meta obj1)\<lparr>meta_Namespace := namespace\<rparr>\<rparr> else obj1);
          ns = meta_Namespace (sec_Meta obj); n = meta_Name (sec_Meta obj) in
      bindG (askG (KubeGetSecret ns n) (\<lambda>tr. kube_get_secret E tr ns n)) (\<lambda>r. case r of
          Inl err \<Rightarrow>
            if IsNotFound err
            then bindG (askG (KubeCreateSecret obj) (\<lambda>tr. kube_create_secret E tr obj))
                   (\<lambda>r. case r of Inl err \<Rightarrow> errG err | Inr _ \<Rightarrow> retG ())
            else errG err
        | Inr obj2 \<Rightarrow>
            let obj' = obj\<lparr>sec_Meta := (sec_Meta obj)\<lparr>meta_ResourceVersion := meta_ResourceVersion (sec_Meta obj2)\<rparr>\<rparr>
            in bindG (askG (KubeUpdateSecret obj') (\<lambda>tr. kube_update_secret E tr obj'))
                 (\<lambda>r. case r of Inl err \<Rightarrow> errG err | Inr _ \<Rightarrow> retG ())))"

definition DeleteResourceIfExists :: "'o env \<Rightarrow> string \<Rightarrow> string \<Rightarrow> ('o, unit) go" where
  "DeleteResourceIfExists E ns n =
     bindG (askG (KubeDeleteSecret ns n) (\<lambda>tr. kube_delete_secret E tr ns n)) (\<lambda>r. case r of
         Some err \<Rightarrow> if IsNotFound err then retG () else errG err
       | None \<Rightarrow> retG ())"

end
