(* ===== verification/Samples.thy ===== *)
theory Samples
  imports Lifecycle Controllers
begin

text \<open>
  A concrete environment for the witnesses: a key-value Vault server that accepts every
  write and delete, an API server that stores what it is sent and keeps finalizers as a
  list, a clock that counts the calls. A witness changes the fields it cares about.
\<close>

definition sample_vault_config :: vault_config where
  "sample_vault_config =
     \<lparr>cfg_Address = ''https://127.0.0.1:8200'', cfg_Timeout = 60000000000, cfg_MaxRetries = 2, cfg_Transport = []\<rparr>"

definition sample_client :: vault_client where
  "sample_client = \<lparr>client_Config = sample_vault_config, client_Namespace = [], client_Token = ''t''\<rparr>"

definition data_secret :: "gmap \<Rightarrow> vault_secret" where
  "data_secret m = \<lparr>vs_LeaseID = [], vs_LeaseDuration = 0, vs_Renewable = False,
     vs_Data = Some m, vs_Auth = None\<rparr>"

definition has_fin :: "('s, 't) crd \<Rightarrow> string \<Rightarrow> bool" where
  "has_fin d f \<longleftrightarrow> f \<in> set (meta_Finalizers (Meta d))"

definition add_fin :: "('s, 't) crd \<Rightarrow> string \<Rightarrow> ('s, 't) crd" where
  "add_fin d f = d\<lparr>Meta := (Meta d)\<lparr>meta_Finalizers := meta_Finalizers (Meta d) @ [f]\<rparr>\<rparr>"

definition remove_fin :: "('s, 't) crd \<Rightarrow> string \<Rightarrow> ('s, 't) crd" where
  "remove_fin d f = d\<lparr>Meta := (Meta d)\<lparr>meta_Finalizers := filter (\<lambda>g. g \<noteq> f) (meta_Finalizers (Meta d))\<rparr>\<rparr>"

definition sample_env :: "('s, 't) crd env" where
  "sample_env =
     \<lparr>vault_read = (\<lambda>tr cl p. Inr (map_option data_secret (stored p (rev tr)))),
      vault_write = (\<lambda>tr cl p m. Inr None),
      vault_delete = (\<lambda>tr cl p. Inr None),
      vault_lookup_self = (\<lambda>tr cl. None),
      vault_default_config = sample_vault_config,
      vault_configure_tls = (\<lambda>c t. c),
      vault_new_client = (\<lambda>tr c. Inr \<lparr>client_Config = c, client_Namespace = [], client_Token = []\<rparr>),
      kube_new_clientset = None,
      kube_get_instance = (\<lambda>tr ns n. Inl (KubeNotFound ''not found'')),
      kube_update = (\<lambda>tr d. Inr d),
      kube_status_update = (\<lambda>tr d. Inr d),
      kube_get_secret = (\<lambda>tr ns n. Inl (KubeNotFound ''not found'')),
      kube_create_secret = (\<lambda>tr s. Inr s),
      kube_update_secret = (\<lambda>tr s. Inr s),
      kube_delete_secret = (\<lambda>tr ns n. None),
      kube_get_randomsecret = (\<lambda>tr ns n. Inl (KubeNotFound ''not found'')),
      label_selector = (\<lambda>s. Inr s),
      kube_list_namespaces = (\<lambda>tr sel. Inr []),
      kube_create_token = (\<lambda>tr ns sa d. Inr ''jwt''),
      time_now = (\<lambda>tr. int (length tr)),
      rand_intn = (\<lambda>tr n. 0),
      range_rank = (\<lambda>tr k. 0),
      os_env = (\<lambda>k. None),
      contains_finalizer = has_fin,
      add_finalizer = add_fin,
      remove_finalizer = remove_fin\<rparr>"

lemma sample_env_simps [simp]:
  "vault_read sample_env = (\<lambda>tr cl p. Inr (map_option data_secret (stored p (rev tr))))"
  "vault_write sample_env = (\<lambda>tr cl p m. Inr None)"
  "vault_delete sample_env = (\<lambda>tr cl p. Inr None)"
  "kube_update sample_env = (\<lambda>tr d. Inr d)"
  "kube_status_update sample_env = (\<lambda>tr d. Inr d)"
  "kube_get_secret sample_env = (\<lambda>tr ns n. Inl (KubeNotFound ''not found''))"
  "kube_get_randomsecret sample_env = (\<lambda>tr ns n. Inl (KubeNotFound ''not found''))"
  "label_selector sample_env = (\<lambda>s. Inr s)"
  "kube_list_namespaces sample_env = (\<lambda>tr sel. Inr [])"
  "kube_create_token sample_env = (\<lambda>tr ns sa d. Inr ''jwt'')"
  "time_now sample_env = (\<lambda>tr. int (length tr))"
  "range_rank sample_env = (\<lambda>tr k. 0)"
  "contains_finalizer sample_env = has_fin"
  "add_finalizer sample_env = add_fin"
  "remove_finalizer sample_env = remove_fin"
  by (simp_all add: sample_env_def)

lemma sample_kv_server [simp]: "kv_server (\<lambda>m. m) sample_env cl p"
  by (simp add: kv_server_def read_answer_def data_secret_def split: option.split)

definition start_world :: "('s, 't) crd \<Rightarrow> ('s, 't) crd world" where
  "start_world d = \<lparr>inst = d, calls = [], client_cache = fmempty\<rparr>"

lemma start_world_simps [simp]:
  "inst (start_world d) = d" "calls (start_world d) = []" "client_cache (start_world d) = fmempty"
  by (simp_all add: start_world_def)

definition sample_meta :: "string \<Rightarrow> ObjectMeta" where
  "sample_meta n =
     \<lparr>meta_Name = n, meta_Namespace = ''team'', meta_UID = ''u1'', meta_Generation = 1,
      meta_DeletionTimestamp = None, meta_Finalizers = [], meta_OwnerReferences = [],
      meta_Annotations = None, meta_Labels = None, meta_ResourceVersion = ''1''\<rparr>"

definition sample_auth :: KubeAuthConfiguration where
  "sample_auth = \<lparr>ServiceAccount = Some ''default'', ka_Path = ''kubernetes'', ka_Role = ''admin'',
     ka_Namespace = []\<rparr>"

definition success_condition :: condition where
  "success_condition = outcome_condition None 0 1"

lemma successful_success [simp]: "successful success_condition"
  by (simp add: success_condition_def outcome_condition_def successful_def)

definition to_be_deleted :: "('s, 'x) object \<Rightarrow> ('s, 'x) object" where
  "to_be_deleted d = SetConditions [success_condition]
     (add_fin (d\<lparr>Meta := (Meta d)\<lparr>meta_DeletionTimestamp := Some 5\<rparr>\<rparr>) (GetFinalizer d))"

lemma to_be_deleted_simps [simp]:
  "is_deleted (to_be_deleted d)"
  "has_fin (to_be_deleted d) (GetFinalizer (to_be_deleted d))"
  "GetConditions (to_be_deleted d) = [success_condition]"
  "GetFinalizer (to_be_deleted d) = GetFinalizer d"
  "Spec (to_be_deleted d) = Spec d"
  "GetName (to_be_deleted d) = GetName d"
  by (simp_all add: to_be_deleted_def is_deleted_def add_fin_def has_fin_def GetFinalizer_def GetName_def)

lemma has_fin_to_be_deleted [simp]: "has_fin (to_be_deleted d) (GetFinalizer d)"
  using to_be_deleted_simps(2) [of d] by simp

text \<open>The sample API server accepts what \<open>ManageOutcome\<close> sends.\<close>

lemma ManageOutcome_sample:
  "fst (ManageOutcomeWithRequeue vo sample_env None t w) = Ok \<lparr>RequeueAfter = t\<rparr>"
  by (simp add: ManageOutcomeWithRequeue_def bindG_assoc bindG_get bindG_ask bindG_modify
      bindG_StatusUpdate bindG_Update go_runs)

section \<open>Witnesses of the shared components\<close>

definition switch_env :: "string \<Rightarrow> ('s, 't) crd env" where
  "switch_env v = sample_env\<lparr>
     os_env := (\<lambda>k. if k = ''CACHE_VAULT_TOKEN'' then Some v else None),
     vault_write := \<lambda>tr cl p m. Inr (Some \<lparr>vs_LeaseID = [], vs_LeaseDuration = 0, vs_Renewable = False,
       vs_Data = None, vs_Auth = Some ''s.1''\<rparr>)\<rparr>"

definition sample_owner :: "(unit, BaseStatus) crd" where
  "sample_owner = \<lparr>TypeKind = ''Policy'', Meta = sample_meta ''p'', Spec = (), Status = \<lparr>Conditions = []\<rparr>\<rparr>"

theorem cached_client_reused_witness:
  "GetVaultClient (switch_env ''true'') None sample_auth ''team''
     ((start_world sample_owner)\<lparr>client_cache := fmap_of_list [(''team:default:kubernetes:admin:'', sample_client)]\<rparr>) =
   (Ok sample_client,
    (start_world sample_owner)\<lparr>client_cache := fmap_of_list [(''team:default:kubernetes:admin:'', sample_client)],
       calls := [VaultLookupSelf sample_client]\<rparr>)"
  using cached_client_reused [where E = "switch_env ''true''" and kc = sample_auth and ns = "''team''"
      and w = "(start_world sample_owner)\<lparr>client_cache := fmap_of_list [(''team:default:kubernetes:admin:'', sample_client)]\<rparr>"
      and cl = sample_client and conn = None]
  by (simp add: switch_env_def sample_env_def sample_auth_def cache_key_def)

theorem login_protocol_witness:
  "fst (GetVaultClient (switch_env ''false'') None sample_auth ''team'' (start_world sample_owner)) =
     Ok \<lparr>client_Config = sample_vault_config, client_Namespace = [], client_Token = ''s.1''\<rparr>"
  using login_protocol [where E = "switch_env ''false''" and kc = sample_auth and ns = "''team''"
      and w = "start_world sample_owner" and jwt = "''jwt''" and tok = "''s.1''"
      and c0 = "\<lparr>client_Config = sample_vault_config, client_Namespace = [], client_Token = []\<rparr>"
      and c = "\<lparr>client_Config = sample_vault_config, client_Namespace = [], client_Token = []\<rparr>"
      and secret = "\<lparr>vs_LeaseID = [], vs_LeaseDuration = 0, vs_Renewable = False, vs_Data = None, vs_Auth = Some ''s.1''\<rparr>"]
  by (simp add: switch_env_def sample_env_def sample_auth_def)

theorem PeriodicReconcilePredicate_Update_iff_witness:
  "PeriodicReconcilePredicate_Update (NewPeriodicReconcilePredicate 100)
     (\<lambda>k. if k = ''ENABLE_DRIFT_DETECTION'' then Some ''true'' else None) 150
     (Some (SetConditions [success_condition] sample_owner)) (Some (SetConditions [success_condition] sample_owner))"
  using PeriodicReconcilePredicate_Update_iff [of "SetConditions [success_condition] sample_owner"
      "NewPeriodicReconcilePredicate 100" "\<lambda>k. if k = ''ENABLE_DRIFT_DETECTION'' then Some ''true'' else None" 150
      "SetConditions [success_condition] sample_owner"]
  by (simp add: NewPeriodicReconcilePredicate_def minDuration_def maxDuration_def success_condition_def
      outcome_condition_def successful_def)

end
