(* ===== verification/RandomSecrets.thy ===== *)
theory RandomSecrets
  imports Samples
begin

text \<open>
  The \<open>RandomSecret\<close> resource: \<open>api/v1alpha1/randomsecret_types.go\<close>, its webhook and its
  controller \<open>controllers/randomsecret_controller.go\<close>. The data and the path are in
  \<open>ApiTypes\<close>.

  The parameter \<open>hcl\<close> stands for \<open>hclsimple.Decode(filename, text, nil, policy)\<close>. The set of
  bytes \<open>u8set.Set\<close> lists its elements in an order of its own at every call, which the
  environment's \<open>range_rank\<close> decides; \<open>rand.Intn(n)\<close> is some number below \<open>n\<close>, and panics
  for \<open>n = 0\<close>.
\<close>

section \<open>Generating a password\<close>

record PasswordPolicyRule =
  RuleType :: string
  Charset :: string
  MinChars :: int

record PasswordPolicyFormat =
  Length :: int
  Rules :: "PasswordPolicyRule list"

type_synonym hcl_decoder = "string \<Rightarrow> string \<Rightarrow> error + PasswordPolicyFormat"

definition randIntn :: "'o env \<Rightarrow> nat \<Rightarrow> ('o, nat) go" where
  "randIntn E n = (if n = 0 then panicG ''invalid argument to Intn''
     else askG (RandIntn n) (\<lambda>tr. rand_intn E tr n mod n))"

primrec randBytes :: "'o env \<Rightarrow> string \<Rightarrow> nat \<Rightarrow> ('o, string) go" where
  "randBytes E letterUints 0 = retG []"
| "randBytes E letterUints (Suc n) =
     bindG (randIntn E (length letterUints)) (\<lambda>i.
     bindG (randBytes E letterUints n) (\<lambda>b. retG (letterUints ! i # b)))"

definition randStringBytes :: "'o env \<Rightarrow> int \<Rightarrow> string \<Rightarrow> ('o, string) go" where
  "randStringBytes E n letterUints =
     (if n < 0 then panicG ''makeslice: len out of range'' else randBytes E letterUints (nat n))"

text \<open>
  \<open>for i := range s\<close> visits the first byte of every rune: a well-formed UTF-8 sequence
  counts once, any other byte stands alone.
\<close>

definition byte :: "char \<Rightarrow> nat" where
  "byte c = of_char c"

definition cont :: "char \<Rightarrow> bool" where
  "cont c \<longleftrightarrow> 0x80 \<le> byte c \<and> byte c \<le> 0xBF"

fun rune_width :: "char \<Rightarrow> string \<Rightarrow> nat" where
  "rune_width c0 cs =
     (let b0 = byte c0 in
      if 0xC2 \<le> b0 \<and> b0 \<le> 0xDF then
        (case cs of c1 # _ \<Rightarrow> if cont c1 then 2 else 1 | _ \<Rightarrow> 1)
      else if 0xE0 \<le> b0 \<and> b0 \<le> 0xEF then
        (case cs of c1 # c2 # _ \<Rightarrow>
           if cont c1 \<and> cont c2 \<and> (b0 = 0xE0 \<longrightarrow> 0xA0 \<le> byte c1) \<and> (b0 = 0xED \<longrightarrow> byte c1 \<le> 0x9F)
           then 3 else 1
         | _ \<Rightarrow> 1)
      else if 0xF0 \<le> b0 \<and> b0 \<le> 0xF4 then
        (case cs of c1 # c2 # c3 # _ \<Rightarrow>
           if cont c1 \<and> cont c2 \<and> cont c3 \<and> (b0 = 0xF0 \<longrightarrow> 0x90 \<le> byte c1) \<and> (b0 = 0xF4 \<longrightarrow> byte c1 \<le> 0x8F)
           then 4 else 1
         | _ \<Rightarrow> 1)
      else 1)"

function rune_heads :: "string \<Rightarrow> string" where
  "rune_heads [] = []"
| "rune_heads (c # cs) = c # rune_heads (drop (rune_width c cs - 1) cs)"
  by pat_completeness auto
termination by (relation "measure length") auto

declare rune_width.simps [simp del]

lemma rune_heads_ascii:
  "\<forall>c \<in> set s. byte c < 0x80 \<Longrightarrow> rune_heads s = s"
  by (induction s) (auto simp: rune_width.simps)

text \<open>
  The rules of type \<open>charset\<close>, the check of one candidate, and the attempts. The code ranges
  over a Go map keyed by the address of each rule's character set, so every rule is
  checked, in some order, until one fails.
\<close>

definition charset_rules :: "PasswordPolicyFormat \<Rightarrow> PasswordPolicyRule list" where
  "charset_rules policy = filter (\<lambda>r. RuleType r = ''charset'') (Rules policy)"

definition counter :: "PasswordPolicyRule \<Rightarrow> string \<Rightarrow> int" where
  "counter r randomString = int (length (filter (\<lambda>c. c \<in> set (Charset r)) (rune_heads randomString)))"

definition complies :: "PasswordPolicyRule list \<Rightarrow> string \<Rightarrow> bool" where
  "complies rules randomString = list_all (\<lambda>r. \<not> counter r randomString < MinChars r) rules"

definition letter_set :: "PasswordPolicyRule list \<Rightarrow> (string, unit) fmap" where
  "letter_set rules = fmap_of_list (map (\<lambda>c. ([c], ())) (concat (map Charset rules)))"

definition intSet_List :: "'o env \<Rightarrow> PasswordPolicyRule list \<Rightarrow> ('o, string) go" where
  "intSet_List E rules = bindG (rangeG E (letter_set rules)) (\<lambda>ks. retG (map hd ks))"

primrec attempt_loop ::
  "'o env \<Rightarrow> PasswordPolicyRule list \<Rightarrow> int \<Rightarrow> nat \<Rightarrow> bool \<Rightarrow> string \<Rightarrow> ('o, bool \<times> string) go" where
  "attempt_loop E rules len 0 valid randomString = retG (valid, randomString)"
| "attempt_loop E rules len (Suc attempts) valid randomString =
     bindG (intSet_List E rules) (\<lambda>letters.
     bindG (randStringBytes E len letters) (\<lambda>randomString'.
       if valid \<and> complies rules randomString' then retG (True, randomString')
       else attempt_loop E rules len attempts False randomString'))"

definition set_secret :: "string \<Rightarrow> RandomSecret \<Rightarrow> RandomSecret" where
  "set_secret s d = d\<lparr>Spec := (Spec d)\<lparr>calculatedSecret := s\<rparr>\<rparr>"

definition calculateSecret ::
  "RandomSecret env \<Rightarrow> PasswordPolicyFormat \<Rightarrow> nat \<Rightarrow> (RandomSecret, bool) go" where
  "calculateSecret E policy attempts =
     bindG (attempt_loop E (charset_rules policy) (Length policy) attempts True []) (\<lambda>r.
       case r of (valid, randomString) \<Rightarrow>
         bindG (if valid then modifyG (set_secret randomString) else retG ()) (\<lambda>_. retG valid))"

definition GenerateNewPassword ::
  "hcl_decoder \<Rightarrow> RandomSecret env \<Rightarrow> vault_client \<Rightarrow> (RandomSecret, unit) go" where
  "GenerateNewPassword hcl E cl =
     bindG getG (\<lambda>d.
       if InlinePasswordPolicy (SecretFormat (Spec d)) \<noteq> [] then
         (case hcl (SecretKey (Spec d)) (InlinePasswordPolicy (SecretFormat (Spec d))) of
            Inl err \<Rightarrow> errG err
          | Inr policy \<Rightarrow> bindG (calculateSecret E policy 10000) (\<lambda>found.
              if \<not> found then errG (ErrMsg ''password could not be generated, will retry'') else retG ()))
       else if PasswordPolicyName (SecretFormat (Spec d)) \<noteq> [] then
         let path = ''/sys/policies/password/'' @ PasswordPolicyName (SecretFormat (Spec d)) @ ''/generate'' in
         bindG (askG (VaultRead cl path) (\<lambda>tr. vault_read E tr cl path)) (\<lambda>r. case r of
             Inl err \<Rightarrow> errG err
           | Inr response \<Rightarrow> (case Option.bind response vs_Data of
               None \<Rightarrow> errG (ErrMsg ''no data returned by password policy'')
             | Some data \<Rightarrow> (case fmlookup data ''password'' of
                 Some password \<Rightarrow> bindG (assert_string (Some password)) (\<lambda>s. modifyG (set_secret s))
               | None \<Rightarrow> errG (ErrMsg ''password policy did not generate a password''))))
       else errG (ErrMsg ''no password policy method specified''))"

section \<open>What a generated password satisfies\<close>

definition letters_of :: "PasswordPolicyRule list \<Rightarrow> char set" where
  "letters_of rules = (\<Union>r \<in> set rules. set (Charset r))"

lemma letter_set_dom: "fset (fmdom (letter_set rules)) = (\<lambda>c. [c]) ` letters_of rules"
  by (auto simp: letter_set_def letters_of_def fset_of_list.rep_eq)

lemma intSet_List_run:
  obtains letters where "intSet_List E rules w = (Ok letters, w)" "set letters = letters_of rules"
proof -
  let ?l = "map hd (range_keys (range_rank E (calls w)) (letter_set rules))"
  have "set ?l = letters_of rules" by (force simp: letter_set_dom)
  then show ?thesis by (intro that [of ?l]) (simp_all add: intSet_List_def bindG_range retG_def)
qed

text \<open>A policy for which drawing one candidate panics: a negative length, or no letter to draw.\<close>

definition unusable :: "int \<Rightarrow> char set \<Rightarrow> bool" where
  "unusable len letters \<longleftrightarrow> len < 0 \<or> len > 0 \<and> letters = {}"

lemma randBytes_run:
  "(if n > 0 \<and> letters = [] then \<exists>p w'. randBytes E letters n w = (Panic p, w')
    else \<exists>s w'. randBytes E letters n w = (Ok s, w') \<and> length s = n \<and> set s \<subseteq> set letters \<and> inst w' = inst w)"
proof (induction n arbitrary: w)
  case (Suc n)
  show ?case
  proof (cases "letters = []")
    case True
    then show ?thesis by (simp add: randIntn_def) (simp add: panicG_def)
  next
    case False
    let ?i = "rand_intn E (calls w) (length letters) mod length letters"
    let ?w = "w\<lparr>calls := calls w @ [RandIntn (length letters)]\<rparr>"
    obtain s w' where run: "randBytes E letters n ?w = (Ok s, w')" "length s = n" "set s \<subseteq> set letters"
        "inst w' = inst w"
      using Suc.IH [of ?w] False by auto
    have "randBytes E letters (Suc n) w = (Ok (letters ! ?i # s), w')"
      using False run(1) by (simp add: randIntn_def bindG_ask bindG_Ok retG_def)
    then show ?thesis using run False by simp
  qed
qed (simp add: retG_def)

lemma randStringBytes_run:
  "(if unusable n (set letters) then \<exists>p w'. randStringBytes E n letters w = (Panic p, w')
    else \<exists>s w'. randStringBytes E n letters w = (Ok s, w') \<and> int (length s) = n \<and>
      set s \<subseteq> set letters \<and> inst w' = inst w)"
proof (cases "n < 0")
  case True
  then show ?thesis by (simp add: unusable_def randStringBytes_def panicG_def)
next
  case False
  then show ?thesis
    using randBytes_run [of "nat n" letters E w] by (auto simp: unusable_def randStringBytes_def)
qed

text \<open>One attempt.\<close>

lemma attempt_run:
  "(if unusable len (letters_of rules)
    then \<exists>p w'. \<forall>k v s. attempt_loop E rules len (Suc k) v s w = (Panic p, w')
    else \<exists>s w'. int (length s) = len \<and> set s \<subseteq> letters_of rules \<and> inst w' = inst w \<and>
      (\<forall>k v s0. attempt_loop E rules len (Suc k) v s0 w =
         (if v \<and> complies rules s then (Ok (True, s), w') else attempt_loop E rules len k False s w')))"
proof -
  obtain letters where l: "intSet_List E rules w = (Ok letters, w)" "set letters = letters_of rules"
    by (rule intSet_List_run)
  show ?thesis
  proof (cases "unusable len (letters_of rules)")
    case True
    then obtain p w' where "randStringBytes E len letters w = (Panic p, w')"
      using randStringBytes_run [of len letters E w] l by auto
    then show ?thesis unfolding if_P [OF True] using l by (auto simp: bindG_Ok bindG_Panic)
  next
    case False
    then obtain s w' where s: "randStringBytes E len letters w = (Ok s, w')" "int (length s) = len"
        "set s \<subseteq> letters_of rules" "inst w' = inst w"
      using randStringBytes_run [of len letters E w] l by auto
    then have "attempt_loop E rules len (Suc k) v s0 w =
         (if v \<and> complies rules s then (Ok (True, s), w') else attempt_loop E rules len k False s w')" for k v s0
      using l by (simp add: bindG_Ok retG_def)
    then show ?thesis unfolding if_not_P [OF False] using s by blast
  qed
qed

lemma attempt_loop_spent:
  "\<not> unusable len (letters_of rules) \<Longrightarrow>
     \<exists>s w'. attempt_loop E rules len k False s0 w = (Ok (False, s), w') \<and> inst w' = inst w"
proof (induction k arbitrary: s0 w)
  case (Suc k)
  obtain s w' where "inst w' = inst w"
      and step: "attempt_loop E rules len (Suc k) False s0 w = attempt_loop E rules len k False s w'"
    using attempt_run [of len rules E w] Suc.prems by (auto simp del: attempt_loop.simps)
  then show ?case unfolding step using Suc.IH [OF Suc.prems, of s w'] by metis
qed (simp add: retG_def)

text \<open>The four ways \<open>calculateSecret\<close> ends.\<close>

lemma calculateSecret_run:
  "(if unusable (Length policy) (letters_of (charset_rules policy))
    then \<exists>p w'. \<forall>k. calculateSecret E policy (Suc k) w = (Panic p, w')
    else \<exists>s. int (length s) = Length policy \<and> set s \<subseteq> letters_of (charset_rules policy) \<and>
      (\<forall>k. \<exists>w'. if complies (charset_rules policy) s
         then calculateSecret E policy (Suc k) w = (Ok True, w') \<and> inst w' = set_secret s (inst w)
         else calculateSecret E policy (Suc k) w = (Ok False, w') \<and> inst w' = inst w))"
proof (cases "unusable (Length policy) (letters_of (charset_rules policy))")
  case True
  then show ?thesis
    using attempt_run [of "Length policy" "charset_rules policy" E w]
    by (auto simp: calculateSecret_def bindG_Panic simp del: attempt_loop.simps)
next
  case False
  then obtain s w' where s: "int (length s) = Length policy" "set s \<subseteq> letters_of (charset_rules policy)"
      "inst w' = inst w"
    and step: "\<And>k v s0. attempt_loop E (charset_rules policy) (Length policy) (Suc k) v s0 w =
         (if v \<and> complies (charset_rules policy) s then (Ok (True, s), w')
          else attempt_loop E (charset_rules policy) (Length policy) k False s w')"
    using attempt_run [of "Length policy" "charset_rules policy" E w] by (auto simp del: attempt_loop.simps)
  have "\<exists>w''. if complies (charset_rules policy) s
         then calculateSecret E policy (Suc k) w = (Ok True, w'') \<and> inst w'' = set_secret s (inst w)
         else calculateSecret E policy (Suc k) w = (Ok False, w'') \<and> inst w'' = inst w" for k
  proof (cases "complies (charset_rules policy) s")
    case True
    then show ?thesis
      using step [of k True "[]"] s(3)
      by (simp add: calculateSecret_def bindG_Ok modifyG_def retG_def bindG_modify del: attempt_loop.simps)
  next
    case nc: False
    obtain t w'' where "attempt_loop E (charset_rules policy) (Length policy) k False s w' = (Ok (False, t), w'')"
        "inst w'' = inst w'"
      using attempt_loop_spent [OF False] by blast
    then show ?thesis
      using step [of k True "[]"] s(3) nc
      by (simp add: calculateSecret_def bindG_Ok retG_def del: attempt_loop.simps)
  qed
  then show ?thesis unfolding if_not_P [OF False] using s by blast
qed

text \<open>
  C21. A password that \<open>calculateSecret\<close> accepts obeys the policy: it has the length asked
  for, every character comes from the character sets of the policy, and every character set
  rule finds at least its minimum of characters.
\<close>

theorem calculateSecret_sound:
  assumes "fst (calculateSecret E policy (Suc k) w) = Ok True"
  shows "let s = calculatedSecret (Spec (inst (snd (calculateSecret E policy (Suc k) w)))) in
    int (length s) = Length policy \<and> set s \<subseteq> letters_of (charset_rules policy) \<and>
    (\<forall>r \<in> set (Rules policy). RuleType r = ''charset'' \<longrightarrow>
       MinChars r \<le> int (length (filter (\<lambda>c. c \<in> set (Charset r)) (rune_heads s))))"
proof -
  have ok: "\<not> unusable (Length policy) (letters_of (charset_rules policy))"
    using assms calculateSecret_run [of policy E w] by (metis fst_conv res.distinct(3))
  then obtain s where s: "int (length s) = Length policy" "set s \<subseteq> letters_of (charset_rules policy)"
    and run: "\<exists>w'. if complies (charset_rules policy) s
         then calculateSecret E policy (Suc k) w = (Ok True, w') \<and> inst w' = set_secret s (inst w)
         else calculateSecret E policy (Suc k) w = (Ok False, w') \<and> inst w' = inst w"
    using calculateSecret_run [of policy E w] by auto
  have "complies (charset_rules policy) s \<longleftrightarrow> (\<forall>r \<in> set (Rules policy). RuleType r = ''charset'' \<longrightarrow>
       MinChars r \<le> int (length (filter (\<lambda>c. c \<in> set (Charset r)) (rune_heads s))))"
    by (auto simp: complies_def charset_rules_def counter_def list_all_iff)
  then show ?thesis using run s assms by (auto simp: set_secret_def split: if_splits)
qed

text \<open>
  C23. The attempts after the first one never matter: the flag that a failed candidate
  clears is not set again, so \<open>calculateSecret\<close> returns what its first candidate decides
  and, when that fails, only draws the remaining candidates for nothing.
\<close>

theorem calculateSecret_first_attempt_decides:
  "fst (calculateSecret E policy (Suc k) w) = fst (calculateSecret E policy 1 w) \<and>
   inst (snd (calculateSecret E policy (Suc k) w)) = inst (snd (calculateSecret E policy 1 w))"
proof (cases "unusable (Length policy) (letters_of (charset_rules policy))")
  case True
  then obtain p w' where "\<forall>k. calculateSecret E policy (Suc k) w = (Panic p, w')"
    using calculateSecret_run [of policy E w] by auto
  then show ?thesis by simp
next
  case False
  then obtain s where "\<And>k. \<exists>w'. if complies (charset_rules policy) s
         then calculateSecret E policy (Suc k) w = (Ok True, w') \<and> inst w' = set_secret s (inst w)
         else calculateSecret E policy (Suc k) w = (Ok False, w') \<and> inst w' = inst w"
    using calculateSecret_run [of policy E w] by auto
  from this [of k] this [of 0] show ?thesis by (auto split: if_splits)
qed

section \<open>The Vault object\<close>

definition ttlKey :: string where
  "ttlKey = ''ttl''"

definition RetainKvSecretRetainPolicy :: string where
  "RetainKvSecretRetainPolicy = ''Retain''"

definition refreshed :: "RandomSecret \<Rightarrow> bool" where
  "refreshed d \<longleftrightarrow> (case rs_RefreshPeriod (Spec d) of Some p \<Rightarrow> p > 0 | None \<Rightarrow> False)"

definition getV1Payload :: "RandomSecret \<Rightarrow> gmap" where
  "getV1Payload d =
     (let payload = fmap_of_list [(SecretKey (Spec d), VStr (calculatedSecret (Spec d)))]
      in if refreshed d then fmupd ttlKey (VStr (Duration_String (the (rs_RefreshPeriod (Spec d))))) payload
         else payload)"

definition IsKVSecretsEngineV2 :: "RandomSecret \<Rightarrow> bool" where
  "IsKVSecretsEngineV2 d = spec_IsKVSecretsEngineV2 (Spec d)"

definition RandomSecret_GetPayload :: "RandomSecret \<Rightarrow> gmap" where
  "RandomSecret_GetPayload d =
     (if IsKVSecretsEngineV2 d then fmap_of_list [(''data'', VMap (getV1Payload d))] else getV1Payload d)"

section \<open>Validation\<close>

definition validateEitherPasswordPolicyReferenceOrInline :: "RandomSecret \<Rightarrow> error option" where
  "validateEitherPasswordPolicyReferenceOrInline r =
     (let count = (if InlinePasswordPolicy (SecretFormat (Spec r)) \<noteq> [] then 1 else 0) +
                  (if PasswordPolicyName (SecretFormat (Spec r)) \<noteq> [] then 1 else (0::nat))
      in if count \<noteq> 1
         then Some (ErrMsg ''only one of InlinePasswordPolicy or passwordPolicyName can be defined'')
         else None)"

definition validateInlinePasswordPolicyFormat :: "hcl_decoder \<Rightarrow> RandomSecret \<Rightarrow> error option" where
  "validateInlinePasswordPolicyFormat hcl r =
     (if InlinePasswordPolicy (SecretFormat (Spec r)) \<noteq> [] then
        (case hcl (if HasSuffix (SecretKey (Spec r)) ''.hcl'' then SecretKey (Spec r)
                   else SecretKey (Spec r) @ ''.hcl'')
                  (InlinePasswordPolicy (SecretFormat (Spec r))) of
           Inl err \<Rightarrow> Some err | Inr _ \<Rightarrow> None)
      else None)"

definition validateSecretKey :: "RandomSecret \<Rightarrow> error option" where
  "validateSecretKey r =
     (if refreshed r \<and> SecretKey (Spec r) = ttlKey
      then Some (ErrMsg (''secretKey must not be '' @ ttlKey @
        '' since this is a protected key when RefreshPeriod is set''))
      else None)"

definition validateKVv2DataInPath :: "RandomSecret \<Rightarrow> error option" where
  "validateKVv2DataInPath r =
     (if IsKVSecretsEngineV2 r \<and> \<not> Contains (RandomSecret_GetPath r) ''/data/''
      then Some (ErrMsg (''KVv2 secrets must have /data defined in the path, '' @
        ''for example /secret-mount-path/data/path''))
      else None)"

definition RandomSecret_isValid :: "hcl_decoder \<Rightarrow> RandomSecret \<Rightarrow> error list" where
  "RandomSecret_isValid hcl r =
     somes
       [validateEitherPasswordPolicyReferenceOrInline r, validateInlinePasswordPolicyFormat hcl r,
        validateSecretKey r, validateKVv2DataInPath r]"

definition RandomSecret_ValidateCreate :: "hcl_decoder \<Rightarrow> RandomSecret \<Rightarrow> error list" where
  "RandomSecret_ValidateCreate hcl r = RandomSecret_isValid hcl r"

definition RandomSecret_ValidateUpdate :: "hcl_decoder \<Rightarrow> RandomSecret \<Rightarrow> RandomSecret \<Rightarrow> error list" where
  "RandomSecret_ValidateUpdate hcl r old =
     (if Path (Spec r) \<noteq> Path (Spec old) then [ErrMsg ''spec.path cannot be updated'']
      else if SecretKey (Spec r) \<noteq> SecretKey (Spec old) then [ErrMsg ''spec.secretKey cannot be updated'']
      else RandomSecret_isValid hcl r)"

definition RandomSecret_VaultObject :: "hcl_decoder \<Rightarrow> RandomSecret VaultObject" where
  "RandomSecret_VaultObject hcl =
     \<lparr>GetPath = RandomSecret_GetPath,
      GetPayload = RandomSecret_GetPayload,
      IsEquivalentToDesiredState = (\<lambda>_ _. False),
      IsInitialized = (\<lambda>_. True),
      IsValid = RandomSecret_isValid hcl,
      IsDeletable = (\<lambda>_. True),
      PrepareInternalValues = GenerateNewPassword hcl,
      PrepareTLSConfig = (\<lambda>E cl. retG ())\<rparr>"

lemma RandomSecret_VaultObject_simps [simp]:
  "GetPath (RandomSecret_VaultObject hcl) = RandomSecret_GetPath"
  "GetPayload (RandomSecret_VaultObject hcl) = RandomSecret_GetPayload"
  "IsDeletable (RandomSecret_VaultObject hcl) = (\<lambda>_. True)"
  "PrepareInternalValues (RandomSecret_VaultObject hcl) = GenerateNewPassword hcl"
  "PrepareTLSConfig (RandomSecret_VaultObject hcl) = (\<lambda>E cl. retG ())"
  by (simp_all add: RandomSecret_VaultObject_def)

section \<open>The controller\<close>

text \<open>
  Nothing is due once the secret was written and there is no refresh period, or the period
  has not passed. The clock is read only when there is a period.
\<close>

definition not_due :: "RandomSecret env \<Rightarrow> RandomSecret \<Rightarrow> (RandomSecret, bool) go" where
  "not_due E instance =
     (case rs_LastVaultSecretUpdate (Status instance) of
        None \<Rightarrow> retG False
      | Some t \<Rightarrow> (case rs_RefreshPeriod (Spec instance) of
          None \<Rightarrow> retG True
        | Some p \<Rightarrow> bindG (askG TimeNow (time_now E)) (\<lambda>now. retG (\<not> t + p < now))))"

definition set_last_update :: "int \<Rightarrow> RandomSecret \<Rightarrow> RandomSecret" where
  "set_last_update now d = d\<lparr>Status := (Status d)\<lparr>rs_LastVaultSecretUpdate := Some now\<rparr>\<rparr>"

definition RandomSecret_write ::
  "hcl_decoder \<Rightarrow> RandomSecret env \<Rightarrow> vault_client \<Rightarrow> (RandomSecret, unit) go" where
  "RandomSecret_write hcl E cl =
     bindG (GenerateNewPassword hcl E cl) (\<lambda>_.
     bindG (Create (RandomSecret_VaultObject hcl) E cl) (\<lambda>_.
     bindG (askG TimeNow (time_now E)) (\<lambda>now.
     modifyG (set_last_update now))))"

definition RandomSecret_manageReconcileLogic ::
  "hcl_decoder \<Rightarrow> RandomSecret env \<Rightarrow> vault_client \<Rightarrow> (RandomSecret, unit) go" where
  "RandomSecret_manageReconcileLogic hcl E cl =
     bindG getG (\<lambda>instance.
     bindG (not_due E instance) (\<lambda>stop.
       if stop then retG ()
       else if rs_LastVaultSecretUpdate (Status instance) = None \<and> rs_RefreshPeriod (Spec instance) = None
       then bindG (tryG (Exists (RandomSecret_VaultObject hcl) E cl)) (\<lambda>r.
              if (case r of Inr found \<Rightarrow> found | Inl err \<Rightarrow> False) then retG ()
              else RandomSecret_write hcl E cl)
       else RandomSecret_write hcl E cl))"

definition RandomSecret_manageCleanUpLogic ::
  "hcl_decoder \<Rightarrow> RandomSecret env \<Rightarrow> vault_client \<Rightarrow> (RandomSecret, unit) go" where
  "RandomSecret_manageCleanUpLogic hcl E cl =
     bindG getG (\<lambda>instance.
       if KvSecretRetainPolicy (Spec instance) = RetainKvSecretRetainPolicy then retG ()
       else if IsKVSecretsEngineV2 instance then DeleteKVv2IfExists (RandomSecret_VaultObject hcl) E cl
       else DeleteIfExists (RandomSecret_VaultObject hcl) E cl)"

text \<open>
  After a reconcile: with a refresh period (\<open>Size() > 0\<close> is a non-nil pointer) the next cycle
  is scheduled, and the outcome is recorded twice.
\<close>

definition RandomSecret_schedule ::
  "hcl_decoder \<Rightarrow> RandomSecret env \<Rightarrow> (RandomSecret, Result) go" where
  "RandomSecret_schedule hcl E =
     bindG getG (\<lambda>instance.
       case rs_RefreshPeriod (Spec instance) of
         None \<Rightarrow> ManageOutcome (Some (RandomSecret_VaultObject hcl)) E None
       | Some p \<Rightarrow> (case rs_LastVaultSecretUpdate (Status instance) of
           None \<Rightarrow> panicG ''nil pointer dereference''
         | Some t \<Rightarrow> bindG (askG TimeNow (time_now E)) (\<lambda>now.
             let nextSchedule = time_Sub (t + p) now in
             if nextSchedule > 0
             then bindG (tryG (ManageOutcomeWithRequeue (Some (RandomSecret_VaultObject hcl)) E None nextSchedule))
                    (\<lambda>_. ManageOutcomeWithRequeue (Some (RandomSecret_VaultObject hcl)) E None nextSchedule)
             else ManageOutcomeWithRequeue (Some (RandomSecret_VaultObject hcl)) E None Second)))"

definition RandomSecret_finalize ::
  "hcl_decoder \<Rightarrow> RandomSecret env \<Rightarrow> vault_client \<Rightarrow> (RandomSecret, Result) go" where
  "RandomSecret_finalize hcl E cl =
     bindG (tryG (RandomSecret_manageCleanUpLogic hcl E cl)) (\<lambda>r. case r of
         Inl err \<Rightarrow> ManageOutcome (Some (RandomSecret_VaultObject hcl)) E (Some err)
       | Inr _ \<Rightarrow>
           bindG (modifyG (\<lambda>instance. remove_finalizer E instance (GetFinalizer instance))) (\<lambda>_.
           bindG (tryG (Update E)) (\<lambda>r. case r of
               Inl err \<Rightarrow> ManageOutcome (Some (RandomSecret_VaultObject hcl)) E (Some err)
             | Inr _ \<Rightarrow> retG \<lparr>RequeueAfter = 0\<rparr>)))"

definition RandomSecret_refresh ::
  "hcl_decoder \<Rightarrow> RandomSecret env \<Rightarrow> vault_client \<Rightarrow> (RandomSecret, Result) go" where
  "RandomSecret_refresh hcl E cl =
     bindG (tryG (RandomSecret_manageReconcileLogic hcl E cl)) (\<lambda>r. case r of
         Inl err \<Rightarrow> ManageOutcome (Some (RandomSecret_VaultObject hcl)) E (Some err)
       | Inr _ \<Rightarrow> RandomSecret_schedule hcl E)"

definition RandomSecret_body ::
  "hcl_decoder \<Rightarrow> RandomSecret env \<Rightarrow> vault_client \<Rightarrow> (RandomSecret, Result) go" where
  "RandomSecret_body hcl E cl =
     bindG getG (\<lambda>instance.
       if is_deleted instance then
         if \<not> contains_finalizer E instance (GetFinalizer instance) then retG \<lparr>RequeueAfter = 0\<rparr>
         else RandomSecret_finalize hcl E cl
       else bindG (not_due E instance) (\<lambda>stop.
         if stop then retG \<lparr>RequeueAfter = 0\<rparr> else RandomSecret_refresh hcl E cl))"

definition RandomSecret_Reconcile ::
  "hcl_decoder \<Rightarrow> RandomSecret env \<Rightarrow> string \<Rightarrow> string \<Rightarrow> (RandomSecret, Result) go" where
  "RandomSecret_Reconcile hcl E ns n =
     controller_Reconcile (RandomSecret_VaultObject hcl) E (RandomSecret_body hcl E) ns n"

text \<open>
  The update filter compares the refresh periods of two deep copies by address, so any
  refresh period counts as a change; it is combined with the periodic predicate.
\<close>

definition RandomSecret_needsCreation_Update :: "RandomSecret \<Rightarrow> RandomSecret \<Rightarrow> bool" where
  "RandomSecret_needsCreation_Update oldSecret newSecret \<longleftrightarrow>
     is_deleted newSecret \<or>
     rs_RefreshPeriod (Spec newSecret) \<noteq> None \<or> rs_RefreshPeriod (Spec oldSecret) \<noteq> None \<or>
     SecretFormat (Spec newSecret) \<noteq> SecretFormat (Spec oldSecret)"

definition RandomSecret_Update_event ::
  "int \<Rightarrow> (string \<Rightarrow> string option) \<Rightarrow> int \<Rightarrow> RandomSecret \<Rightarrow> RandomSecret \<Rightarrow> bool" where
  "RandomSecret_Update_event syncPeriod lookupEnv now oldSecret newSecret \<longleftrightarrow>
     RandomSecret_needsCreation_Update oldSecret newSecret \<and>
     PeriodicReconcilePredicate_Update (NewPeriodicReconcilePredicate syncPeriod) lookupEnv now
       (Some oldSecret) (Some newSecret)"

section \<open>What the controller may call\<close>

lemma set_secret_simps [simp]:
  "object_view (RandomSecret_VaultObject hcl) (set_secret s d) = object_view (RandomSecret_VaultObject hcl) d"
  "RandomSecret_GetPath (set_secret s d) = RandomSecret_GetPath d"
  "Status (set_secret s d) = Status d"
  "rs_RefreshPeriod (Spec (set_secret s d)) = rs_RefreshPeriod (Spec d)"
  "is_deleted (set_secret s d) = is_deleted d"
  by (auto simp: object_view_def set_secret_def RandomSecret_GetPath_def GetName_def GetConditions_def is_deleted_def)

lemma set_last_update_simps [simp]:
  "RandomSecret_GetPath (set_last_update t d) = RandomSecret_GetPath d"
  "Spec (set_last_update t d) = Spec d"
  "RandomSecret_GetPayload (set_last_update t d) = RandomSecret_GetPayload d"
  "rs_LastVaultSecretUpdate (Status (set_last_update t d)) = Some t"
  by (simp_all add: set_last_update_def RandomSecret_GetPath_def GetName_def RandomSecret_GetPayload_def
      IsKVSecretsEngineV2_def getV1Payload_def refreshed_def Let_def)

text \<open>What generating a password keeps of the object, and that it only asks.\<close>

definition secret_frame :: "(RandomSecret \<Rightarrow> bool) \<Rightarrow> bool" where
  "secret_frame I \<longleftrightarrow> (\<forall>s d. I d \<longrightarrow> I (set_secret s d))"

definition is_draw :: "'o call \<Rightarrow> bool" where
  "is_draw c = (case c of RandIntn n \<Rightarrow> True | _ \<Rightarrow> False)"

lemma draw_query: "is_draw c \<Longrightarrow> is_query c"
  by (cases c) (simp_all add: is_draw_def)

lemma draws_randBytes: "keeps I is_draw (randBytes E letters n)"
proof (induction n)
  case (Suc n)
  show ?case unfolding randBytes.simps randIntn_def by (intro emits_intros Suc.IH) (simp add: is_draw_def)
qed (simp add: keeps_ret)

lemma draws_attempt_loop: "keeps I is_draw (attempt_loop E rules len k v s)"
proof (induction k arbitrary: v s)
  case (Suc k)
  show ?case unfolding attempt_loop.simps intSet_List_def randStringBytes_def
    by (intro emits_intros Suc.IH draws_randBytes)
qed (simp add: keeps_ret)

lemmas keeps_attempt_loop = keeps_mono [OF draws_attempt_loop draw_query]

lemma keeps_GenerateNewPassword:
  "secret_frame I \<Longrightarrow> keeps I is_query (GenerateNewPassword hcl E cl)"
  unfolding GenerateNewPassword_def calculateSecret_def Let_def
  by (intro emits_intros keeps_attempt_loop) (auto simp: secret_frame_def)

lemma secret_frame_path [simp]: "secret_frame (\<lambda>d. RandomSecret_GetPath d = p)"
  by (simp add: secret_frame_def)

interpretation random_secret: vault_object "RandomSecret_VaultObject hcl" for hcl
  by unfold_locales (simp_all add: keeps_ret keeps_GenerateNewPassword secret_frame_def)

text \<open>Calls that leave Vault alone, or change it at the secret's path or its metadata path.\<close>

definition secret_call :: "string \<Rightarrow> 'o call \<Rightarrow> bool" where
  "secret_call p c \<longleftrightarrow> (case vault_mutation c of
      None \<Rightarrow> True | Some q \<Rightarrow> q = p \<or> q = ReplaceFirst p ''/data/'' ''/metadata/'')"

lemma secret_call_query: "is_query c \<Longrightarrow> secret_call p c"
  by (simp add: secret_call_def is_query_no_mutation)

lemma secret_call_bookkeeping: "kube_bookkeeping c \<Longrightarrow> secret_call p c"
  by (simp add: secret_call_def bookkeeping_no_mutation)

lemma keeps_not_due: "P TimeNow \<Longrightarrow> keeps I P (not_due E d)"
  unfolding not_due_def by (intro emits_intros)

lemma RandomSecret_write_frame:
  "keeps (\<lambda>d. RandomSecret_GetPath d = p) (secret_call p) (RandomSecret_write hcl E cl)"
proof -
  have gen: "keeps (\<lambda>d. RandomSecret_GetPath d = p) (secret_call p) (GenerateNewPassword hcl E cl)"
    by (rule keeps_mono [OF keeps_GenerateNewPassword]) (simp_all add: secret_call_query)
  have cr: "keeps (\<lambda>d. RandomSecret_GetPath d = p) (secret_call p) (Create (RandomSecret_VaultObject hcl) E cl)"
    unfolding Create_def by (rule keeps_bind_get) (intro emits_intros; simp add: secret_call_def)
  show ?thesis unfolding RandomSecret_write_def
    by (intro emits_intros gen cr) (simp_all add: secret_call_def)
qed

lemma RandomSecret_logic_frame:
  "keeps (\<lambda>d. RandomSecret_GetPath d = p) (secret_call p) (RandomSecret_manageReconcileLogic hcl E cl)"
  unfolding RandomSecret_manageReconcileLogic_def Exists_def
  by (intro emits_intros RandomSecret_write_frame keeps_not_due) (simp_all add: secret_call_def)

lemma RandomSecret_cleanup_frame:
  "keeps (\<lambda>d. RandomSecret_GetPath d = p) (secret_call p) (RandomSecret_manageCleanUpLogic hcl E cl)"
proof -
  have "keeps (\<lambda>d. RandomSecret_GetPath d = p) (secret_call p) (DeleteIfExists (RandomSecret_VaultObject hcl) E cl)"
    unfolding DeleteIfExists_def by (rule keeps_bind_get) (intro emits_intros; simp add: secret_call_def)
  moreover have "keeps (\<lambda>d. RandomSecret_GetPath d = p) (secret_call p)
      (DeleteKVv2IfExists (RandomSecret_VaultObject hcl) E cl)"
    unfolding DeleteKVv2IfExists_def by (rule keeps_bind_get) (intro emits_intros; simp add: secret_call_def)
  ultimately show ?thesis
    unfolding RandomSecret_manageCleanUpLogic_def by (intro emits_intros)
qed

lemma emits_outcome_secret_call:
  "emits (secret_call p) (ManageOutcomeWithRequeue vo E issue t)"
  by (rule keeps_mono [OF emits_ManageOutcomeWithRequeue])
    (simp add: secret_call_def outcome_call_no_mutation)

lemma RandomSecret_body_frame:
  "allows (\<lambda>d. RandomSecret_GetPath d = p) (secret_call p) (RandomSecret_body hcl E cl)"
proof -
  let ?I = "\<lambda>d. RandomSecret_GetPath d = p"
  have out: "emits (secret_call p) (ManageOutcome vo E issue)" for vo issue
    unfolding ManageOutcome_def by (rule emits_outcome_secret_call)
  have upd: "emits (secret_call p) (Update E)"
    by (rule emits_Update_bookkeeping) (simp add: secret_call_bookkeeping)
  have sched: "emits (secret_call p) (RandomSecret_schedule hcl E)"
    unfolding RandomSecret_schedule_def Let_def
    by (intro emits_intros emits_outcome_secret_call out) (simp add: secret_call_def)
  have fin: "allows ?I (secret_call p) (RandomSecret_finalize hcl E cl)"
    unfolding RandomSecret_finalize_def
    by (rule allows_bind [OF keeps_try [OF RandomSecret_cleanup_frame]], rule allows_emits)
      (intro emits_intros out upd; simp)
  have ref: "allows ?I (secret_call p) (RandomSecret_refresh hcl E cl)"
    unfolding RandomSecret_refresh_def
    by (rule allows_bind [OF keeps_try [OF RandomSecret_logic_frame]], rule allows_emits)
      (intro emits_intros out sched)
  show ?thesis
    unfolding RandomSecret_body_def
    by (intro allows_bind_get allows_if allows_bind [OF keeps_not_due] allows_ret fin ref)
      (simp add: secret_call_def)
qed

section \<open>Properties of the controller\<close>

text \<open>
  Once past the prologue, the controller of a random secret changes Vault only at the
  secret's path, or at that path with its first \<open>/data/\<close> turned into \<open>/metadata/\<close>.
\<close>

theorem RandomSecret_changes_own_paths:
  "list_all (secret_call (RandomSecret_GetPath (inst w)))
     (drop (length (calls w)) (calls (snd (RandomSecret_body hcl E cl w))))"
  using allowsD [OF RandomSecret_body_frame [of "RandomSecret_GetPath (inst w)" hcl E cl], of w] by auto

text \<open>
  Deleting a random secret costs no Vault call under the policy \<open>Retain\<close>, and
  otherwise exactly one delete: of the metadata of all versions in a version 2 engine, of
  the secret in a version 1 engine. An answer 404 counts as success.
\<close>

theorem RandomSecret_cleanup_effect:
  "let d = inst w; p = RandomSecret_GetPath d;
       q = (if IsKVSecretsEngineV2 d then ReplaceFirst p ''/data/'' ''/metadata/'' else p)
   in if KvSecretRetainPolicy (Spec d) = ''Retain''
      then RandomSecret_manageCleanUpLogic hcl E cl w = (Ok (), w)
      else RandomSecret_manageCleanUpLogic hcl E cl w =
        (case vault_delete E (calls w) cl q of
           Inl err \<Rightarrow> if status_code err = Some 404 then Ok () else Err err
         | Inr _ \<Rightarrow> Ok (), w\<lparr>calls := calls w @ [VaultDelete cl q]\<rparr>)"
  by (simp add: Let_def RandomSecret_manageCleanUpLogic_def RetainKvSecretRetainPolicy_def bindG_get
      DeleteIfExists_run DeleteKVv2IfExists_def delete_path_run retG_def)

text \<open>For a mount without \<open>data\<close> in its own path, the metadata path is the sibling tree.\<close>

lemma RandomSecret_metadata_path:
  "\<not> Contains (butlast (m @ ''/data/'')) ''/data/'' \<Longrightarrow>
     ReplaceFirst (m @ ''/data/'' @ q) ''/data/'' ''/metadata/'' = m @ ''/metadata/'' @ q"
  by (rule ReplaceFirst_at) simp_all

lemma not_due_run:
  "not_due E d w =
     (case (rs_LastVaultSecretUpdate (Status d), rs_RefreshPeriod (Spec d)) of
        (None, _) \<Rightarrow> (Ok False, w)
      | (Some t, None) \<Rightarrow> (Ok True, w)
      | (Some t, Some p) \<Rightarrow> (Ok (\<not> t + p < time_now E (calls w)), w\<lparr>calls := calls w @ [TimeNow]\<rparr>))"
  by (simp add: not_due_def retG_def bindG_ask split: option.split)

lemma Exists_run:
  "Exists V E cl w =
     (case read_answer (vault_read E (calls w) cl (GetPath V (inst w))) of
        Ok r \<Rightarrow> Ok (snd r) | Err e \<Rightarrow> Err e | Panic p \<Rightarrow> Panic p,
      w\<lparr>calls := calls w @ [VaultRead cl (GetPath V (inst w))]\<rparr>)"
  by (simp add: Exists_def bindG_get bindG_read Let_def retG_def split: res.split)

text \<open>
  C24. The first reconcile of a one-off random secret (no refresh period) reads its path once. If the
  answer is an entry, nothing is written and the reconcile logic succeeds. If there is none it
  goes on to generate and write a password, and likewise, as the error is only logged, if the read
  fails: what Vault holds is safe only when it can be read.
\<close>

theorem RandomSecret_keeps_existing:
  assumes "rs_LastVaultSecretUpdate (Status (inst w)) = None" and "rs_RefreshPeriod (Spec (inst w)) = None"
  shows "RandomSecret_manageReconcileLogic hcl E cl w =
    (let w' = w\<lparr>calls := calls w @ [VaultRead cl (RandomSecret_GetPath (inst w))]\<rparr> in
     case read_answer (vault_read E (calls w) cl (RandomSecret_GetPath (inst w))) of
       Ok (cur, found) \<Rightarrow> if found then (Ok (), w') else RandomSecret_write hcl E cl w'
     | Err e \<Rightarrow> RandomSecret_write hcl E cl w'
     | Panic q \<Rightarrow> (Panic q, w'))"
  using assms
  by (simp add: RandomSecret_manageReconcileLogic_def bindG_get bindG_def [of "not_due _ _"] not_due_run tryG_run
      bindG_def [of "tryG _"] Exists_run retG_def split: res.split)

text \<open>
  When Vault cannot be read, the guard is off: the error is only logged, and the
  controller goes on to generate a password and write it, exactly as if nothing existed.
\<close>

theorem RandomSecret_writes_after_read_error:
  assumes "rs_LastVaultSecretUpdate (Status (inst w)) = None" and "rs_RefreshPeriod (Spec (inst w)) = None"
    and "read_answer (vault_read E (calls w) cl (RandomSecret_GetPath (inst w))) = Err e"
  shows "RandomSecret_manageReconcileLogic hcl E cl w =
    RandomSecret_write hcl E cl (w\<lparr>calls := calls w @ [VaultRead cl (RandomSecret_GetPath (inst w))]\<rparr>)"
  using assms
  by (simp add: RandomSecret_manageReconcileLogic_def bindG_get bindG_def [of "not_due _ _"] not_due_run tryG_run
      bindG_def [of "tryG _"] Exists_run retG_def)

text \<open>
  Before the refresh period has passed (or ever, without one) a secret that was
  written is left alone: one look at the clock at most, no call to Vault or the API server.
\<close>

theorem RandomSecret_rests:
  assumes "\<not> is_deleted (inst w)" and "rs_LastVaultSecretUpdate (Status (inst w)) = Some t"
    and "case rs_RefreshPeriod (Spec (inst w)) of None \<Rightarrow> True | Some p \<Rightarrow> time_now E (calls w) \<le> t + p"
  shows "RandomSecret_body hcl E cl w = (Ok \<lparr>RequeueAfter = 0\<rparr>, w\<lparr>calls := calls w @
    (case rs_RefreshPeriod (Spec (inst w)) of None \<Rightarrow> [] | Some p \<Rightarrow> [TimeNow])\<rparr>)"
  using assms
  by (simp add: RandomSecret_body_def bindG_get bindG_def [of "not_due _ _"] not_due_run retG_def
      split: option.splits)

text \<open>The write: what it leaves when it succeeds.\<close>

definition mutations :: "'o world \<Rightarrow> 'o world \<Rightarrow> 'o call list" where
  "mutations w w' = filter (\<lambda>c. vault_mutation c \<noteq> None) (drop (length (calls w)) (calls w'))"

lemma mutations_query: "calls w' = calls w @ cs \<Longrightarrow> list_all is_query cs \<Longrightarrow> mutations w w' = []"
  by (auto simp: mutations_def filter_empty_conv list_all_iff is_query_no_mutation)

lemma secret_frame_status: "secret_frame (\<lambda>d. RandomSecret_GetPath d = p \<and> Status d = st)"
  by (simp add: secret_frame_def)

lemma RandomSecret_write_run:
  assumes "RandomSecret_write hcl E cl w = (Ok (), w')"
  shows "mutations w w' = [VaultWrite cl (RandomSecret_GetPath (inst w)) (Some (RandomSecret_GetPayload (inst w')))]"
    and "rs_LastVaultSecretUpdate (Status (inst w')) \<noteq> None"
proof -
  obtain w1 where gen: "GenerateNewPassword hcl E cl w = (Ok (), w1)"
    and rest: "bindG (Create (RandomSecret_VaultObject hcl) E cl) (\<lambda>_.
     bindG (askG TimeNow (time_now E)) (\<lambda>now. modifyG (set_last_update now))) w1 = (Ok (), w')"
    using assms unfolding RandomSecret_write_def by (auto elim: bindG_cases)
  obtain cs where cs: "calls w1 = calls w @ cs" "list_all is_query cs"
      "RandomSecret_GetPath (inst w1) = RandomSecret_GetPath (inst w)"
    using keepsE [OF keeps_GenerateNewPassword
        [of "\<lambda>d. RandomSecret_GetPath d = RandomSecret_GetPath (inst w)" hcl E cl], of w] gen by auto
  let ?c = "VaultWrite cl (RandomSecret_GetPath (inst w1)) (Some (RandomSecret_GetPayload (inst w1)))"
  have w': "\<exists>t. inst w' = set_last_update t (inst w1) \<and> calls w' = calls w1 @ [?c, TimeNow]"
    using rest
    by (auto simp: Create_def bindG_assoc bindG_get bindG_writePayload Let_def bindG_ask modifyG_def
        split: sum.splits)
  then show "rs_LastVaultSecretUpdate (Status (inst w')) \<noteq> None" by auto
  show "mutations w w' = [VaultWrite cl (RandomSecret_GetPath (inst w)) (Some (RandomSecret_GetPayload (inst w')))]"
    using w' cs mutations_query [of w1 w cs] by (auto simp: mutations_def)
qed

text \<open>
  When the reconcile of a random secret succeeds it made no change in Vault, or exactly
  one: the write of the payload of the object it leaves in memory at the object's path. With
  a refresh period the time of the last update is then known, so that scheduling the next
  refresh cannot fail on it.
\<close>

theorem RandomSecret_reconcile_effect:
  assumes "RandomSecret_manageReconcileLogic hcl E cl w = (Ok (), w')"
  shows "(mutations w w' = [] \<or> mutations w w' =
      [VaultWrite cl (RandomSecret_GetPath (inst w)) (Some (RandomSecret_GetPayload (inst w')))]) \<and>
    (if rs_RefreshPeriod (Spec (inst w)) = None then True
     else rs_LastVaultSecretUpdate (Status (inst w')) \<noteq> None)"
proof -
  let ?d = "inst w"
  have skip: "mutations w w'' = mutations v w''" if "calls v = calls w @ cs" "list_all is_query cs"
      "calls w'' = calls v @ ds" for v w'' :: "RandomSecret world" and cs ds
    using that by (auto simp: mutations_def filter_empty_conv list_all_iff is_query_no_mutation)
  have append: "\<exists>ds. calls (snd (RandomSecret_write hcl E cl v)) = calls v @ ds" for v
    using keepsE [OF RandomSecret_write_frame, of v "RandomSecret_GetPath (inst v)"] by metis
  have wr: "mutations w w' = [VaultWrite cl (RandomSecret_GetPath ?d) (Some (RandomSecret_GetPayload (inst w')))]
      \<and> rs_LastVaultSecretUpdate (Status (inst w')) \<noteq> None"
    if run: "RandomSecret_write hcl E cl (w\<lparr>calls := calls w @ cs\<rparr>) = (Ok (), w')" and cs: "list_all is_query cs" for cs
  proof -
    obtain ds where "calls w' = calls (w\<lparr>calls := calls w @ cs\<rparr>) @ ds"
      using append [of "w\<lparr>calls := calls w @ cs\<rparr>"] run by auto
    then show ?thesis
      using RandomSecret_write_run [OF run] skip [of "w\<lparr>calls := calls w @ cs\<rparr>" cs w'] cs by auto
  qed
  have wr0: "RandomSecret_write hcl E cl w = (Ok (), w') \<Longrightarrow> ?thesis" using wr [of "[]"] by simp
  show ?thesis
  proof (cases "rs_LastVaultSecretUpdate (Status ?d)")
    case None
    show ?thesis
    proof (cases "rs_RefreshPeriod (Spec ?d)")
      case None': None
      then show ?thesis
        using assms None wr [of "[VaultRead cl (RandomSecret_GetPath ?d)]"]
        by (auto simp: RandomSecret_manageReconcileLogic_def bindG_get bindG_def [of "not_due _ _"] not_due_run tryG_run
            bindG_def [of "tryG _"] Exists_run retG_def mutations_def split: res.splits if_splits)
    next
      case (Some p)
      then show ?thesis
        using assms None wr0
        by (auto simp: RandomSecret_manageReconcileLogic_def bindG_get bindG_def [of "not_due _ _"] not_due_run)
    qed
  next
    case (Some t)
    then show ?thesis
      using assms wr [of "[TimeNow]"]
      by (auto simp: RandomSecret_manageReconcileLogic_def bindG_get bindG_def [of "not_due _ _"] not_due_run
          retG_def mutations_def split: option.splits if_splits)
  qed
qed

text \<open>
  For a random secret that the webhook admits, the data written (under \<open>data\<close> in a
  version 2 engine) holds the generated secret under the secret key and, exactly when there
  is a positive refresh period, that period under \<open>ttl\<close>: the two never collide.
\<close>

theorem RandomSecret_payload:
  assumes "RandomSecret_isValid hcl d = []"
  shows "\<exists>m. (if IsKVSecretsEngineV2 d then fmlookup (RandomSecret_GetPayload d) ''data'' = Some (VMap m)
              else RandomSecret_GetPayload d = m) \<and>
    fmlookup m (SecretKey (Spec d)) = Some (VStr (calculatedSecret (Spec d))) \<and>
    (if refreshed d then fmlookup m ''ttl'' = Some (VStr (Duration_String (the (rs_RefreshPeriod (Spec d)))))
     else fmdom' m = {SecretKey (Spec d)})"
proof -
  have "\<not> (refreshed d \<and> SecretKey (Spec d) = ttlKey)"
    using assms by (auto simp: RandomSecret_isValid_def validateSecretKey_def split: if_splits)
  then show ?thesis
    by (auto simp: RandomSecret_GetPayload_def getV1Payload_def Let_def ttlKey_def)
qed

text \<open>
  The HCL library recognises the syntax by the file name's extension, so it rejects a
  name without a dot. Validation adds \<open>.hcl\<close> to the secret key; generation passes the key as
  it is. Hence with a secret key without a dot an inline policy that the webhook admits
  never yields a password: every reconcile fails, without any call.
\<close>

theorem inline_policy_never_generates:
  assumes "\<forall>name. CHR ''.'' \<notin> set name \<longrightarrow> (\<exists>e. hcl name (InlinePasswordPolicy (SecretFormat (Spec (inst w)))) = Inl e)"
    and "InlinePasswordPolicy (SecretFormat (Spec (inst w))) \<noteq> []"
    and "CHR ''.'' \<notin> set (SecretKey (Spec (inst w)))"
  shows "\<exists>e. GenerateNewPassword hcl E cl w = (Err e, w)"
  using assms by (auto simp: GenerateNewPassword_def bindG_get errG_def)

text \<open>
  A successful refresh asks for the next cycle when the period will have passed since
  this write, or in a second if it already has; it does not stop on a missing time.
\<close>

theorem RandomSecret_schedule_result:
  assumes "rs_RefreshPeriod (Spec (inst w)) = Some p" and "rs_LastVaultSecretUpdate (Status (inst w)) = Some t"
    and "fst (RandomSecret_schedule hcl E w) = Ok r"
  shows "RequeueAfter r =
    (let left = time_Sub (t + p) (time_now E (calls w)) in if left > 0 then left else Second)"
proof -
  let ?left = "time_Sub (t + p) (time_now E (calls w))" and ?w = "w\<lparr>calls := calls w @ [TimeNow]\<rparr>"
  let ?vo = "Some (RandomSecret_VaultObject hcl)"
  have run: "RandomSecret_schedule hcl E w =
      (if ?left > 0 then bindG (tryG (ManageOutcomeWithRequeue ?vo E None ?left))
         (\<lambda>_. ManageOutcomeWithRequeue ?vo E None ?left) ?w
       else ManageOutcomeWithRequeue ?vo E None Second ?w)"
    using assms(1,2) by (simp add: RandomSecret_schedule_def bindG_get bindG_ask Let_def)
  show ?thesis
  proof (cases "?left > 0")
    case True
    then obtain w' where "fst (ManageOutcomeWithRequeue ?vo E None ?left w') = Ok r"
      using assms(3) run by (auto elim: bindG_fst_OkE)
    then show ?thesis using True by (auto simp: Let_def dest: ManageOutcomeWithRequeue_result)
  next
    case False
    then show ?thesis using assms(3) run by (auto simp: Let_def dest: ManageOutcomeWithRequeue_result)
  qed
qed

text \<open>
  The webhook of an update admits no other path prefix and no other secret key, but the
  name in Vault may change: the object at the old path is then left behind.
\<close>

lemma RandomSecret_ValidateUpdate_path:
  "RandomSecret_ValidateUpdate hcl r old = [] \<Longrightarrow>
     Path (Spec r) = Path (Spec old) \<and> SecretKey (Spec r) = SecretKey (Spec old) \<and>
     RandomSecret_isValid hcl r = []"
  by (auto simp: RandomSecret_ValidateUpdate_def split: if_splits)

section \<open>A concrete random secret, and the witnesses\<close>

definition sample_policy_format :: PasswordPolicyFormat where
  "sample_policy_format = \<lparr>Length = 2, Rules = [\<lparr>RuleType = ''charset'', Charset = ''ab'', MinChars = 1\<rparr>]\<rparr>"

definition sample_hcl :: hcl_decoder where
  "sample_hcl name text =
     (if HasSuffix name ''.hcl'' then Inr sample_policy_format else Inl (ErrMsg ''Unsupported file format''))"

definition sample_random_secret :: "int option \<Rightarrow> int option \<Rightarrow> RandomSecret" where
  "sample_random_secret period last_update =
     \<lparr>TypeKind = ''RandomSecret'', Meta = sample_meta ''db'',
      Spec = \<lparr>Connection = None, Authentication = sample_auth, Name = [], Path = ''kv'',
              SecretFormat = \<lparr>PasswordPolicyName = [], InlinePasswordPolicy = ''length = 2''\<rparr>,
              rs_RefreshPeriod = period, SecretKey = ''password'', calculatedSecret = [],
              spec_IsKVSecretsEngineV2 = False, KvSecretRetainPolicy = ''Delete''\<rparr>,
      Status = \<lparr>Conditions = [], rs_LastVaultSecretUpdate = last_update\<rparr>\<rparr>"

lemma sample_random_secret_simps [simp]:
  "RandomSecret_GetPath (sample_random_secret p t) = ''kv/db''"
  "rs_RefreshPeriod (Spec (sample_random_secret p t)) = p"
  "rs_LastVaultSecretUpdate (Status (sample_random_secret p t)) = t"
  "SecretKey (Spec (sample_random_secret p t)) = ''password''"
  "InlinePasswordPolicy (SecretFormat (Spec (sample_random_secret p t))) = ''length = 2''"
  "PasswordPolicyName (SecretFormat (Spec (sample_random_secret p t))) = []"
  "\<not> IsKVSecretsEngineV2 (sample_random_secret p t)"
  "\<not> is_deleted (sample_random_secret p t)"
  by (simp_all add: sample_random_secret_def RandomSecret_GetPath_def GetName_def sample_meta_def
      CleansePath_def Trim_def IsKVSecretsEngineV2_def is_deleted_def)

lemma sample_policy_simps [simp]:
  "charset_rules sample_policy_format = Rules sample_policy_format" "Length sample_policy_format = 2"
  "Rules sample_policy_format = [\<lparr>RuleType = ''charset'', Charset = ''ab'', MinChars = 1\<rparr>]"
  "letters_of (Rules sample_policy_format) = {CHR ''a'', CHR ''b''}"
  by (simp_all add: sample_policy_format_def charset_rules_def letters_of_def)

lemma sample_complies:
  assumes "length s = 2" and "set s \<subseteq> {CHR ''a'', CHR ''b''}"
  shows "complies (Rules sample_policy_format) s"
proof -
  have "byte c < 0x80" if "c \<in> set s" for c
    using assms(2) that by (auto simp: byte_def)
  then have "rune_heads s = s" using rune_heads_ascii by simp
  moreover have "filter (\<lambda>c. c = CHR ''a'' \<or> c = CHR ''b'') s = s"
    using assms(2) by (auto simp: filter_id_conv)
  ultimately show ?thesis using assms(1) by (simp add: complies_def counter_def)
qed

lemma sample_calculate: "fst (calculateSecret E sample_policy_format (Suc k) w) = Ok True"
proof -
  have "\<not> unusable (Length sample_policy_format) (letters_of (charset_rules sample_policy_format))"
    by (simp add: unusable_def letters_of_def)
  then obtain s where "length s = 2" "set s \<subseteq> {CHR ''a'', CHR ''b''}"
    and run: "\<exists>w'. if complies (charset_rules sample_policy_format) s
         then calculateSecret E sample_policy_format (Suc k) w = (Ok True, w') \<and> inst w' = set_secret s (inst w)
         else calculateSecret E sample_policy_format (Suc k) w = (Ok False, w') \<and> inst w' = inst w"
    using calculateSecret_run [of sample_policy_format E w] by (auto simp: letters_of_def)
  moreover have "complies (charset_rules sample_policy_format) s"
    using sample_complies [of s] calculation(1,2) by simp
  ultimately show ?thesis by auto
qed

theorem calculateSecret_sound_witness:
  "length (calculatedSecret (Spec (inst (snd (calculateSecret sample_env sample_policy_format (Suc 9)
     (start_world (sample_random_secret None None))))))) = 2"
  using calculateSecret_sound [OF sample_calculate, of sample_env 9 "start_world (sample_random_secret None None)"]
  by (simp add: Let_def)

definition holding_env :: "RandomSecret env" where
  "holding_env = sample_env\<lparr>vault_read := \<lambda>tr cl p. Inr (Some (data_secret fmempty))\<rparr>"

theorem RandomSecret_keeps_existing_witness:
  "RandomSecret_manageReconcileLogic sample_hcl holding_env sample_client
      (start_world (sample_random_secret None None)) =
    (Ok (), (start_world (sample_random_secret None None))\<lparr>calls := [VaultRead sample_client ''kv/db'']\<rparr>)"
  using RandomSecret_keeps_existing [where w = "start_world (sample_random_secret None None)" and hcl = sample_hcl
      and E = holding_env and cl = sample_client]
  by (simp add: holding_env_def read_answer_def data_secret_def)

definition sealed_env :: "RandomSecret env" where
  "sealed_env = sample_env\<lparr>vault_read := \<lambda>tr cl p. Inl (VaultResponseError 503 ''sealed'')\<rparr>"

theorem RandomSecret_writes_after_read_error_witness:
  "RandomSecret_manageReconcileLogic sample_hcl sealed_env sample_client
      (start_world (sample_random_secret None None)) =
    RandomSecret_write sample_hcl sealed_env sample_client
      ((start_world (sample_random_secret None None))\<lparr>calls := [VaultRead sample_client ''kv/db'']\<rparr>)"
  using RandomSecret_writes_after_read_error [where w = "start_world (sample_random_secret None None)"
      and hcl = sample_hcl and E = sealed_env and cl = sample_client and e = "VaultResponseError 503 ''sealed''"]
  by (simp add: sealed_env_def read_answer_def)

theorem RandomSecret_rests_witness:
  "RandomSecret_body sample_hcl sample_env sample_client (start_world (sample_random_secret (Some 100) (Some 7))) =
    (Ok \<lparr>RequeueAfter = 0\<rparr>, (start_world (sample_random_secret (Some 100) (Some 7)))\<lparr>calls := [TimeNow]\<rparr>)"
  using RandomSecret_rests [where w = "start_world (sample_random_secret (Some 100) (Some 7))" and t = 7
      and E = sample_env and hcl = sample_hcl and cl = sample_client]
  by (simp add: sample_env_def)

theorem RandomSecret_reconcile_effect_witness:
  "mutations (start_world (sample_random_secret (Some 100) (Some 7)))
     (snd (RandomSecret_manageReconcileLogic sample_hcl sample_env sample_client
        (start_world (sample_random_secret (Some 100) (Some 7))))) = []"
proof -
  let ?w = "start_world (sample_random_secret (Some 100) (Some 7))"
  have "RandomSecret_manageReconcileLogic sample_hcl sample_env sample_client ?w = (Ok (), ?w\<lparr>calls := [TimeNow]\<rparr>)"
    by (simp add: RandomSecret_manageReconcileLogic_def bindG_get bindG_def [of "not_due _ _"] not_due_run
        retG_def)
  then show ?thesis using RandomSecret_reconcile_effect [of sample_hcl sample_env sample_client ?w]
    by (auto simp: mutations_def)
qed

theorem RandomSecret_payload_witness:
  "RandomSecret_isValid sample_hcl (sample_random_secret (Some (180 * Second)) None) = [] \<and>
   fmlookup (RandomSecret_GetPayload (sample_random_secret (Some (180 * Second)) None)) ''ttl'' = Some (VStr ''3m0s'')"
proof -
  let ?d = "sample_random_secret (Some (180 * Second)) None"
  have valid: "RandomSecret_isValid sample_hcl ?d = []"
    by (simp add: RandomSecret_isValid_def validateEitherPasswordPolicyReferenceOrInline_def
        validateInlinePasswordPolicyFormat_def validateSecretKey_def validateKVv2DataInPath_def
        sample_hcl_def HasSuffix_def ttlKey_def)
  have "refreshed ?d" by (simp add: refreshed_def Second_def)
  then show ?thesis
    using RandomSecret_payload [OF valid] valid Duration_String_examples(1) by (simp add: Second_def)
qed

theorem inline_policy_never_generates_witness:
  "RandomSecret_isValid sample_hcl (sample_random_secret None None) = [] \<and>
   (\<exists>e. GenerateNewPassword sample_hcl sample_env sample_client (start_world (sample_random_secret None None)) =
     (Err e, start_world (sample_random_secret None None)))"
proof -
  have "CHR ''.'' \<notin> set name \<Longrightarrow> \<not> HasSuffix name ''.hcl''" for name
    by (auto simp: HasSuffix_def strip_prefix_Some_iff)
  then show ?thesis
    using inline_policy_never_generates [where w = "start_world (sample_random_secret None None)"
        and hcl = sample_hcl and E = sample_env and cl = sample_client]
    by (simp add: sample_hcl_def RandomSecret_isValid_def validateEitherPasswordPolicyReferenceOrInline_def
        validateInlinePasswordPolicyFormat_def validateSecretKey_def validateKVv2DataInPath_def refreshed_def
        HasSuffix_def)
qed

theorem RandomSecret_schedule_result_witness:
  "fst (RandomSecret_schedule sample_hcl sample_env (start_world (sample_random_secret (Some 100) (Some 7)))) =
     Ok \<lparr>RequeueAfter = 107\<rparr>"
proof -
  let ?w = "start_world (sample_random_secret (Some 100) (Some 7))"
  obtain v where v: "ManageOutcomeWithRequeue (Some (RandomSecret_VaultObject sample_hcl)) sample_env None 107
      (?w\<lparr>calls := [TimeNow]\<rparr>) = (Ok \<lparr>RequeueAfter = 107\<rparr>, v)"
    using ManageOutcome_sample [of "Some (RandomSecret_VaultObject sample_hcl)" 107 "?w\<lparr>calls := [TimeNow]\<rparr>"]
    by (metis prod.collapse)
  have "fst (RandomSecret_schedule sample_hcl sample_env ?w) = Ok \<lparr>RequeueAfter = time_Sub 107 0\<rparr>"
    by (simp add: RandomSecret_schedule_def bindG_get bindG_ask tryG_run Let_def bindG_def [of "tryG _"]
        time_Sub_def maxDuration_def minDuration_def ManageOutcome_sample v)
  then obtain r where r: "fst (RandomSecret_schedule sample_hcl sample_env ?w) = Ok r" by blast
  show ?thesis
    using RandomSecret_schedule_result [of ?w 100 7, OF _ _ r] r
    by (cases r) (simp add: time_Sub_def maxDuration_def minDuration_def Let_def sample_env_def)
qed

end
