(* ===== verification/PasswordSearch.thy ===== *)
theory PasswordSearch
  imports RandomSecrets
begin

text \<open>
  How long the search for a password of \<open>RandomSecrets\<close> may take: \<open>makes_at_most n m\<close> bounds
  the number of calls of an effect, and adds up along a sequence.
\<close>

definition makes_at_most :: "nat \<Rightarrow> ('o, 'a) go \<Rightarrow> bool" where
  "makes_at_most n m \<longleftrightarrow> (\<forall>w. length (calls (snd (m w))) \<le> length (calls w) + n)"

lemma makes_at_most_bind:
  assumes "makes_at_most k m" and "\<And>x. makes_at_most l (f x)"
  shows "makes_at_most (k + l) (bindG m f)"
  unfolding makes_at_most_def
proof
  fix w
  obtain r w' where m: "m w = (r, w')" by (cases "m w")
  have "length (calls w') \<le> length (calls w) + k" using assms(1) m unfolding makes_at_most_def by (metis snd_conv)
  moreover have "length (calls (snd (f x w'))) \<le> length (calls w') + l" for x
    using assms(2) unfolding makes_at_most_def by blast
  ultimately show "length (calls (snd (bindG m f w))) \<le> length (calls w) + (k + l)"
    using m by (cases r) (auto simp: bindG_def intro: order_trans [of _ "length (calls w') + l"])
qed

lemma makes_at_most_mono: "makes_at_most k m \<Longrightarrow> k \<le> n \<Longrightarrow> makes_at_most n m"
  unfolding makes_at_most_def by (meson add_left_mono order_trans)

lemma makes_at_most_none: "emits (\<lambda>_. False) m \<Longrightarrow> makes_at_most 0 m"
  by (simp add: makes_at_most_def emits_noneD)

lemma makes_at_most_ask: "makes_at_most 1 (askG c a)"
  by (simp add: makes_at_most_def askG_def)

lemma makes_at_most_randBytes: "makes_at_most n (randBytes E letters n)"
proof (induction n)
  case 0
  show ?case by (simp add: makes_at_most_def go_runs)
next
  case (Suc n)
  have "makes_at_most 1 (randIntn E k)" for k
    by (simp add: randIntn_def makes_at_most_def go_runs)
  then have "makes_at_most (1 + (n + 0)) (randBytes E letters (Suc n))"
    unfolding randBytes.simps
    by (intro makes_at_most_bind Suc makes_at_most_none keeps_ret)
  then show ?case by simp
qed

lemma makes_at_most_attempts: "makes_at_most (n * nat len) (attempt_loop E rules len n v s)"
proof (induction n arbitrary: v s)
  case 0
  show ?case by (simp add: makes_at_most_def go_runs)
next
  case (Suc n)
  have letters: "makes_at_most 0 (intSet_List E rules)"
    unfolding intSet_List_def by (intro makes_at_most_none emits_intros)
  have str: "makes_at_most (nat len) (randStringBytes E len l)" for l
    using makes_at_most_randBytes [of "nat len" E l]
    by (auto simp: randStringBytes_def makes_at_most_def go_runs)
  have "makes_at_most (0 + (nat len + n * nat len)) (attempt_loop E rules len (Suc n) v s)"
    unfolding attempt_loop.simps
    by (intro makes_at_most_bind letters str) (use Suc.IH in \<open>auto simp: makes_at_most_def go_runs\<close>)
  then show ?case by simp
qed

text \<open>
  C40. The search for a password ends: whatever the random source draws, and whatever the
  policy demands, a search of \<open>n\<close> attempts draws at most \<open>n\<close> times the length of the policy,
  in the code 10000 times that length, and makes no other call.
\<close>

theorem calculateSecret_terminates:
  "length (calls (snd (calculateSecret E policy n w))) \<le> length (calls w) + n * nat (Length policy) \<and>
   list_all is_draw (drop (length (calls w)) (calls (snd (calculateSecret E policy n w))))"
proof
  have tail: "makes_at_most 0 (bindG (if v then modifyG (set_secret s) else retG ()) (\<lambda>_. retG v))" for v s
    by (intro makes_at_most_none emits_intros)
  have "makes_at_most (n * nat (Length policy) + 0) (calculateSecret E policy n)"
    unfolding calculateSecret_def
    by (rule makes_at_most_bind [OF makes_at_most_attempts]) (simp add: tail split: prod.split)
  then show "length (calls (snd (calculateSecret E policy n w))) \<le> length (calls w) + n * nat (Length policy)"
    by (simp add: makes_at_most_def)
  have "emits is_draw (calculateSecret E policy n)"
    unfolding calculateSecret_def by (intro emits_intros draws_attempt_loop)
  then show "list_all is_draw (drop (length (calls w)) (calls (snd (calculateSecret E policy n w))))"
    by (rule keepsE [where w = w]) auto
qed

end
