(* ===== verification/Engines.thy ===== *)
theory Engines
  imports Lifecycle
begin

text \<open>
  What every secret engine and authentication engine promises, as an interface that extends
  the one of the plain resources, and what follows for the engine reconciler
  (\<open>vaultengineobject.go\<close>, \<open>vaultengineresourcereconciler.go\<close>).
\<close>

section \<open>Looking up the accessor\<close>

lemma find_perm:
  assumes "set xs = set ys" and "\<forall>x \<in> set xs. \<forall>y \<in> set xs. P x \<longrightarrow> P y \<longrightarrow> x = y"
  shows "find P xs = find P ys"
proof (cases "\<exists>x \<in> set xs. P x")
  case True
  then obtain x where x: "x \<in> set xs" "P x" by blast
  have "find P zs = Some x" if zs: "set zs = set xs" for zs
  proof -
    obtain z where z: "find P zs = Some z" using x zs by (cases "find P zs") (auto simp: find_None_iff)
    then have "z \<in> set zs" "P z" by (auto simp: find_Some_iff)
    then show ?thesis using z x zs assms(2) by simp
  qed
  from this [of xs] this [of ys] show ?thesis using assms(1) by simp
next
  case False
  then have "find P xs = None" "find P ys = None" using assms(1) by (simp_all add: find_None_iff)
  then show ?thesis by simp
qed

text \<open>The entry of the list that a mount key leads to.\<close>

definition accessor_of :: "(string \<Rightarrow> bool) \<Rightarrow> gmap \<Rightarrow> string list \<Rightarrow> (string \<times> bool) res" where
  "accessor_of is_key m keys = (case find is_key keys of
      None \<Rightarrow> Ok ([], False)
    | Some key \<Rightarrow> (case as_map (fmlookup m key) of
        None \<Rightarrow> Panic ''interface conversion''
      | Some e \<Rightarrow> (case as_string (fmlookup e ''accessor'') of
          None \<Rightarrow> Panic ''interface conversion''
        | Some a \<Rightarrow> Ok (a, True))))"

lemma find_accessor_run: "find_accessor is_key m keys w = (accessor_of is_key m keys, w)"
  by (simp add: find_accessor_def accessor_of_def assert_map_def assert_string_def go_runs split: option.split)

lemma retrieveAccessor_run:
  "retrieveAccessor V E cl w =
     (let p = GetEngineListPath V (inst w); w' = w\<lparr>calls := calls w @ [VaultRead cl p]\<rparr> in
      (case vault_read E (calls w) cl p of
         Inl e \<Rightarrow> Err e
       | Inr None \<Rightarrow> Err (ErrMsg ''read returned null secret'')
       | Inr (Some s) \<Rightarrow> (case vs_Data s of
           None \<Rightarrow> Ok ([], False)
         | Some m \<Rightarrow> accessor_of (is_mount_key V (inst w)) m (range_keys (range_rank E (calls w')) m)), w'))"
  by (simp add: retrieveAccessor_def bindG_get bindG_ask bindG_range find_accessor_run go_runs Let_def
      split: sum.split option.split)

lemma keeps_find_accessor: "keeps I P (find_accessor is_key m keys)"
  by (auto simp: keeps_def find_accessor_run)

lemma keeps_retrieveAccessor:
  "(\<And>p. P (VaultRead cl p)) \<Longrightarrow> keeps I P (retrieveAccessor V E cl)"
  unfolding retrieveAccessor_def by (intro emits_intros keeps_find_accessor)

section \<open>The interface\<close>

text \<open>The engine's view: what it shows to the reconciler, and where it is tuned.\<close>

definition engine_view where
  "engine_view V d = (object_view V d, GetEngineTunePath V d)"

definition engine_call :: "string \<Rightarrow> string \<Rightarrow> 'o call \<Rightarrow> bool" where
  "engine_call p t c \<longleftrightarrow> (case vault_mutation c of None \<Rightarrow> True | Some q \<Rightarrow> q = p \<or> q = t)"

locale vault_engine_object = vault_object V
  for V :: "(('s, 'x) object, 'z) VaultEngineObject_scheme" +
  assumes accessor_view: "engine_view V (SetAccessor V a d) = engine_view V d"
    and prepare_engine_view: "keeps (\<lambda>d. engine_view V d = v) is_query (PrepareInternalValues V E cl)"
    and prepare_engine_tls_view: "keeps (\<lambda>d. engine_view V d = v) is_query (PrepareTLSConfig V E cl)"

context vault_engine_object
begin

lemma engine_call_query: "is_query c \<Longrightarrow> engine_call p t c"
  by (simp add: engine_call_def is_query_no_mutation)

lemma engine_call_bookkeeping: "kube_bookkeeping c \<Longrightarrow> engine_call p t c"
  by (simp add: engine_call_def bookkeeping_no_mutation)

lemma prepare_engine:
  "keeps (\<lambda>d. engine_view V d = v) (engine_call p t) (PrepareInternalValues V E cl)"
  "keeps (\<lambda>d. engine_view V d = v) (engine_call p t) (PrepareTLSConfig V E cl)"
  by (rule keeps_mono [OF prepare_engine_view], erule engine_call_query)
    (rule keeps_mono [OF prepare_engine_tls_view], erule engine_call_query)

lemma keeps_Create_engine:
  "keeps (\<lambda>d. engine_view V d = v) (engine_call (fst (fst v)) (snd v)) (Create V E cl)"
  unfolding Create_def
  by (rule keeps_bind_get) (intro emits_intros; auto simp: engine_call_def engine_view_def object_view_def)

lemma keeps_tune:
  "keeps (\<lambda>d. engine_view V d = v) (engine_call (fst (fst v)) (snd v)) (CreateOrUpdateTuneConfig V E cl)"
proof -
  have read: "keeps (\<lambda>d. engine_view V d = v) (engine_call (fst (fst v)) (snd v)) (readTuneConfig V E cl)"
    unfolding readTuneConfig_def by (intro emits_intros; simp add: engine_call_def)
  show ?thesis
    unfolding CreateOrUpdateTuneConfig_def
    by (intro emits_intros read keeps_bind_get) (auto simp: engine_call_def engine_view_def object_view_def)
qed

lemma keeps_engine_logic:
  "keeps (\<lambda>d. engine_view V d = v) (engine_call (fst (fst v)) (snd v))
     (VaultEngineResource_manageReconcileLogic V E cl)"
proof -
  have acc: "keeps (\<lambda>d. engine_view V d = v) (engine_call (fst (fst v)) (snd v)) (retrieveAccessor V E cl)"
    by (rule keeps_retrieveAccessor) (simp add: engine_call_def)
  show ?thesis
    unfolding VaultEngineResource_manageReconcileLogic_def VaultEngineEndpoint_Exists_def GetAccessor_def
    by (intro emits_intros prepare_engine keeps_Create_engine keeps_tune acc) (simp add: accessor_view)
qed

lemma keeps_engine_delete:
  "keeps (\<lambda>d. engine_view V d = v) (engine_call (fst (fst v)) (snd v)) (DeleteIfExists V E cl)"
  unfolding DeleteIfExists_def
  by (rule keeps_bind_get) (intro emits_intros keeps_delete_path; auto simp: engine_call_def engine_view_def object_view_def)

theorem engine_frame:
  "allows (\<lambda>d. engine_view V d = v) (engine_call (fst (fst v)) (snd v)) (VaultEngineResource_Reconcile V E cl)"
  unfolding VaultEngineResource_Reconcile_def
  by (intro allows_reconcile_cycle keeps_manageCleanUpLogic keeps_engine_delete keeps_engine_logic
      engine_call_bookkeeping)

lemma engine_changes_own_paths:
  "list_all (engine_call (GetPath V (inst w)) (GetEngineTunePath V (inst w)))
     (drop (length (calls w)) (calls (snd (VaultEngineResource_Reconcile V E cl w))))"
  using allowsD [OF engine_frame [of "engine_view V (inst w)" E cl], of w]
  by (auto simp: engine_view_def object_view_def)

end

end
