(* ===== verification/PKI.thy ===== *)
theory PKI
  imports Engines Samples
begin

text \<open>
  The PKI engine configuration (\<open>api/v1alpha1/pkisecretengineconfig_types.go\<close> and its
  controller), the contract of the \<open>VaultPKIEngineObject\<close> interface, and what follows for
  the PKI reconciler (\<open>vaultpkiengineresourcereconciler.go\<close>): a certificate authority is
  generated at most once, what its reconcile may touch in Vault, and where its
  configuration ends up.
\<close>

section \<open>Data\<close>

record PKICommon =
  pki_CommonName :: string
  pki_AltNames :: string
  pki_IPSans :: string
  pki_URISans :: string
  pki_OtherSans :: string
  pki_TTL :: int
  pki_Format :: string
  pki_PrivateKeyFormat :: string
  pki_KeyType :: string
  pki_KeyBits :: int
  pki_MaxPathLength :: int
  pki_ExcludeCnFromSans :: bool
  pki_PermittedDnsDomains :: "string list option"
  pki_OU :: string
  pki_Organization :: string
  pki_Country :: string
  pki_Locality :: string
  pki_Province :: string
  pki_StreetAddress :: string
  pki_PostalCode :: string
  pki_SerialNumber :: string

record PKIConfigUrls =
  pki_IssuingCertificates :: "string list option"
  pki_CRLDistributionPoints :: "string list option"
  pki_OcspServers :: "string list option"

record PKIConfigCRL =
  pki_CRLExpiry :: int
  pki_CRLDisable :: bool

record PKIIntermediate =
  pki_ExternalSignSecret :: "LocalObjectReference option"
  pki_CertificateKey :: string
  pki_InternalSign :: "LocalObjectReference option"
  pki_cSR :: string
  pki_signedIntermediate :: string

record PKISecretEngineConfigSpec = BaseSpec +
  pki_Path :: string
  pki_Type :: string
  pki_PrivateKeyType :: string
  pki_Common :: PKICommon
  pki_Urls :: PKIConfigUrls
  pki_CRL :: PKIConfigCRL
  pki_Intermediate :: PKIIntermediate

record PKISecretEngineConfigStatus = BaseStatus +
  pki_Generated :: bool
  pki_Exported :: bool
  pki_Signed :: bool

type_synonym PKISecretEngineConfig = "(PKISecretEngineConfigSpec, PKISecretEngineConfigStatus) crd"

definition PKICommon_toMap :: "PKICommon \<Rightarrow> gmap" where
  "PKICommon_toMap i = fmap_of_list
     [(''common_name'', VStr (pki_CommonName i)),
      (''alt_names'', VStr (pki_AltNames i)),
      (''ip_sans'', VStr (pki_IPSans i)),
      (''uri_sans'', VStr (pki_URISans i)),
      (''other_sans'', VStr (pki_OtherSans i)),
      (''ttl'', VDur (pki_TTL i)),
      (''format'', VStr (pki_Format i)),
      (''private_key_format'', VStr (pki_PrivateKeyFormat i)),
      (''key_type'', VStr (pki_KeyType i)),
      (''key_bits'', VInt (pki_KeyBits i)),
      (''max_path_length'', VInt (pki_MaxPathLength i)),
      (''exclude_cn_from_sans'', VBool (pki_ExcludeCnFromSans i)),
      (''permitted_dns_domains'', VStrs (pki_PermittedDnsDomains i)),
      (''ou'', VStr (pki_OU i)),
      (''organization'', VStr (pki_Organization i)),
      (''country'', VStr (pki_Country i)),
      (''locality'', VStr (pki_Locality i)),
      (''province'', VStr (pki_Province i)),
      (''street_address'', VStr (pki_StreetAddress i)),
      (''postal_code'', VStr (pki_PostalCode i)),
      (''serial_number'', VStr (pki_SerialNumber i))]"

definition PKIConfigUrls_toMap :: "PKIConfigUrls \<Rightarrow> gmap" where
  "PKIConfigUrls_toMap i = fmap_of_list
     [(''issuing_certificates'', VStrs (pki_IssuingCertificates i)),
      (''crl_distribution_points'', VStrs (pki_CRLDistributionPoints i)),
      (''ocsp_servers'', VStrs (pki_OcspServers i))]"

definition PKIConfigCRL_toMap :: "PKIConfigCRL \<Rightarrow> gmap" where
  "PKIConfigCRL_toMap i = fmap_of_list
     [(''expiry'', VDur (pki_CRLExpiry i)),
      (''disable'', VBool (pki_CRLDisable i))]"

section \<open>Methods\<close>

definition PKISecretEngineConfig_GetPath :: "PKISecretEngineConfig \<Rightarrow> string" where
  "PKISecretEngineConfig_GetPath p = pki_Path (Spec p)"

definition PKISecretEngineConfig_GetDeletePath :: "PKISecretEngineConfig \<Rightarrow> string" where
  "PKISecretEngineConfig_GetDeletePath p = pki_Path (Spec p) @ ''/root''"

definition PKISecretEngineConfig_GetGeneratePath :: "PKISecretEngineConfig \<Rightarrow> string" where
  "PKISecretEngineConfig_GetGeneratePath p =
     pki_Path (Spec p) @ ''/'' @ pki_Type (Spec p) @ ''/generate/'' @ pki_PrivateKeyType (Spec p)"

definition PKISecretEngineConfig_GetConfigUrlsPath :: "PKISecretEngineConfig \<Rightarrow> string" where
  "PKISecretEngineConfig_GetConfigUrlsPath p = pki_Path (Spec p) @ ''/config/urls''"

definition PKISecretEngineConfig_GetConfigCrlPath :: "PKISecretEngineConfig \<Rightarrow> string" where
  "PKISecretEngineConfig_GetConfigCrlPath p = pki_Path (Spec p) @ ''/config/crl''"

text \<open>The name of \<open>spec.internalSign\<close>, empty when there is none; callers test for it first.\<close>

definition internal_signer :: "PKISecretEngineConfig \<Rightarrow> string" where
  "internal_signer p = (case pki_InternalSign (pki_Intermediate (Spec p)) of Some n \<Rightarrow> n | None \<Rightarrow> [])"

definition PKISecretEngineConfig_GetSignIntermediatePath :: "PKISecretEngineConfig \<Rightarrow> string" where
  "PKISecretEngineConfig_GetSignIntermediatePath p = internal_signer p @ ''/root/sign-intermediate''"

definition PKISecretEngineConfig_GetIntermediateSetSignedPath :: "PKISecretEngineConfig \<Rightarrow> string" where
  "PKISecretEngineConfig_GetIntermediateSetSignedPath p = pki_Path (Spec p) @ ''/intermediate/set-signed''"

definition PKISecretEngineConfig_GetPayload :: "PKISecretEngineConfig \<Rightarrow> gmap" where
  "PKISecretEngineConfig_GetPayload p = PKICommon_toMap (pki_Common (Spec p))"

definition PKISecretEngineConfig_GetConfigUrlsPayload :: "PKISecretEngineConfig \<Rightarrow> gmap" where
  "PKISecretEngineConfig_GetConfigUrlsPayload p = PKIConfigUrls_toMap (pki_Urls (Spec p))"

definition PKISecretEngineConfig_GetConfigCrlPayload :: "PKISecretEngineConfig \<Rightarrow> gmap" where
  "PKISecretEngineConfig_GetConfigCrlPayload p = PKIConfigCRL_toMap (pki_CRL (Spec p))"

definition PKISecretEngineConfig_GetSignIntermediatePayload :: "PKISecretEngineConfig \<Rightarrow> gmap" where
  "PKISecretEngineConfig_GetSignIntermediatePayload p =
     fmupd ''csr'' (VStr (pki_cSR (pki_Intermediate (Spec p)))) (PKISecretEngineConfig_GetPayload p)"

definition PKISecretEngineConfig_GetIntermediateSetSignedPayload :: "PKISecretEngineConfig \<Rightarrow> gmap" where
  "PKISecretEngineConfig_GetIntermediateSetSignedPayload p =
     fmap_of_list [(''certificate'', VStr (pki_signedIntermediate (pki_Intermediate (Spec p))))]"

definition PKISecretEngineConfig_IsEquivalentToDesiredState ::
  "PKISecretEngineConfig \<Rightarrow> gmap option \<Rightarrow> bool" where
  "PKISecretEngineConfig_IsEquivalentToDesiredState p payload =
     (let desiredState = PKICommon_toMap (pki_Common (Spec p)) in payload = Some desiredState)"

definition PKISecretEngineConfig_SetGeneratedStatus :: "bool \<Rightarrow> PKISecretEngineConfig \<Rightarrow> PKISecretEngineConfig" where
  "PKISecretEngineConfig_SetGeneratedStatus status p = p\<lparr>Status := (Status p)\<lparr>pki_Generated := status\<rparr>\<rparr>"

definition PKISecretEngineConfig_SetExportedStatus :: "bool \<Rightarrow> PKISecretEngineConfig \<Rightarrow> PKISecretEngineConfig" where
  "PKISecretEngineConfig_SetExportedStatus status p = p\<lparr>Status := (Status p)\<lparr>pki_Exported := status\<rparr>\<rparr>"

definition PKISecretEngineConfig_SetSignedStatus :: "bool \<Rightarrow> PKISecretEngineConfig \<Rightarrow> PKISecretEngineConfig" where
  "PKISecretEngineConfig_SetSignedStatus status p = p\<lparr>Status := (Status p)\<lparr>pki_Signed := status\<rparr>\<rparr>"

definition PKISecretEngineConfig_GetSignedStatus :: "PKISecretEngineConfig \<Rightarrow> bool" where
  "PKISecretEngineConfig_GetSignedStatus p =
     (if pki_Type (Spec p) = ''root'' then True else pki_Signed (Status p))"

definition PKISecretEngineConfig_GetGeneratedStatus :: "PKISecretEngineConfig \<Rightarrow> bool" where
  "PKISecretEngineConfig_GetGeneratedStatus p = pki_Generated (Status p)"

definition set_cSR :: "string \<Rightarrow> PKISecretEngineConfig \<Rightarrow> PKISecretEngineConfig" where
  "set_cSR s p = p\<lparr>Spec := (Spec p)\<lparr>pki_Intermediate := (pki_Intermediate (Spec p))\<lparr>pki_cSR := s\<rparr>\<rparr>\<rparr>"

definition setSignedIntermediate :: "string \<Rightarrow> PKISecretEngineConfig \<Rightarrow> PKISecretEngineConfig" where
  "setSignedIntermediate s p =
     p\<lparr>Spec := (Spec p)\<lparr>pki_Intermediate := (pki_Intermediate (Spec p))\<lparr>pki_signedIntermediate := s\<rparr>\<rparr>\<rparr>"

section \<open>Exporting the generated authority\<close>

text \<open>\<open>ToString\<close> of \<open>commons.go\<close>: nil reads as the empty string, other types panic.\<close>

definition ToString :: "gval option \<Rightarrow> ('o, string) go" where
  "ToString name = (if name = None \<or> name = Some VNil then retG [] else assert_string name)"

text \<open>\<open>v.(json.Number).String()\<close>\<close>

definition number_String :: "gval option \<Rightarrow> ('o, string) go" where
  "number_String v = (case v of Some (VNum s) \<Rightarrow> retG s | _ \<Rightarrow> panicG ''interface conversion'')"

definition PKISecretEngineConfig_GetExportedPayload ::
  "PKISecretEngineConfig \<Rightarrow> gmap option \<Rightarrow> ('o, (string, string) fmap) go" where
  "PKISecretEngineConfig_GetExportedPayload p data =
     bindG (if pki_Type (Spec p) = ''root'' then
              bindG (ToString (opt_lookup data ''issuing_ca'')) (\<lambda>ca.
              bindG (number_String (opt_lookup data ''expiration'')) (\<lambda>ex.
              bindG (ToString (opt_lookup data ''certificate'')) (\<lambda>crt.
              bindG (ToString (opt_lookup data ''serial_number'')) (\<lambda>sn.
              retG [(''issuing_ca'', ca), (''expiration'', ex), (''certificate'', crt), (''serial_number'', sn)]))))
            else bindG (ToString (opt_lookup data ''csr'')) (\<lambda>csr. retG [(''csr'', csr)])) (\<lambda>kvs.
     bindG (ToString (opt_lookup data ''private_key'')) (\<lambda>pk.
     bindG (ToString (opt_lookup data ''private_key_type'')) (\<lambda>pkt.
     retG (fmap_of_list (kvs @ [(''private_key'', pk), (''private_key_type'', pkt)])))))"

text \<open>
  The exported secret: \<open>StringData\<close> is what the API server stores as the data. It is owned
  by the resource and labelled with its name.
\<close>

definition exported_secret :: "PKISecretEngineConfig \<Rightarrow> (string, string) fmap \<Rightarrow> k8s_secret" where
  "exported_secret p payload =
     \<lparr>sec_Meta = \<lparr>meta_Name = GetName p, meta_Namespace = GetNamespace p, meta_UID = [], meta_Generation = 0,
        meta_DeletionTimestamp = None, meta_Finalizers = [],
        meta_OwnerReferences = [\<lparr>owner_Kind = TypeKind p, owner_Name = GetName p, owner_UID = meta_UID (Meta p)\<rparr>],
        meta_Annotations = None,
        meta_Labels = Some (fmap_of_list [(''redhatcop.redhat.io/pkisecretengineconfigs'', GetName p)]),
        meta_ResourceVersion = []\<rparr>,
      sec_Type = [], sec_Data = payload\<rparr>"

definition PKISecretEngineConfig_CreateExported ::
  "PKISecretEngineConfig env \<Rightarrow> vault_client \<Rightarrow> vault_secret option \<Rightarrow> (PKISecretEngineConfig, bool) go" where
  "PKISecretEngineConfig_CreateExported E cl secret = (case secret of
      None \<Rightarrow> panicG ''nil pointer dereference''
    | Some s \<Rightarrow>
        bindG getG (\<lambda>p.
        bindG (PKISecretEngineConfig_GetExportedPayload p (vs_Data s)) (\<lambda>payload.
        let exported = (pki_PrivateKeyType (Spec p) = ''exported'');
            kubeSecret = exported_secret p payload in
        bindG (if exported
               then bindG (askG (KubeCreateSecret kubeSecret) (\<lambda>tr. kube_create_secret E tr kubeSecret))
                      (\<lambda>r. case r of Inl err \<Rightarrow> errG err | Inr _ \<Rightarrow> retG ())
               else retG ()) (\<lambda>_.
        bindG (if pki_Type (Spec p) = ''intermediate'' then modifyG (set_cSR (str_at payload ''csr'')) else retG ()) (\<lambda>_.
        retG exported)))))"

section \<open>Signing an intermediate authority\<close>

text \<open>The two ways to a signed certificate: a PKI engine of Vault, or a Kubernetes secret.\<close>

definition sign_internally :: "PKISecretEngineConfig env \<Rightarrow> vault_client \<Rightarrow> (PKISecretEngineConfig, unit) go" where
  "sign_internally E cl =
     bindG getG (\<lambda>p.
     bindG (if pki_cSR (pki_Intermediate (Spec p)) = []
            then bindG (askG (KubeGetSecret (GetNamespace p) (GetName p))
                          (\<lambda>tr. kube_get_secret E tr (GetNamespace p) (GetName p)))
                   (\<lambda>r. case r of Inl err \<Rightarrow> errG err
                      | Inr secret \<Rightarrow> modifyG (set_cSR (str_at (sec_Data secret) ''csr'')))
            else retG ()) (\<lambda>_.
     bindG getG (\<lambda>p.
     bindG (writeWithResponse E cl (PKISecretEngineConfig_GetSignIntermediatePath p)
              (Some (PKISecretEngineConfig_GetSignIntermediatePayload p))) (\<lambda>secret.
     case secret of
        None \<Rightarrow> panicG ''nil pointer dereference''
      | Some s \<Rightarrow> bindG (assert_string (opt_lookup (vs_Data s) ''certificate'')) (\<lambda>crt.
                  modifyG (setSignedIntermediate crt))))))"

definition sign_externally :: "PKISecretEngineConfig env \<Rightarrow> (PKISecretEngineConfig, unit) go" where
  "sign_externally E =
     bindG getG (\<lambda>p. case pki_ExternalSignSecret (pki_Intermediate (Spec p)) of
        None \<Rightarrow> errG (ErrMsg ''waiting spec.externalSignSecret with signed intermediate certificate'')
      | Some n \<Rightarrow>
          bindG (askG (KubeGetSecret (GetNamespace p) n) (\<lambda>tr. kube_get_secret E tr (GetNamespace p) n))
            (\<lambda>r. case r of Inl err \<Rightarrow> errG err
               | Inr secret \<Rightarrow> modifyG (setSignedIntermediate
                   (str_at (sec_Data secret) (pki_CertificateKey (pki_Intermediate (Spec p)))))))"

definition PKISecretEngineConfig_SetIntermediate ::
  "PKISecretEngineConfig env \<Rightarrow> vault_client \<Rightarrow> (PKISecretEngineConfig, unit) go" where
  "PKISecretEngineConfig_SetIntermediate E cl =
     bindG getG (\<lambda>p.
       if pki_Type (Spec p) = ''intermediate'' then
         bindG (if internal_signer p \<noteq> [] then sign_internally E cl else sign_externally E) (\<lambda>_.
         bindG getG (\<lambda>p.
         writePayload E cl (PKISecretEngineConfig_GetIntermediateSetSignedPath p)
           (Some (PKISecretEngineConfig_GetIntermediateSetSignedPayload p))))
       else retG ())"

definition PKISecretEngineConfig_VaultObject :: "PKISecretEngineConfig VaultPKIEngineObject" where
  "PKISecretEngineConfig_VaultObject =
     \<lparr>GetPath = PKISecretEngineConfig_GetPath,
      GetPayload = PKISecretEngineConfig_GetPayload,
      IsEquivalentToDesiredState = PKISecretEngineConfig_IsEquivalentToDesiredState,
      IsInitialized = (\<lambda>_. True),
      IsValid = (\<lambda>_. []),
      IsDeletable = (\<lambda>_. False),
      PrepareInternalValues = (\<lambda>E cl. retG ()),
      PrepareTLSConfig = (\<lambda>E cl. retG ()),
      GetGeneratePath = PKISecretEngineConfig_GetGeneratePath,
      GetDeletePath = PKISecretEngineConfig_GetDeletePath,
      GetGeneratedStatus = PKISecretEngineConfig_GetGeneratedStatus,
      SetGeneratedStatus = PKISecretEngineConfig_SetGeneratedStatus,
      GetConfigUrlsPath = PKISecretEngineConfig_GetConfigUrlsPath,
      GetConfigCrlPath = PKISecretEngineConfig_GetConfigCrlPath,
      GetConfigUrlsPayload = PKISecretEngineConfig_GetConfigUrlsPayload,
      GetConfigCrlPayload = PKISecretEngineConfig_GetConfigCrlPayload,
      CreateExported = PKISecretEngineConfig_CreateExported,
      SetExportedStatus = PKISecretEngineConfig_SetExportedStatus,
      SetIntermediate = PKISecretEngineConfig_SetIntermediate,
      GetSignedStatus = PKISecretEngineConfig_GetSignedStatus,
      SetSignedStatus = PKISecretEngineConfig_SetSignedStatus\<rparr>"

definition PKISecretEngineConfigReconciler_Reconcile ::
  "PKISecretEngineConfig env \<Rightarrow> string \<Rightarrow> string \<Rightarrow> (PKISecretEngineConfig, Result) go" where
  "PKISecretEngineConfigReconciler_Reconcile E ns n =
     controller_Reconcile PKISecretEngineConfig_VaultObject E
       (VaultPKIEngineResource_Reconcile PKISecretEngineConfig_VaultObject E) ns n"

section \<open>The contract of a PKI engine\<close>

text \<open>
  What the reconciler relies on: the object's own steps keep its paths, its metadata and
  whether it counts as generated; exporting only creates a Kubernetes secret, signing only
  asks, or writes at the object's signing paths.
\<close>

definition pki_view where
  "pki_view V sp d = (object_view V d, GetGeneratePath V d, GetConfigCrlPath V d, GetDeletePath V d, sp d)"

fun creates_secret :: "'o call \<Rightarrow> bool" where
  "creates_secret (KubeCreateSecret s) = True"
| "creates_secret _ = False"

text \<open>
  A call that a PKI reconcile may make; with \<open>gen\<close> false, one that neither generates nor
  exports.
\<close>

definition pki_call where
  "pki_call V sp gen d c \<longleftrightarrow> (case vault_mutation c of
      Some q \<Rightarrow> gen \<and> q = GetGeneratePath V d \<or> q = GetConfigCrlPath V d \<or> q \<in> sp d \<or>
        IsDeletable V d \<and> q = GetDeletePath V d
    | None \<Rightarrow> gen \<or> \<not> creates_secret c)"

definition sign_call where
  "sign_call sp d c \<longleftrightarrow> is_query c \<or> (\<exists>q \<in> sp d. vault_mutation c = Some q)"

definition pki_same where
  "pki_same V sp gen d d' \<longleftrightarrow> pki_view V sp d' = pki_view V sp d \<and> (\<not> gen \<longrightarrow> GetGeneratedStatus V d')"

lemma creates_secret_query: "is_query c \<Longrightarrow> \<not> creates_secret c"
  by (cases c) auto

lemma creates_secret_bookkeeping: "kube_bookkeeping c \<Longrightarrow> \<not> creates_secret c"
  by (cases c) auto

lemma creates_secret_no_mutation: "creates_secret c \<Longrightarrow> vault_mutation c = None"
  by (cases c) auto

lemma pki_call_query: "is_query c \<Longrightarrow> pki_call V sp gen d c"
  by (simp add: pki_call_def is_query_no_mutation creates_secret_query)

lemma pki_call_bookkeeping: "kube_bookkeeping c \<Longrightarrow> pki_call V sp gen d c"
  by (simp add: pki_call_def bookkeeping_no_mutation creates_secret_bookkeeping)

lemma pki_call_sign: "sign_call sp d c \<Longrightarrow> pki_call V sp gen d c"
  by (auto simp: sign_call_def pki_call_query) (auto simp: pki_call_def)

locale vault_pki_object = vault_object V
  for V :: "(('s, 'x) object, 'z) VaultPKIEngineObject_scheme" +
  fixes sp :: "('s, 'x) object \<Rightarrow> string set"
  assumes set_view: "pki_view V sp (SetGeneratedStatus V b d) = pki_view V sp d"
      "pki_view V sp (SetExportedStatus V b d) = pki_view V sp d"
      "pki_view V sp (SetSignedStatus V b d) = pki_view V sp d"
    and set_generated: "GetGeneratedStatus V (SetGeneratedStatus V b d) = b"
      "GetGeneratedStatus V (SetExportedStatus V b d) = GetGeneratedStatus V d"
      "GetGeneratedStatus V (SetSignedStatus V b d) = GetGeneratedStatus V d"
    and prepare_pki: "keeps (pki_same V sp gen d) is_query (PrepareInternalValues V E cl)"
    and export_pki: "keeps (pki_same V sp gen d) creates_secret (CreateExported V E cl s)"
    and sign_pki: "keeps (pki_same V sp gen d) (sign_call sp d) (SetIntermediate V E cl)"

context vault_pki_object
begin

lemma keeps_config:
  assumes "P (VaultRead cl p)" and "\<And>d'. pki_same V sp gen d d' \<Longrightarrow> P (VaultWrite cl (GetConfigCrlPath V d') (Some m))"
  shows "keeps (pki_same V sp gen d) P (CreateOrUpdateConfig V E cl p m)"
proof -
  have "keeps (pki_same V sp gen d) P (readConfig E cl p)"
    unfolding readConfig_def by (intro emits_intros assms)
  then show ?thesis
    unfolding CreateOrUpdateConfig_def
    by (rule keeps_bind) (intro keeps_bind_get keeps_if keeps_ret keeps_writePayload assms)
qed

lemma keeps_configs:
  "keeps (pki_same V sp gen d) (pki_call V sp gen d) (CreateOrUpdateConfigUrls V E cl)"
  "keeps (pki_same V sp gen d) (pki_call V sp gen d) (CreateOrUpdateConfigCrl V E cl)"
  unfolding CreateOrUpdateConfigUrls_def CreateOrUpdateConfigCrl_def
  by (auto intro!: keeps_bind_get keeps_config simp: pki_call_def pki_same_def pki_view_def)

lemma keeps_generate:
  "keeps (pki_same V sp True d) (pki_call V sp True d) (Generate V E cl)"
  unfolding Generate_def
  by (auto intro!: keeps_bind_get emits_intros simp: pki_call_def pki_same_def pki_view_def)

lemma keeps_export: "keeps (pki_same V sp True d) (pki_call V sp True d) (CreateExported V E cl s)"
  by (rule keeps_mono [OF export_pki]) (simp add: pki_call_def creates_secret_no_mutation)

lemma keeps_logic:
  "keeps (pki_same V sp gen d) (pki_call V sp gen d) (VaultPKIEngineResource_manageReconcileLogic V E cl)"
proof -
  let ?gen = "bindG (Generate V E cl) (\<lambda>vaultSecret. bindG (modifyG (SetGeneratedStatus V True)) (\<lambda>_.
      bindG (CreateExported V E cl vaultSecret) (\<lambda>exported. modifyG (SetExportedStatus V exported))))"
  have gen: "gen \<Longrightarrow> keeps (pki_same V sp gen d) (pki_call V sp gen d) ?gen"
    by (simp, intro keeps_bind keeps_generate keeps_export keeps_modify)
      (simp_all add: pki_same_def set_view)
  have step: "keeps (pki_same V sp gen d) (pki_call V sp gen d)
      (bindG getG (\<lambda>instance. bindG (if \<not> GetGeneratedStatus V instance then ?gen else retG ()) f))"
    if "\<And>x. keeps (pki_same V sp gen d) (pki_call V sp gen d) (f x)" for f
  proof (rule keeps_bind_get)
    fix x assume "pki_same V sp gen d x"
    then show "keeps (pki_same V sp gen d) (pki_call V sp gen d)
        (bindG (if \<not> GetGeneratedStatus V x then ?gen else retG ()) f)"
      using gen that by (cases gen) (auto intro!: keeps_bind keeps_ret simp: pki_same_def)
  qed
  have sign: "keeps (pki_same V sp gen d) (pki_call V sp gen d) (SetIntermediate V E cl)"
    by (rule keeps_mono [OF sign_pki]) (rule pki_call_sign)
  have prepare: "keeps (pki_same V sp gen d) (pki_call V sp gen d) (PrepareInternalValues V E cl)"
    by (rule keeps_mono [OF prepare_pki]) (rule pki_call_query)
  show ?thesis
    unfolding VaultPKIEngineResource_manageReconcileLogic_def
    by (intro keeps_bind prepare step keeps_get keeps_if sign keeps_modify keeps_ret keeps_configs)
      (simp_all add: pki_same_def set_view set_generated)
qed

lemma keeps_cleanup:
  "keeps (pki_same V sp gen d) (pki_call V sp gen d)
     (manageCleanUpLogic V (VaultPKIEngineEndpoint_DeleteIfExists V E cl))"
  unfolding manageCleanUpLogic_def VaultPKIEngineEndpoint_DeleteIfExists_def
  by (rule keeps_bind_get)
    (auto intro!: keeps_bind_get keeps_ret keeps_delete_if_successful keeps_delete_path
      simp: pki_call_def pki_same_def pki_view_def object_view_def)

lemma pki_frame:
  "allows (pki_same V sp gen d) (pki_call V sp gen d) (VaultPKIEngineResource_Reconcile V E cl)"
  unfolding VaultPKIEngineResource_Reconcile_def
  by (intro allows_reconcile_cycle keeps_cleanup keeps_logic pki_call_bookkeeping)

lemma pki_changes:
  "gen \<or> GetGeneratedStatus V (inst w) \<Longrightarrow> list_all (pki_call V sp gen (inst w))
     (drop (length (calls w)) (calls (snd (VaultPKIEngineResource_Reconcile V E cl w))))"
  using allowsD [OF pki_frame [of gen "inst w" E cl], of w]
  by (auto simp: pki_same_def)

end

section \<open>The configuration honours the contract\<close>

lemma PKI_VaultObject_simps [simp]:
  "GetPath PKISecretEngineConfig_VaultObject = PKISecretEngineConfig_GetPath"
  "GetPayload PKISecretEngineConfig_VaultObject = PKISecretEngineConfig_GetPayload"
  "IsEquivalentToDesiredState PKISecretEngineConfig_VaultObject = PKISecretEngineConfig_IsEquivalentToDesiredState"
  "IsDeletable PKISecretEngineConfig_VaultObject = (\<lambda>_. False)"
  "PrepareInternalValues PKISecretEngineConfig_VaultObject = (\<lambda>E cl. retG ())"
  "PrepareTLSConfig PKISecretEngineConfig_VaultObject = (\<lambda>E cl. retG ())"
  "GetGeneratePath PKISecretEngineConfig_VaultObject = PKISecretEngineConfig_GetGeneratePath"
  "GetDeletePath PKISecretEngineConfig_VaultObject = PKISecretEngineConfig_GetDeletePath"
  "GetGeneratedStatus PKISecretEngineConfig_VaultObject = PKISecretEngineConfig_GetGeneratedStatus"
  "SetGeneratedStatus PKISecretEngineConfig_VaultObject = PKISecretEngineConfig_SetGeneratedStatus"
  "GetConfigUrlsPath PKISecretEngineConfig_VaultObject = PKISecretEngineConfig_GetConfigUrlsPath"
  "GetConfigCrlPath PKISecretEngineConfig_VaultObject = PKISecretEngineConfig_GetConfigCrlPath"
  "GetConfigUrlsPayload PKISecretEngineConfig_VaultObject = PKISecretEngineConfig_GetConfigUrlsPayload"
  "GetConfigCrlPayload PKISecretEngineConfig_VaultObject = PKISecretEngineConfig_GetConfigCrlPayload"
  "CreateExported PKISecretEngineConfig_VaultObject = PKISecretEngineConfig_CreateExported"
  "SetExportedStatus PKISecretEngineConfig_VaultObject = PKISecretEngineConfig_SetExportedStatus"
  "SetIntermediate PKISecretEngineConfig_VaultObject = PKISecretEngineConfig_SetIntermediate"
  "GetSignedStatus PKISecretEngineConfig_VaultObject = PKISecretEngineConfig_GetSignedStatus"
  "SetSignedStatus PKISecretEngineConfig_VaultObject = PKISecretEngineConfig_SetSignedStatus"
  by (simp_all add: PKISecretEngineConfig_VaultObject_def)

lemmas pki_paths =
  PKISecretEngineConfig_GetPath_def PKISecretEngineConfig_GetDeletePath_def
  PKISecretEngineConfig_GetGeneratePath_def PKISecretEngineConfig_GetConfigCrlPath_def
  PKISecretEngineConfig_GetConfigUrlsPath_def PKISecretEngineConfig_GetSignIntermediatePath_def
  PKISecretEngineConfig_GetIntermediateSetSignedPath_def

lemmas pki_setters =
  PKISecretEngineConfig_SetGeneratedStatus_def PKISecretEngineConfig_SetExportedStatus_def
  PKISecretEngineConfig_SetSignedStatus_def set_cSR_def setSignedIntermediate_def

definition PKI_sign_paths :: "PKISecretEngineConfig \<Rightarrow> string set" where
  "PKI_sign_paths p = {PKISecretEngineConfig_GetSignIntermediatePath p, PKISecretEngineConfig_GetIntermediateSetSignedPath p}"

abbreviation pki_same_as :: "bool \<Rightarrow> PKISecretEngineConfig \<Rightarrow> PKISecretEngineConfig \<Rightarrow> bool" where
  "pki_same_as \<equiv> pki_same PKISecretEngineConfig_VaultObject PKI_sign_paths"

lemma pki_setter_view [simp]:
  fixes p :: PKISecretEngineConfig
  defines "v \<equiv> pki_view PKISecretEngineConfig_VaultObject PKI_sign_paths"
  shows "v (PKISecretEngineConfig_SetGeneratedStatus b p) = v p"
    "v (PKISecretEngineConfig_SetExportedStatus b p) = v p"
    "v (PKISecretEngineConfig_SetSignedStatus b p) = v p"
    "v (set_cSR s p) = v p" "v (setSignedIntermediate s p) = v p"
  by (simp_all add: v_def pki_view_def object_view_def pki_paths PKI_sign_paths_def pki_setters
      internal_signer_def GetConditions_def)

lemma pki_setter_generated [simp]:
  "PKISecretEngineConfig_GetGeneratedStatus (PKISecretEngineConfig_SetGeneratedStatus b p) = b"
  "PKISecretEngineConfig_GetGeneratedStatus (PKISecretEngineConfig_SetExportedStatus b p) = PKISecretEngineConfig_GetGeneratedStatus p"
  "PKISecretEngineConfig_GetGeneratedStatus (PKISecretEngineConfig_SetSignedStatus b p) = PKISecretEngineConfig_GetGeneratedStatus p"
  "PKISecretEngineConfig_GetGeneratedStatus (set_cSR s p) = PKISecretEngineConfig_GetGeneratedStatus p"
  "PKISecretEngineConfig_GetGeneratedStatus (setSignedIntermediate s p) = PKISecretEngineConfig_GetGeneratedStatus p"
  by (simp_all add: PKISecretEngineConfig_GetGeneratedStatus_def pki_setters)

lemma pki_spec_setters [simp]:
  "pki_same_as gen d p \<Longrightarrow> pki_same_as gen d (set_cSR s p)"
  "pki_same_as gen d p \<Longrightarrow> pki_same_as gen d (setSignedIntermediate s p)"
  by (simp_all add: pki_same_def)

lemma pki_same_sign_call:
  assumes "pki_same_as gen d p"
  shows "sign_call PKI_sign_paths d (VaultWrite cl (PKISecretEngineConfig_GetSignIntermediatePath p) m)"
    "sign_call PKI_sign_paths d (VaultWrite cl (PKISecretEngineConfig_GetIntermediateSetSignedPath p) m)"
proof -
  have "PKI_sign_paths d = PKI_sign_paths p" using assms by (simp add: pki_same_def pki_view_def)
  then show "sign_call PKI_sign_paths d (VaultWrite cl (PKISecretEngineConfig_GetSignIntermediatePath p) m)"
    "sign_call PKI_sign_paths d (VaultWrite cl (PKISecretEngineConfig_GetIntermediateSetSignedPath p) m)"
    by (simp_all add: sign_call_def PKI_sign_paths_def)
qed

lemma keeps_ToString [emits_intros]: "keeps I P (ToString v)"
  unfolding ToString_def by (intro emits_intros)

lemma keeps_number_String [emits_intros]: "keeps I P (number_String v)"
  unfolding number_String_def by (auto intro: emits_intros split: option.split gval.split)

lemma keeps_GetExportedPayload [emits_intros]: "keeps I P (PKISecretEngineConfig_GetExportedPayload p data)"
  unfolding PKISecretEngineConfig_GetExportedPayload_def by (intro emits_intros)

lemma keeps_CreateExported:
  "keeps (pki_same_as gen d) creates_secret (PKISecretEngineConfig_CreateExported E cl s)"
  unfolding PKISecretEngineConfig_CreateExported_def Let_def by (intro emits_intros) simp_all

lemma keeps_sign:
  "keeps (pki_same_as gen d) (sign_call PKI_sign_paths d) (sign_internally E cl)"
  "keeps (pki_same_as gen d) (sign_call PKI_sign_paths d) (sign_externally E)"
  unfolding sign_internally_def sign_externally_def
  by (rule keeps_bind_get keeps_writeWithResponse pki_same_sign_call emits_intros | assumption |
      simp add: sign_call_def)+

lemma keeps_SetIntermediate:
  "keeps (pki_same_as gen d) (sign_call PKI_sign_paths d) (PKISecretEngineConfig_SetIntermediate E cl)"
  unfolding PKISecretEngineConfig_SetIntermediate_def
  by (rule keeps_sign keeps_bind_get pki_same_sign_call emits_intros | assumption)+

interpretation pki: vault_pki_object PKISecretEngineConfig_VaultObject PKI_sign_paths
  by unfold_locales
    (simp_all add: keeps_ret keeps_CreateExported keeps_SetIntermediate)

section \<open>Properties\<close>

text \<open>
  Reconciling a PKI engine changes Vault only where it generates the authority, where it
  signs an intermediate one, and at the CRL configuration: never the URL configuration, and
  it deletes nothing.
\<close>

theorem PKI_changes_own_paths:
  "list_all (\<lambda>c. case vault_mutation c of None \<Rightarrow> True | Some q \<Rightarrow>
       q \<in> {PKISecretEngineConfig_GetGeneratePath (inst w), PKISecretEngineConfig_GetConfigCrlPath (inst w),
            PKISecretEngineConfig_GetSignIntermediatePath (inst w),
            PKISecretEngineConfig_GetIntermediateSetSignedPath (inst w)})
     (drop (length (calls w)) (calls (snd (VaultPKIEngineResource_Reconcile PKISecretEngineConfig_VaultObject E cl w))))"
  using pki.pki_changes [of True w E cl]
  by (rule list.pred_mono_strong) (auto simp: pki_call_def PKI_sign_paths_def split: option.split)

text \<open>
  C34. An authority is generated once: as soon as the status says generated, no reconcile
  writes to the generate path again or creates the exported secret.
\<close>

theorem PKI_generated_once:
  assumes "pki_Generated (Status (inst w))"
  shows "list_all (\<lambda>c. \<not> creates_secret c \<and> vault_mutation c \<in> {None,
       Some (PKISecretEngineConfig_GetConfigCrlPath (inst w)), Some (PKISecretEngineConfig_GetSignIntermediatePath (inst w)),
       Some (PKISecretEngineConfig_GetIntermediateSetSignedPath (inst w))})
     (drop (length (calls w)) (calls (snd (VaultPKIEngineResource_Reconcile PKISecretEngineConfig_VaultObject E cl w))))"
  using pki.pki_changes [of False w E cl] assms
  by (auto simp: PKISecretEngineConfig_GetGeneratedStatus_def elim!: list.pred_mono_strong)
    (auto simp: pki_call_def PKI_sign_paths_def creates_secret_no_mutation split: option.splits)

text \<open>No answer of a server equals the payload that the configurations are compared with.\<close>

lemma PKI_never_equivalent:
  "(case m of None \<Rightarrow> True | Some p \<Rightarrow> json_object p) \<Longrightarrow> \<not> PKISecretEngineConfig_IsEquivalentToDesiredState d m"
proof
  assume m: "case m of None \<Rightarrow> True | Some p \<Rightarrow> json_object p"
    and eq: "PKISecretEngineConfig_IsEquivalentToDesiredState d m"
  then obtain p where p: "m = Some p" "PKICommon_toMap (pki_Common (Spec d)) = p"
    by (auto simp: PKISecretEngineConfig_IsEquivalentToDesiredState_def Let_def)
  have "fmlookup (PKICommon_toMap (pki_Common (Spec d))) ''key_bits'' = Some (VInt (pki_KeyBits (pki_Common (Spec d))))"
    by (simp add: PKICommon_toMap_def)
  then show False
    using not_json_object [of "PKICommon_toMap (pki_Common (Spec d))" "''key_bits''" _ p] m p by simp
qed

lemma CreateOrUpdateConfig_run:
  assumes "read_answer (vault_read E (calls w) cl p) = Ok (cur, found)"
    and "\<not> IsEquivalentToDesiredState V (inst w) cur"
    and "vault_write E (calls w @ [VaultRead cl p]) cl (GetConfigCrlPath V (inst w)) (Some m) = Inr s"
  shows "CreateOrUpdateConfig V E cl p m w =
    (Ok (), w\<lparr>calls := calls w @ [VaultRead cl p, VaultWrite cl (GetConfigCrlPath V (inst w)) (Some m)]\<rparr>)"
  using assms
  by (simp add: CreateOrUpdateConfig_def readConfig_def bindG_assoc bindG_read bindG_get writePayload_run go_runs)

text \<open>
  Once the authority is generated and signed, a reconcile whose calls Vault accepts reads
  the URL configuration but writes the URLs to the CRL configuration, and then the CRL
  settings there: four calls, the same at every reconcile.
\<close>

theorem PKI_urls_written_to_crl:
  assumes "pki_Generated (Status (inst w))" and "PKISecretEngineConfig_GetSignedStatus (inst w)"
    and "\<forall>tr p. case read_answer (vault_read E tr cl p) of
           Ok r \<Rightarrow> (case fst r of None \<Rightarrow> True | Some m \<Rightarrow> json_object m) | _ \<Rightarrow> False"
    and "\<forall>tr p m. \<exists>s. vault_write E tr cl p m = Inr s"
  shows "VaultPKIEngineResource_manageReconcileLogic PKISecretEngineConfig_VaultObject E cl w =
    (Ok (), w\<lparr>calls := calls w @
       [VaultRead cl (PKISecretEngineConfig_GetConfigUrlsPath (inst w)),
        VaultWrite cl (PKISecretEngineConfig_GetConfigCrlPath (inst w)) (Some (PKISecretEngineConfig_GetConfigUrlsPayload (inst w))),
        VaultRead cl (PKISecretEngineConfig_GetConfigCrlPath (inst w)),
        VaultWrite cl (PKISecretEngineConfig_GetConfigCrlPath (inst w)) (Some (PKISecretEngineConfig_GetConfigCrlPayload (inst w)))]\<rparr>)"
proof -
  let ?V = PKISecretEngineConfig_VaultObject
  have conf: "CreateOrUpdateConfig ?V E cl p m v =
      (Ok (), v\<lparr>calls := calls v @ [VaultRead cl p, VaultWrite cl (PKISecretEngineConfig_GetConfigCrlPath (inst v)) (Some m)]\<rparr>)" for p m v
  proof -
    obtain cur found where r: "read_answer (vault_read E (calls v) cl p) = Ok (cur, found)"
      "case cur of None \<Rightarrow> True | Some m \<Rightarrow> json_object m"
      using assms(3) [rule_format, of "calls v" p]
      by (cases "read_answer (vault_read E (calls v) cl p)") auto
    obtain s where "vault_write E (calls v @ [VaultRead cl p]) cl (PKISecretEngineConfig_GetConfigCrlPath (inst v)) (Some m) = Inr s"
      using assms(4) by blast
    then show ?thesis
      using CreateOrUpdateConfig_run [of E v cl p cur found ?V m s] r PKI_never_equivalent [of cur] by simp
  qed
  show ?thesis
    using assms(1,2)
    by (simp add: VaultPKIEngineResource_manageReconcileLogic_def PKISecretEngineConfig_GetGeneratedStatus_def
        bindG_assoc bindG_get CreateOrUpdateConfigUrls_def CreateOrUpdateConfigCrl_def bindG_Ok [OF conf] conf)
qed

section \<open>A concrete authority, and the witnesses\<close>

definition sample_pki :: PKISecretEngineConfig where
  "sample_pki =
     \<lparr>TypeKind = ''PKISecretEngineConfig'', Meta = sample_meta ''ca'',
      Spec = \<lparr>Connection = None, Authentication = sample_auth, pki_Path = ''pki'', pki_Type = ''root'',
        pki_PrivateKeyType = ''exported'',
        pki_Common = \<lparr>pki_CommonName = ''example.com'', pki_AltNames = [], pki_IPSans = [], pki_URISans = [],
          pki_OtherSans = [], pki_TTL = 0, pki_Format = ''pem'', pki_PrivateKeyFormat = [], pki_KeyType = ''rsa'',
          pki_KeyBits = 2048, pki_MaxPathLength = -1, pki_ExcludeCnFromSans = False, pki_PermittedDnsDomains = None,
          pki_OU = [], pki_Organization = [], pki_Country = [], pki_Locality = [], pki_Province = [],
          pki_StreetAddress = [], pki_PostalCode = [], pki_SerialNumber = []\<rparr>,
        pki_Urls = \<lparr>pki_IssuingCertificates = Some [''https://ca''], pki_CRLDistributionPoints = None,
          pki_OcspServers = None\<rparr>,
        pki_CRL = \<lparr>pki_CRLExpiry = 72 * 3600 * Second, pki_CRLDisable = False\<rparr>,
        pki_Intermediate = \<lparr>pki_ExternalSignSecret = None, pki_CertificateKey = ''tls.crt'',
          pki_InternalSign = None, pki_cSR = [], pki_signedIntermediate = []\<rparr>\<rparr>,
      Status = \<lparr>Conditions = [], pki_Generated = True, pki_Exported = True, pki_Signed = False\<rparr>\<rparr>"

definition empty_env :: "PKISecretEngineConfig env" where
  "empty_env = sample_env\<lparr>vault_read := \<lambda>tr cl p. Inr (Some (data_secret fmempty))\<rparr>"

theorem PKI_generated_once_witness:
  "list_all (\<lambda>c. \<not> creates_secret c \<and>
       vault_mutation c \<in> {None, Some ''pki/config/crl'', Some ''/root/sign-intermediate'', Some ''pki/intermediate/set-signed''})
     (calls (snd (VaultPKIEngineResource_Reconcile PKISecretEngineConfig_VaultObject sample_env sample_client
        (start_world sample_pki))))"
  using PKI_generated_once [where w = "start_world sample_pki" and E = sample_env and cl = sample_client]
  by (simp add: sample_pki_def pki_paths internal_signer_def)

theorem PKI_urls_written_to_crl_witness:
  "map vault_mutation (calls (snd (VaultPKIEngineResource_manageReconcileLogic PKISecretEngineConfig_VaultObject
     empty_env sample_client (start_world sample_pki)))) =
   [None, Some ''pki/config/crl'', None, Some ''pki/config/crl'']"
  using PKI_urls_written_to_crl [where w = "start_world sample_pki" and E = empty_env and cl = sample_client]
  by (simp add: sample_pki_def pki_paths empty_env_def data_secret_def read_answer_def json_object_def
      PKISecretEngineConfig_GetSignedStatus_def)

end
