(* ===== verification/Credentials.thy ===== *)
theory Credentials
  imports Lifecycle Controllers
begin

text \<open>
  Where the engines take their root credentials from: the reference
  \<open>RootCredentialConfig\<close> and its validation (\<open>api/v1alpha1/utils/commons.go\<close>), and the steps
  that the \<open>setInternalCredentials\<close> methods of the engine configurations share: a
  \<open>RandomSecret\<close> resource (read back from Vault), a Kubernetes secret, or a secret in Vault,
  tried in this order. Each method gives its own handlers for what was read.
\<close>

section \<open>Validation\<close>

definition only_one_error :: error where
  "only_one_error = ErrMsg (''only one of spec.rootCredentials.vaultSecret or spec.rootCredentials.secret '' @
     ''or spec.rootCredentials.randomSecret can be specified'')"

definition ValidateEitherFromVaultSecretOrFromSecret :: "RootCredentialConfig \<Rightarrow> error option" where
  "ValidateEitherFromVaultSecretOrFromSecret credentials =
     (let count = 0 :: nat;
          count = (if rc_Secret credentials \<noteq> None then count + 1 else count);
          count = (if rc_VaultSecret credentials \<noteq> None then count + 1 else count)
      in if count \<noteq> 1 then Some only_one_error else None)"

definition ValidateEitherFromVaultSecretOrFromSecretOrFromRandomSecret ::
  "RootCredentialConfig \<Rightarrow> error option" where
  "ValidateEitherFromVaultSecretOrFromSecretOrFromRandomSecret credentials =
     (let count = 0 :: nat;
          count = (if rc_RandomSecret credentials \<noteq> None then count + 1 else count);
          count = (if rc_Secret credentials \<noteq> None then count + 1 else count);
          count = (if rc_VaultSecret credentials \<noteq> None then count + 1 else count)
      in if count \<noteq> 1 then Some only_one_error else None)"

text \<open>A validated reference names exactly one source.\<close>

definition one_source :: "RootCredentialConfig \<Rightarrow> bool" where
  "one_source rc \<longleftrightarrow>
     (rc_RandomSecret rc \<noteq> None \<and> rc_Secret rc = None \<and> rc_VaultSecret rc = None) \<or>
     (rc_RandomSecret rc = None \<and> rc_Secret rc \<noteq> None \<and> rc_VaultSecret rc = None) \<or>
     (rc_RandomSecret rc = None \<and> rc_Secret rc = None \<and> rc_VaultSecret rc \<noteq> None)"

lemma Validate_iff:
  "ValidateEitherFromVaultSecretOrFromSecretOrFromRandomSecret rc = None \<longleftrightarrow> one_source rc"
  by (auto simp: ValidateEitherFromVaultSecretOrFromSecretOrFromRandomSecret_def one_source_def Let_def)

section \<open>The three sources\<close>

definition with_VaultSecret ::
  "'o env \<Rightarrow> vault_client \<Rightarrow> string \<Rightarrow> (vault_secret \<Rightarrow> ('o, unit) go) \<Rightarrow> ('o, unit) go" where
  "with_VaultSecret E cl path f =
     bindG (ReadSecret E cl path) (\<lambda>r. case r of (secret, exists) \<Rightarrow>
       if \<not> exists then errG (ErrMsg ''secret not found'')
       else case secret of None \<Rightarrow> panicG ''nil pointer dereference'' | Some s \<Rightarrow> f s)"

definition with_RandomSecret ::
  "'o env \<Rightarrow> vault_client \<Rightarrow> string \<Rightarrow> string \<Rightarrow> (RandomSecret \<Rightarrow> vault_secret \<Rightarrow> ('o, unit) go) \<Rightarrow> ('o, unit) go" where
  "with_RandomSecret E cl ns n f =
     bindG (askG (KubeGetRandomSecret ns n) (\<lambda>tr. kube_get_randomsecret E tr ns n)) (\<lambda>r. case r of
         Inl err \<Rightarrow> errG err
       | Inr randomSecret \<Rightarrow> with_VaultSecret E cl (RandomSecret_GetPath randomSecret) (f randomSecret))"

definition with_Secret ::
  "'o env \<Rightarrow> string \<Rightarrow> string \<Rightarrow> (k8s_secret \<Rightarrow> ('o, unit) go) \<Rightarrow> ('o, unit) go" where
  "with_Secret E ns n f =
     bindG (askG (KubeGetSecret ns n) (\<lambda>tr. kube_get_secret E tr ns n)) (\<lambda>r. case r of
         Inl err \<Rightarrow> errG err | Inr secret \<Rightarrow> f secret)"

text \<open>\<open>secret.Data[key].(string)\<close> of a Vault secret.\<close>

definition data_string :: "vault_secret \<Rightarrow> string \<Rightarrow> ('o, string) go" where
  "data_string s key = assert_string (opt_lookup (vs_Data s) key)"

definition no_means :: error where
  "no_means = ErrMsg ''no means of retrieving a secret was specified''"

definition from_credentials ::
  "'o env \<Rightarrow> vault_client \<Rightarrow> string \<Rightarrow> RootCredentialConfig \<Rightarrow>
     (RandomSecret \<Rightarrow> vault_secret \<Rightarrow> ('o, unit) go) \<Rightarrow> (k8s_secret \<Rightarrow> ('o, unit) go) \<Rightarrow>
     (vault_secret \<Rightarrow> ('o, unit) go) \<Rightarrow> ('o, unit) go" where
  "from_credentials E cl ns rc on_random on_secret on_vault =
     (case rc_RandomSecret rc of Some n \<Rightarrow> with_RandomSecret E cl ns n on_random
      | None \<Rightarrow> (case rc_Secret rc of Some n \<Rightarrow> with_Secret E ns n on_secret
      | None \<Rightarrow> (case rc_VaultSecret rc of Some path \<Rightarrow> with_VaultSecret E cl path on_vault
      | None \<Rightarrow> errG no_means)))"

text \<open>
  The handlers that most engines have, given how they store a user name and a password:
  the user name of the spec wins over the one of the secret.
\<close>

definition from_user_credentials ::
  "'o env \<Rightarrow> vault_client \<Rightarrow> string \<Rightarrow> RootCredentialConfig \<Rightarrow> string \<Rightarrow> (string \<Rightarrow> string \<Rightarrow> 'o \<Rightarrow> 'o) \<Rightarrow>
     ('o, unit) go" where
  "from_user_credentials E cl ns rc user set_user =
     from_credentials E cl ns rc
       (\<lambda>rs s. bindG (data_string s (SecretKey (Spec rs))) (\<lambda>p. modifyG (set_user user p)))
       (\<lambda>s. if user = []
            then modifyG (set_user (str_at (sec_Data s) (rc_UsernameKey rc)) (str_at (sec_Data s) (rc_PasswordKey rc)))
            else modifyG (set_user user (str_at (sec_Data s) (rc_PasswordKey rc))))
       (\<lambda>s. if user = []
            then bindG (data_string s (rc_UsernameKey rc)) (\<lambda>u.
                 bindG (data_string s (rc_PasswordKey rc)) (\<lambda>p. modifyG (set_user u p)))
            else bindG (data_string s (rc_PasswordKey rc)) (\<lambda>p. modifyG (set_user user p)))"

section \<open>What retrieving credentials may ask for\<close>

text \<open>
  Only what the reference names, and in the cluster only in the resource's own namespace.
\<close>

fun credential_call :: "'o env \<Rightarrow> string \<Rightarrow> RootCredentialConfig \<Rightarrow> 'o call \<Rightarrow> bool" where
  "credential_call E ns rc (KubeGetSecret m n) \<longleftrightarrow> m = ns \<and> rc_Secret rc = Some n"
| "credential_call E ns rc (KubeGetRandomSecret m n) \<longleftrightarrow> m = ns \<and> rc_RandomSecret rc = Some n"
| "credential_call E ns rc (VaultRead cl p) \<longleftrightarrow> rc_VaultSecret rc = Some p \<or>
     (\<exists>tr n rs. rc_RandomSecret rc = Some n \<and> kube_get_randomsecret E tr ns n = Inr rs \<and> p = RandomSecret_GetPath rs)"
| "credential_call E ns rc _ \<longleftrightarrow> False"

lemma credential_call_query: "credential_call E ns rc c \<Longrightarrow> is_query c"
  by (cases c) auto

lemma keeps_data_string [emits_intros]: "keeps I P (data_string s k)"
  unfolding data_string_def by (intro emits_intros)

lemma keeps_with_VaultSecret [emits_intros]:
  "P (VaultRead cl path) \<Longrightarrow> (\<And>s. keeps I P (f s)) \<Longrightarrow> keeps I P (with_VaultSecret E cl path f)"
  unfolding with_VaultSecret_def by (intro emits_intros)

lemma keeps_with_Secret [emits_intros]:
  "P (KubeGetSecret ns n) \<Longrightarrow> (\<And>s. keeps I P (f s)) \<Longrightarrow> keeps I P (with_Secret E ns n f)"
  unfolding with_Secret_def by (intro emits_intros)

lemma keeps_with_RandomSecret [emits_intros]:
  assumes "P (KubeGetRandomSecret ns n)"
    and "\<And>tr rs. kube_get_randomsecret E tr ns n = Inr rs \<Longrightarrow> P (VaultRead cl (RandomSecret_GetPath rs))"
    and "\<And>rs s. keeps I P (f rs s)"
  shows "keeps I P (with_RandomSecret E cl ns n f)"
  unfolding keeps_def
proof (intro allI impI)
  fix w :: "'a world"
  let ?w = "w\<lparr>calls := calls w @ [KubeGetRandomSecret ns n]\<rparr>"
  assume w: "I (inst w)"
  show "I (inst (snd (with_RandomSecret E cl ns n f w))) \<and>
    (\<exists>cs. calls (snd (with_RandomSecret E cl ns n f w)) = calls w @ cs \<and> list_all P cs)"
  proof (cases "kube_get_randomsecret E (calls w) ns n")
    case (Inl e)
    then show ?thesis using w assms(1) by (simp add: with_RandomSecret_def bindG_ask errG_def)
  next
    case (Inr rs)
    have "keeps I P (with_VaultSecret E cl (RandomSecret_GetPath rs) (f rs))"
      by (rule keeps_with_VaultSecret [OF assms(2) [OF Inr] assms(3)])
    then obtain cs where "I (inst (snd (with_VaultSecret E cl (RandomSecret_GetPath rs) (f rs) ?w)))"
        "calls (snd (with_VaultSecret E cl (RandomSecret_GetPath rs) (f rs) ?w)) = calls ?w @ cs" "list_all P cs"
      by (rule keepsE [where w = ?w]) (simp_all add: w)
    then show ?thesis using assms(1) Inr by (simp add: with_RandomSecret_def bindG_ask)
  qed
qed

lemma keeps_from_credentials:
  assumes "\<And>rs s. keeps I (credential_call E ns rc) (f rs s)" and "\<And>s. keeps I (credential_call E ns rc) (g s)"
    and "\<And>s. keeps I (credential_call E ns rc) (h s)"
  shows "keeps I (credential_call E ns rc) (from_credentials E cl ns rc f g h)"
  unfolding from_credentials_def by (intro emits_intros assms) auto

lemma keeps_from_user_credentials:
  assumes "\<And>u p x. I x \<Longrightarrow> I (set_user u p x)"
  shows "keeps I (credential_call E ns rc) (from_user_credentials E cl ns rc user set_user)"
  unfolding from_user_credentials_def
  by (intro keeps_from_credentials emits_intros assms)

text \<open>
  The exact sequence of calls, given the calls before: for a \<open>RandomSecret\<close> the object of that
  name and then, if the API server has it, the path that it gives.
\<close>

definition credential_calls ::
  "'o env \<Rightarrow> vault_client \<Rightarrow> string \<Rightarrow> RootCredentialConfig \<Rightarrow> 'o call list \<Rightarrow> 'o call list" where
  "credential_calls E cl ns rc tr =
     (case rc_RandomSecret rc of
        Some n \<Rightarrow> KubeGetRandomSecret ns n # (case kube_get_randomsecret E tr ns n of
            Inl e \<Rightarrow> [] | Inr rs \<Rightarrow> [VaultRead cl (RandomSecret_GetPath rs)])
      | None \<Rightarrow> (case rc_Secret rc of Some n \<Rightarrow> [KubeGetSecret ns n]
      | None \<Rightarrow> (case rc_VaultSecret rc of Some p \<Rightarrow> [VaultRead cl p] | None \<Rightarrow> [])))"

lemma with_VaultSecret_calls:
  assumes "\<And>s. emits (\<lambda>_. False) (f s)"
  shows "calls (snd (with_VaultSecret E cl path f w)) = calls w @ [VaultRead cl path]"
  using emits_noneD [OF assms]
  by (auto simp: with_VaultSecret_def ReadSecret_def bindG_assoc bindG_ask go_runs bindG_Ok split: sum.split option.split)

lemma from_credentials_calls:
  assumes "\<And>rs s. emits (\<lambda>_. False) (f rs s)" and "\<And>s. emits (\<lambda>_. False) (g s)" and "\<And>s. emits (\<lambda>_. False) (h s)"
  shows "calls (snd (from_credentials E cl ns rc f g h w)) = calls w @ credential_calls E cl ns rc (calls w)"
proof -
  note [simp] = with_VaultSecret_calls [OF assms(1)] with_VaultSecret_calls [OF assms(3)] emits_noneD [OF assms(2)]
  show ?thesis
    by (simp add: from_credentials_def credential_calls_def with_RandomSecret_def with_Secret_def bindG_ask errG_def
        split: option.split sum.split)
qed

text \<open>Without a source there is nothing to ask for and an error; with one, the first step.\<close>

lemma from_credentials_none:
  "rc_RandomSecret rc = None \<Longrightarrow> rc_Secret rc = None \<Longrightarrow> rc_VaultSecret rc = None \<Longrightarrow>
     from_credentials E cl ns rc f g h = errG no_means"
  by (simp add: from_credentials_def)

lemma ReadSecret_run:
  "ReadSecret E cl path w =
     (case vault_read E (calls w) cl path of
        Inl err \<Rightarrow> if status_code err = Some 404 then Ok (None, False) else Err err
      | Inr None \<Rightarrow> Ok (None, False)
      | Inr (Some s) \<Rightarrow> if vs_Data s = None then Ok (None, False) else Ok (Some s, True),
      w\<lparr>calls := calls w @ [VaultRead cl path]\<rparr>)"
  by (simp add: ReadSecret_def bindG_ask go_runs split: sum.split option.split)

lemma with_VaultSecret_run:
  assumes "vault_read E (calls w) cl path = Inr (Some s)" and "vs_Data s = Some m"
  shows "with_VaultSecret E cl path f w = f s (w\<lparr>calls := calls w @ [VaultRead cl path]\<rparr>)"
  using assms by (simp add: with_VaultSecret_def bindG_def [of "ReadSecret E cl path"] ReadSecret_run)

lemma with_RandomSecret_run:
  assumes "kube_get_randomsecret E (calls w) ns n = Inr rs"
  shows "with_RandomSecret E cl ns n f w =
    with_VaultSecret E cl (RandomSecret_GetPath rs) (f rs) (w\<lparr>calls := calls w @ [KubeGetRandomSecret ns n]\<rparr>)"
  using assms by (simp add: with_RandomSecret_def bindG_ask)

end
