(* ===== verification/Json.thy ===== *)
theory Json
  imports GoStrings
begin

text \<open>
  \<open>encoding/json\<close> of Go's standard library (Go 1.22), as far as the operator marshals with it:
  strings, and objects of string-keyed members. Strings are valid UTF-8, as everything that
  comes from the API server is.
\<close>

section \<open>Strings\<close>

text \<open>
  The encoder escapes quotes, backslashes and control characters, the HTML characters
  \<open><\<close>, \<open>>\<close> and \<open>&\<close>, and the separators U+2028 and U+2029 (three bytes each).
\<close>

definition hex_escape :: "char \<Rightarrow> string" where
  "hex_escape c = (CHR 0x5C # ''u00'') @ [hex_digit (of_char c div 16), hex_digit (of_char c mod 16)]"

definition escape_char :: "char \<Rightarrow> string" where
  "escape_char c =
     (if c = CHR 0x22 \<or> c = CHR 0x5C then [CHR 0x5C, c]
      else if c = CHR 0x08 then [CHR 0x5C, CHR ''b'']
      else if c = CHR 0x0C then [CHR 0x5C, CHR ''f'']
      else if c = CHR 0x0A then [CHR 0x5C, CHR ''n'']
      else if c = CHR 0x0D then [CHR 0x5C, CHR ''r'']
      else if c = CHR 0x09 then [CHR 0x5C, CHR ''t'']
      else if (of_char c :: nat) < 0x20 \<or> c = CHR ''<'' \<or> c = CHR ''>'' \<or> c = CHR ''&'' then hex_escape c
      else [c])"

function json_escape :: "string \<Rightarrow> string" where
  "json_escape [] = []"
| "json_escape (c # cs) =
     (if take 3 (c # cs) = [CHR 0xE2, CHR 0x80, CHR 0xA8] then (CHR 0x5C # ''u2028'') @ json_escape (drop 2 cs)
      else if take 3 (c # cs) = [CHR 0xE2, CHR 0x80, CHR 0xA9] then (CHR 0x5C # ''u2029'') @ json_escape (drop 2 cs)
      else escape_char c @ json_escape cs)"
  by pat_completeness auto
termination by (relation "measure length") auto

definition json_string :: "string \<Rightarrow> string" where
  "json_string s = [CHR 0x22] @ json_escape s @ [CHR 0x22]"

section \<open>Objects\<close>

fun join_comma :: "string list \<Rightarrow> string" where
  "join_comma [] = []"
| "join_comma [x] = x"
| "join_comma (x # y # xs) = x @ '','' @ join_comma (y # xs)"

definition json_members :: "(string \<times> string) list \<Rightarrow> string" where
  "json_members kvs = ''{'' @ join_comma (map (\<lambda>(k, v). json_string k @ '':'' @ v) kvs) @ ''}''"

text \<open>A map is written with its keys in order.\<close>

definition json_map :: "('v \<Rightarrow> string) \<Rightarrow> (string, 'v) fmap \<Rightarrow> string" where
  "json_map enc m = json_members (map (\<lambda>k. (k, case fmlookup m k of Some v \<Rightarrow> enc v | None \<Rightarrow> [])) (sorted_list_of_fset (fmdom m)))"

text \<open>The members of a struct whose string fields are tagged \<open>omitempty\<close>.\<close>

definition omit_empty :: "(string \<times> string) list \<Rightarrow> (string \<times> string) list" where
  "omit_empty members = map (\<lambda>(k, v). (k, json_string v)) (filter (\<lambda>(k, v). v \<noteq> []) members)"

end
