(* ===== verification/SecretRoles.thy ===== *)
theory SecretRoles
  imports Credentials Samples Json
begin

text \<open>
  The roles of the secret engines: a role is a payload at a path under the engine's mount,
  reconciled by \<open>VaultResource\<close>. One section per resource
  (\<open>api/v1alpha1/databasesecretenginerole_types.go\<close>, \<open>databasesecretenginestaticrole_types.go\<close>,
  \<open>kubernetessecretenginerole_types.go\<close>, \<open>pkisecretenginerole_types.go\<close>,
  \<open>githubsecretenginerole_types.go\<close>, \<open>azuresecretenginerole_types.go\<close>,
  \<open>quaysecretenginerole_types.go\<close>, \<open>quaysecretenginestaticrole_types.go\<close>) with its data, its
  \<open>toMap\<close>, the methods of \<open>VaultObject\<close> and its controller.
\<close>

record TargetNamespaceConfig =
  tnc_TargetNamespaceSelector :: "string option"
  tnc_TargetNamespaces :: "string list option"

text \<open>A label selector is opaque: its text is what the API machinery is given.\<close>

section \<open>DatabaseSecretEngineRole\<close>

record DBSERole =
  dbr_DBName :: string
  dbr_DefaultTTL :: int
  dbr_MaxTTL :: int
  dbr_CreationStatements :: "string list option"
  dbr_RevocationStatements :: "string list option"
  dbr_RollbackStatements :: "string list option"
  dbr_RenewStatements :: "string list option"

record DatabaseSecretEngineRoleSpec = PathSpec +
  spec_DBSERole :: DBSERole

type_synonym DatabaseSecretEngineRole = "(DatabaseSecretEngineRoleSpec, BaseStatus) crd"

definition DBSERole_toMap :: "DBSERole \<Rightarrow> gmap" where
  "DBSERole_toMap i = fmap_of_list
     [(''db_name'', VStr (dbr_DBName i)),
      (''default_ttl'', VDur (dbr_DefaultTTL i)),
      (''max_ttl'', VDur (dbr_MaxTTL i)),
      (''creation_statements'', VStrs (dbr_CreationStatements i)),
      (''revocation_statements'', VStrs (dbr_RevocationStatements i)),
      (''rollback_statements'', VStrs (dbr_RollbackStatements i)),
      (''renew_statements'', VStrs (dbr_RenewStatements i))]"

definition DatabaseSecretEngineRole_GetPath :: "DatabaseSecretEngineRole \<Rightarrow> string" where
  "DatabaseSecretEngineRole_GetPath d =
     (if Name (Spec d) \<noteq> [] then CleansePath (Path (Spec d) @ ''/'' @ ''roles'' @ ''/'' @ Name (Spec d))
      else CleansePath (Path (Spec d) @ ''/'' @ ''roles'' @ ''/'' @ GetName d))"

definition DatabaseSecretEngineRole_GetPayload :: "DatabaseSecretEngineRole \<Rightarrow> gmap" where
  "DatabaseSecretEngineRole_GetPayload d = DBSERole_toMap (spec_DBSERole (Spec d))"

definition DatabaseSecretEngineRole_IsEquivalentToDesiredState :: "DatabaseSecretEngineRole \<Rightarrow> gmap option \<Rightarrow> bool" where
  "DatabaseSecretEngineRole_IsEquivalentToDesiredState d payload =
     (let desiredState = DBSERole_toMap (spec_DBSERole (Spec d)) in payload = Some desiredState)"

definition DatabaseSecretEngineRole_VaultObject :: "DatabaseSecretEngineRole VaultObject" where
  "DatabaseSecretEngineRole_VaultObject =
     \<lparr>GetPath = DatabaseSecretEngineRole_GetPath,
      GetPayload = DatabaseSecretEngineRole_GetPayload,
      IsEquivalentToDesiredState = DatabaseSecretEngineRole_IsEquivalentToDesiredState,
      IsInitialized = (\<lambda>_. True),
      IsValid = (\<lambda>d. []),
      IsDeletable = (\<lambda>_. True),
      PrepareInternalValues = (\<lambda>E cl. retG ()),
      PrepareTLSConfig = (\<lambda>E cl. retG ())\<rparr>"

definition DatabaseSecretEngineRoleReconciler_Reconcile ::
  "DatabaseSecretEngineRole env \<Rightarrow> string \<Rightarrow> string \<Rightarrow> (DatabaseSecretEngineRole, Result) go" where
  "DatabaseSecretEngineRoleReconciler_Reconcile E ns n =
     controller_Reconcile DatabaseSecretEngineRole_VaultObject E (VaultResource_Reconcile DatabaseSecretEngineRole_VaultObject E) ns n"

section \<open>DatabaseSecretEngineStaticRole\<close>

record PasswordCredentialConfig =
  pcc_PasswordPolicy :: string

record RSAPrivateKeyCredentialConfig =
  rsa_KeyBits :: int
  rsa_Format :: string

record DBSEStaticRole =
  dbs_DBName :: string
  dbs_Username :: string
  dbs_RotationPeriod :: int
  dbs_RotationStatements :: "string list option"
  dbs_CredentialType :: string
  dbs_PasswordCredentialConfig :: "PasswordCredentialConfig option"
  dbs_RSAPrivateKeyCredentialConfig :: "RSAPrivateKeyCredentialConfig option"

record DatabaseSecretEngineStaticRoleSpec = PathSpec +
  spec_DBSEStaticRole :: DBSEStaticRole

type_synonym DatabaseSecretEngineStaticRole = "(DatabaseSecretEngineStaticRoleSpec, BaseStatus) crd"

definition PasswordCredentialConfig_toMap :: "PasswordCredentialConfig \<Rightarrow> (string, string) fmap" where
  "PasswordCredentialConfig_toMap i = fmap_of_list [(''password_policy'', pcc_PasswordPolicy i)]"

definition RSAPrivateKeyCredentialConfig_toMap :: "RSAPrivateKeyCredentialConfig \<Rightarrow> (string, string) fmap" where
  "RSAPrivateKeyCredentialConfig_toMap i = fmap_of_list
     [(''key_bits'', int_string (rsa_KeyBits i)), (''format'', rsa_Format i)]"

definition DBSEStaticRole_toMap :: "DBSEStaticRole \<Rightarrow> gmap" where
  "DBSEStaticRole_toMap i =
     (let payload = fmap_of_list
            [(''db_name'', VStr (dbs_DBName i)),
             (''username'', VStr (dbs_Username i)),
             (''rotation_period'', VInt (dbs_RotationPeriod i)),
             (''rotation_statements'', VStrs (dbs_RotationStatements i)),
             (''credential_type'', VStr (dbs_CredentialType i))];
          payload = (case dbs_PasswordCredentialConfig i of None \<Rightarrow> payload
            | Some c \<Rightarrow> fmupd ''credential_config'' (VStrMap (Some (PasswordCredentialConfig_toMap c))) payload)
      in case dbs_RSAPrivateKeyCredentialConfig i of None \<Rightarrow> payload
            | Some c \<Rightarrow> fmupd ''credential_config'' (VStrMap (Some (RSAPrivateKeyCredentialConfig_toMap c))) payload)"

definition DatabaseSecretEngineStaticRole_validateEitherPasswordOrKey ::
  "DatabaseSecretEngineStaticRole \<Rightarrow> error option" where
  "DatabaseSecretEngineStaticRole_validateEitherPasswordOrKey r =
     (let count = 0 :: nat;
          count = (if dbs_PasswordCredentialConfig (spec_DBSEStaticRole (Spec r)) \<noteq> None then count + 1 else count);
          count = (if dbs_RSAPrivateKeyCredentialConfig (spec_DBSEStaticRole (Spec r)) \<noteq> None then count + 1 else count)
      in if count \<noteq> 1
         then Some (ErrMsg (''only one of spec.passwordCredentialConfig or '' @
                ''spec.rsaPrivateKeyCredentialConfig can be specified'')) else None)"

definition DatabaseSecretEngineStaticRole_GetPath :: "DatabaseSecretEngineStaticRole \<Rightarrow> string" where
  "DatabaseSecretEngineStaticRole_GetPath d =
     (if Name (Spec d) \<noteq> [] then CleansePath (Path (Spec d) @ ''/'' @ ''static-roles'' @ ''/'' @ Name (Spec d))
      else CleansePath (Path (Spec d) @ ''/'' @ ''static-roles'' @ ''/'' @ GetName d))"

definition DatabaseSecretEngineStaticRole_GetPayload :: "DatabaseSecretEngineStaticRole \<Rightarrow> gmap" where
  "DatabaseSecretEngineStaticRole_GetPayload d = DBSEStaticRole_toMap (spec_DBSEStaticRole (Spec d))"

definition DatabaseSecretEngineStaticRole_IsEquivalentToDesiredState :: "DatabaseSecretEngineStaticRole \<Rightarrow> gmap option \<Rightarrow> bool" where
  "DatabaseSecretEngineStaticRole_IsEquivalentToDesiredState d payload =
     (let desiredState = DBSEStaticRole_toMap (spec_DBSEStaticRole (Spec d)) in payload = Some desiredState)"

definition DatabaseSecretEngineStaticRole_VaultObject :: "DatabaseSecretEngineStaticRole VaultObject" where
  "DatabaseSecretEngineStaticRole_VaultObject =
     \<lparr>GetPath = DatabaseSecretEngineStaticRole_GetPath,
      GetPayload = DatabaseSecretEngineStaticRole_GetPayload,
      IsEquivalentToDesiredState = DatabaseSecretEngineStaticRole_IsEquivalentToDesiredState,
      IsInitialized = (\<lambda>_. True),
      IsValid = (\<lambda>d. somes [DatabaseSecretEngineStaticRole_validateEitherPasswordOrKey d]),
      IsDeletable = (\<lambda>_. True),
      PrepareInternalValues = (\<lambda>E cl. retG ()),
      PrepareTLSConfig = (\<lambda>E cl. retG ())\<rparr>"

definition DatabaseSecretEngineStaticRoleReconciler_Reconcile ::
  "DatabaseSecretEngineStaticRole env \<Rightarrow> string \<Rightarrow> string \<Rightarrow> (DatabaseSecretEngineStaticRole, Result) go" where
  "DatabaseSecretEngineStaticRoleReconciler_Reconcile E ns n =
     controller_Reconcile DatabaseSecretEngineStaticRole_VaultObject E (VaultResource_Reconcile DatabaseSecretEngineStaticRole_VaultObject E) ns n"

section \<open>KubernetesSecretEngineRole\<close>

record KubeSERole =
  ksr_AllowedKubernetesNamespaces :: "string list option"
  ksr_AllowedKubernetesNamespaceSelector :: string
  ksr_DefaultTTL :: int
  ksr_MaxTTL :: int
  ksr_DefaultAudiences :: string
  ksr_ServiceAccountName :: string
  ksr_KubernetesRoleName :: string
  ksr_KubernetesRoleType :: string
  ksr_GenerateRoleRules :: string
  ksr_NameTemplate :: string
  ksr_ExtraAnnotations :: "(string, string) fmap option"
  ksr_ExtraLabels :: "(string, string) fmap option"

record KubernetesSecretEngineRoleSpec = PathSpec +
  spec_KubeSERole :: KubeSERole
  ksr_TargetNamespaces :: TargetNamespaceConfig

type_synonym KubernetesSecretEngineRole = "(KubernetesSecretEngineRoleSpec, BaseStatus) crd"

definition KubeSERole_toMap :: "KubeSERole \<Rightarrow> gmap" where
  "KubeSERole_toMap i = fmap_of_list
     [(''allowed_kubernetes_namespaces'', VStrs (ksr_AllowedKubernetesNamespaces i)),
      (''allowed_kubernetes_namespace_selector'', VStr (ksr_AllowedKubernetesNamespaceSelector i)),
      (''token_max_ttl'', VDur (ksr_DefaultTTL i)),
      (''token_default_ttl'', VDur (ksr_MaxTTL i)),
      (''token_default_audiences'', VStr (ksr_DefaultAudiences i)),
      (''service_account_name'', VStr (ksr_ServiceAccountName i)),
      (''kubernetes_role_name'', VStr (ksr_KubernetesRoleName i)),
      (''kubernetes_role_type'', VStr (ksr_KubernetesRoleType i)),
      (''generated_role_rules'', VStr (ksr_GenerateRoleRules i)),
      (''name_template'', VStr (ksr_NameTemplate i)),
      (''extra_annotations'', VStrMap (ksr_ExtraAnnotations i)),
      (''extra_labels'', VStrMap (ksr_ExtraLabels i))]"

definition KubernetesSecretEngineRole_GetPath :: "KubernetesSecretEngineRole \<Rightarrow> string" where
  "KubernetesSecretEngineRole_GetPath d =
     (if Name (Spec d) \<noteq> [] then CleansePath (Path (Spec d) @ ''/'' @ ''roles'' @ ''/'' @ Name (Spec d))
      else CleansePath (Path (Spec d) @ ''/'' @ ''roles'' @ ''/'' @ GetName d))"

definition KubernetesSecretEngineRole_GetPayload :: "KubernetesSecretEngineRole \<Rightarrow> gmap" where
  "KubernetesSecretEngineRole_GetPayload d = KubeSERole_toMap (spec_KubeSERole (Spec d))"

definition KubernetesSecretEngineRole_IsEquivalentToDesiredState :: "KubernetesSecretEngineRole \<Rightarrow> gmap option \<Rightarrow> bool" where
  "KubernetesSecretEngineRole_IsEquivalentToDesiredState d payload =
     (let desiredState = KubeSERole_toMap (spec_KubeSERole (Spec d)) in payload = Some desiredState)"

definition KubernetesSecretEngineRole_VaultObject :: "KubernetesSecretEngineRole VaultObject" where
  "KubernetesSecretEngineRole_VaultObject =
     \<lparr>GetPath = KubernetesSecretEngineRole_GetPath,
      GetPayload = KubernetesSecretEngineRole_GetPayload,
      IsEquivalentToDesiredState = KubernetesSecretEngineRole_IsEquivalentToDesiredState,
      IsInitialized = (\<lambda>_. True),
      IsValid = (\<lambda>d. []),
      IsDeletable = (\<lambda>_. True),
      PrepareInternalValues = (\<lambda>E cl. retG ()),
      PrepareTLSConfig = (\<lambda>E cl. retG ())\<rparr>"

definition KubernetesSecretEngineRoleReconciler_Reconcile ::
  "KubernetesSecretEngineRole env \<Rightarrow> string \<Rightarrow> string \<Rightarrow> (KubernetesSecretEngineRole, Result) go" where
  "KubernetesSecretEngineRoleReconciler_Reconcile E ns n =
     controller_Reconcile KubernetesSecretEngineRole_VaultObject E (VaultResource_Reconcile KubernetesSecretEngineRole_VaultObject E) ns n"

section \<open>PKISecretEngineRole\<close>

record PKIRole =
  pkr_TTL :: int
  pkr_MaxTTL :: int
  pkr_AllowLocalhost :: bool
  pkr_AllowedDomains :: "string list option"
  pkr_AllowedDomainsTemplate :: bool
  pkr_AllowBareDomains :: bool
  pkr_AllowSubdomains :: bool
  pkr_AllowGlobDomains :: bool
  pkr_AllowAnyName :: bool
  pkr_EnforceHostnames :: bool
  pkr_AllowIPSans :: bool
  pkr_AllowedURISans :: "string list option"
  pkr_AllowedOtherSans :: string
  pkr_ServerFlag :: bool
  pkr_ClientFlag :: bool
  pkr_CodeSigningFlag :: bool
  pkr_EmailProtectionFlag :: bool
  pkr_KeyType :: string
  pkr_KeyBits :: int
  pkr_KeyUsage :: "string list option"
  pkr_ExtKeyUsage :: "string list option"
  pkr_ExtKeyUsageOids :: "string list option"
  pkr_UseCSRCommonName :: bool
  pkr_UseCSRSans :: bool
  pkr_OU :: string
  pkr_Organization :: string
  pkr_Country :: string
  pkr_Locality :: string
  pkr_Province :: string
  pkr_StreetAddress :: string
  pkr_PostalCode :: string
  pkr_SerialNumber :: string
  pkr_GenerateLease :: bool
  pkr_NoStore :: bool
  pkr_RequireCn :: bool
  pkr_PolicyIdentifiers :: "string list option"
  pkr_BasicConstraintsValidForNonCa :: bool
  pkr_NotBeforeDuration :: int

record PKISecretEngineRoleSpec = PathSpec +
  spec_PKIRole :: PKIRole

type_synonym PKISecretEngineRole = "(PKISecretEngineRoleSpec, BaseStatus) crd"

definition PKIRole_toMap :: "PKIRole \<Rightarrow> gmap" where
  "PKIRole_toMap i = fmap_of_list
     [(''ttl'', VDur (pkr_TTL i)),
      (''max_ttl'', VDur (pkr_MaxTTL i)),
      (''allow_localhost'', VBool (pkr_AllowLocalhost i)),
      (''allowed_domains'', VStrs (pkr_AllowedDomains i)),
      (''allowed_domains_template'', VBool (pkr_AllowedDomainsTemplate i)),
      (''allow_bare_domains'', VBool (pkr_AllowBareDomains i)),
      (''allow_subdomains'', VBool (pkr_AllowSubdomains i)),
      (''allow_glob_domains'', VBool (pkr_AllowGlobDomains i)),
      (''allow_any_name'', VBool (pkr_AllowAnyName i)),
      (''enforce_hostnames'', VBool (pkr_EnforceHostnames i)),
      (''allow_ip_sans'', VBool (pkr_AllowIPSans i)),
      (''allowed_uri_sans'', VStrs (pkr_AllowedURISans i)),
      (''allowed_other_sans'', VStr (pkr_AllowedOtherSans i)),
      (''server_flag'', VBool (pkr_ServerFlag i)),
      (''client_flag'', VBool (pkr_ClientFlag i)),
      (''code_signing_flag'', VBool (pkr_CodeSigningFlag i)),
      (''email_protection_flag'', VBool (pkr_EmailProtectionFlag i)),
      (''key_type'', VStr (pkr_KeyType i)),
      (''key_bits'', VInt (pkr_KeyBits i)),
      (''key_usage'', VTyped ''[]KeyUsage'' (VStrs (pkr_KeyUsage i))),
      (''ext_key_usage'', VTyped ''[]ExtKeyUsage'' (VStrs (pkr_ExtKeyUsage i))),
      (''ext_key_usage_oids'', VStrs (pkr_ExtKeyUsageOids i)),
      (''use_csr_common_name'', VBool (pkr_UseCSRCommonName i)),
      (''use_csr_sans'', VBool (pkr_UseCSRSans i)),
      (''ou'', VStr (pkr_OU i)),
      (''organization'', VStr (pkr_Organization i)),
      (''country'', VStr (pkr_Country i)),
      (''locality'', VStr (pkr_Locality i)),
      (''province'', VStr (pkr_Province i)),
      (''street_address'', VStr (pkr_StreetAddress i)),
      (''postal_code'', VStr (pkr_PostalCode i)),
      (''serial_number'', VStr (pkr_SerialNumber i)),
      (''generate_lease'', VBool (pkr_GenerateLease i)),
      (''no_store'', VBool (pkr_NoStore i)),
      (''require_cn'', VBool (pkr_RequireCn i)),
      (''policy_identifiers'', VStrs (pkr_PolicyIdentifiers i)),
      (''basic_constraints_valid_for_non_ca'', VBool (pkr_BasicConstraintsValidForNonCa i)),
      (''not_before_duration'', VDur (pkr_NotBeforeDuration i))]"

definition PKISecretEngineRole_GetPath :: "PKISecretEngineRole \<Rightarrow> string" where
  "PKISecretEngineRole_GetPath d =
     (if Name (Spec d) \<noteq> [] then CleansePath (Path (Spec d) @ ''/'' @ ''roles'' @ ''/'' @ Name (Spec d))
      else CleansePath (Path (Spec d) @ ''/'' @ ''roles'' @ ''/'' @ GetName d))"

definition PKISecretEngineRole_GetPayload :: "PKISecretEngineRole \<Rightarrow> gmap" where
  "PKISecretEngineRole_GetPayload d = PKIRole_toMap (spec_PKIRole (Spec d))"

definition PKISecretEngineRole_IsEquivalentToDesiredState :: "PKISecretEngineRole \<Rightarrow> gmap option \<Rightarrow> bool" where
  "PKISecretEngineRole_IsEquivalentToDesiredState d payload =
     (let desiredState = PKIRole_toMap (spec_PKIRole (Spec d)) in payload = Some desiredState)"

definition PKISecretEngineRole_VaultObject :: "PKISecretEngineRole VaultObject" where
  "PKISecretEngineRole_VaultObject =
     \<lparr>GetPath = PKISecretEngineRole_GetPath,
      GetPayload = PKISecretEngineRole_GetPayload,
      IsEquivalentToDesiredState = PKISecretEngineRole_IsEquivalentToDesiredState,
      IsInitialized = (\<lambda>_. True),
      IsValid = (\<lambda>d. []),
      IsDeletable = (\<lambda>_. True),
      PrepareInternalValues = (\<lambda>E cl. retG ()),
      PrepareTLSConfig = (\<lambda>E cl. retG ())\<rparr>"

definition PKISecretEngineRoleReconciler_Reconcile ::
  "PKISecretEngineRole env \<Rightarrow> string \<Rightarrow> string \<Rightarrow> (PKISecretEngineRole, Result) go" where
  "PKISecretEngineRoleReconciler_Reconcile E ns n =
     controller_Reconcile PKISecretEngineRole_VaultObject E (VaultResource_Reconcile PKISecretEngineRole_VaultObject E) ns n"

section \<open>GitHubSecretEngineRole\<close>

record PermissionSet =
  ghr_InstallationID :: int
  ghr_OrganizationName :: string
  ghr_Repositories :: "string list option"
  ghr_RepositoriesIDs :: "string list option"
  ghr_Permissions :: "(string, string) fmap option"

record GitHubSecretEngineRoleSpec = PathSpec +
  spec_PermissionSet :: PermissionSet

type_synonym GitHubSecretEngineRole = "(GitHubSecretEngineRoleSpec, BaseStatus) crd"

definition PermissionSet_toMap :: "PermissionSet \<Rightarrow> gmap" where
  "PermissionSet_toMap i = fmap_of_list
     [(''installation_id'', VInt64 (ghr_InstallationID i)),
      (''org_name'', VStr (ghr_OrganizationName i)),
      (''repositories'', VStrs (ghr_Repositories i)),
      (''repository_ids'', VStrs (ghr_RepositoriesIDs i)),
      (''permissions'', VStrMap (ghr_Permissions i))]"

definition GitHubSecretEngineRole_GetPath :: "GitHubSecretEngineRole \<Rightarrow> string" where
  "GitHubSecretEngineRole_GetPath d =
     (if Name (Spec d) \<noteq> [] then CleansePath (Path (Spec d) @ ''/'' @ ''permissionset'' @ ''/'' @ Name (Spec d))
      else CleansePath (Path (Spec d) @ ''/'' @ ''permissionset'' @ ''/'' @ GetName d))"

definition GitHubSecretEngineRole_GetPayload :: "GitHubSecretEngineRole \<Rightarrow> gmap" where
  "GitHubSecretEngineRole_GetPayload d = PermissionSet_toMap (spec_PermissionSet (Spec d))"

definition GitHubSecretEngineRole_IsEquivalentToDesiredState :: "GitHubSecretEngineRole \<Rightarrow> gmap option \<Rightarrow> bool" where
  "GitHubSecretEngineRole_IsEquivalentToDesiredState d payload =
     (let desiredState = PermissionSet_toMap (spec_PermissionSet (Spec d)) in payload = Some desiredState)"

definition GitHubSecretEngineRole_VaultObject :: "GitHubSecretEngineRole VaultObject" where
  "GitHubSecretEngineRole_VaultObject =
     \<lparr>GetPath = GitHubSecretEngineRole_GetPath,
      GetPayload = GitHubSecretEngineRole_GetPayload,
      IsEquivalentToDesiredState = GitHubSecretEngineRole_IsEquivalentToDesiredState,
      IsInitialized = (\<lambda>_. True),
      IsValid = (\<lambda>d. []),
      IsDeletable = (\<lambda>_. True),
      PrepareInternalValues = (\<lambda>E cl. retG ()),
      PrepareTLSConfig = (\<lambda>E cl. retG ())\<rparr>"

definition GitHubSecretEngineRoleReconciler_Reconcile ::
  "GitHubSecretEngineRole env \<Rightarrow> string \<Rightarrow> string \<Rightarrow> (GitHubSecretEngineRole, Result) go" where
  "GitHubSecretEngineRoleReconciler_Reconcile E ns n =
     controller_Reconcile GitHubSecretEngineRole_VaultObject E (VaultResource_Reconcile GitHubSecretEngineRole_VaultObject E) ns n"

section \<open>AzureSecretEngineRole\<close>

record AzureSERole =
  asr_AzureRoles :: string
  asr_AzureGroups :: string
  asr_ApplicationObjectID :: string
  asr_PersistApp :: bool
  asr_TTL :: string
  asr_MaxTTL :: string
  asr_PermanentlyDelete :: string
  asr_SignInAudience :: string
  asr_Tags :: string

record AzureSecretEngineRoleSpec = PathSpec +
  spec_AzureSERole :: AzureSERole

type_synonym AzureSecretEngineRole = "(AzureSecretEngineRoleSpec, BaseStatus) crd"

definition AzureSERole_toMap :: "AzureSERole \<Rightarrow> gmap" where
  "AzureSERole_toMap i = fmap_of_list
     [(''azure_roles'', VStr (asr_AzureRoles i)),
      (''azure_groups'', VStr (asr_AzureGroups i)),
      (''application_object_id'', VStr (asr_ApplicationObjectID i)),
      (''persist_app'', VBool (asr_PersistApp i)),
      (''ttl'', VStr (asr_TTL i)),
      (''max_ttl'', VStr (asr_MaxTTL i)),
      (''permanently_delete'', VStr (asr_PermanentlyDelete i)),
      (''sign_in_audience'', VStr (asr_SignInAudience i)),
      (''tags'', VStr (asr_Tags i))]"

definition AzureSecretEngineRole_GetPath :: "AzureSecretEngineRole \<Rightarrow> string" where
  "AzureSecretEngineRole_GetPath d =
     (if Name (Spec d) \<noteq> [] then CleansePath (Path (Spec d) @ ''/'' @ ''roles'' @ ''/'' @ Name (Spec d))
      else CleansePath (Path (Spec d) @ ''/'' @ ''roles'' @ ''/'' @ GetName d))"

definition AzureSecretEngineRole_GetPayload :: "AzureSecretEngineRole \<Rightarrow> gmap" where
  "AzureSecretEngineRole_GetPayload d = AzureSERole_toMap (spec_AzureSERole (Spec d))"

definition AzureSecretEngineRole_IsEquivalentToDesiredState :: "AzureSecretEngineRole \<Rightarrow> gmap option \<Rightarrow> bool" where
  "AzureSecretEngineRole_IsEquivalentToDesiredState d payload =
     (let desiredState = AzureSERole_toMap (spec_AzureSERole (Spec d)) in payload = Some desiredState)"

definition AzureSecretEngineRole_VaultObject :: "AzureSecretEngineRole VaultObject" where
  "AzureSecretEngineRole_VaultObject =
     \<lparr>GetPath = AzureSecretEngineRole_GetPath,
      GetPayload = AzureSecretEngineRole_GetPayload,
      IsEquivalentToDesiredState = AzureSecretEngineRole_IsEquivalentToDesiredState,
      IsInitialized = (\<lambda>_. True),
      IsValid = (\<lambda>d. []),
      IsDeletable = (\<lambda>_. True),
      PrepareInternalValues = (\<lambda>E cl. retG ()),
      PrepareTLSConfig = (\<lambda>E cl. retG ())\<rparr>"

definition AzureSecretEngineRoleReconciler_Reconcile ::
  "AzureSecretEngineRole env \<Rightarrow> string \<Rightarrow> string \<Rightarrow> (AzureSecretEngineRole, Result) go" where
  "AzureSecretEngineRoleReconciler_Reconcile E ns n =
     controller_Reconcile AzureSecretEngineRole_VaultObject E (VaultResource_Reconcile AzureSecretEngineRole_VaultObject E) ns n"

section \<open>QuaySecretEngineRole and QuaySecretEngineStaticRole\<close>

text \<open>
  A pointer to a map is an option of the map: decoding never leaves it pointing to nil.
\<close>

record QuayBaseRole =
  qbr_NamespaceType :: string
  qbr_NamespaceName :: string
  qbr_CreateRepositories :: "bool option"
  qbr_Teams :: "(string, string) fmap option"
  qbr_Repositories :: "(string, string) fmap option"
  qbr_DefaultPermission :: "string option"

record QuayRole = QuayBaseRole +
  qbr_TTL :: "int option"
  qbr_MaxTTL :: "int option"

record QuaySecretEngineRoleSpec = PathSpec +
  spec_QuayRole :: QuayRole

type_synonym QuaySecretEngineRole = "(QuaySecretEngineRoleSpec, BaseStatus) crd"

record QuaySecretEngineStaticRoleSpec = PathSpec +
  spec_QuayBaseRole :: QuayBaseRole

type_synonym QuaySecretEngineStaticRole = "(QuaySecretEngineStaticRoleSpec, BaseStatus) crd"

text \<open>\<open>setMapJson\<close>: the map as JSON text under the field's name.\<close>

definition setMapJson :: "gmap \<Rightarrow> string \<Rightarrow> (string, string) fmap \<Rightarrow> gmap" where
  "setMapJson payload fieldName field = fmupd fieldName (VStr (json_map json_string field)) payload"

definition QuayBaseRole_toMap :: "'a QuayBaseRole_scheme \<Rightarrow> gmap" where
  "QuayBaseRole_toMap r =
     (let payload = fmap_of_list
            [(''namespace_type'', VNamed ''NamespaceType'' (qbr_NamespaceType r)),
             (''namespace_name'', VStr (qbr_NamespaceName r)),
             (''create_repositories'', VPtr ''bool'' (map_option VBool (qbr_CreateRepositories r)))];
          payload = (if qbr_DefaultPermission r \<noteq> None
            then fmupd ''default_permission'' (VPtr ''Permission'' (map_option VStr (qbr_DefaultPermission r))) payload
            else payload);
          payload = (case qbr_Teams r of None \<Rightarrow> payload | Some m \<Rightarrow> setMapJson payload ''teams'' m)
      in case qbr_Repositories r of None \<Rightarrow> payload | Some m \<Rightarrow> setMapJson payload ''repositories'' m)"

text \<open>The role repeats the steps of the base role and adds the two TTLs.\<close>

definition QuayRole_toMap :: "QuayRole \<Rightarrow> gmap" where
  "QuayRole_toMap r =
     fmupd ''max_ttl'' (VPtr ''Duration'' (map_option VDur (qbr_MaxTTL r)))
       (fmupd ''ttl'' (VPtr ''Duration'' (map_option VDur (qbr_TTL r))) (QuayBaseRole_toMap r))"

definition QuaySecretEngineRole_GetPath :: "QuaySecretEngineRole \<Rightarrow> string" where
  "QuaySecretEngineRole_GetPath d =
     (if Name (Spec d) \<noteq> [] then CleansePath (Path (Spec d) @ ''/'' @ ''roles'' @ ''/'' @ Name (Spec d))
      else CleansePath (Path (Spec d) @ ''/'' @ ''roles'' @ ''/'' @ GetName d))"

definition QuaySecretEngineRole_GetPayload :: "QuaySecretEngineRole \<Rightarrow> gmap" where
  "QuaySecretEngineRole_GetPayload d = QuayRole_toMap (spec_QuayRole (Spec d))"

definition QuaySecretEngineRole_IsEquivalentToDesiredState :: "QuaySecretEngineRole \<Rightarrow> gmap option \<Rightarrow> bool" where
  "QuaySecretEngineRole_IsEquivalentToDesiredState d payload =
     (let desiredState = QuayRole_toMap (spec_QuayRole (Spec d)) in payload = Some desiredState)"

definition QuaySecretEngineRole_VaultObject :: "QuaySecretEngineRole VaultObject" where
  "QuaySecretEngineRole_VaultObject =
     \<lparr>GetPath = QuaySecretEngineRole_GetPath,
      GetPayload = QuaySecretEngineRole_GetPayload,
      IsEquivalentToDesiredState = QuaySecretEngineRole_IsEquivalentToDesiredState,
      IsInitialized = (\<lambda>_. True),
      IsValid = (\<lambda>d. []),
      IsDeletable = (\<lambda>_. True),
      PrepareInternalValues = (\<lambda>E cl. retG ()),
      PrepareTLSConfig = (\<lambda>E cl. retG ())\<rparr>"

definition QuaySecretEngineRoleReconciler_Reconcile ::
  "QuaySecretEngineRole env \<Rightarrow> string \<Rightarrow> string \<Rightarrow> (QuaySecretEngineRole, Result) go" where
  "QuaySecretEngineRoleReconciler_Reconcile E ns n =
     controller_Reconcile QuaySecretEngineRole_VaultObject E (VaultResource_Reconcile QuaySecretEngineRole_VaultObject E) ns n"

definition QuaySecretEngineStaticRole_GetPath :: "QuaySecretEngineStaticRole \<Rightarrow> string" where
  "QuaySecretEngineStaticRole_GetPath d =
     (if Name (Spec d) \<noteq> [] then CleansePath (Path (Spec d) @ ''/'' @ ''static-roles'' @ ''/'' @ Name (Spec d))
      else CleansePath (Path (Spec d) @ ''/'' @ ''static-roles'' @ ''/'' @ GetName d))"

definition QuaySecretEngineStaticRole_GetPayload :: "QuaySecretEngineStaticRole \<Rightarrow> gmap" where
  "QuaySecretEngineStaticRole_GetPayload d = QuayBaseRole_toMap (spec_QuayBaseRole (Spec d))"

definition QuaySecretEngineStaticRole_IsEquivalentToDesiredState :: "QuaySecretEngineStaticRole \<Rightarrow> gmap option \<Rightarrow> bool" where
  "QuaySecretEngineStaticRole_IsEquivalentToDesiredState d payload =
     (let desiredState = QuayBaseRole_toMap (spec_QuayBaseRole (Spec d)) in payload = Some desiredState)"

definition QuaySecretEngineStaticRole_VaultObject :: "QuaySecretEngineStaticRole VaultObject" where
  "QuaySecretEngineStaticRole_VaultObject =
     \<lparr>GetPath = QuaySecretEngineStaticRole_GetPath,
      GetPayload = QuaySecretEngineStaticRole_GetPayload,
      IsEquivalentToDesiredState = QuaySecretEngineStaticRole_IsEquivalentToDesiredState,
      IsInitialized = (\<lambda>_. True),
      IsValid = (\<lambda>d. []),
      IsDeletable = (\<lambda>_. True),
      PrepareInternalValues = (\<lambda>E cl. retG ()),
      PrepareTLSConfig = (\<lambda>E cl. retG ())\<rparr>"

definition QuaySecretEngineStaticRoleReconciler_Reconcile ::
  "QuaySecretEngineStaticRole env \<Rightarrow> string \<Rightarrow> string \<Rightarrow> (QuaySecretEngineStaticRole, Result) go" where
  "QuaySecretEngineStaticRoleReconciler_Reconcile E ns n =
     controller_Reconcile QuaySecretEngineStaticRole_VaultObject E (VaultResource_Reconcile QuaySecretEngineStaticRole_VaultObject E) ns n"

end
