(* ===== verification/AuthRoles.thy ===== *)
theory AuthRoles
  imports SecretRoles
begin

text \<open>
  The roles of the authentication engines, and the identity groups
  (\<open>api/v1alpha1/jwtoidcauthenginerole_types.go\<close>, \<open>azureauthenginerole_types.go\<close>,
  \<open>gcpauthenginerole_types.go\<close>, \<open>certauthenginerole_types.go\<close>, \<open>certauthengineconfig_types.go\<close>,
  \<open>ldapauthenginegroup_types.go\<close>, \<open>group_types.go\<close>, \<open>kubernetesauthenginerole_types.go\<close>), one
  section per resource, with its controller.
\<close>

section \<open>JWTOIDCAuthEngineRole\<close>

record JWTOIDCRole =
  jor_Name :: string
  jor_RoleType :: string
  jor_BoundAudiences :: "string list option"
  jor_UserClaim :: string
  jor_UserClaimJSONPointer :: bool
  jor_ClockSkewLeeway :: int
  jor_ExpirationLeeway :: int
  jor_NotBeforeLeeway :: int
  jor_BoundSubject :: string
  jor_BoundClaims :: "string option"
  jor_BoundClaimsType :: string
  jor_GroupsClaim :: string
  jor_ClaimMappings :: "(string, string) fmap option"
  jor_OIDCScopes :: "string list option"
  jor_AllowedRedirectURIs :: "string list option"
  jor_VerboseOIDCLogging :: bool
  jor_MaxAge :: int
  jor_TokenTTL :: string
  jor_TokenMaxTTL :: string
  jor_TokenPolicies :: "string list option"
  jor_TokenBoundCIDRs :: "string list option"
  jor_TokenExplicitMaxTTL :: string
  jor_TokenNoDefaultPolicy :: bool
  jor_TokenNumUses :: int
  jor_TokenPeriod :: int
  jor_TokenType :: string

record JWTOIDCAuthEngineRoleSpec = BaseSpec +
  jor_Path :: string
  spec_JWTOIDCRole :: JWTOIDCRole

type_synonym JWTOIDCAuthEngineRole = "(JWTOIDCAuthEngineRoleSpec, BaseStatus) crd"

definition JWTOIDCRole_toMap :: "JWTOIDCRole \<Rightarrow> gmap" where
  "JWTOIDCRole_toMap i = fmap_of_list
     [(''name'', VStr (jor_Name i)),
      (''role_type'', VStr (jor_RoleType i)),
      (''bound_audiences'', VStrs (jor_BoundAudiences i)),
      (''user_claim'', VStr (jor_UserClaim i)),
      (''user_claim_json_pointer'', VBool (jor_UserClaimJSONPointer i)),
      (''clock_skew_leeway'', VInt64 (jor_ClockSkewLeeway i)),
      (''expiration_leeway'', VInt64 (jor_ExpirationLeeway i)),
      (''not_before_leeway'', VInt64 (jor_NotBeforeLeeway i)),
      (''bound_subject'', VStr (jor_BoundSubject i)),
      (''bound_claims'', VPtr ''JSON'' (map_option VStr (jor_BoundClaims i))),
      (''bound_claims_type'', VStr (jor_BoundClaimsType i)),
      (''groups_claim'', VStr (jor_GroupsClaim i)),
      (''claim_mappings'', VStrMap (jor_ClaimMappings i)),
      (''oidc_scopes'', VStrs (jor_OIDCScopes i)),
      (''allowed_redirect_uris'', VStrs (jor_AllowedRedirectURIs i)),
      (''verbose_oidc_logging'', VBool (jor_VerboseOIDCLogging i)),
      (''max_age'', VInt64 (jor_MaxAge i)),
      (''token_ttl'', VStr (jor_TokenTTL i)),
      (''token_max_ttl'', VStr (jor_TokenMaxTTL i)),
      (''token_policies'', VStrs (jor_TokenPolicies i)),
      (''token_bound_cidrs'', VStrs (jor_TokenBoundCIDRs i)),
      (''token_explicit_max_ttl'', VStr (jor_TokenExplicitMaxTTL i)),
      (''token_no_default_policy'', VBool (jor_TokenNoDefaultPolicy i)),
      (''token_num_uses'', VInt64 (jor_TokenNumUses i)),
      (''token_period'', VInt64 (jor_TokenPeriod i)),
      (''token_type'', VStr (jor_TokenType i))]"

definition JWTOIDCAuthEngineRole_GetPath :: "JWTOIDCAuthEngineRole \<Rightarrow> string" where
  "JWTOIDCAuthEngineRole_GetPath d = CleansePath (''auth/'' @ jor_Path (Spec d) @ ''/role/'' @ jor_Name (spec_JWTOIDCRole (Spec d)))"

definition JWTOIDCAuthEngineRole_GetPayload :: "JWTOIDCAuthEngineRole \<Rightarrow> gmap" where
  "JWTOIDCAuthEngineRole_GetPayload d = JWTOIDCRole_toMap (spec_JWTOIDCRole (Spec d))"

definition JWTOIDCAuthEngineRole_IsEquivalentToDesiredState :: "JWTOIDCAuthEngineRole \<Rightarrow> gmap option \<Rightarrow> bool" where
  "JWTOIDCAuthEngineRole_IsEquivalentToDesiredState d payload =
     (let desiredState = JWTOIDCRole_toMap (spec_JWTOIDCRole (Spec d)) in payload = Some desiredState)"

definition JWTOIDCAuthEngineRole_VaultObject :: "JWTOIDCAuthEngineRole VaultObject" where
  "JWTOIDCAuthEngineRole_VaultObject =
     \<lparr>GetPath = JWTOIDCAuthEngineRole_GetPath,
      GetPayload = JWTOIDCAuthEngineRole_GetPayload,
      IsEquivalentToDesiredState = JWTOIDCAuthEngineRole_IsEquivalentToDesiredState,
      IsInitialized = (\<lambda>_. True),
      IsValid = (\<lambda>d. []),
      IsDeletable = (\<lambda>_. True),
      PrepareInternalValues = (\<lambda>E cl. retG ()),
      PrepareTLSConfig = (\<lambda>E cl. retG ())\<rparr>"

definition JWTOIDCAuthEngineRoleReconciler_Reconcile ::
  "JWTOIDCAuthEngineRole env \<Rightarrow> string \<Rightarrow> string \<Rightarrow> (JWTOIDCAuthEngineRole, Result) go" where
  "JWTOIDCAuthEngineRoleReconciler_Reconcile E ns n =
     controller_Reconcile JWTOIDCAuthEngineRole_VaultObject E (VaultResource_Reconcile JWTOIDCAuthEngineRole_VaultObject E) ns n"

section \<open>AzureAuthEngineRole\<close>

record AzureRole =
  aar_Name :: string
  aar_BoundServicePrincipalIDs :: "string list option"
  aar_BoundGroupIDs :: "string list option"
  aar_BoundLocations :: "string list option"
  aar_BoundSubscriptionIDs :: "string list option"
  aar_BoundResourceGroups :: "string list option"
  aar_BoundScaleSets :: "string list option"
  aar_TokenTTL :: string
  aar_TokenMaxTTL :: string
  aar_TokenPolicies :: "string list option"
  aar_Policies :: "string list option"
  aar_TokenBoundCIDRs :: "string list option"
  aar_TokenExplicitMaxTTL :: string
  aar_TokenNoDefaultPolicy :: bool
  aar_TokenNumUses :: int
  aar_TokenPeriod :: int
  aar_TokenType :: string

record AzureAuthEngineRoleSpec = BaseSpec +
  aar_Path :: string
  spec_AzureRole :: AzureRole

type_synonym AzureAuthEngineRole = "(AzureAuthEngineRoleSpec, BaseStatus) crd"

definition AzureRole_toMap :: "AzureRole \<Rightarrow> gmap" where
  "AzureRole_toMap i = fmap_of_list
     [(''name'', VStr (aar_Name i)),
      (''bound_service_principal_ids'', VStrs (aar_BoundServicePrincipalIDs i)),
      (''bound_group_ids'', VStrs (aar_BoundGroupIDs i)),
      (''bound_locations'', VStrs (aar_BoundLocations i)),
      (''bound_subscription_ids'', VStrs (aar_BoundSubscriptionIDs i)),
      (''bound_resource_groups'', VStrs (aar_BoundResourceGroups i)),
      (''bound_scale_sets'', VStrs (aar_BoundScaleSets i)),
      (''token_ttl'', VStr (aar_TokenTTL i)),
      (''token_max_ttl'', VStr (aar_TokenMaxTTL i)),
      (''token_policies'', VStrs (aar_TokenPolicies i)),
      (''policies'', VStrs (aar_Policies i)),
      (''token_bound_cidrs'', VStrs (aar_TokenBoundCIDRs i)),
      (''token_explicit_max_ttl'', VStr (aar_TokenExplicitMaxTTL i)),
      (''token_no_default_policy'', VBool (aar_TokenNoDefaultPolicy i)),
      (''token_num_uses'', VInt64 (aar_TokenNumUses i)),
      (''token_period'', VInt64 (aar_TokenPeriod i)),
      (''token_type'', VStr (aar_TokenType i))]"

definition AzureAuthEngineRole_GetPath :: "AzureAuthEngineRole \<Rightarrow> string" where
  "AzureAuthEngineRole_GetPath d = CleansePath (''auth/'' @ aar_Path (Spec d) @ ''/role/'' @ aar_Name (spec_AzureRole (Spec d)))"

definition AzureAuthEngineRole_GetPayload :: "AzureAuthEngineRole \<Rightarrow> gmap" where
  "AzureAuthEngineRole_GetPayload d = AzureRole_toMap (spec_AzureRole (Spec d))"

definition AzureAuthEngineRole_IsEquivalentToDesiredState :: "AzureAuthEngineRole \<Rightarrow> gmap option \<Rightarrow> bool" where
  "AzureAuthEngineRole_IsEquivalentToDesiredState d payload =
     (let desiredState = AzureRole_toMap (spec_AzureRole (Spec d)) in payload = Some desiredState)"

definition AzureAuthEngineRole_VaultObject :: "AzureAuthEngineRole VaultObject" where
  "AzureAuthEngineRole_VaultObject =
     \<lparr>GetPath = AzureAuthEngineRole_GetPath,
      GetPayload = AzureAuthEngineRole_GetPayload,
      IsEquivalentToDesiredState = AzureAuthEngineRole_IsEquivalentToDesiredState,
      IsInitialized = (\<lambda>_. True),
      IsValid = (\<lambda>d. []),
      IsDeletable = (\<lambda>_. True),
      PrepareInternalValues = (\<lambda>E cl. retG ()),
      PrepareTLSConfig = (\<lambda>E cl. retG ())\<rparr>"

definition AzureAuthEngineRoleReconciler_Reconcile ::
  "AzureAuthEngineRole env \<Rightarrow> string \<Rightarrow> string \<Rightarrow> (AzureAuthEngineRole, Result) go" where
  "AzureAuthEngineRoleReconciler_Reconcile E ns n =
     controller_Reconcile AzureAuthEngineRole_VaultObject E (VaultResource_Reconcile AzureAuthEngineRole_VaultObject E) ns n"

section \<open>GCPAuthEngineRole\<close>

record GCPRole =
  gar_Name :: string
  gar_Type :: string
  gar_BoundServiceAccounts :: "string list option"
  gar_BoundProjects :: "string list option"
  gar_AddGroupAliases :: bool
  gar_TokenTTL :: string
  gar_TokenMaxTTL :: string
  gar_TokenPolicies :: "string list option"
  gar_Policies :: "string list option"
  gar_TokenBoundCIDRs :: "string list option"
  gar_TokenExplicitMaxTTL :: string
  gar_TokenNoDefaultPolicy :: bool
  gar_TokenNumUses :: int
  gar_TokenPeriod :: int
  gar_TokenType :: string
  gar_MaxJWTExp :: string
  gar_AllowGCEInference :: bool
  gar_BoundZones :: "string list option"
  gar_BoundRegions :: "string list option"
  gar_BoundInstanceGroups :: "string list option"
  gar_BoundLabels :: "string list option"

record GCPAuthEngineRoleSpec = BaseSpec +
  gar_Path :: string
  spec_GCPRole :: GCPRole

type_synonym GCPAuthEngineRole = "(GCPAuthEngineRoleSpec, BaseStatus) crd"

definition GCPRole_toMap :: "GCPRole \<Rightarrow> gmap" where
  "GCPRole_toMap i = fmap_of_list
     [(''name'', VStr (gar_Name i)),
      (''type'', VStr (gar_Type i)),
      (''bound_service_accounts'', VStrs (gar_BoundServiceAccounts i)),
      (''bound_projects'', VStrs (gar_BoundProjects i)),
      (''add_group_aliases'', VBool (gar_AddGroupAliases i)),
      (''token_ttl'', VStr (gar_TokenTTL i)),
      (''token_max_ttl'', VStr (gar_TokenMaxTTL i)),
      (''token_policies'', VStrs (gar_TokenPolicies i)),
      (''policies'', VStrs (gar_Policies i)),
      (''token_bound_cidrs'', VStrs (gar_TokenBoundCIDRs i)),
      (''token_explicit_max_ttl'', VStr (gar_TokenExplicitMaxTTL i)),
      (''token_no_default_policy'', VBool (gar_TokenNoDefaultPolicy i)),
      (''token_num_uses'', VInt64 (gar_TokenNumUses i)),
      (''token_period'', VInt64 (gar_TokenPeriod i)),
      (''token_type'', VStr (gar_TokenType i)),
      (''max_jwt_exp'', VStr (gar_MaxJWTExp i)),
      (''allow_gce_inference'', VBool (gar_AllowGCEInference i)),
      (''bound_zones'', VStrs (gar_BoundZones i)),
      (''bound_regions'', VStrs (gar_BoundRegions i)),
      (''bound_instance_groups'', VStrs (gar_BoundInstanceGroups i)),
      (''bound_labels'', VStrs (gar_BoundLabels i))]"

definition GCPAuthEngineRole_GetPath :: "GCPAuthEngineRole \<Rightarrow> string" where
  "GCPAuthEngineRole_GetPath d = CleansePath (''auth/'' @ gar_Path (Spec d) @ ''/role/'' @ gar_Name (spec_GCPRole (Spec d)))"

definition GCPAuthEngineRole_GetPayload :: "GCPAuthEngineRole \<Rightarrow> gmap" where
  "GCPAuthEngineRole_GetPayload d = GCPRole_toMap (spec_GCPRole (Spec d))"

definition GCPAuthEngineRole_IsEquivalentToDesiredState :: "GCPAuthEngineRole \<Rightarrow> gmap option \<Rightarrow> bool" where
  "GCPAuthEngineRole_IsEquivalentToDesiredState d payload =
     (let desiredState = GCPRole_toMap (spec_GCPRole (Spec d)) in payload = Some desiredState)"

definition GCPAuthEngineRole_VaultObject :: "GCPAuthEngineRole VaultObject" where
  "GCPAuthEngineRole_VaultObject =
     \<lparr>GetPath = GCPAuthEngineRole_GetPath,
      GetPayload = GCPAuthEngineRole_GetPayload,
      IsEquivalentToDesiredState = GCPAuthEngineRole_IsEquivalentToDesiredState,
      IsInitialized = (\<lambda>_. True),
      IsValid = (\<lambda>d. []),
      IsDeletable = (\<lambda>_. True),
      PrepareInternalValues = (\<lambda>E cl. retG ()),
      PrepareTLSConfig = (\<lambda>E cl. retG ())\<rparr>"

definition GCPAuthEngineRoleReconciler_Reconcile ::
  "GCPAuthEngineRole env \<Rightarrow> string \<Rightarrow> string \<Rightarrow> (GCPAuthEngineRole, Result) go" where
  "GCPAuthEngineRoleReconciler_Reconcile E ns n =
     controller_Reconcile GCPAuthEngineRole_VaultObject E (VaultResource_Reconcile GCPAuthEngineRole_VaultObject E) ns n"

section \<open>CertAuthEngineRole\<close>

record CertAuthEngineRoleInternal =
  cer_Certificate :: string
  cer_AllowedCommonNames :: "string list option"
  cer_AllowedDNSSANs :: "string list option"
  cer_AllowedEmailSANs :: "string list option"
  cer_AllowedURISANs :: "string list option"
  cer_AllowedOrganizationalUnits :: "string list option"
  cer_RequiredExtensions :: "string list option"
  cer_AllowedMetadataExtensions :: "string list option"
  cer_OCSPEnabled :: bool
  cer_OCSPCACertificates :: string
  cer_OCSPServersOverride :: "string list option"
  cer_OCSPFailOpen :: bool
  cer_OCSPThisUpdateMaxAge :: string
  cer_OCSPMaxRetries :: int
  cer_OCSPQueryAllServers :: bool
  cer_DisplayName :: string
  cer_TokenTTL :: string
  cer_TokenMaxTTL :: string
  cer_TokenPolicies :: "string list option"
  cer_TokenBoundCIDRs :: "string list option"
  cer_TokenExplicitMaxTTL :: string
  cer_TokenNoDefaultPolicy :: bool
  cer_TokenNumUses :: int
  cer_TokenPeriod :: string
  cer_TokenType :: string

record CertAuthEngineRoleSpec = PathSpec +
  spec_CertAuthEngineRoleInternal :: CertAuthEngineRoleInternal

type_synonym CertAuthEngineRole = "(CertAuthEngineRoleSpec, BaseStatus) crd"

definition CertAuthEngineRoleInternal_toMap :: "CertAuthEngineRoleInternal \<Rightarrow> gmap" where
  "CertAuthEngineRoleInternal_toMap i = fmap_of_list
     [(''certificate'', VStr (cer_Certificate i)),
      (''allowed_common_names'', VStrs (cer_AllowedCommonNames i)),
      (''allowed_dns_sans'', VStrs (cer_AllowedDNSSANs i)),
      (''allowed_email_sans'', VStrs (cer_AllowedEmailSANs i)),
      (''allowed_uri_sans'', VStrs (cer_AllowedURISANs i)),
      (''allowed_organizational_units'', VStrs (cer_AllowedOrganizationalUnits i)),
      (''required_extensions'', VStrs (cer_RequiredExtensions i)),
      (''allowed_metadata_extensions'', VStrs (cer_AllowedMetadataExtensions i)),
      (''ocsp_enabled'', VBool (cer_OCSPEnabled i)),
      (''ocsp_ca_certificates'', VStr (cer_OCSPCACertificates i)),
      (''ocsp_servers_override'', VStrs (cer_OCSPServersOverride i)),
      (''ocsp_fail_open'', VBool (cer_OCSPFailOpen i)),
      (''ocsp_this_update_max_age'', VStr (cer_OCSPThisUpdateMaxAge i)),
      (''ocsp_max_retries'', VInt64 (cer_OCSPMaxRetries i)),
      (''ocsp_query_all_servers'', VBool (cer_OCSPQueryAllServers i)),
      (''display_name'', VStr (cer_DisplayName i)),
      (''token_ttl'', VStr (cer_TokenTTL i)),
      (''token_max_ttl'', VStr (cer_TokenMaxTTL i)),
      (''token_policies'', VStrs (cer_TokenPolicies i)),
      (''token_bound_cidrs'', VStrs (cer_TokenBoundCIDRs i)),
      (''token_explicit_max_ttl'', VStr (cer_TokenExplicitMaxTTL i)),
      (''token_no_default_policy'', VBool (cer_TokenNoDefaultPolicy i)),
      (''token_num_uses'', VInt64 (cer_TokenNumUses i)),
      (''token_period'', VStr (cer_TokenPeriod i)),
      (''token_type'', VStr (cer_TokenType i))]"

definition CertAuthEngineRole_GetPath :: "CertAuthEngineRole \<Rightarrow> string" where
  "CertAuthEngineRole_GetPath d =
     (if Name (Spec d) \<noteq> [] then CleansePath (''auth/'' @ Path (Spec d) @ ''/certs/'' @ Name (Spec d))
      else CleansePath (''auth/'' @ Path (Spec d) @ ''/certs/'' @ GetName d))"

definition CertAuthEngineRole_GetPayload :: "CertAuthEngineRole \<Rightarrow> gmap" where
  "CertAuthEngineRole_GetPayload d = CertAuthEngineRoleInternal_toMap (spec_CertAuthEngineRoleInternal (Spec d))"

definition CertAuthEngineRole_IsEquivalentToDesiredState :: "CertAuthEngineRole \<Rightarrow> gmap option \<Rightarrow> bool" where
  "CertAuthEngineRole_IsEquivalentToDesiredState d payload =
     (let desiredState = CertAuthEngineRoleInternal_toMap (spec_CertAuthEngineRoleInternal (Spec d)) in payload = Some desiredState)"

definition CertAuthEngineRole_VaultObject :: "CertAuthEngineRole VaultObject" where
  "CertAuthEngineRole_VaultObject =
     \<lparr>GetPath = CertAuthEngineRole_GetPath,
      GetPayload = CertAuthEngineRole_GetPayload,
      IsEquivalentToDesiredState = CertAuthEngineRole_IsEquivalentToDesiredState,
      IsInitialized = (\<lambda>_. True),
      IsValid = (\<lambda>d. []),
      IsDeletable = (\<lambda>_. True),
      PrepareInternalValues = (\<lambda>E cl. retG ()),
      PrepareTLSConfig = (\<lambda>E cl. retG ())\<rparr>"

definition CertAuthEngineRoleReconciler_Reconcile ::
  "CertAuthEngineRole env \<Rightarrow> string \<Rightarrow> string \<Rightarrow> (CertAuthEngineRole, Result) go" where
  "CertAuthEngineRoleReconciler_Reconcile E ns n =
     controller_Reconcile CertAuthEngineRole_VaultObject E (VaultResource_Reconcile CertAuthEngineRole_VaultObject E) ns n"

section \<open>CertAuthEngineConfig\<close>

record CertAuthEngineConfigInternal =
  cec_DisableBinding :: bool
  cec_EnableIdentityAliasMetadata :: bool
  cec_OCSPCacheSize :: int
  cec_RoleCacheSize :: int

record CertAuthEngineConfigSpec = PathSpec +
  spec_CertAuthEngineConfigInternal :: CertAuthEngineConfigInternal

type_synonym CertAuthEngineConfig = "(CertAuthEngineConfigSpec, BaseStatus) crd"

definition CertAuthEngineConfigInternal_toMap :: "CertAuthEngineConfigInternal \<Rightarrow> gmap" where
  "CertAuthEngineConfigInternal_toMap i = fmap_of_list
     [(''disable_binding'', VBool (cec_DisableBinding i)),
      (''enable_identity_alias_metadata'', VBool (cec_EnableIdentityAliasMetadata i)),
      (''ocsp_cache_size'', VInt (cec_OCSPCacheSize i)),
      (''role_cache_size'', VInt (cec_RoleCacheSize i))]"

definition CertAuthEngineConfig_GetPath :: "CertAuthEngineConfig \<Rightarrow> string" where
  "CertAuthEngineConfig_GetPath d =
     (if Name (Spec d) \<noteq> [] then CleansePath (''auth/'' @ Path (Spec d) @ ''/'' @ Name (Spec d) @ ''/config'')
      else CleansePath (''auth/'' @ Path (Spec d) @ ''/'' @ GetName d @ ''/config''))"

definition CertAuthEngineConfig_GetPayload :: "CertAuthEngineConfig \<Rightarrow> gmap" where
  "CertAuthEngineConfig_GetPayload d = CertAuthEngineConfigInternal_toMap (spec_CertAuthEngineConfigInternal (Spec d))"

definition CertAuthEngineConfig_IsEquivalentToDesiredState :: "CertAuthEngineConfig \<Rightarrow> gmap option \<Rightarrow> bool" where
  "CertAuthEngineConfig_IsEquivalentToDesiredState d payload =
     (let desiredState = CertAuthEngineConfigInternal_toMap (spec_CertAuthEngineConfigInternal (Spec d)) in payload = Some desiredState)"

definition CertAuthEngineConfig_VaultObject :: "CertAuthEngineConfig VaultObject" where
  "CertAuthEngineConfig_VaultObject =
     \<lparr>GetPath = CertAuthEngineConfig_GetPath,
      GetPayload = CertAuthEngineConfig_GetPayload,
      IsEquivalentToDesiredState = CertAuthEngineConfig_IsEquivalentToDesiredState,
      IsInitialized = (\<lambda>_. True),
      IsValid = (\<lambda>d. []),
      IsDeletable = (\<lambda>_. True),
      PrepareInternalValues = (\<lambda>E cl. retG ()),
      PrepareTLSConfig = (\<lambda>E cl. retG ())\<rparr>"

definition CertAuthEngineConfigReconciler_Reconcile ::
  "CertAuthEngineConfig env \<Rightarrow> string \<Rightarrow> string \<Rightarrow> (CertAuthEngineConfig, Result) go" where
  "CertAuthEngineConfigReconciler_Reconcile E ns n =
     controller_Reconcile CertAuthEngineConfig_VaultObject E (VaultResource_Reconcile CertAuthEngineConfig_VaultObject E) ns n"

section \<open>LDAPAuthEngineGroup\<close>

record LDAPAuthEngineGroupSpec = PathSpec +
  lag_Policies :: string

type_synonym LDAPAuthEngineGroup = "(LDAPAuthEngineGroupSpec, BaseStatus) crd"

definition LDAPAuthEngineGroup_toMap :: "LDAPAuthEngineGroup \<Rightarrow> gmap" where
  "LDAPAuthEngineGroup_toMap i = fmap_of_list
     [(''name'', VStr (Name (Spec i))),
      (''policies'', VStr (lag_Policies (Spec i)))]"

definition LDAPAuthEngineGroup_GetPath :: "LDAPAuthEngineGroup \<Rightarrow> string" where
  "LDAPAuthEngineGroup_GetPath d = CleansePath (''auth/'' @ Path (Spec d) @ ''/groups/'' @ Name (Spec d))"

definition LDAPAuthEngineGroup_GetPayload :: "LDAPAuthEngineGroup \<Rightarrow> gmap" where
  "LDAPAuthEngineGroup_GetPayload d = LDAPAuthEngineGroup_toMap d"

definition LDAPAuthEngineGroup_IsEquivalentToDesiredState :: "LDAPAuthEngineGroup \<Rightarrow> gmap option \<Rightarrow> bool" where
  "LDAPAuthEngineGroup_IsEquivalentToDesiredState d payload = (payload = Some (LDAPAuthEngineGroup_GetPayload d))"

definition LDAPAuthEngineGroup_VaultObject :: "LDAPAuthEngineGroup VaultObject" where
  "LDAPAuthEngineGroup_VaultObject =
     \<lparr>GetPath = LDAPAuthEngineGroup_GetPath,
      GetPayload = LDAPAuthEngineGroup_GetPayload,
      IsEquivalentToDesiredState = LDAPAuthEngineGroup_IsEquivalentToDesiredState,
      IsInitialized = (\<lambda>_. True),
      IsValid = (\<lambda>d. []),
      IsDeletable = (\<lambda>_. True),
      PrepareInternalValues = (\<lambda>E cl. retG ()),
      PrepareTLSConfig = (\<lambda>E cl. retG ())\<rparr>"

definition LDAPAuthEngineGroupReconciler_Reconcile ::
  "LDAPAuthEngineGroup env \<Rightarrow> string \<Rightarrow> string \<Rightarrow> (LDAPAuthEngineGroup, Result) go" where
  "LDAPAuthEngineGroupReconciler_Reconcile E ns n =
     controller_Reconcile LDAPAuthEngineGroup_VaultObject E (VaultResource_Reconcile LDAPAuthEngineGroup_VaultObject E) ns n"

section \<open>Group\<close>

record GroupConfig =
  grp_Type :: string
  grp_Metadata :: "(string, string) fmap option"
  grp_Policies :: "string list option"
  grp_MemberGroupIDs :: "string list option"
  grp_MemberEntityIDs :: "string list option"

record GroupSpec = NamedSpec +
  spec_GroupConfig :: GroupConfig

type_synonym Group = "(GroupSpec, BaseStatus) crd"

definition GroupSpec_toMap :: "GroupSpec \<Rightarrow> gmap" where
  "GroupSpec_toMap i =
     (let payload = fmap_of_list
            [(''type'', VStr (grp_Type (spec_GroupConfig i))),
             (''metadata'', VStrMap (grp_Metadata (spec_GroupConfig i))),
             (''policies'', VStrs (grp_Policies (spec_GroupConfig i)))]
      in if grp_Type (spec_GroupConfig i) = ''internal''
         then fmupd ''member_entity_ids'' (VStrs (grp_MemberEntityIDs (spec_GroupConfig i)))
                (fmupd ''member_group_ids'' (VStrs (grp_MemberGroupIDs (spec_GroupConfig i))) payload)
         else payload)"

definition Group_GetPath :: "Group \<Rightarrow> string" where
  "Group_GetPath d =
     (if Name (Spec d) \<noteq> [] then CleansePath (''/identity/group/name/'' @ Name (Spec d))
      else CleansePath (''/identity/group/name/'' @ GetName d))"

definition Group_GetPayload :: "Group \<Rightarrow> gmap" where
  "Group_GetPayload d = GroupSpec_toMap (Spec d)"

text \<open>The comparison removes the name from Vault's answer; removing from a nil map does nothing.\<close>

definition Group_IsEquivalentToDesiredState :: "Group \<Rightarrow> gmap option \<Rightarrow> bool" where
  "Group_IsEquivalentToDesiredState d payload =
     (let desiredState = GroupSpec_toMap (Spec d) in map_option (fmdrop ''name'') payload = Some desiredState)"

definition Group_VaultObject :: "Group VaultObject" where
  "Group_VaultObject =
     \<lparr>GetPath = Group_GetPath,
      GetPayload = Group_GetPayload,
      IsEquivalentToDesiredState = Group_IsEquivalentToDesiredState,
      IsInitialized = (\<lambda>_. True),
      IsValid = (\<lambda>d. []),
      IsDeletable = (\<lambda>_. True),
      PrepareInternalValues = (\<lambda>E cl. retG ()),
      PrepareTLSConfig = (\<lambda>E cl. retG ())\<rparr>"

definition GroupReconciler_Reconcile ::
  "Group env \<Rightarrow> string \<Rightarrow> string \<Rightarrow> (Group, Result) go" where
  "GroupReconciler_Reconcile E ns n =
     controller_Reconcile Group_VaultObject E (VaultResource_Reconcile Group_VaultObject E) ns n"

section \<open>KubernetesAuthEngineRole\<close>

record VRole =
  kar_TargetServiceAccounts :: "string list option"
  kar_Audience :: "string option"
  kar_AliasNameSource :: string
  kar_TokenTTL :: int
  kar_Policies :: "string list option"
  kar_TokenMaxTTL :: int
  kar_TokenBoundCIDRs :: "string list option"
  kar_TokenExplicitMaxTTL :: int
  kar_TokenNoDefaultPolicy :: bool
  kar_TokenNumUses :: int
  kar_TokenPeriod :: int
  kar_TokenType :: string
  kar_namespaces :: "string list option"

record KubernetesAuthEngineRoleSpec = PathSpec +
  spec_VRole :: VRole
  kar_TargetNamespaces :: TargetNamespaceConfig

type_synonym KubernetesAuthEngineRole = "(KubernetesAuthEngineRoleSpec, BaseStatus) crd"

definition VRole_toMap :: "VRole \<Rightarrow> gmap" where
  "VRole_toMap i =
     (let payload = fmap_of_list
            [(''bound_service_account_names'', VStrs (kar_TargetServiceAccounts i)),
             (''bound_service_account_namespaces'', VStrs (kar_namespaces i)),
             (''alias_name_source'', VStr (kar_AliasNameSource i)),
             (''token_ttl'', VInt (kar_TokenTTL i)),
             (''token_max_ttl'', VInt (kar_TokenMaxTTL i)),
             (''token_policies'', VStrs (kar_Policies i)),
             (''token_bound_cidrs'', VStrs (kar_TokenBoundCIDRs i)),
             (''token_explicit_max_ttl'', VInt (kar_TokenExplicitMaxTTL i)),
             (''token_no_default_policy'', VBool (kar_TokenNoDefaultPolicy i)),
             (''token_num_uses'', VInt (kar_TokenNumUses i)),
             (''token_period'', VInt (kar_TokenPeriod i)),
             (''token_type'', VStr (kar_TokenType i))]
      in if kar_Audience i \<noteq> None then fmupd ''audience'' (VStrPtr (kar_Audience i)) payload else payload)"

definition SetInternalNamespaces :: "string list option \<Rightarrow> KubernetesAuthEngineRole \<Rightarrow> KubernetesAuthEngineRole" where
  "SetInternalNamespaces namespaces m =
     m\<lparr>Spec := (Spec m)\<lparr>spec_VRole := (spec_VRole (Spec m))\<lparr>kar_namespaces := namespaces\<rparr>\<rparr>\<rparr>"

definition findSelectedNamespaceNames ::
  "KubernetesAuthEngineRole env \<Rightarrow> string \<Rightarrow> (KubernetesAuthEngineRole, string list) go" where
  "findSelectedNamespaceNames E selector = (case label_selector E selector of
      Inl err \<Rightarrow> errG err
    | Inr labelSelector \<Rightarrow>
        bindG (askG (KubeListNamespaces labelSelector) (\<lambda>tr. kube_list_namespaces E tr labelSelector)) (\<lambda>r. case r of
            Inl err \<Rightarrow> errG err | Inr namespaceList \<Rightarrow> retG namespaceList))"

definition KubernetesAuthEngineRole_PrepareInternalValues ::
  "KubernetesAuthEngineRole env \<Rightarrow> vault_client \<Rightarrow> (KubernetesAuthEngineRole, unit) go" where
  "KubernetesAuthEngineRole_PrepareInternalValues E cl =
     bindG getG (\<lambda>d. case tnc_TargetNamespaceSelector (kar_TargetNamespaces (Spec d)) of
        Some selector \<Rightarrow> bindG (findSelectedNamespaceNames E selector) (\<lambda>namespaces.
          if length namespaces < 1 then modifyG (SetInternalNamespaces (Some [''__no_namespace__'']))
          else modifyG (SetInternalNamespaces (Some namespaces)))
      | None \<Rightarrow> modifyG (SetInternalNamespaces (tnc_TargetNamespaces (kar_TargetNamespaces (Spec d)))))"

definition validateEitherTargetNamespaceSelectorOrTargetNamespace :: "TargetNamespaceConfig \<Rightarrow> error option" where
  "validateEitherTargetNamespaceSelectorOrTargetNamespace t =
     (let count = 0 :: nat;
          count = (if tnc_TargetNamespaceSelector t \<noteq> None then count + 1 else count);
          count = (if tnc_TargetNamespaces t \<noteq> None then count + 1 else count)
      in if count \<noteq> 1
         then Some (ErrMsg ''only one of TargetNamespaceSelector or TargetNamespaces can be specified'') else None)"

definition KubernetesAuthEngineRole_GetPath :: "KubernetesAuthEngineRole \<Rightarrow> string" where
  "KubernetesAuthEngineRole_GetPath d =
     (if Name (Spec d) \<noteq> [] then CleansePath (''auth/'' @ Path (Spec d) @ ''/role/'' @ Name (Spec d))
      else CleansePath (''auth/'' @ Path (Spec d) @ ''/role/'' @ GetName d))"

definition KubernetesAuthEngineRole_GetPayload :: "KubernetesAuthEngineRole \<Rightarrow> gmap" where
  "KubernetesAuthEngineRole_GetPayload d = VRole_toMap (spec_VRole (Spec d))"

definition KubernetesAuthEngineRole_IsEquivalentToDesiredState :: "KubernetesAuthEngineRole \<Rightarrow> gmap option \<Rightarrow> bool" where
  "KubernetesAuthEngineRole_IsEquivalentToDesiredState d payload =
     (let desiredState = VRole_toMap (spec_VRole (Spec d)) in payload = Some desiredState)"

definition KubernetesAuthEngineRole_VaultObject :: "KubernetesAuthEngineRole VaultObject" where
  "KubernetesAuthEngineRole_VaultObject =
     \<lparr>GetPath = KubernetesAuthEngineRole_GetPath,
      GetPayload = KubernetesAuthEngineRole_GetPayload,
      IsEquivalentToDesiredState = KubernetesAuthEngineRole_IsEquivalentToDesiredState,
      IsInitialized = (\<lambda>_. True),
      IsValid = (\<lambda>d. somes [validateEitherTargetNamespaceSelectorOrTargetNamespace (kar_TargetNamespaces (Spec d))]),
      IsDeletable = (\<lambda>_. True),
      PrepareInternalValues = KubernetesAuthEngineRole_PrepareInternalValues,
      PrepareTLSConfig = (\<lambda>E cl. retG ())\<rparr>"

definition KubernetesAuthEngineRoleReconciler_Reconcile ::
  "KubernetesAuthEngineRole env \<Rightarrow> string \<Rightarrow> string \<Rightarrow> (KubernetesAuthEngineRole, Result) go" where
  "KubernetesAuthEngineRoleReconciler_Reconcile E ns n =
     controller_Reconcile KubernetesAuthEngineRole_VaultObject E (VaultResource_Reconcile KubernetesAuthEngineRole_VaultObject E) ns n"

end
