(* ===== verification/SecretConfigs.thy ===== *)
theory SecretConfigs
  imports AuthRoles
begin

text \<open>
  The configurations of the secret engines that are plain resources
  (\<open>api/v1alpha1/quaysecretengineconfig_types.go\<close>, \<open>githubsecretengineconfig_types.go\<close>,
  \<open>azuresecretengineconfig_types.go\<close>, \<open>kubernetessecretengineconfig_types.go\<close>): data, payload,
  the retrieval of credentials, the methods of \<open>VaultObject\<close>, and the controller.
\<close>

section \<open>QuaySecretEngineConfig\<close>

record QuayConfig =
  qc_URL :: string
  qc_CACertertificate :: string
  qc_DisableSslVerification :: bool
  qc_retrievedToken :: string

record QuaySecretEngineConfigSpec = BaseSpec +
  qc_Path :: string
  spec_QuayConfig :: QuayConfig
  qc_RootCredentials :: RootCredentialConfig

type_synonym QuaySecretEngineConfig = "(QuaySecretEngineConfigSpec, BaseStatus) crd"

definition QuayConfig_toMap :: "QuayConfig \<Rightarrow> gmap" where
  "QuayConfig_toMap i = fmap_of_list
     [(''url'', VStr (qc_URL i)),
      (''token'', VStr (qc_retrievedToken i)),
      (''ca_certificate'', VStr (qc_CACertertificate i)),
      (''disable_ssl_verification'', VBool (qc_DisableSslVerification i))]"

definition QuaySecretEngineConfig_SetToken :: "string \<Rightarrow> QuaySecretEngineConfig \<Rightarrow> QuaySecretEngineConfig" where
  "QuaySecretEngineConfig_SetToken token m =
     m\<lparr>Spec := (Spec m)\<lparr>spec_QuayConfig := (spec_QuayConfig (Spec m))\<lparr>qc_retrievedToken := token\<rparr>\<rparr>\<rparr>"

definition QuaySecretEngineConfig_setInternalCredentials ::
  "QuaySecretEngineConfig env \<Rightarrow> vault_client \<Rightarrow> (QuaySecretEngineConfig, unit) go" where
  "QuaySecretEngineConfig_setInternalCredentials E cl = 
     bindG getG (\<lambda>q.
       let rc = qc_RootCredentials (Spec q); set_token = (\<lambda>t. modifyG (QuaySecretEngineConfig_SetToken t))
       in from_credentials E cl (GetNamespace q) rc
            (\<lambda>rs s. bindG (data_string s (SecretKey (Spec rs))) set_token)
            (\<lambda>s. set_token (str_at (sec_Data s) (rc_PasswordKey rc)))
            (\<lambda>s. bindG (data_string s (rc_PasswordKey rc)) set_token))"

definition QuaySecretEngineConfig_GetPath :: "QuaySecretEngineConfig \<Rightarrow> string" where
  "QuaySecretEngineConfig_GetPath d = qc_Path (Spec d) @ ''/'' @ ''config''"

definition QuaySecretEngineConfig_GetPayload :: "QuaySecretEngineConfig \<Rightarrow> gmap" where
  "QuaySecretEngineConfig_GetPayload d = QuayConfig_toMap (spec_QuayConfig (Spec d))"

definition QuaySecretEngineConfig_IsEquivalentToDesiredState :: "QuaySecretEngineConfig \<Rightarrow> gmap option \<Rightarrow> bool" where
  "QuaySecretEngineConfig_IsEquivalentToDesiredState d payload =
     (let desiredState = QuayConfig_toMap (spec_QuayConfig (Spec d)) in payload = Some (fmdrop ''password'' desiredState))"

definition QuaySecretEngineConfig_VaultObject :: "QuaySecretEngineConfig VaultObject" where
  "QuaySecretEngineConfig_VaultObject =
     \<lparr>GetPath = QuaySecretEngineConfig_GetPath,
      GetPayload = QuaySecretEngineConfig_GetPayload,
      IsEquivalentToDesiredState = QuaySecretEngineConfig_IsEquivalentToDesiredState,
      IsInitialized = (\<lambda>_. True),
      IsValid = (\<lambda>d. somes [ValidateEitherFromVaultSecretOrFromSecretOrFromRandomSecret (qc_RootCredentials (Spec d))]),
      IsDeletable = (\<lambda>_. False),
      PrepareInternalValues = QuaySecretEngineConfig_setInternalCredentials,
      PrepareTLSConfig = QuaySecretEngineConfig_setInternalCredentials\<rparr>"

definition QuaySecretEngineConfigReconciler_Reconcile ::
  "QuaySecretEngineConfig env \<Rightarrow> string \<Rightarrow> string \<Rightarrow> (QuaySecretEngineConfig, Result) go" where
  "QuaySecretEngineConfigReconciler_Reconcile E ns n =
     controller_Reconcile QuaySecretEngineConfig_VaultObject E (VaultResource_Reconcile QuaySecretEngineConfig_VaultObject E) ns n"

section \<open>GitHubSecretEngineConfig\<close>

record GHConfig =
  gh_ApplicationID :: int
  gh_GitHubAPIBaseURL :: string
  gh_retrievedSSHKey :: string

record SSHKeyConfig =
  ssh_VaultSecret :: "string option"
  ssh_Secret :: "LocalObjectReference option"

record GitHubSecretEngineConfigSpec = BaseSpec +
  gh_Path :: string
  spec_GHConfig :: GHConfig
  gh_SSHKeyReference :: SSHKeyConfig

type_synonym GitHubSecretEngineConfig = "(GitHubSecretEngineConfigSpec, BaseStatus) crd"

definition GHConfig_toMap :: "GHConfig \<Rightarrow> gmap" where
  "GHConfig_toMap i = fmap_of_list
     [(''app_id'', VInt64 (gh_ApplicationID i)),
      (''prv_key'', VStr (gh_retrievedSSHKey i)),
      (''base_url'', VStr (gh_GitHubAPIBaseURL i))]"

definition GitHubSecretEngineConfig_set_retrievedSSHKey :: "string \<Rightarrow> GitHubSecretEngineConfig \<Rightarrow> GitHubSecretEngineConfig" where
  "GitHubSecretEngineConfig_set_retrievedSSHKey key m =
     m\<lparr>Spec := (Spec m)\<lparr>spec_GHConfig := (spec_GHConfig (Spec m))\<lparr>gh_retrievedSSHKey := key\<rparr>\<rparr>\<rparr>"

text \<open>
  A secret read with \<open>Logical().Read\<close>, whose \<open>Data\<close> is used without a test for nil, and a
  Kubernetes secret that must be of a given type.
\<close>

definition read_key :: "'o env \<Rightarrow> vault_client \<Rightarrow> string \<Rightarrow> ('o, string) go" where
  "read_key E cl path =
     bindG (askG (VaultRead cl path) (\<lambda>tr. vault_read E tr cl path)) (\<lambda>r. case r of
         Inl err \<Rightarrow> errG err
       | Inr None \<Rightarrow> panicG ''nil pointer dereference''
       | Inr (Some s) \<Rightarrow> data_string s ''key'')"

definition typed_secret_key :: "k8s_secret \<Rightarrow> string \<Rightarrow> string \<Rightarrow> ('o, string) go" where
  "typed_secret_key secret type key =
     (if sec_Type secret \<noteq> type then errG (ErrMsg (''secret must be of type: '' @ type))
      else retG (str_at (sec_Data secret) key))"

definition GitHubSecretEngineConfig_validateEitherFromVaultSecretOrFromSecret ::
  "GitHubSecretEngineConfig \<Rightarrow> error option" where
  "GitHubSecretEngineConfig_validateEitherFromVaultSecretOrFromSecret r =
     (let count = 0 :: nat;
          count = (if ssh_Secret (gh_SSHKeyReference (Spec r)) \<noteq> None then count + 1 else count);
          count = (if ssh_VaultSecret (gh_SSHKeyReference (Spec r)) \<noteq> None then count + 1 else count)
      in if count \<noteq> 1
         then Some (ErrMsg (''only one of spec.sSHKeyReference.vaultSecret or '' @
                ''spec.sSHKeyReference.secret can be specified'')) else None)"

definition GitHubSecretEngineConfig_setInternalCredentials ::
  "GitHubSecretEngineConfig env \<Rightarrow> vault_client \<Rightarrow> (GitHubSecretEngineConfig, unit) go" where
  "GitHubSecretEngineConfig_setInternalCredentials E cl = 
     bindG getG (\<lambda>r. let set_key = (\<lambda>k. modifyG (GitHubSecretEngineConfig_set_retrievedSSHKey k)) in
       (case ssh_Secret (gh_SSHKeyReference (Spec r)) of
          Some n \<Rightarrow> with_Secret E (GetNamespace r) n (\<lambda>s.
            bindG (typed_secret_key s ''kubernetes.io/ssh-auth'' ''ssh-privatekey'') set_key)
        | None \<Rightarrow> (case ssh_VaultSecret (gh_SSHKeyReference (Spec r)) of
            Some path \<Rightarrow> bindG (read_key E cl path) set_key
          | None \<Rightarrow> errG no_means)))"

definition GitHubSecretEngineConfig_GetPath :: "GitHubSecretEngineConfig \<Rightarrow> string" where
  "GitHubSecretEngineConfig_GetPath d = gh_Path (Spec d) @ ''/'' @ ''config''"

definition GitHubSecretEngineConfig_GetPayload :: "GitHubSecretEngineConfig \<Rightarrow> gmap" where
  "GitHubSecretEngineConfig_GetPayload d = GHConfig_toMap (spec_GHConfig (Spec d))"

definition GitHubSecretEngineConfig_IsEquivalentToDesiredState :: "GitHubSecretEngineConfig \<Rightarrow> gmap option \<Rightarrow> bool" where
  "GitHubSecretEngineConfig_IsEquivalentToDesiredState d payload =
     (let desiredState = GHConfig_toMap (spec_GHConfig (Spec d)) in payload = Some (fmdrop ''prv_key'' desiredState))"

definition GitHubSecretEngineConfig_VaultObject :: "GitHubSecretEngineConfig VaultObject" where
  "GitHubSecretEngineConfig_VaultObject =
     \<lparr>GetPath = GitHubSecretEngineConfig_GetPath,
      GetPayload = GitHubSecretEngineConfig_GetPayload,
      IsEquivalentToDesiredState = GitHubSecretEngineConfig_IsEquivalentToDesiredState,
      IsInitialized = (\<lambda>_. True),
      IsValid = (\<lambda>d. somes [GitHubSecretEngineConfig_validateEitherFromVaultSecretOrFromSecret d]),
      IsDeletable = (\<lambda>_. False),
      PrepareInternalValues = GitHubSecretEngineConfig_setInternalCredentials,
      PrepareTLSConfig = GitHubSecretEngineConfig_setInternalCredentials\<rparr>"

definition GitHubSecretEngineConfigReconciler_Reconcile ::
  "GitHubSecretEngineConfig env \<Rightarrow> string \<Rightarrow> string \<Rightarrow> (GitHubSecretEngineConfig, Result) go" where
  "GitHubSecretEngineConfigReconciler_Reconcile E ns n =
     controller_Reconcile GitHubSecretEngineConfig_VaultObject E (VaultResource_Reconcile GitHubSecretEngineConfig_VaultObject E) ns n"

section \<open>AzureSecretEngineConfig\<close>

record AzureSEConfig =
  ase_SubscriptionID :: string
  ase_TenantID :: string
  ase_ClientID :: string
  ase_Environment :: string
  ase_PasswordPolicy :: string
  ase_RootPasswordTTL :: string
  ase_retrievedClientID :: string
  ase_retrievedClientPassword :: string

record AzureSecretEngineConfigSpec = BaseSpec +
  ase_Path :: string
  spec_AzureSEConfig :: AzureSEConfig
  ase_AzureCredentials :: RootCredentialConfig

type_synonym AzureSecretEngineConfig = "(AzureSecretEngineConfigSpec, BaseStatus) crd"

definition AzureSEConfig_toMap :: "AzureSEConfig \<Rightarrow> gmap" where
  "AzureSEConfig_toMap i = fmap_of_list
     [(''subscription_id'', VStr (ase_SubscriptionID i)),
      (''tenant_id'', VStr (ase_TenantID i)),
      (''client_id'', VStr (ase_retrievedClientID i)),
      (''client_secret'', VStr (ase_retrievedClientPassword i)),
      (''environment'', VStr (ase_Environment i)),
      (''password_policy'', VStr (ase_PasswordPolicy i)),
      (''root_password_ttl'', VStr (ase_RootPasswordTTL i))]"

definition AzureSecretEngineConfig_SetClientIDAndClientSecret :: "string \<Rightarrow> string \<Rightarrow> AzureSecretEngineConfig \<Rightarrow> AzureSecretEngineConfig" where
  "AzureSecretEngineConfig_SetClientIDAndClientSecret ClientID ClientSecret m =
     m\<lparr>Spec := (Spec m)\<lparr>spec_AzureSEConfig := (spec_AzureSEConfig (Spec m))\<lparr>ase_retrievedClientID := ClientID, ase_retrievedClientPassword := ClientSecret\<rparr>\<rparr>\<rparr>"

text \<open>Credentials that hold nothing but the defaults of the keys count as not given.\<close>

definition default_credentials :: "string \<Rightarrow> string \<Rightarrow> RootCredentialConfig \<Rightarrow> bool" where
  "default_credentials username password rc \<longleftrightarrow> rc =
     \<lparr>rc_VaultSecret = None, rc_Secret = None, rc_RandomSecret = None, rc_PasswordKey = password, rc_UsernameKey = username\<rparr>"

definition AzureSecretEngineConfig_setInternalCredentials ::
  "AzureSecretEngineConfig env \<Rightarrow> vault_client \<Rightarrow> (AzureSecretEngineConfig, unit) go" where
  "AzureSecretEngineConfig_setInternalCredentials E cl = 
     bindG getG (\<lambda>r. from_user_credentials E cl (GetNamespace r) (ase_AzureCredentials (Spec r)) (ase_ClientID (spec_AzureSEConfig (Spec r))) AzureSecretEngineConfig_SetClientIDAndClientSecret)"

definition AzureSecretEngineConfig_PrepareInternalValues ::
  "AzureSecretEngineConfig env \<Rightarrow> vault_client \<Rightarrow> (AzureSecretEngineConfig, unit) go" where
  "AzureSecretEngineConfig_PrepareInternalValues E cl =
     bindG getG (\<lambda>r. if default_credentials ''clientid'' ''clientsecret'' (ase_AzureCredentials (Spec r)) then retG ()
       else AzureSecretEngineConfig_setInternalCredentials E cl)"

definition AzureSecretEngineConfig_GetPath :: "AzureSecretEngineConfig \<Rightarrow> string" where
  "AzureSecretEngineConfig_GetPath d = ase_Path (Spec d) @ ''/'' @ ''config''"

definition AzureSecretEngineConfig_GetPayload :: "AzureSecretEngineConfig \<Rightarrow> gmap" where
  "AzureSecretEngineConfig_GetPayload d = AzureSEConfig_toMap (spec_AzureSEConfig (Spec d))"

definition AzureSecretEngineConfig_IsEquivalentToDesiredState :: "AzureSecretEngineConfig \<Rightarrow> gmap option \<Rightarrow> bool" where
  "AzureSecretEngineConfig_IsEquivalentToDesiredState d payload =
     (let desiredState = AzureSEConfig_toMap (spec_AzureSEConfig (Spec d)) in payload = Some desiredState)"

definition AzureSecretEngineConfig_VaultObject :: "AzureSecretEngineConfig VaultObject" where
  "AzureSecretEngineConfig_VaultObject =
     \<lparr>GetPath = AzureSecretEngineConfig_GetPath,
      GetPayload = AzureSecretEngineConfig_GetPayload,
      IsEquivalentToDesiredState = AzureSecretEngineConfig_IsEquivalentToDesiredState,
      IsInitialized = (\<lambda>_. True),
      IsValid = (\<lambda>d. somes [ValidateEitherFromVaultSecretOrFromSecretOrFromRandomSecret (ase_AzureCredentials (Spec d))]),
      IsDeletable = (\<lambda>_. True),
      PrepareInternalValues = AzureSecretEngineConfig_PrepareInternalValues,
      PrepareTLSConfig = (\<lambda>E cl. retG ())\<rparr>"

definition AzureSecretEngineConfigReconciler_Reconcile ::
  "AzureSecretEngineConfig env \<Rightarrow> string \<Rightarrow> string \<Rightarrow> (AzureSecretEngineConfig, Result) go" where
  "AzureSecretEngineConfigReconciler_Reconcile E ns n =
     controller_Reconcile AzureSecretEngineConfig_VaultObject E (VaultResource_Reconcile AzureSecretEngineConfig_VaultObject E) ns n"

section \<open>KubernetesSecretEngineConfig\<close>

record KubeSEConfig =
  kse_KubernetesHost :: string
  kse_KubernetesCACert :: string
  kse_DisableLocalCAJWT :: bool
  kse_retrievedServiceAccountJWT :: string

record KubernetesSecretEngineConfigSpec = BaseSpec +
  kse_Path :: string
  spec_KubeSEConfig :: KubeSEConfig
  kse_JWTReference :: RootCredentialConfig

type_synonym KubernetesSecretEngineConfig = "(KubernetesSecretEngineConfigSpec, BaseStatus) crd"

definition KubeSEConfig_toMap :: "KubeSEConfig \<Rightarrow> gmap" where
  "KubeSEConfig_toMap i = fmap_of_list
     [(''kubernetes_host'', VStr (kse_KubernetesHost i)),
      (''kubernetes_ca_cert'', VStr (kse_KubernetesCACert i)),
      (''service_account_jwt'', VStr (kse_retrievedServiceAccountJWT i)),
      (''disable_local_ca_jwt'', VBool (kse_DisableLocalCAJWT i))]"

definition KubernetesSecretEngineConfig_set_retrievedServiceAccountJWT :: "string \<Rightarrow> KubernetesSecretEngineConfig \<Rightarrow> KubernetesSecretEngineConfig" where
  "KubernetesSecretEngineConfig_set_retrievedServiceAccountJWT jwt m =
     m\<lparr>Spec := (Spec m)\<lparr>spec_KubeSEConfig := (spec_KubeSEConfig (Spec m))\<lparr>kse_retrievedServiceAccountJWT := jwt\<rparr>\<rparr>\<rparr>"

definition KubernetesSecretEngineConfig_setInternalCredentials ::
  "KubernetesSecretEngineConfig env \<Rightarrow> vault_client \<Rightarrow> (KubernetesSecretEngineConfig, unit) go" where
  "KubernetesSecretEngineConfig_setInternalCredentials E cl = 
     bindG getG (\<lambda>r. let set_jwt = (\<lambda>k. modifyG (KubernetesSecretEngineConfig_set_retrievedServiceAccountJWT k)) in
       (case rc_Secret (kse_JWTReference (Spec r)) of
          Some n \<Rightarrow> with_Secret E (GetNamespace r) n (\<lambda>s.
            bindG (typed_secret_key s ''kubernetes.io/service-account-token'' ''token'') set_jwt)
        | None \<Rightarrow> (case rc_VaultSecret (kse_JWTReference (Spec r)) of
            Some path \<Rightarrow> bindG (read_key E cl path) set_jwt
          | None \<Rightarrow> errG no_means)))"

definition KubernetesSecretEngineConfig_GetPath :: "KubernetesSecretEngineConfig \<Rightarrow> string" where
  "KubernetesSecretEngineConfig_GetPath d = kse_Path (Spec d) @ ''/'' @ ''config''"

definition KubernetesSecretEngineConfig_GetPayload :: "KubernetesSecretEngineConfig \<Rightarrow> gmap" where
  "KubernetesSecretEngineConfig_GetPayload d = KubeSEConfig_toMap (spec_KubeSEConfig (Spec d))"

definition KubernetesSecretEngineConfig_IsEquivalentToDesiredState :: "KubernetesSecretEngineConfig \<Rightarrow> gmap option \<Rightarrow> bool" where
  "KubernetesSecretEngineConfig_IsEquivalentToDesiredState d payload =
     (let desiredState = KubeSEConfig_toMap (spec_KubeSEConfig (Spec d)) in payload = Some (fmdrop ''service_account_jwt'' desiredState))"

definition KubernetesSecretEngineConfig_VaultObject :: "KubernetesSecretEngineConfig VaultObject" where
  "KubernetesSecretEngineConfig_VaultObject =
     \<lparr>GetPath = KubernetesSecretEngineConfig_GetPath,
      GetPayload = KubernetesSecretEngineConfig_GetPayload,
      IsEquivalentToDesiredState = KubernetesSecretEngineConfig_IsEquivalentToDesiredState,
      IsInitialized = (\<lambda>_. True),
      IsValid = (\<lambda>d. somes [ValidateEitherFromVaultSecretOrFromSecret (kse_JWTReference (Spec d))]),
      IsDeletable = (\<lambda>_. True),
      PrepareInternalValues = KubernetesSecretEngineConfig_setInternalCredentials,
      PrepareTLSConfig = (\<lambda>E cl. retG ())\<rparr>"

definition KubernetesSecretEngineConfigReconciler_Reconcile ::
  "KubernetesSecretEngineConfig env \<Rightarrow> string \<Rightarrow> string \<Rightarrow> (KubernetesSecretEngineConfig, Result) go" where
  "KubernetesSecretEngineConfigReconciler_Reconcile E ns n =
     controller_Reconcile KubernetesSecretEngineConfig_VaultObject E (VaultResource_Reconcile KubernetesSecretEngineConfig_VaultObject E) ns n"

end
