(* ===== verification/AuthConfigs.thy ===== *)
theory AuthConfigs
  imports SecretConfigs
begin

text \<open>
  The configurations of the authentication engines
  (\<open>api/v1alpha1/azureauthengineconfig_types.go\<close>, \<open>gcpauthengineconfig_types.go\<close>,
  \<open>jwtoidcauthengineconfig_types.go\<close>, \<open>ldapauthengineconfig_types.go\<close>,
  \<open>kubernetesauthengineconfig_types.go\<close>): data, payload, the retrieval of credentials and
  certificates, the methods of \<open>VaultObject\<close>, and the controller.
\<close>

section \<open>AzureAuthEngineConfig\<close>

record AzureConfig =
  aae_TenantID :: string
  aae_Resource :: string
  aae_Environment :: string
  aae_ClientID :: string
  aae_MaxRetries :: int
  aae_MaxRetryDelay :: int
  aae_RetryDelay :: int
  aae_retrievedClientID :: string
  aae_retrievedClientPassword :: string

record AzureAuthEngineConfigSpec = BaseSpec +
  aae_Path :: string
  spec_AzureConfig :: AzureConfig
  aae_AzureCredentials :: RootCredentialConfig

type_synonym AzureAuthEngineConfig = "(AzureAuthEngineConfigSpec, BaseStatus) crd"

definition AzureConfig_toMap :: "AzureConfig \<Rightarrow> gmap" where
  "AzureConfig_toMap i = fmap_of_list
     [(''tenant_id'', VStr (aae_TenantID i)),
      (''resource'', VStr (aae_Resource i)),
      (''environment'', VStr (aae_Environment i)),
      (''client_id'', VStr (aae_retrievedClientID i)),
      (''client_secret'', VStr (aae_retrievedClientPassword i)),
      (''max_retries'', VInt64 (aae_MaxRetries i)),
      (''max_retry_delay'', VInt64 (aae_MaxRetryDelay i)),
      (''retry_delay'', VInt64 (aae_RetryDelay i))]"

definition AzureAuthEngineConfig_SetClientIDAndClientSecret :: "string \<Rightarrow> string \<Rightarrow> AzureAuthEngineConfig \<Rightarrow> AzureAuthEngineConfig" where
  "AzureAuthEngineConfig_SetClientIDAndClientSecret ClientID ClientSecret m =
     m\<lparr>Spec := (Spec m)\<lparr>spec_AzureConfig := (spec_AzureConfig (Spec m))\<lparr>aae_retrievedClientID := ClientID, aae_retrievedClientPassword := ClientSecret\<rparr>\<rparr>\<rparr>"

definition AzureAuthEngineConfig_setInternalCredentials ::
  "AzureAuthEngineConfig env \<Rightarrow> vault_client \<Rightarrow> (AzureAuthEngineConfig, unit) go" where
  "AzureAuthEngineConfig_setInternalCredentials E cl = 
     bindG getG (\<lambda>r. from_user_credentials E cl (GetNamespace r) (aae_AzureCredentials (Spec r)) (aae_ClientID (spec_AzureConfig (Spec r))) AzureAuthEngineConfig_SetClientIDAndClientSecret)"

definition AzureAuthEngineConfig_PrepareInternalValues ::
  "AzureAuthEngineConfig env \<Rightarrow> vault_client \<Rightarrow> (AzureAuthEngineConfig, unit) go" where
  "AzureAuthEngineConfig_PrepareInternalValues E cl =
     bindG getG (\<lambda>r. if default_credentials ''clientid'' ''clientsecret'' (aae_AzureCredentials (Spec r)) then retG ()
       else AzureAuthEngineConfig_setInternalCredentials E cl)"

definition AzureAuthEngineConfig_GetPath :: "AzureAuthEngineConfig \<Rightarrow> string" where
  "AzureAuthEngineConfig_GetPath d = CleansePath (''auth/'' @ aae_Path (Spec d) @ ''/config'')"

definition AzureAuthEngineConfig_GetPayload :: "AzureAuthEngineConfig \<Rightarrow> gmap" where
  "AzureAuthEngineConfig_GetPayload d = AzureConfig_toMap (spec_AzureConfig (Spec d))"

definition AzureAuthEngineConfig_IsEquivalentToDesiredState :: "AzureAuthEngineConfig \<Rightarrow> gmap option \<Rightarrow> bool" where
  "AzureAuthEngineConfig_IsEquivalentToDesiredState d payload =
     (let desiredState = AzureConfig_toMap (spec_AzureConfig (Spec d)) in payload = Some desiredState)"

definition AzureAuthEngineConfig_VaultObject :: "AzureAuthEngineConfig VaultObject" where
  "AzureAuthEngineConfig_VaultObject =
     \<lparr>GetPath = AzureAuthEngineConfig_GetPath,
      GetPayload = AzureAuthEngineConfig_GetPayload,
      IsEquivalentToDesiredState = AzureAuthEngineConfig_IsEquivalentToDesiredState,
      IsInitialized = (\<lambda>_. True),
      IsValid = (\<lambda>d. []),
      IsDeletable = (\<lambda>_. True),
      PrepareInternalValues = AzureAuthEngineConfig_PrepareInternalValues,
      PrepareTLSConfig = (\<lambda>E cl. retG ())\<rparr>"

definition AzureAuthEngineConfigReconciler_Reconcile ::
  "AzureAuthEngineConfig env \<Rightarrow> string \<Rightarrow> string \<Rightarrow> (AzureAuthEngineConfig, Result) go" where
  "AzureAuthEngineConfigReconciler_Reconcile E ns n =
     controller_Reconcile AzureAuthEngineConfig_VaultObject E (VaultResource_Reconcile AzureAuthEngineConfig_VaultObject E) ns n"

section \<open>GCPAuthEngineConfig\<close>

record GCPConfig =
  gcp_ServiceAccount :: string
  gcp_IAMalias :: string
  gcp_IAMmetadata :: string
  gcp_GCEalias :: string
  gcp_GCEmetadata :: string
  gcp_CustomEndpoint :: "string option"
  gcp_retrievedServiceAccount :: string
  gcp_retrievedCredentials :: string

record GCPAuthEngineConfigSpec = BaseSpec +
  gcp_Path :: string
  spec_GCPConfig :: GCPConfig
  gcp_GCPCredentials :: RootCredentialConfig

type_synonym GCPAuthEngineConfig = "(GCPAuthEngineConfigSpec, BaseStatus) crd"

definition GCPConfig_toMap :: "GCPConfig \<Rightarrow> gmap" where
  "GCPConfig_toMap i = fmap_of_list
     [(''credentials'', VStr (gcp_retrievedCredentials i)),
      (''iam_alias'', VStr (gcp_IAMalias i)),
      (''iam_metadata'', VStr (gcp_IAMmetadata i)),
      (''gce_alias'', VStr (gcp_GCEalias i)),
      (''gce_metadata'', VStr (gcp_GCEmetadata i)),
      (''custom_endpoint'', VPtr ''JSON'' (map_option VStr (gcp_CustomEndpoint i)))]"

definition GCPAuthEngineConfig_SetServiceAccountAndCredentials :: "string \<Rightarrow> string \<Rightarrow> GCPAuthEngineConfig \<Rightarrow> GCPAuthEngineConfig" where
  "GCPAuthEngineConfig_SetServiceAccountAndCredentials account credentials m =
     m\<lparr>Spec := (Spec m)\<lparr>spec_GCPConfig := (spec_GCPConfig (Spec m))\<lparr>gcp_retrievedServiceAccount := account, gcp_retrievedCredentials := credentials\<rparr>\<rparr>\<rparr>"

text \<open>With a service account in the spec, the branch of the Kubernetes secret stores the name of the key.\<close>

definition GCPAuthEngineConfig_setInternalCredentials ::
  "GCPAuthEngineConfig env \<Rightarrow> vault_client \<Rightarrow> (GCPAuthEngineConfig, unit) go" where
  "GCPAuthEngineConfig_setInternalCredentials E cl = 
     bindG getG (\<lambda>r.
       let rc = gcp_GCPCredentials (Spec r); account = gcp_ServiceAccount (spec_GCPConfig (Spec r));
           set_account = (\<lambda>a c. modifyG (GCPAuthEngineConfig_SetServiceAccountAndCredentials a c))
       in from_credentials E cl (GetNamespace r) rc
            (\<lambda>rs s. bindG (data_string s (SecretKey (Spec rs))) (\<lambda>p. set_account account p))
            (\<lambda>s. if account = []
                 then set_account (str_at (sec_Data s) (rc_UsernameKey rc)) (str_at (sec_Data s) (rc_PasswordKey rc))
                 else set_account (rc_UsernameKey rc) (str_at (sec_Data s) (rc_PasswordKey rc)))
            (\<lambda>s. if account = []
                 then bindG (data_string s (rc_UsernameKey rc)) (\<lambda>u.
                      bindG (data_string s (rc_PasswordKey rc)) (\<lambda>p. set_account u p))
                 else bindG (data_string s (rc_PasswordKey rc)) (\<lambda>p. set_account account p)))"

definition GCPAuthEngineConfig_PrepareInternalValues ::
  "GCPAuthEngineConfig env \<Rightarrow> vault_client \<Rightarrow> (GCPAuthEngineConfig, unit) go" where
  "GCPAuthEngineConfig_PrepareInternalValues E cl =
     bindG getG (\<lambda>r. if default_credentials ''serviceaccount'' ''credentials'' (gcp_GCPCredentials (Spec r)) then retG ()
       else GCPAuthEngineConfig_setInternalCredentials E cl)"

definition GCPAuthEngineConfig_GetPath :: "GCPAuthEngineConfig \<Rightarrow> string" where
  "GCPAuthEngineConfig_GetPath d = CleansePath (''auth/'' @ gcp_Path (Spec d) @ ''/config'')"

definition GCPAuthEngineConfig_GetPayload :: "GCPAuthEngineConfig \<Rightarrow> gmap" where
  "GCPAuthEngineConfig_GetPayload d = GCPConfig_toMap (spec_GCPConfig (Spec d))"

definition GCPAuthEngineConfig_IsEquivalentToDesiredState :: "GCPAuthEngineConfig \<Rightarrow> gmap option \<Rightarrow> bool" where
  "GCPAuthEngineConfig_IsEquivalentToDesiredState d payload =
     (let desiredState = GCPConfig_toMap (spec_GCPConfig (Spec d)) in payload = Some desiredState)"

definition GCPAuthEngineConfig_VaultObject :: "GCPAuthEngineConfig VaultObject" where
  "GCPAuthEngineConfig_VaultObject =
     \<lparr>GetPath = GCPAuthEngineConfig_GetPath,
      GetPayload = GCPAuthEngineConfig_GetPayload,
      IsEquivalentToDesiredState = GCPAuthEngineConfig_IsEquivalentToDesiredState,
      IsInitialized = (\<lambda>_. True),
      IsValid = (\<lambda>d. []),
      IsDeletable = (\<lambda>_. False),
      PrepareInternalValues = GCPAuthEngineConfig_PrepareInternalValues,
      PrepareTLSConfig = (\<lambda>E cl. retG ())\<rparr>"

definition GCPAuthEngineConfigReconciler_Reconcile ::
  "GCPAuthEngineConfig env \<Rightarrow> string \<Rightarrow> string \<Rightarrow> (GCPAuthEngineConfig, Result) go" where
  "GCPAuthEngineConfigReconciler_Reconcile E ns n =
     controller_Reconcile GCPAuthEngineConfig_VaultObject E (VaultResource_Reconcile GCPAuthEngineConfig_VaultObject E) ns n"

section \<open>JWTOIDCAuthEngineConfig\<close>

record JWTOIDCConfig =
  joc_OIDCDiscoveryURL :: string
  joc_OIDCDiscoveryCAPEM :: string
  joc_OIDCClientID :: string
  joc_OIDCResponseMode :: string
  joc_OIDCResponseTypes :: "string list option"
  joc_JWKSURL :: string
  joc_JWKSCAPEM :: string
  joc_JWTValidationPubKeys :: "string list option"
  joc_BoundIssuer :: string
  joc_JWTSupportedAlgs :: "string list option"
  joc_DefaultRole :: string
  joc_ProviderConfig :: "string option"
  joc_NamespaceInState :: bool
  joc_retrievedClientID :: string
  joc_retrievedClientPassword :: string

record JWTOIDCAuthEngineConfigSpec = BaseSpec +
  joc_Path :: string
  spec_JWTOIDCConfig :: JWTOIDCConfig
  joc_OIDCCredentials :: "RootCredentialConfig option"

type_synonym JWTOIDCAuthEngineConfig = "(JWTOIDCAuthEngineConfigSpec, BaseStatus) crd"

definition JWTOIDCConfig_toMap :: "JWTOIDCConfig \<Rightarrow> gmap" where
  "JWTOIDCConfig_toMap i = fmap_of_list
     [(''oidc_discovery_url'', VStr (joc_OIDCDiscoveryURL i)),
      (''oidc_discovery_ca_pem'', VStr (joc_OIDCDiscoveryCAPEM i)),
      (''oidc_client_id'', VStr (joc_retrievedClientID i)),
      (''oidc_client_secret'', VStr (joc_retrievedClientPassword i)),
      (''oidc_response_mode'', VStr (joc_OIDCResponseMode i)),
      (''oidc_response_types'', VStrs (joc_OIDCResponseTypes i)),
      (''jwks_url'', VStr (joc_JWKSURL i)),
      (''jwks_ca_pem'', VStr (joc_JWKSCAPEM i)),
      (''jwt_validation_pubkeys'', VStrs (joc_JWTValidationPubKeys i)),
      (''bound_issuer'', VStr (joc_BoundIssuer i)),
      (''jwt_supported_algs'', VStrs (joc_JWTSupportedAlgs i)),
      (''default_role'', VStr (joc_DefaultRole i)),
      (''provider_config'', VPtr ''JSON'' (map_option VStr (joc_ProviderConfig i))),
      (''namespace_in_state'', VBool (joc_NamespaceInState i))]"

definition JWTOIDCAuthEngineConfig_SetUsernameAndPassword :: "string \<Rightarrow> string \<Rightarrow> JWTOIDCAuthEngineConfig \<Rightarrow> JWTOIDCAuthEngineConfig" where
  "JWTOIDCAuthEngineConfig_SetUsernameAndPassword OIDCClientID OIDCClientSecret m =
     m\<lparr>Spec := (Spec m)\<lparr>spec_JWTOIDCConfig := (spec_JWTOIDCConfig (Spec m))\<lparr>joc_retrievedClientID := OIDCClientID, joc_retrievedClientPassword := OIDCClientSecret\<rparr>\<rparr>\<rparr>"

definition JWTOIDCAuthEngineConfig_setInternalCredentials ::
  "JWTOIDCAuthEngineConfig env \<Rightarrow> vault_client \<Rightarrow> (JWTOIDCAuthEngineConfig, unit) go" where
  "JWTOIDCAuthEngineConfig_setInternalCredentials E cl = 
     bindG getG (\<lambda>r. case joc_OIDCCredentials (Spec r) of
        Some rc \<Rightarrow> from_user_credentials E cl (GetNamespace r) rc (joc_OIDCClientID (spec_JWTOIDCConfig (Spec r)))
          JWTOIDCAuthEngineConfig_SetUsernameAndPassword
      | None \<Rightarrow> retG ())"

text \<open>
  The test for default credentials compares a pointer with a struct: \<open>DeepEqual\<close> of values of
  different types is false.
\<close>

definition joc_default_credentials :: "RootCredentialConfig option \<Rightarrow> bool" where
  "joc_default_credentials rc = False"

definition JWTOIDCAuthEngineConfig_PrepareInternalValues ::
  "JWTOIDCAuthEngineConfig env \<Rightarrow> vault_client \<Rightarrow> (JWTOIDCAuthEngineConfig, unit) go" where
  "JWTOIDCAuthEngineConfig_PrepareInternalValues E cl =
     bindG getG (\<lambda>r. if joc_default_credentials (joc_OIDCCredentials (Spec r)) then retG ()
       else JWTOIDCAuthEngineConfig_setInternalCredentials E cl)"

definition JWTOIDCAuthEngineConfig_GetPath :: "JWTOIDCAuthEngineConfig \<Rightarrow> string" where
  "JWTOIDCAuthEngineConfig_GetPath d = CleansePath (''auth/'' @ joc_Path (Spec d) @ ''/config'')"

definition JWTOIDCAuthEngineConfig_GetPayload :: "JWTOIDCAuthEngineConfig \<Rightarrow> gmap" where
  "JWTOIDCAuthEngineConfig_GetPayload d = JWTOIDCConfig_toMap (spec_JWTOIDCConfig (Spec d))"

definition JWTOIDCAuthEngineConfig_IsEquivalentToDesiredState :: "JWTOIDCAuthEngineConfig \<Rightarrow> gmap option \<Rightarrow> bool" where
  "JWTOIDCAuthEngineConfig_IsEquivalentToDesiredState d payload =
     (let desiredState = JWTOIDCConfig_toMap (spec_JWTOIDCConfig (Spec d)) in payload = Some desiredState)"

definition JWTOIDCAuthEngineConfig_VaultObject :: "JWTOIDCAuthEngineConfig VaultObject" where
  "JWTOIDCAuthEngineConfig_VaultObject =
     \<lparr>GetPath = JWTOIDCAuthEngineConfig_GetPath,
      GetPayload = JWTOIDCAuthEngineConfig_GetPayload,
      IsEquivalentToDesiredState = JWTOIDCAuthEngineConfig_IsEquivalentToDesiredState,
      IsInitialized = (\<lambda>_. True),
      IsValid = (\<lambda>d. []),
      IsDeletable = (\<lambda>_. False),
      PrepareInternalValues = JWTOIDCAuthEngineConfig_PrepareInternalValues,
      PrepareTLSConfig = (\<lambda>E cl. retG ())\<rparr>"

definition JWTOIDCAuthEngineConfigReconciler_Reconcile ::
  "JWTOIDCAuthEngineConfig env \<Rightarrow> string \<Rightarrow> string \<Rightarrow> (JWTOIDCAuthEngineConfig, Result) go" where
  "JWTOIDCAuthEngineConfigReconciler_Reconcile E ns n =
     controller_Reconcile JWTOIDCAuthEngineConfig_VaultObject E (VaultResource_Reconcile JWTOIDCAuthEngineConfig_VaultObject E) ns n"

section \<open>LDAPAuthEngineConfig\<close>

record LDAPConfig =
  ldap_URL :: string
  ldap_CaseSensitiveNames :: bool
  ldap_RequestTimeout :: string
  ldap_StartTLS :: bool
  ldap_TLSMinVersion :: string
  ldap_TLSMaxVersion :: string
  ldap_InsecureTLS :: bool
  ldap_Certificate :: string
  ldap_ClientTLSCert :: string
  ldap_ClientTLSKey :: string
  ldap_BindDN :: string
  ldap_UserDN :: string
  ldap_UserAttr :: string
  ldap_DiscoverDN :: bool
  ldap_DenyNullBind :: bool
  ldap_UPNDomain :: string
  ldap_UserFilter :: string
  ldap_AnonymousGroupSearch :: bool
  ldap_GroupFilter :: string
  ldap_GroupDN :: string
  ldap_GroupAttr :: string
  ldap_UsernameAsAlias :: bool
  ldap_TokenTTL :: string
  ldap_TokenMaxTTL :: string
  ldap_TokenPolicies :: string
  ldap_TokenBoundCIDRs :: string
  ldap_TokenExplicitMaxTTL :: string
  ldap_TokenNoDefaultPolicy :: bool
  ldap_TokenNumUses :: int
  ldap_TokenPeriod :: int
  ldap_TokenType :: string
  ldap_retrievedPassword :: string
  ldap_retrievedUsername :: string
  ldap_retrievedCertificate :: string
  ldap_retrievedClientTLSCert :: string
  ldap_retrievedClientTLSKey :: string

record LDAPAuthEngineConfigSpec = BaseSpec +
  ldap_Path :: string
  spec_LDAPConfig :: LDAPConfig
  ldap_BindCredentials :: RootCredentialConfig
  ldap_TLSConfig :: TLSConfig

type_synonym LDAPAuthEngineConfig = "(LDAPAuthEngineConfigSpec, BaseStatus) crd"

text \<open>
  Certificates given in the spec win over retrieved ones; the method stores them in the
  object it is called on, which changes nothing it would answer later.
\<close>

definition own_certificates :: "LDAPConfig \<Rightarrow> LDAPConfig" where
  "own_certificates i =
     (if ldap_Certificate i \<noteq> [] \<or> ldap_ClientTLSCert i \<noteq> [] \<or> ldap_ClientTLSKey i \<noteq> []
      then i\<lparr>ldap_retrievedCertificate := ldap_Certificate i, ldap_retrievedClientTLSCert := ldap_ClientTLSCert i,
             ldap_retrievedClientTLSKey := ldap_ClientTLSKey i\<rparr>
      else i)"

definition LDAPConfig_toMap :: "LDAPConfig \<Rightarrow> gmap" where
  "LDAPConfig_toMap config = (let i = own_certificates config in fmap_of_list
     [(''url'', VStr (ldap_URL i)),
      (''case_sensitive_names'', VBool (ldap_CaseSensitiveNames i)),
      (''request_timeout'', VStr (ldap_RequestTimeout i)),
      (''starttls'', VBool (ldap_StartTLS i)),
      (''tls_min_version'', VStr (ldap_TLSMinVersion i)),
      (''tls_max_version'', VStr (ldap_TLSMaxVersion i)),
      (''insecure_tls'', VBool (ldap_InsecureTLS i)),
      (''certificate'', VStr (ldap_retrievedCertificate i)),
      (''client_tls_cert'', VStr (ldap_retrievedClientTLSCert i)),
      (''client_tls_key'', VStr (ldap_retrievedClientTLSKey i)),
      (''binddn'', VStr (ldap_retrievedUsername i)),
      (''bindpass'', VStr (ldap_retrievedPassword i)),
      (''userdn'', VStr (ldap_UserDN i)),
      (''userattr'', VStr (ldap_UserAttr i)),
      (''discoverdn'', VBool (ldap_DiscoverDN i)),
      (''deny_null_bind'', VBool (ldap_DenyNullBind i)),
      (''upndomain'', VStr (ldap_UPNDomain i)),
      (''userfilter'', VStr (ldap_UserFilter i)),
      (''anonymous_group_search'', VBool (ldap_AnonymousGroupSearch i)),
      (''groupfilter'', VStr (ldap_GroupFilter i)),
      (''groupdn'', VStr (ldap_GroupDN i)),
      (''groupattr'', VStr (ldap_GroupAttr i)),
      (''username_as_alias'', VBool (ldap_UsernameAsAlias i)),
      (''token_ttl'', VStr (ldap_TokenTTL i)),
      (''token_max_ttl'', VStr (ldap_TokenMaxTTL i)),
      (''token_policies'', VStr (ldap_TokenPolicies i)),
      (''token_bound_cidrs'', VStr (ldap_TokenBoundCIDRs i)),
      (''token_explicit_max_ttl'', VStr (ldap_TokenExplicitMaxTTL i)),
      (''token_no_default_policy'', VBool (ldap_TokenNoDefaultPolicy i)),
      (''token_num_uses'', VInt64 (ldap_TokenNumUses i)),
      (''token_period'', VInt64 (ldap_TokenPeriod i)),
      (''token_type'', VStr (ldap_TokenType i))])"

definition LDAPAuthEngineConfig_SetUsernameAndPassword :: "string \<Rightarrow> string \<Rightarrow> LDAPAuthEngineConfig \<Rightarrow> LDAPAuthEngineConfig" where
  "LDAPAuthEngineConfig_SetUsernameAndPassword bindDN bindPass m =
     m\<lparr>Spec := (Spec m)\<lparr>spec_LDAPConfig := (spec_LDAPConfig (Spec m))\<lparr>ldap_retrievedPassword := bindPass, ldap_retrievedUsername := bindDN\<rparr>\<rparr>\<rparr>"

definition LDAPAuthEngineConfig_setInternalCredentials ::
  "LDAPAuthEngineConfig env \<Rightarrow> vault_client \<Rightarrow> (LDAPAuthEngineConfig, unit) go" where
  "LDAPAuthEngineConfig_setInternalCredentials E cl = 
     bindG getG (\<lambda>r. from_user_credentials E cl (GetNamespace r) (ldap_BindCredentials (Spec r)) (ldap_BindDN (spec_LDAPConfig (Spec r))) LDAPAuthEngineConfig_SetUsernameAndPassword)"

definition LDAPAuthEngineConfig_set_certificates ::
  "string \<Rightarrow> string \<Rightarrow> string \<Rightarrow> LDAPAuthEngineConfig \<Rightarrow> LDAPAuthEngineConfig" where
  "LDAPAuthEngineConfig_set_certificates ca crt key m =
     m\<lparr>Spec := (Spec m)\<lparr>spec_LDAPConfig := (spec_LDAPConfig (Spec m))\<lparr>ldap_retrievedCertificate := ca,
        ldap_retrievedClientTLSCert := crt, ldap_retrievedClientTLSKey := key\<rparr>\<rparr>\<rparr>"

definition LDAPAuthEngineConfig_setTLSConfig ::
  "LDAPAuthEngineConfig env \<Rightarrow> vault_client \<Rightarrow> (LDAPAuthEngineConfig, unit) go" where
  "LDAPAuthEngineConfig_setTLSConfig E cl =
     bindG getG (\<lambda>r. let c = spec_LDAPConfig (Spec r) in
       (case TLSSecret (ldap_TLSConfig (Spec r)) of
          Some n \<Rightarrow> with_Secret E (GetNamespace r) n (\<lambda>s.
            modifyG (LDAPAuthEngineConfig_set_certificates (str_at (sec_Data s) ''ca.crt'')
              (str_at (sec_Data s) ''tls.crt'') (str_at (sec_Data s) ''tls.key'')))
        | None \<Rightarrow>
            if ldap_Certificate c \<noteq> [] \<or> ldap_ClientTLSCert c \<noteq> [] \<or> ldap_ClientTLSKey c \<noteq> []
            then modifyG (LDAPAuthEngineConfig_set_certificates (ldap_Certificate c) (ldap_ClientTLSCert c) (ldap_ClientTLSKey c))
            else retG ()))"

text \<open>A TLS section that holds nothing but a reference to a secret without a name counts as not given.\<close>

definition LDAPAuthEngineConfig_PrepareTLSConfig ::
  "LDAPAuthEngineConfig env \<Rightarrow> vault_client \<Rightarrow> (LDAPAuthEngineConfig, unit) go" where
  "LDAPAuthEngineConfig_PrepareTLSConfig E cl =
     bindG getG (\<lambda>d.
       if ldap_TLSConfig (Spec d) = \<lparr>Cacert = None, TLSSecret = Some [], SkipVerify = False, TLSServerName = None\<rparr>
       then retG () else LDAPAuthEngineConfig_setTLSConfig E cl)"

definition LDAPAuthEngineConfig_GetPath :: "LDAPAuthEngineConfig \<Rightarrow> string" where
  "LDAPAuthEngineConfig_GetPath d = CleansePath (''auth/'' @ ldap_Path (Spec d) @ ''/config'')"

definition LDAPAuthEngineConfig_GetPayload :: "LDAPAuthEngineConfig \<Rightarrow> gmap" where
  "LDAPAuthEngineConfig_GetPayload d = LDAPConfig_toMap (spec_LDAPConfig (Spec d))"

definition LDAPAuthEngineConfig_IsEquivalentToDesiredState :: "LDAPAuthEngineConfig \<Rightarrow> gmap option \<Rightarrow> bool" where
  "LDAPAuthEngineConfig_IsEquivalentToDesiredState d payload =
     (let desiredState = LDAPConfig_toMap (spec_LDAPConfig (Spec d)) in payload = Some (fmdrop ''bindpass'' desiredState))"

definition LDAPAuthEngineConfig_VaultObject :: "LDAPAuthEngineConfig VaultObject" where
  "LDAPAuthEngineConfig_VaultObject =
     \<lparr>GetPath = LDAPAuthEngineConfig_GetPath,
      GetPayload = LDAPAuthEngineConfig_GetPayload,
      IsEquivalentToDesiredState = LDAPAuthEngineConfig_IsEquivalentToDesiredState,
      IsInitialized = (\<lambda>_. True),
      IsValid = (\<lambda>d. somes [ValidateEitherFromVaultSecretOrFromSecretOrFromRandomSecret (ldap_BindCredentials (Spec d))]),
      IsDeletable = (\<lambda>_. False),
      PrepareInternalValues = LDAPAuthEngineConfig_setInternalCredentials,
      PrepareTLSConfig = LDAPAuthEngineConfig_PrepareTLSConfig\<rparr>"

definition LDAPAuthEngineConfigReconciler_Reconcile ::
  "LDAPAuthEngineConfig env \<Rightarrow> string \<Rightarrow> string \<Rightarrow> (LDAPAuthEngineConfig, Result) go" where
  "LDAPAuthEngineConfigReconciler_Reconcile E ns n =
     controller_Reconcile LDAPAuthEngineConfig_VaultObject E (VaultResource_Reconcile LDAPAuthEngineConfig_VaultObject E) ns n"

section \<open>KubernetesAuthEngineConfig\<close>

record KAECConfig =
  kae_KubernetesHost :: string
  kae_KubernetesCACert :: string
  kae_PEMKeys :: "string list option"
  kae_Issuer :: string
  kae_DisableISSValidation :: bool
  kae_DisableLocalCAJWT :: bool
  kae_UseOperatorPodCA :: bool
  kae_UseAnnotationsAsAliasMetadata :: bool
  kae_retrievedTokenReviewerJWT :: string

record KubernetesAuthEngineConfigSpec = PathSpec +
  spec_KAECConfig :: KAECConfig
  kae_TokenReviewerServiceAccount :: "LocalObjectReference option"

type_synonym KubernetesAuthEngineConfig = "(KubernetesAuthEngineConfigSpec, BaseStatus) crd"

definition KAECConfig_toMap :: "KAECConfig \<Rightarrow> gmap" where
  "KAECConfig_toMap i = fmap_of_list
     [(''kubernetes_host'', VStr (kae_KubernetesHost i)),
      (''kubernetes_ca_cert'', VStr (kae_KubernetesCACert i)),
      (''token_reviewer_jwt'', VStr (kae_retrievedTokenReviewerJWT i)),
      (''pem_keys'', VStrs (kae_PEMKeys i)),
      (''issuer'', VStr (kae_Issuer i)),
      (''disable_iss_validation'', VBool (kae_DisableISSValidation i)),
      (''disable_local_ca_jwt'', VBool (kae_DisableLocalCAJWT i)),
      (''use_annotations_as_alias_metadata'', VBool (kae_UseAnnotationsAsAliasMetadata i))]"

definition KubernetesAuthEngineConfig_set_retrievedTokenReviewerJWT :: "string \<Rightarrow> KubernetesAuthEngineConfig \<Rightarrow> KubernetesAuthEngineConfig" where
  "KubernetesAuthEngineConfig_set_retrievedTokenReviewerJWT jwt m =
     m\<lparr>Spec := (Spec m)\<lparr>spec_KAECConfig := (spec_KAECConfig (Spec m))\<lparr>kae_retrievedTokenReviewerJWT := jwt\<rparr>\<rparr>\<rparr>"

definition KubernetesAuthEngineConfig_PrepareInternalValues ::
  "KubernetesAuthEngineConfig env \<Rightarrow> vault_client \<Rightarrow> (KubernetesAuthEngineConfig, unit) go" where
  "KubernetesAuthEngineConfig_PrepareInternalValues E cl =
     bindG getG (\<lambda>d. case kae_TokenReviewerServiceAccount (Spec d) of
        Some sa \<Rightarrow> bindG (GetJWTTokenWithDuration E sa (GetNamespace d) (60 * 60 * 24 * 365)) (\<lambda>jwt.
          modifyG (KubernetesAuthEngineConfig_set_retrievedTokenReviewerJWT jwt))
      | None \<Rightarrow> retG ())"

definition KubernetesAuthEngineConfig_GetPath :: "KubernetesAuthEngineConfig \<Rightarrow> string" where
  "KubernetesAuthEngineConfig_GetPath d =
     (if Name (Spec d) \<noteq> [] then CleansePath (''auth/'' @ Path (Spec d) @ ''/'' @ Name (Spec d) @ ''/config'')
      else CleansePath (''auth/'' @ Path (Spec d) @ ''/'' @ GetName d @ ''/config''))"

definition KubernetesAuthEngineConfig_GetPayload :: "KubernetesAuthEngineConfig \<Rightarrow> gmap" where
  "KubernetesAuthEngineConfig_GetPayload d = KAECConfig_toMap (spec_KAECConfig (Spec d))"

definition KubernetesAuthEngineConfig_IsEquivalentToDesiredState :: "KubernetesAuthEngineConfig \<Rightarrow> gmap option \<Rightarrow> bool" where
  "KubernetesAuthEngineConfig_IsEquivalentToDesiredState d payload =
     (let desiredState = KAECConfig_toMap (spec_KAECConfig (Spec d)) in payload = Some desiredState)"

definition KubernetesAuthEngineConfig_VaultObject :: "KubernetesAuthEngineConfig VaultObject" where
  "KubernetesAuthEngineConfig_VaultObject =
     \<lparr>GetPath = KubernetesAuthEngineConfig_GetPath,
      GetPayload = KubernetesAuthEngineConfig_GetPayload,
      IsEquivalentToDesiredState = KubernetesAuthEngineConfig_IsEquivalentToDesiredState,
      IsInitialized = (\<lambda>_. True),
      IsValid = (\<lambda>d. []),
      IsDeletable = (\<lambda>_. False),
      PrepareInternalValues = KubernetesAuthEngineConfig_PrepareInternalValues,
      PrepareTLSConfig = (\<lambda>E cl. retG ())\<rparr>"

definition KubernetesAuthEngineConfigReconciler_Reconcile ::
  "KubernetesAuthEngineConfig env \<Rightarrow> string \<Rightarrow> string \<Rightarrow> (KubernetesAuthEngineConfig, Result) go" where
  "KubernetesAuthEngineConfigReconciler_Reconcile E ns n =
     controller_Reconcile KubernetesAuthEngineConfig_VaultObject E (VaultResource_Reconcile KubernetesAuthEngineConfig_VaultObject E) ns n"

end
