(* ===== verification/Float64.thy ===== *)
theory Float64
  imports Complex_Main
begin

text \<open>
  Go's \<open>float64\<close> arithmetic on the values the operator computes with: a value is the
  rational number it denotes, and every operation rounds the exact result to the nearest
  value with a 53-bit significand, ties to even. The magnitudes that occur (percentages,
  counts of seconds) are far from overflow and underflow, which are not modelled. The
  conversion to a 64-bit integer truncates; a value out of range becomes the least integer,
  as on amd64.
\<close>

definition round_even :: "rat \<Rightarrow> int" where
  "round_even z =
     (let f = \<lfloor>z\<rfloor>; r = z - of_int f in
      if r < 1 / 2 then f else if r > 1 / 2 then f + 1 else if even f then f else f + 1)"

fun bit_length :: "nat \<Rightarrow> nat" where
  "bit_length n = (if n = 0 then 0 else Suc (bit_length (n div 2)))"

declare bit_length.simps [simp del]

text \<open>\<open>scale x e = x / 2 ^ e\<close> for an exponent of either sign.\<close>

definition scale :: "rat \<Rightarrow> int \<Rightarrow> rat" where
  "scale x e = (if e \<ge> 0 then x / 2 ^ nat e else x * 2 ^ nat (- e))"

text \<open>The exponent of the last significand bit of a positive value.\<close>

definition last_bit :: "rat \<Rightarrow> int" where
  "last_bit x =
     (case quotient_of x of (n, d) \<Rightarrow>
        let e = int (bit_length (nat n)) - int (bit_length (nat d)) - 53
        in if scale x e < 2 ^ 53 then e else e + 1)"

definition float_round :: "rat \<Rightarrow> rat" where
  "float_round x =
     (if x = 0 then 0
      else if x > 0 then scale (of_int (round_even (scale x (last_bit x)))) (- last_bit x)
      else - scale (of_int (round_even (scale (- x) (last_bit (- x))))) (- last_bit (- x)))"

definition float_of_int :: "int \<Rightarrow> rat" where
  "float_of_int i = float_round (of_int i)"

definition float_div :: "rat \<Rightarrow> rat \<Rightarrow> rat" where
  "float_div x y = float_round (x / y)"

definition float_mult :: "rat \<Rightarrow> rat \<Rightarrow> rat" where
  "float_mult x y = float_round (x * y)"

definition wrap64 :: "int \<Rightarrow> int" where
  "wrap64 i = (i + 2 ^ 63) mod 2 ^ 64 - 2 ^ 63"

definition int_of_float :: "rat \<Rightarrow> int" where
  "int_of_float x =
     (let t = (if x \<ge> 0 then \<lfloor>x\<rfloor> else \<lceil>x\<rceil>)
      in if - (2 ^ 63) \<le> t \<and> t < 2 ^ 63 then t else - (2 ^ 63))"

section \<open>Rounding\<close>

lemma round_even_le: "z \<le> of_int n \<Longrightarrow> round_even z \<le> n"
proof -
  assume z: "z \<le> of_int n"
  then have f: "\<lfloor>z\<rfloor> \<le> n" by (simp add: floor_le_iff)
  show ?thesis
  proof (cases "\<lfloor>z\<rfloor> = n")
    case True
    then have "z = of_int n" using z by linarith
    then show ?thesis by (simp add: round_even_def Let_def)
  next
    case False
    then show ?thesis using f by (auto simp: round_even_def Let_def)
  qed
qed

lemma round_even_ge: "of_int n \<le> z \<Longrightarrow> n \<le> round_even z"
proof -
  assume "of_int n \<le> z"
  then have "n \<le> \<lfloor>z\<rfloor>" by (simp add: le_floor_iff)
  then show ?thesis by (auto simp: round_even_def Let_def)
qed

lemma round_even_near: "\<bar>of_int (round_even z) - z\<bar> \<le> 1 / 2"
  using floor_correct [of z] by (auto simp: round_even_def Let_def abs_le_iff)

lemma scale_scale [simp]: "scale (scale x e) (- e) = x"
  by (cases "e \<ge> 0") (auto simp: scale_def)

lemma scale_pos [simp]: "0 < scale x e \<longleftrightarrow> 0 < x"
  by (simp add: scale_def zero_less_mult_iff zero_less_divide_iff)

lemma scale_mono: "x \<le> y \<Longrightarrow> scale x e \<le> scale y e"
  by (simp add: scale_def divide_right_mono mult_right_mono)

lemma scale_int: "e \<le> 0 \<Longrightarrow> scale (of_int n) e = of_int (n * 2 ^ nat (- e))"
  by (cases "e = 0") (simp_all add: scale_def)

lemma bit_length_bounds: "n > 0 \<Longrightarrow> 2 ^ (bit_length n - 1) \<le> n \<and> n < 2 ^ bit_length n"
proof (induction n rule: bit_length.induct)
  case (1 n)
  show ?case
  proof (cases "n = 1")
    case True
    have "bit_length (Suc 0) = 1" by (simp add: bit_length.simps)
    then show ?thesis using True by simp
  next
    case False
    then have "n div 2 > 0" using "1.prems" by linarith
    then have ih: "2 ^ (bit_length (n div 2) - 1) \<le> n div 2" "n div 2 < 2 ^ bit_length (n div 2)"
      using "1.IH" "1.prems" by auto
    obtain k where k: "bit_length (n div 2) = Suc k"
      using \<open>n div 2 > 0\<close> by (simp add: bit_length.simps [of "n div 2"])
    have "bit_length n = Suc (Suc k)" using "1.prems" k by (simp add: bit_length.simps [of n])
    moreover have "2 ^ Suc k \<le> n" "n < 2 ^ Suc (Suc k)" using ih k by auto
    ultimately show ?thesis by simp
  qed
qed

lemma scale_powi: "scale x e = x * 2 powi (- e)"
proof (cases "e \<ge> 0")
  case True
  then have "(2::rat) powi e = 2 ^ nat e" by (simp add: power_int_def)
  then show ?thesis using True by (simp add: scale_def power_int_minus divide_inverse)
next
  case False
  then have "(2::rat) powi (- e) = 2 ^ nat (- e)" by (simp add: power_int_def)
  then show ?thesis using False by (simp add: scale_def)
qed

lemma last_bit_lower: "x > 0 \<Longrightarrow> 2 ^ 52 \<le> scale x (last_bit x)"
proof -
  assume x: "x > 0"
  obtain n d where q: "quotient_of x = (n, d)" by (cases "quotient_of x")
  then have d: "d > 0" and x_nd: "x = of_int n / of_int d"
    by (simp_all add: quotient_of_denom_pos quotient_of_div)
  then have n: "n > 0" using x by (simp add: zero_less_divide_iff)
  define bn bd where "bn = bit_length (nat n)" and "bd = bit_length (nat d)"
  have bn: "bn > 0" using n by (simp add: bn_def bit_length.simps [of "nat n"])
  have "2 ^ (bn - 1) \<le> n"
    using bit_length_bounds [of "nat n"] n unfolding bn_def by (simp add: le_nat_iff)
  then have ln: "(2::rat) powi (int bn - 1) \<le> of_int n"
    using bn by (simp add: power_int_def nat_diff_distrib)
  have "d < 2 ^ bd"
    using bit_length_bounds [of "nat d"] d unfolding bd_def by (simp add: nat_less_iff)
  then have ld: "of_int d < (2::rat) powi int bd"
    by (simp add: power_int_def)
  let ?e = "int bn - int bd - 53"
  have "(2::rat) powi 52 * of_int d \<le> 2 powi 52 * 2 powi int bd" using ld by simp
  also have "\<dots> = 2 powi (int bn - 1) * 2 powi (- ?e)"
  proof -
    have "(2::rat) powi 52 * 2 powi int bd = 2 powi (52 + int bd)"
      by (rule power_int_add [symmetric]) simp
    moreover have "(2::rat) powi (int bn - 1) * 2 powi (- ?e) = 2 powi ((int bn - 1) + (- ?e))"
      by (rule power_int_add [symmetric]) simp
    moreover have "52 + int bd = (int bn - 1) + (- ?e)" by simp
    ultimately show ?thesis by presburger
  qed
  also have "\<dots> \<le> of_int n * 2 powi (- ?e)" using ln by (simp add: mult_right_mono)
  finally have low: "2 ^ 52 \<le> scale x ?e"
    using d unfolding scale_powi x_nd by (simp add: pos_le_divide_eq)
  have "scale x (?e + 1) * 2 = scale x ?e" by (simp add: scale_powi power_int_add power_int_diff)
  then have "2 ^ 52 \<le> scale x (?e + 1)" if "\<not> scale x ?e < 2 ^ 53" using that by simp
  then show ?thesis using low q by (simp add: last_bit_def Let_def bn_def bd_def)
qed

lemma float_round_le:
  assumes "0 \<le> x" and "x \<le> of_int n" and "n < 2 ^ 53"
  shows "float_round x \<le> of_int n"
proof (cases "x = 0")
  case True
  then show ?thesis using assms by (simp add: float_round_def)
next
  case False
  then have x: "x > 0" using assms(1) by simp
  let ?e = "last_bit x"
  have e: "?e \<le> 0"
  proof (rule ccontr)
    assume "\<not> ?e \<le> 0"
    then have "(2::rat) \<le> 2 ^ nat ?e" using power_increasing [of 1 "nat ?e" "2::rat"] by simp
    moreover have "2 ^ 52 * 2 ^ nat ?e \<le> x"
      using last_bit_lower [OF x] \<open>\<not> ?e \<le> 0\<close> by (simp add: scale_def pos_le_divide_eq)
    ultimately have "2 ^ 53 \<le> x" by simp
    then show False using assms(2,3) by (simp add: not_le [symmetric] del: not_le)
  qed
  have "round_even (scale x ?e) \<le> n * 2 ^ nat (- ?e)"
    by (rule round_even_le) (use scale_mono [OF assms(2), of ?e] e in \<open>simp add: scale_int\<close>)
  then have "scale (of_int (round_even (scale x ?e))) (- ?e) \<le> scale (of_int (n * 2 ^ nat (- ?e))) (- ?e)"
    by (intro scale_mono) (simp only: of_int_le_iff)
  also have "\<dots> = of_int n" using e scale_scale [of "of_int n" ?e] by (simp add: scale_int)
  finally show ?thesis using x by (simp add: float_round_def)
qed

lemma float_round_ge:
  assumes "of_int n \<le> x" and "0 \<le> n" and "n < 2 ^ 53"
  shows "of_int n \<le> float_round x"
proof (cases "x = 0")
  case True
  then show ?thesis using assms by (simp add: float_round_def)
next
  case False
  then have x: "x > 0" using assms by (metis of_int_0_le_iff order.strict_iff_order order_trans)
  let ?e = "last_bit x"
  have "of_int n \<le> scale (of_int (round_even (scale x ?e))) (- ?e)"
  proof (cases "?e \<le> 0")
    case True
    then have "n * 2 ^ nat (- ?e) \<le> round_even (scale x ?e)"
      by (intro round_even_ge) (use scale_mono [OF assms(1), of ?e] in \<open>simp add: scale_int\<close>)
    then have "scale (of_int (n * 2 ^ nat (- ?e))) (- ?e) \<le> scale (of_int (round_even (scale x ?e))) (- ?e)"
      by (intro scale_mono) (simp only: of_int_le_iff)
    then show ?thesis using True scale_scale [of "of_int n" ?e] by (simp add: scale_int)
  next
    case False
    have "2 ^ 52 \<le> round_even (scale x ?e)"
      by (rule round_even_ge) (use last_bit_lower [OF x] in simp)
    then have "(2 ^ 52 :: rat) \<le> of_int (round_even (scale x ?e))"
      by (metis of_int_le_iff of_int_numeral of_int_power)
    moreover have "(2::rat) \<le> 2 ^ nat ?e" using False power_increasing [of 1 "nat ?e" "2::rat"] by simp
    ultimately have "(2 ^ 52 :: rat) * 2 \<le> of_int (round_even (scale x ?e)) * 2 ^ nat ?e"
      by (intro mult_mono) simp_all
    moreover have "(of_int n :: rat) \<le> 2 ^ 53" using assms(3)
      by (metis less_le_not_le linear of_int_le_iff of_int_numeral of_int_power)
    ultimately show ?thesis using False by (simp add: scale_def)
  qed
  then show ?thesis using x by (simp add: float_round_def)
qed

lemma last_bit_upper: "x > 0 \<Longrightarrow> scale x (last_bit x) < 2 ^ 53"
proof -
  assume x: "x > 0"
  obtain n d where q: "quotient_of x = (n, d)" by (cases "quotient_of x")
  then have d: "d > 0" and x_nd: "x = of_int n / of_int d"
    by (simp_all add: quotient_of_denom_pos quotient_of_div)
  then have n: "n > 0" using x by (simp add: zero_less_divide_iff)
  define bn bd where "bn = bit_length (nat n)" and "bd = bit_length (nat d)"
  have bd: "bd > 0" using d by (simp add: bd_def bit_length.simps [of "nat d"])
  have "n < 2 ^ bn"
    using bit_length_bounds [of "nat n"] n unfolding bn_def by (simp add: nat_less_iff)
  then have ln: "of_int n < (2::rat) powi int bn" by (simp add: power_int_def)
  have "2 ^ (bd - 1) \<le> d"
    using bit_length_bounds [of "nat d"] d unfolding bd_def by (simp add: le_nat_iff)
  then have ld: "(2::rat) powi (int bd - 1) \<le> of_int d"
    using bd by (simp add: power_int_def nat_diff_distrib)
  let ?e = "int bn - int bd - 53"
  have "of_int n * 2 powi (- ?e) < 2 powi int bn * (2::rat) powi (- ?e)" using ln by simp
  also have "\<dots> = 2 powi 54 * 2 powi (int bd - 1)"
  proof -
    have "(2::rat) powi int bn * 2 powi (- ?e) = 2 powi (int bn + (- ?e))" by (rule power_int_add [symmetric]) simp
    moreover have "(2::rat) powi 54 * 2 powi (int bd - 1) = 2 powi (54 + (int bd - 1))" by (rule power_int_add [symmetric]) simp
    moreover have "int bn + (- ?e) = 54 + (int bd - 1)" by simp
    ultimately show ?thesis by presburger
  qed
  also have "\<dots> \<le> 2 powi 54 * of_int d" using ld by simp
  finally have up: "scale x ?e < 2 ^ 54"
    using d unfolding scale_powi x_nd by (simp add: pos_divide_less_eq)
  have "scale x (?e + 1) * 2 = scale x ?e" by (simp add: scale_powi power_int_add power_int_diff)
  then have "scale x (?e + 1) < 2 ^ 53" using up by simp
  then show ?thesis using q by (simp add: last_bit_def Let_def bn_def bd_def)
qed

lemma round_even_mono: "z \<le> z' \<Longrightarrow> round_even z \<le> round_even z'"
proof (rule ccontr)
  assume "z \<le> z'" and "\<not> round_even z \<le> round_even z'"
  then have "round_even z' + 1 \<le> round_even z" by simp
  then have "of_int (round_even z') + 1 \<le> (of_int (round_even z) :: rat)" by (metis of_int_1 of_int_add of_int_le_iff)
  then have "z = z'" using round_even_near [of z] round_even_near [of z'] \<open>z \<le> z'\<close> by linarith
  then show False using \<open>\<not> round_even z \<le> round_even z'\<close> by simp
qed

text \<open>Rounding is monotone.\<close>

lemma float_round_mono_pos:
  assumes "0 < x" and "x \<le> y"
  shows "float_round x \<le> float_round y"
proof -
  define e f where "e = last_bit x" and "f = last_bit y"
  have y: "0 < y" using assms by simp
  have x53: "x < 2 ^ 53 * 2 powi e" "2 ^ 52 * 2 powi e \<le> x"
    using last_bit_upper [OF assms(1)] last_bit_lower [OF assms(1)]
    by (simp_all add: e_def scale_powi power_int_minus field_simps)
  have y53: "y < 2 ^ 53 * 2 powi f" "2 ^ 52 * 2 powi f \<le> y"
    using last_bit_upper [OF y] last_bit_lower [OF y] by (simp_all add: f_def scale_powi power_int_minus field_simps)
  have step: "2 * (2::rat) powi a \<le> 2 powi b" if "a < b" for a b :: int
  proof -
    have "(2::rat) powi (a + 1) \<le> 2 powi b" using that by (intro power_int_increasing) simp_all
    then show ?thesis by (simp add: power_int_add)
  qed
  have run: "float_round z = of_int (round_even (scale z (last_bit z))) * 2 powi last_bit z" if "0 < z" for z
    using that by (simp add: float_round_def scale_powi)
  consider "e = f" | "e < f" | "f < e" by linarith
  then show ?thesis
  proof cases
    case 1
    have "round_even (scale x e) \<le> round_even (scale y f)" unfolding 1 by (intro round_even_mono scale_mono assms(2))
    then show ?thesis using 1 by (simp add: run assms(1) y e_def f_def mult_right_mono)
  next
    case 2
    have "round_even (scale x e) \<le> 2 ^ 53"
      by (rule round_even_le) (use last_bit_upper [OF assms(1)] in \<open>simp add: e_def\<close>)
    then have "(of_int (round_even (scale x e)) :: rat) \<le> 2 ^ 53"
      by (metis of_int_le_iff of_int_numeral of_int_power)
    then have "float_round x \<le> 2 ^ 53 * 2 powi e"
      unfolding run [OF assms(1)] e_def [symmetric] by (intro mult_right_mono) simp_all
    also have "\<dots> \<le> 2 ^ 52 * 2 powi f" using step [OF 2] by simp
    also have "\<dots> \<le> float_round y"
    proof -
      have "2 ^ 52 \<le> round_even (scale y f)"
        by (rule round_even_ge) (use last_bit_lower [OF y] in \<open>simp add: f_def\<close>)
      then have "(2 ^ 52 :: rat) \<le> of_int (round_even (scale y f))"
        by (metis of_int_le_iff of_int_numeral of_int_power)
      then show ?thesis unfolding run [OF y] f_def [symmetric] by (intro mult_right_mono) simp_all
    qed
    finally show ?thesis .
  next
    case 3
    then show ?thesis using step [OF 3] x53 y53 assms(2) by simp
  qed
qed

lemma float_round_nonpos: "x \<le> 0 \<Longrightarrow> float_round x \<le> 0"
proof -
  assume x: "x \<le> 0"
  have "0 \<le> round_even (scale (- x) (last_bit (- x)))" by (rule round_even_ge) (use x in \<open>simp add: scale_powi mult_nonpos_nonneg\<close>)
  then show ?thesis using x by (cases "x = 0") (simp_all add: float_round_def scale_powi)
qed

lemma last_bit_unique:
  assumes "0 < x" and "2 ^ 52 \<le> scale x e" and "scale x e < 2 ^ 53"
  shows "last_bit x = e"
proof (rule ccontr)
  have step: "2 * (2::rat) powi a \<le> 2 powi b" if "a < b" for a b :: int
  proof -
    have "(2::rat) powi (a + 1) \<le> 2 powi b" using that by (intro power_int_increasing) simp_all
    then show ?thesis by (simp add: power_int_add)
  qed
  have e: "2 ^ 52 * 2 powi e \<le> x" "x < 2 ^ 53 * 2 powi e"
    using assms(2,3) by (simp_all add: scale_powi power_int_minus field_simps)
  have l: "2 ^ 52 * 2 powi last_bit x \<le> x" "x < 2 ^ 53 * 2 powi last_bit x"
    using last_bit_lower [OF assms(1)] last_bit_upper [OF assms(1)]
    by (simp_all add: scale_powi power_int_minus field_simps)
  assume "last_bit x \<noteq> e"
  then consider "last_bit x < e" | "e < last_bit x" by linarith
  then show False
  proof cases
    case 1
    then show False using step [OF 1] e l by simp
  next
    case 2
    then show False using step [OF 2] e l by simp
  qed
qed

lemma round_even_unique: "\<bar>z - of_int n\<bar> < 1 / 2 \<Longrightarrow> round_even z = n"
proof -
  assume "\<bar>z - of_int n\<bar> < 1 / 2"
  then have "\<bar>of_int (round_even z) - (of_int n :: rat)\<bar> < 1" using round_even_near [of z] by linarith
  then show ?thesis by linarith
qed

lemma float_round_at: "0 < x \<Longrightarrow> last_bit x = e \<Longrightarrow> round_even (scale x e) = n \<Longrightarrow> float_round x = scale (of_int n) (- e)"
  by (simp add: float_round_def)

text \<open>The rounding of 95 percent, and the next value above it.\<close>

lemma round_95: "float_round (95 / 100) = 8556839292003942 / 2 ^ 53"
proof -
  have b: "last_bit (95 / 100) = - 53" by (rule last_bit_unique) (simp_all add: scale_def)
  have "round_even (scale (95 / 100) (- 53)) = 8556839292003942"
    by (rule round_even_unique) (simp add: scale_def)
  from float_round_at [OF _ b this] show ?thesis by (simp add: scale_def)
qed

lemma round_above_95: "float_round (8556839292003943 / 2 ^ 53) = 8556839292003943 / 2 ^ 53"
proof -
  have b: "last_bit (8556839292003943 / 2 ^ 53) = - 53" by (rule last_bit_unique) (simp_all add: scale_def)
  have "round_even (scale (8556839292003943 / 2 ^ 53) (- 53)) = 8556839292003943"
    by (rule round_even_unique) (simp add: scale_def)
  from float_round_at [OF _ b this] show ?thesis by (simp add: scale_def)
qed

lemma float_of_int_exact: "0 \<le> n \<Longrightarrow> n < 2 ^ 53 \<Longrightarrow> float_of_int n = of_int n"
  unfolding float_of_int_def by (intro antisym float_round_le float_round_ge) simp_all

lemma float_round_nonneg: "0 \<le> x \<Longrightarrow> 0 \<le> float_round x"
  using float_round_ge [of 0 x] by simp

lemma int_of_float_bounds:
  "0 \<le> x \<Longrightarrow> x \<le> of_int n \<Longrightarrow> n < 2 ^ 63 \<Longrightarrow> 0 \<le> int_of_float x \<and> int_of_float x \<le> n"
proof -
  assume x: "0 \<le> x" "x \<le> of_int n" and n: "n < 2 ^ 63"
  have "0 \<le> \<lfloor>x\<rfloor>" "\<lfloor>x\<rfloor> \<le> n" using x by (simp_all add: floor_le_iff le_floor_iff)
  then show ?thesis using x n by (simp add: int_of_float_def Let_def)
qed

lemma wrap64_id: "- (2 ^ 63) \<le> i \<Longrightarrow> i < 2 ^ 63 \<Longrightarrow> wrap64 i = i"
  by (simp add: wrap64_def)

text \<open>A percentage of at most 100 takes at most the whole.\<close>

lemma percent_of_bounds:
  assumes "0 \<le> p" and "p \<le> 100" and "0 \<le> n" and "n < 2 ^ 53"
  shows "0 \<le> float_mult (float_of_int n) (float_div (float_of_int p) (float_of_int 100)) \<and>
    float_mult (float_of_int n) (float_div (float_of_int p) (float_of_int 100)) \<le> of_int n"
proof -
  have p: "float_of_int p = of_int p" "float_of_int 100 = 100" "float_of_int n = of_int n"
    using assms by (simp_all add: float_of_int_exact)
  have q: "0 \<le> float_div (of_int p) 100" "float_div (of_int p) 100 \<le> 1"
    unfolding float_div_def using assms float_round_le [of "of_int p / 100" 1] by (simp_all add: float_round_nonneg)
  have "of_int n * float_div (of_int p) 100 \<le> of_int n * 1"
    by (rule mult_left_mono) (use q assms in simp_all)
  then show ?thesis
    unfolding p unfolding float_mult_def using q assms
    by (simp add: float_round_nonneg float_round_le)
qed

end
