(* ===== verification/Database.thy ===== *)
theory Database
  imports Credentials Samples Float64
begin

text \<open>
  The database engine: \<open>DatabaseSecretEngineConfig\<close>
  (\<open>api/v1alpha1/databasesecretengineconfig_types.go\<close>) and the rotation of its root password
  by \<open>controllers/databasesecretengineconfig_controller.go\<close>, with the dynamic and static
  roles (\<open>databasesecretenginerole_types.go\<close>, \<open>databasesecretenginestaticrole_types.go\<close>).
\<close>

section \<open>DatabaseSecretEngineConfig\<close>

record RootPasswordRotation =
  rpr_Enable :: bool
  rpr_RotationPeriod :: int

record DBSEConfig =
  dbc_PluginName :: string
  dbc_PluginVersion :: string
  dbc_VerifyConnection :: bool
  dbc_AllowedRoles :: "string list option"
  dbc_RootRotationStatements :: "string list option"
  dbc_PasswordAuthentication :: string
  dbc_PasswordPolicy :: string
  dbc_ConnectionURL :: string
  dbc_Username :: string
  dbc_DisableEscaping :: bool
  dbc_DatabaseSpecificConfig :: "(string, string) fmap option"
  dbc_retrievedPassword :: string
  dbc_retrievedUsername :: string
  dbc_RootPasswordRotation :: "RootPasswordRotation option"

record DatabaseSecretEngineConfigSpec = PathSpec +
  spec_DBSEConfig :: DBSEConfig
  db_RootCredentials :: RootCredentialConfig

record DatabaseSecretEngineConfigStatus = BaseStatus +
  LastRootPasswordRotation :: "int option"

type_synonym DatabaseSecretEngineConfig = "(DatabaseSecretEngineConfigSpec, DatabaseSecretEngineConfigStatus) crd"

definition toInterfaceArray :: "string list option \<Rightarrow> gval" where
  "toInterfaceArray values = VList (map VStr (case values of None \<Rightarrow> [] | Some vs \<Rightarrow> vs))"

text \<open>
  The settings of the particular database are added after the general ones, under keys the
  user chose, and before the user name, the escaping switch and the password.
\<close>

definition DBSEConfig_toMap :: "DBSEConfig \<Rightarrow> gmap" where
  "DBSEConfig_toMap i =
     (let payload = fmap_of_list
            [(''plugin_name'', VStr (dbc_PluginName i)),
             (''plugin_version'', VStr (dbc_PluginVersion i)),
             (''verify_connection'', VBool (dbc_VerifyConnection i)),
             (''allowed_roles'', toInterfaceArray (dbc_AllowedRoles i)),
             (''root_credentials_rotate_statements'', toInterfaceArray (dbc_RootRotationStatements i)),
             (''password_policy'', VStr (dbc_PasswordPolicy i)),
             (''connection_url'', VStr (dbc_ConnectionURL i))];
          payload = payload ++\<^sub>f (case dbc_DatabaseSpecificConfig i of None \<Rightarrow> fmempty | Some m \<Rightarrow> fmmap VStr m);
          payload = (if dbc_Username i \<noteq> [] then fmupd ''username'' (VStr (dbc_Username i)) payload
                     else if dbc_retrievedUsername i \<noteq> []
                     then fmupd ''username'' (VStr (dbc_retrievedUsername i)) payload else payload);
          payload = fmupd ''disable_escaping'' (VBool (dbc_DisableEscaping i)) payload
      in if dbc_retrievedPassword i \<noteq> [] then fmupd ''password'' (VStr (dbc_retrievedPassword i)) payload
         else payload)"

definition DatabaseSecretEngineConfig_GetPath :: "DatabaseSecretEngineConfig \<Rightarrow> string" where
  "DatabaseSecretEngineConfig_GetPath d =
     (if Name (Spec d) \<noteq> [] then CleansePath (Path (Spec d) @ ''/'' @ ''config'' @ ''/'' @ Name (Spec d))
      else CleansePath (Path (Spec d) @ ''/'' @ ''config'' @ ''/'' @ GetName d))"

definition DatabaseSecretEngineConfig_GetRootPasswordRotationPath :: "DatabaseSecretEngineConfig \<Rightarrow> string" where
  "DatabaseSecretEngineConfig_GetRootPasswordRotationPath d =
     (if Name (Spec d) \<noteq> [] then CleansePath (Path (Spec d) @ ''/'' @ ''rotate-root'' @ ''/'' @ Name (Spec d))
      else CleansePath (Path (Spec d) @ ''/'' @ ''rotate-root'' @ ''/'' @ GetName d))"

definition DatabaseSecretEngineConfig_GetPayload :: "DatabaseSecretEngineConfig \<Rightarrow> gmap" where
  "DatabaseSecretEngineConfig_GetPayload d = DBSEConfig_toMap (spec_DBSEConfig (Spec d))"

text \<open>Reading a key of a map of interface values: a missing key reads as nil.\<close>

definition val_at :: "gmap \<Rightarrow> string \<Rightarrow> gval" where
  "val_at m k = (case fmlookup m k of Some v \<Rightarrow> v | None \<Rightarrow> VNil)"

definition DatabaseSecretEngineConfig_IsEquivalentToDesiredState ::
  "DatabaseSecretEngineConfig \<Rightarrow> gmap option \<Rightarrow> bool" where
  "DatabaseSecretEngineConfig_IsEquivalentToDesiredState d payload =
     (let desiredState = DBSEConfig_toMap (spec_DBSEConfig (Spec d));
          connectionDetails = fmap_of_list
            [(''connection_url'', val_at desiredState ''connection_url''),
             (''disable_escaping'', val_at desiredState ''disable_escaping''),
             (''root_credentials_rotate_statements'', val_at desiredState ''root_credentials_rotate_statements''),
             (''username'', val_at desiredState ''username'')];
          connectionDetails = (if val_at desiredState ''verify_connection'' = VBool True
            then fmupd ''verify_connection'' (val_at desiredState ''verify_connection'') connectionDetails
            else connectionDetails);
          desiredState = fmupd ''connection_details'' (VMap connectionDetails) desiredState
      in payload = Some (fmdrop ''disable_escaping'' (fmdrop ''verify_connection'' (fmdrop ''username''
           (fmdrop ''connection_url'' (fmdrop ''password'' desiredState))))))"

definition DatabaseSecretEngineConfig_SetUsernameAndPassword ::
  "string \<Rightarrow> string \<Rightarrow> DatabaseSecretEngineConfig \<Rightarrow> DatabaseSecretEngineConfig" where
  "DatabaseSecretEngineConfig_SetUsernameAndPassword username password m =
     m\<lparr>Spec := (Spec m)\<lparr>spec_DBSEConfig := (spec_DBSEConfig (Spec m))\<lparr>
        dbc_retrievedPassword := password, dbc_retrievedUsername := username\<rparr>\<rparr>\<rparr>"

definition DatabaseSecretEngineConfig_setInternalCredentials ::
  "DatabaseSecretEngineConfig env \<Rightarrow> vault_client \<Rightarrow> (DatabaseSecretEngineConfig, unit) go" where
  "DatabaseSecretEngineConfig_setInternalCredentials E cl =
     bindG getG (\<lambda>r.
       if LastRootPasswordRotation (Status r) \<noteq> None then retG ()
       else
         let rc = db_RootCredentials (Spec r); user = dbc_Username (spec_DBSEConfig (Spec r));
             set_user = (\<lambda>u p. modifyG (DatabaseSecretEngineConfig_SetUsernameAndPassword u p))
         in from_credentials E cl (GetNamespace r) rc
              (\<lambda>rs s.
                 if spec_IsKVSecretsEngineV2 (Spec rs)
                 then bindG (assert_map (opt_lookup (vs_Data s) ''data'')) (\<lambda>actualData.
                      bindG (assert_string (fmlookup actualData (SecretKey (Spec rs)))) (\<lambda>p. set_user user p))
                 else bindG (data_string s (SecretKey (Spec rs))) (\<lambda>p. set_user user p))
              (\<lambda>s. if user = []
                   then set_user (str_at (sec_Data s) (rc_UsernameKey rc)) (str_at (sec_Data s) (rc_PasswordKey rc))
                   else set_user user (str_at (sec_Data s) (rc_PasswordKey rc)))
              (\<lambda>s. if user = []
                   then bindG (data_string s (rc_UsernameKey rc)) (\<lambda>u.
                        bindG (data_string s (rc_PasswordKey rc)) (\<lambda>p. set_user u p))
                   else bindG (data_string s (rc_PasswordKey rc)) (\<lambda>p. set_user user p)))"

definition DatabaseSecretEngineConfig_isValid :: "DatabaseSecretEngineConfig \<Rightarrow> error option" where
  "DatabaseSecretEngineConfig_isValid r =
     ValidateEitherFromVaultSecretOrFromSecretOrFromRandomSecret (db_RootCredentials (Spec r))"

definition DatabaseSecretEngineConfig_VaultObject :: "DatabaseSecretEngineConfig VaultObject" where
  "DatabaseSecretEngineConfig_VaultObject =
     \<lparr>GetPath = DatabaseSecretEngineConfig_GetPath,
      GetPayload = DatabaseSecretEngineConfig_GetPayload,
      IsEquivalentToDesiredState = DatabaseSecretEngineConfig_IsEquivalentToDesiredState,
      IsInitialized = (\<lambda>_. True),
      IsValid = (\<lambda>r. somes [DatabaseSecretEngineConfig_isValid r]),
      IsDeletable = (\<lambda>_. True),
      PrepareInternalValues = DatabaseSecretEngineConfig_setInternalCredentials,
      PrepareTLSConfig = (\<lambda>E cl. retG ())\<rparr>"

section \<open>Rotating the root password\<close>

definition DatabaseSecretEngineConfig_RotateRootPassword ::
  "DatabaseSecretEngineConfig env \<Rightarrow> vault_client \<Rightarrow> (DatabaseSecretEngineConfig, unit) go" where
  "DatabaseSecretEngineConfig_RotateRootPassword E cl =
     bindG getG (\<lambda>d. writePayload E cl (DatabaseSecretEngineConfig_GetRootPasswordRotationPath d) None)"

definition set_rotated :: "int \<Rightarrow> DatabaseSecretEngineConfig \<Rightarrow> DatabaseSecretEngineConfig" where
  "set_rotated now d = d\<lparr>Status := (Status d)\<lparr>LastRootPasswordRotation := Some now\<rparr>\<rparr>"

definition rotateRootPassword ::
  "DatabaseSecretEngineConfig env \<Rightarrow> vault_client \<Rightarrow> (DatabaseSecretEngineConfig, unit) go" where
  "rotateRootPassword E cl =
     bindG (DatabaseSecretEngineConfig_RotateRootPassword E cl) (\<lambda>_.
     bindG (askG TimeNow (time_now E)) (\<lambda>now.
     bindG (modifyG (set_rotated now)) (\<lambda>_.
     StatusUpdate E)))"

text \<open>
  The second half of the controller's \<open>Reconcile\<close>, run after the configuration itself was
  reconciled: \<open>time.Since\<close> and \<open>time.Until\<close> read the clock, the quotient is a \<open>float64\<close>.
\<close>

definition rotation_due :: "int \<Rightarrow> int \<Rightarrow> bool" where
  "rotation_due since period \<longleftrightarrow> float_div (float_of_int since) (float_of_int period) > float_round (95 / 100)"

definition rotate_then ::
  "DatabaseSecretEngineConfig env \<Rightarrow> vault_client \<Rightarrow> int \<Rightarrow> (DatabaseSecretEngineConfig, Result) go" where
  "rotate_then E cl requeue =
     bindG (tryG (rotateRootPassword E cl)) (\<lambda>r. case r of
         Inl err \<Rightarrow> ManageOutcome (Some DatabaseSecretEngineConfig_VaultObject) E (Some err)
       | Inr _ \<Rightarrow> retG \<lparr>RequeueAfter = requeue\<rparr>)"

definition manage_rotation ::
  "DatabaseSecretEngineConfig env \<Rightarrow> vault_client \<Rightarrow> (DatabaseSecretEngineConfig, Result) go" where
  "manage_rotation E cl =
     bindG getG (\<lambda>instance. case dbc_RootPasswordRotation (spec_DBSEConfig (Spec instance)) of
        None \<Rightarrow> retG \<lparr>RequeueAfter = 0\<rparr>
      | Some rotation \<Rightarrow>
          if \<not> rpr_Enable rotation then retG \<lparr>RequeueAfter = 0\<rparr>
          else (case LastRootPasswordRotation (Status instance) of
             None \<Rightarrow> rotate_then E cl (if rpr_RotationPeriod rotation \<noteq> 0 then rpr_RotationPeriod rotation else 0)
           | Some rotated \<Rightarrow>
               if rpr_RotationPeriod rotation \<noteq> 0 then
                 bindG (askG TimeNow (time_now E)) (\<lambda>now.
                 if rotation_due (time_Sub now rotated) (rpr_RotationPeriod rotation)
                 then rotate_then E cl (rpr_RotationPeriod rotation)
                 else bindG (askG TimeNow (time_now E)) (\<lambda>now.
                      retG \<lparr>RequeueAfter = time_Sub (rotated + rpr_RotationPeriod rotation) now\<rparr>))
               else retG \<lparr>RequeueAfter = 0\<rparr>))"

definition DatabaseSecretEngineConfigReconciler_Reconcile ::
  "DatabaseSecretEngineConfig env \<Rightarrow> string \<Rightarrow> string \<Rightarrow> (DatabaseSecretEngineConfig, Result) go" where
  "DatabaseSecretEngineConfigReconciler_Reconcile E ns n =
     controller_Reconcile DatabaseSecretEngineConfig_VaultObject E
       (\<lambda>cl. bindG (VaultResource_Reconcile DatabaseSecretEngineConfig_VaultObject E cl) (\<lambda>_.
         manage_rotation E cl)) ns n"

section \<open>The contract of a resource\<close>

lemma Database_VaultObject_simps [simp]:
  "GetPath DatabaseSecretEngineConfig_VaultObject = DatabaseSecretEngineConfig_GetPath"
  "GetPayload DatabaseSecretEngineConfig_VaultObject = DatabaseSecretEngineConfig_GetPayload"
  "IsEquivalentToDesiredState DatabaseSecretEngineConfig_VaultObject = DatabaseSecretEngineConfig_IsEquivalentToDesiredState"
  "IsDeletable DatabaseSecretEngineConfig_VaultObject = (\<lambda>_. True)"
  "PrepareInternalValues DatabaseSecretEngineConfig_VaultObject = DatabaseSecretEngineConfig_setInternalCredentials"
  "PrepareTLSConfig DatabaseSecretEngineConfig_VaultObject = (\<lambda>E cl. retG ())"
  by (simp_all add: DatabaseSecretEngineConfig_VaultObject_def)

lemma database_set_user_view [simp]:
  "object_view DatabaseSecretEngineConfig_VaultObject (DatabaseSecretEngineConfig_SetUsernameAndPassword u p d) =
     object_view DatabaseSecretEngineConfig_VaultObject d"
  by (simp add: object_view_def DatabaseSecretEngineConfig_SetUsernameAndPassword_def
      DatabaseSecretEngineConfig_GetPath_def GetName_def GetConditions_def)

lemma keeps_database_credentials:
  assumes "\<And>u p d. I d \<Longrightarrow> I (DatabaseSecretEngineConfig_SetUsernameAndPassword u p d)"
    and "\<And>d. I d \<Longrightarrow> LastRootPasswordRotation (Status d) = None \<Longrightarrow>
      (\<And>c. credential_call E (GetNamespace d) (db_RootCredentials (Spec d)) c \<Longrightarrow> P c)"
  shows "keeps I P (DatabaseSecretEngineConfig_setInternalCredentials E cl)"
  unfolding DatabaseSecretEngineConfig_setInternalCredentials_def Let_def
  by (intro keeps_bind_get keeps_if keeps_ret keeps_mono [OF keeps_from_credentials] emits_intros assms) simp_all

interpretation database_config: vault_object DatabaseSecretEngineConfig_VaultObject
  by unfold_locales (auto simp: keeps_ret intro!: keeps_database_credentials intro: credential_call_query)

section \<open>Properties\<close>

lemma DBSEConfig_toMap_password:
  "dbc_retrievedPassword i = [] \<Longrightarrow> opt_lookup (dbc_DatabaseSpecificConfig i) ''password'' = None \<Longrightarrow>
     fmlookup (DBSEConfig_toMap i) ''password'' = None"
  by (auto simp: DBSEConfig_toMap_def opt_lookup_def Let_def split: option.splits)

text \<open>A read of path \<open>path\<close>, or a write there that carries no password.\<close>

fun passwordless :: "string \<Rightarrow> 'o call \<Rightarrow> bool" where
  "passwordless path (VaultRead cl p) \<longleftrightarrow> p = path"
| "passwordless path (VaultWrite cl p m) \<longleftrightarrow> p = path \<and> opt_lookup m ''password'' = None"
| "passwordless path c \<longleftrightarrow> False"

text \<open>
  C12. Once the root password was rotated, Vault alone knows it: the reconcile logic then asks
  for no credentials, and what it writes to the configuration carries no password, so a
  rotated password is never overwritten by the one of the secret. The field for the retrieved
  password is empty, as it is in every fetched object, since it is not part of the stored form; and
  the map of settings of the specific database must not have a password of its own, which would
  be written as it is.
\<close>

theorem rotated_password_not_overwritten:
  assumes "LastRootPasswordRotation (Status (inst w)) \<noteq> None"
    and "dbc_retrievedPassword (spec_DBSEConfig (Spec (inst w))) = []"
    and "opt_lookup (dbc_DatabaseSpecificConfig (spec_DBSEConfig (Spec (inst w)))) ''password'' = None"
  shows "list_all (passwordless (DatabaseSecretEngineConfig_GetPath (inst w)))
     (drop (length (calls w)) (calls (snd (VaultResource_manageReconcileLogic DatabaseSecretEngineConfig_VaultObject E cl w))))"
proof -
  let ?P = "passwordless (DatabaseSecretEngineConfig_GetPath (inst w))"
  have nopw: "opt_lookup (Some (DatabaseSecretEngineConfig_GetPayload (inst w))) ''password'' = None"
    using DBSEConfig_toMap_password assms(2,3) by (simp add: DatabaseSecretEngineConfig_GetPayload_def opt_lookup_def)
  have prepare: "keeps (\<lambda>d. d = inst w) ?P (DatabaseSecretEngineConfig_setInternalCredentials E cl)"
    unfolding DatabaseSecretEngineConfig_setInternalCredentials_def
    by (rule keeps_bind_get) (simp add: assms(1) keeps_ret)
  have "keeps (\<lambda>d. d = inst w) ?P (VaultResource_manageReconcileLogic DatabaseSecretEngineConfig_VaultObject E cl)"
    unfolding VaultResource_manageReconcileLogic_def CreateOrUpdate_def
    by (simp, intro keeps_bind prepare keeps_bind_get keeps_prod keeps_if keeps_read keeps_writePayload keeps_ret)
      (use nopw in auto)
  then show ?thesis by (rule keepsE [where w = w]) auto
qed

lemma rotateRootPassword_run:
  assumes "vault_write E (calls w) cl (DatabaseSecretEngineConfig_GetRootPasswordRotationPath (inst w)) None = Inr s"
    and "\<forall>tr d. \<exists>d'. kube_status_update E tr d = Inr d'"
  shows "\<exists>d'. rotateRootPassword E cl w = (Ok (), w\<lparr>inst := d', calls := calls w @
    (let ask = VaultWrite cl (DatabaseSecretEngineConfig_GetRootPasswordRotationPath (inst w)) None in
     [ask, TimeNow, KubeStatusUpdate (set_rotated (time_now E (calls w @ [ask])) (inst w))])\<rparr>)"
proof -
  let ?tr = "calls w @ [VaultWrite cl (DatabaseSecretEngineConfig_GetRootPasswordRotationPath (inst w)) None]"
  obtain d' where d: "kube_status_update E (?tr @ [TimeNow]) (set_rotated (time_now E ?tr) (inst w)) = Inr d'"
    using assms(2) by blast
  show ?thesis
    using assms(1) d
    by (intro exI [of _ d']) (simp add: rotateRootPassword_def DatabaseSecretEngineConfig_RotateRootPassword_def bindG_assoc bindG_get
        bindG_writePayload bindG_ask bindG_modify StatusUpdate_run Let_def)
qed

lemma rotate_then_run:
  assumes "vault_write E (calls w) cl (DatabaseSecretEngineConfig_GetRootPasswordRotationPath (inst w)) None = Inr s"
    and "\<forall>tr d. \<exists>d'. kube_status_update E tr d = Inr d'"
  shows "fst (rotate_then E cl requeue w) = Ok \<lparr>RequeueAfter = requeue\<rparr> \<and>
    calls (snd (rotate_then E cl requeue w)) = calls w @
    (let ask = VaultWrite cl (DatabaseSecretEngineConfig_GetRootPasswordRotationPath (inst w)) None in
     [ask, TimeNow, KubeStatusUpdate (set_rotated (time_now E (calls w @ [ask])) (inst w))])"
proof -
  obtain w' where w: "rotateRootPassword E cl w = (Ok (), w')" and
    c: "calls w' = calls w @ (let ask = VaultWrite cl (DatabaseSecretEngineConfig_GetRootPasswordRotationPath (inst w)) None in
     [ask, TimeNow, KubeStatusUpdate (set_rotated (time_now E (calls w @ [ask])) (inst w))])"
    using rotateRootPassword_run [OF assms] by (auto simp: Let_def)
  show ?thesis
    unfolding rotate_then_def using w c by (simp add: tryG_run bindG_def [of "tryG _"] go_runs)
qed

text \<open>When the root password is due for rotation, and when to look again.\<close>

definition rotation_wanted :: "DatabaseSecretEngineConfig \<Rightarrow> int \<Rightarrow> bool" where
  "rotation_wanted d now = (case dbc_RootPasswordRotation (spec_DBSEConfig (Spec d)) of
      None \<Rightarrow> False
    | Some r \<Rightarrow> rpr_Enable r \<and> (case LastRootPasswordRotation (Status d) of None \<Rightarrow> True
        | Some t \<Rightarrow> rpr_RotationPeriod r \<noteq> 0 \<and> rotation_due (time_Sub now t) (rpr_RotationPeriod r)))"

definition rotation_calls :: "DatabaseSecretEngineConfig call list \<Rightarrow> DatabaseSecretEngineConfig call list" where
  "rotation_calls cs = filter (\<lambda>c. case c of VaultWrite _ _ _ \<Rightarrow> True | KubeStatusUpdate _ \<Rightarrow> True | _ \<Rightarrow> False) cs"

text \<open>
  The test for the end of the period against the numbers themselves: the division is rounded, but
  for periods below \<open>2 ^ 53\<close> nanoseconds (104 days) it never says yes up to 95 percent, and always
  says yes from \<open>2 ^ -53\<close> above 95 percent on.
\<close>

lemma rotation_due_bounds:
  assumes "0 < period" and "period < 2 ^ 53" and "since < 2 ^ 53"
  shows "100 * since \<le> 95 * period \<Longrightarrow> \<not> rotation_due since period"
    and "(95 * 2 ^ 53 + 100) * period \<le> 100 * 2 ^ 53 * since \<Longrightarrow> rotation_due since period"
proof -
  have p: "float_of_int period = of_int period" using assms(1,2) by (simp add: float_of_int_exact)
  show "\<not> rotation_due since period" if early: "100 * since \<le> 95 * period"
  proof (cases "0 < since")
    case True
    have "(of_int (100 * since) :: rat) \<le> of_int (95 * period)" using early by (simp only: of_int_le_iff)
    then have "(of_int since :: rat) / of_int period \<le> 95 / 100" using assms(1) by (simp add: field_simps)
    moreover have "(0 :: rat) < of_int since / of_int period" using True assms(1) by simp
    ultimately have "float_round (of_int since / of_int period) \<le> float_round (95 / 100)" by (rule float_round_mono_pos [rotated])
    then show ?thesis using True assms(3) by (simp add: rotation_due_def float_div_def p float_of_int_exact)
  next
    case False
    have "float_of_int since \<le> 0" unfolding float_of_int_def using False by (intro float_round_nonpos) simp
    then have "float_of_int since / of_int period \<le> 0" using assms(1) by (simp add: divide_nonpos_pos)
    then have "float_div (float_of_int since) (of_int period) \<le> 0" unfolding float_div_def by (rule float_round_nonpos)
    moreover have "0 < float_round (95 / 100)" by (simp only: round_95) simp
    ultimately show ?thesis by (simp add: rotation_due_def p)
  qed
  show "rotation_due since period" if late: "(95 * 2 ^ 53 + 100) * period \<le> 100 * 2 ^ 53 * since"
  proof -
    have pos: "0 < since" using late assms(1) by (simp add: zero_less_mult_iff)
    have "8556839292003943 * period \<le> 2 ^ 53 * since" using late assms(1) by simp
    then have "(of_int (8556839292003943 * period) :: rat) \<le> of_int (2 ^ 53 * since)" by (simp only: of_int_le_iff)
    then have "8556839292003943 / 2 ^ 53 \<le> (of_int since :: rat) / of_int period" using assms(1) by (simp add: field_simps)
    then have "float_round (8556839292003943 / 2 ^ 53) \<le> float_round (of_int since / of_int period)"
      by (intro float_round_mono_pos) simp_all
    moreover have "float_round (95 / 100) < float_round (8556839292003943 / 2 ^ 53)"
      by (simp only: round_95 round_above_95) simp
    ultimately show ?thesis
      using pos assms(3) by (simp add: rotation_due_def float_div_def p float_of_int_exact)
  qed
qed

text \<open>
  C13. When Vault and the API server accept what they are sent, the controller rotates the root
  password exactly when rotation is enabled and either none was recorded yet or the test on the
  non-zero period says so. It then writes the rotation path once and records in the status the time
  read right after it, and asks to be called again after the period; otherwise it writes nothing, and
  asks to be called when the period since the last rotation ends, or not at all when rotation is
  not enabled or has no period. The test says no
  up to 95 percent of the period and yes from \<open>2 ^ -53\<close> above it, for periods below 104 days.
\<close>

theorem rotation_schedule:
  assumes "\<forall>tr p. \<exists>s. vault_write E tr cl p None = Inr s" and "\<forall>tr d. \<exists>d'. kube_status_update E tr d = Inr d'"
    and "dbc_RootPasswordRotation (spec_DBSEConfig (Spec (inst w))) = Some r"
  shows "(if rotation_wanted (inst w) (time_now E (calls w))
    then rpr_Enable r \<and> fst (manage_rotation E cl w) = Ok \<lparr>RequeueAfter = rpr_RotationPeriod r\<rparr> \<and>
      calls (snd (manage_rotation E cl w)) =
        (let asked = calls w @ (if LastRootPasswordRotation (Status (inst w)) = None then [] else [TimeNow]) @
           [VaultWrite cl (DatabaseSecretEngineConfig_GetRootPasswordRotationPath (inst w)) None]
         in asked @ [TimeNow, KubeStatusUpdate (set_rotated (time_now E asked) (inst w))])
    else rotation_calls (drop (length (calls w)) (calls (snd (manage_rotation E cl w)))) = [] \<and>
      fst (manage_rotation E cl w) = Ok \<lparr>RequeueAfter =
        (case LastRootPasswordRotation (Status (inst w)) of None \<Rightarrow> 0
         | Some t \<Rightarrow> if rpr_Enable r \<and> rpr_RotationPeriod r \<noteq> 0
             then time_Sub (t + rpr_RotationPeriod r) (time_now E (calls w @ [TimeNow])) else 0)\<rparr>) \<and>
    (0 < period \<and> period < 2 ^ 53 \<and> since < 2 ^ 53 \<longrightarrow>
      (100 * since \<le> 95 * period \<longrightarrow> \<not> rotation_due since period) \<and>
      ((95 * 2 ^ 53 + 100) * period \<le> 100 * 2 ^ 53 * since \<longrightarrow> rotation_due since period))"
proof (intro conjI)
  show "0 < period \<and> period < 2 ^ 53 \<and> since < 2 ^ 53 \<longrightarrow>
      (100 * since \<le> 95 * period \<longrightarrow> \<not> rotation_due since period) \<and>
      ((95 * 2 ^ 53 + 100) * period \<le> 100 * 2 ^ 53 * since \<longrightarrow> rotation_due since period)"
    using rotation_due_bounds by blast
next
  show "if rotation_wanted (inst w) (time_now E (calls w))
    then rpr_Enable r \<and> fst (manage_rotation E cl w) = Ok \<lparr>RequeueAfter = rpr_RotationPeriod r\<rparr> \<and>
      calls (snd (manage_rotation E cl w)) =
        (let asked = calls w @ (if LastRootPasswordRotation (Status (inst w)) = None then [] else [TimeNow]) @
           [VaultWrite cl (DatabaseSecretEngineConfig_GetRootPasswordRotationPath (inst w)) None]
         in asked @ [TimeNow, KubeStatusUpdate (set_rotated (time_now E asked) (inst w))])
    else rotation_calls (drop (length (calls w)) (calls (snd (manage_rotation E cl w)))) = [] \<and>
      fst (manage_rotation E cl w) = Ok \<lparr>RequeueAfter =
        (case LastRootPasswordRotation (Status (inst w)) of None \<Rightarrow> 0
         | Some t \<Rightarrow> if rpr_Enable r \<and> rpr_RotationPeriod r \<noteq> 0
             then time_Sub (t + rpr_RotationPeriod r) (time_now E (calls w @ [TimeNow])) else 0)\<rparr>"
  proof (cases "rpr_Enable r")
    case False
    then show ?thesis
      using assms(3)
        by (simp add: manage_rotation_def rotation_wanted_def rotation_calls_def bindG_get Let_def go_runs split: option.split)
  next
    case True
    show ?thesis
    proof (cases "LastRootPasswordRotation (Status (inst w))")
      case None
      obtain s where "vault_write E (calls w) cl (DatabaseSecretEngineConfig_GetRootPasswordRotationPath (inst w)) None = Inr s"
        using assms(1) by blast
      from rotate_then_run [OF this assms(2), of "rpr_RotationPeriod r"] show ?thesis
        using None assms(3) True
        by (auto simp: manage_rotation_def rotation_wanted_def rotation_calls_def bindG_get Let_def)
    next
      case (Some t)
      let ?w = "w\<lparr>calls := calls w @ [TimeNow]\<rparr>"
      obtain s where s: "vault_write E (calls ?w) cl (DatabaseSecretEngineConfig_GetRootPasswordRotationPath (inst ?w)) None = Inr s"
        using assms(1) by blast
      show ?thesis
        using rotate_then_run [OF s assms(2), of "rpr_RotationPeriod r"] Some assms(3) True
        by (auto simp: manage_rotation_def rotation_wanted_def rotation_calls_def bindG_get bindG_ask go_runs Let_def)
    qed
  qed
qed

text \<open>
  The rotation does not look at whether the resource is being deleted: after the
  configuration was deleted from Vault and the finalizer removed, a configuration that asks
  for rotation and never rotated has its root password rotated.
\<close>

theorem deleted_config_still_rotates:
  assumes "is_deleted (inst w)" and "contains_finalizer E (inst w) (GetFinalizer (inst w))"
    and "\<exists>c \<in> set (GetConditions (inst w)). successful c"
    and "distinct (map cond_Type (GetConditions (inst w)))"
    and "vault_delete E (calls w) cl (DatabaseSecretEngineConfig_GetPath (inst w)) = Inr s"
    and "kube_update E (calls w @ [VaultDelete cl (DatabaseSecretEngineConfig_GetPath (inst w))])
           (remove_finalizer E (inst w) (GetFinalizer (inst w))) = Inr d"
    and "rotation_wanted d 0" and "LastRootPasswordRotation (Status d) = None"
    and "\<forall>tr p. \<exists>s. vault_write E tr cl p None = Inr s" and "\<forall>tr d. \<exists>d'. kube_status_update E tr d = Inr d'"
  shows "\<exists>now. calls (snd (bindG (VaultResource_Reconcile DatabaseSecretEngineConfig_VaultObject E cl)
      (\<lambda>_. manage_rotation E cl) w)) = calls w @
    [VaultDelete cl (DatabaseSecretEngineConfig_GetPath (inst w)),
     KubeUpdate (remove_finalizer E (inst w) (GetFinalizer (inst w))),
     VaultWrite cl (DatabaseSecretEngineConfig_GetRootPasswordRotationPath d) None, TimeNow,
     KubeStatusUpdate (set_rotated now d)]"
proof -
  let ?w = "w\<lparr>inst := d, calls := calls w @ [VaultDelete cl (DatabaseSecretEngineConfig_GetPath (inst w)),
     KubeUpdate (remove_finalizer E (inst w) (GetFinalizer (inst w)))]\<rparr>"
  have run: "VaultResource_Reconcile DatabaseSecretEngineConfig_VaultObject E cl w = (Ok \<lparr>RequeueAfter = 0\<rparr>, ?w)"
    using accepted_delete_run [where V = DatabaseSecretEngineConfig_VaultObject and w = w and E = E and cl = cl and d = d]
      assms(1-6) by simp
  obtain r where r: "dbc_RootPasswordRotation (spec_DBSEConfig (Spec d)) = Some r" "rpr_Enable r"
    using assms(7) by (auto simp: rotation_wanted_def split: option.splits)
  obtain s' where s': "vault_write E (calls ?w) cl (DatabaseSecretEngineConfig_GetRootPasswordRotationPath (inst ?w)) None = Inr s'"
    using assms(9) by blast
  show ?thesis
    using rotate_then_run [OF s' assms(10), of "rpr_RotationPeriod r"] r assms(8)
    by (auto simp: bindG_def [of "VaultResource_Reconcile _ E cl"] run manage_rotation_def bindG_get Let_def)
qed

section \<open>A concrete configuration, and the witnesses\<close>

definition sample_database :: DatabaseSecretEngineConfig where
  "sample_database =
     \<lparr>TypeKind = ''DatabaseSecretEngineConfig'', Meta = sample_meta ''pg'',
      Spec = \<lparr>Connection = None, Authentication = sample_auth, Name = [], Path = ''team/db'',
        spec_DBSEConfig = \<lparr>dbc_PluginName = ''postgresql-database-plugin'', dbc_PluginVersion = [],
          dbc_VerifyConnection = True, dbc_AllowedRoles = Some [''reader''], dbc_RootRotationStatements = None,
          dbc_PasswordAuthentication = [], dbc_PasswordPolicy = [], dbc_ConnectionURL = ''pg'', dbc_Username = ''root'',
          dbc_DisableEscaping = False, dbc_DatabaseSpecificConfig = None, dbc_retrievedPassword = [],
          dbc_retrievedUsername = [], dbc_RootPasswordRotation = Some \<lparr>rpr_Enable = True, rpr_RotationPeriod = 100\<rparr>\<rparr>,
        db_RootCredentials = \<lparr>rc_VaultSecret = None, rc_Secret = Some ''pg-root'', rc_RandomSecret = None,
          rc_PasswordKey = ''password'', rc_UsernameKey = ''username''\<rparr>\<rparr>,
      Status = \<lparr>Conditions = [], LastRootPasswordRotation = None\<rparr>\<rparr>"

lemma sample_database_paths [simp]:
  "DatabaseSecretEngineConfig_GetPath (set_rotated t sample_database) = ''team/db/config/pg''"
  "DatabaseSecretEngineConfig_GetPath sample_database = ''team/db/config/pg''"
  "DatabaseSecretEngineConfig_GetRootPasswordRotationPath sample_database = ''team/db/rotate-root/pg''"
  by (simp_all add: DatabaseSecretEngineConfig_GetPath_def DatabaseSecretEngineConfig_GetRootPasswordRotationPath_def
      set_rotated_def sample_database_def sample_meta_def GetName_def CleansePath_def Trim_def)

lemma sample_database_fields:
  "LastRootPasswordRotation (Status (set_rotated t sample_database)) = Some t"
  "LastRootPasswordRotation (Status sample_database) = None"
  "dbc_retrievedPassword (spec_DBSEConfig (Spec (set_rotated t sample_database))) = []"
  "dbc_DatabaseSpecificConfig (spec_DBSEConfig (Spec (set_rotated t sample_database))) = None"
  "dbc_RootPasswordRotation (spec_DBSEConfig (Spec sample_database)) = Some \<lparr>rpr_Enable = True, rpr_RotationPeriod = 100\<rparr>"
  by (simp_all add: set_rotated_def sample_database_def)

theorem rotated_password_not_overwritten_witness:
  "list_all (passwordless ''team/db/config/pg'')
     (calls (snd (VaultResource_manageReconcileLogic DatabaseSecretEngineConfig_VaultObject sample_env sample_client
        (start_world (set_rotated 7 sample_database)))))"
  using rotated_password_not_overwritten [where w = "start_world (set_rotated 7 sample_database)" and E = sample_env
      and cl = sample_client]
  by (simp add: sample_database_fields opt_lookup_def)

theorem rotation_schedule_witness:
  "fst (manage_rotation sample_env sample_client (start_world sample_database)) = Ok \<lparr>RequeueAfter = 100\<rparr> \<and>
   \<not> rotation_due 95 100 \<and> rotation_due 96 100"
  using rotation_schedule [where since = 95 and period = 100 and E = sample_env and cl = sample_client
      and w = "start_world sample_database" and r = "\<lparr>rpr_Enable = True, rpr_RotationPeriod = 100\<rparr>"]
    rotation_schedule [where since = 96 and period = 100 and w = "start_world sample_database" and E = sample_env and cl = sample_client
      and r = "\<lparr>rpr_Enable = True, rpr_RotationPeriod = 100\<rparr>"]
  by (simp add: rotation_wanted_def sample_database_fields)

lemma sample_database_deleted [simp]:
  "DatabaseSecretEngineConfig_GetPath (to_be_deleted sample_database) = ''team/db/config/pg''"
  "DatabaseSecretEngineConfig_GetRootPasswordRotationPath (remove_fin (to_be_deleted sample_database) f) = ''team/db/rotate-root/pg''"
  by (simp_all add: DatabaseSecretEngineConfig_GetPath_def DatabaseSecretEngineConfig_GetRootPasswordRotationPath_def
      sample_database_def sample_meta_def GetName_def CleansePath_def Trim_def to_be_deleted_def remove_fin_def add_fin_def)

theorem deleted_config_still_rotates_witness:
  "VaultWrite sample_client ''team/db/rotate-root/pg'' None \<in>
     set (calls (snd (bindG (VaultResource_Reconcile DatabaseSecretEngineConfig_VaultObject sample_env sample_client)
       (\<lambda>_. manage_rotation sample_env sample_client) (start_world (to_be_deleted sample_database)))))"
proof -
  let ?d = "to_be_deleted sample_database"
  let ?d' = "remove_fin ?d (GetFinalizer ?d)"
  have "rotation_wanted ?d' 0" "LastRootPasswordRotation (Status ?d') = None"
    by (simp_all add: rotation_wanted_def to_be_deleted_def remove_fin_def add_fin_def sample_database_def
        SetConditions_def)
  then show ?thesis
    using deleted_config_still_rotates [where w = "start_world ?d" and E = sample_env and cl = sample_client and d = ?d']
    by auto
qed

end
