(* ===== verification/SecretWatch.thy ===== *)
theory SecretWatch
  imports AuthConfigs Database
begin

text \<open>
  How the controllers of the engine configurations are woken by changes of the credentials
  (\<open>SetupWithManager\<close> in \<open>controllers/*config_controller.go\<close>): the filters on events of
  Kubernetes secrets and of \<open>RandomSecret\<close> resources, and the functions that find the
  configurations an event concerns; and the same for namespaces and
  \<open>KubernetesAuthEngineRole\<close>. Listing resources is an argument: what the API server
  answers for a namespace. An event's object is \<open>None\<close> when it is of another Go type.
\<close>

section \<open>Filters\<close>

text \<open>
  The shape of the filters on secrets: a secret of the type the filter is named after is
  rejected, and \<open>same\<close> is the comparison of the old and the new secret.
\<close>

definition secret_Update ::
  "string \<Rightarrow> (k8s_secret \<Rightarrow> k8s_secret \<Rightarrow> bool) \<Rightarrow> k8s_secret option \<Rightarrow> k8s_secret option \<Rightarrow> bool" where
  "secret_Update type same ObjectOld ObjectNew = (case ObjectNew of
      None \<Rightarrow> False
    | Some newSecret \<Rightarrow>
        if sec_Type newSecret = type then False
        else (case ObjectOld of None \<Rightarrow> True | Some oldSecret \<Rightarrow> same oldSecret newSecret))"

definition secret_Create :: "string \<Rightarrow> k8s_secret option \<Rightarrow> bool" where
  "secret_Create type Object = (case Object of
      None \<Rightarrow> False | Some newSecret \<Rightarrow> if sec_Type newSecret = type then False else True)"

text \<open>\<open>bytes.Equal(old.Data[k], new.Data[l])\<close>, where a missing key reads as no bytes.\<close>

definition same_at :: "string \<Rightarrow> string \<Rightarrow> k8s_secret \<Rightarrow> k8s_secret \<Rightarrow> bool" where
  "same_at k l oldSecret newSecret \<longleftrightarrow> str_at (sec_Data oldSecret) k = str_at (sec_Data newSecret) l"

definition isUpdatedRandomSecret_Update :: "RandomSecret option \<Rightarrow> RandomSecret option \<Rightarrow> bool" where
  "isUpdatedRandomSecret_Update ObjectOld ObjectNew = (case ObjectNew of
      None \<Rightarrow> False
    | Some newSecret \<Rightarrow> (case ObjectOld of
        None \<Rightarrow> True
      | Some oldSecret \<Rightarrow> (case rs_LastVaultSecretUpdate (Status newSecret) of
          None \<Rightarrow> False
        | Some t \<Rightarrow> (case rs_LastVaultSecretUpdate (Status oldSecret) of
            Some u \<Rightarrow> t \<noteq> u | None \<Rightarrow> True))))"

section \<open>The resources an event concerns\<close>

definition find_applicable ::
  "(string \<Rightarrow> error + ('s, 't) crd list) \<Rightarrow> (('s, 't) crd \<Rightarrow> string option) \<Rightarrow> ObjectMeta \<Rightarrow>
     error + ('s, 't) crd list" where
  "find_applicable list_in reference m = (case list_in (meta_Namespace m) of
      Inl err \<Rightarrow> Inl err
    | Inr items \<Rightarrow> Inr (filter (\<lambda>vr. reference vr = Some (meta_Name m)) items))"

text \<open>The requests of the map function: none when the search fails.\<close>

definition requests :: "error + ('s, 't) crd list \<Rightarrow> (string \<times> string) list" where
  "requests r = (case r of Inl err \<Rightarrow> [] | Inr ds \<Rightarrow> map (\<lambda>d. (GetNamespace d, GetName d)) ds)"

section \<open>The configurations\<close>

definition DatabaseSecretEngineConfig_isBasicAuthSecret_Update :: "k8s_secret option \<Rightarrow> k8s_secret option \<Rightarrow> bool" where
  "DatabaseSecretEngineConfig_isBasicAuthSecret_Update = secret_Update ''kubernetes.io/basic-auth'' (\<lambda>o' n.
     same_at ''username'' ''username'' o' n \<or> same_at ''password'' ''password'' o' n)"

definition DatabaseSecretEngineConfig_isBasicAuthSecret_Create :: "k8s_secret option \<Rightarrow> bool" where
  "DatabaseSecretEngineConfig_isBasicAuthSecret_Create = secret_Create ''kubernetes.io/basic-auth''"

definition findApplicableBDSCForSecret ::
  "(string \<Rightarrow> error + DatabaseSecretEngineConfig list) \<Rightarrow> k8s_secret \<Rightarrow> error + DatabaseSecretEngineConfig list" where
  "findApplicableBDSCForSecret list_in secret =
     find_applicable list_in (\<lambda>vr. rc_Secret (db_RootCredentials (Spec vr))) (sec_Meta secret)"

definition findApplicableDBSCForRandomSecret ::
  "(string \<Rightarrow> error + DatabaseSecretEngineConfig list) \<Rightarrow> RandomSecret \<Rightarrow> error + DatabaseSecretEngineConfig list" where
  "findApplicableDBSCForRandomSecret list_in randomSecret =
     find_applicable list_in (\<lambda>vr. rc_RandomSecret (db_RootCredentials (Spec vr))) (Meta randomSecret)"

definition QuaySecretEngineConfig_isBasicAuthSecret_Update :: "k8s_secret option \<Rightarrow> k8s_secret option \<Rightarrow> bool" where
  "QuaySecretEngineConfig_isBasicAuthSecret_Update = secret_Update ''kubernetes.io/basic-auth'' (\<lambda>o' n.
     same_at ''password'' ''password'' o' n)"

definition QuaySecretEngineConfig_isBasicAuthSecret_Create :: "k8s_secret option \<Rightarrow> bool" where
  "QuaySecretEngineConfig_isBasicAuthSecret_Create = secret_Create ''kubernetes.io/basic-auth''"

definition findApplicableQuaySCForSecret ::
  "(string \<Rightarrow> error + QuaySecretEngineConfig list) \<Rightarrow> k8s_secret \<Rightarrow> error + QuaySecretEngineConfig list" where
  "findApplicableQuaySCForSecret list_in secret =
     find_applicable list_in (\<lambda>vr. rc_Secret (qc_RootCredentials (Spec vr))) (sec_Meta secret)"

definition findApplicableQuaySCForRandomSecret ::
  "(string \<Rightarrow> error + QuaySecretEngineConfig list) \<Rightarrow> RandomSecret \<Rightarrow> error + QuaySecretEngineConfig list" where
  "findApplicableQuaySCForRandomSecret list_in randomSecret =
     find_applicable list_in (\<lambda>vr. rc_RandomSecret (qc_RootCredentials (Spec vr))) (Meta randomSecret)"

definition AzureSecretEngineConfig_isBasicAuthSecret_Update :: "k8s_secret option \<Rightarrow> k8s_secret option \<Rightarrow> bool" where
  "AzureSecretEngineConfig_isBasicAuthSecret_Update = secret_Update ''kubernetes.io/basic-auth'' (\<lambda>o' n.
     same_at ''clientid'' ''clientid'' o' n \<or> same_at ''clientsecret'' ''clientsecret'' o' n)"

definition AzureSecretEngineConfig_isBasicAuthSecret_Create :: "k8s_secret option \<Rightarrow> bool" where
  "AzureSecretEngineConfig_isBasicAuthSecret_Create = secret_Create ''kubernetes.io/basic-auth''"

definition findApplicableASEForSecret ::
  "(string \<Rightarrow> error + AzureSecretEngineConfig list) \<Rightarrow> k8s_secret \<Rightarrow> error + AzureSecretEngineConfig list" where
  "findApplicableASEForSecret list_in secret =
     find_applicable list_in (\<lambda>vr. rc_Secret (ase_AzureCredentials (Spec vr))) (sec_Meta secret)"

definition findApplicableASEForRandomSecret ::
  "(string \<Rightarrow> error + AzureSecretEngineConfig list) \<Rightarrow> RandomSecret \<Rightarrow> error + AzureSecretEngineConfig list" where
  "findApplicableASEForRandomSecret list_in randomSecret =
     find_applicable list_in (\<lambda>vr. rc_RandomSecret (ase_AzureCredentials (Spec vr))) (Meta randomSecret)"

definition AzureAuthEngineConfig_isBasicAuthSecret_Update :: "k8s_secret option \<Rightarrow> k8s_secret option \<Rightarrow> bool" where
  "AzureAuthEngineConfig_isBasicAuthSecret_Update = secret_Update ''kubernetes.io/basic-auth'' (\<lambda>o' n.
     same_at ''clientid'' ''clientid'' o' n \<or> same_at ''clientsecret'' ''clientsecret'' o' n)"

definition AzureAuthEngineConfig_isBasicAuthSecret_Create :: "k8s_secret option \<Rightarrow> bool" where
  "AzureAuthEngineConfig_isBasicAuthSecret_Create = secret_Create ''kubernetes.io/basic-auth''"

definition findApplicableAAEForSecret ::
  "(string \<Rightarrow> error + AzureAuthEngineConfig list) \<Rightarrow> k8s_secret \<Rightarrow> error + AzureAuthEngineConfig list" where
  "findApplicableAAEForSecret list_in secret =
     find_applicable list_in (\<lambda>vr. rc_Secret (aae_AzureCredentials (Spec vr))) (sec_Meta secret)"

definition findApplicableAAEForRandomSecret ::
  "(string \<Rightarrow> error + AzureAuthEngineConfig list) \<Rightarrow> RandomSecret \<Rightarrow> error + AzureAuthEngineConfig list" where
  "findApplicableAAEForRandomSecret list_in randomSecret =
     find_applicable list_in (\<lambda>vr. rc_RandomSecret (aae_AzureCredentials (Spec vr))) (Meta randomSecret)"

definition GCPAuthEngineConfig_isBasicAuthSecret_Update :: "k8s_secret option \<Rightarrow> k8s_secret option \<Rightarrow> bool" where
  "GCPAuthEngineConfig_isBasicAuthSecret_Update = secret_Update ''kubernetes.io/basic-auth'' (\<lambda>o' n.
     same_at ''serviceaccount'' ''credentials'' o' n \<or> same_at ''credentials'' ''credentials'' o' n)"

definition GCPAuthEngineConfig_isBasicAuthSecret_Create :: "k8s_secret option \<Rightarrow> bool" where
  "GCPAuthEngineConfig_isBasicAuthSecret_Create = secret_Create ''kubernetes.io/basic-auth''"

definition findApplicableGAEForSecret ::
  "(string \<Rightarrow> error + GCPAuthEngineConfig list) \<Rightarrow> k8s_secret \<Rightarrow> error + GCPAuthEngineConfig list" where
  "findApplicableGAEForSecret list_in secret =
     find_applicable list_in (\<lambda>vr. rc_Secret (gcp_GCPCredentials (Spec vr))) (sec_Meta secret)"

definition findApplicableGAEForRandomSecret ::
  "(string \<Rightarrow> error + GCPAuthEngineConfig list) \<Rightarrow> RandomSecret \<Rightarrow> error + GCPAuthEngineConfig list" where
  "findApplicableGAEForRandomSecret list_in randomSecret =
     find_applicable list_in (\<lambda>vr. rc_RandomSecret (gcp_GCPCredentials (Spec vr))) (Meta randomSecret)"

definition JWTOIDCAuthEngineConfig_isBasicAuthSecret_Update :: "k8s_secret option \<Rightarrow> k8s_secret option \<Rightarrow> bool" where
  "JWTOIDCAuthEngineConfig_isBasicAuthSecret_Update = secret_Update ''kubernetes.io/basic-auth'' (\<lambda>o' n.
     same_at ''username'' ''username'' o' n \<or> same_at ''password'' ''password'' o' n)"

definition JWTOIDCAuthEngineConfig_isBasicAuthSecret_Create :: "k8s_secret option \<Rightarrow> bool" where
  "JWTOIDCAuthEngineConfig_isBasicAuthSecret_Create = secret_Create ''kubernetes.io/basic-auth''"

definition findApplicableJOAEForSecret ::
  "(string \<Rightarrow> error + JWTOIDCAuthEngineConfig list) \<Rightarrow> k8s_secret \<Rightarrow> error + JWTOIDCAuthEngineConfig list" where
  "findApplicableJOAEForSecret list_in secret =
     find_applicable list_in (\<lambda>vr. Option.bind (joc_OIDCCredentials (Spec vr)) rc_Secret) (sec_Meta secret)"

definition findApplicableJOAEForRandomSecret ::
  "(string \<Rightarrow> error + JWTOIDCAuthEngineConfig list) \<Rightarrow> RandomSecret \<Rightarrow> error + JWTOIDCAuthEngineConfig list" where
  "findApplicableJOAEForRandomSecret list_in randomSecret =
     find_applicable list_in (\<lambda>vr. Option.bind (joc_OIDCCredentials (Spec vr)) rc_RandomSecret) (Meta randomSecret)"

definition LDAPAuthEngineConfig_isBasicAuthSecret_Update :: "k8s_secret option \<Rightarrow> k8s_secret option \<Rightarrow> bool" where
  "LDAPAuthEngineConfig_isBasicAuthSecret_Update = secret_Update ''kubernetes.io/basic-auth'' (\<lambda>o' n.
     same_at ''username'' ''username'' o' n \<or> same_at ''password'' ''password'' o' n)"

definition LDAPAuthEngineConfig_isBasicAuthSecret_Create :: "k8s_secret option \<Rightarrow> bool" where
  "LDAPAuthEngineConfig_isBasicAuthSecret_Create = secret_Create ''kubernetes.io/basic-auth''"

definition findApplicableLAECForSecret ::
  "(string \<Rightarrow> error + LDAPAuthEngineConfig list) \<Rightarrow> k8s_secret \<Rightarrow> error + LDAPAuthEngineConfig list" where
  "findApplicableLAECForSecret list_in secret =
     find_applicable list_in (\<lambda>vr. rc_Secret (ldap_BindCredentials (Spec vr))) (sec_Meta secret)"

definition findApplicableLAECForRandomSecret ::
  "(string \<Rightarrow> error + LDAPAuthEngineConfig list) \<Rightarrow> RandomSecret \<Rightarrow> error + LDAPAuthEngineConfig list" where
  "findApplicableLAECForRandomSecret list_in randomSecret =
     find_applicable list_in (\<lambda>vr. rc_RandomSecret (ldap_BindCredentials (Spec vr))) (Meta randomSecret)"

definition LDAPAuthEngineConfig_isTLSSecret_Update :: "k8s_secret option \<Rightarrow> k8s_secret option \<Rightarrow> bool" where
  "LDAPAuthEngineConfig_isTLSSecret_Update = secret_Update ''kubernetes.io/tls'' (\<lambda>o' n.
     same_at ''ca.crt'' ''ca.crt'' o' n \<or> same_at ''tls.crt'' ''tls.crt'' o' n \<or> same_at ''tls.key'' ''tls.key'' o' n)"

definition LDAPAuthEngineConfig_isTLSSecret_Create :: "k8s_secret option \<Rightarrow> bool" where
  "LDAPAuthEngineConfig_isTLSSecret_Create = secret_Create ''kubernetes.io/tls''"

definition findApplicableLAECForTLSSecret ::
  "(string \<Rightarrow> error + LDAPAuthEngineConfig list) \<Rightarrow> k8s_secret \<Rightarrow> error + LDAPAuthEngineConfig list" where
  "findApplicableLAECForTLSSecret list_in secret =
     find_applicable list_in (\<lambda>vr. TLSSecret (ldap_TLSConfig (Spec vr))) (sec_Meta secret)"

definition GitHubSecretEngineConfig_isSSHSecret_Update :: "k8s_secret option \<Rightarrow> k8s_secret option \<Rightarrow> bool" where
  "GitHubSecretEngineConfig_isSSHSecret_Update = secret_Update ''kubernetes.io/ssh-auth'' (\<lambda>o' n.
     same_at ''ssh-privatekey'' ''ssh-privatekey'' o' n)"

definition GitHubSecretEngineConfig_isSSHSecret_Create :: "k8s_secret option \<Rightarrow> bool" where
  "GitHubSecretEngineConfig_isSSHSecret_Create = secret_Create ''kubernetes.io/ssh-auth''"

definition findApplicableGHSCForSecret ::
  "(string \<Rightarrow> error + GitHubSecretEngineConfig list) \<Rightarrow> k8s_secret \<Rightarrow> error + GitHubSecretEngineConfig list" where
  "findApplicableGHSCForSecret list_in secret =
     find_applicable list_in (\<lambda>vr. ssh_Secret (gh_SSHKeyReference (Spec vr))) (sec_Meta secret)"

definition KubernetesSecretEngineConfig_isSATokenSecret_Update :: "k8s_secret option \<Rightarrow> k8s_secret option \<Rightarrow> bool" where
  "KubernetesSecretEngineConfig_isSATokenSecret_Update = secret_Update ''kubernetes.io/service-account-token'' (\<lambda>o' n.
     same_at ''token'' ''token'' o' n)"

definition KubernetesSecretEngineConfig_isSATokenSecret_Create :: "k8s_secret option \<Rightarrow> bool" where
  "KubernetesSecretEngineConfig_isSATokenSecret_Create = secret_Create ''kubernetes.io/service-account-token''"

definition findApplicableKSECForSecret ::
  "(string \<Rightarrow> error + KubernetesSecretEngineConfig list) \<Rightarrow> k8s_secret \<Rightarrow> error + KubernetesSecretEngineConfig list" where
  "findApplicableKSECForSecret list_in secret =
     find_applicable list_in (\<lambda>vr. rc_Secret (kse_JWTReference (Spec vr))) (sec_Meta secret)"

section \<open>Namespaces\<close>

text \<open>
  The roles whose selector matches a namespace's labels; \<open>matches\<close> is what the label library
  makes of a selector. The first selector it does not accept ends the search.
\<close>

primrec applicable_roles ::
  "(string \<Rightarrow> error + ((string, string) fmap \<Rightarrow> bool)) \<Rightarrow> (string, string) fmap \<Rightarrow>
     KubernetesAuthEngineRole list \<Rightarrow> error + KubernetesAuthEngineRole list" where
  "applicable_roles matches ls [] = Inr []"
| "applicable_roles matches ls (vr # vrs) =
     (case tnc_TargetNamespaceSelector (kar_TargetNamespaces (Spec vr)) of
        None \<Rightarrow> applicable_roles matches ls vrs
      | Some selector \<Rightarrow> (case matches selector of
          Inl err \<Rightarrow> Inl err
        | Inr labelSelector \<Rightarrow>
            if labelSelector ls
            then (case applicable_roles matches ls vrs of Inl err \<Rightarrow> Inl err | Inr rest \<Rightarrow> Inr (vr # rest))
            else applicable_roles matches ls vrs))"

definition findApplicableKubernetesAuthEngineRoles ::
  "(string \<Rightarrow> error + ((string, string) fmap \<Rightarrow> bool)) \<Rightarrow> error + KubernetesAuthEngineRole list \<Rightarrow>
     (string, string) fmap \<Rightarrow> error + KubernetesAuthEngineRole list" where
  "findApplicableKubernetesAuthEngineRoles matches items ls = (case items of
      Inl err \<Rightarrow> Inl err | Inr vrs \<Rightarrow> applicable_roles matches ls vrs)"

section \<open>What the filters let through\<close>

lemmas watch_defs =
  AzureAuthEngineConfig_isBasicAuthSecret_Create_def
  AzureAuthEngineConfig_isBasicAuthSecret_Update_def
  AzureSecretEngineConfig_isBasicAuthSecret_Create_def
  AzureSecretEngineConfig_isBasicAuthSecret_Update_def
  DatabaseSecretEngineConfig_isBasicAuthSecret_Create_def
  DatabaseSecretEngineConfig_isBasicAuthSecret_Update_def
  GCPAuthEngineConfig_isBasicAuthSecret_Create_def
  GCPAuthEngineConfig_isBasicAuthSecret_Update_def
  GitHubSecretEngineConfig_isSSHSecret_Create_def
  GitHubSecretEngineConfig_isSSHSecret_Update_def
  JWTOIDCAuthEngineConfig_isBasicAuthSecret_Create_def
  JWTOIDCAuthEngineConfig_isBasicAuthSecret_Update_def
  KubernetesSecretEngineConfig_isSATokenSecret_Create_def
  KubernetesSecretEngineConfig_isSATokenSecret_Update_def
  LDAPAuthEngineConfig_isBasicAuthSecret_Create_def
  LDAPAuthEngineConfig_isBasicAuthSecret_Update_def
  LDAPAuthEngineConfig_isTLSSecret_Create_def
  LDAPAuthEngineConfig_isTLSSecret_Update_def
  QuaySecretEngineConfig_isBasicAuthSecret_Create_def
  QuaySecretEngineConfig_isBasicAuthSecret_Update_def
  secret_Update_def secret_Create_def same_at_def

lemma requests_find_applicable:
  assumes "list_in (meta_Namespace m) = Inr items"
  shows "set (requests (find_applicable list_in reference m)) =
    {(GetNamespace d, GetName d) | d. d \<in> set items \<and> reference d = Some (meta_Name m)}"
  using assms by (auto simp: requests_def find_applicable_def)

text \<open>
  When a secret passes the filter, the database configurations asked for are exactly
  those listed in the secret's namespace whose root credentials name the secret, and for
  the secret of a \<open>RandomSecret\<close> those that name that resource.
\<close>

theorem database_requests_exact:
  assumes "list_in (meta_Namespace (sec_Meta secret)) = Inr items" and "list_in (GetNamespace rs) = Inr items'"
  shows "set (requests (findApplicableBDSCForSecret list_in secret)) =
      {(GetNamespace d, GetName d) | d. d \<in> set items \<and>
         rc_Secret (db_RootCredentials (Spec d)) = Some (meta_Name (sec_Meta secret))} \<and>
    set (requests (findApplicableDBSCForRandomSecret list_in rs)) =
      {(GetNamespace d, GetName d) | d. d \<in> set items' \<and>
         rc_RandomSecret (db_RootCredentials (Spec d)) = Some (GetName rs)}"
  using requests_find_applicable [of list_in "sec_Meta secret" items] requests_find_applicable [of list_in "Meta rs" items'] assms
  by (simp add: findApplicableBDSCForSecret_def findApplicableDBSCForRandomSecret_def GetNamespace_def GetName_def)

text \<open>
  The key that a GitHub or a Kubernetes engine can use must be in a secret of one type,
  and their filters reject every secret of exactly this type: when the credentials were
  read from a secret, neither its creation nor any later version of it with that type wakes
  the controller.
\<close>

theorem usable_key_secret_never_wakes:
  assumes "ssh_Secret (gh_SSHKeyReference (Spec (inst w))) = Some n"
    and "kube_get_secret E (calls w) (GetNamespace (inst w)) n = Inr s"
    and "fst (GitHubSecretEngineConfig_setInternalCredentials E cl w) = Ok ()"
    and "rc_Secret (kse_JWTReference (Spec (inst v))) = Some n'"
    and "kube_get_secret F (calls v) (GetNamespace (inst v)) n' = Inr t"
    and "fst (KubernetesSecretEngineConfig_setInternalCredentials F cl v) = Ok ()"
  shows "\<not> GitHubSecretEngineConfig_isSSHSecret_Create (Some s) \<and>
    (sec_Type new = sec_Type s \<longrightarrow> \<not> GitHubSecretEngineConfig_isSSHSecret_Update old (Some new)) \<and>
    \<not> KubernetesSecretEngineConfig_isSATokenSecret_Create (Some t) \<and>
    (sec_Type new = sec_Type t \<longrightarrow> \<not> KubernetesSecretEngineConfig_isSATokenSecret_Update old (Some new))"
proof -
  have "sec_Type s = ''kubernetes.io/ssh-auth''"
    using assms(1-3)
    by (auto simp: GitHubSecretEngineConfig_setInternalCredentials_def bindG_get bindG_ask with_Secret_def
        typed_secret_key_def go_runs Let_def split: if_splits)
  moreover have "sec_Type t = ''kubernetes.io/service-account-token''"
    using assms(4-6)
    by (auto simp: KubernetesSecretEngineConfig_setInternalCredentials_def bindG_get bindG_ask with_Secret_def
        typed_secret_key_def go_runs Let_def split: if_splits)
  ultimately show ?thesis by (simp add: watch_defs)
qed

text \<open>
  The comparison of the basic-auth filters is the wrong way round: of two versions of an
  opaque secret, one in which both compared keys changed is dropped, and one in which none
  changed is let through, for database, Azure, JWT/OIDC and LDAP configurations; a secret of
  type basic-auth is always dropped.
\<close>

theorem rotated_credentials_dropped:
  assumes "sec_Type new \<noteq> ''kubernetes.io/basic-auth''"
  shows "(DatabaseSecretEngineConfig_isBasicAuthSecret_Update (Some old) (Some new) \<longleftrightarrow>
      same_at ''username'' ''username'' old new \<or> same_at ''password'' ''password'' old new) \<and>
    (\<not> same_at ''username'' ''username'' old new \<and> \<not> same_at ''password'' ''password'' old new \<longrightarrow>
       \<not> JWTOIDCAuthEngineConfig_isBasicAuthSecret_Update (Some old) (Some new) \<and>
       \<not> LDAPAuthEngineConfig_isBasicAuthSecret_Update (Some old) (Some new)) \<and>
    (\<not> same_at ''clientid'' ''clientid'' old new \<and> \<not> same_at ''clientsecret'' ''clientsecret'' old new \<longrightarrow>
       \<not> AzureSecretEngineConfig_isBasicAuthSecret_Update (Some old) (Some new) \<and>
       \<not> AzureAuthEngineConfig_isBasicAuthSecret_Update (Some old) (Some new)) \<and>
    (\<not> same_at ''password'' ''password'' old new \<longrightarrow>
       \<not> QuaySecretEngineConfig_isBasicAuthSecret_Update (Some old) (Some new))"
  using assms by (simp add: watch_defs)

text \<open>
  A \<open>RandomSecret\<close> wakes the configurations that use it exactly when its new version
  records an update time that the old one does not have.
\<close>

theorem random_secret_rotation_wakes:
  "isUpdatedRandomSecret_Update (Some old) (Some new) \<longleftrightarrow>
     rs_LastVaultSecretUpdate (Status new) \<noteq> None \<and>
     rs_LastVaultSecretUpdate (Status new) \<noteq> rs_LastVaultSecretUpdate (Status old)"
  by (auto simp: isUpdatedRandomSecret_Update_def split: option.split)

text \<open>A role whose selector the library rejects, and one that selects a namespace's labels.\<close>

definition bad_selector :: "(string \<Rightarrow> error + ((string, string) fmap \<Rightarrow> bool)) \<Rightarrow> KubernetesAuthEngineRole \<Rightarrow> bool" where
  "bad_selector matches vr = (case tnc_TargetNamespaceSelector (kar_TargetNamespaces (Spec vr)) of
      None \<Rightarrow> False | Some s \<Rightarrow> (case matches s of Inl e \<Rightarrow> True | Inr f \<Rightarrow> False))"

definition selects ::
  "(string \<Rightarrow> error + ((string, string) fmap \<Rightarrow> bool)) \<Rightarrow> (string, string) fmap \<Rightarrow> KubernetesAuthEngineRole \<Rightarrow> bool" where
  "selects matches ls vr = (case tnc_TargetNamespaceSelector (kar_TargetNamespaces (Spec vr)) of
      None \<Rightarrow> False | Some s \<Rightarrow> (case matches s of Inl e \<Rightarrow> False | Inr f \<Rightarrow> f ls))"

lemma applicable_roles_ok:
  "\<not> list_ex (bad_selector matches) vrs \<Longrightarrow> applicable_roles matches ls vrs = Inr (filter (selects matches ls) vrs)"
  by (induction vrs) (auto simp: bad_selector_def selects_def split: option.split sum.split)

lemma applicable_roles_bad:
  "list_ex (bad_selector matches) vrs \<Longrightarrow> \<exists>e. applicable_roles matches ls vrs = Inl e"
proof (induction vrs)
  case (Cons vr vrs)
  then show ?case
    by (cases "bad_selector matches vr") (auto simp: bad_selector_def split: option.split sum.split option.splits sum.splits)
qed simp

text \<open>
  A namespace event concerns exactly the roles whose selector matches its labels, as long
  as every role of the cluster has a selector that the label library accepts; a single role
  with a bad selector, in any namespace, keeps the event from every role.
\<close>

theorem namespace_event_roles:
  "requests (findApplicableKubernetesAuthEngineRoles matches (Inr vrs) ls) =
     (if list_ex (bad_selector matches) vrs then []
      else map (\<lambda>d. (GetNamespace d, GetName d)) (filter (selects matches ls) vrs))"
  using applicable_roles_ok [of matches vrs ls] applicable_roles_bad [of matches vrs ls]
  by (auto simp: findApplicableKubernetesAuthEngineRoles_def requests_def)

end
