(* ===== verification/GroupAlias.thy ===== *)
theory GroupAlias
  imports Credentials Samples
begin

text \<open>
  The \<open>GroupAlias\<close> resource (\<open>api/v1alpha1/groupalias_types.go\<close>). Vault chooses the id of an
  alias, so preparing the resource looks up the mount accessor and the group, creates the
  alias when the status has no id yet, and saves the id in the status; the resource's path
  is the path of that id.
\<close>

section \<open>Data and payload\<close>

record GroupAliasConfig =
  ga_AuthEngineMountPath :: string
  ga_GroupName :: string

record GroupAliasSpec = NamedSpec +
  spec_GroupAliasConfig :: GroupAliasConfig
  ga_retrievedMountAccessor :: string
  ga_retrievedCanonicalID :: string
  ga_retrievedAliasID :: string
  ga_retrievedName :: string

record GroupAliasStatus = BaseStatus +
  ga_ID :: string

type_synonym GroupAlias = "(GroupAliasSpec, GroupAliasStatus) crd"

definition GroupAliasSpec_toMap :: "GroupAliasSpec \<Rightarrow> gmap" where
  "GroupAliasSpec_toMap i = fmap_of_list
     [(''name'', VStr (ga_retrievedName i)),
      (''id'', VStr (ga_retrievedAliasID i)),
      (''mount_accessor'', VStr (ga_retrievedMountAccessor i)),
      (''canonical_id'', VStr (ga_retrievedCanonicalID i))]"

definition GroupAlias_GetPath :: "GroupAlias \<Rightarrow> string" where
  "GroupAlias_GetPath d = CleansePath (''/identity/group-alias/id/'' @ ga_ID (Status d))"

definition GroupAlias_GetPayload :: "GroupAlias \<Rightarrow> gmap" where
  "GroupAlias_GetPayload d = GroupAliasSpec_toMap (Spec d)"

definition server_keys :: "string list" where
  "server_keys = [''creation_time'', ''last_update_time'', ''merged_from_canonical_ids'', ''metadata'',
     ''mount_path'', ''mount_type'']"

definition GroupAlias_IsEquivalentToDesiredState :: "GroupAlias \<Rightarrow> gmap option \<Rightarrow> bool" where
  "GroupAlias_IsEquivalentToDesiredState d payload =
     (let desiredState = GroupAliasSpec_toMap (Spec d)
      in map_option (fold fmdrop server_keys) payload = Some desiredState)"

section \<open>Preparing\<close>

text \<open>A string of a Vault secret that must be there, with the caller's error.\<close>

definition lookup_string ::
  "'o env \<Rightarrow> vault_client \<Rightarrow> string \<Rightarrow> string \<Rightarrow> string \<Rightarrow> ('o, string) go" where
  "lookup_string E cl path key missing =
     bindG (ReadSecret E cl path) (\<lambda>r. case r of (secret, found) \<Rightarrow>
       if \<not> found then errG (ErrMsg missing)
       else case secret of None \<Rightarrow> panicG ''nil pointer dereference'' | Some s \<Rightarrow> data_string s key)"

definition create_payload :: "GroupAlias \<Rightarrow> gmap" where
  "create_payload d = fmap_of_list
     [(''name'', VStr (if Name (Spec d) \<noteq> [] then Name (Spec d) else GetName d)),
      (''mount_accessor'', VStr (ga_retrievedMountAccessor (Spec d))),
      (''canonical_id'', VStr (ga_retrievedCanonicalID (Spec d)))]"

definition create_alias :: "GroupAlias env \<Rightarrow> vault_client \<Rightarrow> (GroupAlias, unit) go" where
  "create_alias E cl =
     bindG getG (\<lambda>d.
     bindG (askG (VaultWrite cl ''/identity/group-alias'' (Some (create_payload d)))
              (\<lambda>tr. vault_write E tr cl ''/identity/group-alias'' (Some (create_payload d)))) (\<lambda>r. case r of
         Inl err \<Rightarrow> errG err
       | Inr None \<Rightarrow> panicG ''nil pointer dereference''
       | Inr (Some result) \<Rightarrow>
           bindG (data_string result ''id'') (\<lambda>i.
           bindG (modifyG (\<lambda>d. d\<lparr>Status := (Status d)\<lparr>ga_ID := i\<rparr>\<rparr>)) (\<lambda>_. StatusUpdate E))))"

definition GroupAlias_PrepareInternalValues ::
  "GroupAlias env \<Rightarrow> vault_client \<Rightarrow> (GroupAlias, unit) go" where
  "GroupAlias_PrepareInternalValues E cl =
     bindG getG (\<lambda>d.
     bindG (lookup_string E cl (CleansePath (''sys/auth/'' @ ga_AuthEngineMountPath (spec_GroupAliasConfig (Spec d))))
              ''accessor'' ''auth engine not found'') (\<lambda>accessor.
     bindG (modifyG (\<lambda>d. d\<lparr>Spec := (Spec d)\<lparr>ga_retrievedMountAccessor := accessor\<rparr>\<rparr>)) (\<lambda>_.
     bindG (lookup_string E cl (CleansePath (''/identity/group/name/'' @ ga_GroupName (spec_GroupAliasConfig (Spec d))))
              ''id'' ''group not found'') (\<lambda>group_id.
     bindG (modifyG (\<lambda>d. d\<lparr>Spec := (Spec d)\<lparr>ga_retrievedCanonicalID := group_id,
              ga_retrievedName := (if Name (Spec d) \<noteq> [] then Name (Spec d) else GetName d)\<rparr>\<rparr>)) (\<lambda>_.
     bindG getG (\<lambda>d.
     bindG (if ga_ID (Status d) = [] then create_alias E cl else retG ()) (\<lambda>_.
     modifyG (\<lambda>d. d\<lparr>Spec := (Spec d)\<lparr>ga_retrievedAliasID := ga_ID (Status d)\<rparr>\<rparr>))))))))"

definition GroupAlias_VaultObject :: "GroupAlias VaultObject" where
  "GroupAlias_VaultObject =
     \<lparr>GetPath = GroupAlias_GetPath,
      GetPayload = GroupAlias_GetPayload,
      IsEquivalentToDesiredState = GroupAlias_IsEquivalentToDesiredState,
      IsInitialized = (\<lambda>_. True),
      IsValid = (\<lambda>_. []),
      IsDeletable = (\<lambda>_. True),
      PrepareInternalValues = GroupAlias_PrepareInternalValues,
      PrepareTLSConfig = (\<lambda>E cl. retG ())\<rparr>"

definition GroupAliasReconciler_Reconcile ::
  "GroupAlias env \<Rightarrow> string \<Rightarrow> string \<Rightarrow> (GroupAlias, Result) go" where
  "GroupAliasReconciler_Reconcile E ns n =
     controller_Reconcile GroupAlias_VaultObject E (VaultResource_Reconcile GroupAlias_VaultObject E) ns n"

section \<open>What preparing may call\<close>

lemma GroupAlias_VaultObject_simps [simp]:
  "GetPath GroupAlias_VaultObject = GroupAlias_GetPath"
  "GetPayload GroupAlias_VaultObject = GroupAlias_GetPayload"
  "IsEquivalentToDesiredState GroupAlias_VaultObject = GroupAlias_IsEquivalentToDesiredState"
  "PrepareInternalValues GroupAlias_VaultObject = GroupAlias_PrepareInternalValues"
  "PrepareTLSConfig GroupAlias_VaultObject = (\<lambda>E cl. retG ())"
  "IsDeletable GroupAlias_VaultObject = (\<lambda>_. True)"
  by (simp_all add: GroupAlias_VaultObject_def)

lemma keeps_lookup_string [emits_intros]:
  "P (VaultRead cl path) \<Longrightarrow> keeps I P (lookup_string E cl path key missing)"
  unfolding lookup_string_def by (intro emits_intros)

lemma keeps_GroupAlias_prepare:
  assumes spec: "\<And>d s. I d \<Longrightarrow> I (d\<lparr>Spec := s\<rparr>)"
    and known: "\<And>d. I d \<Longrightarrow> ga_ID (Status d) \<noteq> []"
    and read: "\<And>p. P (VaultRead cl p)"
  shows "keeps I P (GroupAlias_PrepareInternalValues E cl)"
proof -
  have create: "keeps I P (bindG getG (\<lambda>d. bindG (if ga_ID (Status d) = [] then create_alias E cl else retG ()) f))"
    if "\<And>x. keeps I P (f x)" for f :: "unit \<Rightarrow> (GroupAlias, unit) go"
    by (rule keeps_bind_get) (simp add: known that)
  show ?thesis
    unfolding GroupAlias_PrepareInternalValues_def
    by (intro create keeps_bind keeps_get keeps_modify keeps_lookup_string read spec)
qed

text \<open>With an id, the reconcile logic changes Vault at the path of that id only.\<close>

definition known_alias :: "string \<Rightarrow> GroupAlias \<Rightarrow> bool" where
  "known_alias i d \<longleftrightarrow> ga_ID (Status d) = i \<and> i \<noteq> []"

lemma known_alias_path: "known_alias i d \<Longrightarrow> GroupAlias_GetPath d = CleansePath (''/identity/group-alias/id/'' @ i)"
  by (simp add: known_alias_def GroupAlias_GetPath_def)

lemma GroupAlias_logic_frame:
  "keeps (known_alias i) (own_call (CleansePath (''/identity/group-alias/id/'' @ i)))
     (VaultResource_manageReconcileLogic GroupAlias_VaultObject E cl)"
  unfolding VaultResource_manageReconcileLogic_def CreateOrUpdate_def
  by (simp, intro keeps_bind keeps_bind_get keeps_GroupAlias_prepare keeps_ret keeps_prod keeps_if keeps_read
      keeps_writePayload)
    (auto simp: own_call_def known_alias_path known_alias_def)

lemma GroupAlias_cleanup_frame:
  "keeps (known_alias i) (own_call (CleansePath (''/identity/group-alias/id/'' @ i)))
     (manageCleanUpLogic GroupAlias_VaultObject (DeleteIfExists GroupAlias_VaultObject E cl))"
  unfolding DeleteIfExists_def delete_path_def
  by (intro keeps_manageCleanUpLogic keeps_bind_get keeps_bind keeps_ask keeps_sum keeps_if keeps_ret keeps_err)
    (simp add: own_call_def known_alias_path)

text \<open>
  An alias is created once: while the status knows the id of the alias, a reconcile
  changes Vault at the path of that id only, so it never posts to \<open>identity/group-alias\<close>.
\<close>

theorem GroupAlias_created_once:
  assumes "ga_ID (Status (inst w)) = i" and "i \<noteq> []"
    and "c \<in> set (drop (length (calls w)) (calls (snd (VaultResource_Reconcile GroupAlias_VaultObject E cl w))))"
    and "vault_mutation c = Some q"
  shows "q = CleansePath (''/identity/group-alias/id/'' @ i)"
proof -
  have "allows (known_alias i) (own_call (CleansePath (''/identity/group-alias/id/'' @ i)))
      (VaultResource_Reconcile GroupAlias_VaultObject E cl)"
    unfolding VaultResource_Reconcile_def
    by (intro allows_reconcile_cycle GroupAlias_logic_frame GroupAlias_cleanup_frame)
      (simp add: own_call_def bookkeeping_no_mutation)
  moreover have "known_alias i (inst w)" using assms(1,2) by (simp add: known_alias_def)
  ultimately obtain cs where "calls (snd (VaultResource_Reconcile GroupAlias_VaultObject E cl w)) = calls w @ cs"
      "list_all (own_call (CleansePath (''/identity/group-alias/id/'' @ i))) cs"
    using allowsD by blast
  with assms(3,4) show ?thesis by (auto simp: list_all_iff own_call_def)
qed

section \<open>Creating an alias\<close>

lemma lookup_string_run:
  assumes "vault_read E (calls w) cl path = Inr (Some s)" and "vs_Data s = Some m"
    and "fmlookup m key = Some (VStr v)"
  shows "lookup_string E cl path key missing w = (Ok v, w\<lparr>calls := calls w @ [VaultRead cl path]\<rparr>)"
  using assms
  by (simp add: lookup_string_def bindG_def [of "ReadSecret E cl path"] ReadSecret_run data_string_def opt_lookup_def
      assert_string_def go_runs)

definition accessor_path :: "GroupAlias \<Rightarrow> string" where
  "accessor_path d = CleansePath (''sys/auth/'' @ ga_AuthEngineMountPath (spec_GroupAliasConfig (Spec d)))"

definition group_path :: "GroupAlias \<Rightarrow> string" where
  "group_path d = CleansePath (''/identity/group/name/'' @ ga_GroupName (spec_GroupAliasConfig (Spec d)))"

text \<open>The object after the two look-ups, and what is posted.\<close>

definition looked_up :: "string \<Rightarrow> string \<Rightarrow> GroupAlias \<Rightarrow> GroupAlias" where
  "looked_up accessor g d = d\<lparr>Spec := (Spec d)\<lparr>ga_retrievedMountAccessor := accessor,
     ga_retrievedCanonicalID := g, ga_retrievedName := object_name d\<rparr>\<rparr>"

text \<open>
  Preparing an alias without an id reads the mount and the group, posts the alias with
  the accessor and the group id that were read, and saves the id of the answer in the
  status, in this order; the object in memory then has the id, so its path is the alias.
\<close>

theorem GroupAlias_creation:
  assumes "ga_ID (Status (inst w)) = []"
    and "vault_read E (calls w) cl (accessor_path (inst w)) = Inr (Some s1)"
    and "vs_Data s1 = Some m1" and "fmlookup m1 ''accessor'' = Some (VStr a)"
    and "vault_read E (calls w @ [VaultRead cl (accessor_path (inst w))]) cl (group_path (inst w)) = Inr (Some s2)"
    and "vs_Data s2 = Some m2" and "fmlookup m2 ''id'' = Some (VStr g)"
    and "\<forall>tr m. vault_write E tr cl ''/identity/group-alias'' m = Inr (Some s3)"
    and "vs_Data s3 = Some m3" and "fmlookup m3 ''id'' = Some (VStr i)"
    and "\<forall>tr d. kube_status_update E tr d = Inr d"
  shows "fst (GroupAlias_PrepareInternalValues E cl w) = Ok () \<and>
    calls (snd (GroupAlias_PrepareInternalValues E cl w)) = calls w @
      [VaultRead cl (accessor_path (inst w)), VaultRead cl (group_path (inst w)),
       VaultWrite cl ''/identity/group-alias'' (Some (create_payload (looked_up a g (inst w)))),
       KubeStatusUpdate ((looked_up a g (inst w))\<lparr>Status := (Status (inst w))\<lparr>ga_ID := i\<rparr>\<rparr>)] \<and>
    GroupAlias_GetPath (inst (snd (GroupAlias_PrepareInternalValues E cl w))) =
      CleansePath (''/identity/group-alias/id/'' @ i)"
proof -
  have post: "bindG (data_string s3 k) f = f v" if "fmlookup m3 k = Some (VStr v)"
    for k v and f :: "string \<Rightarrow> (GroupAlias, unit) go"
    using assms(9) that by (simp add: data_string_def opt_lookup_def assert_string_def)
  have mount: "bindG (lookup_string E cl (accessor_path (inst w)) ''accessor'' e) f w =
      f a (w\<lparr>calls := calls w @ [VaultRead cl (accessor_path (inst w))]\<rparr>)" for e and f :: "string \<Rightarrow> (GroupAlias, unit) go"
    by (intro bindG_Ok lookup_string_run [OF assms(2-4)])
  have grp: "bindG (lookup_string E cl (group_path (inst w)) ''id'' e) f w' =
      f g (w'\<lparr>calls := calls w' @ [VaultRead cl (group_path (inst w))]\<rparr>)"
    if "calls w' = calls w @ [VaultRead cl (accessor_path (inst w))]" for e w' and f :: "string \<Rightarrow> (GroupAlias, unit) go"
    using assms(5) by (intro bindG_Ok lookup_string_run [OF _ assms(6,7)]) (simp add: that)
  show ?thesis
    unfolding GroupAlias_PrepareInternalValues_def bindG_get accessor_path_def [symmetric] group_path_def [symmetric] mount
    using assms(1,8,10,11)
    by (simp add: bindG_modify grp bindG_get create_alias_def bindG_assoc bindG_ask bindG_StatusUpdate post
        go_runs looked_up_def object_name_def create_payload_def GroupAlias_GetPath_def GetName_def)
      (auto simp: bindG_def StatusUpdate_run modifyG_def)
qed

section \<open>A concrete alias, and the witnesses\<close>

definition sample_alias :: "string \<Rightarrow> GroupAlias" where
  "sample_alias i =
     \<lparr>TypeKind = ''GroupAlias'', Meta = sample_meta ''devs'',
      Spec = \<lparr>Connection = None, Authentication = sample_auth, Name = [],
        spec_GroupAliasConfig = \<lparr>ga_AuthEngineMountPath = ''ldap'', ga_GroupName = ''team''\<rparr>,
        ga_retrievedMountAccessor = [], ga_retrievedCanonicalID = [], ga_retrievedAliasID = [], ga_retrievedName = []\<rparr>,
      Status = \<lparr>Conditions = [], ga_ID = i\<rparr>\<rparr>"

definition alias_answers :: gmap where
  "alias_answers = fmap_of_list [(''accessor'', VStr ''ldap_1''), (''id'', VStr ''g-1'')]"

definition alias_env :: "GroupAlias env" where
  "alias_env = sample_env\<lparr>vault_read := \<lambda>tr cl p. Inr (Some (data_secret alias_answers)),
     vault_write := \<lambda>tr cl p m. Inr (Some (data_secret alias_answers))\<rparr>"

theorem GroupAlias_creation_witness:
  "calls (snd (GroupAlias_PrepareInternalValues alias_env sample_client (start_world (sample_alias [])))) =
     [VaultRead sample_client ''sys/auth/ldap'', VaultRead sample_client ''identity/group/name/team'',
      VaultWrite sample_client ''/identity/group-alias''
        (Some (create_payload (looked_up ''ldap_1'' ''g-1'' (sample_alias [])))),
      KubeStatusUpdate ((looked_up ''ldap_1'' ''g-1'' (sample_alias []))\<lparr>Status :=
        (Status (sample_alias []))\<lparr>ga_ID := ''g-1''\<rparr>\<rparr>)]"
proof -
  have "accessor_path (sample_alias []) = ''sys/auth/ldap''" "group_path (sample_alias []) = ''identity/group/name/team''"
    by (simp_all add: accessor_path_def group_path_def sample_alias_def CleansePath_def Trim_def)
  then show ?thesis
    using GroupAlias_creation [where E = alias_env and w = "start_world (sample_alias [])" and cl = sample_client
        and a = "''ldap_1''" and g = "''g-1''" and i = "''g-1''" and ?m1.0 = alias_answers and ?m2.0 = alias_answers
        and ?m3.0 = alias_answers and ?s1.0 = "data_secret alias_answers" and ?s2.0 = "data_secret alias_answers"
        and ?s3.0 = "data_secret alias_answers"]
    by (auto simp: alias_env_def data_secret_def alias_answers_def sample_alias_def)
qed

theorem GroupAlias_created_once_witness:
  "\<exists>c q. c \<in> set (calls (snd (VaultResource_Reconcile GroupAlias_VaultObject alias_env sample_client
      (start_world (to_be_deleted (sample_alias ''a-1'')))))) \<and> vault_mutation c = Some q \<and>
    q = CleansePath (''/identity/group-alias/id/'' @ ''a-1'')"
proof -
  let ?d = "to_be_deleted (sample_alias ''a-1'')"
  let ?tr = "calls (snd (VaultResource_Reconcile GroupAlias_VaultObject alias_env sample_client (start_world ?d)))"
  have i: "ga_ID (Status ?d) = ''a-1''"
    by (simp add: to_be_deleted_def SetConditions_def add_fin_def sample_alias_def)
  have "VaultDelete sample_client (GroupAlias_GetPath ?d) \<in> set ?tr"
    using accepted_delete_run [where V = GroupAlias_VaultObject and E = alias_env and cl = sample_client
        and w = "start_world ?d" and d = "remove_fin ?d (GetFinalizer ?d)"]
    by (simp add: alias_env_def)
  then show ?thesis
    using GroupAlias_created_once [where w = "start_world ?d" and E = alias_env and cl = sample_client
        and i = "''a-1''" and c = "VaultDelete sample_client (GroupAlias_GetPath ?d)"] i
    by fastforce
qed

end
