(* ===== verification/RabbitMQ.thy ===== *)
theory RabbitMQ
  imports Credentials Samples Json
begin

text \<open>
  The RabbitMQ engine: \<open>RabbitMQSecretEngineConfig\<close> with its own controller, which writes the
  connection unconditionally and the lease through \<open>CreateOrUpdateLease\<close>
  (\<open>api/v1alpha1/rabbitmqsecretengineconfig_types.go\<close>,
  \<open>controllers/rabbitmqsecretengineconfig_controller.go\<close>), and \<open>RabbitMQSecretEngineRole\<close>
  (\<open>rabbitmqsecretenginerole_types.go\<close>), whose permissions are sent as JSON text.
\<close>

section \<open>RabbitMQSecretEngineConfig\<close>

record RMQSEConfig =
  rmq_ConnectionURI :: string
  rmq_Username :: string
  rmq_VerifyConnection :: bool
  rmq_PasswordPolicy :: string
  rmq_UsernameTemplate :: string
  rmq_LeaseTTL :: int
  rmq_LeaseMaxTTL :: int
  rmq_retrievedPassword :: string
  rmq_retrievedUsername :: string

record RabbitMQSecretEngineConfigSpec = BaseSpec +
  rmq_Path :: string
  spec_RMQSEConfig :: RMQSEConfig
  rmq_RootCredentials :: RootCredentialConfig

type_synonym RabbitMQSecretEngineConfig = "(RabbitMQSecretEngineConfigSpec, BaseStatus) crd"

definition RMQSEConfig_rabbitMQToMap :: "RMQSEConfig \<Rightarrow> gmap" where
  "RMQSEConfig_rabbitMQToMap fields' = fmap_of_list
     [(''connection_uri'', VStr (rmq_ConnectionURI fields')),
      (''verify_connection'', VBool (rmq_VerifyConnection fields')),
      (''username'', VStr (rmq_retrievedUsername fields')),
      (''password'', VStr (rmq_retrievedPassword fields')),
      (''username_template'', VStr (rmq_UsernameTemplate fields')),
      (''password_policy'', VStr (rmq_PasswordPolicy fields'))]"

definition RMQSEConfig_leasesToMap :: "RMQSEConfig \<Rightarrow> gmap" where
  "RMQSEConfig_leasesToMap fields' = fmap_of_list
     [(''ttl'', VInt (rmq_LeaseTTL fields')),
      (''max_ttl'', VInt (rmq_LeaseMaxTTL fields'))]"

definition RabbitMQSecretEngineConfig_GetPath :: "RabbitMQSecretEngineConfig \<Rightarrow> string" where
  "RabbitMQSecretEngineConfig_GetPath d = rmq_Path (Spec d) @ ''/config/connection''"

definition RabbitMQSecretEngineConfig_GetPayload :: "RabbitMQSecretEngineConfig \<Rightarrow> gmap" where
  "RabbitMQSecretEngineConfig_GetPayload d = RMQSEConfig_rabbitMQToMap (spec_RMQSEConfig (Spec d))"

definition RabbitMQSecretEngineConfig_IsEquivalentToDesiredState ::
  "RabbitMQSecretEngineConfig \<Rightarrow> gmap option \<Rightarrow> bool" where
  "RabbitMQSecretEngineConfig_IsEquivalentToDesiredState d payload =
     (payload = Some (RMQSEConfig_leasesToMap (spec_RMQSEConfig (Spec d))))"

definition RabbitMQSecretEngineConfig_GetLeasePath :: "RabbitMQSecretEngineConfig \<Rightarrow> string" where
  "RabbitMQSecretEngineConfig_GetLeasePath d = rmq_Path (Spec d) @ ''/config/lease''"

definition RabbitMQSecretEngineConfig_GetLeasePayload :: "RabbitMQSecretEngineConfig \<Rightarrow> gmap" where
  "RabbitMQSecretEngineConfig_GetLeasePayload d = RMQSEConfig_leasesToMap (spec_RMQSEConfig (Spec d))"

definition RabbitMQSecretEngineConfig_CheckTTLValuesProvided :: "RabbitMQSecretEngineConfig \<Rightarrow> bool" where
  "RabbitMQSecretEngineConfig_CheckTTLValuesProvided d =
     (if rmq_LeaseTTL (spec_RMQSEConfig (Spec d)) \<noteq> 0 \<or> rmq_LeaseMaxTTL (spec_RMQSEConfig (Spec d)) \<noteq> 0
      then True else False)"

definition RabbitMQSecretEngineConfig_isValid :: "RabbitMQSecretEngineConfig \<Rightarrow> error option" where
  "RabbitMQSecretEngineConfig_isValid d =
     ValidateEitherFromVaultSecretOrFromSecretOrFromRandomSecret (rmq_RootCredentials (Spec d))"

definition RabbitMQSecretEngineConfig_SetUsernameAndPassword ::
  "string \<Rightarrow> string \<Rightarrow> RabbitMQSecretEngineConfig \<Rightarrow> RabbitMQSecretEngineConfig" where
  "RabbitMQSecretEngineConfig_SetUsernameAndPassword username password m =
     m\<lparr>Spec := (Spec m)\<lparr>spec_RMQSEConfig := (spec_RMQSEConfig (Spec m))\<lparr>
        rmq_retrievedPassword := password, rmq_retrievedUsername := username\<rparr>\<rparr>\<rparr>"

text \<open>
  The data of a Vault secret, where a key \<open>data\<close> marks a KV v2 secret; and a comma-ok string
  assertion on it, with the error of its caller.
\<close>

definition kv_data :: "vault_secret \<Rightarrow> ('o, gmap option) go" where
  "kv_data s = (case opt_lookup (vs_Data s) ''data'' of
      Some dataInterface \<Rightarrow> (case as_map (Some dataInterface) of
          Some m \<Rightarrow> retG (Some m)
        | None \<Rightarrow> errG (ErrMsg ''vault secret data is not in expected format for KV v2''))
    | None \<Rightarrow> retG (vs_Data s))"

definition string_or_error :: "gmap option \<Rightarrow> string \<Rightarrow> string \<Rightarrow> ('o, string) go" where
  "string_or_error m key err = (case as_string (opt_lookup m key) of
      Some s \<Rightarrow> retG s | None \<Rightarrow> errG (ErrMsg err))"

definition RabbitMQSecretEngineConfig_setInternalCredentials ::
  "RabbitMQSecretEngineConfig env \<Rightarrow> vault_client \<Rightarrow> (RabbitMQSecretEngineConfig, unit) go" where
  "RabbitMQSecretEngineConfig_setInternalCredentials E cl =
     bindG getG (\<lambda>d.
       let rc = rmq_RootCredentials (Spec d); user = rmq_Username (spec_RMQSEConfig (Spec d));
           set_user = (\<lambda>u p. modifyG (RabbitMQSecretEngineConfig_SetUsernameAndPassword u p));
           no_password = ''password key not found or not a string in vault secret''
       in from_credentials E cl (GetNamespace d) rc
            (\<lambda>rs s. bindG (kv_data s) (\<lambda>secretData.
               bindG (string_or_error secretData (SecretKey (Spec rs))
                 ''secret key not found or not a string in vault secret'') (\<lambda>p. set_user user p)))
            (\<lambda>s. if user = []
                 then set_user (str_at (sec_Data s) (rc_UsernameKey rc)) (str_at (sec_Data s) (rc_PasswordKey rc))
                 else set_user user (str_at (sec_Data s) (rc_PasswordKey rc)))
            (\<lambda>s. bindG (kv_data s) (\<lambda>secretData.
               if user = []
               then bindG (string_or_error secretData (rc_UsernameKey rc)
                      ''username key not found or not a string in vault secret'') (\<lambda>u.
                    bindG (string_or_error secretData (rc_PasswordKey rc) no_password) (\<lambda>p. set_user u p))
               else bindG (string_or_error secretData (rc_PasswordKey rc) no_password) (\<lambda>p. set_user user p))))"

definition RabbitMQSecretEngineConfig_VaultObject ::
  "RabbitMQSecretEngineConfig RabbitMQEngineConfigVaultObject" where
  "RabbitMQSecretEngineConfig_VaultObject =
     \<lparr>GetPath = RabbitMQSecretEngineConfig_GetPath,
      GetPayload = RabbitMQSecretEngineConfig_GetPayload,
      IsEquivalentToDesiredState = RabbitMQSecretEngineConfig_IsEquivalentToDesiredState,
      IsInitialized = (\<lambda>_. True),
      IsValid = (\<lambda>d. somes [RabbitMQSecretEngineConfig_isValid d]),
      IsDeletable = (\<lambda>_. False),
      PrepareInternalValues = RabbitMQSecretEngineConfig_setInternalCredentials,
      PrepareTLSConfig = (\<lambda>E cl. retG ()),
      GetLeasePath = RabbitMQSecretEngineConfig_GetLeasePath,
      GetLeasePayload = RabbitMQSecretEngineConfig_GetLeasePayload,
      CheckTTLValuesProvided = RabbitMQSecretEngineConfig_CheckTTLValuesProvided\<rparr>"

definition RabbitMQ_manageReconcileLogic ::
  "RabbitMQSecretEngineConfig env \<Rightarrow> vault_client \<Rightarrow> (RabbitMQSecretEngineConfig, unit) go" where
  "RabbitMQ_manageReconcileLogic E cl =
     bindG (PrepareInternalValues RabbitMQSecretEngineConfig_VaultObject E cl) (\<lambda>_.
     bindG (Create RabbitMQSecretEngineConfig_VaultObject E cl) (\<lambda>_.
     CreateOrUpdateLease RabbitMQSecretEngineConfig_VaultObject E cl))"

definition RabbitMQSecretEngineConfigReconciler_Reconcile ::
  "RabbitMQSecretEngineConfig env \<Rightarrow> string \<Rightarrow> string \<Rightarrow> (RabbitMQSecretEngineConfig, Result) go" where
  "RabbitMQSecretEngineConfigReconciler_Reconcile E ns n =
     controller_Reconcile RabbitMQSecretEngineConfig_VaultObject E (\<lambda>cl.
       bindG getG (\<lambda>instance.
         if is_deleted instance then retG \<lparr>RequeueAfter = 0\<rparr>
         else bindG (tryG (RabbitMQ_manageReconcileLogic E cl)) (\<lambda>r. case r of
             Inl err \<Rightarrow> ManageOutcome (Some RabbitMQSecretEngineConfig_VaultObject) E (Some err)
           | Inr _ \<Rightarrow> ManageOutcome (Some RabbitMQSecretEngineConfig_VaultObject) E None))) ns n"

section \<open>RabbitMQSecretEngineRole\<close>

record VhostPermissions =
  vp_Configure :: string
  vp_Write :: string
  vp_Read :: string

record Vhost =
  vh_VhostName :: string
  vh_Permissions :: VhostPermissions

record Topic =
  tp_TopicName :: string
  tp_Permissions :: VhostPermissions

record VhostTopic =
  vt_VhostName :: string
  vt_Topics :: "Topic list"

record RMQSERole =
  rmqr_Tags :: string
  rmqr_Vhosts :: "Vhost list"
  rmqr_VhostTopics :: "VhostTopic list"

record RabbitMQSecretEngineRoleSpec = PathSpec +
  spec_RMQSERole :: RMQSERole

type_synonym RabbitMQSecretEngineRole = "(RabbitMQSecretEngineRoleSpec, BaseStatus) crd"

definition json_permissions :: "VhostPermissions \<Rightarrow> string" where
  "json_permissions p = json_members (omit_empty
     [(''configure'', vp_Configure p), (''write'', vp_Write p), (''read'', vp_Read p)])"

text \<open>Each turn of the loop assigns a new map of one entry.\<close>

definition convertVhostsToJson :: "Vhost list \<Rightarrow> string" where
  "convertVhostsToJson vhosts =
     json_map json_permissions
       (foldl (\<lambda>vhostData vhost. fmap_of_list [(vh_VhostName vhost, vh_Permissions vhost)]) fmempty vhosts)"

definition convertTopicsToJson :: "VhostTopic list \<Rightarrow> string" where
  "convertTopicsToJson vhosts =
     json_map (json_map json_permissions)
       (snd (foldl (\<lambda>(topicData, vhostData) vhost.
          let topicData = foldl (\<lambda>topicData topic. fmap_of_list [(tp_TopicName topic, tp_Permissions topic)])
                topicData (vt_Topics vhost)
          in (topicData, fmap_of_list [(vt_VhostName vhost, topicData)])) (fmempty, fmempty) vhosts))"

definition RMQSERole_rabbitMQToMap :: "RMQSERole \<Rightarrow> gmap" where
  "RMQSERole_rabbitMQToMap fields' = fmap_of_list
     [(''tags'', VStr (rmqr_Tags fields')),
      (''vhosts'', VStr (convertVhostsToJson (rmqr_Vhosts fields'))),
      (''vhost_topics'', VStr (convertTopicsToJson (rmqr_VhostTopics fields')))]"

definition RabbitMQSecretEngineRole_GetPath :: "RabbitMQSecretEngineRole \<Rightarrow> string" where
  "RabbitMQSecretEngineRole_GetPath d =
     (if Name (Spec d) \<noteq> [] then CleansePath (Path (Spec d) @ ''/'' @ ''roles'' @ ''/'' @ Name (Spec d))
      else CleansePath (Path (Spec d) @ ''/'' @ ''roles'' @ ''/'' @ GetName d))"

definition RabbitMQSecretEngineRole_GetPayload :: "RabbitMQSecretEngineRole \<Rightarrow> gmap" where
  "RabbitMQSecretEngineRole_GetPayload d = RMQSERole_rabbitMQToMap (spec_RMQSERole (Spec d))"

definition RabbitMQSecretEngineRole_IsEquivalentToDesiredState ::
  "RabbitMQSecretEngineRole \<Rightarrow> gmap option \<Rightarrow> bool" where
  "RabbitMQSecretEngineRole_IsEquivalentToDesiredState d payload =
     (payload = Some (RMQSERole_rabbitMQToMap (spec_RMQSERole (Spec d))))"

definition RabbitMQSecretEngineRole_VaultObject :: "RabbitMQSecretEngineRole VaultObject" where
  "RabbitMQSecretEngineRole_VaultObject =
     \<lparr>GetPath = RabbitMQSecretEngineRole_GetPath,
      GetPayload = RabbitMQSecretEngineRole_GetPayload,
      IsEquivalentToDesiredState = RabbitMQSecretEngineRole_IsEquivalentToDesiredState,
      IsInitialized = (\<lambda>_. True),
      IsValid = (\<lambda>_. []),
      IsDeletable = (\<lambda>_. True),
      PrepareInternalValues = (\<lambda>E cl. retG ()),
      PrepareTLSConfig = (\<lambda>E cl. retG ())\<rparr>"

definition RabbitMQSecretEngineRoleReconciler_Reconcile ::
  "RabbitMQSecretEngineRole env \<Rightarrow> string \<Rightarrow> string \<Rightarrow> (RabbitMQSecretEngineRole, Result) go" where
  "RabbitMQSecretEngineRoleReconciler_Reconcile E ns n =
     controller_Reconcile RabbitMQSecretEngineRole_VaultObject E
       (VaultResource_Reconcile RabbitMQSecretEngineRole_VaultObject E) ns n"

section \<open>The contract of a resource\<close>

lemma RabbitMQ_VaultObject_simps [simp]:
  "GetPath RabbitMQSecretEngineConfig_VaultObject = RabbitMQSecretEngineConfig_GetPath"
  "GetPayload RabbitMQSecretEngineConfig_VaultObject = RabbitMQSecretEngineConfig_GetPayload"
  "IsEquivalentToDesiredState RabbitMQSecretEngineConfig_VaultObject = RabbitMQSecretEngineConfig_IsEquivalentToDesiredState"
  "IsDeletable RabbitMQSecretEngineConfig_VaultObject = (\<lambda>_. False)"
  "PrepareInternalValues RabbitMQSecretEngineConfig_VaultObject = RabbitMQSecretEngineConfig_setInternalCredentials"
  "PrepareTLSConfig RabbitMQSecretEngineConfig_VaultObject = (\<lambda>E cl. retG ())"
  "GetLeasePath RabbitMQSecretEngineConfig_VaultObject = RabbitMQSecretEngineConfig_GetLeasePath"
  "GetLeasePayload RabbitMQSecretEngineConfig_VaultObject = RabbitMQSecretEngineConfig_GetLeasePayload"
  "CheckTTLValuesProvided RabbitMQSecretEngineConfig_VaultObject = RabbitMQSecretEngineConfig_CheckTTLValuesProvided"
  by (simp_all add: RabbitMQSecretEngineConfig_VaultObject_def)

lemma RabbitMQ_set_user_simps [simp]:
  fixes d :: RabbitMQSecretEngineConfig and u p :: string
  defines "d' \<equiv> RabbitMQSecretEngineConfig_SetUsernameAndPassword u p d"
  shows "object_view RabbitMQSecretEngineConfig_VaultObject d' = object_view RabbitMQSecretEngineConfig_VaultObject d"
    "RabbitMQSecretEngineConfig_GetPath d' = RabbitMQSecretEngineConfig_GetPath d"
    "RabbitMQSecretEngineConfig_GetLeasePath d' = RabbitMQSecretEngineConfig_GetLeasePath d"
    "RabbitMQSecretEngineConfig_CheckTTLValuesProvided d' = RabbitMQSecretEngineConfig_CheckTTLValuesProvided d"
    "RabbitMQSecretEngineConfig_GetLeasePayload d' = RabbitMQSecretEngineConfig_GetLeasePayload d"
  by (simp_all add: d'_def object_view_def RabbitMQSecretEngineConfig_SetUsernameAndPassword_def
      RabbitMQSecretEngineConfig_GetPath_def RabbitMQSecretEngineConfig_GetLeasePath_def GetConditions_def
      RabbitMQSecretEngineConfig_CheckTTLValuesProvided_def RabbitMQSecretEngineConfig_GetLeasePayload_def
      RMQSEConfig_leasesToMap_def)

lemma keeps_kv_data [emits_intros]: "keeps I P (kv_data s)"
  unfolding kv_data_def by (intro emits_intros)

lemma keeps_string_or_error [emits_intros]: "keeps I P (string_or_error m k e)"
  unfolding string_or_error_def by (intro emits_intros)

lemma keeps_rabbitmq_credentials:
  assumes "\<And>u p d. I d \<Longrightarrow> I (RabbitMQSecretEngineConfig_SetUsernameAndPassword u p d)"
    and "\<And>d c. I d \<Longrightarrow> credential_call E (GetNamespace d) (rmq_RootCredentials (Spec d)) c \<Longrightarrow> P c"
  shows "keeps I P (RabbitMQSecretEngineConfig_setInternalCredentials E cl)"
  unfolding RabbitMQSecretEngineConfig_setInternalCredentials_def Let_def
  by (intro keeps_bind_get keeps_mono [OF keeps_from_credentials] emits_intros assms) simp_all

interpretation rabbitmq_config: vault_object RabbitMQSecretEngineConfig_VaultObject
  by unfold_locales (auto simp: keeps_ret intro!: keeps_rabbitmq_credentials intro: credential_call_query)

interpretation rabbitmq_role: vault_object RabbitMQSecretEngineRole_VaultObject
  by unfold_locales (simp_all add: RabbitMQSecretEngineRole_VaultObject_def keeps_ret)

section \<open>Properties\<close>

lemma CreateOrUpdateLease_run:
  "CreateOrUpdateLease V E cl w =
     (let p = GetLeasePath V (inst w); w' = w\<lparr>calls := calls w @ [VaultRead cl p]\<rparr> in
      if CheckTTLValuesProvided V (inst w) then (Ok (), w)
      else case read_answer (vault_read E (calls w) cl p) of
        Ok (cur, found) \<Rightarrow>
          if found \<and> IsEquivalentToDesiredState V (inst w) cur then (Ok (), w')
          else writePayload E cl p (Some (GetLeasePayload V (inst w))) w'
      | Err e \<Rightarrow> (Err e, w') | Panic p \<Rightarrow> (Panic p, w'))"
  by (simp add: CreateOrUpdateLease_def bindG_get bindG_read Let_def retG_def split: res.split)

lemma lease_never_equivalent:
  assumes "case m of None \<Rightarrow> True | Some p \<Rightarrow> json_object p"
  shows "\<not> RabbitMQSecretEngineConfig_IsEquivalentToDesiredState d m"
proof
  assume "RabbitMQSecretEngineConfig_IsEquivalentToDesiredState d m"
  then have "json_object (RMQSEConfig_leasesToMap (spec_RMQSEConfig (Spec d)))"
    using assms by (simp add: RabbitMQSecretEngineConfig_IsEquivalentToDesiredState_def)
  moreover have "fmlookup (RMQSEConfig_leasesToMap (spec_RMQSEConfig (Spec d))) ''ttl'' =
      Some (VInt (rmq_LeaseTTL (spec_RMQSEConfig (Spec d))))"
    by (simp add: RMQSEConfig_leasesToMap_def)
  ultimately show False using json_object_lookup by fastforce
qed

text \<open>
  The lease step has its guard inverted: when the resource gives a TTL nothing is sent,
  and when it gives none (both TTLs zero) zeros are written to the lease path, at every
  reconcile, since no answer of Vault equals the Go integers.
\<close>

theorem RabbitMQ_lease_guard_inverted:
  assumes "read_answer (vault_read E (calls w) cl (RabbitMQSecretEngineConfig_GetLeasePath (inst w))) = Ok (m, found)"
    and "case m of None \<Rightarrow> True | Some p \<Rightarrow> json_object p"
    and "\<forall>tr p pl. \<exists>s. vault_write E tr cl p pl = Inr s"
  shows "CreateOrUpdateLease RabbitMQSecretEngineConfig_VaultObject E cl w =
    (Ok (), w\<lparr>calls := calls w @
       (if rmq_LeaseTTL (spec_RMQSEConfig (Spec (inst w))) = 0 \<and> rmq_LeaseMaxTTL (spec_RMQSEConfig (Spec (inst w))) = 0
        then [VaultRead cl (RabbitMQSecretEngineConfig_GetLeasePath (inst w)),
              VaultWrite cl (RabbitMQSecretEngineConfig_GetLeasePath (inst w))
                (Some (fmap_of_list [(''ttl'', VInt 0), (''max_ttl'', VInt 0)]))]
        else [])\<rparr>)"
proof (cases "RabbitMQSecretEngineConfig_CheckTTLValuesProvided (inst w)")
  case True
  then show ?thesis
    by (auto simp: CreateOrUpdateLease_run RabbitMQSecretEngineConfig_CheckTTLValuesProvided_def Let_def split: if_splits)
next
  case False
  obtain s where "vault_write E (calls w @ [VaultRead cl (RabbitMQSecretEngineConfig_GetLeasePath (inst w))]) cl
      (RabbitMQSecretEngineConfig_GetLeasePath (inst w)) (Some (RabbitMQSecretEngineConfig_GetLeasePayload (inst w))) = Inr s"
    using assms(3) by blast
  then show ?thesis
    using False assms(1) lease_never_equivalent [OF assms(2), of "inst w"]
    by (auto simp: CreateOrUpdateLease_run RabbitMQSecretEngineConfig_CheckTTLValuesProvided_def Let_def writePayload_run
        RabbitMQSecretEngineConfig_GetLeasePayload_def RMQSEConfig_leasesToMap_def split: if_splits)
qed

text \<open>
  A resource that gives a TTL never has its lease configured: whatever the servers
  answer, its reconcile logic changes Vault at the connection path only.
\<close>

theorem RabbitMQ_lease_ttl_never_sent:
  assumes "rmq_LeaseTTL (spec_RMQSEConfig (Spec (inst w))) \<noteq> 0"
  shows "list_all (\<lambda>c. vault_mutation c \<in> {None, Some (RabbitMQSecretEngineConfig_GetPath (inst w))})
     (drop (length (calls w)) (calls (snd (RabbitMQ_manageReconcileLogic E cl w))))"
proof -
  let ?I = "\<lambda>d. RabbitMQSecretEngineConfig_GetPath d = RabbitMQSecretEngineConfig_GetPath (inst w) \<and>
    RabbitMQSecretEngineConfig_CheckTTLValuesProvided d"
  let ?P = "\<lambda>c. vault_mutation c \<in> {None, Some (RabbitMQSecretEngineConfig_GetPath (inst w))}"
  have prepare: "keeps ?I ?P (RabbitMQSecretEngineConfig_setInternalCredentials E cl)"
    by (rule keeps_rabbitmq_credentials) (auto simp: is_query_no_mutation dest: credential_call_query)
  have create: "keeps ?I ?P (Create RabbitMQSecretEngineConfig_VaultObject E cl)"
    unfolding Create_def by (intro keeps_bind_get keeps_writePayload) simp
  have lease: "keeps ?I ?P (CreateOrUpdateLease RabbitMQSecretEngineConfig_VaultObject E cl)"
    unfolding CreateOrUpdateLease_def by (rule keeps_bind_get) (simp add: keeps_ret)
  have "keeps ?I ?P (RabbitMQ_manageReconcileLogic E cl)"
    unfolding RabbitMQ_manageReconcileLogic_def
    by (intro keeps_bind create lease) (simp only: RabbitMQ_VaultObject_simps prepare)
  moreover have "?I (inst w)"
    using assms by (simp add: RabbitMQSecretEngineConfig_CheckTTLValuesProvided_def)
  ultimately show ?thesis by (rule keepsE) auto
qed

text \<open>
  However many virtual hosts (or topics) a role lists, the JSON sent to Vault holds the
  last one only: each turn of the loop replaces the map instead of adding to it.
\<close>

theorem vhosts_last_wins:
  "convertVhostsToJson (vs @ [v]) = convertVhostsToJson [v] \<and>
   convertTopicsToJson (ts @ [\<lparr>vt_VhostName = n, vt_Topics = us @ [u]\<rparr>]) =
     convertTopicsToJson [\<lparr>vt_VhostName = n, vt_Topics = [u]\<rparr>]"
  by (simp add: convertVhostsToJson_def convertTopicsToJson_def Let_def split: prod.split)

section \<open>A concrete configuration, and the witnesses\<close>

definition sample_rabbitmq :: "int \<Rightarrow> RabbitMQSecretEngineConfig" where
  "sample_rabbitmq ttl =
     \<lparr>TypeKind = ''RabbitMQSecretEngineConfig'', Meta = sample_meta ''mq'',
      Spec = \<lparr>Connection = None, Authentication = sample_auth, rmq_Path = ''mq'',
        spec_RMQSEConfig = \<lparr>rmq_ConnectionURI = ''http://mq'', rmq_Username = ''root'', rmq_VerifyConnection = True,
          rmq_PasswordPolicy = [], rmq_UsernameTemplate = [], rmq_LeaseTTL = ttl, rmq_LeaseMaxTTL = ttl,
          rmq_retrievedPassword = [], rmq_retrievedUsername = []\<rparr>,
        rmq_RootCredentials = \<lparr>rc_VaultSecret = None, rc_Secret = Some ''mq-root'', rc_RandomSecret = None,
          rc_PasswordKey = ''password'', rc_UsernameKey = ''username''\<rparr>\<rparr>,
      Status = \<lparr>Conditions = []\<rparr>\<rparr>"

theorem RabbitMQ_lease_guard_inverted_witness:
  "map vault_mutation (calls (snd (CreateOrUpdateLease RabbitMQSecretEngineConfig_VaultObject sample_env sample_client
     (start_world (sample_rabbitmq 0))))) = [None, Some ''mq/config/lease'']"
  using RabbitMQ_lease_guard_inverted [where w = "start_world (sample_rabbitmq 0)" and E = sample_env
      and cl = sample_client and m = None and found = False]
  by (simp add: sample_rabbitmq_def RabbitMQSecretEngineConfig_GetLeasePath_def read_answer_def)

theorem RabbitMQ_lease_ttl_never_sent_witness:
  "list_all (\<lambda>c. vault_mutation c \<in> {None, Some ''mq/config/connection''})
     (calls (snd (RabbitMQ_manageReconcileLogic sample_env sample_client (start_world (sample_rabbitmq 3600)))))"
  using RabbitMQ_lease_ttl_never_sent [where w = "start_world (sample_rabbitmq 3600)" and E = sample_env
      and cl = sample_client]
  by (simp add: sample_rabbitmq_def RabbitMQSecretEngineConfig_GetPath_def)

end
