(* ===== verification/PlainObjects.thy ===== *)
theory PlainObjects
  imports SecretWatch GroupAlias RabbitMQ
begin

text \<open>
  What the resources reconciled by \<open>VaultResource\<close> have in common, as interfaces: a resource
  that compares its desired payload with Vault's answer after dropping some keys
  (\<open>comparing_object\<close>), one whose payload holds a Go value that no JSON answer holds
  (\<open>typed_object\<close>), and one whose payload is plain JSON (\<open>json_payload_object\<close>). Each
  interface is interpreted on every kind of resource of \<open>SecretRoles\<close>, \<open>AuthRoles\<close>,
  \<open>SecretConfigs\<close>, \<open>AuthConfigs\<close> and \<open>RabbitMQ\<close> that has it.
\<close>

section \<open>The interfaces\<close>

lemma fold_fmdrop_lookup: "fmlookup (fold fmdrop ks m) k = (if k \<in> set ks then None else fmlookup m k)"
  by (induction ks arbitrary: m) auto

lemma json_fold_fmdrop: "json_object m \<Longrightarrow> json_object (fold fmdrop ks m)"
  by (rule json_objectI) (auto simp: fold_fmdrop_lookup split: if_splits dest: json_object_lookup)

lemma json_object_fmempty: "json_object fmempty"
  by (rule json_objectI) simp

lemma json_object_fmupd: "json_value v \<Longrightarrow> json_object m \<Longrightarrow> json_object (fmupd k v m)"
  by (rule json_objectI) (auto dest: json_object_lookup split: if_splits)

text \<open>\<open>ignored\<close> are the keys dropped from Vault's answer, \<open>hidden\<close> those dropped from the payload.\<close>

locale comparing_object = vault_object V
  for V :: "(('s, 'x) object, 'z) VaultObject_scheme" +
  fixes ignored hidden :: "string list"
  assumes equivalent_iff: "IsEquivalentToDesiredState V d p \<longleftrightarrow>
      map_option (fold fmdrop ignored) p = Some (fold fmdrop hidden (GetPayload V d))"
begin

lemma settles_iff:
  assumes "read_answer (vault_read E (calls w) cl (GetPath V (inst w))) = Ok (Some m, True)"
    and "\<forall>tr pl. \<exists>s. vault_write E tr cl (GetPath V (inst w)) (Some pl) = Inr s"
  shows "calls (snd (CreateOrUpdate V E cl w)) = calls w @ [VaultRead cl (GetPath V (inst w))] \<longleftrightarrow>
    fold fmdrop ignored m = fold fmdrop hidden (GetPayload V (inst w))"
proof -
  let ?p = "GetPath V (inst w)"
  obtain s where "vault_write E (calls w @ [VaultRead cl ?p]) cl ?p (Some (GetPayload V (inst w))) = Inr s"
    using assms(2) by blast
  then show ?thesis using assms(1) by (simp add: CreateOrUpdate_run Let_def writePayload_run equivalent_iff)
qed

end

locale typed_object = comparing_object V ignored hidden
  for V :: "(('s, 'x) object, 'z) VaultObject_scheme" and ignored hidden +
  fixes go_key :: string
  assumes go_value: "go_key \<notin> set hidden \<and> (\<exists>v. fmlookup (GetPayload V d) go_key = Some v \<and> \<not> json_value v)"
begin

lemma never_equivalent:
  assumes "\<And>m. p = Some m \<Longrightarrow> json_object m"
  shows "\<not> IsEquivalentToDesiredState V d p"
proof
  assume "IsEquivalentToDesiredState V d p"
  then obtain m where m: "p = Some m" "fold fmdrop ignored m = fold fmdrop hidden (GetPayload V d)"
    by (auto simp: equivalent_iff)
  have "json_object (fold fmdrop ignored m)" using assms m(1) by (simp add: json_fold_fmdrop)
  moreover obtain v where "fmlookup (fold fmdrop hidden (GetPayload V d)) go_key = Some v" "\<not> json_value v"
    using go_value [of d] by (auto simp: fold_fmdrop_lookup)
  ultimately show False using m(2) json_object_lookup by metis
qed

text \<open>Whatever Vault answers, a reconcile that reads writes.\<close>

lemma always_writes:
  assumes "read_answer (vault_read E (calls w) cl (GetPath V (inst w))) = Ok (m, found)"
    and "\<And>x. m = Some x \<Longrightarrow> json_object x"
  shows "calls (snd (CreateOrUpdate V E cl w)) = calls w @
    [VaultRead cl (GetPath V (inst w)), VaultWrite cl (GetPath V (inst w)) (Some (GetPayload V (inst w)))]"
  using assms never_equivalent [OF assms(2)]
  by (simp add: CreateOrUpdate_run Let_def writePayload_run split: sum.split)

end

locale json_payload_object = comparing_object V "[]" hidden
  for V :: "(('s, 'x) object, 'z) VaultObject_scheme" and hidden +
  assumes json_payload: "json_object (GetPayload V d)"
begin

text \<open>
  On a server that gives a JSON object back without the hidden keys, a second reconcile
  makes no write.
\<close>

lemma settles:
  assumes "kv_server f E cl (GetPath V (inst w))"
    and "\<And>m. json_object m \<Longrightarrow> f m = fold fmdrop hidden m"
    and "stored (GetPath V (inst w)) (rev (calls w)) = Some (GetPayload V (inst w))"
  shows "calls (snd (CreateOrUpdate V E cl w)) = calls w @ [VaultRead cl (GetPath V (inst w))]"
proof (rule settles_iff [THEN iffD2])
  show "read_answer (vault_read E (calls w) cl (GetPath V (inst w))) = Ok (Some (f (GetPayload V (inst w))), True)"
    using assms(1,3) by (simp add: kv_server_def)
  show "\<forall>tr pl. \<exists>s. vault_write E tr cl (GetPath V (inst w)) (Some pl) = Inr s"
    using assms(1) by (simp add: kv_server_def)
qed (simp add: assms(2) json_payload)

end

text \<open>Every payload, path and comparison unfolds to the fields of the spec.\<close>

section \<open>Preparing the kinds that retrieve something\<close>

text \<open>The setters leave what the cycle looks at alone.\<close>

lemma setters_view [simp]:
  "object_view QuaySecretEngineConfig_VaultObject (QuaySecretEngineConfig_SetToken t (q22 :: QuaySecretEngineConfig)) = object_view QuaySecretEngineConfig_VaultObject q22"
  "object_view GitHubSecretEngineConfig_VaultObject (GitHubSecretEngineConfig_set_retrievedSSHKey t (g24 :: GitHubSecretEngineConfig)) = object_view GitHubSecretEngineConfig_VaultObject g24"
  "object_view AzureSecretEngineConfig_VaultObject (AzureSecretEngineConfig_SetClientIDAndClientSecret u p (a23 :: AzureSecretEngineConfig)) = object_view AzureSecretEngineConfig_VaultObject a23"
  "object_view KubernetesSecretEngineConfig_VaultObject (KubernetesSecretEngineConfig_set_retrievedServiceAccountJWT t (k28 :: KubernetesSecretEngineConfig)) = object_view KubernetesSecretEngineConfig_VaultObject k28"
  "object_view AzureAuthEngineConfig_VaultObject (AzureAuthEngineConfig_SetClientIDAndClientSecret u p (a21 :: AzureAuthEngineConfig)) = object_view AzureAuthEngineConfig_VaultObject a21"
  "object_view GCPAuthEngineConfig_VaultObject (GCPAuthEngineConfig_SetServiceAccountAndCredentials u p (g19 :: GCPAuthEngineConfig)) = object_view GCPAuthEngineConfig_VaultObject g19"
  "object_view JWTOIDCAuthEngineConfig_VaultObject (JWTOIDCAuthEngineConfig_SetUsernameAndPassword u p (j23 :: JWTOIDCAuthEngineConfig)) = object_view JWTOIDCAuthEngineConfig_VaultObject j23"
  "object_view LDAPAuthEngineConfig_VaultObject (LDAPAuthEngineConfig_SetUsernameAndPassword u p (l20 :: LDAPAuthEngineConfig)) = object_view LDAPAuthEngineConfig_VaultObject l20"
  "object_view LDAPAuthEngineConfig_VaultObject (LDAPAuthEngineConfig_set_certificates u p q (l20 :: LDAPAuthEngineConfig)) = object_view LDAPAuthEngineConfig_VaultObject l20"
  "object_view KubernetesAuthEngineConfig_VaultObject (KubernetesAuthEngineConfig_set_retrievedTokenReviewerJWT t (k26 :: KubernetesAuthEngineConfig)) = object_view KubernetesAuthEngineConfig_VaultObject k26"
  "object_view KubernetesAuthEngineRole_VaultObject (SetInternalNamespaces ns kr) = object_view KubernetesAuthEngineRole_VaultObject kr"
  by (simp_all add: object_view_def GetConditions_def GetName_def SetInternalNamespaces_def
      KubernetesAuthEngineRole_VaultObject_def KubernetesAuthEngineRole_GetPath_def
      AzureAuthEngineConfig_GetPath_def
      AzureAuthEngineConfig_SetClientIDAndClientSecret_def
      AzureAuthEngineConfig_VaultObject_def
      AzureSecretEngineConfig_GetPath_def
      AzureSecretEngineConfig_SetClientIDAndClientSecret_def
      AzureSecretEngineConfig_VaultObject_def
      GCPAuthEngineConfig_GetPath_def
      GCPAuthEngineConfig_SetServiceAccountAndCredentials_def
      GCPAuthEngineConfig_VaultObject_def
      GitHubSecretEngineConfig_GetPath_def
      GitHubSecretEngineConfig_VaultObject_def
      GitHubSecretEngineConfig_set_retrievedSSHKey_def
      JWTOIDCAuthEngineConfig_GetPath_def
      JWTOIDCAuthEngineConfig_SetUsernameAndPassword_def
      JWTOIDCAuthEngineConfig_VaultObject_def
      KubernetesAuthEngineConfig_GetPath_def
      KubernetesAuthEngineConfig_VaultObject_def
      KubernetesAuthEngineConfig_set_retrievedTokenReviewerJWT_def
      KubernetesSecretEngineConfig_GetPath_def
      KubernetesSecretEngineConfig_VaultObject_def
      KubernetesSecretEngineConfig_set_retrievedServiceAccountJWT_def
      LDAPAuthEngineConfig_GetPath_def
      LDAPAuthEngineConfig_SetUsernameAndPassword_def
      LDAPAuthEngineConfig_VaultObject_def
      LDAPAuthEngineConfig_set_certificates_def
      QuaySecretEngineConfig_GetPath_def
      QuaySecretEngineConfig_SetToken_def
      QuaySecretEngineConfig_VaultObject_def)

text \<open>Retrieving credentials only asks, and only in the resource's own namespace.\<close>

lemma keeps_read_key [emits_intros]: "P (VaultRead cl path) \<Longrightarrow> keeps I P (read_key E cl path)"
  unfolding read_key_def by (intro emits_intros)

lemma keeps_typed_secret_key [emits_intros]: "keeps I P (typed_secret_key s t k)"
  unfolding typed_secret_key_def by (intro emits_intros)

lemma keeps_user_credentials:
  assumes "\<And>u p d. I d \<Longrightarrow> I (set_user u p d)"
    and "\<And>d c. I d \<Longrightarrow> credential_call E (ns d) (rc d) c \<Longrightarrow> P c"
  shows "keeps I P (bindG getG (\<lambda>d. from_user_credentials E cl (ns d) (rc d) (user d) set_user))"
  by (rule keeps_bind_get) (rule keeps_mono [OF keeps_from_user_credentials], auto intro: assms)

text \<open>A secret of the cluster by name, or a secret of Vault by path.\<close>

fun key_call :: "string \<Rightarrow> string option \<Rightarrow> string option \<Rightarrow> 'o call \<Rightarrow> bool" where
  "key_call ns secret path (KubeGetSecret m n) \<longleftrightarrow> m = ns \<and> secret = Some n"
| "key_call ns secret path (VaultRead cl p) \<longleftrightarrow> path = Some p"
| "key_call ns secret path _ \<longleftrightarrow> False"

lemma key_call_query: "key_call ns s p c \<Longrightarrow> is_query c"
  by (cases c) auto

lemma keeps_AzureSecretEngineConfig_prepare:
  assumes "\<And>u p d. I d \<Longrightarrow> I (AzureSecretEngineConfig_SetClientIDAndClientSecret u p d)"
    and "\<And>d c. I d \<Longrightarrow> credential_call E (GetNamespace d) (ase_AzureCredentials (Spec d)) c \<Longrightarrow> P c"
  shows "keeps I P (AzureSecretEngineConfig_PrepareInternalValues E cl)"
  unfolding AzureSecretEngineConfig_PrepareInternalValues_def AzureSecretEngineConfig_setInternalCredentials_def
  by (intro keeps_bind keeps_get keeps_if keeps_ret keeps_user_credentials assms)

lemma keeps_AzureAuthEngineConfig_prepare:
  assumes "\<And>u p d. I d \<Longrightarrow> I (AzureAuthEngineConfig_SetClientIDAndClientSecret u p d)"
    and "\<And>d c. I d \<Longrightarrow> credential_call E (GetNamespace d) (aae_AzureCredentials (Spec d)) c \<Longrightarrow> P c"
  shows "keeps I P (AzureAuthEngineConfig_PrepareInternalValues E cl)"
  unfolding AzureAuthEngineConfig_PrepareInternalValues_def AzureAuthEngineConfig_setInternalCredentials_def
  by (intro keeps_bind keeps_get keeps_if keeps_ret keeps_user_credentials assms)

lemma keeps_LDAPAuthEngineConfig_prepare:
  assumes "\<And>u p d. I d \<Longrightarrow> I (LDAPAuthEngineConfig_SetUsernameAndPassword u p d)"
    and "\<And>d c. I d \<Longrightarrow> credential_call E (GetNamespace d) (ldap_BindCredentials (Spec d)) c \<Longrightarrow> P c"
  shows "keeps I P (LDAPAuthEngineConfig_setInternalCredentials E cl)"
  unfolding LDAPAuthEngineConfig_setInternalCredentials_def
  by (intro keeps_user_credentials assms)

lemma keeps_QuaySecretEngineConfig_prepare:
  assumes "\<And>t d. I d \<Longrightarrow> I (QuaySecretEngineConfig_SetToken t d)"
    and "\<And>d c. I d \<Longrightarrow> credential_call E (GetNamespace d) (qc_RootCredentials (Spec d)) c \<Longrightarrow> P c"
  shows "keeps I P (QuaySecretEngineConfig_setInternalCredentials E cl)"
  unfolding QuaySecretEngineConfig_setInternalCredentials_def Let_def
  by (rule keeps_bind_get, rule keeps_mono [OF keeps_from_credentials]) (intro emits_intros assms | assumption)+

lemma keeps_GCPAuthEngineConfig_prepare:
  assumes "\<And>a c d. I d \<Longrightarrow> I (GCPAuthEngineConfig_SetServiceAccountAndCredentials a c d)"
    and "\<And>d c. I d \<Longrightarrow> credential_call E (GetNamespace d) (gcp_GCPCredentials (Spec d)) c \<Longrightarrow> P c"
  shows "keeps I P (GCPAuthEngineConfig_PrepareInternalValues E cl)"
proof -
  have "keeps I P (GCPAuthEngineConfig_setInternalCredentials E cl)"
    unfolding GCPAuthEngineConfig_setInternalCredentials_def Let_def
    by (rule keeps_bind_get, rule keeps_mono [OF keeps_from_credentials]) (intro emits_intros assms | assumption)+
  then show ?thesis
    unfolding GCPAuthEngineConfig_PrepareInternalValues_def by (intro emits_intros)
qed

text \<open>The source of an optional reference: none asks for nothing.\<close>

definition optional_call :: "'o env \<Rightarrow> string \<Rightarrow> RootCredentialConfig option \<Rightarrow> 'o call \<Rightarrow> bool" where
  "optional_call E ns rc c \<longleftrightarrow> (case rc of None \<Rightarrow> False | Some r \<Rightarrow> credential_call E ns r c)"

lemma keeps_JWTOIDCAuthEngineConfig_prepare:
  assumes "\<And>u p d. I d \<Longrightarrow> I (JWTOIDCAuthEngineConfig_SetUsernameAndPassword u p d)"
    and "\<And>d c. I d \<Longrightarrow> optional_call E (GetNamespace d) (joc_OIDCCredentials (Spec d)) c \<Longrightarrow> P c"
  shows "keeps I P (JWTOIDCAuthEngineConfig_PrepareInternalValues E cl)"
proof -
  have "keeps I P (JWTOIDCAuthEngineConfig_setInternalCredentials E cl)"
    unfolding JWTOIDCAuthEngineConfig_setInternalCredentials_def
    by (rule keeps_bind_get, intro keeps_option keeps_ret, rule keeps_mono [OF keeps_from_user_credentials])
      (use assms in \<open>auto simp: optional_call_def\<close>)
  then show ?thesis
    unfolding JWTOIDCAuthEngineConfig_PrepareInternalValues_def by (intro emits_intros)
qed

lemma keeps_GitHubSecretEngineConfig_prepare:
  assumes "\<And>t d. I d \<Longrightarrow> I (GitHubSecretEngineConfig_set_retrievedSSHKey t d)"
    and "\<And>d c. I d \<Longrightarrow> key_call (GetNamespace d) (ssh_Secret (gh_SSHKeyReference (Spec d)))
           (ssh_VaultSecret (gh_SSHKeyReference (Spec d))) c \<Longrightarrow> P c"
  shows "keeps I P (GitHubSecretEngineConfig_setInternalCredentials E cl)"
  unfolding GitHubSecretEngineConfig_setInternalCredentials_def Let_def
  by (rule keeps_bind_get) (intro emits_intros assms | assumption | simp)+

lemma keeps_KubernetesSecretEngineConfig_prepare:
  assumes "\<And>t d. I d \<Longrightarrow> I (KubernetesSecretEngineConfig_set_retrievedServiceAccountJWT t d)"
    and "\<And>d c. I d \<Longrightarrow> key_call (GetNamespace d) (rc_Secret (kse_JWTReference (Spec d)))
           (rc_VaultSecret (kse_JWTReference (Spec d))) c \<Longrightarrow> P c"
  shows "keeps I P (KubernetesSecretEngineConfig_setInternalCredentials E cl)"
  unfolding KubernetesSecretEngineConfig_setInternalCredentials_def Let_def
  by (rule keeps_bind_get) (intro emits_intros assms | assumption | simp)+

lemma keeps_LDAPAuthEngineConfig_tls:
  assumes "\<And>a b c d. I d \<Longrightarrow> I (LDAPAuthEngineConfig_set_certificates a b c d)"
    and "\<And>d n. I d \<Longrightarrow> TLSSecret (ldap_TLSConfig (Spec d)) = Some n \<Longrightarrow> P (KubeGetSecret (GetNamespace d) n)"
  shows "keeps I P (LDAPAuthEngineConfig_PrepareTLSConfig E cl)"
proof -
  have "keeps I P (LDAPAuthEngineConfig_setTLSConfig E cl)"
    unfolding LDAPAuthEngineConfig_setTLSConfig_def Let_def
    by (rule keeps_bind_get) (intro emits_intros assms | assumption)+
  then show ?thesis unfolding LDAPAuthEngineConfig_PrepareTLSConfig_def by (intro emits_intros)
qed

lemma keeps_KubernetesAuthEngineConfig_prepare:
  assumes "\<And>t d. I d \<Longrightarrow> I (KubernetesAuthEngineConfig_set_retrievedTokenReviewerJWT t d)"
    and "\<And>d sa. I d \<Longrightarrow> kae_TokenReviewerServiceAccount (Spec d) = Some sa \<Longrightarrow>
           P (KubeCreateToken (GetNamespace d) sa (60 * 60 * 24 * 365))"
  shows "keeps I P (KubernetesAuthEngineConfig_PrepareInternalValues E cl)"
  unfolding KubernetesAuthEngineConfig_PrepareInternalValues_def GetJWTTokenWithDuration_def
  by (rule keeps_bind_get) (intro emits_intros assms | assumption)+

lemma keeps_KubernetesAuthEngineRole_prepare:
  assumes "\<And>n d. I d \<Longrightarrow> I (SetInternalNamespaces n d)" and "\<And>s. P (KubeListNamespaces s)"
  shows "keeps I P (KubernetesAuthEngineRole_PrepareInternalValues E cl)"
  unfolding KubernetesAuthEngineRole_PrepareInternalValues_def findSelectedNamespaceNames_def
  by (rule keeps_bind_get) (intro emits_intros assms | assumption)+

section \<open>The kinds\<close>

lemma prepare_simps:
  "PrepareInternalValues QuaySecretEngineConfig_VaultObject = QuaySecretEngineConfig_setInternalCredentials"
  "PrepareTLSConfig QuaySecretEngineConfig_VaultObject = QuaySecretEngineConfig_setInternalCredentials"
  "PrepareInternalValues GitHubSecretEngineConfig_VaultObject = GitHubSecretEngineConfig_setInternalCredentials"
  "PrepareTLSConfig GitHubSecretEngineConfig_VaultObject = GitHubSecretEngineConfig_setInternalCredentials"
  "PrepareInternalValues AzureSecretEngineConfig_VaultObject = AzureSecretEngineConfig_PrepareInternalValues"
  "PrepareTLSConfig AzureSecretEngineConfig_VaultObject = (\<lambda>E cl. retG ())"
  "PrepareInternalValues KubernetesSecretEngineConfig_VaultObject = KubernetesSecretEngineConfig_setInternalCredentials"
  "PrepareTLSConfig KubernetesSecretEngineConfig_VaultObject = (\<lambda>E cl. retG ())"
  "PrepareInternalValues AzureAuthEngineConfig_VaultObject = AzureAuthEngineConfig_PrepareInternalValues"
  "PrepareTLSConfig AzureAuthEngineConfig_VaultObject = (\<lambda>E cl. retG ())"
  "PrepareInternalValues GCPAuthEngineConfig_VaultObject = GCPAuthEngineConfig_PrepareInternalValues"
  "PrepareTLSConfig GCPAuthEngineConfig_VaultObject = (\<lambda>E cl. retG ())"
  "PrepareInternalValues JWTOIDCAuthEngineConfig_VaultObject = JWTOIDCAuthEngineConfig_PrepareInternalValues"
  "PrepareTLSConfig JWTOIDCAuthEngineConfig_VaultObject = (\<lambda>E cl. retG ())"
  "PrepareInternalValues LDAPAuthEngineConfig_VaultObject = LDAPAuthEngineConfig_setInternalCredentials"
  "PrepareTLSConfig LDAPAuthEngineConfig_VaultObject = LDAPAuthEngineConfig_PrepareTLSConfig"
  "PrepareInternalValues KubernetesAuthEngineConfig_VaultObject = KubernetesAuthEngineConfig_PrepareInternalValues"
  "PrepareTLSConfig KubernetesAuthEngineConfig_VaultObject = (\<lambda>E cl. retG ())"
  "PrepareInternalValues KubernetesAuthEngineRole_VaultObject = KubernetesAuthEngineRole_PrepareInternalValues"
  "PrepareTLSConfig KubernetesAuthEngineRole_VaultObject = (\<lambda>E cl. retG ())"
  by (simp_all add: QuaySecretEngineConfig_VaultObject_def GitHubSecretEngineConfig_VaultObject_def AzureSecretEngineConfig_VaultObject_def KubernetesSecretEngineConfig_VaultObject_def AzureAuthEngineConfig_VaultObject_def GCPAuthEngineConfig_VaultObject_def JWTOIDCAuthEngineConfig_VaultObject_def LDAPAuthEngineConfig_VaultObject_def KubernetesAuthEngineConfig_VaultObject_def KubernetesAuthEngineRole_VaultObject_def)

interpretation i_DatabaseSecretEngineRole: vault_object DatabaseSecretEngineRole_VaultObject
  by unfold_locales (auto simp: DatabaseSecretEngineRole_VaultObject_def keeps_ret)

interpretation i_DatabaseSecretEngineRole: typed_object DatabaseSecretEngineRole_VaultObject "[]" "[]" "''default_ttl''"
  by unfold_locales (auto simp: DatabaseSecretEngineRole_VaultObject_def DatabaseSecretEngineRole_GetPayload_def DatabaseSecretEngineRole_IsEquivalentToDesiredState_def
      DBSERole_toMap_def Let_def split: option.split)

interpretation i_DatabaseSecretEngineStaticRole: vault_object DatabaseSecretEngineStaticRole_VaultObject
  by unfold_locales (auto simp: DatabaseSecretEngineStaticRole_VaultObject_def keeps_ret)

interpretation i_DatabaseSecretEngineStaticRole: typed_object DatabaseSecretEngineStaticRole_VaultObject "[]" "[]" "''rotation_period''"
  by unfold_locales (auto simp: DatabaseSecretEngineStaticRole_VaultObject_def DatabaseSecretEngineStaticRole_GetPayload_def DatabaseSecretEngineStaticRole_IsEquivalentToDesiredState_def
      DBSEStaticRole_toMap_def Let_def split: option.split)

interpretation i_KubernetesSecretEngineRole: vault_object KubernetesSecretEngineRole_VaultObject
  by unfold_locales (auto simp: KubernetesSecretEngineRole_VaultObject_def keeps_ret)

interpretation i_KubernetesSecretEngineRole: typed_object KubernetesSecretEngineRole_VaultObject "[]" "[]" "''token_max_ttl''"
  by unfold_locales (auto simp: KubernetesSecretEngineRole_VaultObject_def KubernetesSecretEngineRole_GetPayload_def KubernetesSecretEngineRole_IsEquivalentToDesiredState_def
      KubeSERole_toMap_def Let_def split: option.split)

interpretation i_PKISecretEngineRole: vault_object PKISecretEngineRole_VaultObject
  by unfold_locales (auto simp: PKISecretEngineRole_VaultObject_def keeps_ret)

interpretation i_PKISecretEngineRole: typed_object PKISecretEngineRole_VaultObject "[]" "[]" "''ttl''"
  by unfold_locales (auto simp: PKISecretEngineRole_VaultObject_def PKISecretEngineRole_GetPayload_def PKISecretEngineRole_IsEquivalentToDesiredState_def
      PKIRole_toMap_def Let_def split: option.split)

interpretation i_GitHubSecretEngineRole: vault_object GitHubSecretEngineRole_VaultObject
  by unfold_locales (auto simp: GitHubSecretEngineRole_VaultObject_def keeps_ret)

interpretation i_GitHubSecretEngineRole: typed_object GitHubSecretEngineRole_VaultObject "[]" "[]" "''installation_id''"
  by unfold_locales (auto simp: GitHubSecretEngineRole_VaultObject_def GitHubSecretEngineRole_GetPayload_def GitHubSecretEngineRole_IsEquivalentToDesiredState_def
      PermissionSet_toMap_def Let_def split: option.split)

interpretation i_QuaySecretEngineRole: vault_object QuaySecretEngineRole_VaultObject
  by unfold_locales (auto simp: QuaySecretEngineRole_VaultObject_def keeps_ret)

interpretation i_QuaySecretEngineRole: typed_object QuaySecretEngineRole_VaultObject "[]" "[]" "''namespace_type''"
  by unfold_locales (auto simp: QuaySecretEngineRole_VaultObject_def QuaySecretEngineRole_GetPayload_def QuaySecretEngineRole_IsEquivalentToDesiredState_def
      QuayRole_toMap_def QuayBaseRole_toMap_def setMapJson_def Let_def split: option.split)

interpretation i_QuaySecretEngineStaticRole: vault_object QuaySecretEngineStaticRole_VaultObject
  by unfold_locales (auto simp: QuaySecretEngineStaticRole_VaultObject_def keeps_ret)

interpretation i_QuaySecretEngineStaticRole: typed_object QuaySecretEngineStaticRole_VaultObject "[]" "[]" "''namespace_type''"
  by unfold_locales (auto simp: QuaySecretEngineStaticRole_VaultObject_def QuaySecretEngineStaticRole_GetPayload_def QuaySecretEngineStaticRole_IsEquivalentToDesiredState_def
      QuayBaseRole_toMap_def setMapJson_def Let_def split: option.split)

interpretation i_JWTOIDCAuthEngineRole: vault_object JWTOIDCAuthEngineRole_VaultObject
  by unfold_locales (auto simp: JWTOIDCAuthEngineRole_VaultObject_def keeps_ret)

interpretation i_JWTOIDCAuthEngineRole: typed_object JWTOIDCAuthEngineRole_VaultObject "[]" "[]" "''bound_audiences''"
  by unfold_locales (auto simp: JWTOIDCAuthEngineRole_VaultObject_def JWTOIDCAuthEngineRole_GetPayload_def JWTOIDCAuthEngineRole_IsEquivalentToDesiredState_def
      JWTOIDCRole_toMap_def Let_def split: option.split)

interpretation i_AzureAuthEngineRole: vault_object AzureAuthEngineRole_VaultObject
  by unfold_locales (auto simp: AzureAuthEngineRole_VaultObject_def keeps_ret)

interpretation i_AzureAuthEngineRole: typed_object AzureAuthEngineRole_VaultObject "[]" "[]" "''bound_group_ids''"
  by unfold_locales (auto simp: AzureAuthEngineRole_VaultObject_def AzureAuthEngineRole_GetPayload_def AzureAuthEngineRole_IsEquivalentToDesiredState_def
      AzureRole_toMap_def Let_def split: option.split)

interpretation i_GCPAuthEngineRole: vault_object GCPAuthEngineRole_VaultObject
  by unfold_locales (auto simp: GCPAuthEngineRole_VaultObject_def keeps_ret)

interpretation i_GCPAuthEngineRole: typed_object GCPAuthEngineRole_VaultObject "[]" "[]" "''bound_projects''"
  by unfold_locales (auto simp: GCPAuthEngineRole_VaultObject_def GCPAuthEngineRole_GetPayload_def GCPAuthEngineRole_IsEquivalentToDesiredState_def
      GCPRole_toMap_def Let_def split: option.split)

interpretation i_CertAuthEngineRole: vault_object CertAuthEngineRole_VaultObject
  by unfold_locales (auto simp: CertAuthEngineRole_VaultObject_def keeps_ret)

interpretation i_CertAuthEngineRole: typed_object CertAuthEngineRole_VaultObject "[]" "[]" "''allowed_dns_sans''"
  by unfold_locales (auto simp: CertAuthEngineRole_VaultObject_def CertAuthEngineRole_GetPayload_def CertAuthEngineRole_IsEquivalentToDesiredState_def
      CertAuthEngineRoleInternal_toMap_def Let_def split: option.split)

interpretation i_CertAuthEngineConfig: vault_object CertAuthEngineConfig_VaultObject
  by unfold_locales (auto simp: CertAuthEngineConfig_VaultObject_def keeps_ret)

interpretation i_CertAuthEngineConfig: typed_object CertAuthEngineConfig_VaultObject "[]" "[]" "''ocsp_cache_size''"
  by unfold_locales (auto simp: CertAuthEngineConfig_VaultObject_def CertAuthEngineConfig_GetPayload_def CertAuthEngineConfig_IsEquivalentToDesiredState_def
      CertAuthEngineConfigInternal_toMap_def Let_def split: option.split)

interpretation i_Group: vault_object Group_VaultObject
  by unfold_locales (auto simp: Group_VaultObject_def keeps_ret)

interpretation i_Group: typed_object Group_VaultObject "[''name'']" "[]" "''policies''"
  by unfold_locales (auto simp: Group_VaultObject_def Group_GetPayload_def Group_IsEquivalentToDesiredState_def
      GroupSpec_toMap_def Let_def split: option.split)

interpretation i_KubernetesAuthEngineRole: vault_object KubernetesAuthEngineRole_VaultObject
  by unfold_locales (auto simp: prepare_simps keeps_ret intro!: keeps_KubernetesAuthEngineRole_prepare
      intro: credential_call_query key_call_query)

interpretation i_KubernetesAuthEngineRole: typed_object KubernetesAuthEngineRole_VaultObject "[]" "[]" "''token_policies''"
  by unfold_locales (auto simp: KubernetesAuthEngineRole_VaultObject_def KubernetesAuthEngineRole_GetPayload_def KubernetesAuthEngineRole_IsEquivalentToDesiredState_def
      VRole_toMap_def Let_def split: option.split)

interpretation i_GitHubSecretEngineConfig: vault_object GitHubSecretEngineConfig_VaultObject
  by unfold_locales (auto simp: prepare_simps keeps_ret intro!: keeps_GitHubSecretEngineConfig_prepare
      intro: credential_call_query key_call_query)

interpretation i_GitHubSecretEngineConfig: typed_object GitHubSecretEngineConfig_VaultObject "[]" "[''prv_key'']" "''app_id''"
  by unfold_locales (auto simp: GitHubSecretEngineConfig_VaultObject_def GitHubSecretEngineConfig_GetPayload_def GitHubSecretEngineConfig_IsEquivalentToDesiredState_def
      GHConfig_toMap_def Let_def split: option.split)

interpretation i_AzureAuthEngineConfig: vault_object AzureAuthEngineConfig_VaultObject
  by unfold_locales (auto simp: prepare_simps keeps_ret intro!: keeps_AzureAuthEngineConfig_prepare
      intro: credential_call_query key_call_query)

interpretation i_AzureAuthEngineConfig: typed_object AzureAuthEngineConfig_VaultObject "[]" "[]" "''max_retries''"
  by unfold_locales (auto simp: AzureAuthEngineConfig_VaultObject_def AzureAuthEngineConfig_GetPayload_def AzureAuthEngineConfig_IsEquivalentToDesiredState_def
      AzureConfig_toMap_def Let_def split: option.split)

interpretation i_GCPAuthEngineConfig: vault_object GCPAuthEngineConfig_VaultObject
  by unfold_locales (auto simp: prepare_simps keeps_ret intro!: keeps_GCPAuthEngineConfig_prepare
      intro: credential_call_query key_call_query)

interpretation i_GCPAuthEngineConfig: typed_object GCPAuthEngineConfig_VaultObject "[]" "[]" "''custom_endpoint''"
  by unfold_locales (auto simp: GCPAuthEngineConfig_VaultObject_def GCPAuthEngineConfig_GetPayload_def GCPAuthEngineConfig_IsEquivalentToDesiredState_def
      GCPConfig_toMap_def Let_def split: option.split)

interpretation i_JWTOIDCAuthEngineConfig: vault_object JWTOIDCAuthEngineConfig_VaultObject
  by unfold_locales (auto simp: prepare_simps keeps_ret optional_call_def split: option.splits intro!: keeps_JWTOIDCAuthEngineConfig_prepare
      intro: credential_call_query key_call_query)

interpretation i_JWTOIDCAuthEngineConfig: typed_object JWTOIDCAuthEngineConfig_VaultObject "[]" "[]" "''oidc_response_types''"
  by unfold_locales (auto simp: JWTOIDCAuthEngineConfig_VaultObject_def JWTOIDCAuthEngineConfig_GetPayload_def JWTOIDCAuthEngineConfig_IsEquivalentToDesiredState_def
      JWTOIDCConfig_toMap_def Let_def split: option.split)

interpretation i_LDAPAuthEngineConfig: vault_object LDAPAuthEngineConfig_VaultObject
  by unfold_locales (auto simp: prepare_simps keeps_ret intro!: keeps_LDAPAuthEngineConfig_prepare keeps_LDAPAuthEngineConfig_tls
      intro: credential_call_query key_call_query)

interpretation i_LDAPAuthEngineConfig: typed_object LDAPAuthEngineConfig_VaultObject "[]" "[''bindpass'']" "''token_period''"
  by unfold_locales (auto simp: LDAPAuthEngineConfig_VaultObject_def LDAPAuthEngineConfig_GetPayload_def LDAPAuthEngineConfig_IsEquivalentToDesiredState_def
      LDAPConfig_toMap_def own_certificates_def Let_def split: option.split)

interpretation i_KubernetesAuthEngineConfig: vault_object KubernetesAuthEngineConfig_VaultObject
  by unfold_locales (auto simp: prepare_simps keeps_ret intro!: keeps_KubernetesAuthEngineConfig_prepare
      intro: credential_call_query key_call_query)

interpretation i_KubernetesAuthEngineConfig: typed_object KubernetesAuthEngineConfig_VaultObject "[]" "[]" "''pem_keys''"
  by unfold_locales (auto simp: KubernetesAuthEngineConfig_VaultObject_def KubernetesAuthEngineConfig_GetPayload_def KubernetesAuthEngineConfig_IsEquivalentToDesiredState_def
      KAECConfig_toMap_def Let_def split: option.split)

interpretation i_AzureSecretEngineRole: vault_object AzureSecretEngineRole_VaultObject
  by unfold_locales (auto simp: AzureSecretEngineRole_VaultObject_def keeps_ret)

interpretation i_AzureSecretEngineRole: json_payload_object AzureSecretEngineRole_VaultObject "[]"
  by unfold_locales (simp_all add: AzureSecretEngineRole_VaultObject_def AzureSecretEngineRole_GetPayload_def AzureSecretEngineRole_IsEquivalentToDesiredState_def
      AzureSERole_toMap_def Let_def json_object_fmupd json_object_fmempty)

interpretation i_LDAPAuthEngineGroup: vault_object LDAPAuthEngineGroup_VaultObject
  by unfold_locales (auto simp: LDAPAuthEngineGroup_VaultObject_def keeps_ret)

interpretation i_LDAPAuthEngineGroup: json_payload_object LDAPAuthEngineGroup_VaultObject "[]"
  by unfold_locales (simp_all add: LDAPAuthEngineGroup_VaultObject_def LDAPAuthEngineGroup_GetPayload_def LDAPAuthEngineGroup_IsEquivalentToDesiredState_def
      LDAPAuthEngineGroup_toMap_def Let_def json_object_fmupd json_object_fmempty)

interpretation i_RabbitMQSecretEngineRole: json_payload_object RabbitMQSecretEngineRole_VaultObject "[]"
  by unfold_locales (simp_all add: RabbitMQSecretEngineRole_VaultObject_def RabbitMQSecretEngineRole_GetPayload_def RabbitMQSecretEngineRole_IsEquivalentToDesiredState_def
      RMQSERole_rabbitMQToMap_def Let_def json_object_fmupd json_object_fmempty)

interpretation i_AzureSecretEngineConfig: vault_object AzureSecretEngineConfig_VaultObject
  by unfold_locales (auto simp: prepare_simps keeps_ret intro!: keeps_AzureSecretEngineConfig_prepare
      intro: credential_call_query key_call_query)

interpretation i_AzureSecretEngineConfig: json_payload_object AzureSecretEngineConfig_VaultObject "[]"
  by unfold_locales (simp_all add: AzureSecretEngineConfig_VaultObject_def AzureSecretEngineConfig_GetPayload_def AzureSecretEngineConfig_IsEquivalentToDesiredState_def
      AzureSEConfig_toMap_def Let_def json_object_fmupd json_object_fmempty)

interpretation i_KubernetesSecretEngineConfig: vault_object KubernetesSecretEngineConfig_VaultObject
  by unfold_locales (auto simp: prepare_simps keeps_ret intro!: keeps_KubernetesSecretEngineConfig_prepare
      intro: credential_call_query key_call_query)

interpretation i_KubernetesSecretEngineConfig: json_payload_object KubernetesSecretEngineConfig_VaultObject "[''service_account_jwt'']"
  by unfold_locales (simp_all add: KubernetesSecretEngineConfig_VaultObject_def KubernetesSecretEngineConfig_GetPayload_def KubernetesSecretEngineConfig_IsEquivalentToDesiredState_def
      KubeSEConfig_toMap_def Let_def json_object_fmupd json_object_fmempty)

interpretation i_QuaySecretEngineConfig: vault_object QuaySecretEngineConfig_VaultObject
  by unfold_locales (auto simp: prepare_simps keeps_ret intro!: keeps_QuaySecretEngineConfig_prepare
      intro: credential_call_query key_call_query)

interpretation i_QuaySecretEngineConfig: json_payload_object QuaySecretEngineConfig_VaultObject "[''password'']"
  by unfold_locales (simp_all add: QuaySecretEngineConfig_VaultObject_def QuaySecretEngineConfig_GetPayload_def QuaySecretEngineConfig_IsEquivalentToDesiredState_def
      QuayConfig_toMap_def Let_def json_object_fmupd json_object_fmempty)

end
