(* ===== verification/Policies.thy ===== *)
theory Policies
  imports Samples
begin

text \<open>
  The resources \<open>Policy\<close> (\<open>api/v1alpha1/policy_types.go\<close>) and \<open>PasswordPolicy\<close>
  (\<open>passwordpolicy_types.go\<close>): their data, the methods of the \<open>VaultObject\<close> interface,
  and the interpretation of that interface's contract.
\<close>

section \<open>Policy\<close>

record PolicySpec = NamedSpec +
  spec_Policy :: string
  spec_Type :: string

type_synonym Policy = "(PolicySpec, BaseStatus) crd"

definition Policy_GetPath :: "Policy \<Rightarrow> string" where
  "Policy_GetPath d =
     (if Name (Spec d) \<noteq> [] then
        if spec_Type (Spec d) \<noteq> []
        then CleansePath (''sys/policies/'' @ spec_Type (Spec d) @ ''/'' @ Name (Spec d))
        else CleansePath (''sys/policy/'' @ Name (Spec d))
      else if spec_Type (Spec d) \<noteq> []
      then CleansePath (''sys/policies/'' @ spec_Type (Spec d) @ ''/'' @ GetName d)
      else CleansePath (''sys/policy/'' @ GetName d))"

definition Policy_GetPayload :: "Policy \<Rightarrow> gmap" where
  "Policy_GetPayload d = fmap_of_list [(''policy'', VStr (spec_Policy (Spec d)))]"

definition Policy_IsEquivalentToDesiredState :: "Policy \<Rightarrow> gmap option \<Rightarrow> bool" where
  "Policy_IsEquivalentToDesiredState d payload =
     (let desired = fmupd ''name'' (VStr (object_name d)) (Policy_GetPayload d);
          desired' = (if spec_Type (Spec d) = []
             then (case fmlookup desired ''policy'' of
                     Some r \<Rightarrow> fmdrop ''policy'' (fmupd ''rules'' r desired)
                   | None \<Rightarrow> fmdrop ''policy'' (fmupd ''rules'' VNil desired))
             else desired)
      in payload = Some desired')"

text \<open>
  The regular expression \<open>\$\{[^\}]+\}\<close>: a dollar sign and an opening brace, at least one
  character other than a closing brace, and a closing brace.
\<close>

fun has_placeholder :: "string \<Rightarrow> bool" where
  "has_placeholder [] = False"
| "has_placeholder (c # cs) =
     ((case strip_prefix ''${'' (c # cs) of
         Some (d # rest) \<Rightarrow> d \<noteq> CHR ''}'' \<and> CHR ''}'' \<in> set rest
       | _ \<Rightarrow> False) \<or> has_placeholder cs)"

definition accessor_placeholder :: "string \<Rightarrow> string" where
  "accessor_placeholder key = ''${auth/'' @ Trim key (CHR ''/'') @ ''/@accessor}''"

definition set_policy :: "(string \<Rightarrow> string) \<Rightarrow> Policy \<Rightarrow> Policy" where
  "set_policy f d = d\<lparr>Spec := (Spec d)\<lparr>spec_Policy := f (spec_Policy (Spec d))\<rparr>\<rparr>"

lemma set_policy_self [simp]: "set_policy (\<lambda>_. spec_Policy (Spec d)) d = d"
  by (simp add: set_policy_def)

primrec resolve_accessors :: "gmap \<Rightarrow> string list \<Rightarrow> (Policy, unit) go" where
  "resolve_accessors m [] = retG ()"
| "resolve_accessors m (key # keys) =
     bindG (assert_map (fmlookup m key)) (\<lambda>data.
     bindG (assert_string (fmlookup data ''accessor'')) (\<lambda>accessor.
     bindG (modifyG (set_policy (\<lambda>p. ReplaceAll p (accessor_placeholder key) accessor))) (\<lambda>_.
     resolve_accessors m keys)))"

definition Policy_PrepareInternalValues :: "Policy env \<Rightarrow> vault_client \<Rightarrow> (Policy, unit) go" where
  "Policy_PrepareInternalValues E cl =
     bindG getG (\<lambda>d.
       if \<not> has_placeholder (spec_Policy (Spec d)) then retG ()
       else bindG (askG (VaultRead cl ''sys/auth'') (\<lambda>tr. vault_read E tr cl ''sys/auth''))
         (\<lambda>r. case r of
            Inl err \<Rightarrow> retG ()
          | Inr None \<Rightarrow> errG (ErrMsg (''could not resolve auth engine accessor(s) in policy rule - '' @
              ''listing auth engines at sys/auth unexpectedly returned null''))
          | Inr (Some secret) \<Rightarrow> (case vs_Data secret of
              None \<Rightarrow> retG ()
            | Some m \<Rightarrow> bindG (rangeG E m) (resolve_accessors m))))"

definition Policy_VaultObject :: "Policy VaultObject" where
  "Policy_VaultObject =
     \<lparr>GetPath = Policy_GetPath,
      GetPayload = Policy_GetPayload,
      IsEquivalentToDesiredState = Policy_IsEquivalentToDesiredState,
      IsInitialized = (\<lambda>_. True),
      IsValid = (\<lambda>_. []),
      IsDeletable = (\<lambda>_. True),
      PrepareInternalValues = Policy_PrepareInternalValues,
      PrepareTLSConfig = (\<lambda>E cl. retG ())\<rparr>"

lemma Policy_VaultObject_simps [simp]:
  "GetPath Policy_VaultObject = Policy_GetPath"
  "GetPayload Policy_VaultObject = Policy_GetPayload"
  "IsEquivalentToDesiredState Policy_VaultObject = Policy_IsEquivalentToDesiredState"
  "IsDeletable Policy_VaultObject = (\<lambda>_. True)"
  "PrepareInternalValues Policy_VaultObject = Policy_PrepareInternalValues"
  "PrepareTLSConfig Policy_VaultObject = (\<lambda>E cl. retG ())"
  by (simp_all add: Policy_VaultObject_def)

lemma set_policy_view [simp]:
  "object_view Policy_VaultObject (set_policy f d) = object_view Policy_VaultObject d"
  by (simp add: object_view_def set_policy_def Policy_GetPath_def GetName_def GetConditions_def)

lemma resolve_accessors_view:
  "keeps (\<lambda>d. object_view Policy_VaultObject d = v) P (resolve_accessors m keys)"
proof (induction keys)
  case (Cons key keys)
  show ?case unfolding resolve_accessors.simps by (intro emits_intros Cons.IH) simp
qed (simp add: keeps_ret)

lemma Policy_prepare_view:
  "keeps (\<lambda>d. object_view Policy_VaultObject d = v) is_query (Policy_PrepareInternalValues E cl)"
  unfolding Policy_PrepareInternalValues_def
  by (intro emits_intros resolve_accessors_view) simp

interpretation policy: vault_object Policy_VaultObject
  by unfold_locales (simp_all add: Policy_prepare_view keeps_ret)

text \<open>The controller of \<open>controllers/policy_controller.go\<close>.\<close>

definition PolicyReconciler_Reconcile ::
  "Policy env \<Rightarrow> string \<Rightarrow> string \<Rightarrow> (Policy, Result) go" where
  "PolicyReconciler_Reconcile E ns n =
     controller_Reconcile Policy_VaultObject E (VaultResource_Reconcile Policy_VaultObject E) ns n"

text \<open>
  Reconciling a policy, whatever Vault and the API server answer, writes and deletes
  only at the policy's own path.
\<close>

theorem Policy_reconcile_frame:
  "list_all (own_call (Policy_GetPath (inst w)))
     (drop (length (calls w)) (calls (snd (VaultResource_Reconcile Policy_VaultObject E cl w))))"
  unfolding list_all_iff own_call_def
  using policy.reconcile_writes_own_path [of _ w E cl] by (auto split: option.split)

lemma emits_resolve_accessors: "emits P (resolve_accessors m keys)"
proof (induction keys)
  case (Cons key keys)
  show ?case unfolding resolve_accessors.simps by (intro emits_intros Cons.IH)
qed (simp add: keeps_ret)

text \<open>
  Preparing a policy costs one read of \<open>sys/auth\<close> if its text has a placeholder and no
  call otherwise, and whatever the server answers only the text of the policy changes.
\<close>

theorem Policy_prepare_effects:
  "calls (snd (Policy_PrepareInternalValues E cl w)) =
     calls w @ (if has_placeholder (spec_Policy (Spec (inst w))) then [VaultRead cl ''sys/auth''] else []) \<and>
   (\<exists>t. inst (snd (Policy_PrepareInternalValues E cl w)) = set_policy (\<lambda>_. t) (inst w) \<and>
      (if has_placeholder (spec_Policy (Spec (inst w))) then True else t = spec_Policy (Spec (inst w))))"
proof -
  have calls: "calls (snd (resolve_accessors m keys v)) = calls v" for m keys v
    by (rule emits_noneD [OF emits_resolve_accessors])
  have step: "keeps (\<lambda>d. \<exists>t. d = set_policy (\<lambda>_. t) d0) (\<lambda>_. True) (resolve_accessors m keys)" for d0 m keys
  proof (induction keys)
    case (Cons key keys)
    show ?case unfolding resolve_accessors.simps
      by (intro emits_intros Cons.IH) (auto simp: set_policy_def)
  qed (simp add: keeps_ret)
  have self: "\<exists>t. d = set_policy (\<lambda>_. t) d" for d by (metis set_policy_self)
  have inst: "\<exists>t. inst (snd (resolve_accessors m keys v)) = set_policy (\<lambda>_. t) d" if "inst v = d" for m keys v d
    using step [of d m keys] self [of d] that by (auto simp: keeps_def)
  let ?v = "w\<lparr>calls := calls w @ [VaultRead cl ''sys/auth'']\<rparr>"
  show ?thesis
  proof (cases "has_placeholder (spec_Policy (Spec (inst w)))")
    case False
    then show ?thesis by (simp add: Policy_PrepareInternalValues_def bindG_get retG_def)
  next
    case True
    have "calls (snd (Policy_PrepareInternalValues E cl w)) = calls ?v"
      using True calls by (auto simp: Policy_PrepareInternalValues_def bindG_get bindG_ask bindG_range
          retG_def errG_def split: sum.split option.split)
    moreover have "\<exists>t. inst (snd (Policy_PrepareInternalValues E cl w)) = set_policy (\<lambda>_. t) (inst w)"
      using True self [of "inst w"] inst [of ?v "inst w"]
      by (auto simp: Policy_PrepareInternalValues_def bindG_get bindG_ask bindG_range
          retG_def errG_def split: sum.split option.split)
    ultimately show ?thesis using True by simp
  qed
qed

section \<open>PasswordPolicy\<close>

record PasswordPolicySpec = NamedSpec +
  spec_PasswordPolicy :: string

type_synonym PasswordPolicy = "(PasswordPolicySpec, BaseStatus) crd"

definition PasswordPolicy_GetPath :: "PasswordPolicy \<Rightarrow> string" where
  "PasswordPolicy_GetPath d =
     (if Name (Spec d) \<noteq> [] then CleansePath (''sys/policies/password/'' @ Name (Spec d))
      else CleansePath (''sys/policies/password/'' @ GetName d))"

definition PasswordPolicy_GetPayload :: "PasswordPolicy \<Rightarrow> gmap" where
  "PasswordPolicy_GetPayload d = fmap_of_list [(''policy'', VStr (spec_PasswordPolicy (Spec d)))]"

definition PasswordPolicy_IsEquivalentToDesiredState :: "PasswordPolicy \<Rightarrow> gmap option \<Rightarrow> bool" where
  "PasswordPolicy_IsEquivalentToDesiredState d payload = (payload = Some (PasswordPolicy_GetPayload d))"

definition PasswordPolicy_VaultObject :: "PasswordPolicy VaultObject" where
  "PasswordPolicy_VaultObject =
     \<lparr>GetPath = PasswordPolicy_GetPath,
      GetPayload = PasswordPolicy_GetPayload,
      IsEquivalentToDesiredState = PasswordPolicy_IsEquivalentToDesiredState,
      IsInitialized = (\<lambda>_. True),
      IsValid = (\<lambda>_. []),
      IsDeletable = (\<lambda>_. True),
      PrepareInternalValues = (\<lambda>E cl. retG ()),
      PrepareTLSConfig = (\<lambda>E cl. retG ())\<rparr>"

text \<open>The controller of \<open>controllers/passwordpolicy_controller.go\<close>.\<close>

definition PasswordPolicyReconciler_Reconcile ::
  "PasswordPolicy env \<Rightarrow> string \<Rightarrow> string \<Rightarrow> (PasswordPolicy, Result) go" where
  "PasswordPolicyReconciler_Reconcile E ns n =
     controller_Reconcile PasswordPolicy_VaultObject E (VaultResource_Reconcile PasswordPolicy_VaultObject E) ns n"

interpretation password_policy: vault_object PasswordPolicy_VaultObject
  by unfold_locales (simp_all add: PasswordPolicy_VaultObject_def keeps_ret)

lemma PasswordPolicy_VaultObject_simps [simp]:
  "GetPath PasswordPolicy_VaultObject = PasswordPolicy_GetPath"
  "GetPayload PasswordPolicy_VaultObject = PasswordPolicy_GetPayload"
  "IsEquivalentToDesiredState PasswordPolicy_VaultObject = PasswordPolicy_IsEquivalentToDesiredState"
  "IsDeletable PasswordPolicy_VaultObject = (\<lambda>_. True)"
  by (simp_all add: PasswordPolicy_VaultObject_def)

section \<open>A concrete password policy, and the witnesses of the lifecycle\<close>

definition sample_policy :: PasswordPolicy where
  "sample_policy =
     \<lparr>TypeKind = ''PasswordPolicy'', Meta = sample_meta ''simple'',
      Spec = \<lparr>Connection = None, Authentication = sample_auth, Name = [],
              spec_PasswordPolicy = ''length = 20''\<rparr>,
      Status = \<lparr>Conditions = []\<rparr>\<rparr>"

lemma sample_policy_path [simp]:
  "PasswordPolicy_GetPath sample_policy = ''sys/policies/password/simple''"
  by (simp add: PasswordPolicy_GetPath_def sample_policy_def sample_meta_def GetName_def
      CleansePath_def Trim_def)

lemma sample_policy_path_deleted [simp]:
  "PasswordPolicy_GetPath (to_be_deleted sample_policy) = ''sys/policies/password/simple''"
  using sample_policy_path unfolding PasswordPolicy_GetPath_def to_be_deleted_simps .

theorem failed_delete_keeps_finalizer_witness:
  "\<exists>cs. calls (snd (VaultResource_Reconcile PasswordPolicy_VaultObject
       (sample_env\<lparr>vault_delete := \<lambda>tr cl p. Inl (VaultResponseError 503 ''sealed'')\<rparr>)
       sample_client (start_world (to_be_deleted sample_policy)))) =
     VaultDelete sample_client ''sys/policies/password/simple'' # cs \<and> list_all (\<lambda>c. \<not> is_update c) cs"
  using failed_delete_keeps_finalizer
    [of "start_world (to_be_deleted sample_policy)"
        "sample_env\<lparr>vault_delete := \<lambda>tr cl p. Inl (VaultResponseError 503 ''sealed'')\<rparr>"
        PasswordPolicy_VaultObject sample_client "VaultResponseError 503 ''sealed''"]
  by auto

theorem accepted_delete_releases_witness:
  "calls (snd (VaultResource_Reconcile PasswordPolicy_VaultObject sample_env sample_client
       (start_world (to_be_deleted sample_policy)))) =
     [VaultDelete sample_client ''sys/policies/password/simple'',
      KubeUpdate (remove_fin (to_be_deleted sample_policy) (GetFinalizer sample_policy))]"
  using accepted_delete_releases
    [where w = "start_world (to_be_deleted sample_policy)" and E = sample_env
       and V = PasswordPolicy_VaultObject and cl = sample_client]
  by simp

theorem unreconciled_delete_leaves_vault_witness:
  "calls (snd (VaultResource_Reconcile PasswordPolicy_VaultObject sample_env sample_client
       (start_world (SetConditions [] (to_be_deleted sample_policy))))) =
     [KubeUpdate (remove_fin (SetConditions [] (to_be_deleted sample_policy)) (GetFinalizer sample_policy))]"
  using unreconciled_delete_leaves_vault
    [where w = "start_world (SetConditions [] (to_be_deleted sample_policy))" and E = sample_env
       and V = PasswordPolicy_VaultObject and cl = sample_client]
  by (simp add: is_deleted_def to_be_deleted_def has_fin_def add_fin_def GetFinalizer_def)

theorem failure_keeps_success_witness:
  "success_condition \<in> set (GetConditions (SetConditions (AddOrReplaceCondition
      (outcome_condition (Some (ErrMsg ''sealed'')) 7 2) (GetConditions (to_be_deleted sample_policy)))
      (to_be_deleted sample_policy)))"
  using failure_keeps_success [of success_condition "to_be_deleted sample_policy" "ErrMsg ''sealed''" 7 2]
  by simp

theorem CreateOrUpdate_establishes_witness:
  "\<exists>m. stored ''sys/policies/password/simple'' (rev (calls (snd
       (CreateOrUpdate PasswordPolicy_VaultObject sample_env sample_client (start_world sample_policy))))) =
     Some m \<and> m = PasswordPolicy_GetPayload sample_policy"
  using CreateOrUpdate_establishes [where f = "\<lambda>m. m" and E = sample_env and cl = sample_client
      and V = PasswordPolicy_VaultObject and w = "start_world sample_policy"]
  by (auto simp: PasswordPolicy_IsEquivalentToDesiredState_def split: if_splits)

theorem CreateOrUpdate_settles_iff_witness:
  "calls (snd (CreateOrUpdate PasswordPolicy_VaultObject sample_env sample_client
       (snd (CreateOrUpdate PasswordPolicy_VaultObject sample_env sample_client (start_world sample_policy))))) =
     [VaultRead sample_client ''sys/policies/password/simple'',
      VaultWrite sample_client ''sys/policies/password/simple'' (Some (PasswordPolicy_GetPayload sample_policy)),
      VaultRead sample_client ''sys/policies/password/simple'']"
proof -
  let ?w = "snd (CreateOrUpdate PasswordPolicy_VaultObject sample_env sample_client (start_world sample_policy))"
  have w: "inst ?w = sample_policy" "calls ?w =
     [VaultRead sample_client ''sys/policies/password/simple'',
      VaultWrite sample_client ''sys/policies/password/simple'' (Some (PasswordPolicy_GetPayload sample_policy))]"
    by (simp_all add: CreateOrUpdate_run Let_def read_answer_def writePayload_run)
  show ?thesis
    using CreateOrUpdate_settles_iff [where f = "\<lambda>m. m" and E = sample_env and cl = sample_client
      and V = PasswordPolicy_VaultObject and w = ?w]
      w
    by (simp add: PasswordPolicy_IsEquivalentToDesiredState_def)
qed

text \<open>The conditions of the sample, for the theorem on conditions.\<close>

theorem AddOrReplaceCondition_correct_witness:
  "find_condition ReconcileSuccessful (AddOrReplaceCondition (outcome_condition (Some (ErrMsg ''e'')) 7 2)
     [success_condition]) = Some success_condition"
  using AddOrReplaceCondition_correct [of "[success_condition]" "outcome_condition (Some (ErrMsg ''e'')) 7 2"]
  by (simp add: find_condition_def success_condition_def outcome_condition_def ReconcileSuccessful_def
      ReconcileFailed_def)

end
