(* ===== verification/Resources.thy ===== *)
theory Resources
  imports PlainObjects Policies
begin

text \<open>
  What the interfaces of \<open>PlainObjects\<close> give for the resources of the operator, kind by kind:
  which paths a reconcile changes, whether repeated reconciles settle, and what retrieving
  credentials asks for.
\<close>

section \<open>Frames\<close>

text \<open>A reconcile changes Vault, if at all, at the path that the resource had when it began.\<close>

definition confined :: "(('s, 'x) object, 'z) VaultObject_scheme \<Rightarrow> bool" where
  "confined V \<longleftrightarrow> (\<forall>E cl w c q.
     c \<in> set (drop (length (calls w)) (calls (snd (VaultResource_Reconcile V E cl w)))) \<and> vault_mutation c = Some q \<longrightarrow>
     q = GetPath V (inst w))"

lemma confinedI:
  "(\<And>E cl w c q. c \<in> set (drop (length (calls w)) (calls (snd (VaultResource_Reconcile V E cl w)))) \<Longrightarrow>
     vault_mutation c = Some q \<Longrightarrow> q = GetPath V (inst w)) \<Longrightarrow> confined V"
  by (auto simp: confined_def)

lemma confined_DatabaseSecretEngineRole: "confined DatabaseSecretEngineRole_VaultObject"
  by (rule confinedI) (rule i_DatabaseSecretEngineRole.reconcile_writes_own_path)

lemma confined_DatabaseSecretEngineStaticRole: "confined DatabaseSecretEngineStaticRole_VaultObject"
  by (rule confinedI) (rule i_DatabaseSecretEngineStaticRole.reconcile_writes_own_path)

lemma confined_KubernetesSecretEngineRole: "confined KubernetesSecretEngineRole_VaultObject"
  by (rule confinedI) (rule i_KubernetesSecretEngineRole.reconcile_writes_own_path)

lemma confined_PKISecretEngineRole: "confined PKISecretEngineRole_VaultObject"
  by (rule confinedI) (rule i_PKISecretEngineRole.reconcile_writes_own_path)

lemma confined_GitHubSecretEngineRole: "confined GitHubSecretEngineRole_VaultObject"
  by (rule confinedI) (rule i_GitHubSecretEngineRole.reconcile_writes_own_path)

lemma confined_QuaySecretEngineRole: "confined QuaySecretEngineRole_VaultObject"
  by (rule confinedI) (rule i_QuaySecretEngineRole.reconcile_writes_own_path)

lemma confined_QuaySecretEngineStaticRole: "confined QuaySecretEngineStaticRole_VaultObject"
  by (rule confinedI) (rule i_QuaySecretEngineStaticRole.reconcile_writes_own_path)

lemma confined_JWTOIDCAuthEngineRole: "confined JWTOIDCAuthEngineRole_VaultObject"
  by (rule confinedI) (rule i_JWTOIDCAuthEngineRole.reconcile_writes_own_path)

lemma confined_AzureAuthEngineRole: "confined AzureAuthEngineRole_VaultObject"
  by (rule confinedI) (rule i_AzureAuthEngineRole.reconcile_writes_own_path)

lemma confined_GCPAuthEngineRole: "confined GCPAuthEngineRole_VaultObject"
  by (rule confinedI) (rule i_GCPAuthEngineRole.reconcile_writes_own_path)

lemma confined_CertAuthEngineRole: "confined CertAuthEngineRole_VaultObject"
  by (rule confinedI) (rule i_CertAuthEngineRole.reconcile_writes_own_path)

lemma confined_CertAuthEngineConfig: "confined CertAuthEngineConfig_VaultObject"
  by (rule confinedI) (rule i_CertAuthEngineConfig.reconcile_writes_own_path)

lemma confined_Group: "confined Group_VaultObject"
  by (rule confinedI) (rule i_Group.reconcile_writes_own_path)

lemma confined_KubernetesAuthEngineRole: "confined KubernetesAuthEngineRole_VaultObject"
  by (rule confinedI) (rule i_KubernetesAuthEngineRole.reconcile_writes_own_path)

lemma confined_GitHubSecretEngineConfig: "confined GitHubSecretEngineConfig_VaultObject"
  by (rule confinedI) (rule i_GitHubSecretEngineConfig.reconcile_writes_own_path)

lemma confined_AzureAuthEngineConfig: "confined AzureAuthEngineConfig_VaultObject"
  by (rule confinedI) (rule i_AzureAuthEngineConfig.reconcile_writes_own_path)

lemma confined_GCPAuthEngineConfig: "confined GCPAuthEngineConfig_VaultObject"
  by (rule confinedI) (rule i_GCPAuthEngineConfig.reconcile_writes_own_path)

lemma confined_JWTOIDCAuthEngineConfig: "confined JWTOIDCAuthEngineConfig_VaultObject"
  by (rule confinedI) (rule i_JWTOIDCAuthEngineConfig.reconcile_writes_own_path)

lemma confined_LDAPAuthEngineConfig: "confined LDAPAuthEngineConfig_VaultObject"
  by (rule confinedI) (rule i_LDAPAuthEngineConfig.reconcile_writes_own_path)

lemma confined_KubernetesAuthEngineConfig: "confined KubernetesAuthEngineConfig_VaultObject"
  by (rule confinedI) (rule i_KubernetesAuthEngineConfig.reconcile_writes_own_path)

lemma confined_AzureSecretEngineRole: "confined AzureSecretEngineRole_VaultObject"
  by (rule confinedI) (rule i_AzureSecretEngineRole.reconcile_writes_own_path)

lemma confined_LDAPAuthEngineGroup: "confined LDAPAuthEngineGroup_VaultObject"
  by (rule confinedI) (rule i_LDAPAuthEngineGroup.reconcile_writes_own_path)

lemma confined_RabbitMQSecretEngineRole: "confined RabbitMQSecretEngineRole_VaultObject"
  by (rule confinedI) (rule rabbitmq_role.reconcile_writes_own_path)

lemma confined_AzureSecretEngineConfig: "confined AzureSecretEngineConfig_VaultObject"
  by (rule confinedI) (rule i_AzureSecretEngineConfig.reconcile_writes_own_path)

lemma confined_KubernetesSecretEngineConfig: "confined KubernetesSecretEngineConfig_VaultObject"
  by (rule confinedI) (rule i_KubernetesSecretEngineConfig.reconcile_writes_own_path)

lemma confined_QuaySecretEngineConfig: "confined QuaySecretEngineConfig_VaultObject"
  by (rule confinedI) (rule i_QuaySecretEngineConfig.reconcile_writes_own_path)

lemma confined_Policy: "confined Policy_VaultObject"
  by (rule confinedI) (rule policy.reconcile_writes_own_path)

lemma confined_PasswordPolicy: "confined PasswordPolicy_VaultObject"
  by (rule confinedI) (rule password_policy.reconcile_writes_own_path)

lemma confined_DatabaseSecretEngineConfig: "confined DatabaseSecretEngineConfig_VaultObject"
  by (rule confinedI) (rule database_config.reconcile_writes_own_path)

section \<open>Settling\<close>

text \<open>
  A resource that never settles: whenever its path was read, with or without a JSON object
  in the answer, \<open>CreateOrUpdate\<close> sends the payload.
\<close>

definition restless :: "(('s, 'x) object, 'z) VaultObject_scheme \<Rightarrow> bool" where
  "restless V \<longleftrightarrow> (\<forall>E cl w m found.
     read_answer (vault_read E (calls w) cl (GetPath V (inst w))) = Ok (m, found) \<and> (\<forall>x. m = Some x \<longrightarrow> json_object x) \<longrightarrow>
     calls (snd (CreateOrUpdate V E cl w)) = calls w @
       [VaultRead cl (GetPath V (inst w)), VaultWrite cl (GetPath V (inst w)) (Some (GetPayload V (inst w)))])"

lemma restless_DatabaseSecretEngineRole: "restless DatabaseSecretEngineRole_VaultObject"
  unfolding restless_def by (intro allI impI, elim conjE, rule i_DatabaseSecretEngineRole.always_writes) blast+

lemma restless_DatabaseSecretEngineStaticRole: "restless DatabaseSecretEngineStaticRole_VaultObject"
  unfolding restless_def by (intro allI impI, elim conjE, rule i_DatabaseSecretEngineStaticRole.always_writes) blast+

lemma restless_KubernetesSecretEngineRole: "restless KubernetesSecretEngineRole_VaultObject"
  unfolding restless_def by (intro allI impI, elim conjE, rule i_KubernetesSecretEngineRole.always_writes) blast+

lemma restless_PKISecretEngineRole: "restless PKISecretEngineRole_VaultObject"
  unfolding restless_def by (intro allI impI, elim conjE, rule i_PKISecretEngineRole.always_writes) blast+

lemma restless_GitHubSecretEngineRole: "restless GitHubSecretEngineRole_VaultObject"
  unfolding restless_def by (intro allI impI, elim conjE, rule i_GitHubSecretEngineRole.always_writes) blast+

lemma restless_QuaySecretEngineRole: "restless QuaySecretEngineRole_VaultObject"
  unfolding restless_def by (intro allI impI, elim conjE, rule i_QuaySecretEngineRole.always_writes) blast+

lemma restless_QuaySecretEngineStaticRole: "restless QuaySecretEngineStaticRole_VaultObject"
  unfolding restless_def by (intro allI impI, elim conjE, rule i_QuaySecretEngineStaticRole.always_writes) blast+

lemma restless_JWTOIDCAuthEngineRole: "restless JWTOIDCAuthEngineRole_VaultObject"
  unfolding restless_def by (intro allI impI, elim conjE, rule i_JWTOIDCAuthEngineRole.always_writes) blast+

lemma restless_AzureAuthEngineRole: "restless AzureAuthEngineRole_VaultObject"
  unfolding restless_def by (intro allI impI, elim conjE, rule i_AzureAuthEngineRole.always_writes) blast+

lemma restless_GCPAuthEngineRole: "restless GCPAuthEngineRole_VaultObject"
  unfolding restless_def by (intro allI impI, elim conjE, rule i_GCPAuthEngineRole.always_writes) blast+

lemma restless_CertAuthEngineRole: "restless CertAuthEngineRole_VaultObject"
  unfolding restless_def by (intro allI impI, elim conjE, rule i_CertAuthEngineRole.always_writes) blast+

lemma restless_CertAuthEngineConfig: "restless CertAuthEngineConfig_VaultObject"
  unfolding restless_def by (intro allI impI, elim conjE, rule i_CertAuthEngineConfig.always_writes) blast+

lemma restless_Group: "restless Group_VaultObject"
  unfolding restless_def by (intro allI impI, elim conjE, rule i_Group.always_writes) blast+

lemma restless_KubernetesAuthEngineRole: "restless KubernetesAuthEngineRole_VaultObject"
  unfolding restless_def by (intro allI impI, elim conjE, rule i_KubernetesAuthEngineRole.always_writes) blast+

lemma restless_GitHubSecretEngineConfig: "restless GitHubSecretEngineConfig_VaultObject"
  unfolding restless_def by (intro allI impI, elim conjE, rule i_GitHubSecretEngineConfig.always_writes) blast+

lemma restless_AzureAuthEngineConfig: "restless AzureAuthEngineConfig_VaultObject"
  unfolding restless_def by (intro allI impI, elim conjE, rule i_AzureAuthEngineConfig.always_writes) blast+

lemma restless_GCPAuthEngineConfig: "restless GCPAuthEngineConfig_VaultObject"
  unfolding restless_def by (intro allI impI, elim conjE, rule i_GCPAuthEngineConfig.always_writes) blast+

lemma restless_JWTOIDCAuthEngineConfig: "restless JWTOIDCAuthEngineConfig_VaultObject"
  unfolding restless_def by (intro allI impI, elim conjE, rule i_JWTOIDCAuthEngineConfig.always_writes) blast+

lemma restless_LDAPAuthEngineConfig: "restless LDAPAuthEngineConfig_VaultObject"
  unfolding restless_def by (intro allI impI, elim conjE, rule i_LDAPAuthEngineConfig.always_writes) blast+

lemma restless_KubernetesAuthEngineConfig: "restless KubernetesAuthEngineConfig_VaultObject"
  unfolding restless_def by (intro allI impI, elim conjE, rule i_KubernetesAuthEngineConfig.always_writes) blast+

text \<open>
  C33. The payloads of these kinds hold Go values that no decoded JSON answer equals, so the
  comparison with Vault never succeeds: every reconcile that can read the path writes the
  whole payload again, also when nothing changed.
\<close>

theorem kinds_never_settle:
  "restless DatabaseSecretEngineRole_VaultObject \<and>
   restless DatabaseSecretEngineStaticRole_VaultObject \<and>
   restless KubernetesSecretEngineRole_VaultObject \<and>
   restless PKISecretEngineRole_VaultObject \<and>
   restless GitHubSecretEngineRole_VaultObject \<and>
   restless QuaySecretEngineRole_VaultObject \<and>
   restless QuaySecretEngineStaticRole_VaultObject \<and>
   restless JWTOIDCAuthEngineRole_VaultObject \<and>
   restless AzureAuthEngineRole_VaultObject \<and>
   restless GCPAuthEngineRole_VaultObject \<and>
   restless CertAuthEngineRole_VaultObject \<and>
   restless CertAuthEngineConfig_VaultObject \<and>
   restless Group_VaultObject \<and>
   restless KubernetesAuthEngineRole_VaultObject \<and>
   restless GitHubSecretEngineConfig_VaultObject \<and>
   restless AzureAuthEngineConfig_VaultObject \<and>
   restless GCPAuthEngineConfig_VaultObject \<and>
   restless JWTOIDCAuthEngineConfig_VaultObject \<and>
   restless LDAPAuthEngineConfig_VaultObject \<and>
   restless KubernetesAuthEngineConfig_VaultObject"
  by (intro conjI restless_DatabaseSecretEngineRole
    restless_DatabaseSecretEngineStaticRole
    restless_KubernetesSecretEngineRole
    restless_PKISecretEngineRole
    restless_GitHubSecretEngineRole
    restless_QuaySecretEngineRole
    restless_QuaySecretEngineStaticRole
    restless_JWTOIDCAuthEngineRole
    restless_AzureAuthEngineRole
    restless_GCPAuthEngineRole
    restless_CertAuthEngineRole
    restless_CertAuthEngineConfig
    restless_Group
    restless_KubernetesAuthEngineRole
    restless_GitHubSecretEngineConfig
    restless_AzureAuthEngineConfig
    restless_GCPAuthEngineConfig
    restless_JWTOIDCAuthEngineConfig
    restless_LDAPAuthEngineConfig
    restless_KubernetesAuthEngineConfig)

text \<open>A resource that settles on servers that answer with \<open>f m\<close> what was stored as \<open>m\<close>.\<close>

definition settles_on :: "(gmap \<Rightarrow> gmap) \<Rightarrow> (('s, 'x) object, 'z) VaultObject_scheme \<Rightarrow> bool" where
  "settles_on f V \<longleftrightarrow> (\<forall>E cl w.
     kv_server f E cl (GetPath V (inst w)) \<and> stored (GetPath V (inst w)) (rev (calls w)) = Some (GetPayload V (inst w)) \<longrightarrow>
     calls (snd (CreateOrUpdate V E cl w)) = calls w @ [VaultRead cl (GetPath V (inst w))])"

lemma settles_AzureSecretEngineRole: "settles_on (\<lambda>m. m) AzureSecretEngineRole_VaultObject"
  unfolding settles_on_def by (intro allI impI, elim conjE, rule i_AzureSecretEngineRole.settles) simp_all

lemma settles_LDAPAuthEngineGroup: "settles_on (\<lambda>m. m) LDAPAuthEngineGroup_VaultObject"
  unfolding settles_on_def by (intro allI impI, elim conjE, rule i_LDAPAuthEngineGroup.settles) simp_all

lemma settles_RabbitMQSecretEngineRole: "settles_on (\<lambda>m. m) RabbitMQSecretEngineRole_VaultObject"
  unfolding settles_on_def by (intro allI impI, elim conjE, rule i_RabbitMQSecretEngineRole.settles) simp_all

lemma settles_KubernetesSecretEngineConfig: "settles_on (fmdrop ''service_account_jwt'') KubernetesSecretEngineConfig_VaultObject"
  unfolding settles_on_def by (intro allI impI, elim conjE, rule i_KubernetesSecretEngineConfig.settles) simp_all

text \<open>
  Azure roles, LDAP groups and RabbitMQ roles send plain JSON: on a server that gives
  back what was written, a second reconcile only reads. The Kubernetes engine configuration
  settles on a server that gives back all but the service account token.
\<close>

theorem json_kinds_settle:
  "settles_on (\<lambda>m. m) AzureSecretEngineRole_VaultObject \<and> settles_on (\<lambda>m. m) LDAPAuthEngineGroup_VaultObject \<and>
   settles_on (\<lambda>m. m) RabbitMQSecretEngineRole_VaultObject \<and>
   settles_on (fmdrop ''service_account_jwt'') KubernetesSecretEngineConfig_VaultObject"
  by (intro conjI settles_AzureSecretEngineRole settles_LDAPAuthEngineGroup settles_RabbitMQSecretEngineRole
      settles_KubernetesSecretEngineConfig)

text \<open>
  Vault does not give back the secret parts of a configuration. The Azure engine compares
  with its client secret included, and the Quay engine drops a key \<open>password\<close> that its
  payload does not have instead of its token, so neither ever recognises its own state.
\<close>

theorem secret_parts_never_settle:
  assumes "fmlookup m ''client_secret'' = None" and "fmlookup m' ''token'' = None"
  shows "\<not> AzureSecretEngineConfig_IsEquivalentToDesiredState a (Some m) \<and>
    \<not> AzureAuthEngineConfig_IsEquivalentToDesiredState b (Some m) \<and>
    \<not> QuaySecretEngineConfig_IsEquivalentToDesiredState q (Some m')"
proof -
  have "AzureSEConfig_toMap c \<noteq> m" for c
    using assms(1) by (auto simp: AzureSEConfig_toMap_def)
  moreover have "AzureConfig_toMap c \<noteq> m" for c
    using assms(1) by (auto simp: AzureConfig_toMap_def)
  moreover have "fmdrop ''password'' (QuayConfig_toMap c) \<noteq> m'" for c
    using assms(2) by (auto simp: QuayConfig_toMap_def)
  ultimately show ?thesis
    by (metis AzureSecretEngineConfig_IsEquivalentToDesiredState_def AzureAuthEngineConfig_IsEquivalentToDesiredState_def
        QuaySecretEngineConfig_IsEquivalentToDesiredState_def option.inject)
qed

section \<open>Credentials\<close>

text \<open>
  \<open>retrieves L m\<close>: run on an object \<open>d\<close> after the calls \<open>tr\<close>, \<open>m\<close> makes exactly the calls
  \<open>L tr d\<close>, in this order.
\<close>

definition retrieves :: "('o call list \<Rightarrow> 'o \<Rightarrow> 'o call list) \<Rightarrow> ('o, 'a) go \<Rightarrow> bool" where
  "retrieves L m \<longleftrightarrow> (\<forall>w. calls (snd (m w)) = calls w @ L (calls w) (inst w))"

text \<open>The calls for a key that a secret of the cluster or a path of Vault holds.\<close>

definition key_calls :: "vault_client \<Rightarrow> string \<Rightarrow> string option \<Rightarrow> string option \<Rightarrow> 'o call list" where
  "key_calls cl ns secret path = (case secret of Some n \<Rightarrow> [KubeGetSecret ns n]
     | None \<Rightarrow> (case path of Some p \<Rightarrow> [VaultRead cl p] | None \<Rightarrow> []))"

lemma from_user_credentials_calls:
  "calls (snd (from_user_credentials E cl ns rc user set_user w)) = calls w @ credential_calls E cl ns rc (calls w)"
  unfolding from_user_credentials_def by (intro from_credentials_calls emits_intros)

lemma with_Secret_calls:
  assumes "\<And>s. emits (\<lambda>_. False) (f s)"
  shows "calls (snd (with_Secret E ns n f w)) = calls w @ [KubeGetSecret ns n]"
  using emits_noneD [OF assms] by (simp add: with_Secret_def bindG_ask errG_def split: sum.split)

lemma read_key_calls:
  assumes "\<And>k. emits (\<lambda>_. False) (f k)"
  shows "calls (snd (bindG (read_key E cl path) f w)) = calls w @ [VaultRead cl path]"
proof -
  have "emits (\<lambda>_. False) (bindG (data_string s ''key'') f)" for s by (intro emits_intros assms)
  from emits_noneD [OF this] show ?thesis
    by (auto simp: read_key_def bindG_assoc bindG_ask go_runs split: sum.split option.split)
qed

lemmas retrieval_defs = retrieves_def bindG_get Let_def from_user_credentials_calls key_calls_def errG_def
  AzureSecretEngineConfig_PrepareInternalValues_def AzureSecretEngineConfig_setInternalCredentials_def
  AzureAuthEngineConfig_PrepareInternalValues_def AzureAuthEngineConfig_setInternalCredentials_def
  GCPAuthEngineConfig_PrepareInternalValues_def GCPAuthEngineConfig_setInternalCredentials_def
  LDAPAuthEngineConfig_setInternalCredentials_def QuaySecretEngineConfig_setInternalCredentials_def
  RabbitMQSecretEngineConfig_setInternalCredentials_def DatabaseSecretEngineConfig_setInternalCredentials_def
  JWTOIDCAuthEngineConfig_PrepareInternalValues_def JWTOIDCAuthEngineConfig_setInternalCredentials_def
  joc_default_credentials_def GitHubSecretEngineConfig_setInternalCredentials_def
  KubernetesSecretEngineConfig_setInternalCredentials_def

lemma retrieves_QuaySecretEngineConfig:
  "retrieves (\<lambda>tr d. credential_calls E cl (GetNamespace d) (qc_RootCredentials (Spec d)) tr)
     (QuaySecretEngineConfig_setInternalCredentials E cl)"
  by (simp add: retrieval_defs) (intro allI from_credentials_calls emits_intros)

lemma retrieves_AzureSecretEngineConfig:
  "retrieves (\<lambda>tr d. if default_credentials ''clientid'' ''clientsecret'' (ase_AzureCredentials (Spec d)) then [] else credential_calls E cl (GetNamespace d) (ase_AzureCredentials (Spec d)) tr)
     (AzureSecretEngineConfig_PrepareInternalValues E cl)"
  by (simp add: retrieval_defs retG_def)

lemma retrieves_AzureAuthEngineConfig:
  "retrieves (\<lambda>tr d. if default_credentials ''clientid'' ''clientsecret'' (aae_AzureCredentials (Spec d)) then [] else credential_calls E cl (GetNamespace d) (aae_AzureCredentials (Spec d)) tr)
     (AzureAuthEngineConfig_PrepareInternalValues E cl)"
  by (simp add: retrieval_defs retG_def)

lemma retrieves_GCPAuthEngineConfig:
  "retrieves (\<lambda>tr d. if default_credentials ''serviceaccount'' ''credentials'' (gcp_GCPCredentials (Spec d)) then [] else credential_calls E cl (GetNamespace d) (gcp_GCPCredentials (Spec d)) tr)
     (GCPAuthEngineConfig_PrepareInternalValues E cl)"
  by (simp add: retrieval_defs retG_def) (intro allI impI from_credentials_calls emits_intros)

lemma retrieves_LDAPAuthEngineConfig:
  "retrieves (\<lambda>tr d. credential_calls E cl (GetNamespace d) (ldap_BindCredentials (Spec d)) tr)
     (LDAPAuthEngineConfig_setInternalCredentials E cl)"
  by (simp add: retrieval_defs retG_def)

lemma retrieves_RabbitMQSecretEngineConfig:
  "retrieves (\<lambda>tr d. credential_calls E cl (GetNamespace d) (rmq_RootCredentials (Spec d)) tr)
     (RabbitMQSecretEngineConfig_setInternalCredentials E cl)"
  by (simp add: retrieval_defs) (intro allI from_credentials_calls emits_intros)

lemma retrieves_DatabaseSecretEngineConfig:
  "retrieves (\<lambda>tr d. if LastRootPasswordRotation (Status d) \<noteq> None then [] else credential_calls E cl (GetNamespace d) (db_RootCredentials (Spec d)) tr)
     (DatabaseSecretEngineConfig_setInternalCredentials E cl)"
  by (simp add: retrieval_defs retG_def) (intro allI impI from_credentials_calls emits_intros)

lemma retrieves_JWTOIDCAuthEngineConfig:
  "retrieves (\<lambda>tr d. case joc_OIDCCredentials (Spec d) of None \<Rightarrow> [] | Some rc \<Rightarrow> credential_calls E cl (GetNamespace d) rc tr)
     (JWTOIDCAuthEngineConfig_PrepareInternalValues E cl)"
  by (simp add: retrieval_defs retG_def split: option.split)

lemma retrieves_GitHubSecretEngineConfig:
  "retrieves (\<lambda>tr d. key_calls cl (GetNamespace d) (ssh_Secret (gh_SSHKeyReference (Spec d))) (ssh_VaultSecret (gh_SSHKeyReference (Spec d))))
     (GitHubSecretEngineConfig_setInternalCredentials E cl)"
  by (auto simp: retrieval_defs intro!: with_Secret_calls read_key_calls emits_intros split: option.split)

lemma retrieves_KubernetesSecretEngineConfig:
  "retrieves (\<lambda>tr d. key_calls cl (GetNamespace d) (rc_Secret (kse_JWTReference (Spec d))) (rc_VaultSecret (kse_JWTReference (Spec d))))
     (KubernetesSecretEngineConfig_setInternalCredentials E cl)"
  by (auto simp: retrieval_defs intro!: with_Secret_calls read_key_calls emits_intros split: option.split)

text \<open>
  C27. Retrieving the credentials of an engine makes exactly the calls that the resource's reference
  asks for, in their order: for a \<open>RandomSecret\<close> it gets the one of that name in the resource's own
  namespace and then reads the path of the object that the API server gave, if it gave one; for a
  Kubernetes secret it gets the one of that name in the same namespace; for a Vault secret it reads
  that path. The first source that is given counts, and nothing is written. Nothing is asked
  for when the Azure or GCP reference is the default one, when there is no OIDC reference, or when
  the root password of a database was rotated.
\<close>

theorem credentials_stay_in_namespace:
  "retrieves (\<lambda>tr d. credential_calls E_0 cl (GetNamespace d) (qc_RootCredentials (Spec d)) tr)
     (QuaySecretEngineConfig_setInternalCredentials E_0 cl) \<and>
   retrieves (\<lambda>tr d. if default_credentials ''clientid'' ''clientsecret'' (ase_AzureCredentials (Spec d)) then [] else credential_calls E_1 cl (GetNamespace d) (ase_AzureCredentials (Spec d)) tr)
     (AzureSecretEngineConfig_PrepareInternalValues E_1 cl) \<and>
   retrieves (\<lambda>tr d. if default_credentials ''clientid'' ''clientsecret'' (aae_AzureCredentials (Spec d)) then [] else credential_calls E_2 cl (GetNamespace d) (aae_AzureCredentials (Spec d)) tr)
     (AzureAuthEngineConfig_PrepareInternalValues E_2 cl) \<and>
   retrieves (\<lambda>tr d. if default_credentials ''serviceaccount'' ''credentials'' (gcp_GCPCredentials (Spec d)) then [] else credential_calls E_3 cl (GetNamespace d) (gcp_GCPCredentials (Spec d)) tr)
     (GCPAuthEngineConfig_PrepareInternalValues E_3 cl) \<and>
   retrieves (\<lambda>tr d. credential_calls E_4 cl (GetNamespace d) (ldap_BindCredentials (Spec d)) tr)
     (LDAPAuthEngineConfig_setInternalCredentials E_4 cl) \<and>
   retrieves (\<lambda>tr d. credential_calls E_5 cl (GetNamespace d) (rmq_RootCredentials (Spec d)) tr)
     (RabbitMQSecretEngineConfig_setInternalCredentials E_5 cl) \<and>
   retrieves (\<lambda>tr d. if LastRootPasswordRotation (Status d) \<noteq> None then [] else credential_calls E_6 cl (GetNamespace d) (db_RootCredentials (Spec d)) tr)
     (DatabaseSecretEngineConfig_setInternalCredentials E_6 cl) \<and>
   retrieves (\<lambda>tr d. case joc_OIDCCredentials (Spec d) of None \<Rightarrow> [] | Some rc \<Rightarrow> credential_calls E_7 cl (GetNamespace d) rc tr)
     (JWTOIDCAuthEngineConfig_PrepareInternalValues E_7 cl) \<and>
   retrieves (\<lambda>tr d. key_calls cl (GetNamespace d) (ssh_Secret (gh_SSHKeyReference (Spec d))) (ssh_VaultSecret (gh_SSHKeyReference (Spec d))))
     (GitHubSecretEngineConfig_setInternalCredentials E_8 cl) \<and>
   retrieves (\<lambda>tr d. key_calls cl (GetNamespace d) (rc_Secret (kse_JWTReference (Spec d))) (rc_VaultSecret (kse_JWTReference (Spec d))))
     (KubernetesSecretEngineConfig_setInternalCredentials E_9 cl)"
  by (intro conjI retrieves_QuaySecretEngineConfig retrieves_AzureSecretEngineConfig retrieves_AzureAuthEngineConfig retrieves_GCPAuthEngineConfig retrieves_LDAPAuthEngineConfig retrieves_RabbitMQSecretEngineConfig retrieves_DatabaseSecretEngineConfig retrieves_JWTOIDCAuthEngineConfig retrieves_GitHubSecretEngineConfig retrieves_KubernetesSecretEngineConfig)

text \<open>What a \<open>RandomSecret\<close> of a KV v2 engine reads as: the secret lies under \<open>data\<close>.\<close>

definition kv2_secret :: "string \<Rightarrow> string \<Rightarrow> vault_secret" where
  "kv2_secret key password = data_secret (fmap_of_list
     [(''data'', VMap (fmap_of_list [(key, VStr password)])), (''metadata'', VMap fmempty)])"

definition random_source :: "'o env \<Rightarrow> vault_client \<Rightarrow> 'o world \<Rightarrow> string \<Rightarrow> RootCredentialConfig \<Rightarrow> vault_secret \<Rightarrow> bool" where
  "random_source E cl w ns rc s \<longleftrightarrow> (case rc_RandomSecret rc of None \<Rightarrow> False
    | Some n \<Rightarrow> (case kube_get_randomsecret E (calls w) ns n of Inl e \<Rightarrow> False
      | Inr rs \<Rightarrow> vault_read E (calls w @ [KubeGetRandomSecret ns n]) cl (RandomSecret_GetPath rs) = Inr (Some s) \<and>
          SecretKey (Spec rs) = ''password''))"

lemma random_source_run:
  assumes "random_source E cl w ns rc s" and "vs_Data s = Some m"
  shows "\<exists>rs w'. SecretKey (Spec rs) = ''password'' \<and> inst w' = inst w \<and>
    from_credentials E cl ns rc f g h w = f rs s w'"
proof -
  from assms(1) obtain n rs where n: "rc_RandomSecret rc = Some n"
      "kube_get_randomsecret E (calls w) ns n = Inr rs" "SecretKey (Spec rs) = ''password''"
      "vault_read E (calls w @ [KubeGetRandomSecret ns n]) cl (RandomSecret_GetPath rs) = Inr (Some s)"
    by (auto simp: random_source_def split: option.splits sum.splits)
  let ?w = "w\<lparr>calls := calls w @ [KubeGetRandomSecret ns n]\<rparr>"
  have "from_credentials E cl ns rc f g h w = f rs s (?w\<lparr>calls := calls ?w @ [VaultRead cl (RandomSecret_GetPath rs)]\<rparr>)"
    using n assms(2) by (simp add: from_credentials_def with_RandomSecret_run with_VaultSecret_run)
  then show ?thesis using n(3) by (intro exI [of _ rs] exI [of _ "?w\<lparr>calls := calls ?w @ [VaultRead cl (RandomSecret_GetPath rs)]\<rparr>"]) simp
qed

lemmas kv2_string = data_string_def kv2_secret_def data_secret_def opt_lookup_def assert_string_def as_string_def

lemma kv2_secret_data: "\<exists>m. vs_Data (kv2_secret k p) = Some m"
  by (simp add: kv2_secret_def data_secret_def)

lemma random_source_panics:
  assumes "random_source E cl w ns rc (kv2_secret ''password'' p)"
  shows "fst (from_credentials E cl ns rc (\<lambda>rs s. bindG (data_string s (SecretKey (Spec rs))) (k rs)) g h w) =
    Panic ''interface conversion''"
proof -
  obtain m where m: "vs_Data (kv2_secret ''password'' p) = Some m" using kv2_secret_data by blast
  obtain rs :: RandomSecret and w' where "SecretKey (Spec rs) = ''password''" and
    run: "from_credentials E cl ns rc (\<lambda>rs s. bindG (data_string s (SecretKey (Spec rs))) (k rs)) g h w =
      bindG (data_string (kv2_secret ''password'' p) (SecretKey (Spec rs))) (k rs) w'"
    using random_source_run [OF assms m, where f = "\<lambda>rs s. bindG (data_string s (SecretKey (Spec rs))) (k rs)" and g = g and h = h] by blast
  then show ?thesis by (simp add: kv2_string go_runs)
qed

lemma random_source_kv_data:
  assumes "random_source E cl w ns rc (kv2_secret ''password'' p)"
  shows "\<exists>w'. inst w' = inst w \<and> from_credentials E cl ns rc (\<lambda>rs s. bindG (kv_data s) (\<lambda>m.
      bindG (string_or_error m (SecretKey (Spec rs)) e) k)) g h w = k p w'"
proof -
  obtain m where m: "vs_Data (kv2_secret ''password'' p) = Some m" using kv2_secret_data by blast
  obtain rs :: RandomSecret and w' where "SecretKey (Spec rs) = ''password''" "inst w' = inst w" and
    run: "from_credentials E cl ns rc (\<lambda>rs s. bindG (kv_data s) (\<lambda>m.
      bindG (string_or_error m (SecretKey (Spec rs)) e) k)) g h w =
      bindG (kv_data (kv2_secret ''password'' p)) (\<lambda>m. bindG (string_or_error m (SecretKey (Spec rs)) e) k) w'"
    using random_source_run [OF assms m, where f = "\<lambda>rs s. bindG (kv_data s) (\<lambda>m.
        bindG (string_or_error m (SecretKey (Spec rs)) e) k)" and g = g and h = h] by blast
  then show ?thesis
    by (intro exI [of _ w']) (simp add: kv2_string kv_data_def string_or_error_def)
qed

text \<open>
  A root password kept in a KV v2 engine by a \<open>RandomSecret\<close> is found by the RabbitMQ
  configuration, while the LDAP, Azure and Quay configurations assert a string where there
  is none and panic.
\<close>

theorem kv2_random_secret_support:
  fixes q :: "QuaySecretEngineConfig world" and l :: "LDAPAuthEngineConfig world"
    and a :: "AzureAuthEngineConfig world" and r :: "RabbitMQSecretEngineConfig world"
  assumes "random_source F cl q (GetNamespace (inst q)) (qc_RootCredentials (Spec (inst q))) (kv2_secret ''password'' p)"
    and "random_source G cl l (GetNamespace (inst l)) (ldap_BindCredentials (Spec (inst l))) (kv2_secret ''password'' p)"
    and "random_source H cl a (GetNamespace (inst a)) (aae_AzureCredentials (Spec (inst a))) (kv2_secret ''password'' p)"
    and "random_source K cl r (GetNamespace (inst r)) (rmq_RootCredentials (Spec (inst r))) (kv2_secret ''password'' p)"
  shows "fst (QuaySecretEngineConfig_setInternalCredentials F cl q) = Panic ''interface conversion'' \<and>
    fst (LDAPAuthEngineConfig_setInternalCredentials G cl l) = Panic ''interface conversion'' \<and>
    fst (AzureAuthEngineConfig_setInternalCredentials H cl a) = Panic ''interface conversion'' \<and>
    fst (RabbitMQSecretEngineConfig_setInternalCredentials K cl r) = Ok () \<and>
    rmq_retrievedPassword (spec_RMQSEConfig (Spec (inst (snd
      (RabbitMQSecretEngineConfig_setInternalCredentials K cl r))))) = p"
proof (intro conjI)
  show "fst (QuaySecretEngineConfig_setInternalCredentials F cl q) = Panic ''interface conversion''"
    unfolding QuaySecretEngineConfig_setInternalCredentials_def bindG_get Let_def
    by (rule random_source_panics [OF assms(1)])
  show "fst (LDAPAuthEngineConfig_setInternalCredentials G cl l) = Panic ''interface conversion''"
    unfolding LDAPAuthEngineConfig_setInternalCredentials_def bindG_get from_user_credentials_def
    by (rule random_source_panics [OF assms(2)])
  show "fst (AzureAuthEngineConfig_setInternalCredentials H cl a) = Panic ''interface conversion''"
    unfolding AzureAuthEngineConfig_setInternalCredentials_def bindG_get from_user_credentials_def
    by (rule random_source_panics [OF assms(3)])
  have "\<exists>w'. inst w' = inst r \<and> RabbitMQSecretEngineConfig_setInternalCredentials K cl r =
      modifyG (RabbitMQSecretEngineConfig_SetUsernameAndPassword (rmq_Username (spec_RMQSEConfig (Spec (inst r)))) p) w'"
    unfolding RabbitMQSecretEngineConfig_setInternalCredentials_def bindG_get Let_def
    by (rule random_source_kv_data [OF assms(4)])
  then obtain w' where run: "inst w' = inst r" "RabbitMQSecretEngineConfig_setInternalCredentials K cl r =
      modifyG (RabbitMQSecretEngineConfig_SetUsernameAndPassword (rmq_Username (spec_RMQSEConfig (Spec (inst r)))) p) w'"
    by blast
  then show "fst (RabbitMQSecretEngineConfig_setInternalCredentials K cl r) = Ok ()"
    by (simp add: go_runs)
  show "rmq_retrievedPassword (spec_RMQSEConfig (Spec (inst (snd (RabbitMQSecretEngineConfig_setInternalCredentials K cl r))))) = p"
    using run by (simp add: go_runs RabbitMQSecretEngineConfig_SetUsernameAndPassword_def)
qed

section \<open>Namespaces of a Kubernetes role\<close>

lemma namespaces_payload:
  "fmlookup (KubernetesAuthEngineRole_GetPayload (SetInternalNamespaces ns d)) ''bound_service_account_namespaces'' =
     Some (VStrs ns)"
  by (simp add: KubernetesAuthEngineRole_GetPayload_def VRole_toMap_def SetInternalNamespaces_def Let_def)

text \<open>
  C38. A role selected by labels is never bound to an empty list of namespaces:
  the payload holds the selected namespaces, or a name
  that no namespace has when none matches; and when they cannot be listed the reconcile
  logic ends without any call to Vault.
\<close>

theorem role_never_unbound:
  assumes "tnc_TargetNamespaceSelector (kar_TargetNamespaces (Spec (inst w))) = Some selector"
    and "label_selector E selector = Inr l"
    and "kube_list_namespaces E (calls w) l = answer"
  shows "case answer of
      Inl err \<Rightarrow> VaultResource_manageReconcileLogic KubernetesAuthEngineRole_VaultObject E cl w =
        (Err err, w\<lparr>calls := calls w @ [KubeListNamespaces l]\<rparr>)
    | Inr names \<Rightarrow>
        fst (KubernetesAuthEngineRole_PrepareInternalValues E cl w) = Ok () \<and>
        calls (snd (KubernetesAuthEngineRole_PrepareInternalValues E cl w)) = calls w @ [KubeListNamespaces l] \<and>
        fmlookup (KubernetesAuthEngineRole_GetPayload (inst (snd (KubernetesAuthEngineRole_PrepareInternalValues E cl w))))
          ''bound_service_account_namespaces'' =
          Some (VStrs (Some (if names = [] then [''__no_namespace__''] else names)))"
proof (cases answer)
  case (Inl err)
  then show ?thesis
    using assms
    by (simp add: VaultResource_manageReconcileLogic_def prepare_simps KubernetesAuthEngineRole_PrepareInternalValues_def
        findSelectedNamespaceNames_def bindG_assoc bindG_get bindG_ask go_runs)
next
  case (Inr names)
  have "KubernetesAuthEngineRole_PrepareInternalValues E cl w =
      modifyG (SetInternalNamespaces (Some (if names = [] then [''__no_namespace__''] else names)))
        (w\<lparr>calls := calls w @ [KubeListNamespaces l]\<rparr>)"
    using assms Inr
    by (cases names) (simp_all add: KubernetesAuthEngineRole_PrepareInternalValues_def findSelectedNamespaceNames_def
        bindG_assoc bindG_get bindG_ask)
  then show ?thesis
    using Inr by (simp add: go_runs namespaces_payload)
qed

end
