(* ===== verification/ResourceWitnesses.thy ===== *)
theory ResourceWitnesses
  imports Resources
begin

text \<open>
  Concrete resources, and the properties of \<open>SecretWatch\<close> and \<open>Resources\<close> applied to them.
\<close>

section \<open>Resources\<close>

definition sample_quay :: QuaySecretEngineConfig where
  "sample_quay =
     \<lparr>TypeKind = ''QuaySecretEngineConfig'', Meta = sample_meta ''engine'',
      Spec = \<lparr>Connection = None, Authentication = sample_auth, qc_Path = ''quay'', spec_QuayConfig = \<lparr>qc_URL = [], qc_CACertertificate = [],
        qc_DisableSslVerification = False, qc_retrievedToken = []\<rparr>, qc_RootCredentials =
        \<lparr>rc_VaultSecret = None, rc_Secret = None, rc_RandomSecret = Some ''root'', rc_PasswordKey =
        ''password'', rc_UsernameKey = ''username''\<rparr>\<rparr>,
      Status = \<lparr>Conditions = []\<rparr>\<rparr>"

definition sample_ldap :: LDAPAuthEngineConfig where
  "sample_ldap =
     \<lparr>TypeKind = ''LDAPAuthEngineConfig'', Meta = sample_meta ''engine'',
      Spec = \<lparr>Connection = None, Authentication = sample_auth, ldap_Path = ''ldap'', spec_LDAPConfig = \<lparr>ldap_URL = [], ldap_CaseSensitiveNames = False,
        ldap_RequestTimeout = [], ldap_StartTLS = False, ldap_TLSMinVersion = [], ldap_TLSMaxVersion = [],
        ldap_InsecureTLS = False, ldap_Certificate = [], ldap_ClientTLSCert = [], ldap_ClientTLSKey = [],
        ldap_BindDN = [], ldap_UserDN = [], ldap_UserAttr = [], ldap_DiscoverDN = False, ldap_DenyNullBind =
        False, ldap_UPNDomain = [], ldap_UserFilter = [], ldap_AnonymousGroupSearch = False,
        ldap_GroupFilter = [], ldap_GroupDN = [], ldap_GroupAttr = [], ldap_UsernameAsAlias = False,
        ldap_TokenTTL = [], ldap_TokenMaxTTL = [], ldap_TokenPolicies = [], ldap_TokenBoundCIDRs = [],
        ldap_TokenExplicitMaxTTL = [], ldap_TokenNoDefaultPolicy = False, ldap_TokenNumUses = 0,
        ldap_TokenPeriod = 0, ldap_TokenType = [], ldap_retrievedPassword = [], ldap_retrievedUsername = [],
        ldap_retrievedCertificate = [], ldap_retrievedClientTLSCert = [], ldap_retrievedClientTLSKey =
        []\<rparr>, ldap_BindCredentials = \<lparr>rc_VaultSecret = None, rc_Secret = None, rc_RandomSecret
        = Some ''root'', rc_PasswordKey = ''password'', rc_UsernameKey = ''username''\<rparr>,
        ldap_TLSConfig = \<lparr>Cacert = None, TLSSecret = None, SkipVerify = False, TLSServerName =
        None\<rparr>\<rparr>,
      Status = \<lparr>Conditions = []\<rparr>\<rparr>"

definition sample_azure :: AzureAuthEngineConfig where
  "sample_azure =
     \<lparr>TypeKind = ''AzureAuthEngineConfig'', Meta = sample_meta ''engine'',
      Spec = \<lparr>Connection = None, Authentication = sample_auth, aae_Path = ''azure'', spec_AzureConfig = \<lparr>aae_TenantID = [], aae_Resource = [],
        aae_Environment = [], aae_ClientID = [], aae_MaxRetries = 0, aae_MaxRetryDelay = 0, aae_RetryDelay =
        0, aae_retrievedClientID = [], aae_retrievedClientPassword = []\<rparr>, aae_AzureCredentials =
        \<lparr>rc_VaultSecret = None, rc_Secret = None, rc_RandomSecret = Some ''root'', rc_PasswordKey =
        ''password'', rc_UsernameKey = ''username''\<rparr>\<rparr>,
      Status = \<lparr>Conditions = []\<rparr>\<rparr>"

definition sample_rabbit :: RabbitMQSecretEngineConfig where
  "sample_rabbit =
     \<lparr>TypeKind = ''RabbitMQSecretEngineConfig'', Meta = sample_meta ''engine'',
      Spec = \<lparr>Connection = None, Authentication = sample_auth, rmq_Path = ''rabbitmq'', spec_RMQSEConfig = \<lparr>rmq_ConnectionURI = [], rmq_Username = [],
        rmq_VerifyConnection = False, rmq_PasswordPolicy = [], rmq_UsernameTemplate = [], rmq_LeaseTTL = 0,
        rmq_LeaseMaxTTL = 0, rmq_retrievedPassword = [], rmq_retrievedUsername = []\<rparr>,
        rmq_RootCredentials = \<lparr>rc_VaultSecret = None, rc_Secret = None, rc_RandomSecret = Some
        ''root'', rc_PasswordKey = ''password'', rc_UsernameKey = ''username''\<rparr>\<rparr>,
      Status = \<lparr>Conditions = []\<rparr>\<rparr>"

definition sample_github :: GitHubSecretEngineConfig where
  "sample_github =
     \<lparr>TypeKind = ''GitHubSecretEngineConfig'', Meta = sample_meta ''engine'',
      Spec = \<lparr>Connection = None, Authentication = sample_auth, gh_Path = ''github'', spec_GHConfig = \<lparr>gh_ApplicationID = 0, gh_GitHubAPIBaseURL = [],
        gh_retrievedSSHKey = []\<rparr>, gh_SSHKeyReference = \<lparr>ssh_VaultSecret = None, ssh_Secret =
        Some ''root''\<rparr>\<rparr>,
      Status = \<lparr>Conditions = []\<rparr>\<rparr>"

definition sample_kube :: KubernetesSecretEngineConfig where
  "sample_kube =
     \<lparr>TypeKind = ''KubernetesSecretEngineConfig'', Meta = sample_meta ''engine'',
      Spec = \<lparr>Connection = None, Authentication = sample_auth, kse_Path = ''kube'', spec_KubeSEConfig = \<lparr>kse_KubernetesHost = [], kse_KubernetesCACert = [],
        kse_DisableLocalCAJWT = False, kse_retrievedServiceAccountJWT = []\<rparr>, kse_JWTReference =
        \<lparr>rc_VaultSecret = None, rc_Secret = Some ''root'', rc_RandomSecret = None, rc_PasswordKey =
        ''password'', rc_UsernameKey = ''username''\<rparr>\<rparr>,
      Status = \<lparr>Conditions = []\<rparr>\<rparr>"

definition sample_kube_role :: KubernetesAuthEngineRole where
  "sample_kube_role =
     \<lparr>TypeKind = ''KubernetesAuthEngineRole'', Meta = sample_meta ''engine'',
      Spec = \<lparr>Connection = None, Authentication = sample_auth, Name = [], Path = ''kubernetes'', spec_VRole = \<lparr>kar_TargetServiceAccounts = None,
        kar_Audience = None, kar_AliasNameSource = [], kar_TokenTTL = 0, kar_Policies = None,
        kar_TokenMaxTTL = 0, kar_TokenBoundCIDRs = None, kar_TokenExplicitMaxTTL = 0,
        kar_TokenNoDefaultPolicy = False, kar_TokenNumUses = 0, kar_TokenPeriod = 0, kar_TokenType = [],
        kar_namespaces = None\<rparr>, kar_TargetNamespaces = \<lparr>tnc_TargetNamespaceSelector = Some
        ''team=a'', tnc_TargetNamespaces = None\<rparr>\<rparr>,
      Status = \<lparr>Conditions = []\<rparr>\<rparr>"

definition root_random_secret :: RandomSecret where
  "root_random_secret =
     \<lparr>TypeKind = ''RandomSecret'', Meta = sample_meta ''root'',
      Spec = \<lparr>Connection = None, Authentication = sample_auth, Name = [], Path = ''kv/data'',
        SecretFormat = \<lparr>PasswordPolicyName = ''p'', InlinePasswordPolicy = []\<rparr>, rs_RefreshPeriod = None,
        SecretKey = ''password'', calculatedSecret = [], spec_IsKVSecretsEngineV2 = True, KvSecretRetainPolicy = []\<rparr>,
      Status = \<lparr>Conditions = [], rs_LastVaultSecretUpdate = None\<rparr>\<rparr>"

definition typed_secret :: "string \<Rightarrow> (string, string) fmap \<Rightarrow> k8s_secret" where
  "typed_secret t m = \<lparr>sec_Meta = sample_meta ''root'', sec_Type = t, sec_Data = m\<rparr>"

section \<open>Environments\<close>

definition kv2_env :: "('s, 't) crd env" where
  "kv2_env = sample_env\<lparr>kube_get_randomsecret := \<lambda>tr ns n. Inr root_random_secret,
     vault_read := \<lambda>tr cl p. Inr (Some (kv2_secret ''password'' ''pw''))\<rparr>"

definition secret_env :: "string \<Rightarrow> ('s, 't) crd env" where
  "secret_env t = sample_env\<lparr>kube_get_secret := \<lambda>tr ns n. Inr (typed_secret t fmempty)\<rparr>"

lemma kv2_source:
  "rc_RandomSecret rc \<noteq> None \<Longrightarrow> random_source kv2_env cl w ns rc (kv2_secret ''password'' ''pw'')"
  by (auto simp: random_source_def kv2_env_def root_random_secret_def)

section \<open>The properties applied\<close>

theorem kv2_random_secret_support_witness:
  "fst (LDAPAuthEngineConfig_setInternalCredentials kv2_env sample_client (start_world sample_ldap)) =
     Panic ''interface conversion'' \<and>
   rmq_retrievedPassword (spec_RMQSEConfig (Spec (inst (snd
      (RabbitMQSecretEngineConfig_setInternalCredentials kv2_env sample_client (start_world sample_rabbit)))))) = ''pw''"
  using kv2_random_secret_support [of kv2_env sample_client "start_world sample_quay" "''pw''" kv2_env
      "start_world sample_ldap" kv2_env "start_world sample_azure" kv2_env "start_world sample_rabbit"]
  by (simp add: kv2_source sample_quay_def sample_ldap_def sample_azure_def sample_rabbit_def)

theorem role_never_unbound_witness:
  "fmlookup (KubernetesAuthEngineRole_GetPayload (inst (snd (KubernetesAuthEngineRole_PrepareInternalValues sample_env
      sample_client (start_world sample_kube_role))))) ''bound_service_account_namespaces'' =
     Some (VStrs (Some [''__no_namespace__'']))"
  using role_never_unbound [where w = "start_world sample_kube_role" and E = sample_env and cl = sample_client
      and selector = "''team=a''" and l = "''team=a''" and answer = "Inr []"]
  by (simp add: sample_kube_role_def)

theorem secret_parts_never_settle_witness:
  "\<not> QuaySecretEngineConfig_IsEquivalentToDesiredState sample_quay (Some (fmap_of_list [(''url'', VStr [])]))"
  using secret_parts_never_settle [of fmempty "fmap_of_list [(''url'', VStr [])]" _ _ sample_quay] by simp

theorem usable_key_secret_never_wakes_witness:
  "\<not> GitHubSecretEngineConfig_isSSHSecret_Update (Some (typed_secret ''kubernetes.io/ssh-auth'' fmempty))
     (Some (typed_secret ''kubernetes.io/ssh-auth'' (fmap_of_list [(''ssh-privatekey'', ''new'')])))"
proof -
  let ?s = "typed_secret ''kubernetes.io/ssh-auth'' fmempty" and ?t = "typed_secret ''kubernetes.io/service-account-token'' fmempty"
  have g: "fst (GitHubSecretEngineConfig_setInternalCredentials (secret_env ''kubernetes.io/ssh-auth'') sample_client
      (start_world sample_github)) = Ok ()"
    by (simp add: GitHubSecretEngineConfig_setInternalCredentials_def bindG_get bindG_ask with_Secret_def
        typed_secret_key_def typed_secret_def secret_env_def sample_github_def go_runs Let_def)
  have k: "fst (KubernetesSecretEngineConfig_setInternalCredentials (secret_env ''kubernetes.io/service-account-token'')
      sample_client (start_world sample_kube)) = Ok ()"
    by (simp add: KubernetesSecretEngineConfig_setInternalCredentials_def bindG_get bindG_ask with_Secret_def
        typed_secret_key_def typed_secret_def secret_env_def sample_kube_def go_runs Let_def)
  show ?thesis
    using usable_key_secret_never_wakes [OF _ _ g _ _ k, of "''root''" ?s "''root''" ?t
        "typed_secret ''kubernetes.io/ssh-auth'' (fmap_of_list [(''ssh-privatekey'', ''new'')])" "Some ?s"]
    by (simp add: sample_github_def sample_kube_def secret_env_def typed_secret_def)
qed

end
