(* ===== verification/Mounts.thy ===== *)
theory Mounts
  imports Engines Samples
begin

text \<open>
  The engine mounts: \<open>SecretEngineMount\<close> (\<open>api/v1alpha1/secretenginemount_types.go\<close>) and
  \<open>AuthEngineMount\<close> (\<open>authenginemount_types.go\<close>) with their controllers.
\<close>

section \<open>SecretEngineMount\<close>

record MountConfig =
  mc_DefaultLeaseTTL :: string
  mc_MaxLeaseTTL :: string
  mc_ForceNoCache :: bool
  mc_AuditNonHMACRequestKeys :: "string list option"
  mc_AuditNonHMACResponseKeys :: "string list option"
  mc_ListingVisibility :: string
  mc_PassthroughRequestHeaders :: "string list option"
  mc_AllowedResponseHeaders :: "string list option"

record Mount =
  mnt_Type :: string
  mnt_Description :: string
  mnt_Config :: MountConfig
  mnt_Local :: bool
  mnt_SealWrap :: bool
  mnt_ExternalEntropyAccess :: bool
  mnt_Options :: "(string, string) fmap option"

record SecretEngineMountSpec = PathSpec +
  spec_Mount :: Mount

record EngineMountStatus = BaseStatus +
  Accessor :: string

type_synonym SecretEngineMount = "(SecretEngineMountSpec, EngineMountStatus) crd"

definition MountConfig_toMap :: "MountConfig \<Rightarrow> gmap" where
  "MountConfig_toMap mc = fmap_of_list
     [(''default_lease_ttl'', VStr (mc_DefaultLeaseTTL mc)),
      (''max_lease_ttl'', VStr (mc_MaxLeaseTTL mc)),
      (''force_no_cache'', VBool (mc_ForceNoCache mc)),
      (''audit_non_hmac_request_keys'', VStrs (mc_AuditNonHMACRequestKeys mc)),
      (''audit_non_hmac_response_keys'', VStrs (mc_AuditNonHMACResponseKeys mc)),
      (''listing_visibility'', VStr (mc_ListingVisibility mc)),
      (''passthrough_request_headers'', VStrs (mc_PassthroughRequestHeaders mc)),
      (''allowed_response_headers'', VStrs (mc_AllowedResponseHeaders mc))]"

definition Mount_toMap :: "Mount \<Rightarrow> gmap" where
  "Mount_toMap m = fmap_of_list
     [(''type'', VStr (mnt_Type m)),
      (''description'', VStr (mnt_Description m)),
      (''config'', VMap (MountConfig_toMap (mnt_Config m))),
      (''local'', VBool (mnt_Local m)),
      (''seal_wrap'', VBool (mnt_SealWrap m)),
      (''external_entropy_access'', VBool (mnt_ExternalEntropyAccess m)),
      (''options'', VStrMap (mnt_Options m))]"

definition SecretEngineMount_GetEngineListPath :: "SecretEngineMount \<Rightarrow> string" where
  "SecretEngineMount_GetEngineListPath d = ''sys/mounts''"

definition SecretEngineMount_GetPath :: "SecretEngineMount \<Rightarrow> string" where
  "SecretEngineMount_GetPath d =
     (let list = SecretEngineMount_GetEngineListPath d in
      if Path (Spec d) = [] then
        (if Name (Spec d) \<noteq> [] then CleansePath (list @ ''/'' @ Name (Spec d))
         else CleansePath (list @ ''/'' @ GetName d))
      else if Name (Spec d) \<noteq> []
      then CleansePath (list @ ''/'' @ Path (Spec d) @ ''/'' @ Name (Spec d))
      else CleansePath (list @ ''/'' @ Path (Spec d) @ ''/'' @ GetName d))"

definition SecretEngineMount_GetPayload :: "SecretEngineMount \<Rightarrow> gmap" where
  "SecretEngineMount_GetPayload d = Mount_toMap (spec_Mount (Spec d))"

definition SecretEngineMount_IsEquivalentToDesiredState :: "SecretEngineMount \<Rightarrow> gmap option \<Rightarrow> bool" where
  "SecretEngineMount_IsEquivalentToDesiredState d payload =
     (let configMap = MountConfig_toMap (mnt_Config (spec_Mount (Spec d)))
      in payload = Some (fmdrop ''description'' (fmdrop ''options'' configMap)))"

definition SecretEngineMount_GetEngineTunePath :: "SecretEngineMount \<Rightarrow> string" where
  "SecretEngineMount_GetEngineTunePath d = SecretEngineMount_GetPath d @ ''/tune''"

definition SecretEngineMount_GetTunePayload :: "SecretEngineMount \<Rightarrow> gmap" where
  "SecretEngineMount_GetTunePayload d = MountConfig_toMap (mnt_Config (spec_Mount (Spec d)))"

definition set_accessor :: "string \<Rightarrow> ('s, 'x EngineMountStatus_scheme) crd \<Rightarrow> ('s, 'x EngineMountStatus_scheme) crd" where
  "set_accessor a d = d\<lparr>Status := (Status d)\<lparr>Accessor := a\<rparr>\<rparr>"

definition SecretEngineMount_VaultObject :: "SecretEngineMount VaultEngineObject" where
  "SecretEngineMount_VaultObject =
     \<lparr>GetPath = SecretEngineMount_GetPath,
      GetPayload = SecretEngineMount_GetPayload,
      IsEquivalentToDesiredState = SecretEngineMount_IsEquivalentToDesiredState,
      IsInitialized = (\<lambda>_. True),
      IsValid = (\<lambda>_. []),
      IsDeletable = (\<lambda>_. True),
      PrepareInternalValues = (\<lambda>E cl. retG ()),
      PrepareTLSConfig = (\<lambda>E cl. retG ()),
      GetEngineListPath = SecretEngineMount_GetEngineListPath,
      GetEngineTunePath = SecretEngineMount_GetEngineTunePath,
      GetTunePayload = SecretEngineMount_GetTunePayload,
      SetAccessor = set_accessor\<rparr>"

definition SecretEngineMountReconciler_Reconcile ::
  "SecretEngineMount env \<Rightarrow> string \<Rightarrow> string \<Rightarrow> (SecretEngineMount, Result) go" where
  "SecretEngineMountReconciler_Reconcile E ns n =
     controller_Reconcile SecretEngineMount_VaultObject E
       (VaultEngineResource_Reconcile SecretEngineMount_VaultObject E) ns n"

lemma SecretEngineMount_VaultObject_simps [simp]:
  "GetPath SecretEngineMount_VaultObject = SecretEngineMount_GetPath"
  "GetPayload SecretEngineMount_VaultObject = SecretEngineMount_GetPayload"
  "IsEquivalentToDesiredState SecretEngineMount_VaultObject = SecretEngineMount_IsEquivalentToDesiredState"
  "IsDeletable SecretEngineMount_VaultObject = (\<lambda>_. True)"
  "PrepareInternalValues SecretEngineMount_VaultObject = (\<lambda>E cl. retG ())"
  "PrepareTLSConfig SecretEngineMount_VaultObject = (\<lambda>E cl. retG ())"
  "GetEngineListPath SecretEngineMount_VaultObject = SecretEngineMount_GetEngineListPath"
  "GetEngineTunePath SecretEngineMount_VaultObject = SecretEngineMount_GetEngineTunePath"
  "GetTunePayload SecretEngineMount_VaultObject = SecretEngineMount_GetTunePayload"
  "SetAccessor SecretEngineMount_VaultObject = set_accessor"
  by (simp_all add: SecretEngineMount_VaultObject_def)

lemma set_accessor_simps [simp]:
  "Spec (set_accessor a d) = Spec d" "GetName (set_accessor a d) = GetName d" "Meta (set_accessor a d) = Meta d"
  "TypeKind (set_accessor a d) = TypeKind d" "GetConditions (set_accessor a d) = GetConditions d"
  by (simp_all add: set_accessor_def GetName_def GetConditions_def)

lemma SecretEngineMount_GetPath_set_accessor [simp]:
  "SecretEngineMount_GetPath (set_accessor a d) = SecretEngineMount_GetPath d"
  by (simp add: SecretEngineMount_GetPath_def SecretEngineMount_GetEngineListPath_def Let_def)

interpretation secret_engine_mount: vault_engine_object SecretEngineMount_VaultObject
  by unfold_locales
    (simp_all add: keeps_ret engine_view_def object_view_def SecretEngineMount_GetPath_def
      SecretEngineMount_GetEngineTunePath_def SecretEngineMount_GetEngineListPath_def Let_def)

section \<open>AuthEngineMount\<close>

record AuthMountConfig =
  amc_DefaultLeaseTTL :: string
  amc_MaxLeaseTTL :: string
  amc_AuditNonHMACRequestKeys :: "string list option"
  amc_AuditNonHMACResponseKeys :: "string list option"
  amc_ListingVisibility :: string
  amc_PassthroughRequestHeaders :: "string list option"
  amc_AllowedResponseHeaders :: "string list option"
  amc_Options :: "(string, string) fmap option"
  amc_TokenType :: string
  amc_Description :: "string option"

record AuthMount =
  am_Description :: string
  am_Type :: string
  am_Config :: AuthMountConfig
  am_Local :: bool
  am_SealWrap :: bool

record AuthEngineMountSpec = PathSpec +
  spec_AuthMount :: AuthMount

type_synonym AuthEngineMount = "(AuthEngineMountSpec, EngineMountStatus) crd"

definition AuthMountConfig_toMap :: "AuthMountConfig \<Rightarrow> gmap" where
  "AuthMountConfig_toMap mc = fmap_of_list
     [(''default_lease_ttl'', VStr (amc_DefaultLeaseTTL mc)),
      (''max_lease_ttl'', VStr (amc_MaxLeaseTTL mc)),
      (''audit_non_hmac_request_keys'', VStrs (amc_AuditNonHMACRequestKeys mc)),
      (''audit_non_hmac_response_keys'', VStrs (amc_AuditNonHMACResponseKeys mc)),
      (''listing_visibility'', VStr (amc_ListingVisibility mc)),
      (''passthrough_request_headers'', VStrs (amc_PassthroughRequestHeaders mc)),
      (''allowed_response_headers'', VStrs (amc_AllowedResponseHeaders mc)),
      (''token_type'', VStr (amc_TokenType mc)),
      (''description'', VStrPtr (amc_Description mc)),
      (''options'', VStrMap (amc_Options mc))]"

definition AuthMount_toMap :: "AuthMount \<Rightarrow> gmap" where
  "AuthMount_toMap m = fmap_of_list
     [(''type'', VStr (am_Type m)),
      (''description'', VStr (am_Description m)),
      (''config'', VMap (AuthMountConfig_toMap (am_Config m))),
      (''local'', VBool (am_Local m)),
      (''seal_wrap'', VBool (am_SealWrap m))]"

definition AuthEngineMount_GetEngineListPath :: "AuthEngineMount \<Rightarrow> string" where
  "AuthEngineMount_GetEngineListPath d = ''sys/auth''"

definition AuthEngineMount_GetPath :: "AuthEngineMount \<Rightarrow> string" where
  "AuthEngineMount_GetPath d =
     (let list = AuthEngineMount_GetEngineListPath d in
      if Name (Spec d) \<noteq> [] then CleansePath (list @ ''/'' @ Path (Spec d) @ ''/'' @ Name (Spec d))
      else CleansePath (list @ ''/'' @ Path (Spec d) @ ''/'' @ GetName d))"

definition AuthEngineMount_GetPayload :: "AuthEngineMount \<Rightarrow> gmap" where
  "AuthEngineMount_GetPayload d = AuthMount_toMap (spec_AuthMount (Spec d))"

definition AuthEngineMount_IsEquivalentToDesiredState :: "AuthEngineMount \<Rightarrow> gmap option \<Rightarrow> bool" where
  "AuthEngineMount_IsEquivalentToDesiredState d payload =
     (payload = Some (AuthMountConfig_toMap (am_Config (spec_AuthMount (Spec d)))))"

definition AuthEngineMount_GetEngineTunePath :: "AuthEngineMount \<Rightarrow> string" where
  "AuthEngineMount_GetEngineTunePath d = AuthEngineMount_GetPath d @ ''/tune''"

definition AuthEngineMount_GetTunePayload :: "AuthEngineMount \<Rightarrow> gmap" where
  "AuthEngineMount_GetTunePayload d = AuthMountConfig_toMap (am_Config (spec_AuthMount (Spec d)))"

definition AuthEngineMount_VaultObject :: "AuthEngineMount VaultEngineObject" where
  "AuthEngineMount_VaultObject =
     \<lparr>GetPath = AuthEngineMount_GetPath,
      GetPayload = AuthEngineMount_GetPayload,
      IsEquivalentToDesiredState = AuthEngineMount_IsEquivalentToDesiredState,
      IsInitialized = (\<lambda>_. True),
      IsValid = (\<lambda>_. []),
      IsDeletable = (\<lambda>_. True),
      PrepareInternalValues = (\<lambda>E cl. retG ()),
      PrepareTLSConfig = (\<lambda>E cl. retG ()),
      GetEngineListPath = AuthEngineMount_GetEngineListPath,
      GetEngineTunePath = AuthEngineMount_GetEngineTunePath,
      GetTunePayload = AuthEngineMount_GetTunePayload,
      SetAccessor = set_accessor\<rparr>"

definition AuthEngineMountReconciler_Reconcile ::
  "AuthEngineMount env \<Rightarrow> string \<Rightarrow> string \<Rightarrow> (AuthEngineMount, Result) go" where
  "AuthEngineMountReconciler_Reconcile E ns n =
     controller_Reconcile AuthEngineMount_VaultObject E
       (VaultEngineResource_Reconcile AuthEngineMount_VaultObject E) ns n"

interpretation auth_engine_mount: vault_engine_object AuthEngineMount_VaultObject
  by unfold_locales
    (simp_all add: AuthEngineMount_VaultObject_def keeps_ret engine_view_def object_view_def
      AuthEngineMount_GetPath_def AuthEngineMount_GetEngineTunePath_def
      AuthEngineMount_GetEngineListPath_def Let_def)

section \<open>Properties\<close>

text \<open>
  Reconciling a secret engine mount changes Vault at its mount path and its tune path
  only, whatever the servers answer.
\<close>

theorem SecretEngineMount_changes_own_paths:
  "list_all (engine_call (SecretEngineMount_GetPath (inst w)) (SecretEngineMount_GetPath (inst w) @ ''/tune''))
     (drop (length (calls w)) (calls (snd (VaultEngineResource_Reconcile SecretEngineMount_VaultObject E cl w))))"
  using secret_engine_mount.engine_changes_own_paths [of w E cl]
  by (simp add: SecretEngineMount_GetEngineTunePath_def)

text \<open>
  The tune configuration of a mount never settles: what the operator compares holds
  Go slices and pointers, which no decoded JSON answer equals, so every reconcile of an
  existing mount writes its tune configuration again.
\<close>

theorem mounts_never_settle:
  assumes "json_object p"
  shows "\<not> SecretEngineMount_IsEquivalentToDesiredState d (Some p) \<and>
    \<not> AuthEngineMount_IsEquivalentToDesiredState a (Some p)"
proof -
  let ?s = "fmdrop ''description'' (fmdrop ''options'' (MountConfig_toMap (mnt_Config (spec_Mount (Spec d)))))"
  have "fmlookup ?s ''audit_non_hmac_request_keys'' =
      Some (VStrs (mc_AuditNonHMACRequestKeys (mnt_Config (spec_Mount (Spec d)))))"
    by (simp add: MountConfig_toMap_def)
  then have "?s \<noteq> p" by (rule not_json_object) (simp_all add: assms)
  moreover have "fmlookup (AuthMountConfig_toMap (am_Config (spec_AuthMount (Spec a)))) ''options'' =
      Some (VStrMap (amc_Options (am_Config (spec_AuthMount (Spec a)))))"
    by (simp add: AuthMountConfig_toMap_def)
  then have "AuthMountConfig_toMap (am_Config (spec_AuthMount (Spec a))) \<noteq> p"
    by (rule not_json_object) (simp_all add: assms)
  ultimately show ?thesis
    by (auto simp: SecretEngineMount_IsEquivalentToDesiredState_def
        AuthEngineMount_IsEquivalentToDesiredState_def Let_def)
qed

text \<open>The order in which Vault's list is ranged over does not matter for keys that differ.\<close>

lemma retrieveAccessor_any_order:
  assumes "\<forall>k k'. is_key k \<longrightarrow> is_key k' \<longrightarrow> k \<in> fset (fmdom m) \<longrightarrow> k' \<in> fset (fmdom m) \<longrightarrow> k = k'"
  shows "accessor_of is_key m (range_keys rank m) = accessor_of is_key m (range_keys rank' m)"
proof -
  have "find is_key (range_keys rank m) = find is_key (range_keys rank' m)"
    by (rule find_perm) (use assms in auto)
  then show ?thesis by (simp add: accessor_of_def)
qed

text \<open>
  An engine that Vault lists under the object's mount key is never mounted again: the
  reconcile logic then writes nothing but its tune configuration.
\<close>

theorem listed_engine_not_remounted:
  assumes "vault_read E (calls w) cl ''sys/mounts'' = Inr (Some s)" and "vs_Data s = Some m"
    and "k \<in> fset (fmdom m)" and "is_mount_key SecretEngineMount_VaultObject (inst w) k"
  shows "list_all (\<lambda>c. vault_mutation c \<in> {None, Some (SecretEngineMount_GetPath (inst w) @ ''/tune'')})
    (drop (length (calls w)) (calls (snd
       (VaultEngineResource_manageReconcileLogic SecretEngineMount_VaultObject E cl w))))"
proof -
  let ?V = SecretEngineMount_VaultObject
  let ?t = "SecretEngineMount_GetPath (inst w) @ ''/tune''" and ?w = "w\<lparr>calls := calls w @ [VaultRead cl ''sys/mounts'']\<rparr>"
  let ?P = "\<lambda>c :: SecretEngineMount call. vault_mutation c \<in> {None, Some ?t}"
  let ?I = "\<lambda>d. SecretEngineMount_GetPath d @ ''/tune'' = ?t"
  let ?rest = "\<lambda>found. bindG (if \<not> found then Create ?V E cl else CreateOrUpdateTuneConfig ?V E cl) (\<lambda>_.
     bindG (GetAccessor ?V E cl) (\<lambda>accessor. modifyG (set_accessor accessor)))"
  let ?keys = "range_keys (range_rank E (calls ?w)) m"
  have "k \<in> set ?keys" using assms(3) by simp
  then have found: "find (is_mount_key ?V (inst w)) ?keys \<noteq> None"
    using assms(4) by (auto simp: find_None_iff)
  have acc: "keeps ?I ?P (GetAccessor ?V E cl)"
    unfolding GetAccessor_def by (intro emits_intros keeps_retrieveAccessor) simp
  have tune: "keeps ?I ?P (CreateOrUpdateTuneConfig ?V E cl)"
    unfolding CreateOrUpdateTuneConfig_def readTuneConfig_def
    by (intro emits_intros keeps_bind_get) (simp_all add: SecretEngineMount_GetEngineTunePath_def)
  have "keeps ?I ?P (?rest True)"
    by (simp only: not_True_eq_False if_False) (intro keeps_bind tune acc keeps_modify; simp)
  then obtain cs where cs: "calls (snd (?rest True ?w)) = calls ?w @ cs" "list_all ?P cs"
    by (rule keepsE [where w = ?w]) simp
  have run: "VaultEngineResource_manageReconcileLogic ?V E cl w =
      bindG (VaultEngineEndpoint_Exists ?V E cl) ?rest w"
    by (simp add: VaultEngineResource_manageReconcileLogic_def)
  obtain a where "retrieveAccessor ?V E cl w = (a, ?w)" and a: "(\<exists>x. a = Ok (x, True)) \<or> (\<exists>p. a = Panic p)"
    using found assms(1,2)
    by (auto simp: retrieveAccessor_run SecretEngineMount_GetEngineListPath_def Let_def accessor_of_def
        split: option.splits)
  then have "snd (bindG (VaultEngineEndpoint_Exists ?V E cl) ?rest w) = snd (?rest True ?w) \<or>
      snd (bindG (VaultEngineEndpoint_Exists ?V E cl) ?rest w) = ?w"
    by (auto simp: VaultEngineEndpoint_Exists_def bindG_assoc bindG_Ok bindG_Panic)
  then show ?thesis using cs unfolding run by auto
qed

section \<open>A concrete mount, and the witnesses\<close>

theorem mounts_never_settle_witness:
  "\<forall>d. \<not> SecretEngineMount_IsEquivalentToDesiredState d (Some fmempty)"
  using mounts_never_settle [of fmempty] by (simp add: json_object_def)

definition sample_mount :: SecretEngineMount where
  "sample_mount =
     \<lparr>TypeKind = ''SecretEngineMount'', Meta = sample_meta ''db'',
      Spec = \<lparr>Connection = None, Authentication = sample_auth, Name = [], Path = ''team'',
              spec_Mount = \<lparr>mnt_Type = ''database'', mnt_Description = [],
                mnt_Config = \<lparr>mc_DefaultLeaseTTL = [], mc_MaxLeaseTTL = [], mc_ForceNoCache = False,
                  mc_AuditNonHMACRequestKeys = None, mc_AuditNonHMACResponseKeys = None,
                  mc_ListingVisibility = ''hidden'', mc_PassthroughRequestHeaders = None,
                  mc_AllowedResponseHeaders = None\<rparr>,
                mnt_Local = False, mnt_SealWrap = False, mnt_ExternalEntropyAccess = False, mnt_Options = None\<rparr>\<rparr>,
      Status = \<lparr>Conditions = [], Accessor = []\<rparr>\<rparr>"

lemma sample_mount_path [simp]: "SecretEngineMount_GetPath sample_mount = ''sys/mounts/team/db''"
  by (simp add: SecretEngineMount_GetPath_def SecretEngineMount_GetEngineListPath_def sample_mount_def
      sample_meta_def GetName_def CleansePath_def Trim_def Let_def)

lemma sample_mount_key: "is_mount_key SecretEngineMount_VaultObject sample_mount ''team/db/''"
  by (simp add: is_mount_key_def SecretEngineMount_GetEngineListPath_def TrimPrefix_def Trim_def)

definition listing_env :: "SecretEngineMount env" where
  "listing_env = sample_env\<lparr>vault_read := \<lambda>tr cl p. Inr (Some (data_secret
     (fmap_of_list [(''team/db/'', VMap (fmap_of_list [(''accessor'', VStr ''database_1'')]))])))\<rparr>"

theorem listed_engine_not_remounted_witness:
  "list_all (\<lambda>c. vault_mutation c \<in> {None, Some ''sys/mounts/team/db/tune''})
     (calls (snd (VaultEngineResource_manageReconcileLogic SecretEngineMount_VaultObject listing_env
        sample_client (start_world sample_mount))))"
  using listed_engine_not_remounted [where E = listing_env and w = "start_world sample_mount" and cl = sample_client
      and k = "''team/db/''"] sample_mount_key
  by (simp add: listing_env_def data_secret_def)

end
