(* ===== verification/Sha256.thy ===== *)
theory Sha256
  imports GoStrings "HOL-Library.Word"
begin

text \<open>
  \<open>crypto/sha256\<close> and \<open>encoding/hex\<close> of Go's standard library, as the operator uses them: the
  SHA-256 digest of a byte string (FIPS 180-4) and its lower-case hexadecimal text.
\<close>

unbundle bit_operations_syntax

type_synonym u32 = "32 word"

text \<open>
  The round constants, in decimal: the first 32 bits of the fractional parts of the cube
  roots of the first 64 primes.
\<close>

definition sha_K :: "u32 list" where
  "sha_K = [
    1116352408, 1899447441, 3049323471, 3921009573, 961987163, 1508970993, 2453635748, 2870763221,
    3624381080, 310598401, 607225278, 1426881987, 1925078388, 2162078206, 2614888103, 3248222580,
    3835390401, 4022224774, 264347078, 604807628, 770255983, 1249150122, 1555081692, 1996064986,
    2554220882, 2821834349, 2952996808, 3210313671, 3336571891, 3584528711, 113926993, 338241895,
    666307205, 773529912, 1294757372, 1396182291, 1695183700, 1986661051, 2177026350, 2456956037,
    2730485921, 2820302411, 3259730800, 3345764771, 3516065817, 3600352804, 4094571909, 275423344,
    430227734, 506948616, 659060556, 883997877, 958139571, 1322822218, 1537002063, 1747873779,
    1955562222, 2024104815, 2227730452, 2361852424, 2428436474, 2756734187, 3204031479, 3329325298]"

definition rotr :: "nat \<Rightarrow> u32 \<Rightarrow> u32" where
  "rotr n x = (drop_bit n x) OR (push_bit (32 - n) x)"

definition sigma0 :: "u32 \<Rightarrow> u32" where
  "sigma0 x = rotr 7 x XOR rotr 18 x XOR drop_bit 3 x"

definition sigma1 :: "u32 \<Rightarrow> u32" where
  "sigma1 x = rotr 17 x XOR rotr 19 x XOR drop_bit 10 x"

definition big_sigma0 :: "u32 \<Rightarrow> u32" where
  "big_sigma0 x = rotr 2 x XOR rotr 13 x XOR rotr 22 x"

definition big_sigma1 :: "u32 \<Rightarrow> u32" where
  "big_sigma1 x = rotr 6 x XOR rotr 11 x XOR rotr 25 x"

text \<open>The message schedule, latest word first.\<close>

primrec schedule :: "nat \<Rightarrow> u32 list \<Rightarrow> u32 list" where
  "schedule 0 ws = ws"
| "schedule (Suc n) ws =
     schedule n ((sigma1 (ws ! 1) + ws ! 6 + sigma0 (ws ! 14) + ws ! 15) # ws)"

record sha_state =
  sa :: u32
  sb :: u32
  sc :: u32
  sd :: u32
  se :: u32
  sf :: u32
  sg :: u32
  sh :: u32

definition sha_init :: sha_state where
  "sha_init = \<lparr>sa = 0x6a09e667, sb = 0xbb67ae85, sc = 0x3c6ef372, sd = 0xa54ff53a,
     se = 0x510e527f, sf = 0x9b05688c, sg = 0x1f83d9ab, sh = 0x5be0cd19\<rparr>"

definition sha_round :: "u32 \<times> u32 \<Rightarrow> sha_state \<Rightarrow> sha_state" where
  "sha_round kw s =
     (let t1 = sh s + big_sigma1 (se s) + ((se s AND sf s) XOR (NOT (se s) AND sg s)) + fst kw + snd kw;
          t2 = big_sigma0 (sa s) + ((sa s AND sb s) XOR (sa s AND sc s) XOR (sb s AND sc s))
      in \<lparr>sa = t1 + t2, sb = sa s, sc = sb s, sd = sc s, se = sd s + t1, sf = se s, sg = sf s, sh = sg s\<rparr>)"

definition sha_block :: "u32 list \<Rightarrow> sha_state \<Rightarrow> sha_state" where
  "sha_block ws s =
     (let r = fold sha_round (zip sha_K (rev (schedule 48 (rev ws)))) s
      in \<lparr>sa = sa s + sa r, sb = sb s + sb r, sc = sc s + sc r, sd = sd s + sd r,
          se = se s + se r, sf = sf s + sf r, sg = sg s + sg r, sh = sh s + sh r\<rparr>)"

definition byte_word :: "char \<Rightarrow> u32" where
  "byte_word c = of_char c"

fun words_of_bytes :: "string \<Rightarrow> u32 list" where
  "words_of_bytes (a # b # c # d # bs) =
     (push_bit 24 (byte_word a) OR push_bit 16 (byte_word b) OR push_bit 8 (byte_word c) OR byte_word d) #
     words_of_bytes bs"
| "words_of_bytes _ = []"

definition be_bytes :: "'a::len word \<Rightarrow> string" where
  "be_bytes x = map (\<lambda>i. char_of (uint (drop_bit (8 * i) x))) (rev [0..<LENGTH('a) div 8])"

definition sha_pad :: "string \<Rightarrow> string" where
  "sha_pad m = m @ char_of (0x80::nat) # replicate ((119 - length m mod 64) mod 64) (char_of (0::nat)) @
     be_bytes (8 * of_nat (length m) :: 64 word)"

function sha_blocks :: "u32 list \<Rightarrow> sha_state \<Rightarrow> sha_state" where
  "sha_blocks ws s = (if ws = [] then s else sha_blocks (drop 16 ws) (sha_block (take 16 ws) s))"
  by pat_completeness auto
termination by (relation "measure (\<lambda>(ws, s). length ws)") auto

declare sha_blocks.simps [simp del]

definition Sum256 :: "string \<Rightarrow> string" where
  "Sum256 m = (let s = sha_blocks (words_of_bytes (sha_pad m)) sha_init in
     concat (map be_bytes [sa s, sb s, sc s, sd s, se s, sf s, sg s, sh s]))"

definition EncodeToString :: "string \<Rightarrow> string" where
  "EncodeToString bs = concat (map (\<lambda>c. [hex_digit (of_char c div 16), hex_digit (of_char c mod 16)]) bs)"

lemma length_Sum256 [simp]: "length (Sum256 m) = 32"
  by (simp add: Sum256_def Let_def be_bytes_def)

end
