(* ===== verification/SecretHash.thy ===== *)
theory SecretHash
  imports Sha256
begin

text \<open>
  The hash by which the operator recognises its own output:
  \<open>controllers/vaultsecretutils/hash.go\<close>. The keys of the data are sorted, and the entries are
  chained into a root digest that starts from 32 zero bytes.
\<close>

definition hashHashes :: "string \<Rightarrow> string \<Rightarrow> string" where
  "hashHashes l r = Sum256 (l @ r)"

definition zero_hash :: string where
  "zero_hash = replicate 32 (char_of (0::nat))"

definition nodeSha :: "string \<times> string \<Rightarrow> string" where
  "nodeSha kv = hashHashes (Sum256 (fst kv)) (Sum256 (snd kv))"

definition rootSha :: "(string \<times> string) list \<Rightarrow> string" where
  "rootSha es = foldl (\<lambda>root kv. hashHashes root (nodeSha kv)) zero_hash es"

definition entries :: "(string, string) fmap \<Rightarrow> (string \<times> string) list" where
  "entries data = map (\<lambda>k. (k, the (fmlookup data k))) (sorted_list_of_fset (fmdom data))"

definition HashData :: "(string, string) fmap \<Rightarrow> string" where
  "HashData data = EncodeToString (rootSha (entries data))"

text \<open>Sorting makes the order in which the map yields its keys irrelevant.\<close>

lemma sorted_keys_any_order:
  assumes "set ks = fset (fmdom data)" and "distinct ks"
  shows "sort ks = sorted_list_of_fset (fmdom data)"
  using assms by (metis distinct_sort set_sort sorted_list_of_fset.rep_eq sorted_list_of_set_sort_remdups
      distinct_remdups_id)

lemma rootSha_Nil [simp]: "rootSha [] = zero_hash"
  by (simp add: rootSha_def)

lemma rootSha_snoc [simp]: "rootSha (es @ [kv]) = hashHashes (rootSha es) (nodeSha kv)"
  by (simp add: rootSha_def)

lemma length_hashHashes [simp]: "length (hashHashes l r) = 32"
  by (simp add: hashHashes_def)

lemma length_nodeSha [simp]: "length (nodeSha kv) = 32"
  by (simp add: nodeSha_def)

lemma length_rootSha [simp]: "length (rootSha es) = 32"
  by (cases es rule: rev_cases) (simp_all add: zero_hash_def)

text \<open>The strings that are hashed on the way.\<close>

definition node_inputs :: "string \<times> string \<Rightarrow> string set" where
  "node_inputs kv = {fst kv, snd kv, Sum256 (fst kv) @ Sum256 (snd kv)}"

definition hash_inputs :: "(string \<times> string) list \<Rightarrow> string set" where
  "hash_inputs es =
     (\<Union>kv \<in> set es. node_inputs kv) \<union>
     {rootSha (take i es) @ nodeSha (es ! i) | i. i < length es}"

definition collides :: "string set \<Rightarrow> bool" where
  "collides A \<longleftrightarrow> (\<exists>x \<in> A. \<exists>y \<in> A. x \<noteq> y \<and> Sum256 x = Sum256 y) \<or> (\<exists>x \<in> A. Sum256 x = zero_hash)"

lemma hash_inputs_snoc:
  "hash_inputs (es @ [kv]) = hash_inputs es \<union> node_inputs kv \<union> {rootSha es @ nodeSha kv}"
proof -
  have "{rootSha (take i (es @ [kv])) @ nodeSha ((es @ [kv]) ! i) | i. i < length (es @ [kv])} =
      {rootSha (take i es) @ nodeSha (es ! i) | i. i < length es} \<union> {rootSha es @ nodeSha kv}" (is "?l = ?r")
  proof
    show "?l \<subseteq> ?r"
    proof
      fix x assume "x \<in> ?l"
      then obtain i where i: "i < length (es @ [kv])" "x = rootSha (take i (es @ [kv])) @ nodeSha ((es @ [kv]) ! i)"
        by blast
      then show "x \<in> ?r"
        by (cases "i < length es") (auto simp: nth_append)
    qed
    show "?r \<subseteq> ?l"
    proof
      fix x assume "x \<in> ?r"
      then consider i where "i < length es" "x = rootSha (take i es) @ nodeSha (es ! i)"
        | "x = rootSha es @ nodeSha kv" by blast
      then show "x \<in> ?l"
      proof cases
        case 1
        then show ?thesis by (intro CollectI exI [of _ i]) (simp add: nth_append)
      next
        case 2
        then show ?thesis by (intro CollectI exI [of _ "length es"]) simp
      qed
    qed
  qed
  then show ?thesis by (auto simp: hash_inputs_def)
qed

lemma collides_mono: "collides A \<Longrightarrow> A \<subseteq> B \<Longrightarrow> collides B"
  unfolding collides_def by blast

lemma no_collision: "\<not> collides A \<Longrightarrow> x \<in> A \<Longrightarrow> y \<in> A \<Longrightarrow> Sum256 x = Sum256 y \<Longrightarrow> x = y"
  unfolding collides_def by blast

lemma nodeSha_inj:
  assumes "\<not> collides A" and "node_inputs kv \<subseteq> A" and "node_inputs kv' \<subseteq> A" and "nodeSha kv = nodeSha kv'"
  shows "kv = kv'"
proof -
  have "Sum256 (fst kv) @ Sum256 (snd kv) = Sum256 (fst kv') @ Sum256 (snd kv')"
  proof (rule no_collision [OF assms(1)])
    show "Sum256 (Sum256 (fst kv) @ Sum256 (snd kv)) = Sum256 (Sum256 (fst kv') @ Sum256 (snd kv'))"
      using assms(4) unfolding nodeSha_def hashHashes_def .
  qed (use assms(2,3) in \<open>auto simp: node_inputs_def\<close>)
  then have "Sum256 (fst kv) = Sum256 (fst kv')" "Sum256 (snd kv) = Sum256 (snd kv')" by simp_all
  then have "fst kv = fst kv'" "snd kv = snd kv'"
    using assms(2,3) by (auto simp: node_inputs_def intro: no_collision [OF assms(1)])
  then show ?thesis by (rule prod_eqI)
qed

lemma rootSha_inj:
  "\<not> collides (hash_inputs es \<union> hash_inputs es') \<Longrightarrow> rootSha es = rootSha es' \<Longrightarrow> es = es'"
proof (induction es arbitrary: es' rule: rev_induct)
  case Nil
  show ?case
  proof (cases es' rule: rev_cases)
    case (snoc ys kv)
    then have "Sum256 (rootSha ys @ nodeSha kv) = zero_hash" using Nil.prems by (simp add: hashHashes_def)
    then show ?thesis using Nil.prems(1) snoc by (auto simp: collides_def hash_inputs_snoc)
  qed simp
next
  case (snoc kv es)
  show ?case
  proof (cases es' rule: rev_cases)
    case Nil
    then have "Sum256 (rootSha es @ nodeSha kv) = zero_hash" using snoc.prems by (simp add: hashHashes_def)
    then show ?thesis using snoc.prems(1) by (auto simp: collides_def hash_inputs_snoc)
  next
    case (snoc ys kv')
    let ?A = "hash_inputs (es @ [kv]) \<union> hash_inputs es'"
    have in_A: "rootSha es @ nodeSha kv \<in> ?A" "rootSha ys @ nodeSha kv' \<in> ?A"
        "node_inputs kv \<subseteq> ?A" "node_inputs kv' \<subseteq> ?A" "hash_inputs es \<union> hash_inputs ys \<subseteq> ?A"
      by (auto simp: snoc hash_inputs_snoc)
    have "Sum256 (rootSha es @ nodeSha kv) = Sum256 (rootSha ys @ nodeSha kv')"
      using snoc.prems(2) snoc by (simp add: hashHashes_def)
    then have "rootSha es @ nodeSha kv = rootSha ys @ nodeSha kv'"
      by (rule no_collision [OF snoc.prems(1) in_A(1,2)])
    then have eq: "rootSha es = rootSha ys" "nodeSha kv = nodeSha kv'" by simp_all
    have "\<not> collides (hash_inputs es \<union> hash_inputs ys)"
      using snoc.prems(1) collides_mono in_A(5) by blast
    then have "es = ys" using snoc.IH eq(1) by blast
    moreover have "kv = kv'" by (rule nodeSha_inj [OF snoc.prems(1) in_A(3,4) eq(2)])
    ultimately show ?thesis using snoc by simp
  qed
qed

lemma hex_digit_code: "d < 16 \<Longrightarrow> (of_char (hex_digit d) :: nat) = (if d < 10 then 48 + d else 87 + d)"
proof -
  assume "d < 16"
  then have "(48 + d) mod 256 = 48 + d" "(87 + d) mod 256 = 87 + d" by (simp_all only: mod_less)
  then show ?thesis unfolding hex_digit_def by (simp only: of_char_of if_distrib [of of_char] split: if_split)
qed

lemma hex_digit_inj: "a < 16 \<Longrightarrow> b < 16 \<Longrightarrow> hex_digit a = hex_digit b \<Longrightarrow> a = b"
proof -
  assume lt: "a < 16" "b < 16" and eq: "hex_digit a = hex_digit b"
  have "(if a < 10 then 48 + a else 87 + a) = (if b < 10 then 48 + b else 87 + b)"
    unfolding hex_digit_code [OF lt(1), symmetric] hex_digit_code [OF lt(2), symmetric] eq ..
  then show ?thesis using lt by (simp only: split: if_splits)
qed

lemma byte_parts:
  "(of_char c :: nat) div 16 = of_char d div 16 \<Longrightarrow> (of_char c :: nat) mod 16 = of_char d mod 16 \<Longrightarrow> c = d"
  by (metis div_mult_mod_eq of_char_eq_iff)

lemma EncodeToString_inj: "EncodeToString x = EncodeToString y \<Longrightarrow> x = y"
proof (induction x arbitrary: y)
  case Nil
  then show ?case by (cases y) (simp_all add: EncodeToString_def)
next
  case (Cons c cs)
  then obtain d ds where y: "y = d # ds" by (cases y) (simp_all add: EncodeToString_def)
  have lt: "(of_char e :: nat) div 16 < 16" for e
    using nat_of_char_less_256 [of e] by (simp add: less_mult_imp_div_less)
  have "hex_digit (of_char c div 16) = hex_digit (of_char d div 16)"
      "hex_digit (of_char c mod 16) = hex_digit (of_char d mod 16)"
      and rest: "EncodeToString cs = EncodeToString ds"
    using Cons.prems y by (simp_all add: EncodeToString_def)
  then have "c = d" using lt by (intro byte_parts) (auto intro!: hex_digit_inj)
  then show ?case using Cons.IH rest y by simp
qed

lemma entries_inj: "entries m = entries m' \<Longrightarrow> m = m'"
proof (rule fmap_ext)
  fix k
  have e: "set (entries d) = {(k, v). fmlookup d k = Some v}" for d
    by (auto simp: entries_def sorted_list_of_fset.rep_eq fmdom_notD intro!: fmdomI split: option.splits)
  assume "entries m = entries m'"
  then have "{(k, v). fmlookup m k = Some v} = {(k, v). fmlookup m' k = Some v}"
    using e by metis
  then show "fmlookup m k = fmlookup m' k"
    by (metis (mono_tags, lifting) CollectD CollectI case_prodD case_prodI not_None_eq)
qed

text \<open>
  The hash identifies the data: two data maps with the same hash are equal, unless
  among the strings hashed for the two there are two with the same SHA-256 digest, or one
  with the digest of 32 zero bytes. A changed, added or removed entry is always noticed.
\<close>

theorem HashData_identifies:
  assumes "HashData m = HashData m'"
  shows "if collides (hash_inputs (entries m) \<union> hash_inputs (entries m')) then True else m = m'"
  using assms rootSha_inj entries_inj EncodeToString_inj unfolding HashData_def by (metis (full_types))

theorem HashData_identifies_witness:
  "HashData (fmap_of_list [(''k'', ''v'')]) = HashData (fmap_of_list [(''k'', ''v'')]) \<and>
   (if collides (hash_inputs (entries (fmap_of_list [(''k'', ''v'')])) \<union>
      hash_inputs (entries (fmap_of_list [(''k'', ''v'')]))) then True
    else fmap_of_list [(''k'', ''v'')] = (fmap_of_list [(''k'', ''v'')] :: (string, string) fmap))"
  using HashData_identifies [of "fmap_of_list [(''k'', ''v'')]" "fmap_of_list [(''k'', ''v'')]"] by simp

end
