(* ===== verification/VaultSecrets.thy ===== *)
theory VaultSecrets
  imports Samples SecretHash Float64
begin

text \<open>
  The \<open>VaultSecret\<close> resource, which templates Vault secrets into a Kubernetes secret:
  \<open>api/v1alpha1/vaultsecret_types.go\<close> and \<open>controllers/vaultsecret_controller.go\<close>.

  Parameters: \<open>tmpl\<close> is the template engine (parsing and executing one template on the merged
  data, which may also query the cluster, hence the calls made so far), and \<open>owned_by\<close> is
  \<open>controllerutil.SetControllerReference\<close>.
\<close>

section \<open>Data\<close>

record VaultSecretDefinition =
  def_Name :: string
  def_Connection :: "VaultConnection option"
  def_Authentication :: KubeAuthConfiguration
  def_Path :: string
  RequestType :: string
  RequestPayload :: "(string, string) fmap"

record VaultSecretDefinitionStatus =
  ds_Name :: string
  ds_LeaseID :: string
  ds_LeaseDuration :: int
  ds_Renewable :: bool

record TemplatizedK8sSecret =
  tk_Name :: string
  tk_Type :: string
  StringData :: "(string, string) fmap"
  tk_Labels :: "(string, string) fmap option"
  tk_Annotations :: "(string, string) fmap"

record VaultSecretSpec =
  vss_RefreshPeriod :: "int option"
  RefreshThreshold :: int
  VaultSecretDefinitions :: "VaultSecretDefinition list"
  Output :: TemplatizedK8sSecret

record VaultSecretStatus = BaseStatus +
  vss_LastVaultSecretUpdate :: "int option"
  vss_NextVaultSecretUpdate :: "int option"
  VaultSecretDefinitionsStatus :: "VaultSecretDefinitionStatus list"

type_synonym VaultSecret = "(VaultSecretSpec, VaultSecretStatus) crd"

type_synonym template_engine = "VaultSecret call list \<Rightarrow> string \<Rightarrow> gmap \<Rightarrow> error + string"

definition hashAnnotationName :: string where
  "hashAnnotationName = ''vaultsecret.redhatcop.redhat.io/secret-hash''"

definition vaultSecretKind :: string where
  "vaultSecretKind = ''VaultSecret''"

definition output_name :: "VaultSecret \<Rightarrow> string" where
  "output_name d = tk_Name (Output (Spec d))"

section \<open>When to refresh\<close>

definition maxInt :: int where
  "maxInt = 2 ^ 63 - 1"

text \<open>The smallest lease among the definitions, from \<open>math.MaxInt64\<close> down.\<close>

definition smallest_lease :: "VaultSecretDefinitionStatus list \<Rightarrow> int" where
  "smallest_lease sts =
     foldl (\<lambda>smallest st. if ds_LeaseDuration st < smallest then ds_LeaseDuration st else smallest) maxInt sts"

definition calculateDuration :: "VaultSecret \<Rightarrow> int option" where
  "calculateDuration instance =
     (case vss_RefreshPeriod (Spec instance) of
        Some p \<Rightarrow> Some p
      | None \<Rightarrow>
          let smallest = smallest_lease (VaultSecretDefinitionsStatus (Status instance)) in
          if smallest = maxInt then None
          else
            let percentage = float_div (float_of_int (RefreshThreshold (Spec instance))) (float_of_int 100);
                scaledSeconds = float_mult (float_of_int smallest) percentage
            in Some (wrap64 (int_of_float scaledSeconds * Second)))"

text \<open>The name of an object in messages: namespace, slash, name.\<close>

definition namespacedName :: "string \<Rightarrow> string \<Rightarrow> string" where
  "namespacedName ns n = ns @ ''/'' @ n"

text \<open>
  The part of \<open>shouldSync\<close> about the Kubernetes secret: \<open>Some b\<close> decides, \<open>None\<close> goes on to
  the clock.
\<close>

definition secret_verdict :: "k8s_secret \<Rightarrow> bool option" where
  "secret_verdict secret =
     (case meta_Annotations (sec_Meta secret) of
        None \<Rightarrow> Some True
      | Some annotations \<Rightarrow> (case fmlookup annotations hashAnnotationName of
          None \<Rightarrow> Some True
        | Some hash \<Rightarrow> if hash \<noteq> HashData (sec_Data secret) then Some True else None))"

definition resync_due :: "VaultSecret env \<Rightarrow> VaultSecret \<Rightarrow> (VaultSecret, bool) go" where
  "resync_due E instance =
     (case vss_LastVaultSecretUpdate (Status instance) of
        None \<Rightarrow> retG True
      | Some t \<Rightarrow> (case calculateDuration instance of
          None \<Rightarrow> retG False
        | Some d \<Rightarrow> bindG (askG TimeNow (time_now E)) (\<lambda>now. retG (t + d < now))))"

definition shouldSync :: "VaultSecret env \<Rightarrow> (VaultSecret, bool) go" where
  "shouldSync E =
     bindG getG (\<lambda>instance.
       let ns = GetNamespace instance; n = output_name instance in
       bindG (askG (KubeGetSecret ns n) (\<lambda>tr. kube_get_secret E tr ns n)) (\<lambda>r. case r of
           Inl err \<Rightarrow> if IsNotFound err then retG True else errG err
         | Inr secret \<Rightarrow>
             if \<not> IsOwner instance (sec_Meta secret)
             then errG (ErrMsg (''the k8s Secret '' @ namespacedName ns n @ '' is not owned by VaultSecret '' @
                    namespacedName ns (GetName instance)))
             else (case secret_verdict secret of Some b \<Rightarrow> retG b | None \<Rightarrow> resync_due E instance)))"

section \<open>Reading and writing\<close>

text \<open>A version 2 key-value engine nests the secret under \<open>data\<close>.\<close>

fun is_map_value :: "gval \<Rightarrow> bool" where
  "is_map_value (VMap m) = True"
| "is_map_value (VStrMap m) = True"
| "is_map_value _ = False"

definition secret_values :: "gmap \<Rightarrow> gval" where
  "secret_values data =
     (case fmlookup data ''data'' of
        Some v \<Rightarrow> if is_map_value v then v else VMap data
      | None \<Rightarrow> VMap data)"

primrec read_definitions ::
  "VaultSecret env \<Rightarrow> string \<Rightarrow> VaultSecretDefinition list \<Rightarrow> gmap \<Rightarrow>
     (VaultSecret, gmap \<times> VaultSecretDefinitionStatus list) go" where
  "read_definitions E ns [] mergedMap = retG (mergedMap, [])"
| "read_definitions E ns (def # defs) mergedMap =
     bindG (GetVaultClient E (def_Connection def) (def_Authentication def) ns) (\<lambda>cl.
     bindG (GetSecret E cl (RequestType def) (def_Path def) (RequestPayload def)) (\<lambda>r. case r of
         (None, ok) \<Rightarrow> if ok then panicG ''nil pointer dereference''
                      else errG (ErrMsg (''secret not found at path: '' @ def_Path def))
       | (Some secret, ok) \<Rightarrow>
           if \<not> ok then errG (ErrMsg (''secret not found at path: '' @ def_Path def))
           else (case vs_Data secret of
               None \<Rightarrow> errG (ErrMsg (''no data returned from vault secret for '' @ def_Path def))
             | Some data \<Rightarrow>
                 bindG (read_definitions E ns defs (fmupd (def_Name def) (secret_values data) mergedMap)) (\<lambda>res.
                 retG (fst res,
                   \<lparr>ds_Name = def_Name def, ds_LeaseID = vs_LeaseID secret,
                    ds_LeaseDuration = vs_LeaseDuration secret, ds_Renewable = vs_Renewable secret\<rparr> # snd res)))))"

primrec render_all ::
  "template_engine \<Rightarrow> (string, string) fmap \<Rightarrow> gmap \<Rightarrow> string list \<Rightarrow> (string, string) fmap \<Rightarrow>
     (VaultSecret, (string, string) fmap) go" where
  "render_all tmpl templates data [] bytesData = retG bytesData"
| "render_all tmpl templates data (k # ks) bytesData =
     (\<lambda>w. case tmpl (calls w) (str_at templates k) data of
        Inl err \<Rightarrow> (Err err, w)
      | Inr b \<Rightarrow> render_all tmpl templates data ks (fmupd k b bytesData) w)"

definition k8s_secret_of :: "VaultSecret \<Rightarrow> (string, string) fmap \<Rightarrow> k8s_secret" where
  "k8s_secret_of instance bytesData =
     \<lparr>sec_Meta = \<lparr>meta_Name = output_name instance, meta_Namespace = GetNamespace instance,
        meta_UID = [], meta_Generation = 0, meta_DeletionTimestamp = None, meta_Finalizers = [],
        meta_OwnerReferences = [],
        meta_Annotations = Some (fmadd (fmap_of_list [(hashAnnotationName, HashData bytesData)])
          (tk_Annotations (Output (Spec instance)))),
        meta_Labels = tk_Labels (Output (Spec instance)), meta_ResourceVersion = []\<rparr>,
      sec_Type = tk_Type (Output (Spec instance)),
      sec_Data = bytesData\<rparr>"

definition formatK8sSecret ::
  "template_engine \<Rightarrow> VaultSecret env \<Rightarrow> gmap \<Rightarrow> (VaultSecret, k8s_secret) go" where
  "formatK8sSecret tmpl E data =
     bindG getG (\<lambda>instance.
     bindG (rangeG E (StringData (Output (Spec instance)))) (\<lambda>ks.
     bindG (render_all tmpl (StringData (Output (Spec instance))) data ks fmempty) (\<lambda>bytesData.
     retG (k8s_secret_of instance bytesData))))"

definition set_synced :: "int \<Rightarrow> VaultSecretDefinitionStatus list \<Rightarrow> VaultSecret \<Rightarrow> VaultSecret" where
  "set_synced now sts d =
     d\<lparr>Status := (Status d)\<lparr>vss_LastVaultSecretUpdate := Some now, VaultSecretDefinitionsStatus := sts\<rparr>\<rparr>"

definition manageSyncLogic ::
  "template_engine \<Rightarrow> (VaultSecret \<Rightarrow> k8s_secret \<Rightarrow> k8s_secret) \<Rightarrow> VaultSecret env \<Rightarrow> (VaultSecret, unit) go" where
  "manageSyncLogic tmpl owned_by E =
     bindG getG (\<lambda>instance.
     bindG (read_definitions E (GetNamespace instance) (VaultSecretDefinitions (Spec instance)) fmempty) (\<lambda>res.
     bindG (formatK8sSecret tmpl E (fst res)) (\<lambda>k8sSecret.
     bindG (CreateOrUpdateResource E (owned_by instance) (GetNamespace instance) k8sSecret) (\<lambda>_.
     bindG (askG TimeNow (time_now E)) (\<lambda>now.
     modifyG (set_synced now (snd res)))))))"

definition VaultSecret_manageCleanUpLogic :: "VaultSecret env \<Rightarrow> (VaultSecret, unit) go" where
  "VaultSecret_manageCleanUpLogic E =
     bindG getG (\<lambda>instance. DeleteResourceIfExists E (GetNamespace instance) (output_name instance))"

section \<open>The controller\<close>

definition set_next :: "int option \<Rightarrow> VaultSecret \<Rightarrow> VaultSecret" where
  "set_next t d = d\<lparr>Status := (Status d)\<lparr>vss_NextVaultSecretUpdate := t\<rparr>\<rparr>"

abbreviation no_vault_object :: "VaultSecret VaultObject option" where
  "no_vault_object \<equiv> None"

definition VaultSecret_schedule :: "VaultSecret env \<Rightarrow> (VaultSecret, Result) go" where
  "VaultSecret_schedule E =
     bindG getG (\<lambda>instance. case calculateDuration instance of
         None \<Rightarrow> bindG (modifyG (set_next None)) (\<lambda>_. ManageOutcome no_vault_object E None)
       | Some duration \<Rightarrow> (case vss_LastVaultSecretUpdate (Status instance) of
           None \<Rightarrow> panicG ''nil pointer dereference''
         | Some t \<Rightarrow>
             bindG (modifyG (set_next (Some (t + duration)))) (\<lambda>_.
             bindG (askG TimeNow (time_now E)) (\<lambda>now.
               let nextSchedule = time_Sub (t + duration) now in
               if nextSchedule > 0 then ManageOutcomeWithRequeue no_vault_object E None nextSchedule
               else ManageOutcomeWithRequeue no_vault_object E None Second))))"

definition VaultSecret_finalize :: "VaultSecret env \<Rightarrow> (VaultSecret, Result) go" where
  "VaultSecret_finalize E =
     bindG (tryG (VaultSecret_manageCleanUpLogic E)) (\<lambda>r. case r of
         Inl err \<Rightarrow> ManageOutcome no_vault_object E (Some err)
       | Inr _ \<Rightarrow>
           bindG (modifyG (\<lambda>instance. remove_finalizer E instance (GetFinalizer instance))) (\<lambda>_.
           bindG (tryG (Update E)) (\<lambda>r. case r of
               Inl err \<Rightarrow> ManageOutcome no_vault_object E (Some err)
             | Inr _ \<Rightarrow> retG \<lparr>RequeueAfter = 0\<rparr>)))"

definition VaultSecret_body ::
  "template_engine \<Rightarrow> (VaultSecret \<Rightarrow> k8s_secret \<Rightarrow> k8s_secret) \<Rightarrow> VaultSecret env \<Rightarrow> (VaultSecret, Result) go" where
  "VaultSecret_body tmpl owned_by E =
     bindG getG (\<lambda>instance.
       if is_deleted instance then
         if \<not> contains_finalizer E instance (GetFinalizer instance) then retG \<lparr>RequeueAfter = 0\<rparr>
         else VaultSecret_finalize E
       else bindG (tryG (shouldSync E)) (\<lambda>r. case r of
           Inl err \<Rightarrow> ManageOutcome no_vault_object E (Some err)
         | Inr sync \<Rightarrow>
             bindG (tryG (if sync then manageSyncLogic tmpl owned_by E else retG ())) (\<lambda>r. case r of
                 Inl err \<Rightarrow> ManageOutcome no_vault_object E (Some err)
               | Inr _ \<Rightarrow> VaultSecret_schedule E)))"

definition VaultSecret_Reconcile ::
  "template_engine \<Rightarrow> (VaultSecret \<Rightarrow> k8s_secret \<Rightarrow> k8s_secret) \<Rightarrow> VaultSecret env \<Rightarrow> string \<Rightarrow> string \<Rightarrow>
     (VaultSecret, Result) go" where
  "VaultSecret_Reconcile tmpl owned_by E ns n =
     bindG (tryG (fetch_instance E ns n)) (\<lambda>r. case r of
         Inl err \<Rightarrow> if IsNotFound err then retG \<lparr>RequeueAfter = 0\<rparr> else errG err
       | Inr _ \<Rightarrow> VaultSecret_body tmpl owned_by E)"

definition vaultSecretPredicate_Update :: "VaultSecret \<Rightarrow> VaultSecret \<Rightarrow> bool" where
  "vaultSecretPredicate_Update old new \<longleftrightarrow> is_deleted new \<or> Spec old \<noteq> Spec new"

definition VaultSecret_Update_event ::
  "int \<Rightarrow> (string \<Rightarrow> string option) \<Rightarrow> int \<Rightarrow> VaultSecret \<Rightarrow> VaultSecret \<Rightarrow> bool" where
  "VaultSecret_Update_event syncPeriod lookupEnv now old new \<longleftrightarrow>
     vaultSecretPredicate_Update old new \<and>
     PeriodicReconcilePredicate_Update (NewPeriodicReconcilePredicate syncPeriod) lookupEnv now (Some old) (Some new)"

definition isOwnedSecretByController :: "k8s_secret \<Rightarrow> bool" where
  "isOwnedSecretByController secret =
     list_ex (\<lambda>ownerRef. owner_Kind ownerRef = vaultSecretKind) (meta_OwnerReferences (sec_Meta secret))"

definition k8sSecretPredicate_Update :: "k8s_secret \<Rightarrow> bool" where
  "k8sSecretPredicate_Update newSecret \<longleftrightarrow>
     isOwnedSecretByController newSecret \<and>
     (case opt_lookup (meta_Annotations (sec_Meta newSecret)) hashAnnotationName of
        None \<Rightarrow> True | Some hash \<Rightarrow> hash \<noteq> HashData (sec_Data newSecret))"

definition k8sSecretPredicate_Delete :: "k8s_secret \<Rightarrow> bool" where
  "k8sSecretPredicate_Delete secret = isOwnedSecretByController secret"

section \<open>How long a secret is kept\<close>

definition smaller :: "int \<Rightarrow> VaultSecretDefinitionStatus \<Rightarrow> int" where
  "smaller smallest st = (if ds_LeaseDuration st < smallest then ds_LeaseDuration st else smallest)"

lemma foldl_smaller:
  "foldl smaller m sts \<le> m \<and> (\<forall>st \<in> set sts. foldl smaller m sts \<le> ds_LeaseDuration st) \<and>
     foldl smaller m sts \<in> insert m (ds_LeaseDuration ` set sts)"
proof (induction sts arbitrary: m)
  case (Cons st sts)
  have "smaller m st \<le> m" "smaller m st \<le> ds_LeaseDuration st" "smaller m st \<in> {m, ds_LeaseDuration st}"
    by (simp_all add: smaller_def)
  then show ?case using Cons.IH [of "smaller m st"] by auto
qed simp

lemma smallest_lease_alt: "smallest_lease sts = foldl smaller maxInt sts"
  unfolding smallest_lease_def smaller_def ..

lemma smallest_lease_le: "st \<in> set sts \<Longrightarrow> smallest_lease sts \<le> ds_LeaseDuration st"
  unfolding smallest_lease_alt using foldl_smaller by blast

lemma smallest_lease_in: "smallest_lease sts \<in> insert maxInt (ds_LeaseDuration ` set sts)"
  unfolding smallest_lease_alt using foldl_smaller by blast

lemma twice_lease:
  assumes "0 \<le> m" and "m \<le> 2 ^ 31"
  shows "wrap64 (int_of_float (float_mult (float_of_int m) (float_div (float_of_int 200) (float_of_int 100))) * Second) = 2 * m * Second"
proof -
  have conv: "int_of_float (of_int n) = n" if "0 \<le> n" and "n \<le> 2 ^ 32" for n
    using that by (simp add: int_of_float_def)
  have "float_div (float_of_int 200) (float_of_int 100) = 2"
    using float_of_int_exact [of 2] by (simp add: float_of_int_exact [of 200] float_of_int_exact [of 100] float_div_def)
      (simp add: float_of_int_def)
  moreover have "float_mult (float_of_int m) 2 = of_int (2 * m)"
    using assms float_of_int_exact [of "2 * m"] by (simp add: float_of_int_exact [of m] float_mult_def)
      (simp add: float_of_int_def mult.commute)
  moreover have "int_of_float (of_int (2 * m)) = 2 * m" by (rule conv) (use assms in simp_all)
  moreover have "wrap64 (2 * m * Second) = 2 * m * Second"
    by (rule wrap64_id) (use assms in \<open>simp_all add: Second_def\<close>)
  ultimately show ?thesis by simp
qed

text \<open>
  C37. Without a refresh period, with at least one retrieved definition and leases between 0 and
  \<open>2 ^ 31\<close> seconds, the secret is refreshed in time if the threshold is between 0 and 100 percent:
  the waiting time that the floating-point computation yields is never negative and never beyond
  the end of any lease. Neither the resource definition nor the webhook bounds the threshold,
  and the computation does not either: with 200 percent it waits twice the shortest lease.
\<close>

theorem calculateDuration_within_lease:
  assumes "vss_RefreshPeriod (Spec d) = None" and "0 \<le> RefreshThreshold (Spec d)"
    and "RefreshThreshold (Spec d) \<le> 100" and "VaultSecretDefinitionsStatus (Status d) \<noteq> []"
    and "\<forall>st \<in> set (VaultSecretDefinitionsStatus (Status d)). 0 \<le> ds_LeaseDuration st \<and> ds_LeaseDuration st \<le> 2 ^ 31"
  shows "\<exists>t. calculateDuration d = Some t \<and> 0 \<le> t \<and>
    (\<forall>st \<in> set (VaultSecretDefinitionsStatus (Status d)). t \<le> ds_LeaseDuration st * Second) \<and>
    calculateDuration (d\<lparr>Spec := (Spec d)\<lparr>RefreshThreshold := 200\<rparr>\<rparr>) =
      Some (2 * smallest_lease (VaultSecretDefinitionsStatus (Status d)) * Second)"
proof -
  let ?sts = "VaultSecretDefinitionsStatus (Status d)" and ?m = "smallest_lease (VaultSecretDefinitionsStatus (Status d))"
  let ?x = "float_mult (float_of_int ?m) (float_div (float_of_int (RefreshThreshold (Spec d))) (float_of_int 100))"
  obtain st0 where st0: "st0 \<in> set ?sts" using assms(4) by (cases ?sts) auto
  have le: "?m \<le> 2 ^ 31" using smallest_lease_le [OF st0] assms(5) st0 by force
  have ge: "0 \<le> ?m" using smallest_lease_in [of ?sts] assms(5) by (auto simp: maxInt_def)
  have x: "0 \<le> ?x \<and> ?x \<le> of_int ?m"
    by (rule percent_of_bounds) (use assms(2,3) ge le in simp_all)
  then have i: "0 \<le> int_of_float ?x" "int_of_float ?x \<le> ?m"
    using int_of_float_bounds [of ?x ?m] le by auto
  have "wrap64 (int_of_float ?x * Second) = int_of_float ?x * Second"
    by (rule wrap64_id) (use i le in \<open>simp_all add: Second_def\<close>)
  moreover have m: "?m \<noteq> maxInt" using le by (simp add: maxInt_def)
  ultimately have "calculateDuration d = Some (int_of_float ?x * Second)"
    using assms(1) by (simp add: calculateDuration_def Let_def)
  moreover have "int_of_float ?x * Second \<le> ds_LeaseDuration st * Second" if "st \<in> set ?sts" for st
    using i(2) smallest_lease_le [OF that] by (simp add: Second_def)
  moreover have "calculateDuration (d\<lparr>Spec := (Spec d)\<lparr>RefreshThreshold := 200\<rparr>\<rparr>) = Some (2 * ?m * Second)"
    using twice_lease [OF ge le] assms(1) m by (simp add: calculateDuration_def Let_def)
  ultimately show ?thesis using i(1) by (auto simp: Second_def)
qed

lemma calculateDuration_zero_lease:
  assumes "vss_RefreshPeriod (Spec d) = None" and "smallest_lease (VaultSecretDefinitionsStatus (Status d)) = 0"
  shows "calculateDuration d = Some 0"
proof -
  have z: "float_of_int 0 = 0" "float_mult 0 y = 0" for y
    by (simp_all add: float_of_int_def float_mult_def float_round_def)
  show ?thesis
    using assms by (simp add: calculateDuration_def Let_def maxInt_def z int_of_float_def wrap64_def)
qed

text \<open>
  One definition with a lease of 0 seconds (what a version 2 key-value engine returns)
  and no refresh period put the resource into a loop: it is due again as soon as the clock
  moves, and every reconcile asks to be repeated in one second.
\<close>

theorem VaultSecret_zero_lease_polls:
  assumes "vss_RefreshPeriod (Spec (inst w)) = None"
    and "smallest_lease (VaultSecretDefinitionsStatus (Status (inst w))) = 0"
    and "vss_LastVaultSecretUpdate (Status (inst w)) = Some t" and "t < time_now E (calls w)"
  shows "fst (resync_due E (inst w) w) = Ok True \<and>
    (case fst (VaultSecret_schedule E w) of Ok r \<Rightarrow> RequeueAfter r = Second | _ \<Rightarrow> True)"
proof -
  have d: "calculateDuration (inst w) = Some 0" using assms(1,2) by (rule calculateDuration_zero_lease)
  have sub: "\<not> time_Sub t (time_now E (calls w)) > 0" using assms(4) by (simp add: time_Sub_def minDuration_def)
  have "fst (VaultSecret_schedule E w) = Ok r \<Longrightarrow> RequeueAfter r = Second" for r
    using d assms(3) sub
    by (auto simp: VaultSecret_schedule_def bindG_get bindG_modify bindG_ask Let_def
        dest: ManageOutcomeWithRequeue_result)
  moreover have "fst (resync_due E (inst w) w) = Ok True"
    using d assms(3,4) by (simp add: resync_due_def bindG_ask go_runs)
  ultimately show ?thesis by (simp split: res.split)
qed

section \<open>Whose secret it is\<close>

lemma shouldSync_foreign:
  assumes "kube_get_secret E (calls w) (GetNamespace (inst w)) (output_name (inst w)) = Inr secret"
    and "\<not> IsOwner (inst w) (sec_Meta secret)"
  shows "\<exists>e. shouldSync E w = (Err e, w\<lparr>calls := calls w @ [KubeGetSecret (GetNamespace (inst w)) (output_name (inst w))]\<rparr>)"
  using assms by (simp add: shouldSync_def bindG_get bindG_ask Let_def go_runs)

fun changes_secret :: "'o call \<Rightarrow> bool" where
  "changes_secret (KubeCreateSecret s) = True"
| "changes_secret (KubeUpdateSecret s) = True"
| "changes_secret (KubeDeleteSecret ns n) = True"
| "changes_secret _ = False"

text \<open>
  A Kubernetes secret of the output's name that belongs to somebody else is not
  touched: the reconcile reads it, records the failure and returns an error.
\<close>

theorem foreign_secret_untouched:
  assumes "\<not> is_deleted (inst w)"
    and "kube_get_secret E (calls w) (GetNamespace (inst w)) (output_name (inst w)) = Inr secret"
    and "\<not> IsOwner (inst w) (sec_Meta secret)"
  shows "\<exists>cs. calls (snd (VaultSecret_body tmpl owned_by E w)) =
      calls w @ KubeGetSecret (GetNamespace (inst w)) (output_name (inst w)) # cs \<and>
    list_all (\<lambda>c. \<not> changes_secret c \<and> vault_mutation c = None) cs \<and>
    \<not> is_ok (fst (VaultSecret_body tmpl owned_by E w))"
proof -
  let ?w = "w\<lparr>calls := calls w @ [KubeGetSecret (GetNamespace (inst w)) (output_name (inst w))]\<rparr>"
  obtain e where "shouldSync E w = (Err e, ?w)" using shouldSync_foreign [OF assms(2,3)] by blast
  then have run: "VaultSecret_body tmpl owned_by E w = ManageOutcome no_vault_object E (Some e) ?w"
    using assms(1) by (simp add: VaultSecret_body_def bindG_get tryG_run bindG_def [of "tryG _"])
  have "emits (outcome_call False) (ManageOutcome no_vault_object E (Some e))"
    using emits_ManageOutcome [of "Some e" no_vault_object E] by simp
  then obtain cs where cs: "calls (snd (ManageOutcome no_vault_object E (Some e) ?w)) = calls ?w @ cs"
      "list_all (outcome_call False) cs"
    by (rule keepsE [where w = ?w]) simp
  have "outcome_call False c \<Longrightarrow> \<not> changes_secret c \<and> vault_mutation c = None" for c :: "VaultSecret call"
    by (cases c) auto
  then have "list_all (\<lambda>c. \<not> changes_secret c \<and> vault_mutation c = None) cs"
    using cs(2) by (auto simp: list_all_iff)
  moreover have "\<not> is_ok (fst (ManageOutcome no_vault_object E (Some e) ?w))"
    using ManageOutcome_Err [of no_vault_object E e 0 ?w] unfolding ManageOutcome_def
    by (cases "fst (ManageOutcomeWithRequeue no_vault_object E (Some e) 0 ?w)") auto
  ultimately show ?thesis unfolding run using cs(1) by simp
qed

section \<open>Recognising the written secret\<close>

text \<open>
  C36. The secret the operator writes passes its own check (so it is left alone until the
  next refresh is due), except when the user's annotations define the hash annotation
  themselves: they win over the computed hash, and the check then always fails.
\<close>

theorem written_secret_verdict:
  "secret_verdict (k8s_secret_of d bytesData) =
     (case fmlookup (tk_Annotations (Output (Spec d))) hashAnnotationName of
        None \<Rightarrow> None
      | Some h \<Rightarrow> if h = HashData bytesData then None else Some True)"
  by (auto simp: secret_verdict_def k8s_secret_of_def fmdom_notI split: option.split dest: fmdomI)

text \<open>
  The event filter on Kubernetes secrets and the check of the reconcile agree: for a
  secret owned by a vault secret an update event passes exactly when the reconcile it
  triggers will decide, from the secret alone, to synchronise.
\<close>

theorem secret_event_iff_verdict:
  "k8sSecretPredicate_Update secret \<longleftrightarrow> isOwnedSecretByController secret \<and> secret_verdict secret = Some True"
  by (simp add: k8sSecretPredicate_Update_def secret_verdict_def opt_lookup_def split: option.split)

text \<open>
  An edit of the data of a written secret is such an event, unless the SHA-256 digest is
  defeated.
\<close>

lemma tampering_noticed:
  assumes "fmlookup (tk_Annotations (Output (Spec d))) hashAnnotationName = None"
    and "data \<noteq> bytesData"
    and "\<not> collides (hash_inputs (entries data) \<union> hash_inputs (entries bytesData))"
  shows "secret_verdict ((k8s_secret_of d bytesData)\<lparr>sec_Data := data\<rparr>) = Some True"
proof -
  have "HashData data \<noteq> HashData bytesData"
    using assms(2,3) rootSha_inj entries_inj EncodeToString_inj unfolding HashData_def by metis
  then show ?thesis
    using assms(1) by (auto simp: secret_verdict_def k8s_secret_of_def split: option.split)
qed

text \<open>
  An update of a vault secret that changes neither its spec nor its deletion never passes,
  even with drift detection on: its own filter is combined with the periodic one.
\<close>

lemma VaultSecret_no_drift_detection:
  "\<not> is_deleted new \<Longrightarrow> Spec old = Spec new \<Longrightarrow> \<not> VaultSecret_Update_event syncPeriod lookupEnv now old new"
  by (simp add: VaultSecret_Update_event_def vaultSecretPredicate_Update_def)

section \<open>Which secret is written\<close>

text \<open>The Kubernetes secret that a call changes: its namespace and name.\<close>

fun secret_target :: "'o call \<Rightarrow> (string \<times> string) option" where
  "secret_target (KubeCreateSecret s) = Some (meta_Namespace (sec_Meta s), meta_Name (sec_Meta s))"
| "secret_target (KubeUpdateSecret s) = Some (meta_Namespace (sec_Meta s), meta_Name (sec_Meta s))"
| "secret_target (KubeDeleteSecret ns n) = Some (ns, n)"
| "secret_target _ = None"

definition own_target :: "string \<Rightarrow> string \<Rightarrow> 'o call \<Rightarrow> bool" where
  "own_target ns n c \<longleftrightarrow> (case secret_target c of None \<Rightarrow> True | Some t \<Rightarrow> t = (ns, n))"

lemma keeps_CreateOrUpdateResource:
  assumes "meta_Name (sec_Meta (f obj)) = n" and "ns \<noteq> []"
  shows "keeps I (own_target ns n) (CreateOrUpdateResource E f ns obj)"
  unfolding CreateOrUpdateResource_def Let_def
  by (intro emits_intros) (use assms in \<open>simp_all add: own_target_def\<close>)

lemma keeps_cache_Get: "keeps I P (cache_Get kc ns)"
  by (auto simp: keeps_def cache_Get_def getCacheKey_def bindG_def go_runs split: option.split)

lemma keeps_cache_Put: "keeps I P (cache_Put kc ns cl)"
  by (auto simp: keeps_def cache_Put_def getCacheKey_def bindG_def go_runs split: option.split)

lemma keeps_GetVaultClient: "keeps I (own_target ns n) (GetVaultClient E conn kc ns')"
  unfolding GetVaultClient_def fresh_client_def getJWTToken_def GetJWTToken_def GetJWTTokenWithDuration_def
    createVaultClient_def getConnectionConfig_def Let_def
  by (intro emits_intros keeps_cache_Get keeps_cache_Put; simp add: own_target_def)

lemma keeps_read_definitions: "keeps I (own_target ns n) (read_definitions E ns' defs m)"
proof (induction defs arbitrary: m)
  case (Cons def defs)
  show ?case
    unfolding read_definitions.simps GetSecret_def
    by (intro emits_intros keeps_GetVaultClient Cons.IH; simp add: own_target_def)
qed (simp add: keeps_ret)

lemma keeps_render_all: "keeps I P (render_all tmpl t data ks b)"
  by (induction ks arbitrary: b) (auto simp: keeps_def go_runs split: sum.split)

definition names_output :: "string \<Rightarrow> string \<Rightarrow> VaultSecret \<Rightarrow> bool" where
  "names_output ns n d \<longleftrightarrow> GetNamespace d = ns \<and> output_name d = n"

lemma names_output_status [simp]:
  "names_output ns n (set_synced t sts d) = names_output ns n d"
  "names_output ns n (set_next u d) = names_output ns n d"
  by (simp_all add: names_output_def set_synced_def set_next_def GetNamespace_def output_name_def)

lemma k8s_secret_of_name [simp]: "meta_Name (sec_Meta (k8s_secret_of d b)) = output_name d"
  by (simp add: k8s_secret_of_def)

lemma keeps_format_write:
  assumes "names_output ns n d" and "ns \<noteq> []"
    and "\<forall>d s. meta_Name (sec_Meta (owned_by d s)) = meta_Name (sec_Meta s)"
  shows "keeps (names_output ns n) (own_target ns n)
    (bindG (formatK8sSecret tmpl E m) (\<lambda>s. CreateOrUpdateResource E (owned_by d) ns s))"
proof -
  have "bindG (formatK8sSecret tmpl E m) f = bindG getG (\<lambda>instance.
     bindG (rangeG E (StringData (Output (Spec instance)))) (\<lambda>ks.
     bindG (render_all tmpl (StringData (Output (Spec instance))) m ks fmempty) (\<lambda>bytesData.
     f (k8s_secret_of instance bytesData))))" for f :: "k8s_secret \<Rightarrow> (VaultSecret, unit) go"
    by (simp add: formatK8sSecret_def bindG_assoc)
  moreover have "keeps (names_output ns n) (own_target ns n) (CreateOrUpdateResource E (owned_by d) ns (k8s_secret_of d' b))"
    if "names_output ns n d'" for d' b
    by (rule keeps_CreateOrUpdateResource) (use assms that in \<open>simp_all add: names_output_def\<close>)
  ultimately show ?thesis
    by (simp only:) (rule keeps_bind_get, intro emits_intros keeps_render_all)
qed

lemma keeps_manageSyncLogic:
  assumes "ns \<noteq> []" and "\<forall>d s. meta_Name (sec_Meta (owned_by d s)) = meta_Name (sec_Meta s)"
  shows "keeps (names_output ns n) (own_target ns n) (manageSyncLogic tmpl owned_by E)"
proof -
  have split: "bindG (formatK8sSecret tmpl E m) (\<lambda>s. bindG (CreateOrUpdateResource E (owned_by d) ns s) (\<lambda>_. f)) =
      bindG (bindG (formatK8sSecret tmpl E m) (\<lambda>s. CreateOrUpdateResource E (owned_by d) ns s)) (\<lambda>_. f)"
    for m d and f :: "(VaultSecret, unit) go"
    by (simp add: bindG_assoc)
  show ?thesis
    unfolding manageSyncLogic_def
  proof (rule keeps_bind_get)
    fix d assume d: "names_output ns n d"
    then have "GetNamespace d = ns" by (simp add: names_output_def)
    then show "keeps (names_output ns n) (own_target ns n)
        (bindG (read_definitions E (GetNamespace d) (VaultSecretDefinitions (Spec d)) fmempty) (\<lambda>res.
         bindG (formatK8sSecret tmpl E (fst res)) (\<lambda>k8sSecret.
         bindG (CreateOrUpdateResource E (owned_by d) (GetNamespace d) k8sSecret) (\<lambda>_.
         bindG (askG TimeNow (time_now E)) (\<lambda>now. modifyG (set_synced now (snd res)))))))"
      by (simp only: split) (intro emits_intros keeps_read_definitions keeps_format_write d assms;
          simp add: own_target_def)
  qed
qed

lemma emits_outcome_own_target: "emits (own_target ns n) (ManageOutcomeWithRequeue vo E issue t)"
proof (rule keeps_mono [OF emits_ManageOutcomeWithRequeue])
  fix c :: "('a, 'b) object call"
  show "outcome_call (issue = None) c \<Longrightarrow> own_target ns n c" by (cases c) (auto simp: own_target_def)
qed

text \<open>
  C35. Whatever a reconcile of a vault secret does in the cluster, the only Kubernetes
  secret it creates, overwrites or deletes is the one its output names in its own
  namespace. (Setting the owner reference does not rename the secret.)
\<close>

theorem VaultSecret_writes_own_output:
  assumes "\<forall>d s. meta_Name (sec_Meta (owned_by d s)) = meta_Name (sec_Meta s)" and "GetNamespace (inst w) \<noteq> []"
  shows "list_all (own_target (GetNamespace (inst w)) (output_name (inst w)))
    (drop (length (calls w)) (calls (snd (VaultSecret_body tmpl owned_by E w))))"
proof -
  let ?ns = "GetNamespace (inst w)" and ?n = "output_name (inst w)"
  let ?I = "names_output ?ns ?n" and ?P = "own_target ?ns ?n"
  have out: "emits ?P (ManageOutcome no_vault_object E issue)" for issue
    unfolding ManageOutcome_def by (rule emits_outcome_own_target)
  have sched: "emits ?P (VaultSecret_schedule E)"
    unfolding VaultSecret_schedule_def Let_def
    by (intro emits_intros emits_outcome_own_target out; simp add: own_target_def)
  have upd: "emits ?P (Update E)" by (rule keeps_Update) (simp add: own_target_def)
  have clean: "keeps ?I ?P (VaultSecret_manageCleanUpLogic E)"
    unfolding VaultSecret_manageCleanUpLogic_def DeleteResourceIfExists_def
    by (rule keeps_bind_get) (intro emits_intros; simp add: own_target_def names_output_def)
  have fin: "allows ?I ?P (VaultSecret_finalize E)"
    unfolding VaultSecret_finalize_def
    by (rule allows_bind [OF keeps_try [OF clean]], rule allows_emits)
      (intro emits_intros out upd; simp)
  have should: "keeps ?I ?P (shouldSync E)"
    unfolding shouldSync_def resync_due_def Let_def by (intro emits_intros; simp add: own_target_def)
  have sync: "keeps ?I ?P (if b then manageSyncLogic tmpl owned_by E else retG ())" for b
    by (intro keeps_if keeps_manageSyncLogic keeps_ret assms)
  have "allows ?I ?P (VaultSecret_body tmpl owned_by E)"
    unfolding VaultSecret_body_def
    by (intro allows_bind_get allows_if allows_ret fin allows_bind [OF keeps_try [OF should]] allows_sum
        allows_bind [OF keeps_try [OF sync]]) (rule allows_emits, rule out sched)+
  from allowsD [OF this, of w] show ?thesis by (auto simp: names_output_def)
qed

section \<open>A concrete vault secret, and the witnesses\<close>

definition sample_vault_secret :: "int \<Rightarrow> VaultSecret" where
  "sample_vault_secret lease =
     \<lparr>TypeKind = ''VaultSecret'', Meta = sample_meta ''vs'',
      Spec = \<lparr>vss_RefreshPeriod = None, RefreshThreshold = 90, VaultSecretDefinitions = [],
              Output = \<lparr>tk_Name = ''out'', tk_Type = ''Opaque'', StringData = fmempty, tk_Labels = None,
                        tk_Annotations = fmempty\<rparr>\<rparr>,
      Status = \<lparr>Conditions = [], vss_LastVaultSecretUpdate = Some 0, vss_NextVaultSecretUpdate = None,
                VaultSecretDefinitionsStatus =
                  [\<lparr>ds_Name = ''a'', ds_LeaseID = [], ds_LeaseDuration = lease, ds_Renewable = False\<rparr>]\<rparr>\<rparr>"

lemma sample_vault_secret_simps [simp]:
  "output_name (sample_vault_secret l) = ''out''" "GetNamespace (sample_vault_secret l) = ''team''"
  "\<not> is_deleted (sample_vault_secret l)"
  "vss_RefreshPeriod (Spec (sample_vault_secret l)) = None"
  "vss_LastVaultSecretUpdate (Status (sample_vault_secret l)) = Some 0"
  "RefreshThreshold (Spec (sample_vault_secret l)) = 90"
  "VaultSecretDefinitionsStatus (Status (sample_vault_secret l)) =
     [\<lparr>ds_Name = ''a'', ds_LeaseID = [], ds_LeaseDuration = l, ds_Renewable = False\<rparr>]"
  by (simp_all add: sample_vault_secret_def output_name_def GetNamespace_def sample_meta_def is_deleted_def)

theorem calculateDuration_within_lease_witness:
  "\<exists>t. calculateDuration (sample_vault_secret 3600) = Some t \<and> t \<le> 3600 * Second \<and>
     calculateDuration ((sample_vault_secret 3600)\<lparr>Spec := (Spec (sample_vault_secret 3600))\<lparr>RefreshThreshold := 200\<rparr>\<rparr>) = Some (7200 * Second)"
  using calculateDuration_within_lease [of "sample_vault_secret 3600"] by (auto simp: smallest_lease_def maxInt_def)

theorem VaultSecret_zero_lease_polls_witness:
  "fst (resync_due sample_env (sample_vault_secret 0)
      ((start_world (sample_vault_secret 0))\<lparr>calls := [TimeNow]\<rparr>)) = Ok True"
  using VaultSecret_zero_lease_polls [of "(start_world (sample_vault_secret 0))\<lparr>calls := [TimeNow]\<rparr>" 0 sample_env]
  by (simp add: smallest_lease_def maxInt_def)

definition foreign_env :: "VaultSecret env" where
  "foreign_env = sample_env\<lparr>kube_get_secret := \<lambda>tr ns n.
     Inr \<lparr>sec_Meta = sample_meta n, sec_Type = ''Opaque'', sec_Data = fmempty\<rparr>\<rparr>"

theorem foreign_secret_untouched_witness:
  "\<not> is_ok (fst (VaultSecret_body (\<lambda>_ _ _. Inr []) (\<lambda>_ s. s) foreign_env (start_world (sample_vault_secret 0))))"
  using foreign_secret_untouched [where w = "start_world (sample_vault_secret 0)" and E = foreign_env
      and tmpl = "\<lambda>_ _ _. Inr []" and owned_by = "\<lambda>_ s. s"]
  by (auto simp: foreign_env_def IsOwner_def sample_meta_def)

theorem VaultSecret_writes_own_output_witness:
  "list_all (own_target ''team'' ''out'')
     (calls (snd (VaultSecret_body (\<lambda>_ _ _. Inr []) (\<lambda>_ s. s) sample_env (start_world (sample_vault_secret 0)))))"
  using VaultSecret_writes_own_output [where w = "start_world (sample_vault_secret 0)" and E = sample_env
      and tmpl = "\<lambda>_ _ _. Inr []" and owned_by = "\<lambda>_ s. s"]
  by simp

end
