(* ===== verification/Wiring.thy ===== *)
theory Wiring
  imports Resources Mounts PKI VaultSecrets RandomSecrets
begin

text \<open>
  The wiring of the controllers (\<open>SetupWithManager\<close> in \<open>controllers/*_controller.go\<close>): which
  events of the own resource, of secrets and of \<open>RandomSecret\<close> resources a controller lets
  through, and which requests it makes of them. The library calls the function of a watch on
  the objects of the events that its filter accepts.
\<close>

section \<open>Filters and watches\<close>

text \<open>
  \<open>predicate.Funcs\<close>; an object is \<open>None\<close> when it is nil or of another Go type. The embedded
  \<open>predicate.Funcs\<close> of \<open>PeriodicReconcilePredicate\<close>, which the code leaves at its zero value,
  the synchronisation period, the environment and the clock come with a \<open>setting\<close>.
\<close>

record 'o predicate_funcs =
  CreateFunc :: "'o option \<Rightarrow> bool"
  UpdateFunc :: "'o option \<Rightarrow> 'o option \<Rightarrow> bool"
  DeleteFunc :: "'o option \<Rightarrow> bool"
  GenericFunc :: "'o option \<Rightarrow> bool"

record 'o setting =
  zero_Funcs :: "'o predicate_funcs"
  SyncPeriod :: int
  set_lookupEnv :: "string \<Rightarrow> string option"
  set_now :: int

definition NewDefaultPeriodicReconcilePredicate :: "('s, 'x) object setting \<Rightarrow> ('s, 'x) object predicate_funcs" where
  "NewDefaultPeriodicReconcilePredicate S =
     (zero_Funcs S)\<lparr>UpdateFunc := PeriodicReconcilePredicate_Update
        (NewPeriodicReconcilePredicate (SyncPeriod S)) (set_lookupEnv S) (set_now S)\<rparr>"

record 'o watch =
  watch_filter :: "'o predicate_funcs"
  watch_requests :: "'o \<Rightarrow> (string \<times> string) list"

record 'o wiring =
  for_filters :: "'o predicate_funcs list"
  owned_secret_filters :: "k8s_secret predicate_funcs list"
  secret_watches :: "k8s_secret watch list"
  random_secret_watches :: "RandomSecret watch list"

section \<open>Filters of the watches\<close>

definition isUpdatedRandomSecret :: "RandomSecret predicate_funcs" where
  "isUpdatedRandomSecret = \<lparr>CreateFunc = (\<lambda>_. True), UpdateFunc = isUpdatedRandomSecret_Update,
     DeleteFunc = (\<lambda>_. False), GenericFunc = (\<lambda>_. False)\<rparr>"

definition DatabaseSecretEngineConfig_isBasicAuthSecret :: "k8s_secret predicate_funcs" where
  "DatabaseSecretEngineConfig_isBasicAuthSecret = \<lparr>CreateFunc = DatabaseSecretEngineConfig_isBasicAuthSecret_Create, UpdateFunc = DatabaseSecretEngineConfig_isBasicAuthSecret_Update,
     DeleteFunc = (\<lambda>_. False), GenericFunc = (\<lambda>_. False)\<rparr>"

definition QuaySecretEngineConfig_isBasicAuthSecret :: "k8s_secret predicate_funcs" where
  "QuaySecretEngineConfig_isBasicAuthSecret = \<lparr>CreateFunc = QuaySecretEngineConfig_isBasicAuthSecret_Create, UpdateFunc = QuaySecretEngineConfig_isBasicAuthSecret_Update,
     DeleteFunc = (\<lambda>_. False), GenericFunc = (\<lambda>_. False)\<rparr>"

definition AzureSecretEngineConfig_isBasicAuthSecret :: "k8s_secret predicate_funcs" where
  "AzureSecretEngineConfig_isBasicAuthSecret = \<lparr>CreateFunc = AzureSecretEngineConfig_isBasicAuthSecret_Create, UpdateFunc = AzureSecretEngineConfig_isBasicAuthSecret_Update,
     DeleteFunc = (\<lambda>_. False), GenericFunc = (\<lambda>_. False)\<rparr>"

definition AzureAuthEngineConfig_isBasicAuthSecret :: "k8s_secret predicate_funcs" where
  "AzureAuthEngineConfig_isBasicAuthSecret = \<lparr>CreateFunc = AzureAuthEngineConfig_isBasicAuthSecret_Create, UpdateFunc = AzureAuthEngineConfig_isBasicAuthSecret_Update,
     DeleteFunc = (\<lambda>_. False), GenericFunc = (\<lambda>_. False)\<rparr>"

definition GCPAuthEngineConfig_isBasicAuthSecret :: "k8s_secret predicate_funcs" where
  "GCPAuthEngineConfig_isBasicAuthSecret = \<lparr>CreateFunc = GCPAuthEngineConfig_isBasicAuthSecret_Create, UpdateFunc = GCPAuthEngineConfig_isBasicAuthSecret_Update,
     DeleteFunc = (\<lambda>_. False), GenericFunc = (\<lambda>_. False)\<rparr>"

definition JWTOIDCAuthEngineConfig_isBasicAuthSecret :: "k8s_secret predicate_funcs" where
  "JWTOIDCAuthEngineConfig_isBasicAuthSecret = \<lparr>CreateFunc = JWTOIDCAuthEngineConfig_isBasicAuthSecret_Create, UpdateFunc = JWTOIDCAuthEngineConfig_isBasicAuthSecret_Update,
     DeleteFunc = (\<lambda>_. False), GenericFunc = (\<lambda>_. False)\<rparr>"

definition LDAPAuthEngineConfig_isBasicAuthSecret :: "k8s_secret predicate_funcs" where
  "LDAPAuthEngineConfig_isBasicAuthSecret = \<lparr>CreateFunc = LDAPAuthEngineConfig_isBasicAuthSecret_Create, UpdateFunc = LDAPAuthEngineConfig_isBasicAuthSecret_Update,
     DeleteFunc = (\<lambda>_. False), GenericFunc = (\<lambda>_. False)\<rparr>"

definition LDAPAuthEngineConfig_isTLSSecret :: "k8s_secret predicate_funcs" where
  "LDAPAuthEngineConfig_isTLSSecret = \<lparr>CreateFunc = LDAPAuthEngineConfig_isTLSSecret_Create, UpdateFunc = LDAPAuthEngineConfig_isTLSSecret_Update,
     DeleteFunc = (\<lambda>_. False), GenericFunc = (\<lambda>_. False)\<rparr>"

definition GitHubSecretEngineConfig_isSSHSecret :: "k8s_secret predicate_funcs" where
  "GitHubSecretEngineConfig_isSSHSecret = \<lparr>CreateFunc = GitHubSecretEngineConfig_isSSHSecret_Create, UpdateFunc = GitHubSecretEngineConfig_isSSHSecret_Update,
     DeleteFunc = (\<lambda>_. False), GenericFunc = (\<lambda>_. False)\<rparr>"

definition KubernetesSecretEngineConfig_isSATokenSecret :: "k8s_secret predicate_funcs" where
  "KubernetesSecretEngineConfig_isSATokenSecret = \<lparr>CreateFunc = KubernetesSecretEngineConfig_isSATokenSecret_Create, UpdateFunc = KubernetesSecretEngineConfig_isSATokenSecret_Update,
     DeleteFunc = (\<lambda>_. False), GenericFunc = (\<lambda>_. False)\<rparr>"

section \<open>Controllers that watch credentials\<close>

definition DatabaseSecretEngineConfig_SetupWithManager ::
  "DatabaseSecretEngineConfig setting \<Rightarrow> (string \<Rightarrow> error + DatabaseSecretEngineConfig list) \<Rightarrow> DatabaseSecretEngineConfig wiring" where
  "DatabaseSecretEngineConfig_SetupWithManager S list_in =
     \<lparr>for_filters = [NewDefaultPeriodicReconcilePredicate S], owned_secret_filters = [],
      secret_watches = [\<lparr>watch_filter = DatabaseSecretEngineConfig_isBasicAuthSecret, watch_requests = (\<lambda>s. requests (findApplicableBDSCForSecret list_in s))\<rparr>],
      random_secret_watches = [\<lparr>watch_filter = isUpdatedRandomSecret, watch_requests = (\<lambda>rs. requests (findApplicableDBSCForRandomSecret list_in rs))\<rparr>]\<rparr>"

definition QuaySecretEngineConfig_SetupWithManager ::
  "QuaySecretEngineConfig setting \<Rightarrow> (string \<Rightarrow> error + QuaySecretEngineConfig list) \<Rightarrow> QuaySecretEngineConfig wiring" where
  "QuaySecretEngineConfig_SetupWithManager S list_in =
     \<lparr>for_filters = [NewDefaultPeriodicReconcilePredicate S], owned_secret_filters = [],
      secret_watches = [\<lparr>watch_filter = QuaySecretEngineConfig_isBasicAuthSecret, watch_requests = (\<lambda>s. requests (findApplicableQuaySCForSecret list_in s))\<rparr>],
      random_secret_watches = [\<lparr>watch_filter = isUpdatedRandomSecret, watch_requests = (\<lambda>rs. requests (findApplicableQuaySCForRandomSecret list_in rs))\<rparr>]\<rparr>"

definition AzureSecretEngineConfig_SetupWithManager ::
  "AzureSecretEngineConfig setting \<Rightarrow> (string \<Rightarrow> error + AzureSecretEngineConfig list) \<Rightarrow> AzureSecretEngineConfig wiring" where
  "AzureSecretEngineConfig_SetupWithManager S list_in =
     \<lparr>for_filters = [NewDefaultPeriodicReconcilePredicate S], owned_secret_filters = [],
      secret_watches = [\<lparr>watch_filter = AzureSecretEngineConfig_isBasicAuthSecret, watch_requests = (\<lambda>s. requests (findApplicableASEForSecret list_in s))\<rparr>],
      random_secret_watches = [\<lparr>watch_filter = isUpdatedRandomSecret, watch_requests = (\<lambda>rs. requests (findApplicableASEForRandomSecret list_in rs))\<rparr>]\<rparr>"

definition AzureAuthEngineConfig_SetupWithManager ::
  "AzureAuthEngineConfig setting \<Rightarrow> (string \<Rightarrow> error + AzureAuthEngineConfig list) \<Rightarrow> AzureAuthEngineConfig wiring" where
  "AzureAuthEngineConfig_SetupWithManager S list_in =
     \<lparr>for_filters = [NewDefaultPeriodicReconcilePredicate S], owned_secret_filters = [],
      secret_watches = [\<lparr>watch_filter = AzureAuthEngineConfig_isBasicAuthSecret, watch_requests = (\<lambda>s. requests (findApplicableAAEForSecret list_in s))\<rparr>],
      random_secret_watches = [\<lparr>watch_filter = isUpdatedRandomSecret, watch_requests = (\<lambda>rs. requests (findApplicableAAEForRandomSecret list_in rs))\<rparr>]\<rparr>"

definition GCPAuthEngineConfig_SetupWithManager ::
  "GCPAuthEngineConfig setting \<Rightarrow> (string \<Rightarrow> error + GCPAuthEngineConfig list) \<Rightarrow> GCPAuthEngineConfig wiring" where
  "GCPAuthEngineConfig_SetupWithManager S list_in =
     \<lparr>for_filters = [NewDefaultPeriodicReconcilePredicate S], owned_secret_filters = [],
      secret_watches = [\<lparr>watch_filter = GCPAuthEngineConfig_isBasicAuthSecret, watch_requests = (\<lambda>s. requests (findApplicableGAEForSecret list_in s))\<rparr>],
      random_secret_watches = [\<lparr>watch_filter = isUpdatedRandomSecret, watch_requests = (\<lambda>rs. requests (findApplicableGAEForRandomSecret list_in rs))\<rparr>]\<rparr>"

definition JWTOIDCAuthEngineConfig_SetupWithManager ::
  "JWTOIDCAuthEngineConfig setting \<Rightarrow> (string \<Rightarrow> error + JWTOIDCAuthEngineConfig list) \<Rightarrow> JWTOIDCAuthEngineConfig wiring" where
  "JWTOIDCAuthEngineConfig_SetupWithManager S list_in =
     \<lparr>for_filters = [NewDefaultPeriodicReconcilePredicate S], owned_secret_filters = [],
      secret_watches = [\<lparr>watch_filter = JWTOIDCAuthEngineConfig_isBasicAuthSecret, watch_requests = (\<lambda>s. requests (findApplicableJOAEForSecret list_in s))\<rparr>],
      random_secret_watches = [\<lparr>watch_filter = isUpdatedRandomSecret, watch_requests = (\<lambda>rs. requests (findApplicableJOAEForRandomSecret list_in rs))\<rparr>]\<rparr>"

definition LDAPAuthEngineConfig_SetupWithManager ::
  "LDAPAuthEngineConfig setting \<Rightarrow> (string \<Rightarrow> error + LDAPAuthEngineConfig list) \<Rightarrow> LDAPAuthEngineConfig wiring" where
  "LDAPAuthEngineConfig_SetupWithManager S list_in =
     \<lparr>for_filters = [NewDefaultPeriodicReconcilePredicate S], owned_secret_filters = [],
      secret_watches = [\<lparr>watch_filter = LDAPAuthEngineConfig_isBasicAuthSecret, watch_requests = (\<lambda>s. requests (findApplicableLAECForSecret list_in s))\<rparr>,
        \<lparr>watch_filter = LDAPAuthEngineConfig_isTLSSecret, watch_requests = (\<lambda>s. requests (findApplicableLAECForTLSSecret list_in s))\<rparr>],
      random_secret_watches = [\<lparr>watch_filter = isUpdatedRandomSecret, watch_requests = (\<lambda>rs. requests (findApplicableLAECForRandomSecret list_in rs))\<rparr>]\<rparr>"

definition GitHubSecretEngineConfig_SetupWithManager ::
  "GitHubSecretEngineConfig setting \<Rightarrow> (string \<Rightarrow> error + GitHubSecretEngineConfig list) \<Rightarrow> GitHubSecretEngineConfig wiring" where
  "GitHubSecretEngineConfig_SetupWithManager S list_in =
     \<lparr>for_filters = [NewDefaultPeriodicReconcilePredicate S], owned_secret_filters = [],
      secret_watches = [\<lparr>watch_filter = GitHubSecretEngineConfig_isSSHSecret, watch_requests = (\<lambda>s. requests (findApplicableGHSCForSecret list_in s))\<rparr>],
      random_secret_watches = []\<rparr>"

definition KubernetesSecretEngineConfig_SetupWithManager ::
  "KubernetesSecretEngineConfig setting \<Rightarrow> (string \<Rightarrow> error + KubernetesSecretEngineConfig list) \<Rightarrow> KubernetesSecretEngineConfig wiring" where
  "KubernetesSecretEngineConfig_SetupWithManager S list_in =
     \<lparr>for_filters = [NewDefaultPeriodicReconcilePredicate S], owned_secret_filters = [],
      secret_watches = [\<lparr>watch_filter = KubernetesSecretEngineConfig_isSATokenSecret, watch_requests = (\<lambda>s. requests (findApplicableKSECForSecret list_in s))\<rparr>],
      random_secret_watches = []\<rparr>"

section \<open>Controllers that watch their own resource only\<close>

definition AuthEngineMount_SetupWithManager :: "AuthEngineMount setting \<Rightarrow> AuthEngineMount wiring" where
  "AuthEngineMount_SetupWithManager S =
     \<lparr>for_filters = [NewDefaultPeriodicReconcilePredicate S], owned_secret_filters = [],
      secret_watches = [], random_secret_watches = []\<rparr>"

definition AzureAuthEngineRole_SetupWithManager :: "AzureAuthEngineRole setting \<Rightarrow> AzureAuthEngineRole wiring" where
  "AzureAuthEngineRole_SetupWithManager S =
     \<lparr>for_filters = [NewDefaultPeriodicReconcilePredicate S], owned_secret_filters = [],
      secret_watches = [], random_secret_watches = []\<rparr>"

definition AzureSecretEngineRole_SetupWithManager :: "AzureSecretEngineRole setting \<Rightarrow> AzureSecretEngineRole wiring" where
  "AzureSecretEngineRole_SetupWithManager S =
     \<lparr>for_filters = [NewDefaultPeriodicReconcilePredicate S], owned_secret_filters = [],
      secret_watches = [], random_secret_watches = []\<rparr>"

definition CertAuthEngineConfig_SetupWithManager :: "CertAuthEngineConfig setting \<Rightarrow> CertAuthEngineConfig wiring" where
  "CertAuthEngineConfig_SetupWithManager S =
     \<lparr>for_filters = [], owned_secret_filters = [],
      secret_watches = [], random_secret_watches = []\<rparr>"

definition CertAuthEngineRole_SetupWithManager :: "CertAuthEngineRole setting \<Rightarrow> CertAuthEngineRole wiring" where
  "CertAuthEngineRole_SetupWithManager S =
     \<lparr>for_filters = [], owned_secret_filters = [],
      secret_watches = [], random_secret_watches = []\<rparr>"

definition DatabaseSecretEngineRole_SetupWithManager :: "DatabaseSecretEngineRole setting \<Rightarrow> DatabaseSecretEngineRole wiring" where
  "DatabaseSecretEngineRole_SetupWithManager S =
     \<lparr>for_filters = [NewDefaultPeriodicReconcilePredicate S], owned_secret_filters = [],
      secret_watches = [], random_secret_watches = []\<rparr>"

definition DatabaseSecretEngineStaticRole_SetupWithManager :: "DatabaseSecretEngineStaticRole setting \<Rightarrow> DatabaseSecretEngineStaticRole wiring" where
  "DatabaseSecretEngineStaticRole_SetupWithManager S =
     \<lparr>for_filters = [NewDefaultPeriodicReconcilePredicate S], owned_secret_filters = [],
      secret_watches = [], random_secret_watches = []\<rparr>"

definition GCPAuthEngineRole_SetupWithManager :: "GCPAuthEngineRole setting \<Rightarrow> GCPAuthEngineRole wiring" where
  "GCPAuthEngineRole_SetupWithManager S =
     \<lparr>for_filters = [], owned_secret_filters = [],
      secret_watches = [], random_secret_watches = []\<rparr>"

definition GitHubSecretEngineRole_SetupWithManager :: "GitHubSecretEngineRole setting \<Rightarrow> GitHubSecretEngineRole wiring" where
  "GitHubSecretEngineRole_SetupWithManager S =
     \<lparr>for_filters = [NewDefaultPeriodicReconcilePredicate S], owned_secret_filters = [],
      secret_watches = [], random_secret_watches = []\<rparr>"

definition Group_SetupWithManager :: "Group setting \<Rightarrow> Group wiring" where
  "Group_SetupWithManager S =
     \<lparr>for_filters = [NewDefaultPeriodicReconcilePredicate S], owned_secret_filters = [],
      secret_watches = [], random_secret_watches = []\<rparr>"

definition GroupAlias_SetupWithManager :: "GroupAlias setting \<Rightarrow> GroupAlias wiring" where
  "GroupAlias_SetupWithManager S =
     \<lparr>for_filters = [NewDefaultPeriodicReconcilePredicate S], owned_secret_filters = [],
      secret_watches = [], random_secret_watches = []\<rparr>"

definition JWTOIDCAuthEngineRole_SetupWithManager :: "JWTOIDCAuthEngineRole setting \<Rightarrow> JWTOIDCAuthEngineRole wiring" where
  "JWTOIDCAuthEngineRole_SetupWithManager S =
     \<lparr>for_filters = [NewDefaultPeriodicReconcilePredicate S], owned_secret_filters = [],
      secret_watches = [], random_secret_watches = []\<rparr>"

definition KubernetesAuthEngineConfig_SetupWithManager :: "KubernetesAuthEngineConfig setting \<Rightarrow> KubernetesAuthEngineConfig wiring" where
  "KubernetesAuthEngineConfig_SetupWithManager S =
     \<lparr>for_filters = [NewDefaultPeriodicReconcilePredicate S], owned_secret_filters = [],
      secret_watches = [], random_secret_watches = []\<rparr>"

definition KubernetesSecretEngineRole_SetupWithManager :: "KubernetesSecretEngineRole setting \<Rightarrow> KubernetesSecretEngineRole wiring" where
  "KubernetesSecretEngineRole_SetupWithManager S =
     \<lparr>for_filters = [NewDefaultPeriodicReconcilePredicate S], owned_secret_filters = [],
      secret_watches = [], random_secret_watches = []\<rparr>"

definition LDAPAuthEngineGroup_SetupWithManager :: "LDAPAuthEngineGroup setting \<Rightarrow> LDAPAuthEngineGroup wiring" where
  "LDAPAuthEngineGroup_SetupWithManager S =
     \<lparr>for_filters = [NewDefaultPeriodicReconcilePredicate S], owned_secret_filters = [],
      secret_watches = [], random_secret_watches = []\<rparr>"

definition PasswordPolicy_SetupWithManager :: "PasswordPolicy setting \<Rightarrow> PasswordPolicy wiring" where
  "PasswordPolicy_SetupWithManager S =
     \<lparr>for_filters = [NewDefaultPeriodicReconcilePredicate S], owned_secret_filters = [],
      secret_watches = [], random_secret_watches = []\<rparr>"

definition PKISecretEngineConfig_SetupWithManager :: "PKISecretEngineConfig setting \<Rightarrow> PKISecretEngineConfig wiring" where
  "PKISecretEngineConfig_SetupWithManager S =
     \<lparr>for_filters = [NewDefaultPeriodicReconcilePredicate S], owned_secret_filters = [],
      secret_watches = [], random_secret_watches = []\<rparr>"

definition PKISecretEngineRole_SetupWithManager :: "PKISecretEngineRole setting \<Rightarrow> PKISecretEngineRole wiring" where
  "PKISecretEngineRole_SetupWithManager S =
     \<lparr>for_filters = [NewDefaultPeriodicReconcilePredicate S], owned_secret_filters = [],
      secret_watches = [], random_secret_watches = []\<rparr>"

definition Policy_SetupWithManager :: "Policy setting \<Rightarrow> Policy wiring" where
  "Policy_SetupWithManager S =
     \<lparr>for_filters = [NewDefaultPeriodicReconcilePredicate S], owned_secret_filters = [],
      secret_watches = [], random_secret_watches = []\<rparr>"

definition QuaySecretEngineRole_SetupWithManager :: "QuaySecretEngineRole setting \<Rightarrow> QuaySecretEngineRole wiring" where
  "QuaySecretEngineRole_SetupWithManager S =
     \<lparr>for_filters = [NewDefaultPeriodicReconcilePredicate S], owned_secret_filters = [],
      secret_watches = [], random_secret_watches = []\<rparr>"

definition QuaySecretEngineStaticRole_SetupWithManager :: "QuaySecretEngineStaticRole setting \<Rightarrow> QuaySecretEngineStaticRole wiring" where
  "QuaySecretEngineStaticRole_SetupWithManager S =
     \<lparr>for_filters = [NewDefaultPeriodicReconcilePredicate S], owned_secret_filters = [],
      secret_watches = [], random_secret_watches = []\<rparr>"

definition RabbitMQSecretEngineRole_SetupWithManager :: "RabbitMQSecretEngineRole setting \<Rightarrow> RabbitMQSecretEngineRole wiring" where
  "RabbitMQSecretEngineRole_SetupWithManager S =
     \<lparr>for_filters = [NewDefaultPeriodicReconcilePredicate S], owned_secret_filters = [],
      secret_watches = [], random_secret_watches = []\<rparr>"

definition SecretEngineMount_SetupWithManager :: "SecretEngineMount setting \<Rightarrow> SecretEngineMount wiring" where
  "SecretEngineMount_SetupWithManager S =
     \<lparr>for_filters = [NewDefaultPeriodicReconcilePredicate S], owned_secret_filters = [],
      secret_watches = [], random_secret_watches = []\<rparr>"

section \<open>Controllers with filters or watches of their own\<close>

definition filter_RabbitMQ :: "RabbitMQSecretEngineConfig predicate_funcs" where
  "filter_RabbitMQ = \<lparr>CreateFunc = (\<lambda>_. True), UpdateFunc = (\<lambda>_ _. True),
     DeleteFunc = (\<lambda>_. False), GenericFunc = (\<lambda>_. False)\<rparr>"

definition RabbitMQSecretEngineConfig_SetupWithManager ::
  "RabbitMQSecretEngineConfig setting \<Rightarrow> RabbitMQSecretEngineConfig wiring" where
  "RabbitMQSecretEngineConfig_SetupWithManager S =
     \<lparr>for_filters = [filter_RabbitMQ, NewDefaultPeriodicReconcilePredicate S], owned_secret_filters = [],
      secret_watches = [], random_secret_watches = []\<rparr>"

definition needsCreation :: "RandomSecret predicate_funcs" where
  "needsCreation = \<lparr>CreateFunc = (\<lambda>_. True),
     UpdateFunc = (\<lambda>ObjectOld ObjectNew. case (ObjectOld, ObjectNew) of
         (Some oldSecret, Some newSecret) \<Rightarrow> RandomSecret_needsCreation_Update oldSecret newSecret | _ \<Rightarrow> False),
     DeleteFunc = (\<lambda>_. True), GenericFunc = (\<lambda>_. False)\<rparr>"

definition RandomSecret_SetupWithManager :: "RandomSecret setting \<Rightarrow> RandomSecret wiring" where
  "RandomSecret_SetupWithManager S =
     \<lparr>for_filters = [needsCreation, NewDefaultPeriodicReconcilePredicate S], owned_secret_filters = [],
      secret_watches = [], random_secret_watches = []\<rparr>"

definition vaultSecretPredicate :: "VaultSecret predicate_funcs" where
  "vaultSecretPredicate = \<lparr>CreateFunc = (\<lambda>_. True),
     UpdateFunc = (\<lambda>ObjectOld ObjectNew. case (ObjectOld, ObjectNew) of
         (Some old, Some new) \<Rightarrow> vaultSecretPredicate_Update old new | _ \<Rightarrow> False),
     DeleteFunc = (\<lambda>_. True), GenericFunc = (\<lambda>_. False)\<rparr>"

definition k8sSecretPredicate :: "k8s_secret predicate_funcs" where
  "k8sSecretPredicate = \<lparr>CreateFunc = (\<lambda>_. False),
     UpdateFunc = (\<lambda>ObjectOld ObjectNew. case ObjectNew of
         Some newSecret \<Rightarrow> k8sSecretPredicate_Update newSecret | None \<Rightarrow> False),
     DeleteFunc = (\<lambda>Object. case Object of Some secret \<Rightarrow> k8sSecretPredicate_Delete secret | None \<Rightarrow> False),
     GenericFunc = (\<lambda>_. False)\<rparr>"

definition VaultSecret_SetupWithManager :: "VaultSecret setting \<Rightarrow> VaultSecret wiring" where
  "VaultSecret_SetupWithManager S =
     \<lparr>for_filters = [vaultSecretPredicate, NewDefaultPeriodicReconcilePredicate S],
      owned_secret_filters = [k8sSecretPredicate], secret_watches = [], random_secret_watches = []\<rparr>"

text \<open>
  The roles of the Kubernetes authentication engine watch namespaces without a filter: the
  requests for a namespace with the labels \<open>ls\<close>.
\<close>

definition KubernetesAuthEngineRole_SetupWithManager ::
  "KubernetesAuthEngineRole setting \<Rightarrow> (string \<Rightarrow> error + ((string, string) fmap \<Rightarrow> bool)) \<Rightarrow>
     error + KubernetesAuthEngineRole list \<Rightarrow>
     KubernetesAuthEngineRole wiring \<times> ((string, string) fmap \<Rightarrow> (string \<times> string) list)" where
  "KubernetesAuthEngineRole_SetupWithManager S matches items =
     (\<lparr>for_filters = [NewDefaultPeriodicReconcilePredicate S], owned_secret_filters = [],
       secret_watches = [], random_secret_watches = []\<rparr>,
      \<lambda>ls. requests (findApplicableKubernetesAuthEngineRoles matches items ls))"

section \<open>Who is woken by what\<close>

text \<open>The requests that an update from \<open>old\<close> to \<open>new\<close> is answered with.\<close>

definition answered :: "'o watch list \<Rightarrow> 'o \<Rightarrow> 'o \<Rightarrow> (string \<times> string) set" where
  "answered ws old new = (\<Union>w \<in> set ws.
     if UpdateFunc (watch_filter w) (Some old) (Some new) then set (watch_requests w new) else {})"

text \<open>The interface of a controller whose resources name a \<open>RandomSecret\<close> as \<open>reference\<close>.\<close>

locale random_secret_user =
  fixes wire :: "(string \<Rightarrow> error + ('s, 't) crd list) \<Rightarrow> 'c wiring"
    and reference :: "('s, 't) crd \<Rightarrow> string option"
  assumes one_watch: "random_secret_watches (wire list_in) =
    [\<lparr>watch_filter = isUpdatedRandomSecret,
      watch_requests = (\<lambda>rs. requests (find_applicable list_in reference (Meta rs)))\<rparr>]"
begin

lemma update_answered:
  assumes "list_in (GetNamespace new) = Inr items"
  shows "answered (random_secret_watches (wire list_in)) old new =
    (if rs_LastVaultSecretUpdate (Status new) \<noteq> None \<and>
        rs_LastVaultSecretUpdate (Status new) \<noteq> rs_LastVaultSecretUpdate (Status old)
     then {(GetNamespace d, GetName d) | d. d \<in> set items \<and> reference d = Some (GetName new)} else {})"
  using requests_find_applicable [of list_in "Meta new" items reference] assms
  by (simp add: answered_def one_watch isUpdatedRandomSecret_def random_secret_rotation_wakes GetNamespace_def GetName_def)

end

definition woken_by_rotation ::
  "((string \<Rightarrow> error + ('s, 't) crd list) \<Rightarrow> 'c wiring) \<Rightarrow> (('s, 't) crd \<Rightarrow> string option) \<Rightarrow> bool" where
  "woken_by_rotation wire reference \<longleftrightarrow> (\<forall>list_in items old new. list_in (GetNamespace new) = Inr items \<longrightarrow>
     answered (random_secret_watches (wire list_in)) old new =
       (if rs_LastVaultSecretUpdate (Status new) \<noteq> None \<and>
           rs_LastVaultSecretUpdate (Status new) \<noteq> rs_LastVaultSecretUpdate (Status old)
        then {(GetNamespace d, GetName d) | d. d \<in> set items \<and> reference d = Some (GetName new)} else {}))"

lemma woken_by_rotationI: "random_secret_user wire reference \<Longrightarrow> woken_by_rotation wire reference"
  by (simp add: woken_by_rotation_def random_secret_user.update_answered)

interpretation u_DatabaseSecretEngineConfig: random_secret_user "DatabaseSecretEngineConfig_SetupWithManager S" "\<lambda>vr. rc_RandomSecret (db_RootCredentials (Spec vr))" for S
  by unfold_locales (simp add: DatabaseSecretEngineConfig_SetupWithManager_def findApplicableDBSCForRandomSecret_def)

interpretation u_QuaySecretEngineConfig: random_secret_user "QuaySecretEngineConfig_SetupWithManager S" "\<lambda>vr. rc_RandomSecret (qc_RootCredentials (Spec vr))" for S
  by unfold_locales (simp add: QuaySecretEngineConfig_SetupWithManager_def findApplicableQuaySCForRandomSecret_def)

interpretation u_AzureSecretEngineConfig: random_secret_user "AzureSecretEngineConfig_SetupWithManager S" "\<lambda>vr. rc_RandomSecret (ase_AzureCredentials (Spec vr))" for S
  by unfold_locales (simp add: AzureSecretEngineConfig_SetupWithManager_def findApplicableASEForRandomSecret_def)

interpretation u_AzureAuthEngineConfig: random_secret_user "AzureAuthEngineConfig_SetupWithManager S" "\<lambda>vr. rc_RandomSecret (aae_AzureCredentials (Spec vr))" for S
  by unfold_locales (simp add: AzureAuthEngineConfig_SetupWithManager_def findApplicableAAEForRandomSecret_def)

interpretation u_GCPAuthEngineConfig: random_secret_user "GCPAuthEngineConfig_SetupWithManager S" "\<lambda>vr. rc_RandomSecret (gcp_GCPCredentials (Spec vr))" for S
  by unfold_locales (simp add: GCPAuthEngineConfig_SetupWithManager_def findApplicableGAEForRandomSecret_def)

interpretation u_JWTOIDCAuthEngineConfig: random_secret_user "JWTOIDCAuthEngineConfig_SetupWithManager S" "\<lambda>vr. Option.bind (joc_OIDCCredentials (Spec vr)) rc_RandomSecret" for S
  by unfold_locales (simp add: JWTOIDCAuthEngineConfig_SetupWithManager_def findApplicableJOAEForRandomSecret_def)

interpretation u_LDAPAuthEngineConfig: random_secret_user "LDAPAuthEngineConfig_SetupWithManager S" "\<lambda>vr. rc_RandomSecret (ldap_BindCredentials (Spec vr))" for S
  by unfold_locales (simp add: LDAPAuthEngineConfig_SetupWithManager_def findApplicableLAECForRandomSecret_def)

text \<open>
  C28. When a \<open>RandomSecret\<close> gets a new version that records another time of its update in Vault,
  each of the seven controllers whose configurations can take a password from a
  \<open>RandomSecret\<close> is asked to reconcile exactly the configurations of the namespace that name
  it, and for any other version none.
\<close>

theorem rotated_random_secret_wakes_users:
  "woken_by_rotation (DatabaseSecretEngineConfig_SetupWithManager S1) (\<lambda>vr. rc_RandomSecret (db_RootCredentials (Spec vr))) \<and>
   woken_by_rotation (QuaySecretEngineConfig_SetupWithManager S2) (\<lambda>vr. rc_RandomSecret (qc_RootCredentials (Spec vr))) \<and>
   woken_by_rotation (AzureSecretEngineConfig_SetupWithManager S3) (\<lambda>vr. rc_RandomSecret (ase_AzureCredentials (Spec vr))) \<and>
   woken_by_rotation (AzureAuthEngineConfig_SetupWithManager S4) (\<lambda>vr. rc_RandomSecret (aae_AzureCredentials (Spec vr))) \<and>
   woken_by_rotation (GCPAuthEngineConfig_SetupWithManager S5) (\<lambda>vr. rc_RandomSecret (gcp_GCPCredentials (Spec vr))) \<and>
   woken_by_rotation (JWTOIDCAuthEngineConfig_SetupWithManager S6) (\<lambda>vr. Option.bind (joc_OIDCCredentials (Spec vr)) rc_RandomSecret) \<and>
   woken_by_rotation (LDAPAuthEngineConfig_SetupWithManager S7) (\<lambda>vr. rc_RandomSecret (ldap_BindCredentials (Spec vr)))"
  by (intro conjI
    woken_by_rotationI [OF u_DatabaseSecretEngineConfig.random_secret_user_axioms]
    woken_by_rotationI [OF u_QuaySecretEngineConfig.random_secret_user_axioms]
    woken_by_rotationI [OF u_AzureSecretEngineConfig.random_secret_user_axioms]
    woken_by_rotationI [OF u_AzureAuthEngineConfig.random_secret_user_axioms]
    woken_by_rotationI [OF u_GCPAuthEngineConfig.random_secret_user_axioms]
    woken_by_rotationI [OF u_JWTOIDCAuthEngineConfig.random_secret_user_axioms]
    woken_by_rotationI [OF u_LDAPAuthEngineConfig.random_secret_user_axioms])

text \<open>
  What wakes a controller by its own resource: \<open>self_update\<close> is whether an update from \<open>old\<close> to
  \<open>new\<close> passes all filters of the resource.
\<close>

definition self_update :: "'o wiring \<Rightarrow> 'o \<Rightarrow> 'o \<Rightarrow> bool" where
  "self_update w old new \<longleftrightarrow> list_all (\<lambda>f. UpdateFunc f (Some old) (Some new)) (for_filters w)"

text \<open>
  A controller that stays quiet: with drift detection off, an update that leaves the
  generation alone, such as the operator's own status update, does not wake it.
\<close>

definition quiet :: "(('s, 'x) object setting \<Rightarrow> ('s, 'x) object wiring) \<Rightarrow> bool" where
  "quiet wire \<longleftrightarrow> (\<forall>S old new. set_lookupEnv S ''ENABLE_DRIFT_DETECTION'' \<noteq> Some ''true'' \<and>
     meta_Generation (Meta new) = meta_Generation (Meta old) \<longrightarrow> \<not> self_update (wire S) old new)"

definition restless_wiring :: "(('s, 'x) object setting \<Rightarrow> ('s, 'x) object wiring) \<Rightarrow> bool" where
  "restless_wiring wire \<longleftrightarrow> (\<forall>S old new. self_update (wire S) old new)"

lemma quietI:
  "(\<And>S. NewDefaultPeriodicReconcilePredicate S \<in> set (for_filters (wire S))) \<Longrightarrow> quiet wire"
  unfolding quiet_def self_update_def list_all_iff
  by (fastforce simp: NewDefaultPeriodicReconcilePredicate_def PeriodicReconcilePredicate_Update_def
      IsDriftDetectionEnabled_def split: option.splits)

text \<open>
  C29. Of the controllers of the operator, 33 are quiet; three have no filter at all and are woken by
  every update of their resources, also by the status that they have just written.
\<close>

theorem own_status_update_wakes:
  "quiet (\<lambda>S. DatabaseSecretEngineConfig_SetupWithManager S list_in1) \<and>
   quiet (\<lambda>S. QuaySecretEngineConfig_SetupWithManager S list_in2) \<and>
   quiet (\<lambda>S. AzureSecretEngineConfig_SetupWithManager S list_in3) \<and>
   quiet (\<lambda>S. AzureAuthEngineConfig_SetupWithManager S list_in4) \<and>
   quiet (\<lambda>S. GCPAuthEngineConfig_SetupWithManager S list_in5) \<and>
   quiet (\<lambda>S. JWTOIDCAuthEngineConfig_SetupWithManager S list_in6) \<and>
   quiet (\<lambda>S. LDAPAuthEngineConfig_SetupWithManager S list_in7) \<and>
   quiet (\<lambda>S. GitHubSecretEngineConfig_SetupWithManager S list_in8) \<and>
   quiet (\<lambda>S. KubernetesSecretEngineConfig_SetupWithManager S list_in9) \<and>
   quiet AuthEngineMount_SetupWithManager \<and>
   quiet AzureAuthEngineRole_SetupWithManager \<and>
   quiet AzureSecretEngineRole_SetupWithManager \<and>
   quiet DatabaseSecretEngineRole_SetupWithManager \<and>
   quiet DatabaseSecretEngineStaticRole_SetupWithManager \<and>
   quiet GitHubSecretEngineRole_SetupWithManager \<and>
   quiet Group_SetupWithManager \<and>
   quiet GroupAlias_SetupWithManager \<and>
   quiet JWTOIDCAuthEngineRole_SetupWithManager \<and>
   quiet KubernetesAuthEngineConfig_SetupWithManager \<and>
   quiet KubernetesSecretEngineRole_SetupWithManager \<and>
   quiet LDAPAuthEngineGroup_SetupWithManager \<and>
   quiet PasswordPolicy_SetupWithManager \<and>
   quiet PKISecretEngineConfig_SetupWithManager \<and>
   quiet PKISecretEngineRole_SetupWithManager \<and>
   quiet Policy_SetupWithManager \<and>
   quiet QuaySecretEngineRole_SetupWithManager \<and>
   quiet QuaySecretEngineStaticRole_SetupWithManager \<and>
   quiet RabbitMQSecretEngineRole_SetupWithManager \<and>
   quiet SecretEngineMount_SetupWithManager \<and>
   quiet RabbitMQSecretEngineConfig_SetupWithManager \<and>
   quiet RandomSecret_SetupWithManager \<and>
   quiet VaultSecret_SetupWithManager \<and>
   quiet (\<lambda>S. fst (KubernetesAuthEngineRole_SetupWithManager S matches items)) \<and>
   restless_wiring CertAuthEngineConfig_SetupWithManager \<and>
   restless_wiring CertAuthEngineRole_SetupWithManager \<and>
   restless_wiring GCPAuthEngineRole_SetupWithManager"
  by (intro conjI quietI;
    simp add: restless_wiring_def self_update_def DatabaseSecretEngineConfig_SetupWithManager_def QuaySecretEngineConfig_SetupWithManager_def AzureSecretEngineConfig_SetupWithManager_def AzureAuthEngineConfig_SetupWithManager_def GCPAuthEngineConfig_SetupWithManager_def JWTOIDCAuthEngineConfig_SetupWithManager_def LDAPAuthEngineConfig_SetupWithManager_def GitHubSecretEngineConfig_SetupWithManager_def KubernetesSecretEngineConfig_SetupWithManager_def AuthEngineMount_SetupWithManager_def AzureAuthEngineRole_SetupWithManager_def AzureSecretEngineRole_SetupWithManager_def CertAuthEngineConfig_SetupWithManager_def CertAuthEngineRole_SetupWithManager_def DatabaseSecretEngineRole_SetupWithManager_def DatabaseSecretEngineStaticRole_SetupWithManager_def GCPAuthEngineRole_SetupWithManager_def GitHubSecretEngineRole_SetupWithManager_def Group_SetupWithManager_def GroupAlias_SetupWithManager_def JWTOIDCAuthEngineRole_SetupWithManager_def KubernetesAuthEngineConfig_SetupWithManager_def KubernetesSecretEngineRole_SetupWithManager_def LDAPAuthEngineGroup_SetupWithManager_def PasswordPolicy_SetupWithManager_def PKISecretEngineConfig_SetupWithManager_def PKISecretEngineRole_SetupWithManager_def Policy_SetupWithManager_def QuaySecretEngineRole_SetupWithManager_def QuaySecretEngineStaticRole_SetupWithManager_def RabbitMQSecretEngineRole_SetupWithManager_def SecretEngineMount_SetupWithManager_def
      RabbitMQSecretEngineConfig_SetupWithManager_def RandomSecret_SetupWithManager_def VaultSecret_SetupWithManager_def
      KubernetesAuthEngineRole_SetupWithManager_def)

end
