(* ===== verification/Manager.thy ===== *)
theory Manager
  imports Wiring "HOL-Library.Word"
begin

text \<open>
  The start of the operator (\<open>main.go\<close>): the flags of the command line, the options of the
  manager and its servers, the synchronisation period of the environment, and the controllers
  and webhooks that are set up, one after the other, before the manager runs. The flags that
  the libraries register (logging, \<open>kubeconfig\<close>) and whether a call to controller-runtime succeeds
  are parameters; a failure ends the process.
\<close>

section \<open>The synchronisation period\<close>

text \<open>\<open>strconv.ParseInt(s, 10, 64)\<close>; every error of it has the same effect here.\<close>

definition digit_value :: "char \<Rightarrow> nat option" where
  "digit_value c = (let n = of_char c :: nat in if 48 \<le> n \<and> n \<le> 57 then Some (n - 48) else None)"

primrec digits_value :: "string \<Rightarrow> nat \<Rightarrow> nat option" where
  "digits_value [] n = Some n"
| "digits_value (c # cs) n = (case digit_value c of None \<Rightarrow> None | Some d \<Rightarrow> digits_value cs (10 * n + d))"

definition ParseInt64 :: "string \<Rightarrow> int option" where
  "ParseInt64 s =
     (let neg = (\<exists>cs. s = CHR ''-'' # cs);
          ds = (case s of [] \<Rightarrow> [] | c # cs \<Rightarrow> if c = CHR ''-'' \<or> c = CHR ''+'' then cs else s)
      in if ds = [] then None
         else case digits_value ds 0 of None \<Rightarrow> None
           | Some n \<Rightarrow> if neg then (if n \<le> 2 ^ 63 then Some (- int n) else None)
                       else (if n < 2 ^ 63 then Some (int n) else None))"

text \<open>The product of two 64-bit integers, which wraps around.\<close>

definition int64_times :: "int \<Rightarrow> int \<Rightarrow> int" where
  "int64_times a b = sint (word_of_int a * word_of_int b :: 64 word)"

definition sync_period :: "(string \<Rightarrow> string option) \<Rightarrow> int option" where
  "sync_period lookupEnv = (case lookupEnv ''SYNC_PERIOD_SECONDS'' of
      None \<Rightarrow> Some (36000 * Second)
    | Some s \<Rightarrow> if s = [] then Some (36000 * Second)
        else (case ParseInt64 s of None \<Rightarrow> None | Some n \<Rightarrow> Some (int64_times n Second)))"

section \<open>The flags\<close>

text \<open>
  Go's \<open>flag\<close> package: arguments up to the first that is no flag or to \<open>--\<close>, one or two dashes,
  values after \<open>=\<close> or, unless the flag is boolean, as the next argument. A library's flag is
  known by whether it is boolean and which values it accepts. An error ends the process with
  code 2, a request for help with code 0.
\<close>

record flag_values =
  metricsAddr :: string
  probeAddr :: string
  enableLeaderElection :: bool

definition default_flags :: flag_values where
  "default_flags = \<lparr>metricsAddr = '':8080'', probeAddr = '':8081'', enableLeaderElection = False\<rparr>"

definition ParseBool :: "string \<Rightarrow> bool option" where
  "ParseBool s =
     (if s \<in> {''1'', ''t'', ''T'', ''true'', ''TRUE'', ''True''} then Some True
      else if s \<in> {''0'', ''f'', ''F'', ''false'', ''FALSE'', ''False''} then Some False else None)"

type_synonym library_flags = "string \<Rightarrow> (bool \<times> (string \<Rightarrow> bool)) option"

definition is_bool_flag :: "library_flags \<Rightarrow> string \<Rightarrow> bool option" where
  "is_bool_flag lib name =
     (if name = ''leader-elect'' then Some True
      else if name \<in> {''metrics-bind-address'', ''health-probe-bind-address''} then Some False
      else map_option fst (lib name))"

definition set_flag :: "library_flags \<Rightarrow> string \<Rightarrow> string \<Rightarrow> flag_values \<Rightarrow> flag_values option" where
  "set_flag lib name v fl =
     (if name = ''leader-elect'' then map_option (\<lambda>b. fl\<lparr>enableLeaderElection := b\<rparr>) (ParseBool v)
      else if name = ''metrics-bind-address'' then Some (fl\<lparr>metricsAddr := v\<rparr>)
      else if name = ''health-probe-bind-address'' then Some (fl\<lparr>probeAddr := v\<rparr>)
      else case lib name of None \<Rightarrow> None | Some (b, accepts) \<Rightarrow> if accepts v then Some fl else None)"

text \<open>The name and the value of an argument without its dashes; \<open>None\<close> for bad syntax.\<close>

definition split_flag :: "string \<Rightarrow> (string \<times> string option) option" where
  "split_flag s = (case s of [] \<Rightarrow> None
    | c # cs \<Rightarrow> if c = CHR ''-'' \<or> c = CHR ''='' then None
        else Some (takeWhile (\<lambda>x. x \<noteq> CHR ''='') s, case dropWhile (\<lambda>x. x \<noteq> CHR ''='') s of [] \<Rightarrow> None | e # v \<Rightarrow> Some v))"

definition undash :: "string \<Rightarrow> string option" where
  "undash s = (case s of c # d # cs \<Rightarrow> if c \<noteq> CHR ''-'' then None else if d = CHR ''-'' then Some cs else Some (d # cs)
     | _ \<Rightarrow> None)"

fun flag_Parse :: "library_flags \<Rightarrow> flag_values \<Rightarrow> string list \<Rightarrow> int + flag_values" where
  "flag_Parse lib fl [] = Inr fl"
| "flag_Parse lib fl (s # args) =
     (case undash s of None \<Rightarrow> Inr fl
      | Some r \<Rightarrow>
        if s = ''--'' then Inr fl
        else (case split_flag r of None \<Rightarrow> Inl 2
          | Some (name, v) \<Rightarrow> (case is_bool_flag lib name of
              None \<Rightarrow> if name = ''help'' \<or> name = ''h'' then Inl 0 else Inl 2
            | Some b \<Rightarrow> (case (b, v, args) of
                (_, Some x, _) \<Rightarrow>
                  (case set_flag lib name x fl of None \<Rightarrow> Inl 2 | Some fl' \<Rightarrow> flag_Parse lib fl' args)
              | (True, None, _) \<Rightarrow>
                  (case set_flag lib name ''true'' fl of None \<Rightarrow> Inl 2 | Some fl' \<Rightarrow> flag_Parse lib fl' args)
              | (False, None, []) \<Rightarrow> Inl 2
              | (False, None, x # args') \<Rightarrow>
                  (case set_flag lib name x fl of None \<Rightarrow> Inl 2 | Some fl' \<Rightarrow> flag_Parse lib fl' args')))))"

section \<open>The options\<close>

record tls_config =
  NextProtos :: "string list"

definition disableHTTP2 :: "'a tls_config_scheme \<Rightarrow> 'a tls_config_scheme" where
  "disableHTTP2 c = c\<lparr>NextProtos := [''http/1.1'']\<rparr>"

text \<open>
  \<open>enableHTTP2\<close> and \<open>secureMetrics\<close> are variables of \<open>main\<close> that nothing assigns: they keep their
  zero value. The webhook server and the metrics server share the list of TLS options.
\<close>

definition tlsOpts :: "bool \<Rightarrow> ('a tls_config_scheme \<Rightarrow> 'a tls_config_scheme) list" where
  "tlsOpts enableHTTP2 = (if \<not> enableHTTP2 then [disableHTTP2] else [])"

record 'a manager_options =
  BindAddress :: string
  SecureServing :: bool
  metrics_TLSOpts :: "('a tls_config_scheme \<Rightarrow> 'a tls_config_scheme) list"
  webhook_TLSOpts :: "('a tls_config_scheme \<Rightarrow> 'a tls_config_scheme) list"
  HealthProbeBindAddress :: string
  LeaderElection :: bool
  LeaderElectionID :: string
  opt_SyncPeriod :: int

definition manager_options :: "flag_values \<Rightarrow> int \<Rightarrow> 'a manager_options" where
  "manager_options fl syncPeriod =
     (let enableHTTP2 = False; secureMetrics = False in
      \<lparr>BindAddress = metricsAddr fl, SecureServing = secureMetrics, metrics_TLSOpts = tlsOpts enableHTTP2,
       webhook_TLSOpts = tlsOpts enableHTTP2, HealthProbeBindAddress = probeAddr fl,
       LeaderElection = enableLeaderElection fl, LeaderElectionID = ''3d7d3a62.redhat.io'',
       opt_SyncPeriod = syncPeriod\<rparr>)"

section \<open>What is set up\<close>

datatype 'a main_step =
    NewManager "'a manager_options"
  | SetSyncPeriod int
  | SetupController string
  | SetupWebhook string
  | RegisterHandler string
  | AddHealthzCheck
  | AddReadyzCheck
  | StartManager

definition controllers :: "string list" where
  "controllers =
    [''KubernetesAuthEngineRole'', ''Policy'', ''DatabaseSecretEngineConfig'',
     ''DatabaseSecretEngineRole'', ''SecretEngineMount'', ''RandomSecret'', ''AuthEngineMount'',
     ''KubernetesAuthEngineConfig'', ''LDAPAuthEngineConfig'', ''LDAPAuthEngineGroup'',
     ''JWTOIDCAuthEngineConfig'', ''JWTOIDCAuthEngineRole'', ''AzureAuthEngineConfig'',
     ''AzureAuthEngineRole'', ''GCPAuthEngineConfig'', ''GCPAuthEngineRole'',
     ''CertAuthEngineConfig'', ''CertAuthEngineRole'', ''VaultSecret'', ''PasswordPolicy'',
     ''RabbitMQSecretEngineConfig'', ''RabbitMQSecretEngineRole'', ''PKISecretEngineConfig'',
     ''PKISecretEngineRole'', ''GitHubSecretEngineConfig'', ''GitHubSecretEngineRole'',
     ''AzureSecretEngineRole'', ''AzureSecretEngineConfig'', ''QuaySecretEngineConfig'',
     ''QuaySecretEngineRole'', ''QuaySecretEngineStaticRole'', ''KubernetesSecretEngineConfig'',
     ''KubernetesSecretEngineRole'', ''DatabaseSecretEngineStaticRole'', ''Group'', ''GroupAlias'']"

definition webhook_setups :: "'a main_step list" where
  "webhook_setups =
     map SetupWebhook
      [''RandomSecret'', ''SecretEngineMount'', ''DatabaseSecretEngineRole'',
       ''DatabaseSecretEngineConfig'', ''KubernetesAuthEngineRole'', ''AuthEngineMount'',
       ''KubernetesAuthEngineConfig'', ''LDAPAuthEngineConfig'', ''LDAPAuthEngineGroup'',
       ''JWTOIDCAuthEngineConfig'', ''JWTOIDCAuthEngineRole'', ''AzureAuthEngineConfig'',
       ''AzureAuthEngineRole'', ''GCPAuthEngineConfig'', ''GCPAuthEngineRole'',
       ''CertAuthEngineConfig'', ''CertAuthEngineRole'', ''VaultSecret'', ''PasswordPolicy'',
       ''Policy'', ''GitHubSecretEngineConfig'', ''GitHubSecretEngineRole'',
       ''AzureSecretEngineRole'', ''AzureSecretEngineConfig'', ''PKISecretEngineConfig'',
       ''PKISecretEngineRole'', ''RabbitMQSecretEngineRole'', ''QuaySecretEngineConfig'',
       ''QuaySecretEngineRole'', ''QuaySecretEngineStaticRole'', ''KubernetesSecretEngineConfig'',
       ''KubernetesSecretEngineRole''] @
     [RegisterHandler ''/validate-redhatcop-redhat-io-v1alpha1-rabbitmqsecretengineconfig''] @
     map SetupWebhook [''DatabaseSecretEngineStaticRole'', ''Group'', ''GroupAlias'']"

definition main_steps :: "(string \<Rightarrow> string option) \<Rightarrow> flag_values \<Rightarrow> int \<Rightarrow> 'a main_step list" where
  "main_steps lookupEnv fl period =
     [NewManager (manager_options fl period), SetSyncPeriod period] @ map SetupController controllers @
     (if lookupEnv ''ENABLE_WEBHOOKS'' \<noteq> Some ''false'' then webhook_setups else []) @
     [AddHealthzCheck, AddReadyzCheck, StartManager]"

text \<open>
  The steps made, and the exit code of the process, or \<open>None\<close> when \<open>main\<close> returned. Setting
  the period and registering a handler return nothing.
\<close>

definition succeeds :: "('a main_step \<Rightarrow> bool) \<Rightarrow> 'a main_step \<Rightarrow> bool" where
  "succeeds ok s \<longleftrightarrow> (case s of SetSyncPeriod p \<Rightarrow> True | RegisterHandler h \<Rightarrow> True | _ \<Rightarrow> ok s)"

fun run_steps :: "('a main_step \<Rightarrow> bool) \<Rightarrow> 'a main_step list \<Rightarrow> 'a main_step list \<times> int option" where
  "run_steps ok [] = ([], None)"
| "run_steps ok (s # ss) = (if ok s then (case run_steps ok ss of (tr, r) \<Rightarrow> (s # tr, r)) else ([s], Some 1))"

definition main :: "library_flags \<Rightarrow> string list \<Rightarrow> (string \<Rightarrow> string option) \<Rightarrow> ('a main_step \<Rightarrow> bool) \<Rightarrow>
     'a main_step list \<times> int option" where
  "main lib args lookupEnv ok = (case flag_Parse lib default_flags args of
      Inl code \<Rightarrow> ([], Some code)
    | Inr fl \<Rightarrow> (case sync_period lookupEnv of
        None \<Rightarrow> ([], Some 1) | Some period \<Rightarrow> run_steps (succeeds ok) (main_steps lookupEnv fl period)))"

section \<open>Properties\<close>

lemma digit_value_char: "d < 10 \<Longrightarrow> digit_value (digit_char d) = Some d"
  by (simp add: digit_value_def digit_char_def)

lemma digits_value_append:
  "digits_value (s @ t) n = (case digits_value s n of None \<Rightarrow> None | Some m \<Rightarrow> digits_value t m)"
  by (induction s arbitrary: n) (auto split: option.split)

lemma digits_value_nat_string: "digits_value (nat_string n) 0 = Some n"
proof (induction n rule: nat_string.induct)
  case (1 n)
  then show ?case by (subst nat_string.simps) (simp add: digits_value_append digit_value_char)
qed

lemma nat_string_hd: "\<exists>d cs. nat_string n = digit_char d # cs \<and> d < 10"
proof (induction n rule: nat_string.induct)
  case (1 n)
  show ?case
  proof (cases "n < 10")
    case True
    then show ?thesis by (subst nat_string.simps) auto
  next
    case False
    then obtain d cs where "nat_string (n div 10) = digit_char d # cs" "d < 10" using 1 by auto
    then show ?thesis using False by (subst nat_string.simps) auto
  qed
qed

lemma digit_char_no_sign: "d < 10 \<Longrightarrow> digit_char d \<noteq> CHR ''-'' \<and> digit_char d \<noteq> CHR ''+''"
proof -
  assume "d < 10"
  then have "digit_value (digit_char d) = Some d" by (rule digit_value_char)
  moreover have "digit_value (CHR ''-'') = None" "digit_value (CHR ''+'') = None"
    by (simp_all add: digit_value_def)
  ultimately show ?thesis by auto
qed

text \<open>Reading back what \<open>strconv.Itoa\<close> wrote.\<close>

lemma ParseInt64_int_string:
  assumes "- (2 ^ 63) \<le> n" and "n < 2 ^ 63"
  shows "ParseInt64 (int_string n) = Some n"
proof -
  obtain d cs where s: "nat_string (nat \<bar>n\<bar>) = digit_char d # cs" and d: "d < 10"
    using nat_string_hd by blast
  have v: "digits_value (digit_char d # cs) 0 = Some (nat \<bar>n\<bar>)"
    using digits_value_nat_string [of "nat \<bar>n\<bar>"] s by simp
  show ?thesis
  proof (cases "n < 0")
    case True
    then have "int_string n = CHR ''-'' # digit_char d # cs" using s by (simp add: int_string_def)
    then show ?thesis using v True assms by (simp add: ParseInt64_def Let_def del: digits_value.simps)
  next
    case False
    then have "int_string n = digit_char d # cs" using s by (simp add: int_string_def)
    then show ?thesis using v digit_char_no_sign [OF d] False assms
      by (simp add: ParseInt64_def Let_def del: digits_value.simps)
  qed
qed

lemma int64_times_Second:
  "int64_times n Second = n * Second \<longleftrightarrow> -9223372036 \<le> n \<and> n \<le> 9223372036"
proof -
  have "int64_times n Second = (n * Second + 2 ^ 63) mod 2 ^ 64 - 2 ^ 63"
    by (simp add: int64_times_def sint_uint signed_take_bit_eq_take_bit_shift take_bit_eq_mod uint_word_of_int
        mod_add_left_eq flip: of_int_mult)
  then have t: "int64_times n Second =
      (n * 1000000000 + 9223372036854775808) mod 18446744073709551616 - 9223372036854775808"
    by (simp add: Second_def)
  show ?thesis
  proof
    assume "int64_times n Second = n * Second"
    then have "(n * 1000000000 + 9223372036854775808) mod 18446744073709551616 = n * 1000000000 + 9223372036854775808"
      using t by (simp add: Second_def)
    then have "0 \<le> n * 1000000000 + 9223372036854775808" "n * 1000000000 + 9223372036854775808 < 18446744073709551616"
      by (metis pos_mod_sign pos_mod_bound zero_less_numeral)+
    then show "-9223372036 \<le> n \<and> n \<le> 9223372036" by linarith
  next
    assume "-9223372036 \<le> n \<and> n \<le> 9223372036"
    then have "(n * 1000000000 + 9223372036854775808) mod 18446744073709551616 = n * 1000000000 + 9223372036854775808"
      by (intro mod_pos_pos_trivial) linarith+
    then show "int64_times n Second = n * Second" using t by (simp add: Second_def)
  qed
qed

text \<open>
  A synchronisation period given as a decimal number of seconds that fits 64 bits is taken,
  and is exact precisely up to 9223372036 seconds either way; beyond, the product with a second
  wraps around, so that 9223372037 seconds become a negative period. Without the variable the
  period is ten hours.
\<close>

theorem sync_period_exact:
  assumes "lookupEnv ''SYNC_PERIOD_SECONDS'' = Some (int_string n)" and "- (2 ^ 63) \<le> n" and "n < 2 ^ 63"
    and "lookupEnv' ''SYNC_PERIOD_SECONDS'' = None"
  shows "sync_period lookupEnv = Some (int64_times n Second) \<and>
    (sync_period lookupEnv = Some (n * Second) \<longleftrightarrow> -9223372036 \<le> n \<and> n \<le> 9223372036) \<and>
    (n = 9223372037 \<longrightarrow> sync_period lookupEnv = Some (- 9223372036709551616)) \<and>
    sync_period lookupEnv' = Some DefaultSyncPeriod"
proof -
  obtain c cs where "int_string n = c # cs"
    using nat_string_hd [of "nat n"] by (cases "n < 0") (auto simp: int_string_def)
  then have p: "sync_period lookupEnv = Some (int64_times n Second)"
    using assms(1) ParseInt64_int_string [OF assms(2,3)] by (simp add: sync_period_def)
  have "int64_times 9223372037 Second = - 9223372036709551616"
    by (simp add: int64_times_def Second_def)
  then show ?thesis using p int64_times_Second [of n] assms(4)
    by (auto simp: sync_period_def DefaultSyncPeriod_def)
qed

theorem sync_period_exact_witness:
  "sync_period (\<lambda>_. Some (int_string 3600)) = Some 3600000000000 \<and>
   sync_period (\<lambda>_. Some (int_string 9223372037)) = Some (- 9223372036709551616)"
proof -
  have 1: "sync_period (\<lambda>_. Some (int_string 3600)) = Some (3600 * Second)"
    using sync_period_exact [of "\<lambda>_. Some (int_string 3600)" 3600 "\<lambda>_. None"]
    by (simp add: int64_times_def Second_def)
  have 2: "sync_period (\<lambda>_. Some (int_string 9223372037)) = Some (- 9223372036709551616)"
    using sync_period_exact [of "\<lambda>_. Some (int_string 9223372037)" 9223372037 "\<lambda>_. None"]
    by (simp add: int64_times_def Second_def)
  show ?thesis unfolding 1 2 by (simp add: Second_def)
qed

lemma run_steps_all: "run_steps ok ss = (tr, r) \<Longrightarrow> r = None \<longleftrightarrow> list_all ok ss"
  by (induction ss arbitrary: tr r) (auto split: if_splits prod.splits)

lemma run_steps_trace: "run_steps ok ss = (tr, r) \<Longrightarrow> \<exists>rest. ss = tr @ rest \<and> list_all ok (butlast tr) \<and> (r = None \<longrightarrow> rest = [])"
  by (induction ss arbitrary: tr r) (fastforce split: if_splits prod.splits)+

text \<open>
  The manager runs only after every step before it succeeded: the flags were parsed, the period
  was read and set before the first controller was set up, all thirty-six controllers were, and
  with them, unless switched off, the webhooks of exactly the same resources.
\<close>

theorem manager_starts_complete:
  fixes ok :: "'a main_step \<Rightarrow> bool"
  assumes "StartManager \<in> set (fst (main lib args lookupEnv ok))"
  shows "\<exists>fl period. flag_Parse lib default_flags args = Inr fl \<and> sync_period lookupEnv = Some period \<and>
    fst (main lib args lookupEnv ok) = main_steps lookupEnv fl period \<and>
    list_all (succeeds ok) (butlast (main_steps lookupEnv fl period))"
proof -
  obtain fl p where p: "flag_Parse lib default_flags args = Inr fl" "sync_period lookupEnv = Some p"
    using assms by (auto simp: main_def split: option.splits sum.splits)
  obtain tr r where run: "run_steps (succeeds ok) (main_steps lookupEnv fl p) = (tr, r)" by fastforce
  obtain rest where rest: "main_steps lookupEnv fl p = tr @ rest" "list_all (succeeds ok) (butlast tr)"
    using run_steps_trace [OF run] by blast
  have start: "StartManager \<in> set tr" using assms p run by (simp add: main_def)
  have "StartManager \<notin> set (butlast (main_steps lookupEnv fl p :: 'a main_step list))"
    by (auto simp: main_steps_def webhook_setups_def butlast_append)
  then have "rest = []"
    using start rest(1) by (auto simp: butlast_append split: if_splits)
  then show ?thesis using p run rest by (simp add: main_def)
qed

definition all_succeed :: "unit main_step \<Rightarrow> bool" where
  "all_succeed s = True"

theorem manager_starts_complete_witness:
  "StartManager \<in> set (fst (main (\<lambda>_. None) [''--leader-elect''] (\<lambda>_. None) all_succeed)) \<and>
   fst (main (\<lambda>_. None) [''--leader-elect''] (\<lambda>_. None) all_succeed) =
     main_steps (\<lambda>_. None) (default_flags\<lparr>enableLeaderElection := True\<rparr>) DefaultSyncPeriod"
proof -
  have s: "succeeds all_succeed s" for s by (simp add: succeeds_def all_succeed_def split: main_step.splits)
  have "run_steps (succeeds all_succeed) ss = (ss, None)" for ss
    by (induction ss) (simp_all add: s)
  moreover have flag: "flag_Parse (\<lambda>_. None) default_flags [''--leader-elect''] = Inr (default_flags\<lparr>enableLeaderElection := True\<rparr>)"
    by (simp add: undash_def split_flag_def is_bool_flag_def set_flag_def ParseBool_def)
  ultimately have "StartManager \<in> set (fst (main (\<lambda>_. None) [''--leader-elect''] (\<lambda>_. None) all_succeed))"
    by (simp add: main_def sync_period_def main_steps_def del: flag_Parse.simps run_steps.simps)
  then show ?thesis using flag manager_starts_complete [of "\<lambda>_. None" "[''--leader-elect'']" "\<lambda>_. None" all_succeed]
    by (auto simp: sync_period_def DefaultSyncPeriod_def simp del: flag_Parse.simps)
qed

text \<open>
  Whatever the arguments, both servers refuse HTTP/2 and the metrics are served without TLS: the
  variables that would change this are not bound to flags, and asking for the one that a comment
  names ends the process.
\<close>

lemma servers_without_http2:
  "NewManager opts \<in> set (fst (main lib args lookupEnv ok)) \<Longrightarrow>
     \<not> SecureServing opts \<and> NextProtos (fold (\<lambda>f. f) (webhook_TLSOpts opts) c) = [''http/1.1''] \<and>
     metrics_TLSOpts opts = webhook_TLSOpts opts"
proof -
  assume new: "NewManager opts \<in> set (fst (main lib args lookupEnv ok))"
  then obtain fl p where p: "flag_Parse lib default_flags args = Inr fl" "sync_period lookupEnv = Some p"
    by (auto simp: main_def split: option.splits sum.splits)
  obtain tr r where run: "run_steps (succeeds ok) (main_steps lookupEnv fl p) = (tr, r)" by fastforce
  then obtain rest where "main_steps lookupEnv fl p = tr @ rest" using run_steps_trace by blast
  then have "NewManager opts \<in> set (main_steps lookupEnv fl p)" using new p run by (auto simp: main_def)
  then have "opts = manager_options fl p"
    by (auto simp: main_steps_def webhook_setups_def split: if_splits)
  then show ?thesis by (simp add: manager_options_def tlsOpts_def disableHTTP2_def Let_def)
qed

lemma no_http2_flag:
  "lib ''enable-http2'' = None \<Longrightarrow> main lib (''--enable-http2'' # args) lookupEnv ok = ([], Some 2)"
  by (simp add: main_def undash_def split_flag_def is_bool_flag_def)

text \<open>Every resource with a controller has a webhook, and the other way round.\<close>

definition webhook_kind :: "'a main_step \<Rightarrow> string" where
  "webhook_kind s = (case s of SetupWebhook k \<Rightarrow> k | RegisterHandler p \<Rightarrow> ''RabbitMQSecretEngineConfig'' | _ \<Rightarrow> [])"

lemma controllers_and_webhooks:
  "length controllers = 36" "distinct controllers"
  "set controllers = set (map webhook_kind webhook_setups)" "distinct (map webhook_kind webhook_setups)"
  by (simp_all add: controllers_def webhook_setups_def webhook_kind_def insert_commute)

end
