(* ===== verification/Refinement.thy ===== *)
theory Refinement
  imports Resources
begin

text \<open>
  An abstract specification of the operator: Vault as a store, one payload per path, and a
  reconcile as one operation on the store, \<open>sync\<close>. The reconcile cycle of
  \<open>VaultResource\<close> refines it: seen through \<open>store_of\<close>, which reads the store off the calls
  made, the cycle and its calls, retries and status updates are exactly that one operation.
\<close>

section \<open>Reading a state off the calls\<close>

text \<open>
  A view of Vault: what the calls made so far amount to. Only writes and deletions change it, so
  the bookkeeping of a cycle (status, finalizers, requests to the API server) cannot be seen in
  it, and a cycle changes the view by its reconcile logic or by its clean-up.
\<close>

locale vault_view =
  fixes view :: "('s, 'x) object call list \<Rightarrow> 'v"
  assumes view_frame: "vault_mutation c = None \<Longrightarrow> view (tr @ [c]) = view tr"
begin

lemma view_frames: "list_all (\<lambda>c. vault_mutation c = None) cs \<Longrightarrow> view (tr @ cs) = view tr"
proof (induction cs rule: rev_induct)
  case (snoc c cs)
  then show ?case using view_frame [of c "tr @ cs"] by simp
qed simp

lemma emits_view:
  assumes "emits P m" and "\<And>c. P c \<Longrightarrow> vault_mutation c = None"
  shows "view (calls (snd (m w))) = view (calls w)"
proof (rule keepsE [OF assms(1), where w = w])
  fix cs
  assume "calls (snd (m w)) = calls w @ cs" "list_all P cs"
  then show ?thesis using assms(2) by (simp add: view_frames list_all_iff)
qed simp

lemma ManageOutcome_view: "view (calls (snd (ManageOutcome vo E issue w))) = view (calls w)"
  by (rule emits_view [OF emits_ManageOutcome]) (rule outcome_call_no_mutation)

lemma finalize_view:
  "view (calls (snd (bindG (modifyG g) (\<lambda>_. bindG (tryG (Update E)) (\<lambda>r. case r of
     Inl err \<Rightarrow> ManageOutcome (Some V) E (Some err) | Inr _ \<Rightarrow> retG \<lparr>RequeueAfter = 0\<rparr>)) w))) = view (calls w)"
proof (rule emits_view)
  show "emits kube_bookkeeping (bindG (modifyG g) (\<lambda>_. bindG (tryG (Update E)) (\<lambda>r. case r of
     Inl err \<Rightarrow> ManageOutcome (Some V) E (Some err) | Inr _ \<Rightarrow> retG \<lparr>RequeueAfter = 0\<rparr>)))"
    by (intro emits_intros emits_Update_bookkeeping emits_ManageOutcome_bookkeeping)
qed (rule bookkeeping_no_mutation)

text \<open>A deletion that clears something once and for all, made for every successful condition.\<close>

lemma delete_if_successful_view:
  assumes del: "\<And>w. inst w = d \<Longrightarrow> \<exists>w'. del w = (Ok (), w') \<and> inst w' = d \<and> view (calls w') = clear (view (calls w))"
    and idem: "\<And>s. clear (clear s) = clear s"
  shows "inst w = d \<Longrightarrow> \<exists>w'. delete_if_successful del cs w = (Ok (), w') \<and> inst w' = d \<and>
    view (calls w') = (if list_ex successful cs then clear (view (calls w)) else view (calls w))"
proof (induction cs arbitrary: w)
  case Nil
  then show ?case by (simp add: retG_def)
next
  case (Cons c cs)
  show ?case
  proof (cases "successful c")
    case True
    obtain w1 where w1: "del w = (Ok (), w1)" "inst w1 = d" "view (calls w1) = clear (view (calls w))"
      using del [OF Cons.prems] by blast
    have "\<exists>w2. delete_if_successful del cs w1 = (Ok (), w2) \<and> inst w2 = d \<and> view (calls w2) = clear (view (calls w))"
      using Cons.IH [OF w1(2)] w1(3) idem by (cases "list_ex successful cs") simp_all
    then show ?thesis using True w1 by (simp add: successful_def [symmetric] bindG_Ok)
  next
    case False
    then show ?thesis using Cons.IH [OF Cons.prems] by (simp add: successful_def [symmetric])
  qed
qed

lemma manageCleanUpLogic_view:
  assumes "\<And>w. inst w = d \<Longrightarrow> \<exists>w'. del w = (Ok (), w') \<and> inst w' = d \<and> view (calls w') = clear (view (calls w))"
    and "\<And>s. clear (clear s) = clear s" and "inst w = d"
  shows "\<exists>w'. manageCleanUpLogic V del w = (Ok (), w') \<and> inst w' = d \<and>
    view (calls w') = (if IsDeletable V d \<and> list_ex successful (GetConditions d)
      then clear (view (calls w)) else view (calls w))"
  using delete_if_successful_view [OF assms, of "GetConditions d"] assms(3)
  by (auto simp: manageCleanUpLogic_run)

text \<open>The whole cycle: one operation for a live object, one for a deleted one.\<close>

lemma live_cycle_view:
  "\<not> is_deleted (inst w) \<Longrightarrow> view (calls (snd (reconcile_cycle V E cleanUp logic w))) = view (calls (snd (logic w)))"
  by (auto simp: reconcile_cycle_def bindG_get tryG_run bindG_def [of "tryG _"] ManageOutcome_view
      split: prod.split res.split)

lemma deleted_cycle_view:
  assumes "is_deleted (inst w)"
    and "\<exists>w'. cleanUp w = (Ok (), w') \<and> inst w' = inst w \<and> view (calls w') = released"
  shows "view (calls (snd (reconcile_cycle V E cleanUp logic w))) =
    (if contains_finalizer E (inst w) (GetFinalizer (inst w)) then released else view (calls w))"
proof -
  obtain w' where w': "cleanUp w = (Ok (), w')" "inst w' = inst w" "view (calls w') = released"
    using assms(2) by blast
  show ?thesis
  proof (cases "contains_finalizer E (inst w) (GetFinalizer (inst w))")
    case False
    then show ?thesis using assms(1) by (simp add: reconcile_cycle_def bindG_get retG_def)
  next
    case fin: True
    have "reconcile_cycle V E cleanUp logic w =
      bindG (modifyG (\<lambda>instance. remove_finalizer E instance (GetFinalizer instance))) (\<lambda>_.
        bindG (tryG (Update E)) (\<lambda>r. case r of
          Inl err \<Rightarrow> ManageOutcome (Some V) E (Some err) | Inr _ \<Rightarrow> retG \<lparr>RequeueAfter = 0\<rparr>)) w'"
      using assms(1) fin w'(1) by (simp add: reconcile_cycle_def bindG_get tryG_run bindG_def [of "tryG cleanUp"])
    then show ?thesis using fin w'(3) by (simp add: finalize_view)
  qed
qed

end

section \<open>The store\<close>

type_synonym store = "string \<Rightarrow> gmap option"

definition store_of :: "'o call list \<Rightarrow> store" where
  "store_of tr = (\<lambda>p. stored p (rev tr))"

text \<open>What a reconcile means: remove the resource's entry, keep it, or put the payload.\<close>

definition ensure :: "(gmap \<Rightarrow> bool) \<Rightarrow> string \<Rightarrow> gmap \<Rightarrow> store \<Rightarrow> store" where
  "ensure good p payload s =
     (case s p of None \<Rightarrow> s(p \<mapsto> payload) | Some m \<Rightarrow> if good m then s else s(p \<mapsto> payload))"

definition sync ::
  "(gmap \<Rightarrow> gmap) \<Rightarrow> (('s, 'x) object, 'z) VaultObject_scheme \<Rightarrow> ('s, 'x) object env \<Rightarrow>
     ('s, 'x) object \<Rightarrow> store \<Rightarrow> store" where
  "sync f V E d s =
     (if \<not> is_deleted d
      then ensure (\<lambda>m. IsEquivalentToDesiredState V d (Some (f m))) (GetPath V d) (GetPayload V d) s
      else if contains_finalizer E d (GetFinalizer d) \<and> IsDeletable V d \<and> list_ex successful (GetConditions d)
      then s(GetPath V d := None) else s)"

text \<open>A key-value server at every path, whose deletions succeed.\<close>

definition store_server :: "(gmap \<Rightarrow> gmap) \<Rightarrow> 'o env \<Rightarrow> vault_client \<Rightarrow> bool" where
  "store_server f E cl \<longleftrightarrow> (\<forall>p. kv_server f E cl p) \<and> (\<forall>tr p. \<exists>s. vault_delete E tr cl p = Inr s)"

lemma store_of_append:
  "store_of (tr @ [VaultWrite cl p m]) = (store_of tr)(p := m)"
  "store_of (tr @ [VaultDelete cl p]) = (store_of tr)(p := None)"
  "vault_mutation c = None \<Longrightarrow> store_of (tr @ [c]) = store_of tr"
  by (auto simp: store_of_def fun_eq_iff) (cases c; simp)

interpretation store: vault_view store_of
  by unfold_locales (rule store_of_append(3))

section \<open>The steps of the cycle\<close>

lemma CreateOrUpdate_store:
  assumes "store_server f E cl"
  shows "\<exists>w'. CreateOrUpdate V E cl w = (Ok (), w') \<and> inst w' = inst w \<and> store_of (calls w') =
    ensure (\<lambda>m. IsEquivalentToDesiredState V (inst w) (Some (f m))) (GetPath V (inst w)) (GetPayload V (inst w))
      (store_of (calls w))"
proof -
  let ?p = "GetPath V (inst w)" and ?m = "GetPayload V (inst w)"
  let ?r = "calls w @ [VaultRead cl ?p]"
  have kv: "kv_server f E cl ?p" using assms by (simp add: store_server_def)
  then obtain s where s: "vault_write E ?r cl ?p (Some ?m) = Inr s"
    unfolding kv_server_def by blast
  have rd: "read_answer (vault_read E (calls w) cl ?p) = (case stored ?p (rev (calls w)) of
         None \<Rightarrow> Ok (None, False) | Some m \<Rightarrow> Ok (Some (f m), True))"
    using kv by (simp add: kv_server_def)
  have upd: "store_of (calls w @ [VaultRead cl ?p, VaultWrite cl ?p (Some ?m)]) = (store_of (calls w))(?p \<mapsto> ?m)"
    using store_of_append(1) [of ?r] store_of_append(3) [of "VaultRead cl ?p" "calls w"] by simp
  show ?thesis
    using rd s store_of_append(3) [of "VaultRead cl ?p" "calls w"]
    by (cases "stored ?p (rev (calls w))")
      (auto simp: CreateOrUpdate_run Let_def writePayload_run ensure_def upd, simp_all add: store_of_def)
qed

lemma DeleteIfExists_store:
  assumes "store_server f E cl"
  shows "\<exists>w'. DeleteIfExists V E cl w = (Ok (), w') \<and> inst w' = inst w \<and>
    store_of (calls w') = (store_of (calls w))(GetPath V (inst w) := None)"
proof -
  obtain s where "vault_delete E (calls w) cl (GetPath V (inst w)) = Inr s"
    using assms unfolding store_server_def by blast
  then show ?thesis by (simp add: DeleteIfExists_run delete_path_run store_of_append)
qed

section \<open>The refinement\<close>

lemma deleted_cycle_store:
  assumes "store_server f E cl" and "is_deleted (inst w)"
  shows "store_of (calls (snd (reconcile_cycle V E (manageCleanUpLogic V (DeleteIfExists V E cl)) logic w))) =
    sync f V E (inst w) (store_of (calls w))"
proof -
  let ?d = "inst w" and ?clear = "\<lambda>s :: store. s(GetPath V (inst w) := None)"
  let ?clean = "manageCleanUpLogic V (DeleteIfExists V E cl)"
  have clean: "\<exists>w'. ?clean w = (Ok (), w') \<and> inst w' = ?d \<and>
      store_of (calls w') = (if IsDeletable V ?d \<and> list_ex successful (GetConditions ?d)
        then ?clear (store_of (calls w)) else store_of (calls w))"
    by (rule store.manageCleanUpLogic_view)
      (use DeleteIfExists_store [OF assms(1)] in force, simp_all add: fun_eq_iff)
  show ?thesis
    unfolding store.deleted_cycle_view [where w = w and cleanUp = ?clean, OF assms(2) clean]
    using assms(2) by (simp add: sync_def)
qed

lemma reconcile_cycle_store:
  assumes "store_server f E cl"
    and logic: "\<exists>w'. logic w = (Ok (), w') \<and> store_of (calls w') =
      ensure (\<lambda>m. IsEquivalentToDesiredState V (inst w) (Some (f m))) (GetPath V (inst w)) (GetPayload V (inst w))
        (store_of (calls w))"
  shows "store_of (calls (snd (reconcile_cycle V E (manageCleanUpLogic V (DeleteIfExists V E cl)) logic w))) =
    sync f V E (inst w) (store_of (calls w))"
proof (cases "is_deleted (inst w)")
  case False
  obtain w' where "logic w = (Ok (), w')" "store_of (calls w') =
      ensure (\<lambda>m. IsEquivalentToDesiredState V (inst w) (Some (f m))) (GetPath V (inst w)) (GetPayload V (inst w))
        (store_of (calls w))"
    using logic by blast
  then show ?thesis using False store.live_cycle_view [OF False, where logic = logic] by (simp add: sync_def)
qed (rule deleted_cycle_store [OF assms(1)])

text \<open>
  Refinement: for a resource that needs no preparation, on a key-value Vault, one run of
  \<open>VaultResource.Reconcile\<close> changes the store exactly as \<open>sync\<close> says. A live resource's
  path holds afterwards an equivalent entry or the desired payload; a deleted one that had
  been reconciled has its entry removed; every other path is as before. This holds whatever
  the API server answers to the updates of status and finalizer.
\<close>

theorem VaultResource_refines_store:
  assumes "store_server f E cl"
    and "PrepareInternalValues V = (\<lambda>E cl. retG ())" and "PrepareTLSConfig V = (\<lambda>E cl. retG ())"
  shows "store_of (calls (snd (VaultResource_Reconcile V E cl w))) = sync f V E (inst w) (store_of (calls w))"
  unfolding VaultResource_Reconcile_def
  using CreateOrUpdate_store [OF assms(1), of V w]
  by (intro reconcile_cycle_store [OF assms(1)]) (auto simp: VaultResource_manageReconcileLogic_def assms(2,3))

section \<open>Witnesses\<close>

lemma sample_store_server: "store_server (\<lambda>m. m) sample_env cl"
  by (simp add: store_server_def)

definition sample_group :: LDAPAuthEngineGroup where
  "sample_group =
     \<lparr>TypeKind = ''LDAPAuthEngineGroup'', Meta = sample_meta ''devs'',
      Spec = \<lparr>Connection = None, Authentication = sample_auth, Name = ''devs'', Path = ''ldap'', lag_Policies = ''reader''\<rparr>,
      Status = \<lparr>Conditions = []\<rparr>\<rparr>"

theorem VaultResource_refines_store_witness:
  "store_of (calls (snd (VaultResource_Reconcile LDAPAuthEngineGroup_VaultObject sample_env sample_client
     (start_world sample_group)))) ''auth/ldap/groups/devs'' =
   Some (fmap_of_list [(''name'', VStr ''devs''), (''policies'', VStr ''reader'')])"
  using VaultResource_refines_store [OF sample_store_server, of LDAPAuthEngineGroup_VaultObject sample_client
      "start_world sample_group"]
  by (simp add: LDAPAuthEngineGroup_VaultObject_def sync_def ensure_def store_of_def LDAPAuthEngineGroup_GetPath_def
      LDAPAuthEngineGroup_GetPayload_def LDAPAuthEngineGroup_toMap_def is_deleted_def sample_group_def sample_meta_def
      CleansePath_def Trim_def)

end
