(* ===== verification/Convergence.thy ===== *)
theory Convergence
  imports Refinement
begin

text \<open>
  Many resources on one Vault server. The controllers reconcile resources in the order in
  which the work queue hands them out, some of them again after a requeue, a status update or
  the synchronisation period. What such a schedule leaves in Vault is derived from
  the operation on the store that a reconcile refines: operations on different paths commute
  and each is idempotent, so with one resource per path every schedule ends in the
  same store, and two live resources that share a path undo each other for ever.
\<close>

section \<open>Operations that act on a path of their own\<close>

text \<open>
  The interface: \<open>act d\<close> changes the store only at \<open>path d\<close>, what it puts there depends only on
  what was there, and doing it twice is doing it once.
\<close>

locale path_local =
  fixes path :: "'d \<Rightarrow> 'p" and act :: "'d \<Rightarrow> ('p \<Rightarrow> 'v) \<Rightarrow> 'p \<Rightarrow> 'v"
  assumes act_frame: "q \<noteq> path d \<Longrightarrow> act d s q = s q"
    and act_local: "s (path d) = s' (path d) \<Longrightarrow> act d s (path d) = act d s' (path d)"
    and act_idem: "act d (act d s) = act d s"
begin

text \<open>After a schedule, a path holds what its own resource makes of what it held before.\<close>

lemma fold_frame: "q \<notin> path ` set ds \<Longrightarrow> fold act ds s q = s q"
  by (induction ds arbitrary: s) (auto simp: act_frame)

lemma fold_at:
  assumes "inj_on path (set ds)" and "d \<in> set ds"
  shows "fold act ds s (path d) = act d s (path d)"
  using assms
proof (induction ds arbitrary: s)
  case (Cons x ds)
  have inj: "inj_on path (set ds)" using Cons.prems(1) by (simp add: inj_on_def)
  show ?case
  proof (cases "path x = path d")
    case True
    then have x: "x = d" using Cons.prems by (auto dest: inj_onD)
    show ?thesis
    proof (cases "d \<in> set ds")
      case True
      then show ?thesis using Cons.IH [OF inj, of "act d s"] by (simp add: x act_idem)
    next
      case False
      then have "path d \<notin> path ` set ds" using Cons.prems(1) by (auto simp: x)
      then show ?thesis by (simp add: x fold_frame)
    qed
  next
    case False
    then have d: "d \<in> set ds" using Cons.prems(2) by auto
    have "act x s (path d) = s (path d)" using False by (intro act_frame) simp
    then have "act d (act x s) (path d) = act d s (path d)" by (rule act_local)
    then show ?thesis using Cons.IH [OF inj d, of "act x s"] by simp
  qed
qed simp

lemma fold_order_irrelevant:
  assumes "inj_on path (set ds)" and "set es = set ds"
  shows "fold act es s = fold act ds s"
proof
  fix q
  show "fold act es s q = fold act ds s q"
  proof (cases "q \<in> path ` set ds")
    case True
    then obtain d where "d \<in> set ds" "q = path d" by blast
    then show ?thesis using assms fold_at [of ds d] fold_at [of es d] by simp
  next
    case False
    then show ?thesis using assms(2) by (simp add: fold_frame)
  qed
qed

end

section \<open>What a resource asks of the store\<close>

text \<open>
  The demand of a resource, read off its spec, metadata and status: to leave its path, to
  remove the entry, or to put a payload there unless the entry is already good.
\<close>

datatype demand = Leave string | Remove string | Put string "gmap \<Rightarrow> bool" gmap

fun demand_path :: "demand \<Rightarrow> string" where
  "demand_path (Leave p) = p"
| "demand_path (Remove p) = p"
| "demand_path (Put p good payload) = p"

fun meet :: "demand \<Rightarrow> store \<Rightarrow> store" where
  "meet (Leave p) s = s"
| "meet (Remove p) s = s(p := None)"
| "meet (Put p good payload) s = ensure good p payload s"

fun met :: "demand \<Rightarrow> store \<Rightarrow> bool" where
  "met (Leave p) s \<longleftrightarrow> True"
| "met (Remove p) s \<longleftrightarrow> s p = None"
| "met (Put p good payload) s \<longleftrightarrow> (\<exists>m. s p = Some m \<and> (good m \<or> m = payload))"

definition demand_of ::
  "(gmap \<Rightarrow> gmap) \<Rightarrow> (('s, 'x) object, 'z) VaultObject_scheme \<Rightarrow> ('s, 'x) object env \<Rightarrow>
     ('s, 'x) object \<Rightarrow> demand" where
  "demand_of f V E d =
     (if \<not> is_deleted d then Put (GetPath V d) (\<lambda>m. IsEquivalentToDesiredState V d (Some (f m))) (GetPayload V d)
      else if contains_finalizer E d (GetFinalizer d) \<and> IsDeletable V d \<and> list_ex successful (GetConditions d)
      then Remove (GetPath V d) else Leave (GetPath V d))"

lemma sync_meet: "sync f V E d s = meet (demand_of f V E d) s"
  by (simp add: sync_def demand_of_def)

lemma demand_path_of [simp]: "demand_path (demand_of f V E d) = GetPath V d"
  by (simp add: demand_of_def)

lemma ensure_at: "ensure good p payload s q =
    (if q = p then (case s p of None \<Rightarrow> Some payload | Some m \<Rightarrow> if good m then Some m else Some payload) else s q)"
  by (simp add: ensure_def split: option.split)

interpretation demands: path_local demand_path meet
proof
  fix q d s
  assume "q \<noteq> demand_path d"
  then show "meet d s q = s q" by (cases d) (simp_all add: ensure_at)
next
  fix s s' :: store and d
  assume "s (demand_path d) = s' (demand_path d)"
  then show "meet d s (demand_path d) = meet d s' (demand_path d)" by (cases d) (simp_all add: ensure_at)
next
  fix d s
  show "meet d (meet d s) = meet d s"
    by (cases d) (auto simp: ensure_at fun_eq_iff split: option.split)
qed

lemma meet_met: "met d (meet d s)"
  by (cases d) (auto simp: ensure_at split: option.split)

lemma met_cong: "s (demand_path d) = s' (demand_path d) \<Longrightarrow> met d s = met d s'"
  by (cases d) simp_all

lemma schedule_met:
  assumes "inj_on demand_path (set ds)" and "d \<in> set ds"
  shows "met d (fold meet ds s)"
  using met_cong [where d = d and s = "fold meet ds s" and s' = "meet d s", OF demands.fold_at [OF assms]]
  by (simp add: meet_met)

section \<open>Turns\<close>

text \<open>
  A schedule mixes resources of several kinds, whose reconciles make calls of different types.
  What they share is the Vault server, so between two reconciles the log keeps the writes and
  deletions, and \<open>turn\<close> is one reconcile seen as a step on that log.
\<close>

type_synonym vault_log = "unit call list"

fun vault_entry :: "'a call \<Rightarrow> 'b call option" where
  "vault_entry (VaultWrite cl p m) = Some (VaultWrite cl p m)"
| "vault_entry (VaultDelete cl p) = Some (VaultDelete cl p)"
| "vault_entry c = None"

definition replay :: "'a call list \<Rightarrow> 'b call list" where
  "replay tr = List.map_filter vault_entry tr"

lemma replay_simps [simp]:
  "replay [] = []"
  "replay (c # tr) = (case vault_entry c of None \<Rightarrow> replay tr | Some c' \<Rightarrow> c' # replay tr)"
  by (simp_all add: replay_def split: option.split)

lemma replay_append: "replay (tr @ tr') = replay tr @ replay tr'"
  by (induction tr) (simp_all split: option.split)

lemma store_of_replay [simp]: "store_of (replay tr) = store_of tr"
proof (induction tr rule: rev_induct)
  case (snoc c tr)
  then show ?case
    by (cases c) (simp_all add: replay_append store_of_def fun_eq_iff)
qed (simp add: store_of_def)

definition turn ::
  "(('s, 'x) object, 'z) VaultObject_scheme \<Rightarrow> ('s, 'x) object env \<Rightarrow> vault_client \<Rightarrow>
     ('s, 'x) object \<Rightarrow> vault_log \<Rightarrow> vault_log" where
  "turn V E cl d h =
     replay (calls (snd (VaultResource_Reconcile V E cl \<lparr>inst = d, calls = replay h, client_cache = fmempty\<rparr>)))"

text \<open>A turn that does to the store what a demand says.\<close>

definition turn_meets :: "(vault_log \<Rightarrow> vault_log) \<Rightarrow> demand \<Rightarrow> bool" where
  "turn_meets t d \<longleftrightarrow> (\<forall>h. store_of (t h) = meet d (store_of h))"

text \<open>A kind that sends its spec as it is, without preparing anything.\<close>

definition plain_kind :: "(('s, 'x) object, 'z) VaultObject_scheme \<Rightarrow> bool" where
  "plain_kind V \<longleftrightarrow> PrepareInternalValues V = (\<lambda>E cl. retG ()) \<and> PrepareTLSConfig V = (\<lambda>E cl. retG ())"

lemma reconcile_meets:
  assumes "store_server f E cl" and "plain_kind V"
  shows "store_of (calls (snd (VaultResource_Reconcile V E cl w))) =
    meet (demand_of f V E (inst w)) (store_of (calls w))"
  unfolding VaultResource_Reconcile_def sync_meet [symmetric]
  using CreateOrUpdate_store [OF assms(1), of V w] assms(2)
  by (intro reconcile_cycle_store [OF assms(1)]) (auto simp: VaultResource_manageReconcileLogic_def plain_kind_def)

text \<open>
  Any kind whose preparation only asks. What it demands depends on what the preparation finds:
  the prepared object, or nothing when it fails.
\<close>

definition prepared ::
  "(('s, 'x) object, 'z) VaultObject_scheme \<Rightarrow> ('s, 'x) object env \<Rightarrow> vault_client \<Rightarrow>
     ('s, 'x) object world \<Rightarrow> ('s, 'x) object option" where
  "prepared V E cl w = (case bindG (PrepareInternalValues V E cl) (\<lambda>_. PrepareTLSConfig V E cl) w of
      (Ok x, w') \<Rightarrow> Some (inst w') | (_, w') \<Rightarrow> None)"

definition demand_at ::
  "(gmap \<Rightarrow> gmap) \<Rightarrow> (('s, 'x) object, 'z) VaultObject_scheme \<Rightarrow> ('s, 'x) object env \<Rightarrow> vault_client \<Rightarrow>
     ('s, 'x) object world \<Rightarrow> demand" where
  "demand_at f V E cl w =
     (let d = inst w in
      if is_deleted d then demand_of f V E d
      else (case prepared V E cl w of None \<Rightarrow> Leave (GetPath V d) | Some d' \<Rightarrow> demand_of f V E d'))"

lemma demand_at_plain: "plain_kind V \<Longrightarrow> demand_at f V E cl w = demand_of f V E (inst w)"
  by (simp add: demand_at_def prepared_def plain_kind_def bindG_ret go_runs Let_def)

lemma prepare_frame:
  assumes "vault_object V"
  shows "object_view V (inst (snd (bindG (PrepareInternalValues V E cl) (\<lambda>_. PrepareTLSConfig V E cl) w))) = object_view V (inst w)"
    and "store_of (calls (snd (bindG (PrepareInternalValues V E cl) (\<lambda>_. PrepareTLSConfig V E cl) w))) = store_of (calls w)"
proof -
  let ?p = "bindG (PrepareInternalValues V E cl) (\<lambda>_. PrepareTLSConfig V E cl)"
  have "keeps (\<lambda>d. object_view V d = object_view V (inst w)) is_query ?p"
    by (intro keeps_bind vault_object.prepare_view vault_object.prepare_tls_view assms)
  then obtain cs where cs: "calls (snd (?p w)) = calls w @ cs" "list_all is_query cs"
      "object_view V (inst (snd (?p w))) = object_view V (inst w)"
    by (rule keepsE [where w = w]) auto
  show "object_view V (inst (snd (?p w))) = object_view V (inst w)" by (rule cs(3))
  have "list_all (\<lambda>c. vault_mutation c = None) cs" using cs(2) by (simp add: list_all_iff is_query_no_mutation)
  then show "store_of (calls (snd (?p w))) = store_of (calls w)" by (simp add: cs(1) store.view_frames)
qed

lemma prepared_view:
  assumes "vault_object V" and "prepared V E cl w = Some d"
  shows "GetPath V d = GetPath V (inst w)" and "is_deleted d = is_deleted (inst w)"
  using prepare_frame(1) [OF assms(1), of E cl w] assms(2)
  by (auto simp: prepared_def object_view_def is_deleted_def split: prod.splits res.splits)

lemma demand_at_path [simp]: "vault_object V \<Longrightarrow> demand_path (demand_at f V E cl w) = GetPath V (inst w)"
  by (simp add: demand_at_def Let_def prepared_view split: option.split)

text \<open>
  A cycle of such a kind: what it does to the store is the demand of the object as prepared.
\<close>

lemma prepared_cycle_meets:
  assumes "store_server f E cl" and "vault_object V"
  shows "store_of (calls (snd (VaultResource_Reconcile V E cl w))) = meet (demand_at f V E cl w) (store_of (calls w))"
proof (cases "is_deleted (inst w)")
  case True
  then show ?thesis
    using deleted_cycle_store [OF assms(1) True]
    by (simp add: VaultResource_Reconcile_def demand_at_def sync_meet)
next
  case False
  let ?p = "bindG (PrepareInternalValues V E cl) (\<lambda>_. PrepareTLSConfig V E cl)"
  obtain r w' where run: "?p w = (r, w')" by fastforce
  have same: "store_of (calls w') = store_of (calls w)" using prepare_frame(2) [OF assms(2), of E cl w] by (simp add: run)
  have logic: "VaultResource_manageReconcileLogic V E cl = bindG ?p (\<lambda>_. CreateOrUpdate V E cl)"
    by (simp add: VaultResource_manageReconcileLogic_def bindG_assoc)
  have "store_of (calls (snd (bindG ?p (\<lambda>_. CreateOrUpdate V E cl) w))) = meet (demand_at f V E cl w) (store_of (calls w))"
  proof (cases r)
    case (Ok x)
    then have p: "prepared V E cl w = Some (inst w')" by (simp add: prepared_def run)
    obtain w2 where "CreateOrUpdate V E cl w' = (Ok (), w2)" "store_of (calls w2) =
        ensure (\<lambda>m. IsEquivalentToDesiredState V (inst w') (Some (f m))) (GetPath V (inst w')) (GetPayload V (inst w'))
          (store_of (calls w'))"
      using CreateOrUpdate_store [OF assms(1), of V w'] by blast
    then show ?thesis
      using False prepared_view(2) [OF assms(2) p] run Ok p same
      by (simp add: bindG_def [of ?p] demand_at_def demand_of_def)
  qed (use False run same in \<open>simp_all add: bindG_def [of ?p] demand_at_def prepared_def\<close>)
  then show ?thesis by (simp add: VaultResource_Reconcile_def store.live_cycle_view [OF False] logic)
qed

lemma turn_meets_demand:
  assumes "store_server f E cl" and "plain_kind V"
  shows "turn_meets (turn V E cl d) (demand_of f V E d)"
  by (simp add: turn_meets_def turn_def reconcile_meets [OF assms])

lemma plain_kinds:
  "plain_kind JWTOIDCAuthEngineRole_VaultObject" "plain_kind AzureAuthEngineRole_VaultObject"
  "plain_kind GCPAuthEngineRole_VaultObject" "plain_kind CertAuthEngineRole_VaultObject"
  "plain_kind CertAuthEngineConfig_VaultObject" "plain_kind LDAPAuthEngineGroup_VaultObject"
  "plain_kind Group_VaultObject" "plain_kind PasswordPolicy_VaultObject"
  "plain_kind RabbitMQSecretEngineRole_VaultObject" "plain_kind DatabaseSecretEngineRole_VaultObject"
  "plain_kind DatabaseSecretEngineStaticRole_VaultObject" "plain_kind KubernetesSecretEngineRole_VaultObject"
  "plain_kind PKISecretEngineRole_VaultObject" "plain_kind GitHubSecretEngineRole_VaultObject"
  "plain_kind AzureSecretEngineRole_VaultObject" "plain_kind QuaySecretEngineRole_VaultObject"
  "plain_kind QuaySecretEngineStaticRole_VaultObject"
  by (simp_all add: plain_kind_def JWTOIDCAuthEngineRole_VaultObject_def AzureAuthEngineRole_VaultObject_def
      GCPAuthEngineRole_VaultObject_def CertAuthEngineRole_VaultObject_def CertAuthEngineConfig_VaultObject_def
      LDAPAuthEngineGroup_VaultObject_def Group_VaultObject_def PasswordPolicy_VaultObject_def
      RabbitMQSecretEngineRole_VaultObject_def DatabaseSecretEngineRole_VaultObject_def
      DatabaseSecretEngineStaticRole_VaultObject_def KubernetesSecretEngineRole_VaultObject_def
      PKISecretEngineRole_VaultObject_def GitHubSecretEngineRole_VaultObject_def
      AzureSecretEngineRole_VaultObject_def QuaySecretEngineRole_VaultObject_def
      QuaySecretEngineStaticRole_VaultObject_def)

section \<open>The operator\<close>

text \<open>
  The resources of the kinds that send their spec as it is, each with what its controller sees
  of the outside. A schedule lists resources of all these kinds in the order of their
  reconciles, each with the client that was made for it.
\<close>

datatype resource =
    a_JWTOIDCAuthEngineRole JWTOIDCAuthEngineRole
  | a_AzureAuthEngineRole AzureAuthEngineRole
  | a_GCPAuthEngineRole GCPAuthEngineRole
  | a_CertAuthEngineRole CertAuthEngineRole
  | a_CertAuthEngineConfig CertAuthEngineConfig
  | a_LDAPAuthEngineGroup LDAPAuthEngineGroup
  | a_Group Group
  | a_PasswordPolicy PasswordPolicy
  | a_RabbitMQSecretEngineRole RabbitMQSecretEngineRole
  | a_DatabaseSecretEngineRole DatabaseSecretEngineRole
  | a_DatabaseSecretEngineStaticRole DatabaseSecretEngineStaticRole
  | a_KubernetesSecretEngineRole KubernetesSecretEngineRole
  | a_PKISecretEngineRole PKISecretEngineRole
  | a_GitHubSecretEngineRole GitHubSecretEngineRole
  | a_AzureSecretEngineRole AzureSecretEngineRole
  | a_QuaySecretEngineRole QuaySecretEngineRole
  | a_QuaySecretEngineStaticRole QuaySecretEngineStaticRole

record services =
  for_JWTOIDCAuthEngineRole :: "JWTOIDCAuthEngineRole env"
  for_AzureAuthEngineRole :: "AzureAuthEngineRole env"
  for_GCPAuthEngineRole :: "GCPAuthEngineRole env"
  for_CertAuthEngineRole :: "CertAuthEngineRole env"
  for_CertAuthEngineConfig :: "CertAuthEngineConfig env"
  for_LDAPAuthEngineGroup :: "LDAPAuthEngineGroup env"
  for_Group :: "Group env"
  for_PasswordPolicy :: "PasswordPolicy env"
  for_RabbitMQSecretEngineRole :: "RabbitMQSecretEngineRole env"
  for_DatabaseSecretEngineRole :: "DatabaseSecretEngineRole env"
  for_DatabaseSecretEngineStaticRole :: "DatabaseSecretEngineStaticRole env"
  for_KubernetesSecretEngineRole :: "KubernetesSecretEngineRole env"
  for_PKISecretEngineRole :: "PKISecretEngineRole env"
  for_GitHubSecretEngineRole :: "GitHubSecretEngineRole env"
  for_AzureSecretEngineRole :: "AzureSecretEngineRole env"
  for_QuaySecretEngineRole :: "QuaySecretEngineRole env"
  for_QuaySecretEngineStaticRole :: "QuaySecretEngineStaticRole env"

definition resource_demand :: "(gmap \<Rightarrow> gmap) \<Rightarrow> services \<Rightarrow> vault_client \<times> resource \<Rightarrow> demand" where
  "resource_demand f S r = (case r of (cl, d) \<Rightarrow> (case d of
     a_JWTOIDCAuthEngineRole x \<Rightarrow> demand_of f JWTOIDCAuthEngineRole_VaultObject (for_JWTOIDCAuthEngineRole S) x
   | a_AzureAuthEngineRole x \<Rightarrow> demand_of f AzureAuthEngineRole_VaultObject (for_AzureAuthEngineRole S) x
   | a_GCPAuthEngineRole x \<Rightarrow> demand_of f GCPAuthEngineRole_VaultObject (for_GCPAuthEngineRole S) x
   | a_CertAuthEngineRole x \<Rightarrow> demand_of f CertAuthEngineRole_VaultObject (for_CertAuthEngineRole S) x
   | a_CertAuthEngineConfig x \<Rightarrow> demand_of f CertAuthEngineConfig_VaultObject (for_CertAuthEngineConfig S) x
   | a_LDAPAuthEngineGroup x \<Rightarrow> demand_of f LDAPAuthEngineGroup_VaultObject (for_LDAPAuthEngineGroup S) x
   | a_Group x \<Rightarrow> demand_of f Group_VaultObject (for_Group S) x
   | a_PasswordPolicy x \<Rightarrow> demand_of f PasswordPolicy_VaultObject (for_PasswordPolicy S) x
   | a_RabbitMQSecretEngineRole x \<Rightarrow> demand_of f RabbitMQSecretEngineRole_VaultObject (for_RabbitMQSecretEngineRole S) x
   | a_DatabaseSecretEngineRole x \<Rightarrow> demand_of f DatabaseSecretEngineRole_VaultObject (for_DatabaseSecretEngineRole S) x
   | a_DatabaseSecretEngineStaticRole x \<Rightarrow> demand_of f DatabaseSecretEngineStaticRole_VaultObject (for_DatabaseSecretEngineStaticRole S) x
   | a_KubernetesSecretEngineRole x \<Rightarrow> demand_of f KubernetesSecretEngineRole_VaultObject (for_KubernetesSecretEngineRole S) x
   | a_PKISecretEngineRole x \<Rightarrow> demand_of f PKISecretEngineRole_VaultObject (for_PKISecretEngineRole S) x
   | a_GitHubSecretEngineRole x \<Rightarrow> demand_of f GitHubSecretEngineRole_VaultObject (for_GitHubSecretEngineRole S) x
   | a_AzureSecretEngineRole x \<Rightarrow> demand_of f AzureSecretEngineRole_VaultObject (for_AzureSecretEngineRole S) x
   | a_QuaySecretEngineRole x \<Rightarrow> demand_of f QuaySecretEngineRole_VaultObject (for_QuaySecretEngineRole S) x
   | a_QuaySecretEngineStaticRole x \<Rightarrow> demand_of f QuaySecretEngineStaticRole_VaultObject (for_QuaySecretEngineStaticRole S) x))"

definition resource_reconcile :: "services \<Rightarrow> vault_client \<times> resource \<Rightarrow> vault_log \<Rightarrow> vault_log" where
  "resource_reconcile S r = (case r of (cl, d) \<Rightarrow> (case d of
     a_JWTOIDCAuthEngineRole x \<Rightarrow> turn JWTOIDCAuthEngineRole_VaultObject (for_JWTOIDCAuthEngineRole S) cl x
   | a_AzureAuthEngineRole x \<Rightarrow> turn AzureAuthEngineRole_VaultObject (for_AzureAuthEngineRole S) cl x
   | a_GCPAuthEngineRole x \<Rightarrow> turn GCPAuthEngineRole_VaultObject (for_GCPAuthEngineRole S) cl x
   | a_CertAuthEngineRole x \<Rightarrow> turn CertAuthEngineRole_VaultObject (for_CertAuthEngineRole S) cl x
   | a_CertAuthEngineConfig x \<Rightarrow> turn CertAuthEngineConfig_VaultObject (for_CertAuthEngineConfig S) cl x
   | a_LDAPAuthEngineGroup x \<Rightarrow> turn LDAPAuthEngineGroup_VaultObject (for_LDAPAuthEngineGroup S) cl x
   | a_Group x \<Rightarrow> turn Group_VaultObject (for_Group S) cl x
   | a_PasswordPolicy x \<Rightarrow> turn PasswordPolicy_VaultObject (for_PasswordPolicy S) cl x
   | a_RabbitMQSecretEngineRole x \<Rightarrow> turn RabbitMQSecretEngineRole_VaultObject (for_RabbitMQSecretEngineRole S) cl x
   | a_DatabaseSecretEngineRole x \<Rightarrow> turn DatabaseSecretEngineRole_VaultObject (for_DatabaseSecretEngineRole S) cl x
   | a_DatabaseSecretEngineStaticRole x \<Rightarrow> turn DatabaseSecretEngineStaticRole_VaultObject (for_DatabaseSecretEngineStaticRole S) cl x
   | a_KubernetesSecretEngineRole x \<Rightarrow> turn KubernetesSecretEngineRole_VaultObject (for_KubernetesSecretEngineRole S) cl x
   | a_PKISecretEngineRole x \<Rightarrow> turn PKISecretEngineRole_VaultObject (for_PKISecretEngineRole S) cl x
   | a_GitHubSecretEngineRole x \<Rightarrow> turn GitHubSecretEngineRole_VaultObject (for_GitHubSecretEngineRole S) cl x
   | a_AzureSecretEngineRole x \<Rightarrow> turn AzureSecretEngineRole_VaultObject (for_AzureSecretEngineRole S) cl x
   | a_QuaySecretEngineRole x \<Rightarrow> turn QuaySecretEngineRole_VaultObject (for_QuaySecretEngineRole S) cl x
   | a_QuaySecretEngineStaticRole x \<Rightarrow> turn QuaySecretEngineStaticRole_VaultObject (for_QuaySecretEngineStaticRole S) cl x))"

definition run_operator :: "services \<Rightarrow> (vault_client \<times> resource) list \<Rightarrow> vault_log \<Rightarrow> vault_log" where
  "run_operator S rs h = fold (resource_reconcile S) rs h"

text \<open>Every controller talks to a key-value Vault, whatever client it holds.\<close>

definition store_services :: "(gmap \<Rightarrow> gmap) \<Rightarrow> services \<Rightarrow> bool" where
  "store_services f S \<longleftrightarrow>
     (\<forall>cl. store_server f (for_JWTOIDCAuthEngineRole S) cl) \<and>
     (\<forall>cl. store_server f (for_AzureAuthEngineRole S) cl) \<and>
     (\<forall>cl. store_server f (for_GCPAuthEngineRole S) cl) \<and>
     (\<forall>cl. store_server f (for_CertAuthEngineRole S) cl) \<and>
     (\<forall>cl. store_server f (for_CertAuthEngineConfig S) cl) \<and>
     (\<forall>cl. store_server f (for_LDAPAuthEngineGroup S) cl) \<and>
     (\<forall>cl. store_server f (for_Group S) cl) \<and>
     (\<forall>cl. store_server f (for_PasswordPolicy S) cl) \<and>
     (\<forall>cl. store_server f (for_RabbitMQSecretEngineRole S) cl) \<and>
     (\<forall>cl. store_server f (for_DatabaseSecretEngineRole S) cl) \<and>
     (\<forall>cl. store_server f (for_DatabaseSecretEngineStaticRole S) cl) \<and>
     (\<forall>cl. store_server f (for_KubernetesSecretEngineRole S) cl) \<and>
     (\<forall>cl. store_server f (for_PKISecretEngineRole S) cl) \<and>
     (\<forall>cl. store_server f (for_GitHubSecretEngineRole S) cl) \<and>
     (\<forall>cl. store_server f (for_AzureSecretEngineRole S) cl) \<and>
     (\<forall>cl. store_server f (for_QuaySecretEngineRole S) cl) \<and>
     (\<forall>cl. store_server f (for_QuaySecretEngineStaticRole S) cl)"

lemma resource_meets:
  assumes "store_services f S"
  shows "turn_meets (resource_reconcile S r) (resource_demand f S r)"
proof (cases r)
  case (Pair cl d)
  show ?thesis
    using assms unfolding store_services_def
    by (cases d) (simp_all add: Pair resource_reconcile_def resource_demand_def turn_meets_demand plain_kinds)
qed

lemma run_operator_store:
  "store_services f S \<Longrightarrow> store_of (run_operator S rs h) = fold meet (map (resource_demand f S) rs) (store_of h)"
  unfolding run_operator_def
  by (induction rs arbitrary: h) (simp_all add: resource_meets [unfolded turn_meets_def, rule_format])

text \<open>
  C2. Convergence, on a key-value Vault that answers every read, write and delete: two schedules of
  reconcile cycles with the same demands, in whatever order and however often each resource
  comes up, leave the same store, provided that different demands are on different paths. In that
  store every live resource has an entry that is equivalent to its desired state or its payload;
  every deleted one that still has its finalizer, is deletable and had been reconciled
  successfully has none, while nothing is claimed of the other deleted ones, which demand
  nothing; and the paths of no resource are as they were, whatever was in Vault. A second round is the schedule
  \<open>rs @ rs\<close>: it changes nothing.
\<close>

theorem operator_converges:
  assumes "store_services f S" and "set (map (resource_demand f S) rs') = set (map (resource_demand f S) rs)"
    and "inj_on demand_path (set (map (resource_demand f S) rs))"
  shows "store_of (run_operator S rs' h) = store_of (run_operator S rs h) \<and>
    list_all (\<lambda>r. met (resource_demand f S r) (store_of (run_operator S rs h))) rs \<and>
    (q \<notin> demand_path ` set (map (resource_demand f S) rs) \<longrightarrow> store_of (run_operator S rs h) q = store_of h q)"
proof -
  have "store_of (run_operator S rs' h) = store_of (run_operator S rs h)"
    using demands.fold_order_irrelevant [OF assms(3,2)] by (simp add: run_operator_store [OF assms(1)])
  moreover have "met (resource_demand f S r) (store_of (run_operator S rs h))" if "r \<in> set rs" for r
    using schedule_met [OF assms(3)] that by (simp add: run_operator_store [OF assms(1)])
  moreover have "store_of (run_operator S rs h) q = store_of h q"
    if "q \<notin> demand_path ` set (map (resource_demand f S) rs)"
    using demands.fold_frame [OF that] by (simp add: run_operator_store [OF assms(1)])
  ultimately show ?thesis by (simp add: list_all_iff)
qed

section \<open>Rivals\<close>

lemma rivals_turn:
  assumes "\<And>m. \<not> (good m \<and> good' m)" and "\<not> good' a"
  shows "meet (Put p good' b) (meet (Put p good a) s) p = Some b"
  using assms by (auto simp: ensure_at split: option.splits)


section \<open>Witnesses\<close>

definition sample_services :: services where
  "sample_services =
     \<lparr>for_JWTOIDCAuthEngineRole = sample_env,
      for_AzureAuthEngineRole = sample_env,
      for_GCPAuthEngineRole = sample_env,
      for_CertAuthEngineRole = sample_env,
      for_CertAuthEngineConfig = sample_env,
      for_LDAPAuthEngineGroup = sample_env,
      for_Group = sample_env,
      for_PasswordPolicy = sample_env,
      for_RabbitMQSecretEngineRole = sample_env,
      for_DatabaseSecretEngineRole = sample_env,
      for_DatabaseSecretEngineStaticRole = sample_env,
      for_KubernetesSecretEngineRole = sample_env,
      for_PKISecretEngineRole = sample_env,
      for_GitHubSecretEngineRole = sample_env,
      for_AzureSecretEngineRole = sample_env,
      for_QuaySecretEngineRole = sample_env,
      for_QuaySecretEngineStaticRole = sample_env\<rparr>"

lemma sample_store_services: "store_services (\<lambda>m. m) sample_services"
  by (simp add: store_services_def sample_services_def sample_store_server)

lemma sample_group_at:
  "GetPath LDAPAuthEngineGroup_VaultObject sample_group = ''auth/ldap/groups/devs''"
  "GetPath LDAPAuthEngineGroup_VaultObject (sample_group\<lparr>Spec := (Spec sample_group)\<lparr>lag_Policies := x\<rparr>\<rparr>) =
     ''auth/ldap/groups/devs''"
  by (simp_all add: LDAPAuthEngineGroup_VaultObject_def LDAPAuthEngineGroup_GetPath_def sample_group_def
      CleansePath_def Trim_def)

abbreviation served_group :: "vault_client \<times> resource" where
  "served_group \<equiv> (sample_client, a_LDAPAuthEngineGroup sample_group)"

abbreviation deleted_policy :: "vault_client \<times> resource" where
  "deleted_policy \<equiv> (sample_client, a_PasswordPolicy (to_be_deleted sample_policy))"

lemma sample_demands:
  "resource_demand (\<lambda>m. m) sample_services served_group = Put ''auth/ldap/groups/devs''
     (\<lambda>m. m = LDAPAuthEngineGroup_GetPayload sample_group) (LDAPAuthEngineGroup_GetPayload sample_group)"
  "resource_demand (\<lambda>m. m) sample_services deleted_policy = Remove ''sys/policies/password/simple''"
proof -
  show "resource_demand (\<lambda>m. m) sample_services served_group = Put ''auth/ldap/groups/devs''
     (\<lambda>m. m = LDAPAuthEngineGroup_GetPayload sample_group) (LDAPAuthEngineGroup_GetPayload sample_group)"
    by (simp add: resource_demand_def demand_of_def sample_group_at)
      (simp add: is_deleted_def sample_group_def sample_meta_def LDAPAuthEngineGroup_VaultObject_def
        LDAPAuthEngineGroup_IsEquivalentToDesiredState_def)
  show "resource_demand (\<lambda>m. m) sample_services deleted_policy = Remove ''sys/policies/password/simple''"
    by (simp add: resource_demand_def demand_of_def sample_services_def)
qed

theorem operator_converges_witness:
  "store_of (run_operator sample_services [deleted_policy, served_group, deleted_policy] []) =
     store_of (run_operator sample_services [served_group, deleted_policy] []) \<and>
   store_of (run_operator sample_services [served_group, deleted_policy] []) ''auth/ldap/groups/devs'' =
     Some (LDAPAuthEngineGroup_GetPayload sample_group) \<and>
   store_of (run_operator sample_services [served_group, deleted_policy] []) ''sys/policies/password/simple'' = None"
  using operator_converges [OF sample_store_services, where rs = "[served_group, deleted_policy]"
      and rs' = "[deleted_policy, served_group, deleted_policy]" and h = "[]" and q = "[]"]
  by (simp add: sample_demands insert_commute inj_on_def)

abbreviation sample_turn :: "LDAPAuthEngineGroup \<Rightarrow> vault_log \<Rightarrow> vault_log" where
  "sample_turn \<equiv> turn LDAPAuthEngineGroup_VaultObject sample_env sample_client"


end
