(* ===== verification/Webhooks.thy ===== *)
theory Webhooks
  imports Resources Mounts PKI VaultSecrets RandomSecrets
begin

text \<open>
  The admission webhooks (\<open>api/v1alpha1/*_webhook.go\<close>): what the API server asks the operator
  before it stores an object. One section per group of resources, with each \<open>ValidateUpdate\<close>
  that checks something and one record per resource. The last section is the handler of
  \<open>RabbitMQSecretEngineConfig\<close>, which is registered under its own path.
\<close>

section \<open>A webhook\<close>

text \<open>
  The methods of \<open>webhook.Defaulter\<close> and \<open>webhook.Validator\<close>. An admission error is a non-empty
  list of errors; no webhook returns a warning. The first four fields are the verbs of the
  two \<open>+kubebuilder:webhook\<close> markers of the resource: the API server calls a method only for
  the operations they name. No marker names deletion.
\<close>

record 'o webhook =
  default_create :: bool
  default_update :: bool
  validate_create :: bool
  validate_update :: bool
  Default :: "'o \<Rightarrow> 'o"
  ValidateCreate :: "'o \<Rightarrow> error list"
  ValidateUpdate :: "'o \<Rightarrow> 'o \<Rightarrow> error list"
  ValidateDelete :: "'o \<Rightarrow> error list"

definition path_fixed :: "error list" where
  "path_fixed = [ErrMsg ''spec.path cannot be updated'']"

section \<open>Engine mounts\<close>

text \<open>The zero values \<open>MountConfig{}\<close> and \<open>AuthMountConfig{}\<close>.\<close>

definition MountConfig_zero :: MountConfig where
  "MountConfig_zero = \<lparr>mc_DefaultLeaseTTL = [], mc_MaxLeaseTTL = [], mc_ForceNoCache = False,
     mc_AuditNonHMACRequestKeys = None, mc_AuditNonHMACResponseKeys = None, mc_ListingVisibility = [],
     mc_PassthroughRequestHeaders = None, mc_AllowedResponseHeaders = None\<rparr>"

definition SecretEngineMount_ValidateUpdate :: "SecretEngineMount \<Rightarrow> SecretEngineMount \<Rightarrow> error list" where
  "SecretEngineMount_ValidateUpdate r old =
     (if Path (Spec r) \<noteq> Path (Spec old) then path_fixed
      else let oldMount = (spec_Mount (Spec old))\<lparr>mnt_Config := MountConfig_zero\<rparr>;
               newMount = (spec_Mount (Spec r))\<lparr>mnt_Config := MountConfig_zero\<rparr>
           in if oldMount \<noteq> newMount then [ErrMsg ''only .spec.config can be modified''] else [])"

definition SecretEngineMount_webhook :: "SecretEngineMount webhook" where
  "SecretEngineMount_webhook =
     \<lparr>default_create = True, default_update = False,
      validate_create = False, validate_update = True,
      Default = (\<lambda>r. r), ValidateCreate = (\<lambda>r. []),
      ValidateUpdate = SecretEngineMount_ValidateUpdate, ValidateDelete = (\<lambda>r. [])\<rparr>"

definition AuthMountConfig_zero :: AuthMountConfig where
  "AuthMountConfig_zero = \<lparr>amc_DefaultLeaseTTL = [], amc_MaxLeaseTTL = [],
     amc_AuditNonHMACRequestKeys = None, amc_AuditNonHMACResponseKeys = None, amc_ListingVisibility = [],
     amc_PassthroughRequestHeaders = None, amc_AllowedResponseHeaders = None, amc_Options = None,
     amc_TokenType = [], amc_Description = None\<rparr>"

definition AuthEngineMount_ValidateUpdate :: "AuthEngineMount \<Rightarrow> AuthEngineMount \<Rightarrow> error list" where
  "AuthEngineMount_ValidateUpdate r old =
     (if Path (Spec r) \<noteq> Path (Spec old) then path_fixed
      else let oldMount = (spec_AuthMount (Spec old))\<lparr>am_Config := AuthMountConfig_zero\<rparr>;
               newMount = (spec_AuthMount (Spec r))\<lparr>am_Config := AuthMountConfig_zero\<rparr>
           in if oldMount \<noteq> newMount then [ErrMsg ''only .spec.config can be modified''] else [])"

definition AuthEngineMount_webhook :: "AuthEngineMount webhook" where
  "AuthEngineMount_webhook =
     \<lparr>default_create = True, default_update = False,
      validate_create = False, validate_update = True,
      Default = (\<lambda>r. r), ValidateCreate = (\<lambda>r. []),
      ValidateUpdate = AuthEngineMount_ValidateUpdate, ValidateDelete = (\<lambda>r. [])\<rparr>"

section \<open>Policies and identity groups\<close>

definition Policy_webhook :: "Policy webhook" where
  "Policy_webhook =
     \<lparr>default_create = True, default_update = False,
      validate_create = True, validate_update = True,
      Default = (\<lambda>r. r), ValidateCreate = (\<lambda>r. []),
      ValidateUpdate = (\<lambda>r old. []), ValidateDelete = (\<lambda>r. [])\<rparr>"

definition PasswordPolicy_webhook :: "PasswordPolicy webhook" where
  "PasswordPolicy_webhook =
     \<lparr>default_create = True, default_update = False,
      validate_create = True, validate_update = True,
      Default = (\<lambda>r. r), ValidateCreate = (\<lambda>r. []),
      ValidateUpdate = (\<lambda>r old. []), ValidateDelete = (\<lambda>r. [])\<rparr>"

definition Group_webhook :: "Group webhook" where
  "Group_webhook =
     \<lparr>default_create = True, default_update = True,
      validate_create = True, validate_update = True,
      Default = (\<lambda>r. r), ValidateCreate = (\<lambda>r. []),
      ValidateUpdate = (\<lambda>r old. []), ValidateDelete = (\<lambda>r. [])\<rparr>"

definition GroupAlias_webhook :: "GroupAlias webhook" where
  "GroupAlias_webhook =
     \<lparr>default_create = True, default_update = True,
      validate_create = True, validate_update = True,
      Default = (\<lambda>r. r), ValidateCreate = (\<lambda>r. []),
      ValidateUpdate = (\<lambda>r old. []), ValidateDelete = (\<lambda>r. [])\<rparr>"

section \<open>Configurations of the secret engines\<close>

definition DatabaseSecretEngineConfig_ValidateUpdate :: "DatabaseSecretEngineConfig \<Rightarrow> DatabaseSecretEngineConfig \<Rightarrow> error list" where
  "DatabaseSecretEngineConfig_ValidateUpdate r old =
     (if Path (Spec r) \<noteq> Path (Spec old) then path_fixed else IsValid DatabaseSecretEngineConfig_VaultObject r)"

definition DatabaseSecretEngineConfig_webhook :: "DatabaseSecretEngineConfig webhook" where
  "DatabaseSecretEngineConfig_webhook =
     \<lparr>default_create = True, default_update = False,
      validate_create = True, validate_update = True,
      Default = (\<lambda>r. r), ValidateCreate = (\<lambda>r. IsValid DatabaseSecretEngineConfig_VaultObject r),
      ValidateUpdate = DatabaseSecretEngineConfig_ValidateUpdate, ValidateDelete = (\<lambda>r. [])\<rparr>"

definition PKISecretEngineConfig_ValidateUpdate :: "PKISecretEngineConfig \<Rightarrow> PKISecretEngineConfig \<Rightarrow> error list" where
  "PKISecretEngineConfig_ValidateUpdate r old =
     (if pki_Path (Spec r) \<noteq> pki_Path (Spec old) then path_fixed
      else if pki_Type (Spec r) \<noteq> pki_Type (Spec old) then [ErrMsg ''spec.type cannot be updated'']
      else if pki_PrivateKeyType (Spec r) \<noteq> pki_PrivateKeyType (Spec old) then [ErrMsg ''spec.privateKeyType cannot be updated''] else [])"

definition PKISecretEngineConfig_webhook :: "PKISecretEngineConfig webhook" where
  "PKISecretEngineConfig_webhook =
     \<lparr>default_create = True, default_update = False,
      validate_create = False, validate_update = True,
      Default = (\<lambda>r. r), ValidateCreate = (\<lambda>r. []),
      ValidateUpdate = PKISecretEngineConfig_ValidateUpdate, ValidateDelete = (\<lambda>r. [])\<rparr>"

definition GitHubSecretEngineConfig_ValidateUpdate :: "GitHubSecretEngineConfig \<Rightarrow> GitHubSecretEngineConfig \<Rightarrow> error list" where
  "GitHubSecretEngineConfig_ValidateUpdate r old =
     (if gh_Path (Spec r) \<noteq> gh_Path (Spec old) then path_fixed else IsValid GitHubSecretEngineConfig_VaultObject r)"

definition GitHubSecretEngineConfig_webhook :: "GitHubSecretEngineConfig webhook" where
  "GitHubSecretEngineConfig_webhook =
     \<lparr>default_create = True, default_update = False,
      validate_create = True, validate_update = True,
      Default = (\<lambda>r. r), ValidateCreate = (\<lambda>r. IsValid GitHubSecretEngineConfig_VaultObject r),
      ValidateUpdate = GitHubSecretEngineConfig_ValidateUpdate, ValidateDelete = (\<lambda>r. [])\<rparr>"

definition AzureSecretEngineConfig_ValidateUpdate :: "AzureSecretEngineConfig \<Rightarrow> AzureSecretEngineConfig \<Rightarrow> error list" where
  "AzureSecretEngineConfig_ValidateUpdate r old =
     (if ase_Path (Spec r) \<noteq> ase_Path (Spec old) then path_fixed else IsValid AzureSecretEngineConfig_VaultObject r)"

definition AzureSecretEngineConfig_webhook :: "AzureSecretEngineConfig webhook" where
  "AzureSecretEngineConfig_webhook =
     \<lparr>default_create = True, default_update = False,
      validate_create = True, validate_update = True,
      Default = (\<lambda>r. r), ValidateCreate = (\<lambda>r. []),
      ValidateUpdate = AzureSecretEngineConfig_ValidateUpdate, ValidateDelete = (\<lambda>r. [])\<rparr>"

definition QuaySecretEngineConfig_ValidateUpdate :: "QuaySecretEngineConfig \<Rightarrow> QuaySecretEngineConfig \<Rightarrow> error list" where
  "QuaySecretEngineConfig_ValidateUpdate r old =
     (if qc_Path (Spec r) \<noteq> qc_Path (Spec old) then path_fixed else IsValid QuaySecretEngineConfig_VaultObject r)"

definition QuaySecretEngineConfig_webhook :: "QuaySecretEngineConfig webhook" where
  "QuaySecretEngineConfig_webhook =
     \<lparr>default_create = True, default_update = False,
      validate_create = True, validate_update = True,
      Default = (\<lambda>r. r), ValidateCreate = (\<lambda>r. IsValid QuaySecretEngineConfig_VaultObject r),
      ValidateUpdate = QuaySecretEngineConfig_ValidateUpdate, ValidateDelete = (\<lambda>r. [])\<rparr>"

definition KubernetesSecretEngineConfig_ValidateUpdate :: "KubernetesSecretEngineConfig \<Rightarrow> KubernetesSecretEngineConfig \<Rightarrow> error list" where
  "KubernetesSecretEngineConfig_ValidateUpdate r old =
     (if kse_Path (Spec r) \<noteq> kse_Path (Spec old) then path_fixed else IsValid KubernetesSecretEngineConfig_VaultObject r)"

definition KubernetesSecretEngineConfig_webhook :: "KubernetesSecretEngineConfig webhook" where
  "KubernetesSecretEngineConfig_webhook =
     \<lparr>default_create = True, default_update = False,
      validate_create = False, validate_update = True,
      Default = (\<lambda>r. r), ValidateCreate = (\<lambda>r. IsValid KubernetesSecretEngineConfig_VaultObject r),
      ValidateUpdate = KubernetesSecretEngineConfig_ValidateUpdate, ValidateDelete = (\<lambda>r. [])\<rparr>"

section \<open>Roles of the secret engines\<close>

definition DatabaseSecretEngineRole_ValidateUpdate :: "DatabaseSecretEngineRole \<Rightarrow> DatabaseSecretEngineRole \<Rightarrow> error list" where
  "DatabaseSecretEngineRole_ValidateUpdate r old =
     (if Path (Spec r) \<noteq> Path (Spec old) then path_fixed else [])"

definition DatabaseSecretEngineRole_webhook :: "DatabaseSecretEngineRole webhook" where
  "DatabaseSecretEngineRole_webhook =
     \<lparr>default_create = True, default_update = False,
      validate_create = False, validate_update = True,
      Default = (\<lambda>r. r), ValidateCreate = (\<lambda>r. []),
      ValidateUpdate = DatabaseSecretEngineRole_ValidateUpdate, ValidateDelete = (\<lambda>r. [])\<rparr>"

definition DatabaseSecretEngineStaticRole_ValidateUpdate :: "DatabaseSecretEngineStaticRole \<Rightarrow> DatabaseSecretEngineStaticRole \<Rightarrow> error list" where
  "DatabaseSecretEngineStaticRole_ValidateUpdate r old =
     (if Path (Spec r) \<noteq> Path (Spec old) then path_fixed else IsValid DatabaseSecretEngineStaticRole_VaultObject r)"

definition DatabaseSecretEngineStaticRole_webhook :: "DatabaseSecretEngineStaticRole webhook" where
  "DatabaseSecretEngineStaticRole_webhook =
     \<lparr>default_create = True, default_update = False,
      validate_create = True, validate_update = True,
      Default = (\<lambda>r. r), ValidateCreate = (\<lambda>r. IsValid DatabaseSecretEngineStaticRole_VaultObject r),
      ValidateUpdate = DatabaseSecretEngineStaticRole_ValidateUpdate, ValidateDelete = (\<lambda>r. [])\<rparr>"

definition PKISecretEngineRole_ValidateUpdate :: "PKISecretEngineRole \<Rightarrow> PKISecretEngineRole \<Rightarrow> error list" where
  "PKISecretEngineRole_ValidateUpdate r old =
     (if Path (Spec r) \<noteq> Path (Spec old) then path_fixed else [])"

definition PKISecretEngineRole_webhook :: "PKISecretEngineRole webhook" where
  "PKISecretEngineRole_webhook =
     \<lparr>default_create = True, default_update = False,
      validate_create = False, validate_update = True,
      Default = (\<lambda>r. r), ValidateCreate = (\<lambda>r. []),
      ValidateUpdate = PKISecretEngineRole_ValidateUpdate, ValidateDelete = (\<lambda>r. [])\<rparr>"

definition GitHubSecretEngineRole_ValidateUpdate :: "GitHubSecretEngineRole \<Rightarrow> GitHubSecretEngineRole \<Rightarrow> error list" where
  "GitHubSecretEngineRole_ValidateUpdate r old =
     (if Path (Spec r) \<noteq> Path (Spec old) then path_fixed else [])"

definition GitHubSecretEngineRole_webhook :: "GitHubSecretEngineRole webhook" where
  "GitHubSecretEngineRole_webhook =
     \<lparr>default_create = True, default_update = False,
      validate_create = False, validate_update = True,
      Default = (\<lambda>r. r), ValidateCreate = (\<lambda>r. []),
      ValidateUpdate = GitHubSecretEngineRole_ValidateUpdate, ValidateDelete = (\<lambda>r. [])\<rparr>"

definition AzureSecretEngineRole_ValidateUpdate :: "AzureSecretEngineRole \<Rightarrow> AzureSecretEngineRole \<Rightarrow> error list" where
  "AzureSecretEngineRole_ValidateUpdate r old =
     (if Path (Spec r) \<noteq> Path (Spec old) then path_fixed else [])"

definition AzureSecretEngineRole_webhook :: "AzureSecretEngineRole webhook" where
  "AzureSecretEngineRole_webhook =
     \<lparr>default_create = True, default_update = False,
      validate_create = False, validate_update = True,
      Default = (\<lambda>r. r), ValidateCreate = (\<lambda>r. []),
      ValidateUpdate = AzureSecretEngineRole_ValidateUpdate, ValidateDelete = (\<lambda>r. [])\<rparr>"

definition QuaySecretEngineRole_ValidateUpdate :: "QuaySecretEngineRole \<Rightarrow> QuaySecretEngineRole \<Rightarrow> error list" where
  "QuaySecretEngineRole_ValidateUpdate r old =
     (if Path (Spec r) \<noteq> Path (Spec old) then path_fixed else [])"

definition QuaySecretEngineRole_webhook :: "QuaySecretEngineRole webhook" where
  "QuaySecretEngineRole_webhook =
     \<lparr>default_create = True, default_update = False,
      validate_create = True, validate_update = True,
      Default = (\<lambda>r. r), ValidateCreate = (\<lambda>r. []),
      ValidateUpdate = QuaySecretEngineRole_ValidateUpdate, ValidateDelete = (\<lambda>r. [])\<rparr>"

definition QuaySecretEngineStaticRole_ValidateUpdate :: "QuaySecretEngineStaticRole \<Rightarrow> QuaySecretEngineStaticRole \<Rightarrow> error list" where
  "QuaySecretEngineStaticRole_ValidateUpdate r old =
     (if Path (Spec r) \<noteq> Path (Spec old) then path_fixed else [])"

definition QuaySecretEngineStaticRole_webhook :: "QuaySecretEngineStaticRole webhook" where
  "QuaySecretEngineStaticRole_webhook =
     \<lparr>default_create = True, default_update = False,
      validate_create = True, validate_update = True,
      Default = (\<lambda>r. r), ValidateCreate = (\<lambda>r. []),
      ValidateUpdate = QuaySecretEngineStaticRole_ValidateUpdate, ValidateDelete = (\<lambda>r. [])\<rparr>"

definition KubernetesSecretEngineRole_ValidateUpdate :: "KubernetesSecretEngineRole \<Rightarrow> KubernetesSecretEngineRole \<Rightarrow> error list" where
  "KubernetesSecretEngineRole_ValidateUpdate r old =
     (if Path (Spec r) \<noteq> Path (Spec old) then path_fixed else [])"

definition KubernetesSecretEngineRole_webhook :: "KubernetesSecretEngineRole webhook" where
  "KubernetesSecretEngineRole_webhook =
     \<lparr>default_create = True, default_update = False,
      validate_create = False, validate_update = True,
      Default = (\<lambda>r. r), ValidateCreate = (\<lambda>r. []),
      ValidateUpdate = KubernetesSecretEngineRole_ValidateUpdate, ValidateDelete = (\<lambda>r. [])\<rparr>"

definition RabbitMQSecretEngineRole_ValidateUpdate :: "RabbitMQSecretEngineRole \<Rightarrow> RabbitMQSecretEngineRole \<Rightarrow> error list" where
  "RabbitMQSecretEngineRole_ValidateUpdate r old =
     (if Path (Spec r) \<noteq> Path (Spec old) then path_fixed else [])"

definition RabbitMQSecretEngineRole_webhook :: "RabbitMQSecretEngineRole webhook" where
  "RabbitMQSecretEngineRole_webhook =
     \<lparr>default_create = True, default_update = False,
      validate_create = False, validate_update = True,
      Default = (\<lambda>r. r), ValidateCreate = (\<lambda>r. []),
      ValidateUpdate = RabbitMQSecretEngineRole_ValidateUpdate, ValidateDelete = (\<lambda>r. [])\<rparr>"

section \<open>Configurations of the authentication engines\<close>

definition KubernetesAuthEngineConfig_ValidateUpdate :: "KubernetesAuthEngineConfig \<Rightarrow> KubernetesAuthEngineConfig \<Rightarrow> error list" where
  "KubernetesAuthEngineConfig_ValidateUpdate r old =
     (if Path (Spec r) \<noteq> Path (Spec old) then path_fixed else [])"

text \<open>Reading the operator pod's CA bundle is a parameter; a failure is logged only.\<close>

definition operator_pod_ca :: string where
  "operator_pod_ca = ''/var/run/secrets/kubernetes.io/serviceaccount/ca.crt''"

definition KubernetesAuthEngineConfig_Default ::
  "(string \<Rightarrow> error + string) \<Rightarrow> KubernetesAuthEngineConfig \<Rightarrow> KubernetesAuthEngineConfig" where
  "KubernetesAuthEngineConfig_Default read_file r =
     (if kae_UseOperatorPodCA (spec_KAECConfig (Spec r)) \<and> kae_KubernetesCACert (spec_KAECConfig (Spec r)) = []
      then case read_file operator_pod_ca of
          Inl err \<Rightarrow> r
        | Inr b \<Rightarrow> r\<lparr>Spec := (Spec r)\<lparr>spec_KAECConfig := (spec_KAECConfig (Spec r))\<lparr>kae_KubernetesCACert := b\<rparr>\<rparr>\<rparr>
      else r)"

definition KubernetesAuthEngineConfig_webhook :: "(string \<Rightarrow> error + string) \<Rightarrow> KubernetesAuthEngineConfig webhook" where
  "KubernetesAuthEngineConfig_webhook read_file =
     \<lparr>default_create = True, default_update = False,
      validate_create = False, validate_update = True,
      Default = KubernetesAuthEngineConfig_Default read_file, ValidateCreate = (\<lambda>r. []),
      ValidateUpdate = KubernetesAuthEngineConfig_ValidateUpdate, ValidateDelete = (\<lambda>r. [])\<rparr>"

definition LDAPAuthEngineConfig_ValidateUpdate :: "LDAPAuthEngineConfig \<Rightarrow> LDAPAuthEngineConfig \<Rightarrow> error list" where
  "LDAPAuthEngineConfig_ValidateUpdate r old =
     (if ldap_Path (Spec r) \<noteq> ldap_Path (Spec old) then path_fixed else [])"

definition LDAPAuthEngineConfig_webhook :: "LDAPAuthEngineConfig webhook" where
  "LDAPAuthEngineConfig_webhook =
     \<lparr>default_create = True, default_update = False,
      validate_create = False, validate_update = True,
      Default = (\<lambda>r. r), ValidateCreate = (\<lambda>r. []),
      ValidateUpdate = LDAPAuthEngineConfig_ValidateUpdate, ValidateDelete = (\<lambda>r. [])\<rparr>"

definition JWTOIDCAuthEngineConfig_ValidateUpdate :: "JWTOIDCAuthEngineConfig \<Rightarrow> JWTOIDCAuthEngineConfig \<Rightarrow> error list" where
  "JWTOIDCAuthEngineConfig_ValidateUpdate r old =
     (if joc_Path (Spec r) \<noteq> joc_Path (Spec old) then path_fixed else [])"

definition JWTOIDCAuthEngineConfig_webhook :: "JWTOIDCAuthEngineConfig webhook" where
  "JWTOIDCAuthEngineConfig_webhook =
     \<lparr>default_create = True, default_update = False,
      validate_create = False, validate_update = True,
      Default = (\<lambda>r. r), ValidateCreate = (\<lambda>r. []),
      ValidateUpdate = JWTOIDCAuthEngineConfig_ValidateUpdate, ValidateDelete = (\<lambda>r. [])\<rparr>"

definition AzureAuthEngineConfig_ValidateUpdate :: "AzureAuthEngineConfig \<Rightarrow> AzureAuthEngineConfig \<Rightarrow> error list" where
  "AzureAuthEngineConfig_ValidateUpdate r old =
     (if aae_Path (Spec r) \<noteq> aae_Path (Spec old) then path_fixed else [])"

definition AzureAuthEngineConfig_webhook :: "AzureAuthEngineConfig webhook" where
  "AzureAuthEngineConfig_webhook =
     \<lparr>default_create = True, default_update = False,
      validate_create = False, validate_update = True,
      Default = (\<lambda>r. r), ValidateCreate = (\<lambda>r. []),
      ValidateUpdate = AzureAuthEngineConfig_ValidateUpdate, ValidateDelete = (\<lambda>r. [])\<rparr>"

definition GCPAuthEngineConfig_ValidateUpdate :: "GCPAuthEngineConfig \<Rightarrow> GCPAuthEngineConfig \<Rightarrow> error list" where
  "GCPAuthEngineConfig_ValidateUpdate r old =
     (if gcp_Path (Spec r) \<noteq> gcp_Path (Spec old) then path_fixed else [])"

definition GCPAuthEngineConfig_webhook :: "GCPAuthEngineConfig webhook" where
  "GCPAuthEngineConfig_webhook =
     \<lparr>default_create = True, default_update = False,
      validate_create = False, validate_update = True,
      Default = (\<lambda>r. r), ValidateCreate = (\<lambda>r. []),
      ValidateUpdate = GCPAuthEngineConfig_ValidateUpdate, ValidateDelete = (\<lambda>r. [])\<rparr>"

definition CertAuthEngineConfig_ValidateUpdate :: "CertAuthEngineConfig \<Rightarrow> CertAuthEngineConfig \<Rightarrow> error list" where
  "CertAuthEngineConfig_ValidateUpdate r old =
     (if Path (Spec r) \<noteq> Path (Spec old) then path_fixed
      else if Name (Spec r) \<noteq> Name (Spec old) then [ErrMsg ''spec.name cannot be updated''] else [])"

definition CertAuthEngineConfig_webhook :: "CertAuthEngineConfig webhook" where
  "CertAuthEngineConfig_webhook =
     \<lparr>default_create = True, default_update = True,
      validate_create = True, validate_update = True,
      Default = (\<lambda>r. r), ValidateCreate = (\<lambda>r. []),
      ValidateUpdate = CertAuthEngineConfig_ValidateUpdate, ValidateDelete = (\<lambda>r. [])\<rparr>"

section \<open>Roles of the authentication engines\<close>

definition KubernetesAuthEngineRole_ValidateUpdate :: "KubernetesAuthEngineRole \<Rightarrow> KubernetesAuthEngineRole \<Rightarrow> error list" where
  "KubernetesAuthEngineRole_ValidateUpdate r old =
     (if Path (Spec r) \<noteq> Path (Spec old) then path_fixed else IsValid KubernetesAuthEngineRole_VaultObject r)"

definition KubernetesAuthEngineRole_webhook :: "KubernetesAuthEngineRole webhook" where
  "KubernetesAuthEngineRole_webhook =
     \<lparr>default_create = True, default_update = False,
      validate_create = True, validate_update = True,
      Default = (\<lambda>r. r), ValidateCreate = (\<lambda>r. IsValid KubernetesAuthEngineRole_VaultObject r),
      ValidateUpdate = KubernetesAuthEngineRole_ValidateUpdate, ValidateDelete = (\<lambda>r. [])\<rparr>"

definition LDAPAuthEngineGroup_webhook :: "LDAPAuthEngineGroup webhook" where
  "LDAPAuthEngineGroup_webhook =
     \<lparr>default_create = True, default_update = False,
      validate_create = False, validate_update = True,
      Default = (\<lambda>r. r), ValidateCreate = (\<lambda>r. []),
      ValidateUpdate = (\<lambda>r old. []), ValidateDelete = (\<lambda>r. [])\<rparr>"

definition JWTOIDCAuthEngineRole_webhook :: "JWTOIDCAuthEngineRole webhook" where
  "JWTOIDCAuthEngineRole_webhook =
     \<lparr>default_create = True, default_update = False,
      validate_create = False, validate_update = True,
      Default = (\<lambda>r. r), ValidateCreate = (\<lambda>r. []),
      ValidateUpdate = (\<lambda>r old. []), ValidateDelete = (\<lambda>r. [])\<rparr>"

definition AzureAuthEngineRole_webhook :: "AzureAuthEngineRole webhook" where
  "AzureAuthEngineRole_webhook =
     \<lparr>default_create = True, default_update = False,
      validate_create = False, validate_update = True,
      Default = (\<lambda>r. r), ValidateCreate = (\<lambda>r. []),
      ValidateUpdate = (\<lambda>r old. []), ValidateDelete = (\<lambda>r. [])\<rparr>"

definition GCPAuthEngineRole_webhook :: "GCPAuthEngineRole webhook" where
  "GCPAuthEngineRole_webhook =
     \<lparr>default_create = True, default_update = False,
      validate_create = False, validate_update = True,
      Default = (\<lambda>r. r), ValidateCreate = (\<lambda>r. []),
      ValidateUpdate = (\<lambda>r old. []), ValidateDelete = (\<lambda>r. [])\<rparr>"

definition CertAuthEngineRole_ValidateUpdate :: "CertAuthEngineRole \<Rightarrow> CertAuthEngineRole \<Rightarrow> error list" where
  "CertAuthEngineRole_ValidateUpdate r old =
     (if Path (Spec r) \<noteq> Path (Spec old) then path_fixed
      else if Name (Spec r) \<noteq> Name (Spec old) then [ErrMsg ''spec.name cannot be updated''] else [])"

definition CertAuthEngineRole_webhook :: "CertAuthEngineRole webhook" where
  "CertAuthEngineRole_webhook =
     \<lparr>default_create = True, default_update = True,
      validate_create = True, validate_update = True,
      Default = (\<lambda>r. r), ValidateCreate = (\<lambda>r. []),
      ValidateUpdate = CertAuthEngineRole_ValidateUpdate, ValidateDelete = (\<lambda>r. [])\<rparr>"

section \<open>Secrets\<close>

definition RandomSecret_webhook :: "hcl_decoder \<Rightarrow> RandomSecret webhook" where
  "RandomSecret_webhook hcl =
     \<lparr>default_create = True, default_update = False,
      validate_create = True, validate_update = True,
      Default = (\<lambda>r. r), ValidateCreate = RandomSecret_ValidateCreate hcl,
      ValidateUpdate = RandomSecret_ValidateUpdate hcl, ValidateDelete = (\<lambda>r. [])\<rparr>"

definition VaultSecret_isValid :: "VaultSecret \<Rightarrow> error list" where
  "VaultSecret_isValid vs = []"

definition VaultSecret_webhook :: "VaultSecret webhook" where
  "VaultSecret_webhook =
     \<lparr>default_create = True, default_update = True,
      validate_create = True, validate_update = True,
      Default = (\<lambda>r. r), ValidateCreate = (\<lambda>r. VaultSecret_isValid r),
      ValidateUpdate = (\<lambda>r old. VaultSecret_isValid r), ValidateDelete = (\<lambda>r. [])\<rparr>"

section \<open>RabbitMQSecretEngineConfig\<close>

text \<open>
  The handler gets the raw objects, here with the result of decoding them, and lists the
  stored configurations. An error is answered with status 400.
\<close>

datatype operation = CREATE | UPDATE | DELETE | CONNECT

datatype admission_response = Allowed | Errored int error

definition StatusBadRequest :: int where
  "StatusBadRequest = 400"

text \<open>The configuration of the list that the loop of a creation refuses for, if any.\<close>

fun already_configured :: "RabbitMQSecretEngineConfig \<Rightarrow> RabbitMQSecretEngineConfig list \<Rightarrow> error option" where
  "already_configured c [] = None"
| "already_configured c (config # items) =
     (let vaultNamespace = ka_Namespace (Authentication (Spec c)) in
      if vaultNamespace \<noteq> [] then
        if vaultNamespace = ka_Namespace (Authentication (Spec config)) \<and> rmq_Path (Spec config) = rmq_Path (Spec c)
        then Some (ErrMsg (''rabbitMQ engine already configured at spec.path in Vault Namespace '' @ vaultNamespace))
        else already_configured c items
      else if rmq_Path (Spec config) = rmq_Path (Spec c)
        then Some (ErrMsg ''rabbitMQ engine already configured at spec.path'')
        else already_configured c items)"

definition RabbitMQSecretEngineConfigValidation_Handle ::
  "operation \<Rightarrow> error + RabbitMQSecretEngineConfig \<Rightarrow> error + RabbitMQSecretEngineConfig \<Rightarrow>
     error + RabbitMQSecretEngineConfig list \<Rightarrow> admission_response" where
  "RabbitMQSecretEngineConfigValidation_Handle op object oldObject items =
     (case op of
        CREATE \<Rightarrow> (case object of
            Inl err \<Rightarrow> Errored StatusBadRequest err
          | Inr c \<Rightarrow> (case items of
                Inl err \<Rightarrow> Errored StatusBadRequest err
              | Inr cs \<Rightarrow> (case already_configured c cs of
                    Some err \<Rightarrow> Errored StatusBadRequest err
                  | None \<Rightarrow> Allowed)))
      | UPDATE \<Rightarrow> (case object of
            Inl err \<Rightarrow> Errored StatusBadRequest err
          | Inr c \<Rightarrow> (case oldObject of
                Inl err \<Rightarrow> Errored StatusBadRequest err
              | Inr old \<Rightarrow> if rmq_Path (Spec c) \<noteq> rmq_Path (Spec old)
                           then Errored StatusBadRequest (ErrMsg ''spec.path cannot be updated'')
                           else Allowed))
      | _ \<Rightarrow> Allowed)"

lemmas webhook_defs = path_fixed_def
  MountConfig_zero_def
  SecretEngineMount_ValidateUpdate_def
  SecretEngineMount_webhook_def
  AuthMountConfig_zero_def
  AuthEngineMount_ValidateUpdate_def
  AuthEngineMount_webhook_def
  Policy_webhook_def
  PasswordPolicy_webhook_def
  Group_webhook_def
  GroupAlias_webhook_def
  DatabaseSecretEngineConfig_ValidateUpdate_def
  DatabaseSecretEngineConfig_webhook_def
  PKISecretEngineConfig_ValidateUpdate_def
  PKISecretEngineConfig_webhook_def
  GitHubSecretEngineConfig_ValidateUpdate_def
  GitHubSecretEngineConfig_webhook_def
  AzureSecretEngineConfig_ValidateUpdate_def
  AzureSecretEngineConfig_webhook_def
  QuaySecretEngineConfig_ValidateUpdate_def
  QuaySecretEngineConfig_webhook_def
  KubernetesSecretEngineConfig_ValidateUpdate_def
  KubernetesSecretEngineConfig_webhook_def
  DatabaseSecretEngineRole_ValidateUpdate_def
  DatabaseSecretEngineRole_webhook_def
  DatabaseSecretEngineStaticRole_ValidateUpdate_def
  DatabaseSecretEngineStaticRole_webhook_def
  PKISecretEngineRole_ValidateUpdate_def
  PKISecretEngineRole_webhook_def
  GitHubSecretEngineRole_ValidateUpdate_def
  GitHubSecretEngineRole_webhook_def
  AzureSecretEngineRole_ValidateUpdate_def
  AzureSecretEngineRole_webhook_def
  QuaySecretEngineRole_ValidateUpdate_def
  QuaySecretEngineRole_webhook_def
  QuaySecretEngineStaticRole_ValidateUpdate_def
  QuaySecretEngineStaticRole_webhook_def
  KubernetesSecretEngineRole_ValidateUpdate_def
  KubernetesSecretEngineRole_webhook_def
  RabbitMQSecretEngineRole_ValidateUpdate_def
  RabbitMQSecretEngineRole_webhook_def
  KubernetesAuthEngineConfig_ValidateUpdate_def
  KubernetesAuthEngineConfig_webhook_def
  LDAPAuthEngineConfig_ValidateUpdate_def
  LDAPAuthEngineConfig_webhook_def
  JWTOIDCAuthEngineConfig_ValidateUpdate_def
  JWTOIDCAuthEngineConfig_webhook_def
  AzureAuthEngineConfig_ValidateUpdate_def
  AzureAuthEngineConfig_webhook_def
  GCPAuthEngineConfig_ValidateUpdate_def
  GCPAuthEngineConfig_webhook_def
  CertAuthEngineConfig_ValidateUpdate_def
  CertAuthEngineConfig_webhook_def
  KubernetesAuthEngineRole_ValidateUpdate_def
  KubernetesAuthEngineRole_webhook_def
  LDAPAuthEngineGroup_webhook_def
  JWTOIDCAuthEngineRole_webhook_def
  AzureAuthEngineRole_webhook_def
  GCPAuthEngineRole_webhook_def
  CertAuthEngineRole_ValidateUpdate_def
  CertAuthEngineRole_webhook_def
  RandomSecret_webhook_def
  VaultSecret_webhook_def
  VaultSecret_isValid_def RandomSecret_ValidateCreate_def RandomSecret_ValidateUpdate_def

end
