(* ===== verification/Admission.thy ===== *)
theory Admission
  imports Webhooks
begin

text \<open>
  What the webhooks give the rest of the operator. The API server stores an object when the
  webhooks accept it (\<open>admitted\<close>), and lets it be edited step by step (\<open>edit_step\<close>). Three
  interfaces collect what a webhook may promise: that admitted edits keep the path in Vault
  (\<open>pinned_webhook\<close>), that stored objects are valid (\<open>validating_webhook\<close>), and, as a
  weakness, that an admitted edit can move the object (\<open>movable_webhook\<close>). Each is interpreted
  on every kind of resource of \<open>Webhooks\<close> that has it.
\<close>

section \<open>Stored objects and their edits\<close>

text \<open>
  The API server keeps kind, name and namespace of an object and asks the webhooks whose
  verbs name the operation; the status is a subresource, which no webhook watches.
\<close>

definition defaulted :: "bool \<Rightarrow> 'o webhook \<Rightarrow> 'o \<Rightarrow> 'o" where
  "defaulted verb W d = (if verb then Default W d else d)"

inductive edit_step :: "('s, 'x) object webhook \<Rightarrow> ('s, 'x) object \<Rightarrow> ('s, 'x) object \<Rightarrow> bool"
  for W :: "('s, 'x) object webhook" where
  replace: "edit_step W old new"
    if "new = defaulted (default_update W) W d" and "TypeKind new = TypeKind old"
      and "GetName new = GetName old" and "GetNamespace new = GetNamespace old"
      and "validate_update W \<longrightarrow> ValidateUpdate W new old = []"
| status: "edit_step W old (old\<lparr>Status := s\<rparr>)"

inductive admitted :: "('s, 'x) object webhook \<Rightarrow> ('s, 'x) object \<Rightarrow> bool"
  for W :: "('s, 'x) object webhook" where
  create: "admitted W new"
    if "new = defaulted (default_create W) W d" and "validate_create W \<longrightarrow> ValidateCreate W new = []"
| edit: "admitted W new" if "admitted W old" and "edit_step W old new"

inductive_cases edit_stepE: "edit_step W old new"

text \<open>The status is no part of name, path or validity of an object.\<close>

lemma status_simps [simp]:
  "Spec (d\<lparr>Status := s\<rparr>) = Spec d" "GetName (d\<lparr>Status := s\<rparr>) = GetName d"
  "GetName (d\<lparr>Spec := x\<rparr>) = GetName d" "GetNamespace (d\<lparr>Spec := x\<rparr>) = GetNamespace d"
  by (simp_all add: GetName_def GetNamespace_def)

section \<open>Webhooks that pin the path\<close>

locale pinned_webhook = vault_object V
  for V :: "(('s, 'x) object, 'z) VaultObject_scheme" +
  fixes W :: "('s, 'x) object webhook"
  assumes watches_update: "validate_update W"
    and update_path: "GetName new = GetName old \<Longrightarrow> ValidateUpdate W new old = [] \<Longrightarrow>
      GetPath V new = GetPath V old"
    and status_path: "GetPath V (d\<lparr>Status := s\<rparr>) = GetPath V d"
begin

lemma step_path: "edit_step W old new \<Longrightarrow> GetPath V new = GetPath V old"
  by (erule edit_stepE) (simp_all add: watches_update update_path status_path)

lemma edits_path: "(edit_step W)\<^sup>*\<^sup>* old new \<Longrightarrow> GetPath V new = GetPath V old"
  by (induction rule: rtranclp_induct) (simp_all add: step_path)

lemma reconcile_after_edits:
  assumes "(edit_step W)\<^sup>*\<^sup>* d (inst w)"
    and "c \<in> set (drop (length (calls w)) (calls (snd (VaultResource_Reconcile V E cl w))))"
    and "vault_mutation c = Some q"
  shows "q = GetPath V d"
  using reconcile_writes_own_path [OF assms(2,3)] edits_path [OF assms(1)] by simp

end

text \<open>
  The life of an object: whatever edits were admitted before, a reconcile writes and deletes
  only at the path that the object had when it was stored.
\<close>

definition anchored :: "(('s, 'x) object, 'z) VaultObject_scheme \<Rightarrow> ('s, 'x) object webhook \<Rightarrow> bool" where
  "anchored V W \<longleftrightarrow> (\<forall>d E cl w c q. (edit_step W)\<^sup>*\<^sup>* d (inst w) \<and>
     c \<in> set (drop (length (calls w)) (calls (snd (VaultResource_Reconcile V E cl w)))) \<and>
     vault_mutation c = Some q \<longrightarrow> q = GetPath V d)"

lemma anchoredI: "pinned_webhook V W \<Longrightarrow> anchored V W"
  unfolding anchored_def using pinned_webhook.reconcile_after_edits by blast

interpretation p_CertAuthEngineRole: pinned_webhook CertAuthEngineRole_VaultObject CertAuthEngineRole_webhook
  by unfold_locales (auto simp: webhook_defs CertAuthEngineRole_VaultObject_def CertAuthEngineRole_GetPath_def split: if_splits)

interpretation p_CertAuthEngineConfig: pinned_webhook CertAuthEngineConfig_VaultObject CertAuthEngineConfig_webhook
  by unfold_locales (auto simp: webhook_defs CertAuthEngineConfig_VaultObject_def CertAuthEngineConfig_GetPath_def split: if_splits)

interpretation p_AzureAuthEngineConfig: pinned_webhook AzureAuthEngineConfig_VaultObject AzureAuthEngineConfig_webhook
  by unfold_locales (auto simp: webhook_defs AzureAuthEngineConfig_VaultObject_def AzureAuthEngineConfig_GetPath_def split: if_splits)

interpretation p_GCPAuthEngineConfig: pinned_webhook GCPAuthEngineConfig_VaultObject GCPAuthEngineConfig_webhook
  by unfold_locales (auto simp: webhook_defs GCPAuthEngineConfig_VaultObject_def GCPAuthEngineConfig_GetPath_def split: if_splits)

interpretation p_JWTOIDCAuthEngineConfig: pinned_webhook JWTOIDCAuthEngineConfig_VaultObject JWTOIDCAuthEngineConfig_webhook
  by unfold_locales (auto simp: webhook_defs JWTOIDCAuthEngineConfig_VaultObject_def JWTOIDCAuthEngineConfig_GetPath_def split: if_splits)

interpretation p_LDAPAuthEngineConfig: pinned_webhook LDAPAuthEngineConfig_VaultObject LDAPAuthEngineConfig_webhook
  by unfold_locales (auto simp: webhook_defs LDAPAuthEngineConfig_VaultObject_def LDAPAuthEngineConfig_GetPath_def split: if_splits)

interpretation p_GitHubSecretEngineConfig: pinned_webhook GitHubSecretEngineConfig_VaultObject GitHubSecretEngineConfig_webhook
  by unfold_locales (auto simp: webhook_defs GitHubSecretEngineConfig_VaultObject_def GitHubSecretEngineConfig_GetPath_def split: if_splits)

interpretation p_AzureSecretEngineConfig: pinned_webhook AzureSecretEngineConfig_VaultObject AzureSecretEngineConfig_webhook
  by unfold_locales (auto simp: webhook_defs AzureSecretEngineConfig_VaultObject_def AzureSecretEngineConfig_GetPath_def split: if_splits)

interpretation p_KubernetesSecretEngineConfig: pinned_webhook KubernetesSecretEngineConfig_VaultObject KubernetesSecretEngineConfig_webhook
  by unfold_locales (auto simp: webhook_defs KubernetesSecretEngineConfig_VaultObject_def KubernetesSecretEngineConfig_GetPath_def split: if_splits)

interpretation p_QuaySecretEngineConfig: pinned_webhook QuaySecretEngineConfig_VaultObject QuaySecretEngineConfig_webhook
  by unfold_locales (auto simp: webhook_defs QuaySecretEngineConfig_VaultObject_def QuaySecretEngineConfig_GetPath_def split: if_splits)

text \<open>The PKI engine keeps its path too, with type and kind of key; its reconcile is its own.\<close>

lemma PKI_edit_keeps_paths:
  "edit_step PKISecretEngineConfig_webhook old new \<Longrightarrow>
     PKISecretEngineConfig_GetPath new = PKISecretEngineConfig_GetPath old \<and>
     PKISecretEngineConfig_GetGeneratePath new = PKISecretEngineConfig_GetGeneratePath old"
  by (erule edit_stepE)
    (auto simp: webhook_defs PKISecretEngineConfig_GetPath_def PKISecretEngineConfig_GetGeneratePath_def split: if_splits)

text \<open>
  C7. Ten kinds of engine configurations and certificate roles are anchored: through every
  sequence of edits that their webhooks admit, and whatever Vault and the cluster answer,
  each reconcile changes Vault only at the path the object was created for.
\<close>

theorem admitted_edits_keep_path:
  "anchored CertAuthEngineRole_VaultObject CertAuthEngineRole_webhook \<and>
   anchored CertAuthEngineConfig_VaultObject CertAuthEngineConfig_webhook \<and>
   anchored AzureAuthEngineConfig_VaultObject AzureAuthEngineConfig_webhook \<and>
   anchored GCPAuthEngineConfig_VaultObject GCPAuthEngineConfig_webhook \<and>
   anchored JWTOIDCAuthEngineConfig_VaultObject JWTOIDCAuthEngineConfig_webhook \<and>
   anchored LDAPAuthEngineConfig_VaultObject LDAPAuthEngineConfig_webhook \<and>
   anchored GitHubSecretEngineConfig_VaultObject GitHubSecretEngineConfig_webhook \<and>
   anchored AzureSecretEngineConfig_VaultObject AzureSecretEngineConfig_webhook \<and>
   anchored KubernetesSecretEngineConfig_VaultObject KubernetesSecretEngineConfig_webhook \<and>
   anchored QuaySecretEngineConfig_VaultObject QuaySecretEngineConfig_webhook"
  by (intro conjI anchoredI
    p_CertAuthEngineRole.pinned_webhook_axioms
    p_CertAuthEngineConfig.pinned_webhook_axioms
    p_AzureAuthEngineConfig.pinned_webhook_axioms
    p_GCPAuthEngineConfig.pinned_webhook_axioms
    p_JWTOIDCAuthEngineConfig.pinned_webhook_axioms
    p_LDAPAuthEngineConfig.pinned_webhook_axioms
    p_GitHubSecretEngineConfig.pinned_webhook_axioms
    p_AzureSecretEngineConfig.pinned_webhook_axioms
    p_KubernetesSecretEngineConfig.pinned_webhook_axioms
    p_QuaySecretEngineConfig.pinned_webhook_axioms)

section \<open>Webhooks that let an object move\<close>

lemma ReplaceAll_slash_append:
  "c \<noteq> CHR ''/'' \<Longrightarrow> ReplaceAll (p @ c # s) ''//'' ''/'' = ReplaceAll p ''//'' ''/'' @ ReplaceAll (c # s) ''//'' ''/''"
proof (induction p "''//''" "''/''" rule: ReplaceAll.induct)
  case (2 x xs)
  show ?case
  proof (cases "strip_prefix ''//'' (x # xs)")
    case None
    then have "strip_prefix ''//'' (x # xs @ c # s) = None"
      using "2.prems" by (cases xs) (auto split: if_splits)
    then show ?thesis using "2.hyps"(1) [OF None "2.prems"] None by simp
  next
    case (Some rest)
    then have "x # xs = ''//'' @ rest" by (simp only: strip_prefix_Some_iff)
    then have "strip_prefix ''//'' (x # xs @ c # s) = Some (rest @ c # s)" by simp
    then show ?thesis using "2.hyps"(2) [OF Some] "2.prems" Some by simp
  qed
qed simp

text \<open>A last part without double slashes survives \<open>CleansePath\<close>.\<close>

lemma CleansePath_keeps_end:
  assumes "c \<noteq> CHR ''/''" and "\<not> Contains (c # s) ''//''" and "last (c # s) \<noteq> CHR ''/''"
  shows "\<exists>q. CleansePath (p @ c # s) = q @ c # s"
proof -
  let ?r = "ReplaceAll p ''//'' ''/''"
  have "CleansePath (p @ c # s) = Trim (?r @ c # s) (CHR ''/'')"
    using ReplaceAll_slash_append [OF assms(1)] ReplaceAll_id [OF assms(2)] by (simp add: CleansePath_def)
  moreover have "\<exists>q. dropWhile (\<lambda>x. x = CHR ''/'') (?r @ c # s) = q @ c # s"
    using assms(1) by (cases "\<exists>x \<in> set ?r. x \<noteq> CHR ''/''") (auto simp: dropWhile_append)
  moreover have "rev (dropWhile (\<lambda>x. x = CHR ''/'') (rev (q @ c # s))) = q @ c # s" for q
  proof -
    have "hd (rev (q @ c # s)) \<noteq> CHR ''/''" using assms(3) by (simp add: hd_rev del: rev.simps)
    then have "dropWhile (\<lambda>x. x = CHR ''/'') (rev (q @ c # s)) = rev (q @ c # s)"
      by (simp add: dropWhile_eq_self_iff del: rev.simps rev_append)
    then show ?thesis by (simp only: rev_rev_ident)
  qed
  ultimately show ?thesis by (auto simp: Trim_def)
qed

text \<open>\<open>rename n\<close> gives an object the name \<open>n\<close> in Vault; \<open>before\<close> and \<open>after\<close> frame the name.\<close>

locale movable_webhook =
  fixes V :: "(('s, 'x) object, 'z) VaultObject_scheme" and W :: "('s, 'x) object webhook"
    and rename :: "string \<Rightarrow> ('s, 'x) object \<Rightarrow> ('s, 'x) object"
    and before :: "('s, 'x) object \<Rightarrow> string" and after :: string
  assumes rename_update: "ValidateUpdate W d d = [] \<Longrightarrow> ValidateUpdate W (rename n d) d = []"
    and rename_default: "Default W d = d \<or> \<not> default_update W"
    and rename_keeps: "TypeKind (rename n d) = TypeKind d \<and> GetName (rename n d) = GetName d \<and>
      GetNamespace (rename n d) = GetNamespace d"
    and rename_path: "n \<noteq> [] \<Longrightarrow> GetPath V (rename n d) = CleansePath (before d @ n @ after)"
    and after_cases: "after = [] \<or> after = ''/config''"
begin

lemma rename_admitted: "ValidateUpdate W d d = [] \<Longrightarrow> edit_step W d (rename n d)"
  using rename_default [of "rename n d"] rename_keeps rename_update
  by (intro edit_step.replace [where d = "rename n d"]) (auto simp: defaulted_def)

lemma renamed_path:
  assumes "c \<noteq> CHR ''/''"
  shows "\<exists>q. GetPath V (rename [c] d) = q @ c # after"
proof -
  have "last (c # after) \<noteq> CHR ''/''" "\<not> Contains (c # after) ''//''"
    using after_cases assms by auto
  then show ?thesis using CleansePath_keeps_end [OF assms] rename_path [of "[c]"] by simp
qed

lemma moves: "\<exists>n. GetPath V (rename n d) \<noteq> GetPath V d"
proof (rule ccontr)
  assume "\<nexists>n. GetPath V (rename n d) \<noteq> GetPath V d"
  then have "GetPath V (rename ''a'' d) = GetPath V (rename ''b'' d)" by simp
  then show False using renamed_path [of "CHR ''a''" d] renamed_path [of "CHR ''b''" d] by auto
qed

end

text \<open>
  The name alone can be edited, to anything, in every object that its webhook accepts; some name moves the object to
  another path in Vault, and as long as its path is another one no run of the cycle touches the old path:
  what it wrote there stays.
\<close>

definition strands :: "(('s, 'x) object, 'z) VaultObject_scheme \<Rightarrow> ('s, 'x) object webhook \<Rightarrow>
     (string \<Rightarrow> ('s, 'x) object \<Rightarrow> ('s, 'x) object) \<Rightarrow> bool" where
  "strands V W rename \<longleftrightarrow> (\<forall>d. ValidateUpdate W d d = [] \<longrightarrow>
     (\<forall>n. edit_step W d (rename n d)) \<and> (\<exists>n. GetPath V (rename n d) \<noteq> GetPath V d) \<and>
     (\<forall>E cl w c. GetPath V (inst w) \<noteq> GetPath V d \<and>
          c \<in> set (drop (length (calls w)) (calls (snd (VaultResource_Reconcile V E cl w)))) \<longrightarrow>
          vault_mutation c \<noteq> Some (GetPath V d)))"

lemma strandsI:
  assumes "movable_webhook V W rename before after" and "confined V"
  shows "strands V W rename"
  unfolding strands_def
proof (intro allI impI conjI)
  fix d n
  assume valid: "ValidateUpdate W d d = []"
  show "edit_step W d (rename n d)" using movable_webhook.rename_admitted [OF assms(1) valid] .
  show "\<exists>n. GetPath V (rename n d) \<noteq> GetPath V d" using movable_webhook.moves [OF assms(1)] .
next
  fix d E cl w c
  assume "GetPath V (inst w) \<noteq> GetPath V d \<and>
      c \<in> set (drop (length (calls w)) (calls (snd (VaultResource_Reconcile V E cl w))))"
  then show "vault_mutation c \<noteq> Some (GetPath V d)" using assms(2) unfolding confined_def by metis
qed

interpretation m_DatabaseSecretEngineRole: movable_webhook DatabaseSecretEngineRole_VaultObject DatabaseSecretEngineRole_webhook
  "\<lambda>n d. d\<lparr>Spec := (Spec d)\<lparr>Name := n\<rparr>\<rparr>" "\<lambda>d. Path (Spec d) @ ''/roles/''" "[]"
  by unfold_locales (auto simp: webhook_defs DatabaseSecretEngineRole_VaultObject_def DatabaseSecretEngineRole_GetPath_def split: if_splits)

interpretation m_DatabaseSecretEngineStaticRole: movable_webhook DatabaseSecretEngineStaticRole_VaultObject DatabaseSecretEngineStaticRole_webhook
  "\<lambda>n d. d\<lparr>Spec := (Spec d)\<lparr>Name := n\<rparr>\<rparr>" "\<lambda>d. Path (Spec d) @ ''/static-roles/''" "[]"
  by unfold_locales (auto simp: webhook_defs DatabaseSecretEngineStaticRole_VaultObject_def DatabaseSecretEngineStaticRole_GetPath_def DatabaseSecretEngineStaticRole_validateEitherPasswordOrKey_def split: if_splits)

interpretation m_KubernetesSecretEngineRole: movable_webhook KubernetesSecretEngineRole_VaultObject KubernetesSecretEngineRole_webhook
  "\<lambda>n d. d\<lparr>Spec := (Spec d)\<lparr>Name := n\<rparr>\<rparr>" "\<lambda>d. Path (Spec d) @ ''/roles/''" "[]"
  by unfold_locales (auto simp: webhook_defs KubernetesSecretEngineRole_VaultObject_def KubernetesSecretEngineRole_GetPath_def split: if_splits)

interpretation m_PKISecretEngineRole: movable_webhook PKISecretEngineRole_VaultObject PKISecretEngineRole_webhook
  "\<lambda>n d. d\<lparr>Spec := (Spec d)\<lparr>Name := n\<rparr>\<rparr>" "\<lambda>d. Path (Spec d) @ ''/roles/''" "[]"
  by unfold_locales (auto simp: webhook_defs PKISecretEngineRole_VaultObject_def PKISecretEngineRole_GetPath_def split: if_splits)

interpretation m_GitHubSecretEngineRole: movable_webhook GitHubSecretEngineRole_VaultObject GitHubSecretEngineRole_webhook
  "\<lambda>n d. d\<lparr>Spec := (Spec d)\<lparr>Name := n\<rparr>\<rparr>" "\<lambda>d. Path (Spec d) @ ''/permissionset/''" "[]"
  by unfold_locales (auto simp: webhook_defs GitHubSecretEngineRole_VaultObject_def GitHubSecretEngineRole_GetPath_def split: if_splits)

interpretation m_AzureSecretEngineRole: movable_webhook AzureSecretEngineRole_VaultObject AzureSecretEngineRole_webhook
  "\<lambda>n d. d\<lparr>Spec := (Spec d)\<lparr>Name := n\<rparr>\<rparr>" "\<lambda>d. Path (Spec d) @ ''/roles/''" "[]"
  by unfold_locales (auto simp: webhook_defs AzureSecretEngineRole_VaultObject_def AzureSecretEngineRole_GetPath_def split: if_splits)

interpretation m_QuaySecretEngineRole: movable_webhook QuaySecretEngineRole_VaultObject QuaySecretEngineRole_webhook
  "\<lambda>n d. d\<lparr>Spec := (Spec d)\<lparr>Name := n\<rparr>\<rparr>" "\<lambda>d. Path (Spec d) @ ''/roles/''" "[]"
  by unfold_locales (auto simp: webhook_defs QuaySecretEngineRole_VaultObject_def QuaySecretEngineRole_GetPath_def split: if_splits)

interpretation m_QuaySecretEngineStaticRole: movable_webhook QuaySecretEngineStaticRole_VaultObject QuaySecretEngineStaticRole_webhook
  "\<lambda>n d. d\<lparr>Spec := (Spec d)\<lparr>Name := n\<rparr>\<rparr>" "\<lambda>d. Path (Spec d) @ ''/static-roles/''" "[]"
  by unfold_locales (auto simp: webhook_defs QuaySecretEngineStaticRole_VaultObject_def QuaySecretEngineStaticRole_GetPath_def split: if_splits)

interpretation m_RabbitMQSecretEngineRole: movable_webhook RabbitMQSecretEngineRole_VaultObject RabbitMQSecretEngineRole_webhook
  "\<lambda>n d. d\<lparr>Spec := (Spec d)\<lparr>Name := n\<rparr>\<rparr>" "\<lambda>d. Path (Spec d) @ ''/roles/''" "[]"
  by unfold_locales (auto simp: webhook_defs RabbitMQSecretEngineRole_VaultObject_def RabbitMQSecretEngineRole_GetPath_def split: if_splits)

interpretation m_DatabaseSecretEngineConfig: movable_webhook DatabaseSecretEngineConfig_VaultObject DatabaseSecretEngineConfig_webhook
  "\<lambda>n d. d\<lparr>Spec := (Spec d)\<lparr>Name := n\<rparr>\<rparr>" "\<lambda>d. Path (Spec d) @ ''/config/''" "[]"
  by unfold_locales (auto simp: webhook_defs DatabaseSecretEngineConfig_VaultObject_def DatabaseSecretEngineConfig_GetPath_def DatabaseSecretEngineConfig_isValid_def split: if_splits)

interpretation m_KubernetesAuthEngineRole: movable_webhook KubernetesAuthEngineRole_VaultObject KubernetesAuthEngineRole_webhook
  "\<lambda>n d. d\<lparr>Spec := (Spec d)\<lparr>Name := n\<rparr>\<rparr>" "\<lambda>d. ''auth/'' @ Path (Spec d) @ ''/role/''" "[]"
  by unfold_locales (auto simp: webhook_defs KubernetesAuthEngineRole_VaultObject_def KubernetesAuthEngineRole_GetPath_def split: if_splits)

interpretation m_LDAPAuthEngineGroup: movable_webhook LDAPAuthEngineGroup_VaultObject LDAPAuthEngineGroup_webhook
  "\<lambda>n d. d\<lparr>Spec := (Spec d)\<lparr>Name := n\<rparr>\<rparr>" "\<lambda>d. ''auth/'' @ Path (Spec d) @ ''/groups/''" "[]"
  by unfold_locales (auto simp: webhook_defs LDAPAuthEngineGroup_VaultObject_def LDAPAuthEngineGroup_GetPath_def split: if_splits)

interpretation m_Group: movable_webhook Group_VaultObject Group_webhook
  "\<lambda>n d. d\<lparr>Spec := (Spec d)\<lparr>Name := n\<rparr>\<rparr>" "\<lambda>d. ''/identity/group/name/''" "[]"
  by unfold_locales (auto simp: webhook_defs Group_VaultObject_def Group_GetPath_def split: if_splits)

interpretation m_PasswordPolicy: movable_webhook PasswordPolicy_VaultObject PasswordPolicy_webhook
  "\<lambda>n d. d\<lparr>Spec := (Spec d)\<lparr>Name := n\<rparr>\<rparr>" "\<lambda>d. ''sys/policies/password/''" "[]"
  by unfold_locales (auto simp: webhook_defs PasswordPolicy_VaultObject_def PasswordPolicy_GetPath_def split: if_splits)

interpretation m_Policy: movable_webhook Policy_VaultObject Policy_webhook
  "\<lambda>n d. d\<lparr>Spec := (Spec d)\<lparr>Name := n\<rparr>\<rparr>" "\<lambda>d. if spec_Type (Spec d) \<noteq> [] then ''sys/policies/'' @ spec_Type (Spec d) @ ''/'' else ''sys/policy/''" "[]"
  by unfold_locales (auto simp: webhook_defs Policy_VaultObject_def Policy_GetPath_def split: if_splits)

interpretation m_KubernetesAuthEngineConfig: movable_webhook KubernetesAuthEngineConfig_VaultObject "KubernetesAuthEngineConfig_webhook read_file"
  "\<lambda>n d. d\<lparr>Spec := (Spec d)\<lparr>Name := n\<rparr>\<rparr>" "\<lambda>d. ''auth/'' @ Path (Spec d) @ ''/''" "''/config''"
  for read_file
  by unfold_locales (auto simp: webhook_defs KubernetesAuthEngineConfig_VaultObject_def KubernetesAuthEngineConfig_GetPath_def split: if_splits)

interpretation m_JWTOIDCAuthEngineRole: movable_webhook JWTOIDCAuthEngineRole_VaultObject JWTOIDCAuthEngineRole_webhook
  "\<lambda>n d. d\<lparr>Spec := (Spec d)\<lparr>spec_JWTOIDCRole := (spec_JWTOIDCRole (Spec d))\<lparr>jor_Name := n\<rparr>\<rparr>\<rparr>" "\<lambda>d. ''auth/'' @ jor_Path (Spec d) @ ''/role/''" "[]"
  by unfold_locales (auto simp: webhook_defs JWTOIDCAuthEngineRole_VaultObject_def JWTOIDCAuthEngineRole_GetPath_def split: if_splits)

interpretation m_AzureAuthEngineRole: movable_webhook AzureAuthEngineRole_VaultObject AzureAuthEngineRole_webhook
  "\<lambda>n d. d\<lparr>Spec := (Spec d)\<lparr>spec_AzureRole := (spec_AzureRole (Spec d))\<lparr>aar_Name := n\<rparr>\<rparr>\<rparr>" "\<lambda>d. ''auth/'' @ aar_Path (Spec d) @ ''/role/''" "[]"
  by unfold_locales (auto simp: webhook_defs AzureAuthEngineRole_VaultObject_def AzureAuthEngineRole_GetPath_def split: if_splits)

interpretation m_GCPAuthEngineRole: movable_webhook GCPAuthEngineRole_VaultObject GCPAuthEngineRole_webhook
  "\<lambda>n d. d\<lparr>Spec := (Spec d)\<lparr>spec_GCPRole := (spec_GCPRole (Spec d))\<lparr>gar_Name := n\<rparr>\<rparr>\<rparr>" "\<lambda>d. ''auth/'' @ gar_Path (Spec d) @ ''/role/''" "[]"
  by unfold_locales (auto simp: webhook_defs GCPAuthEngineRole_VaultObject_def GCPAuthEngineRole_GetPath_def split: if_splits)

text \<open>
  C32. For nineteen kinds of policies, groups, roles and configurations the name that ends the path in
  Vault may be edited: for every object that its webhook accepts as it is, every edit of the name
  alone (\<open>spec.name\<close>, or the name of the role) is admitted, and some of them move it to another path.
  What it wrote at the old path stays: no run of the reconcile cycle of an object that stands at
  another path touches it.
\<close>

theorem rename_strands_old_object:
  "strands DatabaseSecretEngineRole_VaultObject DatabaseSecretEngineRole_webhook (\<lambda>n d. d\<lparr>Spec := (Spec d)\<lparr>Name := n\<rparr>\<rparr>) \<and>
   strands DatabaseSecretEngineStaticRole_VaultObject DatabaseSecretEngineStaticRole_webhook (\<lambda>n d. d\<lparr>Spec := (Spec d)\<lparr>Name := n\<rparr>\<rparr>) \<and>
   strands KubernetesSecretEngineRole_VaultObject KubernetesSecretEngineRole_webhook (\<lambda>n d. d\<lparr>Spec := (Spec d)\<lparr>Name := n\<rparr>\<rparr>) \<and>
   strands PKISecretEngineRole_VaultObject PKISecretEngineRole_webhook (\<lambda>n d. d\<lparr>Spec := (Spec d)\<lparr>Name := n\<rparr>\<rparr>) \<and>
   strands GitHubSecretEngineRole_VaultObject GitHubSecretEngineRole_webhook (\<lambda>n d. d\<lparr>Spec := (Spec d)\<lparr>Name := n\<rparr>\<rparr>) \<and>
   strands AzureSecretEngineRole_VaultObject AzureSecretEngineRole_webhook (\<lambda>n d. d\<lparr>Spec := (Spec d)\<lparr>Name := n\<rparr>\<rparr>) \<and>
   strands QuaySecretEngineRole_VaultObject QuaySecretEngineRole_webhook (\<lambda>n d. d\<lparr>Spec := (Spec d)\<lparr>Name := n\<rparr>\<rparr>) \<and>
   strands QuaySecretEngineStaticRole_VaultObject QuaySecretEngineStaticRole_webhook (\<lambda>n d. d\<lparr>Spec := (Spec d)\<lparr>Name := n\<rparr>\<rparr>) \<and>
   strands RabbitMQSecretEngineRole_VaultObject RabbitMQSecretEngineRole_webhook (\<lambda>n d. d\<lparr>Spec := (Spec d)\<lparr>Name := n\<rparr>\<rparr>) \<and>
   strands DatabaseSecretEngineConfig_VaultObject DatabaseSecretEngineConfig_webhook (\<lambda>n d. d\<lparr>Spec := (Spec d)\<lparr>Name := n\<rparr>\<rparr>) \<and>
   strands KubernetesAuthEngineRole_VaultObject KubernetesAuthEngineRole_webhook (\<lambda>n d. d\<lparr>Spec := (Spec d)\<lparr>Name := n\<rparr>\<rparr>) \<and>
   strands LDAPAuthEngineGroup_VaultObject LDAPAuthEngineGroup_webhook (\<lambda>n d. d\<lparr>Spec := (Spec d)\<lparr>Name := n\<rparr>\<rparr>) \<and>
   strands Group_VaultObject Group_webhook (\<lambda>n d. d\<lparr>Spec := (Spec d)\<lparr>Name := n\<rparr>\<rparr>) \<and>
   strands PasswordPolicy_VaultObject PasswordPolicy_webhook (\<lambda>n d. d\<lparr>Spec := (Spec d)\<lparr>Name := n\<rparr>\<rparr>) \<and>
   strands Policy_VaultObject Policy_webhook (\<lambda>n d. d\<lparr>Spec := (Spec d)\<lparr>Name := n\<rparr>\<rparr>) \<and>
   strands KubernetesAuthEngineConfig_VaultObject (KubernetesAuthEngineConfig_webhook read_file) (\<lambda>n d. d\<lparr>Spec := (Spec d)\<lparr>Name := n\<rparr>\<rparr>) \<and>
   strands JWTOIDCAuthEngineRole_VaultObject JWTOIDCAuthEngineRole_webhook (\<lambda>n d. d\<lparr>Spec := (Spec d)\<lparr>spec_JWTOIDCRole := (spec_JWTOIDCRole (Spec d))\<lparr>jor_Name := n\<rparr>\<rparr>\<rparr>) \<and>
   strands AzureAuthEngineRole_VaultObject AzureAuthEngineRole_webhook (\<lambda>n d. d\<lparr>Spec := (Spec d)\<lparr>spec_AzureRole := (spec_AzureRole (Spec d))\<lparr>aar_Name := n\<rparr>\<rparr>\<rparr>) \<and>
   strands GCPAuthEngineRole_VaultObject GCPAuthEngineRole_webhook (\<lambda>n d. d\<lparr>Spec := (Spec d)\<lparr>spec_GCPRole := (spec_GCPRole (Spec d))\<lparr>gar_Name := n\<rparr>\<rparr>\<rparr>)"
  by (intro conjI
    strandsI [OF m_DatabaseSecretEngineRole.movable_webhook_axioms confined_DatabaseSecretEngineRole]
    strandsI [OF m_DatabaseSecretEngineStaticRole.movable_webhook_axioms confined_DatabaseSecretEngineStaticRole]
    strandsI [OF m_KubernetesSecretEngineRole.movable_webhook_axioms confined_KubernetesSecretEngineRole]
    strandsI [OF m_PKISecretEngineRole.movable_webhook_axioms confined_PKISecretEngineRole]
    strandsI [OF m_GitHubSecretEngineRole.movable_webhook_axioms confined_GitHubSecretEngineRole]
    strandsI [OF m_AzureSecretEngineRole.movable_webhook_axioms confined_AzureSecretEngineRole]
    strandsI [OF m_QuaySecretEngineRole.movable_webhook_axioms confined_QuaySecretEngineRole]
    strandsI [OF m_QuaySecretEngineStaticRole.movable_webhook_axioms confined_QuaySecretEngineStaticRole]
    strandsI [OF m_RabbitMQSecretEngineRole.movable_webhook_axioms confined_RabbitMQSecretEngineRole]
    strandsI [OF m_DatabaseSecretEngineConfig.movable_webhook_axioms confined_DatabaseSecretEngineConfig]
    strandsI [OF m_KubernetesAuthEngineRole.movable_webhook_axioms confined_KubernetesAuthEngineRole]
    strandsI [OF m_LDAPAuthEngineGroup.movable_webhook_axioms confined_LDAPAuthEngineGroup]
    strandsI [OF m_Group.movable_webhook_axioms confined_Group]
    strandsI [OF m_PasswordPolicy.movable_webhook_axioms confined_PasswordPolicy]
    strandsI [OF m_Policy.movable_webhook_axioms confined_Policy]
    strandsI [OF m_KubernetesAuthEngineConfig.movable_webhook_axioms confined_KubernetesAuthEngineConfig]
    strandsI [OF m_JWTOIDCAuthEngineRole.movable_webhook_axioms confined_JWTOIDCAuthEngineRole]
    strandsI [OF m_AzureAuthEngineRole.movable_webhook_axioms confined_AzureAuthEngineRole]
    strandsI [OF m_GCPAuthEngineRole.movable_webhook_axioms confined_GCPAuthEngineRole])

section \<open>Webhooks that keep objects valid\<close>

locale validating_webhook =
  fixes V :: "(('s, 'x) object, 'z) VaultObject_scheme" and W :: "('s, 'x) object webhook"
  assumes verbs: "validate_create W \<and> validate_update W"
    and create_valid: "ValidateCreate W d = [] \<Longrightarrow> IsValid V d = []"
    and update_valid: "ValidateUpdate W new old = [] \<Longrightarrow> IsValid V new = []"
    and status_valid: "IsValid V (d\<lparr>Status := s\<rparr>) = IsValid V d"
begin

lemma step_valid: "edit_step W old new \<Longrightarrow> IsValid V old = [] \<Longrightarrow> IsValid V new = []"
  by (erule edit_stepE) (use verbs in \<open>auto simp: status_valid dest: update_valid\<close>)

lemma admitted_valid: "admitted W d \<Longrightarrow> IsValid V d = []"
  by (induction rule: admitted.induct) (use verbs in \<open>auto dest: create_valid step_valid\<close>)

end

definition well_formed :: "(('s, 'x) object, 'z) VaultObject_scheme \<Rightarrow> ('s, 'x) object webhook \<Rightarrow> bool" where
  "well_formed V W \<longleftrightarrow> (\<forall>d. admitted W d \<longrightarrow> IsValid V d = [])"

lemma well_formedI: "validating_webhook V W \<Longrightarrow> well_formed V W"
  by (simp add: well_formed_def validating_webhook.admitted_valid)

interpretation v_DatabaseSecretEngineConfig: validating_webhook DatabaseSecretEngineConfig_VaultObject DatabaseSecretEngineConfig_webhook
  by unfold_locales (auto simp: webhook_defs DatabaseSecretEngineConfig_VaultObject_def DatabaseSecretEngineConfig_isValid_def split: if_splits)

interpretation v_DatabaseSecretEngineStaticRole: validating_webhook DatabaseSecretEngineStaticRole_VaultObject DatabaseSecretEngineStaticRole_webhook
  by unfold_locales (auto simp: webhook_defs DatabaseSecretEngineStaticRole_VaultObject_def DatabaseSecretEngineStaticRole_validateEitherPasswordOrKey_def split: if_splits)

interpretation v_GitHubSecretEngineConfig: validating_webhook GitHubSecretEngineConfig_VaultObject GitHubSecretEngineConfig_webhook
  by unfold_locales (auto simp: webhook_defs GitHubSecretEngineConfig_VaultObject_def GitHubSecretEngineConfig_validateEitherFromVaultSecretOrFromSecret_def split: if_splits)

interpretation v_KubernetesAuthEngineRole: validating_webhook KubernetesAuthEngineRole_VaultObject KubernetesAuthEngineRole_webhook
  by unfold_locales (auto simp: webhook_defs KubernetesAuthEngineRole_VaultObject_def split: if_splits)

interpretation v_QuaySecretEngineConfig: validating_webhook QuaySecretEngineConfig_VaultObject QuaySecretEngineConfig_webhook
  by unfold_locales (auto simp: webhook_defs QuaySecretEngineConfig_VaultObject_def split: if_splits)

interpretation v_RandomSecret: validating_webhook "RandomSecret_VaultObject hcl" "RandomSecret_webhook hcl"
  for hcl
  by unfold_locales
    (auto simp: webhook_defs RandomSecret_VaultObject_def RandomSecret_isValid_def RandomSecret_GetPath_def
      validateEitherPasswordPolicyReferenceOrInline_def validateInlinePasswordPolicyFormat_def validateSecretKey_def
      validateKVv2DataInPath_def IsKVSecretsEngineV2_def refreshed_def split: if_splits)

text \<open>
  C16. The type of the stored resources: every object of these six kinds that the API server
  stores, by creation and any number of edits, is valid. A database configuration in
  particular names exactly one source of its root credentials.
\<close>

theorem stored_objects_valid:
  "well_formed DatabaseSecretEngineConfig_VaultObject DatabaseSecretEngineConfig_webhook \<and>
   well_formed DatabaseSecretEngineStaticRole_VaultObject DatabaseSecretEngineStaticRole_webhook \<and>
   well_formed GitHubSecretEngineConfig_VaultObject GitHubSecretEngineConfig_webhook \<and>
   well_formed KubernetesAuthEngineRole_VaultObject KubernetesAuthEngineRole_webhook \<and>
   well_formed QuaySecretEngineConfig_VaultObject QuaySecretEngineConfig_webhook \<and>
   well_formed (RandomSecret_VaultObject hcl) (RandomSecret_webhook hcl) \<and>
   {d. admitted DatabaseSecretEngineConfig_webhook d} \<subseteq> {d. one_source (db_RootCredentials (Spec d))}"
proof (intro conjI well_formedI)
  show "{d. admitted DatabaseSecretEngineConfig_webhook d} \<subseteq> {d. one_source (db_RootCredentials (Spec d))}"
    using v_DatabaseSecretEngineConfig.admitted_valid
    by (auto simp: DatabaseSecretEngineConfig_VaultObject_def DatabaseSecretEngineConfig_isValid_def
        simp flip: Validate_iff split: option.splits)
qed (rule v_DatabaseSecretEngineConfig.validating_webhook_axioms v_DatabaseSecretEngineStaticRole.validating_webhook_axioms v_GitHubSecretEngineConfig.validating_webhook_axioms
  v_KubernetesAuthEngineRole.validating_webhook_axioms v_QuaySecretEngineConfig.validating_webhook_axioms
  v_RandomSecret.validating_webhook_axioms)+

section \<open>Webhooks that let invalid objects in\<close>

text \<open>
  The webhooks that check validity on updates only, although the resource has a notion of
  validity: everything can be created, and an invalid object refuses every update that does
  not repair it, the operator's own (a finalizer, say) included.
\<close>

definition admits_all :: "(('s, 'x) object, 'z) VaultObject_scheme \<Rightarrow> ('s, 'x) object webhook \<Rightarrow> bool" where
  "admits_all V W \<longleftrightarrow> (\<forall>d. admitted W d) \<and> (\<exists>d. IsValid V d \<noteq> [])"

definition locks_invalid :: "(('s, 'x) object, 'z) VaultObject_scheme \<Rightarrow> ('s, 'x) object webhook \<Rightarrow> bool" where
  "locks_invalid V W \<longleftrightarrow> (\<forall>old new. IsValid V old \<noteq> [] \<and> edit_step W old new \<and> Spec new = Spec old \<longrightarrow> Meta new = Meta old)"

lemma admits_allI:
  assumes "\<And>d. Default W d = d" and "\<And>d. validate_create W \<longrightarrow> ValidateCreate W d = []" and "IsValid V d \<noteq> []"
  shows "admits_all V W"
proof -
  have "admitted W d" for d
    by (rule admitted.create [where d = d]) (simp_all add: defaulted_def assms)
  then show ?thesis using assms(3) by (auto simp: admits_all_def)
qed

lemma locks_invalidI:
  assumes "validate_update W" and "\<And>old new. ValidateUpdate W new old = [] \<Longrightarrow> IsValid V new = []"
    and "\<And>old new. Spec new = Spec old \<Longrightarrow> IsValid V new = IsValid V old"
  shows "locks_invalid V W"
  unfolding locks_invalid_def
proof (intro allI impI)
  fix old new
  assume a: "IsValid V old \<noteq> [] \<and> edit_step W old new \<and> Spec new = Spec old"
  then have "edit_step W old new" and "IsValid V new \<noteq> []" using assms(3) [of new old] by simp_all
  then show "Meta new = Meta old"
  proof (cases rule: edit_step.cases)
    case replace
    then show ?thesis using assms(1) assms(2) [of new old] \<open>IsValid V new \<noteq> []\<close> by simp
  qed simp
qed

text \<open>A reference without a source, in a sample of each kind.\<close>

definition no_source :: RootCredentialConfig where
  "no_source = \<lparr>rc_VaultSecret = None, rc_Secret = None, rc_RandomSecret = None, rc_PasswordKey = [], rc_UsernameKey = []\<rparr>"

lemma no_source_refused:
  "ValidateEitherFromVaultSecretOrFromSecretOrFromRandomSecret no_source = Some only_one_error"
  "ValidateEitherFromVaultSecretOrFromSecret no_source = Some only_one_error"
  by (simp_all add: no_source_def ValidateEitherFromVaultSecretOrFromSecretOrFromRandomSecret_def
      ValidateEitherFromVaultSecretOrFromSecret_def)

text \<open>
  C39. Azure and Kubernetes engine configurations and LDAP configurations have a test of validity
  that creation does not apply: every object is stored, invalid ones included. For the first
  two an invalid object then refuses each edit that leaves its spec as it is, so not even the
  operator can add the finalizer that its deletion in Vault depends on.
\<close>

theorem unchecked_creation_locks:
  "admits_all KubernetesSecretEngineConfig_VaultObject KubernetesSecretEngineConfig_webhook \<and>
   admits_all AzureSecretEngineConfig_VaultObject AzureSecretEngineConfig_webhook \<and>
   admits_all LDAPAuthEngineConfig_VaultObject LDAPAuthEngineConfig_webhook \<and>
   locks_invalid KubernetesSecretEngineConfig_VaultObject KubernetesSecretEngineConfig_webhook \<and>
   locks_invalid AzureSecretEngineConfig_VaultObject AzureSecretEngineConfig_webhook"
proof (intro conjI)
  show "admits_all KubernetesSecretEngineConfig_VaultObject KubernetesSecretEngineConfig_webhook"
    by (rule admits_allI [where d = "d\<lparr>Spec := (Spec d)\<lparr>kse_JWTReference := no_source\<rparr>\<rparr>" for d])
      (simp_all add: webhook_defs KubernetesSecretEngineConfig_VaultObject_def no_source_refused)
  show "admits_all AzureSecretEngineConfig_VaultObject AzureSecretEngineConfig_webhook"
    by (rule admits_allI [where d = "d\<lparr>Spec := (Spec d)\<lparr>ase_AzureCredentials := no_source\<rparr>\<rparr>" for d])
      (simp_all add: webhook_defs AzureSecretEngineConfig_VaultObject_def no_source_refused)
  show "admits_all LDAPAuthEngineConfig_VaultObject LDAPAuthEngineConfig_webhook"
    by (rule admits_allI [where d = "d\<lparr>Spec := (Spec d)\<lparr>ldap_BindCredentials := no_source\<rparr>\<rparr>" for d])
      (simp_all add: webhook_defs LDAPAuthEngineConfig_VaultObject_def no_source_refused)
  show "locks_invalid KubernetesSecretEngineConfig_VaultObject KubernetesSecretEngineConfig_webhook"
    by (rule locks_invalidI)
      (auto simp: webhook_defs KubernetesSecretEngineConfig_VaultObject_def split: if_splits)
  show "locks_invalid AzureSecretEngineConfig_VaultObject AzureSecretEngineConfig_webhook"
    by (rule locks_invalidI)
      (auto simp: webhook_defs AzureSecretEngineConfig_VaultObject_def split: if_splits)
qed

section \<open>One RabbitMQ configuration per mount\<close>

text \<open>
  The stored \<open>RabbitMQSecretEngineConfig\<close> resources of the cluster; \<open>asked\<close> tells whether the
  API server asks the handler, \<open>moves\<close> whether updates may change the Vault namespace.
\<close>

abbreviation vault_namespace :: "RabbitMQSecretEngineConfig \<Rightarrow> string" where
  "vault_namespace c \<equiv> ka_Namespace (Authentication (Spec c))"

definition object_key :: "('s, 't) crd \<Rightarrow> string \<times> string" where
  "object_key d = (GetNamespace d, GetName d)"

inductive rabbitmq_step :: "bool \<Rightarrow> bool \<Rightarrow> RabbitMQSecretEngineConfig list \<Rightarrow> RabbitMQSecretEngineConfig list \<Rightarrow> bool"
  for asked moves :: bool where
  create: "rabbitmq_step asked moves items (c # items)"
    if "object_key c \<notin> set (map object_key items)"
      and "asked \<longrightarrow> RabbitMQSecretEngineConfigValidation_Handle CREATE (Inr c) none (Inr items) = Allowed"
| update: "rabbitmq_step asked moves (xs @ old # ys) (xs @ c # ys)"
    if "object_key c = object_key old"
      and "asked \<longrightarrow> RabbitMQSecretEngineConfigValidation_Handle UPDATE (Inr c) (Inr old) none' = Allowed"
      and "moves \<or> vault_namespace c = vault_namespace old"
| delete: "rabbitmq_step asked moves (xs @ c # ys) (xs @ ys)"

definition one_per_mount :: "RabbitMQSecretEngineConfig list \<Rightarrow> bool" where
  "one_per_mount items \<longleftrightarrow> distinct (map (\<lambda>c. (vault_namespace c, rmq_Path (Spec c))) items)"

lemma already_configured_None:
  "already_configured c items = None \<Longrightarrow> d \<in> set items \<Longrightarrow>
     (vault_namespace d, rmq_Path (Spec d)) \<noteq> (vault_namespace c, rmq_Path (Spec c))"
  by (induction items) (auto simp: Let_def split: if_splits)

lemma Handle_CREATE_iff:
  "RabbitMQSecretEngineConfigValidation_Handle CREATE (Inr c) none (Inr items) = Allowed \<longleftrightarrow>
     already_configured c items = None"
  by (simp add: RabbitMQSecretEngineConfigValidation_Handle_def split: option.split)

lemma Handle_UPDATE_iff:
  "RabbitMQSecretEngineConfigValidation_Handle UPDATE (Inr c) (Inr old) none = Allowed \<longleftrightarrow>
     rmq_Path (Spec c) = rmq_Path (Spec old)"
  by (simp add: RabbitMQSecretEngineConfigValidation_Handle_def)

lemma rabbitmq_step_one: "rabbitmq_step True False items items' \<Longrightarrow> one_per_mount items \<Longrightarrow> one_per_mount items'"
proof (induction rule: rabbitmq_step.induct)
  case (create c items none)
  then have "already_configured c items = None" by (simp add: Handle_CREATE_iff)
  then have "(vault_namespace c, rmq_Path (Spec c)) \<notin> (\<lambda>c. (vault_namespace c, rmq_Path (Spec c))) ` set items"
    by (metis (no_types, lifting) imageE already_configured_None)
  then show ?case using create.prems by (simp add: one_per_mount_def)
qed (auto simp: one_per_mount_def Handle_UPDATE_iff)

lemma rabbitmq_steps_one: "(rabbitmq_step True False)\<^sup>*\<^sup>* items items' \<Longrightarrow> one_per_mount items \<Longrightarrow> one_per_mount items'"
  by (induction rule: rtranclp_induct) (auto dest: rabbitmq_step_one)

text \<open>The configuration \<open>n\<close> of a mount in a Vault namespace.\<close>

definition rabbitmq_at :: "string \<Rightarrow> string \<Rightarrow> string \<Rightarrow> RabbitMQSecretEngineConfig" where
  "rabbitmq_at n ns p =
     \<lparr>TypeKind = ''RabbitMQSecretEngineConfig'', Meta = sample_meta n,
      Spec = \<lparr>Connection = None, Authentication = sample_auth\<lparr>ka_Namespace := ns\<rparr>, rmq_Path = p,
        spec_RMQSEConfig = \<lparr>rmq_ConnectionURI = [], rmq_Username = [], rmq_VerifyConnection = True,
          rmq_PasswordPolicy = [], rmq_UsernameTemplate = [], rmq_LeaseTTL = 0, rmq_LeaseMaxTTL = 0,
          rmq_retrievedPassword = [], rmq_retrievedUsername = []\<rparr>,
        rmq_RootCredentials = no_source\<rparr>,
      Status = \<lparr>Conditions = []\<rparr>\<rparr>"

lemma rabbitmq_at_simps:
  "vault_namespace (rabbitmq_at n ns p) = ns" "rmq_Path (Spec (rabbitmq_at n ns p)) = p"
  "object_key (rabbitmq_at n ns p) = object_key (rabbitmq_at n ms q)"
  "object_key (rabbitmq_at n ns p) = object_key (rabbitmq_at m ms q) \<longleftrightarrow> n = m"
  by (simp_all add: rabbitmq_at_def object_key_def GetName_def GetNamespace_def sample_meta_def)

text \<open>Two configurations of other Vault namespaces, both moved to \<open>ns\<close>.\<close>

lemma rabbitmq_moved:
  "(rabbitmq_step True True)\<^sup>*\<^sup>* [] [rabbitmq_at ''b'' ns p, rabbitmq_at ''a'' ns p]"
proof -
  let ?a = "\<lambda>m. rabbitmq_at ''a'' m p" and ?b = "\<lambda>m. rabbitmq_at ''b'' m p"
  let ?x = "CHR ''x'' # ns" and ?y = "CHR ''y'' # ns"
  have 1: "rabbitmq_step True True [] [?a ?x]"
    by (rule rabbitmq_step.create [where none = "Inr (?a ?x)"]) (simp_all add: Handle_CREATE_iff)
  have 2: "rabbitmq_step True True [?a ?x] [?b ?y, ?a ?x]"
    by (rule rabbitmq_step.create [where none = "Inr (?a ?x)"]) (simp_all add: Handle_CREATE_iff rabbitmq_at_simps)
  have upd: "rabbitmq_step True True (xs @ rabbitmq_at n m p # ys) (xs @ rabbitmq_at n ns p # ys)" for n m xs ys
    by (rule rabbitmq_step.update [where none' = "Inr []"]) (simp_all add: Handle_UPDATE_iff rabbitmq_at_simps)
  have 3: "rabbitmq_step True True [?b ?y, ?a ?x] [?b ns, ?a ?x]"
    using upd [of "[]" _ _ "[?a ?x]"] by simp
  have 4: "rabbitmq_step True True [?b ns, ?a ?x] [?b ns, ?a ns]"
    using upd [of "[?b ns]" _ _ "[]"] by simp
  show ?thesis using 1 2 3 4 by (meson rtranclp.rtrancl_refl rtranclp.rtrancl_into_rtrancl)
qed

text \<open>Where the handler is not asked, two objects of other names are enough.\<close>

lemma rabbitmq_unasked: "(rabbitmq_step False False)\<^sup>*\<^sup>* [] [rabbitmq_at ''b'' ns p, rabbitmq_at ''a'' ns p]"
proof -
  let ?a = "rabbitmq_at ''a'' ns p" and ?b = "rabbitmq_at ''b'' ns p"
  have 1: "rabbitmq_step False False [] [?a]" by (rule rabbitmq_step.create) simp_all
  have 2: "rabbitmq_step False False [?a] [?b, ?a]" by (rule rabbitmq_step.create) (simp_all add: rabbitmq_at_simps)
  show ?thesis using 1 2 by (meson rtranclp.rtrancl_refl rtranclp.rtrancl_into_rtrancl)
qed

text \<open>
  C17. Where the API server asks the handler about creations and updates, and updates leave the Vault
  namespace alone, the handler keeps the promise of its error messages: however configurations are
  created, edited and deleted, no two of the cluster configure the same mount of the same Vault
  namespace. An update is not asked about the namespace, though, and with such updates any mount
  can get two configurations. A deployment from the manifests of the repository registers no
  webhook for the handler's path; there two creations are enough.
\<close>

theorem rabbitmq_one_configuration_per_mount:
  "((rabbitmq_step True False)\<^sup>*\<^sup>* [] items \<longrightarrow> one_per_mount items) \<and>
   (rabbitmq_step True True)\<^sup>*\<^sup>* [] [rabbitmq_at ''b'' ns p, rabbitmq_at ''a'' ns p] \<and>
   (rabbitmq_step False False)\<^sup>*\<^sup>* [] [rabbitmq_at ''b'' ns p, rabbitmq_at ''a'' ns p] \<and>
   \<not> one_per_mount [rabbitmq_at ''b'' ns p, rabbitmq_at ''a'' ns p]"
proof (intro conjI impI)
  show "(rabbitmq_step True False)\<^sup>*\<^sup>* [] items \<Longrightarrow> one_per_mount items"
    by (erule rabbitmq_steps_one) (simp add: one_per_mount_def)
qed (simp_all add: rabbitmq_moved rabbitmq_unasked one_per_mount_def rabbitmq_at_simps)

theorem rabbitmq_one_configuration_per_mount_witness:
  "(rabbitmq_step True False)\<^sup>*\<^sup>* [] [rabbitmq_at ''b'' ''team'' ''mq'', rabbitmq_at ''a'' [] ''mq''] \<and>
   one_per_mount [rabbitmq_at ''b'' ''team'' ''mq'', rabbitmq_at ''a'' [] ''mq'']"
proof -
  let ?a = "rabbitmq_at ''a'' [] ''mq''" and ?b = "rabbitmq_at ''b'' ''team'' ''mq''"
  have 1: "rabbitmq_step True False [] [?a]"
    by (rule rabbitmq_step.create [where none = "Inr ?a"]) (simp_all add: Handle_CREATE_iff)
  have 2: "rabbitmq_step True False [?a] [?b, ?a]"
    by (rule rabbitmq_step.create [where none = "Inr ?a"]) (simp_all add: Handle_CREATE_iff rabbitmq_at_simps)
  have "(rabbitmq_step True False)\<^sup>*\<^sup>* [] [?b, ?a]"
    using 1 2 by (meson rtranclp.rtrancl_refl rtranclp.rtrancl_into_rtrancl)
  then show ?thesis
    using rabbitmq_one_configuration_per_mount [of "[?b, ?a]" "[]" "''a''"] by blast
qed

section \<open>Engine mounts and the defaulted CA\<close>

text \<open>An admitted edit of a mount changes its payload in the tuning section only.\<close>

lemma Mount_toMap_config:
  "fmdrop ''config'' (Mount_toMap (m\<lparr>mnt_Config := c\<rparr>)) = fmdrop ''config'' (Mount_toMap m)"
  "fmdrop ''config'' (AuthMount_toMap (a\<lparr>am_Config := b\<rparr>)) = fmdrop ''config'' (AuthMount_toMap a)"
  by (rule fmap_ext; simp add: Mount_toMap_def AuthMount_toMap_def fmlookup_of_list)+

lemma SecretEngineMount_edit_payload:
  "edit_step SecretEngineMount_webhook old new \<Longrightarrow>
     fmdrop ''config'' (SecretEngineMount_GetPayload new) = fmdrop ''config'' (SecretEngineMount_GetPayload old)"
  by (erule edit_stepE)
    (auto simp: SecretEngineMount_webhook_def SecretEngineMount_ValidateUpdate_def path_fixed_def
      SecretEngineMount_GetPayload_def defaulted_def Let_def split: if_splits, metis Mount_toMap_config(1))

lemma AuthEngineMount_edit_payload:
  "edit_step AuthEngineMount_webhook old new \<Longrightarrow>
     fmdrop ''config'' (AuthEngineMount_GetPayload new) = fmdrop ''config'' (AuthEngineMount_GetPayload old)"
  by (erule edit_stepE)
    (auto simp: AuthEngineMount_webhook_def AuthEngineMount_ValidateUpdate_def path_fixed_def
      AuthEngineMount_GetPayload_def defaulted_def Let_def split: if_splits, metis Mount_toMap_config(2))

text \<open>
  What Vault gets as CA certificate when a Kubernetes authentication configuration is created:
  the one of the spec, or else the operator pod's if \<open>useOperatorPodCA\<close> is set and the file can
  be read. \<open>disableLocalCAJWT\<close> has no say, although the comment on the field demands it.
\<close>

lemma created_CA:
  "fmlookup (KubernetesAuthEngineConfig_GetPayload (Default (KubernetesAuthEngineConfig_webhook read_file) d))
     ''kubernetes_ca_cert'' =
   Some (VStr (let c = spec_KAECConfig (Spec d) in
     if kae_KubernetesCACert c \<noteq> [] then kae_KubernetesCACert c
     else case (kae_UseOperatorPodCA c, read_file operator_pod_ca) of (True, Inr b) \<Rightarrow> b | _ \<Rightarrow> []))"
  by (simp add: KubernetesAuthEngineConfig_webhook_def KubernetesAuthEngineConfig_Default_def Let_def
      KubernetesAuthEngineConfig_GetPayload_def KAECConfig_toMap_def fmlookup_of_list split: sum.split)

lemma Default_idempotent:
  "Default (KubernetesAuthEngineConfig_webhook read_file) (Default (KubernetesAuthEngineConfig_webhook read_file) d) =
     Default (KubernetesAuthEngineConfig_webhook read_file) d"
  by (simp add: KubernetesAuthEngineConfig_webhook_def KubernetesAuthEngineConfig_Default_def split: sum.split)


end
