(* ===== verification/MountTable.thy ===== *)
theory MountTable
  imports Mounts Convergence Admission
begin

text \<open>
  Engine mounts against an abstract mount table: which engines are mounted, from which payload,
  and with which configuration. Writing a mount path mounts an engine, writing the tune path of a
  mounted engine tunes it, deleting unmounts. What configuration a mount payload gives, and what a
  tuning makes of a configuration, is Vault's own and a parameter here. A reconcile of a
  \<open>SecretEngineMount\<close> or \<open>AuthEngineMount\<close> refines one operation on that table.
\<close>

section \<open>The mount table\<close>

type_synonym 'c mount_table = "string \<Rightarrow> (gmap \<times> 'c) option"

text \<open>
  Vault's side of the configurations: the one of an engine mounted from a payload, the one after a
  write to the tune path, and what a read of the tune path shows of it.
\<close>

record 'c engine_server =
  fresh :: "gmap \<Rightarrow> 'c"
  tuned :: "'c \<Rightarrow> gmap \<Rightarrow> 'c"
  shown :: "'c \<Rightarrow> gmap"

definition mount_config :: "gmap \<Rightarrow> gmap" where
  "mount_config m = (case as_map (fmlookup m ''config'') of Some c \<Rightarrow> c | None \<Rightarrow> fmempty)"

fun mount_call :: "'c engine_server \<Rightarrow> 'o call \<Rightarrow> 'c mount_table \<Rightarrow> 'c mount_table" where
  "mount_call S (VaultWrite cl q (Some m)) s =
     (if HasSuffix q ''/tune''
      then (\<lambda>p. if p @ ''/tune'' = q then map_option (\<lambda>e. (fst e, tuned S (snd e) m)) (s p) else s p)
      else s(q \<mapsto> (m, fresh S m)))"
| "mount_call S (VaultDelete cl q) s = s(q := None)"
| "mount_call S _ s = s"

definition table_of :: "'c engine_server \<Rightarrow> 'o call list \<Rightarrow> 'c mount_table" where
  "table_of S tr = fold (mount_call S) tr (\<lambda>_. None)"

lemma table_of_append [simp]: "table_of S (tr @ [c]) = mount_call S c (table_of S tr)"
  by (simp add: table_of_def)

lemma table_of_Nil [simp]: "table_of S [] = (\<lambda>_. None)"
  by (simp add: table_of_def)

lemma mount_call_query: "vault_mutation c = None \<Longrightarrow> mount_call S c s = s"
  by (cases c) simp_all

interpretation table: vault_view "table_of S" for S
  by unfold_locales (simp add: mount_call_query)

lemma table_of_replay [simp]: "table_of S (replay tr) = table_of S tr"
proof (induction tr rule: rev_induct)
  case (snoc c tr)
  show ?case
  proof (cases c)
    case (VaultWrite cl p m)
    then show ?thesis using snoc by (cases m) (simp_all add: replay_append)
  qed (use snoc in \<open>simp_all add: replay_append\<close>)
qed (simp add: table_of_def)

text \<open>What Vault lets one mount at: a name below the list's path that is not a tune path.\<close>

definition mount_path :: "string \<Rightarrow> string \<Rightarrow> bool" where
  "mount_path list p \<longleftrightarrow> (\<exists>n. p = list @ ''/'' @ n \<and> n \<noteq> [] \<and> hd n \<noteq> CHR ''/'' \<and> last n \<noteq> CHR ''/'') \<and>
     \<not> HasSuffix p ''/tune''"

lemma HasSuffix_append [simp]: "HasSuffix (p @ s) s"
  by (simp add: HasSuffix_def)

lemma mount_call_at:
  "\<not> HasSuffix p ''/tune'' \<Longrightarrow> mount_call S (VaultWrite cl p (Some m)) s = s(p \<mapsto> (m, fresh S m))"
  "mount_call S (VaultWrite cl (p @ ''/tune'') (Some m)) s =
     (case s p of None \<Rightarrow> s | Some e \<Rightarrow> s(p \<mapsto> (fst e, tuned S (snd e) m)))"
  by (auto simp: fun_eq_iff split: option.split)

text \<open>
  Vault's side, for the mounts below \<open>list\<close>: the list names exactly the mounted engines, each
  with an accessor; the tune path of a mounted engine shows its configuration and can be written;
  a free path can be mounted, and a mount be removed.
\<close>

definition lists_engines :: "string \<Rightarrow> 'c mount_table \<Rightarrow> gmap \<Rightarrow> bool" where
  "lists_engines list s m \<longleftrightarrow>
     (\<forall>p. mount_path list p \<longrightarrow> (\<exists>k \<in> fset (fmdom m). Trim k (CHR ''/'') = Trim (TrimPrefix p list) (CHR ''/'')) = (s p \<noteq> None)) \<and>
     (\<forall>k \<in> fset (fmdom m). \<exists>e a. as_map (fmlookup m k) = Some e \<and> as_string (fmlookup e ''accessor'') = Some a)"

definition mount_server :: "string \<Rightarrow> 'c engine_server \<Rightarrow> 'o env \<Rightarrow> vault_client \<Rightarrow> bool" where
  "mount_server list S E cl \<longleftrightarrow>
     (\<forall>tr. \<exists>s m. vault_read E tr cl list = Inr (Some s) \<and> vs_Data s = Some m \<and> lists_engines list (table_of S tr) m) \<and>
     (\<forall>tr p e. mount_path list p \<longrightarrow> table_of S tr p = Some e \<longrightarrow>
        read_answer (vault_read E tr cl (p @ ''/tune'')) = Ok (Some (shown S (snd e)), True) \<and>
        (\<forall>m. \<exists>r. vault_write E tr cl (p @ ''/tune'') (Some m) = Inr r)) \<and>
     (\<forall>tr p m. mount_path list p \<longrightarrow> table_of S tr p = None \<longrightarrow> (\<exists>r. vault_write E tr cl p (Some m) = Inr r)) \<and>
     (\<forall>tr p. mount_path list p \<longrightarrow> (\<exists>r. vault_delete E tr cl p = Inr r))"

text \<open>What a reconcile of a mount means: mount it once, afterwards only tune it, and unmount it.\<close>

definition sync_mount ::
  "'c engine_server \<Rightarrow> (('s, 'x) object, 'z) VaultEngineObject_scheme \<Rightarrow> ('s, 'x) object env \<Rightarrow>
     ('s, 'x) object \<Rightarrow> 'c mount_table \<Rightarrow> 'c mount_table" where
  "sync_mount S V E d s =
     (let p = GetPath V d in
      if \<not> is_deleted d
      then (case s p of
          None \<Rightarrow> s(p \<mapsto> (GetPayload V d, fresh S (GetPayload V d)))
        | Some e \<Rightarrow> if IsEquivalentToDesiredState V d (Some (shown S (snd e))) then s
                   else s(p \<mapsto> (fst e, tuned S (snd e) (GetTunePayload V d))))
      else if contains_finalizer E d (GetFinalizer d) \<and> IsDeletable V d \<and> list_ex successful (GetConditions d)
      then s(p := None) else s)"

text \<open>A Vault where tuning again with the same values, or with those of the mount itself, changes nothing.\<close>

definition steady :: "'c engine_server \<Rightarrow> bool" where
  "steady S \<longleftrightarrow> (\<forall>c m. tuned S (tuned S c m) m = tuned S c m) \<and> (\<forall>m. tuned S (fresh S m) (mount_config m) = fresh S m)"

lemma steadyD:
  assumes "steady S"
  shows "tuned S (tuned S c m) m = tuned S c m" and "tuned S (fresh S m) (mount_config m) = fresh S m"
  using assms by (simp_all add: steady_def)

definition mount_turn ::
  "(('s, 'x) object, 'z) VaultEngineObject_scheme \<Rightarrow> ('s, 'x) object env \<Rightarrow> vault_client \<Rightarrow>
     ('s, 'x) object \<Rightarrow> vault_log \<Rightarrow> vault_log" where
  "mount_turn V E cl d h =
     replay (calls (snd (VaultEngineResource_Reconcile V E cl \<lparr>inst = d, calls = replay h, client_cache = fmempty\<rparr>)))"

section \<open>The interface of a kind of mount\<close>

locale mount_kind =
  fixes V :: "(('s, 'x) object, 'z) VaultEngineObject_scheme" and list :: string
  assumes list_path: "GetEngineListPath V d = list"
    and tune_path: "GetEngineTunePath V d = GetPath V d @ ''/tune''"
    and own_config: "mount_config (GetPayload V d) = GetTunePayload V d"
    and nothing_prepared: "PrepareInternalValues V = (\<lambda>E cl. retG ())" "PrepareTLSConfig V = (\<lambda>E cl. retG ())"

context mount_kind
begin

lemma retrieveAccessor_table:
  assumes "mount_server list S E cl" and "mount_path list (GetPath V (inst w))"
  shows "\<exists>a. retrieveAccessor V E cl w =
    (Ok (a, table_of S (calls w) (GetPath V (inst w)) \<noteq> None), w\<lparr>calls := calls w @ [VaultRead cl list]\<rparr>)"
proof -
  let ?w = "w\<lparr>calls := calls w @ [VaultRead cl list]\<rparr>"
  obtain s m where m: "vault_read E (calls w) cl list = Inr (Some s)" "vs_Data s = Some m"
      "lists_engines list (table_of S (calls w)) m"
    using assms(1) unfolding mount_server_def by blast
  let ?keys = "range_keys (range_rank E (calls ?w)) m"
  have listed: "(\<exists>k \<in> set ?keys. is_mount_key V (inst w) k) = (table_of S (calls w) (GetPath V (inst w)) \<noteq> None)"
    using m(3) assms(2) by (simp add: lists_engines_def is_mount_key_def list_path)
  have "\<exists>a. accessor_of (is_mount_key V (inst w)) m ?keys = Ok (a, find (is_mount_key V (inst w)) ?keys \<noteq> None)"
  proof (cases "find (is_mount_key V (inst w)) ?keys")
    case (Some k)
    then have "k \<in> fset (fmdom m)" by (metis find_Some_iff nth_mem range_keys(1))
    then obtain e a where "as_map (fmlookup m k) = Some e" "as_string (fmlookup e ''accessor'') = Some a"
      using m(3) unfolding lists_engines_def by blast
    then show ?thesis using Some by (simp add: accessor_of_def)
  qed (simp add: accessor_of_def)
  then show ?thesis
    using m(1,2) listed by (auto simp: retrieveAccessor_run list_path Let_def find_None_iff)
qed

lemma Create_table:
  assumes "mount_server list S E cl" and "mount_path list (GetPath V (inst w))"
    and "table_of S (calls w) (GetPath V (inst w)) = None"
  shows "\<exists>w'. Create V E cl w = (Ok (), w') \<and> inst w' = inst w \<and> table_of S (calls w') =
    (table_of S (calls w))(GetPath V (inst w) \<mapsto> (GetPayload V (inst w), fresh S (GetPayload V (inst w))))"
proof -
  obtain r where "vault_write E (calls w) cl (GetPath V (inst w)) (Some (GetPayload V (inst w))) = Inr r"
    using assms unfolding mount_server_def by blast
  moreover have "\<not> HasSuffix (GetPath V (inst w)) ''/tune''" using assms(2) by (simp add: mount_path_def)
  ultimately show ?thesis by (simp add: Create_def bindG_get writePayload_run mount_call_at del: mount_call.simps)
qed

lemma tune_table:
  assumes "mount_server list S E cl" and "mount_path list (GetPath V (inst w))"
    and "table_of S (calls w) (GetPath V (inst w)) = Some e"
  shows "\<exists>w'. CreateOrUpdateTuneConfig V E cl w = (Ok (), w') \<and> inst w' = inst w \<and> table_of S (calls w') =
    (if IsEquivalentToDesiredState V (inst w) (Some (shown S (snd e))) then table_of S (calls w)
     else (table_of S (calls w))(GetPath V (inst w) \<mapsto> (fst e, tuned S (snd e) (GetTunePayload V (inst w)))))"
proof -
  let ?p = "GetPath V (inst w)" and ?tr = "calls w @ [VaultRead cl (GetPath V (inst w) @ ''/tune'')]"
  have rd: "read_answer (vault_read E (calls w) cl (?p @ ''/tune'')) = Ok (Some (shown S (snd e)), True)"
    using assms unfolding mount_server_def by blast
  have e: "table_of S ?tr ?p = Some e" using assms(3) by (simp add: mount_call_query)
  obtain r where "vault_write E ?tr cl (?p @ ''/tune'') (Some (GetTunePayload V (inst w))) = Inr r"
    using assms(1,2) e unfolding mount_server_def by blast
  then have run: "CreateOrUpdateTuneConfig V E cl w =
      (Ok (), if IsEquivalentToDesiredState V (inst w) (Some (shown S (snd e))) then w\<lparr>calls := ?tr\<rparr>
        else w\<lparr>calls := ?tr @ [VaultWrite cl (?p @ ''/tune'') (Some (GetTunePayload V (inst w)))]\<rparr>)"
    using rd by (simp add: CreateOrUpdateTuneConfig_def readTuneConfig_def bindG_assoc bindG_get bindG_read tune_path
        Let_def bindG_ret writePayload_run) (simp add: retG_def)
  have "table_of S ?tr = table_of S (calls w)" by (simp add: mount_call_query)
  then show ?thesis
    unfolding run using e table_of_append [of S ?tr "VaultWrite cl (?p @ ''/tune'') (Some (GetTunePayload V (inst w)))"]
    by (simp add: mount_call_at del: mount_call.simps)
qed

text \<open>The reconcile logic, which always ends with a second look at the list, for the accessor.\<close>

lemma logic_table:
  assumes "mount_server list S E cl" and "mount_path list (GetPath V (inst w))" and "\<not> is_deleted (inst w)"
  shows "\<exists>w'. VaultEngineResource_manageReconcileLogic V E cl w = (Ok (), w') \<and>
    table_of S (calls w') = sync_mount S V E (inst w) (table_of S (calls w))"
proof -
  let ?d = "inst w" and ?p = "GetPath V (inst w)" and ?w = "w\<lparr>calls := calls w @ [VaultRead cl list]\<rparr>"
  let ?found = "table_of S (calls w) ?p \<noteq> None"
  obtain a where look: "retrieveAccessor V E cl w = (Ok (a, ?found), ?w)"
    using retrieveAccessor_table [OF assms(1,2)] by blast
  have tbl: "table_of S (calls ?w) = table_of S (calls w)" by (simp add: mount_call_query)
  have "\<exists>w1. (if \<not> ?found then Create V E cl else CreateOrUpdateTuneConfig V E cl) ?w = (Ok (), w1) \<and>
      inst w1 = ?d \<and> table_of S (calls w1) = sync_mount S V E ?d (table_of S (calls w))"
  proof (cases "table_of S (calls w) ?p")
    case None
    then show ?thesis
      using Create_table [OF assms(1), of ?w] assms(2,3) tbl by (simp add: sync_mount_def Let_def)
  next
    case (Some e)
    then show ?thesis
      using tune_table [OF assms(1), of ?w e] assms(2,3) tbl by (auto simp: sync_mount_def Let_def)
  qed
  then obtain w1 where w1: "(if \<not> ?found then Create V E cl else CreateOrUpdateTuneConfig V E cl) ?w = (Ok (), w1)"
      "inst w1 = ?d" "table_of S (calls w1) = sync_mount S V E ?d (table_of S (calls w))"
    by blast
  obtain b where "retrieveAccessor V E cl w1 =
      (Ok (b, table_of S (calls w1) (GetPath V (inst w1)) \<noteq> None), w1\<lparr>calls := calls w1 @ [VaultRead cl list]\<rparr>)"
    using retrieveAccessor_table [OF assms(1), of w1] assms(2) w1(2) by auto
  then have "VaultEngineResource_manageReconcileLogic V E cl w =
      modifyG (SetAccessor V b) (w1\<lparr>calls := calls w1 @ [VaultRead cl list]\<rparr>)"
    using look w1(1)
    by (simp add: VaultEngineResource_manageReconcileLogic_def nothing_prepared bindG_ret VaultEngineEndpoint_Exists_def
        GetAccessor_def bindG_assoc bindG_Ok)
  then show ?thesis using w1(3) by (simp add: modifyG_def mount_call_query)
qed

lemma delete_table:
  assumes "mount_server list S E cl" and "mount_path list (GetPath V (inst w))"
  shows "\<exists>w'. DeleteIfExists V E cl w = (Ok (), w') \<and> inst w' = inst w \<and>
    table_of S (calls w') = (table_of S (calls w))(GetPath V (inst w) := None)"
proof -
  obtain r where "vault_delete E (calls w) cl (GetPath V (inst w)) = Inr r"
    using assms unfolding mount_server_def by blast
  then show ?thesis by (simp add: DeleteIfExists_run delete_path_run)
qed

lemma refines_table:
  assumes "mount_server list S E cl" and "mount_path list (GetPath V (inst w))"
  shows "table_of S (calls (snd (VaultEngineResource_Reconcile V E cl w))) = sync_mount S V E (inst w) (table_of S (calls w))"
proof (cases "is_deleted (inst w)")
  case False
  then show ?thesis
    using logic_table [OF assms False] unfolding VaultEngineResource_Reconcile_def
    by (auto simp: table.live_cycle_view [OF False])
next
  case True
  let ?d = "inst w" and ?clear = "\<lambda>s :: 'c mount_table. s(GetPath V (inst w) := None)"
  let ?clean = "manageCleanUpLogic V (DeleteIfExists V E cl)"
  have clean: "\<exists>w'. ?clean w = (Ok (), w') \<and> inst w' = ?d \<and>
      table_of S (calls w') = (if IsDeletable V ?d \<and> list_ex successful (GetConditions ?d)
        then ?clear (table_of S (calls w)) else table_of S (calls w))"
  proof (rule table.manageCleanUpLogic_view)
    show "\<exists>w'. DeleteIfExists V E cl v = (Ok (), w') \<and> inst w' = ?d \<and> table_of S (calls w') = ?clear (table_of S (calls v))"
      if "inst v = ?d" for v
      using delete_table [OF assms(1), of v] assms(2) that by simp
  qed (simp_all add: fun_eq_iff)
  show ?thesis
    unfolding VaultEngineResource_Reconcile_def
      table.deleted_cycle_view [where w = w and cleanUp = ?clean, OF True clean]
    using True by (simp add: sync_mount_def Let_def)
qed

text \<open>On its own entry of the table, and doing it twice is doing it once.\<close>

lemma sync_mount_frame: "q \<noteq> GetPath V d \<Longrightarrow> sync_mount S V E d s q = s q"
  by (simp add: sync_mount_def Let_def split: option.split)

lemma sync_mount_local:
  "s (GetPath V d) = s' (GetPath V d) \<Longrightarrow> sync_mount S V E d s (GetPath V d) = sync_mount S V E d s' (GetPath V d)"
  by (simp add: sync_mount_def Let_def split: option.split)

lemma sync_mount_idem:
  assumes "steady S"
  shows "sync_mount S V E d (sync_mount S V E d s) = sync_mount S V E d s"
proof -
  note again = steadyD [OF assms]
  have "tuned S (fresh S (GetPayload V d)) (GetTunePayload V d) = fresh S (GetPayload V d)"
    using again(2) [of "GetPayload V d"] by (simp add: own_config)
  then show ?thesis
    by (cases "s (GetPath V d)") (auto simp: sync_mount_def Let_def again(1) fun_eq_iff)
qed

lemma sync_mount_path_local:
  assumes "steady S"
  shows "path_local (GetPath V) (sync_mount S V E)"
  by unfold_locales (rule sync_mount_frame, assumption, rule sync_mount_local, assumption, rule sync_mount_idem [OF assms])

text \<open>A schedule of reconciles, each from the log of writes and deletions that the others left.\<close>

lemma schedule_table:
  assumes "mount_server list S E cl" and "\<forall>d \<in> set ds. mount_path list (GetPath V d)"
  shows "table_of S (fold (mount_turn V E cl) ds h) = fold (sync_mount S V E) ds (table_of S h)"
  using assms(2)
proof (induction ds arbitrary: h)
  case (Cons d ds)
  let ?w = "\<lparr>inst = d, calls = replay h, client_cache = fmempty\<rparr>"
  have "table_of S (mount_turn V E cl d h) = sync_mount S V E d (table_of S h)"
    using refines_table [OF assms(1), of ?w] Cons.prems by (simp add: mount_turn_def)
  then show ?case using Cons by simp
qed simp

text \<open>What is mounted stays mounted as it is: a reconcile of a live mount keeps the payload.\<close>

lemma sync_mount_keeps_engine:
  "\<not> is_deleted d \<Longrightarrow> s p = Some e \<Longrightarrow> map_option fst (sync_mount S V E d s p) = Some (fst e)"
  by (cases e) (auto simp: sync_mount_def Let_def split: option.split)

end

text \<open>
  With its webhook: admitted edits of a mount leave the engine, and Vault's answers, being JSON,
  are never equivalent to the desired configuration, so every reconcile tunes.
\<close>

definition same_engine :: "gmap \<Rightarrow> gmap \<Rightarrow> bool" where
  "same_engine e e' \<longleftrightarrow> fmdrop ''config'' e = fmdrop ''config'' e'"

locale edited_mount_kind = mount_kind V list
  for V :: "(('s, 'x) object, 'z) VaultEngineObject_scheme" and list :: string +
  fixes W :: "('s, 'x) object webhook"
  assumes watches_update: "validate_update W"
    and update_engine: "ValidateUpdate W new old = [] \<Longrightarrow> same_engine (GetPayload V new) (GetPayload V old)"
    and status_payload: "GetPayload V (d\<lparr>Status := s\<rparr>) = GetPayload V d"
    and json_differs: "json_object m \<Longrightarrow> \<not> IsEquivalentToDesiredState V d (Some m)"
begin

lemma edits_keep_engine:
  assumes "rtranclp (edit_step W) old new"
  shows "same_engine (GetPayload V new) (GetPayload V old)"
  using assms
proof induction
  case (step d d')
  from step.hyps(2) have "same_engine (GetPayload V d') (GetPayload V d)"
    by (rule edit_stepE) (use watches_update update_engine in \<open>auto simp: status_payload same_engine_def\<close>)
  then show ?case using step.IH by (simp add: same_engine_def)
qed (simp add: same_engine_def)

lemma edited_mount_applied:
  assumes "mount_server list S E cl" and "\<And>c. json_object (shown S c)" and "mount_path list (GetPath V (inst w))"
    and "rtranclp (edit_step W) old (inst w)" and "\<not> is_deleted (inst w)"
    and "case table_of S (calls w) (GetPath V (inst w)) of None \<Rightarrow> True | Some e \<Rightarrow> same_engine (fst e) (GetPayload V old)"
  shows "\<exists>e c. table_of S (calls (snd (VaultEngineResource_Reconcile V E cl w))) (GetPath V (inst w)) = Some (e, c) \<and>
    same_engine e (GetPayload V (inst w)) \<and>
    c = (case table_of S (calls w) (GetPath V (inst w)) of None \<Rightarrow> fresh S (GetPayload V (inst w))
      | Some e \<Rightarrow> tuned S (snd e) (GetTunePayload V (inst w)))"
  unfolding refines_table [OF assms(1,3)] sync_mount_def Let_def
  using assms(5,6) edits_keep_engine [OF assms(4)] json_differs [OF assms(2)]
  by (auto simp: same_engine_def split: option.splits)

end

section \<open>The two kinds of mount\<close>

lemma mount_config_toMap:
  "mount_config (Mount_toMap m) = MountConfig_toMap (mnt_Config m)"
  "mount_config (AuthMount_toMap a) = AuthMountConfig_toMap (am_Config a)"
  by (simp_all add: mount_config_def Mount_toMap_def AuthMount_toMap_def as_map_def)

lemma same_but_config:
  "m\<lparr>mnt_Config := z\<rparr> = n\<lparr>mnt_Config := z\<rparr> \<Longrightarrow> same_engine (Mount_toMap n) (Mount_toMap m)"
  "a\<lparr>am_Config := y\<rparr> = b\<lparr>am_Config := y\<rparr> \<Longrightarrow> same_engine (AuthMount_toMap b) (AuthMount_toMap a)"
  by (cases m; cases n; simp add: same_engine_def Mount_toMap_def fmdrop_fmupd)
    (cases a; cases b; simp add: same_engine_def AuthMount_toMap_def fmdrop_fmupd)

interpretation secret_mounts: edited_mount_kind SecretEngineMount_VaultObject "''sys/mounts''" SecretEngineMount_webhook
proof
  show "same_engine (GetPayload SecretEngineMount_VaultObject new) (GetPayload SecretEngineMount_VaultObject old)"
    if "ValidateUpdate SecretEngineMount_webhook new old = []" for new old
    using that same_but_config(1) [where m = "spec_Mount (Spec old)" and z = MountConfig_zero and n = "spec_Mount (Spec new)"]
    by (simp add: SecretEngineMount_webhook_def SecretEngineMount_ValidateUpdate_def path_fixed_def Let_def
        SecretEngineMount_GetPayload_def split: if_splits)
  show "\<not> IsEquivalentToDesiredState SecretEngineMount_VaultObject d (Some m)" if "json_object m" for d m
    using mounts_never_settle [OF that] by simp
qed (simp_all add: SecretEngineMount_GetEngineListPath_def SecretEngineMount_GetEngineTunePath_def
    SecretEngineMount_GetPayload_def SecretEngineMount_GetTunePayload_def mount_config_toMap SecretEngineMount_webhook_def)

interpretation auth_mounts: edited_mount_kind AuthEngineMount_VaultObject "''sys/auth''" AuthEngineMount_webhook
proof
  show "same_engine (GetPayload AuthEngineMount_VaultObject new) (GetPayload AuthEngineMount_VaultObject old)"
    if "ValidateUpdate AuthEngineMount_webhook new old = []" for new old
    using that same_but_config(2) [where a = "spec_AuthMount (Spec old)" and y = AuthMountConfig_zero and b = "spec_AuthMount (Spec new)"]
    by (simp add: AuthEngineMount_webhook_def AuthEngineMount_ValidateUpdate_def path_fixed_def Let_def
        AuthEngineMount_VaultObject_def AuthEngineMount_GetPayload_def split: if_splits)
  show "\<not> IsEquivalentToDesiredState AuthEngineMount_VaultObject d (Some m)" if "json_object m" for d m
    using mounts_never_settle [OF that] by (simp add: AuthEngineMount_VaultObject_def)
qed (simp_all add: AuthEngineMount_VaultObject_def AuthEngineMount_GetEngineListPath_def
    AuthEngineMount_GetEngineTunePath_def AuthEngineMount_GetPayload_def AuthEngineMount_GetTunePayload_def
    mount_config_toMap AuthEngineMount_webhook_def)

text \<open>Mounts of one kind with different paths: the order of their reconciles does not matter.\<close>

lemma mount_schedules_agree:
  assumes "steady S" and "mount_server ''sys/mounts'' S E cl" and "\<forall>d \<in> set ds. mount_path ''sys/mounts'' (SecretEngineMount_GetPath d)"
    and "inj_on SecretEngineMount_GetPath (set ds)" and "set ds' = set ds"
  shows "table_of S (fold (mount_turn SecretEngineMount_VaultObject E cl) ds' h) =
    table_of S (fold (mount_turn SecretEngineMount_VaultObject E cl) ds h)"
  using secret_mounts.schedule_table [OF assms(2), of ds] secret_mounts.schedule_table [OF assms(2), of ds']
    path_local.fold_order_irrelevant [OF secret_mounts.sync_mount_path_local [OF assms(1)], of ds ds'] assms(3-5)
  by simp

section \<open>Properties\<close>

text \<open>
  C5. Refinement for engines: on a Vault that lists what is mounted, a run of the reconcile cycle of
  a secret engine mount or an authentication engine mount is one operation on the mount table,
  \<open>sync_mount\<close>. An engine that is missing is mounted from the payload, one that is there is kept
  and at most tuned, and a deleted resource that had been reconciled unmounts it; every other
  mount is as before, whatever the API server answers. What a configuration becomes when it is
  mounted or tuned is Vault's, the parameter \<open>S\<close>.
\<close>

theorem engine_mounts_refine_table:
  assumes "mount_server ''sys/mounts'' S E cl" and "mount_path ''sys/mounts'' (SecretEngineMount_GetPath (inst w))"
    and "mount_server ''sys/auth'' S' E' cl'" and "mount_path ''sys/auth'' (AuthEngineMount_GetPath (inst w'))"
  shows "table_of S (calls (snd (VaultEngineResource_Reconcile SecretEngineMount_VaultObject E cl w))) =
      sync_mount S SecretEngineMount_VaultObject E (inst w) (table_of S (calls w)) \<and>
    table_of S' (calls (snd (VaultEngineResource_Reconcile AuthEngineMount_VaultObject E' cl' w'))) =
      sync_mount S' AuthEngineMount_VaultObject E' (inst w') (table_of S' (calls w'))"
  using secret_mounts.refines_table [OF assms(1), of w] auth_mounts.refines_table [OF assms(3), of w'] assms(2,4)
  by (simp add: AuthEngineMount_VaultObject_def)


section \<open>A concrete Vault, and the witnesses\<close>

fun written :: "'o call list \<Rightarrow> string list" where
  "written [] = []"
| "written (VaultWrite cl p m # tr) = p # written tr"
| "written (c # tr) = written tr"

lemma written_append: "written (tr @ tr') = written tr @ written tr'"
  by (induction tr rule: written.induct) simp_all

lemma table_written: "table_of sample_engines tr p \<noteq> None \<Longrightarrow> p \<in> set (written tr)"
proof (induction tr rule: rev_induct)
  case (snoc c tr)
  show ?case
  proof (cases c)
    case (VaultWrite cl q m)
    then show ?thesis using snoc
      by (cases m) (auto simp: written_append split: if_splits option.splits)
  qed (use snoc in \<open>auto simp: written_append split: if_splits\<close>)
qed (simp add: table_of_def)

text \<open>A Vault that overwrites the values it is sent, as documented for the tune path, and shows nothing.\<close>

definition sample_engines :: "gmap engine_server" where
  "sample_engines = \<lparr>fresh = mount_config, tuned = fmadd, shown = (\<lambda>_. fmempty)\<rparr>"

definition below :: "string \<Rightarrow> string \<Rightarrow> string" where
  "below list p = drop (length list + 1) p"

definition listing :: "string \<Rightarrow> 'o call list \<Rightarrow> gmap" where
  "listing list tr = fmap_of_list (map (\<lambda>p. (below list p @ ''/'', VMap (fmap_of_list [(''accessor'', VStr (below list p))])))
     (filter (\<lambda>p. mount_path list p \<and> table_of sample_engines tr p \<noteq> None) (written tr)))"

definition mounts_env :: "string \<Rightarrow> ('s, 't) crd env" where
  "mounts_env list = sample_env\<lparr>vault_read := \<lambda>tr cl p. Inr (Some (data_secret (if p = list then listing list tr else fmempty)))\<rparr>"

lemma Trim_slashes:
  assumes "n \<noteq> []" and "hd n \<noteq> c" and "last n \<noteq> c"
  shows "Trim (n @ [c]) c = n" and "Trim (c # n) c = n" and "Trim n c = n"
proof -
  show id: "Trim n c = n" using assms by (intro Trim_id) simp
  show "Trim (c # n) c = n" using id by (simp add: Trim_def)
  have "dropWhile (\<lambda>x. x = c) (n @ [c]) = n @ [c]" using assms by (cases n) simp_all
  moreover have "dropWhile (\<lambda>x. x = c) n = n" using assms by (cases n) simp_all
  ultimately show "Trim (n @ [c]) c = n" using id by (simp add: Trim_def)
qed

lemma mount_path_name:
  assumes "mount_path list p"
  shows "p = list @ ''/'' @ below list p"
    and "Trim (below list p @ ''/'') (CHR ''/'') = below list p"
    and "Trim (TrimPrefix p list) (CHR ''/'') = below list p"
  using assms by (auto simp: mount_path_def below_def TrimPrefix_def Trim_slashes strip_prefix_append)

lemma listing_lists: "lists_engines list (table_of sample_engines tr) (listing list tr)"
  unfolding lists_engines_def
proof (intro conjI allI impI ballI)
  let ?ps = "filter (\<lambda>p. mount_path list p \<and> table_of sample_engines tr p \<noteq> None) (written tr)"
  have keys: "fset (fmdom (listing list tr)) = (\<lambda>p. below list p @ ''/'') ` set ?ps"
    by (auto simp: listing_def fmdom_fmap_of_list fset_of_list.rep_eq)
  fix p
  assume p: "mount_path list p"
  have same: "Trim (below list q @ ''/'') (CHR ''/'') = Trim (TrimPrefix p list) (CHR ''/'') \<longleftrightarrow> q = p"
    if "mount_path list q" for q
    using mount_path_name [OF that] mount_path_name [OF p] by metis
  show "(\<exists>k \<in> fset (fmdom (listing list tr)). Trim k (CHR ''/'') = Trim (TrimPrefix p list) (CHR ''/'')) = (table_of sample_engines tr p \<noteq> None)"
    unfolding keys using same p table_written [of sample_engines tr p] by auto
next
  fix k
  assume "k \<in> fset (fmdom (listing list tr))"
  then obtain v where v: "fmlookup (listing list tr) k = Some v" by (auto simp: fmlookup_dom_iff)
  then have "\<exists>p. v = VMap (fmap_of_list [(''accessor'', VStr (below list p))])"
    unfolding listing_def fmlookup_of_list by (auto dest!: map_of_SomeD)
  then show "\<exists>e a. as_map (fmlookup (listing list tr) k) = Some e \<and> as_string (fmlookup e ''accessor'') = Some a"
    using v by (auto simp: as_map_def as_string_def)
qed

lemma sample_mount_server: "\<not> HasSuffix list ''/tune'' \<Longrightarrow> mount_server list sample_engines (mounts_env list) cl"
  using listing_lists by (auto simp: mount_server_def mounts_env_def read_answer_def data_secret_def sample_engines_def)

definition sample_auth_mount :: AuthEngineMount where
  "sample_auth_mount =
     \<lparr>TypeKind = ''AuthEngineMount'', Meta = sample_meta ''jwt'',
      Spec = \<lparr>Connection = None, Authentication = sample_auth, Name = [], Path = ''team'',
              spec_AuthMount = \<lparr>am_Description = [], am_Type = ''jwt'', am_Config = AuthMountConfig_zero,
                am_Local = False, am_SealWrap = False\<rparr>\<rparr>,
      Status = \<lparr>Conditions = [], Accessor = []\<rparr>\<rparr>"

lemma sample_mount_paths:
  "mount_path ''sys/mounts'' ''sys/mounts/team/db''" "AuthEngineMount_GetPath sample_auth_mount = ''sys/auth/team/jwt''"
  "mount_path ''sys/auth'' ''sys/auth/team/jwt''"
  by (simp_all add: mount_path_def HasSuffix_def sample_auth_mount_def AuthEngineMount_GetPath_def
      AuthEngineMount_GetEngineListPath_def sample_meta_def GetName_def CleansePath_def Trim_def Let_def)

lemma sample_mount_servers:
  "mount_server ''sys/mounts'' sample_engines (mounts_env ''sys/mounts'') cl"
  "mount_server ''sys/auth'' sample_engines (mounts_env ''sys/auth'') cl"
  by (rule sample_mount_server, simp add: HasSuffix_def)+

lemma sample_mounts_live: "\<not> is_deleted sample_mount" "\<not> is_deleted sample_auth_mount"
  by (simp_all add: is_deleted_def sample_mount_def sample_auth_mount_def sample_meta_def)

lemma AuthEngineMount_selectors:
  "GetPath AuthEngineMount_VaultObject = AuthEngineMount_GetPath"
  "GetPayload AuthEngineMount_VaultObject = AuthEngineMount_GetPayload"
  by (simp_all add: AuthEngineMount_VaultObject_def)

theorem engine_mounts_refine_table_witness:
  "table_of sample_engines (calls (snd (VaultEngineResource_Reconcile SecretEngineMount_VaultObject (mounts_env ''sys/mounts'')
      sample_client (start_world sample_mount)))) ''sys/mounts/team/db'' =
     Some (Mount_toMap (spec_Mount (Spec sample_mount)), MountConfig_toMap (mnt_Config (spec_Mount (Spec sample_mount)))) \<and>
   table_of sample_engines (calls (snd (VaultEngineResource_Reconcile AuthEngineMount_VaultObject (mounts_env ''sys/auth'')
      sample_client (start_world sample_auth_mount)))) ''sys/auth/team/jwt'' =
     Some (AuthMount_toMap (spec_AuthMount (Spec sample_auth_mount)),
       AuthMountConfig_toMap (am_Config (spec_AuthMount (Spec sample_auth_mount))))"
  using engine_mounts_refine_table [OF sample_mount_servers(1) _ sample_mount_servers(2), of "start_world sample_mount"
      "start_world sample_auth_mount" sample_client sample_client] sample_mounts_live sample_mount_paths
  by (simp add: sync_mount_def Let_def AuthEngineMount_selectors SecretEngineMount_GetPayload_def
      AuthEngineMount_GetPayload_def mount_config_toMap sample_engines_def)

text \<open>The concrete mount after an admitted edit of its configuration, on a Vault that has the engine.\<close>

definition edited_mount :: SecretEngineMount where
  "edited_mount = sample_mount\<lparr>Spec := (Spec sample_mount)\<lparr>spec_Mount := (spec_Mount (Spec sample_mount))
     \<lparr>mnt_Config := (mnt_Config (spec_Mount (Spec sample_mount)))\<lparr>mc_MaxLeaseTTL := ''1h''\<rparr>\<rparr>\<rparr>\<rparr>"

definition mounted_world :: "SecretEngineMount world" where
  "mounted_world = (start_world edited_mount)
     \<lparr>calls := [VaultWrite sample_client ''sys/mounts/team/db'' (Some (SecretEngineMount_GetPayload sample_mount))]\<rparr>"

lemma edited_mount_path: "SecretEngineMount_GetPath edited_mount = ''sys/mounts/team/db''"
  by (simp add: edited_mount_def sample_mount_def SecretEngineMount_GetPath_def
      SecretEngineMount_GetEngineListPath_def sample_meta_def GetName_def CleansePath_def Trim_def Let_def)


end
