(* ===== verification/PasswordFlow.thy ===== *)
theory PasswordFlow
  imports Refinement RandomSecrets
begin

text \<open>
  From a \<open>RandomSecret\<close> to the engine configuration that names it: two controllers that meet
  only in Vault. The one generates a password and writes it at the path of the \<open>RandomSecret\<close>
  (\<open>RandomSecrets\<close>); the other, woken by the new version of that object (\<open>Wiring\<close>), reads the
  path and takes the password over into its own object (\<open>Credentials\<close> and the engines).
\<close>

section \<open>What the random secret leaves in Vault\<close>

lemma store_of_mutations: "store_of (tr @ cs) = store_of (tr @ filter (\<lambda>c. vault_mutation c \<noteq> None) cs)"
proof (induction cs rule: rev_induct)
  case (snoc c cs)
  let ?F = "\<lambda>c. vault_mutation c \<noteq> None"
  show ?case
  proof (cases c)
    case (VaultWrite cl p m)
    then show ?thesis
      using snoc store_of_append(1) [of "tr @ cs"] store_of_append(1) [of "tr @ filter ?F cs"] by simp
  next
    case (VaultDelete cl p)
    then show ?thesis
      using snoc store_of_append(2) [of "tr @ cs"] store_of_append(2) [of "tr @ filter ?F cs"] by simp
  qed (use snoc store_of_append(3) [of c "tr @ cs"] in simp_all)
qed simp

lemma RandomSecret_write_store:
  assumes "RandomSecret_write hcl E cl w = (Ok (), w')"
  shows "store_of (calls w') = (store_of (calls w))(RandomSecret_GetPath (inst w') \<mapsto> RandomSecret_GetPayload (inst w'))"
    and "RandomSecret_GetPath (inst w') = RandomSecret_GetPath (inst w)"
proof -
  obtain cs where cs: "calls w' = calls w @ cs" "RandomSecret_GetPath (inst w') = RandomSecret_GetPath (inst w)"
    using keepsE [OF RandomSecret_write_frame [of "RandomSecret_GetPath (inst w)" hcl E cl], of w] assms by auto
  show "RandomSecret_GetPath (inst w') = RandomSecret_GetPath (inst w)" by (rule cs(2))
  have "filter (\<lambda>c. vault_mutation c \<noteq> None) cs =
      [VaultWrite cl (RandomSecret_GetPath (inst w)) (Some (RandomSecret_GetPayload (inst w')))]"
    using RandomSecret_write_run(1) [OF assms] cs(1) by (simp add: mutations_def)
  then show "store_of (calls w') =
      (store_of (calls w))(RandomSecret_GetPath (inst w') \<mapsto> RandomSecret_GetPayload (inst w'))"
    using store_of_mutations [of "calls w" cs] by (simp add: cs store_of_append)
qed

section \<open>What reading it back gives\<close>

text \<open>
  A KV engine gives back what was written: of a version 1 engine the data as they are, of a
  version 2 engine those under \<open>data\<close>, together with metadata.
\<close>

definition gives_back :: "'o env \<Rightarrow> vault_client \<Rightarrow> string \<Rightarrow> bool" where
  "gives_back E cl p \<longleftrightarrow> (\<forall>tr m. store_of tr p = Some m \<longrightarrow>
     (\<exists>s a. vault_read E tr cl p = Inr (Some s) \<and> vs_Data s = Some a \<and>
       (case fmlookup m ''data'' of None \<Rightarrow> a = m | Some d \<Rightarrow> fmlookup a ''data'' = Some d)))"

text \<open>An answer that holds the password of a random secret where its engine's version puts it.\<close>

definition holds_password :: "RandomSecret \<Rightarrow> gmap \<Rightarrow> string \<Rightarrow> bool" where
  "holds_password rs a p \<longleftrightarrow>
     (if spec_IsKVSecretsEngineV2 (Spec rs)
      then (\<exists>m. fmlookup a ''data'' = Some (VMap m) \<and> fmlookup m (SecretKey (Spec rs)) = Some (VStr p))
      else fmlookup a (SecretKey (Spec rs)) = Some (VStr p) \<and> fmlookup a ''data'' = None)"

text \<open>
  The API server's version of the object: the same resource, without the password, which is
  kept in memory only.
\<close>

definition same_secret :: "RandomSecret \<Rightarrow> RandomSecret \<Rightarrow> bool" where
  "same_secret rs d \<longleftrightarrow> RandomSecret_GetPath rs = RandomSecret_GetPath d \<and> SecretKey (Spec rs) = SecretKey (Spec d) \<and>
     spec_IsKVSecretsEngineV2 (Spec rs) = spec_IsKVSecretsEngineV2 (Spec d)"

text \<open>A secret key that collides with neither the period nor the marker of version 2.\<close>

definition plain_key :: "RandomSecret \<Rightarrow> bool" where
  "plain_key d \<longleftrightarrow> SecretKey (Spec d) \<noteq> ''ttl'' \<and> SecretKey (Spec d) \<noteq> ''data''"

lemma payload_read_back:
  assumes "plain_key d" and "same_secret rs d"
    and "case fmlookup (RandomSecret_GetPayload d) ''data'' of None \<Rightarrow> a = RandomSecret_GetPayload d
         | Some x \<Rightarrow> fmlookup a ''data'' = Some x"
  shows "holds_password rs a (calculatedSecret (Spec d))"
  using assms
  by (auto simp: holds_password_def same_secret_def plain_key_def RandomSecret_GetPayload_def getV1Payload_def
      IsKVSecretsEngineV2_def ttlKey_def Let_def split: if_splits)

lemma written_secret_read_back:
  assumes "RandomSecret_write hcl R clR w = (Ok (), w')" and "plain_key (inst w')" and "same_secret rs (inst w')"
    and "gives_back E cl (RandomSecret_GetPath rs)"
    and "store_of tr (RandomSecret_GetPath rs) = store_of (calls w') (RandomSecret_GetPath rs)"
  obtains s a where "vault_read E tr cl (RandomSecret_GetPath rs) = Inr (Some s)" and "vs_Data s = Some a"
    and "holds_password rs a (calculatedSecret (Spec (inst w')))"
proof -
  have "store_of tr (RandomSecret_GetPath rs) = Some (RandomSecret_GetPayload (inst w'))"
    using RandomSecret_write_store [OF assms(1)] assms(3,5) by (simp add: same_secret_def)
  then obtain s a where "vault_read E tr cl (RandomSecret_GetPath rs) = Inr (Some s)" "vs_Data s = Some a"
      "case fmlookup (RandomSecret_GetPayload (inst w')) ''data'' of None \<Rightarrow> a = RandomSecret_GetPayload (inst w')
       | Some d \<Rightarrow> fmlookup a ''data'' = Some d"
    using assms(4) unfolding gives_back_def by blast
  then show thesis using that payload_read_back [OF assms(2,3)] by blast
qed

section \<open>The readers\<close>

text \<open>
  The contract of a configuration that takes its password from a random secret: \<open>source\<close> names
  the one it refers to, \<open>versions\<close> is whether it can read version 2 engines, and \<open>password\<close> is
  where the password goes. What \<open>prepare\<close> does when the answer holds the password is the law.
\<close>

locale password_reader =
  fixes prepare :: "('s, 'x) object env \<Rightarrow> vault_client \<Rightarrow> (('s, 'x) object, unit) go"
    and source :: "('s, 'x) object \<Rightarrow> string option" and version2 :: bool
    and password :: "('s, 'x) object \<Rightarrow> string"
  assumes reads: "source (inst v) = Some n \<Longrightarrow> kube_get_randomsecret E (calls v) (GetNamespace (inst v)) n = Inr rs \<Longrightarrow>
    (spec_IsKVSecretsEngineV2 (Spec rs) \<Longrightarrow> version2) \<Longrightarrow>
    vault_read E (calls v @ [KubeGetRandomSecret (GetNamespace (inst v)) n]) cl (RandomSecret_GetPath rs) = Inr (Some s) \<Longrightarrow>
    vs_Data s = Some a \<Longrightarrow> holds_password rs a p \<Longrightarrow>
    \<exists>v'. prepare E cl v = (Ok (), v') \<and> password (inst v') = p \<and>
      calls v' = calls v @ [KubeGetRandomSecret (GetNamespace (inst v)) n, VaultRead cl (RandomSecret_GetPath rs)]"
begin

lemma takes_generated_password:
  assumes "RandomSecret_write hcl R clR w = (Ok (), w')" and "plain_key (inst w')" and "same_secret rs (inst w')"
    and "gives_back E cl (RandomSecret_GetPath rs)"
    and "store_of (calls v) (RandomSecret_GetPath rs) = store_of (calls w') (RandomSecret_GetPath rs)"
    and "source (inst v) = Some n" and "kube_get_randomsecret E (calls v) (GetNamespace (inst v)) n = Inr rs"
    and "spec_IsKVSecretsEngineV2 (Spec rs) \<Longrightarrow> version2"
  shows "\<exists>v'. prepare E cl v = (Ok (), v') \<and> password (inst v') = calculatedSecret (Spec (inst w')) \<and>
      calls v' = calls v @ [KubeGetRandomSecret (GetNamespace (inst v)) n, VaultRead cl (RandomSecret_GetPath rs)]"
proof -
  let ?tr = "calls v @ [KubeGetRandomSecret (GetNamespace (inst v)) n]"
  have "store_of ?tr (RandomSecret_GetPath rs) = store_of (calls w') (RandomSecret_GetPath rs)"
    using assms(5) by (simp add: store_of_append)
  then obtain s a where "vault_read E ?tr cl (RandomSecret_GetPath rs) = Inr (Some s)" "vs_Data s = Some a"
      "holds_password rs a (calculatedSecret (Spec (inst w')))"
    using written_secret_read_back [OF assms(1-4)] by blast
  then show ?thesis using assms(6-8) by (intro reads) auto
qed

end

text \<open>Running the branch of a random secret.\<close>

lemma random_branch_run:
  assumes "rc_RandomSecret rc = Some n" and "kube_get_randomsecret E (calls v) ns n = Inr rs"
    and "vault_read E (calls v @ [KubeGetRandomSecret ns n]) cl (RandomSecret_GetPath rs) = Inr (Some s)"
    and "vs_Data s = Some a"
  shows "from_credentials E cl ns rc f g h v =
    f rs s (v\<lparr>calls := calls v @ [KubeGetRandomSecret ns n, VaultRead cl (RandomSecret_GetPath rs)]\<rparr>)"
  using assms by (simp add: from_credentials_def with_RandomSecret_run with_VaultSecret_run)

lemmas data_string_holds = data_string_def holds_password_def opt_lookup_def assert_string_def

section \<open>The configurations of the engines\<close>

interpretation p_QuaySecretEngineConfig: password_reader QuaySecretEngineConfig_setInternalCredentials
  "\<lambda>d. rc_RandomSecret (qc_RootCredentials (Spec d))" False "\<lambda>d. qc_retrievedToken (spec_QuayConfig (Spec d))"
  by unfold_locales (auto simp: QuaySecretEngineConfig_setInternalCredentials_def QuaySecretEngineConfig_SetToken_def bindG_get Let_def random_branch_run data_string_holds go_runs
      split: if_splits)

interpretation p_LDAPAuthEngineConfig: password_reader LDAPAuthEngineConfig_setInternalCredentials
  "\<lambda>d. rc_RandomSecret (ldap_BindCredentials (Spec d))" False "\<lambda>d. ldap_retrievedPassword (spec_LDAPConfig (Spec d))"
  by unfold_locales (auto simp: LDAPAuthEngineConfig_setInternalCredentials_def LDAPAuthEngineConfig_SetUsernameAndPassword_def from_user_credentials_def bindG_get Let_def random_branch_run data_string_holds go_runs
      split: if_splits)

interpretation p_AzureSecretEngineConfig: password_reader AzureSecretEngineConfig_PrepareInternalValues
  "\<lambda>d. rc_RandomSecret (ase_AzureCredentials (Spec d))" False "\<lambda>d. ase_retrievedClientPassword (spec_AzureSEConfig (Spec d))"
  by unfold_locales (auto simp: AzureSecretEngineConfig_PrepareInternalValues_def AzureSecretEngineConfig_setInternalCredentials_def AzureSecretEngineConfig_SetClientIDAndClientSecret_def from_user_credentials_def default_credentials_def bindG_get Let_def random_branch_run data_string_holds go_runs
      split: if_splits)

interpretation p_AzureAuthEngineConfig: password_reader AzureAuthEngineConfig_PrepareInternalValues
  "\<lambda>d. rc_RandomSecret (aae_AzureCredentials (Spec d))" False "\<lambda>d. aae_retrievedClientPassword (spec_AzureConfig (Spec d))"
  by unfold_locales (auto simp: AzureAuthEngineConfig_PrepareInternalValues_def AzureAuthEngineConfig_setInternalCredentials_def AzureAuthEngineConfig_SetClientIDAndClientSecret_def from_user_credentials_def default_credentials_def bindG_get Let_def random_branch_run data_string_holds go_runs
      split: if_splits)

interpretation p_GCPAuthEngineConfig: password_reader GCPAuthEngineConfig_PrepareInternalValues
  "\<lambda>d. rc_RandomSecret (gcp_GCPCredentials (Spec d))" False "\<lambda>d. gcp_retrievedCredentials (spec_GCPConfig (Spec d))"
  by unfold_locales (auto simp: GCPAuthEngineConfig_PrepareInternalValues_def GCPAuthEngineConfig_setInternalCredentials_def GCPAuthEngineConfig_SetServiceAccountAndCredentials_def default_credentials_def bindG_get Let_def random_branch_run data_string_holds go_runs
      split: if_splits)

interpretation p_JWTOIDCAuthEngineConfig: password_reader JWTOIDCAuthEngineConfig_PrepareInternalValues
  "\<lambda>d. Option.bind (joc_OIDCCredentials (Spec d)) rc_RandomSecret" False "\<lambda>d. joc_retrievedClientPassword (spec_JWTOIDCConfig (Spec d))"
  by unfold_locales (auto simp: JWTOIDCAuthEngineConfig_PrepareInternalValues_def JWTOIDCAuthEngineConfig_setInternalCredentials_def JWTOIDCAuthEngineConfig_SetUsernameAndPassword_def from_user_credentials_def joc_default_credentials_def bindG_get Let_def random_branch_run data_string_holds go_runs split: option.splits bind_splits if_splits)

interpretation p_RabbitMQSecretEngineConfig: password_reader RabbitMQSecretEngineConfig_setInternalCredentials
  "\<lambda>d. rc_RandomSecret (rmq_RootCredentials (Spec d))" True "\<lambda>d. rmq_retrievedPassword (spec_RMQSEConfig (Spec d))"
  by unfold_locales (auto simp: RabbitMQSecretEngineConfig_setInternalCredentials_def RabbitMQSecretEngineConfig_SetUsernameAndPassword_def bindG_get Let_def random_branch_run go_runs
      kv_data_def holds_password_def opt_lookup_def string_or_error_def split: if_splits)

lemma database_credentials_run:
  assumes "LastRootPasswordRotation (Status (inst v)) = None"
    and "rc_RandomSecret (db_RootCredentials (Spec (inst v))) = Some n"
    and "kube_get_randomsecret E (calls v) (GetNamespace (inst v)) n = Inr rs"
    and "vault_read E (calls v @ [KubeGetRandomSecret (GetNamespace (inst v)) n]) cl (RandomSecret_GetPath rs) = Inr (Some s)"
    and "vs_Data s = Some a" and "holds_password rs a p"
  shows "DatabaseSecretEngineConfig_setInternalCredentials E cl v = (Ok (), v\<lparr>
    inst := DatabaseSecretEngineConfig_SetUsernameAndPassword (dbc_Username (spec_DBSEConfig (Spec (inst v)))) p (inst v),
    calls := calls v @ [KubeGetRandomSecret (GetNamespace (inst v)) n, VaultRead cl (RandomSecret_GetPath rs)]\<rparr>)"
proof -
  have "(if spec_IsKVSecretsEngineV2 (Spec rs)
      then bindG (assert_map (opt_lookup (vs_Data s) ''data'')) (\<lambda>actualData.
           bindG (assert_string (fmlookup actualData (SecretKey (Spec rs)))) k)
      else bindG (data_string s (SecretKey (Spec rs))) k) = k p" for k :: "string \<Rightarrow> (DatabaseSecretEngineConfig, unit) go"
    using assms(5,6) by (auto simp: assert_map_def data_string_holds split: if_splits)
  then show ?thesis
    using assms(1-5) by (simp add: DatabaseSecretEngineConfig_setInternalCredentials_def bindG_get Let_def random_branch_run go_runs)
qed

interpretation p_DatabaseSecretEngineConfig: password_reader DatabaseSecretEngineConfig_setInternalCredentials
  "\<lambda>d. if LastRootPasswordRotation (Status d) = None then rc_RandomSecret (db_RootCredentials (Spec d)) else None" True
  "\<lambda>d. dbc_retrievedPassword (spec_DBSEConfig (Spec d))"
  by unfold_locales
    (simp add: database_credentials_run DatabaseSecretEngineConfig_SetUsernameAndPassword_def split: if_splits)

section \<open>The password arrives\<close>

text \<open>
  A kind takes over what was generated: after a successful write of a random secret, a
  configuration of the kind that refers to it, on a Vault that still holds what was written,
  gets that very password, with one look at the API server and one at Vault.
\<close>

definition password_flows ::
  "(('s, 'x) object env \<Rightarrow> vault_client \<Rightarrow> (('s, 'x) object, unit) go) \<Rightarrow> (('s, 'x) object \<Rightarrow> string option) \<Rightarrow> bool \<Rightarrow>
     (('s, 'x) object \<Rightarrow> string) \<Rightarrow> bool" where
  "password_flows prepare source version2 password \<longleftrightarrow> (\<forall>hcl R clR w w' rs E cl v n.
     RandomSecret_write hcl R clR w = (Ok (), w') \<and> plain_key (inst w') \<and> same_secret rs (inst w') \<and>
     gives_back E cl (RandomSecret_GetPath rs) \<and>
     store_of (calls v) (RandomSecret_GetPath rs) = store_of (calls w') (RandomSecret_GetPath rs) \<and>
     source (inst v) = Some n \<and> kube_get_randomsecret E (calls v) (GetNamespace (inst v)) n = Inr rs \<and>
     (spec_IsKVSecretsEngineV2 (Spec rs) \<longrightarrow> version2) \<longrightarrow>
     (\<exists>v'. prepare E cl v = (Ok (), v') \<and> password (inst v') = calculatedSecret (Spec (inst w')) \<and>
       calls v' = calls v @ [KubeGetRandomSecret (GetNamespace (inst v)) n, VaultRead cl (RandomSecret_GetPath rs)]))"

lemma password_flowsI:
  "password_reader prepare source version2 password \<Longrightarrow> password_flows prepare source version2 password"
  unfolding password_flows_def by (blast intro: password_reader.takes_generated_password)

text \<open>
  C25. The eight kinds of engine configuration that can name a \<open>RandomSecret\<close> take over the password
  that its controller generated: of version 1 engines all of them, of version 2 engines the
  database and the RabbitMQ configuration. A database configuration whose root password was
  rotated asks for none.
\<close>

theorem generated_password_flows:
  "password_flows DatabaseSecretEngineConfig_setInternalCredentials
     (\<lambda>d. if LastRootPasswordRotation (Status d) = None then rc_RandomSecret (db_RootCredentials (Spec d)) else None) True
     (\<lambda>d. dbc_retrievedPassword (spec_DBSEConfig (Spec d))) \<and>
   password_flows RabbitMQSecretEngineConfig_setInternalCredentials (\<lambda>d. rc_RandomSecret (rmq_RootCredentials (Spec d))) True
     (\<lambda>d. rmq_retrievedPassword (spec_RMQSEConfig (Spec d))) \<and>
   password_flows QuaySecretEngineConfig_setInternalCredentials (\<lambda>d. rc_RandomSecret (qc_RootCredentials (Spec d))) False
     (\<lambda>d. qc_retrievedToken (spec_QuayConfig (Spec d))) \<and>
   password_flows LDAPAuthEngineConfig_setInternalCredentials (\<lambda>d. rc_RandomSecret (ldap_BindCredentials (Spec d))) False
     (\<lambda>d. ldap_retrievedPassword (spec_LDAPConfig (Spec d))) \<and>
   password_flows AzureSecretEngineConfig_PrepareInternalValues (\<lambda>d. rc_RandomSecret (ase_AzureCredentials (Spec d))) False
     (\<lambda>d. ase_retrievedClientPassword (spec_AzureSEConfig (Spec d))) \<and>
   password_flows AzureAuthEngineConfig_PrepareInternalValues (\<lambda>d. rc_RandomSecret (aae_AzureCredentials (Spec d))) False
     (\<lambda>d. aae_retrievedClientPassword (spec_AzureConfig (Spec d))) \<and>
   password_flows GCPAuthEngineConfig_PrepareInternalValues (\<lambda>d. rc_RandomSecret (gcp_GCPCredentials (Spec d))) False
     (\<lambda>d. gcp_retrievedCredentials (spec_GCPConfig (Spec d))) \<and>
   password_flows JWTOIDCAuthEngineConfig_PrepareInternalValues
     (\<lambda>d. Option.bind (joc_OIDCCredentials (Spec d)) rc_RandomSecret) False
     (\<lambda>d. joc_retrievedClientPassword (spec_JWTOIDCConfig (Spec d)))"
  by (intro conjI
    password_flowsI [OF p_DatabaseSecretEngineConfig.password_reader_axioms]
    password_flowsI [OF p_RabbitMQSecretEngineConfig.password_reader_axioms]
    password_flowsI [OF p_QuaySecretEngineConfig.password_reader_axioms]
    password_flowsI [OF p_LDAPAuthEngineConfig.password_reader_axioms]
    password_flowsI [OF p_AzureSecretEngineConfig.password_reader_axioms]
    password_flowsI [OF p_AzureAuthEngineConfig.password_reader_axioms]
    password_flowsI [OF p_GCPAuthEngineConfig.password_reader_axioms]
    password_flowsI [OF p_JWTOIDCAuthEngineConfig.password_reader_axioms])

section \<open>The database\<close>

text \<open>The comparison of a database configuration with Vault does not see the password.\<close>

lemma DBSEConfig_toMap_without_password:
  assumes "dbc_Username i \<noteq> []"
  shows "fmdrop ''password'' (DBSEConfig_toMap (i\<lparr>dbc_retrievedPassword := p, dbc_retrievedUsername := u\<rparr>)) =
    fmdrop ''password'' (DBSEConfig_toMap i)"
proof -
  let ?B = "DBSEConfig_toMap (i\<lparr>dbc_retrievedPassword := [], dbc_retrievedUsername := []\<rparr>)"
  have eq: "DBSEConfig_toMap (i\<lparr>dbc_retrievedPassword := q, dbc_retrievedUsername := u\<rparr>) =
      (if q \<noteq> [] then fmupd ''password'' (VStr q) ?B else ?B)" for q u
    using assms by (simp add: DBSEConfig_toMap_def Let_def)
  have "fmdrop ''password'' (DBSEConfig_toMap (i\<lparr>dbc_retrievedPassword := q, dbc_retrievedUsername := u\<rparr>)) =
      fmdrop ''password'' ?B" for q u
    using eq [where q = q and u = u] by (cases "q = []") (simp_all add: fmdrop_fmupd_same)
  from this [where q = p and u = u] this [where q = "dbc_retrievedPassword i" and u = "dbc_retrievedUsername i"]
  show ?thesis by simp
qed

lemma val_at_without_password: "k \<noteq> ''password'' \<Longrightarrow> val_at (fmdrop ''password'' m) k = val_at m k"
  by (simp add: val_at_def)

lemma database_comparison_ignores_password:
  assumes "dbc_Username (spec_DBSEConfig (Spec d)) \<noteq> []"
  shows "DatabaseSecretEngineConfig_IsEquivalentToDesiredState (DatabaseSecretEngineConfig_SetUsernameAndPassword u p d) x =
   DatabaseSecretEngineConfig_IsEquivalentToDesiredState d x"
proof -
  let ?m = "DBSEConfig_toMap (spec_DBSEConfig (Spec d))"
  let ?m' = "DBSEConfig_toMap ((spec_DBSEConfig (Spec d))\<lparr>dbc_retrievedPassword := p, dbc_retrievedUsername := u\<rparr>)"
  note same = DBSEConfig_toMap_without_password [OF assms]
  have val: "val_at ?m' k = val_at ?m k" if "k \<noteq> ''password''" for k
    using same val_at_without_password [OF that] by metis
  have drop: "fmdrop ''password'' (fmupd ''connection_details'' y ?m') = fmdrop ''password'' (fmupd ''connection_details'' y ?m)" for y
    using same by (simp add: fmdrop_fmupd)
  show ?thesis
    unfolding DatabaseSecretEngineConfig_IsEquivalentToDesiredState_def Let_def drop
    by (simp add: DatabaseSecretEngineConfig_SetUsernameAndPassword_def val drop)
qed

text \<open>
  C26. The reconcile of a live database configuration after the password of its random secret was
  generated anew, where the configuration names the user itself, its root password was never
  rotated and the Vault it reads gives back what was written to the path of the secret. If Vault's
  configuration differs otherwise from the desired one, it is written with exactly that password; but if it is equivalent, which it stays when only the
  password changed, nothing is written, and the database engine keeps the old password.
\<close>

theorem new_password_written_only_with_other_changes:
  assumes "RandomSecret_write hcl R clR w = (Ok (), w')" and "plain_key (inst w')" and "same_secret rs (inst w')"
    and "gives_back E cl (RandomSecret_GetPath rs)"
    and "store_of (calls v) (RandomSecret_GetPath rs) = store_of (calls w') (RandomSecret_GetPath rs)"
    and "LastRootPasswordRotation (Status (inst v)) = None"
    and "rc_RandomSecret (db_RootCredentials (Spec (inst v))) = Some n"
    and "kube_get_randomsecret E (calls v) (GetNamespace (inst v)) n = Inr rs"
    and "dbc_Username (spec_DBSEConfig (Spec (inst v))) \<noteq> []" and "calculatedSecret (Spec (inst w')) \<noteq> []"
    and "qs = [KubeGetRandomSecret (GetNamespace (inst v)) n, VaultRead cl (RandomSecret_GetPath rs)]"
    and "cfg = DatabaseSecretEngineConfig_GetPath (inst v)"
    and "read_answer (vault_read E (calls v @ qs) cl cfg) = Ok (cur, True)"
  shows "if DatabaseSecretEngineConfig_IsEquivalentToDesiredState (inst v) cur
    then VaultResource_manageReconcileLogic DatabaseSecretEngineConfig_VaultObject E cl v =
        (Ok (), v\<lparr>inst := DatabaseSecretEngineConfig_SetUsernameAndPassword (dbc_Username (spec_DBSEConfig (Spec (inst v))))
            (calculatedSecret (Spec (inst w'))) (inst v), calls := calls v @ qs @ [VaultRead cl cfg]\<rparr>)
    else \<exists>payload. fmlookup payload ''password'' = Some (VStr (calculatedSecret (Spec (inst w')))) \<and>
      calls (snd (VaultResource_manageReconcileLogic DatabaseSecretEngineConfig_VaultObject E cl v)) =
        calls v @ qs @ [VaultRead cl cfg, VaultWrite cl cfg (Some payload)]"
proof -
  let ?p = "calculatedSecret (Spec (inst w'))" and ?tr = "calls v @ [KubeGetRandomSecret (GetNamespace (inst v)) n]"
  let ?d = "DatabaseSecretEngineConfig_SetUsernameAndPassword (dbc_Username (spec_DBSEConfig (Spec (inst v)))) ?p (inst v)"
  let ?v = "v\<lparr>inst := ?d, calls := calls v @ qs\<rparr>"
  have "store_of ?tr (RandomSecret_GetPath rs) = store_of (calls w') (RandomSecret_GetPath rs)"
    using assms(5) by (simp add: store_of_append)
  then obtain s a where "vault_read E ?tr cl (RandomSecret_GetPath rs) = Inr (Some s)" "vs_Data s = Some a" "holds_password rs a ?p"
    using written_secret_read_back [OF assms(1-4)] by blast
  from database_credentials_run [OF assms(6-8) this]
  have prepare: "DatabaseSecretEngineConfig_setInternalCredentials E cl v = (Ok (), ?v)" by (simp add: assms(11))
  have path: "DatabaseSecretEngineConfig_GetPath ?d = cfg"
    by (simp add: assms(12) DatabaseSecretEngineConfig_GetPath_def DatabaseSecretEngineConfig_SetUsernameAndPassword_def GetName_def)
  have pay: "fmlookup (DatabaseSecretEngineConfig_GetPayload ?d) ''password'' = Some (VStr ?p)"
    using assms(10) by (simp add: DatabaseSecretEngineConfig_GetPayload_def DBSEConfig_toMap_def Let_def
        DatabaseSecretEngineConfig_SetUsernameAndPassword_def)
  have "VaultResource_manageReconcileLogic DatabaseSecretEngineConfig_VaultObject E cl v =
      CreateOrUpdate DatabaseSecretEngineConfig_VaultObject E cl ?v"
    by (simp add: VaultResource_manageReconcileLogic_def prepare
        bindG_def [of "DatabaseSecretEngineConfig_setInternalCredentials E cl"])
  then show ?thesis
    using assms(13) pay
    by (auto simp: CreateOrUpdate_run Let_def path database_comparison_ignores_password [OF assms(9)] writePayload_run
        split: sum.split)
qed

section \<open>Witness\<close>

definition policy_secret :: RandomSecret where
  "policy_secret = (sample_random_secret None None)\<lparr>Spec := (Spec (sample_random_secret None None))\<lparr>
     SecretFormat := \<lparr>PasswordPolicyName = ''strong'', InlinePasswordPolicy = []\<rparr>\<rparr>\<rparr>"

lemma policy_secret_simps [simp]:
  "RandomSecret_GetPath policy_secret = ''kv/db''" "SecretKey (Spec policy_secret) = ''password''"
  "InlinePasswordPolicy (SecretFormat (Spec policy_secret)) = []"
  "PasswordPolicyName (SecretFormat (Spec policy_secret)) = ''strong''"
  "\<not> spec_IsKVSecretsEngineV2 (Spec policy_secret)"
  by (simp_all add: policy_secret_def sample_random_secret_def RandomSecret_GetPath_def GetName_def sample_meta_def
      CleansePath_def Trim_def)

text \<open>A Vault server whose password policy gives \<open>s3cret\<close>.\<close>

definition policy_env :: "RandomSecret env" where
  "policy_env = sample_env\<lparr>vault_read := \<lambda>tr cl p. Inr (Some (data_secret (fmap_of_list [(''password'', VStr ''s3cret'')])))\<rparr>"

lemma policy_write:
  "RandomSecret_write sample_hcl policy_env sample_client (start_world policy_secret) = (Ok (),
     \<lparr>inst = set_last_update 2 (set_secret ''s3cret'' policy_secret),
      calls = [VaultRead sample_client ''/sys/policies/password/strong/generate'',
        VaultWrite sample_client ''kv/db'' (Some (RandomSecret_GetPayload (set_secret ''s3cret'' policy_secret))), TimeNow],
      client_cache = fmempty\<rparr>)"
  by (simp add: RandomSecret_write_def GenerateNewPassword_def Create_def bindG_assoc bindG_get bindG_ask bindG_modify
      bindG_writePayload policy_env_def data_secret_def assert_string_def Let_def)
    (simp add: start_world_def go_runs)

definition reading_database :: DatabaseSecretEngineConfig where
  "reading_database = sample_database\<lparr>Spec := (Spec sample_database)\<lparr>
     db_RootCredentials := (db_RootCredentials (Spec sample_database))\<lparr>rc_Secret := None, rc_RandomSecret := Some ''db''\<rparr>\<rparr>\<rparr>"

definition reading_env :: "DatabaseSecretEngineConfig env" where
  "reading_env = sample_env\<lparr>kube_get_randomsecret := \<lambda>tr ns n. Inr policy_secret\<rparr>"

definition reading_world :: "gmap \<Rightarrow> DatabaseSecretEngineConfig world" where
  "reading_world m = \<lparr>inst = reading_database,
     calls = [VaultWrite sample_client ''team/db/config/pg'' (Some m),
       VaultWrite sample_client ''kv/db'' (Some (RandomSecret_GetPayload (set_secret ''s3cret'' policy_secret)))],
     client_cache = fmempty\<rparr>"

lemma reading_simps:
  "LastRootPasswordRotation (Status reading_database) = None"
  "rc_RandomSecret (db_RootCredentials (Spec reading_database)) = Some ''db''"
  "dbc_Username (spec_DBSEConfig (Spec reading_database)) = ''root''"
  "GetNamespace reading_database = ''team''"
  "DatabaseSecretEngineConfig_GetPath reading_database = ''team/db/config/pg''"
  by (simp_all add: reading_database_def sample_database_def GetNamespace_def sample_meta_def GetName_def
      DatabaseSecretEngineConfig_GetPath_def CleansePath_def Trim_def)

theorem new_password_written_only_with_other_changes_witness:
  "\<exists>m. calls (snd (VaultResource_manageReconcileLogic DatabaseSecretEngineConfig_VaultObject reading_env sample_client
      (reading_world m))) = calls (reading_world m) @
    [KubeGetRandomSecret ''team'' ''db'', VaultRead sample_client ''kv/db'', VaultRead sample_client ''team/db/config/pg'']"
proof -
  obtain m where m: "DatabaseSecretEngineConfig_IsEquivalentToDesiredState reading_database (Some m)"
    by (auto simp: DatabaseSecretEngineConfig_IsEquivalentToDesiredState_def Let_def)
  let ?q = "[KubeGetRandomSecret ''team'' ''db'', VaultRead sample_client ''kv/db'']"
  have "gives_back reading_env sample_client p" for p
    by (auto simp: gives_back_def reading_env_def store_of_def data_secret_def split: option.splits)
  moreover have "same_secret policy_secret (set_last_update 2 (set_secret ''s3cret'' policy_secret))"
      "plain_key (set_last_update 2 (set_secret ''s3cret'' policy_secret))"
    by (simp_all add: same_secret_def plain_key_def) (simp_all add: set_secret_def)
  moreover have "calculatedSecret (Spec (set_secret ''s3cret'' policy_secret)) = ''s3cret''"
    by (simp add: set_secret_def)
  moreover have "kube_get_randomsecret reading_env = (\<lambda>tr ns n. Inr policy_secret)"
    by (simp add: reading_env_def)
  moreover have "store_of (calls (reading_world m)) ''kv/db'' = Some (RandomSecret_GetPayload (set_secret ''s3cret'' policy_secret))"
      "inst (reading_world m) = reading_database"
    by (simp_all add: store_of_def reading_world_def)
  moreover have "read_answer (vault_read reading_env (calls (reading_world m) @ ?q) sample_client ''team/db/config/pg'') =
      Ok (Some m, True)"
    by (simp add: reading_env_def reading_world_def read_answer_def data_secret_def)
  ultimately show ?thesis
    using new_password_written_only_with_other_changes [OF policy_write, where rs = policy_secret and E = reading_env
        and cl = sample_client and v = "reading_world m" and n = "''db''" and qs = ?q and cfg = "''team/db/config/pg''"
        and cur = "Some m"] m
    by (intro exI [of _ m]) (simp add: reading_simps store_of_def)
qed

end
