(* ===== verification/ClientCache.thy ===== *)
theory ClientCache
  imports Auth Samples
begin

text \<open>
  The cache of Vault clients over the life of the operator (\<open>api/v1alpha1/utils/commons.go\<close>):
  a state machine whose steps are requests for a client, evictions by the lifetime watchers
  and the work of reconciles in between. Its invariant ties every cached client to a login;
  with it a request is answered, from the cache or afresh, by a client of the requester.
\<close>

section \<open>Logins\<close>

text \<open>
  The history holds the login that a client's token comes from: a token of the service
  account of the namespace was requested, and a write of that token and the role at the login
  path, in the Vault namespace, was answered with the client's token.
\<close>

definition login_of :: "'o env \<Rightarrow> 'o call list \<Rightarrow> vault_client \<Rightarrow> string \<Rightarrow> KubeAuthConfiguration \<Rightarrow> bool" where
  "login_of E tr cl ns kc \<longleftrightarrow> (\<exists>pre post pre' post' jwt c secret tok.
     tr = pre @ KubeCreateToken ns (GetServiceAccountName kc) 600 # post \<and>
     kube_create_token E pre ns (GetServiceAccountName kc) 600 = Inr jwt \<and>
     tr = pre' @ VaultWrite c (GetKubeAuthPath kc) (Some (login_payload kc jwt)) # post' \<and>
     vault_write E pre' c (GetKubeAuthPath kc) (Some (login_payload kc jwt)) = Inr (Some secret) \<and>
     vs_Auth secret = Some tok \<and> cl = c\<lparr>client_Token := tok\<rparr> \<and>
     (ka_Namespace kc \<noteq> [] \<longrightarrow> client_Namespace cl = ka_Namespace kc))"

lemma login_of_append: "login_of E tr cl ns kc \<Longrightarrow> login_of E (tr @ cs) cl ns kc"
  unfolding login_of_def by (metis append_Cons append_assoc)

lemma emits_getConnectionConfig: "emits (\<lambda>_. True) (getConnectionConfig E vc ns)"
  unfolding getConnectionConfig_def Let_def by (intro emits_intros) simp_all

lemma createVaultClient_login:
  assumes "createVaultClient E conn kc jwt ns w = (Ok cl, w')"
  obtains ext post c secret tok where
    "calls w' = calls w @ ext @ VaultWrite c (GetKubeAuthPath kc) (Some (login_payload kc jwt)) # post"
    "vault_write E (calls w @ ext) c (GetKubeAuthPath kc) (Some (login_payload kc jwt)) = Inr (Some secret)"
    "vs_Auth secret = Some tok" "cl = c\<lparr>client_Token := tok\<rparr>"
    "ka_Namespace kc \<noteq> [] \<longrightarrow> client_Namespace c = ka_Namespace kc"
proof -
  let ?conf = "case conn of Some vc \<Rightarrow> getConnectionConfig E vc ns | None \<Rightarrow> retG (vault_default_config E)"
  let ?path = "GetKubeAuthPath kc" and ?m = "Some (login_payload kc jwt)"
  obtain config w1 where conf: "?conf w = (Ok config, w1)"
    using assms unfolding createVaultClient_def by (elim bindG_cases) auto
  have "emits (\<lambda>_. True) ?conf" by (cases conn) (auto intro: emits_getConnectionConfig emits_intros)
  then obtain cs where cs: "calls w1 = calls w @ cs" by (rule keepsE [where w = w]) (simp_all add: conf)
  let ?w2 = "w1\<lparr>calls := calls w1 @ [VaultNewClient config]\<rparr>"
  obtain c0 where new: "vault_new_client E (calls w1) config = Inr c0"
    using assms conf
    by (cases "vault_new_client E (calls w1) config") (simp_all add: createVaultClient_def bindG_def [of ?conf] bindG_ask go_runs)
  define c where "c = (if ka_Namespace kc \<noteq> [] then c0\<lparr>client_Namespace := ka_Namespace kc\<rparr> else c0)"
  have rest: "(case vault_write E (calls ?w2) c ?path ?m of Inl err \<Rightarrow> errG err
      | Inr secret \<Rightarrow> (case Option.bind secret vs_Auth of None \<Rightarrow> panicG ''nil pointer dereference''
        | Some token \<Rightarrow> bindG (if os_env E ''CACHE_VAULT_TOKEN'' = Some ''true''
            then askG (WatchLifetime (c\<lparr>client_Token := token\<rparr>)) (\<lambda>_. ()) else retG ()) (\<lambda>_. retG (c\<lparr>client_Token := token\<rparr>))))
      (?w2\<lparr>calls := calls ?w2 @ [VaultWrite c ?path ?m]\<rparr>) = (Ok cl, w')"
    using assms conf new unfolding createVaultClient_def Let_def c_def by (simp add: bindG_def [of ?conf] bindG_ask)
  then obtain secret tok where s: "vault_write E (calls ?w2) c ?path ?m = Inr (Some secret)" "vs_Auth secret = Some tok"
    by (auto simp: go_runs split: sum.splits option.splits bind_splits)
  then have "cl = c\<lparr>client_Token := tok\<rparr>"
      "\<exists>post. calls w' = calls ?w2 @ VaultWrite c ?path ?m # post"
    using rest by (auto simp: bindG_ask go_runs split: if_splits)
  then obtain post where "calls w' = calls w @ (cs @ [VaultNewClient config]) @ VaultWrite c ?path ?m # post"
      "cl = c\<lparr>client_Token := tok\<rparr>"
    using cs by auto
  moreover have "ka_Namespace kc \<noteq> [] \<longrightarrow> client_Namespace c = ka_Namespace kc" by (simp add: c_def)
  ultimately show thesis using s cs by (intro that [of "cs @ [VaultNewClient config]" c post secret tok]) simp_all
qed

lemma getJWTToken_token:
  assumes "getJWTToken E kc ns w = (Ok jwt, w')"
  shows "calls w' = calls w @ [KubeCreateToken ns (GetServiceAccountName kc) 600] \<and>
    kube_create_token E (calls w) ns (GetServiceAccountName kc) 600 = Inr jwt \<and> client_cache w' = client_cache w"
  using assms
  by (auto simp: getJWTToken_def GetJWTToken_def GetJWTTokenWithDuration_def bindG_ask go_runs split: option.splits sum.splits)

lemma fresh_client_login:
  assumes "fresh_client E conn kc ns w = (Ok cl, w')"
  shows "login_of E (calls w') cl ns kc"
    and "client_cache w' = client_cache w \<or> (\<exists>sa. ServiceAccount kc = Some sa \<and>
      client_cache w' = fmupd (cache_key ns sa kc) cl (client_cache w))"
    and "os_env E ''CACHE_VAULT_TOKEN'' = Some ''true'' \<Longrightarrow> ServiceAccount kc = Some sa \<Longrightarrow>
      fmlookup (client_cache w') (cache_key ns sa kc) = Some cl"
proof -
  let ?put = "\<lambda>cl. bindG (if os_env E ''CACHE_VAULT_TOKEN'' = None \<or> os_env E ''CACHE_VAULT_TOKEN'' = Some ''true''
            then cache_Put kc ns cl else retG ()) (\<lambda>_. retG cl)"
  obtain jwt w1 where jwt: "getJWTToken E kc ns w = (Ok jwt, w1)"
    and rest: "bindG (createVaultClient E conn kc jwt ns) ?put w1 = (Ok cl, w')"
    using assms unfolding fresh_client_def by (rule bindG_cases) auto
  obtain cl0 w2 where cl0: "createVaultClient E conn kc jwt ns w1 = (Ok cl0, w2)" and put0: "?put cl0 w2 = (Ok cl, w')"
    using rest by (rule bindG_cases) auto
  from put0 have "cl0 = cl" by (rule bindG_cases) (auto simp: go_runs)
  note cl = cl0 [unfolded this] and put = put0 [unfolded this]
  have c2: "client_cache w2 = client_cache w"
    using cache_stable_createVaultClient [of E conn kc jwt ns] cl getJWTToken_token [OF jwt]
    unfolding cache_stable_def by (metis snd_conv)
  have calls: "calls w' = calls w2"
    using put by (auto simp: cache_Put_def getCacheKey_def bindG_def go_runs split: option.splits if_splits)
  show "client_cache w' = client_cache w \<or> (\<exists>sa. ServiceAccount kc = Some sa \<and>
      client_cache w' = fmupd (cache_key ns sa kc) cl (client_cache w))"
    using put c2 by (auto simp: cache_Put_def getCacheKey_def bindG_def go_runs split: option.splits if_splits)
  show "fmlookup (client_cache w') (cache_key ns sa kc) = Some cl"
    if "os_env E ''CACHE_VAULT_TOKEN'' = Some ''true''" "ServiceAccount kc = Some sa"
    using put that by (auto simp: cache_Put_def getCacheKey_def bindG_def go_runs)
  obtain ext post c secret tok where
    "calls w2 = calls w1 @ ext @ VaultWrite c (GetKubeAuthPath kc) (Some (login_payload kc jwt)) # post"
    "vault_write E (calls w1 @ ext) c (GetKubeAuthPath kc) (Some (login_payload kc jwt)) = Inr (Some secret)"
    "vs_Auth secret = Some tok" "cl = c\<lparr>client_Token := tok\<rparr>"
    "ka_Namespace kc \<noteq> [] \<longrightarrow> client_Namespace c = ka_Namespace kc"
    by (rule createVaultClient_login [OF cl])
  moreover have "calls w1 = calls w @ [KubeCreateToken ns (GetServiceAccountName kc) 600]"
      "kube_create_token E (calls w) ns (GetServiceAccountName kc) 600 = Inr jwt"
    using getJWTToken_token [OF jwt] by simp_all
  ultimately show "login_of E (calls w') cl ns kc"
    unfolding login_of_def calls
    by (intro exI [of _ "calls w"] exI [of _ "ext @ VaultWrite c (GetKubeAuthPath kc) (Some (login_payload kc jwt)) # post"]
        exI [of _ "calls w1 @ ext"] exI [of _ post] exI [of _ jwt] exI [of _ c] exI [of _ secret] exI [of _ tok]) simp
qed

text \<open>A request: from the cache after a lookup of the token, or a fresh login.\<close>

lemma GetVaultClient_cases:
  assumes "GetVaultClient E conn kc ns w = (r, w')"
  obtains (cached) sa cl where "ServiceAccount kc = Some sa" "fmlookup (client_cache w) (cache_key ns sa kc) = Some cl"
      "r = Ok cl" "w' = w\<lparr>calls := calls w @ [VaultLookupSelf cl]\<rparr>"
  | (fresh) cs where "fresh_client E conn kc ns (w\<lparr>calls := calls w @ cs\<rparr>) = (r, w')"
  | (panic) p where "r = Panic p" "w' = w"
proof (cases "os_env E ''CACHE_VAULT_TOKEN'' = Some ''true''")
  case False
  then show thesis using assms fresh [of "[]"] by (simp add: GetVaultClient_def)
next
  case True
  show thesis
  proof (cases "ServiceAccount kc")
    case None
    then show thesis
      using assms True panic [of "''nil pointer dereference''"] by (simp add: GetVaultClient_def cache_Get_def getCacheKey_def go_runs)
  next
    case (Some sa)
    show thesis
    proof (cases "fmlookup (client_cache w) (cache_key ns sa kc)")
      case None
      then show thesis
        using assms True Some fresh [of "[]"] by (simp add: GetVaultClient_def bindG_cache_Get)
    next
      case (Some cl)
      then show thesis
        using assms True \<open>ServiceAccount kc = Some sa\<close> fresh [of "[VaultLookupSelf cl]"] cached [of sa cl]
        by (simp add: GetVaultClient_def bindG_cache_Get bindG_ask go_runs split: if_splits)
    qed
  qed
qed

section \<open>The state machine\<close>

text \<open>Names without the colon that separates the parts of a key.\<close>

definition colon_free :: "string \<Rightarrow> KubeAuthConfiguration \<Rightarrow> bool" where
  "colon_free ns kc \<longleftrightarrow> CHR '':'' \<notin> set ns \<and> CHR '':'' \<notin> set (ka_Path kc) \<and> CHR '':'' \<notin> set (ka_Role kc) \<and>
     CHR '':'' \<notin> set (GetServiceAccountName kc)"

text \<open>
  The operator from its start: requests for clients, whatever their outcome, the events that
  the lifetime watchers deliver, and what the reconciles do in between, which extends the
  history and leaves the cache alone.
\<close>

inductive reachable :: "'o env \<Rightarrow> 'o world \<Rightarrow> bool" for E where
  Start: "calls w = [] \<Longrightarrow> client_cache w = fmempty \<Longrightarrow> reachable E w"
| Request: "reachable E w \<Longrightarrow> colon_free ns kc \<Longrightarrow> reachable E (snd (GetVaultClient E conn kc ns w))"
| Evict: "reachable E w \<Longrightarrow> reachable E (snd (serve_watcher kc ns evs w))"
| Work: "reachable E w \<Longrightarrow> calls w' = calls w @ cs \<Longrightarrow> client_cache w' = client_cache w \<Longrightarrow> reachable E w'"

definition cached_by_login :: "'o env \<Rightarrow> 'o world \<Rightarrow> bool" where
  "cached_by_login E w \<longleftrightarrow> (\<forall>k cl. fmlookup (client_cache w) k = Some cl \<longrightarrow>
     (\<exists>ns kc sa. colon_free ns kc \<and> ServiceAccount kc = Some sa \<and> k = cache_key ns sa kc \<and> login_of E (calls w) cl ns kc))"

lemma serve_watcher_cache:
  "calls (snd (serve_watcher kc ns evs w)) = calls w \<and>
   (fmlookup (client_cache (snd (serve_watcher kc ns evs w))) k = Some cl \<longrightarrow> fmlookup (client_cache w) k = Some cl)"
proof (induction evs arbitrary: w)
  case (Cons ev evs)
  show ?case
  proof (cases ev)
    case (WatcherDone err)
    show ?thesis
    proof (cases "ServiceAccount kc")
      case None
      then show ?thesis using WatcherDone by (simp add: cache_Delete_def getCacheKey_def go_runs)
    next
      case (Some sa)
      let ?w = "w\<lparr>client_cache := fmdrop (cache_key ns sa kc) (client_cache w)\<rparr>"
      have "serve_watcher kc ns (ev # evs) w = serve_watcher kc ns evs ?w"
        using WatcherDone Some by (simp add: cache_Delete_def getCacheKey_run bindG_def go_runs)
      then show ?thesis using Cons.IH [of ?w] by (auto split: if_splits)
    qed
  next
    case WatcherRenewed
    then show ?thesis using Cons.IH by simp
  qed
qed (simp add: go_runs)


text \<open>
  The invariant: whenever a client is cached under a key, it comes from a login with the
  namespace, the service account, the path, the role and the Vault namespace of the key.
\<close>

lemma emits_GetVaultClient: "emits (\<lambda>_. True) (GetVaultClient E conn kc ns)"
proof -
  have get: "emits (\<lambda>_. True) (cache_Get kc ns :: ('a, vault_client option) go)"
    and put: "emits (\<lambda>_. True) (cache_Put kc ns cl :: ('a, unit) go)" for cl
    by (cases "ServiceAccount kc"; simp add: cache_Get_def cache_Put_def getCacheKey_def keeps_def go_runs)+
  have jwt: "emits (\<lambda>_. True) (getJWTToken E kc ns)"
    unfolding getJWTToken_def GetJWTToken_def GetJWTTokenWithDuration_def by (intro emits_intros) simp
  have create: "emits (\<lambda>_. True) (createVaultClient E conn kc jwt ns)" for jwt
    unfolding createVaultClient_def Let_def by (intro emits_intros emits_getConnectionConfig) simp_all
  have fresh: "emits (\<lambda>_. True) (fresh_client E conn kc ns)"
    unfolding fresh_client_def by (intro emits_intros jwt create put)
  show ?thesis
    unfolding GetVaultClient_def by (intro emits_intros get fresh) simp
qed

lemma GetVaultClient_extends:
  "\<exists>cs. calls (snd (GetVaultClient E conn kc ns w)) = calls w @ cs"
  by (rule keepsE [OF emits_GetVaultClient, where w = w]) auto

lemma cached_by_login_extend:
  assumes "cached_by_login E w" and "calls w' = calls w @ cs"
    and "\<And>k cl. fmlookup (client_cache w') k = Some cl \<Longrightarrow> fmlookup (client_cache w) k = Some cl"
  shows "cached_by_login E w'"
  using assms unfolding cached_by_login_def by (metis login_of_append)

lemma request_keeps_cached_by_login:
  assumes inv: "cached_by_login E w" and free: "colon_free ns kc"
  shows "cached_by_login E (snd (GetVaultClient E conn kc ns w))"
proof -
  obtain r w' where run: "GetVaultClient E conn kc ns w = (r, w')" by (cases "GetVaultClient E conn kc ns w")
  obtain ds where ext: "calls w' = calls w @ ds" using GetVaultClient_extends [of E conn kc ns w] run by auto
  show ?thesis
  proof (cases "client_cache w' = client_cache w")
    case True
    then show ?thesis using cached_by_login_extend [OF inv ext] run by simp
  next
    case False
    then obtain cl where r: "r = Ok cl"
      using failed_login_caches_nothing [of E conn kc ns w] run by (cases r) auto
    from run have "\<exists>cs. fresh_client E conn kc ns (w\<lparr>calls := calls w @ cs\<rparr>) = (Ok cl, w')"
      by (cases rule: GetVaultClient_cases) (use False r in auto)
    then obtain cs where fr: "fresh_client E conn kc ns (w\<lparr>calls := calls w @ cs\<rparr>) = (Ok cl, w')" by blast
    obtain sa where "ServiceAccount kc = Some sa" "client_cache w' = fmupd (cache_key ns sa kc) cl (client_cache w)"
      using fresh_client_login(2) [OF fr] False by auto
    moreover have "login_of E (calls w') cl ns kc" by (rule fresh_client_login(1) [OF fr])
    moreover have "cached_by_login E (w\<lparr>calls := calls w'\<rparr>)"
      by (rule cached_by_login_extend [OF inv, where cs = ds]) (simp_all add: ext)
    ultimately show ?thesis
      using free unfolding cached_by_login_def run by auto
  qed
qed

lemma reachable_cached_by_login: "reachable E w \<Longrightarrow> cached_by_login E w"
proof (induction rule: reachable.induct)
  case (Start w)
  then show ?case by (simp add: cached_by_login_def)
next
  case (Request w ns kc conn)
  then show ?case by (intro request_keeps_cached_by_login)
next
  case (Evict w kc ns evs)
  show ?case
    by (rule cached_by_login_extend [OF Evict.IH, where cs = "[]"]) (use serve_watcher_cache [of kc ns evs w] in auto)
next
  case (Work w w' cs)
  then show ?case by (auto intro: cached_by_login_extend)
qed

lemma colon_free_key:
  assumes "colon_free ns kc" and "colon_free ns' kc'" and "ServiceAccount kc = Some sa" and "ServiceAccount kc' = Some sa'"
    and "cache_key ns sa kc = cache_key ns' sa' kc'"
  shows "ns = ns' \<and> kc = kc'"
proof -
  have "ns = ns' \<and> sa = sa' \<and> ka_Path kc = ka_Path kc' \<and> ka_Role kc = ka_Role kc' \<and> ka_Namespace kc = ka_Namespace kc'"
    using assms by (intro cache_key_injective) (simp_all add: colon_free_def GetServiceAccountName_def)
  then show ?thesis using assms(3,4) by simp
qed

text \<open>
  C19. As long as no namespace, path, role or service account of this request or of an earlier one
  contains a colon, the separator of the cache keys: whatever requests, evictions and work came
  before, a request is answered only with a client
  that a login of the requester gave: with a token of its own service account and namespace, at
  its login path, for its role, in its Vault namespace. Clients of others are never handed out.
\<close>

theorem client_belongs_to_requester:
  assumes "reachable E w" and "colon_free ns kc" and "GetVaultClient E conn kc ns w = (Ok cl, w')"
  shows "login_of E (calls w') cl ns kc"
  using assms(3)
proof (cases rule: GetVaultClient_cases)
  case (cached sa cl')
  obtain ns' kc' sa' where "colon_free ns' kc'" "ServiceAccount kc' = Some sa'" "cache_key ns sa kc = cache_key ns' sa' kc'"
      and login: "login_of E (calls w) cl' ns' kc'"
    using reachable_cached_by_login [OF assms(1)] cached(2) unfolding cached_by_login_def by blast
  then have "ns' = ns \<and> kc' = kc" using colon_free_key [OF assms(2)] cached(1) by metis
  then show ?thesis using login cached(3,4) by (auto intro: login_of_append)
next
  case (fresh cs)
  then show ?thesis by (rule fresh_client_login(1))
qed simp


section \<open>What the key leaves out\<close>

lemma GetVaultClient_caches:
  assumes "os_env E ''CACHE_VAULT_TOKEN'' = Some ''true''" and "ServiceAccount kc = Some sa"
    and "GetVaultClient E conn kc ns w = (Ok cl, w')"
  shows "fmlookup (client_cache w') (cache_key ns sa kc) = Some cl"
  using assms(3)
proof (cases rule: GetVaultClient_cases)
  case (cached sa' cl')
  then show ?thesis using assms(2) by simp
next
  case (fresh cs)
  then show ?thesis using assms(1,2) by (rule fresh_client_login(3))
qed simp

text \<open>
  The key holds nothing of the connection. With caching on, after a resource obtained a client,
  a resource of the same namespace and with the same authentication gets this very client as
  long as its token is valid, whatever its own \<open>spec.connection\<close> says of the address, the
  time-out and the certificates of its Vault.
\<close>

theorem cached_client_ignores_connection:
  assumes "os_env E ''CACHE_VAULT_TOKEN'' = Some ''true''" and "ServiceAccount kc = Some sa"
    and "GetVaultClient E conn kc ns w = (Ok cl, w')"
    and "calls w'' = calls w' @ cs" and "client_cache w'' = client_cache w'"
    and "vault_lookup_self E (calls w'') cl = None"
  shows "GetVaultClient E conn' kc ns w'' = (Ok cl, w''\<lparr>calls := calls w'' @ [VaultLookupSelf cl]\<rparr>)"
  using assms(1,2,5,6) GetVaultClient_caches [OF assms(1-3)] by (intro cached_client_reused) simp_all

section \<open>Witnesses\<close>

definition connection_to :: "string \<Rightarrow> VaultConnection" where
  "connection_to address = \<lparr>vc_TLSConfig = None, vc_Address = address, vc_TimeOut = None, vc_MaxRetries = None\<rparr>"

definition client_at :: "string \<Rightarrow> vault_client" where
  "client_at address = \<lparr>client_Config = sample_vault_config\<lparr>cfg_Address := address\<rparr>, client_Namespace = [], client_Token = ''s.1''\<rparr>"

definition first_request :: "(unit, BaseStatus) crd world" where
  "first_request = snd (GetVaultClient (switch_env ''true'') (Some (connection_to ''https://a'')) sample_auth ''team''
     (start_world sample_owner))"

lemma first_request_run:
  "GetVaultClient (switch_env ''true'') (Some (connection_to ''https://a'')) sample_auth ''team'' (start_world sample_owner) =
     (Ok (client_at ''https://a''), first_request)"
  by (simp add: first_request_def GetVaultClient_def sample_auth_def bindG_cache_Get fresh_client_def getJWTToken_def GetJWTToken_def
      GetJWTTokenWithDuration_def createVaultClient_def getConnectionConfig_def connection_to_def switch_env_def sample_env_def
      bindG_assoc bindG_ask Let_def cache_Put_def getCacheKey_run client_at_def)
    (simp add: bindG_def go_runs)

theorem client_belongs_to_requester_witness:
  "login_of (switch_env ''true'') (calls first_request) (client_at ''https://a'') ''team'' sample_auth"
  by (rule client_belongs_to_requester [OF reachable.Start _ first_request_run])
    (simp_all add: colon_free_def sample_auth_def GetServiceAccountName_def)

theorem cached_client_ignores_connection_witness:
  "fst (GetVaultClient (switch_env ''true'') (Some (connection_to ''https://b'')) sample_auth ''team'' first_request) =
     Ok (client_at ''https://a'')"
  using cached_client_ignores_connection [OF _ _ first_request_run, where w'' = first_request and cs = "[]"
      and sa = "''default''" and conn' = "Some (connection_to ''https://b'')"]
  by (simp add: switch_env_def sample_env_def sample_auth_def)

end
