(* ===== verification/ControllerRuns.thy ===== *)
theory ControllerRuns
  imports Convergence ClientCache
begin

text \<open>
  A request to a controller from end to end: the object is fetched, a client is taken from the
  cache or logged in, and the cycle runs. Seen from Vault's store the whole of it is again
  one operation, apart from the entry at the login path: the login writes there, and nothing
  else before the cycle writes at all.
\<close>

section \<open>What comes before the cycle\<close>

definition only_at :: "string \<Rightarrow> 'o call \<Rightarrow> bool" where
  "only_at p c \<longleftrightarrow> vault_mutation c = None \<or> vault_mutation c = Some p"

lemma only_at_query: "is_query c \<Longrightarrow> only_at p c"
  by (simp add: only_at_def is_query_no_mutation)

lemma store_of_only_at:
  "list_all (only_at p) cs \<Longrightarrow> q \<noteq> p \<Longrightarrow> store_of (tr @ cs) q = store_of tr q"
proof (induction cs rule: rev_induct)
  case (snoc c cs)
  have "store_of ((tr @ cs) @ [c]) q = store_of (tr @ cs) q"
    using snoc.prems by (cases c) (auto simp: only_at_def store_of_def)
  then show ?case using snoc by simp
qed simp

lemma keeps_cache [emits_intros]:
  "keeps I P (cache_Get kc ns)" "keeps I P (cache_Put kc ns cl)"
  by (auto simp: keeps_def cache_Get_def cache_Put_def getCacheKey_def bindG_def go_runs split: option.split)

lemma keeps_getConnectionConfig: "keeps I (only_at p) (getConnectionConfig E vc ns)"
  unfolding getConnectionConfig_def Let_def by (intro emits_intros) (simp_all add: only_at_def)

lemma keeps_client_only_at: "keeps I (only_at (GetKubeAuthPath kc)) (GetVaultClient E conn kc ns)"
  unfolding GetVaultClient_def fresh_client_def createVaultClient_def getJWTToken_def GetJWTToken_def
    GetJWTTokenWithDuration_def Let_def
  by (intro emits_intros keeps_getConnectionConfig) (simp_all add: only_at_def)

lemma prepareContext_frame:
  obtains cs where "calls (snd (prepareContext E w)) = calls w @ cs"
    "list_all (only_at (GetKubeAuthPath (GetKubeAuthConfiguration (inst w)))) cs" "inst (snd (prepareContext E w)) = inst w"
proof -
  let ?d = "inst w"
  have "keeps (\<lambda>d. d = ?d) (only_at (GetKubeAuthPath (GetKubeAuthConfiguration ?d))) (prepareContext E)"
    unfolding prepareContext_def by (rule keeps_bind_get) (use keeps_client_only_at in blast)
  then show thesis by (rule keepsE [where w = w]) (use that in auto)
qed

section \<open>The controller\<close>

text \<open>An operation on a store is determined, at each path, by what it finds at that path.\<close>

lemma meet_at: "s q = s' q \<Longrightarrow> meet d s q = meet d s' q"
  by (cases "q = demand_path d") (auto simp: demands.act_frame intro: demands.act_local)

text \<open>The world in which a controller has fetched the object.\<close>

definition fetched :: "string \<Rightarrow> string \<Rightarrow> 'o \<Rightarrow> 'o world \<Rightarrow> 'o world" where
  "fetched ns n d w = w\<lparr>inst := d, calls := calls w @ [KubeGetInstance ns n]\<rparr>"

lemma fetched_simps [simp]:
  "inst (fetched ns n d w) = d" "calls (fetched ns n d w) = calls w @ [KubeGetInstance ns n]"
  by (simp_all add: fetched_def)

lemma controller_run:
  "kube_get_instance E (calls w) ns n = Inr d \<Longrightarrow> controller_Reconcile V E body ns n w =
     (case prepareContext E (fetched ns n d w) of
        (Ok cl, w') \<Rightarrow> body cl w' | (Err e, w') \<Rightarrow> ManageOutcome (Some V) E (Some e) w' | (Panic p, w') \<Rightarrow> (Panic p, w'))"
  by (simp add: controller_Reconcile_def fetch_instance_def bindG_def tryG_run kube_putG_def fetched_def
      split: prod.split res.split)

lemma controller_without_object:
  "kube_get_instance E (calls w) ns n = Inl e \<Longrightarrow>
     calls (snd (controller_Reconcile V E body ns n w)) = calls w @ [KubeGetInstance ns n]"
  by (simp add: controller_Reconcile_def fetch_instance_def bindG_def tryG_run kube_putG_def go_runs)

definition login_path :: "('y BaseSpec_scheme, 't) crd \<Rightarrow> string" where
  "login_path d = GetKubeAuthPath (GetKubeAuthConfiguration d)"

text \<open>
  What a request asks of the store: with a client, what the fetched object demands as its
  preparation finds it; without one, nothing.
\<close>

definition request_demand ::
  "(gmap \<Rightarrow> gmap) \<Rightarrow> (('y BaseSpec_scheme, 'x) object, 'z) VaultObject_scheme \<Rightarrow> ('y BaseSpec_scheme, 'x) object env \<Rightarrow>
     string \<Rightarrow> string \<Rightarrow> ('y BaseSpec_scheme, 'x) object \<Rightarrow> ('y BaseSpec_scheme, 'x) object world \<Rightarrow> demand" where
  "request_demand f V E ns n d w = (case prepareContext E (fetched ns n d w) of
      (Ok cl, w') \<Rightarrow> demand_at f V E cl w' | (_, w') \<Rightarrow> Leave (GetPath V d))"

text \<open>
  The contract of a whole controller \<open>R\<close> for the kind \<open>V\<close>, on a key-value server: a request for
  an object that the API server does not give leaves the store as it is; a request for one that
  it gives is, at every path but that of the login, the operation that it asks for.
\<close>

definition one_operation ::
  "(('y BaseSpec_scheme, 'x) object, 'z) VaultObject_scheme \<Rightarrow>
     (('y BaseSpec_scheme, 'x) object env \<Rightarrow> string \<Rightarrow> string \<Rightarrow> (('y BaseSpec_scheme, 'x) object, Result) go) \<Rightarrow> bool" where
  "one_operation V R \<longleftrightarrow> (\<forall>f E w ns n. (\<forall>cl. store_server f E cl) \<longrightarrow>
     (case kube_get_instance E (calls w) ns n of
        Inl e \<Rightarrow> store_of (calls (snd (R E ns n w))) = store_of (calls w)
      | Inr d \<Rightarrow> \<forall>q. q \<noteq> login_path d \<longrightarrow>
          store_of (calls (snd (R E ns n w))) q = meet (request_demand f V E ns n d w) (store_of (calls w)) q))"

lemma controller_store:
  assumes "vault_object V" and "\<And>cl. store_server f E cl" and inst: "kube_get_instance E (calls w) ns n = Inr d"
    and q: "q \<noteq> login_path d"
  shows "store_of (calls (snd (controller_Reconcile V E (VaultResource_Reconcile V E) ns n w))) q =
    meet (request_demand f V E ns n d w) (store_of (calls w)) q"
proof -
  let ?w = "fetched ns n d w"
  obtain cs where cs: "calls (snd (prepareContext E ?w)) = calls ?w @ cs" "list_all (only_at (login_path d)) cs"
      "inst (snd (prepareContext E ?w)) = d"
    using prepareContext_frame [of E ?w] by (auto simp: login_path_def)
  have "list_all (only_at (login_path d)) (KubeGetInstance ns n # cs)" using cs(2) by (simp add: only_at_def)
  from store_of_only_at [OF this q, of "calls w"]
  have same: "store_of (calls (snd (prepareContext E ?w))) q = store_of (calls w) q" by (simp add: cs(1))
  obtain r w' where run: "prepareContext E ?w = (r, w')" by fastforce
  have w': "inst w' = d" "store_of (calls w') q = store_of (calls w) q" using cs(3) same by (simp_all add: run)
  show ?thesis
  proof (cases r)
    case (Ok cl)
    then show ?thesis
      using w' meet_at [where s = "store_of (calls w')" and s' = "store_of (calls w)" and q = q, OF w'(2)]
        prepared_cycle_meets [OF assms(2,1), of cl w'] by (simp add: controller_run [OF inst] run request_demand_def)
  qed (use w' run in \<open>simp_all add: controller_run [OF inst] request_demand_def store.ManageOutcome_view\<close>)
qed

lemma one_operationI:
  fixes V :: "(('y BaseSpec_scheme, 'x) object, 'z) VaultObject_scheme"
  assumes "vault_object V" and "\<And>E ns n. R E ns n = controller_Reconcile V E (VaultResource_Reconcile V E) ns n"
  shows "one_operation V R"
  unfolding one_operation_def
proof (intro allI impI)
  fix f and E :: "('y BaseSpec_scheme, 'x) object env" and w ns n
  assume server: "\<forall>cl. store_server f E cl"
  show "case kube_get_instance E (calls w) ns n of
        Inl e \<Rightarrow> store_of (calls (snd (R E ns n w))) = store_of (calls w)
      | Inr d \<Rightarrow> \<forall>q. q \<noteq> login_path d \<longrightarrow>
          store_of (calls (snd (R E ns n w))) q = meet (request_demand f V E ns n d w) (store_of (calls w)) q"
  proof (cases "kube_get_instance E (calls w) ns n")
    case (Inl e)
    then show ?thesis by (simp add: assms(2) controller_without_object store_of_append)
  next
    case (Inr d)
    then show ?thesis using controller_store [OF assms(1) _ Inr] server by (simp add: assms(2))
  qed
qed

section \<open>The controllers\<close>

lemma one_operation_AzureAuthEngineConfig:
  "one_operation AzureAuthEngineConfig_VaultObject AzureAuthEngineConfigReconciler_Reconcile"
  by (rule one_operationI [OF i_AzureAuthEngineConfig.vault_object_axioms]) (simp add: AzureAuthEngineConfigReconciler_Reconcile_def)

lemma one_operation_GCPAuthEngineConfig:
  "one_operation GCPAuthEngineConfig_VaultObject GCPAuthEngineConfigReconciler_Reconcile"
  by (rule one_operationI [OF i_GCPAuthEngineConfig.vault_object_axioms]) (simp add: GCPAuthEngineConfigReconciler_Reconcile_def)

lemma one_operation_JWTOIDCAuthEngineConfig:
  "one_operation JWTOIDCAuthEngineConfig_VaultObject JWTOIDCAuthEngineConfigReconciler_Reconcile"
  by (rule one_operationI [OF i_JWTOIDCAuthEngineConfig.vault_object_axioms]) (simp add: JWTOIDCAuthEngineConfigReconciler_Reconcile_def)

lemma one_operation_LDAPAuthEngineConfig:
  "one_operation LDAPAuthEngineConfig_VaultObject LDAPAuthEngineConfigReconciler_Reconcile"
  by (rule one_operationI [OF i_LDAPAuthEngineConfig.vault_object_axioms]) (simp add: LDAPAuthEngineConfigReconciler_Reconcile_def)

lemma one_operation_KubernetesAuthEngineConfig:
  "one_operation KubernetesAuthEngineConfig_VaultObject KubernetesAuthEngineConfigReconciler_Reconcile"
  by (rule one_operationI [OF i_KubernetesAuthEngineConfig.vault_object_axioms]) (simp add: KubernetesAuthEngineConfigReconciler_Reconcile_def)

lemma one_operation_JWTOIDCAuthEngineRole:
  "one_operation JWTOIDCAuthEngineRole_VaultObject JWTOIDCAuthEngineRoleReconciler_Reconcile"
  by (rule one_operationI [OF i_JWTOIDCAuthEngineRole.vault_object_axioms]) (simp add: JWTOIDCAuthEngineRoleReconciler_Reconcile_def)

lemma one_operation_AzureAuthEngineRole:
  "one_operation AzureAuthEngineRole_VaultObject AzureAuthEngineRoleReconciler_Reconcile"
  by (rule one_operationI [OF i_AzureAuthEngineRole.vault_object_axioms]) (simp add: AzureAuthEngineRoleReconciler_Reconcile_def)

lemma one_operation_GCPAuthEngineRole:
  "one_operation GCPAuthEngineRole_VaultObject GCPAuthEngineRoleReconciler_Reconcile"
  by (rule one_operationI [OF i_GCPAuthEngineRole.vault_object_axioms]) (simp add: GCPAuthEngineRoleReconciler_Reconcile_def)

lemma one_operation_CertAuthEngineRole:
  "one_operation CertAuthEngineRole_VaultObject CertAuthEngineRoleReconciler_Reconcile"
  by (rule one_operationI [OF i_CertAuthEngineRole.vault_object_axioms]) (simp add: CertAuthEngineRoleReconciler_Reconcile_def)

lemma one_operation_CertAuthEngineConfig:
  "one_operation CertAuthEngineConfig_VaultObject CertAuthEngineConfigReconciler_Reconcile"
  by (rule one_operationI [OF i_CertAuthEngineConfig.vault_object_axioms]) (simp add: CertAuthEngineConfigReconciler_Reconcile_def)

lemma one_operation_LDAPAuthEngineGroup:
  "one_operation LDAPAuthEngineGroup_VaultObject LDAPAuthEngineGroupReconciler_Reconcile"
  by (rule one_operationI [OF i_LDAPAuthEngineGroup.vault_object_axioms]) (simp add: LDAPAuthEngineGroupReconciler_Reconcile_def)

lemma one_operation_Group:
  "one_operation Group_VaultObject GroupReconciler_Reconcile"
  by (rule one_operationI [OF i_Group.vault_object_axioms]) (simp add: GroupReconciler_Reconcile_def)

lemma one_operation_KubernetesAuthEngineRole:
  "one_operation KubernetesAuthEngineRole_VaultObject KubernetesAuthEngineRoleReconciler_Reconcile"
  by (rule one_operationI [OF i_KubernetesAuthEngineRole.vault_object_axioms]) (simp add: KubernetesAuthEngineRoleReconciler_Reconcile_def)

lemma one_operation_Policy:
  "one_operation Policy_VaultObject PolicyReconciler_Reconcile"
  by (rule one_operationI [OF policy.vault_object_axioms]) (simp add: PolicyReconciler_Reconcile_def)

lemma one_operation_PasswordPolicy:
  "one_operation PasswordPolicy_VaultObject PasswordPolicyReconciler_Reconcile"
  by (rule one_operationI [OF password_policy.vault_object_axioms]) (simp add: PasswordPolicyReconciler_Reconcile_def)

lemma one_operation_QuaySecretEngineConfig:
  "one_operation QuaySecretEngineConfig_VaultObject QuaySecretEngineConfigReconciler_Reconcile"
  by (rule one_operationI [OF i_QuaySecretEngineConfig.vault_object_axioms]) (simp add: QuaySecretEngineConfigReconciler_Reconcile_def)

lemma one_operation_GitHubSecretEngineConfig:
  "one_operation GitHubSecretEngineConfig_VaultObject GitHubSecretEngineConfigReconciler_Reconcile"
  by (rule one_operationI [OF i_GitHubSecretEngineConfig.vault_object_axioms]) (simp add: GitHubSecretEngineConfigReconciler_Reconcile_def)

lemma one_operation_AzureSecretEngineConfig:
  "one_operation AzureSecretEngineConfig_VaultObject AzureSecretEngineConfigReconciler_Reconcile"
  by (rule one_operationI [OF i_AzureSecretEngineConfig.vault_object_axioms]) (simp add: AzureSecretEngineConfigReconciler_Reconcile_def)

lemma one_operation_KubernetesSecretEngineConfig:
  "one_operation KubernetesSecretEngineConfig_VaultObject KubernetesSecretEngineConfigReconciler_Reconcile"
  by (rule one_operationI [OF i_KubernetesSecretEngineConfig.vault_object_axioms]) (simp add: KubernetesSecretEngineConfigReconciler_Reconcile_def)

lemma one_operation_DatabaseSecretEngineRole:
  "one_operation DatabaseSecretEngineRole_VaultObject DatabaseSecretEngineRoleReconciler_Reconcile"
  by (rule one_operationI [OF i_DatabaseSecretEngineRole.vault_object_axioms]) (simp add: DatabaseSecretEngineRoleReconciler_Reconcile_def)

lemma one_operation_DatabaseSecretEngineStaticRole:
  "one_operation DatabaseSecretEngineStaticRole_VaultObject DatabaseSecretEngineStaticRoleReconciler_Reconcile"
  by (rule one_operationI [OF i_DatabaseSecretEngineStaticRole.vault_object_axioms]) (simp add: DatabaseSecretEngineStaticRoleReconciler_Reconcile_def)

lemma one_operation_KubernetesSecretEngineRole:
  "one_operation KubernetesSecretEngineRole_VaultObject KubernetesSecretEngineRoleReconciler_Reconcile"
  by (rule one_operationI [OF i_KubernetesSecretEngineRole.vault_object_axioms]) (simp add: KubernetesSecretEngineRoleReconciler_Reconcile_def)

lemma one_operation_PKISecretEngineRole:
  "one_operation PKISecretEngineRole_VaultObject PKISecretEngineRoleReconciler_Reconcile"
  by (rule one_operationI [OF i_PKISecretEngineRole.vault_object_axioms]) (simp add: PKISecretEngineRoleReconciler_Reconcile_def)

lemma one_operation_GitHubSecretEngineRole:
  "one_operation GitHubSecretEngineRole_VaultObject GitHubSecretEngineRoleReconciler_Reconcile"
  by (rule one_operationI [OF i_GitHubSecretEngineRole.vault_object_axioms]) (simp add: GitHubSecretEngineRoleReconciler_Reconcile_def)

lemma one_operation_AzureSecretEngineRole:
  "one_operation AzureSecretEngineRole_VaultObject AzureSecretEngineRoleReconciler_Reconcile"
  by (rule one_operationI [OF i_AzureSecretEngineRole.vault_object_axioms]) (simp add: AzureSecretEngineRoleReconciler_Reconcile_def)

lemma one_operation_QuaySecretEngineRole:
  "one_operation QuaySecretEngineRole_VaultObject QuaySecretEngineRoleReconciler_Reconcile"
  by (rule one_operationI [OF i_QuaySecretEngineRole.vault_object_axioms]) (simp add: QuaySecretEngineRoleReconciler_Reconcile_def)

lemma one_operation_QuaySecretEngineStaticRole:
  "one_operation QuaySecretEngineStaticRole_VaultObject QuaySecretEngineStaticRoleReconciler_Reconcile"
  by (rule one_operationI [OF i_QuaySecretEngineStaticRole.vault_object_axioms]) (simp add: QuaySecretEngineStaticRoleReconciler_Reconcile_def)

lemma one_operation_RabbitMQSecretEngineRole:
  "one_operation RabbitMQSecretEngineRole_VaultObject RabbitMQSecretEngineRoleReconciler_Reconcile"
  by (rule one_operationI [OF rabbitmq_role.vault_object_axioms]) (simp add: RabbitMQSecretEngineRoleReconciler_Reconcile_def)

text \<open>
  C1. A request to the controller of any of 28 kinds, from the work queue to Vault, on a key-value
  server and whatever the API server, the cache, the logins and the preparation of credentials
  do, is one operation on the store. If the API server gives no object, Vault is as before. If it
  gives one, then at every path but that of the login the request does what the object demands,
  as prepared, when a client was obtained from the cache or by a login and the preparation went
  through: a live object's path then holds an equivalent entry or its payload, a deleted one
  that had been reconciled is gone. Otherwise nothing happens.
\<close>

theorem controllers_refine_store:
  "one_operation AzureAuthEngineConfig_VaultObject AzureAuthEngineConfigReconciler_Reconcile \<and>
   one_operation GCPAuthEngineConfig_VaultObject GCPAuthEngineConfigReconciler_Reconcile \<and>
   one_operation JWTOIDCAuthEngineConfig_VaultObject JWTOIDCAuthEngineConfigReconciler_Reconcile \<and>
   one_operation LDAPAuthEngineConfig_VaultObject LDAPAuthEngineConfigReconciler_Reconcile \<and>
   one_operation KubernetesAuthEngineConfig_VaultObject KubernetesAuthEngineConfigReconciler_Reconcile \<and>
   one_operation JWTOIDCAuthEngineRole_VaultObject JWTOIDCAuthEngineRoleReconciler_Reconcile \<and>
   one_operation AzureAuthEngineRole_VaultObject AzureAuthEngineRoleReconciler_Reconcile \<and>
   one_operation GCPAuthEngineRole_VaultObject GCPAuthEngineRoleReconciler_Reconcile \<and>
   one_operation CertAuthEngineRole_VaultObject CertAuthEngineRoleReconciler_Reconcile \<and>
   one_operation CertAuthEngineConfig_VaultObject CertAuthEngineConfigReconciler_Reconcile \<and>
   one_operation LDAPAuthEngineGroup_VaultObject LDAPAuthEngineGroupReconciler_Reconcile \<and>
   one_operation Group_VaultObject GroupReconciler_Reconcile \<and>
   one_operation KubernetesAuthEngineRole_VaultObject KubernetesAuthEngineRoleReconciler_Reconcile \<and>
   one_operation Policy_VaultObject PolicyReconciler_Reconcile \<and>
   one_operation PasswordPolicy_VaultObject PasswordPolicyReconciler_Reconcile \<and>
   one_operation QuaySecretEngineConfig_VaultObject QuaySecretEngineConfigReconciler_Reconcile \<and>
   one_operation GitHubSecretEngineConfig_VaultObject GitHubSecretEngineConfigReconciler_Reconcile \<and>
   one_operation AzureSecretEngineConfig_VaultObject AzureSecretEngineConfigReconciler_Reconcile \<and>
   one_operation KubernetesSecretEngineConfig_VaultObject KubernetesSecretEngineConfigReconciler_Reconcile \<and>
   one_operation DatabaseSecretEngineRole_VaultObject DatabaseSecretEngineRoleReconciler_Reconcile \<and>
   one_operation DatabaseSecretEngineStaticRole_VaultObject DatabaseSecretEngineStaticRoleReconciler_Reconcile \<and>
   one_operation KubernetesSecretEngineRole_VaultObject KubernetesSecretEngineRoleReconciler_Reconcile \<and>
   one_operation PKISecretEngineRole_VaultObject PKISecretEngineRoleReconciler_Reconcile \<and>
   one_operation GitHubSecretEngineRole_VaultObject GitHubSecretEngineRoleReconciler_Reconcile \<and>
   one_operation AzureSecretEngineRole_VaultObject AzureSecretEngineRoleReconciler_Reconcile \<and>
   one_operation QuaySecretEngineRole_VaultObject QuaySecretEngineRoleReconciler_Reconcile \<and>
   one_operation QuaySecretEngineStaticRole_VaultObject QuaySecretEngineStaticRoleReconciler_Reconcile \<and>
   one_operation RabbitMQSecretEngineRole_VaultObject RabbitMQSecretEngineRoleReconciler_Reconcile"
  by (intro conjI one_operation_AzureAuthEngineConfig
    one_operation_GCPAuthEngineConfig
    one_operation_JWTOIDCAuthEngineConfig
    one_operation_LDAPAuthEngineConfig
    one_operation_KubernetesAuthEngineConfig
    one_operation_JWTOIDCAuthEngineRole
    one_operation_AzureAuthEngineRole
    one_operation_GCPAuthEngineRole
    one_operation_CertAuthEngineRole
    one_operation_CertAuthEngineConfig
    one_operation_LDAPAuthEngineGroup
    one_operation_Group
    one_operation_KubernetesAuthEngineRole
    one_operation_Policy
    one_operation_PasswordPolicy
    one_operation_QuaySecretEngineConfig
    one_operation_GitHubSecretEngineConfig
    one_operation_AzureSecretEngineConfig
    one_operation_KubernetesSecretEngineConfig
    one_operation_DatabaseSecretEngineRole
    one_operation_DatabaseSecretEngineStaticRole
    one_operation_KubernetesSecretEngineRole
    one_operation_PKISecretEngineRole
    one_operation_GitHubSecretEngineRole
    one_operation_AzureSecretEngineRole
    one_operation_QuaySecretEngineRole
    one_operation_QuaySecretEngineStaticRole one_operation_RabbitMQSecretEngineRole)

section \<open>Requests to a controller\<close>

definition serve_request ::
  "('o env \<Rightarrow> string \<Rightarrow> string \<Rightarrow> ('o, Result) go) \<Rightarrow> 'o env \<Rightarrow> string \<times> string \<Rightarrow> 'o world \<Rightarrow> 'o world" where
  "serve_request R E r w = snd (R E (fst r) (snd r) w)"

text \<open>
  The demand \<open>D\<close> is undisputed: whatever the services answer in the course of time, the requests
  at its path ask for \<open>D\<close> or, when something fails, for nothing, and none logs in there.
\<close>

definition sole_demand ::
  "(gmap \<Rightarrow> gmap) \<Rightarrow> (('y BaseSpec_scheme, 'x) object, 'z) VaultObject_scheme \<Rightarrow>
     ('y BaseSpec_scheme, 'x) object env \<Rightarrow> demand \<Rightarrow> (string \<times> string) list \<Rightarrow> bool" where
  "sole_demand f V E D rs \<longleftrightarrow> (\<forall>(ns, n) \<in> set rs. \<forall>w d. kube_get_instance E (calls w) ns n = Inr d \<longrightarrow>
     login_path d \<noteq> demand_path D \<and> (demand_path (request_demand f V E ns n d w) = demand_path D \<longrightarrow>
       request_demand f V E ns n d w \<in> {D, Leave (demand_path D)}))"

lemma sole_demandD:
  assumes "sole_demand f V E D rs" and "(ns, n) \<in> set rs" and "kube_get_instance E (calls w) ns n = Inr d"
  shows "login_path d \<noteq> demand_path D"
    and "demand_path (request_demand f V E ns n d w) = demand_path D \<Longrightarrow> request_demand f V E ns n d w \<in> {D, Leave (demand_path D)}"
  using assms unfolding sole_demand_def by blast+

lemma serve_request_store:
  assumes "one_operation V R" and "\<And>cl. store_server f E cl"
  shows "kube_get_instance E (calls w) ns n = Inl e \<Longrightarrow> store_of (calls (serve_request R E (ns, n) w)) = store_of (calls w)"
    and "kube_get_instance E (calls w) ns n = Inr d \<Longrightarrow> q \<noteq> login_path d \<Longrightarrow>
      store_of (calls (serve_request R E (ns, n) w)) q = meet (request_demand f V E ns n d w) (store_of (calls w)) q"
  using assms(1) [unfolded one_operation_def, rule_format, where f = f and E = E and w = w and ns = ns and n = n] assms(2) by (simp_all add: serve_request_def)

lemma serve_request_keeps:
  assumes "one_operation V R" and "\<And>cl. store_server f E cl" and "sole_demand f V E D [r]" and "met D (store_of (calls w))"
  shows "met D (store_of (calls (serve_request R E r w)))"
proof -
  obtain ns n where r: "r = (ns, n)" by fastforce
  let ?s = "store_of (calls w)"
  show ?thesis
  proof (cases "kube_get_instance E (calls w) ns n")
    case (Inl e)
    then show ?thesis using serve_request_store(1) [OF assms(1,2) Inl] assms(4) by (simp add: r)
  next
    case (Inr d)
    let ?D = "request_demand f V E ns n d w"
    note sole = sole_demandD [OF assms(3) _ Inr, unfolded r, simplified]
    have after: "store_of (calls (serve_request R E r w)) (demand_path D) = meet ?D ?s (demand_path D)"
      using serve_request_store(2) [OF assms(1,2) Inr] sole(1) by (simp add: r)
    consider "?D = D" | "?D = Leave (demand_path D)" | "demand_path ?D \<noteq> demand_path D" using sole(2) by auto
    then have "met D (meet ?D ?s)"
    proof cases
      case 3
      have "met D (meet ?D ?s) = met D ?s" using demands.act_frame [of "demand_path D" ?D ?s] 3 by (intro met_cong) simp
      then show ?thesis using assms(4) by simp
    qed (use assms(4) in \<open>simp_all add: meet_met\<close>)
    then show ?thesis using met_cong [where d = D and s = "store_of (calls (serve_request R E r w))" and s' = "meet ?D ?s", OF after] by simp
  qed
qed

lemma serve_requests_keep:
  assumes "one_operation V R" and "\<And>cl. store_server f E cl"
  shows "sole_demand f V E D rs \<Longrightarrow> met D (store_of (calls w)) \<Longrightarrow>
    met D (store_of (calls (fold (serve_request R E) rs w)))"
proof (induction rs arbitrary: w)
  case (Cons r rs)
  have "sole_demand f V E D [r]" "sole_demand f V E D rs" using Cons.prems(1) by (simp_all add: sole_demand_def)
  then show ?case
    using Cons.IH [of "serve_request R E r w"] serve_request_keeps [OF assms, where D = D and r = r and w = w] Cons.prems(2)
    by simp
qed simp

text \<open>
  C3. Served in the end, on a key-value Vault that answers every read, write and delete: in any
  sequence of requests to a controller that does one operation per request, as those above do, if
  one turn of an object demands \<open>D\<close>, then Vault meets \<open>D\<close> at the end of the sequence, provided that
  the path of \<open>D\<close> is no login path and no other request demands anything else there. Whatever the
  login and the API server do is allowed: requests for other objects, further requests for this
  one, logins and preparations that fail, updates that are refused, objects that have gone.
\<close>

theorem served_request_lasts:
  assumes "one_operation V R" and "\<And>cl. store_server f E cl"
    and "rs = pre @ (ns, n) # post" and "sole_demand f V E D rs"
    and "kube_get_instance E (calls (fold (serve_request R E) pre w)) ns n = Inr d"
    and "request_demand f V E ns n d (fold (serve_request R E) pre w) = D"
  shows "met D (store_of (calls (fold (serve_request R E) rs w)))"
proof -
  let ?w = "fold (serve_request R E) pre w"
  have sole: "sole_demand f V E D post" using assms(4) by (simp add: assms(3) sole_demand_def)
  have "login_path d \<noteq> demand_path D" using sole_demandD(1) [OF assms(4) _ assms(5)] assms(3) by simp
  then have "store_of (calls (serve_request R E (ns, n) ?w)) (demand_path D) = meet D (store_of (calls ?w)) (demand_path D)"
    using serve_request_store(2) [OF assms(1,2,5)] assms(6) by simp
  then have "met D (store_of (calls (serve_request R E (ns, n) ?w))) = met D (meet D (store_of (calls ?w)))"
    by (rule met_cong)
  then show ?thesis
    using serve_requests_keep [OF assms(1,2) sole, of "serve_request R E (ns, n) ?w"] by (simp add: assms(3) meet_met)
qed

section \<open>Witnesses\<close>

text \<open>An API server with one object, and a Vault whose logins succeed.\<close>

definition group_env :: "LDAPAuthEngineGroup env" where
  "group_env = (switch_env ''true'')\<lparr>kube_get_instance := \<lambda>tr ns n.
     if n = ''devs'' then Inr sample_group else Inl (KubeNotFound n)\<rparr>"

lemma group_store_server: "store_server (\<lambda>m. m) group_env cl"
  by (simp add: group_env_def switch_env_def store_server_def kv_server_def read_answer_def data_secret_def split: option.split)

lemma group_instances:
  "kube_get_instance group_env tr ns n = (if n = ''devs'' then Inr sample_group else Inl (KubeNotFound n))"
  by (simp add: group_env_def)

lemma group_context: "client_cache w = fmempty \<Longrightarrow> \<exists>cl w'. prepareContext group_env (fetched ns n sample_group w) = (Ok cl, w')"
  unfolding prepareContext_def
  by (simp add: bindG_get GetVaultClient_def sample_group_def sample_auth_def bindG_cache_Get fresh_client_def getJWTToken_def
      GetJWTToken_def GetJWTTokenWithDuration_def createVaultClient_def group_env_def switch_env_def sample_env_def
      bindG_assoc bindG_ask Let_def cache_Put_def getCacheKey_run GetVaultConnection_def GetKubeAuthConfiguration_def fetched_def)
    (simp add: bindG_def go_runs)

lemma group_demand:
  "demand_of (\<lambda>m. m) LDAPAuthEngineGroup_VaultObject group_env sample_group = Put ''auth/ldap/groups/devs''
     (\<lambda>m. m = LDAPAuthEngineGroup_GetPayload sample_group) (LDAPAuthEngineGroup_GetPayload sample_group)"
  by (simp add: demand_of_def sample_group_at)
    (simp add: is_deleted_def sample_group_def sample_meta_def LDAPAuthEngineGroup_VaultObject_def
      LDAPAuthEngineGroup_IsEquivalentToDesiredState_def)

lemma group_login: "login_path sample_group = ''auth/kubernetes/login''"
  by (simp add: login_path_def GetKubeAuthPath_def GetKubeAuthConfiguration_def sample_group_def sample_auth_def
      CleansePath_def Trim_def)

abbreviation group_wish :: demand where
  "group_wish \<equiv> Put ''auth/ldap/groups/devs''
     (\<lambda>m. m = LDAPAuthEngineGroup_GetPayload sample_group) (LDAPAuthEngineGroup_GetPayload sample_group)"

lemma group_request_cases:
  "request_demand (\<lambda>m. m) LDAPAuthEngineGroup_VaultObject group_env ns n sample_group w \<in>
     {group_wish, Leave (demand_path group_wish)}"
proof -
  obtain r w' where run: "prepareContext group_env (fetched ns n sample_group w) = (r, w')" by fastforce
  have "inst w' = sample_group" using prepareContext_frame [of group_env "fetched ns n sample_group w"] by (auto simp: run)
  then show ?thesis
    by (cases r) (simp_all add: request_demand_def run demand_at_plain plain_kinds group_demand sample_group_at)
qed

lemma group_request:
  assumes "client_cache w = fmempty"
  shows "request_demand (\<lambda>m. m) LDAPAuthEngineGroup_VaultObject group_env ns n sample_group w = group_wish"
proof -
  obtain cl w' where run: "prepareContext group_env (fetched ns n sample_group w) = (Ok cl, w')"
    using group_context [OF assms] by blast
  have "inst w' = sample_group" using prepareContext_frame [of group_env "fetched ns n sample_group w"] by (auto simp: run)
  then show ?thesis by (simp add: request_demand_def run demand_at_plain plain_kinds group_demand)
qed

theorem controllers_refine_store_witness:
  "store_of (calls (snd (LDAPAuthEngineGroupReconciler_Reconcile group_env ''team'' ''devs'' (start_world sample_group))))
     ''auth/ldap/groups/devs'' = Some (LDAPAuthEngineGroup_GetPayload sample_group)"
proof -
  have "one_operation LDAPAuthEngineGroup_VaultObject LDAPAuthEngineGroupReconciler_Reconcile"
    using controllers_refine_store by simp
  from this [unfolded one_operation_def, rule_format, where f = "\<lambda>m. m" and E = group_env and w = "start_world sample_group"
      and ns = "''team''" and n = "''devs''"]
  show ?thesis
    by (simp add: group_store_server group_instances group_login group_request ensure_at store_of_def)
qed

theorem served_request_lasts_witness:
  "store_of (calls (fold (serve_request LDAPAuthEngineGroupReconciler_Reconcile group_env)
      [(''team'', ''gone''), (''team'', ''devs''), (''team'', ''devs'')] (start_world sample_group)))
     ''auth/ldap/groups/devs'' = Some (LDAPAuthEngineGroup_GetPayload sample_group)"
proof -
  let ?R = LDAPAuthEngineGroupReconciler_Reconcile and ?rs = "[(''team'', ''gone''), (''team'', ''devs''), (''team'', ''devs'')]"
  let ?w = "fold (serve_request ?R group_env) [(''team'', ''gone'')] (start_world sample_group)"
  have "?w = (start_world sample_group)\<lparr>calls := [KubeGetInstance ''team'' ''gone'']\<rparr>"
    by (simp add: serve_request_def LDAPAuthEngineGroupReconciler_Reconcile_def controller_Reconcile_def fetch_instance_def
        bindG_def tryG_run kube_putG_def go_runs group_instances start_world_def)
  then have "request_demand (\<lambda>m. m) LDAPAuthEngineGroup_VaultObject group_env ''team'' ''devs'' sample_group ?w = group_wish"
    by (simp add: group_request)
  moreover have "sole_demand (\<lambda>m. m) LDAPAuthEngineGroup_VaultObject group_env group_wish ?rs"
    unfolding sole_demand_def using group_request_cases by (auto simp: group_instances group_login)
  ultimately have "met group_wish (store_of (calls (fold (serve_request ?R group_env) ?rs (start_world sample_group))))"
    by (intro served_request_lasts [OF one_operation_LDAPAuthEngineGroup group_store_server,
          where pre = "[(''team'', ''gone'')]" and ns = "''team''" and n = "''devs''" and post = "[(''team'', ''devs'')]"])
      (simp_all add: group_instances)
  then show ?thesis by auto
qed

end
