(* ===== verification/Templates.thy ===== *)
theory Templates
  imports VaultSecrets
begin

text \<open>
  What the templates of a \<open>VaultSecret\<close> can call
  (\<open>controllers/vaultresourcecontroller/advanced-funcmap.go\<close>) and the dynamic clients behind
  \<open>lookup\<close> (\<open>dynamicclientutils.go\<close>).

  Parameters, as fields of \<open>api_cluster\<close>: how the client library parses an API version and
  prints it, what discovery lists, and what the API server answers; and, as arguments, the
  encoders and decoders of YAML, TOML and JSON, the functions of the Sprig library and
  \<open>fmt.Sprintf\<close> of a format without arguments.
\<close>

section \<open>Dynamic clients\<close>

record GroupVersionKind =
  gvk_Group :: string
  gvk_Version :: string
  gvk_Kind :: string

record GroupVersionResource =
  gvr_Group :: string
  gvr_Version :: string
  gvr_Resource :: string

record APIResource =
  ar_Name :: string
  ar_Namespaced :: bool
  ar_Group :: string
  ar_Version :: string
  ar_Kind :: string

text \<open>A dynamic client: the resource it works on, and the namespace it was narrowed to.\<close>

record dynamic_client =
  dc_Resource :: GroupVersionResource
  dc_Namespace :: "string option"

record api_cluster =
  FromAPIVersionAndKind :: "string \<Rightarrow> string \<Rightarrow> GroupVersionKind"
  GroupVersion_String :: "GroupVersionKind \<Rightarrow> string"
  discovery_fails :: bool
  ServerResourcesForGroupVersion :: "string \<Rightarrow> error + APIResource list"
  dynamic_NewForConfig :: "error option"
  dynamic_Get :: "dynamic_client \<Rightarrow> string \<Rightarrow> error + gmap"
  dynamic_List :: "dynamic_client \<Rightarrow> error + gmap"

text \<open>What is asked of the API server, with the result.\<close>

datatype api_call = Discover string | DynamicGet dynamic_client string | DynamicList dynamic_client

type_synonym 'a asked = "api_call list \<times> 'a res"

definition andThen :: "'a asked \<Rightarrow> ('a \<Rightarrow> 'b asked) \<Rightarrow> 'b asked" where
  "andThen m f = (case snd m of
      Ok x \<Rightarrow> (fst m @ fst (f x), snd (f x)) | Err e \<Rightarrow> (fst m, Err e) | Panic p \<Rightarrow> (fst m, Panic p))"

text \<open>A resource list without the kind leaves the empty \<open>APIResource\<close>.\<close>

definition no_resource :: APIResource where
  "no_resource = \<lparr>ar_Name = [], ar_Namespaced = False, ar_Group = [], ar_Version = [], ar_Kind = []\<rparr>"

definition getAPIReourceForGVK :: "api_cluster \<Rightarrow> GroupVersionKind \<Rightarrow> APIResource asked" where
  "getAPIReourceForGVK C gvk =
     (if discovery_fails C then ([], Panic ''discovery client'')
      else ([Discover (GroupVersion_String C gvk)],
        case ServerResourcesForGroupVersion C (GroupVersion_String C gvk) of
          Inl err \<Rightarrow> Err err
        | Inr resList \<Rightarrow> Ok (case find (\<lambda>r. ar_Kind r = gvk_Kind gvk \<and> \<not> Contains (ar_Name r) ''/'') resList of
            Some res \<Rightarrow> res\<lparr>ar_Group := gvk_Group gvk, ar_Version := gvk_Version gvk\<rparr>
          | None \<Rightarrow> no_resource)))"

definition getDynamicClientForGVR :: "api_cluster \<Rightarrow> GroupVersionResource \<Rightarrow> dynamic_client asked" where
  "getDynamicClientForGVR C gvr = ([], case dynamic_NewForConfig C of
      Some err \<Rightarrow> Err err | None \<Rightarrow> Ok \<lparr>dc_Resource = gvr, dc_Namespace = None\<rparr>)"

definition GetDynamicClientForAPIResource :: "api_cluster \<Rightarrow> APIResource \<Rightarrow> dynamic_client asked" where
  "GetDynamicClientForAPIResource C resource =
     getDynamicClientForGVR C \<lparr>gvr_Group = ar_Group resource, gvr_Version = ar_Version resource,
       gvr_Resource = ar_Name resource\<rparr>"

definition GetDynamicClientForGVK :: "api_cluster \<Rightarrow> GroupVersionKind \<Rightarrow> (dynamic_client \<times> bool) asked" where
  "GetDynamicClientForGVK C gvk =
     andThen (getAPIReourceForGVK C gvk) (\<lambda>apiRes.
     andThen (GetDynamicClientForAPIResource C apiRes) (\<lambda>nri.
     ([], Ok (nri, ar_Namespaced apiRes))))"

text \<open>The object is given by its kind and its namespace.\<close>

definition GetDynamicClientOnUnstructured :: "api_cluster \<Rightarrow> GroupVersionKind \<Rightarrow> string \<Rightarrow> dynamic_client asked" where
  "GetDynamicClientOnUnstructured C gvk namespace =
     andThen (getAPIReourceForGVK C gvk) (\<lambda>apiRes.
     andThen (GetDynamicClientForAPIResource C apiRes) (\<lambda>dc.
     ([], Ok (if ar_Namespaced apiRes then dc\<lparr>dc_Namespace := Some namespace\<rparr> else dc))))"

text \<open>
  The index function that \<open>SetIndexField\<close> registers, given the conversion to a map and the
  JSON path engine: the strings among the first results, or nothing.
\<close>

definition index_values ::
  "('o \<Rightarrow> error + gmap) \<Rightarrow> (string \<Rightarrow> error + 'jp) \<Rightarrow> ('jp \<Rightarrow> gmap \<Rightarrow> error + gval list list) \<Rightarrow> string \<Rightarrow> 'o \<Rightarrow>
     string list option" where
  "index_values toUnstructured parse findResults path obj =
     (case toUnstructured obj of Inl err \<Rightarrow> None
      | Inr mapObj \<Rightarrow> (case parse (''{ $'' @ path @ '' }'') of Inl err \<Rightarrow> None
        | Inr jp \<Rightarrow> (case findResults jp mapObj of Inl err \<Rightarrow> None
          | Inr values \<Rightarrow> Some (case values of [] \<Rightarrow> []
              | vs # _ \<Rightarrow> List.map_filter (\<lambda>v. case v of VStr s \<Rightarrow> Some s | _ \<Rightarrow> None) vs))))"

section \<open>Lookup\<close>

text \<open>The returned pair of a map and an error.\<close>

definition found_or_empty :: "error + gmap \<Rightarrow> gmap \<times> error option" where
  "found_or_empty answer = (case answer of
      Inl err \<Rightarrow> if IsNotFound err then (fmempty, None) else (fmempty, Some err)
    | Inr obj \<Rightarrow> (obj, None))"

definition NewLookupFunction ::
  "api_cluster \<Rightarrow> string \<Rightarrow> string \<Rightarrow> string \<Rightarrow> string \<Rightarrow> (gmap \<times> error option) asked" where
  "NewLookupFunction C apiversion resource namespace name =
     (case GetDynamicClientForGVK C (FromAPIVersionAndKind C apiversion resource) of
        (cs, Err err) \<Rightarrow> (cs, Ok (fmempty, Some err))
      | (cs, Panic p) \<Rightarrow> (cs, Panic p)
      | (cs, Ok (c, namespaced)) \<Rightarrow>
          let client = (if namespaced \<and> namespace \<noteq> [] then c\<lparr>dc_Namespace := Some namespace\<rparr> else c)
          in if name \<noteq> [] then (cs @ [DynamicGet client name], Ok (found_or_empty (dynamic_Get C client name)))
             else (cs @ [DynamicList client], Ok (found_or_empty (dynamic_List C client))))"

section \<open>Conversions\<close>

definition TrimSuffix :: "string \<Rightarrow> string \<Rightarrow> string" where
  "TrimSuffix s suf = (case strip_prefix (rev suf) (rev s) of Some r \<Rightarrow> rev r | None \<Rightarrow> s)"

definition newline :: string where
  "newline = [CHR 0x0A]"

definition toYAML :: "(gval \<Rightarrow> error + string) \<Rightarrow> gval \<Rightarrow> string" where
  "toYAML marshal v = (case marshal v of Inl err \<Rightarrow> [] | Inr data \<Rightarrow> TrimSuffix data newline)"

text \<open>
  The decoders fill the given map, or set it to nil (a document \<open>null\<close>), and may fail all the
  same; an error is put into the map, which panics when it is nil.
\<close>

definition fromYAML :: "(string \<Rightarrow> gmap option \<times> error option) \<Rightarrow> string \<Rightarrow> gmap option res" where
  "fromYAML unmarshal str = (case unmarshal str of
      (m, None) \<Rightarrow> Ok m
    | (None, Some err) \<Rightarrow> Panic ''assignment to entry in nil map''
    | (Some m, Some err) \<Rightarrow> Ok (Some (fmupd ''Error'' (VStr (error_text err)) m)))"

definition fromYAMLArray :: "(string \<Rightarrow> gval list \<times> error option) \<Rightarrow> string \<Rightarrow> gval list" where
  "fromYAMLArray unmarshal str = (case unmarshal str of (a, None) \<Rightarrow> a | (a, Some err) \<Rightarrow> [VStr (error_text err)])"

definition toTOML :: "(gval \<Rightarrow> error + string) \<Rightarrow> gval \<Rightarrow> string" where
  "toTOML encode v = (case encode v of Inl err \<Rightarrow> error_text err | Inr s \<Rightarrow> s)"

definition toJSON :: "(gval \<Rightarrow> error + string) \<Rightarrow> gval \<Rightarrow> string" where
  "toJSON marshal v = (case marshal v of Inl err \<Rightarrow> [] | Inr data \<Rightarrow> data)"

definition fromJSON :: "(string \<Rightarrow> gmap option \<times> error option) \<Rightarrow> string \<Rightarrow> gmap option res" where
  "fromJSON unmarshal str = (case unmarshal str of
      (m, None) \<Rightarrow> Ok m
    | (None, Some err) \<Rightarrow> Panic ''assignment to entry in nil map''
    | (Some m, Some err) \<Rightarrow> Ok (Some (fmupd ''Error'' (VStr (error_text err)) m)))"

definition fromJSONArray :: "(string \<Rightarrow> gval list \<times> error option) \<Rightarrow> string \<Rightarrow> gval list" where
  "fromJSONArray unmarshal str = (case unmarshal str of (a, None) \<Rightarrow> a | (a, Some err) \<Rightarrow> [VStr (error_text err)])"

text \<open>\<open>required\<close>: an empty string and nil are errors with the given text.\<close>

definition required :: "(string \<Rightarrow> string) \<Rightarrow> string \<Rightarrow> gval \<Rightarrow> gval \<times> error option" where
  "required sprintf warn val =
     (if val = VNil \<or> val = VStr [] then (val, Some (ErrMsg (sprintf warn))) else (val, None))"

section \<open>The function map\<close>

text \<open>The functions by what implements them.\<close>

datatype template_function =
    Sprig string
  | ToToml | ToYaml | FromYaml | FromYamlArray | ToJson | FromJson | FromJsonArray
  | NotImplemented
  | Lookup
  | Required

definition extra_functions :: "(string, template_function) fmap" where
  "extra_functions = fmap_of_list
     [(''toToml'', ToToml), (''toYaml'', ToYaml), (''fromYaml'', FromYaml), (''fromYamlArray'', FromYamlArray),
      (''toJson'', ToJson), (''fromJson'', FromJson), (''fromJsonArray'', FromJsonArray),
      (''include'', NotImplemented), (''tpl'', NotImplemented), (''required'', NotImplemented)]"

text \<open>\<open>sprig\<close> holds the names of \<open>sprig.HermeticTxtFuncMap()\<close>.\<close>

definition AdvancedTemplateFuncMap :: "string fset \<Rightarrow> (string, template_function) fmap" where
  "AdvancedTemplateFuncMap sprig =
     (let f = fmap_of_list (map (\<lambda>n. (n, Sprig n)) (sorted_list_of_fset sprig));
          f = fmdrop ''expandenv'' (fmdrop ''env'' f);
          f = f ++\<^sub>f extra_functions;
          f = fmupd ''lookup'' Lookup f
      in fmupd ''required'' Required f)"

section \<open>Properties\<close>

definition known_kind :: "api_cluster \<Rightarrow> GroupVersionKind \<Rightarrow> APIResource \<Rightarrow> bool" where
  "known_kind C gvk res \<longleftrightarrow> \<not> discovery_fails C \<and> dynamic_NewForConfig C = None \<and>
     (case ServerResourcesForGroupVersion C (GroupVersion_String C gvk) of Inl err \<Rightarrow> False
      | Inr resList \<Rightarrow> find (\<lambda>r. ar_Kind r = gvk_Kind gvk \<and> \<not> Contains (ar_Name r) ''/'') resList = Some res)"

definition client_for :: "GroupVersionKind \<Rightarrow> APIResource \<Rightarrow> string \<Rightarrow> dynamic_client" where
  "client_for gvk res namespace =
     \<lparr>dc_Resource = \<lparr>gvr_Group = gvk_Group gvk, gvr_Version = gvk_Version gvk, gvr_Resource = ar_Name res\<rparr>,
      dc_Namespace = (if ar_Namespaced res \<and> namespace \<noteq> [] then Some namespace else None)\<rparr>"

lemma known_kind_client:
  "known_kind C gvk res \<Longrightarrow> GetDynamicClientForGVK C gvk =
     ([Discover (GroupVersion_String C gvk)], Ok (client_for gvk res [], ar_Namespaced res))"
  by (auto simp: known_kind_def GetDynamicClientForGVK_def getAPIReourceForGVK_def andThen_def client_for_def
      GetDynamicClientForAPIResource_def getDynamicClientForGVR_def split: sum.splits)

text \<open>
  C31. A template's \<open>lookup\<close> of a kind that discovery knows asks one question: the named object, or
  the list without a name, in the namespace that the template gives, if the kind has namespaces.
  It returns the answer; an object that does not exist is an empty map without an error.
  Nothing ties the namespace to that of the \<open>VaultSecret\<close>.
\<close>

theorem lookup_result:
  assumes "gvk = FromAPIVersionAndKind C apiversion kind" and "known_kind C gvk res"
    and "client = client_for gvk res namespace"
  shows "NewLookupFunction C apiversion kind namespace name =
    (if name \<noteq> []
     then ([Discover (GroupVersion_String C gvk), DynamicGet client name],
       Ok (case dynamic_Get C client name of Inr obj \<Rightarrow> (obj, None)
           | Inl err \<Rightarrow> (fmempty, if IsNotFound err then None else Some err)))
     else ([Discover (GroupVersion_String C gvk), DynamicList client],
       Ok (case dynamic_List C client of Inr obj \<Rightarrow> (obj, None)
           | Inl err \<Rightarrow> (fmempty, if IsNotFound err then None else Some err))))"
proof -
  have "(if ar_Namespaced res \<and> namespace \<noteq> [] then (client_for gvk res [])\<lparr>dc_Namespace := Some namespace\<rparr>
      else client_for gvk res []) = client"
    by (simp add: assms(3) client_for_def)
  then show ?thesis
    using known_kind_client [OF assms(2)]
    by (simp add: NewLookupFunction_def assms(1) [symmetric] found_or_empty_def Let_def split: sum.split)
qed

text \<open>
  A kind that discovery does not list is no error: the request goes to the resource with the
  empty name.
\<close>

lemma lookup_of_unknown_kind:
  assumes "gvk = FromAPIVersionAndKind C apiversion kind" and "\<not> discovery_fails C" and "dynamic_NewForConfig C = None"
    and "ServerResourcesForGroupVersion C (GroupVersion_String C gvk) = Inr resList"
    and "\<And>r. r \<in> set resList \<Longrightarrow> ar_Kind r \<noteq> gvk_Kind gvk" and "name \<noteq> []"
  shows "fst (NewLookupFunction C apiversion kind namespace name) = [Discover (GroupVersion_String C gvk),
    DynamicGet \<lparr>dc_Resource = \<lparr>gvr_Group = [], gvr_Version = [], gvr_Resource = []\<rparr>, dc_Namespace = None\<rparr> name]"
proof -
  have "find (\<lambda>r. ar_Kind r = gvk_Kind gvk \<and> \<not> Contains (ar_Name r) ''/'') resList = None"
    using assms(5) by (auto simp: find_None_iff)
  then show ?thesis
    using assms(1-4,6)
    by (simp add: NewLookupFunction_def GetDynamicClientForGVK_def getAPIReourceForGVK_def andThen_def no_resource_def
        GetDynamicClientForAPIResource_def getDynamicClientForGVR_def Let_def)
qed

text \<open>
  The templates see no environment variables of the operator, whatever Sprig offers, and call
  the real \<open>required\<close>; \<open>include\<close> and \<open>tpl\<close> are stubs, and every other function of Sprig that
  has no namesake here is available.
\<close>

theorem template_functions:
  "fmlookup (AdvancedTemplateFuncMap sprig) ''env'' = None \<and>
   fmlookup (AdvancedTemplateFuncMap sprig) ''expandenv'' = None \<and>
   fmlookup (AdvancedTemplateFuncMap sprig) ''required'' = Some Required \<and>
   fmlookup (AdvancedTemplateFuncMap sprig) ''lookup'' = Some Lookup \<and>
   fmlookup (AdvancedTemplateFuncMap sprig) ''include'' = Some NotImplemented \<and>
   fmlookup (AdvancedTemplateFuncMap sprig) ''tpl'' = Some NotImplemented \<and>
   fmdom' (AdvancedTemplateFuncMap sprig) =
     (fset sprig - {''env'', ''expandenv''}) \<union> fmdom' extra_functions \<union> {''lookup''}"
proof -
  have dom: "fmdom' (fmap_of_list (map (\<lambda>n. (n, Sprig n)) (sorted_list_of_fset sprig))) = fset sprig"
    by (auto simp: fmdom'_alt_def fset_of_list.rep_eq image_image sorted_list_of_fset.rep_eq)
  have "''required'' \<in> fmdom' extra_functions" by (simp add: extra_functions_def)
  then have "fmdom' (AdvancedTemplateFuncMap sprig) =
     (fset sprig - {''env'', ''expandenv''}) \<union> fmdom' extra_functions \<union> {''lookup''}"
    by (auto simp: AdvancedTemplateFuncMap_def Let_def dom)
  moreover have extra: "''env'' |\<notin>| fmdom extra_functions" "''expandenv'' |\<notin>| fmdom extra_functions"
      "''include'' |\<in>| fmdom extra_functions" "''tpl'' |\<in>| fmdom extra_functions"
      "fmlookup extra_functions ''include'' = Some NotImplemented" "fmlookup extra_functions ''tpl'' = Some NotImplemented"
    by (simp_all add: extra_functions_def)
  moreover have "fmlookup (AdvancedTemplateFuncMap sprig) ''env'' = None"
      "fmlookup (AdvancedTemplateFuncMap sprig) ''expandenv'' = None"
      "fmlookup (AdvancedTemplateFuncMap sprig) ''include'' = Some NotImplemented"
      "fmlookup (AdvancedTemplateFuncMap sprig) ''tpl'' = Some NotImplemented"
    by (simp_all add: AdvancedTemplateFuncMap_def Let_def extra)
  moreover have "fmlookup (AdvancedTemplateFuncMap sprig) ''required'' = Some Required"
      "fmlookup (AdvancedTemplateFuncMap sprig) ''lookup'' = Some Lookup"
    by (simp_all add: AdvancedTemplateFuncMap_def Let_def)
  ultimately show ?thesis by simp
qed

lemma toTOML_shows_error: "encode v = Inl e \<Longrightarrow> toTOML encode v = error_text e"
  by (simp add: toTOML_def)

section \<open>Witness\<close>

definition sample_cluster :: api_cluster where
  "sample_cluster =
     \<lparr>FromAPIVersionAndKind = (\<lambda>v k. \<lparr>gvk_Group = [], gvk_Version = v, gvk_Kind = k\<rparr>),
      GroupVersion_String = gvk_Version, discovery_fails = False,
      ServerResourcesForGroupVersion = (\<lambda>gv. Inr
        [\<lparr>ar_Name = ''namespaces'', ar_Namespaced = False, ar_Group = [], ar_Version = [], ar_Kind = ''Namespace''\<rparr>,
         \<lparr>ar_Name = ''secrets'', ar_Namespaced = True, ar_Group = [], ar_Version = [], ar_Kind = ''Secret''\<rparr>]),
      dynamic_NewForConfig = None,
      dynamic_Get = (\<lambda>c n. if dc_Namespace c = Some ''kube-system'' \<and> n = ''admin-token''
        then Inr (fmap_of_list [(''token'', VStr ''s3cret'')]) else Inl (KubeNotFound n)),
      dynamic_List = (\<lambda>c. Inr fmempty)\<rparr>"

theorem lookup_result_witness:
  "snd (NewLookupFunction sample_cluster ''v1'' ''Secret'' ''kube-system'' ''admin-token'') =
     Ok (fmap_of_list [(''token'', VStr ''s3cret'')], None) \<and>
   snd (NewLookupFunction sample_cluster ''v1'' ''Secret'' ''team'' ''admin-token'') = Ok (fmempty, None)"
proof -
  let ?gvk = "\<lparr>gvk_Group = [], gvk_Version = ''v1'', gvk_Kind = ''Secret''\<rparr>"
  let ?r = "\<lparr>ar_Name = ''secrets'', ar_Namespaced = True, ar_Group = [], ar_Version = [], ar_Kind = ''Secret''\<rparr>"
  have "known_kind sample_cluster ?gvk ?r" "FromAPIVersionAndKind sample_cluster ''v1'' ''Secret'' = ?gvk"
    by (simp_all add: known_kind_def sample_cluster_def)
  then show ?thesis
    using lookup_result [of ?gvk sample_cluster "''v1''" "''Secret''" ?r "client_for ?gvk ?r ''kube-system''" "''kube-system''" "''admin-token''"]
      lookup_result [of ?gvk sample_cluster "''v1''" "''Secret''" ?r "client_for ?gvk ?r ''team''" "''team''" "''admin-token''"]
    by (simp add: sample_cluster_def client_for_def)
qed

end
