(* ===== verification/DeepCopy.thy ===== *)
theory DeepCopy
  imports Prelude
begin

text \<open>
  Copying Go values that hold references, for the generated \<open>DeepCopy\<close> functions of
  \<open>api/v1alpha1\<close>. A value shows the addresses of the variables it refers to, so that sharing
  is visible: two values share memory when they hold a common address. A copier takes the
  next free address and gives the copy and the next free address after it.
\<close>

section \<open>Values and types\<close>

datatype govalue =
    Atom string
  | Struct "(string \<times> govalue) list"
  | NilValue
  | Ref nat govalue
  | Slice nat "govalue list"
  | Map nat "(string \<times> govalue) list"

text \<open>
  \<open>Plain\<close> are the types without references: strings, booleans, numbers, and the structs of
  other packages made of them alone. \<open>Foreign\<close> are the types of other packages whose values
  are copied with functions of those packages.
\<close>

datatype gotype =
    Plain
  | StructOf "(string \<times> gotype) list"
  | PtrTo gotype
  | SliceOf gotype
  | MapTo gotype
  | Foreign string

text \<open>The content without the addresses, and the addresses.\<close>

fun content :: "govalue \<Rightarrow> govalue" where
  "content (Atom s) = Atom s"
| "content (Struct fs) = Struct (map (map_prod id content) fs)"
| "content NilValue = NilValue"
| "content (Ref a v) = Ref 0 (content v)"
| "content (Slice a vs) = Slice 0 (map content vs)"
| "content (Map a kvs) = Map 0 (map (map_prod id content) kvs)"

fun addresses :: "govalue \<Rightarrow> nat set" where
  "addresses (Atom s) = {}"
| "addresses (Struct fs) = (\<Union>(f, v) \<in> set fs. addresses v)"
| "addresses NilValue = {}"
| "addresses (Ref a v) = insert a (addresses v)"
| "addresses (Slice a vs) = insert a (\<Union>v \<in> set vs. addresses v)"
| "addresses (Map a kvs) = insert a (\<Union>(k, v) \<in> set kvs. addresses v)"

text \<open>Assigning to the variable at an address, as seen by a value that refers to it.\<close>

fun assign :: "nat \<Rightarrow> govalue \<Rightarrow> govalue \<Rightarrow> govalue" where
  "assign b x (Atom s) = Atom s"
| "assign b x (Struct fs) = Struct (map (map_prod id (assign b x)) fs)"
| "assign b x NilValue = NilValue"
| "assign b x (Ref a v) = (if a = b then Ref a x else Ref a (assign b x v))"
| "assign b x (Slice a vs) = (case x of Slice c ws \<Rightarrow> if a = b then Slice a ws else Slice a (map (assign b x) vs)
     | _ \<Rightarrow> Slice a (map (assign b x) vs))"
| "assign b x (Map a kvs) = (case x of Map c ws \<Rightarrow> if a = b then Map a ws else Map a (map (map_prod id (assign b x)) kvs)
     | _ \<Rightarrow> Map a (map (map_prod id (assign b x)) kvs))"

fun typed :: "gotype \<Rightarrow> govalue \<Rightarrow> bool" where
  "typed Plain v \<longleftrightarrow> (case v of Atom s \<Rightarrow> True | _ \<Rightarrow> False)"
| "typed (StructOf ts) v \<longleftrightarrow> (case v of Struct fs \<Rightarrow> list_all2 (\<lambda>(f, t) (g, x). f = g \<and> typed t x) ts fs | _ \<Rightarrow> False)"
| "typed (PtrTo t) v \<longleftrightarrow> (case v of NilValue \<Rightarrow> True | Ref a x \<Rightarrow> typed t x | _ \<Rightarrow> False)"
| "typed (SliceOf t) v \<longleftrightarrow> (case v of NilValue \<Rightarrow> True | Slice a xs \<Rightarrow> list_all (typed t) xs | _ \<Rightarrow> False)"
| "typed (MapTo t) v \<longleftrightarrow> (case v of NilValue \<Rightarrow> True | Map a kvs \<Rightarrow> list_all (\<lambda>(k, x). typed t x) kvs | _ \<Rightarrow> False)"
| "typed (Foreign n) v \<longleftrightarrow> True"

fun flat :: "gotype \<Rightarrow> bool" where
  "flat Plain \<longleftrightarrow> True"
| "flat (StructOf ts) \<longleftrightarrow> list_all (\<lambda>(f, t). flat t) ts"
| "flat _ \<longleftrightarrow> False"

lemma typed_struct_field:
  assumes "typed (StructOf ts) (Struct fs)" and "(f, x) \<in> set fs"
  obtains t where "(f, t) \<in> set ts" and "typed t x"
proof -
  have all: "list_all2 (\<lambda>(f, t) (g, x). f = g \<and> typed t x) ts fs" using assms(1) by simp
  obtain i where i: "i < length fs" "fs ! i = (f, x)" using assms(2) by (auto simp: in_set_conv_nth)
  then have "i < length ts" "(\<lambda>(f, t) (g, x). f = g \<and> typed t x) (ts ! i) (f, x)"
    using list_all2_lengthD [OF all] list_all2_nthD2 [OF all, of i] by simp_all
  then have "(f, snd (ts ! i)) \<in> set ts" "typed (snd (ts ! i)) x"
    by (auto simp: split_def in_set_conv_nth intro!: exI [of _ i])
  then show thesis by (rule that)
qed

lemma flat_addresses: "flat t \<Longrightarrow> typed t v \<Longrightarrow> addresses v = {}"
proof (induction t arbitrary: v)
  case (StructOf ts)
  then obtain fs where v: "v = Struct fs" by (auto split: govalue.splits)
  have "addresses x = {}" if mem: "(f, x) \<in> set fs" for f x
  proof -
    obtain t where "(f, t) \<in> set ts" "typed t x"
      using typed_struct_field [OF StructOf.prems(2) [unfolded v] mem] by blast
    then show ?thesis using StructOf.IH [of "(f, t)" t x] StructOf.prems(1) by (auto simp: list_all_iff)
  qed
  then show ?case by (auto simp: v)
qed (auto split: govalue.splits)

lemma assign_elsewhere: "b \<notin> addresses v \<Longrightarrow> assign b x v = v"
proof (induction v)
  case (Struct fs)
  then show ?case by (force intro!: map_idI)
next
  case (Slice a vs)
  then show ?case by (force intro!: map_idI split: govalue.split)
next
  case (Map a kvs)
  then show ?case by (force intro!: map_idI split: govalue.split)
qed auto

section \<open>The statements of the generated functions\<close>

type_synonym copier = "nat \<Rightarrow> govalue \<Rightarrow> govalue \<times> nat"

text \<open>\<open>out.F = in.F\<close>, an assignment, which shares what it refers to.\<close>

definition plain_copy :: copier where
  "plain_copy n v = (v, n)"

text \<open>\<open>if in.F != nil \{ *out = new(T); ... \}\<close>\<close>

definition new_copy :: "copier \<Rightarrow> copier" where
  "new_copy c n v = (case v of Ref a x \<Rightarrow> (let (x', n') = c (Suc n) x in (Ref n x', n')) | _ \<Rightarrow> (v, n))"

primrec copy_all :: "copier \<Rightarrow> nat \<Rightarrow> govalue list \<Rightarrow> govalue list \<times> nat" where
  "copy_all c n [] = ([], n)"
| "copy_all c n (x # xs) = (let (x', n') = c n x; (xs', n'') = copy_all c n' xs in (x' # xs', n''))"

text \<open>\<open>if in.F != nil \{ *out = make([]T, len(*in)); ... \}\<close>, with \<open>copy\<close> or a loop.\<close>

definition slice_copy :: "copier \<Rightarrow> copier" where
  "slice_copy c n v = (case v of Slice a xs \<Rightarrow> (let (xs', n') = copy_all c (Suc n) xs in (Slice n xs', n')) | _ \<Rightarrow> (v, n))"

text \<open>\<open>if in.F != nil \{ *out = make(map[string]T, len(*in)); for key, val := range *in ... \}\<close>\<close>

definition map_copy :: "copier \<Rightarrow> copier" where
  "map_copy c n v = (case v of
      Map a kvs \<Rightarrow> (let (xs', n') = copy_all c (Suc n) (map snd kvs) in (Map n (zip (map fst kvs) xs'), n'))
    | _ \<Rightarrow> (v, n))"

definition get_field :: "govalue \<Rightarrow> string \<Rightarrow> govalue" where
  "get_field v f = (case v of Struct fs \<Rightarrow> (case map_of fs f of Some x \<Rightarrow> x | None \<Rightarrow> NilValue) | _ \<Rightarrow> NilValue)"

definition set_field :: "govalue \<Rightarrow> string \<Rightarrow> govalue \<Rightarrow> govalue" where
  "set_field v f x = (case v of Struct fs \<Rightarrow> Struct (map (\<lambda>(g, y). (g, if g = f then x else y)) fs) | _ \<Rightarrow> v)"

text \<open>The statements of a body, in their order: each reads a field of \<open>in\<close> and sets that of \<open>out\<close>.\<close>

primrec copy_fields :: "(string \<times> copier) list \<Rightarrow> nat \<Rightarrow> govalue \<Rightarrow> govalue \<Rightarrow> govalue \<times> nat" where
  "copy_fields [] n i out = (out, n)"
| "copy_fields (s # ss) n i out =
     (let (x, n') = snd s n (get_field i (fst s)) in copy_fields ss n' i (set_field out (fst s) x))"

text \<open>\<open>*out = *in\<close>, then the statements.\<close>

definition struct_copy :: "(string \<times> copier) list \<Rightarrow> copier" where
  "struct_copy ss n i = copy_fields ss n i i"

text \<open>\<open>DeepCopy\<close> of nil is nil, otherwise a new variable; \<open>DeepCopyObject\<close> hands it on.\<close>

definition DeepCopy_of :: "copier \<Rightarrow> copier" where
  "DeepCopy_of into n i = (if i = NilValue then (NilValue, n) else new_copy into n i)"

definition DeepCopyObject_of :: "copier \<Rightarrow> copier" where
  "DeepCopyObject_of copy n i = (let (c, n') = copy n i in if c \<noteq> NilValue then (c, n') else (NilValue, n'))"

section \<open>Deep copiers\<close>

text \<open>
  A copier is deep on a type when the copy of a value of the type has the same content and
  type and refers only to new addresses.
\<close>

definition deep :: "gotype \<Rightarrow> copier \<Rightarrow> bool" where
  "deep t c \<longleftrightarrow> (\<forall>n v. typed t v \<and> (\<forall>a \<in> addresses v. a < n) \<longrightarrow>
     (let (v', n') = c n v in content v' = content v \<and> typed t v' \<and> n \<le> n' \<and> (\<forall>a \<in> addresses v'. n \<le> a \<and> a < n')))"

lemma deepI:
  assumes "\<And>n v v' n'. typed t v \<Longrightarrow> \<forall>a \<in> addresses v. a < n \<Longrightarrow> c n v = (v', n') \<Longrightarrow>
     content v' = content v \<and> typed t v' \<and> n \<le> n' \<and> (\<forall>a \<in> addresses v'. n \<le> a \<and> a < n')"
  shows "deep t c"
  unfolding deep_def
proof (intro allI impI, elim conjE)
  fix n v
  assume "typed t v" "\<forall>a \<in> addresses v. a < n"
  then show "let (v', n') = c n v in content v' = content v \<and> typed t v' \<and> n \<le> n' \<and>
      (\<forall>a \<in> addresses v'. n \<le> a \<and> a < n')"
    using assms [of v n "fst (c n v)" "snd (c n v)"] by (simp add: split_def Let_def)
qed

lemma deepD:
  assumes "deep t c" and "typed t v" and "\<forall>a \<in> addresses v. a < n" and "c n v = (v', n')"
  shows "content v' = content v" and "typed t v'" and "n \<le> n'" and "(\<forall>a \<in> addresses v'. n \<le> a \<and> a < n')"
  using assms(1) [unfolded deep_def, rule_format, of v n] assms(2-4) by simp_all

lemma deep_plain [intro]: "flat t \<Longrightarrow> deep t plain_copy"
  by (rule deepI) (simp add: plain_copy_def flat_addresses)

lemma deep_new:
  assumes "deep t c"
  shows "deep (PtrTo t) (new_copy c)"
proof (rule deepI)
  fix n v v' n'
  assume v: "typed (PtrTo t) v" "\<forall>a \<in> addresses v. a < n" and run: "new_copy c n v = (v', n')"
  show "content v' = content v \<and> typed (PtrTo t) v' \<and> n \<le> n' \<and> (\<forall>a \<in> addresses v'. n \<le> a \<and> a < n')"
  proof (cases v)
    case (Ref a x)
    obtain x' m where c: "c (Suc n) x = (x', m)" by (cases "c (Suc n) x")
    have "typed t x" "\<forall>a \<in> addresses x. a < Suc n" using v Ref by (auto simp: less_Suc_eq)
    from deepD [OF assms this c] show ?thesis
      using run Ref c by (auto simp: new_copy_def dest: Suc_leD)
  qed (use v run in \<open>auto simp: new_copy_def\<close>)
qed

lemma copy_all_deep:
  assumes "deep t c" and "list_all (typed t) xs" and "\<forall>x \<in> set xs. \<forall>a \<in> addresses x. a < n"
    and "copy_all c n xs = (xs', n')"
  shows "map content xs' = map content xs \<and> list_all (typed t) xs' \<and> n \<le> n' \<and>
    (\<forall>x \<in> set xs'. (\<forall>a \<in> addresses x. n \<le> a \<and> a < n'))"
  using assms(2-4)
proof (induction xs arbitrary: n xs')
  case (Cons x xs)
  obtain x' m where x: "c n x = (x', m)" by (cases "c n x")
  obtain ys where ys: "copy_all c m xs = (ys, n')" "xs' = x' # ys"
    using Cons.prems(3) x by (auto split: prod.splits)
  note d = deepD [OF assms(1) _ _ x]
  have d1: "content x' = content x" "typed t x'" "n \<le> m" "(\<forall>a \<in> addresses x'. n \<le> a \<and> a < m)"
    using d Cons.prems(1,2) by simp_all
  have "\<forall>y \<in> set xs. \<forall>a \<in> addresses y. a < m" using Cons.prems(2) d1(3) by fastforce
  from Cons.IH [OF _ this ys(1)] show ?case
    using Cons.prems(1) d1 ys(2) by fastforce
qed simp

lemma deep_slice:
  assumes "deep t c"
  shows "deep (SliceOf t) (slice_copy c)"
proof (rule deepI)
  fix n v v' n'
  assume v: "typed (SliceOf t) v" "\<forall>a \<in> addresses v. a < n" and run: "slice_copy c n v = (v', n')"
  show "content v' = content v \<and> typed (SliceOf t) v' \<and> n \<le> n' \<and> (\<forall>a \<in> addresses v'. n \<le> a \<and> a < n')"
  proof (cases v)
    case (Slice a xs)
    obtain xs' m where c: "copy_all c (Suc n) xs = (xs', m)" by (cases "copy_all c (Suc n) xs")
    have "list_all (typed t) xs" "\<forall>x \<in> set xs. \<forall>a \<in> addresses x. a < Suc n" using v Slice by (auto simp: less_Suc_eq)
    from copy_all_deep [OF assms this c] show ?thesis
      using run Slice c by (fastforce simp: slice_copy_def)
  qed (use v run in \<open>auto simp: slice_copy_def\<close>)
qed

lemma copy_all_length: "copy_all c n xs = (xs', n') \<Longrightarrow> length xs' = length xs"
  by (induction xs arbitrary: n xs') (auto split: prod.splits)

lemma deep_map:
  assumes "deep t c"
  shows "deep (MapTo t) (map_copy c)"
proof (rule deepI)
  fix n v v' n'
  assume v: "typed (MapTo t) v" "\<forall>a \<in> addresses v. a < n" and run: "map_copy c n v = (v', n')"
  show "content v' = content v \<and> typed (MapTo t) v' \<and> n \<le> n' \<and> (\<forall>a \<in> addresses v'. n \<le> a \<and> a < n')"
  proof (cases v)
    case (Map a kvs)
    obtain xs' m where c: "copy_all c (Suc n) (map snd kvs) = (xs', m)" by (cases "copy_all c (Suc n) (map snd kvs)")
    have wt: "list_all (typed t) (map snd kvs)" "\<forall>x \<in> set (map snd kvs). \<forall>a \<in> addresses x. a < Suc n"
      using v Map by (auto simp: list_all_iff less_Suc_eq)
    from copy_all_deep [OF assms wt c] have
      d: "map content xs' = map content (map snd kvs)" "list_all (typed t) xs'" "Suc n \<le> m" "\<forall>x \<in> set xs'. (\<forall>a \<in> addresses x. Suc n \<le> a \<and> a < m)"
      by simp_all
    have len: "length xs' = length kvs" using copy_all_length [OF c] by simp
    have "map (map_prod id content) (zip (map fst kvs) xs') = zip (map fst kvs) (map content xs')"
      by (simp add: zip_map2 map_prod_def split_def)
    also have "\<dots> = map (map_prod id content) kvs"
      unfolding d(1) by (induction kvs) auto
    finally have "content (Map n (zip (map fst kvs) xs')) = content v" by (simp add: Map)
    moreover have "list_all (\<lambda>(k, x). typed t x) (zip (map fst kvs) xs')"
      using d(2) by (auto simp: list_all_iff dest: set_zip_rightD)
    moreover have "\<forall>a \<in> addresses (Map n (zip (map fst kvs) xs')). n \<le> a \<and> a < m"
      using d(3,4) by (force dest: set_zip_rightD)
    ultimately show ?thesis using run Map c d(3) by (auto simp: map_copy_def)
  qed (use v run in \<open>auto simp: map_copy_def\<close>)
qed

text \<open>What the statements do to the fields of \<open>out\<close>, in any order.\<close>

definition good_copy :: "gotype \<Rightarrow> nat \<Rightarrow> nat \<Rightarrow> govalue \<Rightarrow> govalue \<Rightarrow> bool" where
  "good_copy t n n' v v' \<longleftrightarrow> content v' = content v \<and> typed t v' \<and> (\<forall>a \<in> addresses v'. n \<le> a \<and> a < n')"

lemma good_copy_mono: "good_copy t n n' v v' \<Longrightarrow> m \<le> n \<Longrightarrow> n' \<le> m' \<Longrightarrow> good_copy t m m' v v'"
  by (fastforce simp: good_copy_def)

definition step_ok :: "(string \<times> gotype) list \<Rightarrow> govalue \<Rightarrow> string \<times> copier \<Rightarrow> bool" where
  "step_ok ts i s \<longleftrightarrow> (\<exists>t. map_of ts (fst s) = Some t \<and> deep t (snd s) \<and> typed t (get_field i (fst s)) )"

lemma get_field_addresses: "addresses (get_field i f) \<subseteq> addresses i"
  by (cases i) (auto simp: get_field_def dest: map_of_SomeD split: option.splits)

lemma copy_fields_run:
  assumes "list_all (step_ok ts i) ss" and "\<forall>a \<in> addresses i. a < n" and "distinct (map fst ss)"
    and "copy_fields ss n i (Struct fs) = (out, n')"
  shows "n \<le> n' \<and> (\<exists>gs. out = Struct gs \<and> list_all2 (\<lambda>(f, x) (g, y). f = g \<and>
    (if f \<in> fst ` set ss then \<exists>t. map_of ts f = Some t \<and> good_copy t n n' (get_field i f) y else y = x)) fs gs)"
  using assms
proof (induction ss arbitrary: n fs)
  case Nil
  then show ?case by (auto simp: list_all2_same split: prod.splits)
next
  case (Cons s ss)
  obtain x m where x: "snd s n (get_field i (fst s)) = (x, m)" by (cases "snd s n (get_field i (fst s))")
  obtain t where t: "map_of ts (fst s) = Some t" "deep t (snd s)" "typed t (get_field i (fst s))"
    using Cons.prems(1) by (auto simp: step_ok_def)
  have "\<forall>a \<in> addresses (get_field i (fst s)). a < n" using Cons.prems(2) get_field_addresses by blast
  from deepD [OF t(2,3) this x] have good: "good_copy t n m (get_field i (fst s)) x" and nm: "n \<le> m"
    by (simp_all add: good_copy_def)
  let ?fs = "map (\<lambda>(g, y). (g, if g = fst s then x else y)) fs"
  have "copy_fields ss m i (Struct ?fs) = (out, n')"
    using Cons.prems(4) x by (simp add: set_field_def)
  moreover have "\<forall>a \<in> addresses i. a < m" using Cons.prems(2) nm by auto
  ultimately obtain gs where mn: "m \<le> n'" and out: "out = Struct gs" and
    all: "list_all2 (\<lambda>(f, x) (g, y). f = g \<and> (if f \<in> fst ` set ss
      then \<exists>t. map_of ts f = Some t \<and> good_copy t m n' (get_field i f) y else y = x)) ?fs gs"
    using Cons.IH [of m ?fs] Cons.prems(1,3) by auto
  have "list_all2 (\<lambda>(f, x) (g, y). f = g \<and> (if f \<in> fst ` set (s # ss)
      then \<exists>t. map_of ts f = Some t \<and> good_copy t n n' (get_field i f) y else y = x)) fs gs"
    using all unfolding list_all2_map1
  proof (rule list_all2_mono)
    fix p q :: "string \<times> govalue"
    obtain f v g y where p: "p = (f, v)" "q = (g, y)" by (cases p; cases q)
    assume rel: "(case (case p of (g, y) \<Rightarrow> (g, if g = fst s then x else y)) of (f, x) \<Rightarrow> \<lambda>(g, y). f = g \<and>
      (if f \<in> fst ` set ss then \<exists>t. map_of ts f = Some t \<and> good_copy t m n' (get_field i f) y else y = x)) q"
    show "(case p of (f, x) \<Rightarrow> \<lambda>(g, y). f = g \<and> (if f \<in> fst ` set (s # ss)
      then \<exists>t. map_of ts f = Some t \<and> good_copy t n n' (get_field i f) y else y = x)) q"
      using rel t(1) good_copy_mono [OF good order_refl mn] nm Cons.prems(3)
      by (auto simp: p image_iff intro: good_copy_mono split: if_splits)
  qed
  then show ?case using nm mn out by auto
qed


text \<open>
  A body is deep when it copies every field that can hold a reference, with a copier that is
  deep on the field's type; the others come with \<open>*out = *in\<close>.
\<close>

definition covers :: "(string \<times> gotype) list \<Rightarrow> (string \<times> copier) list \<Rightarrow> bool" where
  "covers ts ss \<longleftrightarrow> distinct (map fst ts) \<and> distinct (map fst ss) \<and>
     list_all (\<lambda>s. map_of ts (fst s) \<noteq> None) ss \<and>
     list_all (\<lambda>p. case map_of ss (fst p) of Some c \<Rightarrow> deep (snd p) c | None \<Rightarrow> flat (snd p)) ts"

lemma deep_struct:
  assumes cov: "covers ts ss"
  shows "deep (StructOf ts) (struct_copy ss)"
proof (rule deepI)
  fix n v v' n'
  assume v: "typed (StructOf ts) v" "\<forall>a \<in> addresses v. a < n" and run: "struct_copy ss n v = (v', n')"
  obtain fs where fs: "v = Struct fs" using v(1) by (auto split: govalue.splits)
  have wt: "list_all2 (\<lambda>(f, t) (g, x). f = g \<and> typed t x) ts fs" using v(1) fs by simp
  have names: "map fst fs = map fst ts"
    using list_all2_lengthD [OF wt] list_all2_nthD [OF wt] by (auto simp: list_eq_iff_nth_eq split_def)
  have at: "get_field v (fst (fs ! j)) = snd (fs ! j)" "map_of ts (fst (fs ! j)) = Some (snd (ts ! j))"
    "typed (snd (ts ! j)) (snd (fs ! j))" if j: "j < length fs" for j
  proof -
    have l: "length ts = length fs" using list_all2_lengthD [OF wt] .
    have e: "fst (fs ! j) = fst (ts ! j)" "typed (snd (ts ! j)) (snd (fs ! j))"
      using list_all2_nthD [OF wt, of j] j l by (auto simp: split_def)
    then show "typed (snd (ts ! j)) (snd (fs ! j))" by simp
    have "distinct (map fst ts)" using cov by (simp add: covers_def)
    then show "map_of ts (fst (fs ! j)) = Some (snd (ts ! j))"
      unfolding e(1) using j l by (intro map_of_is_SomeI) (auto simp: in_set_conv_nth intro!: exI [of _ j])
    have "distinct (map fst fs)" using cov by (simp add: covers_def names)
    then have "map_of fs (fst (fs ! j)) = Some (snd (fs ! j))"
      using j by (intro map_of_is_SomeI) (auto simp: in_set_conv_nth intro!: exI [of _ j])
    then show "get_field v (fst (fs ! j)) = snd (fs ! j)" by (simp add: get_field_def fs)
  qed
  have steps: "list_all (step_ok ts v) ss"
    unfolding list_all_iff
  proof
    fix s assume s: "s \<in> set ss"
    obtain t where t: "map_of ts (fst s) = Some t" using cov s by (auto simp: covers_def list_all_iff)
    then have "(fst s, t) \<in> set ts" by (rule map_of_SomeD)
    moreover have "map_of ss (fst s) = Some (snd s)" using cov s by (intro map_of_is_SomeI) (auto simp: covers_def)
    moreover have "\<forall>p \<in> set ts. case map_of ss (fst p) of Some c \<Rightarrow> deep (snd p) c | None \<Rightarrow> flat (snd p)"
      using cov by (simp add: covers_def list_all_iff)
    ultimately have "deep t (snd s)" by fastforce
    moreover have "fst s \<in> set (map fst fs)" using \<open>(fst s, t) \<in> set ts\<close> by (force simp: names)
    then obtain j where "j < length fs" "fst (fs ! j) = fst s" by (auto simp: in_set_conv_nth)
    then have "typed t (get_field v (fst s))" using at [of j] t by simp
    ultimately show "step_ok ts v s" using t by (auto simp: step_ok_def)
  qed
  have "distinct (map fst ss)" using cov by (simp add: covers_def)
  from copy_fields_run [OF steps v(2) this] run obtain gs where n: "n \<le> n'" and v': "v' = Struct gs" and
    all: "list_all2 (\<lambda>(f, x) (g, y). f = g \<and> (if f \<in> fst ` set ss
      then \<exists>t. map_of ts f = Some t \<and> good_copy t n n' (get_field v f) y else y = x)) fs gs"
    unfolding struct_copy_def fs by blast
  have len: "length gs = length fs" using list_all2_lengthD [OF all] by simp
  have each: "fst (gs ! j) = fst (fs ! j) \<and> good_copy (snd (ts ! j)) n n' (snd (fs ! j)) (snd (gs ! j))"
    if j: "j < length fs" for j
  proof (cases "fst (fs ! j) \<in> fst ` set ss")
    case True
    then show ?thesis using list_all2_nthD [OF all j] at [OF j] by (auto simp: split_def)
  next
    case False
    then have same: "gs ! j = fs ! j" using list_all2_nthD [OF all j] by (auto simp: split_def prod_eq_iff)
    have "map_of ss (fst (fs ! j)) = None" using False by (simp add: map_of_eq_None_iff)
    moreover have "(fst (fs ! j), snd (ts ! j)) \<in> set ts" by (rule map_of_SomeD [OF at(2) [OF j]])
    ultimately have "flat (snd (ts ! j))" using cov by (force simp: covers_def list_all_iff)
    then show ?thesis using flat_addresses at(3) [OF j] by (simp add: same good_copy_def)
  qed
  have "map (map_prod id content) gs = map (map_prod id content) fs"
    using each by (intro nth_equalityI) (simp_all add: len good_copy_def map_prod_def split_def)
  moreover have "list_all2 (\<lambda>(f, t) (g, x). f = g \<and> typed t x) ts gs"
    using each list_all2_nthD [OF wt] list_all2_lengthD [OF wt]
    by (auto simp: list_all2_conv_all_nth len good_copy_def split_def)
  moreover have "\<forall>a \<in> addresses (Struct gs). n \<le> a \<and> a < n'"
  proof
    fix a assume "a \<in> addresses (Struct gs)"
    then obtain f x where "(f, x) \<in> set gs" "a \<in> addresses x" by auto
    then obtain j where "j < length fs" "gs ! j = (f, x)" by (auto simp: in_set_conv_nth len)
    then show "n \<le> a \<and> a < n'" using each [of j] \<open>a \<in> addresses x\<close> by (simp add: good_copy_def)
  qed
  ultimately show "content v' = content v \<and> typed (StructOf ts) v' \<and> n \<le> n' \<and> (\<forall>a \<in> addresses v'. n \<le> a \<and> a < n')"
    using n by (simp add: v' fs)
qed

lemma deep_DeepCopy: "deep t c \<Longrightarrow> deep (PtrTo t) (DeepCopy_of c)"
  using deep_new [of t c] by (auto simp: deep_def DeepCopy_of_def split: if_splits)

lemma DeepCopyObject_same: "DeepCopyObject_of c = c"
  by (auto simp: DeepCopyObject_of_def fun_eq_iff split: prod.split)

lemma deep_DeepCopyObject: "deep t c \<Longrightarrow> deep t (DeepCopyObject_of c)"
  by (simp add: DeepCopyObject_same)


section \<open>What a deep copy is good for\<close>

text \<open>
  A copier isolates when the copy has the content of the original, and assigning through
  either, to any variable it refers to, leaves the other as it is.
\<close>

definition isolates :: "gotype \<Rightarrow> copier \<Rightarrow> bool" where
  "isolates t c \<longleftrightarrow> (\<forall>n v v' n' a x. typed t v \<and> (\<forall>a \<in> addresses v. a < n) \<and> c n v = (v', n') \<longrightarrow>
     content v' = content v \<and> (a \<in> addresses v' \<longrightarrow> assign a x v = v) \<and> (a \<in> addresses v \<longrightarrow> assign a x v' = v'))"

lemma deep_isolates: "deep t c \<Longrightarrow> isolates t c"
  unfolding isolates_def
proof (intro allI impI, elim conjE)
  fix n v v' n' a x
  assume c: "deep t c" "typed t v" "\<forall>a \<in> addresses v. a < n" "c n v = (v', n')"
  note d = deepD [OF c]
  have "a \<notin> addresses v" if "a \<in> addresses v'" using d(4) c(3) that by fastforce
  then have "a \<notin> addresses v'" if "a \<in> addresses v" using that by blast
  with \<open>a \<in> addresses v' \<Longrightarrow> a \<notin> addresses v\<close>
  show "content v' = content v \<and> (a \<in> addresses v' \<longrightarrow> assign a x v = v) \<and> (a \<in> addresses v \<longrightarrow> assign a x v' = v')"
    using d(1) by (auto simp: assign_elsewhere)
qed

text \<open>A copier for the witnesses: it moves a value to new addresses.\<close>

fun move :: "nat \<Rightarrow> govalue \<Rightarrow> govalue" where
  "move k (Atom s) = Atom s"
| "move k (Struct fs) = Struct (map (map_prod id (move k)) fs)"
| "move k NilValue = NilValue"
| "move k (Ref a v) = Ref (k + a) (move k v)"
| "move k (Slice a vs) = Slice (k + a) (map (move k) vs)"
| "move k (Map a kvs) = Map (k + a) (map (map_prod id (move k)) kvs)"

lemma content_move: "content (move k v) = content v"
  by (induction v) (auto simp: map_prod_def)

lemma addresses_move: "addresses (move k v) = (+) k ` addresses v"
proof (induction v)
  case (Struct fs)
  then show ?case by (force simp: image_UN)
next
  case (Slice a vs)
  then show ?case by (force simp: image_UN)
next
  case (Map a kvs)
  then show ?case by (force simp: image_UN)
qed auto

definition moved :: copier where
  "moved n v = (move n v, n + n)"

lemma deep_moved: "deep (Foreign f) moved"
  by (auto simp: deep_def moved_def content_move addresses_move)


section \<open>Copying what other packages define\<close>

text \<open>The copy functions of the types of other packages, by the name of the type, are deep.\<close>

definition foreign_deep :: "(string \<Rightarrow> copier) \<Rightarrow> bool" where
  "foreign_deep lib \<longleftrightarrow> (\<forall>f. deep (Foreign f) (lib f))"

lemma foreign_deepD [simp]: "foreign_deep lib \<Longrightarrow> deep (Foreign f) (lib f)"
  by (simp add: foreign_deep_def)

lemmas deep_statements [simp] = deep_plain deep_new deep_slice deep_map deep_DeepCopy

lemma foreign_deep_moved: "foreign_deep (\<lambda>f. moved)"
  by (simp add: foreign_deep_def deep_moved)

end
