(* ===== verification/DeepCopyCore.thy ===== *)
theory DeepCopyCore
  imports DeepCopy
begin

text \<open>
  The generated copy functions (\<open>api/v1alpha1/zz_generated.deepcopy.go\<close>) of the types of \<open>api/v1alpha1/utils\<close>, policies, groups, random secrets, Vault secrets and what the others share:
  of each type its fields, the statements of its \<open>DeepCopyInto\<close> in their order, \<open>DeepCopy\<close> and,
  for the resources and their lists, \<open>DeepCopyObject\<close>. \<open>lib\<close> gives the copy functions of the types
  of other packages by name.
\<close>

definition KubeAuthConfiguration_gotype :: gotype where
  "KubeAuthConfiguration_gotype = StructOf [
     (''ServiceAccount'', PtrTo Plain), (''Path'', Plain), (''Role'', Plain), (''Namespace'', Plain)]"

definition KubeAuthConfiguration_DeepCopyInto :: "copier" where
  "KubeAuthConfiguration_DeepCopyInto = struct_copy [
     (''ServiceAccount'', new_copy plain_copy)]"

definition KubeAuthConfiguration_DeepCopy :: "copier" where
  "KubeAuthConfiguration_DeepCopy = DeepCopy_of KubeAuthConfiguration_DeepCopyInto"

lemma deep_KubeAuthConfiguration [simp]: "deep KubeAuthConfiguration_gotype KubeAuthConfiguration_DeepCopyInto"
  unfolding KubeAuthConfiguration_gotype_def KubeAuthConfiguration_DeepCopyInto_def by (rule deep_struct) (simp add: covers_def)

definition TLSConfig_gotype :: gotype where
  "TLSConfig_gotype = StructOf [
     (''Cacert'', PtrTo Plain), (''TLSSecret'', PtrTo Plain), (''SkipVerify'', Plain),
     (''TLSServerName'', PtrTo Plain)]"

definition TLSConfig_DeepCopyInto :: "copier" where
  "TLSConfig_DeepCopyInto = struct_copy [
     (''Cacert'', new_copy plain_copy), (''TLSSecret'', new_copy plain_copy),
     (''TLSServerName'', new_copy plain_copy)]"

definition TLSConfig_DeepCopy :: "copier" where
  "TLSConfig_DeepCopy = DeepCopy_of TLSConfig_DeepCopyInto"

lemma deep_TLSConfig [simp]: "deep TLSConfig_gotype TLSConfig_DeepCopyInto"
  unfolding TLSConfig_gotype_def TLSConfig_DeepCopyInto_def by (rule deep_struct) (simp add: covers_def)

definition VaultConnection_gotype :: gotype where
  "VaultConnection_gotype = StructOf [
     (''TLSConfig'', PtrTo TLSConfig_gotype), (''Address'', Plain), (''TimeOut'', PtrTo Plain),
     (''MaxRetries'', PtrTo Plain)]"

definition VaultConnection_DeepCopyInto :: "copier" where
  "VaultConnection_DeepCopyInto = struct_copy [
     (''TLSConfig'', new_copy TLSConfig_DeepCopyInto), (''TimeOut'', new_copy plain_copy),
     (''MaxRetries'', new_copy plain_copy)]"

definition VaultConnection_DeepCopy :: "copier" where
  "VaultConnection_DeepCopy = DeepCopy_of VaultConnection_DeepCopyInto"

lemma deep_VaultConnection [simp]: "deep VaultConnection_gotype VaultConnection_DeepCopyInto"
  unfolding VaultConnection_gotype_def VaultConnection_DeepCopyInto_def by (rule deep_struct) (simp add: covers_def)

definition VaultSecretReference_gotype :: gotype where
  "VaultSecretReference_gotype = StructOf [
     (''Path'', Plain)]"

definition VaultSecretReference_DeepCopyInto :: "copier" where
  "VaultSecretReference_DeepCopyInto = struct_copy []"

definition VaultSecretReference_DeepCopy :: "copier" where
  "VaultSecretReference_DeepCopy = DeepCopy_of VaultSecretReference_DeepCopyInto"

lemma flat_VaultSecretReference [simp]: "flat VaultSecretReference_gotype"
  by (simp add: VaultSecretReference_gotype_def)

lemma deep_VaultSecretReference [simp]: "deep VaultSecretReference_gotype VaultSecretReference_DeepCopyInto"
  unfolding VaultSecretReference_gotype_def VaultSecretReference_DeepCopyInto_def by (rule deep_struct) (simp add: covers_def)

definition RootCredentialConfig_gotype :: gotype where
  "RootCredentialConfig_gotype = StructOf [
     (''VaultSecret'', PtrTo VaultSecretReference_gotype), (''Secret'', PtrTo Plain),
     (''RandomSecret'', PtrTo Plain), (''PasswordKey'', Plain), (''UsernameKey'', Plain)]"

definition RootCredentialConfig_DeepCopyInto :: "copier" where
  "RootCredentialConfig_DeepCopyInto = struct_copy [
     (''VaultSecret'', new_copy plain_copy), (''Secret'', new_copy plain_copy),
     (''RandomSecret'', new_copy plain_copy)]"

definition RootCredentialConfig_DeepCopy :: "copier" where
  "RootCredentialConfig_DeepCopy = DeepCopy_of RootCredentialConfig_DeepCopyInto"

lemma deep_RootCredentialConfig [simp]: "deep RootCredentialConfig_gotype RootCredentialConfig_DeepCopyInto"
  unfolding RootCredentialConfig_gotype_def RootCredentialConfig_DeepCopyInto_def by (rule deep_struct) (simp add: covers_def)

definition GroupConfig_gotype :: gotype where
  "GroupConfig_gotype = StructOf [
     (''Type'', Plain), (''Metadata'', MapTo Plain), (''Policies'', SliceOf Plain),
     (''MemberGroupIDs'', SliceOf Plain), (''MemberEntityIDs'', SliceOf Plain)]"

definition GroupConfig_DeepCopyInto :: "copier" where
  "GroupConfig_DeepCopyInto = struct_copy [
     (''Metadata'', map_copy plain_copy), (''Policies'', slice_copy plain_copy),
     (''MemberGroupIDs'', slice_copy plain_copy), (''MemberEntityIDs'', slice_copy plain_copy)]"

definition GroupConfig_DeepCopy :: "copier" where
  "GroupConfig_DeepCopy = DeepCopy_of GroupConfig_DeepCopyInto"

lemma deep_GroupConfig [simp]: "deep GroupConfig_gotype GroupConfig_DeepCopyInto"
  unfolding GroupConfig_gotype_def GroupConfig_DeepCopyInto_def by (rule deep_struct) (simp add: covers_def)

definition GroupSpec_gotype :: gotype where
  "GroupSpec_gotype = StructOf [
     (''Connection'', PtrTo VaultConnection_gotype), (''Authentication'', KubeAuthConfiguration_gotype),
     (''GroupConfig'', GroupConfig_gotype), (''Name'', Plain)]"

definition GroupSpec_DeepCopyInto :: "copier" where
  "GroupSpec_DeepCopyInto = struct_copy [
     (''Connection'', new_copy VaultConnection_DeepCopyInto),
     (''Authentication'', KubeAuthConfiguration_DeepCopyInto), (''GroupConfig'', GroupConfig_DeepCopyInto)]"

definition GroupSpec_DeepCopy :: "copier" where
  "GroupSpec_DeepCopy = DeepCopy_of GroupSpec_DeepCopyInto"

lemma deep_GroupSpec [simp]: "deep GroupSpec_gotype GroupSpec_DeepCopyInto"
  unfolding GroupSpec_gotype_def GroupSpec_DeepCopyInto_def by (rule deep_struct) (simp add: covers_def)

definition GroupStatus_gotype :: gotype where
  "GroupStatus_gotype = StructOf [
     (''Conditions'', SliceOf (Foreign ''Condition''))]"

definition GroupStatus_DeepCopyInto :: "(string \<Rightarrow> copier) \<Rightarrow> copier" where
  "GroupStatus_DeepCopyInto lib = struct_copy [
     (''Conditions'', slice_copy (lib ''Condition''))]"

definition GroupStatus_DeepCopy :: "(string \<Rightarrow> copier) \<Rightarrow> copier" where
  "GroupStatus_DeepCopy lib = DeepCopy_of (GroupStatus_DeepCopyInto lib)"

lemma deep_GroupStatus [simp]: "foreign_deep lib \<Longrightarrow> deep GroupStatus_gotype (GroupStatus_DeepCopyInto lib)"
  unfolding GroupStatus_gotype_def GroupStatus_DeepCopyInto_def by (rule deep_struct) (simp add: covers_def)

definition Group_gotype :: gotype where
  "Group_gotype = StructOf [
     (''TypeMeta'', Plain), (''ObjectMeta'', Foreign ''ObjectMeta''), (''Spec'', GroupSpec_gotype),
     (''Status'', GroupStatus_gotype)]"

definition Group_DeepCopyInto :: "(string \<Rightarrow> copier) \<Rightarrow> copier" where
  "Group_DeepCopyInto lib = struct_copy [
     (''TypeMeta'', plain_copy), (''ObjectMeta'', lib ''ObjectMeta''), (''Spec'', GroupSpec_DeepCopyInto),
     (''Status'', GroupStatus_DeepCopyInto lib)]"

definition Group_DeepCopy :: "(string \<Rightarrow> copier) \<Rightarrow> copier" where
  "Group_DeepCopy lib = DeepCopy_of (Group_DeepCopyInto lib)"

definition Group_DeepCopyObject :: "(string \<Rightarrow> copier) \<Rightarrow> copier" where
  "Group_DeepCopyObject lib = DeepCopyObject_of (Group_DeepCopy lib)"

lemma deep_Group [simp]: "foreign_deep lib \<Longrightarrow> deep Group_gotype (Group_DeepCopyInto lib)"
  unfolding Group_gotype_def Group_DeepCopyInto_def by (rule deep_struct) (simp add: covers_def)

lemma isolates_Group: "foreign_deep lib \<Longrightarrow> isolates (PtrTo Group_gotype) (Group_DeepCopyObject lib)"
  by (simp add: Group_DeepCopyObject_def Group_DeepCopy_def deep_isolates deep_DeepCopyObject deep_DeepCopy)

definition GroupAliasConfig_gotype :: gotype where
  "GroupAliasConfig_gotype = StructOf [
     (''AuthEngineMountPath'', Plain), (''GroupName'', Plain)]"

definition GroupAliasConfig_DeepCopyInto :: "copier" where
  "GroupAliasConfig_DeepCopyInto = struct_copy []"

definition GroupAliasConfig_DeepCopy :: "copier" where
  "GroupAliasConfig_DeepCopy = DeepCopy_of GroupAliasConfig_DeepCopyInto"

lemma flat_GroupAliasConfig [simp]: "flat GroupAliasConfig_gotype"
  by (simp add: GroupAliasConfig_gotype_def)

lemma deep_GroupAliasConfig [simp]: "deep GroupAliasConfig_gotype GroupAliasConfig_DeepCopyInto"
  unfolding GroupAliasConfig_gotype_def GroupAliasConfig_DeepCopyInto_def by (rule deep_struct) (simp add: covers_def)

definition GroupAliasSpec_gotype :: gotype where
  "GroupAliasSpec_gotype = StructOf [
     (''Connection'', PtrTo VaultConnection_gotype), (''Authentication'', KubeAuthConfiguration_gotype),
     (''GroupAliasConfig'', GroupAliasConfig_gotype), (''retrievedMountAccessor'', Plain),
     (''retrievedCanonicalID'', Plain), (''retrievedAliasID'', Plain), (''retrievedName'', Plain),
     (''Name'', Plain)]"

definition GroupAliasSpec_DeepCopyInto :: "copier" where
  "GroupAliasSpec_DeepCopyInto = struct_copy [
     (''Connection'', new_copy VaultConnection_DeepCopyInto),
     (''Authentication'', KubeAuthConfiguration_DeepCopyInto), (''GroupAliasConfig'', plain_copy)]"

definition GroupAliasSpec_DeepCopy :: "copier" where
  "GroupAliasSpec_DeepCopy = DeepCopy_of GroupAliasSpec_DeepCopyInto"

lemma deep_GroupAliasSpec [simp]: "deep GroupAliasSpec_gotype GroupAliasSpec_DeepCopyInto"
  unfolding GroupAliasSpec_gotype_def GroupAliasSpec_DeepCopyInto_def by (rule deep_struct) (simp add: covers_def)

definition GroupAliasStatus_gotype :: gotype where
  "GroupAliasStatus_gotype = StructOf [
     (''ID'', Plain), (''Conditions'', SliceOf (Foreign ''Condition''))]"

definition GroupAliasStatus_DeepCopyInto :: "(string \<Rightarrow> copier) \<Rightarrow> copier" where
  "GroupAliasStatus_DeepCopyInto lib = struct_copy [
     (''Conditions'', slice_copy (lib ''Condition''))]"

definition GroupAliasStatus_DeepCopy :: "(string \<Rightarrow> copier) \<Rightarrow> copier" where
  "GroupAliasStatus_DeepCopy lib = DeepCopy_of (GroupAliasStatus_DeepCopyInto lib)"

lemma deep_GroupAliasStatus [simp]: "foreign_deep lib \<Longrightarrow> deep GroupAliasStatus_gotype (GroupAliasStatus_DeepCopyInto lib)"
  unfolding GroupAliasStatus_gotype_def GroupAliasStatus_DeepCopyInto_def by (rule deep_struct) (simp add: covers_def)

definition GroupAlias_gotype :: gotype where
  "GroupAlias_gotype = StructOf [
     (''TypeMeta'', Plain), (''ObjectMeta'', Foreign ''ObjectMeta''), (''Spec'', GroupAliasSpec_gotype),
     (''Status'', GroupAliasStatus_gotype)]"

definition GroupAlias_DeepCopyInto :: "(string \<Rightarrow> copier) \<Rightarrow> copier" where
  "GroupAlias_DeepCopyInto lib = struct_copy [
     (''TypeMeta'', plain_copy), (''ObjectMeta'', lib ''ObjectMeta''), (''Spec'', GroupAliasSpec_DeepCopyInto),
     (''Status'', GroupAliasStatus_DeepCopyInto lib)]"

definition GroupAlias_DeepCopy :: "(string \<Rightarrow> copier) \<Rightarrow> copier" where
  "GroupAlias_DeepCopy lib = DeepCopy_of (GroupAlias_DeepCopyInto lib)"

definition GroupAlias_DeepCopyObject :: "(string \<Rightarrow> copier) \<Rightarrow> copier" where
  "GroupAlias_DeepCopyObject lib = DeepCopyObject_of (GroupAlias_DeepCopy lib)"

lemma deep_GroupAlias [simp]: "foreign_deep lib \<Longrightarrow> deep GroupAlias_gotype (GroupAlias_DeepCopyInto lib)"
  unfolding GroupAlias_gotype_def GroupAlias_DeepCopyInto_def by (rule deep_struct) (simp add: covers_def)

lemma isolates_GroupAlias: "foreign_deep lib \<Longrightarrow> isolates (PtrTo GroupAlias_gotype) (GroupAlias_DeepCopyObject lib)"
  by (simp add: GroupAlias_DeepCopyObject_def GroupAlias_DeepCopy_def deep_isolates deep_DeepCopyObject deep_DeepCopy)

definition GroupAliasList_gotype :: gotype where
  "GroupAliasList_gotype = StructOf [
     (''TypeMeta'', Plain), (''ListMeta'', Foreign ''ListMeta''), (''Items'', SliceOf GroupAlias_gotype)]"

definition GroupAliasList_DeepCopyInto :: "(string \<Rightarrow> copier) \<Rightarrow> copier" where
  "GroupAliasList_DeepCopyInto lib = struct_copy [
     (''TypeMeta'', plain_copy), (''ListMeta'', lib ''ListMeta''),
     (''Items'', slice_copy (GroupAlias_DeepCopyInto lib))]"

definition GroupAliasList_DeepCopy :: "(string \<Rightarrow> copier) \<Rightarrow> copier" where
  "GroupAliasList_DeepCopy lib = DeepCopy_of (GroupAliasList_DeepCopyInto lib)"

definition GroupAliasList_DeepCopyObject :: "(string \<Rightarrow> copier) \<Rightarrow> copier" where
  "GroupAliasList_DeepCopyObject lib = DeepCopyObject_of (GroupAliasList_DeepCopy lib)"

lemma deep_GroupAliasList [simp]: "foreign_deep lib \<Longrightarrow> deep GroupAliasList_gotype (GroupAliasList_DeepCopyInto lib)"
  unfolding GroupAliasList_gotype_def GroupAliasList_DeepCopyInto_def by (rule deep_struct) (simp add: covers_def)

lemma isolates_GroupAliasList: "foreign_deep lib \<Longrightarrow> isolates (PtrTo GroupAliasList_gotype) (GroupAliasList_DeepCopyObject lib)"
  by (simp add: GroupAliasList_DeepCopyObject_def GroupAliasList_DeepCopy_def deep_isolates deep_DeepCopyObject deep_DeepCopy)

definition GroupList_gotype :: gotype where
  "GroupList_gotype = StructOf [
     (''TypeMeta'', Plain), (''ListMeta'', Foreign ''ListMeta''), (''Items'', SliceOf Group_gotype)]"

definition GroupList_DeepCopyInto :: "(string \<Rightarrow> copier) \<Rightarrow> copier" where
  "GroupList_DeepCopyInto lib = struct_copy [
     (''TypeMeta'', plain_copy), (''ListMeta'', lib ''ListMeta''),
     (''Items'', slice_copy (Group_DeepCopyInto lib))]"

definition GroupList_DeepCopy :: "(string \<Rightarrow> copier) \<Rightarrow> copier" where
  "GroupList_DeepCopy lib = DeepCopy_of (GroupList_DeepCopyInto lib)"

definition GroupList_DeepCopyObject :: "(string \<Rightarrow> copier) \<Rightarrow> copier" where
  "GroupList_DeepCopyObject lib = DeepCopyObject_of (GroupList_DeepCopy lib)"

lemma deep_GroupList [simp]: "foreign_deep lib \<Longrightarrow> deep GroupList_gotype (GroupList_DeepCopyInto lib)"
  unfolding GroupList_gotype_def GroupList_DeepCopyInto_def by (rule deep_struct) (simp add: covers_def)

lemma isolates_GroupList: "foreign_deep lib \<Longrightarrow> isolates (PtrTo GroupList_gotype) (GroupList_DeepCopyObject lib)"
  by (simp add: GroupList_DeepCopyObject_def GroupList_DeepCopy_def deep_isolates deep_DeepCopyObject deep_DeepCopy)

definition TargetNamespaceConfig_gotype :: gotype where
  "TargetNamespaceConfig_gotype = StructOf [
     (''TargetNamespaceSelector'', PtrTo (Foreign ''LabelSelector'')), (''TargetNamespaces'', SliceOf Plain)]"

definition TargetNamespaceConfig_DeepCopyInto :: "(string \<Rightarrow> copier) \<Rightarrow> copier" where
  "TargetNamespaceConfig_DeepCopyInto lib = struct_copy [
     (''TargetNamespaceSelector'', new_copy (lib ''LabelSelector'')),
     (''TargetNamespaces'', slice_copy plain_copy)]"

definition TargetNamespaceConfig_DeepCopy :: "(string \<Rightarrow> copier) \<Rightarrow> copier" where
  "TargetNamespaceConfig_DeepCopy lib = DeepCopy_of (TargetNamespaceConfig_DeepCopyInto lib)"

lemma deep_TargetNamespaceConfig [simp]: "foreign_deep lib \<Longrightarrow> deep TargetNamespaceConfig_gotype (TargetNamespaceConfig_DeepCopyInto lib)"
  unfolding TargetNamespaceConfig_gotype_def TargetNamespaceConfig_DeepCopyInto_def by (rule deep_struct) (simp add: covers_def)

definition PasswordPolicySpec_gotype :: gotype where
  "PasswordPolicySpec_gotype = StructOf [
     (''Connection'', PtrTo VaultConnection_gotype), (''PasswordPolicy'', Plain),
     (''Authentication'', KubeAuthConfiguration_gotype), (''Name'', Plain)]"

definition PasswordPolicySpec_DeepCopyInto :: "copier" where
  "PasswordPolicySpec_DeepCopyInto = struct_copy [
     (''Connection'', new_copy VaultConnection_DeepCopyInto),
     (''Authentication'', KubeAuthConfiguration_DeepCopyInto)]"

definition PasswordPolicySpec_DeepCopy :: "copier" where
  "PasswordPolicySpec_DeepCopy = DeepCopy_of PasswordPolicySpec_DeepCopyInto"

lemma deep_PasswordPolicySpec [simp]: "deep PasswordPolicySpec_gotype PasswordPolicySpec_DeepCopyInto"
  unfolding PasswordPolicySpec_gotype_def PasswordPolicySpec_DeepCopyInto_def by (rule deep_struct) (simp add: covers_def)

definition PasswordPolicyStatus_gotype :: gotype where
  "PasswordPolicyStatus_gotype = StructOf [
     (''Conditions'', SliceOf (Foreign ''Condition''))]"

definition PasswordPolicyStatus_DeepCopyInto :: "(string \<Rightarrow> copier) \<Rightarrow> copier" where
  "PasswordPolicyStatus_DeepCopyInto lib = struct_copy [
     (''Conditions'', slice_copy (lib ''Condition''))]"

definition PasswordPolicyStatus_DeepCopy :: "(string \<Rightarrow> copier) \<Rightarrow> copier" where
  "PasswordPolicyStatus_DeepCopy lib = DeepCopy_of (PasswordPolicyStatus_DeepCopyInto lib)"

lemma deep_PasswordPolicyStatus [simp]: "foreign_deep lib \<Longrightarrow> deep PasswordPolicyStatus_gotype (PasswordPolicyStatus_DeepCopyInto lib)"
  unfolding PasswordPolicyStatus_gotype_def PasswordPolicyStatus_DeepCopyInto_def by (rule deep_struct) (simp add: covers_def)

definition PasswordPolicy_gotype :: gotype where
  "PasswordPolicy_gotype = StructOf [
     (''TypeMeta'', Plain), (''ObjectMeta'', Foreign ''ObjectMeta''), (''Spec'', PasswordPolicySpec_gotype),
     (''Status'', PasswordPolicyStatus_gotype)]"

definition PasswordPolicy_DeepCopyInto :: "(string \<Rightarrow> copier) \<Rightarrow> copier" where
  "PasswordPolicy_DeepCopyInto lib = struct_copy [
     (''TypeMeta'', plain_copy), (''ObjectMeta'', lib ''ObjectMeta''),
     (''Spec'', PasswordPolicySpec_DeepCopyInto), (''Status'', PasswordPolicyStatus_DeepCopyInto lib)]"

definition PasswordPolicy_DeepCopy :: "(string \<Rightarrow> copier) \<Rightarrow> copier" where
  "PasswordPolicy_DeepCopy lib = DeepCopy_of (PasswordPolicy_DeepCopyInto lib)"

definition PasswordPolicy_DeepCopyObject :: "(string \<Rightarrow> copier) \<Rightarrow> copier" where
  "PasswordPolicy_DeepCopyObject lib = DeepCopyObject_of (PasswordPolicy_DeepCopy lib)"

lemma deep_PasswordPolicy [simp]: "foreign_deep lib \<Longrightarrow> deep PasswordPolicy_gotype (PasswordPolicy_DeepCopyInto lib)"
  unfolding PasswordPolicy_gotype_def PasswordPolicy_DeepCopyInto_def by (rule deep_struct) (simp add: covers_def)

lemma isolates_PasswordPolicy: "foreign_deep lib \<Longrightarrow> isolates (PtrTo PasswordPolicy_gotype) (PasswordPolicy_DeepCopyObject lib)"
  by (simp add: PasswordPolicy_DeepCopyObject_def PasswordPolicy_DeepCopy_def deep_isolates deep_DeepCopyObject deep_DeepCopy)

definition PasswordPolicyRule_gotype :: gotype where
  "PasswordPolicyRule_gotype = StructOf [
     (''RuleType'', Plain), (''Charset'', Plain), (''MinChars'', Plain)]"

definition PasswordPolicyRule_DeepCopyInto :: "copier" where
  "PasswordPolicyRule_DeepCopyInto = struct_copy []"

definition PasswordPolicyRule_DeepCopy :: "copier" where
  "PasswordPolicyRule_DeepCopy = DeepCopy_of PasswordPolicyRule_DeepCopyInto"

lemma flat_PasswordPolicyRule [simp]: "flat PasswordPolicyRule_gotype"
  by (simp add: PasswordPolicyRule_gotype_def)

lemma deep_PasswordPolicyRule [simp]: "deep PasswordPolicyRule_gotype PasswordPolicyRule_DeepCopyInto"
  unfolding PasswordPolicyRule_gotype_def PasswordPolicyRule_DeepCopyInto_def by (rule deep_struct) (simp add: covers_def)

definition PasswordPolicyFormat_gotype :: gotype where
  "PasswordPolicyFormat_gotype = StructOf [
     (''Length'', Plain), (''Rules'', SliceOf PasswordPolicyRule_gotype)]"

definition PasswordPolicyFormat_DeepCopyInto :: "copier" where
  "PasswordPolicyFormat_DeepCopyInto = struct_copy [
     (''Rules'', slice_copy plain_copy)]"

definition PasswordPolicyFormat_DeepCopy :: "copier" where
  "PasswordPolicyFormat_DeepCopy = DeepCopy_of PasswordPolicyFormat_DeepCopyInto"

lemma deep_PasswordPolicyFormat [simp]: "deep PasswordPolicyFormat_gotype PasswordPolicyFormat_DeepCopyInto"
  unfolding PasswordPolicyFormat_gotype_def PasswordPolicyFormat_DeepCopyInto_def by (rule deep_struct) (simp add: covers_def)

definition PasswordPolicyList_gotype :: gotype where
  "PasswordPolicyList_gotype = StructOf [
     (''TypeMeta'', Plain), (''ListMeta'', Foreign ''ListMeta''), (''Items'', SliceOf PasswordPolicy_gotype)]"

definition PasswordPolicyList_DeepCopyInto :: "(string \<Rightarrow> copier) \<Rightarrow> copier" where
  "PasswordPolicyList_DeepCopyInto lib = struct_copy [
     (''TypeMeta'', plain_copy), (''ListMeta'', lib ''ListMeta''),
     (''Items'', slice_copy (PasswordPolicy_DeepCopyInto lib))]"

definition PasswordPolicyList_DeepCopy :: "(string \<Rightarrow> copier) \<Rightarrow> copier" where
  "PasswordPolicyList_DeepCopy lib = DeepCopy_of (PasswordPolicyList_DeepCopyInto lib)"

definition PasswordPolicyList_DeepCopyObject :: "(string \<Rightarrow> copier) \<Rightarrow> copier" where
  "PasswordPolicyList_DeepCopyObject lib = DeepCopyObject_of (PasswordPolicyList_DeepCopy lib)"

lemma deep_PasswordPolicyList [simp]: "foreign_deep lib \<Longrightarrow> deep PasswordPolicyList_gotype (PasswordPolicyList_DeepCopyInto lib)"
  unfolding PasswordPolicyList_gotype_def PasswordPolicyList_DeepCopyInto_def by (rule deep_struct) (simp add: covers_def)

lemma isolates_PasswordPolicyList: "foreign_deep lib \<Longrightarrow> isolates (PtrTo PasswordPolicyList_gotype) (PasswordPolicyList_DeepCopyObject lib)"
  by (simp add: PasswordPolicyList_DeepCopyObject_def PasswordPolicyList_DeepCopy_def deep_isolates deep_DeepCopyObject deep_DeepCopy)

definition PolicySpec_gotype :: gotype where
  "PolicySpec_gotype = StructOf [
     (''Connection'', PtrTo VaultConnection_gotype), (''Policy'', Plain), (''Type'', Plain),
     (''Authentication'', KubeAuthConfiguration_gotype), (''Name'', Plain)]"

definition PolicySpec_DeepCopyInto :: "copier" where
  "PolicySpec_DeepCopyInto = struct_copy [
     (''Connection'', new_copy VaultConnection_DeepCopyInto),
     (''Authentication'', KubeAuthConfiguration_DeepCopyInto)]"

definition PolicySpec_DeepCopy :: "copier" where
  "PolicySpec_DeepCopy = DeepCopy_of PolicySpec_DeepCopyInto"

lemma deep_PolicySpec [simp]: "deep PolicySpec_gotype PolicySpec_DeepCopyInto"
  unfolding PolicySpec_gotype_def PolicySpec_DeepCopyInto_def by (rule deep_struct) (simp add: covers_def)

definition PolicyStatus_gotype :: gotype where
  "PolicyStatus_gotype = StructOf [
     (''Conditions'', SliceOf (Foreign ''Condition''))]"

definition PolicyStatus_DeepCopyInto :: "(string \<Rightarrow> copier) \<Rightarrow> copier" where
  "PolicyStatus_DeepCopyInto lib = struct_copy [
     (''Conditions'', slice_copy (lib ''Condition''))]"

definition PolicyStatus_DeepCopy :: "(string \<Rightarrow> copier) \<Rightarrow> copier" where
  "PolicyStatus_DeepCopy lib = DeepCopy_of (PolicyStatus_DeepCopyInto lib)"

lemma deep_PolicyStatus [simp]: "foreign_deep lib \<Longrightarrow> deep PolicyStatus_gotype (PolicyStatus_DeepCopyInto lib)"
  unfolding PolicyStatus_gotype_def PolicyStatus_DeepCopyInto_def by (rule deep_struct) (simp add: covers_def)

definition Policy_gotype :: gotype where
  "Policy_gotype = StructOf [
     (''TypeMeta'', Plain), (''ObjectMeta'', Foreign ''ObjectMeta''), (''Spec'', PolicySpec_gotype),
     (''Status'', PolicyStatus_gotype)]"

definition Policy_DeepCopyInto :: "(string \<Rightarrow> copier) \<Rightarrow> copier" where
  "Policy_DeepCopyInto lib = struct_copy [
     (''TypeMeta'', plain_copy), (''ObjectMeta'', lib ''ObjectMeta''), (''Spec'', PolicySpec_DeepCopyInto),
     (''Status'', PolicyStatus_DeepCopyInto lib)]"

definition Policy_DeepCopy :: "(string \<Rightarrow> copier) \<Rightarrow> copier" where
  "Policy_DeepCopy lib = DeepCopy_of (Policy_DeepCopyInto lib)"

definition Policy_DeepCopyObject :: "(string \<Rightarrow> copier) \<Rightarrow> copier" where
  "Policy_DeepCopyObject lib = DeepCopyObject_of (Policy_DeepCopy lib)"

lemma deep_Policy [simp]: "foreign_deep lib \<Longrightarrow> deep Policy_gotype (Policy_DeepCopyInto lib)"
  unfolding Policy_gotype_def Policy_DeepCopyInto_def by (rule deep_struct) (simp add: covers_def)

lemma isolates_Policy: "foreign_deep lib \<Longrightarrow> isolates (PtrTo Policy_gotype) (Policy_DeepCopyObject lib)"
  by (simp add: Policy_DeepCopyObject_def Policy_DeepCopy_def deep_isolates deep_DeepCopyObject deep_DeepCopy)

definition PolicyList_gotype :: gotype where
  "PolicyList_gotype = StructOf [
     (''TypeMeta'', Plain), (''ListMeta'', Foreign ''ListMeta''), (''Items'', SliceOf Policy_gotype)]"

definition PolicyList_DeepCopyInto :: "(string \<Rightarrow> copier) \<Rightarrow> copier" where
  "PolicyList_DeepCopyInto lib = struct_copy [
     (''TypeMeta'', plain_copy), (''ListMeta'', lib ''ListMeta''),
     (''Items'', slice_copy (Policy_DeepCopyInto lib))]"

definition PolicyList_DeepCopy :: "(string \<Rightarrow> copier) \<Rightarrow> copier" where
  "PolicyList_DeepCopy lib = DeepCopy_of (PolicyList_DeepCopyInto lib)"

definition PolicyList_DeepCopyObject :: "(string \<Rightarrow> copier) \<Rightarrow> copier" where
  "PolicyList_DeepCopyObject lib = DeepCopyObject_of (PolicyList_DeepCopy lib)"

lemma deep_PolicyList [simp]: "foreign_deep lib \<Longrightarrow> deep PolicyList_gotype (PolicyList_DeepCopyInto lib)"
  unfolding PolicyList_gotype_def PolicyList_DeepCopyInto_def by (rule deep_struct) (simp add: covers_def)

lemma isolates_PolicyList: "foreign_deep lib \<Longrightarrow> isolates (PtrTo PolicyList_gotype) (PolicyList_DeepCopyObject lib)"
  by (simp add: PolicyList_DeepCopyObject_def PolicyList_DeepCopy_def deep_isolates deep_DeepCopyObject deep_DeepCopy)

definition VaultPasswordPolicy_gotype :: gotype where
  "VaultPasswordPolicy_gotype = StructOf [
     (''PasswordPolicyName'', Plain), (''InlinePasswordPolicy'', Plain)]"

definition VaultPasswordPolicy_DeepCopyInto :: "copier" where
  "VaultPasswordPolicy_DeepCopyInto = struct_copy []"

definition VaultPasswordPolicy_DeepCopy :: "copier" where
  "VaultPasswordPolicy_DeepCopy = DeepCopy_of VaultPasswordPolicy_DeepCopyInto"

lemma flat_VaultPasswordPolicy [simp]: "flat VaultPasswordPolicy_gotype"
  by (simp add: VaultPasswordPolicy_gotype_def)

lemma deep_VaultPasswordPolicy [simp]: "deep VaultPasswordPolicy_gotype VaultPasswordPolicy_DeepCopyInto"
  unfolding VaultPasswordPolicy_gotype_def VaultPasswordPolicy_DeepCopyInto_def by (rule deep_struct) (simp add: covers_def)

definition RandomSecretSpec_gotype :: gotype where
  "RandomSecretSpec_gotype = StructOf [
     (''Connection'', PtrTo VaultConnection_gotype), (''Authentication'', KubeAuthConfiguration_gotype),
     (''Path'', Plain), (''SecretFormat'', VaultPasswordPolicy_gotype), (''RefreshPeriod'', PtrTo Plain),
     (''SecretKey'', Plain), (''calculatedSecret'', Plain), (''IsKVSecretsEngineV2'', Plain), (''Name'', Plain),
     (''KvSecretRetainPolicy'', Plain)]"

definition RandomSecretSpec_DeepCopyInto :: "copier" where
  "RandomSecretSpec_DeepCopyInto = struct_copy [
     (''Connection'', new_copy VaultConnection_DeepCopyInto),
     (''Authentication'', KubeAuthConfiguration_DeepCopyInto), (''SecretFormat'', plain_copy),
     (''RefreshPeriod'', new_copy plain_copy)]"

definition RandomSecretSpec_DeepCopy :: "copier" where
  "RandomSecretSpec_DeepCopy = DeepCopy_of RandomSecretSpec_DeepCopyInto"

lemma deep_RandomSecretSpec [simp]: "deep RandomSecretSpec_gotype RandomSecretSpec_DeepCopyInto"
  unfolding RandomSecretSpec_gotype_def RandomSecretSpec_DeepCopyInto_def by (rule deep_struct) (simp add: covers_def)

definition RandomSecretStatus_gotype :: gotype where
  "RandomSecretStatus_gotype = StructOf [
     (''Conditions'', SliceOf (Foreign ''Condition'')), (''LastVaultSecretUpdate'', PtrTo (Foreign ''Time''))]"

definition RandomSecretStatus_DeepCopyInto :: "(string \<Rightarrow> copier) \<Rightarrow> copier" where
  "RandomSecretStatus_DeepCopyInto lib = struct_copy [
     (''Conditions'', slice_copy (lib ''Condition'')), (''LastVaultSecretUpdate'', DeepCopy_of (lib ''Time''))]"

definition RandomSecretStatus_DeepCopy :: "(string \<Rightarrow> copier) \<Rightarrow> copier" where
  "RandomSecretStatus_DeepCopy lib = DeepCopy_of (RandomSecretStatus_DeepCopyInto lib)"

lemma deep_RandomSecretStatus [simp]: "foreign_deep lib \<Longrightarrow> deep RandomSecretStatus_gotype (RandomSecretStatus_DeepCopyInto lib)"
  unfolding RandomSecretStatus_gotype_def RandomSecretStatus_DeepCopyInto_def by (rule deep_struct) (simp add: covers_def)

definition RandomSecret_gotype :: gotype where
  "RandomSecret_gotype = StructOf [
     (''TypeMeta'', Plain), (''ObjectMeta'', Foreign ''ObjectMeta''), (''Spec'', RandomSecretSpec_gotype),
     (''Status'', RandomSecretStatus_gotype)]"

definition RandomSecret_DeepCopyInto :: "(string \<Rightarrow> copier) \<Rightarrow> copier" where
  "RandomSecret_DeepCopyInto lib = struct_copy [
     (''TypeMeta'', plain_copy), (''ObjectMeta'', lib ''ObjectMeta''),
     (''Spec'', RandomSecretSpec_DeepCopyInto), (''Status'', RandomSecretStatus_DeepCopyInto lib)]"

definition RandomSecret_DeepCopy :: "(string \<Rightarrow> copier) \<Rightarrow> copier" where
  "RandomSecret_DeepCopy lib = DeepCopy_of (RandomSecret_DeepCopyInto lib)"

definition RandomSecret_DeepCopyObject :: "(string \<Rightarrow> copier) \<Rightarrow> copier" where
  "RandomSecret_DeepCopyObject lib = DeepCopyObject_of (RandomSecret_DeepCopy lib)"

lemma deep_RandomSecret [simp]: "foreign_deep lib \<Longrightarrow> deep RandomSecret_gotype (RandomSecret_DeepCopyInto lib)"
  unfolding RandomSecret_gotype_def RandomSecret_DeepCopyInto_def by (rule deep_struct) (simp add: covers_def)

lemma isolates_RandomSecret: "foreign_deep lib \<Longrightarrow> isolates (PtrTo RandomSecret_gotype) (RandomSecret_DeepCopyObject lib)"
  by (simp add: RandomSecret_DeepCopyObject_def RandomSecret_DeepCopy_def deep_isolates deep_DeepCopyObject deep_DeepCopy)

definition RandomSecretList_gotype :: gotype where
  "RandomSecretList_gotype = StructOf [
     (''TypeMeta'', Plain), (''ListMeta'', Foreign ''ListMeta''), (''Items'', SliceOf RandomSecret_gotype)]"

definition RandomSecretList_DeepCopyInto :: "(string \<Rightarrow> copier) \<Rightarrow> copier" where
  "RandomSecretList_DeepCopyInto lib = struct_copy [
     (''TypeMeta'', plain_copy), (''ListMeta'', lib ''ListMeta''),
     (''Items'', slice_copy (RandomSecret_DeepCopyInto lib))]"

definition RandomSecretList_DeepCopy :: "(string \<Rightarrow> copier) \<Rightarrow> copier" where
  "RandomSecretList_DeepCopy lib = DeepCopy_of (RandomSecretList_DeepCopyInto lib)"

definition RandomSecretList_DeepCopyObject :: "(string \<Rightarrow> copier) \<Rightarrow> copier" where
  "RandomSecretList_DeepCopyObject lib = DeepCopyObject_of (RandomSecretList_DeepCopy lib)"

lemma deep_RandomSecretList [simp]: "foreign_deep lib \<Longrightarrow> deep RandomSecretList_gotype (RandomSecretList_DeepCopyInto lib)"
  unfolding RandomSecretList_gotype_def RandomSecretList_DeepCopyInto_def by (rule deep_struct) (simp add: covers_def)

lemma isolates_RandomSecretList: "foreign_deep lib \<Longrightarrow> isolates (PtrTo RandomSecretList_gotype) (RandomSecretList_DeepCopyObject lib)"
  by (simp add: RandomSecretList_DeepCopyObject_def RandomSecretList_DeepCopy_def deep_isolates deep_DeepCopyObject deep_DeepCopy)

definition TemplatizedK8sSecret_gotype :: gotype where
  "TemplatizedK8sSecret_gotype = StructOf [
     (''Name'', Plain), (''Type'', Plain), (''StringData'', MapTo Plain), (''Labels'', MapTo Plain),
     (''Annotations'', MapTo Plain)]"

definition TemplatizedK8sSecret_DeepCopyInto :: "copier" where
  "TemplatizedK8sSecret_DeepCopyInto = struct_copy [
     (''StringData'', map_copy plain_copy), (''Labels'', map_copy plain_copy),
     (''Annotations'', map_copy plain_copy)]"

definition TemplatizedK8sSecret_DeepCopy :: "copier" where
  "TemplatizedK8sSecret_DeepCopy = DeepCopy_of TemplatizedK8sSecret_DeepCopyInto"

lemma deep_TemplatizedK8sSecret [simp]: "deep TemplatizedK8sSecret_gotype TemplatizedK8sSecret_DeepCopyInto"
  unfolding TemplatizedK8sSecret_gotype_def TemplatizedK8sSecret_DeepCopyInto_def by (rule deep_struct) (simp add: covers_def)

definition VaultSecretDefinition_gotype :: gotype where
  "VaultSecretDefinition_gotype = StructOf [
     (''Name'', Plain), (''Connection'', PtrTo VaultConnection_gotype),
     (''Authentication'', KubeAuthConfiguration_gotype), (''Path'', Plain), (''RequestType'', Plain),
     (''RequestPayload'', MapTo Plain)]"

definition VaultSecretDefinition_DeepCopyInto :: "copier" where
  "VaultSecretDefinition_DeepCopyInto = struct_copy [
     (''Connection'', new_copy VaultConnection_DeepCopyInto),
     (''Authentication'', KubeAuthConfiguration_DeepCopyInto), (''RequestPayload'', map_copy plain_copy)]"

definition VaultSecretDefinition_DeepCopy :: "copier" where
  "VaultSecretDefinition_DeepCopy = DeepCopy_of VaultSecretDefinition_DeepCopyInto"

lemma deep_VaultSecretDefinition [simp]: "deep VaultSecretDefinition_gotype VaultSecretDefinition_DeepCopyInto"
  unfolding VaultSecretDefinition_gotype_def VaultSecretDefinition_DeepCopyInto_def by (rule deep_struct) (simp add: covers_def)

definition VaultSecretSpec_gotype :: gotype where
  "VaultSecretSpec_gotype = StructOf [
     (''RefreshPeriod'', PtrTo Plain), (''RefreshThreshold'', Plain),
     (''VaultSecretDefinitions'', SliceOf VaultSecretDefinition_gotype),
     (''TemplatizedK8sSecret'', TemplatizedK8sSecret_gotype)]"

definition VaultSecretSpec_DeepCopyInto :: "copier" where
  "VaultSecretSpec_DeepCopyInto = struct_copy [
     (''RefreshPeriod'', new_copy plain_copy),
     (''VaultSecretDefinitions'', slice_copy VaultSecretDefinition_DeepCopyInto),
     (''TemplatizedK8sSecret'', TemplatizedK8sSecret_DeepCopyInto)]"

definition VaultSecretSpec_DeepCopy :: "copier" where
  "VaultSecretSpec_DeepCopy = DeepCopy_of VaultSecretSpec_DeepCopyInto"

lemma deep_VaultSecretSpec [simp]: "deep VaultSecretSpec_gotype VaultSecretSpec_DeepCopyInto"
  unfolding VaultSecretSpec_gotype_def VaultSecretSpec_DeepCopyInto_def by (rule deep_struct) (simp add: covers_def)

definition VaultSecretDefinitionStatus_gotype :: gotype where
  "VaultSecretDefinitionStatus_gotype = StructOf [
     (''Name'', Plain), (''LeaseID'', Plain), (''LeaseDuration'', Plain), (''Renewable'', Plain)]"

definition VaultSecretDefinitionStatus_DeepCopyInto :: "copier" where
  "VaultSecretDefinitionStatus_DeepCopyInto = struct_copy []"

definition VaultSecretDefinitionStatus_DeepCopy :: "copier" where
  "VaultSecretDefinitionStatus_DeepCopy = DeepCopy_of VaultSecretDefinitionStatus_DeepCopyInto"

lemma flat_VaultSecretDefinitionStatus [simp]: "flat VaultSecretDefinitionStatus_gotype"
  by (simp add: VaultSecretDefinitionStatus_gotype_def)

lemma deep_VaultSecretDefinitionStatus [simp]: "deep VaultSecretDefinitionStatus_gotype VaultSecretDefinitionStatus_DeepCopyInto"
  unfolding VaultSecretDefinitionStatus_gotype_def VaultSecretDefinitionStatus_DeepCopyInto_def by (rule deep_struct) (simp add: covers_def)

definition VaultSecretStatus_gotype :: gotype where
  "VaultSecretStatus_gotype = StructOf [
     (''Conditions'', SliceOf (Foreign ''Condition'')), (''LastVaultSecretUpdate'', PtrTo (Foreign ''Time'')),
     (''NextVaultSecretUpdate'', PtrTo (Foreign ''Time'')),
     (''VaultSecretDefinitionsStatus'', SliceOf VaultSecretDefinitionStatus_gotype)]"

definition VaultSecretStatus_DeepCopyInto :: "(string \<Rightarrow> copier) \<Rightarrow> copier" where
  "VaultSecretStatus_DeepCopyInto lib = struct_copy [
     (''Conditions'', slice_copy (lib ''Condition'')), (''LastVaultSecretUpdate'', DeepCopy_of (lib ''Time'')),
     (''NextVaultSecretUpdate'', DeepCopy_of (lib ''Time'')),
     (''VaultSecretDefinitionsStatus'', slice_copy plain_copy)]"

definition VaultSecretStatus_DeepCopy :: "(string \<Rightarrow> copier) \<Rightarrow> copier" where
  "VaultSecretStatus_DeepCopy lib = DeepCopy_of (VaultSecretStatus_DeepCopyInto lib)"

lemma deep_VaultSecretStatus [simp]: "foreign_deep lib \<Longrightarrow> deep VaultSecretStatus_gotype (VaultSecretStatus_DeepCopyInto lib)"
  unfolding VaultSecretStatus_gotype_def VaultSecretStatus_DeepCopyInto_def by (rule deep_struct) (simp add: covers_def)

definition VaultSecret_gotype :: gotype where
  "VaultSecret_gotype = StructOf [
     (''TypeMeta'', Plain), (''ObjectMeta'', Foreign ''ObjectMeta''), (''Spec'', VaultSecretSpec_gotype),
     (''Status'', VaultSecretStatus_gotype)]"

definition VaultSecret_DeepCopyInto :: "(string \<Rightarrow> copier) \<Rightarrow> copier" where
  "VaultSecret_DeepCopyInto lib = struct_copy [
     (''TypeMeta'', plain_copy), (''ObjectMeta'', lib ''ObjectMeta''), (''Spec'', VaultSecretSpec_DeepCopyInto),
     (''Status'', VaultSecretStatus_DeepCopyInto lib)]"

definition VaultSecret_DeepCopy :: "(string \<Rightarrow> copier) \<Rightarrow> copier" where
  "VaultSecret_DeepCopy lib = DeepCopy_of (VaultSecret_DeepCopyInto lib)"

definition VaultSecret_DeepCopyObject :: "(string \<Rightarrow> copier) \<Rightarrow> copier" where
  "VaultSecret_DeepCopyObject lib = DeepCopyObject_of (VaultSecret_DeepCopy lib)"

lemma deep_VaultSecret [simp]: "foreign_deep lib \<Longrightarrow> deep VaultSecret_gotype (VaultSecret_DeepCopyInto lib)"
  unfolding VaultSecret_gotype_def VaultSecret_DeepCopyInto_def by (rule deep_struct) (simp add: covers_def)

lemma isolates_VaultSecret: "foreign_deep lib \<Longrightarrow> isolates (PtrTo VaultSecret_gotype) (VaultSecret_DeepCopyObject lib)"
  by (simp add: VaultSecret_DeepCopyObject_def VaultSecret_DeepCopy_def deep_isolates deep_DeepCopyObject deep_DeepCopy)

definition VaultSecretList_gotype :: gotype where
  "VaultSecretList_gotype = StructOf [
     (''TypeMeta'', Plain), (''ListMeta'', Foreign ''ListMeta''), (''Items'', SliceOf VaultSecret_gotype)]"

definition VaultSecretList_DeepCopyInto :: "(string \<Rightarrow> copier) \<Rightarrow> copier" where
  "VaultSecretList_DeepCopyInto lib = struct_copy [
     (''TypeMeta'', plain_copy), (''ListMeta'', lib ''ListMeta''),
     (''Items'', slice_copy (VaultSecret_DeepCopyInto lib))]"

definition VaultSecretList_DeepCopy :: "(string \<Rightarrow> copier) \<Rightarrow> copier" where
  "VaultSecretList_DeepCopy lib = DeepCopy_of (VaultSecretList_DeepCopyInto lib)"

definition VaultSecretList_DeepCopyObject :: "(string \<Rightarrow> copier) \<Rightarrow> copier" where
  "VaultSecretList_DeepCopyObject lib = DeepCopyObject_of (VaultSecretList_DeepCopy lib)"

lemma deep_VaultSecretList [simp]: "foreign_deep lib \<Longrightarrow> deep VaultSecretList_gotype (VaultSecretList_DeepCopyInto lib)"
  unfolding VaultSecretList_gotype_def VaultSecretList_DeepCopyInto_def by (rule deep_struct) (simp add: covers_def)

lemma isolates_VaultSecretList: "foreign_deep lib \<Longrightarrow> isolates (PtrTo VaultSecretList_gotype) (VaultSecretList_DeepCopyObject lib)"
  by (simp add: VaultSecretList_DeepCopyObject_def VaultSecretList_DeepCopy_def deep_isolates deep_DeepCopyObject deep_DeepCopy)

end
