(* ===== verification/DeepCopyAuth.thy ===== *)
theory DeepCopyAuth
  imports DeepCopyCore
begin

text \<open>
  The generated copy functions (\<open>api/v1alpha1/zz_generated.deepcopy.go\<close>) of the authentication engines:
  of each type its fields, the statements of its \<open>DeepCopyInto\<close> in their order, \<open>DeepCopy\<close> and,
  for the resources and their lists, \<open>DeepCopyObject\<close>. \<open>lib\<close> gives the copy functions of the types
  of other packages by name.
\<close>

definition AuthMountConfig_gotype :: gotype where
  "AuthMountConfig_gotype = StructOf [
     (''DefaultLeaseTTL'', Plain), (''MaxLeaseTTL'', Plain), (''AuditNonHMACRequestKeys'', SliceOf Plain),
     (''AuditNonHMACResponseKeys'', SliceOf Plain), (''ListingVisibility'', Plain),
     (''PassthroughRequestHeaders'', SliceOf Plain), (''AllowedResponseHeaders'', SliceOf Plain),
     (''Options'', MapTo Plain), (''TokenType'', Plain), (''Description'', PtrTo Plain)]"

definition AuthMountConfig_DeepCopyInto :: "copier" where
  "AuthMountConfig_DeepCopyInto = struct_copy [
     (''AuditNonHMACRequestKeys'', slice_copy plain_copy),
     (''AuditNonHMACResponseKeys'', slice_copy plain_copy),
     (''PassthroughRequestHeaders'', slice_copy plain_copy),
     (''AllowedResponseHeaders'', slice_copy plain_copy), (''Options'', map_copy plain_copy),
     (''Description'', new_copy plain_copy)]"

definition AuthMountConfig_DeepCopy :: "copier" where
  "AuthMountConfig_DeepCopy = DeepCopy_of AuthMountConfig_DeepCopyInto"

lemma deep_AuthMountConfig [simp]: "deep AuthMountConfig_gotype AuthMountConfig_DeepCopyInto"
  unfolding AuthMountConfig_gotype_def AuthMountConfig_DeepCopyInto_def by (rule deep_struct) (simp add: covers_def)

definition AuthMount_gotype :: gotype where
  "AuthMount_gotype = StructOf [
     (''Description'', Plain), (''Type'', Plain), (''Config'', AuthMountConfig_gotype), (''Local'', Plain),
     (''SealWrap'', Plain)]"

definition AuthMount_DeepCopyInto :: "copier" where
  "AuthMount_DeepCopyInto = struct_copy [
     (''Config'', AuthMountConfig_DeepCopyInto)]"

definition AuthMount_DeepCopy :: "copier" where
  "AuthMount_DeepCopy = DeepCopy_of AuthMount_DeepCopyInto"

lemma deep_AuthMount [simp]: "deep AuthMount_gotype AuthMount_DeepCopyInto"
  unfolding AuthMount_gotype_def AuthMount_DeepCopyInto_def by (rule deep_struct) (simp add: covers_def)

definition AuthEngineMountSpec_gotype :: gotype where
  "AuthEngineMountSpec_gotype = StructOf [
     (''Connection'', PtrTo VaultConnection_gotype), (''Authentication'', KubeAuthConfiguration_gotype),
     (''AuthMount'', AuthMount_gotype), (''Path'', Plain), (''Name'', Plain)]"

definition AuthEngineMountSpec_DeepCopyInto :: "copier" where
  "AuthEngineMountSpec_DeepCopyInto = struct_copy [
     (''Connection'', new_copy VaultConnection_DeepCopyInto),
     (''Authentication'', KubeAuthConfiguration_DeepCopyInto), (''AuthMount'', AuthMount_DeepCopyInto)]"

definition AuthEngineMountSpec_DeepCopy :: "copier" where
  "AuthEngineMountSpec_DeepCopy = DeepCopy_of AuthEngineMountSpec_DeepCopyInto"

lemma deep_AuthEngineMountSpec [simp]: "deep AuthEngineMountSpec_gotype AuthEngineMountSpec_DeepCopyInto"
  unfolding AuthEngineMountSpec_gotype_def AuthEngineMountSpec_DeepCopyInto_def by (rule deep_struct) (simp add: covers_def)

definition AuthEngineMountStatus_gotype :: gotype where
  "AuthEngineMountStatus_gotype = StructOf [
     (''Conditions'', SliceOf (Foreign ''Condition'')), (''Accessor'', Plain)]"

definition AuthEngineMountStatus_DeepCopyInto :: "(string \<Rightarrow> copier) \<Rightarrow> copier" where
  "AuthEngineMountStatus_DeepCopyInto lib = struct_copy [
     (''Conditions'', slice_copy (lib ''Condition''))]"

definition AuthEngineMountStatus_DeepCopy :: "(string \<Rightarrow> copier) \<Rightarrow> copier" where
  "AuthEngineMountStatus_DeepCopy lib = DeepCopy_of (AuthEngineMountStatus_DeepCopyInto lib)"

lemma deep_AuthEngineMountStatus [simp]: "foreign_deep lib \<Longrightarrow> deep AuthEngineMountStatus_gotype (AuthEngineMountStatus_DeepCopyInto lib)"
  unfolding AuthEngineMountStatus_gotype_def AuthEngineMountStatus_DeepCopyInto_def by (rule deep_struct) (simp add: covers_def)

definition AuthEngineMount_gotype :: gotype where
  "AuthEngineMount_gotype = StructOf [
     (''TypeMeta'', Plain), (''ObjectMeta'', Foreign ''ObjectMeta''), (''Spec'', AuthEngineMountSpec_gotype),
     (''Status'', AuthEngineMountStatus_gotype)]"

definition AuthEngineMount_DeepCopyInto :: "(string \<Rightarrow> copier) \<Rightarrow> copier" where
  "AuthEngineMount_DeepCopyInto lib = struct_copy [
     (''TypeMeta'', plain_copy), (''ObjectMeta'', lib ''ObjectMeta''),
     (''Spec'', AuthEngineMountSpec_DeepCopyInto), (''Status'', AuthEngineMountStatus_DeepCopyInto lib)]"

definition AuthEngineMount_DeepCopy :: "(string \<Rightarrow> copier) \<Rightarrow> copier" where
  "AuthEngineMount_DeepCopy lib = DeepCopy_of (AuthEngineMount_DeepCopyInto lib)"

definition AuthEngineMount_DeepCopyObject :: "(string \<Rightarrow> copier) \<Rightarrow> copier" where
  "AuthEngineMount_DeepCopyObject lib = DeepCopyObject_of (AuthEngineMount_DeepCopy lib)"

lemma deep_AuthEngineMount [simp]: "foreign_deep lib \<Longrightarrow> deep AuthEngineMount_gotype (AuthEngineMount_DeepCopyInto lib)"
  unfolding AuthEngineMount_gotype_def AuthEngineMount_DeepCopyInto_def by (rule deep_struct) (simp add: covers_def)

lemma isolates_AuthEngineMount: "foreign_deep lib \<Longrightarrow> isolates (PtrTo AuthEngineMount_gotype) (AuthEngineMount_DeepCopyObject lib)"
  by (simp add: AuthEngineMount_DeepCopyObject_def AuthEngineMount_DeepCopy_def deep_isolates deep_DeepCopyObject deep_DeepCopy)

definition AuthEngineMountList_gotype :: gotype where
  "AuthEngineMountList_gotype = StructOf [
     (''TypeMeta'', Plain), (''ListMeta'', Foreign ''ListMeta''), (''Items'', SliceOf AuthEngineMount_gotype)]"

definition AuthEngineMountList_DeepCopyInto :: "(string \<Rightarrow> copier) \<Rightarrow> copier" where
  "AuthEngineMountList_DeepCopyInto lib = struct_copy [
     (''TypeMeta'', plain_copy), (''ListMeta'', lib ''ListMeta''),
     (''Items'', slice_copy (AuthEngineMount_DeepCopyInto lib))]"

definition AuthEngineMountList_DeepCopy :: "(string \<Rightarrow> copier) \<Rightarrow> copier" where
  "AuthEngineMountList_DeepCopy lib = DeepCopy_of (AuthEngineMountList_DeepCopyInto lib)"

definition AuthEngineMountList_DeepCopyObject :: "(string \<Rightarrow> copier) \<Rightarrow> copier" where
  "AuthEngineMountList_DeepCopyObject lib = DeepCopyObject_of (AuthEngineMountList_DeepCopy lib)"

lemma deep_AuthEngineMountList [simp]: "foreign_deep lib \<Longrightarrow> deep AuthEngineMountList_gotype (AuthEngineMountList_DeepCopyInto lib)"
  unfolding AuthEngineMountList_gotype_def AuthEngineMountList_DeepCopyInto_def by (rule deep_struct) (simp add: covers_def)

lemma isolates_AuthEngineMountList: "foreign_deep lib \<Longrightarrow> isolates (PtrTo AuthEngineMountList_gotype) (AuthEngineMountList_DeepCopyObject lib)"
  by (simp add: AuthEngineMountList_DeepCopyObject_def AuthEngineMountList_DeepCopy_def deep_isolates deep_DeepCopyObject deep_DeepCopy)

definition AzureConfig_gotype :: gotype where
  "AzureConfig_gotype = StructOf [
     (''TenantID'', Plain), (''Resource'', Plain), (''Environment'', Plain), (''ClientID'', Plain),
     (''MaxRetries'', Plain), (''MaxRetryDelay'', Plain), (''RetryDelay'', Plain),
     (''retrievedClientID'', Plain), (''retrievedClientPassword'', Plain)]"

definition AzureConfig_DeepCopyInto :: "copier" where
  "AzureConfig_DeepCopyInto = struct_copy []"

definition AzureConfig_DeepCopy :: "copier" where
  "AzureConfig_DeepCopy = DeepCopy_of AzureConfig_DeepCopyInto"

lemma flat_AzureConfig [simp]: "flat AzureConfig_gotype"
  by (simp add: AzureConfig_gotype_def)

lemma deep_AzureConfig [simp]: "deep AzureConfig_gotype AzureConfig_DeepCopyInto"
  unfolding AzureConfig_gotype_def AzureConfig_DeepCopyInto_def by (rule deep_struct) (simp add: covers_def)

definition AzureAuthEngineConfigSpec_gotype :: gotype where
  "AzureAuthEngineConfigSpec_gotype = StructOf [
     (''Connection'', PtrTo VaultConnection_gotype), (''Authentication'', KubeAuthConfiguration_gotype),
     (''Path'', Plain), (''AzureConfig'', AzureConfig_gotype),
     (''AzureCredentials'', RootCredentialConfig_gotype)]"

definition AzureAuthEngineConfigSpec_DeepCopyInto :: "copier" where
  "AzureAuthEngineConfigSpec_DeepCopyInto = struct_copy [
     (''Connection'', new_copy VaultConnection_DeepCopyInto),
     (''Authentication'', KubeAuthConfiguration_DeepCopyInto), (''AzureConfig'', plain_copy),
     (''AzureCredentials'', RootCredentialConfig_DeepCopyInto)]"

definition AzureAuthEngineConfigSpec_DeepCopy :: "copier" where
  "AzureAuthEngineConfigSpec_DeepCopy = DeepCopy_of AzureAuthEngineConfigSpec_DeepCopyInto"

lemma deep_AzureAuthEngineConfigSpec [simp]: "deep AzureAuthEngineConfigSpec_gotype AzureAuthEngineConfigSpec_DeepCopyInto"
  unfolding AzureAuthEngineConfigSpec_gotype_def AzureAuthEngineConfigSpec_DeepCopyInto_def by (rule deep_struct) (simp add: covers_def)

definition AzureAuthEngineConfigStatus_gotype :: gotype where
  "AzureAuthEngineConfigStatus_gotype = StructOf [
     (''Conditions'', SliceOf (Foreign ''Condition''))]"

definition AzureAuthEngineConfigStatus_DeepCopyInto :: "(string \<Rightarrow> copier) \<Rightarrow> copier" where
  "AzureAuthEngineConfigStatus_DeepCopyInto lib = struct_copy [
     (''Conditions'', slice_copy (lib ''Condition''))]"

definition AzureAuthEngineConfigStatus_DeepCopy :: "(string \<Rightarrow> copier) \<Rightarrow> copier" where
  "AzureAuthEngineConfigStatus_DeepCopy lib = DeepCopy_of (AzureAuthEngineConfigStatus_DeepCopyInto lib)"

lemma deep_AzureAuthEngineConfigStatus [simp]: "foreign_deep lib \<Longrightarrow> deep AzureAuthEngineConfigStatus_gotype (AzureAuthEngineConfigStatus_DeepCopyInto lib)"
  unfolding AzureAuthEngineConfigStatus_gotype_def AzureAuthEngineConfigStatus_DeepCopyInto_def by (rule deep_struct) (simp add: covers_def)

definition AzureAuthEngineConfig_gotype :: gotype where
  "AzureAuthEngineConfig_gotype = StructOf [
     (''TypeMeta'', Plain), (''ObjectMeta'', Foreign ''ObjectMeta''),
     (''Spec'', AzureAuthEngineConfigSpec_gotype), (''Status'', AzureAuthEngineConfigStatus_gotype)]"

definition AzureAuthEngineConfig_DeepCopyInto :: "(string \<Rightarrow> copier) \<Rightarrow> copier" where
  "AzureAuthEngineConfig_DeepCopyInto lib = struct_copy [
     (''TypeMeta'', plain_copy), (''ObjectMeta'', lib ''ObjectMeta''),
     (''Spec'', AzureAuthEngineConfigSpec_DeepCopyInto),
     (''Status'', AzureAuthEngineConfigStatus_DeepCopyInto lib)]"

definition AzureAuthEngineConfig_DeepCopy :: "(string \<Rightarrow> copier) \<Rightarrow> copier" where
  "AzureAuthEngineConfig_DeepCopy lib = DeepCopy_of (AzureAuthEngineConfig_DeepCopyInto lib)"

definition AzureAuthEngineConfig_DeepCopyObject :: "(string \<Rightarrow> copier) \<Rightarrow> copier" where
  "AzureAuthEngineConfig_DeepCopyObject lib = DeepCopyObject_of (AzureAuthEngineConfig_DeepCopy lib)"

lemma deep_AzureAuthEngineConfig [simp]: "foreign_deep lib \<Longrightarrow> deep AzureAuthEngineConfig_gotype (AzureAuthEngineConfig_DeepCopyInto lib)"
  unfolding AzureAuthEngineConfig_gotype_def AzureAuthEngineConfig_DeepCopyInto_def by (rule deep_struct) (simp add: covers_def)

lemma isolates_AzureAuthEngineConfig: "foreign_deep lib \<Longrightarrow> isolates (PtrTo AzureAuthEngineConfig_gotype) (AzureAuthEngineConfig_DeepCopyObject lib)"
  by (simp add: AzureAuthEngineConfig_DeepCopyObject_def AzureAuthEngineConfig_DeepCopy_def deep_isolates deep_DeepCopyObject deep_DeepCopy)

definition AzureAuthEngineConfigList_gotype :: gotype where
  "AzureAuthEngineConfigList_gotype = StructOf [
     (''TypeMeta'', Plain), (''ListMeta'', Foreign ''ListMeta''),
     (''Items'', SliceOf AzureAuthEngineConfig_gotype)]"

definition AzureAuthEngineConfigList_DeepCopyInto :: "(string \<Rightarrow> copier) \<Rightarrow> copier" where
  "AzureAuthEngineConfigList_DeepCopyInto lib = struct_copy [
     (''TypeMeta'', plain_copy), (''ListMeta'', lib ''ListMeta''),
     (''Items'', slice_copy (AzureAuthEngineConfig_DeepCopyInto lib))]"

definition AzureAuthEngineConfigList_DeepCopy :: "(string \<Rightarrow> copier) \<Rightarrow> copier" where
  "AzureAuthEngineConfigList_DeepCopy lib = DeepCopy_of (AzureAuthEngineConfigList_DeepCopyInto lib)"

definition AzureAuthEngineConfigList_DeepCopyObject :: "(string \<Rightarrow> copier) \<Rightarrow> copier" where
  "AzureAuthEngineConfigList_DeepCopyObject lib = DeepCopyObject_of (AzureAuthEngineConfigList_DeepCopy lib)"

lemma deep_AzureAuthEngineConfigList [simp]: "foreign_deep lib \<Longrightarrow> deep AzureAuthEngineConfigList_gotype (AzureAuthEngineConfigList_DeepCopyInto lib)"
  unfolding AzureAuthEngineConfigList_gotype_def AzureAuthEngineConfigList_DeepCopyInto_def by (rule deep_struct) (simp add: covers_def)

lemma isolates_AzureAuthEngineConfigList: "foreign_deep lib \<Longrightarrow> isolates (PtrTo AzureAuthEngineConfigList_gotype) (AzureAuthEngineConfigList_DeepCopyObject lib)"
  by (simp add: AzureAuthEngineConfigList_DeepCopyObject_def AzureAuthEngineConfigList_DeepCopy_def deep_isolates deep_DeepCopyObject deep_DeepCopy)

definition AzureRole_gotype :: gotype where
  "AzureRole_gotype = StructOf [
     (''Name'', Plain), (''BoundServicePrincipalIDs'', SliceOf Plain), (''BoundGroupIDs'', SliceOf Plain),
     (''BoundLocations'', SliceOf Plain), (''BoundSubscriptionIDs'', SliceOf Plain),
     (''BoundResourceGroups'', SliceOf Plain), (''BoundScaleSets'', SliceOf Plain), (''TokenTTL'', Plain),
     (''TokenMaxTTL'', Plain), (''TokenPolicies'', SliceOf Plain), (''Policies'', SliceOf Plain),
     (''TokenBoundCIDRs'', SliceOf Plain), (''TokenExplicitMaxTTL'', Plain), (''TokenNoDefaultPolicy'', Plain),
     (''TokenNumUses'', Plain), (''TokenPeriod'', Plain), (''TokenType'', Plain)]"

definition AzureRole_DeepCopyInto :: "copier" where
  "AzureRole_DeepCopyInto = struct_copy [
     (''BoundServicePrincipalIDs'', slice_copy plain_copy), (''BoundGroupIDs'', slice_copy plain_copy),
     (''BoundLocations'', slice_copy plain_copy), (''BoundSubscriptionIDs'', slice_copy plain_copy),
     (''BoundResourceGroups'', slice_copy plain_copy), (''BoundScaleSets'', slice_copy plain_copy),
     (''TokenPolicies'', slice_copy plain_copy), (''Policies'', slice_copy plain_copy),
     (''TokenBoundCIDRs'', slice_copy plain_copy)]"

definition AzureRole_DeepCopy :: "copier" where
  "AzureRole_DeepCopy = DeepCopy_of AzureRole_DeepCopyInto"

lemma deep_AzureRole [simp]: "deep AzureRole_gotype AzureRole_DeepCopyInto"
  unfolding AzureRole_gotype_def AzureRole_DeepCopyInto_def by (rule deep_struct) (simp add: covers_def)

definition AzureAuthEngineRoleSpec_gotype :: gotype where
  "AzureAuthEngineRoleSpec_gotype = StructOf [
     (''Connection'', PtrTo VaultConnection_gotype), (''Authentication'', KubeAuthConfiguration_gotype),
     (''Path'', Plain), (''AzureRole'', AzureRole_gotype)]"

definition AzureAuthEngineRoleSpec_DeepCopyInto :: "copier" where
  "AzureAuthEngineRoleSpec_DeepCopyInto = struct_copy [
     (''Connection'', new_copy VaultConnection_DeepCopyInto),
     (''Authentication'', KubeAuthConfiguration_DeepCopyInto), (''AzureRole'', AzureRole_DeepCopyInto)]"

definition AzureAuthEngineRoleSpec_DeepCopy :: "copier" where
  "AzureAuthEngineRoleSpec_DeepCopy = DeepCopy_of AzureAuthEngineRoleSpec_DeepCopyInto"

lemma deep_AzureAuthEngineRoleSpec [simp]: "deep AzureAuthEngineRoleSpec_gotype AzureAuthEngineRoleSpec_DeepCopyInto"
  unfolding AzureAuthEngineRoleSpec_gotype_def AzureAuthEngineRoleSpec_DeepCopyInto_def by (rule deep_struct) (simp add: covers_def)

definition AzureAuthEngineRoleStatus_gotype :: gotype where
  "AzureAuthEngineRoleStatus_gotype = StructOf [
     (''Conditions'', SliceOf (Foreign ''Condition''))]"

definition AzureAuthEngineRoleStatus_DeepCopyInto :: "(string \<Rightarrow> copier) \<Rightarrow> copier" where
  "AzureAuthEngineRoleStatus_DeepCopyInto lib = struct_copy [
     (''Conditions'', slice_copy (lib ''Condition''))]"

definition AzureAuthEngineRoleStatus_DeepCopy :: "(string \<Rightarrow> copier) \<Rightarrow> copier" where
  "AzureAuthEngineRoleStatus_DeepCopy lib = DeepCopy_of (AzureAuthEngineRoleStatus_DeepCopyInto lib)"

lemma deep_AzureAuthEngineRoleStatus [simp]: "foreign_deep lib \<Longrightarrow> deep AzureAuthEngineRoleStatus_gotype (AzureAuthEngineRoleStatus_DeepCopyInto lib)"
  unfolding AzureAuthEngineRoleStatus_gotype_def AzureAuthEngineRoleStatus_DeepCopyInto_def by (rule deep_struct) (simp add: covers_def)

definition AzureAuthEngineRole_gotype :: gotype where
  "AzureAuthEngineRole_gotype = StructOf [
     (''TypeMeta'', Plain), (''ObjectMeta'', Foreign ''ObjectMeta''),
     (''Spec'', AzureAuthEngineRoleSpec_gotype), (''Status'', AzureAuthEngineRoleStatus_gotype)]"

definition AzureAuthEngineRole_DeepCopyInto :: "(string \<Rightarrow> copier) \<Rightarrow> copier" where
  "AzureAuthEngineRole_DeepCopyInto lib = struct_copy [
     (''TypeMeta'', plain_copy), (''ObjectMeta'', lib ''ObjectMeta''),
     (''Spec'', AzureAuthEngineRoleSpec_DeepCopyInto),
     (''Status'', AzureAuthEngineRoleStatus_DeepCopyInto lib)]"

definition AzureAuthEngineRole_DeepCopy :: "(string \<Rightarrow> copier) \<Rightarrow> copier" where
  "AzureAuthEngineRole_DeepCopy lib = DeepCopy_of (AzureAuthEngineRole_DeepCopyInto lib)"

definition AzureAuthEngineRole_DeepCopyObject :: "(string \<Rightarrow> copier) \<Rightarrow> copier" where
  "AzureAuthEngineRole_DeepCopyObject lib = DeepCopyObject_of (AzureAuthEngineRole_DeepCopy lib)"

lemma deep_AzureAuthEngineRole [simp]: "foreign_deep lib \<Longrightarrow> deep AzureAuthEngineRole_gotype (AzureAuthEngineRole_DeepCopyInto lib)"
  unfolding AzureAuthEngineRole_gotype_def AzureAuthEngineRole_DeepCopyInto_def by (rule deep_struct) (simp add: covers_def)

lemma isolates_AzureAuthEngineRole: "foreign_deep lib \<Longrightarrow> isolates (PtrTo AzureAuthEngineRole_gotype) (AzureAuthEngineRole_DeepCopyObject lib)"
  by (simp add: AzureAuthEngineRole_DeepCopyObject_def AzureAuthEngineRole_DeepCopy_def deep_isolates deep_DeepCopyObject deep_DeepCopy)

definition AzureAuthEngineRoleList_gotype :: gotype where
  "AzureAuthEngineRoleList_gotype = StructOf [
     (''TypeMeta'', Plain), (''ListMeta'', Foreign ''ListMeta''),
     (''Items'', SliceOf AzureAuthEngineRole_gotype)]"

definition AzureAuthEngineRoleList_DeepCopyInto :: "(string \<Rightarrow> copier) \<Rightarrow> copier" where
  "AzureAuthEngineRoleList_DeepCopyInto lib = struct_copy [
     (''TypeMeta'', plain_copy), (''ListMeta'', lib ''ListMeta''),
     (''Items'', slice_copy (AzureAuthEngineRole_DeepCopyInto lib))]"

definition AzureAuthEngineRoleList_DeepCopy :: "(string \<Rightarrow> copier) \<Rightarrow> copier" where
  "AzureAuthEngineRoleList_DeepCopy lib = DeepCopy_of (AzureAuthEngineRoleList_DeepCopyInto lib)"

definition AzureAuthEngineRoleList_DeepCopyObject :: "(string \<Rightarrow> copier) \<Rightarrow> copier" where
  "AzureAuthEngineRoleList_DeepCopyObject lib = DeepCopyObject_of (AzureAuthEngineRoleList_DeepCopy lib)"

lemma deep_AzureAuthEngineRoleList [simp]: "foreign_deep lib \<Longrightarrow> deep AzureAuthEngineRoleList_gotype (AzureAuthEngineRoleList_DeepCopyInto lib)"
  unfolding AzureAuthEngineRoleList_gotype_def AzureAuthEngineRoleList_DeepCopyInto_def by (rule deep_struct) (simp add: covers_def)

lemma isolates_AzureAuthEngineRoleList: "foreign_deep lib \<Longrightarrow> isolates (PtrTo AzureAuthEngineRoleList_gotype) (AzureAuthEngineRoleList_DeepCopyObject lib)"
  by (simp add: AzureAuthEngineRoleList_DeepCopyObject_def AzureAuthEngineRoleList_DeepCopy_def deep_isolates deep_DeepCopyObject deep_DeepCopy)

definition CertAuthEngineConfigInternal_gotype :: gotype where
  "CertAuthEngineConfigInternal_gotype = StructOf [
     (''DisableBinding'', Plain), (''EnableIdentityAliasMetadata'', Plain), (''OCSPCacheSize'', Plain),
     (''RoleCacheSize'', Plain)]"

definition CertAuthEngineConfigInternal_DeepCopyInto :: "copier" where
  "CertAuthEngineConfigInternal_DeepCopyInto = struct_copy []"

definition CertAuthEngineConfigInternal_DeepCopy :: "copier" where
  "CertAuthEngineConfigInternal_DeepCopy = DeepCopy_of CertAuthEngineConfigInternal_DeepCopyInto"

lemma flat_CertAuthEngineConfigInternal [simp]: "flat CertAuthEngineConfigInternal_gotype"
  by (simp add: CertAuthEngineConfigInternal_gotype_def)

lemma deep_CertAuthEngineConfigInternal [simp]: "deep CertAuthEngineConfigInternal_gotype CertAuthEngineConfigInternal_DeepCopyInto"
  unfolding CertAuthEngineConfigInternal_gotype_def CertAuthEngineConfigInternal_DeepCopyInto_def by (rule deep_struct) (simp add: covers_def)

definition CertAuthEngineConfigSpec_gotype :: gotype where
  "CertAuthEngineConfigSpec_gotype = StructOf [
     (''Connection'', PtrTo VaultConnection_gotype), (''Authentication'', KubeAuthConfiguration_gotype),
     (''Path'', Plain), (''Name'', Plain),
     (''CertAuthEngineConfigInternal'', CertAuthEngineConfigInternal_gotype)]"

definition CertAuthEngineConfigSpec_DeepCopyInto :: "copier" where
  "CertAuthEngineConfigSpec_DeepCopyInto = struct_copy [
     (''Connection'', new_copy VaultConnection_DeepCopyInto),
     (''Authentication'', KubeAuthConfiguration_DeepCopyInto), (''CertAuthEngineConfigInternal'', plain_copy)]"

definition CertAuthEngineConfigSpec_DeepCopy :: "copier" where
  "CertAuthEngineConfigSpec_DeepCopy = DeepCopy_of CertAuthEngineConfigSpec_DeepCopyInto"

lemma deep_CertAuthEngineConfigSpec [simp]: "deep CertAuthEngineConfigSpec_gotype CertAuthEngineConfigSpec_DeepCopyInto"
  unfolding CertAuthEngineConfigSpec_gotype_def CertAuthEngineConfigSpec_DeepCopyInto_def by (rule deep_struct) (simp add: covers_def)

definition CertAuthEngineConfigStatus_gotype :: gotype where
  "CertAuthEngineConfigStatus_gotype = StructOf [
     (''Conditions'', SliceOf (Foreign ''Condition''))]"

definition CertAuthEngineConfigStatus_DeepCopyInto :: "(string \<Rightarrow> copier) \<Rightarrow> copier" where
  "CertAuthEngineConfigStatus_DeepCopyInto lib = struct_copy [
     (''Conditions'', slice_copy (lib ''Condition''))]"

definition CertAuthEngineConfigStatus_DeepCopy :: "(string \<Rightarrow> copier) \<Rightarrow> copier" where
  "CertAuthEngineConfigStatus_DeepCopy lib = DeepCopy_of (CertAuthEngineConfigStatus_DeepCopyInto lib)"

lemma deep_CertAuthEngineConfigStatus [simp]: "foreign_deep lib \<Longrightarrow> deep CertAuthEngineConfigStatus_gotype (CertAuthEngineConfigStatus_DeepCopyInto lib)"
  unfolding CertAuthEngineConfigStatus_gotype_def CertAuthEngineConfigStatus_DeepCopyInto_def by (rule deep_struct) (simp add: covers_def)

definition CertAuthEngineConfig_gotype :: gotype where
  "CertAuthEngineConfig_gotype = StructOf [
     (''TypeMeta'', Plain), (''ObjectMeta'', Foreign ''ObjectMeta''),
     (''Spec'', CertAuthEngineConfigSpec_gotype), (''Status'', CertAuthEngineConfigStatus_gotype)]"

definition CertAuthEngineConfig_DeepCopyInto :: "(string \<Rightarrow> copier) \<Rightarrow> copier" where
  "CertAuthEngineConfig_DeepCopyInto lib = struct_copy [
     (''TypeMeta'', plain_copy), (''ObjectMeta'', lib ''ObjectMeta''),
     (''Spec'', CertAuthEngineConfigSpec_DeepCopyInto),
     (''Status'', CertAuthEngineConfigStatus_DeepCopyInto lib)]"

definition CertAuthEngineConfig_DeepCopy :: "(string \<Rightarrow> copier) \<Rightarrow> copier" where
  "CertAuthEngineConfig_DeepCopy lib = DeepCopy_of (CertAuthEngineConfig_DeepCopyInto lib)"

definition CertAuthEngineConfig_DeepCopyObject :: "(string \<Rightarrow> copier) \<Rightarrow> copier" where
  "CertAuthEngineConfig_DeepCopyObject lib = DeepCopyObject_of (CertAuthEngineConfig_DeepCopy lib)"

lemma deep_CertAuthEngineConfig [simp]: "foreign_deep lib \<Longrightarrow> deep CertAuthEngineConfig_gotype (CertAuthEngineConfig_DeepCopyInto lib)"
  unfolding CertAuthEngineConfig_gotype_def CertAuthEngineConfig_DeepCopyInto_def by (rule deep_struct) (simp add: covers_def)

lemma isolates_CertAuthEngineConfig: "foreign_deep lib \<Longrightarrow> isolates (PtrTo CertAuthEngineConfig_gotype) (CertAuthEngineConfig_DeepCopyObject lib)"
  by (simp add: CertAuthEngineConfig_DeepCopyObject_def CertAuthEngineConfig_DeepCopy_def deep_isolates deep_DeepCopyObject deep_DeepCopy)

definition CertAuthEngineConfigList_gotype :: gotype where
  "CertAuthEngineConfigList_gotype = StructOf [
     (''TypeMeta'', Plain), (''ListMeta'', Foreign ''ListMeta''),
     (''Items'', SliceOf CertAuthEngineConfig_gotype)]"

definition CertAuthEngineConfigList_DeepCopyInto :: "(string \<Rightarrow> copier) \<Rightarrow> copier" where
  "CertAuthEngineConfigList_DeepCopyInto lib = struct_copy [
     (''TypeMeta'', plain_copy), (''ListMeta'', lib ''ListMeta''),
     (''Items'', slice_copy (CertAuthEngineConfig_DeepCopyInto lib))]"

definition CertAuthEngineConfigList_DeepCopy :: "(string \<Rightarrow> copier) \<Rightarrow> copier" where
  "CertAuthEngineConfigList_DeepCopy lib = DeepCopy_of (CertAuthEngineConfigList_DeepCopyInto lib)"

definition CertAuthEngineConfigList_DeepCopyObject :: "(string \<Rightarrow> copier) \<Rightarrow> copier" where
  "CertAuthEngineConfigList_DeepCopyObject lib = DeepCopyObject_of (CertAuthEngineConfigList_DeepCopy lib)"

lemma deep_CertAuthEngineConfigList [simp]: "foreign_deep lib \<Longrightarrow> deep CertAuthEngineConfigList_gotype (CertAuthEngineConfigList_DeepCopyInto lib)"
  unfolding CertAuthEngineConfigList_gotype_def CertAuthEngineConfigList_DeepCopyInto_def by (rule deep_struct) (simp add: covers_def)

lemma isolates_CertAuthEngineConfigList: "foreign_deep lib \<Longrightarrow> isolates (PtrTo CertAuthEngineConfigList_gotype) (CertAuthEngineConfigList_DeepCopyObject lib)"
  by (simp add: CertAuthEngineConfigList_DeepCopyObject_def CertAuthEngineConfigList_DeepCopy_def deep_isolates deep_DeepCopyObject deep_DeepCopy)

definition CertAuthEngineRoleInternal_gotype :: gotype where
  "CertAuthEngineRoleInternal_gotype = StructOf [
     (''Certificate'', Plain), (''AllowedCommonNames'', SliceOf Plain), (''AllowedDNSSANs'', SliceOf Plain),
     (''AllowedEmailSANs'', SliceOf Plain), (''AllowedURISANs'', SliceOf Plain),
     (''AllowedOrganizationalUnits'', SliceOf Plain), (''RequiredExtensions'', SliceOf Plain),
     (''AllowedMetadataExtensions'', SliceOf Plain), (''OCSPEnabled'', Plain), (''OCSPCACertificates'', Plain),
     (''OCSPServersOverride'', SliceOf Plain), (''OCSPFailOpen'', Plain), (''OCSPThisUpdateMaxAge'', Plain),
     (''OCSPMaxRetries'', Plain), (''OCSPQueryAllServers'', Plain), (''DisplayName'', Plain),
     (''TokenTTL'', Plain), (''TokenMaxTTL'', Plain), (''TokenPolicies'', SliceOf Plain),
     (''TokenBoundCIDRs'', SliceOf Plain), (''TokenExplicitMaxTTL'', Plain), (''TokenNoDefaultPolicy'', Plain),
     (''TokenNumUses'', Plain), (''TokenPeriod'', Plain), (''TokenType'', Plain)]"

definition CertAuthEngineRoleInternal_DeepCopyInto :: "copier" where
  "CertAuthEngineRoleInternal_DeepCopyInto = struct_copy [
     (''AllowedCommonNames'', slice_copy plain_copy), (''AllowedDNSSANs'', slice_copy plain_copy),
     (''AllowedEmailSANs'', slice_copy plain_copy), (''AllowedURISANs'', slice_copy plain_copy),
     (''AllowedOrganizationalUnits'', slice_copy plain_copy), (''RequiredExtensions'', slice_copy plain_copy),
     (''AllowedMetadataExtensions'', slice_copy plain_copy), (''OCSPServersOverride'', slice_copy plain_copy),
     (''TokenPolicies'', slice_copy plain_copy), (''TokenBoundCIDRs'', slice_copy plain_copy)]"

definition CertAuthEngineRoleInternal_DeepCopy :: "copier" where
  "CertAuthEngineRoleInternal_DeepCopy = DeepCopy_of CertAuthEngineRoleInternal_DeepCopyInto"

lemma deep_CertAuthEngineRoleInternal [simp]: "deep CertAuthEngineRoleInternal_gotype CertAuthEngineRoleInternal_DeepCopyInto"
  unfolding CertAuthEngineRoleInternal_gotype_def CertAuthEngineRoleInternal_DeepCopyInto_def by (rule deep_struct) (simp add: covers_def)

definition CertAuthEngineRoleSpec_gotype :: gotype where
  "CertAuthEngineRoleSpec_gotype = StructOf [
     (''Connection'', PtrTo VaultConnection_gotype), (''Authentication'', KubeAuthConfiguration_gotype),
     (''Path'', Plain), (''Name'', Plain), (''CertAuthEngineRoleInternal'', CertAuthEngineRoleInternal_gotype)]"

definition CertAuthEngineRoleSpec_DeepCopyInto :: "copier" where
  "CertAuthEngineRoleSpec_DeepCopyInto = struct_copy [
     (''Connection'', new_copy VaultConnection_DeepCopyInto),
     (''Authentication'', KubeAuthConfiguration_DeepCopyInto),
     (''CertAuthEngineRoleInternal'', CertAuthEngineRoleInternal_DeepCopyInto)]"

definition CertAuthEngineRoleSpec_DeepCopy :: "copier" where
  "CertAuthEngineRoleSpec_DeepCopy = DeepCopy_of CertAuthEngineRoleSpec_DeepCopyInto"

lemma deep_CertAuthEngineRoleSpec [simp]: "deep CertAuthEngineRoleSpec_gotype CertAuthEngineRoleSpec_DeepCopyInto"
  unfolding CertAuthEngineRoleSpec_gotype_def CertAuthEngineRoleSpec_DeepCopyInto_def by (rule deep_struct) (simp add: covers_def)

definition CertAuthEngineRoleStatus_gotype :: gotype where
  "CertAuthEngineRoleStatus_gotype = StructOf [
     (''Conditions'', SliceOf (Foreign ''Condition''))]"

definition CertAuthEngineRoleStatus_DeepCopyInto :: "(string \<Rightarrow> copier) \<Rightarrow> copier" where
  "CertAuthEngineRoleStatus_DeepCopyInto lib = struct_copy [
     (''Conditions'', slice_copy (lib ''Condition''))]"

definition CertAuthEngineRoleStatus_DeepCopy :: "(string \<Rightarrow> copier) \<Rightarrow> copier" where
  "CertAuthEngineRoleStatus_DeepCopy lib = DeepCopy_of (CertAuthEngineRoleStatus_DeepCopyInto lib)"

lemma deep_CertAuthEngineRoleStatus [simp]: "foreign_deep lib \<Longrightarrow> deep CertAuthEngineRoleStatus_gotype (CertAuthEngineRoleStatus_DeepCopyInto lib)"
  unfolding CertAuthEngineRoleStatus_gotype_def CertAuthEngineRoleStatus_DeepCopyInto_def by (rule deep_struct) (simp add: covers_def)

definition CertAuthEngineRole_gotype :: gotype where
  "CertAuthEngineRole_gotype = StructOf [
     (''TypeMeta'', Plain), (''ObjectMeta'', Foreign ''ObjectMeta''), (''Spec'', CertAuthEngineRoleSpec_gotype),
     (''Status'', CertAuthEngineRoleStatus_gotype)]"

definition CertAuthEngineRole_DeepCopyInto :: "(string \<Rightarrow> copier) \<Rightarrow> copier" where
  "CertAuthEngineRole_DeepCopyInto lib = struct_copy [
     (''TypeMeta'', plain_copy), (''ObjectMeta'', lib ''ObjectMeta''),
     (''Spec'', CertAuthEngineRoleSpec_DeepCopyInto), (''Status'', CertAuthEngineRoleStatus_DeepCopyInto lib)]"

definition CertAuthEngineRole_DeepCopy :: "(string \<Rightarrow> copier) \<Rightarrow> copier" where
  "CertAuthEngineRole_DeepCopy lib = DeepCopy_of (CertAuthEngineRole_DeepCopyInto lib)"

definition CertAuthEngineRole_DeepCopyObject :: "(string \<Rightarrow> copier) \<Rightarrow> copier" where
  "CertAuthEngineRole_DeepCopyObject lib = DeepCopyObject_of (CertAuthEngineRole_DeepCopy lib)"

lemma deep_CertAuthEngineRole [simp]: "foreign_deep lib \<Longrightarrow> deep CertAuthEngineRole_gotype (CertAuthEngineRole_DeepCopyInto lib)"
  unfolding CertAuthEngineRole_gotype_def CertAuthEngineRole_DeepCopyInto_def by (rule deep_struct) (simp add: covers_def)

lemma isolates_CertAuthEngineRole: "foreign_deep lib \<Longrightarrow> isolates (PtrTo CertAuthEngineRole_gotype) (CertAuthEngineRole_DeepCopyObject lib)"
  by (simp add: CertAuthEngineRole_DeepCopyObject_def CertAuthEngineRole_DeepCopy_def deep_isolates deep_DeepCopyObject deep_DeepCopy)

definition CertAuthEngineRoleList_gotype :: gotype where
  "CertAuthEngineRoleList_gotype = StructOf [
     (''TypeMeta'', Plain), (''ListMeta'', Foreign ''ListMeta''),
     (''Items'', SliceOf CertAuthEngineRole_gotype)]"

definition CertAuthEngineRoleList_DeepCopyInto :: "(string \<Rightarrow> copier) \<Rightarrow> copier" where
  "CertAuthEngineRoleList_DeepCopyInto lib = struct_copy [
     (''TypeMeta'', plain_copy), (''ListMeta'', lib ''ListMeta''),
     (''Items'', slice_copy (CertAuthEngineRole_DeepCopyInto lib))]"

definition CertAuthEngineRoleList_DeepCopy :: "(string \<Rightarrow> copier) \<Rightarrow> copier" where
  "CertAuthEngineRoleList_DeepCopy lib = DeepCopy_of (CertAuthEngineRoleList_DeepCopyInto lib)"

definition CertAuthEngineRoleList_DeepCopyObject :: "(string \<Rightarrow> copier) \<Rightarrow> copier" where
  "CertAuthEngineRoleList_DeepCopyObject lib = DeepCopyObject_of (CertAuthEngineRoleList_DeepCopy lib)"

lemma deep_CertAuthEngineRoleList [simp]: "foreign_deep lib \<Longrightarrow> deep CertAuthEngineRoleList_gotype (CertAuthEngineRoleList_DeepCopyInto lib)"
  unfolding CertAuthEngineRoleList_gotype_def CertAuthEngineRoleList_DeepCopyInto_def by (rule deep_struct) (simp add: covers_def)

lemma isolates_CertAuthEngineRoleList: "foreign_deep lib \<Longrightarrow> isolates (PtrTo CertAuthEngineRoleList_gotype) (CertAuthEngineRoleList_DeepCopyObject lib)"
  by (simp add: CertAuthEngineRoleList_DeepCopyObject_def CertAuthEngineRoleList_DeepCopy_def deep_isolates deep_DeepCopyObject deep_DeepCopy)

definition GCPConfig_gotype :: gotype where
  "GCPConfig_gotype = StructOf [
     (''ServiceAccount'', Plain), (''IAMalias'', Plain), (''IAMmetadata'', Plain), (''GCEalias'', Plain),
     (''GCEmetadata'', Plain), (''CustomEndpoint'', PtrTo (Foreign ''JSON'')),
     (''retrievedServiceAccount'', Plain), (''retrievedCredentials'', Plain)]"

definition GCPConfig_DeepCopyInto :: "(string \<Rightarrow> copier) \<Rightarrow> copier" where
  "GCPConfig_DeepCopyInto lib = struct_copy [
     (''CustomEndpoint'', new_copy (lib ''JSON''))]"

definition GCPConfig_DeepCopy :: "(string \<Rightarrow> copier) \<Rightarrow> copier" where
  "GCPConfig_DeepCopy lib = DeepCopy_of (GCPConfig_DeepCopyInto lib)"

lemma deep_GCPConfig [simp]: "foreign_deep lib \<Longrightarrow> deep GCPConfig_gotype (GCPConfig_DeepCopyInto lib)"
  unfolding GCPConfig_gotype_def GCPConfig_DeepCopyInto_def by (rule deep_struct) (simp add: covers_def)

definition GCPAuthEngineConfigSpec_gotype :: gotype where
  "GCPAuthEngineConfigSpec_gotype = StructOf [
     (''Connection'', PtrTo VaultConnection_gotype), (''Authentication'', KubeAuthConfiguration_gotype),
     (''Path'', Plain), (''GCPConfig'', GCPConfig_gotype), (''GCPCredentials'', RootCredentialConfig_gotype)]"

definition GCPAuthEngineConfigSpec_DeepCopyInto :: "(string \<Rightarrow> copier) \<Rightarrow> copier" where
  "GCPAuthEngineConfigSpec_DeepCopyInto lib = struct_copy [
     (''Connection'', new_copy VaultConnection_DeepCopyInto),
     (''Authentication'', KubeAuthConfiguration_DeepCopyInto), (''GCPConfig'', GCPConfig_DeepCopyInto lib),
     (''GCPCredentials'', RootCredentialConfig_DeepCopyInto)]"

definition GCPAuthEngineConfigSpec_DeepCopy :: "(string \<Rightarrow> copier) \<Rightarrow> copier" where
  "GCPAuthEngineConfigSpec_DeepCopy lib = DeepCopy_of (GCPAuthEngineConfigSpec_DeepCopyInto lib)"

lemma deep_GCPAuthEngineConfigSpec [simp]: "foreign_deep lib \<Longrightarrow> deep GCPAuthEngineConfigSpec_gotype (GCPAuthEngineConfigSpec_DeepCopyInto lib)"
  unfolding GCPAuthEngineConfigSpec_gotype_def GCPAuthEngineConfigSpec_DeepCopyInto_def by (rule deep_struct) (simp add: covers_def)

definition GCPAuthEngineConfigStatus_gotype :: gotype where
  "GCPAuthEngineConfigStatus_gotype = StructOf [
     (''Conditions'', SliceOf (Foreign ''Condition''))]"

definition GCPAuthEngineConfigStatus_DeepCopyInto :: "(string \<Rightarrow> copier) \<Rightarrow> copier" where
  "GCPAuthEngineConfigStatus_DeepCopyInto lib = struct_copy [
     (''Conditions'', slice_copy (lib ''Condition''))]"

definition GCPAuthEngineConfigStatus_DeepCopy :: "(string \<Rightarrow> copier) \<Rightarrow> copier" where
  "GCPAuthEngineConfigStatus_DeepCopy lib = DeepCopy_of (GCPAuthEngineConfigStatus_DeepCopyInto lib)"

lemma deep_GCPAuthEngineConfigStatus [simp]: "foreign_deep lib \<Longrightarrow> deep GCPAuthEngineConfigStatus_gotype (GCPAuthEngineConfigStatus_DeepCopyInto lib)"
  unfolding GCPAuthEngineConfigStatus_gotype_def GCPAuthEngineConfigStatus_DeepCopyInto_def by (rule deep_struct) (simp add: covers_def)

definition GCPAuthEngineConfig_gotype :: gotype where
  "GCPAuthEngineConfig_gotype = StructOf [
     (''TypeMeta'', Plain), (''ObjectMeta'', Foreign ''ObjectMeta''),
     (''Spec'', GCPAuthEngineConfigSpec_gotype), (''Status'', GCPAuthEngineConfigStatus_gotype)]"

definition GCPAuthEngineConfig_DeepCopyInto :: "(string \<Rightarrow> copier) \<Rightarrow> copier" where
  "GCPAuthEngineConfig_DeepCopyInto lib = struct_copy [
     (''TypeMeta'', plain_copy), (''ObjectMeta'', lib ''ObjectMeta''),
     (''Spec'', GCPAuthEngineConfigSpec_DeepCopyInto lib),
     (''Status'', GCPAuthEngineConfigStatus_DeepCopyInto lib)]"

definition GCPAuthEngineConfig_DeepCopy :: "(string \<Rightarrow> copier) \<Rightarrow> copier" where
  "GCPAuthEngineConfig_DeepCopy lib = DeepCopy_of (GCPAuthEngineConfig_DeepCopyInto lib)"

definition GCPAuthEngineConfig_DeepCopyObject :: "(string \<Rightarrow> copier) \<Rightarrow> copier" where
  "GCPAuthEngineConfig_DeepCopyObject lib = DeepCopyObject_of (GCPAuthEngineConfig_DeepCopy lib)"

lemma deep_GCPAuthEngineConfig [simp]: "foreign_deep lib \<Longrightarrow> deep GCPAuthEngineConfig_gotype (GCPAuthEngineConfig_DeepCopyInto lib)"
  unfolding GCPAuthEngineConfig_gotype_def GCPAuthEngineConfig_DeepCopyInto_def by (rule deep_struct) (simp add: covers_def)

lemma isolates_GCPAuthEngineConfig: "foreign_deep lib \<Longrightarrow> isolates (PtrTo GCPAuthEngineConfig_gotype) (GCPAuthEngineConfig_DeepCopyObject lib)"
  by (simp add: GCPAuthEngineConfig_DeepCopyObject_def GCPAuthEngineConfig_DeepCopy_def deep_isolates deep_DeepCopyObject deep_DeepCopy)

definition GCPAuthEngineConfigList_gotype :: gotype where
  "GCPAuthEngineConfigList_gotype = StructOf [
     (''TypeMeta'', Plain), (''ListMeta'', Foreign ''ListMeta''),
     (''Items'', SliceOf GCPAuthEngineConfig_gotype)]"

definition GCPAuthEngineConfigList_DeepCopyInto :: "(string \<Rightarrow> copier) \<Rightarrow> copier" where
  "GCPAuthEngineConfigList_DeepCopyInto lib = struct_copy [
     (''TypeMeta'', plain_copy), (''ListMeta'', lib ''ListMeta''),
     (''Items'', slice_copy (GCPAuthEngineConfig_DeepCopyInto lib))]"

definition GCPAuthEngineConfigList_DeepCopy :: "(string \<Rightarrow> copier) \<Rightarrow> copier" where
  "GCPAuthEngineConfigList_DeepCopy lib = DeepCopy_of (GCPAuthEngineConfigList_DeepCopyInto lib)"

definition GCPAuthEngineConfigList_DeepCopyObject :: "(string \<Rightarrow> copier) \<Rightarrow> copier" where
  "GCPAuthEngineConfigList_DeepCopyObject lib = DeepCopyObject_of (GCPAuthEngineConfigList_DeepCopy lib)"

lemma deep_GCPAuthEngineConfigList [simp]: "foreign_deep lib \<Longrightarrow> deep GCPAuthEngineConfigList_gotype (GCPAuthEngineConfigList_DeepCopyInto lib)"
  unfolding GCPAuthEngineConfigList_gotype_def GCPAuthEngineConfigList_DeepCopyInto_def by (rule deep_struct) (simp add: covers_def)

lemma isolates_GCPAuthEngineConfigList: "foreign_deep lib \<Longrightarrow> isolates (PtrTo GCPAuthEngineConfigList_gotype) (GCPAuthEngineConfigList_DeepCopyObject lib)"
  by (simp add: GCPAuthEngineConfigList_DeepCopyObject_def GCPAuthEngineConfigList_DeepCopy_def deep_isolates deep_DeepCopyObject deep_DeepCopy)

definition GCPRole_gotype :: gotype where
  "GCPRole_gotype = StructOf [
     (''Name'', Plain), (''Type'', Plain), (''BoundServiceAccounts'', SliceOf Plain),
     (''BoundProjects'', SliceOf Plain), (''AddGroupAliases'', Plain), (''TokenTTL'', Plain),
     (''TokenMaxTTL'', Plain), (''TokenPolicies'', SliceOf Plain), (''Policies'', SliceOf Plain),
     (''TokenBoundCIDRs'', SliceOf Plain), (''TokenExplicitMaxTTL'', Plain), (''TokenNoDefaultPolicy'', Plain),
     (''TokenNumUses'', Plain), (''TokenPeriod'', Plain), (''TokenType'', Plain), (''MaxJWTExp'', Plain),
     (''AllowGCEInference'', Plain), (''BoundZones'', SliceOf Plain), (''BoundRegions'', SliceOf Plain),
     (''BoundInstanceGroups'', SliceOf Plain), (''BoundLabels'', SliceOf Plain)]"

definition GCPRole_DeepCopyInto :: "copier" where
  "GCPRole_DeepCopyInto = struct_copy [
     (''BoundServiceAccounts'', slice_copy plain_copy), (''BoundProjects'', slice_copy plain_copy),
     (''TokenPolicies'', slice_copy plain_copy), (''Policies'', slice_copy plain_copy),
     (''TokenBoundCIDRs'', slice_copy plain_copy), (''BoundZones'', slice_copy plain_copy),
     (''BoundRegions'', slice_copy plain_copy), (''BoundInstanceGroups'', slice_copy plain_copy),
     (''BoundLabels'', slice_copy plain_copy)]"

definition GCPRole_DeepCopy :: "copier" where
  "GCPRole_DeepCopy = DeepCopy_of GCPRole_DeepCopyInto"

lemma deep_GCPRole [simp]: "deep GCPRole_gotype GCPRole_DeepCopyInto"
  unfolding GCPRole_gotype_def GCPRole_DeepCopyInto_def by (rule deep_struct) (simp add: covers_def)

definition GCPAuthEngineRoleSpec_gotype :: gotype where
  "GCPAuthEngineRoleSpec_gotype = StructOf [
     (''Connection'', PtrTo VaultConnection_gotype), (''Authentication'', KubeAuthConfiguration_gotype),
     (''Path'', Plain), (''GCPRole'', GCPRole_gotype)]"

definition GCPAuthEngineRoleSpec_DeepCopyInto :: "copier" where
  "GCPAuthEngineRoleSpec_DeepCopyInto = struct_copy [
     (''Connection'', new_copy VaultConnection_DeepCopyInto),
     (''Authentication'', KubeAuthConfiguration_DeepCopyInto), (''GCPRole'', GCPRole_DeepCopyInto)]"

definition GCPAuthEngineRoleSpec_DeepCopy :: "copier" where
  "GCPAuthEngineRoleSpec_DeepCopy = DeepCopy_of GCPAuthEngineRoleSpec_DeepCopyInto"

lemma deep_GCPAuthEngineRoleSpec [simp]: "deep GCPAuthEngineRoleSpec_gotype GCPAuthEngineRoleSpec_DeepCopyInto"
  unfolding GCPAuthEngineRoleSpec_gotype_def GCPAuthEngineRoleSpec_DeepCopyInto_def by (rule deep_struct) (simp add: covers_def)

definition GCPAuthEngineRoleStatus_gotype :: gotype where
  "GCPAuthEngineRoleStatus_gotype = StructOf [
     (''Conditions'', SliceOf (Foreign ''Condition''))]"

definition GCPAuthEngineRoleStatus_DeepCopyInto :: "(string \<Rightarrow> copier) \<Rightarrow> copier" where
  "GCPAuthEngineRoleStatus_DeepCopyInto lib = struct_copy [
     (''Conditions'', slice_copy (lib ''Condition''))]"

definition GCPAuthEngineRoleStatus_DeepCopy :: "(string \<Rightarrow> copier) \<Rightarrow> copier" where
  "GCPAuthEngineRoleStatus_DeepCopy lib = DeepCopy_of (GCPAuthEngineRoleStatus_DeepCopyInto lib)"

lemma deep_GCPAuthEngineRoleStatus [simp]: "foreign_deep lib \<Longrightarrow> deep GCPAuthEngineRoleStatus_gotype (GCPAuthEngineRoleStatus_DeepCopyInto lib)"
  unfolding GCPAuthEngineRoleStatus_gotype_def GCPAuthEngineRoleStatus_DeepCopyInto_def by (rule deep_struct) (simp add: covers_def)

definition GCPAuthEngineRole_gotype :: gotype where
  "GCPAuthEngineRole_gotype = StructOf [
     (''TypeMeta'', Plain), (''ObjectMeta'', Foreign ''ObjectMeta''), (''Spec'', GCPAuthEngineRoleSpec_gotype),
     (''Status'', GCPAuthEngineRoleStatus_gotype)]"

definition GCPAuthEngineRole_DeepCopyInto :: "(string \<Rightarrow> copier) \<Rightarrow> copier" where
  "GCPAuthEngineRole_DeepCopyInto lib = struct_copy [
     (''TypeMeta'', plain_copy), (''ObjectMeta'', lib ''ObjectMeta''),
     (''Spec'', GCPAuthEngineRoleSpec_DeepCopyInto), (''Status'', GCPAuthEngineRoleStatus_DeepCopyInto lib)]"

definition GCPAuthEngineRole_DeepCopy :: "(string \<Rightarrow> copier) \<Rightarrow> copier" where
  "GCPAuthEngineRole_DeepCopy lib = DeepCopy_of (GCPAuthEngineRole_DeepCopyInto lib)"

definition GCPAuthEngineRole_DeepCopyObject :: "(string \<Rightarrow> copier) \<Rightarrow> copier" where
  "GCPAuthEngineRole_DeepCopyObject lib = DeepCopyObject_of (GCPAuthEngineRole_DeepCopy lib)"

lemma deep_GCPAuthEngineRole [simp]: "foreign_deep lib \<Longrightarrow> deep GCPAuthEngineRole_gotype (GCPAuthEngineRole_DeepCopyInto lib)"
  unfolding GCPAuthEngineRole_gotype_def GCPAuthEngineRole_DeepCopyInto_def by (rule deep_struct) (simp add: covers_def)

lemma isolates_GCPAuthEngineRole: "foreign_deep lib \<Longrightarrow> isolates (PtrTo GCPAuthEngineRole_gotype) (GCPAuthEngineRole_DeepCopyObject lib)"
  by (simp add: GCPAuthEngineRole_DeepCopyObject_def GCPAuthEngineRole_DeepCopy_def deep_isolates deep_DeepCopyObject deep_DeepCopy)

definition GCPAuthEngineRoleList_gotype :: gotype where
  "GCPAuthEngineRoleList_gotype = StructOf [
     (''TypeMeta'', Plain), (''ListMeta'', Foreign ''ListMeta''),
     (''Items'', SliceOf GCPAuthEngineRole_gotype)]"

definition GCPAuthEngineRoleList_DeepCopyInto :: "(string \<Rightarrow> copier) \<Rightarrow> copier" where
  "GCPAuthEngineRoleList_DeepCopyInto lib = struct_copy [
     (''TypeMeta'', plain_copy), (''ListMeta'', lib ''ListMeta''),
     (''Items'', slice_copy (GCPAuthEngineRole_DeepCopyInto lib))]"

definition GCPAuthEngineRoleList_DeepCopy :: "(string \<Rightarrow> copier) \<Rightarrow> copier" where
  "GCPAuthEngineRoleList_DeepCopy lib = DeepCopy_of (GCPAuthEngineRoleList_DeepCopyInto lib)"

definition GCPAuthEngineRoleList_DeepCopyObject :: "(string \<Rightarrow> copier) \<Rightarrow> copier" where
  "GCPAuthEngineRoleList_DeepCopyObject lib = DeepCopyObject_of (GCPAuthEngineRoleList_DeepCopy lib)"

lemma deep_GCPAuthEngineRoleList [simp]: "foreign_deep lib \<Longrightarrow> deep GCPAuthEngineRoleList_gotype (GCPAuthEngineRoleList_DeepCopyInto lib)"
  unfolding GCPAuthEngineRoleList_gotype_def GCPAuthEngineRoleList_DeepCopyInto_def by (rule deep_struct) (simp add: covers_def)

lemma isolates_GCPAuthEngineRoleList: "foreign_deep lib \<Longrightarrow> isolates (PtrTo GCPAuthEngineRoleList_gotype) (GCPAuthEngineRoleList_DeepCopyObject lib)"
  by (simp add: GCPAuthEngineRoleList_DeepCopyObject_def GCPAuthEngineRoleList_DeepCopy_def deep_isolates deep_DeepCopyObject deep_DeepCopy)

definition JWTOIDCConfig_gotype :: gotype where
  "JWTOIDCConfig_gotype = StructOf [
     (''OIDCDiscoveryURL'', Plain), (''OIDCDiscoveryCAPEM'', Plain), (''OIDCClientID'', Plain),
     (''OIDCResponseMode'', Plain), (''OIDCResponseTypes'', SliceOf Plain), (''JWKSURL'', Plain),
     (''JWKSCAPEM'', Plain), (''JWTValidationPubKeys'', SliceOf Plain), (''BoundIssuer'', Plain),
     (''JWTSupportedAlgs'', SliceOf Plain), (''DefaultRole'', Plain),
     (''ProviderConfig'', PtrTo (Foreign ''JSON'')), (''NamespaceInState'', Plain),
     (''retrievedClientID'', Plain), (''retrievedClientPassword'', Plain)]"

definition JWTOIDCConfig_DeepCopyInto :: "(string \<Rightarrow> copier) \<Rightarrow> copier" where
  "JWTOIDCConfig_DeepCopyInto lib = struct_copy [
     (''OIDCResponseTypes'', slice_copy plain_copy), (''JWTValidationPubKeys'', slice_copy plain_copy),
     (''JWTSupportedAlgs'', slice_copy plain_copy), (''ProviderConfig'', new_copy (lib ''JSON''))]"

definition JWTOIDCConfig_DeepCopy :: "(string \<Rightarrow> copier) \<Rightarrow> copier" where
  "JWTOIDCConfig_DeepCopy lib = DeepCopy_of (JWTOIDCConfig_DeepCopyInto lib)"

lemma deep_JWTOIDCConfig [simp]: "foreign_deep lib \<Longrightarrow> deep JWTOIDCConfig_gotype (JWTOIDCConfig_DeepCopyInto lib)"
  unfolding JWTOIDCConfig_gotype_def JWTOIDCConfig_DeepCopyInto_def by (rule deep_struct) (simp add: covers_def)

definition JWTOIDCAuthEngineConfigSpec_gotype :: gotype where
  "JWTOIDCAuthEngineConfigSpec_gotype = StructOf [
     (''Connection'', PtrTo VaultConnection_gotype), (''Authentication'', KubeAuthConfiguration_gotype),
     (''Path'', Plain), (''JWTOIDCConfig'', JWTOIDCConfig_gotype),
     (''OIDCCredentials'', PtrTo RootCredentialConfig_gotype)]"

definition JWTOIDCAuthEngineConfigSpec_DeepCopyInto :: "(string \<Rightarrow> copier) \<Rightarrow> copier" where
  "JWTOIDCAuthEngineConfigSpec_DeepCopyInto lib = struct_copy [
     (''Connection'', new_copy VaultConnection_DeepCopyInto),
     (''Authentication'', KubeAuthConfiguration_DeepCopyInto),
     (''JWTOIDCConfig'', JWTOIDCConfig_DeepCopyInto lib),
     (''OIDCCredentials'', new_copy RootCredentialConfig_DeepCopyInto)]"

definition JWTOIDCAuthEngineConfigSpec_DeepCopy :: "(string \<Rightarrow> copier) \<Rightarrow> copier" where
  "JWTOIDCAuthEngineConfigSpec_DeepCopy lib = DeepCopy_of (JWTOIDCAuthEngineConfigSpec_DeepCopyInto lib)"

lemma deep_JWTOIDCAuthEngineConfigSpec [simp]: "foreign_deep lib \<Longrightarrow> deep JWTOIDCAuthEngineConfigSpec_gotype (JWTOIDCAuthEngineConfigSpec_DeepCopyInto lib)"
  unfolding JWTOIDCAuthEngineConfigSpec_gotype_def JWTOIDCAuthEngineConfigSpec_DeepCopyInto_def by (rule deep_struct) (simp add: covers_def)

definition JWTOIDCAuthEngineConfigStatus_gotype :: gotype where
  "JWTOIDCAuthEngineConfigStatus_gotype = StructOf [
     (''Conditions'', SliceOf (Foreign ''Condition''))]"

definition JWTOIDCAuthEngineConfigStatus_DeepCopyInto :: "(string \<Rightarrow> copier) \<Rightarrow> copier" where
  "JWTOIDCAuthEngineConfigStatus_DeepCopyInto lib = struct_copy [
     (''Conditions'', slice_copy (lib ''Condition''))]"

definition JWTOIDCAuthEngineConfigStatus_DeepCopy :: "(string \<Rightarrow> copier) \<Rightarrow> copier" where
  "JWTOIDCAuthEngineConfigStatus_DeepCopy lib = DeepCopy_of (JWTOIDCAuthEngineConfigStatus_DeepCopyInto lib)"

lemma deep_JWTOIDCAuthEngineConfigStatus [simp]: "foreign_deep lib \<Longrightarrow> deep JWTOIDCAuthEngineConfigStatus_gotype (JWTOIDCAuthEngineConfigStatus_DeepCopyInto lib)"
  unfolding JWTOIDCAuthEngineConfigStatus_gotype_def JWTOIDCAuthEngineConfigStatus_DeepCopyInto_def by (rule deep_struct) (simp add: covers_def)

definition JWTOIDCAuthEngineConfig_gotype :: gotype where
  "JWTOIDCAuthEngineConfig_gotype = StructOf [
     (''TypeMeta'', Plain), (''ObjectMeta'', Foreign ''ObjectMeta''),
     (''Spec'', JWTOIDCAuthEngineConfigSpec_gotype), (''Status'', JWTOIDCAuthEngineConfigStatus_gotype)]"

definition JWTOIDCAuthEngineConfig_DeepCopyInto :: "(string \<Rightarrow> copier) \<Rightarrow> copier" where
  "JWTOIDCAuthEngineConfig_DeepCopyInto lib = struct_copy [
     (''TypeMeta'', plain_copy), (''ObjectMeta'', lib ''ObjectMeta''),
     (''Spec'', JWTOIDCAuthEngineConfigSpec_DeepCopyInto lib),
     (''Status'', JWTOIDCAuthEngineConfigStatus_DeepCopyInto lib)]"

definition JWTOIDCAuthEngineConfig_DeepCopy :: "(string \<Rightarrow> copier) \<Rightarrow> copier" where
  "JWTOIDCAuthEngineConfig_DeepCopy lib = DeepCopy_of (JWTOIDCAuthEngineConfig_DeepCopyInto lib)"

definition JWTOIDCAuthEngineConfig_DeepCopyObject :: "(string \<Rightarrow> copier) \<Rightarrow> copier" where
  "JWTOIDCAuthEngineConfig_DeepCopyObject lib = DeepCopyObject_of (JWTOIDCAuthEngineConfig_DeepCopy lib)"

lemma deep_JWTOIDCAuthEngineConfig [simp]: "foreign_deep lib \<Longrightarrow> deep JWTOIDCAuthEngineConfig_gotype (JWTOIDCAuthEngineConfig_DeepCopyInto lib)"
  unfolding JWTOIDCAuthEngineConfig_gotype_def JWTOIDCAuthEngineConfig_DeepCopyInto_def by (rule deep_struct) (simp add: covers_def)

lemma isolates_JWTOIDCAuthEngineConfig: "foreign_deep lib \<Longrightarrow> isolates (PtrTo JWTOIDCAuthEngineConfig_gotype) (JWTOIDCAuthEngineConfig_DeepCopyObject lib)"
  by (simp add: JWTOIDCAuthEngineConfig_DeepCopyObject_def JWTOIDCAuthEngineConfig_DeepCopy_def deep_isolates deep_DeepCopyObject deep_DeepCopy)

definition JWTOIDCAuthEngineConfigList_gotype :: gotype where
  "JWTOIDCAuthEngineConfigList_gotype = StructOf [
     (''TypeMeta'', Plain), (''ListMeta'', Foreign ''ListMeta''),
     (''Items'', SliceOf JWTOIDCAuthEngineConfig_gotype)]"

definition JWTOIDCAuthEngineConfigList_DeepCopyInto :: "(string \<Rightarrow> copier) \<Rightarrow> copier" where
  "JWTOIDCAuthEngineConfigList_DeepCopyInto lib = struct_copy [
     (''TypeMeta'', plain_copy), (''ListMeta'', lib ''ListMeta''),
     (''Items'', slice_copy (JWTOIDCAuthEngineConfig_DeepCopyInto lib))]"

definition JWTOIDCAuthEngineConfigList_DeepCopy :: "(string \<Rightarrow> copier) \<Rightarrow> copier" where
  "JWTOIDCAuthEngineConfigList_DeepCopy lib = DeepCopy_of (JWTOIDCAuthEngineConfigList_DeepCopyInto lib)"

definition JWTOIDCAuthEngineConfigList_DeepCopyObject :: "(string \<Rightarrow> copier) \<Rightarrow> copier" where
  "JWTOIDCAuthEngineConfigList_DeepCopyObject lib = DeepCopyObject_of (JWTOIDCAuthEngineConfigList_DeepCopy lib)"

lemma deep_JWTOIDCAuthEngineConfigList [simp]: "foreign_deep lib \<Longrightarrow> deep JWTOIDCAuthEngineConfigList_gotype (JWTOIDCAuthEngineConfigList_DeepCopyInto lib)"
  unfolding JWTOIDCAuthEngineConfigList_gotype_def JWTOIDCAuthEngineConfigList_DeepCopyInto_def by (rule deep_struct) (simp add: covers_def)

lemma isolates_JWTOIDCAuthEngineConfigList: "foreign_deep lib \<Longrightarrow> isolates (PtrTo JWTOIDCAuthEngineConfigList_gotype) (JWTOIDCAuthEngineConfigList_DeepCopyObject lib)"
  by (simp add: JWTOIDCAuthEngineConfigList_DeepCopyObject_def JWTOIDCAuthEngineConfigList_DeepCopy_def deep_isolates deep_DeepCopyObject deep_DeepCopy)

definition JWTOIDCRole_gotype :: gotype where
  "JWTOIDCRole_gotype = StructOf [
     (''Name'', Plain), (''RoleType'', Plain), (''BoundAudiences'', SliceOf Plain), (''UserClaim'', Plain),
     (''UserClaimJSONPointer'', Plain), (''ClockSkewLeeway'', Plain), (''ExpirationLeeway'', Plain),
     (''NotBeforeLeeway'', Plain), (''BoundSubject'', Plain), (''BoundClaims'', PtrTo (Foreign ''JSON'')),
     (''BoundClaimsType'', Plain), (''GroupsClaim'', Plain), (''ClaimMappings'', MapTo Plain),
     (''OIDCScopes'', SliceOf Plain), (''AllowedRedirectURIs'', SliceOf Plain), (''VerboseOIDCLogging'', Plain),
     (''MaxAge'', Plain), (''TokenTTL'', Plain), (''TokenMaxTTL'', Plain), (''TokenPolicies'', SliceOf Plain),
     (''TokenBoundCIDRs'', SliceOf Plain), (''TokenExplicitMaxTTL'', Plain), (''TokenNoDefaultPolicy'', Plain),
     (''TokenNumUses'', Plain), (''TokenPeriod'', Plain), (''TokenType'', Plain)]"

definition JWTOIDCRole_DeepCopyInto :: "(string \<Rightarrow> copier) \<Rightarrow> copier" where
  "JWTOIDCRole_DeepCopyInto lib = struct_copy [
     (''BoundAudiences'', slice_copy plain_copy), (''BoundClaims'', new_copy (lib ''JSON'')),
     (''ClaimMappings'', map_copy plain_copy), (''OIDCScopes'', slice_copy plain_copy),
     (''AllowedRedirectURIs'', slice_copy plain_copy), (''TokenPolicies'', slice_copy plain_copy),
     (''TokenBoundCIDRs'', slice_copy plain_copy)]"

definition JWTOIDCRole_DeepCopy :: "(string \<Rightarrow> copier) \<Rightarrow> copier" where
  "JWTOIDCRole_DeepCopy lib = DeepCopy_of (JWTOIDCRole_DeepCopyInto lib)"

lemma deep_JWTOIDCRole [simp]: "foreign_deep lib \<Longrightarrow> deep JWTOIDCRole_gotype (JWTOIDCRole_DeepCopyInto lib)"
  unfolding JWTOIDCRole_gotype_def JWTOIDCRole_DeepCopyInto_def by (rule deep_struct) (simp add: covers_def)

definition JWTOIDCAuthEngineRoleSpec_gotype :: gotype where
  "JWTOIDCAuthEngineRoleSpec_gotype = StructOf [
     (''Connection'', PtrTo VaultConnection_gotype), (''Authentication'', KubeAuthConfiguration_gotype),
     (''Path'', Plain), (''JWTOIDCRole'', JWTOIDCRole_gotype)]"

definition JWTOIDCAuthEngineRoleSpec_DeepCopyInto :: "(string \<Rightarrow> copier) \<Rightarrow> copier" where
  "JWTOIDCAuthEngineRoleSpec_DeepCopyInto lib = struct_copy [
     (''Connection'', new_copy VaultConnection_DeepCopyInto),
     (''Authentication'', KubeAuthConfiguration_DeepCopyInto), (''JWTOIDCRole'', JWTOIDCRole_DeepCopyInto lib)]"

definition JWTOIDCAuthEngineRoleSpec_DeepCopy :: "(string \<Rightarrow> copier) \<Rightarrow> copier" where
  "JWTOIDCAuthEngineRoleSpec_DeepCopy lib = DeepCopy_of (JWTOIDCAuthEngineRoleSpec_DeepCopyInto lib)"

lemma deep_JWTOIDCAuthEngineRoleSpec [simp]: "foreign_deep lib \<Longrightarrow> deep JWTOIDCAuthEngineRoleSpec_gotype (JWTOIDCAuthEngineRoleSpec_DeepCopyInto lib)"
  unfolding JWTOIDCAuthEngineRoleSpec_gotype_def JWTOIDCAuthEngineRoleSpec_DeepCopyInto_def by (rule deep_struct) (simp add: covers_def)

definition JWTOIDCAuthEngineRoleStatus_gotype :: gotype where
  "JWTOIDCAuthEngineRoleStatus_gotype = StructOf [
     (''Conditions'', SliceOf (Foreign ''Condition''))]"

definition JWTOIDCAuthEngineRoleStatus_DeepCopyInto :: "(string \<Rightarrow> copier) \<Rightarrow> copier" where
  "JWTOIDCAuthEngineRoleStatus_DeepCopyInto lib = struct_copy [
     (''Conditions'', slice_copy (lib ''Condition''))]"

definition JWTOIDCAuthEngineRoleStatus_DeepCopy :: "(string \<Rightarrow> copier) \<Rightarrow> copier" where
  "JWTOIDCAuthEngineRoleStatus_DeepCopy lib = DeepCopy_of (JWTOIDCAuthEngineRoleStatus_DeepCopyInto lib)"

lemma deep_JWTOIDCAuthEngineRoleStatus [simp]: "foreign_deep lib \<Longrightarrow> deep JWTOIDCAuthEngineRoleStatus_gotype (JWTOIDCAuthEngineRoleStatus_DeepCopyInto lib)"
  unfolding JWTOIDCAuthEngineRoleStatus_gotype_def JWTOIDCAuthEngineRoleStatus_DeepCopyInto_def by (rule deep_struct) (simp add: covers_def)

definition JWTOIDCAuthEngineRole_gotype :: gotype where
  "JWTOIDCAuthEngineRole_gotype = StructOf [
     (''TypeMeta'', Plain), (''ObjectMeta'', Foreign ''ObjectMeta''),
     (''Spec'', JWTOIDCAuthEngineRoleSpec_gotype), (''Status'', JWTOIDCAuthEngineRoleStatus_gotype)]"

definition JWTOIDCAuthEngineRole_DeepCopyInto :: "(string \<Rightarrow> copier) \<Rightarrow> copier" where
  "JWTOIDCAuthEngineRole_DeepCopyInto lib = struct_copy [
     (''TypeMeta'', plain_copy), (''ObjectMeta'', lib ''ObjectMeta''),
     (''Spec'', JWTOIDCAuthEngineRoleSpec_DeepCopyInto lib),
     (''Status'', JWTOIDCAuthEngineRoleStatus_DeepCopyInto lib)]"

definition JWTOIDCAuthEngineRole_DeepCopy :: "(string \<Rightarrow> copier) \<Rightarrow> copier" where
  "JWTOIDCAuthEngineRole_DeepCopy lib = DeepCopy_of (JWTOIDCAuthEngineRole_DeepCopyInto lib)"

definition JWTOIDCAuthEngineRole_DeepCopyObject :: "(string \<Rightarrow> copier) \<Rightarrow> copier" where
  "JWTOIDCAuthEngineRole_DeepCopyObject lib = DeepCopyObject_of (JWTOIDCAuthEngineRole_DeepCopy lib)"

lemma deep_JWTOIDCAuthEngineRole [simp]: "foreign_deep lib \<Longrightarrow> deep JWTOIDCAuthEngineRole_gotype (JWTOIDCAuthEngineRole_DeepCopyInto lib)"
  unfolding JWTOIDCAuthEngineRole_gotype_def JWTOIDCAuthEngineRole_DeepCopyInto_def by (rule deep_struct) (simp add: covers_def)

lemma isolates_JWTOIDCAuthEngineRole: "foreign_deep lib \<Longrightarrow> isolates (PtrTo JWTOIDCAuthEngineRole_gotype) (JWTOIDCAuthEngineRole_DeepCopyObject lib)"
  by (simp add: JWTOIDCAuthEngineRole_DeepCopyObject_def JWTOIDCAuthEngineRole_DeepCopy_def deep_isolates deep_DeepCopyObject deep_DeepCopy)

definition JWTOIDCAuthEngineRoleList_gotype :: gotype where
  "JWTOIDCAuthEngineRoleList_gotype = StructOf [
     (''TypeMeta'', Plain), (''ListMeta'', Foreign ''ListMeta''),
     (''Items'', SliceOf JWTOIDCAuthEngineRole_gotype)]"

definition JWTOIDCAuthEngineRoleList_DeepCopyInto :: "(string \<Rightarrow> copier) \<Rightarrow> copier" where
  "JWTOIDCAuthEngineRoleList_DeepCopyInto lib = struct_copy [
     (''TypeMeta'', plain_copy), (''ListMeta'', lib ''ListMeta''),
     (''Items'', slice_copy (JWTOIDCAuthEngineRole_DeepCopyInto lib))]"

definition JWTOIDCAuthEngineRoleList_DeepCopy :: "(string \<Rightarrow> copier) \<Rightarrow> copier" where
  "JWTOIDCAuthEngineRoleList_DeepCopy lib = DeepCopy_of (JWTOIDCAuthEngineRoleList_DeepCopyInto lib)"

definition JWTOIDCAuthEngineRoleList_DeepCopyObject :: "(string \<Rightarrow> copier) \<Rightarrow> copier" where
  "JWTOIDCAuthEngineRoleList_DeepCopyObject lib = DeepCopyObject_of (JWTOIDCAuthEngineRoleList_DeepCopy lib)"

lemma deep_JWTOIDCAuthEngineRoleList [simp]: "foreign_deep lib \<Longrightarrow> deep JWTOIDCAuthEngineRoleList_gotype (JWTOIDCAuthEngineRoleList_DeepCopyInto lib)"
  unfolding JWTOIDCAuthEngineRoleList_gotype_def JWTOIDCAuthEngineRoleList_DeepCopyInto_def by (rule deep_struct) (simp add: covers_def)

lemma isolates_JWTOIDCAuthEngineRoleList: "foreign_deep lib \<Longrightarrow> isolates (PtrTo JWTOIDCAuthEngineRoleList_gotype) (JWTOIDCAuthEngineRoleList_DeepCopyObject lib)"
  by (simp add: JWTOIDCAuthEngineRoleList_DeepCopyObject_def JWTOIDCAuthEngineRoleList_DeepCopy_def deep_isolates deep_DeepCopyObject deep_DeepCopy)

definition KAECConfig_gotype :: gotype where
  "KAECConfig_gotype = StructOf [
     (''KubernetesHost'', Plain), (''KubernetesCACert'', Plain), (''PEMKeys'', SliceOf Plain),
     (''Issuer'', Plain), (''DisableISSValidation'', Plain), (''DisableLocalCAJWT'', Plain),
     (''UseOperatorPodCA'', Plain), (''UseAnnotationsAsAliasMetadata'', Plain),
     (''retrievedTokenReviewerJWT'', Plain)]"

definition KAECConfig_DeepCopyInto :: "copier" where
  "KAECConfig_DeepCopyInto = struct_copy [
     (''PEMKeys'', slice_copy plain_copy)]"

definition KAECConfig_DeepCopy :: "copier" where
  "KAECConfig_DeepCopy = DeepCopy_of KAECConfig_DeepCopyInto"

lemma deep_KAECConfig [simp]: "deep KAECConfig_gotype KAECConfig_DeepCopyInto"
  unfolding KAECConfig_gotype_def KAECConfig_DeepCopyInto_def by (rule deep_struct) (simp add: covers_def)

definition KubernetesAuthEngineConfigSpec_gotype :: gotype where
  "KubernetesAuthEngineConfigSpec_gotype = StructOf [
     (''Connection'', PtrTo VaultConnection_gotype), (''Authentication'', KubeAuthConfiguration_gotype),
     (''Path'', Plain), (''KAECConfig'', KAECConfig_gotype), (''TokenReviewerServiceAccount'', PtrTo Plain),
     (''Name'', Plain)]"

definition KubernetesAuthEngineConfigSpec_DeepCopyInto :: "copier" where
  "KubernetesAuthEngineConfigSpec_DeepCopyInto = struct_copy [
     (''Connection'', new_copy VaultConnection_DeepCopyInto),
     (''Authentication'', KubeAuthConfiguration_DeepCopyInto), (''KAECConfig'', KAECConfig_DeepCopyInto),
     (''TokenReviewerServiceAccount'', new_copy plain_copy)]"

definition KubernetesAuthEngineConfigSpec_DeepCopy :: "copier" where
  "KubernetesAuthEngineConfigSpec_DeepCopy = DeepCopy_of KubernetesAuthEngineConfigSpec_DeepCopyInto"

lemma deep_KubernetesAuthEngineConfigSpec [simp]: "deep KubernetesAuthEngineConfigSpec_gotype KubernetesAuthEngineConfigSpec_DeepCopyInto"
  unfolding KubernetesAuthEngineConfigSpec_gotype_def KubernetesAuthEngineConfigSpec_DeepCopyInto_def by (rule deep_struct) (simp add: covers_def)

definition KubernetesAuthEngineConfigStatus_gotype :: gotype where
  "KubernetesAuthEngineConfigStatus_gotype = StructOf [
     (''Conditions'', SliceOf (Foreign ''Condition''))]"

definition KubernetesAuthEngineConfigStatus_DeepCopyInto :: "(string \<Rightarrow> copier) \<Rightarrow> copier" where
  "KubernetesAuthEngineConfigStatus_DeepCopyInto lib = struct_copy [
     (''Conditions'', slice_copy (lib ''Condition''))]"

definition KubernetesAuthEngineConfigStatus_DeepCopy :: "(string \<Rightarrow> copier) \<Rightarrow> copier" where
  "KubernetesAuthEngineConfigStatus_DeepCopy lib = DeepCopy_of (KubernetesAuthEngineConfigStatus_DeepCopyInto lib)"

lemma deep_KubernetesAuthEngineConfigStatus [simp]: "foreign_deep lib \<Longrightarrow> deep KubernetesAuthEngineConfigStatus_gotype (KubernetesAuthEngineConfigStatus_DeepCopyInto lib)"
  unfolding KubernetesAuthEngineConfigStatus_gotype_def KubernetesAuthEngineConfigStatus_DeepCopyInto_def by (rule deep_struct) (simp add: covers_def)

definition KubernetesAuthEngineConfig_gotype :: gotype where
  "KubernetesAuthEngineConfig_gotype = StructOf [
     (''TypeMeta'', Plain), (''ObjectMeta'', Foreign ''ObjectMeta''),
     (''Spec'', KubernetesAuthEngineConfigSpec_gotype), (''Status'', KubernetesAuthEngineConfigStatus_gotype)]"

definition KubernetesAuthEngineConfig_DeepCopyInto :: "(string \<Rightarrow> copier) \<Rightarrow> copier" where
  "KubernetesAuthEngineConfig_DeepCopyInto lib = struct_copy [
     (''TypeMeta'', plain_copy), (''ObjectMeta'', lib ''ObjectMeta''),
     (''Spec'', KubernetesAuthEngineConfigSpec_DeepCopyInto),
     (''Status'', KubernetesAuthEngineConfigStatus_DeepCopyInto lib)]"

definition KubernetesAuthEngineConfig_DeepCopy :: "(string \<Rightarrow> copier) \<Rightarrow> copier" where
  "KubernetesAuthEngineConfig_DeepCopy lib = DeepCopy_of (KubernetesAuthEngineConfig_DeepCopyInto lib)"

definition KubernetesAuthEngineConfig_DeepCopyObject :: "(string \<Rightarrow> copier) \<Rightarrow> copier" where
  "KubernetesAuthEngineConfig_DeepCopyObject lib = DeepCopyObject_of (KubernetesAuthEngineConfig_DeepCopy lib)"

lemma deep_KubernetesAuthEngineConfig [simp]: "foreign_deep lib \<Longrightarrow> deep KubernetesAuthEngineConfig_gotype (KubernetesAuthEngineConfig_DeepCopyInto lib)"
  unfolding KubernetesAuthEngineConfig_gotype_def KubernetesAuthEngineConfig_DeepCopyInto_def by (rule deep_struct) (simp add: covers_def)

lemma isolates_KubernetesAuthEngineConfig: "foreign_deep lib \<Longrightarrow> isolates (PtrTo KubernetesAuthEngineConfig_gotype) (KubernetesAuthEngineConfig_DeepCopyObject lib)"
  by (simp add: KubernetesAuthEngineConfig_DeepCopyObject_def KubernetesAuthEngineConfig_DeepCopy_def deep_isolates deep_DeepCopyObject deep_DeepCopy)

definition KubernetesAuthEngineConfigList_gotype :: gotype where
  "KubernetesAuthEngineConfigList_gotype = StructOf [
     (''TypeMeta'', Plain), (''ListMeta'', Foreign ''ListMeta''),
     (''Items'', SliceOf KubernetesAuthEngineConfig_gotype)]"

definition KubernetesAuthEngineConfigList_DeepCopyInto :: "(string \<Rightarrow> copier) \<Rightarrow> copier" where
  "KubernetesAuthEngineConfigList_DeepCopyInto lib = struct_copy [
     (''TypeMeta'', plain_copy), (''ListMeta'', lib ''ListMeta''),
     (''Items'', slice_copy (KubernetesAuthEngineConfig_DeepCopyInto lib))]"

definition KubernetesAuthEngineConfigList_DeepCopy :: "(string \<Rightarrow> copier) \<Rightarrow> copier" where
  "KubernetesAuthEngineConfigList_DeepCopy lib = DeepCopy_of (KubernetesAuthEngineConfigList_DeepCopyInto lib)"

definition KubernetesAuthEngineConfigList_DeepCopyObject :: "(string \<Rightarrow> copier) \<Rightarrow> copier" where
  "KubernetesAuthEngineConfigList_DeepCopyObject lib = DeepCopyObject_of (KubernetesAuthEngineConfigList_DeepCopy lib)"

lemma deep_KubernetesAuthEngineConfigList [simp]: "foreign_deep lib \<Longrightarrow> deep KubernetesAuthEngineConfigList_gotype (KubernetesAuthEngineConfigList_DeepCopyInto lib)"
  unfolding KubernetesAuthEngineConfigList_gotype_def KubernetesAuthEngineConfigList_DeepCopyInto_def by (rule deep_struct) (simp add: covers_def)

lemma isolates_KubernetesAuthEngineConfigList: "foreign_deep lib \<Longrightarrow> isolates (PtrTo KubernetesAuthEngineConfigList_gotype) (KubernetesAuthEngineConfigList_DeepCopyObject lib)"
  by (simp add: KubernetesAuthEngineConfigList_DeepCopyObject_def KubernetesAuthEngineConfigList_DeepCopy_def deep_isolates deep_DeepCopyObject deep_DeepCopy)

definition VRole_gotype :: gotype where
  "VRole_gotype = StructOf [
     (''TargetServiceAccounts'', SliceOf Plain), (''Audience'', PtrTo Plain), (''AliasNameSource'', Plain),
     (''TokenTTL'', Plain), (''Policies'', SliceOf Plain), (''TokenMaxTTL'', Plain),
     (''TokenBoundCIDRs'', SliceOf Plain), (''TokenExplicitMaxTTL'', Plain), (''TokenNoDefaultPolicy'', Plain),
     (''TokenNumUses'', Plain), (''TokenPeriod'', Plain), (''TokenType'', Plain),
     (''namespaces'', SliceOf Plain)]"

definition VRole_DeepCopyInto :: "copier" where
  "VRole_DeepCopyInto = struct_copy [
     (''TargetServiceAccounts'', slice_copy plain_copy), (''Audience'', new_copy plain_copy),
     (''Policies'', slice_copy plain_copy), (''TokenBoundCIDRs'', slice_copy plain_copy),
     (''namespaces'', slice_copy plain_copy)]"

definition VRole_DeepCopy :: "copier" where
  "VRole_DeepCopy = DeepCopy_of VRole_DeepCopyInto"

lemma deep_VRole [simp]: "deep VRole_gotype VRole_DeepCopyInto"
  unfolding VRole_gotype_def VRole_DeepCopyInto_def by (rule deep_struct) (simp add: covers_def)

definition KubernetesAuthEngineRoleSpec_gotype :: gotype where
  "KubernetesAuthEngineRoleSpec_gotype = StructOf [
     (''Connection'', PtrTo VaultConnection_gotype), (''Authentication'', KubeAuthConfiguration_gotype),
     (''Path'', Plain), (''VRole'', VRole_gotype), (''TargetNamespaces'', TargetNamespaceConfig_gotype),
     (''Name'', Plain)]"

definition KubernetesAuthEngineRoleSpec_DeepCopyInto :: "(string \<Rightarrow> copier) \<Rightarrow> copier" where
  "KubernetesAuthEngineRoleSpec_DeepCopyInto lib = struct_copy [
     (''Connection'', new_copy VaultConnection_DeepCopyInto),
     (''Authentication'', KubeAuthConfiguration_DeepCopyInto), (''VRole'', VRole_DeepCopyInto),
     (''TargetNamespaces'', TargetNamespaceConfig_DeepCopyInto lib)]"

definition KubernetesAuthEngineRoleSpec_DeepCopy :: "(string \<Rightarrow> copier) \<Rightarrow> copier" where
  "KubernetesAuthEngineRoleSpec_DeepCopy lib = DeepCopy_of (KubernetesAuthEngineRoleSpec_DeepCopyInto lib)"

lemma deep_KubernetesAuthEngineRoleSpec [simp]: "foreign_deep lib \<Longrightarrow> deep KubernetesAuthEngineRoleSpec_gotype (KubernetesAuthEngineRoleSpec_DeepCopyInto lib)"
  unfolding KubernetesAuthEngineRoleSpec_gotype_def KubernetesAuthEngineRoleSpec_DeepCopyInto_def by (rule deep_struct) (simp add: covers_def)

definition KubernetesAuthEngineRoleStatus_gotype :: gotype where
  "KubernetesAuthEngineRoleStatus_gotype = StructOf [
     (''Conditions'', SliceOf (Foreign ''Condition''))]"

definition KubernetesAuthEngineRoleStatus_DeepCopyInto :: "(string \<Rightarrow> copier) \<Rightarrow> copier" where
  "KubernetesAuthEngineRoleStatus_DeepCopyInto lib = struct_copy [
     (''Conditions'', slice_copy (lib ''Condition''))]"

definition KubernetesAuthEngineRoleStatus_DeepCopy :: "(string \<Rightarrow> copier) \<Rightarrow> copier" where
  "KubernetesAuthEngineRoleStatus_DeepCopy lib = DeepCopy_of (KubernetesAuthEngineRoleStatus_DeepCopyInto lib)"

lemma deep_KubernetesAuthEngineRoleStatus [simp]: "foreign_deep lib \<Longrightarrow> deep KubernetesAuthEngineRoleStatus_gotype (KubernetesAuthEngineRoleStatus_DeepCopyInto lib)"
  unfolding KubernetesAuthEngineRoleStatus_gotype_def KubernetesAuthEngineRoleStatus_DeepCopyInto_def by (rule deep_struct) (simp add: covers_def)

definition KubernetesAuthEngineRole_gotype :: gotype where
  "KubernetesAuthEngineRole_gotype = StructOf [
     (''TypeMeta'', Plain), (''ObjectMeta'', Foreign ''ObjectMeta''),
     (''Spec'', KubernetesAuthEngineRoleSpec_gotype), (''Status'', KubernetesAuthEngineRoleStatus_gotype)]"

definition KubernetesAuthEngineRole_DeepCopyInto :: "(string \<Rightarrow> copier) \<Rightarrow> copier" where
  "KubernetesAuthEngineRole_DeepCopyInto lib = struct_copy [
     (''TypeMeta'', plain_copy), (''ObjectMeta'', lib ''ObjectMeta''),
     (''Spec'', KubernetesAuthEngineRoleSpec_DeepCopyInto lib),
     (''Status'', KubernetesAuthEngineRoleStatus_DeepCopyInto lib)]"

definition KubernetesAuthEngineRole_DeepCopy :: "(string \<Rightarrow> copier) \<Rightarrow> copier" where
  "KubernetesAuthEngineRole_DeepCopy lib = DeepCopy_of (KubernetesAuthEngineRole_DeepCopyInto lib)"

definition KubernetesAuthEngineRole_DeepCopyObject :: "(string \<Rightarrow> copier) \<Rightarrow> copier" where
  "KubernetesAuthEngineRole_DeepCopyObject lib = DeepCopyObject_of (KubernetesAuthEngineRole_DeepCopy lib)"

lemma deep_KubernetesAuthEngineRole [simp]: "foreign_deep lib \<Longrightarrow> deep KubernetesAuthEngineRole_gotype (KubernetesAuthEngineRole_DeepCopyInto lib)"
  unfolding KubernetesAuthEngineRole_gotype_def KubernetesAuthEngineRole_DeepCopyInto_def by (rule deep_struct) (simp add: covers_def)

lemma isolates_KubernetesAuthEngineRole: "foreign_deep lib \<Longrightarrow> isolates (PtrTo KubernetesAuthEngineRole_gotype) (KubernetesAuthEngineRole_DeepCopyObject lib)"
  by (simp add: KubernetesAuthEngineRole_DeepCopyObject_def KubernetesAuthEngineRole_DeepCopy_def deep_isolates deep_DeepCopyObject deep_DeepCopy)

definition KubernetesAuthEngineRoleList_gotype :: gotype where
  "KubernetesAuthEngineRoleList_gotype = StructOf [
     (''TypeMeta'', Plain), (''ListMeta'', Foreign ''ListMeta''),
     (''Items'', SliceOf KubernetesAuthEngineRole_gotype)]"

definition KubernetesAuthEngineRoleList_DeepCopyInto :: "(string \<Rightarrow> copier) \<Rightarrow> copier" where
  "KubernetesAuthEngineRoleList_DeepCopyInto lib = struct_copy [
     (''TypeMeta'', plain_copy), (''ListMeta'', lib ''ListMeta''),
     (''Items'', slice_copy (KubernetesAuthEngineRole_DeepCopyInto lib))]"

definition KubernetesAuthEngineRoleList_DeepCopy :: "(string \<Rightarrow> copier) \<Rightarrow> copier" where
  "KubernetesAuthEngineRoleList_DeepCopy lib = DeepCopy_of (KubernetesAuthEngineRoleList_DeepCopyInto lib)"

definition KubernetesAuthEngineRoleList_DeepCopyObject :: "(string \<Rightarrow> copier) \<Rightarrow> copier" where
  "KubernetesAuthEngineRoleList_DeepCopyObject lib = DeepCopyObject_of (KubernetesAuthEngineRoleList_DeepCopy lib)"

lemma deep_KubernetesAuthEngineRoleList [simp]: "foreign_deep lib \<Longrightarrow> deep KubernetesAuthEngineRoleList_gotype (KubernetesAuthEngineRoleList_DeepCopyInto lib)"
  unfolding KubernetesAuthEngineRoleList_gotype_def KubernetesAuthEngineRoleList_DeepCopyInto_def by (rule deep_struct) (simp add: covers_def)

lemma isolates_KubernetesAuthEngineRoleList: "foreign_deep lib \<Longrightarrow> isolates (PtrTo KubernetesAuthEngineRoleList_gotype) (KubernetesAuthEngineRoleList_DeepCopyObject lib)"
  by (simp add: KubernetesAuthEngineRoleList_DeepCopyObject_def KubernetesAuthEngineRoleList_DeepCopy_def deep_isolates deep_DeepCopyObject deep_DeepCopy)

definition LDAPConfig_gotype :: gotype where
  "LDAPConfig_gotype = StructOf [
     (''URL'', Plain), (''CaseSensitiveNames'', Plain), (''RequestTimeout'', Plain), (''StartTLS'', Plain),
     (''TLSMinVersion'', Plain), (''TLSMaxVersion'', Plain), (''InsecureTLS'', Plain), (''Certificate'', Plain),
     (''ClientTLSCert'', Plain), (''ClientTLSKey'', Plain), (''BindDN'', Plain), (''UserDN'', Plain),
     (''UserAttr'', Plain), (''DiscoverDN'', Plain), (''DenyNullBind'', Plain), (''UPNDomain'', Plain),
     (''UserFilter'', Plain), (''AnonymousGroupSearch'', Plain), (''GroupFilter'', Plain), (''GroupDN'', Plain),
     (''GroupAttr'', Plain), (''UsernameAsAlias'', Plain), (''TokenTTL'', Plain), (''TokenMaxTTL'', Plain),
     (''TokenPolicies'', Plain), (''TokenBoundCIDRs'', Plain), (''TokenExplicitMaxTTL'', Plain),
     (''TokenNoDefaultPolicy'', Plain), (''TokenNumUses'', Plain), (''TokenPeriod'', Plain),
     (''TokenType'', Plain), (''retrievedPassword'', Plain), (''retrievedUsername'', Plain),
     (''retrievedCertificate'', Plain), (''retrievedClientTLSCert'', Plain),
     (''retrievedClientTLSKey'', Plain)]"

definition LDAPConfig_DeepCopyInto :: "copier" where
  "LDAPConfig_DeepCopyInto = struct_copy []"

definition LDAPConfig_DeepCopy :: "copier" where
  "LDAPConfig_DeepCopy = DeepCopy_of LDAPConfig_DeepCopyInto"

lemma flat_LDAPConfig [simp]: "flat LDAPConfig_gotype"
  by (simp add: LDAPConfig_gotype_def)

lemma deep_LDAPConfig [simp]: "deep LDAPConfig_gotype LDAPConfig_DeepCopyInto"
  unfolding LDAPConfig_gotype_def LDAPConfig_DeepCopyInto_def by (rule deep_struct) (simp add: covers_def)

definition LDAPAuthEngineConfigSpec_gotype :: gotype where
  "LDAPAuthEngineConfigSpec_gotype = StructOf [
     (''Connection'', PtrTo VaultConnection_gotype), (''Authentication'', KubeAuthConfiguration_gotype),
     (''Path'', Plain), (''LDAPConfig'', LDAPConfig_gotype), (''BindCredentials'', RootCredentialConfig_gotype),
     (''TLSConfig'', TLSConfig_gotype)]"

definition LDAPAuthEngineConfigSpec_DeepCopyInto :: "copier" where
  "LDAPAuthEngineConfigSpec_DeepCopyInto = struct_copy [
     (''Connection'', new_copy VaultConnection_DeepCopyInto),
     (''Authentication'', KubeAuthConfiguration_DeepCopyInto), (''LDAPConfig'', plain_copy),
     (''BindCredentials'', RootCredentialConfig_DeepCopyInto), (''TLSConfig'', TLSConfig_DeepCopyInto)]"

definition LDAPAuthEngineConfigSpec_DeepCopy :: "copier" where
  "LDAPAuthEngineConfigSpec_DeepCopy = DeepCopy_of LDAPAuthEngineConfigSpec_DeepCopyInto"

lemma deep_LDAPAuthEngineConfigSpec [simp]: "deep LDAPAuthEngineConfigSpec_gotype LDAPAuthEngineConfigSpec_DeepCopyInto"
  unfolding LDAPAuthEngineConfigSpec_gotype_def LDAPAuthEngineConfigSpec_DeepCopyInto_def by (rule deep_struct) (simp add: covers_def)

definition LDAPAuthEngineConfigStatus_gotype :: gotype where
  "LDAPAuthEngineConfigStatus_gotype = StructOf [
     (''Conditions'', SliceOf (Foreign ''Condition''))]"

definition LDAPAuthEngineConfigStatus_DeepCopyInto :: "(string \<Rightarrow> copier) \<Rightarrow> copier" where
  "LDAPAuthEngineConfigStatus_DeepCopyInto lib = struct_copy [
     (''Conditions'', slice_copy (lib ''Condition''))]"

definition LDAPAuthEngineConfigStatus_DeepCopy :: "(string \<Rightarrow> copier) \<Rightarrow> copier" where
  "LDAPAuthEngineConfigStatus_DeepCopy lib = DeepCopy_of (LDAPAuthEngineConfigStatus_DeepCopyInto lib)"

lemma deep_LDAPAuthEngineConfigStatus [simp]: "foreign_deep lib \<Longrightarrow> deep LDAPAuthEngineConfigStatus_gotype (LDAPAuthEngineConfigStatus_DeepCopyInto lib)"
  unfolding LDAPAuthEngineConfigStatus_gotype_def LDAPAuthEngineConfigStatus_DeepCopyInto_def by (rule deep_struct) (simp add: covers_def)

definition LDAPAuthEngineConfig_gotype :: gotype where
  "LDAPAuthEngineConfig_gotype = StructOf [
     (''TypeMeta'', Plain), (''ObjectMeta'', Foreign ''ObjectMeta''),
     (''Spec'', LDAPAuthEngineConfigSpec_gotype), (''Status'', LDAPAuthEngineConfigStatus_gotype)]"

definition LDAPAuthEngineConfig_DeepCopyInto :: "(string \<Rightarrow> copier) \<Rightarrow> copier" where
  "LDAPAuthEngineConfig_DeepCopyInto lib = struct_copy [
     (''TypeMeta'', plain_copy), (''ObjectMeta'', lib ''ObjectMeta''),
     (''Spec'', LDAPAuthEngineConfigSpec_DeepCopyInto),
     (''Status'', LDAPAuthEngineConfigStatus_DeepCopyInto lib)]"

definition LDAPAuthEngineConfig_DeepCopy :: "(string \<Rightarrow> copier) \<Rightarrow> copier" where
  "LDAPAuthEngineConfig_DeepCopy lib = DeepCopy_of (LDAPAuthEngineConfig_DeepCopyInto lib)"

definition LDAPAuthEngineConfig_DeepCopyObject :: "(string \<Rightarrow> copier) \<Rightarrow> copier" where
  "LDAPAuthEngineConfig_DeepCopyObject lib = DeepCopyObject_of (LDAPAuthEngineConfig_DeepCopy lib)"

lemma deep_LDAPAuthEngineConfig [simp]: "foreign_deep lib \<Longrightarrow> deep LDAPAuthEngineConfig_gotype (LDAPAuthEngineConfig_DeepCopyInto lib)"
  unfolding LDAPAuthEngineConfig_gotype_def LDAPAuthEngineConfig_DeepCopyInto_def by (rule deep_struct) (simp add: covers_def)

lemma isolates_LDAPAuthEngineConfig: "foreign_deep lib \<Longrightarrow> isolates (PtrTo LDAPAuthEngineConfig_gotype) (LDAPAuthEngineConfig_DeepCopyObject lib)"
  by (simp add: LDAPAuthEngineConfig_DeepCopyObject_def LDAPAuthEngineConfig_DeepCopy_def deep_isolates deep_DeepCopyObject deep_DeepCopy)

definition LDAPAuthEngineConfigList_gotype :: gotype where
  "LDAPAuthEngineConfigList_gotype = StructOf [
     (''TypeMeta'', Plain), (''ListMeta'', Foreign ''ListMeta''),
     (''Items'', SliceOf LDAPAuthEngineConfig_gotype)]"

definition LDAPAuthEngineConfigList_DeepCopyInto :: "(string \<Rightarrow> copier) \<Rightarrow> copier" where
  "LDAPAuthEngineConfigList_DeepCopyInto lib = struct_copy [
     (''TypeMeta'', plain_copy), (''ListMeta'', lib ''ListMeta''),
     (''Items'', slice_copy (LDAPAuthEngineConfig_DeepCopyInto lib))]"

definition LDAPAuthEngineConfigList_DeepCopy :: "(string \<Rightarrow> copier) \<Rightarrow> copier" where
  "LDAPAuthEngineConfigList_DeepCopy lib = DeepCopy_of (LDAPAuthEngineConfigList_DeepCopyInto lib)"

definition LDAPAuthEngineConfigList_DeepCopyObject :: "(string \<Rightarrow> copier) \<Rightarrow> copier" where
  "LDAPAuthEngineConfigList_DeepCopyObject lib = DeepCopyObject_of (LDAPAuthEngineConfigList_DeepCopy lib)"

lemma deep_LDAPAuthEngineConfigList [simp]: "foreign_deep lib \<Longrightarrow> deep LDAPAuthEngineConfigList_gotype (LDAPAuthEngineConfigList_DeepCopyInto lib)"
  unfolding LDAPAuthEngineConfigList_gotype_def LDAPAuthEngineConfigList_DeepCopyInto_def by (rule deep_struct) (simp add: covers_def)

lemma isolates_LDAPAuthEngineConfigList: "foreign_deep lib \<Longrightarrow> isolates (PtrTo LDAPAuthEngineConfigList_gotype) (LDAPAuthEngineConfigList_DeepCopyObject lib)"
  by (simp add: LDAPAuthEngineConfigList_DeepCopyObject_def LDAPAuthEngineConfigList_DeepCopy_def deep_isolates deep_DeepCopyObject deep_DeepCopy)

definition LDAPAuthEngineGroupSpec_gotype :: gotype where
  "LDAPAuthEngineGroupSpec_gotype = StructOf [
     (''Connection'', PtrTo VaultConnection_gotype), (''Authentication'', KubeAuthConfiguration_gotype),
     (''Path'', Plain), (''Name'', Plain), (''Policies'', Plain)]"

definition LDAPAuthEngineGroupSpec_DeepCopyInto :: "copier" where
  "LDAPAuthEngineGroupSpec_DeepCopyInto = struct_copy [
     (''Connection'', new_copy VaultConnection_DeepCopyInto),
     (''Authentication'', KubeAuthConfiguration_DeepCopyInto)]"

definition LDAPAuthEngineGroupSpec_DeepCopy :: "copier" where
  "LDAPAuthEngineGroupSpec_DeepCopy = DeepCopy_of LDAPAuthEngineGroupSpec_DeepCopyInto"

lemma deep_LDAPAuthEngineGroupSpec [simp]: "deep LDAPAuthEngineGroupSpec_gotype LDAPAuthEngineGroupSpec_DeepCopyInto"
  unfolding LDAPAuthEngineGroupSpec_gotype_def LDAPAuthEngineGroupSpec_DeepCopyInto_def by (rule deep_struct) (simp add: covers_def)

definition LDAPAuthEngineGroupStatus_gotype :: gotype where
  "LDAPAuthEngineGroupStatus_gotype = StructOf [
     (''Conditions'', SliceOf (Foreign ''Condition''))]"

definition LDAPAuthEngineGroupStatus_DeepCopyInto :: "(string \<Rightarrow> copier) \<Rightarrow> copier" where
  "LDAPAuthEngineGroupStatus_DeepCopyInto lib = struct_copy [
     (''Conditions'', slice_copy (lib ''Condition''))]"

definition LDAPAuthEngineGroupStatus_DeepCopy :: "(string \<Rightarrow> copier) \<Rightarrow> copier" where
  "LDAPAuthEngineGroupStatus_DeepCopy lib = DeepCopy_of (LDAPAuthEngineGroupStatus_DeepCopyInto lib)"

lemma deep_LDAPAuthEngineGroupStatus [simp]: "foreign_deep lib \<Longrightarrow> deep LDAPAuthEngineGroupStatus_gotype (LDAPAuthEngineGroupStatus_DeepCopyInto lib)"
  unfolding LDAPAuthEngineGroupStatus_gotype_def LDAPAuthEngineGroupStatus_DeepCopyInto_def by (rule deep_struct) (simp add: covers_def)

definition LDAPAuthEngineGroup_gotype :: gotype where
  "LDAPAuthEngineGroup_gotype = StructOf [
     (''TypeMeta'', Plain), (''ObjectMeta'', Foreign ''ObjectMeta''),
     (''Spec'', LDAPAuthEngineGroupSpec_gotype), (''Status'', LDAPAuthEngineGroupStatus_gotype)]"

definition LDAPAuthEngineGroup_DeepCopyInto :: "(string \<Rightarrow> copier) \<Rightarrow> copier" where
  "LDAPAuthEngineGroup_DeepCopyInto lib = struct_copy [
     (''TypeMeta'', plain_copy), (''ObjectMeta'', lib ''ObjectMeta''),
     (''Spec'', LDAPAuthEngineGroupSpec_DeepCopyInto),
     (''Status'', LDAPAuthEngineGroupStatus_DeepCopyInto lib)]"

definition LDAPAuthEngineGroup_DeepCopy :: "(string \<Rightarrow> copier) \<Rightarrow> copier" where
  "LDAPAuthEngineGroup_DeepCopy lib = DeepCopy_of (LDAPAuthEngineGroup_DeepCopyInto lib)"

definition LDAPAuthEngineGroup_DeepCopyObject :: "(string \<Rightarrow> copier) \<Rightarrow> copier" where
  "LDAPAuthEngineGroup_DeepCopyObject lib = DeepCopyObject_of (LDAPAuthEngineGroup_DeepCopy lib)"

lemma deep_LDAPAuthEngineGroup [simp]: "foreign_deep lib \<Longrightarrow> deep LDAPAuthEngineGroup_gotype (LDAPAuthEngineGroup_DeepCopyInto lib)"
  unfolding LDAPAuthEngineGroup_gotype_def LDAPAuthEngineGroup_DeepCopyInto_def by (rule deep_struct) (simp add: covers_def)

lemma isolates_LDAPAuthEngineGroup: "foreign_deep lib \<Longrightarrow> isolates (PtrTo LDAPAuthEngineGroup_gotype) (LDAPAuthEngineGroup_DeepCopyObject lib)"
  by (simp add: LDAPAuthEngineGroup_DeepCopyObject_def LDAPAuthEngineGroup_DeepCopy_def deep_isolates deep_DeepCopyObject deep_DeepCopy)

definition LDAPAuthEngineGroupList_gotype :: gotype where
  "LDAPAuthEngineGroupList_gotype = StructOf [
     (''TypeMeta'', Plain), (''ListMeta'', Foreign ''ListMeta''),
     (''Items'', SliceOf LDAPAuthEngineGroup_gotype)]"

definition LDAPAuthEngineGroupList_DeepCopyInto :: "(string \<Rightarrow> copier) \<Rightarrow> copier" where
  "LDAPAuthEngineGroupList_DeepCopyInto lib = struct_copy [
     (''TypeMeta'', plain_copy), (''ListMeta'', lib ''ListMeta''),
     (''Items'', slice_copy (LDAPAuthEngineGroup_DeepCopyInto lib))]"

definition LDAPAuthEngineGroupList_DeepCopy :: "(string \<Rightarrow> copier) \<Rightarrow> copier" where
  "LDAPAuthEngineGroupList_DeepCopy lib = DeepCopy_of (LDAPAuthEngineGroupList_DeepCopyInto lib)"

definition LDAPAuthEngineGroupList_DeepCopyObject :: "(string \<Rightarrow> copier) \<Rightarrow> copier" where
  "LDAPAuthEngineGroupList_DeepCopyObject lib = DeepCopyObject_of (LDAPAuthEngineGroupList_DeepCopy lib)"

lemma deep_LDAPAuthEngineGroupList [simp]: "foreign_deep lib \<Longrightarrow> deep LDAPAuthEngineGroupList_gotype (LDAPAuthEngineGroupList_DeepCopyInto lib)"
  unfolding LDAPAuthEngineGroupList_gotype_def LDAPAuthEngineGroupList_DeepCopyInto_def by (rule deep_struct) (simp add: covers_def)

lemma isolates_LDAPAuthEngineGroupList: "foreign_deep lib \<Longrightarrow> isolates (PtrTo LDAPAuthEngineGroupList_gotype) (LDAPAuthEngineGroupList_DeepCopyObject lib)"
  by (simp add: LDAPAuthEngineGroupList_DeepCopyObject_def LDAPAuthEngineGroupList_DeepCopy_def deep_isolates deep_DeepCopyObject deep_DeepCopy)

end
