(* ===== verification/DeepCopySecret.thy ===== *)
theory DeepCopySecret
  imports DeepCopyAuth
begin

text \<open>
  The generated copy functions (\<open>api/v1alpha1/zz_generated.deepcopy.go\<close>) of the secret engines:
  of each type its fields, the statements of its \<open>DeepCopyInto\<close> in their order, \<open>DeepCopy\<close> and,
  for the resources and their lists, \<open>DeepCopyObject\<close>. \<open>lib\<close> gives the copy functions of the types
  of other packages by name.
\<close>

definition AzureSEConfig_gotype :: gotype where
  "AzureSEConfig_gotype = StructOf [
     (''SubscriptionID'', Plain), (''TenantID'', Plain), (''ClientID'', Plain), (''Environment'', Plain),
     (''PasswordPolicy'', Plain), (''RootPasswordTTL'', Plain), (''retrievedClientID'', Plain),
     (''retrievedClientPassword'', Plain)]"

definition AzureSEConfig_DeepCopyInto :: "copier" where
  "AzureSEConfig_DeepCopyInto = struct_copy []"

definition AzureSEConfig_DeepCopy :: "copier" where
  "AzureSEConfig_DeepCopy = DeepCopy_of AzureSEConfig_DeepCopyInto"

lemma flat_AzureSEConfig [simp]: "flat AzureSEConfig_gotype"
  by (simp add: AzureSEConfig_gotype_def)

lemma deep_AzureSEConfig [simp]: "deep AzureSEConfig_gotype AzureSEConfig_DeepCopyInto"
  unfolding AzureSEConfig_gotype_def AzureSEConfig_DeepCopyInto_def by (rule deep_struct) (simp add: covers_def)

definition AzureSERole_gotype :: gotype where
  "AzureSERole_gotype = StructOf [
     (''AzureRoles'', Plain), (''AzureGroups'', Plain), (''ApplicationObjectID'', Plain),
     (''PersistApp'', Plain), (''TTL'', Plain), (''MaxTTL'', Plain), (''PermanentlyDelete'', Plain),
     (''SignInAudience'', Plain), (''Tags'', Plain)]"

definition AzureSERole_DeepCopyInto :: "copier" where
  "AzureSERole_DeepCopyInto = struct_copy []"

definition AzureSERole_DeepCopy :: "copier" where
  "AzureSERole_DeepCopy = DeepCopy_of AzureSERole_DeepCopyInto"

lemma flat_AzureSERole [simp]: "flat AzureSERole_gotype"
  by (simp add: AzureSERole_gotype_def)

lemma deep_AzureSERole [simp]: "deep AzureSERole_gotype AzureSERole_DeepCopyInto"
  unfolding AzureSERole_gotype_def AzureSERole_DeepCopyInto_def by (rule deep_struct) (simp add: covers_def)

definition AzureSecretEngineConfigSpec_gotype :: gotype where
  "AzureSecretEngineConfigSpec_gotype = StructOf [
     (''Connection'', PtrTo VaultConnection_gotype), (''Authentication'', KubeAuthConfiguration_gotype),
     (''Path'', Plain), (''AzureCredentials'', RootCredentialConfig_gotype),
     (''AzureSEConfig'', AzureSEConfig_gotype)]"

definition AzureSecretEngineConfigSpec_DeepCopyInto :: "copier" where
  "AzureSecretEngineConfigSpec_DeepCopyInto = struct_copy [
     (''Connection'', new_copy VaultConnection_DeepCopyInto),
     (''Authentication'', KubeAuthConfiguration_DeepCopyInto),
     (''AzureCredentials'', RootCredentialConfig_DeepCopyInto), (''AzureSEConfig'', plain_copy)]"

definition AzureSecretEngineConfigSpec_DeepCopy :: "copier" where
  "AzureSecretEngineConfigSpec_DeepCopy = DeepCopy_of AzureSecretEngineConfigSpec_DeepCopyInto"

lemma deep_AzureSecretEngineConfigSpec [simp]: "deep AzureSecretEngineConfigSpec_gotype AzureSecretEngineConfigSpec_DeepCopyInto"
  unfolding AzureSecretEngineConfigSpec_gotype_def AzureSecretEngineConfigSpec_DeepCopyInto_def by (rule deep_struct) (simp add: covers_def)

definition AzureSecretEngineConfigStatus_gotype :: gotype where
  "AzureSecretEngineConfigStatus_gotype = StructOf [
     (''Conditions'', SliceOf (Foreign ''Condition''))]"

definition AzureSecretEngineConfigStatus_DeepCopyInto :: "(string \<Rightarrow> copier) \<Rightarrow> copier" where
  "AzureSecretEngineConfigStatus_DeepCopyInto lib = struct_copy [
     (''Conditions'', slice_copy (lib ''Condition''))]"

definition AzureSecretEngineConfigStatus_DeepCopy :: "(string \<Rightarrow> copier) \<Rightarrow> copier" where
  "AzureSecretEngineConfigStatus_DeepCopy lib = DeepCopy_of (AzureSecretEngineConfigStatus_DeepCopyInto lib)"

lemma deep_AzureSecretEngineConfigStatus [simp]: "foreign_deep lib \<Longrightarrow> deep AzureSecretEngineConfigStatus_gotype (AzureSecretEngineConfigStatus_DeepCopyInto lib)"
  unfolding AzureSecretEngineConfigStatus_gotype_def AzureSecretEngineConfigStatus_DeepCopyInto_def by (rule deep_struct) (simp add: covers_def)

definition AzureSecretEngineConfig_gotype :: gotype where
  "AzureSecretEngineConfig_gotype = StructOf [
     (''TypeMeta'', Plain), (''ObjectMeta'', Foreign ''ObjectMeta''),
     (''Spec'', AzureSecretEngineConfigSpec_gotype), (''Status'', AzureSecretEngineConfigStatus_gotype)]"

definition AzureSecretEngineConfig_DeepCopyInto :: "(string \<Rightarrow> copier) \<Rightarrow> copier" where
  "AzureSecretEngineConfig_DeepCopyInto lib = struct_copy [
     (''TypeMeta'', plain_copy), (''ObjectMeta'', lib ''ObjectMeta''),
     (''Spec'', AzureSecretEngineConfigSpec_DeepCopyInto),
     (''Status'', AzureSecretEngineConfigStatus_DeepCopyInto lib)]"

definition AzureSecretEngineConfig_DeepCopy :: "(string \<Rightarrow> copier) \<Rightarrow> copier" where
  "AzureSecretEngineConfig_DeepCopy lib = DeepCopy_of (AzureSecretEngineConfig_DeepCopyInto lib)"

definition AzureSecretEngineConfig_DeepCopyObject :: "(string \<Rightarrow> copier) \<Rightarrow> copier" where
  "AzureSecretEngineConfig_DeepCopyObject lib = DeepCopyObject_of (AzureSecretEngineConfig_DeepCopy lib)"

lemma deep_AzureSecretEngineConfig [simp]: "foreign_deep lib \<Longrightarrow> deep AzureSecretEngineConfig_gotype (AzureSecretEngineConfig_DeepCopyInto lib)"
  unfolding AzureSecretEngineConfig_gotype_def AzureSecretEngineConfig_DeepCopyInto_def by (rule deep_struct) (simp add: covers_def)

lemma isolates_AzureSecretEngineConfig: "foreign_deep lib \<Longrightarrow> isolates (PtrTo AzureSecretEngineConfig_gotype) (AzureSecretEngineConfig_DeepCopyObject lib)"
  by (simp add: AzureSecretEngineConfig_DeepCopyObject_def AzureSecretEngineConfig_DeepCopy_def deep_isolates deep_DeepCopyObject deep_DeepCopy)

definition AzureSecretEngineConfigList_gotype :: gotype where
  "AzureSecretEngineConfigList_gotype = StructOf [
     (''TypeMeta'', Plain), (''ListMeta'', Foreign ''ListMeta''),
     (''Items'', SliceOf AzureSecretEngineConfig_gotype)]"

definition AzureSecretEngineConfigList_DeepCopyInto :: "(string \<Rightarrow> copier) \<Rightarrow> copier" where
  "AzureSecretEngineConfigList_DeepCopyInto lib = struct_copy [
     (''TypeMeta'', plain_copy), (''ListMeta'', lib ''ListMeta''),
     (''Items'', slice_copy (AzureSecretEngineConfig_DeepCopyInto lib))]"

definition AzureSecretEngineConfigList_DeepCopy :: "(string \<Rightarrow> copier) \<Rightarrow> copier" where
  "AzureSecretEngineConfigList_DeepCopy lib = DeepCopy_of (AzureSecretEngineConfigList_DeepCopyInto lib)"

definition AzureSecretEngineConfigList_DeepCopyObject :: "(string \<Rightarrow> copier) \<Rightarrow> copier" where
  "AzureSecretEngineConfigList_DeepCopyObject lib = DeepCopyObject_of (AzureSecretEngineConfigList_DeepCopy lib)"

lemma deep_AzureSecretEngineConfigList [simp]: "foreign_deep lib \<Longrightarrow> deep AzureSecretEngineConfigList_gotype (AzureSecretEngineConfigList_DeepCopyInto lib)"
  unfolding AzureSecretEngineConfigList_gotype_def AzureSecretEngineConfigList_DeepCopyInto_def by (rule deep_struct) (simp add: covers_def)

lemma isolates_AzureSecretEngineConfigList: "foreign_deep lib \<Longrightarrow> isolates (PtrTo AzureSecretEngineConfigList_gotype) (AzureSecretEngineConfigList_DeepCopyObject lib)"
  by (simp add: AzureSecretEngineConfigList_DeepCopyObject_def AzureSecretEngineConfigList_DeepCopy_def deep_isolates deep_DeepCopyObject deep_DeepCopy)

definition AzureSecretEngineRoleSpec_gotype :: gotype where
  "AzureSecretEngineRoleSpec_gotype = StructOf [
     (''Connection'', PtrTo VaultConnection_gotype), (''Authentication'', KubeAuthConfiguration_gotype),
     (''Path'', Plain), (''AzureSERole'', AzureSERole_gotype), (''Name'', Plain)]"

definition AzureSecretEngineRoleSpec_DeepCopyInto :: "copier" where
  "AzureSecretEngineRoleSpec_DeepCopyInto = struct_copy [
     (''Connection'', new_copy VaultConnection_DeepCopyInto),
     (''Authentication'', KubeAuthConfiguration_DeepCopyInto), (''AzureSERole'', plain_copy)]"

definition AzureSecretEngineRoleSpec_DeepCopy :: "copier" where
  "AzureSecretEngineRoleSpec_DeepCopy = DeepCopy_of AzureSecretEngineRoleSpec_DeepCopyInto"

lemma deep_AzureSecretEngineRoleSpec [simp]: "deep AzureSecretEngineRoleSpec_gotype AzureSecretEngineRoleSpec_DeepCopyInto"
  unfolding AzureSecretEngineRoleSpec_gotype_def AzureSecretEngineRoleSpec_DeepCopyInto_def by (rule deep_struct) (simp add: covers_def)

definition AzureSecretEngineRoleStatus_gotype :: gotype where
  "AzureSecretEngineRoleStatus_gotype = StructOf [
     (''Conditions'', SliceOf (Foreign ''Condition''))]"

definition AzureSecretEngineRoleStatus_DeepCopyInto :: "(string \<Rightarrow> copier) \<Rightarrow> copier" where
  "AzureSecretEngineRoleStatus_DeepCopyInto lib = struct_copy [
     (''Conditions'', slice_copy (lib ''Condition''))]"

definition AzureSecretEngineRoleStatus_DeepCopy :: "(string \<Rightarrow> copier) \<Rightarrow> copier" where
  "AzureSecretEngineRoleStatus_DeepCopy lib = DeepCopy_of (AzureSecretEngineRoleStatus_DeepCopyInto lib)"

lemma deep_AzureSecretEngineRoleStatus [simp]: "foreign_deep lib \<Longrightarrow> deep AzureSecretEngineRoleStatus_gotype (AzureSecretEngineRoleStatus_DeepCopyInto lib)"
  unfolding AzureSecretEngineRoleStatus_gotype_def AzureSecretEngineRoleStatus_DeepCopyInto_def by (rule deep_struct) (simp add: covers_def)

definition AzureSecretEngineRole_gotype :: gotype where
  "AzureSecretEngineRole_gotype = StructOf [
     (''TypeMeta'', Plain), (''ObjectMeta'', Foreign ''ObjectMeta''),
     (''Spec'', AzureSecretEngineRoleSpec_gotype), (''Status'', AzureSecretEngineRoleStatus_gotype)]"

definition AzureSecretEngineRole_DeepCopyInto :: "(string \<Rightarrow> copier) \<Rightarrow> copier" where
  "AzureSecretEngineRole_DeepCopyInto lib = struct_copy [
     (''TypeMeta'', plain_copy), (''ObjectMeta'', lib ''ObjectMeta''),
     (''Spec'', AzureSecretEngineRoleSpec_DeepCopyInto),
     (''Status'', AzureSecretEngineRoleStatus_DeepCopyInto lib)]"

definition AzureSecretEngineRole_DeepCopy :: "(string \<Rightarrow> copier) \<Rightarrow> copier" where
  "AzureSecretEngineRole_DeepCopy lib = DeepCopy_of (AzureSecretEngineRole_DeepCopyInto lib)"

definition AzureSecretEngineRole_DeepCopyObject :: "(string \<Rightarrow> copier) \<Rightarrow> copier" where
  "AzureSecretEngineRole_DeepCopyObject lib = DeepCopyObject_of (AzureSecretEngineRole_DeepCopy lib)"

lemma deep_AzureSecretEngineRole [simp]: "foreign_deep lib \<Longrightarrow> deep AzureSecretEngineRole_gotype (AzureSecretEngineRole_DeepCopyInto lib)"
  unfolding AzureSecretEngineRole_gotype_def AzureSecretEngineRole_DeepCopyInto_def by (rule deep_struct) (simp add: covers_def)

lemma isolates_AzureSecretEngineRole: "foreign_deep lib \<Longrightarrow> isolates (PtrTo AzureSecretEngineRole_gotype) (AzureSecretEngineRole_DeepCopyObject lib)"
  by (simp add: AzureSecretEngineRole_DeepCopyObject_def AzureSecretEngineRole_DeepCopy_def deep_isolates deep_DeepCopyObject deep_DeepCopy)

definition AzureSecretEngineRoleList_gotype :: gotype where
  "AzureSecretEngineRoleList_gotype = StructOf [
     (''TypeMeta'', Plain), (''ListMeta'', Foreign ''ListMeta''),
     (''Items'', SliceOf AzureSecretEngineRole_gotype)]"

definition AzureSecretEngineRoleList_DeepCopyInto :: "(string \<Rightarrow> copier) \<Rightarrow> copier" where
  "AzureSecretEngineRoleList_DeepCopyInto lib = struct_copy [
     (''TypeMeta'', plain_copy), (''ListMeta'', lib ''ListMeta''),
     (''Items'', slice_copy (AzureSecretEngineRole_DeepCopyInto lib))]"

definition AzureSecretEngineRoleList_DeepCopy :: "(string \<Rightarrow> copier) \<Rightarrow> copier" where
  "AzureSecretEngineRoleList_DeepCopy lib = DeepCopy_of (AzureSecretEngineRoleList_DeepCopyInto lib)"

definition AzureSecretEngineRoleList_DeepCopyObject :: "(string \<Rightarrow> copier) \<Rightarrow> copier" where
  "AzureSecretEngineRoleList_DeepCopyObject lib = DeepCopyObject_of (AzureSecretEngineRoleList_DeepCopy lib)"

lemma deep_AzureSecretEngineRoleList [simp]: "foreign_deep lib \<Longrightarrow> deep AzureSecretEngineRoleList_gotype (AzureSecretEngineRoleList_DeepCopyInto lib)"
  unfolding AzureSecretEngineRoleList_gotype_def AzureSecretEngineRoleList_DeepCopyInto_def by (rule deep_struct) (simp add: covers_def)

lemma isolates_AzureSecretEngineRoleList: "foreign_deep lib \<Longrightarrow> isolates (PtrTo AzureSecretEngineRoleList_gotype) (AzureSecretEngineRoleList_DeepCopyObject lib)"
  by (simp add: AzureSecretEngineRoleList_DeepCopyObject_def AzureSecretEngineRoleList_DeepCopy_def deep_isolates deep_DeepCopyObject deep_DeepCopy)

definition RootPasswordRotation_gotype :: gotype where
  "RootPasswordRotation_gotype = StructOf [
     (''Enable'', Plain), (''RotationPeriod'', Plain)]"

definition RootPasswordRotation_DeepCopyInto :: "copier" where
  "RootPasswordRotation_DeepCopyInto = struct_copy [
     (''RotationPeriod'', plain_copy)]"

definition RootPasswordRotation_DeepCopy :: "copier" where
  "RootPasswordRotation_DeepCopy = DeepCopy_of RootPasswordRotation_DeepCopyInto"

lemma flat_RootPasswordRotation [simp]: "flat RootPasswordRotation_gotype"
  by (simp add: RootPasswordRotation_gotype_def)

lemma deep_RootPasswordRotation [simp]: "deep RootPasswordRotation_gotype RootPasswordRotation_DeepCopyInto"
  unfolding RootPasswordRotation_gotype_def RootPasswordRotation_DeepCopyInto_def by (rule deep_struct) (simp add: covers_def)

definition DBSEConfig_gotype :: gotype where
  "DBSEConfig_gotype = StructOf [
     (''PluginName'', Plain), (''PluginVersion'', Plain), (''VerifyConnection'', Plain),
     (''AllowedRoles'', SliceOf Plain), (''RootRotationStatements'', SliceOf Plain),
     (''PasswordAuthentication'', Plain), (''PasswordPolicy'', Plain), (''ConnectionURL'', Plain),
     (''Username'', Plain), (''DisableEscaping'', Plain), (''DatabaseSpecificConfig'', MapTo Plain),
     (''retrievedPassword'', Plain), (''retrievedUsername'', Plain),
     (''RootPasswordRotation'', PtrTo RootPasswordRotation_gotype)]"

definition DBSEConfig_DeepCopyInto :: "copier" where
  "DBSEConfig_DeepCopyInto = struct_copy [
     (''AllowedRoles'', slice_copy plain_copy), (''RootRotationStatements'', slice_copy plain_copy),
     (''DatabaseSpecificConfig'', map_copy plain_copy), (''RootPasswordRotation'', new_copy plain_copy)]"

definition DBSEConfig_DeepCopy :: "copier" where
  "DBSEConfig_DeepCopy = DeepCopy_of DBSEConfig_DeepCopyInto"

lemma deep_DBSEConfig [simp]: "deep DBSEConfig_gotype DBSEConfig_DeepCopyInto"
  unfolding DBSEConfig_gotype_def DBSEConfig_DeepCopyInto_def by (rule deep_struct) (simp add: covers_def)

definition DBSERole_gotype :: gotype where
  "DBSERole_gotype = StructOf [
     (''DBName'', Plain), (''DefaultTTL'', Plain), (''MaxTTL'', Plain), (''CreationStatements'', SliceOf Plain),
     (''RevocationStatements'', SliceOf Plain), (''RollbackStatements'', SliceOf Plain),
     (''RenewStatements'', SliceOf Plain)]"

definition DBSERole_DeepCopyInto :: "copier" where
  "DBSERole_DeepCopyInto = struct_copy [
     (''DefaultTTL'', plain_copy), (''MaxTTL'', plain_copy), (''CreationStatements'', slice_copy plain_copy),
     (''RevocationStatements'', slice_copy plain_copy), (''RollbackStatements'', slice_copy plain_copy),
     (''RenewStatements'', slice_copy plain_copy)]"

definition DBSERole_DeepCopy :: "copier" where
  "DBSERole_DeepCopy = DeepCopy_of DBSERole_DeepCopyInto"

lemma deep_DBSERole [simp]: "deep DBSERole_gotype DBSERole_DeepCopyInto"
  unfolding DBSERole_gotype_def DBSERole_DeepCopyInto_def by (rule deep_struct) (simp add: covers_def)

definition PasswordCredentialConfig_gotype :: gotype where
  "PasswordCredentialConfig_gotype = StructOf [
     (''PasswordPolicy'', Plain)]"

definition PasswordCredentialConfig_DeepCopyInto :: "copier" where
  "PasswordCredentialConfig_DeepCopyInto = struct_copy []"

definition PasswordCredentialConfig_DeepCopy :: "copier" where
  "PasswordCredentialConfig_DeepCopy = DeepCopy_of PasswordCredentialConfig_DeepCopyInto"

lemma flat_PasswordCredentialConfig [simp]: "flat PasswordCredentialConfig_gotype"
  by (simp add: PasswordCredentialConfig_gotype_def)

lemma deep_PasswordCredentialConfig [simp]: "deep PasswordCredentialConfig_gotype PasswordCredentialConfig_DeepCopyInto"
  unfolding PasswordCredentialConfig_gotype_def PasswordCredentialConfig_DeepCopyInto_def by (rule deep_struct) (simp add: covers_def)

definition RSAPrivateKeyCredentialConfig_gotype :: gotype where
  "RSAPrivateKeyCredentialConfig_gotype = StructOf [
     (''KeyBits'', Plain), (''Format'', Plain)]"

definition RSAPrivateKeyCredentialConfig_DeepCopyInto :: "copier" where
  "RSAPrivateKeyCredentialConfig_DeepCopyInto = struct_copy []"

definition RSAPrivateKeyCredentialConfig_DeepCopy :: "copier" where
  "RSAPrivateKeyCredentialConfig_DeepCopy = DeepCopy_of RSAPrivateKeyCredentialConfig_DeepCopyInto"

lemma flat_RSAPrivateKeyCredentialConfig [simp]: "flat RSAPrivateKeyCredentialConfig_gotype"
  by (simp add: RSAPrivateKeyCredentialConfig_gotype_def)

lemma deep_RSAPrivateKeyCredentialConfig [simp]: "deep RSAPrivateKeyCredentialConfig_gotype RSAPrivateKeyCredentialConfig_DeepCopyInto"
  unfolding RSAPrivateKeyCredentialConfig_gotype_def RSAPrivateKeyCredentialConfig_DeepCopyInto_def by (rule deep_struct) (simp add: covers_def)

definition DBSEStaticRole_gotype :: gotype where
  "DBSEStaticRole_gotype = StructOf [
     (''DBName'', Plain), (''Username'', Plain), (''RotationPeriod'', Plain),
     (''RotationStatements'', SliceOf Plain), (''CredentialType'', Plain),
     (''PasswordCredentialConfig'', PtrTo PasswordCredentialConfig_gotype),
     (''RSAPrivateKeyCredentialConfig'', PtrTo RSAPrivateKeyCredentialConfig_gotype)]"

definition DBSEStaticRole_DeepCopyInto :: "copier" where
  "DBSEStaticRole_DeepCopyInto = struct_copy [
     (''RotationStatements'', slice_copy plain_copy), (''PasswordCredentialConfig'', new_copy plain_copy),
     (''RSAPrivateKeyCredentialConfig'', new_copy plain_copy)]"

definition DBSEStaticRole_DeepCopy :: "copier" where
  "DBSEStaticRole_DeepCopy = DeepCopy_of DBSEStaticRole_DeepCopyInto"

lemma deep_DBSEStaticRole [simp]: "deep DBSEStaticRole_gotype DBSEStaticRole_DeepCopyInto"
  unfolding DBSEStaticRole_gotype_def DBSEStaticRole_DeepCopyInto_def by (rule deep_struct) (simp add: covers_def)

definition DatabaseSecretEngineConfigSpec_gotype :: gotype where
  "DatabaseSecretEngineConfigSpec_gotype = StructOf [
     (''Connection'', PtrTo VaultConnection_gotype), (''Authentication'', KubeAuthConfiguration_gotype),
     (''Path'', Plain), (''DBSEConfig'', DBSEConfig_gotype), (''RootCredentials'', RootCredentialConfig_gotype),
     (''Name'', Plain)]"

definition DatabaseSecretEngineConfigSpec_DeepCopyInto :: "copier" where
  "DatabaseSecretEngineConfigSpec_DeepCopyInto = struct_copy [
     (''Connection'', new_copy VaultConnection_DeepCopyInto),
     (''Authentication'', KubeAuthConfiguration_DeepCopyInto), (''DBSEConfig'', DBSEConfig_DeepCopyInto),
     (''RootCredentials'', RootCredentialConfig_DeepCopyInto)]"

definition DatabaseSecretEngineConfigSpec_DeepCopy :: "copier" where
  "DatabaseSecretEngineConfigSpec_DeepCopy = DeepCopy_of DatabaseSecretEngineConfigSpec_DeepCopyInto"

lemma deep_DatabaseSecretEngineConfigSpec [simp]: "deep DatabaseSecretEngineConfigSpec_gotype DatabaseSecretEngineConfigSpec_DeepCopyInto"
  unfolding DatabaseSecretEngineConfigSpec_gotype_def DatabaseSecretEngineConfigSpec_DeepCopyInto_def by (rule deep_struct) (simp add: covers_def)

definition DatabaseSecretEngineConfigStatus_gotype :: gotype where
  "DatabaseSecretEngineConfigStatus_gotype = StructOf [
     (''Conditions'', SliceOf (Foreign ''Condition'')), (''LastRootPasswordRotation'', Foreign ''Time'')]"

definition DatabaseSecretEngineConfigStatus_DeepCopyInto :: "(string \<Rightarrow> copier) \<Rightarrow> copier" where
  "DatabaseSecretEngineConfigStatus_DeepCopyInto lib = struct_copy [
     (''Conditions'', slice_copy (lib ''Condition'')), (''LastRootPasswordRotation'', lib ''Time'')]"

definition DatabaseSecretEngineConfigStatus_DeepCopy :: "(string \<Rightarrow> copier) \<Rightarrow> copier" where
  "DatabaseSecretEngineConfigStatus_DeepCopy lib = DeepCopy_of (DatabaseSecretEngineConfigStatus_DeepCopyInto lib)"

lemma deep_DatabaseSecretEngineConfigStatus [simp]: "foreign_deep lib \<Longrightarrow> deep DatabaseSecretEngineConfigStatus_gotype (DatabaseSecretEngineConfigStatus_DeepCopyInto lib)"
  unfolding DatabaseSecretEngineConfigStatus_gotype_def DatabaseSecretEngineConfigStatus_DeepCopyInto_def by (rule deep_struct) (simp add: covers_def)

definition DatabaseSecretEngineConfig_gotype :: gotype where
  "DatabaseSecretEngineConfig_gotype = StructOf [
     (''TypeMeta'', Plain), (''ObjectMeta'', Foreign ''ObjectMeta''),
     (''Spec'', DatabaseSecretEngineConfigSpec_gotype), (''Status'', DatabaseSecretEngineConfigStatus_gotype)]"

definition DatabaseSecretEngineConfig_DeepCopyInto :: "(string \<Rightarrow> copier) \<Rightarrow> copier" where
  "DatabaseSecretEngineConfig_DeepCopyInto lib = struct_copy [
     (''TypeMeta'', plain_copy), (''ObjectMeta'', lib ''ObjectMeta''),
     (''Spec'', DatabaseSecretEngineConfigSpec_DeepCopyInto),
     (''Status'', DatabaseSecretEngineConfigStatus_DeepCopyInto lib)]"

definition DatabaseSecretEngineConfig_DeepCopy :: "(string \<Rightarrow> copier) \<Rightarrow> copier" where
  "DatabaseSecretEngineConfig_DeepCopy lib = DeepCopy_of (DatabaseSecretEngineConfig_DeepCopyInto lib)"

definition DatabaseSecretEngineConfig_DeepCopyObject :: "(string \<Rightarrow> copier) \<Rightarrow> copier" where
  "DatabaseSecretEngineConfig_DeepCopyObject lib = DeepCopyObject_of (DatabaseSecretEngineConfig_DeepCopy lib)"

lemma deep_DatabaseSecretEngineConfig [simp]: "foreign_deep lib \<Longrightarrow> deep DatabaseSecretEngineConfig_gotype (DatabaseSecretEngineConfig_DeepCopyInto lib)"
  unfolding DatabaseSecretEngineConfig_gotype_def DatabaseSecretEngineConfig_DeepCopyInto_def by (rule deep_struct) (simp add: covers_def)

lemma isolates_DatabaseSecretEngineConfig: "foreign_deep lib \<Longrightarrow> isolates (PtrTo DatabaseSecretEngineConfig_gotype) (DatabaseSecretEngineConfig_DeepCopyObject lib)"
  by (simp add: DatabaseSecretEngineConfig_DeepCopyObject_def DatabaseSecretEngineConfig_DeepCopy_def deep_isolates deep_DeepCopyObject deep_DeepCopy)

definition DatabaseSecretEngineConfigList_gotype :: gotype where
  "DatabaseSecretEngineConfigList_gotype = StructOf [
     (''TypeMeta'', Plain), (''ListMeta'', Foreign ''ListMeta''),
     (''Items'', SliceOf DatabaseSecretEngineConfig_gotype)]"

definition DatabaseSecretEngineConfigList_DeepCopyInto :: "(string \<Rightarrow> copier) \<Rightarrow> copier" where
  "DatabaseSecretEngineConfigList_DeepCopyInto lib = struct_copy [
     (''TypeMeta'', plain_copy), (''ListMeta'', lib ''ListMeta''),
     (''Items'', slice_copy (DatabaseSecretEngineConfig_DeepCopyInto lib))]"

definition DatabaseSecretEngineConfigList_DeepCopy :: "(string \<Rightarrow> copier) \<Rightarrow> copier" where
  "DatabaseSecretEngineConfigList_DeepCopy lib = DeepCopy_of (DatabaseSecretEngineConfigList_DeepCopyInto lib)"

definition DatabaseSecretEngineConfigList_DeepCopyObject :: "(string \<Rightarrow> copier) \<Rightarrow> copier" where
  "DatabaseSecretEngineConfigList_DeepCopyObject lib = DeepCopyObject_of (DatabaseSecretEngineConfigList_DeepCopy lib)"

lemma deep_DatabaseSecretEngineConfigList [simp]: "foreign_deep lib \<Longrightarrow> deep DatabaseSecretEngineConfigList_gotype (DatabaseSecretEngineConfigList_DeepCopyInto lib)"
  unfolding DatabaseSecretEngineConfigList_gotype_def DatabaseSecretEngineConfigList_DeepCopyInto_def by (rule deep_struct) (simp add: covers_def)

lemma isolates_DatabaseSecretEngineConfigList: "foreign_deep lib \<Longrightarrow> isolates (PtrTo DatabaseSecretEngineConfigList_gotype) (DatabaseSecretEngineConfigList_DeepCopyObject lib)"
  by (simp add: DatabaseSecretEngineConfigList_DeepCopyObject_def DatabaseSecretEngineConfigList_DeepCopy_def deep_isolates deep_DeepCopyObject deep_DeepCopy)

definition DatabaseSecretEngineRoleSpec_gotype :: gotype where
  "DatabaseSecretEngineRoleSpec_gotype = StructOf [
     (''Connection'', PtrTo VaultConnection_gotype), (''Authentication'', KubeAuthConfiguration_gotype),
     (''Path'', Plain), (''DBSERole'', DBSERole_gotype), (''Name'', Plain)]"

definition DatabaseSecretEngineRoleSpec_DeepCopyInto :: "copier" where
  "DatabaseSecretEngineRoleSpec_DeepCopyInto = struct_copy [
     (''Connection'', new_copy VaultConnection_DeepCopyInto),
     (''Authentication'', KubeAuthConfiguration_DeepCopyInto), (''DBSERole'', DBSERole_DeepCopyInto)]"

definition DatabaseSecretEngineRoleSpec_DeepCopy :: "copier" where
  "DatabaseSecretEngineRoleSpec_DeepCopy = DeepCopy_of DatabaseSecretEngineRoleSpec_DeepCopyInto"

lemma deep_DatabaseSecretEngineRoleSpec [simp]: "deep DatabaseSecretEngineRoleSpec_gotype DatabaseSecretEngineRoleSpec_DeepCopyInto"
  unfolding DatabaseSecretEngineRoleSpec_gotype_def DatabaseSecretEngineRoleSpec_DeepCopyInto_def by (rule deep_struct) (simp add: covers_def)

definition DatabaseSecretEngineRoleStatus_gotype :: gotype where
  "DatabaseSecretEngineRoleStatus_gotype = StructOf [
     (''Conditions'', SliceOf (Foreign ''Condition''))]"

definition DatabaseSecretEngineRoleStatus_DeepCopyInto :: "(string \<Rightarrow> copier) \<Rightarrow> copier" where
  "DatabaseSecretEngineRoleStatus_DeepCopyInto lib = struct_copy [
     (''Conditions'', slice_copy (lib ''Condition''))]"

definition DatabaseSecretEngineRoleStatus_DeepCopy :: "(string \<Rightarrow> copier) \<Rightarrow> copier" where
  "DatabaseSecretEngineRoleStatus_DeepCopy lib = DeepCopy_of (DatabaseSecretEngineRoleStatus_DeepCopyInto lib)"

lemma deep_DatabaseSecretEngineRoleStatus [simp]: "foreign_deep lib \<Longrightarrow> deep DatabaseSecretEngineRoleStatus_gotype (DatabaseSecretEngineRoleStatus_DeepCopyInto lib)"
  unfolding DatabaseSecretEngineRoleStatus_gotype_def DatabaseSecretEngineRoleStatus_DeepCopyInto_def by (rule deep_struct) (simp add: covers_def)

definition DatabaseSecretEngineRole_gotype :: gotype where
  "DatabaseSecretEngineRole_gotype = StructOf [
     (''TypeMeta'', Plain), (''ObjectMeta'', Foreign ''ObjectMeta''),
     (''Spec'', DatabaseSecretEngineRoleSpec_gotype), (''Status'', DatabaseSecretEngineRoleStatus_gotype)]"

definition DatabaseSecretEngineRole_DeepCopyInto :: "(string \<Rightarrow> copier) \<Rightarrow> copier" where
  "DatabaseSecretEngineRole_DeepCopyInto lib = struct_copy [
     (''TypeMeta'', plain_copy), (''ObjectMeta'', lib ''ObjectMeta''),
     (''Spec'', DatabaseSecretEngineRoleSpec_DeepCopyInto),
     (''Status'', DatabaseSecretEngineRoleStatus_DeepCopyInto lib)]"

definition DatabaseSecretEngineRole_DeepCopy :: "(string \<Rightarrow> copier) \<Rightarrow> copier" where
  "DatabaseSecretEngineRole_DeepCopy lib = DeepCopy_of (DatabaseSecretEngineRole_DeepCopyInto lib)"

definition DatabaseSecretEngineRole_DeepCopyObject :: "(string \<Rightarrow> copier) \<Rightarrow> copier" where
  "DatabaseSecretEngineRole_DeepCopyObject lib = DeepCopyObject_of (DatabaseSecretEngineRole_DeepCopy lib)"

lemma deep_DatabaseSecretEngineRole [simp]: "foreign_deep lib \<Longrightarrow> deep DatabaseSecretEngineRole_gotype (DatabaseSecretEngineRole_DeepCopyInto lib)"
  unfolding DatabaseSecretEngineRole_gotype_def DatabaseSecretEngineRole_DeepCopyInto_def by (rule deep_struct) (simp add: covers_def)

lemma isolates_DatabaseSecretEngineRole: "foreign_deep lib \<Longrightarrow> isolates (PtrTo DatabaseSecretEngineRole_gotype) (DatabaseSecretEngineRole_DeepCopyObject lib)"
  by (simp add: DatabaseSecretEngineRole_DeepCopyObject_def DatabaseSecretEngineRole_DeepCopy_def deep_isolates deep_DeepCopyObject deep_DeepCopy)

definition DatabaseSecretEngineRoleList_gotype :: gotype where
  "DatabaseSecretEngineRoleList_gotype = StructOf [
     (''TypeMeta'', Plain), (''ListMeta'', Foreign ''ListMeta''),
     (''Items'', SliceOf DatabaseSecretEngineRole_gotype)]"

definition DatabaseSecretEngineRoleList_DeepCopyInto :: "(string \<Rightarrow> copier) \<Rightarrow> copier" where
  "DatabaseSecretEngineRoleList_DeepCopyInto lib = struct_copy [
     (''TypeMeta'', plain_copy), (''ListMeta'', lib ''ListMeta''),
     (''Items'', slice_copy (DatabaseSecretEngineRole_DeepCopyInto lib))]"

definition DatabaseSecretEngineRoleList_DeepCopy :: "(string \<Rightarrow> copier) \<Rightarrow> copier" where
  "DatabaseSecretEngineRoleList_DeepCopy lib = DeepCopy_of (DatabaseSecretEngineRoleList_DeepCopyInto lib)"

definition DatabaseSecretEngineRoleList_DeepCopyObject :: "(string \<Rightarrow> copier) \<Rightarrow> copier" where
  "DatabaseSecretEngineRoleList_DeepCopyObject lib = DeepCopyObject_of (DatabaseSecretEngineRoleList_DeepCopy lib)"

lemma deep_DatabaseSecretEngineRoleList [simp]: "foreign_deep lib \<Longrightarrow> deep DatabaseSecretEngineRoleList_gotype (DatabaseSecretEngineRoleList_DeepCopyInto lib)"
  unfolding DatabaseSecretEngineRoleList_gotype_def DatabaseSecretEngineRoleList_DeepCopyInto_def by (rule deep_struct) (simp add: covers_def)

lemma isolates_DatabaseSecretEngineRoleList: "foreign_deep lib \<Longrightarrow> isolates (PtrTo DatabaseSecretEngineRoleList_gotype) (DatabaseSecretEngineRoleList_DeepCopyObject lib)"
  by (simp add: DatabaseSecretEngineRoleList_DeepCopyObject_def DatabaseSecretEngineRoleList_DeepCopy_def deep_isolates deep_DeepCopyObject deep_DeepCopy)

definition DatabaseSecretEngineStaticRoleSpec_gotype :: gotype where
  "DatabaseSecretEngineStaticRoleSpec_gotype = StructOf [
     (''Connection'', PtrTo VaultConnection_gotype), (''Authentication'', KubeAuthConfiguration_gotype),
     (''Path'', Plain), (''DBSEStaticRole'', DBSEStaticRole_gotype), (''Name'', Plain)]"

definition DatabaseSecretEngineStaticRoleSpec_DeepCopyInto :: "copier" where
  "DatabaseSecretEngineStaticRoleSpec_DeepCopyInto = struct_copy [
     (''Connection'', new_copy VaultConnection_DeepCopyInto),
     (''Authentication'', KubeAuthConfiguration_DeepCopyInto),
     (''DBSEStaticRole'', DBSEStaticRole_DeepCopyInto)]"

definition DatabaseSecretEngineStaticRoleSpec_DeepCopy :: "copier" where
  "DatabaseSecretEngineStaticRoleSpec_DeepCopy = DeepCopy_of DatabaseSecretEngineStaticRoleSpec_DeepCopyInto"

lemma deep_DatabaseSecretEngineStaticRoleSpec [simp]: "deep DatabaseSecretEngineStaticRoleSpec_gotype DatabaseSecretEngineStaticRoleSpec_DeepCopyInto"
  unfolding DatabaseSecretEngineStaticRoleSpec_gotype_def DatabaseSecretEngineStaticRoleSpec_DeepCopyInto_def by (rule deep_struct) (simp add: covers_def)

definition DatabaseSecretEngineStaticRoleStatus_gotype :: gotype where
  "DatabaseSecretEngineStaticRoleStatus_gotype = StructOf [
     (''Conditions'', SliceOf (Foreign ''Condition''))]"

definition DatabaseSecretEngineStaticRoleStatus_DeepCopyInto :: "(string \<Rightarrow> copier) \<Rightarrow> copier" where
  "DatabaseSecretEngineStaticRoleStatus_DeepCopyInto lib = struct_copy [
     (''Conditions'', slice_copy (lib ''Condition''))]"

definition DatabaseSecretEngineStaticRoleStatus_DeepCopy :: "(string \<Rightarrow> copier) \<Rightarrow> copier" where
  "DatabaseSecretEngineStaticRoleStatus_DeepCopy lib = DeepCopy_of (DatabaseSecretEngineStaticRoleStatus_DeepCopyInto lib)"

lemma deep_DatabaseSecretEngineStaticRoleStatus [simp]: "foreign_deep lib \<Longrightarrow> deep DatabaseSecretEngineStaticRoleStatus_gotype (DatabaseSecretEngineStaticRoleStatus_DeepCopyInto lib)"
  unfolding DatabaseSecretEngineStaticRoleStatus_gotype_def DatabaseSecretEngineStaticRoleStatus_DeepCopyInto_def by (rule deep_struct) (simp add: covers_def)

definition DatabaseSecretEngineStaticRole_gotype :: gotype where
  "DatabaseSecretEngineStaticRole_gotype = StructOf [
     (''TypeMeta'', Plain), (''ObjectMeta'', Foreign ''ObjectMeta''),
     (''Spec'', DatabaseSecretEngineStaticRoleSpec_gotype),
     (''Status'', DatabaseSecretEngineStaticRoleStatus_gotype)]"

definition DatabaseSecretEngineStaticRole_DeepCopyInto :: "(string \<Rightarrow> copier) \<Rightarrow> copier" where
  "DatabaseSecretEngineStaticRole_DeepCopyInto lib = struct_copy [
     (''TypeMeta'', plain_copy), (''ObjectMeta'', lib ''ObjectMeta''),
     (''Spec'', DatabaseSecretEngineStaticRoleSpec_DeepCopyInto),
     (''Status'', DatabaseSecretEngineStaticRoleStatus_DeepCopyInto lib)]"

definition DatabaseSecretEngineStaticRole_DeepCopy :: "(string \<Rightarrow> copier) \<Rightarrow> copier" where
  "DatabaseSecretEngineStaticRole_DeepCopy lib = DeepCopy_of (DatabaseSecretEngineStaticRole_DeepCopyInto lib)"

definition DatabaseSecretEngineStaticRole_DeepCopyObject :: "(string \<Rightarrow> copier) \<Rightarrow> copier" where
  "DatabaseSecretEngineStaticRole_DeepCopyObject lib = DeepCopyObject_of (DatabaseSecretEngineStaticRole_DeepCopy lib)"

lemma deep_DatabaseSecretEngineStaticRole [simp]: "foreign_deep lib \<Longrightarrow> deep DatabaseSecretEngineStaticRole_gotype (DatabaseSecretEngineStaticRole_DeepCopyInto lib)"
  unfolding DatabaseSecretEngineStaticRole_gotype_def DatabaseSecretEngineStaticRole_DeepCopyInto_def by (rule deep_struct) (simp add: covers_def)

lemma isolates_DatabaseSecretEngineStaticRole: "foreign_deep lib \<Longrightarrow> isolates (PtrTo DatabaseSecretEngineStaticRole_gotype) (DatabaseSecretEngineStaticRole_DeepCopyObject lib)"
  by (simp add: DatabaseSecretEngineStaticRole_DeepCopyObject_def DatabaseSecretEngineStaticRole_DeepCopy_def deep_isolates deep_DeepCopyObject deep_DeepCopy)

definition DatabaseSecretEngineStaticRoleList_gotype :: gotype where
  "DatabaseSecretEngineStaticRoleList_gotype = StructOf [
     (''TypeMeta'', Plain), (''ListMeta'', Foreign ''ListMeta''),
     (''Items'', SliceOf DatabaseSecretEngineStaticRole_gotype)]"

definition DatabaseSecretEngineStaticRoleList_DeepCopyInto :: "(string \<Rightarrow> copier) \<Rightarrow> copier" where
  "DatabaseSecretEngineStaticRoleList_DeepCopyInto lib = struct_copy [
     (''TypeMeta'', plain_copy), (''ListMeta'', lib ''ListMeta''),
     (''Items'', slice_copy (DatabaseSecretEngineStaticRole_DeepCopyInto lib))]"

definition DatabaseSecretEngineStaticRoleList_DeepCopy :: "(string \<Rightarrow> copier) \<Rightarrow> copier" where
  "DatabaseSecretEngineStaticRoleList_DeepCopy lib = DeepCopy_of (DatabaseSecretEngineStaticRoleList_DeepCopyInto lib)"

definition DatabaseSecretEngineStaticRoleList_DeepCopyObject :: "(string \<Rightarrow> copier) \<Rightarrow> copier" where
  "DatabaseSecretEngineStaticRoleList_DeepCopyObject lib = DeepCopyObject_of (DatabaseSecretEngineStaticRoleList_DeepCopy lib)"

lemma deep_DatabaseSecretEngineStaticRoleList [simp]: "foreign_deep lib \<Longrightarrow> deep DatabaseSecretEngineStaticRoleList_gotype (DatabaseSecretEngineStaticRoleList_DeepCopyInto lib)"
  unfolding DatabaseSecretEngineStaticRoleList_gotype_def DatabaseSecretEngineStaticRoleList_DeepCopyInto_def by (rule deep_struct) (simp add: covers_def)

lemma isolates_DatabaseSecretEngineStaticRoleList: "foreign_deep lib \<Longrightarrow> isolates (PtrTo DatabaseSecretEngineStaticRoleList_gotype) (DatabaseSecretEngineStaticRoleList_DeepCopyObject lib)"
  by (simp add: DatabaseSecretEngineStaticRoleList_DeepCopyObject_def DatabaseSecretEngineStaticRoleList_DeepCopy_def deep_isolates deep_DeepCopyObject deep_DeepCopy)

definition GHConfig_gotype :: gotype where
  "GHConfig_gotype = StructOf [
     (''ApplicationID'', Plain), (''GitHubAPIBaseURL'', Plain), (''retrievedSSHKey'', Plain)]"

definition GHConfig_DeepCopyInto :: "copier" where
  "GHConfig_DeepCopyInto = struct_copy []"

definition GHConfig_DeepCopy :: "copier" where
  "GHConfig_DeepCopy = DeepCopy_of GHConfig_DeepCopyInto"

lemma flat_GHConfig [simp]: "flat GHConfig_gotype"
  by (simp add: GHConfig_gotype_def)

lemma deep_GHConfig [simp]: "deep GHConfig_gotype GHConfig_DeepCopyInto"
  unfolding GHConfig_gotype_def GHConfig_DeepCopyInto_def by (rule deep_struct) (simp add: covers_def)

definition SSHKeyConfig_gotype :: gotype where
  "SSHKeyConfig_gotype = StructOf [
     (''VaultSecret'', PtrTo VaultSecretReference_gotype), (''Secret'', PtrTo Plain)]"

definition SSHKeyConfig_DeepCopyInto :: "copier" where
  "SSHKeyConfig_DeepCopyInto = struct_copy [
     (''VaultSecret'', new_copy plain_copy), (''Secret'', new_copy plain_copy)]"

definition SSHKeyConfig_DeepCopy :: "copier" where
  "SSHKeyConfig_DeepCopy = DeepCopy_of SSHKeyConfig_DeepCopyInto"

lemma deep_SSHKeyConfig [simp]: "deep SSHKeyConfig_gotype SSHKeyConfig_DeepCopyInto"
  unfolding SSHKeyConfig_gotype_def SSHKeyConfig_DeepCopyInto_def by (rule deep_struct) (simp add: covers_def)

definition GitHubSecretEngineConfigSpec_gotype :: gotype where
  "GitHubSecretEngineConfigSpec_gotype = StructOf [
     (''Connection'', PtrTo VaultConnection_gotype), (''Authentication'', KubeAuthConfiguration_gotype),
     (''Path'', Plain), (''GHConfig'', GHConfig_gotype), (''SSHKeyReference'', SSHKeyConfig_gotype)]"

definition GitHubSecretEngineConfigSpec_DeepCopyInto :: "copier" where
  "GitHubSecretEngineConfigSpec_DeepCopyInto = struct_copy [
     (''Connection'', new_copy VaultConnection_DeepCopyInto),
     (''Authentication'', KubeAuthConfiguration_DeepCopyInto), (''GHConfig'', plain_copy),
     (''SSHKeyReference'', SSHKeyConfig_DeepCopyInto)]"

definition GitHubSecretEngineConfigSpec_DeepCopy :: "copier" where
  "GitHubSecretEngineConfigSpec_DeepCopy = DeepCopy_of GitHubSecretEngineConfigSpec_DeepCopyInto"

lemma deep_GitHubSecretEngineConfigSpec [simp]: "deep GitHubSecretEngineConfigSpec_gotype GitHubSecretEngineConfigSpec_DeepCopyInto"
  unfolding GitHubSecretEngineConfigSpec_gotype_def GitHubSecretEngineConfigSpec_DeepCopyInto_def by (rule deep_struct) (simp add: covers_def)

definition GitHubSecretEngineConfigStatus_gotype :: gotype where
  "GitHubSecretEngineConfigStatus_gotype = StructOf [
     (''Conditions'', SliceOf (Foreign ''Condition''))]"

definition GitHubSecretEngineConfigStatus_DeepCopyInto :: "(string \<Rightarrow> copier) \<Rightarrow> copier" where
  "GitHubSecretEngineConfigStatus_DeepCopyInto lib = struct_copy [
     (''Conditions'', slice_copy (lib ''Condition''))]"

definition GitHubSecretEngineConfigStatus_DeepCopy :: "(string \<Rightarrow> copier) \<Rightarrow> copier" where
  "GitHubSecretEngineConfigStatus_DeepCopy lib = DeepCopy_of (GitHubSecretEngineConfigStatus_DeepCopyInto lib)"

lemma deep_GitHubSecretEngineConfigStatus [simp]: "foreign_deep lib \<Longrightarrow> deep GitHubSecretEngineConfigStatus_gotype (GitHubSecretEngineConfigStatus_DeepCopyInto lib)"
  unfolding GitHubSecretEngineConfigStatus_gotype_def GitHubSecretEngineConfigStatus_DeepCopyInto_def by (rule deep_struct) (simp add: covers_def)

definition GitHubSecretEngineConfig_gotype :: gotype where
  "GitHubSecretEngineConfig_gotype = StructOf [
     (''TypeMeta'', Plain), (''ObjectMeta'', Foreign ''ObjectMeta''),
     (''Spec'', GitHubSecretEngineConfigSpec_gotype), (''Status'', GitHubSecretEngineConfigStatus_gotype)]"

definition GitHubSecretEngineConfig_DeepCopyInto :: "(string \<Rightarrow> copier) \<Rightarrow> copier" where
  "GitHubSecretEngineConfig_DeepCopyInto lib = struct_copy [
     (''TypeMeta'', plain_copy), (''ObjectMeta'', lib ''ObjectMeta''),
     (''Spec'', GitHubSecretEngineConfigSpec_DeepCopyInto),
     (''Status'', GitHubSecretEngineConfigStatus_DeepCopyInto lib)]"

definition GitHubSecretEngineConfig_DeepCopy :: "(string \<Rightarrow> copier) \<Rightarrow> copier" where
  "GitHubSecretEngineConfig_DeepCopy lib = DeepCopy_of (GitHubSecretEngineConfig_DeepCopyInto lib)"

definition GitHubSecretEngineConfig_DeepCopyObject :: "(string \<Rightarrow> copier) \<Rightarrow> copier" where
  "GitHubSecretEngineConfig_DeepCopyObject lib = DeepCopyObject_of (GitHubSecretEngineConfig_DeepCopy lib)"

lemma deep_GitHubSecretEngineConfig [simp]: "foreign_deep lib \<Longrightarrow> deep GitHubSecretEngineConfig_gotype (GitHubSecretEngineConfig_DeepCopyInto lib)"
  unfolding GitHubSecretEngineConfig_gotype_def GitHubSecretEngineConfig_DeepCopyInto_def by (rule deep_struct) (simp add: covers_def)

lemma isolates_GitHubSecretEngineConfig: "foreign_deep lib \<Longrightarrow> isolates (PtrTo GitHubSecretEngineConfig_gotype) (GitHubSecretEngineConfig_DeepCopyObject lib)"
  by (simp add: GitHubSecretEngineConfig_DeepCopyObject_def GitHubSecretEngineConfig_DeepCopy_def deep_isolates deep_DeepCopyObject deep_DeepCopy)

definition GitHubSecretEngineConfigList_gotype :: gotype where
  "GitHubSecretEngineConfigList_gotype = StructOf [
     (''TypeMeta'', Plain), (''ListMeta'', Foreign ''ListMeta''),
     (''Items'', SliceOf GitHubSecretEngineConfig_gotype)]"

definition GitHubSecretEngineConfigList_DeepCopyInto :: "(string \<Rightarrow> copier) \<Rightarrow> copier" where
  "GitHubSecretEngineConfigList_DeepCopyInto lib = struct_copy [
     (''TypeMeta'', plain_copy), (''ListMeta'', lib ''ListMeta''),
     (''Items'', slice_copy (GitHubSecretEngineConfig_DeepCopyInto lib))]"

definition GitHubSecretEngineConfigList_DeepCopy :: "(string \<Rightarrow> copier) \<Rightarrow> copier" where
  "GitHubSecretEngineConfigList_DeepCopy lib = DeepCopy_of (GitHubSecretEngineConfigList_DeepCopyInto lib)"

definition GitHubSecretEngineConfigList_DeepCopyObject :: "(string \<Rightarrow> copier) \<Rightarrow> copier" where
  "GitHubSecretEngineConfigList_DeepCopyObject lib = DeepCopyObject_of (GitHubSecretEngineConfigList_DeepCopy lib)"

lemma deep_GitHubSecretEngineConfigList [simp]: "foreign_deep lib \<Longrightarrow> deep GitHubSecretEngineConfigList_gotype (GitHubSecretEngineConfigList_DeepCopyInto lib)"
  unfolding GitHubSecretEngineConfigList_gotype_def GitHubSecretEngineConfigList_DeepCopyInto_def by (rule deep_struct) (simp add: covers_def)

lemma isolates_GitHubSecretEngineConfigList: "foreign_deep lib \<Longrightarrow> isolates (PtrTo GitHubSecretEngineConfigList_gotype) (GitHubSecretEngineConfigList_DeepCopyObject lib)"
  by (simp add: GitHubSecretEngineConfigList_DeepCopyObject_def GitHubSecretEngineConfigList_DeepCopy_def deep_isolates deep_DeepCopyObject deep_DeepCopy)

definition PermissionSet_gotype :: gotype where
  "PermissionSet_gotype = StructOf [
     (''InstallationID'', Plain), (''OrganizationName'', Plain), (''Repositories'', SliceOf Plain),
     (''RepositoriesIDs'', SliceOf Plain), (''Permissions'', MapTo Plain)]"

definition PermissionSet_DeepCopyInto :: "copier" where
  "PermissionSet_DeepCopyInto = struct_copy [
     (''Repositories'', slice_copy plain_copy), (''RepositoriesIDs'', slice_copy plain_copy),
     (''Permissions'', map_copy plain_copy)]"

definition PermissionSet_DeepCopy :: "copier" where
  "PermissionSet_DeepCopy = DeepCopy_of PermissionSet_DeepCopyInto"

lemma deep_PermissionSet [simp]: "deep PermissionSet_gotype PermissionSet_DeepCopyInto"
  unfolding PermissionSet_gotype_def PermissionSet_DeepCopyInto_def by (rule deep_struct) (simp add: covers_def)

definition GitHubSecretEngineRoleSpec_gotype :: gotype where
  "GitHubSecretEngineRoleSpec_gotype = StructOf [
     (''Connection'', PtrTo VaultConnection_gotype), (''Authentication'', KubeAuthConfiguration_gotype),
     (''Path'', Plain), (''PermissionSet'', PermissionSet_gotype), (''Name'', Plain)]"

definition GitHubSecretEngineRoleSpec_DeepCopyInto :: "copier" where
  "GitHubSecretEngineRoleSpec_DeepCopyInto = struct_copy [
     (''Connection'', new_copy VaultConnection_DeepCopyInto),
     (''Authentication'', KubeAuthConfiguration_DeepCopyInto), (''PermissionSet'', PermissionSet_DeepCopyInto)]"

definition GitHubSecretEngineRoleSpec_DeepCopy :: "copier" where
  "GitHubSecretEngineRoleSpec_DeepCopy = DeepCopy_of GitHubSecretEngineRoleSpec_DeepCopyInto"

lemma deep_GitHubSecretEngineRoleSpec [simp]: "deep GitHubSecretEngineRoleSpec_gotype GitHubSecretEngineRoleSpec_DeepCopyInto"
  unfolding GitHubSecretEngineRoleSpec_gotype_def GitHubSecretEngineRoleSpec_DeepCopyInto_def by (rule deep_struct) (simp add: covers_def)

definition GitHubSecretEngineRoleStatus_gotype :: gotype where
  "GitHubSecretEngineRoleStatus_gotype = StructOf [
     (''Conditions'', SliceOf (Foreign ''Condition''))]"

definition GitHubSecretEngineRoleStatus_DeepCopyInto :: "(string \<Rightarrow> copier) \<Rightarrow> copier" where
  "GitHubSecretEngineRoleStatus_DeepCopyInto lib = struct_copy [
     (''Conditions'', slice_copy (lib ''Condition''))]"

definition GitHubSecretEngineRoleStatus_DeepCopy :: "(string \<Rightarrow> copier) \<Rightarrow> copier" where
  "GitHubSecretEngineRoleStatus_DeepCopy lib = DeepCopy_of (GitHubSecretEngineRoleStatus_DeepCopyInto lib)"

lemma deep_GitHubSecretEngineRoleStatus [simp]: "foreign_deep lib \<Longrightarrow> deep GitHubSecretEngineRoleStatus_gotype (GitHubSecretEngineRoleStatus_DeepCopyInto lib)"
  unfolding GitHubSecretEngineRoleStatus_gotype_def GitHubSecretEngineRoleStatus_DeepCopyInto_def by (rule deep_struct) (simp add: covers_def)

definition GitHubSecretEngineRole_gotype :: gotype where
  "GitHubSecretEngineRole_gotype = StructOf [
     (''TypeMeta'', Plain), (''ObjectMeta'', Foreign ''ObjectMeta''),
     (''Spec'', GitHubSecretEngineRoleSpec_gotype), (''Status'', GitHubSecretEngineRoleStatus_gotype)]"

definition GitHubSecretEngineRole_DeepCopyInto :: "(string \<Rightarrow> copier) \<Rightarrow> copier" where
  "GitHubSecretEngineRole_DeepCopyInto lib = struct_copy [
     (''TypeMeta'', plain_copy), (''ObjectMeta'', lib ''ObjectMeta''),
     (''Spec'', GitHubSecretEngineRoleSpec_DeepCopyInto),
     (''Status'', GitHubSecretEngineRoleStatus_DeepCopyInto lib)]"

definition GitHubSecretEngineRole_DeepCopy :: "(string \<Rightarrow> copier) \<Rightarrow> copier" where
  "GitHubSecretEngineRole_DeepCopy lib = DeepCopy_of (GitHubSecretEngineRole_DeepCopyInto lib)"

definition GitHubSecretEngineRole_DeepCopyObject :: "(string \<Rightarrow> copier) \<Rightarrow> copier" where
  "GitHubSecretEngineRole_DeepCopyObject lib = DeepCopyObject_of (GitHubSecretEngineRole_DeepCopy lib)"

lemma deep_GitHubSecretEngineRole [simp]: "foreign_deep lib \<Longrightarrow> deep GitHubSecretEngineRole_gotype (GitHubSecretEngineRole_DeepCopyInto lib)"
  unfolding GitHubSecretEngineRole_gotype_def GitHubSecretEngineRole_DeepCopyInto_def by (rule deep_struct) (simp add: covers_def)

lemma isolates_GitHubSecretEngineRole: "foreign_deep lib \<Longrightarrow> isolates (PtrTo GitHubSecretEngineRole_gotype) (GitHubSecretEngineRole_DeepCopyObject lib)"
  by (simp add: GitHubSecretEngineRole_DeepCopyObject_def GitHubSecretEngineRole_DeepCopy_def deep_isolates deep_DeepCopyObject deep_DeepCopy)

definition GitHubSecretEngineRoleList_gotype :: gotype where
  "GitHubSecretEngineRoleList_gotype = StructOf [
     (''TypeMeta'', Plain), (''ListMeta'', Foreign ''ListMeta''),
     (''Items'', SliceOf GitHubSecretEngineRole_gotype)]"

definition GitHubSecretEngineRoleList_DeepCopyInto :: "(string \<Rightarrow> copier) \<Rightarrow> copier" where
  "GitHubSecretEngineRoleList_DeepCopyInto lib = struct_copy [
     (''TypeMeta'', plain_copy), (''ListMeta'', lib ''ListMeta''),
     (''Items'', slice_copy (GitHubSecretEngineRole_DeepCopyInto lib))]"

definition GitHubSecretEngineRoleList_DeepCopy :: "(string \<Rightarrow> copier) \<Rightarrow> copier" where
  "GitHubSecretEngineRoleList_DeepCopy lib = DeepCopy_of (GitHubSecretEngineRoleList_DeepCopyInto lib)"

definition GitHubSecretEngineRoleList_DeepCopyObject :: "(string \<Rightarrow> copier) \<Rightarrow> copier" where
  "GitHubSecretEngineRoleList_DeepCopyObject lib = DeepCopyObject_of (GitHubSecretEngineRoleList_DeepCopy lib)"

lemma deep_GitHubSecretEngineRoleList [simp]: "foreign_deep lib \<Longrightarrow> deep GitHubSecretEngineRoleList_gotype (GitHubSecretEngineRoleList_DeepCopyInto lib)"
  unfolding GitHubSecretEngineRoleList_gotype_def GitHubSecretEngineRoleList_DeepCopyInto_def by (rule deep_struct) (simp add: covers_def)

lemma isolates_GitHubSecretEngineRoleList: "foreign_deep lib \<Longrightarrow> isolates (PtrTo GitHubSecretEngineRoleList_gotype) (GitHubSecretEngineRoleList_DeepCopyObject lib)"
  by (simp add: GitHubSecretEngineRoleList_DeepCopyObject_def GitHubSecretEngineRoleList_DeepCopy_def deep_isolates deep_DeepCopyObject deep_DeepCopy)

definition KubeSEConfig_gotype :: gotype where
  "KubeSEConfig_gotype = StructOf [
     (''KubernetesHost'', Plain), (''KubernetesCACert'', Plain), (''DisableLocalCAJWT'', Plain),
     (''retrievedServiceAccountJWT'', Plain)]"

definition KubeSEConfig_DeepCopyInto :: "copier" where
  "KubeSEConfig_DeepCopyInto = struct_copy []"

definition KubeSEConfig_DeepCopy :: "copier" where
  "KubeSEConfig_DeepCopy = DeepCopy_of KubeSEConfig_DeepCopyInto"

lemma flat_KubeSEConfig [simp]: "flat KubeSEConfig_gotype"
  by (simp add: KubeSEConfig_gotype_def)

lemma deep_KubeSEConfig [simp]: "deep KubeSEConfig_gotype KubeSEConfig_DeepCopyInto"
  unfolding KubeSEConfig_gotype_def KubeSEConfig_DeepCopyInto_def by (rule deep_struct) (simp add: covers_def)

definition KubeSERole_gotype :: gotype where
  "KubeSERole_gotype = StructOf [
     (''AllowedKubernetesNamespaces'', SliceOf Plain), (''AllowedKubernetesNamespaceSelector'', Plain),
     (''DefaultTTL'', Plain), (''MaxTTL'', Plain), (''DefaultAudiences'', Plain),
     (''ServiceAccountName'', Plain), (''KubernetesRoleName'', Plain), (''KubernetesRoleType'', Plain),
     (''GenerateRoleRules'', Plain), (''NameTemplate'', Plain), (''ExtraAnnotations'', MapTo Plain),
     (''ExtraLabels'', MapTo Plain)]"

definition KubeSERole_DeepCopyInto :: "copier" where
  "KubeSERole_DeepCopyInto = struct_copy [
     (''AllowedKubernetesNamespaces'', slice_copy plain_copy), (''DefaultTTL'', plain_copy),
     (''MaxTTL'', plain_copy), (''ExtraAnnotations'', map_copy plain_copy),
     (''ExtraLabels'', map_copy plain_copy)]"

definition KubeSERole_DeepCopy :: "copier" where
  "KubeSERole_DeepCopy = DeepCopy_of KubeSERole_DeepCopyInto"

lemma deep_KubeSERole [simp]: "deep KubeSERole_gotype KubeSERole_DeepCopyInto"
  unfolding KubeSERole_gotype_def KubeSERole_DeepCopyInto_def by (rule deep_struct) (simp add: covers_def)

definition KubernetesSecretEngineConfigSpec_gotype :: gotype where
  "KubernetesSecretEngineConfigSpec_gotype = StructOf [
     (''Connection'', PtrTo VaultConnection_gotype), (''Authentication'', KubeAuthConfiguration_gotype),
     (''Path'', Plain), (''JWTReference'', RootCredentialConfig_gotype),
     (''KubeSEConfig'', KubeSEConfig_gotype)]"

definition KubernetesSecretEngineConfigSpec_DeepCopyInto :: "copier" where
  "KubernetesSecretEngineConfigSpec_DeepCopyInto = struct_copy [
     (''Connection'', new_copy VaultConnection_DeepCopyInto),
     (''Authentication'', KubeAuthConfiguration_DeepCopyInto),
     (''JWTReference'', RootCredentialConfig_DeepCopyInto), (''KubeSEConfig'', plain_copy)]"

definition KubernetesSecretEngineConfigSpec_DeepCopy :: "copier" where
  "KubernetesSecretEngineConfigSpec_DeepCopy = DeepCopy_of KubernetesSecretEngineConfigSpec_DeepCopyInto"

lemma deep_KubernetesSecretEngineConfigSpec [simp]: "deep KubernetesSecretEngineConfigSpec_gotype KubernetesSecretEngineConfigSpec_DeepCopyInto"
  unfolding KubernetesSecretEngineConfigSpec_gotype_def KubernetesSecretEngineConfigSpec_DeepCopyInto_def by (rule deep_struct) (simp add: covers_def)

definition KubernetesSecretEngineConfigStatus_gotype :: gotype where
  "KubernetesSecretEngineConfigStatus_gotype = StructOf [
     (''Conditions'', SliceOf (Foreign ''Condition''))]"

definition KubernetesSecretEngineConfigStatus_DeepCopyInto :: "(string \<Rightarrow> copier) \<Rightarrow> copier" where
  "KubernetesSecretEngineConfigStatus_DeepCopyInto lib = struct_copy [
     (''Conditions'', slice_copy (lib ''Condition''))]"

definition KubernetesSecretEngineConfigStatus_DeepCopy :: "(string \<Rightarrow> copier) \<Rightarrow> copier" where
  "KubernetesSecretEngineConfigStatus_DeepCopy lib = DeepCopy_of (KubernetesSecretEngineConfigStatus_DeepCopyInto lib)"

lemma deep_KubernetesSecretEngineConfigStatus [simp]: "foreign_deep lib \<Longrightarrow> deep KubernetesSecretEngineConfigStatus_gotype (KubernetesSecretEngineConfigStatus_DeepCopyInto lib)"
  unfolding KubernetesSecretEngineConfigStatus_gotype_def KubernetesSecretEngineConfigStatus_DeepCopyInto_def by (rule deep_struct) (simp add: covers_def)

definition KubernetesSecretEngineConfig_gotype :: gotype where
  "KubernetesSecretEngineConfig_gotype = StructOf [
     (''TypeMeta'', Plain), (''ObjectMeta'', Foreign ''ObjectMeta''),
     (''Spec'', KubernetesSecretEngineConfigSpec_gotype),
     (''Status'', KubernetesSecretEngineConfigStatus_gotype)]"

definition KubernetesSecretEngineConfig_DeepCopyInto :: "(string \<Rightarrow> copier) \<Rightarrow> copier" where
  "KubernetesSecretEngineConfig_DeepCopyInto lib = struct_copy [
     (''TypeMeta'', plain_copy), (''ObjectMeta'', lib ''ObjectMeta''),
     (''Spec'', KubernetesSecretEngineConfigSpec_DeepCopyInto),
     (''Status'', KubernetesSecretEngineConfigStatus_DeepCopyInto lib)]"

definition KubernetesSecretEngineConfig_DeepCopy :: "(string \<Rightarrow> copier) \<Rightarrow> copier" where
  "KubernetesSecretEngineConfig_DeepCopy lib = DeepCopy_of (KubernetesSecretEngineConfig_DeepCopyInto lib)"

definition KubernetesSecretEngineConfig_DeepCopyObject :: "(string \<Rightarrow> copier) \<Rightarrow> copier" where
  "KubernetesSecretEngineConfig_DeepCopyObject lib = DeepCopyObject_of (KubernetesSecretEngineConfig_DeepCopy lib)"

lemma deep_KubernetesSecretEngineConfig [simp]: "foreign_deep lib \<Longrightarrow> deep KubernetesSecretEngineConfig_gotype (KubernetesSecretEngineConfig_DeepCopyInto lib)"
  unfolding KubernetesSecretEngineConfig_gotype_def KubernetesSecretEngineConfig_DeepCopyInto_def by (rule deep_struct) (simp add: covers_def)

lemma isolates_KubernetesSecretEngineConfig: "foreign_deep lib \<Longrightarrow> isolates (PtrTo KubernetesSecretEngineConfig_gotype) (KubernetesSecretEngineConfig_DeepCopyObject lib)"
  by (simp add: KubernetesSecretEngineConfig_DeepCopyObject_def KubernetesSecretEngineConfig_DeepCopy_def deep_isolates deep_DeepCopyObject deep_DeepCopy)

definition KubernetesSecretEngineConfigList_gotype :: gotype where
  "KubernetesSecretEngineConfigList_gotype = StructOf [
     (''TypeMeta'', Plain), (''ListMeta'', Foreign ''ListMeta''),
     (''Items'', SliceOf KubernetesSecretEngineConfig_gotype)]"

definition KubernetesSecretEngineConfigList_DeepCopyInto :: "(string \<Rightarrow> copier) \<Rightarrow> copier" where
  "KubernetesSecretEngineConfigList_DeepCopyInto lib = struct_copy [
     (''TypeMeta'', plain_copy), (''ListMeta'', lib ''ListMeta''),
     (''Items'', slice_copy (KubernetesSecretEngineConfig_DeepCopyInto lib))]"

definition KubernetesSecretEngineConfigList_DeepCopy :: "(string \<Rightarrow> copier) \<Rightarrow> copier" where
  "KubernetesSecretEngineConfigList_DeepCopy lib = DeepCopy_of (KubernetesSecretEngineConfigList_DeepCopyInto lib)"

definition KubernetesSecretEngineConfigList_DeepCopyObject :: "(string \<Rightarrow> copier) \<Rightarrow> copier" where
  "KubernetesSecretEngineConfigList_DeepCopyObject lib = DeepCopyObject_of (KubernetesSecretEngineConfigList_DeepCopy lib)"

lemma deep_KubernetesSecretEngineConfigList [simp]: "foreign_deep lib \<Longrightarrow> deep KubernetesSecretEngineConfigList_gotype (KubernetesSecretEngineConfigList_DeepCopyInto lib)"
  unfolding KubernetesSecretEngineConfigList_gotype_def KubernetesSecretEngineConfigList_DeepCopyInto_def by (rule deep_struct) (simp add: covers_def)

lemma isolates_KubernetesSecretEngineConfigList: "foreign_deep lib \<Longrightarrow> isolates (PtrTo KubernetesSecretEngineConfigList_gotype) (KubernetesSecretEngineConfigList_DeepCopyObject lib)"
  by (simp add: KubernetesSecretEngineConfigList_DeepCopyObject_def KubernetesSecretEngineConfigList_DeepCopy_def deep_isolates deep_DeepCopyObject deep_DeepCopy)

definition KubernetesSecretEngineRoleSpec_gotype :: gotype where
  "KubernetesSecretEngineRoleSpec_gotype = StructOf [
     (''Connection'', PtrTo VaultConnection_gotype), (''Authentication'', KubeAuthConfiguration_gotype),
     (''Path'', Plain), (''TargetNamespaces'', TargetNamespaceConfig_gotype),
     (''KubeSERole'', KubeSERole_gotype), (''Name'', Plain)]"

definition KubernetesSecretEngineRoleSpec_DeepCopyInto :: "(string \<Rightarrow> copier) \<Rightarrow> copier" where
  "KubernetesSecretEngineRoleSpec_DeepCopyInto lib = struct_copy [
     (''Connection'', new_copy VaultConnection_DeepCopyInto),
     (''Authentication'', KubeAuthConfiguration_DeepCopyInto),
     (''TargetNamespaces'', TargetNamespaceConfig_DeepCopyInto lib), (''KubeSERole'', KubeSERole_DeepCopyInto)]"

definition KubernetesSecretEngineRoleSpec_DeepCopy :: "(string \<Rightarrow> copier) \<Rightarrow> copier" where
  "KubernetesSecretEngineRoleSpec_DeepCopy lib = DeepCopy_of (KubernetesSecretEngineRoleSpec_DeepCopyInto lib)"

lemma deep_KubernetesSecretEngineRoleSpec [simp]: "foreign_deep lib \<Longrightarrow> deep KubernetesSecretEngineRoleSpec_gotype (KubernetesSecretEngineRoleSpec_DeepCopyInto lib)"
  unfolding KubernetesSecretEngineRoleSpec_gotype_def KubernetesSecretEngineRoleSpec_DeepCopyInto_def by (rule deep_struct) (simp add: covers_def)

definition KubernetesSecretEngineRoleStatus_gotype :: gotype where
  "KubernetesSecretEngineRoleStatus_gotype = StructOf [
     (''Conditions'', SliceOf (Foreign ''Condition''))]"

definition KubernetesSecretEngineRoleStatus_DeepCopyInto :: "(string \<Rightarrow> copier) \<Rightarrow> copier" where
  "KubernetesSecretEngineRoleStatus_DeepCopyInto lib = struct_copy [
     (''Conditions'', slice_copy (lib ''Condition''))]"

definition KubernetesSecretEngineRoleStatus_DeepCopy :: "(string \<Rightarrow> copier) \<Rightarrow> copier" where
  "KubernetesSecretEngineRoleStatus_DeepCopy lib = DeepCopy_of (KubernetesSecretEngineRoleStatus_DeepCopyInto lib)"

lemma deep_KubernetesSecretEngineRoleStatus [simp]: "foreign_deep lib \<Longrightarrow> deep KubernetesSecretEngineRoleStatus_gotype (KubernetesSecretEngineRoleStatus_DeepCopyInto lib)"
  unfolding KubernetesSecretEngineRoleStatus_gotype_def KubernetesSecretEngineRoleStatus_DeepCopyInto_def by (rule deep_struct) (simp add: covers_def)

definition KubernetesSecretEngineRole_gotype :: gotype where
  "KubernetesSecretEngineRole_gotype = StructOf [
     (''TypeMeta'', Plain), (''ObjectMeta'', Foreign ''ObjectMeta''),
     (''Spec'', KubernetesSecretEngineRoleSpec_gotype), (''Status'', KubernetesSecretEngineRoleStatus_gotype)]"

definition KubernetesSecretEngineRole_DeepCopyInto :: "(string \<Rightarrow> copier) \<Rightarrow> copier" where
  "KubernetesSecretEngineRole_DeepCopyInto lib = struct_copy [
     (''TypeMeta'', plain_copy), (''ObjectMeta'', lib ''ObjectMeta''),
     (''Spec'', KubernetesSecretEngineRoleSpec_DeepCopyInto lib),
     (''Status'', KubernetesSecretEngineRoleStatus_DeepCopyInto lib)]"

definition KubernetesSecretEngineRole_DeepCopy :: "(string \<Rightarrow> copier) \<Rightarrow> copier" where
  "KubernetesSecretEngineRole_DeepCopy lib = DeepCopy_of (KubernetesSecretEngineRole_DeepCopyInto lib)"

definition KubernetesSecretEngineRole_DeepCopyObject :: "(string \<Rightarrow> copier) \<Rightarrow> copier" where
  "KubernetesSecretEngineRole_DeepCopyObject lib = DeepCopyObject_of (KubernetesSecretEngineRole_DeepCopy lib)"

lemma deep_KubernetesSecretEngineRole [simp]: "foreign_deep lib \<Longrightarrow> deep KubernetesSecretEngineRole_gotype (KubernetesSecretEngineRole_DeepCopyInto lib)"
  unfolding KubernetesSecretEngineRole_gotype_def KubernetesSecretEngineRole_DeepCopyInto_def by (rule deep_struct) (simp add: covers_def)

lemma isolates_KubernetesSecretEngineRole: "foreign_deep lib \<Longrightarrow> isolates (PtrTo KubernetesSecretEngineRole_gotype) (KubernetesSecretEngineRole_DeepCopyObject lib)"
  by (simp add: KubernetesSecretEngineRole_DeepCopyObject_def KubernetesSecretEngineRole_DeepCopy_def deep_isolates deep_DeepCopyObject deep_DeepCopy)

definition KubernetesSecretEngineRoleList_gotype :: gotype where
  "KubernetesSecretEngineRoleList_gotype = StructOf [
     (''TypeMeta'', Plain), (''ListMeta'', Foreign ''ListMeta''),
     (''Items'', SliceOf KubernetesSecretEngineRole_gotype)]"

definition KubernetesSecretEngineRoleList_DeepCopyInto :: "(string \<Rightarrow> copier) \<Rightarrow> copier" where
  "KubernetesSecretEngineRoleList_DeepCopyInto lib = struct_copy [
     (''TypeMeta'', plain_copy), (''ListMeta'', lib ''ListMeta''),
     (''Items'', slice_copy (KubernetesSecretEngineRole_DeepCopyInto lib))]"

definition KubernetesSecretEngineRoleList_DeepCopy :: "(string \<Rightarrow> copier) \<Rightarrow> copier" where
  "KubernetesSecretEngineRoleList_DeepCopy lib = DeepCopy_of (KubernetesSecretEngineRoleList_DeepCopyInto lib)"

definition KubernetesSecretEngineRoleList_DeepCopyObject :: "(string \<Rightarrow> copier) \<Rightarrow> copier" where
  "KubernetesSecretEngineRoleList_DeepCopyObject lib = DeepCopyObject_of (KubernetesSecretEngineRoleList_DeepCopy lib)"

lemma deep_KubernetesSecretEngineRoleList [simp]: "foreign_deep lib \<Longrightarrow> deep KubernetesSecretEngineRoleList_gotype (KubernetesSecretEngineRoleList_DeepCopyInto lib)"
  unfolding KubernetesSecretEngineRoleList_gotype_def KubernetesSecretEngineRoleList_DeepCopyInto_def by (rule deep_struct) (simp add: covers_def)

lemma isolates_KubernetesSecretEngineRoleList: "foreign_deep lib \<Longrightarrow> isolates (PtrTo KubernetesSecretEngineRoleList_gotype) (KubernetesSecretEngineRoleList_DeepCopyObject lib)"
  by (simp add: KubernetesSecretEngineRoleList_DeepCopyObject_def KubernetesSecretEngineRoleList_DeepCopy_def deep_isolates deep_DeepCopyObject deep_DeepCopy)

definition MountConfig_gotype :: gotype where
  "MountConfig_gotype = StructOf [
     (''DefaultLeaseTTL'', Plain), (''MaxLeaseTTL'', Plain), (''ForceNoCache'', Plain),
     (''AuditNonHMACRequestKeys'', SliceOf Plain), (''AuditNonHMACResponseKeys'', SliceOf Plain),
     (''ListingVisibility'', Plain), (''PassthroughRequestHeaders'', SliceOf Plain),
     (''AllowedResponseHeaders'', SliceOf Plain)]"

definition MountConfig_DeepCopyInto :: "copier" where
  "MountConfig_DeepCopyInto = struct_copy [
     (''AuditNonHMACRequestKeys'', slice_copy plain_copy),
     (''AuditNonHMACResponseKeys'', slice_copy plain_copy),
     (''PassthroughRequestHeaders'', slice_copy plain_copy),
     (''AllowedResponseHeaders'', slice_copy plain_copy)]"

definition MountConfig_DeepCopy :: "copier" where
  "MountConfig_DeepCopy = DeepCopy_of MountConfig_DeepCopyInto"

lemma deep_MountConfig [simp]: "deep MountConfig_gotype MountConfig_DeepCopyInto"
  unfolding MountConfig_gotype_def MountConfig_DeepCopyInto_def by (rule deep_struct) (simp add: covers_def)

definition Mount_gotype :: gotype where
  "Mount_gotype = StructOf [
     (''Type'', Plain), (''Description'', Plain), (''Config'', MountConfig_gotype), (''Local'', Plain),
     (''SealWrap'', Plain), (''ExternalEntropyAccess'', Plain), (''Options'', MapTo Plain)]"

definition Mount_DeepCopyInto :: "copier" where
  "Mount_DeepCopyInto = struct_copy [
     (''Config'', MountConfig_DeepCopyInto), (''Options'', map_copy plain_copy)]"

definition Mount_DeepCopy :: "copier" where
  "Mount_DeepCopy = DeepCopy_of Mount_DeepCopyInto"

lemma deep_Mount [simp]: "deep Mount_gotype Mount_DeepCopyInto"
  unfolding Mount_gotype_def Mount_DeepCopyInto_def by (rule deep_struct) (simp add: covers_def)

definition PKICommon_gotype :: gotype where
  "PKICommon_gotype = StructOf [
     (''CommonName'', Plain), (''AltNames'', Plain), (''IPSans'', Plain), (''URISans'', Plain),
     (''OtherSans'', Plain), (''TTL'', Plain), (''Format'', Plain), (''PrivateKeyFormat'', Plain),
     (''KeyType'', Plain), (''KeyBits'', Plain), (''MaxPathLength'', Plain), (''ExcludeCnFromSans'', Plain),
     (''PermittedDnsDomains'', SliceOf Plain), (''OU'', Plain), (''Organization'', Plain), (''Country'', Plain),
     (''Locality'', Plain), (''Province'', Plain), (''StreetAddress'', Plain), (''PostalCode'', Plain),
     (''SerialNumber'', Plain)]"

definition PKICommon_DeepCopyInto :: "copier" where
  "PKICommon_DeepCopyInto = struct_copy [
     (''TTL'', plain_copy), (''PermittedDnsDomains'', slice_copy plain_copy)]"

definition PKICommon_DeepCopy :: "copier" where
  "PKICommon_DeepCopy = DeepCopy_of PKICommon_DeepCopyInto"

lemma deep_PKICommon [simp]: "deep PKICommon_gotype PKICommon_DeepCopyInto"
  unfolding PKICommon_gotype_def PKICommon_DeepCopyInto_def by (rule deep_struct) (simp add: covers_def)

definition PKIConfigCRL_gotype :: gotype where
  "PKIConfigCRL_gotype = StructOf [
     (''CRLExpiry'', Plain), (''CRLDisable'', Plain)]"

definition PKIConfigCRL_DeepCopyInto :: "copier" where
  "PKIConfigCRL_DeepCopyInto = struct_copy [
     (''CRLExpiry'', plain_copy)]"

definition PKIConfigCRL_DeepCopy :: "copier" where
  "PKIConfigCRL_DeepCopy = DeepCopy_of PKIConfigCRL_DeepCopyInto"

lemma flat_PKIConfigCRL [simp]: "flat PKIConfigCRL_gotype"
  by (simp add: PKIConfigCRL_gotype_def)

lemma deep_PKIConfigCRL [simp]: "deep PKIConfigCRL_gotype PKIConfigCRL_DeepCopyInto"
  unfolding PKIConfigCRL_gotype_def PKIConfigCRL_DeepCopyInto_def by (rule deep_struct) (simp add: covers_def)

definition PKIConfigUrls_gotype :: gotype where
  "PKIConfigUrls_gotype = StructOf [
     (''IssuingCertificates'', SliceOf Plain), (''CRLDistributionPoints'', SliceOf Plain),
     (''OcspServers'', SliceOf Plain)]"

definition PKIConfigUrls_DeepCopyInto :: "copier" where
  "PKIConfigUrls_DeepCopyInto = struct_copy [
     (''IssuingCertificates'', slice_copy plain_copy), (''CRLDistributionPoints'', slice_copy plain_copy),
     (''OcspServers'', slice_copy plain_copy)]"

definition PKIConfigUrls_DeepCopy :: "copier" where
  "PKIConfigUrls_DeepCopy = DeepCopy_of PKIConfigUrls_DeepCopyInto"

lemma deep_PKIConfigUrls [simp]: "deep PKIConfigUrls_gotype PKIConfigUrls_DeepCopyInto"
  unfolding PKIConfigUrls_gotype_def PKIConfigUrls_DeepCopyInto_def by (rule deep_struct) (simp add: covers_def)

definition PKIConfig_gotype :: gotype where
  "PKIConfig_gotype = StructOf [
     (''PKIConfigUrls'', PKIConfigUrls_gotype), (''PKIConfigCRL'', PKIConfigCRL_gotype)]"

definition PKIConfig_DeepCopyInto :: "copier" where
  "PKIConfig_DeepCopyInto = struct_copy [
     (''PKIConfigUrls'', PKIConfigUrls_DeepCopyInto), (''PKIConfigCRL'', plain_copy)]"

definition PKIConfig_DeepCopy :: "copier" where
  "PKIConfig_DeepCopy = DeepCopy_of PKIConfig_DeepCopyInto"

lemma deep_PKIConfig [simp]: "deep PKIConfig_gotype PKIConfig_DeepCopyInto"
  unfolding PKIConfig_gotype_def PKIConfig_DeepCopyInto_def by (rule deep_struct) (simp add: covers_def)

definition PKIIntermediate_gotype :: gotype where
  "PKIIntermediate_gotype = StructOf [
     (''ExternalSignSecret'', PtrTo Plain), (''CertificateKey'', Plain), (''InternalSign'', PtrTo Plain),
     (''cSR'', Plain), (''signedIntermediate'', Plain)]"

definition PKIIntermediate_DeepCopyInto :: "copier" where
  "PKIIntermediate_DeepCopyInto = struct_copy [
     (''ExternalSignSecret'', new_copy plain_copy), (''InternalSign'', new_copy plain_copy)]"

definition PKIIntermediate_DeepCopy :: "copier" where
  "PKIIntermediate_DeepCopy = DeepCopy_of PKIIntermediate_DeepCopyInto"

lemma deep_PKIIntermediate [simp]: "deep PKIIntermediate_gotype PKIIntermediate_DeepCopyInto"
  unfolding PKIIntermediate_gotype_def PKIIntermediate_DeepCopyInto_def by (rule deep_struct) (simp add: covers_def)

definition PKIRole_gotype :: gotype where
  "PKIRole_gotype = StructOf [
     (''TTL'', Plain), (''MaxTTL'', Plain), (''AllowLocalhost'', Plain), (''AllowedDomains'', SliceOf Plain),
     (''AllowedDomainsTemplate'', Plain), (''AllowBareDomains'', Plain), (''AllowSubdomains'', Plain),
     (''AllowGlobDomains'', Plain), (''AllowAnyName'', Plain), (''EnforceHostnames'', Plain),
     (''AllowIPSans'', Plain), (''AllowedURISans'', SliceOf Plain), (''AllowedOtherSans'', Plain),
     (''ServerFlag'', Plain), (''ClientFlag'', Plain), (''CodeSigningFlag'', Plain),
     (''EmailProtectionFlag'', Plain), (''KeyType'', Plain), (''KeyBits'', Plain),
     (''KeyUsage'', SliceOf Plain), (''ExtKeyUsage'', SliceOf Plain), (''ExtKeyUsageOids'', SliceOf Plain),
     (''UseCSRCommonName'', Plain), (''UseCSRSans'', Plain), (''OU'', Plain), (''Organization'', Plain),
     (''Country'', Plain), (''Locality'', Plain), (''Province'', Plain), (''StreetAddress'', Plain),
     (''PostalCode'', Plain), (''SerialNumber'', Plain), (''GenerateLease'', Plain), (''NoStore'', Plain),
     (''RequireCn'', Plain), (''PolicyIdentifiers'', SliceOf Plain), (''BasicConstraintsValidForNonCa'', Plain),
     (''NotBeforeDuration'', Plain)]"

definition PKIRole_DeepCopyInto :: "copier" where
  "PKIRole_DeepCopyInto = struct_copy [
     (''TTL'', plain_copy), (''MaxTTL'', plain_copy), (''AllowedDomains'', slice_copy plain_copy),
     (''AllowedURISans'', slice_copy plain_copy), (''KeyUsage'', slice_copy plain_copy),
     (''ExtKeyUsage'', slice_copy plain_copy), (''ExtKeyUsageOids'', slice_copy plain_copy),
     (''PolicyIdentifiers'', slice_copy plain_copy), (''NotBeforeDuration'', plain_copy)]"

definition PKIRole_DeepCopy :: "copier" where
  "PKIRole_DeepCopy = DeepCopy_of PKIRole_DeepCopyInto"

lemma deep_PKIRole [simp]: "deep PKIRole_gotype PKIRole_DeepCopyInto"
  unfolding PKIRole_gotype_def PKIRole_DeepCopyInto_def by (rule deep_struct) (simp add: covers_def)

definition PKIType_gotype :: gotype where
  "PKIType_gotype = StructOf [
     (''Type'', Plain), (''PrivateKeyType'', Plain)]"

definition PKIType_DeepCopyInto :: "copier" where
  "PKIType_DeepCopyInto = struct_copy []"

definition PKIType_DeepCopy :: "copier" where
  "PKIType_DeepCopy = DeepCopy_of PKIType_DeepCopyInto"

lemma flat_PKIType [simp]: "flat PKIType_gotype"
  by (simp add: PKIType_gotype_def)

lemma deep_PKIType [simp]: "deep PKIType_gotype PKIType_DeepCopyInto"
  unfolding PKIType_gotype_def PKIType_DeepCopyInto_def by (rule deep_struct) (simp add: covers_def)

definition PKISecretEngineConfigSpec_gotype :: gotype where
  "PKISecretEngineConfigSpec_gotype = StructOf [
     (''Connection'', PtrTo VaultConnection_gotype), (''Authentication'', KubeAuthConfiguration_gotype),
     (''Path'', Plain), (''PKIType'', PKIType_gotype), (''PKICommon'', PKICommon_gotype),
     (''PKIConfig'', PKIConfig_gotype), (''PKIIntermediate'', PKIIntermediate_gotype)]"

definition PKISecretEngineConfigSpec_DeepCopyInto :: "copier" where
  "PKISecretEngineConfigSpec_DeepCopyInto = struct_copy [
     (''Connection'', new_copy VaultConnection_DeepCopyInto),
     (''Authentication'', KubeAuthConfiguration_DeepCopyInto), (''PKIType'', plain_copy),
     (''PKICommon'', PKICommon_DeepCopyInto), (''PKIConfig'', PKIConfig_DeepCopyInto),
     (''PKIIntermediate'', PKIIntermediate_DeepCopyInto)]"

definition PKISecretEngineConfigSpec_DeepCopy :: "copier" where
  "PKISecretEngineConfigSpec_DeepCopy = DeepCopy_of PKISecretEngineConfigSpec_DeepCopyInto"

lemma deep_PKISecretEngineConfigSpec [simp]: "deep PKISecretEngineConfigSpec_gotype PKISecretEngineConfigSpec_DeepCopyInto"
  unfolding PKISecretEngineConfigSpec_gotype_def PKISecretEngineConfigSpec_DeepCopyInto_def by (rule deep_struct) (simp add: covers_def)

definition PKISecretEngineConfigStatus_gotype :: gotype where
  "PKISecretEngineConfigStatus_gotype = StructOf [
     (''Conditions'', SliceOf (Foreign ''Condition'')), (''Generated'', Plain), (''Exported'', Plain),
     (''Signed'', Plain)]"

definition PKISecretEngineConfigStatus_DeepCopyInto :: "(string \<Rightarrow> copier) \<Rightarrow> copier" where
  "PKISecretEngineConfigStatus_DeepCopyInto lib = struct_copy [
     (''Conditions'', slice_copy (lib ''Condition''))]"

definition PKISecretEngineConfigStatus_DeepCopy :: "(string \<Rightarrow> copier) \<Rightarrow> copier" where
  "PKISecretEngineConfigStatus_DeepCopy lib = DeepCopy_of (PKISecretEngineConfigStatus_DeepCopyInto lib)"

lemma deep_PKISecretEngineConfigStatus [simp]: "foreign_deep lib \<Longrightarrow> deep PKISecretEngineConfigStatus_gotype (PKISecretEngineConfigStatus_DeepCopyInto lib)"
  unfolding PKISecretEngineConfigStatus_gotype_def PKISecretEngineConfigStatus_DeepCopyInto_def by (rule deep_struct) (simp add: covers_def)

definition PKISecretEngineConfig_gotype :: gotype where
  "PKISecretEngineConfig_gotype = StructOf [
     (''TypeMeta'', Plain), (''ObjectMeta'', Foreign ''ObjectMeta''),
     (''Spec'', PKISecretEngineConfigSpec_gotype), (''Status'', PKISecretEngineConfigStatus_gotype)]"

definition PKISecretEngineConfig_DeepCopyInto :: "(string \<Rightarrow> copier) \<Rightarrow> copier" where
  "PKISecretEngineConfig_DeepCopyInto lib = struct_copy [
     (''TypeMeta'', plain_copy), (''ObjectMeta'', lib ''ObjectMeta''),
     (''Spec'', PKISecretEngineConfigSpec_DeepCopyInto),
     (''Status'', PKISecretEngineConfigStatus_DeepCopyInto lib)]"

definition PKISecretEngineConfig_DeepCopy :: "(string \<Rightarrow> copier) \<Rightarrow> copier" where
  "PKISecretEngineConfig_DeepCopy lib = DeepCopy_of (PKISecretEngineConfig_DeepCopyInto lib)"

definition PKISecretEngineConfig_DeepCopyObject :: "(string \<Rightarrow> copier) \<Rightarrow> copier" where
  "PKISecretEngineConfig_DeepCopyObject lib = DeepCopyObject_of (PKISecretEngineConfig_DeepCopy lib)"

lemma deep_PKISecretEngineConfig [simp]: "foreign_deep lib \<Longrightarrow> deep PKISecretEngineConfig_gotype (PKISecretEngineConfig_DeepCopyInto lib)"
  unfolding PKISecretEngineConfig_gotype_def PKISecretEngineConfig_DeepCopyInto_def by (rule deep_struct) (simp add: covers_def)

lemma isolates_PKISecretEngineConfig: "foreign_deep lib \<Longrightarrow> isolates (PtrTo PKISecretEngineConfig_gotype) (PKISecretEngineConfig_DeepCopyObject lib)"
  by (simp add: PKISecretEngineConfig_DeepCopyObject_def PKISecretEngineConfig_DeepCopy_def deep_isolates deep_DeepCopyObject deep_DeepCopy)

definition PKISecretEngineConfigList_gotype :: gotype where
  "PKISecretEngineConfigList_gotype = StructOf [
     (''TypeMeta'', Plain), (''ListMeta'', Foreign ''ListMeta''),
     (''Items'', SliceOf PKISecretEngineConfig_gotype)]"

definition PKISecretEngineConfigList_DeepCopyInto :: "(string \<Rightarrow> copier) \<Rightarrow> copier" where
  "PKISecretEngineConfigList_DeepCopyInto lib = struct_copy [
     (''TypeMeta'', plain_copy), (''ListMeta'', lib ''ListMeta''),
     (''Items'', slice_copy (PKISecretEngineConfig_DeepCopyInto lib))]"

definition PKISecretEngineConfigList_DeepCopy :: "(string \<Rightarrow> copier) \<Rightarrow> copier" where
  "PKISecretEngineConfigList_DeepCopy lib = DeepCopy_of (PKISecretEngineConfigList_DeepCopyInto lib)"

definition PKISecretEngineConfigList_DeepCopyObject :: "(string \<Rightarrow> copier) \<Rightarrow> copier" where
  "PKISecretEngineConfigList_DeepCopyObject lib = DeepCopyObject_of (PKISecretEngineConfigList_DeepCopy lib)"

lemma deep_PKISecretEngineConfigList [simp]: "foreign_deep lib \<Longrightarrow> deep PKISecretEngineConfigList_gotype (PKISecretEngineConfigList_DeepCopyInto lib)"
  unfolding PKISecretEngineConfigList_gotype_def PKISecretEngineConfigList_DeepCopyInto_def by (rule deep_struct) (simp add: covers_def)

lemma isolates_PKISecretEngineConfigList: "foreign_deep lib \<Longrightarrow> isolates (PtrTo PKISecretEngineConfigList_gotype) (PKISecretEngineConfigList_DeepCopyObject lib)"
  by (simp add: PKISecretEngineConfigList_DeepCopyObject_def PKISecretEngineConfigList_DeepCopy_def deep_isolates deep_DeepCopyObject deep_DeepCopy)

definition PKISecretEngineRoleSpec_gotype :: gotype where
  "PKISecretEngineRoleSpec_gotype = StructOf [
     (''Connection'', PtrTo VaultConnection_gotype), (''Authentication'', KubeAuthConfiguration_gotype),
     (''Path'', Plain), (''PKIRole'', PKIRole_gotype), (''Name'', Plain)]"

definition PKISecretEngineRoleSpec_DeepCopyInto :: "copier" where
  "PKISecretEngineRoleSpec_DeepCopyInto = struct_copy [
     (''Connection'', new_copy VaultConnection_DeepCopyInto),
     (''Authentication'', KubeAuthConfiguration_DeepCopyInto), (''PKIRole'', PKIRole_DeepCopyInto)]"

definition PKISecretEngineRoleSpec_DeepCopy :: "copier" where
  "PKISecretEngineRoleSpec_DeepCopy = DeepCopy_of PKISecretEngineRoleSpec_DeepCopyInto"

lemma deep_PKISecretEngineRoleSpec [simp]: "deep PKISecretEngineRoleSpec_gotype PKISecretEngineRoleSpec_DeepCopyInto"
  unfolding PKISecretEngineRoleSpec_gotype_def PKISecretEngineRoleSpec_DeepCopyInto_def by (rule deep_struct) (simp add: covers_def)

definition PKISecretEngineRoleStatus_gotype :: gotype where
  "PKISecretEngineRoleStatus_gotype = StructOf [
     (''Conditions'', SliceOf (Foreign ''Condition''))]"

definition PKISecretEngineRoleStatus_DeepCopyInto :: "(string \<Rightarrow> copier) \<Rightarrow> copier" where
  "PKISecretEngineRoleStatus_DeepCopyInto lib = struct_copy [
     (''Conditions'', slice_copy (lib ''Condition''))]"

definition PKISecretEngineRoleStatus_DeepCopy :: "(string \<Rightarrow> copier) \<Rightarrow> copier" where
  "PKISecretEngineRoleStatus_DeepCopy lib = DeepCopy_of (PKISecretEngineRoleStatus_DeepCopyInto lib)"

lemma deep_PKISecretEngineRoleStatus [simp]: "foreign_deep lib \<Longrightarrow> deep PKISecretEngineRoleStatus_gotype (PKISecretEngineRoleStatus_DeepCopyInto lib)"
  unfolding PKISecretEngineRoleStatus_gotype_def PKISecretEngineRoleStatus_DeepCopyInto_def by (rule deep_struct) (simp add: covers_def)

definition PKISecretEngineRole_gotype :: gotype where
  "PKISecretEngineRole_gotype = StructOf [
     (''TypeMeta'', Plain), (''ObjectMeta'', Foreign ''ObjectMeta''),
     (''Spec'', PKISecretEngineRoleSpec_gotype), (''Status'', PKISecretEngineRoleStatus_gotype)]"

definition PKISecretEngineRole_DeepCopyInto :: "(string \<Rightarrow> copier) \<Rightarrow> copier" where
  "PKISecretEngineRole_DeepCopyInto lib = struct_copy [
     (''TypeMeta'', plain_copy), (''ObjectMeta'', lib ''ObjectMeta''),
     (''Spec'', PKISecretEngineRoleSpec_DeepCopyInto),
     (''Status'', PKISecretEngineRoleStatus_DeepCopyInto lib)]"

definition PKISecretEngineRole_DeepCopy :: "(string \<Rightarrow> copier) \<Rightarrow> copier" where
  "PKISecretEngineRole_DeepCopy lib = DeepCopy_of (PKISecretEngineRole_DeepCopyInto lib)"

definition PKISecretEngineRole_DeepCopyObject :: "(string \<Rightarrow> copier) \<Rightarrow> copier" where
  "PKISecretEngineRole_DeepCopyObject lib = DeepCopyObject_of (PKISecretEngineRole_DeepCopy lib)"

lemma deep_PKISecretEngineRole [simp]: "foreign_deep lib \<Longrightarrow> deep PKISecretEngineRole_gotype (PKISecretEngineRole_DeepCopyInto lib)"
  unfolding PKISecretEngineRole_gotype_def PKISecretEngineRole_DeepCopyInto_def by (rule deep_struct) (simp add: covers_def)

lemma isolates_PKISecretEngineRole: "foreign_deep lib \<Longrightarrow> isolates (PtrTo PKISecretEngineRole_gotype) (PKISecretEngineRole_DeepCopyObject lib)"
  by (simp add: PKISecretEngineRole_DeepCopyObject_def PKISecretEngineRole_DeepCopy_def deep_isolates deep_DeepCopyObject deep_DeepCopy)

definition PKISecretEngineRoleList_gotype :: gotype where
  "PKISecretEngineRoleList_gotype = StructOf [
     (''TypeMeta'', Plain), (''ListMeta'', Foreign ''ListMeta''),
     (''Items'', SliceOf PKISecretEngineRole_gotype)]"

definition PKISecretEngineRoleList_DeepCopyInto :: "(string \<Rightarrow> copier) \<Rightarrow> copier" where
  "PKISecretEngineRoleList_DeepCopyInto lib = struct_copy [
     (''TypeMeta'', plain_copy), (''ListMeta'', lib ''ListMeta''),
     (''Items'', slice_copy (PKISecretEngineRole_DeepCopyInto lib))]"

definition PKISecretEngineRoleList_DeepCopy :: "(string \<Rightarrow> copier) \<Rightarrow> copier" where
  "PKISecretEngineRoleList_DeepCopy lib = DeepCopy_of (PKISecretEngineRoleList_DeepCopyInto lib)"

definition PKISecretEngineRoleList_DeepCopyObject :: "(string \<Rightarrow> copier) \<Rightarrow> copier" where
  "PKISecretEngineRoleList_DeepCopyObject lib = DeepCopyObject_of (PKISecretEngineRoleList_DeepCopy lib)"

lemma deep_PKISecretEngineRoleList [simp]: "foreign_deep lib \<Longrightarrow> deep PKISecretEngineRoleList_gotype (PKISecretEngineRoleList_DeepCopyInto lib)"
  unfolding PKISecretEngineRoleList_gotype_def PKISecretEngineRoleList_DeepCopyInto_def by (rule deep_struct) (simp add: covers_def)

lemma isolates_PKISecretEngineRoleList: "foreign_deep lib \<Longrightarrow> isolates (PtrTo PKISecretEngineRoleList_gotype) (PKISecretEngineRoleList_DeepCopyObject lib)"
  by (simp add: PKISecretEngineRoleList_DeepCopyObject_def PKISecretEngineRoleList_DeepCopy_def deep_isolates deep_DeepCopyObject deep_DeepCopy)

definition QuayBaseRole_gotype :: gotype where
  "QuayBaseRole_gotype = StructOf [
     (''NamespaceType'', Plain), (''NamespaceName'', Plain), (''CreateRepositories'', PtrTo Plain),
     (''Teams'', PtrTo (MapTo Plain)), (''Repositories'', PtrTo (MapTo Plain)),
     (''DefaultPermission'', PtrTo Plain)]"

definition QuayBaseRole_DeepCopyInto :: "copier" where
  "QuayBaseRole_DeepCopyInto = struct_copy [
     (''CreateRepositories'', new_copy plain_copy), (''Teams'', new_copy (map_copy plain_copy)),
     (''Repositories'', new_copy (map_copy plain_copy)), (''DefaultPermission'', new_copy plain_copy)]"

definition QuayBaseRole_DeepCopy :: "copier" where
  "QuayBaseRole_DeepCopy = DeepCopy_of QuayBaseRole_DeepCopyInto"

lemma deep_QuayBaseRole [simp]: "deep QuayBaseRole_gotype QuayBaseRole_DeepCopyInto"
  unfolding QuayBaseRole_gotype_def QuayBaseRole_DeepCopyInto_def by (rule deep_struct) (simp add: covers_def)

definition QuayConfig_gotype :: gotype where
  "QuayConfig_gotype = StructOf [
     (''URL'', Plain), (''CACertertificate'', Plain), (''DisableSslVerification'', Plain),
     (''retrievedToken'', Plain)]"

definition QuayConfig_DeepCopyInto :: "copier" where
  "QuayConfig_DeepCopyInto = struct_copy []"

definition QuayConfig_DeepCopy :: "copier" where
  "QuayConfig_DeepCopy = DeepCopy_of QuayConfig_DeepCopyInto"

lemma flat_QuayConfig [simp]: "flat QuayConfig_gotype"
  by (simp add: QuayConfig_gotype_def)

lemma deep_QuayConfig [simp]: "deep QuayConfig_gotype QuayConfig_DeepCopyInto"
  unfolding QuayConfig_gotype_def QuayConfig_DeepCopyInto_def by (rule deep_struct) (simp add: covers_def)

definition QuayRole_gotype :: gotype where
  "QuayRole_gotype = StructOf [
     (''QuayBaseRole'', QuayBaseRole_gotype), (''TTL'', PtrTo Plain), (''MaxTTL'', PtrTo Plain)]"

definition QuayRole_DeepCopyInto :: "copier" where
  "QuayRole_DeepCopyInto = struct_copy [
     (''QuayBaseRole'', QuayBaseRole_DeepCopyInto), (''TTL'', new_copy plain_copy),
     (''MaxTTL'', new_copy plain_copy)]"

definition QuayRole_DeepCopy :: "copier" where
  "QuayRole_DeepCopy = DeepCopy_of QuayRole_DeepCopyInto"

lemma deep_QuayRole [simp]: "deep QuayRole_gotype QuayRole_DeepCopyInto"
  unfolding QuayRole_gotype_def QuayRole_DeepCopyInto_def by (rule deep_struct) (simp add: covers_def)

definition QuaySecretEngineConfigSpec_gotype :: gotype where
  "QuaySecretEngineConfigSpec_gotype = StructOf [
     (''Connection'', PtrTo VaultConnection_gotype), (''Authentication'', KubeAuthConfiguration_gotype),
     (''Path'', Plain), (''QuayConfig'', QuayConfig_gotype),
     (''RootCredentials'', RootCredentialConfig_gotype)]"

definition QuaySecretEngineConfigSpec_DeepCopyInto :: "copier" where
  "QuaySecretEngineConfigSpec_DeepCopyInto = struct_copy [
     (''Connection'', new_copy VaultConnection_DeepCopyInto),
     (''Authentication'', KubeAuthConfiguration_DeepCopyInto), (''QuayConfig'', plain_copy),
     (''RootCredentials'', RootCredentialConfig_DeepCopyInto)]"

definition QuaySecretEngineConfigSpec_DeepCopy :: "copier" where
  "QuaySecretEngineConfigSpec_DeepCopy = DeepCopy_of QuaySecretEngineConfigSpec_DeepCopyInto"

lemma deep_QuaySecretEngineConfigSpec [simp]: "deep QuaySecretEngineConfigSpec_gotype QuaySecretEngineConfigSpec_DeepCopyInto"
  unfolding QuaySecretEngineConfigSpec_gotype_def QuaySecretEngineConfigSpec_DeepCopyInto_def by (rule deep_struct) (simp add: covers_def)

definition QuaySecretEngineConfigStatus_gotype :: gotype where
  "QuaySecretEngineConfigStatus_gotype = StructOf [
     (''Conditions'', SliceOf (Foreign ''Condition''))]"

definition QuaySecretEngineConfigStatus_DeepCopyInto :: "(string \<Rightarrow> copier) \<Rightarrow> copier" where
  "QuaySecretEngineConfigStatus_DeepCopyInto lib = struct_copy [
     (''Conditions'', slice_copy (lib ''Condition''))]"

definition QuaySecretEngineConfigStatus_DeepCopy :: "(string \<Rightarrow> copier) \<Rightarrow> copier" where
  "QuaySecretEngineConfigStatus_DeepCopy lib = DeepCopy_of (QuaySecretEngineConfigStatus_DeepCopyInto lib)"

lemma deep_QuaySecretEngineConfigStatus [simp]: "foreign_deep lib \<Longrightarrow> deep QuaySecretEngineConfigStatus_gotype (QuaySecretEngineConfigStatus_DeepCopyInto lib)"
  unfolding QuaySecretEngineConfigStatus_gotype_def QuaySecretEngineConfigStatus_DeepCopyInto_def by (rule deep_struct) (simp add: covers_def)

definition QuaySecretEngineConfig_gotype :: gotype where
  "QuaySecretEngineConfig_gotype = StructOf [
     (''TypeMeta'', Plain), (''ObjectMeta'', Foreign ''ObjectMeta''),
     (''Spec'', QuaySecretEngineConfigSpec_gotype), (''Status'', QuaySecretEngineConfigStatus_gotype)]"

definition QuaySecretEngineConfig_DeepCopyInto :: "(string \<Rightarrow> copier) \<Rightarrow> copier" where
  "QuaySecretEngineConfig_DeepCopyInto lib = struct_copy [
     (''TypeMeta'', plain_copy), (''ObjectMeta'', lib ''ObjectMeta''),
     (''Spec'', QuaySecretEngineConfigSpec_DeepCopyInto),
     (''Status'', QuaySecretEngineConfigStatus_DeepCopyInto lib)]"

definition QuaySecretEngineConfig_DeepCopy :: "(string \<Rightarrow> copier) \<Rightarrow> copier" where
  "QuaySecretEngineConfig_DeepCopy lib = DeepCopy_of (QuaySecretEngineConfig_DeepCopyInto lib)"

definition QuaySecretEngineConfig_DeepCopyObject :: "(string \<Rightarrow> copier) \<Rightarrow> copier" where
  "QuaySecretEngineConfig_DeepCopyObject lib = DeepCopyObject_of (QuaySecretEngineConfig_DeepCopy lib)"

lemma deep_QuaySecretEngineConfig [simp]: "foreign_deep lib \<Longrightarrow> deep QuaySecretEngineConfig_gotype (QuaySecretEngineConfig_DeepCopyInto lib)"
  unfolding QuaySecretEngineConfig_gotype_def QuaySecretEngineConfig_DeepCopyInto_def by (rule deep_struct) (simp add: covers_def)

lemma isolates_QuaySecretEngineConfig: "foreign_deep lib \<Longrightarrow> isolates (PtrTo QuaySecretEngineConfig_gotype) (QuaySecretEngineConfig_DeepCopyObject lib)"
  by (simp add: QuaySecretEngineConfig_DeepCopyObject_def QuaySecretEngineConfig_DeepCopy_def deep_isolates deep_DeepCopyObject deep_DeepCopy)

definition QuaySecretEngineConfigList_gotype :: gotype where
  "QuaySecretEngineConfigList_gotype = StructOf [
     (''TypeMeta'', Plain), (''ListMeta'', Foreign ''ListMeta''),
     (''Items'', SliceOf QuaySecretEngineConfig_gotype)]"

definition QuaySecretEngineConfigList_DeepCopyInto :: "(string \<Rightarrow> copier) \<Rightarrow> copier" where
  "QuaySecretEngineConfigList_DeepCopyInto lib = struct_copy [
     (''TypeMeta'', plain_copy), (''ListMeta'', lib ''ListMeta''),
     (''Items'', slice_copy (QuaySecretEngineConfig_DeepCopyInto lib))]"

definition QuaySecretEngineConfigList_DeepCopy :: "(string \<Rightarrow> copier) \<Rightarrow> copier" where
  "QuaySecretEngineConfigList_DeepCopy lib = DeepCopy_of (QuaySecretEngineConfigList_DeepCopyInto lib)"

definition QuaySecretEngineConfigList_DeepCopyObject :: "(string \<Rightarrow> copier) \<Rightarrow> copier" where
  "QuaySecretEngineConfigList_DeepCopyObject lib = DeepCopyObject_of (QuaySecretEngineConfigList_DeepCopy lib)"

lemma deep_QuaySecretEngineConfigList [simp]: "foreign_deep lib \<Longrightarrow> deep QuaySecretEngineConfigList_gotype (QuaySecretEngineConfigList_DeepCopyInto lib)"
  unfolding QuaySecretEngineConfigList_gotype_def QuaySecretEngineConfigList_DeepCopyInto_def by (rule deep_struct) (simp add: covers_def)

lemma isolates_QuaySecretEngineConfigList: "foreign_deep lib \<Longrightarrow> isolates (PtrTo QuaySecretEngineConfigList_gotype) (QuaySecretEngineConfigList_DeepCopyObject lib)"
  by (simp add: QuaySecretEngineConfigList_DeepCopyObject_def QuaySecretEngineConfigList_DeepCopy_def deep_isolates deep_DeepCopyObject deep_DeepCopy)

definition QuaySecretEngineRoleSpec_gotype :: gotype where
  "QuaySecretEngineRoleSpec_gotype = StructOf [
     (''Connection'', PtrTo VaultConnection_gotype), (''Authentication'', KubeAuthConfiguration_gotype),
     (''Path'', Plain), (''QuayRole'', QuayRole_gotype), (''Name'', Plain)]"

definition QuaySecretEngineRoleSpec_DeepCopyInto :: "copier" where
  "QuaySecretEngineRoleSpec_DeepCopyInto = struct_copy [
     (''Connection'', new_copy VaultConnection_DeepCopyInto),
     (''Authentication'', KubeAuthConfiguration_DeepCopyInto), (''QuayRole'', QuayRole_DeepCopyInto)]"

definition QuaySecretEngineRoleSpec_DeepCopy :: "copier" where
  "QuaySecretEngineRoleSpec_DeepCopy = DeepCopy_of QuaySecretEngineRoleSpec_DeepCopyInto"

lemma deep_QuaySecretEngineRoleSpec [simp]: "deep QuaySecretEngineRoleSpec_gotype QuaySecretEngineRoleSpec_DeepCopyInto"
  unfolding QuaySecretEngineRoleSpec_gotype_def QuaySecretEngineRoleSpec_DeepCopyInto_def by (rule deep_struct) (simp add: covers_def)

definition QuaySecretEngineRoleStatus_gotype :: gotype where
  "QuaySecretEngineRoleStatus_gotype = StructOf [
     (''Conditions'', SliceOf (Foreign ''Condition''))]"

definition QuaySecretEngineRoleStatus_DeepCopyInto :: "(string \<Rightarrow> copier) \<Rightarrow> copier" where
  "QuaySecretEngineRoleStatus_DeepCopyInto lib = struct_copy [
     (''Conditions'', slice_copy (lib ''Condition''))]"

definition QuaySecretEngineRoleStatus_DeepCopy :: "(string \<Rightarrow> copier) \<Rightarrow> copier" where
  "QuaySecretEngineRoleStatus_DeepCopy lib = DeepCopy_of (QuaySecretEngineRoleStatus_DeepCopyInto lib)"

lemma deep_QuaySecretEngineRoleStatus [simp]: "foreign_deep lib \<Longrightarrow> deep QuaySecretEngineRoleStatus_gotype (QuaySecretEngineRoleStatus_DeepCopyInto lib)"
  unfolding QuaySecretEngineRoleStatus_gotype_def QuaySecretEngineRoleStatus_DeepCopyInto_def by (rule deep_struct) (simp add: covers_def)

definition QuaySecretEngineRole_gotype :: gotype where
  "QuaySecretEngineRole_gotype = StructOf [
     (''TypeMeta'', Plain), (''ObjectMeta'', Foreign ''ObjectMeta''),
     (''Spec'', QuaySecretEngineRoleSpec_gotype), (''Status'', QuaySecretEngineRoleStatus_gotype)]"

definition QuaySecretEngineRole_DeepCopyInto :: "(string \<Rightarrow> copier) \<Rightarrow> copier" where
  "QuaySecretEngineRole_DeepCopyInto lib = struct_copy [
     (''TypeMeta'', plain_copy), (''ObjectMeta'', lib ''ObjectMeta''),
     (''Spec'', QuaySecretEngineRoleSpec_DeepCopyInto),
     (''Status'', QuaySecretEngineRoleStatus_DeepCopyInto lib)]"

definition QuaySecretEngineRole_DeepCopy :: "(string \<Rightarrow> copier) \<Rightarrow> copier" where
  "QuaySecretEngineRole_DeepCopy lib = DeepCopy_of (QuaySecretEngineRole_DeepCopyInto lib)"

definition QuaySecretEngineRole_DeepCopyObject :: "(string \<Rightarrow> copier) \<Rightarrow> copier" where
  "QuaySecretEngineRole_DeepCopyObject lib = DeepCopyObject_of (QuaySecretEngineRole_DeepCopy lib)"

lemma deep_QuaySecretEngineRole [simp]: "foreign_deep lib \<Longrightarrow> deep QuaySecretEngineRole_gotype (QuaySecretEngineRole_DeepCopyInto lib)"
  unfolding QuaySecretEngineRole_gotype_def QuaySecretEngineRole_DeepCopyInto_def by (rule deep_struct) (simp add: covers_def)

lemma isolates_QuaySecretEngineRole: "foreign_deep lib \<Longrightarrow> isolates (PtrTo QuaySecretEngineRole_gotype) (QuaySecretEngineRole_DeepCopyObject lib)"
  by (simp add: QuaySecretEngineRole_DeepCopyObject_def QuaySecretEngineRole_DeepCopy_def deep_isolates deep_DeepCopyObject deep_DeepCopy)

definition QuaySecretEngineRoleList_gotype :: gotype where
  "QuaySecretEngineRoleList_gotype = StructOf [
     (''TypeMeta'', Plain), (''ListMeta'', Foreign ''ListMeta''),
     (''Items'', SliceOf QuaySecretEngineRole_gotype)]"

definition QuaySecretEngineRoleList_DeepCopyInto :: "(string \<Rightarrow> copier) \<Rightarrow> copier" where
  "QuaySecretEngineRoleList_DeepCopyInto lib = struct_copy [
     (''TypeMeta'', plain_copy), (''ListMeta'', lib ''ListMeta''),
     (''Items'', slice_copy (QuaySecretEngineRole_DeepCopyInto lib))]"

definition QuaySecretEngineRoleList_DeepCopy :: "(string \<Rightarrow> copier) \<Rightarrow> copier" where
  "QuaySecretEngineRoleList_DeepCopy lib = DeepCopy_of (QuaySecretEngineRoleList_DeepCopyInto lib)"

definition QuaySecretEngineRoleList_DeepCopyObject :: "(string \<Rightarrow> copier) \<Rightarrow> copier" where
  "QuaySecretEngineRoleList_DeepCopyObject lib = DeepCopyObject_of (QuaySecretEngineRoleList_DeepCopy lib)"

lemma deep_QuaySecretEngineRoleList [simp]: "foreign_deep lib \<Longrightarrow> deep QuaySecretEngineRoleList_gotype (QuaySecretEngineRoleList_DeepCopyInto lib)"
  unfolding QuaySecretEngineRoleList_gotype_def QuaySecretEngineRoleList_DeepCopyInto_def by (rule deep_struct) (simp add: covers_def)

lemma isolates_QuaySecretEngineRoleList: "foreign_deep lib \<Longrightarrow> isolates (PtrTo QuaySecretEngineRoleList_gotype) (QuaySecretEngineRoleList_DeepCopyObject lib)"
  by (simp add: QuaySecretEngineRoleList_DeepCopyObject_def QuaySecretEngineRoleList_DeepCopy_def deep_isolates deep_DeepCopyObject deep_DeepCopy)

definition QuaySecretEngineStaticRoleSpec_gotype :: gotype where
  "QuaySecretEngineStaticRoleSpec_gotype = StructOf [
     (''Connection'', PtrTo VaultConnection_gotype), (''Authentication'', KubeAuthConfiguration_gotype),
     (''Path'', Plain), (''QuayBaseRole'', QuayBaseRole_gotype), (''Name'', Plain)]"

definition QuaySecretEngineStaticRoleSpec_DeepCopyInto :: "copier" where
  "QuaySecretEngineStaticRoleSpec_DeepCopyInto = struct_copy [
     (''Connection'', new_copy VaultConnection_DeepCopyInto),
     (''Authentication'', KubeAuthConfiguration_DeepCopyInto), (''QuayBaseRole'', QuayBaseRole_DeepCopyInto)]"

definition QuaySecretEngineStaticRoleSpec_DeepCopy :: "copier" where
  "QuaySecretEngineStaticRoleSpec_DeepCopy = DeepCopy_of QuaySecretEngineStaticRoleSpec_DeepCopyInto"

lemma deep_QuaySecretEngineStaticRoleSpec [simp]: "deep QuaySecretEngineStaticRoleSpec_gotype QuaySecretEngineStaticRoleSpec_DeepCopyInto"
  unfolding QuaySecretEngineStaticRoleSpec_gotype_def QuaySecretEngineStaticRoleSpec_DeepCopyInto_def by (rule deep_struct) (simp add: covers_def)

definition QuaySecretEngineStaticRoleStatus_gotype :: gotype where
  "QuaySecretEngineStaticRoleStatus_gotype = StructOf [
     (''Conditions'', SliceOf (Foreign ''Condition''))]"

definition QuaySecretEngineStaticRoleStatus_DeepCopyInto :: "(string \<Rightarrow> copier) \<Rightarrow> copier" where
  "QuaySecretEngineStaticRoleStatus_DeepCopyInto lib = struct_copy [
     (''Conditions'', slice_copy (lib ''Condition''))]"

definition QuaySecretEngineStaticRoleStatus_DeepCopy :: "(string \<Rightarrow> copier) \<Rightarrow> copier" where
  "QuaySecretEngineStaticRoleStatus_DeepCopy lib = DeepCopy_of (QuaySecretEngineStaticRoleStatus_DeepCopyInto lib)"

lemma deep_QuaySecretEngineStaticRoleStatus [simp]: "foreign_deep lib \<Longrightarrow> deep QuaySecretEngineStaticRoleStatus_gotype (QuaySecretEngineStaticRoleStatus_DeepCopyInto lib)"
  unfolding QuaySecretEngineStaticRoleStatus_gotype_def QuaySecretEngineStaticRoleStatus_DeepCopyInto_def by (rule deep_struct) (simp add: covers_def)

definition QuaySecretEngineStaticRole_gotype :: gotype where
  "QuaySecretEngineStaticRole_gotype = StructOf [
     (''TypeMeta'', Plain), (''ObjectMeta'', Foreign ''ObjectMeta''),
     (''Spec'', QuaySecretEngineStaticRoleSpec_gotype), (''Status'', QuaySecretEngineStaticRoleStatus_gotype)]"

definition QuaySecretEngineStaticRole_DeepCopyInto :: "(string \<Rightarrow> copier) \<Rightarrow> copier" where
  "QuaySecretEngineStaticRole_DeepCopyInto lib = struct_copy [
     (''TypeMeta'', plain_copy), (''ObjectMeta'', lib ''ObjectMeta''),
     (''Spec'', QuaySecretEngineStaticRoleSpec_DeepCopyInto),
     (''Status'', QuaySecretEngineStaticRoleStatus_DeepCopyInto lib)]"

definition QuaySecretEngineStaticRole_DeepCopy :: "(string \<Rightarrow> copier) \<Rightarrow> copier" where
  "QuaySecretEngineStaticRole_DeepCopy lib = DeepCopy_of (QuaySecretEngineStaticRole_DeepCopyInto lib)"

definition QuaySecretEngineStaticRole_DeepCopyObject :: "(string \<Rightarrow> copier) \<Rightarrow> copier" where
  "QuaySecretEngineStaticRole_DeepCopyObject lib = DeepCopyObject_of (QuaySecretEngineStaticRole_DeepCopy lib)"

lemma deep_QuaySecretEngineStaticRole [simp]: "foreign_deep lib \<Longrightarrow> deep QuaySecretEngineStaticRole_gotype (QuaySecretEngineStaticRole_DeepCopyInto lib)"
  unfolding QuaySecretEngineStaticRole_gotype_def QuaySecretEngineStaticRole_DeepCopyInto_def by (rule deep_struct) (simp add: covers_def)

lemma isolates_QuaySecretEngineStaticRole: "foreign_deep lib \<Longrightarrow> isolates (PtrTo QuaySecretEngineStaticRole_gotype) (QuaySecretEngineStaticRole_DeepCopyObject lib)"
  by (simp add: QuaySecretEngineStaticRole_DeepCopyObject_def QuaySecretEngineStaticRole_DeepCopy_def deep_isolates deep_DeepCopyObject deep_DeepCopy)

definition QuaySecretEngineStaticRoleList_gotype :: gotype where
  "QuaySecretEngineStaticRoleList_gotype = StructOf [
     (''TypeMeta'', Plain), (''ListMeta'', Foreign ''ListMeta''),
     (''Items'', SliceOf QuaySecretEngineStaticRole_gotype)]"

definition QuaySecretEngineStaticRoleList_DeepCopyInto :: "(string \<Rightarrow> copier) \<Rightarrow> copier" where
  "QuaySecretEngineStaticRoleList_DeepCopyInto lib = struct_copy [
     (''TypeMeta'', plain_copy), (''ListMeta'', lib ''ListMeta''),
     (''Items'', slice_copy (QuaySecretEngineStaticRole_DeepCopyInto lib))]"

definition QuaySecretEngineStaticRoleList_DeepCopy :: "(string \<Rightarrow> copier) \<Rightarrow> copier" where
  "QuaySecretEngineStaticRoleList_DeepCopy lib = DeepCopy_of (QuaySecretEngineStaticRoleList_DeepCopyInto lib)"

definition QuaySecretEngineStaticRoleList_DeepCopyObject :: "(string \<Rightarrow> copier) \<Rightarrow> copier" where
  "QuaySecretEngineStaticRoleList_DeepCopyObject lib = DeepCopyObject_of (QuaySecretEngineStaticRoleList_DeepCopy lib)"

lemma deep_QuaySecretEngineStaticRoleList [simp]: "foreign_deep lib \<Longrightarrow> deep QuaySecretEngineStaticRoleList_gotype (QuaySecretEngineStaticRoleList_DeepCopyInto lib)"
  unfolding QuaySecretEngineStaticRoleList_gotype_def QuaySecretEngineStaticRoleList_DeepCopyInto_def by (rule deep_struct) (simp add: covers_def)

lemma isolates_QuaySecretEngineStaticRoleList: "foreign_deep lib \<Longrightarrow> isolates (PtrTo QuaySecretEngineStaticRoleList_gotype) (QuaySecretEngineStaticRoleList_DeepCopyObject lib)"
  by (simp add: QuaySecretEngineStaticRoleList_DeepCopyObject_def QuaySecretEngineStaticRoleList_DeepCopy_def deep_isolates deep_DeepCopyObject deep_DeepCopy)

definition RMQSEConfig_gotype :: gotype where
  "RMQSEConfig_gotype = StructOf [
     (''ConnectionURI'', Plain), (''Username'', Plain), (''VerifyConnection'', Plain),
     (''PasswordPolicy'', Plain), (''UsernameTemplate'', Plain), (''LeaseTTL'', Plain),
     (''LeaseMaxTTL'', Plain), (''retrievedPassword'', Plain), (''retrievedUsername'', Plain)]"

definition RMQSEConfig_DeepCopyInto :: "copier" where
  "RMQSEConfig_DeepCopyInto = struct_copy []"

definition RMQSEConfig_DeepCopy :: "copier" where
  "RMQSEConfig_DeepCopy = DeepCopy_of RMQSEConfig_DeepCopyInto"

lemma flat_RMQSEConfig [simp]: "flat RMQSEConfig_gotype"
  by (simp add: RMQSEConfig_gotype_def)

lemma deep_RMQSEConfig [simp]: "deep RMQSEConfig_gotype RMQSEConfig_DeepCopyInto"
  unfolding RMQSEConfig_gotype_def RMQSEConfig_DeepCopyInto_def by (rule deep_struct) (simp add: covers_def)

definition VhostPermissions_gotype :: gotype where
  "VhostPermissions_gotype = StructOf [
     (''Configure'', Plain), (''Write'', Plain), (''Read'', Plain)]"

definition VhostPermissions_DeepCopyInto :: "copier" where
  "VhostPermissions_DeepCopyInto = struct_copy []"

definition VhostPermissions_DeepCopy :: "copier" where
  "VhostPermissions_DeepCopy = DeepCopy_of VhostPermissions_DeepCopyInto"

lemma flat_VhostPermissions [simp]: "flat VhostPermissions_gotype"
  by (simp add: VhostPermissions_gotype_def)

lemma deep_VhostPermissions [simp]: "deep VhostPermissions_gotype VhostPermissions_DeepCopyInto"
  unfolding VhostPermissions_gotype_def VhostPermissions_DeepCopyInto_def by (rule deep_struct) (simp add: covers_def)

definition Vhost_gotype :: gotype where
  "Vhost_gotype = StructOf [
     (''VhostName'', Plain), (''Permissions'', VhostPermissions_gotype)]"

definition Vhost_DeepCopyInto :: "copier" where
  "Vhost_DeepCopyInto = struct_copy [
     (''Permissions'', plain_copy)]"

definition Vhost_DeepCopy :: "copier" where
  "Vhost_DeepCopy = DeepCopy_of Vhost_DeepCopyInto"

lemma flat_Vhost [simp]: "flat Vhost_gotype"
  by (simp add: Vhost_gotype_def)

lemma deep_Vhost [simp]: "deep Vhost_gotype Vhost_DeepCopyInto"
  unfolding Vhost_gotype_def Vhost_DeepCopyInto_def by (rule deep_struct) (simp add: covers_def)

definition Topic_gotype :: gotype where
  "Topic_gotype = StructOf [
     (''TopicName'', Plain), (''Permissions'', VhostPermissions_gotype)]"

definition Topic_DeepCopyInto :: "copier" where
  "Topic_DeepCopyInto = struct_copy [
     (''Permissions'', plain_copy)]"

definition Topic_DeepCopy :: "copier" where
  "Topic_DeepCopy = DeepCopy_of Topic_DeepCopyInto"

lemma flat_Topic [simp]: "flat Topic_gotype"
  by (simp add: Topic_gotype_def)

lemma deep_Topic [simp]: "deep Topic_gotype Topic_DeepCopyInto"
  unfolding Topic_gotype_def Topic_DeepCopyInto_def by (rule deep_struct) (simp add: covers_def)

definition VhostTopic_gotype :: gotype where
  "VhostTopic_gotype = StructOf [
     (''VhostName'', Plain), (''Topics'', SliceOf Topic_gotype)]"

definition VhostTopic_DeepCopyInto :: "copier" where
  "VhostTopic_DeepCopyInto = struct_copy [
     (''Topics'', slice_copy plain_copy)]"

definition VhostTopic_DeepCopy :: "copier" where
  "VhostTopic_DeepCopy = DeepCopy_of VhostTopic_DeepCopyInto"

lemma deep_VhostTopic [simp]: "deep VhostTopic_gotype VhostTopic_DeepCopyInto"
  unfolding VhostTopic_gotype_def VhostTopic_DeepCopyInto_def by (rule deep_struct) (simp add: covers_def)

definition RMQSERole_gotype :: gotype where
  "RMQSERole_gotype = StructOf [
     (''Tags'', Plain), (''Vhosts'', SliceOf Vhost_gotype), (''VhostTopics'', SliceOf VhostTopic_gotype)]"

definition RMQSERole_DeepCopyInto :: "copier" where
  "RMQSERole_DeepCopyInto = struct_copy [
     (''Vhosts'', slice_copy plain_copy), (''VhostTopics'', slice_copy VhostTopic_DeepCopyInto)]"

definition RMQSERole_DeepCopy :: "copier" where
  "RMQSERole_DeepCopy = DeepCopy_of RMQSERole_DeepCopyInto"

lemma deep_RMQSERole [simp]: "deep RMQSERole_gotype RMQSERole_DeepCopyInto"
  unfolding RMQSERole_gotype_def RMQSERole_DeepCopyInto_def by (rule deep_struct) (simp add: covers_def)

definition RabbitMQSecretEngineConfigSpec_gotype :: gotype where
  "RabbitMQSecretEngineConfigSpec_gotype = StructOf [
     (''Connection'', PtrTo VaultConnection_gotype), (''Authentication'', KubeAuthConfiguration_gotype),
     (''Path'', Plain), (''RMQSEConfig'', RMQSEConfig_gotype),
     (''RootCredentials'', RootCredentialConfig_gotype)]"

definition RabbitMQSecretEngineConfigSpec_DeepCopyInto :: "copier" where
  "RabbitMQSecretEngineConfigSpec_DeepCopyInto = struct_copy [
     (''Connection'', new_copy VaultConnection_DeepCopyInto),
     (''Authentication'', KubeAuthConfiguration_DeepCopyInto), (''RMQSEConfig'', plain_copy),
     (''RootCredentials'', RootCredentialConfig_DeepCopyInto)]"

definition RabbitMQSecretEngineConfigSpec_DeepCopy :: "copier" where
  "RabbitMQSecretEngineConfigSpec_DeepCopy = DeepCopy_of RabbitMQSecretEngineConfigSpec_DeepCopyInto"

lemma deep_RabbitMQSecretEngineConfigSpec [simp]: "deep RabbitMQSecretEngineConfigSpec_gotype RabbitMQSecretEngineConfigSpec_DeepCopyInto"
  unfolding RabbitMQSecretEngineConfigSpec_gotype_def RabbitMQSecretEngineConfigSpec_DeepCopyInto_def by (rule deep_struct) (simp add: covers_def)

definition RabbitMQSecretEngineConfigStatus_gotype :: gotype where
  "RabbitMQSecretEngineConfigStatus_gotype = StructOf [
     (''Conditions'', SliceOf (Foreign ''Condition''))]"

definition RabbitMQSecretEngineConfigStatus_DeepCopyInto :: "(string \<Rightarrow> copier) \<Rightarrow> copier" where
  "RabbitMQSecretEngineConfigStatus_DeepCopyInto lib = struct_copy [
     (''Conditions'', slice_copy (lib ''Condition''))]"

definition RabbitMQSecretEngineConfigStatus_DeepCopy :: "(string \<Rightarrow> copier) \<Rightarrow> copier" where
  "RabbitMQSecretEngineConfigStatus_DeepCopy lib = DeepCopy_of (RabbitMQSecretEngineConfigStatus_DeepCopyInto lib)"

lemma deep_RabbitMQSecretEngineConfigStatus [simp]: "foreign_deep lib \<Longrightarrow> deep RabbitMQSecretEngineConfigStatus_gotype (RabbitMQSecretEngineConfigStatus_DeepCopyInto lib)"
  unfolding RabbitMQSecretEngineConfigStatus_gotype_def RabbitMQSecretEngineConfigStatus_DeepCopyInto_def by (rule deep_struct) (simp add: covers_def)

definition RabbitMQSecretEngineConfig_gotype :: gotype where
  "RabbitMQSecretEngineConfig_gotype = StructOf [
     (''TypeMeta'', Plain), (''ObjectMeta'', Foreign ''ObjectMeta''),
     (''Spec'', RabbitMQSecretEngineConfigSpec_gotype), (''Status'', RabbitMQSecretEngineConfigStatus_gotype)]"

definition RabbitMQSecretEngineConfig_DeepCopyInto :: "(string \<Rightarrow> copier) \<Rightarrow> copier" where
  "RabbitMQSecretEngineConfig_DeepCopyInto lib = struct_copy [
     (''TypeMeta'', plain_copy), (''ObjectMeta'', lib ''ObjectMeta''),
     (''Spec'', RabbitMQSecretEngineConfigSpec_DeepCopyInto),
     (''Status'', RabbitMQSecretEngineConfigStatus_DeepCopyInto lib)]"

definition RabbitMQSecretEngineConfig_DeepCopy :: "(string \<Rightarrow> copier) \<Rightarrow> copier" where
  "RabbitMQSecretEngineConfig_DeepCopy lib = DeepCopy_of (RabbitMQSecretEngineConfig_DeepCopyInto lib)"

definition RabbitMQSecretEngineConfig_DeepCopyObject :: "(string \<Rightarrow> copier) \<Rightarrow> copier" where
  "RabbitMQSecretEngineConfig_DeepCopyObject lib = DeepCopyObject_of (RabbitMQSecretEngineConfig_DeepCopy lib)"

lemma deep_RabbitMQSecretEngineConfig [simp]: "foreign_deep lib \<Longrightarrow> deep RabbitMQSecretEngineConfig_gotype (RabbitMQSecretEngineConfig_DeepCopyInto lib)"
  unfolding RabbitMQSecretEngineConfig_gotype_def RabbitMQSecretEngineConfig_DeepCopyInto_def by (rule deep_struct) (simp add: covers_def)

lemma isolates_RabbitMQSecretEngineConfig: "foreign_deep lib \<Longrightarrow> isolates (PtrTo RabbitMQSecretEngineConfig_gotype) (RabbitMQSecretEngineConfig_DeepCopyObject lib)"
  by (simp add: RabbitMQSecretEngineConfig_DeepCopyObject_def RabbitMQSecretEngineConfig_DeepCopy_def deep_isolates deep_DeepCopyObject deep_DeepCopy)

definition RabbitMQSecretEngineConfigList_gotype :: gotype where
  "RabbitMQSecretEngineConfigList_gotype = StructOf [
     (''TypeMeta'', Plain), (''ListMeta'', Foreign ''ListMeta''),
     (''Items'', SliceOf RabbitMQSecretEngineConfig_gotype)]"

definition RabbitMQSecretEngineConfigList_DeepCopyInto :: "(string \<Rightarrow> copier) \<Rightarrow> copier" where
  "RabbitMQSecretEngineConfigList_DeepCopyInto lib = struct_copy [
     (''TypeMeta'', plain_copy), (''ListMeta'', lib ''ListMeta''),
     (''Items'', slice_copy (RabbitMQSecretEngineConfig_DeepCopyInto lib))]"

definition RabbitMQSecretEngineConfigList_DeepCopy :: "(string \<Rightarrow> copier) \<Rightarrow> copier" where
  "RabbitMQSecretEngineConfigList_DeepCopy lib = DeepCopy_of (RabbitMQSecretEngineConfigList_DeepCopyInto lib)"

definition RabbitMQSecretEngineConfigList_DeepCopyObject :: "(string \<Rightarrow> copier) \<Rightarrow> copier" where
  "RabbitMQSecretEngineConfigList_DeepCopyObject lib = DeepCopyObject_of (RabbitMQSecretEngineConfigList_DeepCopy lib)"

lemma deep_RabbitMQSecretEngineConfigList [simp]: "foreign_deep lib \<Longrightarrow> deep RabbitMQSecretEngineConfigList_gotype (RabbitMQSecretEngineConfigList_DeepCopyInto lib)"
  unfolding RabbitMQSecretEngineConfigList_gotype_def RabbitMQSecretEngineConfigList_DeepCopyInto_def by (rule deep_struct) (simp add: covers_def)

lemma isolates_RabbitMQSecretEngineConfigList: "foreign_deep lib \<Longrightarrow> isolates (PtrTo RabbitMQSecretEngineConfigList_gotype) (RabbitMQSecretEngineConfigList_DeepCopyObject lib)"
  by (simp add: RabbitMQSecretEngineConfigList_DeepCopyObject_def RabbitMQSecretEngineConfigList_DeepCopy_def deep_isolates deep_DeepCopyObject deep_DeepCopy)

definition RabbitMQSecretEngineRoleSpec_gotype :: gotype where
  "RabbitMQSecretEngineRoleSpec_gotype = StructOf [
     (''Connection'', PtrTo VaultConnection_gotype), (''Authentication'', KubeAuthConfiguration_gotype),
     (''Path'', Plain), (''RMQSERole'', RMQSERole_gotype), (''Name'', Plain)]"

definition RabbitMQSecretEngineRoleSpec_DeepCopyInto :: "copier" where
  "RabbitMQSecretEngineRoleSpec_DeepCopyInto = struct_copy [
     (''Connection'', new_copy VaultConnection_DeepCopyInto),
     (''Authentication'', KubeAuthConfiguration_DeepCopyInto), (''RMQSERole'', RMQSERole_DeepCopyInto)]"

definition RabbitMQSecretEngineRoleSpec_DeepCopy :: "copier" where
  "RabbitMQSecretEngineRoleSpec_DeepCopy = DeepCopy_of RabbitMQSecretEngineRoleSpec_DeepCopyInto"

lemma deep_RabbitMQSecretEngineRoleSpec [simp]: "deep RabbitMQSecretEngineRoleSpec_gotype RabbitMQSecretEngineRoleSpec_DeepCopyInto"
  unfolding RabbitMQSecretEngineRoleSpec_gotype_def RabbitMQSecretEngineRoleSpec_DeepCopyInto_def by (rule deep_struct) (simp add: covers_def)

definition RabbitMQSecretEngineRoleStatus_gotype :: gotype where
  "RabbitMQSecretEngineRoleStatus_gotype = StructOf [
     (''Conditions'', SliceOf (Foreign ''Condition''))]"

definition RabbitMQSecretEngineRoleStatus_DeepCopyInto :: "(string \<Rightarrow> copier) \<Rightarrow> copier" where
  "RabbitMQSecretEngineRoleStatus_DeepCopyInto lib = struct_copy [
     (''Conditions'', slice_copy (lib ''Condition''))]"

definition RabbitMQSecretEngineRoleStatus_DeepCopy :: "(string \<Rightarrow> copier) \<Rightarrow> copier" where
  "RabbitMQSecretEngineRoleStatus_DeepCopy lib = DeepCopy_of (RabbitMQSecretEngineRoleStatus_DeepCopyInto lib)"

lemma deep_RabbitMQSecretEngineRoleStatus [simp]: "foreign_deep lib \<Longrightarrow> deep RabbitMQSecretEngineRoleStatus_gotype (RabbitMQSecretEngineRoleStatus_DeepCopyInto lib)"
  unfolding RabbitMQSecretEngineRoleStatus_gotype_def RabbitMQSecretEngineRoleStatus_DeepCopyInto_def by (rule deep_struct) (simp add: covers_def)

definition RabbitMQSecretEngineRole_gotype :: gotype where
  "RabbitMQSecretEngineRole_gotype = StructOf [
     (''TypeMeta'', Plain), (''ObjectMeta'', Foreign ''ObjectMeta''),
     (''Spec'', RabbitMQSecretEngineRoleSpec_gotype), (''Status'', RabbitMQSecretEngineRoleStatus_gotype)]"

definition RabbitMQSecretEngineRole_DeepCopyInto :: "(string \<Rightarrow> copier) \<Rightarrow> copier" where
  "RabbitMQSecretEngineRole_DeepCopyInto lib = struct_copy [
     (''TypeMeta'', plain_copy), (''ObjectMeta'', lib ''ObjectMeta''),
     (''Spec'', RabbitMQSecretEngineRoleSpec_DeepCopyInto),
     (''Status'', RabbitMQSecretEngineRoleStatus_DeepCopyInto lib)]"

definition RabbitMQSecretEngineRole_DeepCopy :: "(string \<Rightarrow> copier) \<Rightarrow> copier" where
  "RabbitMQSecretEngineRole_DeepCopy lib = DeepCopy_of (RabbitMQSecretEngineRole_DeepCopyInto lib)"

definition RabbitMQSecretEngineRole_DeepCopyObject :: "(string \<Rightarrow> copier) \<Rightarrow> copier" where
  "RabbitMQSecretEngineRole_DeepCopyObject lib = DeepCopyObject_of (RabbitMQSecretEngineRole_DeepCopy lib)"

lemma deep_RabbitMQSecretEngineRole [simp]: "foreign_deep lib \<Longrightarrow> deep RabbitMQSecretEngineRole_gotype (RabbitMQSecretEngineRole_DeepCopyInto lib)"
  unfolding RabbitMQSecretEngineRole_gotype_def RabbitMQSecretEngineRole_DeepCopyInto_def by (rule deep_struct) (simp add: covers_def)

lemma isolates_RabbitMQSecretEngineRole: "foreign_deep lib \<Longrightarrow> isolates (PtrTo RabbitMQSecretEngineRole_gotype) (RabbitMQSecretEngineRole_DeepCopyObject lib)"
  by (simp add: RabbitMQSecretEngineRole_DeepCopyObject_def RabbitMQSecretEngineRole_DeepCopy_def deep_isolates deep_DeepCopyObject deep_DeepCopy)

definition RabbitMQSecretEngineRoleList_gotype :: gotype where
  "RabbitMQSecretEngineRoleList_gotype = StructOf [
     (''TypeMeta'', Plain), (''ListMeta'', Foreign ''ListMeta''),
     (''Items'', SliceOf RabbitMQSecretEngineRole_gotype)]"

definition RabbitMQSecretEngineRoleList_DeepCopyInto :: "(string \<Rightarrow> copier) \<Rightarrow> copier" where
  "RabbitMQSecretEngineRoleList_DeepCopyInto lib = struct_copy [
     (''TypeMeta'', plain_copy), (''ListMeta'', lib ''ListMeta''),
     (''Items'', slice_copy (RabbitMQSecretEngineRole_DeepCopyInto lib))]"

definition RabbitMQSecretEngineRoleList_DeepCopy :: "(string \<Rightarrow> copier) \<Rightarrow> copier" where
  "RabbitMQSecretEngineRoleList_DeepCopy lib = DeepCopy_of (RabbitMQSecretEngineRoleList_DeepCopyInto lib)"

definition RabbitMQSecretEngineRoleList_DeepCopyObject :: "(string \<Rightarrow> copier) \<Rightarrow> copier" where
  "RabbitMQSecretEngineRoleList_DeepCopyObject lib = DeepCopyObject_of (RabbitMQSecretEngineRoleList_DeepCopy lib)"

lemma deep_RabbitMQSecretEngineRoleList [simp]: "foreign_deep lib \<Longrightarrow> deep RabbitMQSecretEngineRoleList_gotype (RabbitMQSecretEngineRoleList_DeepCopyInto lib)"
  unfolding RabbitMQSecretEngineRoleList_gotype_def RabbitMQSecretEngineRoleList_DeepCopyInto_def by (rule deep_struct) (simp add: covers_def)

lemma isolates_RabbitMQSecretEngineRoleList: "foreign_deep lib \<Longrightarrow> isolates (PtrTo RabbitMQSecretEngineRoleList_gotype) (RabbitMQSecretEngineRoleList_DeepCopyObject lib)"
  by (simp add: RabbitMQSecretEngineRoleList_DeepCopyObject_def RabbitMQSecretEngineRoleList_DeepCopy_def deep_isolates deep_DeepCopyObject deep_DeepCopy)

definition SecretEngineMountSpec_gotype :: gotype where
  "SecretEngineMountSpec_gotype = StructOf [
     (''Connection'', PtrTo VaultConnection_gotype), (''Authentication'', KubeAuthConfiguration_gotype),
     (''Mount'', Mount_gotype), (''Path'', Plain), (''Name'', Plain)]"

definition SecretEngineMountSpec_DeepCopyInto :: "copier" where
  "SecretEngineMountSpec_DeepCopyInto = struct_copy [
     (''Connection'', new_copy VaultConnection_DeepCopyInto),
     (''Authentication'', KubeAuthConfiguration_DeepCopyInto), (''Mount'', Mount_DeepCopyInto)]"

definition SecretEngineMountSpec_DeepCopy :: "copier" where
  "SecretEngineMountSpec_DeepCopy = DeepCopy_of SecretEngineMountSpec_DeepCopyInto"

lemma deep_SecretEngineMountSpec [simp]: "deep SecretEngineMountSpec_gotype SecretEngineMountSpec_DeepCopyInto"
  unfolding SecretEngineMountSpec_gotype_def SecretEngineMountSpec_DeepCopyInto_def by (rule deep_struct) (simp add: covers_def)

definition SecretEngineMountStatus_gotype :: gotype where
  "SecretEngineMountStatus_gotype = StructOf [
     (''Conditions'', SliceOf (Foreign ''Condition'')), (''Accessor'', Plain)]"

definition SecretEngineMountStatus_DeepCopyInto :: "(string \<Rightarrow> copier) \<Rightarrow> copier" where
  "SecretEngineMountStatus_DeepCopyInto lib = struct_copy [
     (''Conditions'', slice_copy (lib ''Condition''))]"

definition SecretEngineMountStatus_DeepCopy :: "(string \<Rightarrow> copier) \<Rightarrow> copier" where
  "SecretEngineMountStatus_DeepCopy lib = DeepCopy_of (SecretEngineMountStatus_DeepCopyInto lib)"

lemma deep_SecretEngineMountStatus [simp]: "foreign_deep lib \<Longrightarrow> deep SecretEngineMountStatus_gotype (SecretEngineMountStatus_DeepCopyInto lib)"
  unfolding SecretEngineMountStatus_gotype_def SecretEngineMountStatus_DeepCopyInto_def by (rule deep_struct) (simp add: covers_def)

definition SecretEngineMount_gotype :: gotype where
  "SecretEngineMount_gotype = StructOf [
     (''TypeMeta'', Plain), (''ObjectMeta'', Foreign ''ObjectMeta''), (''Spec'', SecretEngineMountSpec_gotype),
     (''Status'', SecretEngineMountStatus_gotype)]"

definition SecretEngineMount_DeepCopyInto :: "(string \<Rightarrow> copier) \<Rightarrow> copier" where
  "SecretEngineMount_DeepCopyInto lib = struct_copy [
     (''TypeMeta'', plain_copy), (''ObjectMeta'', lib ''ObjectMeta''),
     (''Spec'', SecretEngineMountSpec_DeepCopyInto), (''Status'', SecretEngineMountStatus_DeepCopyInto lib)]"

definition SecretEngineMount_DeepCopy :: "(string \<Rightarrow> copier) \<Rightarrow> copier" where
  "SecretEngineMount_DeepCopy lib = DeepCopy_of (SecretEngineMount_DeepCopyInto lib)"

definition SecretEngineMount_DeepCopyObject :: "(string \<Rightarrow> copier) \<Rightarrow> copier" where
  "SecretEngineMount_DeepCopyObject lib = DeepCopyObject_of (SecretEngineMount_DeepCopy lib)"

lemma deep_SecretEngineMount [simp]: "foreign_deep lib \<Longrightarrow> deep SecretEngineMount_gotype (SecretEngineMount_DeepCopyInto lib)"
  unfolding SecretEngineMount_gotype_def SecretEngineMount_DeepCopyInto_def by (rule deep_struct) (simp add: covers_def)

lemma isolates_SecretEngineMount: "foreign_deep lib \<Longrightarrow> isolates (PtrTo SecretEngineMount_gotype) (SecretEngineMount_DeepCopyObject lib)"
  by (simp add: SecretEngineMount_DeepCopyObject_def SecretEngineMount_DeepCopy_def deep_isolates deep_DeepCopyObject deep_DeepCopy)

definition SecretEngineMountList_gotype :: gotype where
  "SecretEngineMountList_gotype = StructOf [
     (''TypeMeta'', Plain), (''ListMeta'', Foreign ''ListMeta''),
     (''Items'', SliceOf SecretEngineMount_gotype)]"

definition SecretEngineMountList_DeepCopyInto :: "(string \<Rightarrow> copier) \<Rightarrow> copier" where
  "SecretEngineMountList_DeepCopyInto lib = struct_copy [
     (''TypeMeta'', plain_copy), (''ListMeta'', lib ''ListMeta''),
     (''Items'', slice_copy (SecretEngineMount_DeepCopyInto lib))]"

definition SecretEngineMountList_DeepCopy :: "(string \<Rightarrow> copier) \<Rightarrow> copier" where
  "SecretEngineMountList_DeepCopy lib = DeepCopy_of (SecretEngineMountList_DeepCopyInto lib)"

definition SecretEngineMountList_DeepCopyObject :: "(string \<Rightarrow> copier) \<Rightarrow> copier" where
  "SecretEngineMountList_DeepCopyObject lib = DeepCopyObject_of (SecretEngineMountList_DeepCopy lib)"

lemma deep_SecretEngineMountList [simp]: "foreign_deep lib \<Longrightarrow> deep SecretEngineMountList_gotype (SecretEngineMountList_DeepCopyInto lib)"
  unfolding SecretEngineMountList_gotype_def SecretEngineMountList_DeepCopyInto_def by (rule deep_struct) (simp add: covers_def)

lemma isolates_SecretEngineMountList: "foreign_deep lib \<Longrightarrow> isolates (PtrTo SecretEngineMountList_gotype) (SecretEngineMountList_DeepCopyObject lib)"
  by (simp add: SecretEngineMountList_DeepCopyObject_def SecretEngineMountList_DeepCopy_def deep_isolates deep_DeepCopyObject deep_DeepCopy)

text \<open>
  C30. The copies that the client library makes of cached objects: \<open>DeepCopyObject\<close> of every kind of
  the operator and of every list gives an object with the same content that shares nothing with
  the original, down to the last pointer, slice and map, so that what a reconcile or a webhook
  changes in its copy never shows in the cache, and the other way round. The functions of other
  packages are taken to copy the types of those packages in this way.
\<close>

theorem copies_are_isolated:
  assumes "foreign_deep lib"
  shows "isolates (PtrTo AuthEngineMount_gotype) (AuthEngineMount_DeepCopyObject lib) \<and>
    isolates (PtrTo AzureAuthEngineConfig_gotype) (AzureAuthEngineConfig_DeepCopyObject lib) \<and>
    isolates (PtrTo AzureAuthEngineRole_gotype) (AzureAuthEngineRole_DeepCopyObject lib) \<and>
    isolates (PtrTo AzureSecretEngineConfig_gotype) (AzureSecretEngineConfig_DeepCopyObject lib) \<and>
    isolates (PtrTo AzureSecretEngineRole_gotype) (AzureSecretEngineRole_DeepCopyObject lib) \<and>
    isolates (PtrTo CertAuthEngineConfig_gotype) (CertAuthEngineConfig_DeepCopyObject lib) \<and>
    isolates (PtrTo CertAuthEngineRole_gotype) (CertAuthEngineRole_DeepCopyObject lib) \<and>
    isolates (PtrTo DatabaseSecretEngineConfig_gotype) (DatabaseSecretEngineConfig_DeepCopyObject lib) \<and>
    isolates (PtrTo DatabaseSecretEngineRole_gotype) (DatabaseSecretEngineRole_DeepCopyObject lib) \<and>
    isolates (PtrTo DatabaseSecretEngineStaticRole_gotype) (DatabaseSecretEngineStaticRole_DeepCopyObject lib) \<and>
    isolates (PtrTo GCPAuthEngineConfig_gotype) (GCPAuthEngineConfig_DeepCopyObject lib) \<and>
    isolates (PtrTo GCPAuthEngineRole_gotype) (GCPAuthEngineRole_DeepCopyObject lib) \<and>
    isolates (PtrTo GitHubSecretEngineConfig_gotype) (GitHubSecretEngineConfig_DeepCopyObject lib) \<and>
    isolates (PtrTo GitHubSecretEngineRole_gotype) (GitHubSecretEngineRole_DeepCopyObject lib) \<and>
    isolates (PtrTo Group_gotype) (Group_DeepCopyObject lib) \<and>
    isolates (PtrTo GroupAlias_gotype) (GroupAlias_DeepCopyObject lib) \<and>
    isolates (PtrTo JWTOIDCAuthEngineConfig_gotype) (JWTOIDCAuthEngineConfig_DeepCopyObject lib) \<and>
    isolates (PtrTo JWTOIDCAuthEngineRole_gotype) (JWTOIDCAuthEngineRole_DeepCopyObject lib) \<and>
    isolates (PtrTo KubernetesAuthEngineConfig_gotype) (KubernetesAuthEngineConfig_DeepCopyObject lib) \<and>
    isolates (PtrTo KubernetesAuthEngineRole_gotype) (KubernetesAuthEngineRole_DeepCopyObject lib) \<and>
    isolates (PtrTo KubernetesSecretEngineConfig_gotype) (KubernetesSecretEngineConfig_DeepCopyObject lib) \<and>
    isolates (PtrTo KubernetesSecretEngineRole_gotype) (KubernetesSecretEngineRole_DeepCopyObject lib) \<and>
    isolates (PtrTo LDAPAuthEngineConfig_gotype) (LDAPAuthEngineConfig_DeepCopyObject lib) \<and>
    isolates (PtrTo LDAPAuthEngineGroup_gotype) (LDAPAuthEngineGroup_DeepCopyObject lib) \<and>
    isolates (PtrTo PKISecretEngineConfig_gotype) (PKISecretEngineConfig_DeepCopyObject lib) \<and>
    isolates (PtrTo PKISecretEngineRole_gotype) (PKISecretEngineRole_DeepCopyObject lib) \<and>
    isolates (PtrTo PasswordPolicy_gotype) (PasswordPolicy_DeepCopyObject lib) \<and>
    isolates (PtrTo Policy_gotype) (Policy_DeepCopyObject lib) \<and>
    isolates (PtrTo QuaySecretEngineConfig_gotype) (QuaySecretEngineConfig_DeepCopyObject lib) \<and>
    isolates (PtrTo QuaySecretEngineRole_gotype) (QuaySecretEngineRole_DeepCopyObject lib) \<and>
    isolates (PtrTo QuaySecretEngineStaticRole_gotype) (QuaySecretEngineStaticRole_DeepCopyObject lib) \<and>
    isolates (PtrTo RabbitMQSecretEngineConfig_gotype) (RabbitMQSecretEngineConfig_DeepCopyObject lib) \<and>
    isolates (PtrTo RabbitMQSecretEngineRole_gotype) (RabbitMQSecretEngineRole_DeepCopyObject lib) \<and>
    isolates (PtrTo RandomSecret_gotype) (RandomSecret_DeepCopyObject lib) \<and>
    isolates (PtrTo SecretEngineMount_gotype) (SecretEngineMount_DeepCopyObject lib) \<and>
    isolates (PtrTo VaultSecret_gotype) (VaultSecret_DeepCopyObject lib) \<and>
    isolates (PtrTo AuthEngineMountList_gotype) (AuthEngineMountList_DeepCopyObject lib) \<and>
    isolates (PtrTo AzureAuthEngineConfigList_gotype) (AzureAuthEngineConfigList_DeepCopyObject lib) \<and>
    isolates (PtrTo AzureAuthEngineRoleList_gotype) (AzureAuthEngineRoleList_DeepCopyObject lib) \<and>
    isolates (PtrTo AzureSecretEngineConfigList_gotype) (AzureSecretEngineConfigList_DeepCopyObject lib) \<and>
    isolates (PtrTo AzureSecretEngineRoleList_gotype) (AzureSecretEngineRoleList_DeepCopyObject lib) \<and>
    isolates (PtrTo CertAuthEngineConfigList_gotype) (CertAuthEngineConfigList_DeepCopyObject lib) \<and>
    isolates (PtrTo CertAuthEngineRoleList_gotype) (CertAuthEngineRoleList_DeepCopyObject lib) \<and>
    isolates (PtrTo DatabaseSecretEngineConfigList_gotype) (DatabaseSecretEngineConfigList_DeepCopyObject lib) \<and>
    isolates (PtrTo DatabaseSecretEngineRoleList_gotype) (DatabaseSecretEngineRoleList_DeepCopyObject lib) \<and>
    isolates (PtrTo DatabaseSecretEngineStaticRoleList_gotype) (DatabaseSecretEngineStaticRoleList_DeepCopyObject lib) \<and>
    isolates (PtrTo GCPAuthEngineConfigList_gotype) (GCPAuthEngineConfigList_DeepCopyObject lib) \<and>
    isolates (PtrTo GCPAuthEngineRoleList_gotype) (GCPAuthEngineRoleList_DeepCopyObject lib) \<and>
    isolates (PtrTo GitHubSecretEngineConfigList_gotype) (GitHubSecretEngineConfigList_DeepCopyObject lib) \<and>
    isolates (PtrTo GitHubSecretEngineRoleList_gotype) (GitHubSecretEngineRoleList_DeepCopyObject lib) \<and>
    isolates (PtrTo GroupAliasList_gotype) (GroupAliasList_DeepCopyObject lib) \<and>
    isolates (PtrTo GroupList_gotype) (GroupList_DeepCopyObject lib) \<and>
    isolates (PtrTo JWTOIDCAuthEngineConfigList_gotype) (JWTOIDCAuthEngineConfigList_DeepCopyObject lib) \<and>
    isolates (PtrTo JWTOIDCAuthEngineRoleList_gotype) (JWTOIDCAuthEngineRoleList_DeepCopyObject lib) \<and>
    isolates (PtrTo KubernetesAuthEngineConfigList_gotype) (KubernetesAuthEngineConfigList_DeepCopyObject lib) \<and>
    isolates (PtrTo KubernetesAuthEngineRoleList_gotype) (KubernetesAuthEngineRoleList_DeepCopyObject lib) \<and>
    isolates (PtrTo KubernetesSecretEngineConfigList_gotype) (KubernetesSecretEngineConfigList_DeepCopyObject lib) \<and>
    isolates (PtrTo KubernetesSecretEngineRoleList_gotype) (KubernetesSecretEngineRoleList_DeepCopyObject lib) \<and>
    isolates (PtrTo LDAPAuthEngineConfigList_gotype) (LDAPAuthEngineConfigList_DeepCopyObject lib) \<and>
    isolates (PtrTo LDAPAuthEngineGroupList_gotype) (LDAPAuthEngineGroupList_DeepCopyObject lib) \<and>
    isolates (PtrTo PKISecretEngineConfigList_gotype) (PKISecretEngineConfigList_DeepCopyObject lib) \<and>
    isolates (PtrTo PKISecretEngineRoleList_gotype) (PKISecretEngineRoleList_DeepCopyObject lib) \<and>
    isolates (PtrTo PasswordPolicyList_gotype) (PasswordPolicyList_DeepCopyObject lib) \<and>
    isolates (PtrTo PolicyList_gotype) (PolicyList_DeepCopyObject lib) \<and>
    isolates (PtrTo QuaySecretEngineConfigList_gotype) (QuaySecretEngineConfigList_DeepCopyObject lib) \<and>
    isolates (PtrTo QuaySecretEngineRoleList_gotype) (QuaySecretEngineRoleList_DeepCopyObject lib) \<and>
    isolates (PtrTo QuaySecretEngineStaticRoleList_gotype) (QuaySecretEngineStaticRoleList_DeepCopyObject lib) \<and>
    isolates (PtrTo RabbitMQSecretEngineConfigList_gotype) (RabbitMQSecretEngineConfigList_DeepCopyObject lib) \<and>
    isolates (PtrTo RabbitMQSecretEngineRoleList_gotype) (RabbitMQSecretEngineRoleList_DeepCopyObject lib) \<and>
    isolates (PtrTo RandomSecretList_gotype) (RandomSecretList_DeepCopyObject lib) \<and>
    isolates (PtrTo SecretEngineMountList_gotype) (SecretEngineMountList_DeepCopyObject lib) \<and>
    isolates (PtrTo VaultSecretList_gotype) (VaultSecretList_DeepCopyObject lib)"
  by (intro conjI
    isolates_AuthEngineMount [OF assms]
    isolates_AzureAuthEngineConfig [OF assms]
    isolates_AzureAuthEngineRole [OF assms]
    isolates_AzureSecretEngineConfig [OF assms]
    isolates_AzureSecretEngineRole [OF assms]
    isolates_CertAuthEngineConfig [OF assms]
    isolates_CertAuthEngineRole [OF assms]
    isolates_DatabaseSecretEngineConfig [OF assms]
    isolates_DatabaseSecretEngineRole [OF assms]
    isolates_DatabaseSecretEngineStaticRole [OF assms]
    isolates_GCPAuthEngineConfig [OF assms]
    isolates_GCPAuthEngineRole [OF assms]
    isolates_GitHubSecretEngineConfig [OF assms]
    isolates_GitHubSecretEngineRole [OF assms]
    isolates_Group [OF assms]
    isolates_GroupAlias [OF assms]
    isolates_JWTOIDCAuthEngineConfig [OF assms]
    isolates_JWTOIDCAuthEngineRole [OF assms]
    isolates_KubernetesAuthEngineConfig [OF assms]
    isolates_KubernetesAuthEngineRole [OF assms]
    isolates_KubernetesSecretEngineConfig [OF assms]
    isolates_KubernetesSecretEngineRole [OF assms]
    isolates_LDAPAuthEngineConfig [OF assms]
    isolates_LDAPAuthEngineGroup [OF assms]
    isolates_PKISecretEngineConfig [OF assms]
    isolates_PKISecretEngineRole [OF assms]
    isolates_PasswordPolicy [OF assms]
    isolates_Policy [OF assms]
    isolates_QuaySecretEngineConfig [OF assms]
    isolates_QuaySecretEngineRole [OF assms]
    isolates_QuaySecretEngineStaticRole [OF assms]
    isolates_RabbitMQSecretEngineConfig [OF assms]
    isolates_RabbitMQSecretEngineRole [OF assms]
    isolates_RandomSecret [OF assms]
    isolates_SecretEngineMount [OF assms]
    isolates_VaultSecret [OF assms]
    isolates_AuthEngineMountList [OF assms]
    isolates_AzureAuthEngineConfigList [OF assms]
    isolates_AzureAuthEngineRoleList [OF assms]
    isolates_AzureSecretEngineConfigList [OF assms]
    isolates_AzureSecretEngineRoleList [OF assms]
    isolates_CertAuthEngineConfigList [OF assms]
    isolates_CertAuthEngineRoleList [OF assms]
    isolates_DatabaseSecretEngineConfigList [OF assms]
    isolates_DatabaseSecretEngineRoleList [OF assms]
    isolates_DatabaseSecretEngineStaticRoleList [OF assms]
    isolates_GCPAuthEngineConfigList [OF assms]
    isolates_GCPAuthEngineRoleList [OF assms]
    isolates_GitHubSecretEngineConfigList [OF assms]
    isolates_GitHubSecretEngineRoleList [OF assms]
    isolates_GroupAliasList [OF assms]
    isolates_GroupList [OF assms]
    isolates_JWTOIDCAuthEngineConfigList [OF assms]
    isolates_JWTOIDCAuthEngineRoleList [OF assms]
    isolates_KubernetesAuthEngineConfigList [OF assms]
    isolates_KubernetesAuthEngineRoleList [OF assms]
    isolates_KubernetesSecretEngineConfigList [OF assms]
    isolates_KubernetesSecretEngineRoleList [OF assms]
    isolates_LDAPAuthEngineConfigList [OF assms]
    isolates_LDAPAuthEngineGroupList [OF assms]
    isolates_PKISecretEngineConfigList [OF assms]
    isolates_PKISecretEngineRoleList [OF assms]
    isolates_PasswordPolicyList [OF assms]
    isolates_PolicyList [OF assms]
    isolates_QuaySecretEngineConfigList [OF assms]
    isolates_QuaySecretEngineRoleList [OF assms]
    isolates_QuaySecretEngineStaticRoleList [OF assms]
    isolates_RabbitMQSecretEngineConfigList [OF assms]
    isolates_RabbitMQSecretEngineRoleList [OF assms]
    isolates_RandomSecretList [OF assms]
    isolates_SecretEngineMountList [OF assms]
    isolates_VaultSecretList [OF assms])

section \<open>Witness\<close>

text \<open>A password policy with a label, a connection and a condition, each in a variable of its own.\<close>

definition policy_value :: govalue where
  "policy_value = Ref 1 (Struct
     [(''TypeMeta'', Atom ''PasswordPolicy''),
      (''ObjectMeta'', Struct [(''Labels'', Map 2 [(''app'', Atom ''vault'')])]),
      (''Spec'', Struct
        [(''Connection'', Ref 3 (Struct [(''TLSConfig'', NilValue), (''Address'', Atom ''https://vault''),
            (''TimeOut'', NilValue), (''MaxRetries'', Ref 4 (Atom ''3''))])),
         (''PasswordPolicy'', Atom ''length = 20''),
         (''Authentication'', Struct [(''ServiceAccount'', Ref 5 (Atom ''default'')), (''Path'', Atom ''kubernetes''),
            (''Role'', Atom ''admin''), (''Namespace'', Atom [])]),
         (''Name'', Atom [])]),
      (''Status'', Struct [(''Conditions'', Slice 6 [Struct [(''Type'', Atom ''ReconcileSuccessful'')]])])])"

theorem copies_are_isolated_witness:
  "content (fst (PasswordPolicy_DeepCopyObject (\<lambda>f. moved) 7 policy_value)) = content policy_value \<and>
   list_all (\<lambda>a. assign a (Atom ''overwritten'') (fst (PasswordPolicy_DeepCopyObject (\<lambda>f. moved) 7 policy_value)) =
     fst (PasswordPolicy_DeepCopyObject (\<lambda>f. moved) 7 policy_value)) [1, 2, 3, 4, 5, 6]"
proof -
  have "isolates (PtrTo PasswordPolicy_gotype) (PasswordPolicy_DeepCopyObject (\<lambda>f. moved))"
    using copies_are_isolated [OF foreign_deep_moved] by simp
  moreover have "typed (PtrTo PasswordPolicy_gotype) policy_value"
    by (simp add: policy_value_def PasswordPolicy_gotype_def PasswordPolicySpec_gotype_def PasswordPolicyStatus_gotype_def
        VaultConnection_gotype_def KubeAuthConfiguration_gotype_def)
  moreover have "addresses policy_value = {1, 2, 3, 4, 5, 6}"
    by (simp add: policy_value_def) auto
  moreover have "\<forall>a \<in> addresses policy_value. a < 7" by (simp add: policy_value_def)
  moreover obtain v' n' where run: "PasswordPolicy_DeepCopyObject (\<lambda>f. moved) 7 policy_value = (v', n')" by (rule prod.exhaust)
  ultimately have "content v' = content policy_value" "a \<in> {1, 2, 3, 4, 5, 6} \<Longrightarrow> assign a x v' = v'" for a x
    unfolding isolates_def by blast+
  then show ?thesis by (simp add: run)
qed

end
