(* ===== verification/RotationQueue.thy ===== *)
theory RotationQueue
  imports ControllerRuns Wiring
begin

text \<open>
  The rotation of a random secret over the life of the operator: a state machine whose steps are
  the requests that the work queue delivers to the controller of
  \<open>controllers/randomsecret_controller.go\<close>, the updates that pass its filters, and what the
  rest of the operator does in between. Whether a secret is rotated in the future is whether a
  request for it is pending in the queue; the theory shows which runs keep one there, and which
  reconcile takes the last one away.

  The queue is library code and a parameter \<open>wq\<close>: the time at which a request is due after a
  reconcile, from the one that was pending, the time at which the reconcile ended and its result.
\<close>

section \<open>The state machine\<close>

type_synonym work_queue = "int option \<Rightarrow> int \<Rightarrow> Result res \<Rightarrow> int option"

text \<open>
  What controller-runtime and its queue document: a request comes back after \<open>RequeueAfter\<close> when
  that is positive, after some delay when the reconcile failed, and otherwise not at all; of two
  times for the same request the sooner one counts.
\<close>

definition sooner :: "int option \<Rightarrow> int \<Rightarrow> int option" where
  "sooner due t = (case due of None \<Rightarrow> Some t | Some t' \<Rightarrow> Some (min t' t))"

definition requeues :: "work_queue \<Rightarrow> bool" where
  "requeues wq \<longleftrightarrow> (\<forall>due now. wq due now (Ok \<lparr>RequeueAfter = 0\<rparr>) = due \<and>
     (\<forall>t>0. wq due now (Ok \<lparr>RequeueAfter = t\<rparr>) = sooner due (now + t)) \<and>
     (\<forall>e. \<exists>delay\<ge>0. wq due now (Err e) = sooner due (now + delay)))"

text \<open>The delay after a failure has a longest value, to which the rate limiter grows.\<close>

definition retries_within :: "work_queue \<Rightarrow> int \<Rightarrow> bool" where
  "retries_within wq longest \<longleftrightarrow> (\<forall>now e. \<exists>delay\<ge>0. delay \<le> longest \<and> wq None now (Err e) = Some (now + delay))"

lemma requeuesD:
  assumes "requeues wq"
  shows "wq due now (Ok \<lparr>RequeueAfter = 0\<rparr>) = due"
    and "t > 0 \<Longrightarrow> wq due now (Ok \<lparr>RequeueAfter = t\<rparr>) = sooner due (now + t)"
    and "\<exists>delay\<ge>0. wq due now (Err e) = sooner due (now + delay)"
  using assms by (simp_all add: requeues_def)

record queue_state =
  op_world :: "RandomSecret world"
  pending :: "int option"
  runs :: nat

definition queue_now :: "RandomSecret env \<Rightarrow> queue_state \<Rightarrow> int" where
  "queue_now E s = time_now E (calls (op_world s))"

definition serve_secret ::
  "hcl_decoder \<Rightarrow> RandomSecret env \<Rightarrow> work_queue \<Rightarrow> string \<Rightarrow> string \<Rightarrow> queue_state \<Rightarrow> queue_state" where
  "serve_secret hcl E wq ns n s = (case RandomSecret_Reconcile hcl E ns n (op_world s) of
     (r, w') \<Rightarrow> s\<lparr>op_world := w', pending := wq (pending s) (time_now E (calls w')) r, runs := Suc (runs s)\<rparr>)"

text \<open>A panic in a reconcile ends the process: the library does not recover by default.\<close>

definition crashes :: "hcl_decoder \<Rightarrow> RandomSecret env \<Rightarrow> string \<Rightarrow> string \<Rightarrow> queue_state \<Rightarrow> bool" where
  "crashes hcl E ns n s \<longleftrightarrow> (case fst (RandomSecret_Reconcile hcl E ns n (op_world s)) of Panic _ \<Rightarrow> True | _ \<Rightarrow> False)"

text \<open>
  A start of the process: the queue and the cache of clients are empty, and the first listing
  delivers the object as created, which asks for a reconcile.
\<close>

definition start_process :: "hcl_decoder \<Rightarrow> RandomSecret env \<Rightarrow> work_queue \<Rightarrow> string \<Rightarrow> string \<Rightarrow> RandomSecret world \<Rightarrow> queue_state" where
  "start_process hcl E wq ns n w =
     serve_secret hcl E wq ns n \<lparr>op_world = w\<lparr>client_cache := fmempty\<rparr>, pending = None, runs = 0\<rparr>"

definition is_instance :: "string \<Rightarrow> string \<Rightarrow> RandomSecret \<Rightarrow> bool" where
  "is_instance ns n d \<longleftrightarrow> GetNamespace d = ns \<and> GetName d = n"

definition elsewhere :: "string \<Rightarrow> string \<Rightarrow> RandomSecret call \<Rightarrow> bool" where
  "elsewhere ns n c \<longleftrightarrow> (case c of KubeStatusUpdate d \<Rightarrow> \<not> is_instance ns n d | _ \<Rightarrow> True)"

definition setting_at :: "RandomSecret env \<Rightarrow> RandomSecret predicate_funcs \<Rightarrow> int \<Rightarrow> queue_state \<Rightarrow> RandomSecret setting" where
  "setting_at E zero period s = \<lparr>zero_Funcs = zero, SyncPeriod = period, set_lookupEnv = os_env E, set_now = queue_now E s\<rparr>"

text \<open>
  The states that a process reaches from \<open>s0\<close>: the rest of the operator works, and time passes
  (\<open>Work\<close>); a pending request comes due (\<open>Fire\<close>); an update of the object, one of \<open>updates\<close>,
  passes the filters (\<open>Watch\<close>). A resynchronisation delivers an update from an object to itself.
\<close>

inductive operates :: "hcl_decoder \<Rightarrow> RandomSecret env \<Rightarrow> work_queue \<Rightarrow> RandomSecret predicate_funcs \<Rightarrow> int \<Rightarrow>
     (RandomSecret \<Rightarrow> RandomSecret \<Rightarrow> bool) \<Rightarrow> string \<Rightarrow> string \<Rightarrow> queue_state \<Rightarrow> queue_state \<Rightarrow> bool"
  for hcl E wq zero period updates ns n s0 where
  Begin: "operates hcl E wq zero period updates ns n s0 s0"
| Work: "operates hcl E wq zero period updates ns n s0 s \<Longrightarrow> calls w = calls (op_world s) @ cs \<Longrightarrow>
    list_all (elsewhere ns n) cs \<Longrightarrow> operates hcl E wq zero period updates ns n s0 (s\<lparr>op_world := w\<rparr>)"
| Fire: "operates hcl E wq zero period updates ns n s0 s \<Longrightarrow> pending s = Some t \<Longrightarrow> t \<le> queue_now E s \<Longrightarrow>
    s' = s\<lparr>pending := None\<rparr> \<Longrightarrow> \<not> crashes hcl E ns n s' \<Longrightarrow>
    operates hcl E wq zero period updates ns n s0 (serve_secret hcl E wq ns n s')"
| Watch: "operates hcl E wq zero period updates ns n s0 s \<Longrightarrow> updates old new \<Longrightarrow>
    self_update (RandomSecret_SetupWithManager (setting_at E zero period s)) old new \<Longrightarrow> \<not> crashes hcl E ns n s \<Longrightarrow>
    operates hcl E wq zero period updates ns n s0 (serve_secret hcl E wq ns n s)"

section \<open>An early reconcile\<close>

text \<open>A reconcile before the period is over: the client, one look at the clock, and no request.\<close>

lemma early_reconcile:
  assumes inst: "kube_get_instance E (calls w) ns n = Inr d" and "\<not> is_deleted d"
    and "rs_LastVaultSecretUpdate (Status d) = Some t" and "rs_RefreshPeriod (Spec d) = Some p"
    and ctx: "prepareContext E (fetched ns n d w) = (Ok cl, w')" and "time_now E (calls w') \<le> t + p"
  shows "RandomSecret_Reconcile hcl E ns n w = (Ok \<lparr>RequeueAfter = 0\<rparr>, w'\<lparr>calls := calls w' @ [TimeNow]\<rparr>)"
proof -
  have "inst w' = d" using prepareContext_frame [of E "fetched ns n d w"] by (auto simp: ctx)
  then show ?thesis
    using assms RandomSecret_rests [of w' t E hcl cl]
    by (simp add: RandomSecret_Reconcile_def controller_run [OF inst])
qed

lemma early_serve:
  assumes inst: "kube_get_instance E (calls (op_world s)) ns n = Inr d" and "\<not> is_deleted d"
    and "rs_LastVaultSecretUpdate (Status d) = Some t" and "rs_RefreshPeriod (Spec d) = Some p"
    and ctx: "prepareContext E (fetched ns n d (op_world s)) = (Ok cl, w')" and "time_now E (calls w') \<le> t + p"
    and "requeues wq"
  shows "pending (serve_secret hcl E wq ns n s) = pending s"
    and "list_all (only_at (login_path d)) (drop (length (calls (op_world s))) (calls (op_world (serve_secret hcl E wq ns n s))))"
proof -
  note run = early_reconcile [OF assms(1-6), of hcl]
  show "pending (serve_secret hcl E wq ns n s) = pending s"
    using assms(7) by (simp add: serve_secret_def run requeues_def)
  obtain cs where "calls w' = calls (fetched ns n d (op_world s)) @ cs" "list_all (only_at (login_path d)) cs"
    using prepareContext_frame [of E "fetched ns n d (op_world s)"] by (auto simp: ctx login_path_def)
  then show "list_all (only_at (login_path d)) (drop (length (calls (op_world s))) (calls (op_world (serve_secret hcl E wq ns n s))))"
    by (simp add: serve_secret_def run only_at_def)
qed

lemma RandomSecret_quiet: "quiet RandomSecret_SetupWithManager"
  by (rule quietI) (simp add: RandomSecret_SetupWithManager_def)

text \<open>With nothing pending and only updates that leave the generation alone, nothing happens.\<close>

lemma idle_for_ever:
  assumes "operates hcl E wq zero period updates ns n s0 s" and "pending s0 = None"
    and "os_env E ''ENABLE_DRIFT_DETECTION'' \<noteq> Some ''true''"
    and "\<And>old new. updates old new \<Longrightarrow> meta_Generation (Meta new) = meta_Generation (Meta old)"
  shows "pending s = None \<and> runs s = runs s0"
  using assms(1)
proof induction
  case (Watch s old new)
  then show ?case using RandomSecret_quiet assms(3,4) by (auto simp: quiet_def setting_at_def)
qed (use assms(2) in auto)


section \<open>The API server\<close>

text \<open>
  The times of the last update that the operator has sent for the object, and an object whose
  recorded time is one of them, possibly rounded down to the second as the server does.
\<close>

definition sent_times :: "string \<Rightarrow> string \<Rightarrow> RandomSecret call list \<Rightarrow> int set" where
  "sent_times ns n tr = {u. \<exists>d. KubeStatusUpdate d \<in> set tr \<and> is_instance ns n d \<and> rs_LastVaultSecretUpdate (Status d) = Some u}"

definition recorded :: "string \<Rightarrow> string \<Rightarrow> RandomSecret call list \<Rightarrow> RandomSecret \<Rightarrow> bool" where
  "recorded ns n tr d \<longleftrightarrow> (\<forall>t. rs_LastVaultSecretUpdate (Status d) = Some t \<longrightarrow> (\<exists>u \<in> sent_times ns n tr. t \<le> u))"

text \<open>
  An API server that keeps the live object with its refresh period, accepts what the operator
  sends for it, and invents no times. A request for the object may still fail.
\<close>

definition keeps_object :: "RandomSecret env \<Rightarrow> string \<Rightarrow> string \<Rightarrow> int \<Rightarrow> bool" where
  "keeps_object E ns n p \<longleftrightarrow>
     (\<forall>tr. case kube_get_instance E tr ns n of Inl e \<Rightarrow> \<not> IsNotFound e
        | Inr d \<Rightarrow> is_instance ns n d \<and> \<not> is_deleted d \<and> rs_RefreshPeriod (Spec d) = Some p \<and> recorded ns n tr d) \<and>
     (\<forall>tr d. is_instance ns n d \<longrightarrow> (\<exists>d'. kube_status_update E tr d = Inr d' \<and> is_instance ns n d' \<and>
        recorded ns n (tr @ [KubeStatusUpdate d]) d')) \<and>
     (\<forall>tr d. is_instance ns n d \<longrightarrow> (\<exists>d'. kube_update E tr d = Inr d' \<and> is_instance ns n d' \<and> recorded ns n tr d')) \<and>
     (\<forall>d f. is_instance ns n (add_finalizer E d f) = is_instance ns n d)"

lemma keeps_object_get:
  assumes "keeps_object E ns n p"
  shows "kube_get_instance E tr ns n = Inl e \<Longrightarrow> \<not> IsNotFound e"
    and "kube_get_instance E tr ns n = Inr d \<Longrightarrow>
      is_instance ns n d \<and> \<not> is_deleted d \<and> rs_RefreshPeriod (Spec d) = Some p \<and> recorded ns n tr d"
  using assms [unfolded keeps_object_def, THEN conjunct1, rule_format, of tr] by simp_all

lemma keeps_object_put:
  assumes "keeps_object E ns n p" and "is_instance ns n d"
  obtains d' where "kube_status_update E tr d = Inr d'" "is_instance ns n d'" "recorded ns n (tr @ [KubeStatusUpdate d]) d'"
  using assms(1) [unfolded keeps_object_def, THEN conjunct2, THEN conjunct1, rule_format, OF assms(2), of tr] by blast

lemma keeps_object_update:
  assumes "keeps_object E ns n p" and "is_instance ns n d"
  obtains d' where "kube_update E tr d = Inr d'" "is_instance ns n d'" "recorded ns n tr d'"
  using assms(1) [unfolded keeps_object_def, THEN conjunct2, THEN conjunct2, THEN conjunct1, rule_format, OF assms(2), of tr]
  by blast

definition advancing :: "RandomSecret env \<Rightarrow> bool" where
  "advancing E \<longleftrightarrow> (\<forall>tr c. time_now E tr < time_now E (tr @ [c]))"

lemma advancing_mono:
  assumes "advancing E"
  shows "time_now E tr \<le> time_now E (tr @ cs)"
proof (induction cs rule: rev_induct)
  case (snoc c cs)
  have "time_now E (tr @ cs) < time_now E ((tr @ cs) @ [c])" using assms unfolding advancing_def by blast
  then show ?case using snoc by simp
qed simp

lemma advancing_step: "advancing E \<Longrightarrow> time_now E tr < time_now E (tr @ c # cs)"
  using advancing_mono [of E "tr @ [c]" cs] by (simp add: advancing_def) (meson order_less_le_trans)

section \<open>What a reconcile keeps of the times\<close>

lemma sent_times_append: "sent_times ns n (tr @ cs) = sent_times ns n tr \<union> sent_times ns n cs"
  by (auto simp: sent_times_def)

lemma sent_times_elsewhere: "list_all (elsewhere ns n) cs \<Longrightarrow> sent_times ns n cs = {}"
  by (fastforce simp: sent_times_def elsewhere_def list_all_iff)

lemma sent_times_one:
  "sent_times ns n [KubeStatusUpdate d] = (if is_instance ns n d then set_option (rs_LastVaultSecretUpdate (Status d)) else {})"
  by (auto simp: sent_times_def)

lemma sent_times_other: "(\<And>d. c \<noteq> KubeStatusUpdate d) \<Longrightarrow> sent_times ns n [c] = {}"
  by (auto simp: sent_times_def)

text \<open>No time beyond \<open>B\<close> is recorded, neither in memory nor by what was sent.\<close>

definition times_upto :: "string \<Rightarrow> string \<Rightarrow> int \<Rightarrow> RandomSecret world \<Rightarrow> bool" where
  "times_upto ns n B w \<longleftrightarrow> is_instance ns n (inst w) \<and> (\<forall>t \<in> set_option (rs_LastVaultSecretUpdate (Status (inst w))). t \<le> B) \<and>
     (\<forall>u \<in> sent_times ns n (calls w). u \<le> B)"

lemma times_upto_recorded:
  assumes "recorded ns n tr d" and "is_instance ns n d" and "\<forall>u \<in> sent_times ns n (tr @ cs). u \<le> B"
    and "calls w = tr @ cs" and "inst w = d"
  shows "times_upto ns n B w"
proof -
  have "t \<le> B" if lu: "rs_LastVaultSecretUpdate (Status d) = Some t" for t
  proof -
    obtain u where "u \<in> sent_times ns n tr" "t \<le> u" using assms(1) lu by (auto simp: recorded_def)
    moreover have "u \<le> B" using assms(3) calculation(1) by (simp add: sent_times_append)
    ultimately show ?thesis by simp
  qed
  then show ?thesis using assms(2-5) by (simp add: times_upto_def elem_set)
qed

lemma times_upto_query:
  "times_upto ns n B w \<Longrightarrow> (\<And>d. c \<noteq> KubeStatusUpdate d) \<Longrightarrow> times_upto ns n B (w\<lparr>calls := calls w @ [c]\<rparr>)"
  by (simp add: times_upto_def sent_times_append sent_times_other)

text \<open>The recording of an outcome: it succeeds, and keeps the bound.\<close>

lemma world_update_order: "w\<lparr>calls := cs, inst := d\<rparr> = w\<lparr>inst := d, calls := cs\<rparr>"
  by simp

lemma outcome_run:
  obtains cs d where "sent_times ns n cs = {}" "is_instance ns n d = is_instance ns n (inst w)"
    "rs_LastVaultSecretUpdate (Status d) = rs_LastVaultSecretUpdate (Status (inst w))"
    "ManageOutcomeWithRequeue vo E issue t w = bindG (StatusUpdate E) (\<lambda>_. bindG getG (\<lambda>obj.
       bindG (if wants_finalizer vo E issue obj
            then bindG (modifyG (\<lambda>obj. add_finalizer E obj (GetFinalizer obj))) (\<lambda>_. Update E)
            else retG ()) (\<lambda>_. case issue of None \<Rightarrow> retG \<lparr>RequeueAfter = t\<rparr> | Some e \<Rightarrow> errG e)))
       (w\<lparr>inst := d, calls := calls w @ cs\<rparr>)"
proof -
  let ?cs = "case issue of None \<Rightarrow> [] | Some e \<Rightarrow> [RecordEvent (error_text e)]"
  have cs: "sent_times ns n (?cs @ [TimeNow]) = {}" by (auto simp: sent_times_def split: option.splits)
  show thesis
    by (rule that [of "?cs @ [TimeNow]" "SetConditions (AddOrReplaceCondition
        (outcome_condition issue (time_now E (calls w @ ?cs)) (meta_Generation (Meta (inst w)))) (GetConditions (inst w))) (inst w)", OF cs])
      (simp_all add: is_instance_def SetConditions_def GetName_def GetNamespace_def
        ManageOutcomeWithRequeue_def bindG_ask bindG_modify world_update_order split: option.split)
qed

lemma outcome_times:
  assumes "keeps_object E ns n p" and "times_upto ns n B w"
  obtains w' cs where "ManageOutcomeWithRequeue vo E issue t w =
      ((case issue of None \<Rightarrow> Ok \<lparr>RequeueAfter = t\<rparr> | Some e \<Rightarrow> Err e), w')"
    "times_upto ns n B w'" "calls w' = calls w @ cs"
proof -
  obtain cs d where cs: "sent_times ns n cs = {}" and d0: "is_instance ns n d = is_instance ns n (inst w)"
      and lu: "rs_LastVaultSecretUpdate (Status d) = rs_LastVaultSecretUpdate (Status (inst w))"
    and run0: "ManageOutcomeWithRequeue vo E issue t w = bindG (StatusUpdate E) (\<lambda>_. bindG getG (\<lambda>obj.
       bindG (if wants_finalizer vo E issue obj
            then bindG (modifyG (\<lambda>obj. add_finalizer E obj (GetFinalizer obj))) (\<lambda>_. Update E)
            else retG ()) (\<lambda>_. case issue of None \<Rightarrow> retG \<lparr>RequeueAfter = t\<rparr> | Some e \<Rightarrow> errG e)))
       (w\<lparr>inst := d, calls := calls w @ cs\<rparr>)" by (rule outcome_run)
  have d: "is_instance ns n d" using d0 assms(2) by (simp add: times_upto_def)
  let ?tr = "(calls w @ cs) @ [KubeStatusUpdate d]"
  obtain d' where d': "kube_status_update E (calls w @ cs) d = Inr d'" "is_instance ns n d'" "recorded ns n ?tr d'"
    by (rule keeps_object_put [OF assms(1) d])
  let ?w = "w\<lparr>inst := d', calls := ?tr\<rparr>"
  have sent: "\<forall>u \<in> sent_times ns n ?tr. u \<le> B"
    unfolding sent_times_append sent_times_one using assms(2) d cs lu by (auto simp: times_upto_def)
  have upto: "times_upto ns n B ?w" by (rule times_upto_recorded [OF d'(3,2), of "[]"]) (use sent in simp_all)
  have run: "ManageOutcomeWithRequeue vo E issue t w =
      bindG (if wants_finalizer vo E issue d' then bindG (modifyG (\<lambda>obj. add_finalizer E obj (GetFinalizer obj))) (\<lambda>_. Update E)
             else retG ()) (\<lambda>_. case issue of None \<Rightarrow> retG \<lparr>RequeueAfter = t\<rparr> | Some e \<Rightarrow> errG e) ?w"
    using d'(1) by (simp add: run0 bindG_StatusUpdate bindG_get)
  show thesis
  proof (cases "wants_finalizer vo E issue d'")
    case False
    then show thesis using that [of ?w "cs @ [KubeStatusUpdate d]"] run upto by (simp add: go_runs split: option.split)
  next
    case True
    let ?f = "add_finalizer E d' (GetFinalizer d')"
    have "is_instance ns n ?f" using assms(1) d'(2) by (simp add: keeps_object_def)
    then obtain d'' where d'': "kube_update E ?tr ?f = Inr d''" "is_instance ns n d''" "recorded ns n ?tr d''"
      by (rule keeps_object_update [OF assms(1)])
    let ?v = "?w\<lparr>inst := d'', calls := ?tr @ [KubeUpdate ?f]\<rparr>"
    have "ManageOutcomeWithRequeue vo E issue t w = ((case issue of None \<Rightarrow> Ok \<lparr>RequeueAfter = t\<rparr> | Some e \<Rightarrow> Err e), ?v)"
      using d''(1) True by (simp add: run bindG_assoc bindG_modify bindG_Update go_runs split: option.split)
    moreover have "times_upto ns n B ?v"
      by (rule times_upto_recorded [OF d''(3,2), of "[KubeUpdate ?f]"])
        (simp_all add: sent_times_append [of _ _ ?tr] sent_times_other [of "KubeUpdate ?f"] sent del: append_assoc)
    ultimately show thesis using that [of ?v "cs @ [KubeStatusUpdate d, KubeUpdate ?f]"] by simp
  qed
qed

text \<open>The client, the password and the write send no status.\<close>

definition no_status :: "'o call \<Rightarrow> bool" where
  "no_status c \<longleftrightarrow> (case c of KubeStatusUpdate _ \<Rightarrow> False | _ \<Rightarrow> True)"

lemma no_status_query: "is_query c \<Longrightarrow> no_status c"
  by (cases c) (simp_all add: no_status_def)

lemma no_status_times: "list_all no_status cs \<Longrightarrow> sent_times ns n cs = {}"
  by (auto simp: sent_times_def list_all_iff no_status_def)

lemma keeps_client_no_status: "keeps I no_status (GetVaultClient E conn kc ns)"
  unfolding GetVaultClient_def fresh_client_def createVaultClient_def getJWTToken_def GetJWTToken_def
    GetJWTTokenWithDuration_def getConnectionConfig_def Let_def
  by (intro emits_intros) (simp_all add: no_status_def)

lemma context_no_status:
  obtains cs where "calls (snd (prepareContext E w)) = calls w @ cs" "list_all no_status cs" "inst (snd (prepareContext E w)) = inst w"
proof -
  let ?d = "inst w"
  have "keeps (\<lambda>d. d = ?d) no_status (prepareContext E)"
    unfolding prepareContext_def by (rule keeps_bind_get) (use keeps_client_no_status in blast)
  then show thesis by (rule keepsE [where w = w]) (use that in auto)
qed

lemma times_upto_step:
  assumes "times_upto ns n B w" and "calls w' = calls w @ cs" and "list_all no_status cs"
    and "is_instance ns n (inst w') = is_instance ns n (inst w)"
    and "\<forall>t \<in> set_option (rs_LastVaultSecretUpdate (Status (inst w'))). t \<le> C" and "B \<le> C"
  shows "times_upto ns n C w'"
  using assms by (force simp: times_upto_def sent_times_append no_status_times)

text \<open>The object in memory but for the generated password.\<close>

definition same_but_password :: "RandomSecret \<Rightarrow> RandomSecret \<Rightarrow> bool" where
  "same_but_password d d' \<longleftrightarrow> is_instance (GetNamespace d) (GetName d) d' \<and> Status d' = Status d \<and>
     rs_RefreshPeriod (Spec d') = rs_RefreshPeriod (Spec d)"

lemma write_run:
  assumes "RandomSecret_write hcl E cl w = (r, w')"
  obtains (Ok) cs d where "r = Ok ()" "calls w' = (calls w @ cs) @ [TimeNow]" "list_all no_status cs"
      "same_but_password (inst w) d" "inst w' = set_last_update (time_now E (calls w @ cs)) d"
  | (Err) e cs where "r = Err e" "calls w' = calls w @ cs" "list_all no_status cs" "same_but_password (inst w) (inst w')"
  | (Panic) q where "r = Panic q"
proof -
  let ?I = "same_but_password (inst w)"
  let ?m = "bindG (GenerateNewPassword hcl E cl) (\<lambda>_. Create (RandomSecret_VaultObject hcl) E cl)"
  have frame: "secret_frame ?I"
    by (simp add: secret_frame_def same_but_password_def set_secret_def is_instance_def GetName_def GetNamespace_def)
  have gen: "keeps ?I no_status (GenerateNewPassword hcl E cl)"
    by (rule keeps_mono [OF keeps_GenerateNewPassword [OF frame]]) (rule no_status_query)
  have "keeps ?I no_status (Create (RandomSecret_VaultObject hcl) E cl)"
    unfolding Create_def Let_def by (intro emits_intros) (simp add: no_status_def)
  then have "keeps ?I no_status ?m" using gen by (intro emits_intros)
  moreover have "?I (inst w)" by (simp add: same_but_password_def is_instance_def)
  ultimately obtain cs where cs: "calls (snd (?m w)) = calls w @ cs" "list_all no_status cs" "?I (inst (snd (?m w)))"
    by (rule keepsE)
  have run: "RandomSecret_write hcl E cl w = bindG ?m (\<lambda>_. bindG (askG TimeNow (time_now E)) (\<lambda>now. modifyG (set_last_update now))) w"
    by (simp add: RandomSecret_write_def bindG_assoc)
  obtain x v where v: "?m w = (x, v)" by fastforce
  show thesis
  proof (cases x)
    case (Ok y)
    then have "(r, w') = (Ok (), v\<lparr>calls := calls v @ [TimeNow], inst := set_last_update (time_now E (calls v)) (inst v)\<rparr>)"
      using assms v by (simp add: run bindG_Ok bindG_ask modifyG_def)
    then show thesis using that(1) [of cs "inst v"] cs v by simp
  next
    case (Err e)
    then show thesis using that(2) [of e cs] assms cs v by (simp add: run bindG_Err)
  next
    case (Panic q)
    then show thesis using that(3) [of q] assms v by (simp add: run bindG_Panic)
  qed
qed

section \<open>A due reconcile\<close>

text \<open>The next time asked for is not before the end of the period that starts with the write.\<close>

lemma schedule_run:
  assumes "keeps_object E ns n p" and "advancing E" and "p \<le> maxDuration"
    and "times_upto ns n u w" and "rs_LastVaultSecretUpdate (Status (inst w)) = Some u"
    and "rs_RefreshPeriod (Spec (inst w)) = Some p" and "u \<le> time_now E (calls w)"
  obtains a w' cs where "RandomSecret_schedule hcl E w = (Ok \<lparr>RequeueAfter = a\<rparr>, w')" "a > 0" "a \<le> max p Second" "times_upto ns n u w'"
    "calls w' = calls w @ cs" "u + p \<le> time_now E (calls w') + a"
proof -
  let ?now = "time_now E (calls w)" and ?left = "time_Sub (u + p) (time_now E (calls w))"
  let ?w = "w\<lparr>calls := calls w @ [TimeNow]\<rparr>" and ?vo = "Some (RandomSecret_VaultObject hcl)"
  have w: "times_upto ns n u ?w" using assms(4) by (rule times_upto_query) simp
  have run: "RandomSecret_schedule hcl E w =
      (if ?left > 0 then bindG (tryG (ManageOutcomeWithRequeue ?vo E None ?left))
         (\<lambda>_. ManageOutcomeWithRequeue ?vo E None ?left) ?w
       else ManageOutcomeWithRequeue ?vo E None Second ?w)"
    using assms(5,6) by (simp add: RandomSecret_schedule_def bindG_get bindG_ask Let_def)
  show thesis
  proof (cases "?left > 0")
    case True
    then have left: "?now + ?left = u + p" using assms(3,7) by (simp add: time_Sub_def minDuration_def)
    then have short: "?left \<le> max p Second" using assms(7) by simp
    obtain v cs where v: "ManageOutcomeWithRequeue ?vo E None ?left ?w = (Ok \<lparr>RequeueAfter = ?left\<rparr>, v)"
        "times_upto ns n u v" "calls v = calls ?w @ cs"
      by (rule outcome_times [OF assms(1) w, of ?vo None ?left]) simp
    obtain v' cs' where v': "ManageOutcomeWithRequeue ?vo E None ?left v = (Ok \<lparr>RequeueAfter = ?left\<rparr>, v')"
        "times_upto ns n u v'" "calls v' = calls v @ cs'"
      by (rule outcome_times [OF assms(1) v(2), of ?vo None ?left]) simp
    have "?now \<le> time_now E (calls v')"
      using advancing_mono [OF assms(2), of "calls w" "[TimeNow] @ cs @ cs'"] v(3) v'(3) by simp
    then show thesis
      using that [of ?left v' "[TimeNow] @ cs @ cs'"] True left short v v' by (simp add: run tryG_run bindG_def [of "tryG _"])
  next
    case False
    then have "u + p \<le> ?now" by (auto simp: time_Sub_def maxDuration_def minDuration_def split: if_splits)
    moreover obtain v cs where v: "ManageOutcomeWithRequeue ?vo E None Second ?w = (Ok \<lparr>RequeueAfter = Second\<rparr>, v)"
        "times_upto ns n u v" "calls v = calls ?w @ cs"
      by (rule outcome_times [OF assms(1) w, of ?vo None Second]) simp
    moreover have "?now \<le> time_now E (calls v)"
      using advancing_mono [OF assms(2), of "calls w" "[TimeNow] @ cs"] v(3) by simp
    ultimately show thesis
      using that [of Second v "[TimeNow] @ cs"] False by (simp add: run Second_def)
  qed
qed

lemma refresh_run:
  assumes "keeps_object E ns n p" and "advancing E" and "p \<le> maxDuration"
    and "times_upto ns n B w" and "rs_RefreshPeriod (Spec (inst w)) = Some p"
    and due: "\<forall>t \<in> set_option (rs_LastVaultSecretUpdate (Status (inst w))). t + p < time_now E (calls w)"
    and "B \<le> time_now E (calls w)" and run: "RandomSecret_refresh hcl E cl w = (r, w')"
  obtains (Err) e cs where "r = Err e" "times_upto ns n B w'" "calls w' = calls w @ cs"
  | (Ok) a u cs where "r = Ok \<lparr>RequeueAfter = a\<rparr>" "a > 0" "a \<le> max p Second" "times_upto ns n u w'" "calls w' = calls w @ cs"
      "u \<le> time_now E (calls w')" "u + p \<le> time_now E (calls w') + a"
  | (Panic) q cs where "r = Panic q" "fst (RandomSecret_write hcl E cl (w\<lparr>calls := calls w @ cs\<rparr>)) = Panic q"
proof -
  let ?vo = "Some (RandomSecret_VaultObject hcl)"
  define cs0 :: "RandomSecret call list" where "cs0 = (case rs_LastVaultSecretUpdate (Status (inst w)) of None \<Rightarrow> [] | Some t \<Rightarrow> [TimeNow])"
  let ?w = "w\<lparr>calls := calls w @ cs0\<rparr>"
  have logic: "RandomSecret_manageReconcileLogic hcl E cl w = RandomSecret_write hcl E cl ?w"
    using assms(5) due by (simp add: RandomSecret_manageReconcileLogic_def bindG_get bindG_def [of "not_due _ _"] not_due_run
        cs0_def split: option.split)
  have cs0: "list_all no_status cs0" by (simp add: cs0_def no_status_def split: option.split)
  obtain x v where wr: "RandomSecret_write hcl E cl ?w = (x, v)" by fastforce
  note steps = run [unfolded RandomSecret_refresh_def bindG_def tryG_run logic wr]
  from wr show thesis
  proof (cases rule: write_run)
    case (Ok cs d)
    let ?u = "time_now E (calls ?w @ cs)"
    have calls: "calls v = calls w @ cs0 @ cs @ [TimeNow]" using Ok by simp
    have late: "time_now E (calls w) \<le> ?u" "?u \<le> time_now E (calls v)"
      using advancing_mono [OF assms(2), of "calls w" "cs0 @ cs"] advancing_mono [OF assms(2), of "calls ?w @ cs" "[TimeNow]"]
      by (simp_all add: calls)
    have inst: "is_instance ns n (inst v) = is_instance ns n (inst w)" "rs_LastVaultSecretUpdate (Status (inst v)) = Some ?u"
        "rs_RefreshPeriod (Spec (inst v)) = Some p"
      using Ok(4,5) assms(5) by (simp_all add: same_but_password_def is_instance_def set_last_update_def GetName_def GetNamespace_def)
    have upto: "times_upto ns n ?u v"
      by (rule times_upto_step [OF assms(4) calls]) (use Ok(3) cs0 inst late assms(7) in \<open>simp_all add: no_status_def\<close>)
    obtain a w2 cs2 where s: "RandomSecret_schedule hcl E v = (Ok \<lparr>RequeueAfter = a\<rparr>, w2)" "a > 0" "a \<le> max p Second" "times_upto ns n ?u w2"
        "calls w2 = calls v @ cs2" "?u + p \<le> time_now E (calls w2) + a"
      by (rule schedule_run [OF assms(1-3) upto inst(2,3) late(2)])
    moreover have "?u \<le> time_now E (calls w2)" using late(2) advancing_mono [OF assms(2), of "calls v" cs2] s(5) by simp
    ultimately show thesis using that(2) [of a ?u "cs0 @ cs @ [TimeNow] @ cs2"] steps Ok(1) calls by simp
  next
    case (Err e cs)
    have calls: "calls v = calls w @ cs0 @ cs" using Err by simp
    have upto: "times_upto ns n B v"
      by (rule times_upto_step [OF assms(4) calls])
        (use Err(3,4) cs0 assms(4) in \<open>simp_all add: times_upto_def same_but_password_def is_instance_def\<close>)
    obtain w2 cs2 where "ManageOutcomeWithRequeue ?vo E (Some e) 0 v = (Err e, w2)" "times_upto ns n B w2" "calls w2 = calls v @ cs2"
      by (rule outcome_times [OF assms(1) upto, of ?vo "Some e" 0]) simp
    then show thesis using that(1) [of e "cs0 @ cs @ cs2"] steps Err(1) calls by (simp add: ManageOutcome_def)
  next
    case (Panic q)
    then show thesis using that(3) [of q cs0] steps wr by simp
  qed
qed

text \<open>The controller's own part, and a request for the object, with their three outcomes.\<close>

lemma body_run:
  assumes "keeps_object E ns n p" and "advancing E" and "p \<le> maxDuration"
    and v: "times_upto ns n B v" and live: "\<not> is_deleted (inst v)" "rs_RefreshPeriod (Spec (inst v)) = Some p"
    and now: "B \<le> time_now E (calls v)" and run: "RandomSecret_body hcl E cl v = (r, w')"
  obtains (Err) e cs where "r = Err e" "calls w' = calls v @ cs" "times_upto ns n B w'"
  | (Early) cs where "r = Ok \<lparr>RequeueAfter = 0\<rparr>" "calls w' = calls v @ cs" "time_now E (calls v) \<le> B + p"
  | (Ok) a u cs where "r = Ok \<lparr>RequeueAfter = a\<rparr>" "a > 0" "a \<le> max p Second" "calls w' = calls v @ cs" "times_upto ns n u w'"
      "u \<le> time_now E (calls w')" "u + p \<le> time_now E (calls w') + a"
  | (Panic) q where "r = Panic q"
proof -
  let ?lu = "rs_LastVaultSecretUpdate (Status (inst v))"
  define cs0 :: "RandomSecret call list" where "cs0 = (case ?lu of None \<Rightarrow> [] | Some t \<Rightarrow> [TimeNow])"
  let ?v = "v\<lparr>calls := calls v @ cs0\<rparr>"
  have cs0: "list_all no_status cs0" by (simp add: cs0_def no_status_def split: option.split)
  have body: "RandomSecret_body hcl E cl v =
      (if \<exists>t. ?lu = Some t \<and> \<not> t + p < time_now E (calls v) then (Ok \<lparr>RequeueAfter = 0\<rparr>, ?v) else RandomSecret_refresh hcl E cl ?v)"
    using live by (simp add: RandomSecret_body_def bindG_get bindG_def [of "not_due _ _"] not_due_run cs0_def go_runs
        split: option.split)
  show thesis
  proof (cases "\<exists>t. ?lu = Some t \<and> \<not> t + p < time_now E (calls v)")
    case True
    then have "time_now E (calls v) \<le> B + p" using v by (auto simp: times_upto_def)
    then show thesis using that(2) [of cs0] run body True by auto
  next
    case False
    have later: "time_now E (calls v) \<le> time_now E (calls ?v)" using advancing_mono [OF assms(2)] by simp
    have v': "times_upto ns n B ?v"
      by (rule times_upto_step [OF v, of ?v cs0]) (use cs0 v in \<open>simp_all add: times_upto_def\<close>)
    have refresh: "RandomSecret_refresh hcl E cl ?v = (r, w')" using run body False by simp
    have "rs_RefreshPeriod (Spec (inst ?v)) = Some p" "B \<le> time_now E (calls ?v)"
        "\<forall>t \<in> set_option (rs_LastVaultSecretUpdate (Status (inst ?v))). t + p < time_now E (calls ?v)"
      using live False now later by (auto intro: order_less_le_trans)
    then show thesis
    proof (cases rule: refresh_run [OF assms(1-3) v' _ _ _ refresh, case_names A B C Err Ok Panic])
      case (Err e cs)
      then show thesis using that(1) [of e "cs0 @ cs"] by simp
    next
      case (Ok a u cs)
      then show thesis using that(3) [of a "cs0 @ cs" u] by simp
    next
      case (Panic q cs)
      then show thesis by (intro that(4))
    qed
  qed
qed

lemma request_run:
  assumes "keeps_object E ns n p" and "advancing E" and "p \<le> maxDuration"
    and sent: "\<forall>u \<in> sent_times ns n (calls w). u \<le> B" and now: "B \<le> time_now E (calls w)"
    and run: "RandomSecret_Reconcile hcl E ns n w = (r, w')"
  obtains (Err) e cs where "r = Err e" "calls w' = calls w @ cs" "\<forall>u \<in> sent_times ns n (calls w'). u \<le> B"
  | (Early) cs where "r = Ok \<lparr>RequeueAfter = 0\<rparr>" "calls w' = calls w @ cs" "time_now E (calls w) < B + p"
  | (Ok) a u cs where "r = Ok \<lparr>RequeueAfter = a\<rparr>" "a > 0" "a \<le> max p Second" "calls w' = calls w @ cs"
      "\<forall>u' \<in> sent_times ns n (calls w'). u' \<le> u" "u \<le> time_now E (calls w')" "u + p \<le> time_now E (calls w') + a"
  | (Panic) q where "r = Panic q"
proof (cases "kube_get_instance E (calls w) ns n")
  case (Inl e)
  then have "(r, w') = (Err e, w\<lparr>calls := calls w @ [KubeGetInstance ns n]\<rparr>)"
    using run keeps_object_get(1) [OF assms(1) Inl]
    by (simp add: RandomSecret_Reconcile_def controller_Reconcile_def fetch_instance_def bindG_def tryG_run kube_putG_def go_runs)
  then show thesis using that(1) [of e "[KubeGetInstance ns n]"] sent by (simp add: sent_times_append sent_times_other)
next
  case (Inr d)
  note d = keeps_object_get(2) [OF assms(1) Inr]
  let ?w = "fetched ns n d w"
  have upto: "times_upto ns n B ?w"
    by (rule times_upto_recorded [of ns n "calls w" d "[KubeGetInstance ns n]"])
      (use d sent in \<open>simp_all add: sent_times_append sent_times_other\<close>)
  obtain cs1 where cs1: "calls (snd (prepareContext E ?w)) = calls ?w @ cs1" "list_all no_status cs1"
      "inst (snd (prepareContext E ?w)) = d"
    using context_no_status [of E ?w] by auto
  obtain x v where ctx: "prepareContext E ?w = (x, v)" by fastforce
  have calls: "calls v = calls w @ KubeGetInstance ns n # cs1" and inst: "inst v = d" using cs1 by (simp_all add: ctx)
  have v: "times_upto ns n B v"
    by (rule times_upto_step [OF upto, of v cs1]) (use cs1 inst upto calls in \<open>simp_all add: times_upto_def ctx\<close>)
  have late: "time_now E (calls w) < time_now E (calls v)" unfolding calls by (rule advancing_step [OF assms(2)])
  note steps = run [unfolded RandomSecret_Reconcile_def controller_run [OF Inr] ctx]
  show thesis
  proof (cases x)
    case (Err e)
    obtain w2 cs2 where "ManageOutcomeWithRequeue (Some (RandomSecret_VaultObject hcl)) E (Some e) 0 v = (Err e, w2)"
        "times_upto ns n B w2" "calls w2 = calls v @ cs2"
      by (rule outcome_times [OF assms(1) v, of "Some (RandomSecret_VaultObject hcl)" "Some e" 0]) simp
    then show thesis using that(1) [of e "KubeGetInstance ns n # cs1 @ cs2"] steps Err calls
      by (simp add: ManageOutcome_def times_upto_def)
  next
    case (Panic q)
    then show thesis using that(4) [of q] steps by simp
  next
    case (Ok cl)
    have body: "RandomSecret_body hcl E cl v = (r, w')" and live: "\<not> is_deleted (inst v)" "rs_RefreshPeriod (Spec (inst v)) = Some p"
      and "B \<le> time_now E (calls v)" using steps Ok d inst now late by simp_all
    from this(4) show thesis
      by (cases rule: body_run [OF assms(1-3) v live _ body, case_names A Err Early Ok Panic])
        (use that calls late in \<open>fastforce simp: times_upto_def\<close>)+
  qed
qed

section \<open>The rotation stays armed\<close>

text \<open>
  A request is pending; when it comes due the period since every update that was sent is over, and it
  comes due within the time \<open>k\<close> from now.
\<close>

definition armed :: "RandomSecret env \<Rightarrow> string \<Rightarrow> string \<Rightarrow> int \<Rightarrow> int \<Rightarrow> queue_state \<Rightarrow> bool" where
  "armed E ns n p k s \<longleftrightarrow> (\<exists>due B. pending s = Some due \<and> (\<forall>u \<in> sent_times ns n (calls (op_world s)). u \<le> B) \<and>
     B + p \<le> due \<and> B \<le> queue_now E s \<and> due \<le> queue_now E s + k)"

lemma serve_arms:
  assumes "requeues wq" and "keeps_object E ns n p" and "advancing E" and "p \<le> maxDuration" and "pending s = None"
    and "\<forall>u \<in> sent_times ns n (calls (op_world s)). u \<le> B" and "B \<le> queue_now E s" and "B + p \<le> queue_now E s"
    and "\<not> crashes hcl E ns n s" and "retries_within wq longest" and k: "k = max p (max longest Second)"
  shows "armed E ns n p k (serve_secret hcl E wq ns n s)"
proof -
  obtain r w' where run: "RandomSecret_Reconcile hcl E ns n (op_world s) = (r, w')" by fastforce
  have mono: "queue_now E s \<le> time_now E (calls (op_world s) @ cs)" for cs
    unfolding queue_now_def by (rule advancing_mono [OF assms(3)])
  have now: "B \<le> time_now E (calls (op_world s))" using assms(7) by (simp add: queue_now_def)
  show ?thesis
  proof (cases rule: request_run [OF assms(2-4,6) now run, case_names Err Early Ok Panic])
    case (Err e cs)
    obtain delay where "delay \<ge> 0" "delay \<le> k" "wq None (time_now E (calls w')) (Err e) = Some (time_now E (calls w') + delay)"
      using assms(10) unfolding retries_within_def k by (meson le_max_iff_disj)
    then show ?thesis
      using Err mono [of cs] assms(5,8) now unfolding armed_def
      by (intro exI [of _ "time_now E (calls w') + delay"] exI [of _ B]) (simp add: serve_secret_def run queue_now_def)
  next
    case (Early cs)
    then show ?thesis using assms(8) by (simp add: queue_now_def)
  next
    case (Ok a u cs)
    then have "wq None (time_now E (calls w')) r = Some (time_now E (calls w') + a)"
      using requeuesD(2) [OF assms(1)] by (simp add: sooner_def)
    moreover have "a \<le> k" using Ok by (auto simp: k)
    ultimately show ?thesis
      using Ok assms(5) unfolding armed_def
      by (intro exI [of _ "time_now E (calls w') + a"] exI [of _ u]) (simp add: serve_secret_def run queue_now_def)
  next
    case (Panic q)
    then show ?thesis using assms(9) run by (simp add: crashes_def)
  qed
qed

lemma operates_armed:
  assumes "operates hcl E wq zero period updates ns n s0 s" and "armed E ns n p k s0"
    and "requeues wq" and "keeps_object E ns n p" and "advancing E" and "p \<le> maxDuration"
    and "os_env E ''ENABLE_DRIFT_DETECTION'' \<noteq> Some ''true''"
    and "\<And>old new. updates old new \<Longrightarrow> meta_Generation (Meta new) = meta_Generation (Meta old)"
    and "retries_within wq longest" and "k = max p (max longest Second)"
  shows "armed E ns n p k s"
  using assms(1)
proof induction
  case Begin
  show ?case by (fact assms(2))
next
  case (Work s w cs)
  have "queue_now E s \<le> queue_now E (s\<lparr>op_world := w\<rparr>)"
    using advancing_mono [OF assms(5)] Work(2) by (simp add: queue_now_def)
  moreover obtain due B where "pending s = Some due" "\<forall>u \<in> sent_times ns n (calls (op_world s)). u \<le> B" "B + p \<le> due"
      "B \<le> queue_now E s" "due \<le> queue_now E s + k"
    using Work.IH by (auto simp: armed_def)
  ultimately show ?case
    unfolding armed_def using Work(2) sent_times_elsewhere [OF Work(3)]
    by (intro exI [of _ due] exI [of _ B]) (auto simp: sent_times_append)
next
  case (Fire s t s')
  then obtain B where B: "\<forall>u \<in> sent_times ns n (calls (op_world s')). u \<le> B" "B + p \<le> t" "B \<le> queue_now E s"
    by (auto simp: armed_def)
  have "queue_now E s' = queue_now E s" "pending s' = None" using Fire(4) by (simp_all add: queue_now_def)
  then show ?case using serve_arms [OF assms(3-6) _ B(1) _ _ Fire(5) assms(9,10)] B Fire(3) by simp
next
  case (Watch s old new)
  then show ?case using RandomSecret_quiet assms(7,8) by (auto simp: quiet_def setting_at_def)
qed


section \<open>Witnesses\<close>

definition sample_queue :: work_queue where
  "sample_queue due now r = (case r of
      Ok result \<Rightarrow> if RequeueAfter result > 0 then sooner due (now + RequeueAfter result) else due
    | Err e \<Rightarrow> sooner due (now + 5) | Panic q \<Rightarrow> due)"

lemma sample_queue_requeues: "requeues sample_queue"
  by (auto simp: requeues_def sample_queue_def intro: exI [of _ 5])

lemma sample_queue_retries: "retries_within sample_queue 5"
  by (auto simp: retries_within_def sample_queue_def sooner_def intro: exI [of _ 5])

text \<open>A Vault whose logins succeed and an API server with one secret, written at 7.\<close>

definition resting_env :: "RandomSecret env" where
  "resting_env = (switch_env ''true'')\<lparr>kube_get_instance := \<lambda>tr ns n. Inr (sample_random_secret (Some 100) (Some 7))\<rparr>"

lemma sample_login:
  assumes "E = (switch_env ''true'')\<lparr>kube_get_instance := g, kube_update := h\<rparr>" and "client_cache w = fmempty"
  shows "\<exists>cl w' c. prepareContext E (fetched ns n (sample_random_secret p t) w) = (Ok cl, w') \<and>
    calls w' = calls w @ [KubeGetInstance ns n, KubeCreateToken ''team'' ''default'' 600, VaultNewClient sample_vault_config,
      VaultWrite c ''auth/kubernetes/login'' (Some (login_payload sample_auth ''jwt'')), WatchLifetime cl]"
  unfolding prepareContext_def
  by (simp add: bindG_get GetVaultClient_def sample_random_secret_def sample_auth_def bindG_cache_Get fresh_client_def getJWTToken_def
      GetJWTToken_def GetJWTTokenWithDuration_def createVaultClient_def assms switch_env_def sample_env_def
      bindG_assoc bindG_ask Let_def cache_Put_def getCacheKey_run GetVaultConnection_def GetKubeAuthConfiguration_def fetched_def
      GetServiceAccountName_def GetNamespace_def sample_meta_def GetKubeAuthPath_def CleansePath_def Trim_def)
    (simp add: bindG_def go_runs)

abbreviation empty_process :: queue_state where
  "empty_process \<equiv> \<lparr>op_world = start_world (sample_random_secret None None), pending = None, runs = 0\<rparr>"

abbreviation rested :: queue_state where
  "rested \<equiv> serve_secret sample_hcl resting_env sample_queue ''team'' ''db'' empty_process"


text \<open>
  An API server that keeps the time last sent; a Vault that accepts everything; a decoder that
  reads the policy whatever the name of the file.
\<close>

definition last_sent :: "RandomSecret call list \<Rightarrow> int option" where
  "last_sent tr = (case filter (\<lambda>c. \<not> no_status c \<and> \<not> elsewhere ''team'' ''db'' c) (rev tr) of
      KubeStatusUpdate d # _ \<Rightarrow> rs_LastVaultSecretUpdate (Status d) | _ \<Rightarrow> None)"

definition rotating_env :: "RandomSecret env" where
  "rotating_env = (switch_env ''true'')\<lparr>kube_get_instance := \<lambda>tr ns n. Inr (sample_random_secret (Some 100) (last_sent tr)),
     kube_update := \<lambda>tr d. Inr (d\<lparr>Status := (Status d)\<lparr>rs_LastVaultSecretUpdate := last_sent tr\<rparr>\<rparr>)\<rparr>"

definition tolerant_hcl :: hcl_decoder where
  "tolerant_hcl name text = Inr sample_policy_format"

lemma last_sent_recorded: "last_sent tr = Some t \<Longrightarrow> t \<in> sent_times ''team'' ''db'' tr"
proof -
  assume t: "last_sent tr = Some t"
  then obtain d cs where f: "filter (\<lambda>c. \<not> no_status c \<and> \<not> elsewhere ''team'' ''db'' c) (rev tr) = KubeStatusUpdate d # cs"
      "rs_LastVaultSecretUpdate (Status d) = Some t"
    by (auto simp: last_sent_def split: list.splits call.splits)
  then have "KubeStatusUpdate d \<in> set tr \<and> \<not> elsewhere ''team'' ''db'' (KubeStatusUpdate d)"
    by (metis (no_types, lifting) filter_eq_ConsD in_set_conv_decomp rev_rev_ident set_rev)
  then show ?thesis using f(2) by (auto simp: sent_times_def elsewhere_def)
qed

lemma rotating_keeps_object: "keeps_object rotating_env ''team'' ''db'' 100"
proof -
  have "is_instance ''team'' ''db'' (sample_random_secret p t)" for p t
    by (simp add: is_instance_def sample_random_secret_def sample_meta_def GetName_def GetNamespace_def)
  moreover have "recorded ''team'' ''db'' (tr @ [KubeStatusUpdate d]) d" if "is_instance ''team'' ''db'' d" for tr d
    using that by (auto simp: recorded_def sent_times_def)
  moreover have "is_instance ns n (add_fin d f) = is_instance ns n d" for ns n d f
    by (simp add: is_instance_def add_fin_def GetName_def GetNamespace_def)
  moreover have "recorded ''team'' ''db'' tr (sample_random_secret (Some 100) (last_sent tr))" for tr
    using last_sent_recorded by (auto simp: recorded_def)
  moreover have "is_instance ns n (d\<lparr>Status := x\<rparr>) = is_instance ns n d" for ns n d x
    by (simp add: is_instance_def GetName_def GetNamespace_def)
  moreover have "recorded ''team'' ''db'' tr (d\<lparr>Status := (Status d)\<lparr>rs_LastVaultSecretUpdate := last_sent tr\<rparr>\<rparr>)" for tr d
    using last_sent_recorded by (auto simp: recorded_def)
  ultimately show ?thesis
    by (simp add: keeps_object_def rotating_env_def switch_env_def)
qed

lemma rotating_advances: "advancing rotating_env"
  by (simp add: advancing_def rotating_env_def switch_env_def)

lemma rotating_writes:
  assumes "InlinePasswordPolicy (SecretFormat (Spec (inst w))) \<noteq> []"
  shows "fst (RandomSecret_write tolerant_hcl rotating_env cl w) = Ok ()"
proof -
  have "fst (calculateSecret rotating_env sample_policy_format 10000 w) = Ok True"
    using sample_calculate [of rotating_env 9999 w] by simp
  then obtain v where v: "calculateSecret rotating_env sample_policy_format 10000 w = (Ok True, v)" by (metis prod.collapse)
  then show ?thesis
    using assms by (simp add: RandomSecret_write_def GenerateNewPassword_def tolerant_hcl_def bindG_assoc bindG_get bindG_Ok Create_def Let_def
        bindG_writePayload rotating_env_def switch_env_def bindG_ask modifyG_def)
qed

lemma rotating_start:
  "\<not> crashes tolerant_hcl rotating_env ''team'' ''db'' empty_process"
proof -
  let ?E = rotating_env and ?d = "sample_random_secret (Some 100) None"
  define w :: "RandomSecret world" where "w = start_world (sample_random_secret None None)"
  have w: "calls w = []" "client_cache w = fmempty" by (simp_all add: w_def)
  have get: "kube_get_instance ?E (calls w) ''team'' ''db'' = Inr ?d" by (simp add: rotating_env_def last_sent_def w)
  have env: "?E = (switch_env ''true'')\<lparr>kube_get_instance := kube_get_instance ?E, kube_update := kube_update ?E\<rparr>"
    by (simp add: rotating_env_def)
  obtain cl v where ctx: "prepareContext ?E (fetched ''team'' ''db'' ?d w) = (Ok cl, v)"
    using sample_login [OF env, of w "''team''" "''db''" "Some 100" None] w by auto
  have inst: "inst v = ?d" using prepareContext_frame [of ?E "fetched ''team'' ''db'' ?d w"] by (auto simp: ctx w)
  obtain cs where cs: "calls v = KubeGetInstance ''team'' ''db'' # cs" "list_all no_status cs"
    using context_no_status [of ?E "fetched ''team'' ''db'' ?d w"] by (auto simp: ctx w)
  have upto: "times_upto ''team'' ''db'' 0 v"
    using inst cs no_status_times [of "calls v" "''team''" "''db''"]
    by (simp add: times_upto_def is_instance_def sample_random_secret_def sample_meta_def GetName_def GetNamespace_def no_status_def)
  obtain r w' where run: "RandomSecret_refresh tolerant_hcl ?E cl v = (r, w')" by fastforce
  have "RandomSecret_Reconcile tolerant_hcl ?E ''team'' ''db'' w = (r, w')"
    unfolding RandomSecret_Reconcile_def controller_run [OF get] ctx
    by (simp add: RandomSecret_body_def bindG_get inst bindG_def [of "not_due _ _"] not_due_run run)
  moreover have "\<exists>x. r = Ok x \<or> (\<exists>e. r = Err e)"
  proof (cases rule: refresh_run [OF rotating_keeps_object rotating_advances _ upto _ _ _ run, case_names A B C D Err Ok Panic])
    case (Panic q cs)
    moreover have "fst (RandomSecret_write tolerant_hcl ?E cl (v\<lparr>calls := calls v @ cs\<rparr>)) = Ok ()"
      by (rule rotating_writes) (simp add: inst)
    ultimately show ?thesis by simp
  qed (auto simp: inst maxDuration_def rotating_env_def switch_env_def)
  ultimately show ?thesis by (auto simp: crashes_def w_def)
qed


end
