(* ===== verification/SecretRequests.thy ===== *)
theory SecretRequests
  imports RotationQueue PasswordFlow
begin

text \<open>
  Requests for random secrets, seen from Vault: what the generator, the endpoint, the controller
  and the login do together to the entry of a secret. In any sequence of requests, whatever fails
  and whatever the objects become in between, the entry of a secret is absent or is the payload of
  an object of that path with a password of its own policy, inline or in Vault.
\<close>

section \<open>Passwords of a policy\<close>

definition compliant :: "PasswordPolicyFormat \<Rightarrow> string \<Rightarrow> bool" where
  "compliant policy s \<longleftrightarrow> int (length s) = Length policy \<and> set s \<subseteq> letters_of (charset_rules policy) \<and>
     (\<forall>r \<in> set (charset_rules policy). MinChars r \<le> counter r s)"

lemma compliesI: "complies rules s \<Longrightarrow> \<forall>r \<in> set rules. MinChars r \<le> counter r s"
  by (auto simp: complies_def list_all_iff)

text \<open>
  The passwords of an object: those that obey the inline policy, as the decoder reads it, or else
  those that Vault gives at the path that generates one for the named policy.
\<close>

definition acceptable :: "hcl_decoder \<Rightarrow> RandomSecret env \<Rightarrow> RandomSecret \<Rightarrow> string \<Rightarrow> bool" where
  "acceptable hcl E d s \<longleftrightarrow>
     (if InlinePasswordPolicy (SecretFormat (Spec d)) \<noteq> []
      then (case hcl (SecretKey (Spec d)) (InlinePasswordPolicy (SecretFormat (Spec d))) of
          Inl e \<Rightarrow> False | Inr policy \<Rightarrow> compliant policy s)
      else PasswordPolicyName (SecretFormat (Spec d)) \<noteq> [] \<and>
        (\<exists>tr cl response data.
           vault_read E tr cl (''/sys/policies/password/'' @ PasswordPolicyName (SecretFormat (Spec d)) @ ''/generate'') =
             Inr (Some response) \<and> vs_Data response = Some data \<and> fmlookup data ''password'' = Some (VStr s)))"

text \<open>
  A proper entry at a path: the payload, with its key, its wrapping for KV v2 and its refresh time,
  of an object that the API server gave and that stands at the path, with a password of the object.
\<close>

definition proper_entry :: "hcl_decoder \<Rightarrow> RandomSecret env \<Rightarrow> string \<Rightarrow> gmap \<Rightarrow> bool" where
  "proper_entry hcl E p m \<longleftrightarrow> (\<exists>tr ns n d s. kube_get_instance E tr ns n = Inr d \<and> RandomSecret_GetPath d = p \<and>
     acceptable hcl E d s \<and> m = RandomSecret_GetPayload (set_secret s d))"

text \<open>Calls that put nothing else at the path \<open>p\<close>.\<close>

definition proper_call :: "hcl_decoder \<Rightarrow> RandomSecret env \<Rightarrow> string \<Rightarrow> RandomSecret call \<Rightarrow> bool" where
  "proper_call hcl E p c \<longleftrightarrow> (case c of VaultWrite cl q (Some m) \<Rightarrow> q = p \<longrightarrow> proper_entry hcl E p m | _ \<Rightarrow> True)"

lemma proper_call_frame: "vault_mutation c = None \<Longrightarrow> proper_call hcl E p c"
  by (cases c) (simp_all add: proper_call_def)

lemma proper_call_query: "is_query c \<Longrightarrow> proper_call hcl E p c"
  by (rule proper_call_frame) (rule is_query_no_mutation)

definition proper_store :: "hcl_decoder \<Rightarrow> RandomSecret env \<Rightarrow> string \<Rightarrow> store \<Rightarrow> bool" where
  "proper_store hcl E p s \<longleftrightarrow> (case s p of None \<Rightarrow> True | Some m \<Rightarrow> proper_entry hcl E p m)"

lemma proper_store_calls:
  "list_all (proper_call hcl E p) cs \<Longrightarrow> proper_store hcl E p (store_of tr) \<Longrightarrow> proper_store hcl E p (store_of (tr @ cs))"
proof (induction cs rule: rev_induct)
  case (snoc c cs)
  then have IH: "proper_store hcl E p (store_of (tr @ cs))" and c: "proper_call hcl E p c" by simp_all
  show ?case
  proof (cases c)
    case (VaultWrite cl q m)
    then show ?thesis
      using IH c store_of_append(1) [of "tr @ cs" cl q m] by (auto simp: proper_store_def proper_call_def split: option.splits)
  next
    case (VaultDelete cl q)
    then show ?thesis using IH store_of_append(2) [of "tr @ cs" cl q] by (simp add: proper_store_def)
  qed (use IH store_of_append(3) [of c "tr @ cs"] in simp_all)
qed simp

section \<open>The controller writes proper entries\<close>

text \<open>What decides about the entry: the path, the format, the key and the payload but for the password.\<close>

definition secret_view :: "RandomSecret \<Rightarrow> string \<times> _ \<times> string \<times> (string \<Rightarrow> gmap)" where
  "secret_view d = (RandomSecret_GetPath d, SecretFormat (Spec d), SecretKey (Spec d), \<lambda>s. RandomSecret_GetPayload (set_secret s d))"

lemma secret_view_frame [simp]:
  "secret_view (set_secret s d) = secret_view d" "secret_view (set_last_update t d) = secret_view d"
  by (simp_all add: secret_view_def set_secret_def set_last_update_def RandomSecret_GetPath_def GetName_def
      RandomSecret_GetPayload_def getV1Payload_def IsKVSecretsEngineV2_def refreshed_def Let_def fun_eq_iff)

lemma secret_viewD:
  assumes "secret_view d = secret_view d'"
  shows "RandomSecret_GetPath d = RandomSecret_GetPath d'" and "acceptable hcl E d s = acceptable hcl E d' s"
    and "RandomSecret_GetPayload (set_secret s d) = RandomSecret_GetPayload (set_secret s d')"
  using assms by (auto simp: secret_view_def acceptable_def fun_eq_iff)

text \<open>A generated password, if there is one, is a password of the object.\<close>

lemma inline_password:
  assumes "calculateSecret E policy (Suc k) w = (Ok True, w')"
  shows "\<exists>s. inst w' = set_secret s (inst w) \<and> compliant policy s"
proof -
  have usable: "\<not> unusable (Length policy) (letters_of (charset_rules policy))"
    using calculateSecret_run [of policy E w] assms by (metis prod.inject res.distinct(3))
  obtain s where s: "int (length s) = Length policy" "set s \<subseteq> letters_of (charset_rules policy)"
    and run: "\<exists>w'. if complies (charset_rules policy) s
         then calculateSecret E policy (Suc k) w = (Ok True, w') \<and> inst w' = set_secret s (inst w)
         else calculateSecret E policy (Suc k) w = (Ok False, w') \<and> inst w' = inst w"
    using calculateSecret_run [of policy E w] usable by auto
  then have "complies (charset_rules policy) s" "inst w' = set_secret s (inst w)" using assms by (auto split: if_splits)
  then show ?thesis using s compliesI by (auto simp: compliant_def)
qed

lemma generated_acceptable:
  assumes "GenerateNewPassword hcl E cl w = (Ok (), w')"
  shows "\<exists>s. inst w' = set_secret s (inst w) \<and> acceptable hcl E (inst w) s"
proof (cases "InlinePasswordPolicy (SecretFormat (Spec (inst w))) = []")
  case False
  let ?d = "inst w"
  obtain policy where policy: "hcl (SecretKey (Spec ?d)) (InlinePasswordPolicy (SecretFormat (Spec ?d))) = Inr policy"
    using assms False by (cases "hcl (SecretKey (Spec ?d)) (InlinePasswordPolicy (SecretFormat (Spec ?d)))")
      (simp_all add: GenerateNewPassword_def bindG_get go_runs)
  have "calculateSecret E policy (Suc 9999) w = (Ok True, w')"
    using assms policy False by (auto simp: GenerateNewPassword_def bindG_get go_runs split: if_splits elim: bindG_cases)
  from inline_password [OF this] show ?thesis using policy False by (auto simp: acceptable_def)
next
  case True
  let ?name = "PasswordPolicyName (SecretFormat (Spec (inst w)))"
  let ?path = "''/sys/policies/password/'' @ ?name @ ''/generate''"
  have name: "?name \<noteq> []" using assms True by (auto simp: GenerateNewPassword_def bindG_get go_runs)
  have "GenerateNewPassword hcl E cl w = (case vault_read E (calls w) cl ?path of
      Inl err \<Rightarrow> errG err
    | Inr response \<Rightarrow> (case Option.bind response vs_Data of
        None \<Rightarrow> errG (ErrMsg ''no data returned by password policy'')
      | Some data \<Rightarrow> (case fmlookup data ''password'' of
          Some password \<Rightarrow> bindG (assert_string (Some password)) (\<lambda>s. modifyG (set_secret s))
        | None \<Rightarrow> errG (ErrMsg ''password policy did not generate a password'')))) (w\<lparr>calls := calls w @ [VaultRead cl ?path]\<rparr>)"
    using True name by (simp add: GenerateNewPassword_def bindG_get bindG_ask Let_def)
  then obtain response data password where read: "vault_read E (calls w) cl ?path = Inr (Some response)"
      "vs_Data response = Some data" "fmlookup data ''password'' = Some password"
      "bindG (assert_string (Some password)) (\<lambda>s. modifyG (set_secret s)) (w\<lparr>calls := calls w @ [VaultRead cl ?path]\<rparr>) = (Ok (), w')"
    using assms by (auto simp: go_runs bind_eq_Some_conv split: sum.splits option.splits)
  obtain s where s: "password = VStr s"
    using read(4) by (cases password) (auto simp: assert_string_def as_string_def go_runs)
  then have set: "inst w' = set_secret s (inst w)"
    using read(4) by (auto simp: assert_string_def go_runs)
  have "\<exists>tr cl response data. vault_read E tr cl ?path = Inr (Some response) \<and> vs_Data response = Some data \<and>
      fmlookup data ''password'' = Some (VStr s)"
    using read(1-3) s by blast
  then have "acceptable hcl E (inst w) s" using True name unfolding acceptable_def by simp
  with set show ?thesis by blast
qed

lemma write_proper:
  assumes given: "kube_get_instance E tr0 ns n = Inr d"
  shows "keeps (\<lambda>x. secret_view x = secret_view d) (proper_call hcl E p) (RandomSecret_write hcl E cl)"
  unfolding keeps_def
proof (intro allI impI)
  fix w :: "RandomSecret world"
  let ?I = "\<lambda>x. secret_view x = secret_view d" and ?P = "proper_call hcl E p"
  let ?goal = "\<lambda>w'. ?I (inst w') \<and> (\<exists>cs. calls w' = calls w @ cs \<and> list_all ?P cs)"
  assume w: "?I (inst w)"
  obtain r v where gen: "GenerateNewPassword hcl E cl w = (r, v)" by fastforce
  obtain cs where cs: "calls v = calls w @ cs" "list_all is_query cs" "?I (inst v)"
    using keepsE [OF keeps_GenerateNewPassword [of ?I hcl E cl], where w = w] w by (auto simp: gen secret_frame_def)
  have q: "list_all ?P cs" using cs(2) by (rule list.pred_mono_strong) (rule proper_call_query)
  show "?goal (snd (RandomSecret_write hcl E cl w))"
  proof (cases r)
    case (Ok x)
    obtain s where s: "inst v = set_secret s (inst w)" "acceptable hcl E (inst w) s"
      using generated_acceptable [of hcl E cl w v] gen Ok by auto
    let ?c = "VaultWrite cl (RandomSecret_GetPath (inst v)) (Some (RandomSecret_GetPayload (inst v)))"
    have "RandomSecret_GetPath (inst v) = RandomSecret_GetPath d" "acceptable hcl E d s"
        "RandomSecret_GetPayload (inst v) = RandomSecret_GetPayload (set_secret s d)"
      using secret_viewD(1) [OF cs(3)] secret_viewD(2) [OF w] s(2) secret_viewD(3) [OF w] by (simp_all add: s(1))
    then have "proper_entry hcl E (RandomSecret_GetPath (inst v)) (RandomSecret_GetPayload (inst v))"
      unfolding proper_entry_def using given by metis
    then have c: "?P ?c" by (auto simp: proper_call_def)
    have run: "RandomSecret_write hcl E cl w = (case vault_write E (calls v) cl (RandomSecret_GetPath (inst v)) (Some (RandomSecret_GetPayload (inst v))) of
        Inl err \<Rightarrow> (Err err, v\<lparr>calls := calls v @ [?c]\<rparr>)
      | Inr _ \<Rightarrow> (Ok (), v\<lparr>calls := calls v @ [?c, TimeNow], inst := set_last_update (time_now E (calls v @ [?c])) (inst v)\<rparr>))"
      using gen Ok by (simp add: RandomSecret_write_def bindG_Ok Create_def bindG_assoc bindG_get bindG_writePayload bindG_ask Let_def
          modifyG_def split: sum.split)
    show ?thesis
      unfolding run using cs c q by (auto simp: proper_call_def split: sum.split)
  next
    case (Err e)
    then show ?thesis using gen cs q by (simp add: RandomSecret_write_def bindG_Err)
  next
    case (Panic e)
    then show ?thesis using gen cs q by (simp add: RandomSecret_write_def bindG_Panic)
  qed
qed

section \<open>Requests\<close>

lemma body_proper:
  assumes given: "kube_get_instance E tr0 ns n = Inr (inst w)"
  shows "\<exists>cs. calls (snd (RandomSecret_body hcl E cl w)) = calls w @ cs \<and> list_all (proper_call hcl E p) cs"
proof -
  let ?G = "\<lambda>x. secret_view x = secret_view (inst w)" and ?P = "proper_call hcl E p"
  have put: "?P c" if "kube_bookkeeping c" for c :: "RandomSecret call"
    using that by (intro proper_call_frame bookkeeping_no_mutation)
  have out: "emits ?P (ManageOutcomeWithRequeue vo E issue t)" for vo issue t
    by (rule keeps_mono [OF emits_ManageOutcomeWithRequeue]) (simp add: outcome_call_no_mutation proper_call_frame)
  have upd: "emits ?P (Update E)" by (rule emits_Update_bookkeeping) (rule put)
  have sched: "emits ?P (RandomSecret_schedule hcl E)"
    unfolding RandomSecret_schedule_def ManageOutcome_def Let_def by (intro emits_intros out) (simp add: proper_call_def)
  have logic: "keeps ?G ?P (RandomSecret_manageReconcileLogic hcl E cl)"
    unfolding RandomSecret_manageReconcileLogic_def Exists_def
    by (intro emits_intros write_proper [OF given] keeps_not_due) (simp_all add: proper_call_def)
  have clean: "keeps ?G ?P (RandomSecret_manageCleanUpLogic hcl E cl)"
    unfolding RandomSecret_manageCleanUpLogic_def DeleteIfExists_def DeleteKVv2IfExists_def
    by (intro emits_intros) (simp_all add: proper_call_def)
  have fin: "allows ?G ?P (RandomSecret_finalize hcl E cl)"
    unfolding RandomSecret_finalize_def ManageOutcome_def
    by (rule allows_bind [OF keeps_try [OF clean]], rule allows_emits) (intro emits_intros out upd; simp)
  have ref: "allows ?G ?P (RandomSecret_refresh hcl E cl)"
    unfolding RandomSecret_refresh_def ManageOutcome_def
    by (rule allows_bind [OF keeps_try [OF logic]], rule allows_emits) (intro emits_intros out sched)
  have "allows ?G ?P (RandomSecret_body hcl E cl)"
    unfolding RandomSecret_body_def
    by (intro allows_bind_get allows_if allows_bind [OF keeps_not_due] allows_ret fin ref) (simp add: proper_call_def)
  then show ?thesis by (rule allowsD [where w = w]) auto
qed

lemma request_proper:
  assumes "\<And>d. kube_get_instance E (calls w) ns n = Inr d \<Longrightarrow> login_path d \<noteq> p"
    and "proper_store hcl E p (store_of (calls w))"
  shows "proper_store hcl E p (store_of (calls (serve_request (RandomSecret_Reconcile hcl) E (ns, n) w)))"
proof (cases "kube_get_instance E (calls w) ns n")
  case (Inl e)
  then show ?thesis
    using assms(2) by (simp add: serve_request_def RandomSecret_Reconcile_def controller_without_object store_of_append)
next
  case (Inr d)
  let ?w = "fetched ns n d w"
  obtain cs where cs: "calls (snd (prepareContext E ?w)) = calls ?w @ cs" "list_all (only_at (login_path d)) cs"
      "inst (snd (prepareContext E ?w)) = d"
    using prepareContext_frame [of E ?w] by (auto simp: login_path_def)
  obtain x v where ctx: "prepareContext E ?w = (x, v)" by fastforce
  have "proper_call hcl E p c" if "only_at (login_path d) c" for c :: "RandomSecret call"
    using that assms(1) [OF Inr] by (cases c) (auto simp: only_at_def proper_call_def split: option.split)
  then have "list_all (proper_call hcl E p) (KubeGetInstance ns n # cs)"
    using cs(2) by (auto simp: list_all_iff proper_call_def)
  from proper_store_calls [OF this assms(2)]
  have v: "proper_store hcl E p (store_of (calls v))" "inst v = d" using cs by (simp_all add: ctx)
  show ?thesis
  proof (cases x)
    case (Ok cl)
    obtain ds where "calls (snd (RandomSecret_body hcl E cl v)) = calls v @ ds" "list_all (proper_call hcl E p) ds"
      using body_proper [of E "calls w" ns n v hcl cl p] Inr v(2) by auto
    then show ?thesis
      using proper_store_calls [OF _ v(1), of ds] Ok
      by (simp add: serve_request_def RandomSecret_Reconcile_def controller_run [OF Inr] ctx)
  qed (use v(1) in \<open>simp_all add: serve_request_def RandomSecret_Reconcile_def controller_run [OF Inr] ctx store.ManageOutcome_view\<close>)
qed

text \<open>
  C22. At every point of every sequence of requests to the controller, the entry at a path is absent or
  is the payload of an object that the API server gave for that path, under its key and in its
  wrapping, with a password that obeys the object's inline policy or that Vault generated for the
  policy it names: whatever Vault, the API server and the clock answer, whatever fails, and whatever
  the objects become in between, so long as no object logs in at that path.
\<close>

theorem entries_stay_compliant:
  assumes "\<And>tr ns n d. kube_get_instance E tr ns n = Inr d \<Longrightarrow> login_path d \<noteq> p"
    and "proper_store hcl E p (store_of (calls w))"
  shows "proper_store hcl E p (store_of (calls (fold (serve_request (RandomSecret_Reconcile hcl) E) rs w)))"
  using assms(2)
proof (induction rs arbitrary: w)
  case (Cons r rs)
  have "proper_store hcl E p (store_of (calls (serve_request (RandomSecret_Reconcile hcl) E r w)))"
    using request_proper [of E w "fst r" "snd r" p hcl, OF assms(1) Cons.prems] by simp
  then show ?case by (simp add: Cons.IH)
qed simp

lemma rotating_login: "login_path (sample_random_secret p t) = ''auth/kubernetes/login''"
  by (simp add: login_path_def GetKubeAuthPath_def GetKubeAuthConfiguration_def sample_random_secret_def sample_auth_def
      CleansePath_def Trim_def)

theorem entries_stay_compliant_witness:
  "proper_store tolerant_hcl rotating_env ''kv/db'' (store_of (calls (fold (serve_request (RandomSecret_Reconcile tolerant_hcl) rotating_env)
     [(''team'', ''db''), (''team'', ''db'')] (start_world (sample_random_secret None None)))))"
proof (rule entries_stay_compliant)
  show "login_path d \<noteq> ''kv/db''" if "kube_get_instance rotating_env tr ns n = Inr d" for tr ns n d
    using that by (auto simp: rotating_env_def rotating_login)
qed (simp add: proper_store_def store_of_def)

end
