(* ===== verification/HonestSuccess.thy ===== *)
theory HonestSuccess
  imports ControllerRuns
begin

text \<open>
  What a successful reconcile says about Vault. No assumption is made on Vault here: it may answer
  every call as it likes. A request of one of the 28 controllers whose cycle is \<open>VaultResource\<close>
  succeeds only if, during that very request, Vault showed an entry equivalent to the prepared
  object, or accepted its payload; for an object that is being deleted, only if Vault accepted the
  deletion or said that there is nothing. Every other outcome is an error or a panic, so that the
  queue brings the request back.
\<close>

section \<open>What Vault said\<close>

definition vault_has ::
  "(('s, 'x) object, 'z) VaultObject_scheme \<Rightarrow> ('s, 'x) object env \<Rightarrow> ('s, 'x) object \<Rightarrow>
     ('s, 'x) object call list \<Rightarrow> ('s, 'x) object call \<Rightarrow> bool" where
  "vault_has V E d tr c \<longleftrightarrow> (case c of
      VaultRead cl q \<Rightarrow> q = GetPath V d \<and> (\<exists>current. read_answer (vault_read E tr cl q) = Ok (current, True) \<and>
        IsEquivalentToDesiredState V d current)
    | VaultWrite cl q m \<Rightarrow> q = GetPath V d \<and> m = Some (GetPayload V d) \<and> (\<exists>s. vault_write E tr cl q m = Inr s)
    | _ \<Rightarrow> False)"

definition vault_lacks ::
  "(('s, 'x) object, 'z) VaultObject_scheme \<Rightarrow> ('s, 'x) object env \<Rightarrow> ('s, 'x) object \<Rightarrow>
     ('s, 'x) object call list \<Rightarrow> ('s, 'x) object call \<Rightarrow> bool" where
  "vault_lacks V E d tr c \<longleftrightarrow> (case c of
      VaultDelete cl q \<Rightarrow> q = GetPath V d \<and> (case vault_delete E tr cl q of Inl err \<Rightarrow> status_code err = Some 404 | Inr _ \<Rightarrow> True)
    | _ \<Rightarrow> False)"

text \<open>Something was said between two points of the history.\<close>

definition said :: "('o call list \<Rightarrow> 'o call \<Rightarrow> bool) \<Rightarrow> 'o world \<Rightarrow> 'o world \<Rightarrow> bool" where
  "said P w w' \<longleftrightarrow> (\<exists>cs c ds. calls w' = (calls w @ cs) @ c # ds \<and> P (calls w @ cs) c)"

lemma said_now: "calls w' = calls w @ [c] \<Longrightarrow> P (calls w) c \<Longrightarrow> said P w w'"
  unfolding said_def by (rule exI [of _ "[]"]) simp

lemma said_before: "said P w w' \<Longrightarrow> calls w'' = calls w' @ ds \<Longrightarrow> said P w w''"
  unfolding said_def by (metis append.assoc append_Cons)

lemma said_after:
  assumes "said P w' w''" and "calls w' = calls w @ bs"
  shows "said P w w''"
proof -
  obtain cs c ds where "calls w'' = (calls w' @ cs) @ c # ds" "P (calls w' @ cs) c" using assms(1) by (auto simp: said_def)
  then show ?thesis unfolding said_def using assms(2) by (intro exI [of _ "bs @ cs"] exI [of _ c] exI [of _ ds]) simp
qed

lemma failure_fails: "ManageOutcome vo E (Some e) w \<noteq> (Ok r, w')"
  using ManageOutcome_Err [of vo E e 0 w] unfolding ManageOutcome_def by (metis fst_conv)

lemma said_outcome:
  assumes "said P w w'"
  shows "said P w (snd (ManageOutcome vo E issue w'))"
  by (rule keepsE [OF emits_ManageOutcome [of issue vo E], where w = w']) (use said_before [OF assms] in auto)

section \<open>The endpoint\<close>

lemma CreateOrUpdate_said:
  assumes "CreateOrUpdate V E cl w = (Ok (), w')"
  shows "said (vault_has V E (inst w)) w w'"
proof -
  let ?p = "GetPath V (inst w)" and ?w = "w\<lparr>calls := calls w @ [VaultRead cl (GetPath V (inst w))]\<rparr>"
  obtain current found where read: "read_answer (vault_read E (calls w) cl ?p) = Ok (current, found)"
    using assms by (auto simp: CreateOrUpdate_run Let_def split: res.splits)
  show ?thesis
  proof (cases "found \<and> IsEquivalentToDesiredState V (inst w) current")
    case True
    then have "w' = ?w" using assms read by (simp add: CreateOrUpdate_run Let_def)
    then show ?thesis using read True by (intro said_now [of _ _ "VaultRead cl ?p"]) (simp_all add: vault_has_def)
  next
    case False
    let ?c = "VaultWrite cl ?p (Some (GetPayload V (inst w)))"
    have "writePayload E cl ?p (Some (GetPayload V (inst w))) ?w = (Ok (), w')"
      using assms read False by (simp add: CreateOrUpdate_run Let_def)
    then have "\<exists>s. vault_write E (calls ?w) cl ?p (Some (GetPayload V (inst w))) = Inr s" "calls w' = calls ?w @ [?c]"
      by (auto simp: writePayload_run split: sum.splits)
    then have "said (vault_has V E (inst w)) ?w w'" by (intro said_now [of _ _ ?c]) (simp_all add: vault_has_def)
    then show ?thesis by (rule said_after) simp
  qed
qed

lemma DeleteIfExists_said:
  assumes "DeleteIfExists V E cl w = (Ok (), w')"
  shows "said (vault_lacks V E (inst w)) w w'"
  using assms
  by (intro said_now [of _ _ "VaultDelete cl (GetPath V (inst w))"])
    (auto simp: DeleteIfExists_run delete_path_run vault_lacks_def split: sum.splits if_splits)

lemma deletions_said:
  assumes "delete_if_successful (DeleteIfExists V E cl) cs w = (Ok (), w')" and "list_ex successful cs"
  shows "said (vault_lacks V E (inst w)) w w'"
  using assms
proof (induction cs)
  case (Cons c cs)
  show ?case
  proof (cases "successful c")
    case False
    then show ?thesis using Cons by (simp add: successful_def [symmetric])
  next
    case True
    then obtain v where v: "DeleteIfExists V E cl w = (Ok (), v)" "delete_if_successful (DeleteIfExists V E cl) cs v = (Ok (), w')"
      using Cons.prems(1) by (auto simp: successful_def [symmetric] elim: bindG_cases)
    have "emits (\<lambda>_. True) (delete_if_successful (DeleteIfExists V E cl) cs)"
      unfolding DeleteIfExists_def by (intro keeps_delete_if_successful emits_intros) simp
    then obtain ds where "calls w' = calls v @ ds" by (rule keepsE [where w = v]) (use v(2) in auto)
    then show ?thesis using said_before [OF DeleteIfExists_said [OF v(1)]] by simp
  qed
qed simp

section \<open>The cycle and the controller\<close>

text \<open>
  An honest success: for a live object, Vault said it of the object as prepared at some point \<open>v\<close> of
  this request, after that point; for a deleted object, if it had been reconciled and still has its
  finalizer, Vault said it somewhere in the request.
\<close>

definition honest_outcome ::
  "(('s, 'x) object, 'z) VaultObject_scheme \<Rightarrow> ('s, 'x) object env \<Rightarrow> ('s, 'x) object \<Rightarrow>
     ('s, 'x) object world \<Rightarrow> ('s, 'x) object world \<Rightarrow> bool" where
  "honest_outcome V E d w w' \<longleftrightarrow>
     (if \<not> is_deleted d then \<exists>cl v bs d'. inst v = d \<and> calls v = calls w @ bs \<and> prepared V E cl v = Some d' \<and> said (vault_has V E d') v w'
      else if contains_finalizer E d (GetFinalizer d) \<and> IsDeletable V d \<and> list_ex successful (GetConditions d)
      then said (vault_lacks V E d) w w' else True)"

lemma cycle_honest:
  assumes "vault_object V" and "VaultResource_Reconcile V E cl w = (Ok r, w')"
  shows "honest_outcome V E (inst w) w w'"
proof (cases "is_deleted (inst w)")
  case False
  let ?p = "bindG (PrepareInternalValues V E cl) (\<lambda>_. PrepareTLSConfig V E cl)"
  have logic: "VaultResource_manageReconcileLogic V E cl = bindG ?p (\<lambda>_. CreateOrUpdate V E cl)"
    by (simp add: VaultResource_manageReconcileLogic_def bindG_assoc)
  obtain x v where run: "bindG ?p (\<lambda>_. CreateOrUpdate V E cl) w = (x, v)" by fastforce
  have "\<exists>y. x = Ok y \<and> w' = snd (ManageOutcome (Some V) E None v)"
    using assms(2) False
    by (cases x) (auto simp: VaultResource_Reconcile_def reconcile_cycle_def bindG_get bindG_def [of "tryG _"] tryG_run
        logic run failure_fails)
  then have w': "w' = snd (ManageOutcome (Some V) E None v)" and "bindG ?p (\<lambda>_. CreateOrUpdate V E cl) w = (Ok (), v)"
    using run by auto
  then obtain y v1 where p: "?p w = (Ok y, v1)" and cu: "CreateOrUpdate V E cl v1 = (Ok (), v)"
    by (auto elim: bindG_cases)
  have "keeps (\<lambda>d. object_view V d = object_view V (inst w)) is_query ?p"
    by (intro keeps_bind vault_object.prepare_view vault_object.prepare_tls_view assms(1))
  then obtain cs where "calls v1 = calls w @ cs" by (rule keepsE [where w = w]) (use p in auto)
  then have "said (vault_has V E (inst v1)) w w'"
    unfolding w' by (rule said_outcome [OF said_after [OF CreateOrUpdate_said [OF cu]]])
  moreover have "prepared V E cl w = Some (inst v1)" by (simp add: prepared_def p)
  ultimately show ?thesis using False unfolding honest_outcome_def
    by (metis append_Nil2)
next
  case True
  let ?clean = "manageCleanUpLogic V (DeleteIfExists V E cl)"
  have "said (vault_lacks V E (inst w)) w w'"
    if owed: "contains_finalizer E (inst w) (GetFinalizer (inst w))" "IsDeletable V (inst w)" "list_ex successful (GetConditions (inst w))"
  proof -
    let ?rest = "bindG (modifyG (\<lambda>instance. remove_finalizer E instance (GetFinalizer instance))) (\<lambda>_.
        bindG (tryG (Update E)) (\<lambda>r. case r of
          Inl err \<Rightarrow> ManageOutcome (Some V) E (Some err) | Inr _ \<Rightarrow> retG \<lparr>RequeueAfter = 0\<rparr>))"
    obtain x v where run: "?clean w = (x, v)" by fastforce
    have "\<exists>y. x = Ok y \<and> w' = snd (?rest v)"
      using assms(2) True owed(1)
      by (cases x) (auto simp: VaultResource_Reconcile_def reconcile_cycle_def bindG_get bindG_def [of "tryG ?clean"] tryG_run
          run failure_fails)
    then have w': "w' = snd (?rest v)" and "?clean w = (Ok (), v)" using run by auto
    then have "said (vault_lacks V E (inst w)) w v" using owed(2,3) deletions_said by (simp add: manageCleanUpLogic_run)
    moreover have "emits kube_bookkeeping ?rest"
      by (intro emits_intros emits_Update_bookkeeping emits_ManageOutcome_bookkeeping)
    then obtain ds where "calls w' = calls v @ ds" unfolding w' by (rule keepsE [where w = v]) auto
    ultimately show ?thesis by (rule said_before)
  qed
  then show ?thesis using True by (simp add: honest_outcome_def)
qed

definition honest_success ::
  "(('y BaseSpec_scheme, 'x) object, 'z) VaultObject_scheme \<Rightarrow>
     (('y BaseSpec_scheme, 'x) object env \<Rightarrow> string \<Rightarrow> string \<Rightarrow> (('y BaseSpec_scheme, 'x) object, Result) go) \<Rightarrow> bool" where
  "honest_success V R \<longleftrightarrow> (\<forall>E w ns n d r w'. kube_get_instance E (calls w) ns n = Inr d \<and> R E ns n w = (Ok r, w') \<longrightarrow>
     honest_outcome V E d w w')"

lemma honest_outcome_after: "honest_outcome V E d w' w'' \<Longrightarrow> calls w' = calls w @ bs \<Longrightarrow> honest_outcome V E d w w''"
  unfolding honest_outcome_def by (fastforce intro: said_after split: if_splits)

lemma honest_successI:
  fixes V :: "(('y BaseSpec_scheme, 'x) object, 'z) VaultObject_scheme"
  assumes "vault_object V" and "\<And>E ns n. R E ns n = controller_Reconcile V E (VaultResource_Reconcile V E) ns n"
  shows "honest_success V R"
  unfolding honest_success_def
proof (intro allI impI, elim conjE)
  fix E :: "('y BaseSpec_scheme, 'x) object env" and w ns n d r w'
  assume get: "kube_get_instance E (calls w) ns n = Inr d" and run: "R E ns n w = (Ok r, w')"
  obtain x v where ctx: "prepareContext E (fetched ns n d w) = (x, v)" by fastforce
  obtain cs where cs: "calls v = calls w @ KubeGetInstance ns n # cs" "inst v = d"
    using prepareContext_frame [of E "fetched ns n d w"] by (auto simp: ctx)
  obtain cl where "VaultResource_Reconcile V E cl v = (Ok r, w')"
    using run by (cases x) (auto simp: assms(2) controller_run [OF get] ctx failure_fails)
  from cycle_honest [OF assms(1) this] show "honest_outcome V E d w w'"
    using honest_outcome_after cs by blast
qed

text \<open>
  C4. Success is honest: whatever Vault, the API server, the cache and the logins answer, a request to
  any of 28 controllers for a live object that the API server gives reports success only after
  Vault itself, in this request, showed an entry equivalent to the object as prepared or accepted
  its payload at the object's path. For a deleted object that still has its finalizer, is deletable
  and had been reconciled successfully it reports success only after Vault accepted the deletion of
  that path or had nothing there. The other deleted objects are let go without asking Vault, so
  nothing is claimed of them.
\<close>

theorem success_is_honest:
  "honest_success AzureAuthEngineConfig_VaultObject AzureAuthEngineConfigReconciler_Reconcile \<and>
   honest_success GCPAuthEngineConfig_VaultObject GCPAuthEngineConfigReconciler_Reconcile \<and>
   honest_success JWTOIDCAuthEngineConfig_VaultObject JWTOIDCAuthEngineConfigReconciler_Reconcile \<and>
   honest_success LDAPAuthEngineConfig_VaultObject LDAPAuthEngineConfigReconciler_Reconcile \<and>
   honest_success KubernetesAuthEngineConfig_VaultObject KubernetesAuthEngineConfigReconciler_Reconcile \<and>
   honest_success JWTOIDCAuthEngineRole_VaultObject JWTOIDCAuthEngineRoleReconciler_Reconcile \<and>
   honest_success AzureAuthEngineRole_VaultObject AzureAuthEngineRoleReconciler_Reconcile \<and>
   honest_success GCPAuthEngineRole_VaultObject GCPAuthEngineRoleReconciler_Reconcile \<and>
   honest_success CertAuthEngineRole_VaultObject CertAuthEngineRoleReconciler_Reconcile \<and>
   honest_success CertAuthEngineConfig_VaultObject CertAuthEngineConfigReconciler_Reconcile \<and>
   honest_success LDAPAuthEngineGroup_VaultObject LDAPAuthEngineGroupReconciler_Reconcile \<and>
   honest_success Group_VaultObject GroupReconciler_Reconcile \<and>
   honest_success KubernetesAuthEngineRole_VaultObject KubernetesAuthEngineRoleReconciler_Reconcile \<and>
   honest_success Policy_VaultObject PolicyReconciler_Reconcile \<and>
   honest_success PasswordPolicy_VaultObject PasswordPolicyReconciler_Reconcile \<and>
   honest_success QuaySecretEngineConfig_VaultObject QuaySecretEngineConfigReconciler_Reconcile \<and>
   honest_success GitHubSecretEngineConfig_VaultObject GitHubSecretEngineConfigReconciler_Reconcile \<and>
   honest_success AzureSecretEngineConfig_VaultObject AzureSecretEngineConfigReconciler_Reconcile \<and>
   honest_success KubernetesSecretEngineConfig_VaultObject KubernetesSecretEngineConfigReconciler_Reconcile \<and>
   honest_success DatabaseSecretEngineRole_VaultObject DatabaseSecretEngineRoleReconciler_Reconcile \<and>
   honest_success DatabaseSecretEngineStaticRole_VaultObject DatabaseSecretEngineStaticRoleReconciler_Reconcile \<and>
   honest_success KubernetesSecretEngineRole_VaultObject KubernetesSecretEngineRoleReconciler_Reconcile \<and>
   honest_success PKISecretEngineRole_VaultObject PKISecretEngineRoleReconciler_Reconcile \<and>
   honest_success GitHubSecretEngineRole_VaultObject GitHubSecretEngineRoleReconciler_Reconcile \<and>
   honest_success AzureSecretEngineRole_VaultObject AzureSecretEngineRoleReconciler_Reconcile \<and>
   honest_success QuaySecretEngineRole_VaultObject QuaySecretEngineRoleReconciler_Reconcile \<and>
   honest_success QuaySecretEngineStaticRole_VaultObject QuaySecretEngineStaticRoleReconciler_Reconcile \<and>
   honest_success RabbitMQSecretEngineRole_VaultObject RabbitMQSecretEngineRoleReconciler_Reconcile"
  by (intro conjI
    honest_successI [OF i_AzureAuthEngineConfig.vault_object_axioms AzureAuthEngineConfigReconciler_Reconcile_def]
    honest_successI [OF i_GCPAuthEngineConfig.vault_object_axioms GCPAuthEngineConfigReconciler_Reconcile_def]
    honest_successI [OF i_JWTOIDCAuthEngineConfig.vault_object_axioms JWTOIDCAuthEngineConfigReconciler_Reconcile_def]
    honest_successI [OF i_LDAPAuthEngineConfig.vault_object_axioms LDAPAuthEngineConfigReconciler_Reconcile_def]
    honest_successI [OF i_KubernetesAuthEngineConfig.vault_object_axioms KubernetesAuthEngineConfigReconciler_Reconcile_def]
    honest_successI [OF i_JWTOIDCAuthEngineRole.vault_object_axioms JWTOIDCAuthEngineRoleReconciler_Reconcile_def]
    honest_successI [OF i_AzureAuthEngineRole.vault_object_axioms AzureAuthEngineRoleReconciler_Reconcile_def]
    honest_successI [OF i_GCPAuthEngineRole.vault_object_axioms GCPAuthEngineRoleReconciler_Reconcile_def]
    honest_successI [OF i_CertAuthEngineRole.vault_object_axioms CertAuthEngineRoleReconciler_Reconcile_def]
    honest_successI [OF i_CertAuthEngineConfig.vault_object_axioms CertAuthEngineConfigReconciler_Reconcile_def]
    honest_successI [OF i_LDAPAuthEngineGroup.vault_object_axioms LDAPAuthEngineGroupReconciler_Reconcile_def]
    honest_successI [OF i_Group.vault_object_axioms GroupReconciler_Reconcile_def]
    honest_successI [OF i_KubernetesAuthEngineRole.vault_object_axioms KubernetesAuthEngineRoleReconciler_Reconcile_def]
    honest_successI [OF policy.vault_object_axioms PolicyReconciler_Reconcile_def]
    honest_successI [OF password_policy.vault_object_axioms PasswordPolicyReconciler_Reconcile_def]
    honest_successI [OF i_QuaySecretEngineConfig.vault_object_axioms QuaySecretEngineConfigReconciler_Reconcile_def]
    honest_successI [OF i_GitHubSecretEngineConfig.vault_object_axioms GitHubSecretEngineConfigReconciler_Reconcile_def]
    honest_successI [OF i_AzureSecretEngineConfig.vault_object_axioms AzureSecretEngineConfigReconciler_Reconcile_def]
    honest_successI [OF i_KubernetesSecretEngineConfig.vault_object_axioms KubernetesSecretEngineConfigReconciler_Reconcile_def]
    honest_successI [OF i_DatabaseSecretEngineRole.vault_object_axioms DatabaseSecretEngineRoleReconciler_Reconcile_def]
    honest_successI [OF i_DatabaseSecretEngineStaticRole.vault_object_axioms DatabaseSecretEngineStaticRoleReconciler_Reconcile_def]
    honest_successI [OF i_KubernetesSecretEngineRole.vault_object_axioms KubernetesSecretEngineRoleReconciler_Reconcile_def]
    honest_successI [OF i_PKISecretEngineRole.vault_object_axioms PKISecretEngineRoleReconciler_Reconcile_def]
    honest_successI [OF i_GitHubSecretEngineRole.vault_object_axioms GitHubSecretEngineRoleReconciler_Reconcile_def]
    honest_successI [OF i_AzureSecretEngineRole.vault_object_axioms AzureSecretEngineRoleReconciler_Reconcile_def]
    honest_successI [OF i_QuaySecretEngineRole.vault_object_axioms QuaySecretEngineRoleReconciler_Reconcile_def]
    honest_successI [OF i_QuaySecretEngineStaticRole.vault_object_axioms QuaySecretEngineStaticRoleReconciler_Reconcile_def]
    honest_successI [OF rabbitmq_role.vault_object_axioms RabbitMQSecretEngineRoleReconciler_Reconcile_def])

end
