(* ===== verification/OwnPaths.thy ===== *)
theory OwnPaths
  imports HonestSuccess
begin

text \<open>
  Where a whole request changes Vault: at the path of the fetched object and, for the login, at the
  login path that the object names; the controller of the database configurations also at rotation
  paths. No assumption is made on Vault or the API server.
\<close>

section \<open>Requests\<close>

definition changes_own_path ::
  "(('y BaseSpec_scheme, 'x) object, 'z) VaultObject_scheme \<Rightarrow>
     (('y BaseSpec_scheme, 'x) object env \<Rightarrow> string \<Rightarrow> string \<Rightarrow> (('y BaseSpec_scheme, 'x) object, Result) go) \<Rightarrow>
     (('y BaseSpec_scheme, 'x) object env \<Rightarrow> ('y BaseSpec_scheme, 'x) object \<Rightarrow> string \<Rightarrow> bool) \<Rightarrow> bool" where
  "changes_own_path V R extra \<longleftrightarrow> (\<forall>E w ns n c q.
     c \<in> set (drop (length (calls w)) (calls (snd (R E ns n w)))) \<and> vault_mutation c = Some q \<longrightarrow>
     (\<exists>d. kube_get_instance E (calls w) ns n = Inr d \<and> (q = GetPath V d \<or> q = login_path d \<or> extra E d q)))"

definition no_extra :: "'o env \<Rightarrow> 'o \<Rightarrow> string \<Rightarrow> bool" where
  "no_extra E d q \<longleftrightarrow> False"

text \<open>
  The rotation path is read from the object in memory, which is the fetched one or the API server's
  answer to the update that ended the cycle.
\<close>

definition answered :: "'o env \<Rightarrow> 'o \<Rightarrow> bool" where
  "answered E d \<longleftrightarrow> (\<exists>tr x. kube_status_update E tr x = Inr d \<or> kube_update E tr x = Inr d)"

definition rotation_path :: "DatabaseSecretEngineConfig env \<Rightarrow> DatabaseSecretEngineConfig \<Rightarrow> string \<Rightarrow> bool" where
  "rotation_path E d q \<longleftrightarrow> (\<exists>d'. (d' = d \<or> answered E d') \<and> q = DatabaseSecretEngineConfig_GetRootPasswordRotationPath d')"

text \<open>The calls of the body of a controller, from the object that was fetched.\<close>

definition body_call :: "string \<Rightarrow> (string \<Rightarrow> bool) \<Rightarrow> 'o call \<Rightarrow> bool" where
  "body_call p extra c \<longleftrightarrow> (case vault_mutation c of None \<Rightarrow> True | Some q \<Rightarrow> q = p \<or> extra q)"

lemma changes_own_pathI:
  fixes V :: "(('y BaseSpec_scheme, 'x) object, 'z) VaultObject_scheme"
  assumes run: "\<And>E ns n. R E ns n = controller_Reconcile V E (body E) ns n"
    and body: "\<And>E cl w. \<exists>cs. calls (snd (body E cl w)) = calls w @ cs \<and> list_all (body_call (GetPath V (inst w)) (extra E (inst w))) cs"
  shows "changes_own_path V R extra"
  unfolding changes_own_path_def
proof (intro allI impI, elim conjE)
  fix E :: "('y BaseSpec_scheme, 'x) object env" and w ns n c q
  assume c: "c \<in> set (drop (length (calls w)) (calls (snd (R E ns n w))))" "vault_mutation c = Some q"
  show "\<exists>d. kube_get_instance E (calls w) ns n = Inr d \<and> (q = GetPath V d \<or> q = login_path d \<or> extra E d q)"
  proof (cases "kube_get_instance E (calls w) ns n")
    case (Inl e)
    then show ?thesis using c by (simp add: run controller_without_object)
  next
    case (Inr d)
    let ?w = "fetched ns n d w"
    obtain cs where cs: "calls (snd (prepareContext E ?w)) = calls ?w @ cs" "list_all (only_at (login_path d)) cs"
        "inst (snd (prepareContext E ?w)) = d"
      using prepareContext_frame [of E ?w] by (auto simp: login_path_def)
    obtain x v where ctx: "prepareContext E ?w = (x, v)" by fastforce
    have v: "calls v = calls w @ KubeGetInstance ns n # cs" "inst v = d" using cs by (simp_all add: ctx)
    let ?P = "body_call (GetPath V d) (extra E d)"
    have "\<exists>ds. calls (snd (R E ns n w)) = calls v @ ds \<and> list_all ?P ds"
    proof (cases x)
      case (Ok cl)
      then show ?thesis using body [where E = E and cl = cl and w = v] v(2) by (simp add: run controller_run [OF Inr] ctx)
    next
      case (Err e)
      have "emits ?P (ManageOutcome (Some V) E (Some e))"
        by (rule keeps_mono [OF emits_ManageOutcome]) (simp add: body_call_def outcome_call_no_mutation)
      then obtain ds where "calls (snd (ManageOutcome (Some V) E (Some e) v)) = calls v @ ds" "list_all ?P ds"
        by (rule keepsE [where w = v]) auto
      then show ?thesis using Err by (simp add: run controller_run [OF Inr] ctx)
    qed (simp add: run controller_run [OF Inr] ctx)
    then obtain ds where ds: "calls (snd (R E ns n w)) = calls w @ KubeGetInstance ns n # cs @ ds" "list_all ?P ds"
      using v(1) by auto
    then have "c \<in> set cs \<or> c \<in> set ds" using c by auto
    then have "q = login_path d \<or> q = GetPath V d \<or> extra E d q"
      using cs(2) ds(2) c(2) by (auto simp: list_all_iff only_at_def body_call_def)
    then show ?thesis using Inr by blast
  qed
qed

section \<open>The cycle\<close>

lemma cycle_body_calls:
  assumes "vault_object V"
  shows "\<exists>cs. calls (snd (VaultResource_Reconcile V E cl w)) = calls w @ cs \<and>
    list_all (body_call (GetPath V (inst w)) extra) cs"
proof -
  obtain v where v: "object_view V (inst w) = (GetPath V (inst w), v)" by (simp add: object_view_def)
  obtain cs where "calls (snd (VaultResource_Reconcile V E cl w)) = calls w @ cs"
      "list_all (own_call (GetPath V (inst w))) cs"
    using allowsD [OF vault_object.reconcile_frame [OF assms] v] by blast
  moreover from this(2) have "list_all (body_call (GetPath V (inst w)) extra) cs"
    by (rule list.pred_mono_strong) (auto simp: own_call_def body_call_def split: option.split)
  ultimately show ?thesis by blast
qed

lemma cycle_changes_own_path:
  fixes V :: "(('y BaseSpec_scheme, 'x) object, 'z) VaultObject_scheme"
  assumes "vault_object V" and "\<And>E ns n. R E ns n = controller_Reconcile V E (VaultResource_Reconcile V E) ns n"
  shows "changes_own_path V R no_extra"
  by (rule changes_own_pathI [where body = "VaultResource_Reconcile V", OF assms(2) cycle_body_calls [OF assms(1)]])

section \<open>The rotation\<close>

lemma answeredI:
  "kube_status_update E tr x = Inr d \<Longrightarrow> answered E d" "kube_update E tr x = Inr d \<Longrightarrow> answered E d"
  unfolding answered_def by blast+

lemma answered_update:
  assumes "Update E w = (Ok u, w')"
  shows "answered E (inst w')"
  using assms by (auto simp: Update_run split: sum.splits intro: answeredI)

lemma answered_status:
  assumes "StatusUpdate E w = (Ok u, w')"
  shows "answered E (inst w')"
  using assms by (auto simp: StatusUpdate_run split: sum.splits intro: answeredI)

lemma answered_success:
  assumes "ManageOutcome vo E None w = (Ok r, w')"
  shows "answered E (inst w')"
  using assms unfolding ManageOutcome_def ManageOutcomeWithRequeue_def
  by (auto simp: retG_def getG_def split: if_splits elim!: bindG_cases dest: answered_update answered_status)

lemma answered_release:
  assumes "bindG (tryG (Update E)) (\<lambda>r. case r of Inl err \<Rightarrow> ManageOutcome vo E (Some err) | Inr _ \<Rightarrow> retG t) w = (Ok r, w')"
  shows "answered E (inst w')"
proof -
  obtain x v where run: "Update E w = (x, v)" by fastforce
  show ?thesis
    using assms run by (cases x) (auto simp: bindG_def tryG_run failure_fails retG_def dest: answered_update)
qed

lemma answered_cycle:
  assumes "VaultResource_Reconcile V E cl w = (Ok r, w')"
  shows "inst w' = inst w \<or> answered E (inst w')"
proof (cases "is_deleted (inst w)")
  case True
  obtain x v where run: "manageCleanUpLogic V (DeleteIfExists V E cl) w = (x, v)" by fastforce
  show ?thesis
    using assms True
    by (cases x) (auto simp: VaultResource_Reconcile_def reconcile_cycle_def bindG_get bindG_def [of "tryG (manageCleanUpLogic V (DeleteIfExists V E cl))"] tryG_run run
        failure_fails bindG_modify go_runs split: if_splits dest!: answered_release)
next
  case False
  obtain x v where run: "VaultResource_manageReconcileLogic V E cl w = (x, v)" by fastforce
  show ?thesis
    using assms False
    by (cases x) (auto simp: VaultResource_Reconcile_def reconcile_cycle_def bindG_get bindG_def [of "tryG _"] tryG_run run
        failure_fails dest!: answered_success)
qed

lemma rotation_calls_own:
  "allows (\<lambda>d'. rotation_path E d (DatabaseSecretEngineConfig_GetRootPasswordRotationPath d')) (body_call p (rotation_path E d))
     (manage_rotation E cl)"
proof -
  let ?I = "\<lambda>d'. rotation_path E d (DatabaseSecretEngineConfig_GetRootPasswordRotationPath d')"
  let ?P = "body_call p (rotation_path E d)"
  have own: "?P c" if "vault_mutation c = None" for c :: "DatabaseSecretEngineConfig call"
    using that by (simp add: body_call_def)
  have out: "emits ?P (ManageOutcome vo E issue)" for vo issue
    by (rule keeps_mono [OF emits_ManageOutcome]) (simp add: own outcome_call_no_mutation)
  have status: "keeps ?I ?P (StatusUpdate E)"
    unfolding keeps_def
    by (auto simp: StatusUpdate_run own rotation_path_def answered_def split: sum.split)
  have ask: "keeps ?I ?P (DatabaseSecretEngineConfig_RotateRootPassword E cl)"
    unfolding DatabaseSecretEngineConfig_RotateRootPassword_def
    by (rule keeps_bind_get) (intro emits_intros; simp add: body_call_def)
  have rotated: "?I (set_rotated now d') = ?I d'" for now d'
    by (simp add: set_rotated_def DatabaseSecretEngineConfig_GetRootPasswordRotationPath_def GetName_def)
  have "keeps ?I ?P (rotateRootPassword E cl)"
    unfolding rotateRootPassword_def by (intro emits_intros ask status) (simp_all add: own rotated)
  then have rotate: "allows ?I ?P (rotate_then E cl requeue)" for requeue
    unfolding rotate_then_def by (rule allows_bind [OF keeps_try], intro allows_sum allows_ret allows_emits [OF out])
  show ?thesis
    unfolding manage_rotation_def
    by (intro allows_bind_get) (auto intro!: rotate allows_ret allows_bind [OF keeps_ask] allows_if simp: own split: option.split)
qed

lemma database_body_calls:
  "\<exists>cs. calls (snd (bindG (VaultResource_Reconcile DatabaseSecretEngineConfig_VaultObject E cl) (\<lambda>_. manage_rotation E cl) w)) =
     calls w @ cs \<and> list_all (body_call (GetPath DatabaseSecretEngineConfig_VaultObject (inst w)) (rotation_path E (inst w))) cs"
proof -
  let ?V = DatabaseSecretEngineConfig_VaultObject
  let ?P = "body_call (GetPath ?V (inst w)) (rotation_path E (inst w))"
  obtain cs where cs: "calls (snd (VaultResource_Reconcile ?V E cl w)) = calls w @ cs" "list_all ?P cs"
    using cycle_body_calls [OF database_config.vault_object_axioms] by blast
  obtain x v where run: "VaultResource_Reconcile ?V E cl w = (x, v)" by fastforce
  show ?thesis
  proof (cases x)
    case (Ok r)
    then have "rotation_path E (inst w) (DatabaseSecretEngineConfig_GetRootPasswordRotationPath (inst v))"
      using answered_cycle [of _ E cl w r v] run unfolding rotation_path_def by auto
    then obtain ds where "calls (snd (manage_rotation E cl v)) = calls v @ ds" "list_all ?P ds"
      using allowsD [OF rotation_calls_own, where w = v] by blast
    then show ?thesis using cs run Ok by (auto simp: bindG_def)
  qed (use cs run in \<open>auto simp: bindG_def\<close>)
qed

text \<open>
  C6. A request to the controller of a policy, a role, a group or an engine configuration writes and
  deletes in Vault only at the path that the spec and metadata of the fetched object give and at
  its login path, where the token is asked for, whatever Vault and the cluster answer and whatever
  credentials are retrieved on the way; without an object nothing is changed. The one exception is
  the controller of the database configurations, which may also write the path that rotates the root
  password, as the fetched object gives it or the object in the API server's answer to an update.
  The cycle alone never leaves the path of its object.
\<close>

theorem kinds_change_own_path:
  "changes_own_path DatabaseSecretEngineRole_VaultObject DatabaseSecretEngineRoleReconciler_Reconcile no_extra \<and>
   changes_own_path DatabaseSecretEngineStaticRole_VaultObject DatabaseSecretEngineStaticRoleReconciler_Reconcile no_extra \<and>
   changes_own_path KubernetesSecretEngineRole_VaultObject KubernetesSecretEngineRoleReconciler_Reconcile no_extra \<and>
   changes_own_path PKISecretEngineRole_VaultObject PKISecretEngineRoleReconciler_Reconcile no_extra \<and>
   changes_own_path GitHubSecretEngineRole_VaultObject GitHubSecretEngineRoleReconciler_Reconcile no_extra \<and>
   changes_own_path QuaySecretEngineRole_VaultObject QuaySecretEngineRoleReconciler_Reconcile no_extra \<and>
   changes_own_path QuaySecretEngineStaticRole_VaultObject QuaySecretEngineStaticRoleReconciler_Reconcile no_extra \<and>
   changes_own_path JWTOIDCAuthEngineRole_VaultObject JWTOIDCAuthEngineRoleReconciler_Reconcile no_extra \<and>
   changes_own_path AzureAuthEngineRole_VaultObject AzureAuthEngineRoleReconciler_Reconcile no_extra \<and>
   changes_own_path GCPAuthEngineRole_VaultObject GCPAuthEngineRoleReconciler_Reconcile no_extra \<and>
   changes_own_path CertAuthEngineRole_VaultObject CertAuthEngineRoleReconciler_Reconcile no_extra \<and>
   changes_own_path CertAuthEngineConfig_VaultObject CertAuthEngineConfigReconciler_Reconcile no_extra \<and>
   changes_own_path Group_VaultObject GroupReconciler_Reconcile no_extra \<and>
   changes_own_path KubernetesAuthEngineRole_VaultObject KubernetesAuthEngineRoleReconciler_Reconcile no_extra \<and>
   changes_own_path GitHubSecretEngineConfig_VaultObject GitHubSecretEngineConfigReconciler_Reconcile no_extra \<and>
   changes_own_path AzureAuthEngineConfig_VaultObject AzureAuthEngineConfigReconciler_Reconcile no_extra \<and>
   changes_own_path GCPAuthEngineConfig_VaultObject GCPAuthEngineConfigReconciler_Reconcile no_extra \<and>
   changes_own_path JWTOIDCAuthEngineConfig_VaultObject JWTOIDCAuthEngineConfigReconciler_Reconcile no_extra \<and>
   changes_own_path LDAPAuthEngineConfig_VaultObject LDAPAuthEngineConfigReconciler_Reconcile no_extra \<and>
   changes_own_path KubernetesAuthEngineConfig_VaultObject KubernetesAuthEngineConfigReconciler_Reconcile no_extra \<and>
   changes_own_path AzureSecretEngineRole_VaultObject AzureSecretEngineRoleReconciler_Reconcile no_extra \<and>
   changes_own_path LDAPAuthEngineGroup_VaultObject LDAPAuthEngineGroupReconciler_Reconcile no_extra \<and>
   changes_own_path RabbitMQSecretEngineRole_VaultObject RabbitMQSecretEngineRoleReconciler_Reconcile no_extra \<and>
   changes_own_path AzureSecretEngineConfig_VaultObject AzureSecretEngineConfigReconciler_Reconcile no_extra \<and>
   changes_own_path KubernetesSecretEngineConfig_VaultObject KubernetesSecretEngineConfigReconciler_Reconcile no_extra \<and>
   changes_own_path QuaySecretEngineConfig_VaultObject QuaySecretEngineConfigReconciler_Reconcile no_extra \<and>
   changes_own_path Policy_VaultObject PolicyReconciler_Reconcile no_extra \<and>
   changes_own_path PasswordPolicy_VaultObject PasswordPolicyReconciler_Reconcile no_extra \<and>
   changes_own_path DatabaseSecretEngineConfig_VaultObject DatabaseSecretEngineConfigReconciler_Reconcile rotation_path \<and>
   confined DatabaseSecretEngineRole_VaultObject \<and>
   confined DatabaseSecretEngineStaticRole_VaultObject \<and>
   confined KubernetesSecretEngineRole_VaultObject \<and>
   confined PKISecretEngineRole_VaultObject \<and>
   confined GitHubSecretEngineRole_VaultObject \<and>
   confined QuaySecretEngineRole_VaultObject \<and>
   confined QuaySecretEngineStaticRole_VaultObject \<and>
   confined JWTOIDCAuthEngineRole_VaultObject \<and>
   confined AzureAuthEngineRole_VaultObject \<and>
   confined GCPAuthEngineRole_VaultObject \<and>
   confined CertAuthEngineRole_VaultObject \<and>
   confined CertAuthEngineConfig_VaultObject \<and>
   confined Group_VaultObject \<and>
   confined KubernetesAuthEngineRole_VaultObject \<and>
   confined GitHubSecretEngineConfig_VaultObject \<and>
   confined AzureAuthEngineConfig_VaultObject \<and>
   confined GCPAuthEngineConfig_VaultObject \<and>
   confined JWTOIDCAuthEngineConfig_VaultObject \<and>
   confined LDAPAuthEngineConfig_VaultObject \<and>
   confined KubernetesAuthEngineConfig_VaultObject \<and>
   confined AzureSecretEngineRole_VaultObject \<and>
   confined LDAPAuthEngineGroup_VaultObject \<and>
   confined RabbitMQSecretEngineRole_VaultObject \<and>
   confined AzureSecretEngineConfig_VaultObject \<and>
   confined KubernetesSecretEngineConfig_VaultObject \<and>
   confined QuaySecretEngineConfig_VaultObject \<and>
   confined Policy_VaultObject \<and>
   confined PasswordPolicy_VaultObject \<and>
   confined DatabaseSecretEngineConfig_VaultObject"
  by (intro conjI
    cycle_changes_own_path [OF i_DatabaseSecretEngineRole.vault_object_axioms DatabaseSecretEngineRoleReconciler_Reconcile_def]
    cycle_changes_own_path [OF i_DatabaseSecretEngineStaticRole.vault_object_axioms DatabaseSecretEngineStaticRoleReconciler_Reconcile_def]
    cycle_changes_own_path [OF i_KubernetesSecretEngineRole.vault_object_axioms KubernetesSecretEngineRoleReconciler_Reconcile_def]
    cycle_changes_own_path [OF i_PKISecretEngineRole.vault_object_axioms PKISecretEngineRoleReconciler_Reconcile_def]
    cycle_changes_own_path [OF i_GitHubSecretEngineRole.vault_object_axioms GitHubSecretEngineRoleReconciler_Reconcile_def]
    cycle_changes_own_path [OF i_QuaySecretEngineRole.vault_object_axioms QuaySecretEngineRoleReconciler_Reconcile_def]
    cycle_changes_own_path [OF i_QuaySecretEngineStaticRole.vault_object_axioms QuaySecretEngineStaticRoleReconciler_Reconcile_def]
    cycle_changes_own_path [OF i_JWTOIDCAuthEngineRole.vault_object_axioms JWTOIDCAuthEngineRoleReconciler_Reconcile_def]
    cycle_changes_own_path [OF i_AzureAuthEngineRole.vault_object_axioms AzureAuthEngineRoleReconciler_Reconcile_def]
    cycle_changes_own_path [OF i_GCPAuthEngineRole.vault_object_axioms GCPAuthEngineRoleReconciler_Reconcile_def]
    cycle_changes_own_path [OF i_CertAuthEngineRole.vault_object_axioms CertAuthEngineRoleReconciler_Reconcile_def]
    cycle_changes_own_path [OF i_CertAuthEngineConfig.vault_object_axioms CertAuthEngineConfigReconciler_Reconcile_def]
    cycle_changes_own_path [OF i_Group.vault_object_axioms GroupReconciler_Reconcile_def]
    cycle_changes_own_path [OF i_KubernetesAuthEngineRole.vault_object_axioms KubernetesAuthEngineRoleReconciler_Reconcile_def]
    cycle_changes_own_path [OF i_GitHubSecretEngineConfig.vault_object_axioms GitHubSecretEngineConfigReconciler_Reconcile_def]
    cycle_changes_own_path [OF i_AzureAuthEngineConfig.vault_object_axioms AzureAuthEngineConfigReconciler_Reconcile_def]
    cycle_changes_own_path [OF i_GCPAuthEngineConfig.vault_object_axioms GCPAuthEngineConfigReconciler_Reconcile_def]
    cycle_changes_own_path [OF i_JWTOIDCAuthEngineConfig.vault_object_axioms JWTOIDCAuthEngineConfigReconciler_Reconcile_def]
    cycle_changes_own_path [OF i_LDAPAuthEngineConfig.vault_object_axioms LDAPAuthEngineConfigReconciler_Reconcile_def]
    cycle_changes_own_path [OF i_KubernetesAuthEngineConfig.vault_object_axioms KubernetesAuthEngineConfigReconciler_Reconcile_def]
    cycle_changes_own_path [OF i_AzureSecretEngineRole.vault_object_axioms AzureSecretEngineRoleReconciler_Reconcile_def]
    cycle_changes_own_path [OF i_LDAPAuthEngineGroup.vault_object_axioms LDAPAuthEngineGroupReconciler_Reconcile_def]
    cycle_changes_own_path [OF rabbitmq_role.vault_object_axioms RabbitMQSecretEngineRoleReconciler_Reconcile_def]
    cycle_changes_own_path [OF i_AzureSecretEngineConfig.vault_object_axioms AzureSecretEngineConfigReconciler_Reconcile_def]
    cycle_changes_own_path [OF i_KubernetesSecretEngineConfig.vault_object_axioms KubernetesSecretEngineConfigReconciler_Reconcile_def]
    cycle_changes_own_path [OF i_QuaySecretEngineConfig.vault_object_axioms QuaySecretEngineConfigReconciler_Reconcile_def]
    cycle_changes_own_path [OF policy.vault_object_axioms PolicyReconciler_Reconcile_def]
    cycle_changes_own_path [OF password_policy.vault_object_axioms PasswordPolicyReconciler_Reconcile_def]
    changes_own_pathI [OF DatabaseSecretEngineConfigReconciler_Reconcile_def database_body_calls]
    confined_DatabaseSecretEngineRole confined_DatabaseSecretEngineStaticRole confined_KubernetesSecretEngineRole confined_PKISecretEngineRole confined_GitHubSecretEngineRole confined_QuaySecretEngineRole confined_QuaySecretEngineStaticRole confined_JWTOIDCAuthEngineRole confined_AzureAuthEngineRole confined_GCPAuthEngineRole confined_CertAuthEngineRole confined_CertAuthEngineConfig confined_Group confined_KubernetesAuthEngineRole confined_GitHubSecretEngineConfig confined_AzureAuthEngineConfig confined_GCPAuthEngineConfig confined_JWTOIDCAuthEngineConfig confined_LDAPAuthEngineConfig confined_KubernetesAuthEngineConfig confined_AzureSecretEngineRole confined_LDAPAuthEngineGroup confined_RabbitMQSecretEngineRole confined_AzureSecretEngineConfig confined_KubernetesSecretEngineConfig confined_QuaySecretEngineConfig confined_Policy confined_PasswordPolicy confined_DatabaseSecretEngineConfig)

end
