(* ===== verification/Registration.thy ===== *)
theory Registration
  imports Manager
begin

text \<open>
  What the program sets up around the reconcilers: the registration of the types with the scheme
  (\<open>groupversion_info.go\<close> and the \<open>init\<close> functions of \<open>api/v1alpha1/*_types.go\<close>), the decoder of
  manifests that the integration tests use (\<open>controllers/controllertestutils/decoder.go\<close>), and the
  base of the reconcilers with the package's synchronisation period
  (\<open>controllers/vaultresourcecontroller/utils.go\<close>).
\<close>

section \<open>The scheme\<close>

record GroupVersionKind =
  Group :: string
  Version :: string
  Kind :: string

definition GroupVersion :: "string \<times> string" where
  "GroupVersion = (''redhatcop.redhat.io'', ''v1alpha1'')"

text \<open>The types that each \<open>init\<close> registers, in the order in which Go runs the files of a package.\<close>

definition AuthEngineMount_init :: "string list" where
  "AuthEngineMount_init = [''AuthEngineMount'', ''AuthEngineMountList'']"

definition AzureAuthEngineConfig_init :: "string list" where
  "AzureAuthEngineConfig_init = [''AzureAuthEngineConfig'', ''AzureAuthEngineConfigList'']"

definition AzureAuthEngineRole_init :: "string list" where
  "AzureAuthEngineRole_init = [''AzureAuthEngineRole'', ''AzureAuthEngineRoleList'']"

definition AzureSecretEngineConfig_init :: "string list" where
  "AzureSecretEngineConfig_init = [''AzureSecretEngineConfig'', ''AzureSecretEngineConfigList'']"

definition AzureSecretEngineRole_init :: "string list" where
  "AzureSecretEngineRole_init = [''AzureSecretEngineRole'', ''AzureSecretEngineRoleList'']"

definition CertAuthEngineConfig_init :: "string list" where
  "CertAuthEngineConfig_init = [''CertAuthEngineConfig'', ''CertAuthEngineConfigList'']"

definition CertAuthEngineRole_init :: "string list" where
  "CertAuthEngineRole_init = [''CertAuthEngineRole'', ''CertAuthEngineRoleList'']"

definition DatabaseSecretEngineConfig_init :: "string list" where
  "DatabaseSecretEngineConfig_init = [''DatabaseSecretEngineConfig'', ''DatabaseSecretEngineConfigList'']"

definition DatabaseSecretEngineRole_init :: "string list" where
  "DatabaseSecretEngineRole_init = [''DatabaseSecretEngineRole'', ''DatabaseSecretEngineRoleList'']"

definition DatabaseSecretEngineStaticRole_init :: "string list" where
  "DatabaseSecretEngineStaticRole_init = [''DatabaseSecretEngineStaticRole'', ''DatabaseSecretEngineStaticRoleList'']"

definition GCPAuthEngineConfig_init :: "string list" where
  "GCPAuthEngineConfig_init = [''GCPAuthEngineConfig'', ''GCPAuthEngineConfigList'']"

definition GCPAuthEngineRole_init :: "string list" where
  "GCPAuthEngineRole_init = [''GCPAuthEngineRole'', ''GCPAuthEngineRoleList'']"

definition GitHubSecretEngineConfig_init :: "string list" where
  "GitHubSecretEngineConfig_init = [''GitHubSecretEngineConfig'', ''GitHubSecretEngineConfigList'']"

definition GitHubSecretEngineRole_init :: "string list" where
  "GitHubSecretEngineRole_init = [''GitHubSecretEngineRole'', ''GitHubSecretEngineRoleList'']"

definition Group_init :: "string list" where
  "Group_init = [''Group'', ''GroupList'']"

definition GroupAlias_init :: "string list" where
  "GroupAlias_init = [''GroupAlias'', ''GroupAliasList'']"

definition JWTOIDCAuthEngineConfig_init :: "string list" where
  "JWTOIDCAuthEngineConfig_init = [''JWTOIDCAuthEngineConfig'', ''JWTOIDCAuthEngineConfigList'']"

definition JWTOIDCAuthEngineRole_init :: "string list" where
  "JWTOIDCAuthEngineRole_init = [''JWTOIDCAuthEngineRole'', ''JWTOIDCAuthEngineRoleList'']"

definition KubernetesAuthEngineConfig_init :: "string list" where
  "KubernetesAuthEngineConfig_init = [''KubernetesAuthEngineConfig'', ''KubernetesAuthEngineConfigList'']"

definition KubernetesAuthEngineRole_init :: "string list" where
  "KubernetesAuthEngineRole_init = [''KubernetesAuthEngineRole'', ''KubernetesAuthEngineRoleList'']"

definition KubernetesSecretEngineConfig_init :: "string list" where
  "KubernetesSecretEngineConfig_init = [''KubernetesSecretEngineConfig'', ''KubernetesSecretEngineConfigList'']"

definition KubernetesSecretEngineRole_init :: "string list" where
  "KubernetesSecretEngineRole_init = [''KubernetesSecretEngineRole'', ''KubernetesSecretEngineRoleList'']"

definition LDAPAuthEngineConfig_init :: "string list" where
  "LDAPAuthEngineConfig_init = [''LDAPAuthEngineConfig'', ''LDAPAuthEngineConfigList'']"

definition LDAPAuthEngineGroup_init :: "string list" where
  "LDAPAuthEngineGroup_init = [''LDAPAuthEngineGroup'', ''LDAPAuthEngineGroupList'']"

definition PasswordPolicy_init :: "string list" where
  "PasswordPolicy_init = [''PasswordPolicy'', ''PasswordPolicyList'']"

definition PKISecretEngineConfig_init :: "string list" where
  "PKISecretEngineConfig_init = [''PKISecretEngineConfig'', ''PKISecretEngineConfigList'']"

definition PKISecretEngineRole_init :: "string list" where
  "PKISecretEngineRole_init = [''PKISecretEngineRole'', ''PKISecretEngineRoleList'']"

definition Policy_init :: "string list" where
  "Policy_init = [''Policy'', ''PolicyList'']"

definition QuaySecretEngineConfig_init :: "string list" where
  "QuaySecretEngineConfig_init = [''QuaySecretEngineConfig'', ''QuaySecretEngineConfigList'']"

definition QuaySecretEngineRole_init :: "string list" where
  "QuaySecretEngineRole_init = [''QuaySecretEngineRole'', ''QuaySecretEngineRoleList'']"

definition QuaySecretEngineStaticRole_init :: "string list" where
  "QuaySecretEngineStaticRole_init = [''QuaySecretEngineStaticRole'', ''QuaySecretEngineStaticRoleList'']"

definition RabbitMQSecretEngineConfig_init :: "string list" where
  "RabbitMQSecretEngineConfig_init = [''RabbitMQSecretEngineConfig'', ''RabbitMQSecretEngineConfigList'']"

definition RabbitMQSecretEngineRole_init :: "string list" where
  "RabbitMQSecretEngineRole_init = [''RabbitMQSecretEngineRole'', ''RabbitMQSecretEngineRoleList'']"

definition RandomSecret_init :: "string list" where
  "RandomSecret_init = [''RandomSecret'', ''RandomSecretList'']"

definition SecretEngineMount_init :: "string list" where
  "SecretEngineMount_init = [''SecretEngineMount'', ''SecretEngineMountList'']"

definition VaultSecret_init :: "string list" where
  "VaultSecret_init = [''VaultSecret'', ''VaultSecretList'']"

definition SchemeBuilder :: "string list" where
  "SchemeBuilder = concat
    [AuthEngineMount_init, AzureAuthEngineConfig_init, AzureAuthEngineRole_init,
     AzureSecretEngineConfig_init, AzureSecretEngineRole_init, CertAuthEngineConfig_init,
     CertAuthEngineRole_init, DatabaseSecretEngineConfig_init, DatabaseSecretEngineRole_init,
     DatabaseSecretEngineStaticRole_init, GCPAuthEngineConfig_init, GCPAuthEngineRole_init,
     GitHubSecretEngineConfig_init, GitHubSecretEngineRole_init, Group_init, GroupAlias_init,
     JWTOIDCAuthEngineConfig_init, JWTOIDCAuthEngineRole_init, KubernetesAuthEngineConfig_init,
     KubernetesAuthEngineRole_init, KubernetesSecretEngineConfig_init,
     KubernetesSecretEngineRole_init, LDAPAuthEngineConfig_init, LDAPAuthEngineGroup_init,
     PasswordPolicy_init, PKISecretEngineConfig_init, PKISecretEngineRole_init, Policy_init,
     QuaySecretEngineConfig_init, QuaySecretEngineRole_init, QuaySecretEngineStaticRole_init,
     RabbitMQSecretEngineConfig_init, RabbitMQSecretEngineRole_init, RandomSecret_init,
     SecretEngineMount_init, VaultSecret_init]"

text \<open>
  A scheme is the set of kinds that it knows, each with a Go type. The library adds a type under
  its name in the group and version of the builder, beside some types of its own, \<open>lib\<close>.
\<close>

type_synonym scheme = "(GroupVersionKind \<times> string) set"

definition AddToScheme :: "scheme \<Rightarrow> scheme \<Rightarrow> scheme" where
  "AddToScheme lib s = s \<union> lib \<union>
     (\<lambda>t. (\<lparr>Group = fst GroupVersion, Version = snd GroupVersion, Kind = t\<rparr>, t)) ` set SchemeBuilder"

section \<open>The decoder\<close>

text \<open>
  The file system and the codec of the scheme are parameters. A decoded object has a dynamic Go
  type and the kind that the manifest named; the type assertion of the code panics on another
  dynamic type.
\<close>

record 'v decoded =
  obj_type :: string
  obj_value :: 'v
  groupKindVersion :: GroupVersionKind

type_synonym file_reader = "string \<Rightarrow> error + string"
type_synonym 'v runtime_decoder = "string \<Rightarrow> error + 'v decoded"
type_synonym 'v instance_reader = "file_reader \<Rightarrow> 'v runtime_decoder \<Rightarrow> string \<Rightarrow> 'v res"

definition errDecode :: error where
  "errDecode = ErrMsg ''failed to decode''"

definition decodeFile :: "file_reader \<Rightarrow> 'v runtime_decoder \<Rightarrow> string \<Rightarrow> error + 'v decoded" where
  "decodeFile ReadFile Decode filename =
     (case ReadFile filename of Inl err \<Rightarrow> Inl err | Inr stream \<Rightarrow> Decode stream)"

definition assert_type :: "string \<Rightarrow> 'v decoded \<Rightarrow> 'v res" where
  "assert_type t obj = (if obj_type obj = t then Ok (obj_value obj) else Panic ''interface conversion'')"

definition GetPasswordPolicyInstance :: "'v instance_reader" where
  "GetPasswordPolicyInstance ReadFile Decode filename =
     (case decodeFile ReadFile Decode filename of
        Inl err \<Rightarrow> Err err
      | Inr obj \<Rightarrow> if Kind (groupKindVersion obj) = ''PasswordPolicy'' then assert_type ''PasswordPolicy'' obj else Err errDecode)"

definition GetVaultSecretInstance :: "'v instance_reader" where
  "GetVaultSecretInstance ReadFile Decode filename =
     (case decodeFile ReadFile Decode filename of
        Inl err \<Rightarrow> Err err
      | Inr obj \<Rightarrow> if Kind (groupKindVersion obj) = ''VaultSecret'' then assert_type ''VaultSecret'' obj else Err errDecode)"

definition GetPolicyInstance :: "'v instance_reader" where
  "GetPolicyInstance ReadFile Decode filename =
     (case decodeFile ReadFile Decode filename of
        Inl err \<Rightarrow> Err err
      | Inr obj \<Rightarrow> if Kind (groupKindVersion obj) = ''Policy'' then assert_type ''Policy'' obj else Err errDecode)"

definition GetKubernetesAuthEngineRoleInstance :: "'v instance_reader" where
  "GetKubernetesAuthEngineRoleInstance ReadFile Decode filename =
     (case decodeFile ReadFile Decode filename of
        Inl err \<Rightarrow> Err err
      | Inr obj \<Rightarrow> if Kind (groupKindVersion obj) = ''KubernetesAuthEngineRole'' then assert_type ''KubernetesAuthEngineRole'' obj else Err errDecode)"

definition GetSecretEngineMountInstance :: "'v instance_reader" where
  "GetSecretEngineMountInstance ReadFile Decode filename =
     (case decodeFile ReadFile Decode filename of
        Inl err \<Rightarrow> Err err
      | Inr obj \<Rightarrow> if Kind (groupKindVersion obj) = ''SecretEngineMount'' then assert_type ''SecretEngineMount'' obj else Err errDecode)"

definition GetRandomSecretInstance :: "'v instance_reader" where
  "GetRandomSecretInstance ReadFile Decode filename =
     (case decodeFile ReadFile Decode filename of
        Inl err \<Rightarrow> Err err
      | Inr obj \<Rightarrow> if Kind (groupKindVersion obj) = ''RandomSecret'' then assert_type ''RandomSecret'' obj else Err errDecode)"

definition GetPKISecretEngineConfigInstance :: "'v instance_reader" where
  "GetPKISecretEngineConfigInstance ReadFile Decode filename =
     (case decodeFile ReadFile Decode filename of
        Inl err \<Rightarrow> Err err
      | Inr obj \<Rightarrow> if Kind (groupKindVersion obj) = ''PKISecretEngineConfig'' then assert_type ''PKISecretEngineConfig'' obj else Err errDecode)"

definition GetPKISecretEngineRoleInstance :: "'v instance_reader" where
  "GetPKISecretEngineRoleInstance ReadFile Decode filename =
     (case decodeFile ReadFile Decode filename of
        Inl err \<Rightarrow> Err err
      | Inr obj \<Rightarrow> if Kind (groupKindVersion obj) = ''PKISecretEngineRole'' then assert_type ''PKISecretEngineRole'' obj else Err errDecode)"

definition GetDatabaseSecretEngineConfigInstance :: "'v instance_reader" where
  "GetDatabaseSecretEngineConfigInstance ReadFile Decode filename =
     (case decodeFile ReadFile Decode filename of
        Inl err \<Rightarrow> Err err
      | Inr obj \<Rightarrow> if Kind (groupKindVersion obj) = ''DatabaseSecretEngineConfig'' then assert_type ''DatabaseSecretEngineConfig'' obj else Err errDecode)"

definition GetDatabaseSecretEngineStaticRoleInstance :: "'v instance_reader" where
  "GetDatabaseSecretEngineStaticRoleInstance ReadFile Decode filename =
     (case decodeFile ReadFile Decode filename of
        Inl err \<Rightarrow> Err err
      | Inr obj \<Rightarrow> if Kind (groupKindVersion obj) = ''DatabaseSecretEngineStaticRole'' then assert_type ''DatabaseSecretEngineStaticRole'' obj else Err errDecode)"

section \<open>Every kind is registered\<close>

lemmas init_defs =
  AuthEngineMount_init_def AzureAuthEngineConfig_init_def AzureAuthEngineRole_init_def
  AzureSecretEngineConfig_init_def AzureSecretEngineRole_init_def CertAuthEngineConfig_init_def
  CertAuthEngineRole_init_def DatabaseSecretEngineConfig_init_def DatabaseSecretEngineRole_init_def
  DatabaseSecretEngineStaticRole_init_def GCPAuthEngineConfig_init_def GCPAuthEngineRole_init_def
  GitHubSecretEngineConfig_init_def GitHubSecretEngineRole_init_def Group_init_def
  GroupAlias_init_def JWTOIDCAuthEngineConfig_init_def JWTOIDCAuthEngineRole_init_def
  KubernetesAuthEngineConfig_init_def KubernetesAuthEngineRole_init_def
  KubernetesSecretEngineConfig_init_def KubernetesSecretEngineRole_init_def
  LDAPAuthEngineConfig_init_def LDAPAuthEngineGroup_init_def PasswordPolicy_init_def
  PKISecretEngineConfig_init_def PKISecretEngineRole_init_def Policy_init_def
  QuaySecretEngineConfig_init_def QuaySecretEngineRole_init_def QuaySecretEngineStaticRole_init_def
  RabbitMQSecretEngineConfig_init_def RabbitMQSecretEngineRole_init_def RandomSecret_init_def
  SecretEngineMount_init_def VaultSecret_init_def

text \<open>
  The scheme and the manager agree: the kinds for which \<open>main\<close> starts a controller are those that
  are registered, each with the type of its lists and none twice.
\<close>

lemma kinds_and_lists:
  "B = concat (map (\<lambda>k. [k, k @ ''List'']) ks) \<Longrightarrow> set ks = C \<Longrightarrow> set B = C \<union> (\<lambda>k. k @ ''List'') ` C"
  by (induction ks arbitrary: B C) auto

lemma registered_kinds:
  "distinct SchemeBuilder" "set SchemeBuilder = set controllers \<union> (\<lambda>k. k @ ''List'') ` set controllers"
proof -
  show "distinct SchemeBuilder" unfolding SchemeBuilder_def init_defs by (simp only: concat.simps append.simps) code_simp
  have "SchemeBuilder = concat (map (\<lambda>k. [k, k @ ''List'']) [''AuthEngineMount'', ''AzureAuthEngineConfig'', ''AzureAuthEngineRole'',
        ''AzureSecretEngineConfig'', ''AzureSecretEngineRole'', ''CertAuthEngineConfig'',
        ''CertAuthEngineRole'', ''DatabaseSecretEngineConfig'', ''DatabaseSecretEngineRole'',
        ''DatabaseSecretEngineStaticRole'', ''GCPAuthEngineConfig'', ''GCPAuthEngineRole'',
        ''GitHubSecretEngineConfig'', ''GitHubSecretEngineRole'', ''Group'', ''GroupAlias'',
        ''JWTOIDCAuthEngineConfig'', ''JWTOIDCAuthEngineRole'', ''KubernetesAuthEngineConfig'',
        ''KubernetesAuthEngineRole'', ''KubernetesSecretEngineConfig'',
        ''KubernetesSecretEngineRole'', ''LDAPAuthEngineConfig'', ''LDAPAuthEngineGroup'',
        ''PasswordPolicy'', ''PKISecretEngineConfig'', ''PKISecretEngineRole'', ''Policy'',
        ''QuaySecretEngineConfig'', ''QuaySecretEngineRole'', ''QuaySecretEngineStaticRole'',
        ''RabbitMQSecretEngineConfig'', ''RabbitMQSecretEngineRole'', ''RandomSecret'',
        ''SecretEngineMount'', ''VaultSecret''])"
    unfolding SchemeBuilder_def init_defs by simp
  moreover have "set [''AuthEngineMount'', ''AzureAuthEngineConfig'', ''AzureAuthEngineRole'',
        ''AzureSecretEngineConfig'', ''AzureSecretEngineRole'', ''CertAuthEngineConfig'',
        ''CertAuthEngineRole'', ''DatabaseSecretEngineConfig'', ''DatabaseSecretEngineRole'',
        ''DatabaseSecretEngineStaticRole'', ''GCPAuthEngineConfig'', ''GCPAuthEngineRole'',
        ''GitHubSecretEngineConfig'', ''GitHubSecretEngineRole'', ''Group'', ''GroupAlias'',
        ''JWTOIDCAuthEngineConfig'', ''JWTOIDCAuthEngineRole'', ''KubernetesAuthEngineConfig'',
        ''KubernetesAuthEngineRole'', ''KubernetesSecretEngineConfig'',
        ''KubernetesSecretEngineRole'', ''LDAPAuthEngineConfig'', ''LDAPAuthEngineGroup'',
        ''PasswordPolicy'', ''PKISecretEngineConfig'', ''PKISecretEngineRole'', ''Policy'',
        ''QuaySecretEngineConfig'', ''QuaySecretEngineRole'', ''QuaySecretEngineStaticRole'',
        ''RabbitMQSecretEngineConfig'', ''RabbitMQSecretEngineRole'', ''RandomSecret'',
        ''SecretEngineMount'', ''VaultSecret''] = set controllers" by (simp add: controllers_def insert_commute)
  ultimately show "set SchemeBuilder = set controllers \<union> (\<lambda>k. k @ ''List'') ` set controllers"
    by (rule kinds_and_lists)
qed

text \<open>
  A codec for a scheme gives objects of the type registered for the kind of the manifest. The
  types that the library adds are not of this API.
\<close>

definition decodes :: "scheme \<Rightarrow> 'v runtime_decoder \<Rightarrow> bool" where
  "decodes s Decode \<longleftrightarrow> (\<forall>text obj. Decode text = Inr obj \<longrightarrow> (groupKindVersion obj, obj_type obj) \<in> s)"

definition foreign_types :: "scheme \<Rightarrow> bool" where
  "foreign_types lib \<longleftrightarrow> (\<forall>(gvk, t) \<in> lib. Kind gvk \<notin> set controllers)"

lemma assert_registered:
  assumes "decodes (AddToScheme lib {}) Decode" and "foreign_types lib" and "k \<in> set controllers"
    and "decodeFile ReadFile Decode filename = Inr obj" and "Kind (groupKindVersion obj) = k"
  shows "assert_type k obj = Ok (obj_value obj)"
proof -
  have "(groupKindVersion obj, obj_type obj) \<in> AddToScheme lib {}"
    using assms(1,4) by (auto simp: decodes_def decodeFile_def split: sum.splits)
  moreover have "(groupKindVersion obj, obj_type obj) \<notin> lib" using assms(2,3,5) by (auto simp: foreign_types_def)
  ultimately have "obj_type obj = k" using assms(5) by (auto simp: AddToScheme_def)
  then show ?thesis by (simp add: assert_type_def)
qed

text \<open>
  A function of the decoder reads a kind: it gives the object when the manifest is of the kind,
  passes on the error when it cannot be read, and reports \<open>errDecode\<close> otherwise.
\<close>

definition reads_kind ::
  "string \<Rightarrow> 'v instance_reader \<Rightarrow> scheme \<Rightarrow> bool" where
  "reads_kind k get lib \<longleftrightarrow> (\<forall>ReadFile Decode filename. decodes (AddToScheme lib {}) Decode \<longrightarrow>
     get ReadFile Decode filename = (case decodeFile ReadFile Decode filename of
        Inl err \<Rightarrow> Err err
      | Inr obj \<Rightarrow> if Kind (groupKindVersion obj) = k then Ok (obj_value obj) else Err errDecode))"

lemma reads_kindI:
  assumes "foreign_types lib" and "k \<in> set controllers"
    and "\<And>ReadFile Decode filename. get ReadFile Decode filename = (case decodeFile ReadFile Decode filename of
        Inl err \<Rightarrow> Err err
      | Inr obj \<Rightarrow> if Kind (groupKindVersion obj) = k then assert_type k obj else Err errDecode)"
  shows "reads_kind k get lib"
  using assert_registered [OF _ assms(1,2)] unfolding reads_kind_def assms(3)
  by (auto split: sum.split)

text \<open>The ten functions of the decoder read their kinds, and their type assertions never panic.\<close>

theorem decoder_reads_kinds:
  assumes "foreign_types lib"
  shows "reads_kind ''PasswordPolicy'' (GetPasswordPolicyInstance :: 'v instance_reader) lib \<and>
    reads_kind ''VaultSecret'' (GetVaultSecretInstance :: 'v instance_reader) lib \<and>
    reads_kind ''Policy'' (GetPolicyInstance :: 'v instance_reader) lib \<and>
    reads_kind ''KubernetesAuthEngineRole'' (GetKubernetesAuthEngineRoleInstance :: 'v instance_reader) lib \<and>
    reads_kind ''SecretEngineMount'' (GetSecretEngineMountInstance :: 'v instance_reader) lib \<and>
    reads_kind ''RandomSecret'' (GetRandomSecretInstance :: 'v instance_reader) lib \<and>
    reads_kind ''PKISecretEngineConfig'' (GetPKISecretEngineConfigInstance :: 'v instance_reader) lib \<and>
    reads_kind ''PKISecretEngineRole'' (GetPKISecretEngineRoleInstance :: 'v instance_reader) lib \<and>
    reads_kind ''DatabaseSecretEngineConfig'' (GetDatabaseSecretEngineConfigInstance :: 'v instance_reader) lib \<and>
    reads_kind ''DatabaseSecretEngineStaticRole'' (GetDatabaseSecretEngineStaticRoleInstance :: 'v instance_reader) lib"
  by (intro conjI reads_kindI [OF assms]; simp add: controllers_def
    GetPasswordPolicyInstance_def GetVaultSecretInstance_def GetPolicyInstance_def GetKubernetesAuthEngineRoleInstance_def GetSecretEngineMountInstance_def GetRandomSecretInstance_def GetPKISecretEngineConfigInstance_def GetPKISecretEngineRoleInstance_def GetDatabaseSecretEngineConfigInstance_def GetDatabaseSecretEngineStaticRoleInstance_def)

definition manifest :: "string \<Rightarrow> unit decoded" where
  "manifest k = \<lparr>obj_type = k, obj_value = (), groupKindVersion = \<lparr>Group = fst GroupVersion, Version = snd GroupVersion, Kind = k\<rparr>\<rparr>"

definition sample_codec :: "unit runtime_decoder" where
  "sample_codec text = (if text \<in> set controllers then Inr (manifest text) else Inl (ErrMsg ''no kind is registered''))"

theorem decoder_reads_kinds_witness:
  "GetPolicyInstance Inr sample_codec ''Policy'' = Ok () \<and> GetPolicyInstance Inr sample_codec ''Group'' = Err errDecode"
proof -
  have "decodes (AddToScheme {} {}) sample_codec"
    by (auto simp: decodes_def sample_codec_def AddToScheme_def manifest_def registered_kinds split: if_splits)
  moreover have "reads_kind ''Policy'' (GetPolicyInstance :: unit instance_reader) {}"
    using decoder_reads_kinds [where 'v = unit and lib = "{}"] by (simp add: foreign_types_def)
  ultimately show ?thesis
    by (simp add: reads_kind_def decodeFile_def sample_codec_def manifest_def controllers_def)
qed

section \<open>The base of the reconcilers\<close>

text \<open>What the manager provides, of library types.\<close>

record ('reader, 'client, 'scheme, 'config, 'recorder, 'log) manager =
  GetAPIReader :: 'reader
  mgr_GetClient :: 'client
  mgr_GetScheme :: 'scheme
  GetConfig :: 'config
  GetEventRecorderFor :: "string \<Rightarrow> 'recorder"
  GetLogger :: "string list \<Rightarrow> 'log"

record ('reader, 'client, 'scheme, 'config, 'recorder, 'log) ReconcilerBase =
  apireader :: 'reader
  base_client :: 'client
  base_scheme :: 'scheme
  restConfig :: 'config
  recorder :: 'recorder
  base_Log :: 'log
  ControllerName :: string

definition GetClient :: "('a, 'b, 'c, 'd, 'e, 'f) ReconcilerBase \<Rightarrow> 'b" where
  "GetClient r = base_client r"

definition GetRestConfig :: "('a, 'b, 'c, 'd, 'e, 'f) ReconcilerBase \<Rightarrow> 'd" where
  "GetRestConfig r = restConfig r"

definition GetRecorder :: "('a, 'b, 'c, 'd, 'e, 'f) ReconcilerBase \<Rightarrow> 'e" where
  "GetRecorder r = recorder r"

definition GetScheme :: "('a, 'b, 'c, 'd, 'e, 'f) ReconcilerBase \<Rightarrow> 'c" where
  "GetScheme r = base_scheme r"

definition GetDiscoveryClient :: "('d \<Rightarrow> error + 'g) \<Rightarrow> ('a, 'b, 'c, 'd, 'e, 'f) ReconcilerBase \<Rightarrow> error + 'g" where
  "GetDiscoveryClient NewDiscoveryClientForConfig r = NewDiscoveryClientForConfig (GetRestConfig r)"

definition NewReconcilerBase ::
  "'b \<Rightarrow> 'c \<Rightarrow> 'd \<Rightarrow> 'e \<Rightarrow> 'a \<Rightarrow> 'f \<Rightarrow> string \<Rightarrow> ('a, 'b, 'c, 'd, 'e, 'f) ReconcilerBase" where
  "NewReconcilerBase client scheme config rec reader logger controllerName =
     \<lparr>apireader = reader, base_client = client, base_scheme = scheme, restConfig = config,
      recorder = rec, base_Log = logger, ControllerName = controllerName\<rparr>"

definition NewFromManager ::
  "('a, 'b, 'c, 'd, 'e, 'f) manager \<Rightarrow> string \<Rightarrow> ('a, 'b, 'c, 'd, 'e, 'f) ReconcilerBase" where
  "NewFromManager mgr controllerName =
     NewReconcilerBase (mgr_GetClient mgr) (mgr_GetScheme mgr) (GetConfig mgr) (GetEventRecorderFor mgr controllerName)
       (GetAPIReader mgr) (GetLogger mgr [''controllers'', controllerName]) controllerName"

text \<open>Every part of the manager arrives at its place, whatever the types.\<close>

lemma NewFromManager_parts:
  "GetClient (NewFromManager mgr n) = mgr_GetClient mgr" "GetScheme (NewFromManager mgr n) = mgr_GetScheme mgr"
  "GetRestConfig (NewFromManager mgr n) = GetConfig mgr" "GetRecorder (NewFromManager mgr n) = GetEventRecorderFor mgr n"
  "apireader (NewFromManager mgr n) = GetAPIReader mgr" "ControllerName (NewFromManager mgr n) = n"
  by (simp_all add: NewFromManager_def NewReconcilerBase_def GetClient_def GetScheme_def GetRestConfig_def GetRecorder_def)

section \<open>The synchronisation period\<close>

text \<open>
  The period is a variable of the package, with a default. A controller reads it when it is set
  up: its predicate keeps the value of that moment.
\<close>

definition set_period :: "int \<Rightarrow> 'o setting \<Rightarrow> 'o setting" where
  "set_period period S = S\<lparr>SyncPeriod := period\<rparr>"

definition NewPeriodicReconcilePredicateWithSyncPeriod :: "int \<Rightarrow> PeriodicReconcilePredicate" where
  "NewPeriodicReconcilePredicateWithSyncPeriod syncPeriod = NewPeriodicReconcilePredicate syncPeriod"

fun set_up_with :: "int \<Rightarrow> 'a main_step list \<Rightarrow> (string \<times> PeriodicReconcilePredicate) list" where
  "set_up_with period [] = []"
| "set_up_with period (SetSyncPeriod p # ss) = set_up_with p ss"
| "set_up_with period (SetupController k # ss) = (k, NewPeriodicReconcilePredicateWithSyncPeriod period) # set_up_with period ss"
| "set_up_with period (s # ss) = set_up_with period ss"

lemma set_up_with_webhooks: "set_up_with p (webhook_setups @ ss) = set_up_with p ss"
  by (simp add: webhook_setups_def)

lemma set_up_with_controllers:
  "set_up_with p (map SetupController ks @ ss) = map (\<lambda>k. (k, NewPeriodicReconcilePredicateWithSyncPeriod p)) ks @ set_up_with p ss"
  by (induction ks) simp_all

text \<open>
  Once the manager runs, each of the thirty-six controllers filters with the period that the
  environment configured: the period was set before the first of them was set up.
\<close>

theorem controllers_use_configured_period:
  assumes "StartManager \<in> set (fst (main lib args lookupEnv ok))" and "sync_period lookupEnv = Some period"
  shows "set_up_with DefaultSyncPeriod (fst (main lib args lookupEnv ok)) =
    map (\<lambda>k. (k, NewPeriodicReconcilePredicateWithSyncPeriod period)) controllers"
proof -
  obtain fl where "fst (main lib args lookupEnv ok) = main_steps lookupEnv fl period"
    using manager_starts_complete [OF assms(1)] assms(2) by auto
  then show ?thesis
    by (simp add: main_steps_def set_up_with_controllers set_up_with_webhooks)
qed

theorem controllers_use_configured_period_witness:
  "set_up_with DefaultSyncPeriod (fst (main (\<lambda>_. None) [''--leader-elect''] (\<lambda>_. None) all_succeed)) =
     map (\<lambda>k. (k, NewPeriodicReconcilePredicateWithSyncPeriod DefaultSyncPeriod)) controllers"
  by (rule controllers_use_configured_period) (simp_all add: manager_starts_complete_witness [THEN conjunct1] sync_period_def DefaultSyncPeriod_def)

end
