(* ===== verification/Spec2Isabelle.thy ===== *)
theory Spec2Isabelle
  imports PasswordSearch PKI ResourceWitnesses Manager MountTable PasswordFlow
    ControllerRuns Templates DeepCopySecret SecretRequests HonestSuccess OwnPaths Registration
begin

text \<open>
  A model of vault-config-operator: a Kubernetes operator that keeps the configuration of a
  HashiCorp Vault server (policies, engines, roles, groups, secrets) as custom resources.

  \<^bold>\<open>The program.\<close> A user stores a custom resource; the admission webhooks
  (\<open>api/v1alpha1/*_webhook.go\<close>) accept or refuse it. An event that passes the filters of its
  controller (\<open>SetupWithManager\<close>) becomes a request; \<open>Reconcile\<close> of the controller
  (\<open>controllers/*_controller.go\<close>) fetches the object, logs in to Vault with a service account
  token (\<open>api/v1alpha1/utils/commons.go\<close>, with a cache of clients), and runs one of the cycles
  of \<open>controllers/vaultresourcecontroller\<close>. A cycle talks to Vault through the endpoints of
  \<open>api/v1alpha1/utils/vaultobject.go\<close>, \<open>vaultengineobject.go\<close> and \<open>vaultpkiobject.go\<close>, which
  read from the resource its path, its payload and its comparison with Vault's answer
  (\<open>api/v1alpha1/*_types.go\<close>), and ends in \<open>ManageOutcome\<close>, which records conditions and the
  finalizer. \<open>RandomSecret\<close> and \<open>VaultSecret\<close> have reconcile logic of their own: one generates
  passwords and writes them to Vault, the other renders Kubernetes secrets from Vault secrets.

  \<^bold>\<open>How it is modelled.\<close> A Go function is a function of the state monad of \<open>World\<close>: a state is
  the object in memory, the calls made so far and the cached clients; a result is a value, an
  error or a panic. What the outside answers is the record \<open>env\<close>, one function per service,
  each given the calls made before, so that a theorem for every \<open>env\<close> holds for every
  behaviour of Vault, the API server, the clock, the random source and the libraries. Structs
  are records, pointers options, \<open>map[string]interface{}\<close> finite maps into \<open>gval\<close>, whose
  constructors are the Go types that occur, errors a datatype. A method \<open>M\<close> of a type \<open>T\<close> is
  \<open>T_M\<close>; the interface \<open>VaultObject\<close> is a record of methods, one instance per resource.

  \<^bold>\<open>The theories.\<close>
  \<^item> \<open>Prelude\<close>, \<open>GoStrings\<close>, \<open>ApiTypes\<close>, \<open>World\<close>: the error type and the monad with its
    rules for call traces (\<open>keeps\<close>, \<open>emits\<close>, \<open>allows\<close>), the string functions of Go and
    \<open>CleansePath\<close>, the shared data of the API, the environment.
  \<^item> \<open>VaultUtils\<close>, \<open>Endpoints\<close>: reads and writes (\<open>vaultutils.go\<close>) and the endpoint operations.
  \<^item> \<open>Outcome\<close>, \<open>Reconcilers\<close>, \<open>Lifecycle\<close>: \<open>ManageOutcome\<close> and its conditions, the reconcile
    cycles, the locales \<open>vault_object\<close> and its extensions (what a resource promises the
    cycle), and the life of an object: clean-up, finalizers, comparison.
  \<^item> \<open>Auth\<close>, \<open>Controllers\<close>: login, cache and watcher; the prologue of the controllers, event
    predicates, objects of the cluster.
  \<^item> \<open>Policies\<close>, \<open>RandomSecrets\<close>, \<open>PasswordSearch\<close>: policies, password policies and the
    generator of passwords with its search.
  \<^item> \<open>Sha256\<close>, \<open>SecretHash\<close>, \<open>Float64\<close>, \<open>VaultSecrets\<close>: the hash of secret data, the
    arithmetic of refresh times, and the VaultSecret controller.
  \<^item> \<open>Engines\<close>, \<open>Mounts\<close>, \<open>PKI\<close>: engine mounts and the PKI engine.
  \<^item> \<open>Credentials\<close>, \<open>Database\<close>, \<open>Json\<close>, \<open>RabbitMQ\<close>, \<open>SecretConfigs\<close>, \<open>AuthConfigs\<close>: root
    credentials and the configurations of the engines, rotation of the database password,
    JSON text of RabbitMQ permissions.
  \<^item> \<open>SecretRoles\<close>, \<open>AuthRoles\<close>, \<open>GroupAlias\<close>: roles, groups and aliases.
  \<^item> \<open>SecretWatch\<close>, \<open>Wiring\<close>: filters, searches and the wiring of every controller.
  \<^item> \<open>Webhooks\<close>, \<open>Admission\<close>: the webhooks and what they give the rest.
  \<^item> \<open>Manager\<close>, \<open>Registration\<close>: the start of the operator in \<open>main.go\<close>, from the flags to the
    running manager; the types that the \<open>init\<close> functions register with the scheme, the decoder
    of manifests that the tests use (\<open>controllertestutils/decoder.go\<close>), and \<open>ReconcilerBase\<close>.
  \<^item> \<open>PlainObjects\<close>, \<open>Resources\<close>: interfaces common to the resources and the properties kind by
    kind.
  \<^item> \<open>Refinement\<close>, \<open>Convergence\<close>, \<open>MountTable\<close>: the abstract store, schedules of reconciles of
    many resources on it, and the abstract table of mounts.
  \<^item> \<open>PasswordFlow\<close>, \<open>ClientCache\<close>, \<open>ControllerRuns\<close>: a generated password on its way to the
    configurations that name it; the cache of clients over a sequence of requests; a request to
    a controller from the fetched object through cache, login and cycle to Vault, and sequences
    of requests.
  \<^item> \<open>HonestSuccess\<close>, \<open>OwnPaths\<close>, \<open>RotationQueue\<close>, \<open>SecretRequests\<close>: what a successful request says of
    a Vault about which nothing is assumed; where whole requests change Vault; one random secret between its controller, the event filter
    and a work queue, with restarts; sequences of requests to the random secrets of a store.
  \<^item> \<open>Templates\<close>: the functions of the VaultSecret templates (\<open>advanced-funcmap.go\<close>), \<open>lookup\<close> and
    the dynamic clients (\<open>dynamicclientutils.go\<close>).
  \<^item> \<open>DeepCopy\<close>, \<open>DeepCopyCore\<close>, \<open>DeepCopyAuth\<close>, \<open>DeepCopySecret\<close>: Go values with the addresses of
    their pointers, slices and maps, and the generated copy functions of all 202 types
    (\<open>zz_generated.deepcopy.go\<close>, twice).
  \<^item> \<open>Samples\<close>, \<open>ResourceWitnesses\<close>: concrete environments and inputs.

  \<^bold>\<open>What the lemmas show.\<close>
  \<^item> Frames: a reconcile changes Vault only at the paths of its resource (\<open>Reconcilers\<close>, \<open>PKI\<close>,
    \<open>Mounts\<close>), a whole request also at its login path, and that of a database configuration at
    the path that rotates the root password (\<open>OwnPaths\<close>); the retrieval of credentials makes
    exactly the calls that the reference asks for (\<open>Credentials\<close>, \<open>Resources\<close>); with the webhooks, over the whole life of an object where its path is fixed
    (\<open>admitted_edits_keep_path\<close>), and not where its name can be edited.
  \<^item> Refinement: on a key-value server a run of the cycle is one operation of an abstract
    store, \<open>sync\<close> (\<open>Refinement\<close>), and so is a whole request to any of 28 controllers, with the
    demand that the preparation of the object finds (\<open>ControllerRuns\<close>); for the engine mounts,
    one of a table of mounts, \<open>sync_mount\<close> (\<open>MountTable\<close>). Both are views of Vault in the sense
    of the locale \<open>vault_view\<close>.
  \<^item> Success: with no assumption on Vault, those 28 controllers report success for a live object
    only after Vault itself said, in the same request, that it has what the object asks for, and
    for a deleted one that owes a deletion only after Vault said that it has nothing (\<open>HonestSuccess\<close>).
  \<^item> Convergence: on a key-value server whose calls do not fail and with one resource per path
    every schedule of reconciles of 17 kinds ends in the same store, which has what each resource asks for; two resources on one path undo each
    other (\<open>Convergence\<close>). The locale \<open>path_local\<close> carries the argument for the store and for the
    mounts. For whole controllers, on such a server but with logins that may fail and an API
    server that changes its answers, one successful turn of an object lasts (\<open>ControllerRuns\<close>).
  \<^item> Deletion: what was reconciled is deleted before the finalizer goes, a failed deletion
    keeps it, and what was never reconciled is left alone (\<open>Lifecycle\<close>).
  \<^item> Settling: which kinds write once and which write at every reconcile, because a Go value is
    compared with decoded JSON (\<open>Resources\<close>).
  \<^item> Passwords: the generated one obeys its policy, existing ones are kept where they can be read,
    rotated root passwords are not overwritten, the schedule of rotations (\<open>RandomSecrets\<close>, \<open>Database\<close>); what a
    RandomSecret wrote is what eight kinds of configuration read (\<open>PasswordFlow\<close>). The entries
    of random secrets are, over any sequence of requests, payloads of their objects with a
    password of the inline policy or from Vault's own generator (\<open>SecretRequests\<close>); a new secret always has its next request pending, until a restart before its time ends its
    rotation (\<open>RotationQueue\<close>).
  \<^item> Clients: whatever was cached before, as long as no name contains the separator of the keys, a request is served with a client of its own login
    data, but possibly of another connection (\<open>ClientCache\<close>).
  \<^item> Secrets: the hash tells data apart, a secret just written is in sync, refresh times lie
    within the lease for thresholds up to 100 percent and not beyond (\<open>SecretHash\<close>, \<open>VaultSecrets\<close>).
  \<^item> Events: which updates wake which controller for which resources (\<open>SecretWatch\<close>, \<open>Wiring\<close>).
  \<^item> Admission: stored objects are valid; one RabbitMQ configuration per mount where the API server
    asks the handler, which the repository's manifests do not register (\<open>Admission\<close>);
    what the webhook of the mounts lets through the controller can apply (\<open>MountTable\<close>).
  \<^item> Copies: a deep copy has the content of its original and no address in common with it
    (\<open>DeepCopySecret\<close>), so that the rest of the model may treat objects as values.
  \<^item> Registration: the scheme of the operator has exactly the kinds of its controllers, the
    decoder reads ten of them and refuses the others, and every controller filters updates with
    the configured period (\<open>Registration\<close>).

  Where the code does not do what its comments or documents say, the property states what it
  does: the payloads that never settle, the inverted filters on secrets, the lease of RabbitMQ,
  names that can be edited, creations that are not validated.

  \<^bold>\<open>Bounds and fuel.\<close> The loops of the code are structural recursion or bounded by the code:
  the search for a password makes at most 10000 attempts, and \<open>PasswordSearch\<close> bounds the calls
  of any number of attempts, so no fuel is needed anywhere. \<open>int\<close> stands for Go's \<open>int64\<close> times
  and durations, with saturation where \<open>time.Sub\<close> saturates and wrap-around on 64-bit words
  where the start multiplies seconds; \<open>Float64\<close> gives the products
  with percentages their double-precision rounding; SHA-256 works on 32-bit words.

  \<^bold>\<open>Parameters.\<close> The Vault client library, controller-runtime and the API server, the HCL
  decoder of password policies, the template engine with the functions of Sprig and the encoders
  and decoders it calls, discovery, label selectors, the certificate library of the transport,
  the copy functions of other packages' types, the order of iteration over maps, decoding of
  admission requests, the codec of manifests, the flags of the libraries, the work queue, what Vault
  makes of the configuration of an engine that is mounted or tuned, and the file system are parameters; hypotheses
  on them are documented behaviour and hold in \<open>Samples\<close> and in the samples of each theory.

  \<^bold>\<open>Not modelled.\<close> Logging, the indices of the cache, and markers for CRD schemas have no effect
  that the model could observe. The work queue of controller-runtime belongs to that library:
  \<open>RotationQueue\<close> takes it as a parameter (when a request that is asked for comes back, what a
  start of the process brings) and \<open>Convergence\<close> puts reconciles one after the other in any order;
  reconciles that overlap are seen only as calls the environment answers in any way it likes. The
  tests themselves and their set-up of a cluster are programs about the operator, not parts of it.

  \<^bold>\<open>Limits of the abstract store.\<close> The refinement to \<open>sync\<close> is stated for the kinds whose request
  is one read and one write of the path of the resource. PKI, GroupAlias, the rotation of the
  database password and the lease of RabbitMQ call operations of Vault whose effect on other
  paths is Vault's own (it makes certificates, identifiers and passwords), so that a store of
  entries would have to be invented for them; what their controllers do is stated over the calls
  instead (\<open>PKI\<close>, \<open>GroupAlias\<close>, \<open>Database\<close>, \<open>RabbitMQ\<close>). Likewise mounting an engine creates and
  removes the paths below it in Vault, so schedules that mix mounts with plain kinds are not given.
\<close>

end
